(* ===== verification/Axtp_Prelude.thy ===== *)
theory Axtp_Prelude
  imports Main "HOL-Library.Word" "HOL-Library.Finite_Map"
begin

text \<open>
  Shared vocabulary of the development: the machine types of the runtime (\<^verbatim>\<open>std::uint8_t\<close> to
  \<^verbatim>\<open>std::uint64_t\<close> as words, \<^verbatim>\<open>Bytes\<close> as lists of bytes), the named theorem collections, the
  generic lemmas on lists and words that several components use, and the two interfaces that
  recur through the wire layer: \<open>codec\<close> (an encoder with a decoder that inverts it) and
  \<open>incremental_decoder\<close> (a decoder of a byte stream that may be fed in arbitrary chunks).
\<close>

unbundle bit_operations_syntax

section \<open>Machine types\<close>

type_synonym byte = "8 word"
type_synonym bytes = "byte list"
type_synonym u8 = "8 word"
type_synonym u16 = "16 word"
type_synonym u32 = "32 word"
type_synonym u64 = "64 word"

named_theorems wire_simps \<open>byte-level reader and writer equations\<close>
named_theorems invar_intros \<open>invariant preservation lemmas\<close>

section \<open>Splitting words into big-endian bytes\<close>

lemma bit_word8_ge [simp]: "8 \<le> n \<Longrightarrow> \<not> bit (w :: 8 word) n"
  using bit_imp_le_length [of w n] by auto

lemma bit_word16_ge [simp]: "16 \<le> n \<Longrightarrow> \<not> bit (w :: 16 word) n"
  using bit_imp_le_length [of w n] by auto

lemma bit_word32_ge [simp]: "32 \<le> n \<Longrightarrow> \<not> bit (w :: 32 word) n"
  using bit_imp_le_length [of w n] by auto

lemma bit_word64_ge [simp]: "64 \<le> n \<Longrightarrow> \<not> bit (w :: 64 word) n"
  using bit_imp_le_length [of w n] by auto

lemma mask8_eq: "(0xFF :: 'a::len word) = mask 8"
  by (simp add: mask_eq_exp_minus_1)

lemma ucast_and_255 [wire_simps]: "ucast (w AND 0xFF) = (ucast (w :: 'a::len word) :: byte)"
  unfolding mask8_eq by (rule bit_word_eqI) (auto simp: bit_simps dest: bit_imp_le_length)

text \<open>
  The byte of a word at bit position \<open>s\<close>, moved back to position \<open>s\<close>, contributes exactly the
  bits \<open>s\<close> to \<open>s + 7\<close>; the slices of a word at all positions add up to the word.
\<close>

lemma bit_byte_slice:
  "bit (push_bit s (ucast (ucast (drop_bit s v) :: byte)) :: 'a::len word) n \<longleftrightarrow>
     s \<le> n \<and> n < s + 8 \<and> bit (v :: 'a word) n"
  by (auto simp: bit_simps dest: bit_imp_le_length)

lemma bit_byte_slice0:
  "bit (ucast (ucast v :: byte) :: 'a::len word) n \<longleftrightarrow> n < 8 \<and> bit (v :: 'a word) n"
  using bit_byte_slice [of 0 v n] by simp

lemma join_u16:
  "push_bit 8 (ucast (ucast (drop_bit 8 v) :: byte)) OR ucast (ucast v :: byte) = (v :: u16)"
  by (rule bit_word_eqI) (simp only: bit_or_iff bit_byte_slice bit_byte_slice0, auto)

lemma join_u32:
  "((push_bit 24 (ucast (ucast (drop_bit 24 v) :: byte)) OR
     push_bit 16 (ucast (ucast (drop_bit 16 v) :: byte))) OR
    push_bit 8 (ucast (ucast (drop_bit 8 v) :: byte))) OR
    ucast (ucast v :: byte) = (v :: u32)"
  by (rule bit_word_eqI) (simp only: bit_or_iff bit_byte_slice bit_byte_slice0, auto)

lemma join_u64:
  "((((((push_bit 56 (ucast (ucast (drop_bit 56 v) :: byte)) OR
     push_bit 48 (ucast (ucast (drop_bit 48 v) :: byte))) OR
     push_bit 40 (ucast (ucast (drop_bit 40 v) :: byte))) OR
     push_bit 32 (ucast (ucast (drop_bit 32 v) :: byte))) OR
     push_bit 24 (ucast (ucast (drop_bit 24 v) :: byte))) OR
     push_bit 16 (ucast (ucast (drop_bit 16 v) :: byte))) OR
     push_bit 8 (ucast (ucast (drop_bit 8 v) :: byte))) OR
     ucast (ucast v :: byte) = (v :: u64)"
  by (rule bit_word_eqI) (simp only: bit_or_iff bit_byte_slice bit_byte_slice0, auto)

text \<open>A two-byte value read back byte by byte.\<close>

lemma split_u16_hi: "ucast (drop_bit 8 (push_bit 8 (ucast (a :: byte)) OR ucast (b :: byte)) :: u16) = a"
  by (rule bit_word_eqI) (auto simp: bit_simps)

lemma split_u16_lo: "ucast (push_bit 8 (ucast (a :: byte)) OR ucast (b :: byte) :: u16) = b"
  by (rule bit_word_eqI) (auto simp: bit_simps)

lemma word_xor_left_cancel [simp]: "(a :: 'a::len word) XOR b = a XOR c \<longleftrightarrow> b = c"
  by (auto simp: bit_eq_iff bit_xor_iff)

lemma word_xor_right_cancel [simp]: "(b :: 'a::len word) XOR a = c XOR a \<longleftrightarrow> b = c"
  by (auto simp: bit_eq_iff bit_xor_iff)

lemma word_xor_eq_0 [simp]: "(a :: 'a::len word) XOR b = 0 \<longleftrightarrow> a = b"
  by (auto simp: bit_eq_iff bit_xor_iff)

section \<open>Generic list and option lemmas\<close>

lemma take_append_exact [simp]: "length xs = n \<Longrightarrow> take n (xs @ ys) = xs"
  by simp

lemma drop_append_exact [simp]: "length xs = n \<Longrightarrow> drop n (xs @ ys) = ys"
  by simp

section \<open>The codec interface\<close>

text \<open>
  A codec is an encoder together with a partial decoder that inverts it on the encoder's valid
  inputs. Every wire format of the runtime is one; injectivity (two different values never share
  their bytes) and composition follow once and for all.
\<close>

locale codec =
  fixes enc :: "'a \<Rightarrow> 'b"
    and dec :: "'b \<Rightarrow> 'a option"
    and valid :: "'a \<Rightarrow> bool"
  assumes dec_enc: "valid x \<Longrightarrow> dec (enc x) = Some x"
begin

lemma enc_inject: "valid x \<Longrightarrow> valid y \<Longrightarrow> enc x = enc y \<longleftrightarrow> x = y"
  using dec_enc by (metis option.inject)

lemma inj_on_enc: "inj_on enc {x. valid x}"
  by (rule inj_onI) (simp add: enc_inject)

lemma dec_map_enc: "(\<forall>x\<in>set xs. valid x) \<Longrightarrow> map dec (map enc xs) = map Some xs"
  by (induction xs) (simp_all add: dec_enc)

end

section \<open>The incremental decoder interface\<close>

text \<open>
  A stream decoder maps the bytes buffered so far to the items they complete and the bytes it
  keeps. The one law relates a longer input to a shorter one; that the chunk boundaries chosen by
  the transport do not matter follows from it.
\<close>

locale incremental_decoder =
  fixes run :: "'b list \<Rightarrow> 'f list \<times> 'b list"
  assumes run_Nil: "run [] = ([], [])"
    and run_append: "run (xs @ ys) =
      (fst (run xs) @ fst (run (snd (run xs) @ ys)), snd (run (snd (run xs) @ ys)))"
begin

lemma run_rest: "run (snd (run xs)) = ([], snd (run xs))"
proof -
  have eq: "run xs = (fst (run xs) @ fst (run (snd (run xs))), snd (run (snd (run xs))))"
    using run_append [of xs "[]"] by simp
  have "fst (run (snd (run xs))) = []" using arg_cong [OF eq, of fst] by simp
  moreover have "snd (run (snd (run xs))) = snd (run xs)" using arg_cong [OF eq, of snd] by simp
  ultimately show ?thesis by (simp add: prod_eq_iff)
qed

lemma run_chunks:
  "foldl (\<lambda>(buf, s) c. (snd (run (buf @ c)), fold emit (fst (run (buf @ c))) s))
     (snd (run xs), fold emit (fst (run xs)) s) cs
   = (snd (run (xs @ concat cs)), fold emit (fst (run (xs @ concat cs))) s)"
proof (induction cs arbitrary: xs)
  case Nil
  then show ?case by simp
next
  case (Cons c cs)
  have "(snd (run (snd (run xs) @ c)), fold emit (fst (run (snd (run xs) @ c))) (fold emit (fst (run xs)) s))
      = (snd (run (xs @ c)), fold emit (fst (run (xs @ c))) s)"
    by (simp add: run_append [of xs c])
  with Cons.IH [of "xs @ c"] show ?case by simp
qed

end

end
