(* ===== verification/Axtp_Model.thy ===== *)
theory Axtp_Model
  imports Axtp_Prelude
begin

text \<open>
  The protocol model of \<^verbatim>\<open>include/core/protocol/model/\<close>: the enumerations, the frame, message and
  payload structures with their member initialisers, and the \<^verbatim>\<open>Result\<close> type.

  The wire enumerations (\<^verbatim>\<open>enum class ... : std::uint8_t\<close> or \<^verbatim>\<open>std::uint16_t\<close>) are words: the
  decoders build them with \<^verbatim>\<open>static_cast\<close> from bytes of the peer, so a variable of such a type holds
  every value of the underlying type, and the enumerators are names for some of them. The
  enumerations that never cross the wire are datatypes.
\<close>

section \<open>Protocol enumerations (axtp_ids_generated.h)\<close>

type_synonym payload_type = u8
type_synonym control_opcode = u8
type_synonym rpc_encoding = u8
type_synonym rpc_body_encoding = u8
type_synonym rpc_op = u8
type_synonym error_code = u16

abbreviation (input) PayloadType_Control :: payload_type where "PayloadType_Control \<equiv> 0x01"
abbreviation (input) PayloadType_Rpc :: payload_type where "PayloadType_Rpc \<equiv> 0x02"
abbreviation (input) PayloadType_Stream :: payload_type where "PayloadType_Stream \<equiv> 0x03"

abbreviation (input) ControlOpcode_Open :: control_opcode where "ControlOpcode_Open \<equiv> 0x01"
abbreviation (input) ControlOpcode_Accept :: control_opcode where "ControlOpcode_Accept \<equiv> 0x02"
abbreviation (input) ControlOpcode_Heartbeat :: control_opcode where "ControlOpcode_Heartbeat \<equiv> 0x04"
abbreviation (input) ControlOpcode_HeartbeatAck :: control_opcode where "ControlOpcode_HeartbeatAck \<equiv> 0x05"
abbreviation (input) ControlOpcode_Close :: control_opcode where "ControlOpcode_Close \<equiv> 0x0A"
abbreviation (input) ControlOpcode_CloseAck :: control_opcode where "ControlOpcode_CloseAck \<equiv> 0x0B"
abbreviation (input) ControlOpcode_Ping :: control_opcode where "ControlOpcode_Ping \<equiv> 0x0E"
abbreviation (input) ControlOpcode_Pong :: control_opcode where "ControlOpcode_Pong \<equiv> 0x0F"

abbreviation (input) RpcEncoding_Json :: rpc_encoding where "RpcEncoding_Json \<equiv> 0x01"

abbreviation (input) RpcBodyEncoding_None :: rpc_body_encoding where "RpcBodyEncoding_None \<equiv> 0x00"
abbreviation (input) RpcBodyEncoding_Tlv8 :: rpc_body_encoding where "RpcBodyEncoding_Tlv8 \<equiv> 0x01"

abbreviation (input) RpcOp_Hello :: rpc_op where "RpcOp_Hello \<equiv> 0x00"
abbreviation (input) RpcOp_Identify :: rpc_op where "RpcOp_Identify \<equiv> 0x02"
abbreviation (input) RpcOp_Identified :: rpc_op where "RpcOp_Identified \<equiv> 0x03"
abbreviation (input) RpcOp_Reidentify :: rpc_op where "RpcOp_Reidentify \<equiv> 0x04"
abbreviation (input) RpcOp_Event :: rpc_op where "RpcOp_Event \<equiv> 0x06"
abbreviation (input) RpcOp_Request :: rpc_op where "RpcOp_Request \<equiv> 0x07"
abbreviation (input) RpcOp_RequestResponse :: rpc_op where "RpcOp_RequestResponse \<equiv> 0x08"
abbreviation (input) RpcOp_RequestBatch :: rpc_op where "RpcOp_RequestBatch \<equiv> 0x09"
abbreviation (input) RpcOp_RequestBatchResponse :: rpc_op where "RpcOp_RequestBatchResponse \<equiv> 0x0A"

abbreviation (input) ErrorCode_Success :: error_code where "ErrorCode_Success \<equiv> 0x0000"
abbreviation (input) ErrorCode_NotSupported :: error_code where "ErrorCode_NotSupported \<equiv> 0x0003"
abbreviation (input) ErrorCode_Canceled :: error_code where "ErrorCode_Canceled \<equiv> 0x0007"
abbreviation (input) ErrorCode_InvalidArgument :: error_code where "ErrorCode_InvalidArgument \<equiv> 0x000A"
abbreviation (input) ErrorCode_OutOfRange :: error_code where "ErrorCode_OutOfRange \<equiv> 0x000B"
abbreviation (input) ErrorCode_InternalError :: error_code where "ErrorCode_InternalError \<equiv> 0x000E"
abbreviation (input) ErrorCode_Unavailable :: error_code where "ErrorCode_Unavailable \<equiv> 0x000F"
abbreviation (input) ErrorCode_ControlPayloadInvalid :: error_code where "ErrorCode_ControlPayloadInvalid \<equiv> 0x0022"
abbreviation (input) ErrorCode_ControlOpenRequired :: error_code where "ErrorCode_ControlOpenRequired \<equiv> 0x0024"
abbreviation (input) ErrorCode_ControlOpenRejected :: error_code where "ErrorCode_ControlOpenRejected \<equiv> 0x0025"
abbreviation (input) ErrorCode_ControlNegotiationFailed :: error_code where "ErrorCode_ControlNegotiationFailed \<equiv> 0x0027"
abbreviation (input) ErrorCode_ControlHeartbeatTimeout :: error_code where "ErrorCode_ControlHeartbeatTimeout \<equiv> 0x002D"
abbreviation (input) ErrorCode_RpcPayloadInvalid :: error_code where "ErrorCode_RpcPayloadInvalid \<equiv> 0x0033"
abbreviation (input) ErrorCode_RpcBodyDecodeFailed :: error_code where "ErrorCode_RpcBodyDecodeFailed \<equiv> 0x0035"
abbreviation (input) ErrorCode_RpcMethodNotFound :: error_code where "ErrorCode_RpcMethodNotFound \<equiv> 0x0036"
abbreviation (input) ErrorCode_RpcResponseTimeout :: error_code where "ErrorCode_RpcResponseTimeout \<equiv> 0x003E"
abbreviation (input) ErrorCode_RpcBatchUnsupported :: error_code where "ErrorCode_RpcBatchUnsupported \<equiv> 0x003F"

datatype source_protocol = AxtpV1 | JsonRpc

section \<open>Protocol constants (protocol_types.hpp)\<close>

definition kAxtpStandardMagic0 :: byte where "kAxtpStandardMagic0 = 0x41"
definition kAxtpStandardMagic1 :: byte where "kAxtpStandardMagic1 = 0x58"
definition kAxtpVersion1 :: byte where "kAxtpVersion1 = 0x01"
definition kStandardFrameHeaderSize :: nat where "kStandardFrameHeaderSize = 12"
definition kStandardFrameCrcSize :: nat where "kStandardFrameCrcSize = 2"
definition kControlPayloadHeaderSize :: nat where "kControlPayloadHeaderSize = 5"
definition kBinaryRpcHeaderSize :: nat where "kBinaryRpcHeaderSize = 11"
definition kStreamPayloadHeaderSize :: nat where "kStreamPayloadHeaderSize = 16"
definition kRpcEncodingJsonBinaryValue :: u8 where "kRpcEncodingJsonBinaryValue = 0x04"

definition jsonBinaryRpcEncoding :: rpc_encoding where
  "jsonBinaryRpcEncoding = kRpcEncodingJsonBinaryValue"

definition isJsonBinaryRpcEncoding :: "rpc_encoding \<Rightarrow> bool" where
  "isJsonBinaryRpcEncoding encoding \<longleftrightarrow> encoding = kRpcEncodingJsonBinaryValue"

definition bodyEncodingForRpcEncoding :: "rpc_encoding \<Rightarrow> rpc_body_encoding" where
  "bodyEncodingForRpcEncoding encoding =
     (if isJsonBinaryRpcEncoding encoding then RpcBodyEncoding_Tlv8 else RpcBodyEncoding_None)"

lemmas protocol_consts = kAxtpStandardMagic0_def kAxtpStandardMagic1_def kAxtpVersion1_def
  kStandardFrameHeaderSize_def kStandardFrameCrcSize_def kControlPayloadHeaderSize_def
  kBinaryRpcHeaderSize_def kStreamPayloadHeaderSize_def kRpcEncodingJsonBinaryValue_def
  jsonBinaryRpcEncoding_def

section \<open>Status and Result (result.hpp)\<close>

text \<open>
  A failed \<^verbatim>\<open>Result<T>\<close> carries an error code and a message and a default-constructed value that
  its users never read; it is the left injection here.
\<close>

record status =
  st_code :: error_code
  st_message :: string

type_synonym 'a result = "status + 'a"

definition Result_failure :: "error_code \<Rightarrow> string \<Rightarrow> 'a result" where
  "Result_failure code message = Inl \<lparr>st_code = code, st_message = message\<rparr>"

definition Result_success :: "'a \<Rightarrow> 'a result" where
  "Result_success value = Inr value"

lemma Result_simps [simp]:
  "isl (Result_failure c m)" "\<not> isl (Result_success v)" "projr (Result_success v) = v"
  "Result_success v \<noteq> Result_failure c m" "Result_failure c m \<noteq> Result_success v"
  "Result_success v = Result_success w \<longleftrightarrow> v = w"
  "(case Result_success v of Inl e \<Rightarrow> f e | Inr x \<Rightarrow> g x) = g v"
  "(case Result_failure c m of Inl e \<Rightarrow> f e | Inr x \<Rightarrow> g x) = f \<lparr>st_code = c, st_message = m\<rparr>"
  by (simp_all add: Result_failure_def Result_success_def)

abbreviation (input) kByteIoOutOfRange :: error_code where "kByteIoOutOfRange \<equiv> ErrorCode_OutOfRange"

section \<open>Frames and messages (frame.hpp, message.hpp)\<close>

record frame_header =
  fh_version :: u8
  fh_payloadType :: payload_type
  fh_payloadLength :: u16
  fh_sourceId :: u8
  fh_destinationId :: u8
  fh_messageId :: u16
  fh_frameIndex :: u8
  fh_frameCount :: u8

record frame =
  fr_header :: frame_header
  fr_payload :: bytes
  fr_crc16 :: u16

definition FrameHeader_default :: frame_header where
  "FrameHeader_default = \<lparr>fh_version = kAxtpVersion1, fh_payloadType = PayloadType_Rpc,
     fh_payloadLength = 0, fh_sourceId = 0, fh_destinationId = 0, fh_messageId = 0,
     fh_frameIndex = 0, fh_frameCount = 1\<rparr>"

record message =
  msg_messageId :: u16
  msg_payloadType :: payload_type
  msg_body :: bytes

section \<open>Endpoint metadata (endpoint_metadata.hpp)\<close>

record endpoint_metadata =
  em_src :: "string option"
  em_dst :: "string option"

definition EndpointMetadata_default :: endpoint_metadata where
  "EndpointMetadata_default = \<lparr>em_src = None, em_dst = None\<rparr>"

definition hasEndpointMetadata :: "endpoint_metadata \<Rightarrow> bool" where
  "hasEndpointMetadata metadata \<longleftrightarrow> em_src metadata \<noteq> None \<or> em_dst metadata \<noteq> None"

definition responseEndpointMetadata :: "endpoint_metadata \<Rightarrow> endpoint_metadata" where
  "responseEndpointMetadata request = \<lparr>em_src = em_dst request, em_dst = em_src request\<rparr>"

lemma responseEndpointMetadata_involutive [simp]:
  "responseEndpointMetadata (responseEndpointMetadata m) = m"
  by (simp add: responseEndpointMetadata_def)

lemma hasEndpointMetadata_response [simp]:
  "hasEndpointMetadata (responseEndpointMetadata m) = hasEndpointMetadata m"
  by (auto simp: responseEndpointMetadata_def hasEndpointMetadata_def)

lemma hasEndpointMetadata_default [simp]: "\<not> hasEndpointMetadata EndpointMetadata_default"
  by (simp add: hasEndpointMetadata_def EndpointMetadata_default_def)

section \<open>Payloads (payload.hpp)\<close>

record payload_meta =
  pm_sourceProtocol :: source_protocol
  pm_sessionId :: u32
  pm_requestId :: u32
  pm_hasRandomSeed :: bool
  pm_randomSeed :: u32
  pm_jsonSid :: string
  pm_jsonMethodOrEventName :: string
  pm_jsonEventMasks :: string
  pm_localGeneratedResponse :: bool
  pm_ingressToken :: u64
  pm_replyTarget :: u64
  pm_endpoint :: endpoint_metadata

definition PayloadMeta_default :: payload_meta where
  "PayloadMeta_default = \<lparr>pm_sourceProtocol = AxtpV1, pm_sessionId = 0, pm_requestId = 0,
     pm_hasRandomSeed = False, pm_randomSeed = 0, pm_jsonSid = '''', pm_jsonMethodOrEventName = '''',
     pm_jsonEventMasks = '''', pm_localGeneratedResponse = False, pm_ingressToken = 0,
     pm_replyTarget = 0, pm_endpoint = EndpointMetadata_default\<rparr>"

record control_tlv_options =
  tlv_valid :: bool
  tlv_hasSessionId :: bool
  tlv_hasProtocolVersion :: bool
  tlv_hasMaxFrameSize :: bool
  tlv_hasMtu :: bool
  tlv_hasSupportedPayloadTypes :: bool
  tlv_hasSupportedRpcEncodings :: bool
  tlv_hasSelectedRpcEncoding :: bool
  tlv_hasHeartbeatIntervalMs :: bool
  tlv_hasAckMode :: bool
  tlv_sessionId :: u32
  tlv_protocolVersion :: u8
  tlv_maxFrameSize :: u32
  tlv_mtu :: u32
  tlv_supportedPayloadTypes :: u8
  tlv_supportedRpcEncodings :: u8
  tlv_selectedRpcEncoding :: u8
  tlv_heartbeatIntervalMs :: u32
  tlv_ackMode :: u8

definition ControlTlvOptions_default :: control_tlv_options where
  "ControlTlvOptions_default = \<lparr>tlv_valid = True, tlv_hasSessionId = False,
     tlv_hasProtocolVersion = False, tlv_hasMaxFrameSize = False, tlv_hasMtu = False,
     tlv_hasSupportedPayloadTypes = False, tlv_hasSupportedRpcEncodings = False,
     tlv_hasSelectedRpcEncoding = False, tlv_hasHeartbeatIntervalMs = False,
     tlv_hasAckMode = False, tlv_sessionId = 0, tlv_protocolVersion = 1, tlv_maxFrameSize = 4096,
     tlv_mtu = 4096, tlv_supportedPayloadTypes = 0x07, tlv_supportedRpcEncodings = 0x09,
     tlv_selectedRpcEncoding = RpcEncoding_Json, tlv_heartbeatIntervalMs = 1000, tlv_ackMode = 0\<rparr>"

record control_payload =
  cp_opcode :: control_opcode
  cp_controlId :: u16
  cp_statusCode :: error_code
  cp_meta :: payload_meta
  cp_tlv :: control_tlv_options
  cp_body :: bytes

definition ControlPayload_default :: control_payload where
  "ControlPayload_default = \<lparr>cp_opcode = ControlOpcode_Open, cp_controlId = 0,
     cp_statusCode = ErrorCode_Success, cp_meta = PayloadMeta_default,
     cp_tlv = ControlTlvOptions_default, cp_body = []\<rparr>"

record rpc_payload =
  rp_encoding :: rpc_encoding
  rp_op :: rpc_op
  rp_requestId :: u32
  rp_methodOrEventId :: u32
  rp_statusCode :: error_code
  rp_bodyEncoding :: rpc_body_encoding
  rp_meta :: payload_meta
  rp_body :: bytes

definition RpcPayload_default :: rpc_payload where
  "RpcPayload_default = \<lparr>rp_encoding = RpcEncoding_Json, rp_op = RpcOp_Request, rp_requestId = 0,
     rp_methodOrEventId = 0, rp_statusCode = ErrorCode_Success,
     rp_bodyEncoding = RpcBodyEncoding_Tlv8, rp_meta = PayloadMeta_default, rp_body = []\<rparr>"

record stream_payload =
  sp_streamId :: u32
  sp_seqId :: u32
  sp_cursor :: u64
  sp_meta :: payload_meta
  sp_data :: bytes

definition StreamPayload_default :: stream_payload where
  "StreamPayload_default = \<lparr>sp_streamId = 0, sp_seqId = 0, sp_cursor = 0,
     sp_meta = PayloadMeta_default, sp_data = []\<rparr>"

section \<open>Strings and bytes\<close>

text \<open>
  A \<^verbatim>\<open>std::string\<close> is a sequence of bytes; the model writes it as an Isabelle string, whose
  characters are the 256 byte values. The conversions \<^verbatim>\<open>Bytes(text.begin(), text.end())\<close> and
  \<^verbatim>\<open>std::string(bytes.begin(), bytes.end())\<close> are bijections between the two.
\<close>

definition byte_of_char :: "char \<Rightarrow> byte" where
  "byte_of_char c = word_of_nat (of_char c)"

definition char_of_byte :: "byte \<Rightarrow> char" where
  "char_of_byte b = char_of (unat b)"

definition bytes_of_string :: "string \<Rightarrow> bytes" where
  "bytes_of_string s = map byte_of_char s"

definition string_of_bytes :: "bytes \<Rightarrow> string" where
  "string_of_bytes bs = map char_of_byte bs"

lemma char_of_byte_of_char [simp]: "char_of_byte (byte_of_char c) = c"
  using nat_of_char_less_256 [of c]
  by (simp add: byte_of_char_def char_of_byte_def unat_of_nat)

lemma unat_byte_less [simp]: "unat (b :: byte) < 256"
  using unsigned_less [of b, where 'a = nat] by simp

lemma byte_of_char_of_byte [simp]: "byte_of_char (char_of_byte b) = b"
  by (simp add: byte_of_char_def char_of_byte_def)

lemma string_of_bytes_of_string [simp]: "string_of_bytes (bytes_of_string s) = s"
  by (simp add: string_of_bytes_def bytes_of_string_def o_def)

lemma bytes_of_string_of_bytes [simp]: "bytes_of_string (string_of_bytes bs) = bs"
  by (simp add: string_of_bytes_def bytes_of_string_def o_def)

lemma length_bytes_of_string [simp]: "length (bytes_of_string s) = length s"
  by (simp add: bytes_of_string_def)

interpretation text_bytes: codec bytes_of_string "\<lambda>b. Some (string_of_bytes b)" "\<lambda>_. True"
  by unfold_locales simp

end
