(* ===== verification/Byte_IO.thy ===== *)
theory Byte_IO
  imports Axtp_Model
begin

text \<open>
  Byte buffers, readers and writers (\<^verbatim>\<open>include/core/support/io/\<close>): \<^verbatim>\<open>ByteBuffer\<close>, the queue of
  received bytes of the frame decoder; \<^verbatim>\<open>ByteReader\<close>, a bounds-checked big-endian cursor;
  \<^verbatim>\<open>ByteWriter\<close>, its big-endian counterpart. Each class is a record and each member function
  returns the updated record.
\<close>

section \<open>ByteBuffer\<close>

record byte_buffer =
  bb_bytes :: bytes

definition ByteBuffer_empty :: byte_buffer where
  "ByteBuffer_empty = \<lparr>bb_bytes = []\<rparr>"

definition ByteBuffer_append :: "byte_buffer \<Rightarrow> bytes \<Rightarrow> byte_buffer" where
  "ByteBuffer_append b data = (if data = [] then b else b\<lparr>bb_bytes := bb_bytes b @ data\<rparr>)"

definition ByteBuffer_peek :: "byte_buffer \<Rightarrow> nat \<Rightarrow> nat \<Rightarrow> bytes result" where
  "ByteBuffer_peek b offset count =
     (if offset > length (bb_bytes b) \<or> count > length (bb_bytes b) - offset
      then Result_failure kByteIoOutOfRange ''not enough bytes to peek''
      else Result_success (take count (drop offset (bb_bytes b))))"

definition ByteBuffer_consume :: "byte_buffer \<Rightarrow> nat \<Rightarrow> bytes result \<times> byte_buffer" where
  "ByteBuffer_consume b count =
     (if count > length (bb_bytes b)
      then (Result_failure kByteIoOutOfRange ''not enough bytes to consume'', b)
      else (Result_success (take count (bb_bytes b)), b\<lparr>bb_bytes := drop count (bb_bytes b)\<rparr>))"

definition ByteBuffer_clear :: "byte_buffer \<Rightarrow> byte_buffer" where
  "ByteBuffer_clear b = b\<lparr>bb_bytes := []\<rparr>"

lemma bb_bytes_append [simp]: "bb_bytes (ByteBuffer_append b d) = bb_bytes b @ d"
  by (simp add: ByteBuffer_append_def)

lemma bb_bytes_empty [simp]: "bb_bytes ByteBuffer_empty = []"
  by (simp add: ByteBuffer_empty_def)

lemma bb_bytes_consume [simp]:
  "n \<le> length (bb_bytes b) \<Longrightarrow> bb_bytes (snd (ByteBuffer_consume b n)) = drop n (bb_bytes b)"
  by (simp add: ByteBuffer_consume_def)

lemma ByteBuffer_peek_ok:
  "off + n \<le> length (bb_bytes b) \<Longrightarrow>
     ByteBuffer_peek b off n = Result_success (take n (drop off (bb_bytes b)))"
  by (simp add: ByteBuffer_peek_def)

lemma byte_buffer_eqI: "bb_bytes a = bb_bytes b \<Longrightarrow> a = (b :: byte_buffer)"
  by simp

lemma byte_buffer_collapse [simp]: "\<lparr>bb_bytes = bb_bytes b\<rparr> = b"
  by simp

section \<open>ByteReader\<close>

text \<open>
  The pointer \<^verbatim>\<open>_data\<close> and the length \<^verbatim>\<open>_size\<close> of the C++ reader are the list \<open>rd_data\<close>. The
  reads never go past the end: every one is guarded by \<^verbatim>\<open>hasRemaining\<close>.
\<close>

record byte_reader =
  rd_data :: bytes
  rd_offset :: nat

definition ByteReader :: "bytes \<Rightarrow> byte_reader" where
  "ByteReader data = \<lparr>rd_data = data, rd_offset = 0\<rparr>"

definition reader_remaining :: "byte_reader \<Rightarrow> nat" where
  "reader_remaining r = length (rd_data r) - rd_offset r"

definition hasRemaining :: "byte_reader \<Rightarrow> nat \<Rightarrow> bool" where
  "hasRemaining r count \<longleftrightarrow> count \<le> reader_remaining r"

definition reader_empty :: "byte_reader \<Rightarrow> bool" where
  "reader_empty r \<longleftrightarrow> reader_remaining r = 0"

definition readU8 :: "byte_reader \<Rightarrow> u8 result \<times> byte_reader" where
  "readU8 r =
     (if \<not> hasRemaining r 1
      then (Result_failure kByteIoOutOfRange ''not enough bytes for u8'', r)
      else (Result_success (rd_data r ! rd_offset r), r\<lparr>rd_offset := rd_offset r + 1\<rparr>))"

definition readU16 :: "byte_reader \<Rightarrow> u16 result \<times> byte_reader" where
  "readU16 r =
     (if \<not> hasRemaining r 2
      then (Result_failure kByteIoOutOfRange ''not enough bytes for u16'', r)
      else (Result_success (push_bit 8 (ucast (rd_data r ! rd_offset r)) OR
                            ucast (rd_data r ! (rd_offset r + 1))),
            r\<lparr>rd_offset := rd_offset r + 2\<rparr>))"

definition readU32 :: "byte_reader \<Rightarrow> u32 result \<times> byte_reader" where
  "readU32 r =
     (if \<not> hasRemaining r 4
      then (Result_failure kByteIoOutOfRange ''not enough bytes for u32'', r)
      else (Result_success (((push_bit 24 (ucast (rd_data r ! rd_offset r)) OR
                              push_bit 16 (ucast (rd_data r ! (rd_offset r + 1)))) OR
                             push_bit 8 (ucast (rd_data r ! (rd_offset r + 2)))) OR
                            ucast (rd_data r ! (rd_offset r + 3))),
            r\<lparr>rd_offset := rd_offset r + 4\<rparr>))"

text \<open>The loop \<^verbatim>\<open>for (int shift = 56; shift >= 0; shift -= 8)\<close> runs over these shifts.\<close>

definition u64_shifts :: "nat list" where
  "u64_shifts = [56, 48, 40, 32, 24, 16, 8, 0]"

definition readU64 :: "byte_reader \<Rightarrow> u64 result \<times> byte_reader" where
  "readU64 r =
     (if \<not> hasRemaining r 8
      then (Result_failure kByteIoOutOfRange ''not enough bytes for u64'', r)
      else (let (value, offset) =
                  foldl (\<lambda>(value, offset) shift.
                           (value OR push_bit shift (ucast (rd_data r ! offset)), offset + 1))
                    (0, rd_offset r) u64_shifts
            in (Result_success value, r\<lparr>rd_offset := offset\<rparr>)))"

definition readBytes :: "byte_reader \<Rightarrow> nat \<Rightarrow> bytes result \<times> byte_reader" where
  "readBytes r count =
     (if \<not> hasRemaining r count
      then (Result_failure kByteIoOutOfRange ''not enough bytes'', r)
      else (Result_success (take count (drop (rd_offset r) (rd_data r))),
            r\<lparr>rd_offset := rd_offset r + count\<rparr>))"

section \<open>ByteWriter\<close>

record byte_writer =
  wr_bytes :: bytes

definition ByteWriter_empty :: byte_writer where
  "ByteWriter_empty = \<lparr>wr_bytes = []\<rparr>"

definition push_back :: "byte_writer \<Rightarrow> byte \<Rightarrow> byte_writer" where
  "push_back w b = w\<lparr>wr_bytes := wr_bytes w @ [b]\<rparr>"

definition writeU8 :: "byte_writer \<Rightarrow> u8 \<Rightarrow> byte_writer" where
  "writeU8 w value = push_back w value"

definition writeU16 :: "byte_writer \<Rightarrow> u16 \<Rightarrow> byte_writer" where
  "writeU16 w value =
     push_back (push_back w (ucast (drop_bit 8 value AND 0xFF))) (ucast (value AND 0xFF))"

definition writeU32 :: "byte_writer \<Rightarrow> u32 \<Rightarrow> byte_writer" where
  "writeU32 w value =
     push_back (push_back (push_back (push_back w
       (ucast (drop_bit 24 value AND 0xFF)))
       (ucast (drop_bit 16 value AND 0xFF)))
       (ucast (drop_bit 8 value AND 0xFF)))
       (ucast (value AND 0xFF))"

definition writeU64 :: "byte_writer \<Rightarrow> u64 \<Rightarrow> byte_writer" where
  "writeU64 w value =
     foldl (\<lambda>w shift. push_back w (ucast (drop_bit shift value AND 0xFF))) w u64_shifts"

definition writeBytes :: "byte_writer \<Rightarrow> bytes \<Rightarrow> byte_writer" where
  "writeBytes w data = (if data = [] then w else w\<lparr>wr_bytes := wr_bytes w @ data\<rparr>)"

definition takeBytes :: "byte_writer \<Rightarrow> bytes \<times> byte_writer" where
  "takeBytes w = (wr_bytes w, w\<lparr>wr_bytes := []\<rparr>)"

section \<open>The bytes a writer appends\<close>

text \<open>Big-endian images of the words, the abstract view of the writer.\<close>

definition be16 :: "u16 \<Rightarrow> bytes" where
  "be16 v = [ucast (drop_bit 8 v), ucast v]"

definition be32 :: "u32 \<Rightarrow> bytes" where
  "be32 v = [ucast (drop_bit 24 v), ucast (drop_bit 16 v), ucast (drop_bit 8 v), ucast v]"

definition be64 :: "u64 \<Rightarrow> bytes" where
  "be64 v = [ucast (drop_bit 56 v), ucast (drop_bit 48 v), ucast (drop_bit 40 v),
             ucast (drop_bit 32 v), ucast (drop_bit 24 v), ucast (drop_bit 16 v),
             ucast (drop_bit 8 v), ucast v]"

lemma length_be [simp]: "length (be16 a) = 2" "length (be32 b) = 4" "length (be64 c) = 8"
  by (simp_all add: be16_def be32_def be64_def)

lemma wr_bytes_empty [simp]: "wr_bytes ByteWriter_empty = []"
  by (simp add: ByteWriter_empty_def)

lemma wr_bytes_write [simp]:
  "wr_bytes (writeU8 w a) = wr_bytes w @ [a]"
  "wr_bytes (writeU16 w b) = wr_bytes w @ be16 b"
  "wr_bytes (writeU32 w c) = wr_bytes w @ be32 c"
  "wr_bytes (writeU64 w d) = wr_bytes w @ be64 d"
  "wr_bytes (writeBytes w e) = wr_bytes w @ e"
  by (simp_all add: writeU8_def writeU16_def writeU32_def writeU64_def writeBytes_def push_back_def
      be16_def be32_def be64_def u64_shifts_def ucast_and_255)

lemma fst_takeBytes [simp]: "fst (takeBytes w) = wr_bytes w"
  by (simp add: takeBytes_def)

section \<open>Reading back what was written\<close>

text \<open>
  \<open>reader_after pre bs\<close> is the reader that has consumed \<open>pre\<close> and stands before \<open>bs\<close>. The
  equations of \<open>wire_simps\<close> turn each read of a written field into the field's value, so that the
  simplifier runs a decoder on the image of an encoder.
\<close>

definition reader_after :: "bytes \<Rightarrow> bytes \<Rightarrow> byte_reader" where
  "reader_after pre bs = \<lparr>rd_data = pre @ bs, rd_offset = length pre\<rparr>"

lemma ByteReader_after [wire_simps]: "ByteReader bs = reader_after [] bs"
  by (simp add: ByteReader_def reader_after_def)

lemma reader_remaining_after [wire_simps]: "reader_remaining (reader_after pre bs) = length bs"
  by (simp add: reader_remaining_def reader_after_def)

lemma hasRemaining_after [wire_simps]: "hasRemaining (reader_after pre bs) n \<longleftrightarrow> n \<le> length bs"
  by (simp add: hasRemaining_def reader_remaining_after)

lemma reader_empty_after [wire_simps]: "reader_empty (reader_after pre bs) \<longleftrightarrow> bs = []"
  by (simp add: reader_empty_def reader_remaining_after)

lemma readU8_after [wire_simps]:
  "readU8 (reader_after pre (b # bs)) = (Result_success b, reader_after (pre @ [b]) bs)"
  by (simp add: readU8_def hasRemaining_after) (simp add: reader_after_def)

lemma readU16_after [wire_simps]:
  "readU16 (reader_after pre (be16 v @ bs)) = (Result_success v, reader_after (pre @ be16 v) bs)"
  by (simp add: readU16_def hasRemaining_after)
    (simp add: reader_after_def be16_def nth_append join_u16)

text \<open>The same read over two arbitrary bytes, for input no encoder produced.\<close>

definition join16 :: "byte \<Rightarrow> byte \<Rightarrow> u16" where
  "join16 h l = push_bit 8 (ucast h) OR ucast l"

lemma be16_join16 [simp]: "be16 (join16 h l) = [h, l]"
  by (simp only: be16_def join16_def split_u16_hi split_u16_lo)

lemma readU16_join16:
  "readU16 (reader_after pre (h # l # bs)) = (Result_success (join16 h l), reader_after (pre @ [h, l]) bs)"
  using readU16_after [of pre "join16 h l" bs] by simp

lemma readU32_after [wire_simps]:
  "readU32 (reader_after pre (be32 v @ bs)) = (Result_success v, reader_after (pre @ be32 v) bs)"
  by (simp add: readU32_def hasRemaining_after)
    (simp add: reader_after_def be32_def nth_append join_u32)

lemma readU64_after [wire_simps]:
  "readU64 (reader_after pre (be64 v @ bs)) = (Result_success v, reader_after (pre @ be64 v) bs)"
  by (simp add: readU64_def hasRemaining_after u64_shifts_def)
    (simp add: reader_after_def be64_def nth_append join_u64)

lemma readBytes_after:
  "length bs = n \<Longrightarrow>
     readBytes (reader_after pre (bs @ cs)) n = (Result_success bs, reader_after (pre @ bs) cs)"
  by (simp add: readBytes_def hasRemaining_after) (simp add: reader_after_def)

lemma readBytes_all [wire_simps]:
  "readBytes (reader_after pre bs) (length bs) = (Result_success bs, reader_after (pre @ bs) [])"
  using readBytes_after [of bs "length bs" pre "[]"] by simp

text \<open>Round trips of the scalar formats, as codecs.\<close>

definition decode_be16 :: "bytes \<Rightarrow> u16 option" where
  "decode_be16 bs = (case fst (readU16 (ByteReader bs)) of Inl _ \<Rightarrow> None | Inr v \<Rightarrow> Some v)"

definition decode_be32 :: "bytes \<Rightarrow> u32 option" where
  "decode_be32 bs = (case fst (readU32 (ByteReader bs)) of Inl _ \<Rightarrow> None | Inr v \<Rightarrow> Some v)"

definition decode_be64 :: "bytes \<Rightarrow> u64 option" where
  "decode_be64 bs = (case fst (readU64 (ByteReader bs)) of Inl _ \<Rightarrow> None | Inr v \<Rightarrow> Some v)"

interpretation u16_wire: codec be16 decode_be16 "\<lambda>_. True"
  by unfold_locales
    (simp add: decode_be16_def ByteReader_after Result_success_def
      readU16_after [where bs = "[]", simplified])

interpretation u32_wire: codec be32 decode_be32 "\<lambda>_. True"
  by unfold_locales
    (simp add: decode_be32_def ByteReader_after Result_success_def
      readU32_after [where bs = "[]", simplified])

interpretation u64_wire: codec be64 decode_be64 "\<lambda>_. True"
  by unfold_locales
    (simp add: decode_be64_def ByteReader_after Result_success_def
      readU64_after [where bs = "[]", simplified])

section \<open>Reads never leave the data\<close>

definition reader_inv :: "byte_reader \<Rightarrow> bool" where
  "reader_inv r \<longleftrightarrow> rd_offset r \<le> length (rd_data r)"

lemma reader_inv_after: "reader_inv r \<longleftrightarrow> (\<exists>pre bs. r = reader_after pre bs)"
proof
  assume "reader_inv r"
  then have "r = reader_after (take (rd_offset r) (rd_data r)) (drop (rd_offset r) (rd_data r))"
    by (simp add: reader_inv_def reader_after_def)
  then show "\<exists>pre bs. r = reader_after pre bs" by blast
qed (auto simp: reader_inv_def reader_after_def)

lemma reader_inv_start [invar_intros]: "reader_inv (ByteReader bs)"
  by (simp add: reader_inv_def ByteReader_def)

lemma reader_inv_read [invar_intros]:
  assumes "reader_inv r"
  shows "reader_inv (snd (readU8 r))" and "reader_inv (snd (readU16 r))"
    and "reader_inv (snd (readU32 r))" and "reader_inv (snd (readU64 r))"
    and "reader_inv (snd (readBytes r n))"
  using assms
  by (auto simp: reader_inv_def readU8_def readU16_def readU32_def readU64_def readBytes_def
      hasRemaining_def reader_remaining_def u64_shifts_def)

text \<open>A read fails exactly when too few bytes are left, and then leaves the reader alone.\<close>

lemma read_fails:
  "\<not> hasRemaining r 1 \<Longrightarrow> isl (fst (readU8 r)) \<and> snd (readU8 r) = r"
  "\<not> hasRemaining r n \<Longrightarrow> isl (fst (readBytes r n)) \<and> snd (readBytes r n) = r"
  by (simp_all add: readU8_def readBytes_def)

end
