(* ===== verification/Crc16.thy ===== *)
theory Crc16
  imports Byte_IO
begin

text \<open>
  The two checksums of \<^verbatim>\<open>include/core/support/io/crc16.hpp\<close>. The byte loop is a fold and the
  bit loop an eightfold iteration. Both are shown equal to the bit-serial register fed with the
  message's bits, most significant first, from which follow the two facts the frame decoder
  relies on: appending the checksum brings the register to zero, and every error burst of at
  most sixteen bits changes the checksum.
\<close>

section \<open>The code\<close>

definition crc16_bit :: "u16 \<Rightarrow> u16" where
  "crc16_bit crc = (if crc AND 0x8000 \<noteq> 0 then push_bit 1 crc XOR 0x1021 else push_bit 1 crc)"

definition crc16_byte :: "u16 \<Rightarrow> byte \<Rightarrow> u16" where
  "crc16_byte crc b = (crc16_bit ^^ 8) (crc XOR push_bit 8 (ucast b))"

definition crc16CcittFalse :: "bytes \<Rightarrow> u16" where
  "crc16CcittFalse data = foldl crc16_byte 0xFFFF data"

definition crc16Xmodem :: "bytes \<Rightarrow> u16" where
  "crc16Xmodem data = foldl crc16_byte 0x0000 data"

section \<open>One step of the register\<close>

declare push_bit_Suc [simp del] bit_numeral_word_iff [simp del]

lemma bit_8000 [simp]: "bit (0x8000 :: u16) n \<longleftrightarrow> n = 15"
proof -
  have e: "(0x8000 :: u16) = push_bit 15 1" by simp
  show ?thesis by (simp only: e bit_push_bit_iff bit_1_iff) auto
qed

lemma and_8000: "crc AND 0x8000 \<noteq> (0 :: u16) \<longleftrightarrow> bit crc 15"
proof
  assume "bit crc 15"
  then have "bit (crc AND 0x8000) 15" by (simp only: bit_and_iff bit_8000)
  then show "crc AND 0x8000 \<noteq> 0" by auto
next
  assume "crc AND 0x8000 \<noteq> 0"
  then obtain n where "bit (crc AND 0x8000) n" by (metis bit_eqI bit_0_eq bot_apply bot_bool_def)
  then show "bit crc 15" by (auto simp only: bit_and_iff bit_8000)
qed

lemma crc16_bit_eq: "crc16_bit c = push_bit 1 c XOR (if bit c 15 then 0x1021 else 0)"
  by (simp add: crc16_bit_def and_8000)

lemma crc16_bit_0 [simp]: "crc16_bit 0 = 0"
  by (simp add: crc16_bit_eq)

lemma crc16_bit_linear: "crc16_bit (a XOR b) = crc16_bit a XOR crc16_bit b"
  by (auto simp: crc16_bit_eq bit_xor_iff push_bit_xor ac_simps)

lemma crc16_bit_kernel: "crc16_bit c = 0 \<Longrightarrow> c = 0"
proof (cases "bit c 15")
  case True
  assume "crc16_bit c = 0"
  then have "bit (push_bit 1 c XOR 0x1021) 0 = bit (0 :: u16) 0"
    using True by (simp only: crc16_bit_eq if_True)
  then show ?thesis by (simp only: bit_xor_iff bit_push_bit_iff) simp
next
  case False
  assume "crc16_bit c = 0"
  with False have z: "push_bit 1 c = 0" by (simp add: crc16_bit_eq)
  show ?thesis
  proof (rule bit_word_eqI)
    fix n assume n: "n < LENGTH(16)"
    show "bit c n = bit (0 :: u16) n"
    proof (cases "n = 15")
      case True with False show ?thesis by simp
    next
      case False
      with n have "bit (push_bit 1 c) (Suc n) = bit c n" by (simp add: bit_simps)
      with z show ?thesis by simp
    qed
  qed
qed

lemma crc16_bit_inject [simp]: "crc16_bit a = crc16_bit b \<longleftrightarrow> a = b"
proof
  assume "crc16_bit a = crc16_bit b"
  then have "crc16_bit (a XOR b) = 0" by (simp add: crc16_bit_linear)
  then have "a XOR b = 0" by (rule crc16_bit_kernel)
  then show "a = b" by simp
qed simp

lemma crc16_bits_inject: "(crc16_bit ^^ n) a = (crc16_bit ^^ n) b \<longleftrightarrow> a = b"
  by (induction n) auto

lemma crc16_bits_linear: "(crc16_bit ^^ n) (a XOR b) = (crc16_bit ^^ n) a XOR (crc16_bit ^^ n) b"
  by (induction n) (simp_all add: crc16_bit_linear)

section \<open>The bit-serial register\<close>

definition crc16_serial_step :: "u16 \<Rightarrow> bool \<Rightarrow> u16" where
  "crc16_serial_step crc b = crc16_bit (crc XOR (if b then 0x8000 else 0))"

definition crc16_serial :: "u16 \<Rightarrow> bool list \<Rightarrow> u16" where
  "crc16_serial crc bs = foldl crc16_serial_step crc bs"

definition byte_bits :: "byte \<Rightarrow> bool list" where
  "byte_bits b = map (\<lambda>k. bit b (7 - k)) [0..<8]"

definition message_bits :: "bytes \<Rightarrow> bool list" where
  "message_bits data = concat (map byte_bits data)"

text \<open>A run of at most sixteen bits, left-aligned in a word.\<close>

fun left_aligned :: "bool list \<Rightarrow> u16" where
  "left_aligned [] = 0"
| "left_aligned (b # bs) = (if b then 0x8000 else 0) XOR drop_bit 1 (left_aligned bs)"

lemma bit_left_aligned:
  "bit (left_aligned bs) i \<longleftrightarrow> i < 16 \<and> 15 - i < length bs \<and> bs ! (15 - i)"
proof (induction bs arbitrary: i)
  case Nil
  then show ?case by simp
next
  case (Cons b bs)
  have "bit (left_aligned (b # bs)) i \<longleftrightarrow> (b \<and> i = 15) \<noteq> bit (left_aligned bs) (Suc i)"
    by (simp add: bit_xor_iff bit_drop_bit_eq)
  moreover have "15 - i = Suc (15 - Suc i)" if "i < 15" using that by simp
  ultimately show ?case by (cases "i < 15") (auto simp: Cons.IH)
qed

lemma push_drop_left_aligned: "length bs < 16 \<Longrightarrow> push_bit 1 (drop_bit 1 (left_aligned bs)) = left_aligned bs"
proof (rule bit_word_eqI)
  fix n assume "length bs < 16" "n < LENGTH(16)"
  then show "bit (push_bit 1 (drop_bit 1 (left_aligned bs))) n = bit (left_aligned bs) n"
    by (cases n) (auto simp: bit_push_bit_iff bit_drop_bit_eq bit_left_aligned)
qed

lemma bit15_drop [simp]: "\<not> bit (drop_bit 1 (w :: u16)) 15"
  by (simp add: bit_drop_bit_eq)

lemma crc16_serial_left_aligned:
  "length bs \<le> 16 \<Longrightarrow> crc16_serial c bs = (crc16_bit ^^ length bs) (c XOR left_aligned bs)"
proof (induction bs arbitrary: c)
  case Nil
  then show ?case by (simp add: crc16_serial_def)
next
  case (Cons b bs)
  let ?t = "if b then 0x8000 else 0 :: u16"
  have shift: "crc16_bit (drop_bit 1 (left_aligned bs)) = left_aligned bs"
    using Cons.prems
    by (simp only: crc16_bit_eq bit15_drop if_False xor.right_neutral push_drop_left_aligned
        length_Cons)
  have "crc16_serial c (b # bs) = (crc16_bit ^^ length bs) (crc16_bit (c XOR ?t) XOR left_aligned bs)"
    using Cons.IH Cons.prems by (simp add: crc16_serial_def crc16_serial_step_def)
  also have "crc16_bit (c XOR ?t) XOR left_aligned bs
      = crc16_bit (c XOR (?t XOR drop_bit 1 (left_aligned bs)))"
    by (simp only: xor.assoc [symmetric] crc16_bit_linear shift)
  finally show ?case by (simp add: funpow_swap1 xor.assoc)
qed

lemma left_aligned_inject:
  assumes "length as = length bs" and "length bs \<le> 16"
  shows "left_aligned as = left_aligned bs \<longleftrightarrow> as = bs"
proof
  assume eq: "left_aligned as = left_aligned bs"
  show "as = bs"
  proof (rule nth_equalityI)
    fix k assume "k < length as"
    with assms have "15 - k < 16" "15 - (15 - k) = k" by simp_all
    with \<open>k < length as\<close> assms show "as ! k = bs ! k"
      using arg_cong [OF eq, of "\<lambda>w. bit w (15 - k)"] by (simp add: bit_left_aligned)
  qed (fact assms)
qed simp

lemma length_byte_bits [simp]: "length (byte_bits b) = 8"
  by (simp add: byte_bits_def)

lemma left_aligned_byte_bits: "left_aligned (byte_bits b) = push_bit 8 (ucast b)"
proof (rule bit_word_eqI)
  fix n assume n: "n < LENGTH(16)"
  show "bit (left_aligned (byte_bits b)) n = bit (push_bit 8 (ucast b :: u16)) n"
  proof (cases "8 \<le> n")
    case True
    with n have "7 - (15 - n) = n - 8" by simp
    with True n show ?thesis
      by (auto simp: bit_left_aligned byte_bits_def bit_push_bit_iff bit_ucast_iff)
  next
    case False
    with n show ?thesis by (auto simp: bit_left_aligned bit_push_bit_iff)
  qed
qed

lemma crc16_byte_serial: "crc16_byte c b = crc16_serial c (byte_bits b)"
  by (simp add: crc16_byte_def crc16_serial_left_aligned left_aligned_byte_bits)

lemma crc16_serial_append: "crc16_serial c (as @ bs) = crc16_serial (crc16_serial c as) bs"
  by (simp add: crc16_serial_def)

lemma crc16_bytes_serial: "foldl crc16_byte c data = crc16_serial c (message_bits data)"
  by (induction data arbitrary: c)
    (simp_all add: message_bits_def crc16_byte_serial crc16_serial_append, simp add: crc16_serial_def)

lemma crc16_serial_inject: "crc16_serial a bs = crc16_serial b bs \<longleftrightarrow> a = b"
proof (induction bs arbitrary: a b)
  case Nil
  then show ?case by (simp add: crc16_serial_def)
next
  case (Cons x xs)
  have "crc16_serial a (x # xs) = crc16_serial (crc16_serial_step a x) xs" for a
    by (simp add: crc16_serial_def)
  then show ?case by (simp add: Cons.IH crc16_serial_step_def)
qed

section \<open>What the checksum detects\<close>

lemma message_bits_append [simp]: "message_bits (xs @ ys) = message_bits xs @ message_bits ys"
  by (simp add: message_bits_def)

lemma message_bits_Cons [simp]: "message_bits (b # bs) = byte_bits b @ message_bits bs"
  by (simp add: message_bits_def)

lemma message_bits_Nil [simp]: "message_bits [] = []"
  by (simp add: message_bits_def)

lemma crc16_serial_burst:
  assumes "length e = length e'" and "length e' \<le> 16" and "e \<noteq> e'"
  shows "crc16_serial c (pre @ e @ post) \<noteq> crc16_serial c (pre @ e' @ post)"
proof
  let ?r = "crc16_serial c pre"
  assume "crc16_serial c (pre @ e @ post) = crc16_serial c (pre @ e' @ post)"
  then have "crc16_serial ?r e = crc16_serial ?r e'"
    by (simp add: crc16_serial_append crc16_serial_inject)
  with assms have "left_aligned e = left_aligned e'"
    by (simp add: crc16_serial_left_aligned crc16_bits_inject)
  with assms show False by (simp add: left_aligned_inject)
qed

text \<open>Two checksum bytes appended to a message feed the register like one sixteen-bit word.\<close>

lemma left_aligned_two_bytes:
  "left_aligned (byte_bits a @ byte_bits b) = push_bit 8 (ucast a) OR ucast b"
proof (rule bit_word_eqI)
  fix n assume n: "n < LENGTH(16)"
  show "bit (left_aligned (byte_bits a @ byte_bits b)) n = bit (push_bit 8 (ucast a) OR ucast b :: u16) n"
  proof (cases "8 \<le> n")
    case True
    with n have "7 - (15 - n) = n - 8" by simp
    with True n show ?thesis
      by (auto simp: bit_left_aligned byte_bits_def nth_append bit_or_iff bit_push_bit_iff bit_ucast_iff)
  next
    case False
    then have "7 - (15 - n - 8) = n" by simp
    with False n show ?thesis
      by (auto simp: bit_left_aligned byte_bits_def nth_append bit_or_iff bit_push_bit_iff bit_ucast_iff)
  qed
qed

lemma crc16_append_footer:
  "crc16_serial c (message_bits (data @ [h, l])) = 0 \<longleftrightarrow>
     push_bit 8 (ucast h) OR ucast l = crc16_serial c (message_bits data)"
proof -
  let ?r = "crc16_serial c (message_bits data)" and ?f = "push_bit 8 (ucast h) OR ucast l :: u16"
  have "crc16_serial c (message_bits (data @ [h, l])) = (crc16_bit ^^ 16) (?r XOR ?f)"
    by (simp add: crc16_serial_append [of c "message_bits data"] crc16_serial_left_aligned
        left_aligned_two_bytes)
  also have "\<dots> = 0 \<longleftrightarrow> ?r XOR ?f = 0"
    using crc16_bits_inject [of 16 "?r XOR ?f" 0] crc16_bits_linear [of 16 0 0] by simp
  finally show ?thesis by auto
qed

lemma crc16CcittFalse_serial: "crc16CcittFalse data = crc16_serial 0xFFFF (message_bits data)"
  by (simp only: crc16CcittFalse_def crc16_bytes_serial)

theorem crc16_residue: "crc16CcittFalse (data @ be16 (crc16CcittFalse data)) = 0"
  by (simp only: crc16CcittFalse_serial be16_def crc16_append_footer join_u16)

text \<open>
  The receiver's test, checksum of the data equal to the two footer bytes, is the same as the
  register over data and footer being zero. So a burst that hits the data, the footer, or both,
  is caught by one argument.
\<close>

lemma crc16_check_residue:
  "push_bit 8 (ucast h) OR ucast l = crc16CcittFalse data \<longleftrightarrow> crc16CcittFalse (data @ [h, l]) = 0"
  by (simp only: crc16CcittFalse_serial crc16_append_footer)

lemma crc16_burst_bytes:
  assumes "message_bits data = pre @ e @ post" and "message_bits data' = pre @ e' @ post"
    and "length e = length e'" and "length e' \<le> 16" and "e \<noteq> e'"
  shows "crc16CcittFalse data \<noteq> crc16CcittFalse data'"
  using crc16_serial_burst [OF assms(3-5), of "0xFFFF" pre post] assms(1,2)
  by (simp only: crc16CcittFalse_serial not_False_eq_True)

section \<open>Evaluation on concrete input\<close>

lemma crc16_byte_unfold:
  "crc16_byte c b = crc16_bit (crc16_bit (crc16_bit (crc16_bit
     (crc16_bit (crc16_bit (crc16_bit (crc16_bit (c XOR push_bit 8 (ucast b)))))))))"
  by (simp add: crc16_byte_def eval_nat_numeral)

lemmas crc16_eval = crc16CcittFalse_def crc16_byte_unfold crc16_bit_def push_bit_eq_mult

text \<open>The published check value of CRC-16/CCITT-FALSE: the checksum of \<open>''123456789''\<close>.\<close>

lemma crc16_check_value: "crc16CcittFalse (bytes_of_string ''123456789'') = 0x29B1"
  by (simp add: bytes_of_string_def byte_of_char_def crc16_eval)

end
