(* ===== verification/Framing.thy ===== *)
theory Framing
  imports Crc16
begin

text \<open>
  The standard frame (\<^verbatim>\<open>framed_binary/outbound/frame_encoder.hpp\<close> and
  \<^verbatim>\<open>framed_binary/inbound/frame_decoder.hpp\<close>): twelve header bytes, the payload, two checksum
  bytes. The decoder works on a byte stream: it looks for the magic bytes, checks the header and the
  checksum, drops one byte and tries again when a check fails, and waits when bytes are missing.

  Shown here: what the decoder delivers is exactly what the encoder wrote, wherever it stands in
  the stream; every delivered frame is present in the stream byte for byte; chunk boundaries do not
  matter; the bytes kept are bounded; damaged frames are not delivered.
\<close>

section \<open>FrameEncoder\<close>

definition FrameEncoder_encode :: "frame \<Rightarrow> bytes" where
  "FrameEncoder_encode frame =
     (let h = fr_header frame;
          w = ByteWriter_empty;
          w = writeU8 w kAxtpStandardMagic0;
          w = writeU8 w kAxtpStandardMagic1;
          w = writeU8 w (fh_version h);
          w = writeU8 w (fh_payloadType h);
          w = writeU16 w (word_of_nat (length (fr_payload frame)));
          w = writeU8 w (fh_sourceId h);
          w = writeU8 w (fh_destinationId h);
          w = writeU16 w (fh_messageId h);
          w = writeU8 w (fh_frameIndex h);
          w = writeU8 w (fh_frameCount h);
          w = writeBytes w (fr_payload frame);
          crc = crc16CcittFalse (wr_bytes w);
          w = writeU16 w crc
      in fst (takeBytes w))"

section \<open>FrameDecoder\<close>

definition isPayloadType :: "byte \<Rightarrow> bool" where
  "isPayloadType v \<longleftrightarrow> v = PayloadType_Control \<or> v = PayloadType_Rpc \<or> v = PayloadType_Stream"

text \<open>The first \<open>i\<close> with \<^verbatim>\<open>i + 1 < bytes.size()\<close> at which the two magic bytes stand.\<close>

fun findMagic :: "bytes \<Rightarrow> nat option" where
  "findMagic (a # b # rest) =
     (if a = kAxtpStandardMagic0 \<and> b = kAxtpStandardMagic1 then Some 0
      else map_option Suc (findMagic (b # rest)))"
| "findMagic [_] = None"
| "findMagic [] = None"

definition resyncToMagic :: "byte_buffer \<Rightarrow> byte_buffer" where
  "resyncToMagic buffer =
     (case findMagic (bb_bytes buffer) of
        Some i \<Rightarrow> (if i > 0 then snd (ByteBuffer_consume buffer i) else buffer)
      | None \<Rightarrow>
          (if bb_bytes buffer = [] then buffer
           else (let keepTrailingMagic0 = (last (bb_bytes buffer) = kAxtpStandardMagic0);
                     keep = (if keepTrailingMagic0 then 1 else 0)
                 in snd (ByteBuffer_consume buffer (length (bb_bytes buffer) - keep)))))"

text \<open>
  One round of the loop in \<^verbatim>\<open>parseLoop\<close>: it returns, continues with the next round, or hands a
  frame to the sink and continues.
\<close>

datatype parse_step =
    Return byte_buffer
  | Continue byte_buffer
  | Deliver frame byte_buffer

definition parseStep :: "byte_buffer \<Rightarrow> parse_step" where
  "parseStep buffer0 =
     (let buffer = resyncToMagic buffer0 in
      if length (bb_bytes buffer) < kStandardFrameHeaderSize + kStandardFrameCrcSize
      then Return buffer
      else case ByteBuffer_peek buffer 0 kStandardFrameHeaderSize of
        Inl _ \<Rightarrow> Return buffer
      | Inr headerBytes \<Rightarrow>
        (let r = ByteReader headerBytes;
             r = snd (readU8 r);
             r = snd (readU8 r);
             (version, r) = readU8 r;
             (payloadType, r) = readU8 r;
             (payloadLength, r) = readU16 r;
             (sourceId, r) = readU8 r;
             (destinationId, r) = readU8 r;
             (messageId, r) = readU16 r;
             (frameIndex, r) = readU8 r;
             (frameCount, r) = readU8 r
         in
         if isl version \<or> isl payloadType \<or> isl payloadLength \<or> isl sourceId \<or>
            isl destinationId \<or> isl messageId \<or> isl frameIndex \<or> isl frameCount
         then Return buffer
         else if projr version \<noteq> kAxtpVersion1 \<or> \<not> isPayloadType (projr payloadType) \<or>
                 projr frameCount = 0 \<or> projr frameIndex \<ge> projr frameCount
         then Continue (snd (ByteBuffer_consume buffer 1))
         else
         (let totalSize = kStandardFrameHeaderSize + unat (projr payloadLength) + kStandardFrameCrcSize in
          if length (bb_bytes buffer) < totalSize then Return buffer
          else case ByteBuffer_peek buffer 0 totalSize of
            Inl _ \<Rightarrow> Return buffer
          | Inr frameBytes \<Rightarrow>
            (let footerReader = ByteReader (take kStandardFrameCrcSize
                                              (drop (totalSize - kStandardFrameCrcSize) frameBytes));
                 expectedCrc = fst (readU16 footerReader);
                 actualCrc = crc16CcittFalse (take (totalSize - kStandardFrameCrcSize) frameBytes)
             in
             if isl expectedCrc \<or> projr expectedCrc \<noteq> actualCrc
             then Continue (snd (ByteBuffer_consume buffer 1))
             else Deliver
                    \<lparr>fr_header = \<lparr>fh_version = projr version, fh_payloadType = projr payloadType,
                       fh_payloadLength = projr payloadLength, fh_sourceId = projr sourceId,
                       fh_destinationId = projr destinationId, fh_messageId = projr messageId,
                       fh_frameIndex = projr frameIndex, fh_frameCount = projr frameCount\<rparr>,
                     fr_payload = take (unat (projr payloadLength))
                                    (drop kStandardFrameHeaderSize frameBytes),
                     fr_crc16 = projr expectedCrc\<rparr>
                    (snd (ByteBuffer_consume buffer totalSize))))))"

section \<open>Resynchronisation on the bytes\<close>

definition resync :: "bytes \<Rightarrow> bytes" where
  "resync xs = bb_bytes (resyncToMagic \<lparr>bb_bytes = xs\<rparr>)"

lemma findMagic_bound: "findMagic xs = Some i \<Longrightarrow> Suc i < length xs"
  by (induction xs arbitrary: i rule: findMagic.induct) (auto split: if_splits)

lemma resync_eq:
  "resync xs = (case findMagic xs of Some i \<Rightarrow> drop i xs
     | None \<Rightarrow> if xs \<noteq> [] \<and> last xs = kAxtpStandardMagic0 then [kAxtpStandardMagic0] else [])"
proof (cases "findMagic xs")
  case None
  have "drop (length xs - 1) xs = [last xs]" if "xs \<noteq> []"
    using that by (cases xs rule: rev_cases) auto
  then show ?thesis using None
    by (auto simp: resync_def resyncToMagic_def ByteBuffer_consume_def)
next
  case (Some i)
  with findMagic_bound [OF Some] show ?thesis
    by (auto simp: resync_def resyncToMagic_def ByteBuffer_consume_def)
qed

lemma bb_bytes_resync: "bb_bytes (resyncToMagic b) = resync (bb_bytes b)"
  by (cases b) (simp add: resync_def)

lemma resync_Nil [simp]: "resync [] = []"
  by (simp add: resync_eq)

lemma resync_Cons_other: "a \<noteq> kAxtpStandardMagic0 \<Longrightarrow> resync (a # z) = resync z"
  by (cases z) (auto simp: resync_eq split: option.split)

lemma resync_Cons_skip:
  "\<not> (a = kAxtpStandardMagic0 \<and> b = kAxtpStandardMagic1) \<Longrightarrow> resync (a # b # z) = resync (b # z)"
  by (auto simp: resync_eq split: option.split)

lemma resync_magic [simp]:
  "resync (kAxtpStandardMagic0 # kAxtpStandardMagic1 # z) = kAxtpStandardMagic0 # kAxtpStandardMagic1 # z"
  by (simp add: resync_eq)

lemma findMagic_append: "findMagic xs = Some i \<Longrightarrow> findMagic (xs @ ys) = Some i"
  by (induction xs arbitrary: i rule: findMagic.induct) (auto split: if_splits)

lemma resync_single: "resync [a] = (if a = kAxtpStandardMagic0 then [a] else [])"
  by (simp add: resync_eq)

lemma resync_append: "resync (xs @ ys) = resync (resync xs @ ys)"
proof (induction xs rule: findMagic.induct)
  case (1 a b rest)
  show ?case
  proof (cases "a = kAxtpStandardMagic0 \<and> b = kAxtpStandardMagic1")
    case False
    then show ?thesis using 1 by (simp add: resync_Cons_skip)
  qed simp
next
  case (2 a)
  then show ?case by (cases "a = kAxtpStandardMagic0") (simp_all add: resync_single resync_Cons_other)
qed simp

lemma resync_idem [simp]: "resync (resync xs) = resync xs"
  using resync_append [of xs "[]"] by simp

lemma resync_long:
  "2 \<le> length (resync xs) \<Longrightarrow>
     resync (xs @ ys) = resync xs @ ys \<and>
     (\<exists>z. resync xs = kAxtpStandardMagic0 # kAxtpStandardMagic1 # z)"
proof -
  assume long: "2 \<le> length (resync xs)"
  then obtain i where i: "findMagic xs = Some i" by (auto simp: resync_eq split: option.splits if_splits)
  have "\<exists>z. drop i xs = kAxtpStandardMagic0 # kAxtpStandardMagic1 # z" using i
    by (induction xs arbitrary: i rule: findMagic.induct) (auto split: if_splits)
  with i findMagic_append [OF i, of ys] findMagic_bound [OF i] show ?thesis by (simp add: resync_eq)
qed

lemma resync_suffix: "\<exists>g. xs = g @ resync xs"
proof (induction xs rule: findMagic.induct)
  case (1 a b rest)
  show ?case
  proof (cases "a = kAxtpStandardMagic0 \<and> b = kAxtpStandardMagic1")
    case False
    then obtain g where "b # rest = g @ resync (b # rest)" using 1 by blast
    with False show ?thesis by (metis append_Cons resync_Cons_skip)
  qed simp
next
  case (2 a)
  then show ?case by (cases "a = kAxtpStandardMagic0") (simp_all add: resync_eq)
qed simp

section \<open>One round on the bytes\<close>

text \<open>
  The round read as a case distinction on the bytes: \<open>frame_bytes\<close> is the image of a frame with
  explicit length and checksum fields.
\<close>

definition header_ok :: "byte \<Rightarrow> byte \<Rightarrow> byte \<Rightarrow> byte \<Rightarrow> bool" where
  "header_ok v pt fi fc \<longleftrightarrow> v = kAxtpVersion1 \<and> isPayloadType pt \<and> fc \<noteq> 0 \<and> fi < fc"

definition mk_frame :: "byte \<Rightarrow> byte \<Rightarrow> u16 \<Rightarrow> byte \<Rightarrow> byte \<Rightarrow> u16 \<Rightarrow> byte \<Rightarrow> byte \<Rightarrow> bytes \<Rightarrow> u16 \<Rightarrow> frame" where
  "mk_frame v pt len src dst mid fi fc payload crc =
     \<lparr>fr_header = \<lparr>fh_version = v, fh_payloadType = pt, fh_payloadLength = len, fh_sourceId = src,
        fh_destinationId = dst, fh_messageId = mid, fh_frameIndex = fi, fh_frameCount = fc\<rparr>,
      fr_payload = payload, fr_crc16 = crc\<rparr>"

lemma parseStep_short:
  "length (resync (bb_bytes b)) < 14 \<Longrightarrow> parseStep b = Return (resyncToMagic b)"
  by (simp add: parseStep_def bb_bytes_resync protocol_consts)

lemma frame_slices:
  assumes "len + 2 \<le> length rest"
  shows "drop (12 + len) (take (14 + len) (m0 # m1 # v # pt # l1 # l0 # src # dst # i1 # i0 # fi # fc # rest)) =
      [rest ! len, rest ! Suc len]"
    and "take len (drop 12 (take (14 + len) (m0 # m1 # v # pt # l1 # l0 # src # dst # i1 # i0 # fi # fc # rest))) =
      take len rest"
proof -
  let ?H = "[m0, m1, v, pt, l1, l0, src, dst, i1, i0, fi, fc]"
  have take_L: "take (14 + len) (?H @ rest) = ?H @ take (len + 2) rest"
    by (simp only: take_append) simp
  have "drop (12 + len) (take (14 + len) (?H @ rest)) = drop len (take (len + 2) rest)"
    by (simp only: take_L drop_append) simp
  then show "drop (12 + len) (take (14 + len) (m0 # m1 # v # pt # l1 # l0 # src # dst # i1 # i0 # fi # fc # rest)) =
      [rest ! len, rest ! Suc len]"
    using assms by (simp add: list_eq_iff_nth_eq less_Suc_eq numeral_2_eq_2)
  have "take len (drop 12 (take (14 + len) (?H @ rest))) = take len rest"
    by (simp only: take_L) simp
  then show "take len (drop 12 (take (14 + len) (m0 # m1 # v # pt # l1 # l0 # src # dst # i1 # i0 # fi # fc # rest))) =
      take len rest" by simp
qed

lemma parseStep_header:
  assumes bs: "resync (bb_bytes b) = m0 # m1 # v # pt # l1 # l0 # src # dst # i1 # i0 # fi # fc # rest"
    and rest: "2 \<le> length rest" and len: "len = unat (join16 l1 l0)"
  shows "parseStep b =
    (if \<not> header_ok v pt fi fc then Continue \<lparr>bb_bytes = tl (resync (bb_bytes b))\<rparr>
     else if length rest < len + 2 then Return (resyncToMagic b)
     else if join16 (rest ! len) (rest ! Suc len) \<noteq> crc16CcittFalse (take (12 + len) (resync (bb_bytes b)))
     then Continue \<lparr>bb_bytes = tl (resync (bb_bytes b))\<rparr>
     else Deliver
       (mk_frame v pt (join16 l1 l0) src dst (join16 i1 i0) fi fc (take len rest)
         (join16 (rest ! len) (rest ! Suc len)))
       \<lparr>bb_bytes = drop (len + 2) rest\<rparr>)"
proof -
  let ?b = "resyncToMagic b"
  have b: "bb_bytes ?b = m0 # m1 # v # pt # l1 # l0 # src # dst # i1 # i0 # fi # fc # rest"
    using bs by (simp add: bb_bytes_resync)
  have consume: "snd (ByteBuffer_consume ?b n) = \<lparr>bb_bytes = drop n (bb_bytes ?b)\<rparr>"
    if "n \<le> length (bb_bytes ?b)" for n
    using that by (simp add: ByteBuffer_consume_def)
  have step: "parseStep b =
    (if \<not> header_ok v pt fi fc then Continue (snd (ByteBuffer_consume ?b 1))
     else if length rest < len + 2 then Return ?b
     else if join16 (rest ! len) (rest ! Suc len) \<noteq> crc16CcittFalse (take (12 + len) (bb_bytes ?b))
     then Continue (snd (ByteBuffer_consume ?b 1))
     else Deliver
       (mk_frame v pt (join16 l1 l0) src dst (join16 i1 i0) fi fc (take len rest)
         (join16 (rest ! len) (rest ! Suc len)))
       (snd (ByteBuffer_consume ?b (14 + len))))"
  proof (cases "header_ok v pt fi fc")
    case False
    then show ?thesis using rest
      by (auto simp add: parseStep_def protocol_consts b ByteBuffer_peek_ok
          ByteReader_after readU8_after readU16_join16 header_ok_def Let_def)
  next
    case True
    show ?thesis
    proof (cases "length rest < len + 2")
      case short: True
      then show ?thesis using rest True
        by (simp add: parseStep_def protocol_consts b ByteBuffer_peek_ok
            ByteReader_after readU8_after readU16_join16 header_ok_def len not_le Let_def)
    next
      case False
      then show ?thesis using rest True
        by (auto simp add: parseStep_def protocol_consts b ByteBuffer_peek_ok
            ByteReader_after readU8_after readU16_join16 header_ok_def len [symmetric] not_le
            frame_slices mk_frame_def Let_def)
    qed
  qed
  have "drop (14 + len) ([m0, m1, v, pt, l1, l0, src, dst, i1, i0, fi, fc] @ rest) = drop (len + 2) rest"
    by (simp only: drop_append) (simp add: add.commute)
  then show ?thesis
    using rest by (simp only: step) (simp add: consume b bs)
qed

lemma resync_header:
  assumes "14 \<le> length (resync xs)"
  obtains v pt l1 l0 src dst i1 i0 fi fc rest where
    "resync xs = kAxtpStandardMagic0 # kAxtpStandardMagic1 # v # pt # l1 # l0 # src # dst # i1 # i0 # fi # fc # rest"
    and "2 \<le> length rest"
proof -
  obtain z where z: "resync xs = kAxtpStandardMagic0 # kAxtpStandardMagic1 # z"
    using assms resync_long [of xs "[]"] by auto
  with assms have "12 \<le> length z" by simp
  then have "\<exists>a b c d e f g h i j rest. z = a # b # c # d # e # f # g # h # i # j # rest \<and> 2 \<le> length rest"
    by (simp add: Suc_le_length_iff numeral_eq_Suc) blast
  with z that show ?thesis by blast
qed

text \<open>A round depends on the buffer only through its resynchronised bytes, and makes progress.\<close>

lemma resyncToMagic_idem [simp]: "resyncToMagic (resyncToMagic b) = resyncToMagic b"
  by (rule byte_buffer_eqI) (simp add: bb_bytes_resync)

lemma parseStep_resync: "resync xs = resync ys \<Longrightarrow> parseStep \<lparr>bb_bytes = xs\<rparr> = parseStep \<lparr>bb_bytes = ys\<rparr>"
proof -
  assume "resync xs = resync ys"
  then have "resyncToMagic \<lparr>bb_bytes = xs\<rparr> = resyncToMagic \<lparr>bb_bytes = ys\<rparr>"
    by (intro byte_buffer_eqI) (simp add: bb_bytes_resync)
  then show ?thesis by (simp add: parseStep_def)
qed

lemma length_resync_le: "length (resync xs) \<le> length xs"
  using resync_suffix [of xs] by (metis le_add2 length_append)

lemma parseStep_cases:
  obtains (short) "length (resync (bb_bytes b)) < 14" "parseStep b = Return (resyncToMagic b)"
  | (long) v pt l1 l0 src dst i1 i0 fi fc rest where
    "resync (bb_bytes b) = kAxtpStandardMagic0 # kAxtpStandardMagic1 # v # pt # l1 # l0 # src # dst # i1 # i0 # fi # fc # rest"
    "2 \<le> length rest"
  using parseStep_short [of b] resync_header [of "bb_bytes b"] that by (metis not_less)

lemma parseStep_Return:
  assumes "parseStep b = Return b'"
  shows "b' = resyncToMagic b"
proof (cases b rule: parseStep_cases)
  case short
  with assms show ?thesis by simp
next
  case long
  from parseStep_header [OF long refl] assms show ?thesis by (auto split: if_splits)
qed

lemma parseStep_progress:
  "parseStep b = Continue b' \<Longrightarrow> length (bb_bytes b') < length (bb_bytes b)"
  "parseStep b = Deliver f b' \<Longrightarrow> length (bb_bytes b') < length (bb_bytes b)"
proof -
  have *: "length (bb_bytes b') < length (bb_bytes b)"
    if step: "parseStep b = Continue b' \<or> parseStep b = Deliver f b'"
  proof (cases b rule: parseStep_cases)
    case short
    with step show ?thesis by auto
  next
    case (long v pt l1 l0 src dst i1 i0 fi fc rest)
    have "length (bb_bytes b') < length (resync (bb_bytes b))"
      using step parseStep_header [OF long refl] long(1) by (auto split: if_splits)
    then show ?thesis using length_resync_le [of "bb_bytes b"] by linarith
  qed
  show "parseStep b = Continue b' \<Longrightarrow> length (bb_bytes b') < length (bb_bytes b)"
    and "parseStep b = Deliver f b' \<Longrightarrow> length (bb_bytes b') < length (bb_bytes b)"
    using * by blast+
qed

text \<open>More input does not change a round that ended without waiting.\<close>

lemma parseStep_extend:
  "parseStep b = Continue b' \<Longrightarrow>
     parseStep \<lparr>bb_bytes = bb_bytes b @ ys\<rparr> = Continue \<lparr>bb_bytes = bb_bytes b' @ ys\<rparr>" (is "?P \<Longrightarrow> ?Q")
  "parseStep b = Deliver f b' \<Longrightarrow>
     parseStep \<lparr>bb_bytes = bb_bytes b @ ys\<rparr> = Deliver f \<lparr>bb_bytes = bb_bytes b' @ ys\<rparr>" (is "?R \<Longrightarrow> ?S")
proof -
  have "(?P \<longrightarrow> ?Q) \<and> (?R \<longrightarrow> ?S)"
  proof (cases b rule: parseStep_cases)
    case short
    then show ?thesis by simp
  next
    case (long v pt l1 l0 src dst i1 i0 fi fc rest)
    let ?len = "unat (join16 l1 l0)"
    have ext: "resync (bb_bytes b @ ys) = resync (bb_bytes b) @ ys"
      using resync_long [of "bb_bytes b" ys] long(1) by simp
    have "parseStep \<lparr>bb_bytes = bb_bytes b @ ys\<rparr> = (if \<not> header_ok v pt fi fc
        then Continue \<lparr>bb_bytes = tl (resync (bb_bytes b @ ys))\<rparr>
        else if length (rest @ ys) < ?len + 2 then Return (resyncToMagic \<lparr>bb_bytes = bb_bytes b @ ys\<rparr>)
        else if join16 ((rest @ ys) ! ?len) ((rest @ ys) ! Suc ?len) \<noteq>
                crc16CcittFalse (take (12 + ?len) (resync (bb_bytes b @ ys)))
        then Continue \<lparr>bb_bytes = tl (resync (bb_bytes b @ ys))\<rparr>
        else Deliver
          (mk_frame v pt (join16 l1 l0) src dst (join16 i1 i0) fi fc (take ?len (rest @ ys))
            (join16 ((rest @ ys) ! ?len) ((rest @ ys) ! Suc ?len)))
          \<lparr>bb_bytes = drop (?len + 2) (rest @ ys)\<rparr>)"
      using parseStep_header [of "\<lparr>bb_bytes = bb_bytes b @ ys\<rparr>" _ _ v pt l1 l0 src dst i1 i0 fi fc "rest @ ys", OF _ _ refl]
        ext long by simp
    moreover have "tl (resync (bb_bytes b @ ys)) = tl (resync (bb_bytes b)) @ ys"
      using ext long(1) by simp
    moreover have "take (12 + ?len) (resync (bb_bytes b @ ys)) = take (12 + ?len) (resync (bb_bytes b))"
      if "?len + 2 \<le> length rest"
    proof -
      have "12 + ?len \<le> length (resync (bb_bytes b))" using that long(1) by simp
      then show ?thesis by (simp only: ext take_append) simp
    qed
    ultimately show ?thesis
      using parseStep_header [OF long refl] by (auto simp: nth_append split: if_splits)
  qed
  then show "?P \<Longrightarrow> ?Q" and "?R \<Longrightarrow> ?S" by blast+
qed

section \<open>The loop\<close>

text \<open>
  The sink \<^verbatim>\<open>IFrameSink\<close> is the argument \<open>onFrame\<close>, which acts on a state of its own. Every round
  that does not return removes at least one byte, so the loop ends on every input.
\<close>

function parseLoop :: "(frame \<Rightarrow> 's \<Rightarrow> 's) \<Rightarrow> byte_buffer \<Rightarrow> 's \<Rightarrow> byte_buffer \<times> 's" where
  "parseLoop onFrame buffer s =
     (case parseStep buffer of
        Return buffer' \<Rightarrow> (buffer', s)
      | Continue buffer' \<Rightarrow> parseLoop onFrame buffer' s
      | Deliver frame buffer' \<Rightarrow> parseLoop onFrame buffer' (onFrame frame s))"
  by pat_completeness auto
termination
  by (relation "measure (\<lambda>(_, b, _). length (bb_bytes b))") (auto dest: parseStep_progress)

declare parseLoop.simps [simp del]

definition FrameDecoder_onBytes ::
    "(frame \<Rightarrow> 's \<Rightarrow> 's) \<Rightarrow> byte_buffer \<Rightarrow> bytes \<Rightarrow> 's \<Rightarrow> byte_buffer \<times> 's" where
  "FrameDecoder_onBytes onFrame buffer data s = parseLoop onFrame (ByteBuffer_append buffer data) s"

text \<open>The stream decoder as a function from the bytes held to the frames delivered and the bytes kept.\<close>

definition decode_stream :: "bytes \<Rightarrow> frame list \<times> bytes" where
  "decode_stream xs =
     (let (buffer, fs) = parseLoop (\<lambda>f fs. fs @ [f]) \<lparr>bb_bytes = xs\<rparr> []
      in (fs, bb_bytes buffer))"

lemma parseLoop_acc:
  "parseLoop (\<lambda>f fs. fs @ [f]) b acc =
     (fst (parseLoop (\<lambda>f fs. fs @ [f]) b []), acc @ snd (parseLoop (\<lambda>f fs. fs @ [f]) b []))"
proof (induction "length (bb_bytes b)" arbitrary: b acc rule: less_induct)
  case less
  show ?case
  proof (cases "parseStep b")
    case (Return b')
    then show ?thesis by (simp add: parseLoop.simps [of _ b])
  next
    case (Continue b')
    note IH = less.hyps [OF parseStep_progress(1) [OF Continue]]
    show ?thesis using IH [of acc] Continue by (simp add: parseLoop.simps [of _ b])
  next
    case (Deliver f b')
    note IH = less.hyps [OF parseStep_progress(2) [OF Deliver]]
    show ?thesis using IH [of "acc @ [f]"] IH [of "[f]"] Deliver
      by (simp add: parseLoop.simps [of _ b])
  qed
qed

lemma decode_stream_step:
  "decode_stream xs =
     (case parseStep \<lparr>bb_bytes = xs\<rparr> of
        Return b \<Rightarrow> ([], bb_bytes b)
      | Continue b \<Rightarrow> decode_stream (bb_bytes b)
      | Deliver f b \<Rightarrow> (f # fst (decode_stream (bb_bytes b)), snd (decode_stream (bb_bytes b))))"
proof (cases "parseStep \<lparr>bb_bytes = xs\<rparr>")
  case (Deliver f b')
  then show ?thesis using parseLoop_acc [of b' "[f]"]
    by (simp add: decode_stream_def parseLoop.simps [of _ "\<lparr>bb_bytes = xs\<rparr>"] split_beta)
qed (simp_all add: decode_stream_def parseLoop.simps [of _ "\<lparr>bb_bytes = xs\<rparr>"])

lemma parseLoop_decode_stream:
  "parseLoop onFrame b s =
     (\<lparr>bb_bytes = snd (decode_stream (bb_bytes b))\<rparr>, fold onFrame (fst (decode_stream (bb_bytes b))) s)"
proof (induction "length (bb_bytes b)" arbitrary: b s rule: less_induct)
  case less
  have b: "\<lparr>bb_bytes = bb_bytes b\<rparr> = b" by simp
  show ?case
  proof (cases "parseStep b")
    case (Return b')
    then show ?thesis
      by (simp add: parseLoop.simps [of _ b] decode_stream_step [of "bb_bytes b"] b)
  next
    case (Continue b')
    with less.hyps [OF parseStep_progress(1) [OF Continue]] show ?thesis
      by (simp add: parseLoop.simps [of _ b] decode_stream_step [of "bb_bytes b"] b)
  next
    case (Deliver f b')
    with less.hyps [OF parseStep_progress(2) [OF Deliver]] show ?thesis
      by (simp add: parseLoop.simps [of _ b] decode_stream_step [of "bb_bytes b"] b)
  qed
qed

lemma decode_stream_resync: "decode_stream (resync xs) = decode_stream xs"
  using parseStep_resync [of "resync xs" xs]
  by (simp add: decode_stream_step [of xs] decode_stream_step [of "resync xs"])

lemma decode_stream_append:
  "decode_stream (xs @ ys) =
     (fst (decode_stream xs) @ fst (decode_stream (snd (decode_stream xs) @ ys)),
      snd (decode_stream (snd (decode_stream xs) @ ys)))"
proof (induction "length xs" arbitrary: xs rule: less_induct)
  case less
  show ?case
  proof (cases "parseStep \<lparr>bb_bytes = xs\<rparr>")
    case (Return b')
    have "decode_stream (xs @ ys) = decode_stream (resync xs @ ys)"
      using decode_stream_resync [of "xs @ ys"] decode_stream_resync [of "resync xs @ ys"]
      by (simp add: resync_append [of xs ys])
    with Return show ?thesis
      by (simp add: decode_stream_step [of xs] parseStep_Return [OF Return] bb_bytes_resync)
  next
    case (Continue b')
    with less [of "bb_bytes b'"] parseStep_progress(1) [OF Continue] parseStep_extend(1) [OF Continue, of ys]
    show ?thesis by (simp add: decode_stream_step [of xs] decode_stream_step [of "xs @ ys"])
  next
    case (Deliver f b')
    with less [of "bb_bytes b'"] parseStep_progress(2) [OF Deliver] parseStep_extend(2) [OF Deliver, of ys]
    show ?thesis by (simp add: decode_stream_step [of xs] decode_stream_step [of "xs @ ys"])
  qed
qed

lemma decode_stream_Nil [simp]: "decode_stream [] = ([], [])"
  by (simp add: decode_stream_step [of "[]"] parseStep_short bb_bytes_resync)

interpretation frame_stream: incremental_decoder decode_stream
  by unfold_locales (rule decode_stream_Nil, rule decode_stream_append)

section \<open>What the encoder writes, the decoder delivers\<close>

text \<open>The bytes under the checksum, and the frame the receiver rebuilds.\<close>

definition frame_head :: "frame \<Rightarrow> bytes" where
  "frame_head f =
     [kAxtpStandardMagic0, kAxtpStandardMagic1, fh_version (fr_header f), fh_payloadType (fr_header f)]
     @ be16 (word_of_nat (length (fr_payload f)))
     @ [fh_sourceId (fr_header f), fh_destinationId (fr_header f)]
     @ be16 (fh_messageId (fr_header f))
     @ [fh_frameIndex (fr_header f), fh_frameCount (fr_header f)]"

definition wire_frame :: "frame \<Rightarrow> frame" where
  "wire_frame f =
     \<lparr>fr_header = (fr_header f)\<lparr>fh_payloadLength := word_of_nat (length (fr_payload f))\<rparr>,
      fr_payload = fr_payload f, fr_crc16 = crc16CcittFalse (frame_head f @ fr_payload f)\<rparr>"

definition sendable_frame :: "frame \<Rightarrow> bool" where
  "sendable_frame f \<longleftrightarrow>
     header_ok (fh_version (fr_header f)) (fh_payloadType (fr_header f))
       (fh_frameIndex (fr_header f)) (fh_frameCount (fr_header f)) \<and>
     length (fr_payload f) < 2 ^ 16"

lemma FrameEncoder_encode_eq:
  "FrameEncoder_encode f =
     frame_head f @ fr_payload f @ be16 (crc16CcittFalse (frame_head f @ fr_payload f))"
  by (simp add: FrameEncoder_encode_def frame_head_def Let_def)

lemma length_frame_head [simp]: "length (frame_head f) = 12"
  by (simp add: frame_head_def)

lemma length_FrameEncoder_encode [simp]: "length (FrameEncoder_encode f) = 14 + length (fr_payload f)"
  by (simp add: FrameEncoder_encode_eq)

lemma be16_cases: obtains h l where "be16 v = [h, l]" "join16 h l = v"
  by (metis be16_def be16_join16 u16_wire.enc_inject)

lemma unat_length_u16: "n < 2 ^ 16 \<Longrightarrow> unat (word_of_nat n :: u16) = n"
  by (simp add: unat_of_nat)

lemma parseStep_encode:
  assumes "sendable_frame f"
  shows "parseStep \<lparr>bb_bytes = FrameEncoder_encode f @ ys\<rparr> = Deliver (wire_frame f) \<lparr>bb_bytes = ys\<rparr>"
proof -
  let ?h = "fr_header f" and ?p = "fr_payload f"
  let ?crc = "crc16CcittFalse (frame_head f @ ?p)"
  obtain l1 l0 where l: "be16 (word_of_nat (length ?p)) = [l1, l0]" "join16 l1 l0 = word_of_nat (length ?p)"
    by (rule be16_cases)
  obtain i1 i0 where i: "be16 (fh_messageId ?h) = [i1, i0]" "join16 i1 i0 = fh_messageId ?h"
    by (rule be16_cases)
  obtain c1 c0 where c: "be16 ?crc = [c1, c0]" "join16 c1 c0 = ?crc" by (rule be16_cases)
  let ?rest = "?p @ c1 # c0 # ys"
  have head: "frame_head f = kAxtpStandardMagic0 # kAxtpStandardMagic1 # fh_version ?h # fh_payloadType ?h
      # l1 # l0 # fh_sourceId ?h # fh_destinationId ?h # i1 # i0 # fh_frameIndex ?h # [fh_frameCount ?h]"
    by (simp add: frame_head_def l(1) i(1))
  have "resync (FrameEncoder_encode f @ ys) = FrameEncoder_encode f @ ys"
    by (simp add: FrameEncoder_encode_eq head)
  moreover have "FrameEncoder_encode f @ ys = kAxtpStandardMagic0 # kAxtpStandardMagic1 # fh_version ?h # fh_payloadType ?h
      # l1 # l0 # fh_sourceId ?h # fh_destinationId ?h # i1 # i0 # fh_frameIndex ?h # fh_frameCount ?h # ?rest"
    by (simp add: FrameEncoder_encode_eq c(1), simp add: head)
  ultimately have bs: "resync (bb_bytes \<lparr>bb_bytes = FrameEncoder_encode f @ ys\<rparr>)
      = kAxtpStandardMagic0 # kAxtpStandardMagic1 # fh_version ?h # fh_payloadType ?h
      # l1 # l0 # fh_sourceId ?h # fh_destinationId ?h # i1 # i0 # fh_frameIndex ?h # fh_frameCount ?h # ?rest"
    by simp
  have crc: "take (12 + length ?p) (FrameEncoder_encode f @ ys) = frame_head f @ ?p"
    by (simp add: FrameEncoder_encode_eq)
  have len: "length ?p = unat (join16 l1 l0)"
    using assms by (simp only: l(2) sendable_frame_def unat_length_u16)
  have ok: "header_ok (fh_version ?h) (fh_payloadType ?h) (fh_frameIndex ?h) (fh_frameCount ?h)"
    using assms by (simp add: sendable_frame_def)
  show ?thesis
    unfolding parseStep_header [OF bs _ len, simplified]
    using ok crc \<open>resync (FrameEncoder_encode f @ ys) = _\<close>
    by (simp add: nth_append l(2) i(2) c(2) mk_frame_def wire_frame_def)
qed

lemma decode_stream_encode:
  "sendable_frame f \<Longrightarrow> decode_stream (FrameEncoder_encode f @ ys) =
     (wire_frame f # fst (decode_stream ys), snd (decode_stream ys))"
  by (simp add: decode_stream_step [of "FrameEncoder_encode f @ ys"] parseStep_encode)

text \<open>Bytes that hold no magic pair and do not end in its first byte are skipped.\<close>

definition skippable :: "bytes \<Rightarrow> bool" where
  "skippable g \<longleftrightarrow> findMagic g = None \<and> (g = [] \<or> last g \<noteq> kAxtpStandardMagic0)"

lemma decode_stream_skip:
  assumes "skippable g"
  shows "decode_stream (g @ ys) = decode_stream ys"
proof -
  have "resync g = []" using assms by (auto simp: skippable_def resync_eq)
  then have "resync (g @ ys) = resync ys" using resync_append [of g ys] by simp
  then show ?thesis by (metis decode_stream_resync)
qed

lemma decode_stream_frames:
  assumes "\<forall>(g, f)\<in>set gfs. skippable g \<and> sendable_frame f"
  shows "decode_stream (concat (map (\<lambda>(g, f). g @ FrameEncoder_encode f) gfs) @ ys) =
     (map (wire_frame \<circ> snd) gfs @ fst (decode_stream ys), snd (decode_stream ys))"
  using assms
  by (induction gfs) (auto simp: decode_stream_skip decode_stream_encode)

section \<open>What is delivered was received\<close>

lemma parseStep_Deliver:
  assumes "parseStep b = Deliver f b'"
  shows "sendable_frame f \<and> wire_frame f = f \<and> (\<exists>g. bb_bytes b = g @ FrameEncoder_encode f @ bb_bytes b')"
proof (cases b rule: parseStep_cases)
  case short
  with assms show ?thesis by simp
next
  case (long v pt l1 l0 src dst i1 i0 fi fc rest)
  let ?len = "unat (join16 l1 l0)"
  from assms parseStep_header [OF long refl]
  have ok: "header_ok v pt fi fc" and len: "?len + 2 \<le> length rest"
    and crc: "join16 (rest ! ?len) (rest ! Suc ?len) = crc16CcittFalse (take (12 + ?len) (resync (bb_bytes b)))"
    and f: "f = mk_frame v pt (join16 l1 l0) src dst (join16 i1 i0) fi fc (take ?len rest)
        (join16 (rest ! ?len) (rest ! Suc ?len))"
    and b': "bb_bytes b' = drop (?len + 2) rest"
    by (auto split: if_splits)
  have lenp: "length (fr_payload f) = ?len" using len by (simp add: f mk_frame_def)
  have lenb: "?len < 2 ^ 16" using unsigned_less [of "join16 l1 l0", where 'a = nat] by simp
  have head: "frame_head f = [kAxtpStandardMagic0, kAxtpStandardMagic1, v, pt, l1, l0, src, dst, i1, i0, fi, fc]"
    using lenp by (simp add: frame_head_def f mk_frame_def)
  have body: "take (12 + ?len) (resync (bb_bytes b)) = frame_head f @ fr_payload f"
  proof -
    have "take (12 + ?len) ([kAxtpStandardMagic0, kAxtpStandardMagic1, v, pt, l1, l0, src, dst, i1, i0, fi, fc] @ rest)
        = frame_head f @ take ?len rest"
      unfolding take_append by (simp add: head)
    then show ?thesis by (simp add: long(1) f mk_frame_def)
  qed
  have "rest = take ?len rest @ rest ! ?len # rest ! Suc ?len # drop (?len + 2) rest"
    using len by (simp add: id_take_nth_drop [symmetric] Cons_nth_drop_Suc)
  then have "resync (bb_bytes b) = FrameEncoder_encode f @ bb_bytes b'"
    unfolding FrameEncoder_encode_eq crc [unfolded body, symmetric]
    by (simp add: long(1) head b', simp add: f mk_frame_def)
  moreover have "sendable_frame f" using ok lenp lenb by (simp add: sendable_frame_def f mk_frame_def)
  moreover have "wire_frame f = f"
  proof -
    have "word_of_nat (length (fr_payload f)) = join16 l1 l0" using lenp by simp
    with crc body show ?thesis by (simp add: wire_frame_def) (simp add: f mk_frame_def)
  qed
  ultimately show ?thesis using resync_suffix [of "bb_bytes b"] by metis
qed

lemma decode_stream_sound:
  "\<exists>gs tail. length gs = length (fst (decode_stream xs)) \<and>
     xs = concat (map2 (\<lambda>g f. g @ FrameEncoder_encode f) gs (fst (decode_stream xs)))
            @ tail @ snd (decode_stream xs) \<and>
     (\<forall>f\<in>set (fst (decode_stream xs)). sendable_frame f \<and> wire_frame f = f)"
proof (induction "length xs" arbitrary: xs rule: less_induct)
  case less
  show ?case
  proof (cases "parseStep \<lparr>bb_bytes = xs\<rparr>")
    case (Return b)
    have "snd (decode_stream xs) = resync xs"
      using Return parseStep_Return [OF Return] by (simp add: decode_stream_step [of xs] bb_bytes_resync)
    moreover obtain g where "xs = g @ resync xs" using resync_suffix by blast
    ultimately show ?thesis using Return
      by (intro exI [of _ "[]"] exI [of _ g]) (simp add: decode_stream_step [of xs])
  next
    case (Continue b)
    have drop: "\<exists>g. xs = g @ bb_bytes b"
    proof (cases "\<lparr>bb_bytes = xs\<rparr>" rule: parseStep_cases)
      case short
      with Continue show ?thesis by simp
    next
      case (long v pt l1 l0 src dst i1 i0 fi fc rest)
      then have "bb_bytes b = tl (resync xs)"
        using Continue parseStep_header [OF long refl] by (auto split: if_splits)
      with long(1) resync_suffix [of xs] show ?thesis
        by (metis append.assoc append_Cons append_Nil list.sel(3) byte_buffer.select_convs(1))
    qed
    then obtain g where g: "xs = g @ bb_bytes b" by blast
    have dec: "decode_stream xs = decode_stream (bb_bytes b)"
      using Continue by (simp add: decode_stream_step [of xs])
    from less.hyps [of "bb_bytes b"] parseStep_progress(1) [OF Continue]
    obtain gs tail where IH: "length gs = length (fst (decode_stream (bb_bytes b)))"
      "bb_bytes b = concat (map2 (\<lambda>g f. g @ FrameEncoder_encode f) gs (fst (decode_stream (bb_bytes b))))
            @ tail @ snd (decode_stream (bb_bytes b))"
      "\<forall>f\<in>set (fst (decode_stream (bb_bytes b))). sendable_frame f \<and> wire_frame f = f"
      by auto
    show ?thesis
    proof (cases gs)
      case Nil
      with IH g dec show ?thesis
        by (intro exI [of _ "[]"] exI [of _ "g @ tail"]) simp
    next
      case (Cons g0 gs')
      with IH g dec show ?thesis
        by (intro exI [of _ "(g @ g0) # gs'"] exI [of _ tail])
          (cases "fst (decode_stream (bb_bytes b))", simp_all)
    qed
  next
    case (Deliver f b)
    from parseStep_Deliver [OF Deliver]
    obtain g where f: "sendable_frame f" "wire_frame f = f" and g: "xs = g @ FrameEncoder_encode f @ bb_bytes b"
      by auto
    from less.hyps [of "bb_bytes b"] parseStep_progress(2) [OF Deliver]
    obtain gs tail where IH: "length gs = length (fst (decode_stream (bb_bytes b)))"
      "bb_bytes b = concat (map2 (\<lambda>g f. g @ FrameEncoder_encode f) gs (fst (decode_stream (bb_bytes b))))
            @ tail @ snd (decode_stream (bb_bytes b))"
      "\<forall>f\<in>set (fst (decode_stream (bb_bytes b))). sendable_frame f \<and> wire_frame f = f"
      by auto
    have dec: "decode_stream xs = (f # fst (decode_stream (bb_bytes b)), snd (decode_stream (bb_bytes b)))"
      using Deliver by (simp add: decode_stream_step [of xs])
    show ?thesis using IH f g dec
      by (intro exI [of _ "g # gs"] exI [of _ tail]) simp
  qed
qed

lemma decode_stream_kept:
  "length (snd (decode_stream xs)) < 14 + 2 ^ 16 - 1 \<and>
     resync (snd (decode_stream xs)) = snd (decode_stream xs)"
proof (induction "length xs" arbitrary: xs rule: less_induct)
  case less
  show ?case
  proof (cases "parseStep \<lparr>bb_bytes = xs\<rparr>")
    case (Return b)
    have kept: "snd (decode_stream xs) = resync xs"
      using Return parseStep_Return [OF Return] by (simp add: decode_stream_step [of xs] bb_bytes_resync)
    have "length (resync xs) < 14 + 2 ^ 16 - 1"
    proof (cases "\<lparr>bb_bytes = xs\<rparr>" rule: parseStep_cases)
      case short
      then show ?thesis by simp
    next
      case (long v pt l1 l0 src dst i1 i0 fi fc rest)
      have "length rest < unat (join16 l1 l0) + 2"
        using Return parseStep_header [OF long refl] by (auto split: if_splits)
      moreover have "unat (join16 l1 l0) < 2 ^ 16"
        using unsigned_less [of "join16 l1 l0", where 'a = nat] by simp
      ultimately show ?thesis using long(1) by simp
    qed
    with kept show ?thesis by simp
  next
    case (Continue b)
    with less [of "bb_bytes b"] parseStep_progress(1) [OF Continue] show ?thesis
      by (simp add: decode_stream_step [of xs])
  next
    case (Deliver f b)
    with less [of "bb_bytes b"] parseStep_progress(2) [OF Deliver] show ?thesis
      by (simp add: decode_stream_step [of xs])
  qed
qed

section \<open>The decoder fed by the transport\<close>

text \<open>The transport hands over the stream in chunks of its choosing.\<close>

definition FrameDecoder_feed ::
    "(frame \<Rightarrow> 's \<Rightarrow> 's) \<Rightarrow> byte_buffer \<times> 's \<Rightarrow> bytes list \<Rightarrow> byte_buffer \<times> 's" where
  "FrameDecoder_feed onFrame = foldl (\<lambda>(buffer, s) data. FrameDecoder_onBytes onFrame buffer data s)"

definition collect_frame :: "frame \<Rightarrow> frame list \<Rightarrow> frame list" where
  "collect_frame f out = out @ [f]"

lemma fold_collect_frame: "fold collect_frame fs out = out @ fs"
  by (induction fs arbitrary: out) (simp_all add: collect_frame_def)

lemma FrameDecoder_onBytes_eq:
  "FrameDecoder_onBytes onFrame b data s =
     (\<lparr>bb_bytes = snd (decode_stream (bb_bytes b @ data))\<rparr>,
      fold onFrame (fst (decode_stream (bb_bytes b @ data))) s)"
  by (simp add: FrameDecoder_onBytes_def parseLoop_decode_stream)

lemma FrameDecoder_feed_eq:
  "FrameDecoder_feed onFrame (ByteBuffer_empty, s) chunks =
     (\<lparr>bb_bytes = snd (decode_stream (concat chunks))\<rparr>,
      fold onFrame (fst (decode_stream (concat chunks))) s)"
proof -
  have "foldl (\<lambda>(buffer, s) data. FrameDecoder_onBytes onFrame buffer data s) (\<lparr>bb_bytes = buf\<rparr>, s) chunks
      = map_prod (\<lambda>x. \<lparr>bb_bytes = x\<rparr>) id
          (foldl (\<lambda>(buf, s) c. (snd (decode_stream (buf @ c)), fold onFrame (fst (decode_stream (buf @ c))) s))
             (buf, s) chunks)" for buf s
    by (induction chunks arbitrary: buf s) (simp_all add: FrameDecoder_onBytes_eq)
  from this [of "[]" s] frame_stream.run_chunks [of onFrame "[]" s chunks]
  show ?thesis by (simp add: FrameDecoder_feed_def ByteBuffer_empty_def)
qed

lemma decode_stream_damaged:
  assumes "sendable_frame f" and "length w = length (FrameEncoder_encode f)"
    and "take 6 w = take 6 (FrameEncoder_encode f)" and "crc16CcittFalse w \<noteq> 0"
  shows "decode_stream (w @ ys) = decode_stream (tl w @ ys)"
proof -
  let ?n = "length (fr_payload f)"
  obtain l1 l0 where l: "be16 (word_of_nat ?n) = [l1, l0]" "join16 l1 l0 = word_of_nat ?n"
    by (rule be16_cases)
  have n: "?n = unat (join16 l1 l0)"
    using assms(1) by (simp only: l(2) sendable_frame_def unat_length_u16)
  have six: "take 6 w = [kAxtpStandardMagic0, kAxtpStandardMagic1, fh_version (fr_header f), fh_payloadType (fr_header f), l1, l0]"
    using assms(3) by (simp add: FrameEncoder_encode_eq frame_head_def l(1))
  obtain w6 where w6: "w6 = drop 6 w" by simp
  with assms(2) have "8 \<le> length w6" by simp
  then have "\<exists>a b c d e f rest. w6 = a # b # c # d # e # f # rest"
    by (auto simp: Suc_le_length_iff numeral_eq_Suc)
  then obtain src dst i1 i0 fi fc rest where "drop 6 w = src # dst # i1 # i0 # fi # fc # rest"
    unfolding w6 by blast
  with six have w: "w = kAxtpStandardMagic0 # kAxtpStandardMagic1 # fh_version (fr_header f) # fh_payloadType (fr_header f)
      # l1 # l0 # src # dst # i1 # i0 # fi # fc # rest"
    using append_take_drop_id [of 6 w] by simp
  have lenr: "length rest = ?n + 2" using assms(2) by (simp add: w)
  then have split: "rest = take ?n rest @ [rest ! ?n, rest ! Suc ?n]"
    by (simp add: list_eq_iff_nth_eq nth_append less_Suc_eq)
  have body: "take (12 + ?n) w @ [rest ! ?n, rest ! Suc ?n] = w"
  proof -
    have "take (12 + ?n) ([kAxtpStandardMagic0, kAxtpStandardMagic1, fh_version (fr_header f), fh_payloadType (fr_header f),
        l1, l0, src, dst, i1, i0, fi, fc] @ rest) @ [rest ! ?n, rest ! Suc ?n] = w"
      unfolding take_append by (simp add: w split [symmetric])
    then show ?thesis by (simp add: w)
  qed
  have bad: "join16 (rest ! ?n) (rest ! Suc ?n) \<noteq> crc16CcittFalse (take (12 + ?n) w)"
    using assms(4) crc16_check_residue [of "rest ! ?n" "rest ! Suc ?n" "take (12 + ?n) w"]
    by (simp only: body join16_def) simp
  have bs: "resync (bb_bytes \<lparr>bb_bytes = w @ ys\<rparr>) = kAxtpStandardMagic0 # kAxtpStandardMagic1 # fh_version (fr_header f)
      # fh_payloadType (fr_header f) # l1 # l0 # src # dst # i1 # i0 # fi # fc # (rest @ ys)"
    by (simp add: w)
  have "12 + ?n \<le> length w" using assms(2) by simp
  then have take_w: "take (12 + ?n) (w @ ys) = take (12 + ?n) w" by simp
  have "parseStep \<lparr>bb_bytes = w @ ys\<rparr> = Continue \<lparr>bb_bytes = tl w @ ys\<rparr>"
  proof -
    have "resync (w @ ys) = w @ ys" by (simp add: w)
    then show ?thesis
      using bad lenr take_w
      by (simp add: parseStep_header [OF bs _ n] nth_append) (simp add: w)
  qed
  then show ?thesis by (simp add: decode_stream_step [of "w @ ys"])
qed

section \<open>Properties\<close>

text \<open>A one-byte RPC frame, as example input.\<close>

definition example_frame :: frame where
  "example_frame = \<lparr>fr_header = \<lparr>fh_version = 1, fh_payloadType = 2, fh_payloadLength = 1,
     fh_sourceId = 0x10, fh_destinationId = 0x20, fh_messageId = 0x0102, fh_frameIndex = 0,
     fh_frameCount = 1\<rparr>, fr_payload = [0xAA], fr_crc16 = 0xE5CC\<rparr>"

lemma example_frame_bytes:
  "FrameEncoder_encode example_frame =
     [0x41, 0x58, 0x01, 0x02, 0x00, 0x01, 0x10, 0x20, 0x01, 0x02, 0x00, 0x01, 0xAA, 0xE5, 0xCC]"
  by (simp add: FrameEncoder_encode_eq frame_head_def be16_def example_frame_def protocol_consts
      drop_bit_eq_div crc16_eval)

lemma example_frame_sendable: "sendable_frame example_frame" "wire_frame example_frame = example_frame"
  by (simp_all add: sendable_frame_def header_ok_def isPayloadType_def wire_frame_def frame_head_def
      be16_def example_frame_def protocol_consts drop_bit_eq_div crc16_eval)

text \<open>
  C14. Frames sent by \<^verbatim>\<open>FrameEncoder\<close>, with arbitrary noise between them (any bytes that hold no
  magic pair and do not end in its first byte) and cut into chunks at arbitrary places, are handed
  to the sink one by one, each with the header and payload it was sent with, in order, and no byte
  is left in the decoder's buffer.
\<close>

theorem frame_stream_roundtrip:
  assumes "\<forall>(g, f)\<in>set gfs. skippable g \<and> sendable_frame f"
    and "concat chunks = concat (map (\<lambda>(g, f). g @ FrameEncoder_encode f) gfs)"
  shows "FrameDecoder_feed collect_frame (ByteBuffer_empty, []) chunks =
     (ByteBuffer_empty, map (wire_frame \<circ> snd) gfs)"
proof -
  have "decode_stream (concat chunks) = (map (wire_frame \<circ> snd) gfs, [])"
    using decode_stream_frames [OF assms(1), of "[]"] by (simp add: assms(2))
  then show ?thesis
    unfolding FrameDecoder_feed_eq fold_collect_frame by (simp add: ByteBuffer_empty_def)
qed

theorem frame_stream_roundtrip_witness:
  "FrameDecoder_feed collect_frame (ByteBuffer_empty, [])
     [[0x00], [0x41, 0x58, 0x01], [0x02, 0x00, 0x01, 0x10, 0x20, 0x01, 0x02, 0x00, 0x01, 0xAA, 0xE5, 0xCC, 0x58], [0x07, 0x41, 0x58, 0x01, 0x02, 0x00, 0x01, 0x10, 0x20, 0x01, 0x02, 0x00, 0x01, 0xAA, 0xE5, 0xCC]] = (ByteBuffer_empty, [example_frame, example_frame])"
  using frame_stream_roundtrip [of "[([0x00], example_frame), ([0x58, 0x07], example_frame)]"
      "[[0x00], [0x41, 0x58, 0x01], [0x02, 0x00, 0x01, 0x10, 0x20, 0x01, 0x02, 0x00, 0x01, 0xAA, 0xE5, 0xCC, 0x58], [0x07, 0x41, 0x58, 0x01, 0x02, 0x00, 0x01, 0x10, 0x20, 0x01, 0x02, 0x00, 0x01, 0xAA, 0xE5, 0xCC]]"]
  by (simp add: example_frame_bytes example_frame_sendable skippable_def protocol_consts)

text \<open>
  C20. The chunk boundaries chosen by the transport do not matter: for every byte stream, valid or
  not, and every sink, feeding it in pieces has the same effect as feeding it at once.
\<close>

theorem frame_chunks_irrelevant:
  "FrameDecoder_feed onFrame (ByteBuffer_empty, s) chunks =
     FrameDecoder_onBytes onFrame ByteBuffer_empty (concat chunks) s"
  by (simp add: FrameDecoder_feed_eq FrameDecoder_onBytes_eq)

text \<open>
  C18. Nothing is invented: whatever bytes arrive, the stream received consists of the encodings of
  exactly the delivered frames, in their order and without overlap, with other bytes between them,
  followed by the bytes still in the buffer; and every delivered frame has a valid header.
\<close>

theorem frame_delivered_sound:
  "\<exists>gs tail. length gs = length (snd (FrameDecoder_feed collect_frame (ByteBuffer_empty, []) chunks)) \<and>
     concat chunks =
       concat (map2 (\<lambda>g f. g @ FrameEncoder_encode f) gs
                 (snd (FrameDecoder_feed collect_frame (ByteBuffer_empty, []) chunks)))
       @ tail @ bb_bytes (fst (FrameDecoder_feed collect_frame (ByteBuffer_empty, []) chunks)) \<and>
     list_all (\<lambda>f. sendable_frame f \<and> wire_frame f = f)
       (snd (FrameDecoder_feed collect_frame (ByteBuffer_empty, []) chunks))"
  using decode_stream_sound [of "concat chunks"]
  by (simp add: FrameDecoder_feed_eq fold_collect_frame list_all_iff)

text \<open>
  Whatever the peer sends, the decoder holds back fewer bytes than the largest frame has
  (twelve header bytes, 65535 payload bytes, two checksum bytes).
\<close>

theorem frame_buffer_bounded:
  "length (bb_bytes (fst (FrameDecoder_feed onFrame (ByteBuffer_empty, s) chunks))) < 65549"
  using decode_stream_kept [of "concat chunks"] by (simp add: FrameDecoder_feed_eq)

text \<open>
  C19. A frame damaged in transit by a burst of at most sixteen bits after its length field is not
  delivered: the decoder drops one byte and looks for the next magic pair, whatever follows.
\<close>

theorem frame_burst_rejected:
  assumes "sendable_frame f" and "take 6 w = take 6 (FrameEncoder_encode f)"
    and "message_bits (FrameEncoder_encode f) = pre @ e @ post" and "message_bits w = pre @ e' @ post"
    and "length e = length e'" and "length e' \<le> 16" and "e \<noteq> e'"
  shows "FrameDecoder_onBytes onFrame ByteBuffer_empty (w @ ys) s =
     FrameDecoder_onBytes onFrame ByteBuffer_empty (tl w @ ys) s"
proof -
  have "crc16CcittFalse (FrameEncoder_encode f) = 0"
    using crc16_residue [of "frame_head f @ fr_payload f"] by (simp add: FrameEncoder_encode_eq)
  then have bad: "crc16CcittFalse w \<noteq> 0"
    using crc16_burst_bytes [OF assms(3-7)] by simp
  have "length (message_bits z) = 8 * length z" for z by (induction z) simp_all
  then have "length w = length (FrameEncoder_encode f)"
    using assms(3-5) by (metis length_append mult_cancel1 zero_neq_numeral)
  from decode_stream_damaged [OF assms(1) this assms(2) bad]
  show ?thesis by (simp add: FrameDecoder_onBytes_eq)
qed

theorem frame_burst_rejected_witness:
  "FrameDecoder_onBytes collect_frame ByteBuffer_empty
       ([0x41, 0x58, 0x01, 0x02, 0x00, 0x01, 0x11, 0x20, 0x01, 0x02, 0x00, 0x01, 0xAA, 0xE5, 0xCC] @ []) [] =
     FrameDecoder_onBytes collect_frame ByteBuffer_empty
       (tl [0x41, 0x58, 0x01, 0x02, 0x00, 0x01, 0x11, 0x20, 0x01, 0x02, 0x00, 0x01, 0xAA, 0xE5, 0xCC] @ []) []"
proof (rule frame_burst_rejected [where f = example_frame
      and pre = "message_bits [0x41, 0x58, 0x01, 0x02, 0x00, 0x01]" and e = "byte_bits 0x10"
      and e' = "byte_bits 0x11" and post = "message_bits [0x20, 0x01, 0x02, 0x00, 0x01, 0xAA, 0xE5, 0xCC]"])
  show "byte_bits 0x10 \<noteq> byte_bits 0x11" by code_simp
qed (simp_all add: example_frame_bytes example_frame_sendable)

end
