(* ===== verification/Fragmentation.thy ===== *)
theory Fragmentation
  imports Framing
begin

text \<open>
  Messages and frames: \<^verbatim>\<open>MessageFragmenter\<close> cuts a message into frames of the negotiated size and
  \<^verbatim>\<open>MessageReassembler\<close> puts messages together again
  (\<^verbatim>\<open>framed_binary/outbound/message_fragmenter.hpp\<close>,
  \<^verbatim>\<open>framed_binary/inbound/message_reassembler.hpp\<close>).

  Shown here: the frames of a message carry its body and fit the frame size; the receiver delivers
  the message whatever the order and repetition of its frames and whatever else arrives between
  them; nothing is delivered that was not received under one message id, payload type and frame
  count; the memory held per message is bounded; and what the eight-bit frame count does to
  messages of 256 frames and more.
\<close>

section \<open>MessageFragmenter\<close>

record message_fragmenter =
  mf_nextMessageId :: u16
  mf_currentMessageId :: u16
  mf_maxFrameSize :: nat

definition MessageFragmenter :: "nat \<Rightarrow> message_fragmenter" where
  "MessageFragmenter maxFrameSize =
     \<lparr>mf_nextMessageId = 1, mf_currentMessageId = 1, mf_maxFrameSize = maxFrameSize\<rparr>"

definition setMaxFrameSize :: "message_fragmenter \<Rightarrow> nat \<Rightarrow> message_fragmenter" where
  "setMaxFrameSize fg maxFrameSize = fg\<lparr>mf_maxFrameSize := maxFrameSize\<rparr>"

definition payloadCapacity :: "message_fragmenter \<Rightarrow> nat" where
  "payloadCapacity fg =
     (if mf_maxFrameSize fg \<le> kStandardFrameHeaderSize + kStandardFrameCrcSize then 0
      else mf_maxFrameSize fg - kStandardFrameHeaderSize - kStandardFrameCrcSize)"

definition nextMessageId :: "message_fragmenter \<Rightarrow> u16 \<times> message_fragmenter" where
  "nextMessageId fg =
     (let mid = mf_nextMessageId fg;
          fg = fg\<lparr>mf_nextMessageId := mf_nextMessageId fg + 1\<rparr>;
          fg = (if mf_nextMessageId fg = 0 then fg\<lparr>mf_nextMessageId := 1\<rparr> else fg)
      in (mid, fg))"

definition makeFrame ::
    "message_fragmenter \<Rightarrow> message \<Rightarrow> u8 \<Rightarrow> u8 \<Rightarrow> bytes \<Rightarrow> frame \<times> message_fragmenter" where
  "makeFrame fg message frameIndex frameCount payload =
     (let (messageId, fg) =
        (if frameIndex = 0
         then (let (mid, fg) = nextMessageId fg in (mid, fg\<lparr>mf_currentMessageId := mid\<rparr>))
         else (mf_currentMessageId fg, fg))
      in (\<lparr>fr_header = FrameHeader_default\<lparr>fh_version := kAxtpVersion1,
             fh_payloadType := msg_payloadType message,
             fh_payloadLength := word_of_nat (length payload), fh_messageId := messageId,
             fh_frameIndex := frameIndex, fh_frameCount := frameCount\<rparr>,
           fr_payload = payload, fr_crc16 = 0\<rparr>, fg))"

text \<open>The loop over the frame indices, with the loop variable's values as a list.\<close>

primrec fragmentLoop ::
    "message \<Rightarrow> nat \<Rightarrow> u8 \<Rightarrow> u8 list \<Rightarrow> message_fragmenter \<Rightarrow> frame list \<times> message_fragmenter" where
  "fragmentLoop message maxPayloadSize frameCount [] fg = ([], fg)"
| "fragmentLoop message maxPayloadSize frameCount (index # rest) fg =
     (let offset = unat index * maxPayloadSize;
          chunkSize = min maxPayloadSize (length (msg_body message) - offset);
          payload = take chunkSize (drop offset (msg_body message));
          (frame, fg) = makeFrame fg message index frameCount payload;
          (frames, fg) = fragmentLoop message maxPayloadSize frameCount rest fg
      in (frame # frames, fg))"

definition frame_indices :: "u8 \<Rightarrow> u8 list" where
  "frame_indices frameCount = map word_of_nat [0..<unat frameCount]"

definition fragment :: "message_fragmenter \<Rightarrow> message \<Rightarrow> frame list \<times> message_fragmenter" where
  "fragment fg message =
     (let maxPayloadSize = payloadCapacity fg in
      if maxPayloadSize = 0 \<or> msg_body message = []
      then (let (frame, fg) = makeFrame fg message 0 1 [] in ([frame], fg))
      else (let frameCount = word_of_nat ((length (msg_body message) + maxPayloadSize - 1) div maxPayloadSize)
            in fragmentLoop message maxPayloadSize frameCount (frame_indices frameCount) fg))"

section \<open>MessageReassembler\<close>

record assembly =
  as_payloadType :: payload_type
  as_frameCount :: u8
  as_totalSize :: nat
  as_fragments :: "bytes option list"

definition Assembly_default :: assembly where
  "Assembly_default = \<lparr>as_payloadType = PayloadType_Rpc, as_frameCount = 0, as_totalSize = 0,
     as_fragments = []\<rparr>"

record message_reassembler =
  mr_maxMessageSize :: nat
  mr_assemblies :: "u16 \<rightharpoonup> assembly"

definition MessageReassembler :: "nat \<Rightarrow> message_reassembler" where
  "MessageReassembler maxMessageSize = \<lparr>mr_maxMessageSize = maxMessageSize, mr_assemblies = Map.empty\<rparr>"

definition eraseAssembly :: "message_reassembler \<Rightarrow> u16 \<Rightarrow> message_reassembler" where
  "eraseAssembly r mid = r\<lparr>mr_assemblies := (mr_assemblies r)(mid := None)\<rparr>"

text \<open>
  The sink \<^verbatim>\<open>IMessageSink\<close> is the argument \<open>onMessage\<close>, acting on a state of its own. The entry
  \<^verbatim>\<open>_assemblies[messageId]\<close> is created on first use and updated in place.
\<close>

definition MessageReassembler_onFrame ::
    "(message \<Rightarrow> 's \<Rightarrow> 's) \<Rightarrow> message_reassembler \<Rightarrow> frame \<Rightarrow> 's \<Rightarrow> message_reassembler \<times> 's" where
  "MessageReassembler_onFrame onMessage r frame s =
     (let h = fr_header frame; mid = fh_messageId h in
      if fh_frameCount h = 1
      then (if fh_frameIndex h \<noteq> 0 then (r, s)
            else (r, onMessage \<lparr>msg_messageId = mid, msg_payloadType = fh_payloadType h,
                                msg_body = fr_payload frame\<rparr> s))
      else
        (let assembly = (case mr_assemblies r mid of None \<Rightarrow> Assembly_default | Some a \<Rightarrow> a);
             assembly = (if as_fragments assembly = []
               then assembly\<lparr>as_payloadType := fh_payloadType h, as_frameCount := fh_frameCount h,
                      as_fragments := replicate (unat (fh_frameCount h)) None\<rparr>
               else assembly)
         in
         if as_payloadType assembly \<noteq> fh_payloadType h \<or> as_frameCount assembly \<noteq> fh_frameCount h \<or>
            unat (fh_frameIndex h) \<ge> length (as_fragments assembly)
         then (eraseAssembly r mid, s)
         else if as_fragments assembly ! unat (fh_frameIndex h) \<noteq> None
         then (r\<lparr>mr_assemblies := (mr_assemblies r)(mid \<mapsto> assembly)\<rparr>, s)
         else
           (let assembly = assembly\<lparr>as_totalSize := as_totalSize assembly + length (fr_payload frame)\<rparr> in
            if as_totalSize assembly > mr_maxMessageSize r then (eraseAssembly r mid, s)
            else
              (let assembly = assembly\<lparr>as_fragments :=
                     (as_fragments assembly)[unat (fh_frameIndex h) := Some (fr_payload frame)]\<rparr> in
               if None \<in> set (as_fragments assembly)
               then (r\<lparr>mr_assemblies := (mr_assemblies r)(mid \<mapsto> assembly)\<rparr>, s)
               else (eraseAssembly r mid,
                     onMessage \<lparr>msg_messageId = mid, msg_payloadType = as_payloadType assembly,
                                msg_body = concat (map the (as_fragments assembly))\<rparr> s)))))"

text \<open>A sequence of frames handed to the reassembler.\<close>

definition reassemble ::
    "(message \<Rightarrow> 's \<Rightarrow> 's) \<Rightarrow> message_reassembler \<times> 's \<Rightarrow> frame list \<Rightarrow> message_reassembler \<times> 's" where
  "reassemble onMessage = foldl (\<lambda>(r, s) frame. MessageReassembler_onFrame onMessage r frame s)"

definition collect_message :: "message \<Rightarrow> message list \<Rightarrow> message list" where
  "collect_message m out = out @ [m]"

section \<open>The frames of a message\<close>

text \<open>The frame the fragmenter makes, without its state.\<close>

definition message_frame :: "u16 \<Rightarrow> message \<Rightarrow> u8 \<Rightarrow> u8 \<Rightarrow> bytes \<Rightarrow> frame" where
  "message_frame mid m i n payload =
     \<lparr>fr_header = \<lparr>fh_version = kAxtpVersion1, fh_payloadType = msg_payloadType m,
        fh_payloadLength = word_of_nat (length payload), fh_sourceId = 0, fh_destinationId = 0,
        fh_messageId = mid, fh_frameIndex = i, fh_frameCount = n\<rparr>,
      fr_payload = payload, fr_crc16 = 0\<rparr>"

definition message_piece :: "nat \<Rightarrow> bytes \<Rightarrow> nat \<Rightarrow> bytes" where
  "message_piece cap body i = take cap (drop (i * cap) body)"

definition message_frames :: "u16 \<Rightarrow> nat \<Rightarrow> nat \<Rightarrow> message \<Rightarrow> frame list" where
  "message_frames mid cap n m =
     map (\<lambda>i. message_frame mid m (word_of_nat i) (word_of_nat n) (message_piece cap (msg_body m) i)) [0..<n]"

definition frames_needed :: "nat \<Rightarrow> nat \<Rightarrow> nat" where
  "frames_needed cap len = (if len = 0 then 1 else (len + cap - 1) div cap)"

definition succ_id :: "u16 \<Rightarrow> u16" where
  "succ_id mid = (if mid + 1 = 0 then 1 else mid + 1)"

lemma fr_payload_makeFrame [simp]: "fr_payload (fst (makeFrame fg m i n p)) = p"
  by (simp add: makeFrame_def split_beta Let_def)

lemma makeFrame_first:
  "makeFrame fg m 0 n p =
     (message_frame (mf_nextMessageId fg) m 0 n p,
      fg\<lparr>mf_nextMessageId := succ_id (mf_nextMessageId fg), mf_currentMessageId := mf_nextMessageId fg\<rparr>)"
  by (simp add: makeFrame_def nextMessageId_def message_frame_def FrameHeader_default_def succ_id_def Let_def)

lemma makeFrame_next:
  "i \<noteq> 0 \<Longrightarrow> makeFrame fg m i n p = (message_frame (mf_currentMessageId fg) m i n p, fg)"
  by (simp add: makeFrame_def message_frame_def FrameHeader_default_def)

lemma min_piece: "take (min cap (length xs - k)) (drop k xs) = take cap (drop k xs)"
  by (metis length_drop min.commute nat_le_linear take_all min.absorb1 min.absorb2)

lemma fragmentLoop_tail:
  "0 \<notin> set is \<Longrightarrow> fragmentLoop m cap n is fg =
     (map (\<lambda>i. message_frame (mf_currentMessageId fg) m i n (message_piece cap (msg_body m) (unat i))) is, fg)"
  by (induction "is") (simp_all add: makeFrame_next min_piece message_piece_def)

lemma frame_indices_Cons:
  assumes "0 < n" and "n < 256"
  shows "frame_indices (word_of_nat n) = 0 # map word_of_nat [1..<n] \<and> 0 \<notin> set (map word_of_nat [1..<n] :: u8 list)"
proof -
  have "unat (word_of_nat n :: u8) = n" using assms(2) by (simp add: unat_of_nat)
  moreover have "(word_of_nat k :: u8) \<noteq> 0" if "0 < k" "k < n" for k
  proof
    assume "(word_of_nat k :: u8) = 0"
    then have "unat (word_of_nat k :: u8) = 0" by simp
    with that assms(2) show False by (simp add: unat_of_nat)
  qed
  ultimately show ?thesis using assms(1) by (auto simp: frame_indices_def upt_conv_Cons)
qed

lemma fragment_frames:
  assumes cap: "0 < payloadCapacity fg"
    and n: "n = frames_needed (payloadCapacity fg) (length (msg_body m))" and small: "n < 256"
  shows "fragment fg m =
     (message_frames (mf_nextMessageId fg) (payloadCapacity fg) n m,
      fg\<lparr>mf_nextMessageId := succ_id (mf_nextMessageId fg), mf_currentMessageId := mf_nextMessageId fg\<rparr>)"
proof (cases "msg_body m = []")
  case True
  then show ?thesis using n
    by (simp add: fragment_def makeFrame_first frames_needed_def message_frames_def message_piece_def)
next
  case False
  then have pos: "0 < n" using n cap by (cases "msg_body m") (simp_all add: frames_needed_def div_greater_zero_iff)
  let ?cap = "payloadCapacity fg" and ?body = "msg_body m" and ?n = "word_of_nat n :: u8"
  let ?fg = "fg\<lparr>mf_nextMessageId := succ_id (mf_nextMessageId fg), mf_currentMessageId := mf_nextMessageId fg\<rparr>"
  have n': "n = (length ?body + ?cap - 1) div ?cap" using n False by (simp add: frames_needed_def)
  have "fragment fg m = fragmentLoop m ?cap ?n (frame_indices ?n) fg"
    using cap False by (simp add: fragment_def Let_def n')
  also have "\<dots> = fragmentLoop m ?cap ?n (0 # map word_of_nat [1..<n]) fg"
    using frame_indices_Cons [OF pos small] by simp
  also have "\<dots> = (message_frame (mf_nextMessageId fg) m 0 ?n (message_piece ?cap ?body 0) #
      map (\<lambda>i. message_frame (mf_nextMessageId fg) m i ?n (message_piece ?cap ?body (unat i))) (map word_of_nat [1..<n]), ?fg)"
    using frame_indices_Cons [OF pos small] fragmentLoop_tail [of "map word_of_nat [1..<n]" m ?cap ?n ?fg]
    by (simp add: makeFrame_first min_piece [of _ _ 0, simplified] message_piece_def)
  also have "map (\<lambda>i. message_frame (mf_nextMessageId fg) m i ?n (message_piece ?cap ?body (unat i))) (map word_of_nat [1..<n])
      = map (\<lambda>i. message_frame (mf_nextMessageId fg) m (word_of_nat i) ?n (message_piece ?cap ?body i)) [1..<n]"
    using small by (simp add: unat_of_nat)
  finally show ?thesis using pos by (simp add: message_frames_def upt_conv_Cons)
qed

lemma concat_pieces: "concat (map (message_piece cap body) [0..<n]) = take (n * cap) body"
proof (induction n)
  case (Suc n)
  have "Suc n * cap = n * cap + cap" by simp
  then show ?case using Suc by (simp only: take_add) (simp add: message_piece_def)
qed simp

lemma frames_needed_covers: "0 < cap \<Longrightarrow> len \<le> frames_needed cap len * cap"
proof (cases "len = 0")
  case False
  assume "0 < cap"
  have "len + cap - 1 < ((len + cap - 1) div cap) * cap + cap"
    using \<open>0 < cap\<close> by (metis add.commute dividend_less_div_times)
  then show ?thesis using False by (simp add: frames_needed_def)
qed simp

lemma length_message_piece: "length (message_piece cap body i) \<le> cap"
  by (simp add: message_piece_def)

section \<open>Reassembly of one message id\<close>

text \<open>
  What a frame does to the assembly of its own message id. The reassembler is a family of these
  machines, one per id, that do not interfere.
\<close>

definition assembly_step :: "nat \<Rightarrow> assembly option \<Rightarrow> frame \<Rightarrow> assembly option \<times> message option" where
  "assembly_step limit slot f =
     (let h = fr_header f;
          a = (case slot of None \<Rightarrow> Assembly_default | Some a \<Rightarrow> a);
          a = (if as_fragments a = []
               then a\<lparr>as_payloadType := fh_payloadType h, as_frameCount := fh_frameCount h,
                      as_fragments := replicate (unat (fh_frameCount h)) None\<rparr> else a);
          i = unat (fh_frameIndex h);
          size' = as_totalSize a + length (fr_payload f);
          frags = (as_fragments a)[i := Some (fr_payload f)]
      in if fh_frameCount h = 1
         then (slot, if i = 0 then Some \<lparr>msg_messageId = fh_messageId h,
                       msg_payloadType = fh_payloadType h, msg_body = fr_payload f\<rparr> else None)
         else if as_payloadType a \<noteq> fh_payloadType h \<or> as_frameCount a \<noteq> fh_frameCount h \<or>
                 length (as_fragments a) \<le> i then (None, None)
         else if as_fragments a ! i \<noteq> None then (Some a, None)
         else if limit < size' then (None, None)
         else if None \<in> set frags then (Some (a\<lparr>as_totalSize := size', as_fragments := frags\<rparr>), None)
         else (None, Some \<lparr>msg_messageId = fh_messageId h, msg_payloadType = as_payloadType a,
                 msg_body = concat (map the frags)\<rparr>))"

lemma onFrame_refines_step:
  "MessageReassembler_onFrame onMessage r f s =
     (let h = fh_messageId (fr_header f);
          (slot, out) = assembly_step (mr_maxMessageSize r) (mr_assemblies r h) f
      in (r\<lparr>mr_assemblies := (mr_assemblies r)(h := slot)\<rparr>,
          case out of None \<Rightarrow> s | Some m \<Rightarrow> onMessage m s))"
  unfolding MessageReassembler_onFrame_def assembly_step_def Let_def eraseAssembly_def
  by (simp add: unsigned_eq_0_iff fun_upd_idem)

primrec assembly_run :: "nat \<Rightarrow> assembly option \<Rightarrow> frame list \<Rightarrow> assembly option \<times> message list" where
  "assembly_run limit slot [] = (slot, [])"
| "assembly_run limit slot (f # fs) =
     (let (slot', out) = assembly_step limit slot f;
          (slot'', ms) = assembly_run limit slot' fs
      in (slot'', (case out of None \<Rightarrow> [] | Some m \<Rightarrow> [m]) @ ms))"

definition frame_id :: "frame \<Rightarrow> u16" where
  "frame_id f = fh_messageId (fr_header f)"

lemma assembly_step_id: "snd (assembly_step limit slot f) = Some m \<Longrightarrow> msg_messageId m = frame_id f"
  by (auto simp: assembly_step_def Let_def frame_id_def split: if_splits)

lemma assembly_run_append:
  "assembly_run limit slot (fs @ gs) =
     (let (slot', ms) = assembly_run limit slot fs; (slot'', ms') = assembly_run limit slot' gs
      in (slot'', ms @ ms'))"
  by (induction fs arbitrary: slot) (simp_all add: split_beta Let_def)

lemma reassemble_by_id:
  "mr_assemblies (fst (reassemble collect_message (r, out) fs)) mid =
     fst (assembly_run (mr_maxMessageSize r) (mr_assemblies r mid) (filter (\<lambda>f. frame_id f = mid) fs)) \<and>
   filter (\<lambda>m. msg_messageId m = mid) (snd (reassemble collect_message (r, out) fs)) =
     filter (\<lambda>m. msg_messageId m = mid) out @
     snd (assembly_run (mr_maxMessageSize r) (mr_assemblies r mid) (filter (\<lambda>f. frame_id f = mid) fs)) \<and>
   mr_maxMessageSize (fst (reassemble collect_message (r, out) fs)) = mr_maxMessageSize r"
proof (induction fs arbitrary: r out)
  case Nil
  then show ?case by (simp add: reassemble_def)
next
  case (Cons f fs)
  obtain slot mo where step: "assembly_step (mr_maxMessageSize r) (mr_assemblies r (frame_id f)) f = (slot, mo)"
    by (cases "assembly_step (mr_maxMessageSize r) (mr_assemblies r (frame_id f)) f")
  let ?r = "r\<lparr>mr_assemblies := (mr_assemblies r)(frame_id f := slot)\<rparr>"
    and ?out = "case mo of None \<Rightarrow> out | Some m \<Rightarrow> out @ [m]"
  have "reassemble collect_message (r, out) (f # fs) = reassemble collect_message (?r, ?out) fs"
    using step by (cases mo) (simp_all add: reassemble_def onFrame_refines_step frame_id_def collect_message_def Let_def)
  moreover have "msg_messageId m = frame_id f" if "mo = Some m" for m
    using assembly_step_id [of _ _ f m] step that by (metis snd_conv)
  ultimately show ?case
    using Cons.IH [of ?r ?out] step by (auto simp: split_beta split: option.splits)
qed

section \<open>A message's frames in any order\<close>

text \<open>The fragments with indices in \<open>S\<close> of a message, and the assembly holding them.\<close>

definition pieces_present :: "nat \<Rightarrow> nat \<Rightarrow> bytes \<Rightarrow> nat set \<Rightarrow> bytes option list" where
  "pieces_present cap n body S = map (\<lambda>i. if i \<in> S then Some (message_piece cap body i) else None) [0..<n]"

definition partial_assembly :: "nat \<Rightarrow> nat \<Rightarrow> message \<Rightarrow> nat set \<Rightarrow> assembly option" where
  "partial_assembly cap n m S =
     (if S = {} then None else Some
        \<lparr>as_payloadType = msg_payloadType m, as_frameCount = word_of_nat n,
         as_totalSize = (\<Sum>i\<in>S. length (message_piece cap (msg_body m) i)),
         as_fragments = pieces_present cap n (msg_body m) S\<rparr>)"

lemma length_pieces_present [simp]: "length (pieces_present cap n body S) = n"
  by (simp add: pieces_present_def)

lemma pieces_present_eq_Nil [simp]: "pieces_present cap n body S = [] \<longleftrightarrow> n = 0"
  by (simp add: pieces_present_def)

lemma nth_pieces_present [simp]:
  "i < n \<Longrightarrow> pieces_present cap n body S ! i = (if i \<in> S then Some (message_piece cap body i) else None)"
  by (simp add: pieces_present_def)

lemma pieces_present_update [simp]:
  "(pieces_present cap n body S)[i := Some (message_piece cap body i)] = pieces_present cap n body (insert i S)"
proof (rule nth_equalityI)
  fix k assume "k < length ((pieces_present cap n body S)[i := Some (message_piece cap body i)])"
  then show "(pieces_present cap n body S)[i := Some (message_piece cap body i)] ! k =
      pieces_present cap n body (insert i S) ! k"
    by (cases "k = i") simp_all
qed simp

lemma replicate_pieces_present: "replicate n None = pieces_present cap n body {}"
  by (rule nth_equalityI) auto

lemma None_in_pieces_present [simp]: "None \<in> set (pieces_present cap n body S) \<longleftrightarrow> \<not> {..<n} \<subseteq> S"
  by (auto simp: pieces_present_def image_iff)

lemma concat_pieces_present:
  "{..<n} \<subseteq> S \<Longrightarrow> concat (map the (pieces_present cap n body S)) = take (n * cap) body"
proof -
  assume "{..<n} \<subseteq> S"
  then have "map the (pieces_present cap n body S) = map (message_piece cap body) [0..<n]"
    by (auto simp: pieces_present_def)
  then show ?thesis by (simp add: concat_pieces)
qed

definition piece_frame :: "u16 \<Rightarrow> nat \<Rightarrow> nat \<Rightarrow> message \<Rightarrow> nat \<Rightarrow> frame" where
  "piece_frame mid cap n m i =
     message_frame mid m (word_of_nat i) (word_of_nat n) (message_piece cap (msg_body m) i)"

lemma sum_pieces_le:
  assumes "S \<subseteq> {..<n}"
  shows "(\<Sum>i\<in>S. length (message_piece cap body i)) \<le> length body"
proof -
  have "(\<Sum>i\<in>S. length (message_piece cap body i)) \<le> (\<Sum>i<n. length (message_piece cap body i))"
    using assms by (intro sum_mono2) auto
  also have "\<dots> = length (concat (map (message_piece cap body) [0..<n]))"
    by (simp add: length_concat o_def sum_list_distinct_conv_sum_set atLeast0LessThan)
  also have "\<dots> \<le> length body" by (simp add: concat_pieces)
  finally show ?thesis .
qed

lemma partial_assembly_step:
  assumes "2 \<le> n" "n < 256" "i < n" "S \<subset> {..<n}" "length (msg_body m) \<le> limit"
    and "length (msg_body m) \<le> n * cap"
  shows "assembly_step limit (partial_assembly cap n m S) (piece_frame mid cap n m i) =
     (if insert i S = {..<n} then (None, Some \<lparr>msg_messageId = mid, msg_payloadType = msg_payloadType m,
                                              msg_body = msg_body m\<rparr>)
      else (partial_assembly cap n m (insert i S), None))"
proof -
  have n8: "unat (word_of_nat n :: u8) = n" and i8: "unat (word_of_nat i :: u8) = i"
    using assms by (simp_all add: unat_of_nat)
  have n1: "(word_of_nat n :: u8) \<noteq> 1"
  proof
    assume "(word_of_nat n :: u8) = 1"
    then have "unat (word_of_nat n :: u8) = 1" by simp
    with n8 assms(1) show False by simp
  qed
  have fin: "finite S" using assms(4) by (meson finite_lessThan finite_subset psubset_imp_subset)
  let ?len = "\<lambda>j. length (message_piece cap (msg_body m) j)"
  have total: "(\<Sum>j\<in>S. ?len j) + ?len i \<le> limit" if "i \<notin> S"
  proof -
    have "(\<Sum>j\<in>S. ?len j) + ?len i = (\<Sum>j\<in>insert i S. ?len j)" using that fin by simp
    also have "\<dots> \<le> length (msg_body m)" using assms(3,4) by (intro sum_pieces_le) auto
    finally show ?thesis using assms(5) by simp
  qed
  have all: "{..<n} \<subseteq> insert i S \<longleftrightarrow> insert i S = {..<n}" using assms(3,4) by auto
  show ?thesis
  proof (cases "S = {}")
    case True
    have "insert i S \<noteq> {..<n}"
    proof
      assume "insert i S = {..<n}"
      then have "card {..<n} \<le> 1" using True by (metis card.empty card_insert_if finite.emptyI le_refl empty_iff One_nat_def)
      with assms(1) show False by simp
    qed
    with True assms n8 i8 n1 total all show ?thesis
      by (simp add: assembly_step_def partial_assembly_def piece_frame_def message_frame_def Assembly_default_def
          replicate_pieces_present [of n cap "msg_body m"] Let_def)
  next
    case False
    show ?thesis
    proof (cases "i \<in> S")
      case True
      then have "insert i S \<noteq> {..<n}" using assms(4) by (simp add: insert_absorb)
      then show ?thesis using True False assms n8 i8 n1
        by (simp add: assembly_step_def partial_assembly_def piece_frame_def message_frame_def Let_def insert_absorb)
    next
      case out: False
      show ?thesis using out False assms n8 i8 n1 total all fin
        by (simp add: assembly_step_def partial_assembly_def piece_frame_def message_frame_def Let_def
            concat_pieces_present add.commute)
    qed
  qed
qed

lemma partial_assembly_run:
  assumes "2 \<le> n" "n < 256" "length (msg_body m) \<le> limit" "length (msg_body m) \<le> n * cap"
    and "S \<union> set js \<subset> {..<n}"
  shows "assembly_run limit (partial_assembly cap n m S) (map (piece_frame mid cap n m) js) =
     (partial_assembly cap n m (S \<union> set js), [])"
  using assms(5)
proof (induction js arbitrary: S)
  case (Cons j js)
  then have "insert j S \<noteq> {..<n}" "j < n" "S \<subset> {..<n}" by auto
  with partial_assembly_step [OF assms(1,2) _ _ assms(3,4), of j S mid] Cons.IH [of "insert j S"] Cons.prems
  show ?case by simp
qed simp

lemma assembly_step_single:
  "assembly_step limit None (piece_frame mid cap 1 m 0) =
     (None, Some \<lparr>msg_messageId = mid, msg_payloadType = msg_payloadType m, msg_body = take cap (msg_body m)\<rparr>)"
  by (simp add: assembly_step_def piece_frame_def message_frame_def message_piece_def Let_def)

lemma assembly_run_pieces:
  assumes "n < 256" "length (msg_body m) \<le> limit" "length (msg_body m) \<le> n * cap"
    and "set js \<union> {k} = {..<n}" and "k \<notin> set js"
  shows "assembly_run limit None (map (piece_frame mid cap n m) js @ [piece_frame mid cap n m k]) =
     (None, [\<lparr>msg_messageId = mid, msg_payloadType = msg_payloadType m, msg_body = msg_body m\<rparr>])"
proof (cases "2 \<le> n")
  case False
  have "k < n" using assms(4) by auto
  with False have n: "n = 1" and k: "k = 0" by auto
  with assms(4,5) have "js = []" by (cases js) (auto simp: lessThan_Suc)
  with n k assms(3) assembly_step_single [of limit mid cap m] show ?thesis by simp
next
  case True
  have sub: "set js \<subset> {..<n}" using assms(4,5) by auto
  moreover have "k < n" using assms(4) by auto
  moreover have "partial_assembly cap n m {} = None" by (simp add: partial_assembly_def)
  ultimately show ?thesis
    using partial_assembly_run [OF True assms(1-3), of "{}" js mid]
      partial_assembly_step [OF True assms(1) _ sub assms(2,3), of k mid] assms(4)
    by (simp add: assembly_run_append)
qed

lemma message_frames_alt: "message_frames mid cap n m = map (piece_frame mid cap n m) [0..<n]"
  by (simp add: message_frames_def piece_frame_def)

lemma frame_id_piece_frame [simp]: "frame_id (piece_frame mid cap n m i) = mid"
  by (simp add: frame_id_def piece_frame_def message_frame_def)

lemma piece_frame_index: "i < 256 \<Longrightarrow> unat (fh_frameIndex (fr_header (piece_frame mid cap n m i))) = i"
  by (simp add: piece_frame_def message_frame_def unat_of_nat)

lemma reassemble_pieces:
  assumes "n < 256" "length (msg_body m) \<le> mr_maxMessageSize r" "length (msg_body m) \<le> n * cap"
    and "mr_assemblies r mid = None"
    and arrived: "filter (\<lambda>f. frame_id f = mid) fs = early @ [final]"
    and all: "set (early @ [final]) = set (message_frames mid cap n m)" and once: "final \<notin> set early"
  shows "filter (\<lambda>m. msg_messageId m = mid) (snd (reassemble collect_message (r, []) fs)) =
      [\<lparr>msg_messageId = mid, msg_payloadType = msg_payloadType m, msg_body = msg_body m\<rparr>] \<and>
    mr_assemblies (fst (reassemble collect_message (r, []) fs)) mid = None"
proof -
  let ?pf = "piece_frame mid cap n m" and ?ix = "\<lambda>f. unat (fh_frameIndex (fr_header f))"
  have again: "?pf (?ix f) = f" if "f \<in> set (early @ [final])" for f
  proof -
    from that obtain i where i: "i < n" "f = ?pf i" unfolding all by (auto simp: message_frames_alt)
    with assms(1) have "?ix f = i" by (simp add: piece_frame_index)
    with i show ?thesis by simp
  qed
  have e: "map ?pf (map ?ix early) = early" using again by (simp add: map_idI)
  have l: "?pf (?ix final) = final" using again by simp
  have cover: "set (map ?ix early) \<union> {?ix final} = {..<n}"
  proof -
    have "set (map ?ix early) \<union> {?ix final} = ?ix ` set (early @ [final])" by auto
    also have "\<dots> = {..<n}"
      unfolding all message_frames_alt
      using piece_frame_index [of _ mid cap n m] assms(1) by (auto simp: image_image)
    finally show ?thesis .
  qed
  have new: "?ix final \<notin> set (map ?ix early)"
  proof
    assume "?ix final \<in> set (map ?ix early)"
    then obtain g where g: "g \<in> set early" "?ix g = ?ix final" by auto
    have "?pf (?ix g) = g" by (rule again) (simp add: g(1))
    then have "final = g" by (simp only: g(2) l)
    with g(1) once show False by simp
  qed
  have "assembly_run (mr_maxMessageSize r) None (early @ [final]) =
      (None, [\<lparr>msg_messageId = mid, msg_payloadType = msg_payloadType m, msg_body = msg_body m\<rparr>])"
    using assembly_run_pieces [OF assms(1-3) cover new, of mid] by (simp only: e l)
  then show ?thesis
    using reassemble_by_id [of r "[]" fs mid] by (simp add: arrived assms(4))
qed

text \<open>The two header fields the wire adds to a frame play no part in reassembly.\<close>

lemma wire_frame_fields:
  "fh_messageId (fr_header (wire_frame f)) = fh_messageId (fr_header f)"
  "fh_payloadType (fr_header (wire_frame f)) = fh_payloadType (fr_header f)"
  "fh_frameCount (fr_header (wire_frame f)) = fh_frameCount (fr_header f)"
  "fh_frameIndex (fr_header (wire_frame f)) = fh_frameIndex (fr_header f)"
  "fr_payload (wire_frame f) = fr_payload f"
  by (simp_all add: wire_frame_def)

lemma assembly_step_wire_frame [simp]: "assembly_step limit slot (wire_frame f) = assembly_step limit slot f"
  by (simp only: assembly_step_def wire_frame_fields Let_def)

lemma frame_id_wire_frame [simp]: "frame_id (wire_frame f) = frame_id f"
  by (simp only: frame_id_def wire_frame_fields)

lemma onFrame_wire_frame [simp]:
  "MessageReassembler_onFrame onMessage r (wire_frame f) s = MessageReassembler_onFrame onMessage r f s"
  by (simp only: onFrame_refines_step wire_frame_fields assembly_step_wire_frame Let_def)

section \<open>What is delivered was received\<close>

definition fragment_of :: "u16 \<Rightarrow> payload_type \<Rightarrow> nat \<Rightarrow> nat \<Rightarrow> frame \<Rightarrow> bool" where
  "fragment_of mid pt n i f \<longleftrightarrow> fh_messageId (fr_header f) = mid \<and> fh_payloadType (fr_header f) = pt \<and>
     unat (fh_frameCount (fr_header f)) = n \<and> unat (fh_frameIndex (fr_header f)) = i"

text \<open>The invariant of an assembly: where its fragments come from, and how much it holds.\<close>

definition assembly_inv :: "nat \<Rightarrow> u16 \<Rightarrow> frame set \<Rightarrow> assembly \<Rightarrow> bool" where
  "assembly_inv limit mid seen a \<longleftrightarrow>
     length (as_fragments a) = unat (as_frameCount a) \<and> None \<in> set (as_fragments a) \<and>
     as_totalSize a = sum_list (map (\<lambda>p. case p of None \<Rightarrow> 0 | Some b \<Rightarrow> length b) (as_fragments a)) \<and>
     as_totalSize a \<le> limit \<and>
     (\<forall>i p. i < length (as_fragments a) \<longrightarrow> as_fragments a ! i = Some p \<longrightarrow>
        (\<exists>f\<in>seen. fragment_of mid (as_payloadType a) (unat (as_frameCount a)) i f \<and> fr_payload f = p))"

definition message_from :: "frame set \<Rightarrow> message \<Rightarrow> bool" where
  "message_from seen m \<longleftrightarrow>
     (\<exists>gs. gs \<noteq> [] \<and> length gs < 256 \<and> set gs \<subseteq> seen \<and>
        (\<forall>i<length gs. fragment_of (msg_messageId m) (msg_payloadType m) (length gs) i (gs ! i)) \<and>
        msg_body m = concat (map fr_payload gs))"

lemma assembly_inv_mono: "assembly_inv limit mid seen a \<Longrightarrow> seen \<subseteq> seen' \<Longrightarrow> assembly_inv limit mid seen' a"
  unfolding assembly_inv_def by blast

lemma message_from_mono: "message_from seen m \<Longrightarrow> seen \<subseteq> seen' \<Longrightarrow> message_from seen' m"
  unfolding message_from_def by blast

text \<open>The assembly a frame of \<open>frameCount \<noteq> 1\<close> works on, before its fragment is stored.\<close>

definition open_assembly :: "assembly option \<Rightarrow> frame \<Rightarrow> assembly" where
  "open_assembly slot f =
     (case slot of
        Some a \<Rightarrow> a
      | None \<Rightarrow> \<lparr>as_payloadType = fh_payloadType (fr_header f), as_frameCount = fh_frameCount (fr_header f),
                 as_totalSize = 0, as_fragments = replicate (unat (fh_frameCount (fr_header f))) None\<rparr>)"

definition open_inv :: "nat \<Rightarrow> u16 \<Rightarrow> frame set \<Rightarrow> assembly \<Rightarrow> bool" where
  "open_inv limit mid seen a \<longleftrightarrow>
     length (as_fragments a) = unat (as_frameCount a) \<and>
     as_totalSize a = sum_list (map (\<lambda>p. case p of None \<Rightarrow> 0 | Some b \<Rightarrow> length b) (as_fragments a)) \<and>
     as_totalSize a \<le> limit \<and>
     (\<forall>i p. i < length (as_fragments a) \<longrightarrow> as_fragments a ! i = Some p \<longrightarrow>
        (\<exists>f\<in>seen. fragment_of mid (as_payloadType a) (unat (as_frameCount a)) i f \<and> fr_payload f = p))"

lemma assembly_inv_open: "assembly_inv limit mid seen a \<longleftrightarrow> open_inv limit mid seen a \<and> None \<in> set (as_fragments a)"
  by (auto simp: assembly_inv_def open_inv_def)

lemma open_assembly_inv:
  assumes "\<And>a. slot = Some a \<Longrightarrow> assembly_inv limit mid seen a"
  shows "open_inv limit mid seen (open_assembly slot f)"
proof (cases slot)
  case None
  have "sum_list (map (\<lambda>p. case p of None \<Rightarrow> 0 | Some b \<Rightarrow> length (b :: bytes)) (replicate n None)) = 0" for n
    by (induction n) simp_all
  with None show ?thesis by (simp add: open_assembly_def open_inv_def)
next
  case (Some a)
  with assms show ?thesis by (simp add: open_assembly_def assembly_inv_open)
qed

lemma sum_list_update_add:
  assumes "i < length xs" and "(g :: 'a \<Rightarrow> nat) (xs ! i) = 0"
  shows "sum_list (map g (xs[i := y])) = sum_list (map g xs) + g y"
proof -
  have "sum_list (map g (xs[i := y])) = sum_list (map g (take i xs)) + g y + sum_list (map g (drop (Suc i) xs))"
    using assms(1) by (simp add: upd_conv_take_nth_drop)
  moreover have "sum_list (map g xs) = sum_list (map g (take i xs)) + g (xs ! i) + sum_list (map g (drop (Suc i) xs))"
    using assms(1) by (subst id_take_nth_drop [of i xs]) simp_all
  ultimately show ?thesis using assms(2) by simp
qed

lemma open_inv_store:
  assumes inv: "open_inv limit mid seen a"
    and f: "fragment_of mid (as_payloadType a) (unat (as_frameCount a)) i f"
    and i: "i < length (as_fragments a)" "as_fragments a ! i = None"
    and lim: "as_totalSize a + length (fr_payload f) \<le> limit"
  shows "open_inv limit mid (insert f seen)
    (a\<lparr>as_totalSize := as_totalSize a + length (fr_payload f),
       as_fragments := (as_fragments a)[i := Some (fr_payload f)]\<rparr>)"
  using inv i lim f unfolding open_inv_def
  by (auto simp: sum_list_update_add nth_list_update)

lemma message_from_complete:
  assumes inv: "open_inv limit mid seen a" and full: "None \<notin> set (as_fragments a)" and ne: "as_fragments a \<noteq> []"
  shows "message_from seen \<lparr>msg_messageId = mid, msg_payloadType = as_payloadType a,
           msg_body = concat (map the (as_fragments a))\<rparr>"
proof -
  let ?n = "length (as_fragments a)"
  have n: "?n = unat (as_frameCount a)" using inv by (simp add: open_inv_def)
  have ex: "\<exists>f\<in>seen. fragment_of mid (as_payloadType a) ?n i f \<and> as_fragments a ! i = Some (fr_payload f)"
    if "i < ?n" for i
  proof -
    have "as_fragments a ! i \<noteq> None" using full that by (metis nth_mem)
    then obtain p where p: "as_fragments a ! i = Some p" by auto
    have "\<exists>f\<in>seen. fragment_of mid (as_payloadType a) (unat (as_frameCount a)) i f \<and> fr_payload f = p"
      using inv that p unfolding open_inv_def by blast
    with p show ?thesis unfolding n by blast
  qed
  then obtain g where g: "\<And>i. i < ?n \<Longrightarrow> g i \<in> seen \<and> fragment_of mid (as_payloadType a) ?n i (g i) \<and>
      as_fragments a ! i = Some (fr_payload (g i))" by metis
  let ?gs = "map g [0..<?n]"
  have "map the (as_fragments a) = map fr_payload ?gs"
    by (rule nth_equalityI) (simp_all add: g)
  moreover have "?n < 256" unfolding n by simp
  ultimately show ?thesis using g ne
    by (auto simp: message_from_def intro!: exI [of _ ?gs])
qed

lemma assembly_step_inv:
  assumes inv: "\<And>a. slot = Some a \<Longrightarrow> assembly_inv limit (frame_id f) seen a"
    and step: "assembly_step limit slot f = (slot', out)"
  shows "(\<forall>a. slot' = Some a \<longrightarrow> assembly_inv limit (frame_id f) (insert f seen) a) \<and>
     (\<forall>m. out = Some m \<longrightarrow> message_from (insert f seen) m)"
proof (cases "fh_frameCount (fr_header f) = 1")
  case True
  have "message_from (insert f seen) \<lparr>msg_messageId = frame_id f, msg_payloadType = fh_payloadType (fr_header f),
      msg_body = fr_payload f\<rparr>" if "unat (fh_frameIndex (fr_header f)) = 0"
    unfolding message_from_def
    using that True by (intro exI [of _ "[f]"]) (simp add: fragment_of_def frame_id_def)
  with True step inv show ?thesis
    by (auto simp: assembly_step_def Let_def frame_id_def unsigned_eq_0_iff
        intro: assembly_inv_mono split: if_splits)
next
  case False
  let ?h = "fr_header f" and ?a = "open_assembly slot f"
  let ?i = "unat (fh_frameIndex ?h)"
  let ?b = "?a\<lparr>as_totalSize := as_totalSize ?a + length (fr_payload f),
       as_fragments := (as_fragments ?a)[?i := Some (fr_payload f)]\<rparr>"
  have opened: "(if as_fragments a = [] then a\<lparr>as_payloadType := fh_payloadType ?h, as_frameCount := fh_frameCount ?h,
          as_fragments := replicate (unat (fh_frameCount ?h)) None\<rparr> else a) = ?a"
    if "a = (case slot of None \<Rightarrow> Assembly_default | Some a \<Rightarrow> a)" for a
    using that inv by (cases slot) (auto simp: open_assembly_def Assembly_default_def assembly_inv_def)
  have oinv: "open_inv limit (frame_id f) seen ?a" using inv by (rule open_assembly_inv)
  have step': "(slot', out) =
      (if as_payloadType ?a \<noteq> fh_payloadType ?h \<or> as_frameCount ?a \<noteq> fh_frameCount ?h \<or>
          length (as_fragments ?a) \<le> ?i then (None, None)
       else if as_fragments ?a ! ?i \<noteq> None then (Some ?a, None)
       else if limit < as_totalSize ?b then (None, None)
       else if None \<in> set (as_fragments ?b) then (Some ?b, None)
       else (None, Some \<lparr>msg_messageId = frame_id f, msg_payloadType = as_payloadType ?b,
               msg_body = concat (map the (as_fragments ?b))\<rparr>))"
    unfolding step [symmetric] assembly_step_def Let_def opened [OF refl]
    using False by (simp add: frame_id_def)
  consider (mismatch) "as_payloadType ?a \<noteq> fh_payloadType ?h \<or> as_frameCount ?a \<noteq> fh_frameCount ?h \<or>
          length (as_fragments ?a) \<le> ?i"
    | (dup) "fragment_of (frame_id f) (as_payloadType ?a) (unat (as_frameCount ?a)) ?i f"
        "?i < length (as_fragments ?a)" "as_fragments ?a ! ?i \<noteq> None" "slot' = Some ?a" "out = None"
    | (store) "fragment_of (frame_id f) (as_payloadType ?a) (unat (as_frameCount ?a)) ?i f"
        "?i < length (as_fragments ?a)" "as_fragments ?a ! ?i = None"
    using step' by (fastforce simp: fragment_of_def frame_id_def not_le)
  then show ?thesis
  proof cases
    case mismatch
    with step' show ?thesis by auto
  next
    case dup
    have "None \<in> set (as_fragments ?a)"
    proof (cases slot)
      case None
      then show ?thesis using dup(2,3) by (simp add: open_assembly_def)
    next
      case (Some a)
      then show ?thesis using inv by (simp add: open_assembly_def assembly_inv_def)
    qed
    with oinv have "assembly_inv limit (frame_id f) seen ?a" by (simp add: assembly_inv_open)
    with dup(4,5) show ?thesis by (auto intro: assembly_inv_mono)
  next
    case store
    have "open_inv limit (frame_id f) (insert f seen) ?b" if "as_totalSize ?b \<le> limit"
      using open_inv_store [OF oinv store] that by simp
    moreover have "as_fragments ?b \<noteq> []" using store(2) by auto
    ultimately show ?thesis
      using step' store message_from_complete [of limit "frame_id f" "insert f seen" ?b]
      by (auto simp: assembly_inv_open split: if_splits)
  qed
qed

lemma reassemble_snoc:
  "reassemble onMessage st (fs @ [f]) =
     (let (r, s) = reassemble onMessage st fs in MessageReassembler_onFrame onMessage r f s)"
  by (simp add: reassemble_def split_beta)

definition reassembler_inv :: "frame set \<Rightarrow> message_reassembler \<Rightarrow> bool" where
  "reassembler_inv seen r \<longleftrightarrow>
     (\<forall>mid a. mr_assemblies r mid = Some a \<longrightarrow> assembly_inv (mr_maxMessageSize r) mid seen a)"

lemma reassemble_inv:
  assumes "reassemble collect_message (MessageReassembler limit, []) fs = (r, out)"
  shows "reassembler_inv (set fs) r \<and> mr_maxMessageSize r = limit \<and> (\<forall>m\<in>set out. message_from (set fs) m)"
  using assms
proof (induction fs arbitrary: r out rule: rev_induct)
  case Nil
  then show ?case by (auto simp: reassemble_def MessageReassembler_def reassembler_inv_def)
next
  case (snoc f fs)
  obtain r0 out0 where before: "reassemble collect_message (MessageReassembler limit, []) fs = (r0, out0)"
    by (cases "reassemble collect_message (MessageReassembler limit, []) fs")
  obtain slot mo where step: "assembly_step limit (mr_assemblies r0 (frame_id f)) f = (slot, mo)"
    by (cases "assembly_step limit (mr_assemblies r0 (frame_id f)) f")
  note IH = snoc.IH [OF before]
  have new: "r = r0\<lparr>mr_assemblies := (mr_assemblies r0)(frame_id f := slot)\<rparr>"
    "out = (case mo of None \<Rightarrow> out0 | Some m \<Rightarrow> collect_message m out0)"
    using snoc.prems before step IH
    by (auto simp: reassemble_snoc onFrame_refines_step frame_id_def Let_def)
  have ok: "(\<forall>a. slot = Some a \<longrightarrow> assembly_inv limit (frame_id f) (insert f (set fs)) a) \<and>
      (\<forall>m. mo = Some m \<longrightarrow> message_from (insert f (set fs)) m)"
    using IH by (intro assembly_step_inv [OF _ step]) (auto simp: reassembler_inv_def)
  show ?case
    using IH ok new(1)
    by (auto simp: new(2) reassembler_inv_def collect_message_def split: option.splits
        intro: assembly_inv_mono message_from_mono)
qed

section \<open>Properties\<close>

text \<open>A message of three bytes and a frame size with room for two of them, as example input.\<close>

definition example_message :: message where
  "example_message = \<lparr>msg_messageId = 0, msg_payloadType = 2, msg_body = [1, 2, 3]\<rparr>"

lemma example_capacity: "payloadCapacity (MessageFragmenter 16) = 2"
  by (simp add: payloadCapacity_def MessageFragmenter_def protocol_consts)

lemma example_fragments:
  "fst (fragment (MessageFragmenter 16) example_message) =
     [message_frame 1 example_message 0 2 [1, 2], message_frame 1 example_message 1 2 [3]]"
proof -
  have two: "[0..<2] = [0, Suc 0]" by (simp add: upt_rec)
  have len: "length (msg_body example_message) = 3" by (simp add: example_message_def)
  have "fragment (MessageFragmenter 16) example_message =
      (message_frames (mf_nextMessageId (MessageFragmenter 16)) (payloadCapacity (MessageFragmenter 16)) 2 example_message,
       (MessageFragmenter 16)\<lparr>mf_nextMessageId := succ_id (mf_nextMessageId (MessageFragmenter 16)),
          mf_currentMessageId := mf_nextMessageId (MessageFragmenter 16)\<rparr>)"
    by (rule fragment_frames) (simp_all add: example_capacity len frames_needed_def)
  then have "fst (fragment (MessageFragmenter 16) example_message) = message_frames 1 2 2 example_message"
    by (simp add: example_capacity) (simp add: MessageFragmenter_def)
  then show ?thesis
    by (simp add: message_frames_def two message_piece_def) (simp add: example_message_def)
qed

text \<open>
  C15. A fragmented message arrives: if the frames of a message reach the receiver in any order, some
  of them repeatedly, with arbitrary other frames of other message ids between them, exactly that
  message is delivered under its id, once, when its last missing frame arrives, and nothing is kept.
\<close>

theorem message_any_order:
  assumes "0 < payloadCapacity fg" and "frames_needed (payloadCapacity fg) (length (msg_body m)) < 256"
    and "length (msg_body m) \<le> mr_maxMessageSize r" and "mr_assemblies r (mf_nextMessageId fg) = None"
    and "filter (\<lambda>f. frame_id f = mf_nextMessageId fg) arrived = early @ [final]"
    and "set (early @ [final]) = set (fst (fragment fg m))" and "final \<notin> set early"
  shows "filter (\<lambda>m. msg_messageId m = mf_nextMessageId fg) (snd (reassemble collect_message (r, []) arrived)) =
      [\<lparr>msg_messageId = mf_nextMessageId fg, msg_payloadType = msg_payloadType m, msg_body = msg_body m\<rparr>] \<and>
    mr_assemblies (fst (reassemble collect_message (r, []) arrived)) (mf_nextMessageId fg) = None"
  using reassemble_pieces [OF assms(2,3) frames_needed_covers [OF assms(1)] assms(4,5) _ assms(7)]
    assms(6) fragment_frames [OF assms(1) refl assms(2)]
  by simp

theorem message_any_order_witness:
  "filter (\<lambda>m. msg_messageId m = 1)
     (snd (reassemble collect_message (MessageReassembler 1024, [])
        [message_frame 1 example_message 1 2 [3], message_frame 7 example_message 0 3 [9],
         message_frame 1 example_message 1 2 [3], message_frame 1 example_message 0 2 [1, 2]])) =
   [\<lparr>msg_messageId = 1, msg_payloadType = 2, msg_body = [1, 2, 3]\<rparr>]"
proof -
  let ?a = "message_frame 1 example_message 1 2 [3]" and ?b = "message_frame 1 example_message 0 2 [1, 2]"
    and ?c = "message_frame 7 example_message 0 3 [9]" and ?fg = "MessageFragmenter 16"
  have start: "mf_nextMessageId ?fg = 1" "mr_maxMessageSize (MessageReassembler 1024) = 1024"
    "mr_assemblies (MessageReassembler 1024) = Map.empty" by (simp_all add: MessageFragmenter_def MessageReassembler_def)
  have m: "length (msg_body example_message) = 3" "msg_payloadType example_message = 2"
    "msg_body example_message = [1, 2, 3]" by (simp_all add: example_message_def)
  have ids: "frame_id ?a = 1" "frame_id ?b = 1" "frame_id ?c = 7" "?a \<noteq> ?b"
    by (simp_all add: frame_id_def message_frame_def)
  show ?thesis
    using message_any_order [of ?fg example_message "MessageReassembler 1024" "[?a, ?c, ?a, ?b]" "[?a, ?a]" ?b]
    by (simp add: example_capacity example_fragments frames_needed_def start m ids insert_commute
        ids(4) [symmetric])
qed

text \<open>
  C21. Nothing is mixed: every message the reassembler delivers is the concatenation of fragments
  that were received, one for each index, all of them under the message's id and payload type and
  with the same frame count.
\<close>

theorem reassembler_sound:
  "list_all (message_from (set fs)) (snd (reassemble collect_message (MessageReassembler limit, []) fs))"
  using reassemble_inv [of limit fs] by (simp add: list_all_iff split_beta prod_eq_iff)

text \<open>
  C35. The memory held for one unfinished message is bounded by the message size limit whatever
  frames arrive; \<^verbatim>\<open>totalSize\<close> is the size of the stored fragments, their number is the frame count,
  and at least one of them is missing.
\<close>

theorem reassembler_bounded:
  assumes "mr_assemblies (fst (reassemble collect_message (MessageReassembler limit, []) fs)) mid = Some a"
  shows "sum_list (map (\<lambda>p. case p of None \<Rightarrow> 0 | Some b \<Rightarrow> length b) (as_fragments a)) = as_totalSize a \<and>
     as_totalSize a \<le> limit \<and> length (as_fragments a) = unat (as_frameCount a) \<and> None \<in> set (as_fragments a)"
proof -
  obtain r out where r: "reassemble collect_message (MessageReassembler limit, []) fs = (r, out)"
    by (cases "reassemble collect_message (MessageReassembler limit, []) fs")
  with reassemble_inv [OF r] assms have "assembly_inv limit mid (set fs) a" by (auto simp: reassembler_inv_def)
  then show ?thesis by (simp add: assembly_inv_def)
qed

theorem reassembler_bounded_witness:
  "as_totalSize \<lparr>as_payloadType = 2, as_frameCount = 2, as_totalSize = 1, as_fragments = [None, Some [3]]\<rparr> \<le> 4"
  using reassembler_bounded [of 4 "[message_frame 1 example_message 1 2 [3]]" 1
      "\<lparr>as_payloadType = 2, as_frameCount = 2, as_totalSize = 1, as_fragments = [None, Some [3]]\<rparr>"]
  by (simp add: reassemble_def onFrame_refines_step assembly_step_def MessageReassembler_def
      Assembly_default_def message_frame_def example_message_def numeral_2_eq_2)

text \<open>
  Every frame the fragmenter makes fits the negotiated frame size once encoded, unless that size
  has no room for a byte of payload.
\<close>

theorem fragments_fit:
  assumes "14 < mf_maxFrameSize fg" and "f \<in> set (fst (fragment fg m))"
  shows "length (FrameEncoder_encode f) \<le> mf_maxFrameSize fg"
proof -
  have loop: "f \<in> set (fst (fragmentLoop m cap n is fg')) \<Longrightarrow> length (fr_payload f) \<le> cap" for cap n "is" fg'
    by (induction "is" arbitrary: fg') (auto simp: Let_def split_beta)
  have "length (fr_payload f) \<le> payloadCapacity fg"
    using assms(2) by (auto simp: fragment_def Let_def makeFrame_first message_frame_def split: if_splits intro: loop)
  then show ?thesis using assms(1) by (simp add: payloadCapacity_def protocol_consts)
qed

theorem fragments_fit_witness:
  "length (FrameEncoder_encode (message_frame 1 example_message 1 2 [3])) \<le> 16"
  using fragments_fit [of "MessageFragmenter 16" "message_frame 1 example_message 1 2 [3]" example_message]
  by (simp add: example_fragments) (simp add: MessageFragmenter_def)

text \<open>
  The frame count is eight bits wide and wraps: a message that needs a multiple of 256 frames is
  cut into no frame at all, so it disappears without an error.
\<close>

theorem fragment_lost:
  assumes "0 < payloadCapacity fg" and "0 < k"
    and "frames_needed (payloadCapacity fg) (length (msg_body m)) = 256 * k"
  shows "fragment fg m = ([], fg)"
proof -
  have "(word_of_nat (256 * k) :: u8) = 0"
  proof -
    have "(256 :: u8) = 0" by simp
    then show ?thesis by (simp only: of_nat_mult of_nat_numeral) simp
  qed
  with assms show ?thesis by (auto simp: fragment_def frames_needed_def Let_def frame_indices_def split: if_splits)
qed

text \<open>With one byte of payload per frame, 256 bytes are enough to be lost.\<close>

definition byte_message :: "nat \<Rightarrow> message" where
  "byte_message n = \<lparr>msg_messageId = 0, msg_payloadType = 2, msg_body = replicate n 7\<rparr>"

lemma byte_message_capacity: "payloadCapacity (MessageFragmenter 15) = 1"
  by (simp add: payloadCapacity_def MessageFragmenter_def protocol_consts)

theorem fragment_lost_witness:
  "fragment (MessageFragmenter 15) (byte_message 256) = ([], MessageFragmenter 15)"
  using fragment_lost [of "MessageFragmenter 15" 1 "byte_message 256"]
  by (simp add: byte_message_capacity) (simp add: frames_needed_def byte_message_def)

text \<open>
  A message that needs 257 frames is cut into one frame that claims to be all of it, and the
  receiver delivers its first bytes as the complete message.
\<close>

theorem fragment_truncated:
  assumes "0 < payloadCapacity fg" and "frames_needed (payloadCapacity fg) (length (msg_body m)) = 257"
  shows "snd (reassemble collect_message (MessageReassembler limit, []) (fst (fragment fg m))) =
     [\<lparr>msg_messageId = mf_nextMessageId fg, msg_payloadType = msg_payloadType m,
       msg_body = take (payloadCapacity fg) (msg_body m)\<rparr>] \<and>
     payloadCapacity fg < length (msg_body m)"
proof -
  let ?cap = "payloadCapacity fg"
  have len: "msg_body m \<noteq> []" "(length (msg_body m) + ?cap - 1) div ?cap = 257"
    using assms(2) by (auto simp: frames_needed_def split: if_splits)
  have "?cap < length (msg_body m)"
  proof (rule ccontr)
    assume "\<not> ?cap < length (msg_body m)"
    then have "length (msg_body m) + ?cap - 1 < 2 * ?cap" using assms(1) by linarith
    then have "(length (msg_body m) + ?cap - 1) div ?cap < 2" by (simp add: less_mult_imp_div_less)
    with len show False by simp
  qed
  moreover have "fst (fragment fg m) = [message_frame (mf_nextMessageId fg) m 0 1 (take ?cap (msg_body m))]"
  proof -
    have one: "(257 :: u8) = 1" by simp
    show ?thesis
      using assms(1) len
      by (simp add: fragment_def Let_def frame_indices_def makeFrame_first min_piece [of _ _ 0, simplified] one)
  qed
  ultimately show ?thesis
    by (simp add: reassemble_def MessageReassembler_onFrame_def message_frame_def collect_message_def)
qed

theorem fragment_truncated_witness:
  "snd (reassemble collect_message (MessageReassembler 1024, [])
     (fst (fragment (MessageFragmenter 15) (byte_message 257)))) =
   [\<lparr>msg_messageId = 1, msg_payloadType = 2, msg_body = [7]\<rparr>]"
  using fragment_truncated [of "MessageFragmenter 15" "byte_message 257" 1024]
  by (simp add: byte_message_capacity frames_needed_def) (simp add: byte_message_def MessageFragmenter_def)

end
