(* ===== verification/Control_Tlv.thy ===== *)
theory Control_Tlv
  imports Byte_IO
begin

text \<open>
  The TLV options of the OPEN and ACCEPT control payloads
  (\<^verbatim>\<open>framed_binary/control_tlv_codec.hpp\<close>): the default offers, the encoder and the decoder with its
  field rules.

  Shown here: what is encoded is decoded; unknown tags are skipped; input that is not a sequence of
  complete fields is flagged invalid; and the encoder writes frame sizes its own decoder rejects.
\<close>

section \<open>Tags\<close>

abbreviation (input) kSessionId :: u8 where "kSessionId \<equiv> 0x01"
abbreviation (input) kProtocolVersion :: u8 where "kProtocolVersion \<equiv> 0x02"
abbreviation (input) kMaxFrameSize :: u8 where "kMaxFrameSize \<equiv> 0x04"
abbreviation (input) kMtu :: u8 where "kMtu \<equiv> 0x06"
abbreviation (input) kSupportedPayloadTypes :: u8 where "kSupportedPayloadTypes \<equiv> 0x07"
abbreviation (input) kSupportedRpcEncodings :: u8 where "kSupportedRpcEncodings \<equiv> 0x08"
abbreviation (input) kHeartbeatIntervalMs :: u8 where "kHeartbeatIntervalMs \<equiv> 0x0A"
abbreviation (input) kAckMode :: u8 where "kAckMode \<equiv> 0x0B"
abbreviation (input) kSelectedRpcEncoding :: u8 where "kSelectedRpcEncoding \<equiv> 0x1E"

section \<open>Default offers\<close>

definition defaultsForOpen :: control_tlv_options where
  "defaultsForOpen = ControlTlvOptions_default
     \<lparr>tlv_hasMaxFrameSize := True, tlv_hasSupportedPayloadTypes := True,
      tlv_hasSupportedRpcEncodings := True, tlv_hasHeartbeatIntervalMs := True,
      tlv_hasAckMode := True, tlv_maxFrameSize := 4096, tlv_supportedPayloadTypes := 0x07,
      tlv_supportedRpcEncodings := 0x09, tlv_heartbeatIntervalMs := 1000, tlv_ackMode := 0\<rparr>"

definition defaultsForAccept :: "control_tlv_options \<Rightarrow> control_tlv_options" where
  "defaultsForAccept requested =
     (let options = ControlTlvOptions_default
        \<lparr>tlv_hasSessionId := True, tlv_hasMaxFrameSize := True, tlv_hasMtu := tlv_hasMtu requested,
         tlv_hasSupportedPayloadTypes := True, tlv_hasSelectedRpcEncoding := True,
         tlv_hasHeartbeatIntervalMs := True, tlv_hasAckMode := True,
         tlv_sessionId := (if tlv_hasSessionId requested then tlv_sessionId requested else 0),
         tlv_maxFrameSize := (if tlv_hasMaxFrameSize requested then tlv_maxFrameSize requested else 4096),
         tlv_mtu := (if tlv_hasMtu requested then tlv_mtu requested else 4096),
         tlv_supportedPayloadTypes :=
           (if tlv_hasSupportedPayloadTypes requested then tlv_supportedPayloadTypes requested else 0x07),
         tlv_selectedRpcEncoding := RpcEncoding_Json\<rparr>;
          options = (if tlv_hasSupportedRpcEncodings requested \<and> tlv_supportedRpcEncodings requested AND 0x01 = 0
                     then options\<lparr>tlv_valid := False\<rparr> else options)
      in options
        \<lparr>tlv_heartbeatIntervalMs :=
           (if tlv_hasHeartbeatIntervalMs requested then tlv_heartbeatIntervalMs requested else 1000),
         tlv_ackMode := (if tlv_hasAckMode requested then tlv_ackMode requested else 0)\<rparr>)"

section \<open>Encoding\<close>

definition tlv_writeHeader :: "byte_writer \<Rightarrow> u8 \<Rightarrow> u8 \<Rightarrow> byte_writer" where
  "tlv_writeHeader w tag len = writeU8 (writeU8 w tag) len"

definition tlv_writeU8 :: "byte_writer \<Rightarrow> u8 \<Rightarrow> u8 \<Rightarrow> byte_writer" where
  "tlv_writeU8 w tag value = writeU8 (tlv_writeHeader w tag 1) value"

definition tlv_writeU16 :: "byte_writer \<Rightarrow> u8 \<Rightarrow> u16 \<Rightarrow> byte_writer" where
  "tlv_writeU16 w tag value = writeU16 (tlv_writeHeader w tag 2) value"

definition tlv_writeU32 :: "byte_writer \<Rightarrow> u8 \<Rightarrow> u32 \<Rightarrow> byte_writer" where
  "tlv_writeU32 w tag value = writeU32 (tlv_writeHeader w tag 4) value"

definition tlv_writeU16OrU32 :: "byte_writer \<Rightarrow> u8 \<Rightarrow> u32 \<Rightarrow> byte_writer" where
  "tlv_writeU16OrU32 w tag value =
     (if value \<le> 0xFFFF then tlv_writeU16 w tag (ucast value) else tlv_writeU32 w tag value)"

definition ControlTlv_encode :: "control_tlv_options \<Rightarrow> bool \<Rightarrow> bytes" where
  "ControlTlv_encode options includeAcceptFields =
     (let w = ByteWriter_empty;
          w = (if includeAcceptFields \<and> tlv_hasSessionId options
               then tlv_writeU32 w kSessionId (tlv_sessionId options) else w);
          w = (if tlv_hasProtocolVersion options
               then tlv_writeU8 w kProtocolVersion (tlv_protocolVersion options) else w);
          w = (if tlv_hasMaxFrameSize options
               then tlv_writeU16OrU32 w kMaxFrameSize (tlv_maxFrameSize options) else w);
          w = (if tlv_hasMtu options
               then tlv_writeU16OrU32 w kMtu (tlv_mtu options) else w);
          w = (if tlv_hasSupportedPayloadTypes options
               then tlv_writeU8 w kSupportedPayloadTypes (tlv_supportedPayloadTypes options) else w);
          w = (if \<not> includeAcceptFields \<and> tlv_hasSupportedRpcEncodings options
               then tlv_writeU8 w kSupportedRpcEncodings (tlv_supportedRpcEncodings options) else w);
          w = (if includeAcceptFields \<and> tlv_hasSelectedRpcEncoding options
               then tlv_writeU8 w kSelectedRpcEncoding (tlv_selectedRpcEncoding options) else w);
          w = (if tlv_hasHeartbeatIntervalMs options
               then tlv_writeU16OrU32 w kHeartbeatIntervalMs (tlv_heartbeatIntervalMs options) else w);
          w = (if tlv_hasAckMode options
               then tlv_writeU8 w kAckMode (tlv_ackMode options) else w)
      in fst (takeBytes w))"

section \<open>Decoding\<close>

text \<open>The reads return the value stored through the pointer, or None for \<^verbatim>\<open>false\<close>.\<close>

definition readUnsigned :: "bytes \<Rightarrow> u32 \<Rightarrow> u32 option" where
  "readUnsigned bytes maxValue =
     (if bytes = [] \<or> length bytes > 4 then None
      else if length bytes = 3 then None
      else (let parsed = foldl (\<lambda>parsed b. push_bit 8 parsed OR ucast b) 0 bytes
            in if parsed > maxValue then None else Some parsed))"

definition tlv_readU8 :: "bytes \<Rightarrow> u8 option" where
  "tlv_readU8 bytes = (case readUnsigned bytes 0xFF of None \<Rightarrow> None | Some parsed \<Rightarrow> Some (ucast parsed))"

definition tlv_readU32 :: "bytes \<Rightarrow> u32 option" where
  "tlv_readU32 bytes = readUnsigned bytes 0xFFFFFFFF"

definition readU32Limited :: "bytes \<Rightarrow> u32 \<Rightarrow> u32 option" where
  "readU32Limited bytes maxValue = readUnsigned bytes maxValue"

definition readHeartbeat :: "bytes \<Rightarrow> u32 option" where
  "readHeartbeat bytes = (case tlv_readU32 bytes of None \<Rightarrow> None | Some v \<Rightarrow> Some v)"

text \<open>A failed read leaves the value member as it was; \<open>old\<close> is that member.\<close>

abbreviation (input) stored :: "'a option \<Rightarrow> 'a \<Rightarrow> 'a" where
  "stored r old \<equiv> (case r of None \<Rightarrow> old | Some v \<Rightarrow> v)"

definition decodeField :: "control_tlv_options \<Rightarrow> u8 \<Rightarrow> bytes \<Rightarrow> control_tlv_options" where
  "decodeField options tag value =
     (if tag = kSessionId then
        (let r = tlv_readU32 value; ok = (r \<noteq> None) in
         options\<lparr>tlv_sessionId := stored r (tlv_sessionId options), tlv_hasSessionId := ok,
                 tlv_valid := tlv_valid options \<and> ok\<rparr>)
      else if tag = kProtocolVersion then
        (let r = tlv_readU8 value; version = stored r (tlv_protocolVersion options);
             ok = (r \<noteq> None \<and> version = 1) in
         options\<lparr>tlv_protocolVersion := version, tlv_hasProtocolVersion := ok,
                 tlv_valid := tlv_valid options \<and> ok\<rparr>)
      else if tag = kMaxFrameSize then
        (let r = readU32Limited value 0xFFFF; ok = (r \<noteq> None) in
         options\<lparr>tlv_maxFrameSize := stored r (tlv_maxFrameSize options), tlv_hasMaxFrameSize := ok,
                 tlv_valid := tlv_valid options \<and> ok\<rparr>)
      else if tag = kMtu then
        (let r = readU32Limited value 0xFFFF; ok = (r \<noteq> None) in
         options\<lparr>tlv_mtu := stored r (tlv_mtu options), tlv_hasMtu := ok,
                 tlv_valid := tlv_valid options \<and> ok\<rparr>)
      else if tag = kSupportedPayloadTypes then
        (let r = tlv_readU8 value; ok = (r \<noteq> None) in
         options\<lparr>tlv_supportedPayloadTypes := stored r (tlv_supportedPayloadTypes options),
                 tlv_hasSupportedPayloadTypes := ok, tlv_valid := tlv_valid options \<and> ok\<rparr>)
      else if tag = kSupportedRpcEncodings then
        (let r = tlv_readU8 value; ok = (r \<noteq> None) in
         options\<lparr>tlv_supportedRpcEncodings := stored r (tlv_supportedRpcEncodings options),
                 tlv_hasSupportedRpcEncodings := ok, tlv_valid := tlv_valid options \<and> ok\<rparr>)
      else if tag = kSelectedRpcEncoding then
        (let r = tlv_readU8 value; ok = (r \<noteq> None) in
         options\<lparr>tlv_selectedRpcEncoding := stored r (tlv_selectedRpcEncoding options),
                 tlv_hasSelectedRpcEncoding := ok, tlv_valid := tlv_valid options \<and> ok\<rparr>)
      else if tag = kHeartbeatIntervalMs then
        (let r = readHeartbeat value; ok = (r \<noteq> None) in
         options\<lparr>tlv_heartbeatIntervalMs := stored r (tlv_heartbeatIntervalMs options),
                 tlv_hasHeartbeatIntervalMs := ok, tlv_valid := tlv_valid options \<and> ok\<rparr>)
      else if tag = kAckMode then
        (let r = tlv_readU8 value; ok = (r \<noteq> None) in
         options\<lparr>tlv_ackMode := stored r (tlv_ackMode options), tlv_hasAckMode := ok,
                 tlv_valid := tlv_valid options \<and> ok\<rparr>)
      else options)"

lemma readU8_remaining:
  "\<not> isl (fst (readU8 r)) \<Longrightarrow> reader_remaining (snd (readU8 r)) < reader_remaining r"
  by (auto simp: readU8_def hasRemaining_def reader_remaining_def split: if_splits)

lemma readBytes_remaining: "reader_remaining (snd (readBytes r n)) \<le> reader_remaining r"
  by (auto simp: readBytes_def hasRemaining_def reader_remaining_def)

function decodeLoop :: "control_tlv_options \<Rightarrow> byte_reader \<Rightarrow> control_tlv_options" where
  "decodeLoop options reader =
     (if reader_empty reader then options
      else (let (tag, reader) = readU8 reader;
                (len, reader) = readU8 reader
            in if isl tag \<or> isl len \<or> \<not> hasRemaining reader (unat (projr len))
               then options\<lparr>tlv_valid := False\<rparr>
               else (let (value, reader) = readBytes reader (unat (projr len))
                     in if isl value then options\<lparr>tlv_valid := False\<rparr>
                        else decodeLoop (decodeField options (projr tag) (projr value)) reader)))"
  by pat_completeness auto
termination
proof (relation "measure (\<lambda>(_, r). reader_remaining r)", goal_cases)
  case (2 options reader tagp tag r1 lenp len r2 valp v r3)
  have "reader_remaining r3 \<le> reader_remaining r2" using 2 readBytes_remaining [of r2 "unat (projr len)"] by (metis snd_conv)
  also have "reader_remaining r2 < reader_remaining r1" using 2 readU8_remaining [of r1] by (auto simp: prod_eq_iff)
  also have "reader_remaining r1 < reader_remaining reader" using 2 readU8_remaining [of reader] by (auto simp: prod_eq_iff)
  finally show ?case by simp
qed simp

declare decodeLoop.simps [simp del]

definition ControlTlv_decode :: "bytes \<Rightarrow> control_tlv_options" where
  "ControlTlv_decode bytes =
     (let options = ControlTlvOptions_default in
      if bytes = [] then options else decodeLoop options (ByteReader bytes))"

section \<open>The format as a list of fields\<close>

definition tlv_field :: "u8 \<times> bytes \<Rightarrow> bytes" where
  "tlv_field = (\<lambda>(tag, v). tag # word_of_nat (length v) # v)"

definition tlv_bytes :: "(u8 \<times> bytes) list \<Rightarrow> bytes" where
  "tlv_bytes fs = concat (map tlv_field fs)"

definition tlv_number :: "u32 \<Rightarrow> bytes" where
  "tlv_number v = (if v \<le> 0xFFFF then be16 (ucast v) else be32 v)"

definition tlv_fields :: "control_tlv_options \<Rightarrow> bool \<Rightarrow> (u8 \<times> bytes) list" where
  "tlv_fields opts accept =
     (if accept \<and> tlv_hasSessionId opts then [(kSessionId, be32 (tlv_sessionId opts))] else []) @
     (if tlv_hasProtocolVersion opts then [(kProtocolVersion, [tlv_protocolVersion opts])] else []) @
     (if tlv_hasMaxFrameSize opts then [(kMaxFrameSize, tlv_number (tlv_maxFrameSize opts))] else []) @
     (if tlv_hasMtu opts then [(kMtu, tlv_number (tlv_mtu opts))] else []) @
     (if tlv_hasSupportedPayloadTypes opts then [(kSupportedPayloadTypes, [tlv_supportedPayloadTypes opts])] else []) @
     (if \<not> accept \<and> tlv_hasSupportedRpcEncodings opts
      then [(kSupportedRpcEncodings, [tlv_supportedRpcEncodings opts])] else []) @
     (if accept \<and> tlv_hasSelectedRpcEncoding opts
      then [(kSelectedRpcEncoding, [tlv_selectedRpcEncoding opts])] else []) @
     (if tlv_hasHeartbeatIntervalMs opts
      then [(kHeartbeatIntervalMs, tlv_number (tlv_heartbeatIntervalMs opts))] else []) @
     (if tlv_hasAckMode opts then [(kAckMode, [tlv_ackMode opts])] else [])"

lemma tlv_write_bytes:
  "wr_bytes (tlv_writeU8 w t a) = wr_bytes w @ tlv_field (t, [a])"
  "wr_bytes (tlv_writeU16OrU32 w t c) = wr_bytes w @ tlv_field (t, tlv_number c)"
  "wr_bytes (tlv_writeU32 w t c) = wr_bytes w @ tlv_field (t, be32 c)"
  by (simp_all add: tlv_writeU8_def tlv_writeU32_def tlv_writeU16_def tlv_writeU16OrU32_def
      tlv_writeHeader_def tlv_field_def tlv_number_def)

lemma tlv_write_if:
  "wr_bytes (if c then tlv_writeU8 w t a else w) = wr_bytes w @ (if c then tlv_field (t, [a]) else [])"
  "wr_bytes (if c then tlv_writeU16OrU32 w t d else w) = wr_bytes w @ (if c then tlv_field (t, tlv_number d) else [])"
  "wr_bytes (if c then tlv_writeU32 w t d else w) = wr_bytes w @ (if c then tlv_field (t, be32 d) else [])"
  by (simp_all add: tlv_write_bytes)

lemma tlv_bytes_append: "tlv_bytes (xs @ ys) = tlv_bytes xs @ tlv_bytes ys"
  by (simp add: tlv_bytes_def)

lemma tlv_bytes_if: "tlv_bytes (if c then [x] else []) = (if c then tlv_field x else [])"
  by (simp add: tlv_bytes_def)

lemma ControlTlv_encode_eq: "ControlTlv_encode opts accept = tlv_bytes (tlv_fields opts accept)"
  unfolding ControlTlv_encode_def Let_def fst_takeBytes tlv_fields_def
  by (simp only: tlv_write_if wr_bytes_empty tlv_bytes_append tlv_bytes_if append_assoc append_Nil)

lemma decodeLoop_end: "decodeLoop opts (reader_after pre []) = opts"
  by (simp add: decodeLoop.simps wire_simps)

lemma decodeLoop_field:
  assumes "length v < 256"
  shows "decodeLoop opts (reader_after pre (tlv_field (t, v) @ rest)) =
     decodeLoop (decodeField opts t v) (reader_after (pre @ tlv_field (t, v)) rest)"
proof -
  have "unat (word_of_nat (length v) :: u8) = length v" using assms by (simp add: unat_of_nat)
  then show ?thesis
    by (simp add: decodeLoop.simps [of opts] tlv_field_def wire_simps readBytes_after)
qed

lemma ControlTlv_decode_alt: "ControlTlv_decode bs = decodeLoop ControlTlvOptions_default (reader_after [] bs)"
  by (simp add: ControlTlv_decode_def decodeLoop_end ByteReader_after)

lemma decodeLoop_fields:
  "\<forall>(t, v)\<in>set fs. length v < 256 \<Longrightarrow>
     decodeLoop opts (reader_after pre (tlv_bytes fs @ rest)) =
     decodeLoop (foldl (\<lambda>opts (t, v). decodeField opts t v) opts fs) (reader_after (pre @ tlv_bytes fs) rest)"
proof (induction fs arbitrary: opts pre)
  case (Cons f fs)
  obtain t v where f: "f = (t, v)" by (cases f)
  then show ?case using Cons.IH [of "decodeField opts t v" "pre @ tlv_field (t, v)"] Cons.prems
    by (simp add: tlv_bytes_def decodeLoop_field)
qed (simp add: tlv_bytes_def)

lemma ControlTlv_decode_fields:
  "\<forall>(t, v)\<in>set fs. length v < 256 \<Longrightarrow>
     ControlTlv_decode (tlv_bytes fs) = foldl (\<lambda>opts (t, v). decodeField opts t v) ControlTlvOptions_default fs"
  using decodeLoop_fields [of fs ControlTlvOptions_default "[]" "[]"]
  by (simp add: ControlTlv_decode_alt decodeLoop_end)

section \<open>Reading numbers back\<close>

lemma readUnsigned_be32: "readUnsigned (be32 v) m = (if m < v then None else Some v)"
  using join_u32 [of v] by (simp add: readUnsigned_def be32_def push_bit_or push_bit_push_bit)

lemma readUnsigned_be16: "readUnsigned (be16 v) m = (if m < ucast v then None else Some (ucast v))"
proof -
  have "push_bit 8 (ucast (ucast (drop_bit 8 v) :: byte)) OR ucast (ucast v :: byte) = (ucast v :: u32)"
    by (rule bit_word_eqI) (auto simp: bit_simps dest: bit_imp_le_length)
  then show ?thesis by (simp add: readUnsigned_def be16_def)
qed

lemma readUnsigned_byte: "readUnsigned [b] m = (if m < ucast b then None else Some (ucast b))"
  by (simp add: readUnsigned_def)

lemma readUnsigned_number: "readUnsigned (tlv_number v) m = (if m < v then None else Some v)"
proof (cases "v \<le> 0xFFFF")
  case True
  then have "unat v < 2 ^ 16" by (simp add: word_le_nat_alt)
  then have "(ucast (ucast v :: u16) :: u32) = v"
  proof -
    have "(ucast (ucast v :: u16) :: u32) = take_bit 16 v"
      by (rule bit_word_eqI) (auto simp: bit_simps)
    moreover have "unat (take_bit 16 v) = unat v"
      using \<open>unat v < 2 ^ 16\<close> by (simp add: unsigned_take_bit_eq take_bit_nat_eq_self)
    ultimately show ?thesis by (simp add: word_unat_eq_iff)
  qed
  with True show ?thesis by (simp add: tlv_number_def readUnsigned_be16)
next
  case False
  then show ?thesis by (simp add: tlv_number_def readUnsigned_be32)
qed

lemma tlv_readU8_byte [simp]: "tlv_readU8 [b] = Some b"
proof -
  have "\<not> (0xFF :: u32) < ucast b" 
  proof -
    have "unat (ucast b :: u32) = unat b"
      using less_trans [OF unat_byte_less [of b], of "2 ^ 32"]
      by (simp add: unsigned_ucast_eq unsigned_take_bit_eq take_bit_nat_eq_self del: unat_byte_less)
    then show ?thesis using unat_byte_less [of b]
      by (simp add: word_less_nat_alt not_less del: unat_byte_less)
  qed
  moreover have "ucast (ucast b :: u32) = b" by (rule bit_word_eqI) (auto simp: bit_simps)
  ultimately show ?thesis by (simp add: tlv_readU8_def readUnsigned_byte)
qed

lemma max_u32: "\<not> (0xFFFFFFFF :: u32) < v"
  using unsigned_less [of v, where 'a = nat] by (simp add: word_less_nat_alt)

lemma tlv_read_numbers [simp]:
  "tlv_readU32 (be32 v) = Some v"
  "readHeartbeat (tlv_number v) = Some v"
  "readU32Limited (tlv_number v) m = (if m < v then None else Some v)"
  by (simp_all add: tlv_readU32_def readHeartbeat_def readU32Limited_def readUnsigned_be32
      readUnsigned_number max_u32)

section \<open>Field rules on encoded values\<close>

text \<open>
  The members the peer sees: each option that was sent with its value, every other member at its
  initial value.
\<close>

definition tlv_received :: "control_tlv_options \<Rightarrow> bool \<Rightarrow> control_tlv_options" where
  "tlv_received opts accept =
     (let d = ControlTlvOptions_default in
      \<lparr>tlv_valid = True,
       tlv_hasSessionId = (accept \<and> tlv_hasSessionId opts),
       tlv_hasProtocolVersion = tlv_hasProtocolVersion opts,
       tlv_hasMaxFrameSize = tlv_hasMaxFrameSize opts,
       tlv_hasMtu = tlv_hasMtu opts,
       tlv_hasSupportedPayloadTypes = tlv_hasSupportedPayloadTypes opts,
       tlv_hasSupportedRpcEncodings = (\<not> accept \<and> tlv_hasSupportedRpcEncodings opts),
       tlv_hasSelectedRpcEncoding = (accept \<and> tlv_hasSelectedRpcEncoding opts),
       tlv_hasHeartbeatIntervalMs = tlv_hasHeartbeatIntervalMs opts,
       tlv_hasAckMode = tlv_hasAckMode opts,
       tlv_sessionId = (if accept \<and> tlv_hasSessionId opts then tlv_sessionId opts else tlv_sessionId d),
       tlv_protocolVersion = (if tlv_hasProtocolVersion opts then tlv_protocolVersion opts else tlv_protocolVersion d),
       tlv_maxFrameSize = (if tlv_hasMaxFrameSize opts then tlv_maxFrameSize opts else tlv_maxFrameSize d),
       tlv_mtu = (if tlv_hasMtu opts then tlv_mtu opts else tlv_mtu d),
       tlv_supportedPayloadTypes =
         (if tlv_hasSupportedPayloadTypes opts then tlv_supportedPayloadTypes opts else tlv_supportedPayloadTypes d),
       tlv_supportedRpcEncodings =
         (if \<not> accept \<and> tlv_hasSupportedRpcEncodings opts then tlv_supportedRpcEncodings opts
          else tlv_supportedRpcEncodings d),
       tlv_selectedRpcEncoding =
         (if accept \<and> tlv_hasSelectedRpcEncoding opts then tlv_selectedRpcEncoding opts
          else tlv_selectedRpcEncoding d),
       tlv_heartbeatIntervalMs =
         (if tlv_hasHeartbeatIntervalMs opts then tlv_heartbeatIntervalMs opts else tlv_heartbeatIntervalMs d),
       tlv_ackMode = (if tlv_hasAckMode opts then tlv_ackMode opts else tlv_ackMode d)\<rparr>)"

definition tlv_sendable :: "control_tlv_options \<Rightarrow> bool" where
  "tlv_sendable opts \<longleftrightarrow>
     (tlv_hasProtocolVersion opts \<longrightarrow> tlv_protocolVersion opts = 1) \<and>
     (tlv_hasMaxFrameSize opts \<longrightarrow> tlv_maxFrameSize opts \<le> 0xFFFF) \<and>
     (tlv_hasMtu opts \<longrightarrow> tlv_mtu opts \<le> 0xFFFF)"

lemma decodeField_simps:
  "decodeField a kSessionId (be32 x) = a\<lparr>tlv_sessionId := x, tlv_hasSessionId := True\<rparr>"
  "decodeField a kProtocolVersion [1] = a\<lparr>tlv_protocolVersion := 1, tlv_hasProtocolVersion := True\<rparr>"
  "n \<le> 0xFFFF \<Longrightarrow> decodeField a kMaxFrameSize (tlv_number n) = a\<lparr>tlv_maxFrameSize := n, tlv_hasMaxFrameSize := True\<rparr>"
  "n \<le> 0xFFFF \<Longrightarrow> decodeField a kMtu (tlv_number n) = a\<lparr>tlv_mtu := n, tlv_hasMtu := True\<rparr>"
  "decodeField a kSupportedPayloadTypes [b] = a\<lparr>tlv_supportedPayloadTypes := b, tlv_hasSupportedPayloadTypes := True\<rparr>"
  "decodeField a kSupportedRpcEncodings [b] = a\<lparr>tlv_supportedRpcEncodings := b, tlv_hasSupportedRpcEncodings := True\<rparr>"
  "decodeField a kSelectedRpcEncoding [b] = a\<lparr>tlv_selectedRpcEncoding := b, tlv_hasSelectedRpcEncoding := True\<rparr>"
  "decodeField a kHeartbeatIntervalMs (tlv_number n) = a\<lparr>tlv_heartbeatIntervalMs := n, tlv_hasHeartbeatIntervalMs := True\<rparr>"
  "decodeField a kAckMode [b] = a\<lparr>tlv_ackMode := b, tlv_hasAckMode := True\<rparr>"
  by (simp_all add: decodeField_def not_less [symmetric] Let_def)

text \<open>The same, for a field that is sent when \<open>c\<close> holds.\<close>

definition decode_opt :: "bool \<Rightarrow> u8 \<Rightarrow> bytes \<Rightarrow> control_tlv_options \<Rightarrow> control_tlv_options" where
  "decode_opt c t v a = (if c then decodeField a t v else a)"

lemma decodeField_opt:
  "decode_opt c kSessionId (be32 x) a =
     a\<lparr>tlv_sessionId := (if c then x else tlv_sessionId a), tlv_hasSessionId := c \<or> tlv_hasSessionId a\<rparr>"
  "c \<longrightarrow> b = 1 \<Longrightarrow> decode_opt c kProtocolVersion [b] a =
     a\<lparr>tlv_protocolVersion := (if c then b else tlv_protocolVersion a), tlv_hasProtocolVersion := c \<or> tlv_hasProtocolVersion a\<rparr>"
  "c \<longrightarrow> n \<le> 0xFFFF \<Longrightarrow> decode_opt c kMaxFrameSize (tlv_number n) a =
     a\<lparr>tlv_maxFrameSize := (if c then n else tlv_maxFrameSize a), tlv_hasMaxFrameSize := c \<or> tlv_hasMaxFrameSize a\<rparr>"
  "c \<longrightarrow> n \<le> 0xFFFF \<Longrightarrow> decode_opt c kMtu (tlv_number n) a =
     a\<lparr>tlv_mtu := (if c then n else tlv_mtu a), tlv_hasMtu := c \<or> tlv_hasMtu a\<rparr>"
  "decode_opt c kSupportedPayloadTypes [b] a =
     a\<lparr>tlv_supportedPayloadTypes := (if c then b else tlv_supportedPayloadTypes a), tlv_hasSupportedPayloadTypes := c \<or> tlv_hasSupportedPayloadTypes a\<rparr>"
  "decode_opt c kSupportedRpcEncodings [b] a =
     a\<lparr>tlv_supportedRpcEncodings := (if c then b else tlv_supportedRpcEncodings a), tlv_hasSupportedRpcEncodings := c \<or> tlv_hasSupportedRpcEncodings a\<rparr>"
  "decode_opt c kSelectedRpcEncoding [b] a =
     a\<lparr>tlv_selectedRpcEncoding := (if c then b else tlv_selectedRpcEncoding a), tlv_hasSelectedRpcEncoding := c \<or> tlv_hasSelectedRpcEncoding a\<rparr>"
  "decode_opt c kHeartbeatIntervalMs (tlv_number n) a =
     a\<lparr>tlv_heartbeatIntervalMs := (if c then n else tlv_heartbeatIntervalMs a), tlv_hasHeartbeatIntervalMs := c \<or> tlv_hasHeartbeatIntervalMs a\<rparr>"
  "decode_opt c kAckMode [b] a =
     a\<lparr>tlv_ackMode := (if c then b else tlv_ackMode a), tlv_hasAckMode := c \<or> tlv_hasAckMode a\<rparr>"
  by (simp_all add: decode_opt_def decodeField_simps)

lemma decodeField_unknown:
  "t \<notin> {kSessionId, kProtocolVersion, kMaxFrameSize, kMtu, kSupportedPayloadTypes, kSupportedRpcEncodings,
         kHeartbeatIntervalMs, kAckMode, kSelectedRpcEncoding} \<Longrightarrow> decodeField a t v = a"
  by (simp add: decodeField_def)

lemma decodeField_invalid: "\<not> tlv_valid a \<Longrightarrow> \<not> tlv_valid (decodeField a t v)"
  by (simp add: decodeField_def Let_def)

lemma tlv_fields_short: "\<forall>(t, v)\<in>set (tlv_fields opts accept). length v < 256"
  by (auto simp: tlv_fields_def tlv_number_def)

lemma foldl_opt_field:
  "foldl (\<lambda>opts (t, v). decodeField opts t v) a ((if c then [(t, v)] else []) @ xs) =
     foldl (\<lambda>opts (t, v). decodeField opts t v) (decode_opt c t v a) xs"
  "foldl (\<lambda>opts (t, v). decodeField opts t v) a (if c then [(t, v)] else []) = decode_opt c t v a"
  by (simp_all add: decode_opt_def)

lemma ControlTlv_roundtrip:
  assumes "tlv_sendable opts"
  shows "ControlTlv_decode (ControlTlv_encode opts accept) = tlv_received opts accept"
proof -
  have v: "tlv_hasProtocolVersion opts \<Longrightarrow> tlv_protocolVersion opts = 1"
    and m: "tlv_hasMaxFrameSize opts \<Longrightarrow> tlv_maxFrameSize opts \<le> 0xFFFF"
    and u: "tlv_hasMtu opts \<Longrightarrow> tlv_mtu opts \<le> 0xFFFF"
    using assms by (simp_all add: tlv_sendable_def)
  have "ControlTlv_decode (ControlTlv_encode opts accept) =
      foldl (\<lambda>opts (t, v). decodeField opts t v) ControlTlvOptions_default (tlv_fields opts accept)"
    by (simp add: ControlTlv_encode_eq ControlTlv_decode_fields tlv_fields_short)
  also have "\<dots> = tlv_received opts accept"
    unfolding tlv_fields_def foldl_opt_field
    by (simp add: decodeField_opt v m u ControlTlvOptions_default_def tlv_received_def Let_def split del: if_split cong: if_cong)
  finally show ?thesis .
qed

section \<open>Unknown and malformed input\<close>

definition known_tag :: "u8 \<Rightarrow> bool" where
  "known_tag t \<longleftrightarrow> t \<in> {kSessionId, kProtocolVersion, kMaxFrameSize, kMtu, kSupportedPayloadTypes,
     kSupportedRpcEncodings, kHeartbeatIntervalMs, kAckMode, kSelectedRpcEncoding}"

lemma foldl_skip_unknown:
  "foldl (\<lambda>opts (t, v). decodeField opts t v) a fs =
   foldl (\<lambda>opts (t, v). decodeField opts t v) a (filter (known_tag \<circ> fst) fs)"
  by (induction fs arbitrary: a) (auto simp: known_tag_def decodeField_unknown)

text \<open>A valid number field has one, two or four bytes.\<close>

lemma decodeField_valid:
  "tlv_valid (decodeField a t v) \<Longrightarrow> known_tag t \<Longrightarrow> length v \<in> {1, 2, 4}"
proof -
  assume "tlv_valid (decodeField a t v)" and "known_tag t"
  then obtain m where "readUnsigned v m \<noteq> None"
    by (auto simp: decodeField_def known_tag_def Let_def tlv_readU8_def tlv_readU32_def readU32Limited_def
        readHeartbeat_def split: if_splits option.splits)
  then have "v \<noteq> []" "\<not> 4 < length v" "length v \<noteq> 3"
    by (auto simp: readUnsigned_def split: if_splits)
  then have "length v \<noteq> 0" "length v \<le> 4" "length v \<noteq> 3" by simp_all
  then have "length v = 1 \<or> length v = 2 \<or> length v = 4" by arith
  then show ?thesis by blast
qed

definition tlv_wellformed :: "(u8 \<times> bytes) list \<Rightarrow> bool" where
  "tlv_wellformed fs \<longleftrightarrow>
     list_all (\<lambda>(t, v). length v < 256 \<and> (if known_tag t then length v \<in> {1, 2, 4} else True)) fs"

lemma decodeLoop_valid:
  "tlv_valid (decodeLoop a (reader_after pre bs)) \<Longrightarrow>
     tlv_valid a \<and> (\<exists>fs. bs = tlv_bytes fs \<and> tlv_wellformed fs)"
proof (induction "length bs" arbitrary: a pre bs rule: less_induct)
  case less
  consider "bs = []" | t where "bs = [t]" | t l rest where "bs = t # l # rest" by (cases bs; cases "tl bs") auto
  then show ?case
  proof cases
    case 1
    with less.prems show ?thesis
      by (auto simp: decodeLoop_end tlv_bytes_def tlv_wellformed_def intro: exI [of _ "[]"])
  next
    case 2
    have "readU8 (reader_after pre' []) = (Result_failure kByteIoOutOfRange ''not enough bytes for u8'', reader_after pre' [])" for pre'
      by (simp add: readU8_def wire_simps)
    then show ?thesis using less.prems 2 by (simp add: decodeLoop.simps [of a] wire_simps)
  next
    case (3 t l rest)
    show ?thesis
    proof (cases "unat l \<le> length rest")
      case False
      with 3 less.prems show ?thesis by (simp add: decodeLoop.simps [of a] wire_simps)
    next
      case True
      let ?v = "take (unat l) rest" and ?rest = "drop (unat l) rest"
      have len: "length ?v = unat l" using True by simp
      then have field: "bs = tlv_field (t, ?v) @ ?rest" using 3 by (simp add: tlv_field_def)
      have short: "length ?v < 256" using len by simp
      have valid: "tlv_valid (decodeLoop (decodeField a t ?v) (reader_after (pre @ tlv_field (t, ?v)) ?rest))"
        using less.prems decodeLoop_field [OF short, of a pre t ?rest] field by simp
      have "length ?rest < length bs" using 3 by simp
      from less.hyps [OF this valid] obtain fs where fs: "tlv_valid (decodeField a t ?v)"
        "?rest = tlv_bytes fs" "tlv_wellformed fs" by blast
      have "tlv_valid a" using fs(1) decodeField_invalid by blast
      moreover have "bs = tlv_bytes ((t, ?v) # fs)" using field fs(2) by (simp add: tlv_bytes_def)
      moreover have "tlv_wellformed ((t, ?v) # fs)"
        using fs(1,3) short decodeField_valid [of a t ?v] by (simp add: tlv_wellformed_def)
      ultimately show ?thesis by blast
    qed
  qed
qed

lemma foldl_decodeField_invalid:
  "\<not> tlv_valid a \<Longrightarrow> \<not> tlv_valid (foldl (\<lambda>opts (t, v). decodeField opts t v) a fs)"
proof (induction fs arbitrary: a)
  case (Cons f fs)
  obtain t v where f: "f = (t, v)" by (cases f)
  show ?case using Cons.IH [of "decodeField a t v"] decodeField_invalid [OF Cons.prems, of t v]
    by (simp add: f)
qed simp

lemma foldl_field_invalid:
  "(t, v) \<in> set fs \<Longrightarrow> (\<And>a. \<not> tlv_valid (decodeField a t v)) \<Longrightarrow>
     \<not> tlv_valid (foldl (\<lambda>opts (t, v). decodeField opts t v) a fs)"
proof -
  assume mem: "(t, v) \<in> set fs" and bad: "\<And>a. \<not> tlv_valid (decodeField a t v)"
  from split_list [OF mem] obtain xs ys where fs: "fs = xs @ (t, v) # ys" by blast
  show ?thesis
    unfolding fs foldl_append foldl_Cons prod.case by (rule foldl_decodeField_invalid [OF bad])
qed

section \<open>Properties\<close>

text \<open>
  C27. The options sent in OPEN and ACCEPT are the options received: decoding the encoded options
  gives each option that was sent with its value and every other one at its default, and so does
  decoding any longer field list in which fields with unknown tags stand between the known ones.
\<close>

theorem control_tlv_roundtrip:
  assumes "tlv_sendable opts" and "filter (known_tag \<circ> fst) fs = tlv_fields opts accept"
    and "\<forall>(t, v)\<in>set fs. length v < 256"
  shows "ControlTlv_decode (ControlTlv_encode opts accept) = tlv_received opts accept \<and>
     ControlTlv_decode (tlv_bytes fs) = tlv_received opts accept"
proof -
  have "ControlTlv_decode (tlv_bytes fs) = ControlTlv_decode (ControlTlv_encode opts accept)"
    by (simp add: ControlTlv_encode_eq ControlTlv_decode_fields assms tlv_fields_short
        foldl_skip_unknown [of _ fs])
  then show ?thesis by (simp add: ControlTlv_roundtrip [OF assms(1)])
qed

theorem control_tlv_roundtrip_witness:
  "ControlTlv_decode (ControlTlv_encode defaultsForOpen False) = tlv_received defaultsForOpen False \<and>
   ControlTlv_decode (tlv_bytes ([(0x55, [1, 2, 3])] @ tlv_fields defaultsForOpen False)) =
     tlv_received defaultsForOpen False"
  by (rule control_tlv_roundtrip)
    (simp_all add: tlv_sendable_def defaultsForOpen_def ControlTlvOptions_default_def tlv_fields_def
      known_tag_def tlv_number_def)

text \<open>
  C28. Options are accepted as valid only when the bytes are a sequence of complete fields in which
  every known field has one, two or four value bytes; a truncated or overlong field is noticed.
\<close>

theorem control_tlv_malformed:
  assumes "tlv_valid (ControlTlv_decode bs)"
  shows "\<exists>fs. bs = tlv_bytes fs \<and> tlv_wellformed fs"
  using assms decodeLoop_valid [of ControlTlvOptions_default "[]" bs] by (simp add: ControlTlv_decode_alt)

theorem control_tlv_malformed_witness:
  "\<exists>fs. ControlTlv_encode defaultsForOpen False = tlv_bytes fs \<and> tlv_wellformed fs"
  by (rule control_tlv_malformed)
    (simp add: ControlTlv_roundtrip tlv_received_def tlv_sendable_def defaultsForOpen_def
      ControlTlvOptions_default_def)

text \<open>
  The encoder writes frame sizes and MTUs above 65535 in four bytes, and its own decoder flags
  them as invalid: such an offer can be sent but never accepted.
\<close>

theorem control_tlv_oversized_rejected:
  assumes "tlv_hasMaxFrameSize opts \<and> 0xFFFF < tlv_maxFrameSize opts \<or> tlv_hasMtu opts \<and> 0xFFFF < tlv_mtu opts"
  shows "\<not> tlv_valid (ControlTlv_decode (ControlTlv_encode opts accept))"
proof -
  have bad: "\<not> tlv_valid (decodeField a kMaxFrameSize (tlv_number n))"
    "\<not> tlv_valid (decodeField a kMtu (tlv_number n))" if "0xFFFF < n" for a n
    using that by (simp_all add: decodeField_def Let_def)
  have mem: "tlv_hasMaxFrameSize opts \<Longrightarrow> (kMaxFrameSize, tlv_number (tlv_maxFrameSize opts)) \<in> set (tlv_fields opts accept)"
    "tlv_hasMtu opts \<Longrightarrow> (kMtu, tlv_number (tlv_mtu opts)) \<in> set (tlv_fields opts accept)"
    by (simp_all add: tlv_fields_def)
  have "\<not> tlv_valid (foldl (\<lambda>opts (t, v). decodeField opts t v) ControlTlvOptions_default (tlv_fields opts accept))"
    using assms
  proof
    assume "tlv_hasMaxFrameSize opts \<and> 0xFFFF < tlv_maxFrameSize opts"
    then show ?thesis by (intro foldl_field_invalid [OF mem(1)] bad(1)) simp_all
  next
    assume "tlv_hasMtu opts \<and> 0xFFFF < tlv_mtu opts"
    then show ?thesis by (intro foldl_field_invalid [OF mem(2)] bad(2)) simp_all
  qed
  then show ?thesis by (simp add: ControlTlv_encode_eq ControlTlv_decode_fields tlv_fields_short)
qed

theorem control_tlv_oversized_rejected_witness:
  "\<not> tlv_valid (ControlTlv_decode (ControlTlv_encode (defaultsForOpen\<lparr>tlv_maxFrameSize := 0x10000\<rparr>) False))"
  by (rule control_tlv_oversized_rejected) (simp add: defaultsForOpen_def ControlTlvOptions_default_def)

end
