(* ===== verification/Registry.thy ===== *)
theory Registry
  imports Axtp_Model
begin

text \<open>
  The generated registries (\<^verbatim>\<open>protocol/generated/axtp_*_registry_generated.h\<close>,
  \<^verbatim>\<open>axtp_error_code_generated.h\<close>, \<^verbatim>\<open>axtp_capability_generated.h\<close>, \<^verbatim>\<open>axtp_ids_generated.h\<close>), the lookups
  over them (\<^verbatim>\<open>registry_lookup.h\<close>) and the dynamic method registry (\<^verbatim>\<open>method_registry.h\<close>). The
  tables are lists of descriptors in the order of the source, the enumerations lists of enumerator
  and value.

  Shown here: the tables and the enumerations agree; ids and names are unique, so that looking up a
  name and looking up its id are inverse to each other; and the dynamic registry keeps its two maps
  inverse under every sequence of additions.
\<close>

section \<open>Descriptors\<close>

datatype method_descriptor = MethodDescriptor
  (md_id: u16) (md_name: string) (md_domain: string) (md_request_schema: string) (md_response_schema: string)

datatype event_descriptor = EventDescriptor
  (ed_id: u16) (ed_name: string) (ed_domain: string) (ed_event_schema: string)

datatype error_descriptor = ErrorDescriptor
  (er_id: u16) (er_name: string) (er_domain: string) (er_retryable: bool)

datatype capability_descriptor = CapabilityDescriptor
  (cd_id: u16) (cd_name: string) (cd_domain: string) (cd_type: string) (cd_schema: string)

section \<open>Tables\<close>

definition kMethodRegistry :: "method_descriptor list" where
  "kMethodRegistry = [
     MethodDescriptor 0x0101 ''device.getInfo'' ''device'' ''GetDeviceInfoParams'' ''DeviceInfo'',
     MethodDescriptor 0x0102 ''device.getPairingCode'' ''device'' ''DeviceGetPairingCodeParams'' ''DevicePairingCodeInfo'',
     MethodDescriptor 0x0103 ''device.getEnrollmentState'' ''device'' ''DeviceGetEnrollmentStateParams'' ''DeviceEnrollmentInfo'',
     MethodDescriptor 0x0104 ''device.setEnrollmentState'' ''device'' ''DeviceSetEnrollmentStateParams'' ''DeviceSetEnrollmentStateResult'',
     MethodDescriptor 0x0401 ''firmware.getUpdateCapabilities'' ''firmware'' ''Empty'' ''FirmwareUpdateCapabilities'',
     MethodDescriptor 0x0402 ''firmware.beginUpdate'' ''firmware'' ''BeginUpdateParams'' ''BeginUpdateResult'',
     MethodDescriptor 0x0408 ''firmware.getUpdateState'' ''firmware'' ''GetUpdateStateParams'' ''FirmwareUpdateState'',
     MethodDescriptor 0x040B ''firmware.finishUpdate'' ''firmware'' ''FinishUpdateParams'' ''FinishUpdateResult'',
     MethodDescriptor 0x0501 ''stream.getCapabilities'' ''stream'' ''Empty'' ''StreamFlowControlCapabilities'',
     MethodDescriptor 0x0502 ''stream.getState'' ''stream'' ''StreamSelector'' ''StreamState'',
     MethodDescriptor 0x0503 ''stream.getStats'' ''stream'' ''StreamSelector'' ''StreamStats'',
     MethodDescriptor 0x0504 ''stream.ack'' ''stream'' ''StreamAckParams'' ''StreamAckResult'',
     MethodDescriptor 0x0505 ''stream.windowUpdate'' ''stream'' ''StreamWindowUpdateParams'' ''StreamWindowUpdateResult'',
     MethodDescriptor 0x0506 ''stream.pause'' ''stream'' ''StreamPauseParams'' ''StreamActionResult'',
     MethodDescriptor 0x0507 ''stream.resume'' ''stream'' ''StreamResumeParams'' ''StreamActionResult'',
     MethodDescriptor 0x0508 ''stream.abort'' ''stream'' ''StreamAbortParams'' ''StreamActionResult'',
     MethodDescriptor 0x080B ''video.openStream'' ''video'' ''VideoOpenStreamParams'' ''VideoOpenStreamResult'',
     MethodDescriptor 0x080C ''video.closeStream'' ''video'' ''VideoCloseStreamParams'' ''VideoCloseStreamResult'',
     MethodDescriptor 0x080D ''video.getStreamState'' ''video'' ''VideoGetStreamStateParams'' ''VideoStreamState'',
     MethodDescriptor 0x0812 ''video.getStreamCapabilities'' ''video'' ''VideoGetStreamCapabilitiesParams'' ''VideoStreamCapabilities'',
     MethodDescriptor 0x0813 ''video.getStreamSourceState'' ''video'' ''VideoGetStreamSourceStateParams'' ''VideoStreamSourceState'',
     MethodDescriptor 0x0814 ''video.requestKeyFrame'' ''video'' ''VideoRequestKeyFrameParams'' ''VideoRequestKeyFrameResult'',
     MethodDescriptor 0x0901 ''audio.getAlgorithmConfig'' ''audio'' ''AudioGetAlgorithmConfigRequest'' ''AudioAlgorithmConfig'',
     MethodDescriptor 0x0902 ''audio.setAlgorithmConfig'' ''audio'' ''AudioSetAlgorithmConfigRequest'' ''AudioSetAlgorithmConfigResponse'',
     MethodDescriptor 0x090D ''audio.getAlgorithmCapabilities'' ''audio'' ''AudioGetAlgorithmCapabilitiesRequest'' ''AudioGetAlgorithmCapabilitiesResponse'',
     MethodDescriptor 0x090E ''audio.resetAlgorithmConfig'' ''audio'' ''AudioResetAlgorithmConfigRequest'' ''AudioSetAlgorithmConfigResponse'',
     MethodDescriptor 0x090F ''audio.getStreamCapabilities'' ''audio'' ''AudioGetStreamCapabilitiesParams'' ''AudioStreamCapabilities'',
     MethodDescriptor 0x0910 ''audio.openStream'' ''audio'' ''AudioOpenStreamParams'' ''AudioOpenStreamResult'',
     MethodDescriptor 0x0911 ''audio.closeStream'' ''audio'' ''AudioCloseStreamParams'' ''AudioCloseStreamResult'',
     MethodDescriptor 0x0912 ''audio.getStreamState'' ''audio'' ''AudioGetStreamStateParams'' ''AudioStreamState'',
     MethodDescriptor 0x0913 ''audio.getStreamSourceState'' ''audio'' ''AudioGetStreamSourceStateParams'' ''AudioStreamSourceState'',
     MethodDescriptor 0x0D01 ''signage.getPlaylistCapabilities'' ''signage'' ''SignageGetPlaylistCapabilitiesParams'' ''SignagePlaylistCapabilitiesResult'',
     MethodDescriptor 0x0D02 ''signage.getPlaylistConfig'' ''signage'' ''SignageGetPlaylistConfigParams'' ''SignagePlaylistConfigResult'',
     MethodDescriptor 0x0D03 ''signage.setPlaylistConfig'' ''signage'' ''SignageSetPlaylistConfigParams'' ''SignageSetPlaylistConfigResult'',
     MethodDescriptor 0x0D04 ''signage.resetPlaylistConfig'' ''signage'' ''SignageResetPlaylistConfigParams'' ''SignagePlaylistConfigResult'',
     MethodDescriptor 0x0D05 ''signage.getPlaylistItemUrl'' ''signage'' ''SignageGetPlaylistItemUrlParams'' ''SignageGetPlaylistItemUrlResult'',
     MethodDescriptor 0x0D06 ''signage.getPlaylistItem'' ''signage'' ''SignageGetPlaylistItemParams'' ''SignageGetPlaylistItemResult'',
     MethodDescriptor 0x0E02 ''network.getIpConfig'' ''network'' ''NetworkGetIpConfigParams'' ''NetworkIpConfig'',
     MethodDescriptor 0x0E03 ''network.setIpConfig'' ''network'' ''NetworkSetIpConfigParams'' ''NetworkSetIpConfigResult'',
     MethodDescriptor 0x0E04 ''network.getWifiConfig'' ''network'' ''NetworkGetWifiConfigParams'' ''NetworkWifiConfig'',
     MethodDescriptor 0x0E05 ''network.setWifiConfig'' ''network'' ''NetworkSetWifiConfigParams'' ''NetworkSetWifiConfigResult'',
     MethodDescriptor 0x0E06 ''network.scanWifi'' ''network'' ''NetworkScanWifiParams'' ''NetworkScanWifiResult'',
     MethodDescriptor 0x0E07 ''network.connectWifi'' ''network'' ''NetworkConnectWifiParams'' ''NetworkWifiActionResult'',
     MethodDescriptor 0x0E08 ''network.disconnectWifi'' ''network'' ''NetworkDisconnectWifiParams'' ''NetworkWifiActionResult'',
     MethodDescriptor 0x0E09 ''network.getWifiState'' ''network'' ''NetworkGetWifiStateParams'' ''NetworkWifiState'',
     MethodDescriptor 0x0E0A ''network.getApConfig'' ''network'' ''NetworkGetApConfigParams'' ''NetworkApConfig'',
     MethodDescriptor 0x0E0B ''network.setApConfig'' ''network'' ''NetworkSetApConfigParams'' ''NetworkSetApConfigResult'',
     MethodDescriptor 0x0E0C ''network.startAp'' ''network'' ''NetworkApActionParams'' ''NetworkApActionResult'',
     MethodDescriptor 0x0E0D ''network.stopAp'' ''network'' ''NetworkApActionParams'' ''NetworkApActionResult'',
     MethodDescriptor 0x0E0E ''network.getApState'' ''network'' ''NetworkGetApConfigParams'' ''NetworkApState'',
     MethodDescriptor 0x0E10 ''network.getInterfaces'' ''network'' ''NetworkGetInterfacesParams'' ''NetworkInterfaces'',
     MethodDescriptor 0x0E11 ''network.getInterfaceInfo'' ''network'' ''NetworkGetInterfaceInfoParams'' ''NetworkInterfaceInfo'',
     MethodDescriptor 0x0E12 ''network.getWifiCapabilities'' ''network'' ''NetworkGetWifiCapabilitiesParams'' ''NetworkWifiCapabilities'',
     MethodDescriptor 0x0E13 ''network.getApCapabilities'' ''network'' ''NetworkGetApCapabilitiesParams'' ''NetworkApCapabilities'',
     MethodDescriptor 0x0E14 ''network.getApClients'' ''network'' ''NetworkGetApConfigParams'' ''NetworkApClients'',
     MethodDescriptor 0x1601 ''cast.getSession'' ''cast'' ''CastGetSessionParams'' ''CastSessionState'',
     MethodDescriptor 0x1602 ''cast.stopSession'' ''cast'' ''CastStopSessionParams'' ''CastStopSessionResult'',
     MethodDescriptor 0x1603 ''cast.getAirPlayName'' ''cast'' ''Empty'' ''CastAirPlayNameState'',
     MethodDescriptor 0x1604 ''cast.setAirPlayName'' ''cast'' ''CastSetAirPlayNameParams'' ''CastAirPlayNameState'',
     MethodDescriptor 0x1605 ''cast.getAudio'' ''cast'' ''CastGetAudioParams'' ''CastAudioState'',
     MethodDescriptor 0x1606 ''cast.setAudio'' ''cast'' ''CastSetAudioParams'' ''CastAudioState'',
     MethodDescriptor 0x1607 ''cast.setMuted'' ''cast'' ''CastSetMutedParams'' ''CastAudioState'',
     MethodDescriptor 0x1608 ''cast.getPinCodeConfig'' ''cast'' ''CastGetPinCodeConfigParams'' ''CastPinCodeConfig'',
     MethodDescriptor 0x1609 ''cast.setPinCodeConfig'' ''cast'' ''CastSetPinCodeConfigParams'' ''CastPinCodeConfig'',
     MethodDescriptor 0x160A ''cast.setPinCode'' ''cast'' ''CastSetPinCodeParams'' ''CastPinCodeConfig'',
     MethodDescriptor 0x160B ''cast.getWindowState'' ''cast'' ''Empty'' ''CastWindowState'',
     MethodDescriptor 0x160C ''cast.setWindowState'' ''cast'' ''CastSetWindowStateParams'' ''CastWindowState'',
     MethodDescriptor 0x160D ''cast.getBackendStatus'' ''cast'' ''CastGetBackendStatusParams'' ''CastBackendStatus'',
     MethodDescriptor 0x160E ''cast.restartBackend'' ''cast'' ''CastRestartBackendParams'' ''CastRestartBackendResult'',
     MethodDescriptor 0x160F ''cast.getFlowControlState'' ''cast'' ''CastGetFlowControlStateParams'' ''CastFlowControlState'',
     MethodDescriptor 0x1610 ''cast.setRenderFps'' ''cast'' ''CastSetRenderFpsParams'' ''CastFlowControlState'',
     MethodDescriptor 0x1611 ''cast.setFlowPolicy'' ''cast'' ''CastSetFlowPolicyParams'' ''CastFlowControlState'',
     MethodDescriptor 0x1612 ''cast.getStatus'' ''cast'' ''CastGetStatusParams'' ''CastStatus'',
     MethodDescriptor 0x1613 ''cast.setAudioDelay'' ''cast'' ''CastSetAudioDelayParams'' ''CastAudioState'',
     MethodDescriptor 0x1614 ''cast.setVideoStreamParams'' ''cast'' ''CastSetVideoStreamParamsParams'' ''CastSetVideoStreamParamsResult'',
     MethodDescriptor 0x1615 ''cast.getControlCapabilities'' ''cast'' ''Empty'' ''CastControlCapabilities'',
     MethodDescriptor 0x1616 ''cast.stopPresentation'' ''cast'' ''CastStopPresentationParams'' ''CastControlOperation'',
     MethodDescriptor 0x1617 ''cast.setSessionAudioEnabled'' ''cast'' ''CastSetSessionAudioEnabledParams'' ''CastControlOperation'',
     MethodDescriptor 0x1618 ''cast.getControlOperation'' ''cast'' ''CastGetControlOperationParams'' ''CastControlOperation'',
     MethodDescriptor 0x1619 ''cast.setPresentationSettings'' ''cast'' ''CastSetPresentationSettingsParams'' ''CastControlOperation'',
     MethodDescriptor 0x161A ''cast.getWebCastBackendState'' ''cast'' ''CastGetWebCastBackendStateParams'' ''CastWebCastBackendSnapshot'',
     MethodDescriptor 0x161B ''cast.setPresentationFocus'' ''cast'' ''CastSetPresentationFocusParams'' ''CastControlOperation'',
     MethodDescriptor 0x1701 ''software.getConfig'' ''software'' ''SoftwareGetConfigParams'' ''SoftwareConfig'',
     MethodDescriptor 0x1702 ''software.setConfig'' ''software'' ''SoftwareSetConfigParams'' ''SoftwareSetConfigResult'',
     MethodDescriptor 0x1703 ''software.resetConfig'' ''software'' ''SoftwareResetConfigParams'' ''SoftwareConfig'',
     MethodDescriptor 0x1704 ''software.getUpdatePolicy'' ''software'' ''SoftwareGetUpdatePolicyParams'' ''SoftwareUpdatePolicy'',
     MethodDescriptor 0x1705 ''software.setUpdatePolicy'' ''software'' ''SoftwareSetUpdatePolicyParams'' ''SoftwareSetUpdatePolicyResult'',
     MethodDescriptor 0x1706 ''software.resetUpdatePolicy'' ''software'' ''SoftwareResetUpdatePolicyParams'' ''SoftwareUpdatePolicy'',
     MethodDescriptor 0x1801 ''sport.getEventDetectionCapabilities'' ''sport'' ''GetEventDetectionCapabilitiesParams'' ''GetEventDetectionCapabilitiesResult'',
     MethodDescriptor 0x1802 ''sport.getEventDetectionConfig'' ''sport'' ''GetEventDetectionConfigParams'' ''SportEventDetectionState'',
     MethodDescriptor 0x1803 ''sport.setEventDetectionConfig'' ''sport'' ''SetEventDetectionConfigParams'' ''SetEventDetectionConfigResult'',
     MethodDescriptor 0x1804 ''sport.getGoalShotWatermarkConfig'' ''sport'' ''SportConfigTargetParams'' ''SportGoalShotWatermarkConfig'',
     MethodDescriptor 0x1805 ''sport.setGoalShotWatermarkConfig'' ''sport'' ''SportSetGoalShotWatermarkConfigParams'' ''Empty'',
     MethodDescriptor 0x1806 ''sport.getEventClipConfig'' ''sport'' ''SportConfigTargetParams'' ''SportEventClipConfig'',
     MethodDescriptor 0x1807 ''sport.setEventClipConfig'' ''sport'' ''SportSetEventClipConfigParams'' ''Empty'']"

definition kEventRegistry :: "event_descriptor list" where
  "kEventRegistry = [
     EventDescriptor 0x0102 ''device.enrollmentStateChanged'' ''device'' ''DeviceEnrollmentStateChangedEvent'',
     EventDescriptor 0x0402 ''firmware.updateProgressReported'' ''firmware'' ''FirmwareUpdateProgressEvent'',
     EventDescriptor 0x0403 ''firmware.updateStateChanged'' ''firmware'' ''FirmwareUpdateStateChangedEvent'',
     EventDescriptor 0x0501 ''stream.stateChanged'' ''stream'' ''StreamStateChangedEvent'',
     EventDescriptor 0x0502 ''stream.statsReported'' ''stream'' ''StreamStatsReportedEvent'',
     EventDescriptor 0x0503 ''stream.flowControlChanged'' ''stream'' ''StreamFlowControlChangedEvent'',
     EventDescriptor 0x0504 ''stream.clockReport'' ''stream'' ''StreamClockReportEvent'',
     EventDescriptor 0x0806 ''video.streamStateChanged'' ''video'' ''VideoStreamStateChangedEvent'',
     EventDescriptor 0x0807 ''video.streamSourceStateChanged'' ''video'' ''VideoStreamSourceStateChangedEvent'',
     EventDescriptor 0x0808 ''video.streamStatsReported'' ''video'' ''VideoStreamStatsReportedEvent'',
     EventDescriptor 0x0901 ''audio.algorithmConfigChanged'' ''audio'' ''AudioAlgorithmConfigChangedEvent'',
     EventDescriptor 0x0902 ''audio.streamStateChanged'' ''audio'' ''AudioStreamStateChangedEvent'',
     EventDescriptor 0x0903 ''audio.streamSourceStateChanged'' ''audio'' ''AudioStreamSourceStateChangedEvent'',
     EventDescriptor 0x0904 ''audio.streamStatsReported'' ''audio'' ''AudioStreamStatsReportedEvent'',
     EventDescriptor 0x0D01 ''signage.playlistConfigChanged'' ''signage'' ''SignagePlaylistConfigChangedEvent'',
     EventDescriptor 0x0E01 ''network.interfaceStateChanged'' ''network'' ''NetworkInterfaceStateChangedEvent'',
     EventDescriptor 0x0E02 ''network.ipConfigChanged'' ''network'' ''NetworkIpConfigChangedEvent'',
     EventDescriptor 0x0E03 ''network.wifiConfigChanged'' ''network'' ''NetworkWifiConfigChangedEvent'',
     EventDescriptor 0x0E04 ''network.wifiStateChanged'' ''network'' ''NetworkWifiStateChangedEvent'',
     EventDescriptor 0x0E05 ''network.wifiScanResultReported'' ''network'' ''NetworkWifiScanResultReportedEvent'',
     EventDescriptor 0x0E06 ''network.apConfigChanged'' ''network'' ''NetworkApConfigChangedEvent'',
     EventDescriptor 0x0E07 ''network.apStateChanged'' ''network'' ''NetworkApStateChangedEvent'',
     EventDescriptor 0x0E08 ''network.apClientChanged'' ''network'' ''NetworkApClientChangedEvent'',
     EventDescriptor 0x1601 ''cast.sessionIncoming'' ''cast'' ''CastSessionIncomingEvent'',
     EventDescriptor 0x1602 ''cast.sessionStateChanged'' ''cast'' ''CastSessionStateChangedEvent'',
     EventDescriptor 0x1603 ''cast.sessionStarted'' ''cast'' ''CastSessionStartedEvent'',
     EventDescriptor 0x1604 ''cast.sessionStopped'' ''cast'' ''CastSessionStoppedEvent'',
     EventDescriptor 0x1605 ''cast.sessionFailed'' ''cast'' ''CastSessionFailedEvent'',
     EventDescriptor 0x1606 ''cast.audioChanged'' ''cast'' ''CastAudioChangedEvent'',
     EventDescriptor 0x1607 ''cast.pinCodeChanged'' ''cast'' ''CastPinCodeChangedEvent'',
     EventDescriptor 0x1608 ''cast.pinCodeRequired'' ''cast'' ''CastPinCodeRequiredEvent'',
     EventDescriptor 0x1609 ''cast.pinCodeAuthFailed'' ''cast'' ''CastPinCodeAuthFailedEvent'',
     EventDescriptor 0x160A ''cast.windowChanged'' ''cast'' ''CastWindowChangedEvent'',
     EventDescriptor 0x160B ''cast.backendChanged'' ''cast'' ''CastBackendChangedEvent'',
     EventDescriptor 0x160C ''cast.flowControlChanged'' ''cast'' ''CastFlowControlChangedEvent'',
     EventDescriptor 0x160D ''cast.receiversChanged'' ''cast'' ''CastReceiversChangedEvent'',
     EventDescriptor 0x160E ''cast.sessionsChanged'' ''cast'' ''CastSessionsChangedEvent'',
     EventDescriptor 0x160F ''cast.presentationChanged'' ''cast'' ''CastPresentationChangedEvent'',
     EventDescriptor 0x1610 ''cast.audioPolicyChanged'' ''cast'' ''CastAudioPolicyChangedEvent'',
     EventDescriptor 0x1611 ''cast.controlOperationChanged'' ''cast'' ''CastControlOperationChangedEvent'',
     EventDescriptor 0x1612 ''cast.presentationSettingsChanged'' ''cast'' ''CastPresentationSettingsChangedEvent'',
     EventDescriptor 0x1613 ''cast.webcastBackendChanged'' ''cast'' ''CastWebCastBackendSnapshot'',
     EventDescriptor 0x1614 ''cast.airplayChanged'' ''cast'' ''CastAirPlayChangedEvent'',
     EventDescriptor 0x1701 ''software.configChanged'' ''software'' ''SoftwareConfigChangedEvent'',
     EventDescriptor 0x1702 ''software.updatePolicyChanged'' ''software'' ''SoftwareUpdatePolicyChangedEvent'',
     EventDescriptor 0x1801 ''sport.eventDetectionStateChanged'' ''sport'' ''SportEventDetectionStateChangedEvent'',
     EventDescriptor 0x1802 ''sport.eventDetected'' ''sport'' ''SportEventDetectedEvent'']"

definition kErrorRegistry :: "error_descriptor list" where
  "kErrorRegistry = [
     ErrorDescriptor 0x0000 ''SUCCESS'' ''common'' False,
     ErrorDescriptor 0x0001 ''UNKNOWN_ERROR'' ''common'' False,
     ErrorDescriptor 0x0002 ''NOT_IMPLEMENTED'' ''common'' False,
     ErrorDescriptor 0x0003 ''NOT_SUPPORTED'' ''common'' False,
     ErrorDescriptor 0x0004 ''INVALID_STATE'' ''common'' False,
     ErrorDescriptor 0x0005 ''BUSY'' ''common'' True,
     ErrorDescriptor 0x0006 ''TIMEOUT'' ''common'' True,
     ErrorDescriptor 0x0007 ''CANCELED'' ''common'' False,
     ErrorDescriptor 0x0008 ''RESOURCE_EXHAUSTED'' ''common'' True,
     ErrorDescriptor 0x0009 ''PERMISSION_DENIED'' ''common'' False,
     ErrorDescriptor 0x000A ''INVALID_ARGUMENT'' ''common'' False,
     ErrorDescriptor 0x000B ''OUT_OF_RANGE'' ''common'' False,
     ErrorDescriptor 0x000C ''NOT_FOUND'' ''common'' False,
     ErrorDescriptor 0x000D ''ALREADY_EXISTS'' ''common'' False,
     ErrorDescriptor 0x000E ''INTERNAL_ERROR'' ''common'' False,
     ErrorDescriptor 0x000F ''UNAVAILABLE'' ''common'' True,
     ErrorDescriptor 0x0011 ''FRAME_MAGIC_INVALID'' ''frame'' False,
     ErrorDescriptor 0x0012 ''FRAME_VERSION_UNSUPPORTED'' ''frame'' False,
     ErrorDescriptor 0x0013 ''FRAME_HEADER_INVALID'' ''frame'' False,
     ErrorDescriptor 0x0014 ''FRAME_LENGTH_INVALID'' ''frame'' False,
     ErrorDescriptor 0x0015 ''FRAME_PAYLOAD_TYPE_INVALID'' ''frame'' False,
     ErrorDescriptor 0x0016 ''FRAME_CRC_ERROR'' ''frame'' True,
     ErrorDescriptor 0x0017 ''FRAME_FRAGMENT_INVALID'' ''frame'' False,
     ErrorDescriptor 0x0018 ''FRAME_FRAGMENT_MISSING'' ''frame'' True,
     ErrorDescriptor 0x0019 ''FRAME_REASSEMBLY_TIMEOUT'' ''frame'' True,
     ErrorDescriptor 0x001A ''FRAME_TOO_LARGE'' ''frame'' False,
     ErrorDescriptor 0x001B ''TRANSPORT_MTU_EXCEEDED'' ''frame'' False,
     ErrorDescriptor 0x001C ''TRANSPORT_WRITE_FAILED'' ''frame'' True,
     ErrorDescriptor 0x001D ''TRANSPORT_READ_FAILED'' ''frame'' True,
     ErrorDescriptor 0x001E ''TRANSPORT_DISCONNECTED'' ''frame'' True,
     ErrorDescriptor 0x0021 ''CONTROL_OPCODE_INVALID'' ''control'' False,
     ErrorDescriptor 0x0022 ''CONTROL_PAYLOAD_INVALID'' ''control'' False,
     ErrorDescriptor 0x0023 ''RESERVED_CONTROL_BODY_ENCODING_UNSUPPORTED'' ''control'' False,
     ErrorDescriptor 0x0024 ''CONTROL_OPEN_REQUIRED'' ''control'' False,
     ErrorDescriptor 0x0025 ''CONTROL_OPEN_REJECTED'' ''control'' False,
     ErrorDescriptor 0x0026 ''RESERVED_CONTROL_PROFILE_UNSUPPORTED'' ''control'' False,
     ErrorDescriptor 0x0027 ''CONTROL_NEGOTIATION_FAILED'' ''control'' False,
     ErrorDescriptor 0x0028 ''CONTROL_SESSION_INVALID'' ''control'' False,
     ErrorDescriptor 0x0029 ''CONTROL_SESSION_EXPIRED'' ''control'' False,
     ErrorDescriptor 0x002A ''CONTROL_RESUME_FAILED'' ''control'' False,
     ErrorDescriptor 0x002B ''CONTROL_ACK_TARGET_INVALID'' ''control'' False,
     ErrorDescriptor 0x002C ''CONTROL_WINDOW_EXCEEDED'' ''control'' True,
     ErrorDescriptor 0x002D ''CONTROL_HEARTBEAT_TIMEOUT'' ''control'' True,
     ErrorDescriptor 0x0031 ''RPC_ENCODING_UNSUPPORTED'' ''rpc'' False,
     ErrorDescriptor 0x0032 ''RPC_OP_INVALID'' ''rpc'' False,
     ErrorDescriptor 0x0033 ''RPC_PAYLOAD_INVALID'' ''rpc'' False,
     ErrorDescriptor 0x0034 ''RPC_BODY_ENCODING_UNSUPPORTED'' ''rpc'' False,
     ErrorDescriptor 0x0035 ''RPC_BODY_DECODE_FAILED'' ''rpc'' False,
     ErrorDescriptor 0x0036 ''RPC_METHOD_NOT_FOUND'' ''rpc'' False,
     ErrorDescriptor 0x0037 ''RPC_METHOD_NOT_SUPPORTED'' ''rpc'' False,
     ErrorDescriptor 0x0038 ''RPC_METHOD_DISABLED'' ''rpc'' False,
     ErrorDescriptor 0x0039 ''RPC_REQUEST_ID_INVALID'' ''rpc'' False,
     ErrorDescriptor 0x003A ''RPC_PARAM_MISSING'' ''rpc'' False,
     ErrorDescriptor 0x003B ''RPC_PARAM_INVALID'' ''rpc'' False,
     ErrorDescriptor 0x003C ''RPC_PARAM_OUT_OF_RANGE'' ''rpc'' False,
     ErrorDescriptor 0x003D ''RPC_EXECUTION_FAILED'' ''rpc'' False,
     ErrorDescriptor 0x003E ''RPC_RESPONSE_TIMEOUT'' ''rpc'' True,
     ErrorDescriptor 0x003F ''RPC_BATCH_UNSUPPORTED'' ''rpc'' False,
     ErrorDescriptor 0x0040 ''RPC_BATCH_PARTIAL_FAILED'' ''rpc'' False,
     ErrorDescriptor 0x0101 ''DEVICE_INFO_UNAVAILABLE'' ''device'' True,
     ErrorDescriptor 0x0102 ''DEVICE_REBOOT_FAILED'' ''device'' False,
     ErrorDescriptor 0x0103 ''DEVICE_FACTORY_RESET_FAILED'' ''device'' False,
     ErrorDescriptor 0x0104 ''DEVICE_LOW_POWER'' ''device'' True,
     ErrorDescriptor 0x0105 ''DEVICE_OVER_TEMPERATURE'' ''device'' True,
     ErrorDescriptor 0x0106 ''DEVICE_STORAGE_FULL'' ''device'' False,
     ErrorDescriptor 0x0107 ''DEVICE_MODE_CONFLICT'' ''device'' False,
     ErrorDescriptor 0x0108 ''DEVICE_RESOURCE_BUSY'' ''device'' True,
     ErrorDescriptor 0x0109 ''DEVICE_HARDWARE_FAILURE'' ''device'' False,
     ErrorDescriptor 0x010A ''ENROLLMENT_CODE_EXPIRED'' ''device'' True,
     ErrorDescriptor 0x010B ''ENROLLMENT_CODE_ALREADY_USED'' ''device'' False,
     ErrorDescriptor 0x0201 ''CAPABILITY_NOT_FOUND'' ''capability'' False,
     ErrorDescriptor 0x0202 ''CAPABILITY_DOMAIN_NOT_FOUND'' ''capability'' False,
     ErrorDescriptor 0x0203 ''CAPABILITY_METHOD_UNSUPPORTED'' ''capability'' False,
     ErrorDescriptor 0x0204 ''CAPABILITY_EVENT_UNSUPPORTED'' ''capability'' False,
     ErrorDescriptor 0x0205 ''CAPABILITY_STREAM_UNSUPPORTED'' ''capability'' False,
     ErrorDescriptor 0x0206 ''CAPABILITY_ENCODING_UNSUPPORTED'' ''capability'' False,
     ErrorDescriptor 0x0207 ''CAPABILITY_NEGOTIATION_FAILED'' ''capability'' False,
     ErrorDescriptor 0x0208 ''CAPABILITY_LIMIT_EXCEEDED'' ''capability'' False,
     ErrorDescriptor 0x0401 ''FW_IMAGE_INVALID'' ''firmware'' False,
     ErrorDescriptor 0x0402 ''FW_IMAGE_TYPE_UNSUPPORTED'' ''firmware'' False,
     ErrorDescriptor 0x0403 ''FW_VERSION_UNSUPPORTED'' ''firmware'' False,
     ErrorDescriptor 0x0404 ''FW_VERSION_TOO_OLD'' ''firmware'' False,
     ErrorDescriptor 0x0405 ''FW_TRANSFER_NOT_STARTED'' ''firmware'' False,
     ErrorDescriptor 0x0406 ''FW_TRANSFER_ALREADY_STARTED'' ''firmware'' False,
     ErrorDescriptor 0x0407 ''FW_CHUNK_INVALID'' ''firmware'' False,
     ErrorDescriptor 0x0408 ''FW_CHUNK_CRC_ERROR'' ''firmware'' True,
     ErrorDescriptor 0x0409 ''FW_SIZE_MISMATCH'' ''firmware'' False,
     ErrorDescriptor 0x040A ''FW_HASH_MISMATCH'' ''firmware'' False,
     ErrorDescriptor 0x040B ''FW_VERIFY_FAILED'' ''firmware'' False,
     ErrorDescriptor 0x040C ''FW_APPLY_FAILED'' ''firmware'' False,
     ErrorDescriptor 0x040D ''FW_ROLLBACK_FAILED'' ''firmware'' False,
     ErrorDescriptor 0x040E ''FW_STORAGE_NOT_ENOUGH'' ''firmware'' False,
     ErrorDescriptor 0x040F ''FW_DEVICE_NOT_READY'' ''firmware'' True,
     ErrorDescriptor 0x0410 ''FW_REBOOT_REQUIRED'' ''firmware'' False,
     ErrorDescriptor 0x0501 ''STREAM_NOT_FOUND'' ''stream'' False,
     ErrorDescriptor 0x0502 ''STREAM_TIMEOUT'' ''stream'' True,
     ErrorDescriptor 0x0503 ''STREAM_CRC_ERROR'' ''stream'' True,
     ErrorDescriptor 0x0504 ''STREAM_PAYLOAD_INVALID'' ''stream'' False,
     ErrorDescriptor 0x0505 ''STREAM_ID_INVALID'' ''stream'' False,
     ErrorDescriptor 0x0506 ''STREAM_NOT_OPEN'' ''stream'' False,
     ErrorDescriptor 0x0507 ''STREAM_ALREADY_OPEN'' ''stream'' False,
     ErrorDescriptor 0x0508 ''STREAM_SEQ_INVALID'' ''stream'' False,
     ErrorDescriptor 0x0509 ''STREAM_SEQ_DUPLICATED'' ''stream'' False,
     ErrorDescriptor 0x050A ''STREAM_CHUNK_MISSING'' ''stream'' True,
     ErrorDescriptor 0x050B ''STREAM_OFFSET_INVALID'' ''stream'' False,
     ErrorDescriptor 0x050C ''STREAM_WINDOW_FULL'' ''stream'' True,
     ErrorDescriptor 0x050D ''STREAM_BACKPRESSURE'' ''stream'' True,
     ErrorDescriptor 0x050E ''STREAM_RESUME_UNSUPPORTED'' ''stream'' False,
     ErrorDescriptor 0x050F ''STREAM_RESUME_FAILED'' ''stream'' False,
     ErrorDescriptor 0x0510 ''STREAM_CLOSED'' ''stream'' False,
     ErrorDescriptor 0x0511 ''STREAM_TRANSFER_ABORTED'' ''stream'' False,
     ErrorDescriptor 0x0801 ''MEDIA_SOURCE_NOT_FOUND'' ''video'' False,
     ErrorDescriptor 0x0802 ''MEDIA_SOURCE_UNAVAILABLE'' ''video'' True,
     ErrorDescriptor 0x0803 ''MEDIA_CODEC_UNSUPPORTED'' ''video'' False,
     ErrorDescriptor 0x0804 ''MEDIA_RESOLUTION_UNSUPPORTED'' ''video'' False,
     ErrorDescriptor 0x0805 ''MEDIA_FRAMERATE_UNSUPPORTED'' ''video'' False,
     ErrorDescriptor 0x0806 ''MEDIA_BITRATE_UNSUPPORTED'' ''video'' False,
     ErrorDescriptor 0x0807 ''MEDIA_STREAM_START_FAILED'' ''video'' True,
     ErrorDescriptor 0x0808 ''MEDIA_STREAM_STOP_FAILED'' ''video'' True,
     ErrorDescriptor 0x0809 ''MEDIA_FRAME_DROPPED'' ''video'' True,
     ErrorDescriptor 0x080B ''MEDIA_VIDEO_SIGNAL_LOST'' ''video'' True,
     ErrorDescriptor 0x090A ''MEDIA_AUDIO_DEVICE_NOT_FOUND'' ''audio'' False,
     ErrorDescriptor 0x1001 ''FILE_NOT_FOUND'' ''file'' False,
     ErrorDescriptor 0x1002 ''FILE_ALREADY_EXISTS'' ''file'' False,
     ErrorDescriptor 0x1003 ''FILE_PERMISSION_DENIED'' ''file'' False,
     ErrorDescriptor 0x1004 ''FILE_PATH_INVALID'' ''file'' False,
     ErrorDescriptor 0x1005 ''FILE_TYPE_UNSUPPORTED'' ''file'' False,
     ErrorDescriptor 0x1006 ''FILE_TOO_LARGE'' ''file'' False,
     ErrorDescriptor 0x1007 ''FILE_READ_FAILED'' ''file'' True,
     ErrorDescriptor 0x1008 ''FILE_WRITE_FAILED'' ''file'' True,
     ErrorDescriptor 0x1009 ''FILE_DELETE_FAILED'' ''file'' False,
     ErrorDescriptor 0x100A ''FILE_TRANSFER_FAILED'' ''file'' True,
     ErrorDescriptor 0x100B ''FILE_VERIFY_FAILED'' ''file'' False,
     ErrorDescriptor 0x100C ''FILE_STORAGE_FULL'' ''file'' False,
     ErrorDescriptor 0x1201 ''DIAG_TEST_NOT_FOUND'' ''diagnostic'' False,
     ErrorDescriptor 0x1202 ''DIAG_TEST_UNSUPPORTED'' ''diagnostic'' False,
     ErrorDescriptor 0x1203 ''DIAG_TEST_RUNNING'' ''diagnostic'' False,
     ErrorDescriptor 0x1204 ''DIAG_TEST_FAILED'' ''diagnostic'' False,
     ErrorDescriptor 0x1205 ''DIAG_METRIC_UNAVAILABLE'' ''diagnostic'' True,
     ErrorDescriptor 0x1206 ''DIAG_LOOPBACK_FAILED'' ''diagnostic'' False,
     ErrorDescriptor 0x1401 ''SEC_AUTH_REQUIRED'' ''auth'' False,
     ErrorDescriptor 0x1402 ''SEC_AUTH_FAILED'' ''auth'' False,
     ErrorDescriptor 0x1403 ''SEC_PERMISSION_DENIED'' ''auth'' False,
     ErrorDescriptor 0x1404 ''SEC_ENCRYPTION_REQUIRED'' ''auth'' False,
     ErrorDescriptor 0x1405 ''SEC_DECRYPT_FAILED'' ''auth'' False,
     ErrorDescriptor 0x1406 ''SEC_SIGNATURE_INVALID'' ''auth'' False,
     ErrorDescriptor 0x1407 ''SEC_CERT_INVALID'' ''auth'' False,
     ErrorDescriptor 0x1408 ''SEC_TOKEN_EXPIRED'' ''auth'' False,
     ErrorDescriptor 0x7F01 ''LEGACY_CMD_UNMAPPED'' ''legacy'' False,
     ErrorDescriptor 0x7F02 ''LEGACY_STATUS_UNMAPPED'' ''legacy'' False,
     ErrorDescriptor 0x7F03 ''LEGACY_PAYLOAD_INVALID'' ''legacy'' False,
     ErrorDescriptor 0x7F04 ''LEGACY_PAYLOAD_TOO_SHORT'' ''legacy'' False,
     ErrorDescriptor 0x7F05 ''LEGACY_PAYLOAD_TOO_LONG'' ''legacy'' False,
     ErrorDescriptor 0x7F06 ''LEGACY_FIELD_UNSUPPORTED'' ''legacy'' False,
     ErrorDescriptor 0x7F07 ''LEGACY_CAPABILITY_CONFLICT'' ''legacy'' False,
     ErrorDescriptor 0x7F08 ''LEGACY_RESPONSE_TIMEOUT'' ''legacy'' True]"

definition kCapabilityRegistry :: "capability_descriptor list" where
  "kCapabilityRegistry = [
     CapabilityDescriptor 0x0001 ''protocol.payload.control'' ''protocol'' ''bool'' '''',
     CapabilityDescriptor 0x0002 ''protocol.payload.rpc'' ''protocol'' ''bool'' '''',
     CapabilityDescriptor 0x0003 ''protocol.payload.stream'' ''protocol'' ''bool'' '''',
     CapabilityDescriptor 0x0009 ''protocol.reservedRequestIdWidth'' ''protocol'' ''reserved'' '''',
     CapabilityDescriptor 0x0101 ''device.info'' ''device'' ''object'' ''DeviceInfoCapability'',
     CapabilityDescriptor 0x0102 ''device.enrollment'' ''device'' ''object'' ''DeviceEnrollmentCapability'',
     CapabilityDescriptor 0x0401 ''firmware.update'' ''firmware'' ''object'' ''FirmwareUpdateCapabilities'',
     CapabilityDescriptor 0x0501 ''stream.flowControl'' ''stream'' ''object'' ''StreamFlowControlCapabilities'',
     CapabilityDescriptor 0x0801 ''video.stream'' ''video'' ''object'' ''VideoStreamCapabilities'',
     CapabilityDescriptor 0x0901 ''audio.algorithm'' ''audio'' ''object'' ''AudioAlgorithmCapability'',
     CapabilityDescriptor 0x0902 ''audio.stream'' ''audio'' ''object'' ''AudioStreamCapabilities'',
     CapabilityDescriptor 0x0D01 ''signage.playlist'' ''signage'' ''object'' ''SignagePlaylistCapability'',
     CapabilityDescriptor 0x0E01 ''network.interface'' ''network'' ''object'' ''NetworkInterfaceCapability'',
     CapabilityDescriptor 0x0E02 ''network.ip'' ''network'' ''object'' ''NetworkIpCapability'',
     CapabilityDescriptor 0x0E03 ''network.wifi'' ''network'' ''object'' ''NetworkWifiCapabilities'',
     CapabilityDescriptor 0x0E04 ''network.ap'' ''network'' ''object'' ''NetworkApCapabilities'',
     CapabilityDescriptor 0x1601 ''cast.session'' ''cast'' ''object'' ''CastSessionCapability'',
     CapabilityDescriptor 0x1602 ''cast.audio'' ''cast'' ''object'' ''CastAudioCapability'',
     CapabilityDescriptor 0x1603 ''cast.pinCode'' ''cast'' ''object'' ''CastPinCodeCapability'',
     CapabilityDescriptor 0x1604 ''cast.window'' ''cast'' ''object'' ''CastWindowCapability'',
     CapabilityDescriptor 0x1605 ''cast.backend'' ''cast'' ''object'' ''CastBackendCapability'',
     CapabilityDescriptor 0x1606 ''cast.flowControl'' ''cast'' ''object'' ''CastFlowControlCapability'',
     CapabilityDescriptor 0x1607 ''cast.status'' ''cast'' ''object'' ''CastStatusCapability'',
     CapabilityDescriptor 0x1608 ''cast.presentation'' ''cast'' ''object'' ''CastPresentationCapability'',
     CapabilityDescriptor 0x1609 ''cast.audioPolicy'' ''cast'' ''object'' ''CastAudioPolicyCapability'',
     CapabilityDescriptor 0x160A ''cast.controlOperations'' ''cast'' ''object'' ''CastControlOperationsCapability'',
     CapabilityDescriptor 0x160B ''cast.presentationSettings'' ''cast'' ''object'' ''CastPresentationSettingsCapability'',
     CapabilityDescriptor 0x160C ''cast.webcastBackend'' ''cast'' ''object'' ''CastWebCastBackendCapability'',
     CapabilityDescriptor 0x160D ''cast.meetingPresentation'' ''cast'' ''object'' ''CastMeetingPresentationCapability'',
     CapabilityDescriptor 0x160E ''cast.airplayControl'' ''cast'' ''object'' ''CastAirPlayControlCapability'',
     CapabilityDescriptor 0x1701 ''software.config'' ''software'' ''object'' ''SoftwareConfigCapability'',
     CapabilityDescriptor 0x1702 ''software.updatePolicy'' ''software'' ''object'' ''SoftwareUpdatePolicyCapability'',
     CapabilityDescriptor 0x1801 ''sport.eventDetection'' ''sport'' ''object'' ''SportEventDetectionCapabilities'',
     CapabilityDescriptor 0x1802 ''sport.basketball'' ''sport'' ''object'' ''SportBasketballCapability'']"

section \<open>Enumerations\<close>

definition MethodId_enum :: "(string \<times> u16) list" where
  "MethodId_enum = [
     (''DeviceGetInfo'', 0x0101),
     (''DeviceGetPairingCode'', 0x0102),
     (''DeviceGetEnrollmentState'', 0x0103),
     (''DeviceSetEnrollmentState'', 0x0104),
     (''FirmwareGetUpdateCapabilities'', 0x0401),
     (''FirmwareBeginUpdate'', 0x0402),
     (''FirmwareGetUpdateState'', 0x0408),
     (''FirmwareFinishUpdate'', 0x040B),
     (''StreamGetCapabilities'', 0x0501),
     (''StreamGetState'', 0x0502),
     (''StreamGetStats'', 0x0503),
     (''StreamAck'', 0x0504),
     (''StreamWindowUpdate'', 0x0505),
     (''StreamPause'', 0x0506),
     (''StreamResume'', 0x0507),
     (''StreamAbort'', 0x0508),
     (''VideoOpenStream'', 0x080B),
     (''VideoCloseStream'', 0x080C),
     (''VideoGetStreamState'', 0x080D),
     (''VideoGetStreamCapabilities'', 0x0812),
     (''VideoGetStreamSourceState'', 0x0813),
     (''VideoRequestKeyFrame'', 0x0814),
     (''AudioGetAlgorithmConfig'', 0x0901),
     (''AudioSetAlgorithmConfig'', 0x0902),
     (''AudioGetAlgorithmCapabilities'', 0x090D),
     (''AudioResetAlgorithmConfig'', 0x090E),
     (''AudioGetStreamCapabilities'', 0x090F),
     (''AudioOpenStream'', 0x0910),
     (''AudioCloseStream'', 0x0911),
     (''AudioGetStreamState'', 0x0912),
     (''AudioGetStreamSourceState'', 0x0913),
     (''SignageGetPlaylistCapabilities'', 0x0D01),
     (''SignageGetPlaylistConfig'', 0x0D02),
     (''SignageSetPlaylistConfig'', 0x0D03),
     (''SignageResetPlaylistConfig'', 0x0D04),
     (''SignageGetPlaylistItemUrl'', 0x0D05),
     (''SignageGetPlaylistItem'', 0x0D06),
     (''NetworkGetIpConfig'', 0x0E02),
     (''NetworkSetIpConfig'', 0x0E03),
     (''NetworkGetWifiConfig'', 0x0E04),
     (''NetworkSetWifiConfig'', 0x0E05),
     (''NetworkScanWifi'', 0x0E06),
     (''NetworkConnectWifi'', 0x0E07),
     (''NetworkDisconnectWifi'', 0x0E08),
     (''NetworkGetWifiState'', 0x0E09),
     (''NetworkGetApConfig'', 0x0E0A),
     (''NetworkSetApConfig'', 0x0E0B),
     (''NetworkStartAp'', 0x0E0C),
     (''NetworkStopAp'', 0x0E0D),
     (''NetworkGetApState'', 0x0E0E),
     (''NetworkGetInterfaces'', 0x0E10),
     (''NetworkGetInterfaceInfo'', 0x0E11),
     (''NetworkGetWifiCapabilities'', 0x0E12),
     (''NetworkGetApCapabilities'', 0x0E13),
     (''NetworkGetApClients'', 0x0E14),
     (''CastGetSession'', 0x1601),
     (''CastStopSession'', 0x1602),
     (''CastGetAirPlayName'', 0x1603),
     (''CastSetAirPlayName'', 0x1604),
     (''CastGetAudio'', 0x1605),
     (''CastSetAudio'', 0x1606),
     (''CastSetMuted'', 0x1607),
     (''CastGetPinCodeConfig'', 0x1608),
     (''CastSetPinCodeConfig'', 0x1609),
     (''CastSetPinCode'', 0x160A),
     (''CastGetWindowState'', 0x160B),
     (''CastSetWindowState'', 0x160C),
     (''CastGetBackendStatus'', 0x160D),
     (''CastRestartBackend'', 0x160E),
     (''CastGetFlowControlState'', 0x160F),
     (''CastSetRenderFps'', 0x1610),
     (''CastSetFlowPolicy'', 0x1611),
     (''CastGetStatus'', 0x1612),
     (''CastSetAudioDelay'', 0x1613),
     (''CastSetVideoStreamParams'', 0x1614),
     (''CastGetControlCapabilities'', 0x1615),
     (''CastStopPresentation'', 0x1616),
     (''CastSetSessionAudioEnabled'', 0x1617),
     (''CastGetControlOperation'', 0x1618),
     (''CastSetPresentationSettings'', 0x1619),
     (''CastGetWebCastBackendState'', 0x161A),
     (''CastSetPresentationFocus'', 0x161B),
     (''SoftwareGetConfig'', 0x1701),
     (''SoftwareSetConfig'', 0x1702),
     (''SoftwareResetConfig'', 0x1703),
     (''SoftwareGetUpdatePolicy'', 0x1704),
     (''SoftwareSetUpdatePolicy'', 0x1705),
     (''SoftwareResetUpdatePolicy'', 0x1706),
     (''SportGetEventDetectionCapabilities'', 0x1801),
     (''SportGetEventDetectionConfig'', 0x1802),
     (''SportSetEventDetectionConfig'', 0x1803),
     (''SportGetGoalShotWatermarkConfig'', 0x1804),
     (''SportSetGoalShotWatermarkConfig'', 0x1805),
     (''SportGetEventClipConfig'', 0x1806),
     (''SportSetEventClipConfig'', 0x1807)]"

definition EventId_enum :: "(string \<times> u16) list" where
  "EventId_enum = [
     (''DeviceEnrollmentStateChanged'', 0x0102),
     (''FirmwareUpdateProgressReported'', 0x0402),
     (''FirmwareUpdateStateChanged'', 0x0403),
     (''StreamStateChanged'', 0x0501),
     (''StreamStatsReported'', 0x0502),
     (''StreamFlowControlChanged'', 0x0503),
     (''StreamClockReport'', 0x0504),
     (''VideoStreamStateChanged'', 0x0806),
     (''VideoStreamSourceStateChanged'', 0x0807),
     (''VideoStreamStatsReported'', 0x0808),
     (''AudioAlgorithmConfigChanged'', 0x0901),
     (''AudioStreamStateChanged'', 0x0902),
     (''AudioStreamSourceStateChanged'', 0x0903),
     (''AudioStreamStatsReported'', 0x0904),
     (''SignagePlaylistConfigChanged'', 0x0D01),
     (''NetworkInterfaceStateChanged'', 0x0E01),
     (''NetworkIpConfigChanged'', 0x0E02),
     (''NetworkWifiConfigChanged'', 0x0E03),
     (''NetworkWifiStateChanged'', 0x0E04),
     (''NetworkWifiScanResultReported'', 0x0E05),
     (''NetworkApConfigChanged'', 0x0E06),
     (''NetworkApStateChanged'', 0x0E07),
     (''NetworkApClientChanged'', 0x0E08),
     (''CastSessionIncoming'', 0x1601),
     (''CastSessionStateChanged'', 0x1602),
     (''CastSessionStarted'', 0x1603),
     (''CastSessionStopped'', 0x1604),
     (''CastSessionFailed'', 0x1605),
     (''CastAudioChanged'', 0x1606),
     (''CastPinCodeChanged'', 0x1607),
     (''CastPinCodeRequired'', 0x1608),
     (''CastPinCodeAuthFailed'', 0x1609),
     (''CastWindowChanged'', 0x160A),
     (''CastBackendChanged'', 0x160B),
     (''CastFlowControlChanged'', 0x160C),
     (''CastReceiversChanged'', 0x160D),
     (''CastSessionsChanged'', 0x160E),
     (''CastPresentationChanged'', 0x160F),
     (''CastAudioPolicyChanged'', 0x1610),
     (''CastControlOperationChanged'', 0x1611),
     (''CastPresentationSettingsChanged'', 0x1612),
     (''CastWebcastBackendChanged'', 0x1613),
     (''CastAirplayChanged'', 0x1614),
     (''SoftwareConfigChanged'', 0x1701),
     (''SoftwareUpdatePolicyChanged'', 0x1702),
     (''SportEventDetectionStateChanged'', 0x1801),
     (''SportEventDetected'', 0x1802)]"

definition ErrorCode_enum :: "(string \<times> u16) list" where
  "ErrorCode_enum = [
     (''Success'', 0x0000),
     (''UnknownError'', 0x0001),
     (''NotImplemented'', 0x0002),
     (''NotSupported'', 0x0003),
     (''InvalidState'', 0x0004),
     (''Busy'', 0x0005),
     (''Timeout'', 0x0006),
     (''Canceled'', 0x0007),
     (''ResourceExhausted'', 0x0008),
     (''PermissionDenied'', 0x0009),
     (''InvalidArgument'', 0x000A),
     (''OutOfRange'', 0x000B),
     (''NotFound'', 0x000C),
     (''AlreadyExists'', 0x000D),
     (''InternalError'', 0x000E),
     (''Unavailable'', 0x000F),
     (''FrameMagicInvalid'', 0x0011),
     (''FrameVersionUnsupported'', 0x0012),
     (''FrameHeaderInvalid'', 0x0013),
     (''FrameLengthInvalid'', 0x0014),
     (''FramePayloadTypeInvalid'', 0x0015),
     (''FrameCrcError'', 0x0016),
     (''FrameFragmentInvalid'', 0x0017),
     (''FrameFragmentMissing'', 0x0018),
     (''FrameReassemblyTimeout'', 0x0019),
     (''FrameTooLarge'', 0x001A),
     (''TransportMtuExceeded'', 0x001B),
     (''TransportWriteFailed'', 0x001C),
     (''TransportReadFailed'', 0x001D),
     (''TransportDisconnected'', 0x001E),
     (''ControlOpcodeInvalid'', 0x0021),
     (''ControlPayloadInvalid'', 0x0022),
     (''ReservedControlBodyEncodingUnsupported'', 0x0023),
     (''ControlOpenRequired'', 0x0024),
     (''ControlOpenRejected'', 0x0025),
     (''ReservedControlProfileUnsupported'', 0x0026),
     (''ControlNegotiationFailed'', 0x0027),
     (''ControlSessionInvalid'', 0x0028),
     (''ControlSessionExpired'', 0x0029),
     (''ControlResumeFailed'', 0x002A),
     (''ControlAckTargetInvalid'', 0x002B),
     (''ControlWindowExceeded'', 0x002C),
     (''ControlHeartbeatTimeout'', 0x002D),
     (''RpcEncodingUnsupported'', 0x0031),
     (''RpcOpInvalid'', 0x0032),
     (''RpcPayloadInvalid'', 0x0033),
     (''RpcBodyEncodingUnsupported'', 0x0034),
     (''RpcBodyDecodeFailed'', 0x0035),
     (''RpcMethodNotFound'', 0x0036),
     (''RpcMethodNotSupported'', 0x0037),
     (''RpcMethodDisabled'', 0x0038),
     (''RpcRequestIdInvalid'', 0x0039),
     (''RpcParamMissing'', 0x003A),
     (''RpcParamInvalid'', 0x003B),
     (''RpcParamOutOfRange'', 0x003C),
     (''RpcExecutionFailed'', 0x003D),
     (''RpcResponseTimeout'', 0x003E),
     (''RpcBatchUnsupported'', 0x003F),
     (''RpcBatchPartialFailed'', 0x0040),
     (''DeviceInfoUnavailable'', 0x0101),
     (''DeviceRebootFailed'', 0x0102),
     (''DeviceFactoryResetFailed'', 0x0103),
     (''DeviceLowPower'', 0x0104),
     (''DeviceOverTemperature'', 0x0105),
     (''DeviceStorageFull'', 0x0106),
     (''DeviceModeConflict'', 0x0107),
     (''DeviceResourceBusy'', 0x0108),
     (''DeviceHardwareFailure'', 0x0109),
     (''EnrollmentCodeExpired'', 0x010A),
     (''EnrollmentCodeAlreadyUsed'', 0x010B),
     (''CapabilityNotFound'', 0x0201),
     (''CapabilityDomainNotFound'', 0x0202),
     (''CapabilityMethodUnsupported'', 0x0203),
     (''CapabilityEventUnsupported'', 0x0204),
     (''CapabilityStreamUnsupported'', 0x0205),
     (''CapabilityEncodingUnsupported'', 0x0206),
     (''CapabilityNegotiationFailed'', 0x0207),
     (''CapabilityLimitExceeded'', 0x0208),
     (''FwImageInvalid'', 0x0401),
     (''FwImageTypeUnsupported'', 0x0402),
     (''FwVersionUnsupported'', 0x0403),
     (''FwVersionTooOld'', 0x0404),
     (''FwTransferNotStarted'', 0x0405),
     (''FwTransferAlreadyStarted'', 0x0406),
     (''FwChunkInvalid'', 0x0407),
     (''FwChunkCrcError'', 0x0408),
     (''FwSizeMismatch'', 0x0409),
     (''FwHashMismatch'', 0x040A),
     (''FwVerifyFailed'', 0x040B),
     (''FwApplyFailed'', 0x040C),
     (''FwRollbackFailed'', 0x040D),
     (''FwStorageNotEnough'', 0x040E),
     (''FwDeviceNotReady'', 0x040F),
     (''FwRebootRequired'', 0x0410),
     (''StreamNotFound'', 0x0501),
     (''StreamTimeout'', 0x0502),
     (''StreamCrcError'', 0x0503),
     (''StreamPayloadInvalid'', 0x0504),
     (''StreamIdInvalid'', 0x0505),
     (''StreamNotOpen'', 0x0506),
     (''StreamAlreadyOpen'', 0x0507),
     (''StreamSeqInvalid'', 0x0508),
     (''StreamSeqDuplicated'', 0x0509),
     (''StreamChunkMissing'', 0x050A),
     (''StreamOffsetInvalid'', 0x050B),
     (''StreamWindowFull'', 0x050C),
     (''StreamBackpressure'', 0x050D),
     (''StreamResumeUnsupported'', 0x050E),
     (''StreamResumeFailed'', 0x050F),
     (''StreamClosed'', 0x0510),
     (''StreamTransferAborted'', 0x0511),
     (''MediaSourceNotFound'', 0x0801),
     (''MediaSourceUnavailable'', 0x0802),
     (''MediaCodecUnsupported'', 0x0803),
     (''MediaResolutionUnsupported'', 0x0804),
     (''MediaFramerateUnsupported'', 0x0805),
     (''MediaBitrateUnsupported'', 0x0806),
     (''MediaStreamStartFailed'', 0x0807),
     (''MediaStreamStopFailed'', 0x0808),
     (''MediaFrameDropped'', 0x0809),
     (''MediaVideoSignalLost'', 0x080B),
     (''MediaAudioDeviceNotFound'', 0x090A),
     (''FileNotFound'', 0x1001),
     (''FileAlreadyExists'', 0x1002),
     (''FilePermissionDenied'', 0x1003),
     (''FilePathInvalid'', 0x1004),
     (''FileTypeUnsupported'', 0x1005),
     (''FileTooLarge'', 0x1006),
     (''FileReadFailed'', 0x1007),
     (''FileWriteFailed'', 0x1008),
     (''FileDeleteFailed'', 0x1009),
     (''FileTransferFailed'', 0x100A),
     (''FileVerifyFailed'', 0x100B),
     (''FileStorageFull'', 0x100C),
     (''DiagTestNotFound'', 0x1201),
     (''DiagTestUnsupported'', 0x1202),
     (''DiagTestRunning'', 0x1203),
     (''DiagTestFailed'', 0x1204),
     (''DiagMetricUnavailable'', 0x1205),
     (''DiagLoopbackFailed'', 0x1206),
     (''SecAuthRequired'', 0x1401),
     (''SecAuthFailed'', 0x1402),
     (''SecPermissionDenied'', 0x1403),
     (''SecEncryptionRequired'', 0x1404),
     (''SecDecryptFailed'', 0x1405),
     (''SecSignatureInvalid'', 0x1406),
     (''SecCertInvalid'', 0x1407),
     (''SecTokenExpired'', 0x1408),
     (''LegacyCmdUnmapped'', 0x7F01),
     (''LegacyStatusUnmapped'', 0x7F02),
     (''LegacyPayloadInvalid'', 0x7F03),
     (''LegacyPayloadTooShort'', 0x7F04),
     (''LegacyPayloadTooLong'', 0x7F05),
     (''LegacyFieldUnsupported'', 0x7F06),
     (''LegacyCapabilityConflict'', 0x7F07),
     (''LegacyResponseTimeout'', 0x7F08)]"

definition CapabilityId_enum :: "(string \<times> u16) list" where
  "CapabilityId_enum = [
     (''ProtocolPayloadControl'', 0x0001),
     (''ProtocolPayloadRpc'', 0x0002),
     (''ProtocolPayloadStream'', 0x0003),
     (''ProtocolReservedRequestIdWidth'', 0x0009),
     (''DeviceInfo'', 0x0101),
     (''DeviceEnrollment'', 0x0102),
     (''FirmwareUpdate'', 0x0401),
     (''StreamFlowControl'', 0x0501),
     (''VideoStream'', 0x0801),
     (''AudioAlgorithm'', 0x0901),
     (''AudioStream'', 0x0902),
     (''SignagePlaylist'', 0x0D01),
     (''NetworkInterface'', 0x0E01),
     (''NetworkIp'', 0x0E02),
     (''NetworkWifi'', 0x0E03),
     (''NetworkAp'', 0x0E04),
     (''CastSession'', 0x1601),
     (''CastAudio'', 0x1602),
     (''CastPinCode'', 0x1603),
     (''CastWindow'', 0x1604),
     (''CastBackend'', 0x1605),
     (''CastFlowControl'', 0x1606),
     (''CastStatus'', 0x1607),
     (''CastPresentation'', 0x1608),
     (''CastAudioPolicy'', 0x1609),
     (''CastControlOperations'', 0x160A),
     (''CastPresentationSettings'', 0x160B),
     (''CastWebcastBackend'', 0x160C),
     (''CastMeetingPresentation'', 0x160D),
     (''CastAirplayControl'', 0x160E),
     (''SoftwareConfig'', 0x1701),
     (''SoftwareUpdatePolicy'', 0x1702),
     (''SportEventDetection'', 0x1801),
     (''SportBasketball'', 0x1802)]"

section \<open>RegistryLookup\<close>

text \<open>Each lookup returns the first descriptor of its table that matches.\<close>

definition methodIdByName :: "string \<Rightarrow> u16 option" where
  "methodIdByName name = map_option md_id (List.find (\<lambda>d. md_name d = name) kMethodRegistry)"

definition methodById :: "u16 \<Rightarrow> method_descriptor option" where
  "methodById i = List.find (\<lambda>d. md_id d = i) kMethodRegistry"

definition eventIdByName :: "string \<Rightarrow> u16 option" where
  "eventIdByName name = map_option ed_id (List.find (\<lambda>d. ed_name d = name) kEventRegistry)"

definition eventById :: "u16 \<Rightarrow> event_descriptor option" where
  "eventById i = List.find (\<lambda>d. ed_id d = i) kEventRegistry"

definition errorByCode :: "u16 \<Rightarrow> error_descriptor option" where
  "errorByCode code = List.find (\<lambda>d. er_id d = code) kErrorRegistry"

section \<open>MethodRegistry\<close>

record method_registry =
  mreg_nameToId :: "(string, u32) fmap"
  mreg_idToName :: "(u32, string) fmap"

definition MethodRegistry_empty :: method_registry where
  "MethodRegistry_empty = \<lparr>mreg_nameToId = fmempty, mreg_idToName = fmempty\<rparr>"

definition addMethod :: "method_registry \<Rightarrow> u32 \<Rightarrow> string \<Rightarrow> method_registry" where
  "addMethod r methodId methodName =
     (let r = (case fmlookup (mreg_idToName r) methodId of
                 Some existing \<Rightarrow> r\<lparr>mreg_nameToId := fmdrop existing (mreg_nameToId r)\<rparr>
               | None \<Rightarrow> r);
          r = (case fmlookup (mreg_nameToId r) methodName of
                 Some existingId \<Rightarrow> r\<lparr>mreg_idToName := fmdrop existingId (mreg_idToName r)\<rparr>
               | None \<Rightarrow> r);
          r = r\<lparr>mreg_nameToId := fmupd methodName methodId (mreg_nameToId r)\<rparr>
      in r\<lparr>mreg_idToName := fmupd methodId methodName (mreg_idToName r)\<rparr>)"

definition findMethodId :: "method_registry \<Rightarrow> string \<Rightarrow> u32 option" where
  "findMethodId r methodName = fmlookup (mreg_nameToId r) methodName"

definition findMethodName :: "method_registry \<Rightarrow> u32 \<Rightarrow> string option" where
  "findMethodName r methodId = fmlookup (mreg_idToName r) methodId"

definition containsMethodId :: "method_registry \<Rightarrow> u32 \<Rightarrow> bool" where
  "containsMethodId r methodId \<longleftrightarrow> fmlookup (mreg_idToName r) methodId \<noteq> None"

definition containsMethodName :: "method_registry \<Rightarrow> string \<Rightarrow> bool" where
  "containsMethodName r methodName \<longleftrightarrow> fmlookup (mreg_nameToId r) methodName \<noteq> None"

text \<open>Iteration over a \<^verbatim>\<open>std::map\<close> is in ascending key order.\<close>

definition registry_entries :: "method_registry \<Rightarrow> (u32 \<times> string) list" where
  "registry_entries r =
     map (\<lambda>i. (i, the (fmlookup (mreg_idToName r) i))) (sorted_list_of_fset (fmdom (mreg_idToName r)))"

definition fromGeneratedDefaults :: method_registry where
  "fromGeneratedDefaults =
     foldl (\<lambda>r m. addMethod r (ucast (md_id m)) (md_name m)) MethodRegistry_empty kMethodRegistry"

section \<open>Uniqueness of ids and names\<close>

fun ascending :: "'a :: linorder list \<Rightarrow> bool" where
  "ascending (a # b # xs) \<longleftrightarrow> a < b \<and> ascending (b # xs)"
| "ascending _ \<longleftrightarrow> True"

lemma ascending_sorted: "ascending xs \<Longrightarrow> sorted_wrt (<) xs"
proof (induction xs rule: ascending.induct)
  case (1 a b xs)
  then show ?case by (auto dest: less_trans)
qed simp_all

lemma ascending_distinct: "ascending xs \<Longrightarrow> distinct xs"
  using ascending_sorted by (auto simp: strict_sorted_iff)

text \<open>A number that tells apart the names of a table faster than the names themselves do.\<close>

definition name_key :: "string \<Rightarrow> nat" where
  "name_key s = foldl (\<lambda>h c. h * 32 + of_char c mod 32) 0 s"

lemma distinct_names: "distinct (map (name_key \<circ> f) xs) \<Longrightarrow> distinct (map f xs)"
  by (induction xs) auto

lemma method_ids_distinct: "distinct (map md_id kMethodRegistry)"
  by (rule ascending_distinct) (simp add: kMethodRegistry_def)

lemma event_ids_distinct: "distinct (map ed_id kEventRegistry)"
  by (rule ascending_distinct) (simp add: kEventRegistry_def)

lemma error_ids_distinct: "distinct (map er_id kErrorRegistry)"
  by (rule ascending_distinct) (simp add: kErrorRegistry_def)

lemma method_names_distinct: "distinct (map md_name kMethodRegistry)"
  by (rule distinct_names) (simp add: kMethodRegistry_def name_key_def)

lemma event_names_distinct: "distinct (map ed_name kEventRegistry)"
  by (rule distinct_names) (simp add: kEventRegistry_def name_key_def)

lemma find_unique:
  "distinct (map f xs) \<Longrightarrow> List.find (\<lambda>d. f d = k) xs = Some d \<longleftrightarrow> d \<in> set xs \<and> f d = k"
  by (induction xs) (auto simp: image_iff)

lemma find_mem: "List.find P xs = Some x \<Longrightarrow> x \<in> set xs \<and> P x"
  by (induction xs) (auto split: if_splits)

lemma find_map_pair:
  "List.find (\<lambda>m. snd m = n) (map (\<lambda>m. (g m, f m)) xs) = map_option (\<lambda>m. (g m, f m)) (List.find (\<lambda>d. f d = n) xs)"
  by (induction xs) auto

section \<open>The registry's two maps\<close>

definition registry_inv :: "method_registry \<Rightarrow> bool" where
  "registry_inv r \<longleftrightarrow>
     (\<forall>n i. fmlookup (mreg_nameToId r) n = Some i \<longleftrightarrow> fmlookup (mreg_idToName r) i = Some n)"

lemma registry_inv_empty [invar_intros]: "registry_inv MethodRegistry_empty"
  by (simp add: registry_inv_def MethodRegistry_empty_def)

lemma registry_inv_inject:
  "registry_inv r \<Longrightarrow> fmlookup (mreg_idToName r) i = Some n \<Longrightarrow> fmlookup (mreg_idToName r) j = Some n \<Longrightarrow> i = j"
  by (metis option.inject registry_inv_def)

lemma registry_inv_lookup:
  "registry_inv r \<Longrightarrow> fmlookup (mreg_nameToId r) n = Some i \<longleftrightarrow> fmlookup (mreg_idToName r) i = Some n"
  by (simp add: registry_inv_def)

lemma addMethod_lookup:
  assumes "registry_inv r"
  shows "fmlookup (mreg_nameToId (addMethod r i n)) m =
      (if m = n then Some i else if fmlookup (mreg_nameToId r) m = Some i then None else fmlookup (mreg_nameToId r) m)"
    and "fmlookup (mreg_idToName (addMethod r i n)) j =
      (if j = i then Some n else if fmlookup (mreg_idToName r) j = Some n then None else fmlookup (mreg_idToName r) j)"
proof -
  show "fmlookup (mreg_nameToId (addMethod r i n)) m =
      (if m = n then Some i else if fmlookup (mreg_nameToId r) m = Some i then None else fmlookup (mreg_nameToId r) m)"
    by (auto simp: addMethod_def Let_def registry_inv_lookup [OF assms] split: option.splits)
  show "fmlookup (mreg_idToName (addMethod r i n)) j =
      (if j = i then Some n else if fmlookup (mreg_idToName r) j = Some n then None else fmlookup (mreg_idToName r) j)"
    by (auto simp: addMethod_def Let_def registry_inv_lookup [OF assms, symmetric] split: option.splits)
qed

lemma registry_inv_addMethod [invar_intros]:
  assumes "registry_inv r"
  shows "registry_inv (addMethod r i n)"
  unfolding registry_inv_def addMethod_lookup [OF assms]
  by (auto simp: registry_inv_lookup [OF assms] dest: registry_inv_inject [OF assms] split: if_splits)

lemma registry_inv_adds [invar_intros]:
  "registry_inv r \<Longrightarrow> registry_inv (foldl (\<lambda>r (i, n). addMethod r i n) r ms)"
  by (induction ms arbitrary: r) (auto intro: registry_inv_addMethod)

text \<open>Adding descriptors with distinct ids and names.\<close>

lemma adds_distinct:
  assumes "distinct (map fst ms)" and "distinct (map snd ms)"
  shows "fmlookup (mreg_nameToId (foldl (\<lambda>r (i, n). addMethod r i n) MethodRegistry_empty ms)) n =
     map_option fst (List.find (\<lambda>m. snd m = n) ms)"
  using assms
proof (induction ms rule: rev_induct)
  case Nil
  then show ?case by (simp add: MethodRegistry_empty_def)
next
  case (snoc m ms)
  obtain i k where m: "m = (i, k)" by (cases m)
  let ?r = "foldl (\<lambda>r (i, n). addMethod r i n) MethodRegistry_empty ms"
  have inv: "registry_inv ?r" by (intro registry_inv_adds registry_inv_empty)
  have IH: "fmlookup (mreg_nameToId ?r) n = map_option fst (List.find (\<lambda>m. snd m = n) ms)"
    using snoc by simp
  have "fmlookup (mreg_nameToId ?r) n \<noteq> Some i"
  proof (cases "List.find (\<lambda>m. snd m = n) ms")
    case (Some a)
    then have "fst a \<in> fst ` set ms" using find_mem [of _ ms a] by auto
    with snoc.prems m IH Some show ?thesis by auto
  qed (simp add: IH)
  moreover have "List.find (\<lambda>m. snd m = k) ms = None"
    using snoc.prems m by (force simp: find_None_iff)
  moreover have "List.find P (ms @ [m]) = (case List.find P ms of None \<Rightarrow> if P m then Some m else None | Some x \<Rightarrow> Some x)"
    for P by (induction ms) auto
  ultimately show ?case
    using IH by (auto simp: m addMethod_lookup [OF inv] split: option.splits)
qed

section \<open>Properties\<close>

text \<open>
  The generated tables agree with the generated enumerations and with the counts they declare:
  the same ids in the same order, ninety-five methods, forty-seven events, 156 errors and thirty-four
  capabilities.
\<close>

theorem registries_match_enums:
  "map md_id kMethodRegistry = map snd MethodId_enum \<and> length kMethodRegistry = 95 \<and>
   map ed_id kEventRegistry = map snd EventId_enum \<and> length kEventRegistry = 47 \<and>
   map er_id kErrorRegistry = map snd ErrorCode_enum \<and> length kErrorRegistry = 156 \<and>
   map cd_id kCapabilityRegistry = map snd CapabilityId_enum \<and> length kCapabilityRegistry = 34"
  by (intro conjI; simp add: kMethodRegistry_def MethodId_enum_def kEventRegistry_def EventId_enum_def
      kErrorRegistry_def ErrorCode_enum_def kCapabilityRegistry_def CapabilityId_enum_def)

text \<open>
  Looking a method or an event up by name and by id are inverse to each other: a name resolves
  to an id exactly when the descriptor found under that id carries the name.
\<close>

theorem registry_lookup_inverse:
  "(methodIdByName n = Some i \<longleftrightarrow> map_option md_name (methodById i) = Some n) \<and>
   (eventIdByName n = Some j \<longleftrightarrow> map_option ed_name (eventById j) = Some n)"
  by (auto simp: methodIdByName_def methodById_def eventIdByName_def eventById_def
      find_unique [OF method_names_distinct] find_unique [OF method_ids_distinct]
      find_unique [OF event_names_distinct] find_unique [OF event_ids_distinct])

text \<open>
  The dynamic registry is a bijection after every sequence of additions: a name is found under
  an id exactly when the id is found under the name, and the last addition of a name or id wins.
\<close>

theorem method_registry_bijection:
  "(findMethodId (foldl (\<lambda>r (i, n). addMethod r i n) MethodRegistry_empty ms) n = Some i \<longleftrightarrow>
      findMethodName (foldl (\<lambda>r (i, n). addMethod r i n) MethodRegistry_empty ms) i = Some n) \<and>
   findMethodId (foldl (\<lambda>r (i, n). addMethod r i n) MethodRegistry_empty (ms @ [(j, m)])) m = Some j"
proof -
  have inv: "registry_inv (foldl (\<lambda>r (i, n). addMethod r i n) MethodRegistry_empty ms)"
    by (intro registry_inv_adds registry_inv_empty)
  then show ?thesis
    by (simp add: findMethodId_def findMethodName_def addMethod_lookup [OF inv] registry_inv_lookup)
qed

text \<open>
  The registry filled from the generated table resolves exactly the names the static lookup
  resolves, to the same ids.
\<close>

theorem generated_defaults_lookup:
  "findMethodId fromGeneratedDefaults n = map_option ucast (methodIdByName n)"
proof -
  let ?ms = "map (\<lambda>m. (ucast (md_id m) :: u32, md_name m)) kMethodRegistry"
  have "fromGeneratedDefaults = foldl (\<lambda>r (i, n). addMethod r i n) MethodRegistry_empty ?ms"
    by (simp add: fromGeneratedDefaults_def foldl_map)
  moreover have "distinct (map fst ?ms)"
  proof -
    have "inj (ucast :: u16 \<Rightarrow> u32)"
    proof (rule injI)
      fix a b :: u16
      assume "(ucast a :: u32) = ucast b"
      then have "ucast (ucast a :: u32) = (ucast (ucast b :: u32) :: u16)" by simp
      moreover have "ucast (ucast c :: u32) = c" for c :: u16
        by (rule bit_word_eqI) (auto simp: bit_simps)
      ultimately show "a = b" by simp
    qed
    then have "distinct (map ucast (map md_id kMethodRegistry) :: u32 list)"
      using method_ids_distinct by (simp only: distinct_map) (blast intro: inj_on_subset)
    then show ?thesis by (simp add: o_def)
  qed
  moreover have "distinct (map snd ?ms)" using method_names_distinct by (simp add: o_def)
  moreover have "List.find (\<lambda>m. snd m = n) ?ms =
      map_option (\<lambda>m. (ucast (md_id m), md_name m)) (List.find (\<lambda>d. md_name d = n) kMethodRegistry)"
    by (rule find_map_pair)
  ultimately show ?thesis
    using adds_distinct [of ?ms n] by (simp add: findMethodId_def methodIdByName_def option.map_comp o_def)
qed

end
