(* ===== verification/Json_Rpc.thy ===== *)
theory Json_Rpc
  imports Registry "HOL-Library.Monad_Syntax"
begin

text \<open>
  JSON-RPC payloads (\<^verbatim>\<open>wire/websocket_json_rpc/\<close>): the endpoint metadata codec, \<^verbatim>\<open>JsonRpcEncoder\<close>
  and \<^verbatim>\<open>JsonRpcPayloadDecoder\<close>.

  The JSON library (\<^verbatim>\<open>nlohmann/json\<close>) is third-party code and a parameter: \<open>json_lib\<close> holds its
  parser, its printer and its conversion of floating-point numbers to integers. The value type itself
  is the documented one: null, booleans, signed and unsigned 64-bit integers, floating-point numbers
  (as their bit pattern), strings, arrays, and objects, which are \<^verbatim>\<open>std::map\<close>s. A C++ exception is the
  result None.

  Shown here: requests and responses survive the way through encoder and decoder, endpoint metadata
  included; and what can come out of the decoder whatever text goes in.
\<close>

section \<open>JSON values\<close>

datatype json =
    JNull
  | JBool bool
  | JInt "64 word"
  | JUnsigned u64
  | JFloat u64
  | JString string
  | JArray "json list"
  | JObject "(string, json) fmap"

record json_lib =
  jl_parse :: "string \<Rightarrow> json option"
  jl_dump :: "json \<Rightarrow> string option"
  jl_float_to_int64 :: "u64 \<Rightarrow> 64 word"

fun is_object :: "json \<Rightarrow> bool" where
  "is_object (JObject m) = True"
| "is_object _ = False"

fun is_string :: "json \<Rightarrow> bool" where
  "is_string (JString s) = True"
| "is_string _ = False"

fun get_string :: "json \<Rightarrow> string option" where
  "get_string (JString s) = Some s"
| "get_string _ = None"

fun get_bool :: "json \<Rightarrow> bool option" where
  "get_bool (JBool b) = Some b"
| "get_bool _ = None"

fun is_number_integer :: "json \<Rightarrow> bool" where
  "is_number_integer (JInt w) = True"
| "is_number_integer (JUnsigned w) = True"
| "is_number_integer _ = False"

text \<open>\<^verbatim>\<open>at\<close> and \<^verbatim>\<open>find\<close> on an object; \<^verbatim>\<open>at\<close> throws and \<^verbatim>\<open>find\<close> returns \<^verbatim>\<open>end()\<close> where this is None.\<close>

fun json_find :: "json \<Rightarrow> string \<Rightarrow> json option" where
  "json_find (JObject m) key = fmlookup m key"
| "json_find _ key = None"

fun get_int64 :: "json_lib \<Rightarrow> json \<Rightarrow> 64 word option" where
  "get_int64 lib (JInt w) = Some w"
| "get_int64 lib (JUnsigned w) = Some w"
| "get_int64 lib (JFloat f) = Some (jl_float_to_int64 lib f)"
| "get_int64 lib _ = None"

section \<open>Endpoint metadata (endpoint_metadata_codec.hpp)\<close>

definition parseEndpoint :: "json \<Rightarrow> string \<Rightarrow> string option option" where
  "parseEndpoint metadata field =
     (case json_find metadata field of
        None \<Rightarrow> Some None
      | Some v \<Rightarrow>
          (case get_string v of
             None \<Rightarrow> None
           | Some endpoint \<Rightarrow> if endpoint = [] then None else Some (Some endpoint)))"

definition decodeEndpointMetadata :: "json \<Rightarrow> endpoint_metadata option" where
  "decodeEndpointMetadata object =
     (case json_find object ''m'' of
        None \<Rightarrow> Some EndpointMetadata_default
      | Some metadata \<Rightarrow>
          if \<not> is_object metadata then None
          else do {
            src \<leftarrow> parseEndpoint metadata ''src'';
            dst \<leftarrow> parseEndpoint metadata ''dst'';
            Some \<lparr>em_src = src, em_dst = dst\<rparr>
          })"

definition addEndpoint :: "string \<Rightarrow> string option \<Rightarrow> (string, json) fmap \<Rightarrow> (string, json) fmap option" where
  "addEndpoint field endpoint wireMetadata =
     (case endpoint of
        None \<Rightarrow> Some wireMetadata
      | Some e \<Rightarrow> if e = [] then None else Some (fmupd field (JString e) wireMetadata))"

definition addEndpointMetadata ::
    "(string, json) fmap \<Rightarrow> endpoint_metadata \<Rightarrow> (string, json) fmap option" where
  "addEndpointMetadata object metadata =
     (if \<not> hasEndpointMetadata metadata then Some object
      else do {
        w \<leftarrow> addEndpoint ''src'' (em_src metadata) fmempty;
        w \<leftarrow> addEndpoint ''dst'' (em_dst metadata) w;
        Some (fmupd ''m'' (JObject w) object)
      })"

section \<open>JsonRpcEncoder\<close>

definition kSpecVersion :: string where
  "kSpecVersion = ''0.18.0''"

definition makeHello :: rpc_payload where
  "makeHello = RpcPayload_default\<lparr>rp_encoding := RpcEncoding_Json, rp_op := RpcOp_Hello,
     rp_bodyEncoding := RpcBodyEncoding_None,
     rp_meta := PayloadMeta_default\<lparr>pm_sourceProtocol := JsonRpc\<rparr>\<rparr>"

definition makeIdentified :: "string \<Rightarrow> rpc_payload" where
  "makeIdentified sid = RpcPayload_default\<lparr>rp_encoding := RpcEncoding_Json, rp_op := RpcOp_Identified,
     rp_bodyEncoding := RpcBodyEncoding_None,
     rp_meta := PayloadMeta_default\<lparr>pm_sourceProtocol := JsonRpc, pm_jsonSid := sid\<rparr>\<rparr>"

definition makeIdentify :: "u32 \<Rightarrow> string \<Rightarrow> rpc_payload" where
  "makeIdentify randomSeed eventMasks =
     RpcPayload_default\<lparr>rp_encoding := RpcEncoding_Json, rp_op := RpcOp_Identify,
     rp_bodyEncoding := RpcBodyEncoding_None,
     rp_meta := PayloadMeta_default\<lparr>pm_sourceProtocol := JsonRpc, pm_jsonSid := '''',
       pm_hasRandomSeed := True, pm_randomSeed := randomSeed, pm_jsonEventMasks := eventMasks\<rparr>\<rparr>"

definition bytesToJson :: "json_lib \<Rightarrow> bytes \<Rightarrow> json option" where
  "bytesToJson lib bs = (if bs = [] then None else jl_parse lib (string_of_bytes bs))"

definition errorName :: "error_code \<Rightarrow> string" where
  "errorName code = (case errorByCode code of Some d \<Rightarrow> er_name d | None \<Rightarrow> ''UNKNOWN_ERROR'')"

definition statusObject :: "error_code \<Rightarrow> json" where
  "statusObject code =
     (let status = fmempty;
          status = fmupd ''ok'' (JBool (code = ErrorCode_Success)) status;
          status = fmupd ''code'' (JUnsigned (ucast code)) status;
          status = (if code \<noteq> ErrorCode_Success then fmupd ''msg'' (JString (errorName code)) status else status)
      in JObject status)"

text \<open>\<^verbatim>\<open>std::to_string\<close>.\<close>

fun decimal :: "nat \<Rightarrow> string" where
  "decimal n = (if n < 10 then [char_of (48 + n)] else decimal (n div 10) @ [char_of (48 + n mod 10)])"

definition envelope :: "string \<Rightarrow> rpc_op \<Rightarrow> (string, json) fmap \<Rightarrow> (string, json) fmap" where
  "envelope sid op d =
     fmupd ''d'' (JObject d) (fmupd ''op'' (JUnsigned (ucast op)) (fmupd ''sid'' (JString sid) fmempty))"

definition serializeHello :: "json_lib \<Rightarrow> string option" where
  "serializeHello lib =
     (let d = fmupd ''axtpVersion'' (JString kSpecVersion) fmempty
      in jl_dump lib (JObject (envelope '''' RpcOp_Hello d)))"

definition serializeIdentify :: "json_lib \<Rightarrow> rpc_payload \<Rightarrow> string option" where
  "serializeIdentify lib payload =
     (let d = fmempty;
          d = fmupd ''eventMasks'' (JString (pm_jsonEventMasks (rp_meta payload))) d;
          d = fmupd ''randomSeed'' (JUnsigned (ucast (pm_randomSeed (rp_meta payload)))) d
      in jl_dump lib (JObject (envelope '''' RpcOp_Identify d)))"

definition serializeIdentified :: "json_lib \<Rightarrow> rpc_payload \<Rightarrow> string option" where
  "serializeIdentified lib payload =
     jl_dump lib (JObject (envelope (pm_jsonSid (rp_meta payload)) RpcOp_Identified fmempty))"

definition responseObject :: "json_lib \<Rightarrow> rpc_payload \<Rightarrow> (string, json) fmap option" where
  "responseObject lib payload =
     (let d = fmupd ''id'' (JUnsigned (ucast (rp_requestId payload))) fmempty;
          statusCode = rp_statusCode payload;
          result = bytesToJson lib (rp_body payload);
          statusCode = (if statusCode = ErrorCode_Success \<and> rp_body payload \<noteq> [] \<and> result = None
                        then ErrorCode_RpcBodyDecodeFailed else statusCode);
          d = fmupd ''status'' (statusObject statusCode) d;
          d = (case result of
                 Some r \<Rightarrow> if statusCode = ErrorCode_Success then fmupd ''result'' r d else d
               | None \<Rightarrow> d)
      in addEndpointMetadata (envelope (pm_jsonSid (rp_meta payload)) RpcOp_RequestResponse d)
           (pm_endpoint (rp_meta payload)))"

definition serializeResponse :: "json_lib \<Rightarrow> rpc_payload \<Rightarrow> string option" where
  "serializeResponse lib payload = do {
     object \<leftarrow> responseObject lib payload;
     jl_dump lib (JObject object)
   }"

definition requestMethodName :: "rpc_payload \<Rightarrow> string" where
  "requestMethodName payload =
     (if pm_jsonMethodOrEventName (rp_meta payload) = []
      then (case methodById (ucast (rp_methodOrEventId payload)) of
              Some m \<Rightarrow> md_name m
            | None \<Rightarrow> decimal (unat (rp_methodOrEventId payload)))
      else pm_jsonMethodOrEventName (rp_meta payload))"

definition requestObject :: "json_lib \<Rightarrow> rpc_payload \<Rightarrow> (string, json) fmap option" where
  "requestObject lib payload =
     (let d = fmupd ''id'' (JUnsigned (ucast (rp_requestId payload))) fmempty;
          d = fmupd ''method'' (JString (requestMethodName payload)) d;
          d = (case bytesToJson lib (rp_body payload) of
                 Some params \<Rightarrow> fmupd ''params'' params d
               | None \<Rightarrow> d)
      in addEndpointMetadata (envelope (pm_jsonSid (rp_meta payload)) RpcOp_Request d)
           (pm_endpoint (rp_meta payload)))"

definition serializeRequest :: "json_lib \<Rightarrow> rpc_payload \<Rightarrow> string option" where
  "serializeRequest lib payload = do {
     object \<leftarrow> requestObject lib payload;
     jl_dump lib (JObject object)
   }"

definition serializeBatchResponse :: "json_lib \<Rightarrow> rpc_payload \<Rightarrow> string option" where
  "serializeBatchResponse lib payload =
     (let d = fmupd ''id'' (JUnsigned (ucast (rp_requestId payload))) fmempty;
          d = fmupd ''status'' (statusObject (rp_statusCode payload)) d
      in do {
           object \<leftarrow> addEndpointMetadata
             (envelope (pm_jsonSid (rp_meta payload)) RpcOp_RequestBatchResponse d) (pm_endpoint (rp_meta payload));
           jl_dump lib (JObject object)
         })"

definition eventName :: "rpc_payload \<Rightarrow> string" where
  "eventName payload =
     (if pm_jsonMethodOrEventName (rp_meta payload) = []
      then (case eventById (ucast (rp_methodOrEventId payload)) of Some e \<Rightarrow> ed_name e | None \<Rightarrow> '''')
      else pm_jsonMethodOrEventName (rp_meta payload))"

definition eventObject :: "json_lib \<Rightarrow> rpc_payload \<Rightarrow> (string, json) fmap option" where
  "eventObject lib payload =
     (let d = fmupd ''event'' (JString (eventName payload)) fmempty;
          d = (case bytesToJson lib (rp_body payload) of
                 Some data \<Rightarrow> fmupd ''data'' data d
               | None \<Rightarrow> d)
      in addEndpointMetadata (envelope (pm_jsonSid (rp_meta payload)) RpcOp_Event d)
           (pm_endpoint (rp_meta payload)))"

definition serializeEvent :: "json_lib \<Rightarrow> rpc_payload \<Rightarrow> string option" where
  "serializeEvent lib payload = do {
     object \<leftarrow> eventObject lib payload;
     jl_dump lib (JObject object)
   }"

definition JsonRpcEncoder_encode :: "json_lib \<Rightarrow> rpc_payload \<Rightarrow> bytes option" where
  "JsonRpcEncoder_encode lib payload =
     map_option bytes_of_string
       (if rp_op payload = RpcOp_Hello then serializeHello lib
        else if rp_op payload = RpcOp_Identify then serializeIdentify lib payload
        else if rp_op payload = RpcOp_Identified then serializeIdentified lib payload
        else if rp_op payload = RpcOp_Event then serializeEvent lib payload
        else if rp_op payload = RpcOp_Request then serializeRequest lib payload
        else if rp_op payload = RpcOp_RequestBatchResponse then serializeBatchResponse lib payload
        else serializeResponse lib payload)"

section \<open>JsonRpcPayloadDecoder\<close>

text \<open>
  The optional lookup installed by the host, then the generated registry. A decoding function
  returns the payload it hands to the sink; None where it throws, or where it returns without
  calling the sink: \<^verbatim>\<open>decode\<close> catches every exception and the two cases look the same from outside.
\<close>

type_synonym name_lookup = "(string \<Rightarrow> u32 option) option"

definition resolveName :: "string \<Rightarrow> name_lookup \<Rightarrow> bool \<Rightarrow> u32 option" where
  "resolveName name lookup isEventName =
     (case (case lookup of Some f \<Rightarrow> f name | None \<Rightarrow> None) of
        Some i \<Rightarrow> Some i
      | None \<Rightarrow> map_option ucast (if isEventName then eventIdByName name else methodIdByName name))"

definition parseOp :: "json_lib \<Rightarrow> json \<Rightarrow> rpc_op option" where
  "parseOp lib object = do {
     v \<leftarrow> json_find object ''op'';
     raw \<leftarrow> get_int64 lib v;
     if sint raw < 0 \<or> sint raw > 255 then None else Some (ucast raw)
   }"

definition parseSid :: "json \<Rightarrow> string" where
  "parseSid object =
     (case json_find object ''sid'' of
        Some v \<Rightarrow> (case get_string v of Some s \<Rightarrow> s | None \<Rightarrow> '''')
      | None \<Rightarrow> '''')"

text \<open>The shared pattern for ids, codes and seeds: an unsigned or a non-negative signed integer.\<close>

fun get_natural :: "json \<Rightarrow> u64 option" where
  "get_natural (JUnsigned w) = Some w"
| "get_natural (JInt w) = (if sint w < 0 then None else Some w)"
| "get_natural _ = None"

definition parseRequestId :: "json \<Rightarrow> bool \<Rightarrow> u32 option" where
  "parseRequestId d allowZero = do {
     v \<leftarrow> json_find d ''id'';
     raw \<leftarrow> get_natural v;
     if \<not> allowZero \<and> raw = 0 \<or> raw > 0xFFFFFFFF then None else Some (ucast raw)
   }"

definition parseStatusCode :: "json \<Rightarrow> error_code option" where
  "parseStatusCode d = do {
     status \<leftarrow> json_find d ''status'';
     if \<not> is_object status then None
     else do {
       okValue \<leftarrow> Option.bind (json_find status ''ok'') get_bool;
       code \<leftarrow> json_find status ''code'';
       raw \<leftarrow> get_natural code;
       if raw > 0xFFFF then None
       else if okValue \<and> raw \<noteq> 0 \<or> \<not> okValue \<and> raw = 0 then None
       else Some (ucast raw)
     }
   }"

definition parseRandomSeed :: "json \<Rightarrow> u32 option option" where
  "parseRandomSeed d =
     (case json_find d ''randomSeed'' of
        None \<Rightarrow> Some None
      | Some v \<Rightarrow> do {
          raw \<leftarrow> get_natural v;
          if raw > 0xFFFFFFFF then None else Some (Some (ucast raw))
        })"

definition jsonToBytes :: "json_lib \<Rightarrow> json \<Rightarrow> bytes option" where
  "jsonToBytes lib v = map_option bytes_of_string (jl_dump lib v)"

definition hasUnsupportedTransitionRpcVersion :: "json_lib \<Rightarrow> json \<Rightarrow> string \<Rightarrow> bool" where
  "hasUnsupportedTransitionRpcVersion lib d fieldName =
     (case json_find d fieldName of
        None \<Rightarrow> False
      | Some field \<Rightarrow> if \<not> is_number_integer field then True else get_int64 lib field \<noteq> Some 1)"

definition fillJsonMeta :: "rpc_payload \<Rightarrow> json \<Rightarrow> source_protocol \<Rightarrow> rpc_payload option" where
  "fillJsonMeta payload object sourceProtocol = do {
     endpoint \<leftarrow> decodeEndpointMetadata object;
     Some (payload\<lparr>rp_meta := (rp_meta payload)
       \<lparr>pm_sourceProtocol := sourceProtocol, pm_requestId := rp_requestId payload,
        pm_jsonSid := parseSid object, pm_endpoint := endpoint\<rparr>\<rparr>)
   }"

definition decodeRequest ::
    "json_lib \<Rightarrow> json \<Rightarrow> json \<Rightarrow> source_protocol \<Rightarrow> name_lookup \<Rightarrow> rpc_payload option" where
  "decodeRequest lib object d sourceProtocol methodLookup = do {
     method \<leftarrow> Option.bind (json_find d ''method'') get_string;
     case resolveName method methodLookup False of
       None \<Rightarrow> do {
         requestId \<leftarrow> parseRequestId d False;
         error \<leftarrow> fillJsonMeta
           (RpcPayload_default\<lparr>rp_encoding := RpcEncoding_Json, rp_op := RpcOp_RequestResponse,
              rp_requestId := requestId, rp_statusCode := ErrorCode_RpcMethodNotFound,
              rp_bodyEncoding := RpcBodyEncoding_None\<rparr>) object sourceProtocol;
         Some (error\<lparr>rp_meta := (rp_meta error)
           \<lparr>pm_endpoint := responseEndpointMetadata (pm_endpoint (rp_meta error)),
            pm_jsonMethodOrEventName := method, pm_localGeneratedResponse := True\<rparr>\<rparr>)
       }
     | Some methodId \<Rightarrow> do {
         requestId \<leftarrow> parseRequestId d False;
         request \<leftarrow> fillJsonMeta
           (RpcPayload_default\<lparr>rp_encoding := RpcEncoding_Json, rp_op := RpcOp_Request,
              rp_requestId := requestId, rp_methodOrEventId := methodId,
              rp_bodyEncoding := RpcBodyEncoding_None\<rparr>) object sourceProtocol;
         let request = request\<lparr>rp_meta := (rp_meta request)\<lparr>pm_jsonMethodOrEventName := method\<rparr>\<rparr>;
         case json_find d ''params'' of
           None \<Rightarrow> Some request
         | Some params \<Rightarrow> map_option (\<lambda>b. request\<lparr>rp_body := b\<rparr>) (jsonToBytes lib params)
       }
   }"

definition decodeResponse ::
    "json_lib \<Rightarrow> json \<Rightarrow> json \<Rightarrow> rpc_op \<Rightarrow> source_protocol \<Rightarrow> rpc_payload option" where
  "decodeResponse lib object d op sourceProtocol = do {
     requestId \<leftarrow> parseRequestId d True;
     statusCode \<leftarrow> parseStatusCode d;
     response \<leftarrow> fillJsonMeta
       (RpcPayload_default\<lparr>rp_encoding := RpcEncoding_Json, rp_op := op, rp_requestId := requestId,
          rp_statusCode := statusCode, rp_bodyEncoding := RpcBodyEncoding_None\<rparr>) object sourceProtocol;
     case json_find d ''result'' of
       Some result \<Rightarrow>
         if statusCode \<noteq> ErrorCode_Success then None
         else map_option (\<lambda>b. response\<lparr>rp_body := b\<rparr>) (jsonToBytes lib result)
     | None \<Rightarrow>
         if statusCode \<noteq> ErrorCode_Success
         then map_option (\<lambda>b. response\<lparr>rp_body := b\<rparr>) (jsonToBytes lib d)
         else Some response
   }"

definition decodeEvent ::
    "json_lib \<Rightarrow> json \<Rightarrow> json \<Rightarrow> source_protocol \<Rightarrow> name_lookup \<Rightarrow> rpc_payload option" where
  "decodeEvent lib object d sourceProtocol eventLookup = do {
     name \<leftarrow> Option.bind (json_find d ''event'') get_string;
     eventId \<leftarrow> resolveName name eventLookup True;
     event \<leftarrow> fillJsonMeta
       (RpcPayload_default\<lparr>rp_encoding := RpcEncoding_Json, rp_op := RpcOp_Event, rp_requestId := 0,
          rp_methodOrEventId := eventId, rp_bodyEncoding := RpcBodyEncoding_None\<rparr>) object sourceProtocol;
     let event = event\<lparr>rp_meta := (rp_meta event)\<lparr>pm_jsonMethodOrEventName := name\<rparr>\<rparr>;
     case json_find d ''data'' of
       None \<Rightarrow> Some event
     | Some eventData \<Rightarrow> map_option (\<lambda>b. event\<lparr>rp_body := b\<rparr>) (jsonToBytes lib eventData)
   }"

definition decodeSessionRpc ::
    "json_lib \<Rightarrow> json \<Rightarrow> json \<Rightarrow> rpc_op \<Rightarrow> source_protocol \<Rightarrow> rpc_payload option" where
  "decodeSessionRpc lib object d op sourceProtocol = do {
     payload \<leftarrow> fillJsonMeta
       (RpcPayload_default\<lparr>rp_encoding := RpcEncoding_Json, rp_op := op,
          rp_bodyEncoding := RpcBodyEncoding_None\<rparr>) object sourceProtocol;
     if hasUnsupportedTransitionRpcVersion lib d ''rpcVersion'' \<or>
        hasUnsupportedTransitionRpcVersion lib d ''negotiatedRpcVersion'' then None
     else do {
       payload \<leftarrow>
         (if op = RpcOp_Identify \<or> op = RpcOp_Reidentify
          then map_option (\<lambda>seed. case seed of
                   None \<Rightarrow> payload
                 | Some s \<Rightarrow> payload\<lparr>rp_meta := (rp_meta payload)
                     \<lparr>pm_hasRandomSeed := True, pm_randomSeed := s\<rparr>\<rparr>)
                 (parseRandomSeed d)
          else Some payload);
       body \<leftarrow> jsonToBytes lib d;
       Some (payload\<lparr>rp_body := body\<rparr>)
     }
   }"

definition decodeBatch :: "json_lib \<Rightarrow> json \<Rightarrow> json \<Rightarrow> source_protocol \<Rightarrow> rpc_payload option" where
  "decodeBatch lib object d sourceProtocol = do {
     requestId \<leftarrow> parseRequestId d True;
     payload \<leftarrow> fillJsonMeta
       (RpcPayload_default\<lparr>rp_encoding := RpcEncoding_Json, rp_op := RpcOp_RequestBatchResponse,
          rp_requestId := requestId, rp_statusCode := ErrorCode_RpcBatchUnsupported,
          rp_bodyEncoding := RpcBodyEncoding_None\<rparr>) object sourceProtocol;
     let payload = payload\<lparr>rp_meta := (rp_meta payload)
       \<lparr>pm_endpoint := responseEndpointMetadata (pm_endpoint (rp_meta payload)),
        pm_localGeneratedResponse := True\<rparr>\<rparr>;
     body \<leftarrow> jsonToBytes lib d;
     Some (payload\<lparr>rp_body := body\<rparr>)
   }"

definition decodeObject ::
    "json_lib \<Rightarrow> source_protocol \<Rightarrow> name_lookup \<Rightarrow> name_lookup \<Rightarrow> json \<Rightarrow> rpc_payload option" where
  "decodeObject lib sourceProtocol methodLookup eventLookup object = do {
     op \<leftarrow> parseOp lib object;
     d \<leftarrow> json_find object ''d'';
     if \<not> is_object d then None
     else if op = RpcOp_Request then decodeRequest lib object d sourceProtocol methodLookup
     else if op = RpcOp_RequestResponse then decodeResponse lib object d op sourceProtocol
     else if op = RpcOp_RequestBatchResponse then decodeResponse lib object d op sourceProtocol
     else if op = RpcOp_Event then decodeEvent lib object d sourceProtocol eventLookup
     else if op = RpcOp_Identify \<or> op = RpcOp_Reidentify \<or> op = RpcOp_Identified \<or> op = RpcOp_Hello
     then decodeSessionRpc lib object d op sourceProtocol
     else if op = RpcOp_RequestBatch then decodeBatch lib object d sourceProtocol
     else None
   }"

definition JsonRpcPayloadDecoder_decode ::
    "json_lib \<Rightarrow> bytes \<Rightarrow> source_protocol \<Rightarrow> name_lookup \<Rightarrow> name_lookup \<Rightarrow> rpc_payload option" where
  "JsonRpcPayloadDecoder_decode lib data sourceProtocol methodLookup eventLookup = do {
     object \<leftarrow> jl_parse lib (string_of_bytes data);
     decodeObject lib sourceProtocol methodLookup eventLookup object
   }"

section \<open>Reading back what was built\<close>

text \<open>The documented behaviour relied on: what the library prints, it parses to the same value.\<close>

definition json_prints :: "json_lib \<Rightarrow> json \<Rightarrow> bool" where
  "json_prints lib j \<longleftrightarrow> (\<exists>s. jl_dump lib j = Some s \<and> jl_parse lib s = Some j)"

definition endpoint_ok :: "endpoint_metadata \<Rightarrow> bool" where
  "endpoint_ok m \<longleftrightarrow> em_src m \<noteq> Some [] \<and> em_dst m \<noteq> Some []"

lemma endpoint_ok_response [simp]: "endpoint_ok (responseEndpointMetadata m) = endpoint_ok m"
  by (auto simp: endpoint_ok_def responseEndpointMetadata_def)

definition endpoint_object :: "endpoint_metadata \<Rightarrow> (string, json) fmap" where
  "endpoint_object m =
     (let w = (case em_src m of None \<Rightarrow> fmempty | Some s \<Rightarrow> fmupd ''src'' (JString s) fmempty)
      in case em_dst m of None \<Rightarrow> w | Some s \<Rightarrow> fmupd ''dst'' (JString s) w)"

lemma addEndpointMetadata_eq:
  "addEndpointMetadata object m =
     (if \<not> hasEndpointMetadata m then Some object
      else if endpoint_ok m then Some (fmupd ''m'' (JObject (endpoint_object m)) object) else None)"
  by (auto simp: addEndpointMetadata_def addEndpoint_def endpoint_ok_def endpoint_object_def split: option.splits)

lemma decodeEndpointMetadata_add:
  assumes "addEndpointMetadata object m = Some object'" and "fmlookup object ''m'' = None"
  shows "decodeEndpointMetadata (JObject object') = Some m"
proof (cases "hasEndpointMetadata m")
  case False
  then have "m = EndpointMetadata_default"
    by (cases m) (simp add: hasEndpointMetadata_def EndpointMetadata_default_def)
  with False assms show ?thesis by (simp add: addEndpointMetadata_eq decodeEndpointMetadata_def)
next
  case True
  with assms(1) have ok: "endpoint_ok m" "object' = fmupd ''m'' (JObject (endpoint_object m)) object"
    by (auto simp: addEndpointMetadata_eq split: if_splits)
  then show ?thesis
    by (cases m) (auto simp: decodeEndpointMetadata_def parseEndpoint_def endpoint_object_def endpoint_ok_def
        split: option.splits)
qed

lemma addEndpointMetadata_lookup:
  "addEndpointMetadata object m = Some object' \<Longrightarrow> k \<noteq> ''m'' \<Longrightarrow> fmlookup object' k = fmlookup object k"
  by (auto simp: addEndpointMetadata_eq split: if_splits)

lemma decodeEndpointMetadata_ok: "decodeEndpointMetadata object = Some m \<Longrightarrow> endpoint_ok m"
  by (auto simp: decodeEndpointMetadata_def parseEndpoint_def endpoint_ok_def EndpointMetadata_default_def
      split: option.splits if_splits bind_splits)

lemma envelope_lookup [simp]:
  "fmlookup (envelope sid op d) k =
     (if k = ''d'' then Some (JObject d) else if k = ''op'' then Some (JUnsigned (ucast op))
      else if k = ''sid'' then Some (JString sid) else None)"
  by (simp add: envelope_def)

text \<open>Unsigned values of the narrower types, widened and narrowed again.\<close>

lemma uint_widen:
  "uint (ucast (a :: u8) :: u64) = uint a" "uint (ucast (b :: u16) :: u64) = uint b"
  "uint (ucast (c :: u32) :: u64) = uint c"
  by (simp_all add: uint_up_ucast is_up)

lemma ucast_widen [simp]:
  "ucast (ucast (a :: u8) :: u64) = a" "ucast (ucast (b :: u16) :: u64) = b" "ucast (ucast (c :: u32) :: u64) = c"
  by (rule bit_word_eqI; auto simp: bit_simps)+

lemma natural_bounds:
  "sint (ucast (op :: u8) :: u64) = uint op"
  "\<not> 0xFFFFFFFF < (ucast (c :: u32) :: u64)" "\<not> 0xFFFF < (ucast (b :: u16) :: u64)"
proof -
  have "uint op < 2 ^ 8" "0 \<le> uint op" using unsigned_less [of op, where 'a = int] by simp_all
  then have "- (2 ^ 63) \<le> uint op" "uint op < 2 ^ 63" by (simp_all add: order_trans [OF _ unsigned_greater_eq])
  then have "signed_take_bit 63 (uint op) = uint op" by (rule signed_take_bit_int_eq_self)
  then show "sint (ucast op :: u64) = uint op" by (simp add: sint_uint uint_widen)
  show "\<not> 0xFFFFFFFF < (ucast (c :: u32) :: u64)" "\<not> 0xFFFF < (ucast (b :: u16) :: u64)"
    using unsigned_less [of c, where 'a = int] unsigned_less [of b, where 'a = int]
    by (simp_all add: word_less_alt uint_widen)
qed

lemma ucast_widen_0 [simp]:
  "(ucast (c :: u32) :: u64) = 0 \<longleftrightarrow> c = 0" "(ucast (b :: u16) :: u64) = 0 \<longleftrightarrow> b = 0"
  by (metis ucast_0 ucast_widen)+

lemma parseOp_envelope:
  assumes "fmlookup object ''op'' = Some (JUnsigned (ucast op))"
  shows "parseOp lib (JObject object) = Some op"
  using assms unsigned_less [of op, where 'a = int] by (simp add: parseOp_def natural_bounds)

lemma parseRequestId_unsigned:
  "fmlookup d ''id'' = Some (JUnsigned (ucast (i :: u32))) \<Longrightarrow>
     parseRequestId (JObject d) allowZero = (if \<not> allowZero \<and> i = 0 then None else Some i)"
  by (simp add: parseRequestId_def natural_bounds)

lemma parseStatusCode_statusObject:
  "fmlookup d ''status'' = Some (statusObject c) \<Longrightarrow> parseStatusCode (JObject d) = Some c"
  by (simp add: parseStatusCode_def statusObject_def Let_def natural_bounds)

lemma fillJsonMeta_eq:
  "decodeEndpointMetadata object = Some m \<Longrightarrow>
     fillJsonMeta p object src = Some (p\<lparr>rp_meta := (rp_meta p)
       \<lparr>pm_sourceProtocol := src, pm_requestId := rp_requestId p, pm_jsonSid := parseSid object, pm_endpoint := m\<rparr>\<rparr>)"
  by (simp add: fillJsonMeta_def)

text \<open>The body of a payload after its JSON text was parsed and printed again.\<close>

definition reprinted_body :: "json_lib \<Rightarrow> bytes \<Rightarrow> bytes option" where
  "reprinted_body lib body =
     (case bytesToJson lib body of None \<Rightarrow> Some [] | Some j \<Rightarrow> jsonToBytes lib j)"

lemma decode_printed:
  assumes "jl_dump lib (JObject obj) = Some s" and "jl_parse lib s = Some (JObject obj)"
  shows "JsonRpcPayloadDecoder_decode lib (bytes_of_string s) src ml el = decodeObject lib src ml el (JObject obj)"
  using assms by (simp add: JsonRpcPayloadDecoder_decode_def)

text \<open>What every payload that comes out of the decoder has in common.\<close>

definition decoded_from :: "source_protocol \<Rightarrow> rpc_payload \<Rightarrow> bool" where
  "decoded_from src p \<longleftrightarrow>
     rp_encoding p = RpcEncoding_Json \<and> rp_bodyEncoding p = RpcBodyEncoding_None \<and>
     pm_sourceProtocol (rp_meta p) = src \<and> pm_requestId (rp_meta p) = rp_requestId p \<and>
     endpoint_ok (pm_endpoint (rp_meta p)) \<and> pm_replyTarget (rp_meta p) = 0 \<and> pm_ingressToken (rp_meta p) = 0"

lemma fillJsonMeta_decoded:
  assumes "fillJsonMeta p object src = Some q" and "rp_meta p = PayloadMeta_default"
    and "rp_encoding p = RpcEncoding_Json" and "rp_bodyEncoding p = RpcBodyEncoding_None"
  shows "decoded_from src q \<and> rp_op q = rp_op p \<and> rp_requestId q = rp_requestId p \<and>
    rp_statusCode q = rp_statusCode p \<and> rp_methodOrEventId q = rp_methodOrEventId p \<and>
    \<not> pm_localGeneratedResponse (rp_meta q) \<and> pm_jsonMethodOrEventName (rp_meta q) = ''''"
  using assms decodeEndpointMetadata_ok [of object]
  by (auto simp: fillJsonMeta_def decoded_from_def PayloadMeta_default_def split: bind_splits)

lemma parseRequestId_nonzero: "parseRequestId d False = Some i \<Longrightarrow> i \<noteq> 0"
proof -
  assume "parseRequestId d False = Some i"
  then obtain raw :: u64 where raw: "raw \<noteq> 0" "\<not> raw > 0xFFFFFFFF" "i = ucast raw"
    by (auto simp: parseRequestId_def split: bind_splits if_splits)
  then have "unat raw < 2 ^ 32" by (simp add: word_less_nat_alt)
  then have "unat (ucast raw :: u32) = unat raw"
    by (simp add: unsigned_ucast_eq unsigned_take_bit_eq take_bit_nat_eq_self)
  with raw show ?thesis by (auto simp: unsigned_eq_0_iff)
qed

lemma decodeRequest_sound:
  assumes "decodeRequest lib object d src ml = Some p"
  shows "decoded_from src p \<and> rp_requestId p \<noteq> 0 \<and>
     (rp_op p = RpcOp_Request \<and> \<not> pm_localGeneratedResponse (rp_meta p) \<and>
        resolveName (pm_jsonMethodOrEventName (rp_meta p)) ml False = Some (rp_methodOrEventId p) \<or>
      rp_op p = RpcOp_RequestResponse \<and> rp_statusCode p = ErrorCode_RpcMethodNotFound \<and>
        resolveName (pm_jsonMethodOrEventName (rp_meta p)) ml False = None)"
proof -
  from assms obtain nm i where m: "Option.bind (json_find d ''method'') get_string = Some nm"
    "parseRequestId d False = Some i"
    by (auto simp: decodeRequest_def split: bind_splits option.splits)
  note nonzero = parseRequestId_nonzero [OF m(2)]
  show ?thesis
  proof (cases "resolveName nm ml False")
    case None
    with assms m obtain error where error: "fillJsonMeta
           (RpcPayload_default\<lparr>rp_encoding := RpcEncoding_Json, rp_op := RpcOp_RequestResponse,
              rp_requestId := i, rp_statusCode := ErrorCode_RpcMethodNotFound,
              rp_bodyEncoding := RpcBodyEncoding_None\<rparr>) object src = Some error"
        "p = error\<lparr>rp_meta := (rp_meta error)
           \<lparr>pm_endpoint := responseEndpointMetadata (pm_endpoint (rp_meta error)),
            pm_jsonMethodOrEventName := nm, pm_localGeneratedResponse := True\<rparr>\<rparr>"
      unfolding decodeRequest_def by (auto split: bind_splits)
    from fillJsonMeta_decoded [OF error(1)] nonzero None show ?thesis
      by (simp add: error(2) decoded_from_def RpcPayload_default_def)
  next
    case (Some methodId)
    with assms m obtain request where request: "fillJsonMeta
           (RpcPayload_default\<lparr>rp_encoding := RpcEncoding_Json, rp_op := RpcOp_Request,
              rp_requestId := i, rp_methodOrEventId := methodId,
              rp_bodyEncoding := RpcBodyEncoding_None\<rparr>) object src = Some request"
        "p = request\<lparr>rp_meta := (rp_meta request)\<lparr>pm_jsonMethodOrEventName := nm\<rparr>\<rparr> \<or>
         (\<exists>b. p = request\<lparr>rp_meta := (rp_meta request)\<lparr>pm_jsonMethodOrEventName := nm\<rparr>, rp_body := b\<rparr>)"
      unfolding decodeRequest_def by (auto simp: Let_def split: bind_splits option.splits)
    from fillJsonMeta_decoded [OF request(1)] nonzero Some request(2) show ?thesis
      by (auto simp: decoded_from_def RpcPayload_default_def)
  qed
qed

lemma decodeResponse_sound:
  "decodeResponse lib object d op src = Some p \<Longrightarrow>
     decoded_from src p \<and> rp_op p = op \<and> \<not> pm_localGeneratedResponse (rp_meta p)"
  by (auto simp: decodeResponse_def RpcPayload_default_def decoded_from_def split: bind_splits option.splits if_splits
      dest!: fillJsonMeta_decoded)

lemma decodeEvent_sound:
  "decodeEvent lib object d src el = Some p \<Longrightarrow>
     decoded_from src p \<and> rp_op p = RpcOp_Event \<and> \<not> pm_localGeneratedResponse (rp_meta p)"
  by (auto simp: decodeEvent_def RpcPayload_default_def decoded_from_def Let_def split: bind_splits option.splits
      dest!: fillJsonMeta_decoded)

lemma decodeSessionRpc_sound:
  assumes "decodeSessionRpc lib object d op src = Some p"
  shows "decoded_from src p \<and> rp_op p = op \<and> \<not> pm_localGeneratedResponse (rp_meta p)"
proof -
  from assms obtain q where q: "fillJsonMeta (RpcPayload_default\<lparr>rp_encoding := RpcEncoding_Json, rp_op := op,
       rp_bodyEncoding := RpcBodyEncoding_None\<rparr>) object src = Some q"
    by (auto simp: decodeSessionRpc_def split: bind_splits)
  with assms obtain b s where p: "p = q\<lparr>rp_body := b\<rparr> \<or>
      p = q\<lparr>rp_meta := (rp_meta q)\<lparr>pm_hasRandomSeed := True, pm_randomSeed := s\<rparr>, rp_body := b\<rparr>"
    unfolding decodeSessionRpc_def by (auto split: bind_splits if_splits option.splits)
  from fillJsonMeta_decoded [OF q] p show ?thesis
    by (auto simp: decoded_from_def RpcPayload_default_def)
qed

lemma decodeBatch_sound:
  "decodeBatch lib object d src = Some p \<Longrightarrow>
     decoded_from src p \<and> rp_op p = RpcOp_RequestBatchResponse \<and> rp_statusCode p = ErrorCode_RpcBatchUnsupported"
  by (auto simp: decodeBatch_def RpcPayload_default_def decoded_from_def Let_def split: bind_splits
      dest!: fillJsonMeta_decoded)

lemma decodeObject_cases:
  assumes "decodeObject lib src ml el object = Some p"
  obtains (request) d where "decodeRequest lib object d src ml = Some p"
  | (response) d op where "op \<in> {RpcOp_RequestResponse, RpcOp_RequestBatchResponse}" "decodeResponse lib object d op src = Some p"
  | (event) d where "decodeEvent lib object d src el = Some p"
  | (session) d op where "op \<in> {RpcOp_Identify, RpcOp_Reidentify, RpcOp_Identified, RpcOp_Hello}"
      "decodeSessionRpc lib object d op src = Some p"
  | (batch) d where "decodeBatch lib object d src = Some p"
  using assms by (auto simp: decodeObject_def split: bind_splits if_splits)

section \<open>Properties\<close>

text \<open>
  C24. A request sent as JSON-RPC arrives as it was sent: request id, session id, method name and
  endpoint metadata are the same, the method id is the one the receiver resolves the name to, and
  the body is the same JSON value printed again. Assumed of the JSON library: it parses the text it
  prints for this message back to the same value, and prints the parameters.
\<close>

theorem json_request_roundtrip:
  assumes "rp_op p = RpcOp_Request" and "rp_requestId p \<noteq> 0"
    and "requestObject lib p = Some obj" and "json_prints lib (JObject obj)"
    and "reprinted_body lib (rp_body p) = Some body"
    and "resolveName (requestMethodName p) lookup False = Some mid"
  shows "Option.bind (JsonRpcEncoder_encode lib p) (\<lambda>bs. JsonRpcPayloadDecoder_decode lib bs src lookup el) =
     Some (RpcPayload_default\<lparr>rp_encoding := RpcEncoding_Json, rp_op := RpcOp_Request,
       rp_requestId := rp_requestId p, rp_methodOrEventId := mid, rp_bodyEncoding := RpcBodyEncoding_None,
       rp_meta := PayloadMeta_default\<lparr>pm_sourceProtocol := src, pm_requestId := rp_requestId p,
         pm_jsonSid := pm_jsonSid (rp_meta p), pm_jsonMethodOrEventName := requestMethodName p,
         pm_endpoint := pm_endpoint (rp_meta p)\<rparr>,
       rp_body := body\<rparr>)"
proof -
  from assms(4) obtain s where s: "jl_dump lib (JObject obj) = Some s" "jl_parse lib s = Some (JObject obj)"
    by (auto simp: json_prints_def)
  obtain d where d: "addEndpointMetadata (envelope (pm_jsonSid (rp_meta p)) RpcOp_Request d) (pm_endpoint (rp_meta p)) = Some obj"
    "d = (case bytesToJson lib (rp_body p) of Some params \<Rightarrow> fmupd ''params'' params
            (fmupd ''method'' (JString (requestMethodName p)) (fmupd ''id'' (JUnsigned (ucast (rp_requestId p))) fmempty))
          | None \<Rightarrow> fmupd ''method'' (JString (requestMethodName p)) (fmupd ''id'' (JUnsigned (ucast (rp_requestId p))) fmempty))"
    using assms(3) by (simp add: requestObject_def Let_def)
  note look = addEndpointMetadata_lookup [OF d(1)]
  have meta: "decodeEndpointMetadata (JObject obj) = Some (pm_endpoint (rp_meta p))"
    using d(1) by (rule decodeEndpointMetadata_add) simp
  have id: "parseRequestId (JObject d) False = Some (rp_requestId p)"
    using assms(2) by (subst parseRequestId_unsigned [where i = "rp_requestId p"]) (auto simp: d(2) split: option.split)
  have meth: "fmlookup d ''method'' = Some (JString (requestMethodName p))"
    by (simp add: d(2) split: option.split)
  have params: "fmlookup d ''params'' = bytesToJson lib (rp_body p)"
    by (simp add: d(2) split: option.split)
  have "JsonRpcEncoder_encode lib p = Some (bytes_of_string s)"
    by (simp add: JsonRpcEncoder_encode_def assms(1,3) serializeRequest_def s(1))
  then show ?thesis
    using assms(5)
    by (simp add: decode_printed [OF s] decodeObject_def parseOp_envelope [where op = RpcOp_Request] look
        decodeRequest_def meth assms(6) id fillJsonMeta_eq [OF meta] params parseSid_def reprinted_body_def
        RpcPayload_default_def PayloadMeta_default_def split: option.splits)
qed

text \<open>A library that prints and parses one value, as example parameter, and a request of three fields.\<close>

definition one_value_lib :: "json \<Rightarrow> json_lib" where
  "one_value_lib j = \<lparr>jl_parse = (\<lambda>s. if s = ''J'' then Some j else None),
     jl_dump = (\<lambda>v. if v = j then Some ''J'' else None), jl_float_to_int64 = (\<lambda>_. 0)\<rparr>"

lemma one_value_lib_prints [simp]: "json_prints (one_value_lib j) j"
  by (simp add: json_prints_def one_value_lib_def)

definition example_request :: rpc_payload where
  "example_request = RpcPayload_default\<lparr>rp_requestId := 5,
     rp_meta := PayloadMeta_default\<lparr>pm_jsonSid := ''AB'', pm_jsonMethodOrEventName := ''lamp.on'',
       pm_endpoint := \<lparr>em_src = Some ''panel'', em_dst = None\<rparr>\<rparr>\<rparr>"

definition example_request_object :: "(string, json) fmap" where
  "example_request_object = fmupd ''m'' (JObject (fmupd ''src'' (JString ''panel'') fmempty))
     (envelope ''AB'' RpcOp_Request
        (fmupd ''method'' (JString ''lamp.on'') (fmupd ''id'' (JUnsigned 5) fmempty)))"

theorem json_request_roundtrip_witness:
  "Option.bind (JsonRpcEncoder_encode (one_value_lib (JObject example_request_object)) example_request)
     (\<lambda>bs. JsonRpcPayloadDecoder_decode (one_value_lib (JObject example_request_object)) bs JsonRpc
             (Some (\<lambda>_. Some 77)) None) =
   Some (example_request\<lparr>rp_methodOrEventId := 77, rp_bodyEncoding := RpcBodyEncoding_None,
     rp_meta := (rp_meta example_request)\<lparr>pm_sourceProtocol := JsonRpc, pm_requestId := 5\<rparr>\<rparr>)"
proof -
  let ?lib = "one_value_lib (JObject example_request_object)"
  have obj: "requestObject ?lib example_request = Some example_request_object"
    by (simp add: requestObject_def example_request_def RpcPayload_default_def PayloadMeta_default_def
        bytesToJson_def addEndpointMetadata_eq hasEndpointMetadata_def endpoint_ok_def endpoint_object_def
        requestMethodName_def example_request_object_def)
  show ?thesis
    using json_request_roundtrip [OF _ _ obj, of "[]" "Some (\<lambda>_. Some 77)" 77 JsonRpc None]
    by (simp add: reprinted_body_def bytesToJson_def resolveName_def)
      (simp add: example_request_def RpcPayload_default_def PayloadMeta_default_def requestMethodName_def)
qed

text \<open>
  C25. A response sent as JSON-RPC arrives with the same request id, session id, endpoint metadata and
  status; a body that is not JSON is reported as a decoding error; the body of a success is the same
  JSON value printed again.
\<close>

theorem json_response_roundtrip:
  assumes "rp_op p = RpcOp_RequestResponse"
    and "responseObject lib p = Some obj" and "json_prints lib (JObject obj)"
    and "\<And>d. fmlookup obj ''d'' = Some d \<Longrightarrow> jl_dump lib d \<noteq> None"
    and "reprinted_body lib (rp_body p) = Some body"
    and "code = (if rp_statusCode p = ErrorCode_Success \<and> rp_body p \<noteq> [] \<and> bytesToJson lib (rp_body p) = None
                 then ErrorCode_RpcBodyDecodeFailed else rp_statusCode p)"
  shows "\<exists>r. Option.bind (JsonRpcEncoder_encode lib p) (\<lambda>bs. JsonRpcPayloadDecoder_decode lib bs src ml el) = Some r \<and>
     rp_op r = RpcOp_RequestResponse \<and> rp_requestId r = rp_requestId p \<and> rp_statusCode r = code \<and>
     rp_meta r = PayloadMeta_default\<lparr>pm_sourceProtocol := src, pm_requestId := rp_requestId p,
       pm_jsonSid := pm_jsonSid (rp_meta p), pm_endpoint := pm_endpoint (rp_meta p)\<rparr> \<and>
     (code = ErrorCode_Success \<longrightarrow> rp_body r = body)"
proof -
  from assms(3) obtain s where s: "jl_dump lib (JObject obj) = Some s" "jl_parse lib s = Some (JObject obj)"
    by (auto simp: json_prints_def)
  obtain d where d: "addEndpointMetadata (envelope (pm_jsonSid (rp_meta p)) RpcOp_RequestResponse d) (pm_endpoint (rp_meta p)) = Some obj"
    "d = (case bytesToJson lib (rp_body p) of
            Some r \<Rightarrow> if code = ErrorCode_Success
              then fmupd ''result'' r (fmupd ''status'' (statusObject code) (fmupd ''id'' (JUnsigned (ucast (rp_requestId p))) fmempty))
              else fmupd ''status'' (statusObject code) (fmupd ''id'' (JUnsigned (ucast (rp_requestId p))) fmempty)
          | None \<Rightarrow> fmupd ''status'' (statusObject code) (fmupd ''id'' (JUnsigned (ucast (rp_requestId p))) fmempty))"
    using assms(2) unfolding responseObject_def Let_def assms(6) [symmetric] by blast
  note look = addEndpointMetadata_lookup [OF d(1)]
  have meta: "decodeEndpointMetadata (JObject obj) = Some (pm_endpoint (rp_meta p))"
    using d(1) by (rule decodeEndpointMetadata_add) simp
  have id: "parseRequestId (JObject d) True = Some (rp_requestId p)"
    by (subst parseRequestId_unsigned [where i = "rp_requestId p"]) (auto simp: d(2) split: option.split)
  have st: "parseStatusCode (JObject d) = Some code"
    by (rule parseStatusCode_statusObject) (simp add: d(2) split: option.split)
  have res: "fmlookup d ''result'' = (if code = ErrorCode_Success then bytesToJson lib (rp_body p) else None)"
    by (simp add: d(2) split: option.split)
  have dump: "jl_dump lib (JObject d) \<noteq> None"
    using assms(4) [of "JObject d"] look [of "''d''"] by simp
  have "JsonRpcEncoder_encode lib p = Some (bytes_of_string s)"
    by (simp add: JsonRpcEncoder_encode_def assms(1,2) serializeResponse_def s(1))
  moreover have "decodeObject lib src ml el (JObject obj) =
      decodeResponse lib (JObject obj) (JObject d) RpcOp_RequestResponse src"
    by (simp add: decodeObject_def parseOp_envelope [where op = RpcOp_RequestResponse] look)
  moreover have "\<exists>r. decodeResponse lib (JObject obj) (JObject d) RpcOp_RequestResponse src = Some r \<and>
     rp_op r = RpcOp_RequestResponse \<and> rp_requestId r = rp_requestId p \<and> rp_statusCode r = code \<and>
     rp_meta r = PayloadMeta_default\<lparr>pm_sourceProtocol := src, pm_requestId := rp_requestId p,
       pm_jsonSid := pm_jsonSid (rp_meta p), pm_endpoint := pm_endpoint (rp_meta p)\<rparr> \<and>
     (code = ErrorCode_Success \<longrightarrow> rp_body r = body)"
    using assms(5) dump
    by (auto simp: decodeResponse_def id st fillJsonMeta_eq [OF meta] res look parseSid_def reprinted_body_def
        jsonToBytes_def RpcPayload_default_def PayloadMeta_default_def split: option.splits)
  ultimately show ?thesis by (simp add: decode_printed [OF s])
qed

definition example_response :: rpc_payload where
  "example_response = RpcPayload_default\<lparr>rp_op := RpcOp_RequestResponse, rp_requestId := 5,
     rp_statusCode := ErrorCode_NotSupported\<rparr>"

definition example_response_object :: "(string, json) fmap" where
  "example_response_object = envelope '''' RpcOp_RequestResponse
     (fmupd ''status'' (statusObject ErrorCode_NotSupported) (fmupd ''id'' (JUnsigned 5) fmempty))"

theorem json_response_roundtrip_witness:
  "\<exists>r. Option.bind
       (JsonRpcEncoder_encode ((one_value_lib (JObject example_response_object))
          \<lparr>jl_dump := (\<lambda>v. if v = JObject example_response_object then Some ''J'' else Some ''K'')\<rparr>) example_response)
       (\<lambda>bs. JsonRpcPayloadDecoder_decode ((one_value_lib (JObject example_response_object))
          \<lparr>jl_dump := (\<lambda>v. if v = JObject example_response_object then Some ''J'' else Some ''K'')\<rparr>) bs JsonRpc None None) =
     Some r \<and> rp_statusCode r = ErrorCode_NotSupported"
proof -
  let ?lib = "(one_value_lib (JObject example_response_object))
          \<lparr>jl_dump := (\<lambda>v. if v = JObject example_response_object then Some ''J'' else Some ''K'')\<rparr>"
  have obj: "responseObject ?lib example_response = Some example_response_object"
    by (simp add: responseObject_def example_response_def RpcPayload_default_def PayloadMeta_default_def
        EndpointMetadata_default_def bytesToJson_def addEndpointMetadata_eq hasEndpointMetadata_def
        example_response_object_def)
  have prints: "json_prints ?lib (JObject example_response_object)"
    by (simp add: json_prints_def one_value_lib_def)
  have "rp_op example_response = RpcOp_RequestResponse" "reprinted_body ?lib (rp_body example_response) = Some []"
    by (simp_all add: example_response_def RpcPayload_default_def reprinted_body_def bytesToJson_def)
  moreover have "jl_dump ?lib d \<noteq> None" for d by simp
  ultimately show ?thesis
    using json_response_roundtrip [of example_response ?lib example_response_object "[]" _ JsonRpc None None] obj prints
    by (auto simp: example_response_def RpcPayload_default_def)
qed

text \<open>
  C26. Whatever text arrives, a payload comes out of the decoder only in these shapes: a request with a
  non-zero id and a method the receiver knows; a response, event or session message; or an error the
  decoder makes itself, for an unknown method or a batch, which is the only way to the provenance flag
  \<^verbatim>\<open>localGeneratedResponse\<close>. Endpoint fields are never empty and reply target and ingress token are
  never set from the wire.
\<close>

theorem json_decoder_sound:
  assumes "JsonRpcPayloadDecoder_decode lib data src ml el = Some p"
  shows "rp_encoding p = RpcEncoding_Json \<and> rp_bodyEncoding p = RpcBodyEncoding_None \<and>
     rp_op p \<in> {RpcOp_Hello, RpcOp_Identify, RpcOp_Identified, RpcOp_Reidentify, RpcOp_Event, RpcOp_Request,
       RpcOp_RequestResponse, RpcOp_RequestBatchResponse} \<and>
     pm_sourceProtocol (rp_meta p) = src \<and> pm_requestId (rp_meta p) = rp_requestId p \<and>
     endpoint_ok (pm_endpoint (rp_meta p)) \<and> pm_replyTarget (rp_meta p) = 0 \<and> pm_ingressToken (rp_meta p) = 0 \<and>
     (rp_op p = RpcOp_Request \<longrightarrow> rp_requestId p \<noteq> 0 \<and>
        resolveName (pm_jsonMethodOrEventName (rp_meta p)) ml False = Some (rp_methodOrEventId p)) \<and>
     (pm_localGeneratedResponse (rp_meta p) \<longrightarrow>
        rp_op p = RpcOp_RequestResponse \<and> rp_statusCode p = ErrorCode_RpcMethodNotFound \<and> rp_requestId p \<noteq> 0 \<and>
          resolveName (pm_jsonMethodOrEventName (rp_meta p)) ml False = None \<or>
        rp_op p = RpcOp_RequestBatchResponse \<and> rp_statusCode p = ErrorCode_RpcBatchUnsupported)"
proof -
  from assms obtain object where dec: "decodeObject lib src ml el object = Some p"
    by (auto simp: JsonRpcPayloadDecoder_decode_def split: bind_splits)
  from dec show ?thesis
  proof (cases rule: decodeObject_cases)
    case (request d)
    from decodeRequest_sound [OF this] show ?thesis by (auto simp: decoded_from_def)
  next
    case (response d op)
    from decodeResponse_sound [OF response(2)] response(1) show ?thesis by (auto simp: decoded_from_def)
  next
    case (event d)
    from decodeEvent_sound [OF this] show ?thesis by (auto simp: decoded_from_def)
  next
    case (session d op)
    from decodeSessionRpc_sound [OF session(2)] session(1) show ?thesis by (auto simp: decoded_from_def)
  next
    case (batch d)
    from decodeBatch_sound [OF this] show ?thesis by (auto simp: decoded_from_def)
  qed
qed

theorem json_decoder_sound_witness:
  "pm_requestId (rp_meta (makeHello\<lparr>rp_body := bytes_of_string ''J''\<rparr>)) = rp_requestId makeHello"
  using json_decoder_sound [of
      "\<lparr>jl_parse = (\<lambda>s. Some (JObject (envelope '''' RpcOp_Hello fmempty))), jl_dump = (\<lambda>j. Some ''J''), jl_float_to_int64 = (\<lambda>_. 0)\<rparr>"
      "[]" JsonRpc None None "makeHello\<lparr>rp_body := bytes_of_string ''J''\<rparr>"]
  by (simp add: JsonRpcPayloadDecoder_decode_def decodeObject_def parseOp_envelope [where op = RpcOp_Hello]
      decodeSessionRpc_def fillJsonMeta_def decodeEndpointMetadata_def hasUnsupportedTransitionRpcVersion_def
      jsonToBytes_def parseSid_def RpcPayload_default_def PayloadMeta_default_def makeHello_def)

end
