(* ===== verification/Wire_Processors.thy ===== *)
theory Wire_Processors
  imports Fragmentation Control_Tlv Json_Rpc
begin

text \<open>
  The payload codecs and the two processors that chain the wire layers
  (\<^verbatim>\<open>payload_encoder.hpp\<close>, \<^verbatim>\<open>payload_decoder.hpp\<close>, \<^verbatim>\<open>payload_sink.hpp\<close>, \<^verbatim>\<open>json_rpc_decoder.hpp\<close>,
  \<^verbatim>\<open>inbound_processor.hpp\<close>, \<^verbatim>\<open>outbound_processor.hpp\<close>, \<^verbatim>\<open>transport_profile.hpp\<close>).

  Outbound, a payload becomes a message, its frames and their bytes; inbound, bytes become frames,
  messages and payloads. The sinks \<^verbatim>\<open>IPayloadSink\<close> and \<^verbatim>\<open>IByteWriter\<close> are function arguments that act
  on a state of their own. The lemmas run the outbound chain through the inbound chain.
\<close>

unbundle bit_operations_syntax

section \<open>Payload sink and transport profile\<close>

text \<open>The three calls of \<^verbatim>\<open>IPayloadSink\<close>.\<close>

datatype payload = PControl control_payload | PRpc rpc_payload | PStream stream_payload

datatype transport_kind = TK_Tcp | TK_WebSocket | TK_Hid | TK_Ble | TK_Uart | TK_Mock | TK_Custom

datatype wire_mode = FramedBinary | WebSocketJsonRpc

record transport_profile =
  tp_kind :: transport_kind
  tp_wireMode :: wire_mode
  tp_defaultRpcEncoding :: rpc_encoding
  tp_messageOriented :: bool
  tp_supportsTextMessage :: bool
  tp_supportsBinaryMessage :: bool
  tp_preferredFrameSize :: nat

definition TransportProfile_default :: transport_profile where
  "TransportProfile_default = \<lparr>tp_kind = TK_Custom, tp_wireMode = FramedBinary,
     tp_defaultRpcEncoding = jsonBinaryRpcEncoding, tp_messageOriented = False,
     tp_supportsTextMessage = False, tp_supportsBinaryMessage = True, tp_preferredFrameSize = 4096\<rparr>"

section \<open>PayloadEncoder\<close>

definition encodeControl :: "control_payload \<Rightarrow> message" where
  "encodeControl payload =
     (let writer = writeU8 ByteWriter_empty (cp_opcode payload);
          writer = writeU16 writer (cp_controlId payload);
          writer = writeU16 writer (cp_statusCode payload);
          writer = (if cp_body payload \<noteq> [] then writeBytes writer (cp_body payload)
                    else if cp_opcode payload = ControlOpcode_Open
                    then writeBytes writer (ControlTlv_encode (cp_tlv payload) False)
                    else if cp_opcode payload = ControlOpcode_Accept
                    then writeBytes writer (ControlTlv_encode (cp_tlv payload) True)
                    else writer)
      in \<lparr>msg_messageId = 0, msg_payloadType = PayloadType_Control, msg_body = fst (takeBytes writer)\<rparr>)"

text \<open>
  An exception of the function is \<open>None\<close>: it throws for endpoint metadata on the compact encoding, and
  the JSON encoder may throw. The method id is written as sixteen bits.
\<close>

definition encodeRpc :: "json_lib \<Rightarrow> rpc_payload \<Rightarrow> message option" where
  "encodeRpc lib payload =
     (if isJsonBinaryRpcEncoding (rp_encoding payload) \<and> hasEndpointMetadata (pm_endpoint (rp_meta payload))
      then None
      else if pm_sourceProtocol (rp_meta payload) = JsonRpc \<and> rp_encoding payload = RpcEncoding_Json
      then (let writer = writeU8 ByteWriter_empty (rp_encoding payload) in
            case JsonRpcEncoder_encode lib payload of
              None \<Rightarrow> None
            | Some json \<Rightarrow>
                Some \<lparr>msg_messageId = 0, msg_payloadType = PayloadType_Rpc,
                      msg_body = fst (takeBytes (writeBytes writer json))\<rparr>)
      else (let writer = writeU8 ByteWriter_empty (rp_encoding payload);
                writer = writeU8 writer (rp_op payload);
                writer = writeU32 writer (rp_requestId payload);
                writer = writeU16 writer (ucast (rp_methodOrEventId payload));
                writer = writeU16 writer (rp_statusCode payload);
                writer = writeU8 writer (rp_bodyEncoding payload);
                writer = writeBytes writer (rp_body payload)
            in Some \<lparr>msg_messageId = 0, msg_payloadType = PayloadType_Rpc, msg_body = fst (takeBytes writer)\<rparr>))"

definition encodeStream :: "stream_payload \<Rightarrow> message" where
  "encodeStream payload =
     (let writer = writeU32 ByteWriter_empty (sp_streamId payload);
          writer = writeU32 writer (sp_seqId payload);
          writer = writeU64 writer (sp_cursor payload);
          writer = writeBytes writer (sp_data payload)
      in \<lparr>msg_messageId = 0, msg_payloadType = PayloadType_Stream, msg_body = fst (takeBytes writer)\<rparr>)"

section \<open>PayloadDecoder\<close>

text \<open>Each decoder calls the sink at most once; \<open>None\<close> is the early return without a call.\<close>

definition decodeControl :: "message \<Rightarrow> payload option" where
  "decodeControl message =
     (if length (msg_body message) < kControlPayloadHeaderSize then None
      else
        (let reader = ByteReader (msg_body message);
             (opcode, reader) = readU8 reader;
             (controlId, reader) = readU16 reader;
             (statusCode, reader) = readU16 reader;
             (body, reader) = readBytes reader (reader_remaining reader)
         in if isl opcode \<or> isl controlId \<or> isl statusCode \<or> isl body then None
            else (let payload = ControlPayload_default\<lparr>cp_opcode := projr opcode,
                        cp_controlId := projr controlId, cp_statusCode := projr statusCode,
                        cp_body := projr body\<rparr>
                  in Some (PControl (payload\<lparr>cp_tlv := ControlTlv_decode (cp_body payload)\<rparr>)))))"

text \<open>The first bytes of a JSON text behind its encoding byte.\<close>

definition starts_json :: "bytes \<Rightarrow> bool" where
  "starts_json body \<longleftrightarrow> body ! 0 = RpcEncoding_Json \<and> (body ! 1 = 0x7B \<or> body ! 1 = 0x5B)"

definition decodeRpc :: "json_lib \<Rightarrow> message \<Rightarrow> payload option" where
  "decodeRpc lib message =
     (if length (msg_body message) < kBinaryRpcHeaderSize
      then (if 2 \<le> length (msg_body message) \<and> starts_json (msg_body message)
            then map_option PRpc (JsonRpcPayloadDecoder_decode lib (drop 1 (msg_body message)) AxtpV1 None None)
            else None)
      else if starts_json (msg_body message)
      then map_option PRpc (JsonRpcPayloadDecoder_decode lib (drop 1 (msg_body message)) AxtpV1 None None)
      else
        (let reader = ByteReader (msg_body message);
             (encoding, reader) = readU8 reader;
             (op, reader) = readU8 reader;
             (requestId, reader) = readU32 reader;
             (methodOrEventId, reader) = readU16 reader;
             (statusCode, reader) = readU16 reader;
             (bodyEncoding, reader) = readU8 reader;
             (body, reader) = readBytes reader (reader_remaining reader)
         in if isl encoding \<or> isl op \<or> isl requestId \<or> isl methodOrEventId \<or> isl statusCode \<or>
               isl bodyEncoding \<or> isl body then None
            else Some (PRpc (RpcPayload_default\<lparr>rp_encoding := projr encoding, rp_op := projr op,
                   rp_requestId := projr requestId, rp_methodOrEventId := ucast (projr methodOrEventId),
                   rp_statusCode := projr statusCode, rp_bodyEncoding := projr bodyEncoding,
                   rp_meta := PayloadMeta_default\<lparr>pm_requestId := projr requestId\<rparr>,
                   rp_body := projr body\<rparr>))))"

definition decodeStream :: "message \<Rightarrow> payload option" where
  "decodeStream message =
     (if length (msg_body message) < kStreamPayloadHeaderSize then None
      else
        (let reader = ByteReader (msg_body message);
             (streamId, reader) = readU32 reader;
             (seqId, reader) = readU32 reader;
             (cursor, reader) = readU64 reader;
             (data, reader) = readBytes reader (reader_remaining reader)
         in if isl streamId \<or> isl seqId \<or> isl cursor \<or> isl data then None
            else Some (PStream (StreamPayload_default\<lparr>sp_streamId := projr streamId,
                   sp_seqId := projr seqId, sp_cursor := projr cursor, sp_data := projr data\<rparr>))))"

definition decodeMessage :: "json_lib \<Rightarrow> message \<Rightarrow> payload option" where
  "decodeMessage lib message =
     (if msg_payloadType message = PayloadType_Control then decodeControl message
      else if msg_payloadType message = PayloadType_Rpc then decodeRpc lib message
      else if msg_payloadType message = PayloadType_Stream then decodeStream message
      else None)"

definition PayloadDecoder_onMessage ::
    "json_lib \<Rightarrow> (payload \<Rightarrow> 's \<Rightarrow> 's) \<Rightarrow> message \<Rightarrow> 's \<Rightarrow> 's" where
  "PayloadDecoder_onMessage lib sink message s =
     (case decodeMessage lib message of None \<Rightarrow> s | Some p \<Rightarrow> sink p s)"

section \<open>JsonRpcDecoder and InboundProcessor\<close>

record json_rpc_decoder =
  jd_methodLookup :: name_lookup
  jd_eventLookup :: name_lookup

definition JsonRpcDecoder_onBytes ::
    "json_lib \<Rightarrow> (payload \<Rightarrow> 's \<Rightarrow> 's) \<Rightarrow> json_rpc_decoder \<Rightarrow> bytes \<Rightarrow> 's \<Rightarrow> 's" where
  "JsonRpcDecoder_onBytes lib sink d data s =
     (case JsonRpcPayloadDecoder_decode lib data JsonRpc (jd_methodLookup d) (jd_eventLookup d) of
        None \<Rightarrow> s | Some p \<Rightarrow> sink (PRpc p) s)"

record inbound_processor =
  ip_frameDecoder :: byte_buffer
  ip_reassembler :: message_reassembler
  ip_jsonRpcDecoder :: json_rpc_decoder
  ip_wireMode :: wire_mode

text \<open>The reassembler is default-constructed: messages of up to one mebibyte.\<close>

definition InboundProcessor :: inbound_processor where
  "InboundProcessor = \<lparr>ip_frameDecoder = ByteBuffer_empty, ip_reassembler = MessageReassembler (1024 * 1024),
     ip_jsonRpcDecoder = \<lparr>jd_methodLookup = None, jd_eventLookup = None\<rparr>, ip_wireMode = FramedBinary\<rparr>"

definition InboundProcessor_onBytes ::
    "json_lib \<Rightarrow> (payload \<Rightarrow> 's \<Rightarrow> 's) \<Rightarrow> inbound_processor \<Rightarrow> bytes \<Rightarrow> 's \<Rightarrow> inbound_processor \<times> 's" where
  "InboundProcessor_onBytes lib sink ip data s =
     (if ip_wireMode ip = WebSocketJsonRpc
      then (ip, JsonRpcDecoder_onBytes lib sink (ip_jsonRpcDecoder ip) data s)
      else
        (let (buffer, reassembler, s) =
           FrameDecoder_onBytes
             (\<lambda>frame (r, s). MessageReassembler_onFrame (PayloadDecoder_onMessage lib sink) r frame s)
             (ip_frameDecoder ip) data (ip_reassembler ip, s)
         in (ip\<lparr>ip_frameDecoder := buffer, ip_reassembler := reassembler\<rparr>, s)))"

definition setInboundWireMode :: "inbound_processor \<Rightarrow> wire_mode \<Rightarrow> inbound_processor" where
  "setInboundWireMode ip wireMode = ip\<lparr>ip_wireMode := wireMode\<rparr>"

definition setMethodLookup :: "inbound_processor \<Rightarrow> name_lookup \<Rightarrow> inbound_processor" where
  "setMethodLookup ip lookup =
     ip\<lparr>ip_jsonRpcDecoder := (ip_jsonRpcDecoder ip)\<lparr>jd_methodLookup := lookup\<rparr>\<rparr>"

definition setEventLookup :: "inbound_processor \<Rightarrow> name_lookup \<Rightarrow> inbound_processor" where
  "setEventLookup ip lookup =
     ip\<lparr>ip_jsonRpcDecoder := (ip_jsonRpcDecoder ip)\<lparr>jd_eventLookup := lookup\<rparr>\<rparr>"

section \<open>OutboundProcessor\<close>

record outbound_processor =
  op_fragmenter :: message_fragmenter
  op_wireMode :: wire_mode

definition OutboundProcessor :: "nat \<Rightarrow> outbound_processor" where
  "OutboundProcessor maxFrameSize = \<lparr>op_fragmenter = MessageFragmenter maxFrameSize, op_wireMode = FramedBinary\<rparr>"

text \<open>The writer is called once for every frame.\<close>

definition sendMessage ::
    "(bytes \<Rightarrow> 's \<Rightarrow> 's) \<Rightarrow> outbound_processor \<Rightarrow> message \<Rightarrow> 's \<Rightarrow> outbound_processor \<times> 's" where
  "sendMessage write op message s =
     (let (frames, fragmenter) = fragment (op_fragmenter op) message
      in (op\<lparr>op_fragmenter := fragmenter\<rparr>, fold (\<lambda>frame. write (FrameEncoder_encode frame)) frames s))"

definition sendControl ::
    "(bytes \<Rightarrow> 's \<Rightarrow> 's) \<Rightarrow> outbound_processor \<Rightarrow> control_payload \<Rightarrow> 's \<Rightarrow> outbound_processor \<times> 's" where
  "sendControl write op payload s =
     (if op_wireMode op = WebSocketJsonRpc then (op, s)
      else sendMessage write op (encodeControl payload) s)"

text \<open>
  \<^verbatim>\<open>sendRpc\<close>, of which the request, response, error and event variants are synonyms. \<open>None\<close> is the
  exception of the encoder, which is thrown before anything is written.
\<close>

definition sendRpc ::
    "json_lib \<Rightarrow> (bytes \<Rightarrow> 's \<Rightarrow> 's) \<Rightarrow> outbound_processor \<Rightarrow> rpc_payload \<Rightarrow> 's \<Rightarrow> (outbound_processor \<times> 's) option" where
  "sendRpc lib write op payload s =
     (if op_wireMode op = WebSocketJsonRpc
      then (case JsonRpcEncoder_encode lib payload of
              None \<Rightarrow> None | Some data \<Rightarrow> Some (op, write data s))
      else (case encodeRpc lib payload of
              None \<Rightarrow> None | Some message \<Rightarrow> Some (sendMessage write op message s)))"

definition sendStream ::
    "(bytes \<Rightarrow> 's \<Rightarrow> 's) \<Rightarrow> outbound_processor \<Rightarrow> stream_payload \<Rightarrow> 's \<Rightarrow> outbound_processor \<times> 's" where
  "sendStream write op payload s =
     (if op_wireMode op = WebSocketJsonRpc then (op, s)
      else sendMessage write op (encodeStream payload) s)"

definition setOutboundWireMode :: "outbound_processor \<Rightarrow> wire_mode \<Rightarrow> outbound_processor" where
  "setOutboundWireMode op wireMode = op\<lparr>op_wireMode := wireMode\<rparr>"

definition setOutboundMaxFrameSize :: "outbound_processor \<Rightarrow> nat \<Rightarrow> outbound_processor" where
  "setOutboundMaxFrameSize op maxFrameSize =
     op\<lparr>op_fragmenter := setMaxFrameSize (op_fragmenter op) maxFrameSize\<rparr>"

section \<open>One message through fragmenter and reassembler\<close>

text \<open>The bytes of each layer, as one expression.\<close>

definition control_body :: "control_payload \<Rightarrow> bytes" where
  "control_body p =
     (if cp_body p \<noteq> [] then cp_body p
      else if cp_opcode p = ControlOpcode_Open then ControlTlv_encode (cp_tlv p) False
      else if cp_opcode p = ControlOpcode_Accept then ControlTlv_encode (cp_tlv p) True
      else [])"

lemma encodeControl_eq:
  "encodeControl p = \<lparr>msg_messageId = 0, msg_payloadType = PayloadType_Control,
     msg_body = cp_opcode p # be16 (cp_controlId p) @ be16 (cp_statusCode p) @ control_body p\<rparr>"
  by (simp add: encodeControl_def control_body_def Let_def wire_simps fst_takeBytes)

definition rpc_bytes :: "rpc_payload \<Rightarrow> bytes" where
  "rpc_bytes p = rp_encoding p # rp_op p # be32 (rp_requestId p) @ be16 (ucast (rp_methodOrEventId p))
     @ be16 (rp_statusCode p) @ rp_bodyEncoding p # rp_body p"

definition binary_rpc :: "rpc_payload \<Rightarrow> bool" where
  "binary_rpc p \<longleftrightarrow>
     \<not> (isJsonBinaryRpcEncoding (rp_encoding p) \<and> hasEndpointMetadata (pm_endpoint (rp_meta p))) \<and>
     \<not> (pm_sourceProtocol (rp_meta p) = JsonRpc \<and> rp_encoding p = RpcEncoding_Json) \<and>
     \<not> (rp_encoding p = RpcEncoding_Json \<and> rp_op p \<in> {0x7B, 0x5B})"

lemma encodeRpc_eq:
  "binary_rpc p \<Longrightarrow> encodeRpc lib p =
     Some \<lparr>msg_messageId = 0, msg_payloadType = PayloadType_Rpc, msg_body = rpc_bytes p\<rparr>"
  by (auto simp: encodeRpc_def binary_rpc_def rpc_bytes_def Let_def wire_simps fst_takeBytes)

lemma encodeStream_eq:
  "encodeStream p = \<lparr>msg_messageId = 0, msg_payloadType = PayloadType_Stream,
     msg_body = be32 (sp_streamId p) @ be32 (sp_seqId p) @ be64 (sp_cursor p) @ sp_data p\<rparr>"
  by (simp add: encodeStream_def Let_def wire_simps fst_takeBytes)

text \<open>What the decoders make of those bytes.\<close>

lemma decodeControl_bytes:
  "msg_body m = oc # be16 cid @ be16 st @ body \<Longrightarrow>
   decodeControl m = Some (PControl (ControlPayload_default\<lparr>cp_opcode := oc, cp_controlId := cid,
     cp_statusCode := st, cp_tlv := ControlTlv_decode body, cp_body := body\<rparr>))"
  by (simp add: decodeControl_def kControlPayloadHeaderSize_def wire_simps)

lemma decodeRpc_bytes:
  assumes "msg_body m = enc # op # be32 i @ be16 mid @ be16 st @ benc # body"
    and "\<not> (enc = RpcEncoding_Json \<and> op \<in> {0x7B, 0x5B})"
  shows "decodeRpc lib m = Some (PRpc (RpcPayload_default\<lparr>rp_encoding := enc, rp_op := op,
     rp_requestId := i, rp_methodOrEventId := ucast mid, rp_statusCode := st, rp_bodyEncoding := benc,
     rp_meta := PayloadMeta_default\<lparr>pm_requestId := i\<rparr>, rp_body := body\<rparr>))"
  using assms by (auto simp: decodeRpc_def starts_json_def kBinaryRpcHeaderSize_def wire_simps)

lemma decodeStream_bytes:
  "msg_body m = be32 i @ be32 q @ be64 c @ body \<Longrightarrow>
   decodeStream m = Some (PStream (StreamPayload_default\<lparr>sp_streamId := i, sp_seqId := q,
     sp_cursor := c, sp_data := body\<rparr>))"
  by (simp add: decodeStream_def kStreamPayloadHeaderSize_def wire_simps)

text \<open>The reassembler with any sink is the collecting one followed by the sink.\<close>

lemma reassemble_collect:
  "fold (\<lambda>f (r, s). MessageReassembler_onFrame sink r f s) fs (r, s) =
     (fst (reassemble collect_message (r, []) fs), fold sink (snd (reassemble collect_message (r, []) fs)) s)"
proof -
  have one: "MessageReassembler_onFrame sink r f (fold sink ms s) =
     (fst (MessageReassembler_onFrame collect_message r f ms),
      fold sink (snd (MessageReassembler_onFrame collect_message r f ms)) s)" for r f ms
    by (simp add: onFrame_refines_step Let_def split_beta collect_message_def split: option.split)
  have "fold (\<lambda>f (r, s). MessageReassembler_onFrame sink r f s) fs (r, fold sink ms s) =
     (fst (reassemble collect_message (r, ms) fs), fold sink (snd (reassemble collect_message (r, ms) fs)) s)" for ms
    by (induction fs arbitrary: r ms) (simp_all add: reassemble_def one)
  from this [of "[]"] show ?thesis by simp
qed

lemma reassemble_ids:
  "(\<forall>m\<in>set out. msg_messageId m \<in> I) \<Longrightarrow> (\<forall>f\<in>set fs. frame_id f \<in> I) \<Longrightarrow>
     \<forall>m\<in>set (snd (reassemble collect_message (r, out) fs)). msg_messageId m \<in> I"
proof (induction fs arbitrary: r out)
  case (Cons f fs)
  obtain r' out' where step: "MessageReassembler_onFrame collect_message r f out = (r', out')" by fastforce
  then have "\<forall>m\<in>set out'. msg_messageId m \<in> I"
    using Cons.prems assembly_step_id [of "mr_maxMessageSize r" "mr_assemblies r (frame_id f)" f]
    by (auto simp: onFrame_refines_step Let_def split_beta collect_message_def frame_id_def split: option.splits)
  from Cons.IH [OF this, of r'] Cons.prems(2) step show ?case by (simp add: reassemble_def)
qed (simp add: reassemble_def)

lemma frames_needed_pos: "0 < cap \<Longrightarrow> 0 < frames_needed cap len"
  by (auto simp: frames_needed_def div_greater_zero_iff)

lemma reassemble_message:
  assumes cap: "0 < cap" and small: "frames_needed cap (length (msg_body m)) < 256"
    and limit: "length (msg_body m) \<le> mr_maxMessageSize r" and free: "mr_assemblies r mid = None"
  shows "fold (\<lambda>f (r, s). MessageReassembler_onFrame sink r f s)
       (message_frames mid cap (frames_needed cap (length (msg_body m))) m) (r, s) =
     (r, sink \<lparr>msg_messageId = mid, msg_payloadType = msg_payloadType m, msg_body = msg_body m\<rparr> s)"
proof -
  let ?n = "frames_needed cap (length (msg_body m))"
  let ?fs = "message_frames mid cap ?n m" and ?ix = "\<lambda>f. unat (fh_frameIndex (fr_header f))"
  obtain k where n: "?n = Suc k" using frames_needed_pos [OF cap] gr0_implies_Suc by blast
  then have split: "?fs = map (piece_frame mid cap ?n m) [0..<k] @ [piece_frame mid cap ?n m k]"
    by (simp add: message_frames_alt)
  have once: "piece_frame mid cap ?n m k \<notin> set (map (piece_frame mid cap ?n m) [0..<k])"
  proof
    assume "piece_frame mid cap ?n m k \<in> set (map (piece_frame mid cap ?n m) [0..<k])"
    then obtain i where "i < k" "piece_frame mid cap ?n m k = piece_frame mid cap ?n m i" by auto
    then show False
      using arg_cong [of "piece_frame mid cap ?n m k" _ ?ix] small n
        piece_frame_index [of k mid cap ?n m] piece_frame_index [of i mid cap ?n m] by simp
  qed
  have ids: "\<forall>f\<in>set ?fs. frame_id f = mid" by (auto simp: message_frames_alt)
  have same: "filter (\<lambda>f. frame_id f = j) ?fs = (if j = mid then ?fs else [])" for j
    using ids by (auto simp: filter_id_conv filter_empty_conv)
  obtain r' ms where run: "reassemble collect_message (r, []) ?fs = (r', ms)" by fastforce
  have "\<forall>x\<in>set ms. msg_messageId x = mid"
    using reassemble_ids [of "[]" "{mid}" ?fs r] ids run by simp
  then have "filter (\<lambda>x. msg_messageId x = mid) ms = ms" by (simp add: filter_id_conv)
  with reassemble_pieces [OF small limit frames_needed_covers [OF cap] free, of ?fs] run same [of mid] once
  have ms: "ms = [\<lparr>msg_messageId = mid, msg_payloadType = msg_payloadType m, msg_body = msg_body m\<rparr>]"
    and slot: "mr_assemblies r' mid = None"
    by (simp_all add: split)
  have "mr_assemblies r' j = mr_assemblies r j" for j
    using reassemble_by_id [of r "[]" ?fs j] run same [of j] slot free by (cases "j = mid") simp_all
  moreover have "mr_maxMessageSize r' = mr_maxMessageSize r"
    using reassemble_by_id [of r "[]" ?fs mid] run by simp
  ultimately have "r' = r" by (simp add: fun_eq_iff)
  with ms run show ?thesis by (simp add: reassemble_collect)
qed

section \<open>From payloads to bytes and back\<close>

text \<open>A message the fragmenter and the reassembler can carry.\<close>

definition carries :: "nat \<Rightarrow> nat \<Rightarrow> message \<Rightarrow> bool" where
  "carries cap limit m \<longleftrightarrow> isPayloadType (msg_payloadType m) \<and>
     frames_needed cap (length (msg_body m)) < 256 \<and> length (msg_body m) \<le> limit \<and>
     min cap (length (msg_body m)) < 2 ^ 16"

lemma message_frames_sendable:
  assumes "0 < cap" and "carries cap limit m" and "f \<in> set (message_frames mid cap (frames_needed cap (length (msg_body m))) m)"
  shows "sendable_frame f"
proof -
  let ?n = "frames_needed cap (length (msg_body m))"
  from assms(3) obtain i where i: "i < ?n" "f = piece_frame mid cap ?n m i" by (auto simp: message_frames_alt)
  moreover have "unat (word_of_nat ?n :: u8) = ?n" "unat (word_of_nat i :: u8) = i"
    using assms(2) i(1) by (simp_all add: carries_def unat_of_nat)
  ultimately show ?thesis
    using assms(2)
    by (auto simp add: sendable_frame_def header_ok_def piece_frame_def message_frame_def carries_def
        message_piece_def word_less_nat_alt word_le_nat_alt kAxtpVersion1_def min_less_iff_disj)
qed

abbreviation (input) inbound_frame ::
    "json_lib \<Rightarrow> (payload \<Rightarrow> 's \<Rightarrow> 's) \<Rightarrow> frame \<Rightarrow> message_reassembler \<times> 's \<Rightarrow> message_reassembler \<times> 's" where
  "inbound_frame lib sink \<equiv>
     (\<lambda>frame (r, s). MessageReassembler_onFrame (PayloadDecoder_onMessage lib sink) r frame s)"

lemma payloadCapacity_ids [simp]:
  "payloadCapacity (fg\<lparr>mf_nextMessageId := a, mf_currentMessageId := b\<rparr>) = payloadCapacity fg"
  by (simp add: payloadCapacity_def)

lemma sendMessage_received:
  assumes "0 < payloadCapacity (op_fragmenter op)" and "carries (payloadCapacity (op_fragmenter op)) limit m"
  shows "\<exists>op' w. (\<forall>out. sendMessage (\<lambda>b out. out @ [b]) op m out = (op', out @ w)) \<and>
     op_wireMode op' = op_wireMode op \<and> payloadCapacity (op_fragmenter op') = payloadCapacity (op_fragmenter op) \<and>
     (\<forall>ys s. fold (inbound_frame lib sink) (fst (decode_stream (concat w @ ys))) (MessageReassembler limit, s) =
         fold (inbound_frame lib sink) (fst (decode_stream ys))
           (MessageReassembler limit, PayloadDecoder_onMessage lib sink
              (m\<lparr>msg_messageId := mf_nextMessageId (op_fragmenter op)\<rparr>) s) \<and>
       snd (decode_stream (concat w @ ys)) = snd (decode_stream ys))"
proof -
  let ?fg = "op_fragmenter op" and ?cap = "payloadCapacity (op_fragmenter op)"
  let ?mid = "mf_nextMessageId (op_fragmenter op)"
  let ?n = "frames_needed ?cap (length (msg_body m))"
  let ?fs = "message_frames ?mid ?cap ?n m" and ?w = "map FrameEncoder_encode (message_frames ?mid ?cap ?n m)"
  have small: "?n < 256" using assms(2) by (simp add: carries_def)
  have written: "fold (\<lambda>frame out. out @ [FrameEncoder_encode frame]) fs out = out @ map FrameEncoder_encode fs" for fs out
    by (induction fs arbitrary: out) simp_all
  have "\<forall>(g, f)\<in>set (map (Pair []) ?fs). skippable g \<and> sendable_frame f"
    using message_frames_sendable [OF assms] by (auto simp: skippable_def)
  note stream = decode_stream_frames [OF this]
  have decoded: "decode_stream (concat ?w @ ys) = (map wire_frame ?fs @ fst (decode_stream ys), snd (decode_stream ys))" for ys
    using stream [of ys] by (simp add: o_def)
  have wire: "fold (inbound_frame lib sink) (map wire_frame fs) p = fold (inbound_frame lib sink) fs p" for fs p
    by (induction fs arbitrary: p) (simp_all add: split_beta)
  have one: "fold (inbound_frame lib sink) ?fs (MessageReassembler limit, s) =
      (MessageReassembler limit, PayloadDecoder_onMessage lib sink (m\<lparr>msg_messageId := ?mid\<rparr>) s)" for s
    using reassemble_message [OF assms(1) small, of "MessageReassembler limit" ?mid] assms(2)
    by (cases m) (simp add: MessageReassembler_def carries_def)
  show ?thesis
    using one
    by (intro exI [of _ "op\<lparr>op_fragmenter := snd (fragment ?fg m)\<rparr>"] exI [of _ ?w])
      (simp add: sendMessage_def fragment_frames [OF assms(1) refl small] written decoded wire)
qed

text \<open>A payload in its binary form, and the payload the receiver makes of it.\<close>

fun payload_message :: "payload \<Rightarrow> message" where
  "payload_message (PControl p) = encodeControl p"
| "payload_message (PRpc p) = \<lparr>msg_messageId = 0, msg_payloadType = PayloadType_Rpc, msg_body = rpc_bytes p\<rparr>"
| "payload_message (PStream p) = encodeStream p"

fun binary_payload :: "payload \<Rightarrow> bool" where
  "binary_payload (PRpc p) = binary_rpc p"
| "binary_payload _ = True"

fun received_payload :: "payload \<Rightarrow> payload" where
  "received_payload (PControl p) = PControl (ControlPayload_default\<lparr>cp_opcode := cp_opcode p,
     cp_controlId := cp_controlId p, cp_statusCode := cp_statusCode p,
     cp_tlv := ControlTlv_decode (control_body p), cp_body := control_body p\<rparr>)"
| "received_payload (PRpc p) = PRpc (RpcPayload_default\<lparr>rp_encoding := rp_encoding p, rp_op := rp_op p,
     rp_requestId := rp_requestId p, rp_methodOrEventId := ucast (ucast (rp_methodOrEventId p) :: u16),
     rp_statusCode := rp_statusCode p, rp_bodyEncoding := rp_bodyEncoding p,
     rp_meta := PayloadMeta_default\<lparr>pm_requestId := rp_requestId p\<rparr>, rp_body := rp_body p\<rparr>)"
| "received_payload (PStream p) = PStream (StreamPayload_default\<lparr>sp_streamId := sp_streamId p,
     sp_seqId := sp_seqId p, sp_cursor := sp_cursor p, sp_data := sp_data p\<rparr>)"

fun sendPayload ::
    "json_lib \<Rightarrow> (bytes \<Rightarrow> 's \<Rightarrow> 's) \<Rightarrow> outbound_processor \<Rightarrow> payload \<Rightarrow> 's \<Rightarrow> (outbound_processor \<times> 's) option" where
  "sendPayload lib write op (PControl p) s = Some (sendControl write op p s)"
| "sendPayload lib write op (PRpc p) s = sendRpc lib write op p s"
| "sendPayload lib write op (PStream p) s = Some (sendStream write op p s)"

primrec sendPayloads ::
    "json_lib \<Rightarrow> outbound_processor \<Rightarrow> payload list \<Rightarrow> bytes list \<Rightarrow> (outbound_processor \<times> bytes list) option" where
  "sendPayloads lib op [] out = Some (op, out)"
| "sendPayloads lib op (p # ps) out =
     (case sendPayload lib (\<lambda>b out. out @ [b]) op p out of
        None \<Rightarrow> None | Some (op', out') \<Rightarrow> sendPayloads lib op' ps out')"

lemma sendPayload_binary:
  "op_wireMode op = FramedBinary \<Longrightarrow> binary_payload p \<Longrightarrow>
     sendPayload lib write op p s = Some (sendMessage write op (payload_message p) s)"
  by (cases p) (simp_all add: sendControl_def sendRpc_def sendStream_def encodeRpc_eq)

lemma decodeMessage_received:
  "binary_payload p \<Longrightarrow>
     decodeMessage lib ((payload_message p)\<lparr>msg_messageId := mid\<rparr>) = Some (received_payload p)"
proof (cases p)
  case (PRpc r)
  assume "binary_payload p"
  with PRpc have "\<not> (rp_encoding r = RpcEncoding_Json \<and> rp_op r \<in> {0x7B, 0x5B})" by (simp add: binary_rpc_def)
  with PRpc show ?thesis by (simp add: decodeMessage_def decodeRpc_bytes rpc_bytes_def)
qed (simp_all add: decodeMessage_def encodeControl_eq encodeStream_eq decodeControl_bytes decodeStream_bytes)

text \<open>The payloads that survive unchanged; two different ones never share their bytes.\<close>

definition wire_normal :: "payload \<Rightarrow> bool" where
  "wire_normal p \<longleftrightarrow> binary_payload p \<and> received_payload p = p"

interpretation payload_wire: codec payload_message "decodeMessage lib" wire_normal for lib
proof
  show "wire_normal p \<Longrightarrow> decodeMessage lib (payload_message p) = Some p" for p
    using decodeMessage_received [of p lib "msg_messageId (payload_message p)"] by (simp add: wire_normal_def)
qed

lemma payload_type_ok: "isPayloadType (msg_payloadType (payload_message p))"
  by (cases p) (simp_all add: encodeControl_eq encodeStream_eq isPayloadType_def)

lemma sendPayloads_received:
  assumes "op_wireMode op = FramedBinary" and "0 < payloadCapacity (op_fragmenter op)"
    and "\<forall>p\<in>set ps. binary_payload p \<and> carries (payloadCapacity (op_fragmenter op)) limit (payload_message p)"
  shows "\<exists>op' w. (\<forall>out. sendPayloads lib op ps out = Some (op', out @ w)) \<and>
     (\<forall>s. fold (inbound_frame lib sink) (fst (decode_stream (concat w))) (MessageReassembler limit, s) =
         (MessageReassembler limit, fold sink (map received_payload ps) s)) \<and>
     snd (decode_stream (concat w)) = []"
  using assms
proof (induction ps arbitrary: op)
  case Nil
  then show ?case by simp
next
  case (Cons p ps)
  let ?m = "payload_message p"
  have p: "binary_payload p" "carries (payloadCapacity (op_fragmenter op)) limit ?m" using Cons.prems(3) by simp_all
  obtain op1 w1 where first: "\<And>out. sendMessage (\<lambda>b out. out @ [b]) op ?m out = (op1, out @ w1)"
    "op_wireMode op1 = FramedBinary" "payloadCapacity (op_fragmenter op1) = payloadCapacity (op_fragmenter op)"
    "\<And>ys s. fold (inbound_frame lib sink) (fst (decode_stream (concat w1 @ ys))) (MessageReassembler limit, s) =
       fold (inbound_frame lib sink) (fst (decode_stream ys)) (MessageReassembler limit, sink (received_payload p) s)"
    "\<And>ys. snd (decode_stream (concat w1 @ ys)) = snd (decode_stream ys)"
    using sendMessage_received [OF Cons.prems(2) p(2), of lib sink] Cons.prems(1)
    by (auto simp: PayloadDecoder_onMessage_def decodeMessage_received [OF p(1)])
  obtain op' w where rest: "\<And>out. sendPayloads lib op1 ps out = Some (op', out @ w)"
    "\<And>s. fold (inbound_frame lib sink) (fst (decode_stream (concat w))) (MessageReassembler limit, s) =
       (MessageReassembler limit, fold sink (map received_payload ps) s)" "snd (decode_stream (concat w)) = []"
    using Cons.IH [of op1] Cons.prems first(2,3) by auto
  have "sendPayloads lib op (p # ps) out = Some (op', out @ w1 @ w)" for out
    by (simp add: sendPayload_binary [OF Cons.prems(1) p(1)] first(1) rest(1))
  then show ?case
    by (intro exI [of _ op'] exI [of _ "w1 @ w"]) (simp add: first(4,5) rest(2,3))
qed

section \<open>The receiver fed by the transport\<close>

definition InboundProcessor_feed ::
    "json_lib \<Rightarrow> (payload \<Rightarrow> 's \<Rightarrow> 's) \<Rightarrow> inbound_processor \<times> 's \<Rightarrow> bytes list \<Rightarrow> inbound_processor \<times> 's" where
  "InboundProcessor_feed lib sink = foldl (\<lambda>(ip, s) data. InboundProcessor_onBytes lib sink ip data s)"

lemma onBytes_framed:
  "ip_wireMode ip = FramedBinary \<Longrightarrow>
   InboundProcessor_onBytes lib sink ip data s =
     (let (fs, rest) = decode_stream (bb_bytes (ip_frameDecoder ip) @ data);
          (r, s) = fold (inbound_frame lib sink) fs (ip_reassembler ip, s)
      in (ip\<lparr>ip_frameDecoder := \<lparr>bb_bytes = rest\<rparr>, ip_reassembler := r\<rparr>, s))"
  by (simp add: InboundProcessor_onBytes_def FrameDecoder_onBytes_eq split_beta)

lemma feed_framed:
  assumes "ip_wireMode ip = FramedBinary" and "ip_frameDecoder ip = ByteBuffer_empty"
  shows "InboundProcessor_feed lib sink (ip, s) chunks =
     (let (fs, rest) = decode_stream (concat chunks);
          (r, s) = fold (inbound_frame lib sink) fs (ip_reassembler ip, s)
      in (ip\<lparr>ip_frameDecoder := \<lparr>bb_bytes = rest\<rparr>, ip_reassembler := r\<rparr>, s))"
proof -
  let ?put = "\<lambda>(b, r, s). (ip\<lparr>ip_frameDecoder := \<lparr>bb_bytes = b\<rparr>, ip_reassembler := r\<rparr>, s)"
  have "foldl (\<lambda>(ip, s) data. InboundProcessor_onBytes lib sink ip data s) (?put (b, p)) chunks =
      ?put (foldl (\<lambda>(buf, p) c. (snd (decode_stream (buf @ c)), fold (inbound_frame lib sink) (fst (decode_stream (buf @ c))) p))
             (b, p) chunks)" for b p
    by (induction chunks arbitrary: b p) (simp_all add: onBytes_framed assms(1) split_beta)
  from this [of "[]" "(ip_reassembler ip, s)"] frame_stream.run_chunks [of "inbound_frame lib sink" "[]" "(ip_reassembler ip, s)" chunks]
  moreover have "?put ([], ip_reassembler ip, s) = (ip, s)"
    using assms(2) by (cases ip) (simp add: ByteBuffer_empty_def)
  ultimately show ?thesis unfolding InboundProcessor_feed_def by (simp add: split_beta)
qed

text \<open>A change of the sink's state that the sink respects passes through the processor.\<close>

lemma onFrame_commutes:
  assumes "\<And>m s. onMessage m (f s) = f (onMessage m s)"
  shows "MessageReassembler_onFrame onMessage r frame (f s) =
     map_prod id f (MessageReassembler_onFrame onMessage r frame s)"
  by (simp add: onFrame_refines_step Let_def split_beta assms split: option.split)

lemma onBytes_commutes:
  assumes "\<And>p s. sink p (f s) = f (sink p s)"
  shows "InboundProcessor_onBytes lib sink ip data (f s) =
     map_prod id f (InboundProcessor_onBytes lib sink ip data s)"
proof -
  have "PayloadDecoder_onMessage lib sink m (f s) = f (PayloadDecoder_onMessage lib sink m s)" for m s
    by (simp add: PayloadDecoder_onMessage_def assms split: option.split)
  note frame = onFrame_commutes [where f = f and onMessage = "PayloadDecoder_onMessage lib sink", OF this]
  have "fold (inbound_frame lib sink) fs (r, f s) = map_prod id f (fold (inbound_frame lib sink) fs (r, s))" for fs r s
  proof (induction fs arbitrary: r s)
    case (Cons a fs)
    obtain r' s' where "MessageReassembler_onFrame (PayloadDecoder_onMessage lib sink) r a s = (r', s')" by fastforce
    with Cons.IH [of r' s'] show ?case by (simp add: frame)
  qed simp
  then show ?thesis
    by (simp add: InboundProcessor_onBytes_def JsonRpcDecoder_onBytes_def FrameDecoder_onBytes_eq split_beta assms
        split: option.split)
qed

definition collect_payload :: "payload \<Rightarrow> payload list \<Rightarrow> payload list" where
  "collect_payload p out = out @ [p]"

lemma fold_collect_payload: "fold collect_payload ps out = out @ ps"
  by (induction ps arbitrary: out) (simp_all add: collect_payload_def)

definition idle :: "inbound_processor \<Rightarrow> bool" where
  "idle ip \<longleftrightarrow> ip_wireMode ip = FramedBinary \<and> ip_frameDecoder ip = ByteBuffer_empty \<and>
     ip_reassembler ip = MessageReassembler (1024 * 1024)"

lemma idle_initial: "idle InboundProcessor"
  by (simp add: idle_def InboundProcessor_def)

lemma feed_idle:
  assumes "idle ip" and "snd (decode_stream (concat chunks)) = []"
    and "fold (inbound_frame lib sink) (fst (decode_stream (concat chunks))) (MessageReassembler (1024 * 1024), s) =
       (MessageReassembler (1024 * 1024), s')"
  shows "InboundProcessor_feed lib sink (ip, s) chunks = (ip, s')"
  using assms by (cases ip) (simp add: feed_framed idle_def split_beta ByteBuffer_empty_def)

lemma payloads_reach_sink:
  assumes "op_wireMode op = FramedBinary" and "0 < payloadCapacity (op_fragmenter op)"
    and "\<forall>p\<in>set ps. binary_payload p \<and>
           carries (payloadCapacity (op_fragmenter op)) (1024 * 1024) (payload_message p)"
  shows "\<exists>op' w. sendPayloads lib op ps [] = Some (op', w) \<and>
     (\<forall>sink ip s chunks. idle ip \<longrightarrow> concat chunks = concat w \<longrightarrow>
        InboundProcessor_feed lib (sink :: payload \<Rightarrow> 's \<Rightarrow> 's) (ip, s) chunks = (ip, fold sink (map received_payload ps) s))"
proof -
  obtain op' w where sent: "sendPayloads lib op ps [] = Some (op', w)"
    using sendPayloads_received [OF assms, of lib collect_payload] by auto
  have "InboundProcessor_feed lib sink (ip, s) chunks = (ip, fold sink (map received_payload ps) s)"
    if "idle ip" "concat chunks = concat w" for sink :: "payload \<Rightarrow> 's \<Rightarrow> 's" and ip s chunks
    using sendPayloads_received [OF assms, of lib sink] sent that by (intro feed_idle) auto
  with sent show ?thesis by blast
qed

section \<open>Properties\<close>

definition example_payloads :: "payload list" where
  "example_payloads =
     [PControl (ControlPayload_default\<lparr>cp_opcode := ControlOpcode_Ping, cp_controlId := 7\<rparr>),
      PRpc (RpcPayload_default\<lparr>rp_encoding := jsonBinaryRpcEncoding, rp_requestId := 3,
        rp_methodOrEventId := 0x10101, rp_body := [1, 2, 3, 4, 5]\<rparr>),
      PStream (StreamPayload_default\<lparr>sp_streamId := 9, sp_data := [8, 8]\<rparr>)]"

text \<open>
  C5. Whatever sequence of control, binary RPC and stream payloads is sent on a framed connection
  arrives, in order and each exactly once, however the transport cuts the bytes into chunks, and
  the receiver keeps nothing. What arrives is the payload sent, with its local metadata dropped, the
  method id reduced to sixteen bits and the negotiation options read back from the body. The frames
  must have room for a byte, and each message must fit 255 frames and the receiver's size limit.
\<close>

theorem payloads_delivered:
  assumes "op_wireMode op = FramedBinary" and "0 < payloadCapacity (op_fragmenter op)"
    and "\<forall>p\<in>set ps. binary_payload p \<and>
           carries (payloadCapacity (op_fragmenter op)) (1024 * 1024) (payload_message p)"
  shows "\<exists>op' written. sendPayloads lib op ps [] = Some (op', written) \<and>
     (\<forall>chunks. concat chunks = concat written \<longrightarrow>
        InboundProcessor_feed lib collect_payload (InboundProcessor, []) chunks =
          (InboundProcessor, map received_payload ps))"
proof -
  obtain op' w where w: "sendPayloads lib op ps [] = Some (op', w)"
    "\<And>sink ip s chunks. idle ip \<Longrightarrow> concat chunks = concat w \<Longrightarrow>
       InboundProcessor_feed lib (sink :: payload \<Rightarrow> payload list \<Rightarrow> payload list) (ip, s) chunks =
         (ip, fold sink (map received_payload ps) s)"
    using payloads_reach_sink [OF assms, of lib, where 's = "payload list"] by auto
  show ?thesis
    by (intro exI [of _ op'] exI [of _ w]) (simp add: w idle_initial fold_collect_payload)
qed

theorem payloads_delivered_witness:
  "\<exists>op' written. sendPayloads (one_value_lib JNull) (OutboundProcessor 16) example_payloads [] = Some (op', written) \<and>
     (\<forall>chunks. concat chunks = concat written \<longrightarrow>
        InboundProcessor_feed (one_value_lib JNull) collect_payload (InboundProcessor, []) chunks =
          (InboundProcessor, map received_payload example_payloads))"
  by (rule payloads_delivered)
    (auto simp: OutboundProcessor_def payloadCapacity_def MessageFragmenter_def kStandardFrameHeaderSize_def
      kStandardFrameCrcSize_def example_payloads_def binary_rpc_def jsonBinaryRpcEncoding_def carries_def
      kRpcEncodingJsonBinaryValue_def isJsonBinaryRpcEncoding_def RpcPayload_default_def PayloadMeta_default_def
      encodeControl_eq encodeStream_eq control_body_def ControlPayload_default_def StreamPayload_default_def
      isPayloadType_def frames_needed_def rpc_bytes_def)

end
