(* ===== verification/Control_Session.thy ===== *)
theory Control_Session
  imports Control_Tlv
begin

text \<open>
  The control session (\<^verbatim>\<open>session/control_session.hpp\<close>): the OPEN / ACCEPT handshake, heartbeats, pings
  and CLOSE, for the client and the server role. A member function that changes the session returns
  the changed record.

  Shown here: what opens a session and what closes it, over every sequence of received payloads; that
  an ACCEPT opens only the OPEN it answers; and that a negotiated heartbeat interval comes from the
  last ACCEPT and lies in the permitted range.
\<close>

section \<open>ControlSession\<close>

record control_session =
  cs_open :: bool
  cs_pendingOpenId :: "u16 option"
  cs_acceptedOptions :: control_tlv_options
  cs_requestedHeartbeatIntervalMs :: u32
  cs_lastOpcode :: control_opcode

definition ControlSession_default :: control_session where
  "ControlSession_default = \<lparr>cs_open = False, cs_pendingOpenId = None,
     cs_acceptedOptions = ControlTlvOptions_default, cs_requestedHeartbeatIntervalMs = 1000,
     cs_lastOpcode = ControlOpcode_Open\<rparr>"

definition kMinHeartbeatIntervalMs :: u32 where "kMinHeartbeatIntervalMs = 500"
definition kMaxHeartbeatIntervalMs :: u32 where "kMaxHeartbeatIntervalMs = 60000"

definition setRequestedHeartbeatInterval :: "control_session \<Rightarrow> u32 \<Rightarrow> control_session" where
  "setRequestedHeartbeatInterval cs intervalMs =
     cs\<lparr>cs_requestedHeartbeatIntervalMs :=
       (if intervalMs < kMinHeartbeatIntervalMs then kMinHeartbeatIntervalMs
        else if intervalMs > kMaxHeartbeatIntervalMs then kMaxHeartbeatIntervalMs else intervalMs)\<rparr>"

definition makeOpen :: "control_session \<Rightarrow> u16 \<Rightarrow> control_payload \<times> control_session" where
  "makeOpen cs controlId =
     (let cs = cs\<lparr>cs_open := False, cs_pendingOpenId := Some controlId,
                   cs_acceptedOptions := ControlTlvOptions_default\<rparr>;
          payload = ControlPayload_default\<lparr>cp_opcode := ControlOpcode_Open, cp_controlId := controlId,
            cp_statusCode := ErrorCode_Success, cp_tlv := defaultsForOpen\<rparr>;
          payload = payload\<lparr>cp_tlv := (cp_tlv payload)
            \<lparr>tlv_heartbeatIntervalMs := cs_requestedHeartbeatIntervalMs cs\<rparr>\<rparr>;
          payload = payload\<lparr>cp_body := ControlTlv_encode (cp_tlv payload) False\<rparr>
      in (payload, cs))"

definition makeHeartbeat :: "control_session \<Rightarrow> u16 \<Rightarrow> control_payload" where
  "makeHeartbeat cs controlId =
     ControlPayload_default\<lparr>cp_opcode := ControlOpcode_Heartbeat, cp_controlId := controlId,
       cp_statusCode := ErrorCode_Success\<rparr>"

definition makeControlResponse :: "control_opcode \<Rightarrow> control_payload \<Rightarrow> control_payload" where
  "makeControlResponse opcode request =
     ControlPayload_default\<lparr>cp_opcode := opcode, cp_controlId := cp_controlId request,
       cp_statusCode := ErrorCode_Success, cp_meta := cp_meta request\<rparr>"

definition ControlSession_handle ::
    "control_session \<Rightarrow> control_payload \<Rightarrow> control_payload option \<times> control_session" where
  "ControlSession_handle cs payload =
     (let cs = cs\<lparr>cs_lastOpcode := cp_opcode payload\<rparr> in
      if cp_opcode payload = ControlOpcode_Open then
        (let cs = cs\<lparr>cs_acceptedOptions := ControlTlvOptions_default\<rparr>;
             response = makeControlResponse ControlOpcode_Accept payload;
             response = response\<lparr>cp_tlv := defaultsForAccept (cp_tlv payload)\<rparr>;
             (response, cs) =
               (if \<not> tlv_valid (cp_tlv payload) \<or> \<not> tlv_valid (cp_tlv response)
                then (response\<lparr>cp_statusCode := (if tlv_valid (cp_tlv payload)
                        then ErrorCode_ControlNegotiationFailed else ErrorCode_ControlPayloadInvalid)\<rparr>,
                      cs\<lparr>cs_open := False\<rparr>)
                else (response, cs\<lparr>cs_open := True\<rparr>));
             response = response\<lparr>cp_body := ControlTlv_encode (cp_tlv response) True\<rparr>
         in (Some response, cs))
      else if cp_opcode payload = ControlOpcode_Accept then
        (if cs_pendingOpenId cs = Some (cp_controlId payload) \<and> cp_statusCode payload = ErrorCode_Success \<and>
            tlv_valid (cp_tlv payload)
         then (None, cs\<lparr>cs_open := True, cs_acceptedOptions := cp_tlv payload, cs_pendingOpenId := None\<rparr>)
         else (None, cs))
      else if cp_opcode payload = ControlOpcode_Ping then
        (Some (makeControlResponse ControlOpcode_Pong payload), cs)
      else if cp_opcode payload = ControlOpcode_Heartbeat then
        (Some (makeControlResponse ControlOpcode_HeartbeatAck payload), cs)
      else if cp_opcode payload = ControlOpcode_Close then
        (Some (makeControlResponse ControlOpcode_CloseAck payload),
         cs\<lparr>cs_open := False, cs_pendingOpenId := None, cs_acceptedOptions := ControlTlvOptions_default\<rparr>)
      else (None, cs))"

definition negotiatedHeartbeatIntervalMs :: "control_session \<Rightarrow> u32 option" where
  "negotiatedHeartbeatIntervalMs cs =
     (let a = cs_acceptedOptions cs in
      if \<not> tlv_hasHeartbeatIntervalMs a \<or> tlv_heartbeatIntervalMs a < kMinHeartbeatIntervalMs \<or>
         tlv_heartbeatIntervalMs a > kMaxHeartbeatIntervalMs
      then None else Some (tlv_heartbeatIntervalMs a))"

section \<open>What each payload does\<close>

definition opens_as_server :: "control_payload \<Rightarrow> bool" where
  "opens_as_server p \<longleftrightarrow> cp_opcode p = ControlOpcode_Open \<and> tlv_valid (cp_tlv p) \<and>
     (tlv_hasSupportedRpcEncodings (cp_tlv p) \<longrightarrow> tlv_supportedRpcEncodings (cp_tlv p) AND 0x01 \<noteq> 0)"

definition accepts :: "u16 option \<Rightarrow> control_payload \<Rightarrow> bool" where
  "accepts pending p \<longleftrightarrow> cp_opcode p = ControlOpcode_Accept \<and> pending = Some (cp_controlId p) \<and>
     cp_statusCode p = ErrorCode_Success \<and> tlv_valid (cp_tlv p)"

lemma tlv_valid_defaultsForAccept:
  "tlv_valid (defaultsForAccept t) \<longleftrightarrow>
     (tlv_hasSupportedRpcEncodings t \<longrightarrow> tlv_supportedRpcEncodings t AND 0x01 \<noteq> 0)"
  by (simp add: defaultsForAccept_def ControlTlvOptions_default_def Let_def)

lemma handle_open:
  "cs_open (snd (ControlSession_handle cs p)) =
     (if cp_opcode p = ControlOpcode_Open then opens_as_server p
      else if cp_opcode p = ControlOpcode_Close then False
      else accepts (cs_pendingOpenId cs) p \<or> cs_open cs)"
  by (auto simp: ControlSession_handle_def makeControlResponse_def ControlPayload_default_def Let_def
      opens_as_server_def accepts_def tlv_valid_defaultsForAccept)

lemma handle_pending:
  "cs_pendingOpenId (snd (ControlSession_handle cs p)) =
     (if cp_opcode p = ControlOpcode_Close \<or> accepts (cs_pendingOpenId cs) p then None
      else cs_pendingOpenId cs)"
  by (simp add: ControlSession_handle_def Let_def accepts_def split_beta)

lemma handle_accepted:
  "cs_acceptedOptions (snd (ControlSession_handle cs p)) =
     (if cp_opcode p = ControlOpcode_Open \<or> cp_opcode p = ControlOpcode_Close then ControlTlvOptions_default
      else if accepts (cs_pendingOpenId cs) p then cp_tlv p else cs_acceptedOptions cs)"
  by (simp add: ControlSession_handle_def Let_def accepts_def split_beta)

text \<open>The payloads that are answered, and with what.\<close>

definition answer_opcode :: "control_opcode \<Rightarrow> control_opcode option" where
  "answer_opcode c =
     (if c = ControlOpcode_Open then Some ControlOpcode_Accept
      else if c = ControlOpcode_Ping then Some ControlOpcode_Pong
      else if c = ControlOpcode_Heartbeat then Some ControlOpcode_HeartbeatAck
      else if c = ControlOpcode_Close then Some ControlOpcode_CloseAck else None)"

lemma handle_response:
  "map_option (\<lambda>r. (cp_opcode r, cp_controlId r, cp_meta r)) (fst (ControlSession_handle cs p)) =
     map_option (\<lambda>c. (c, cp_controlId p, cp_meta p)) (answer_opcode (cp_opcode p))"
  by (simp add: ControlSession_handle_def Let_def makeControlResponse_def split_beta answer_opcode_def)

definition ControlSession_receive :: "control_session \<Rightarrow> control_payload list \<Rightarrow> control_session" where
  "ControlSession_receive = foldl (\<lambda>cs p. snd (ControlSession_handle cs p))"

lemma receive_Nil [simp]: "ControlSession_receive cs [] = cs"
  by (simp add: ControlSession_receive_def)

lemma receive_Cons [simp]:
  "ControlSession_receive cs (p # ps) = ControlSession_receive (snd (ControlSession_handle cs p)) ps"
  by (simp add: ControlSession_receive_def)

lemma receive_snoc [simp]:
  "ControlSession_receive cs (ps @ [p]) = snd (ControlSession_handle (ControlSession_receive cs ps) p)"
  by (simp add: ControlSession_receive_def)

lemma makeOpen_session:
  "snd (makeOpen cs i) = cs\<lparr>cs_open := False, cs_pendingOpenId := Some i, cs_acceptedOptions := ControlTlvOptions_default\<rparr>"
  by (simp add: makeOpen_def Let_def)

text \<open>The pending id of an OPEN lives until the first CLOSE or the first ACCEPT that answers it.\<close>

lemma pending_after:
  "cs_pendingOpenId (ControlSession_receive (snd (makeOpen cs i)) ps) =
     (if \<exists>q\<in>set ps. cp_opcode q = ControlOpcode_Close \<or> accepts (Some i) q then None else Some i)"
proof (induction ps rule: rev_induct)
  case Nil
  show ?case by (simp add: makeOpen_session)
next
  case (snoc p ps)
  have "\<not> accepts None p" by (simp add: accepts_def)
  with snoc show ?case by (auto simp: handle_pending split: if_splits)
qed

section \<open>Properties\<close>

text \<open>
  C17. Once it has sent an OPEN, a session is open only because of a payload it received: a valid OPEN
  of the peer, or a successful ACCEPT that carries the control id of its own OPEN and is the first to
  do so, not preceded by a CLOSE; and nothing received since closes or renegotiates it.
\<close>

theorem control_open_cause:
  assumes "cs_open (ControlSession_receive (snd (makeOpen cs i)) ps)"
  shows "\<exists>before p after. ps = before @ p # after \<and>
     (opens_as_server p \<or> accepts (Some i) p \<and>
        list_all (\<lambda>q. cp_opcode q \<noteq> ControlOpcode_Close \<and> \<not> accepts (Some i) q) before) \<and>
     list_all (\<lambda>q. cp_opcode q \<noteq> ControlOpcode_Close \<and> (cp_opcode q = ControlOpcode_Open \<longrightarrow> opens_as_server q)) after"
  using assms
proof (induction ps rule: rev_induct)
  case Nil
  then show ?case by (simp add: makeOpen_session)
next
  case (snoc p ps)
  let ?cs = "ControlSession_receive (snd (makeOpen cs i)) ps"
  have open': "cs_open (snd (ControlSession_handle ?cs p))" using snoc.prems by simp
  show ?case
  proof (cases "opens_as_server p \<or> accepts (cs_pendingOpenId ?cs) p")
    case True
    have "list_all (\<lambda>q. cp_opcode q \<noteq> ControlOpcode_Close \<and> \<not> accepts (Some i) q) ps" "accepts (Some i) p"
      if "accepts (cs_pendingOpenId ?cs) p"
      using that pending_after [of cs i ps] by (auto simp: list_all_iff accepts_def split: if_splits)
    with True show ?thesis by (intro exI [of _ ps] exI [of _ p] exI [of _ "[]"]) auto
  next
    case False
    with open' have still: "cs_open ?cs" "cp_opcode p \<noteq> ControlOpcode_Close" "cp_opcode p \<noteq> ControlOpcode_Open"
      by (auto simp: handle_open split: if_splits)
    from snoc.IH [OF still(1)] obtain before q after where "ps = before @ q # after"
      "opens_as_server q \<or> accepts (Some i) q \<and>
        list_all (\<lambda>q. cp_opcode q \<noteq> ControlOpcode_Close \<and> \<not> accepts (Some i) q) before"
      "list_all (\<lambda>q. cp_opcode q \<noteq> ControlOpcode_Close \<and> (cp_opcode q = ControlOpcode_Open \<longrightarrow> opens_as_server q)) after"
      by blast
    with still show ?thesis
      by (intro exI [of _ before] exI [of _ q] exI [of _ "after @ [p]"]) simp
  qed
qed

text \<open>An ACCEPT for control id 7, as example input.\<close>

definition example_accept :: control_payload where
  "example_accept = ControlPayload_default\<lparr>cp_opcode := ControlOpcode_Accept, cp_controlId := 7,
     cp_tlv := ControlTlvOptions_default\<lparr>tlv_hasHeartbeatIntervalMs := True, tlv_heartbeatIntervalMs := 2000\<rparr>\<rparr>"

lemma example_accept_accepts: "accepts (Some 7) example_accept" "cp_opcode example_accept = ControlOpcode_Accept"
  by (simp_all add: accepts_def example_accept_def ControlPayload_default_def ControlTlvOptions_default_def)

theorem control_open_cause_witness:
  "\<exists>before p after. [example_accept] = before @ p # after \<and>
     (opens_as_server p \<or> accepts (Some 7) p \<and>
        list_all (\<lambda>q. cp_opcode q \<noteq> ControlOpcode_Close \<and> \<not> accepts (Some 7) q) before) \<and>
     list_all (\<lambda>q. cp_opcode q \<noteq> ControlOpcode_Close \<and> (cp_opcode q = ControlOpcode_Open \<longrightarrow> opens_as_server q)) after"
  by (rule control_open_cause [of ControlSession_default])
    (simp add: handle_open makeOpen_session example_accept_accepts)

text \<open>
  The heartbeat interval a session reports lies between 500 and 60000 milliseconds and is the one
  in the ACCEPT that answered its last OPEN; an OPEN or CLOSE received since would have removed it.
\<close>

theorem heartbeat_from_accept:
  assumes "negotiatedHeartbeatIntervalMs (ControlSession_receive (snd (makeOpen cs i)) ps) = Some h"
  shows "500 \<le> h \<and> h \<le> 60000 \<and>
     (\<exists>before p after. ps = before @ p # after \<and> accepts (Some i) p \<and>
        tlv_hasHeartbeatIntervalMs (cp_tlv p) \<and> h = tlv_heartbeatIntervalMs (cp_tlv p) \<and>
        list_all (\<lambda>q. cp_opcode q \<noteq> ControlOpcode_Close \<and> cp_opcode q \<noteq> ControlOpcode_Open) after)"
proof -
  have range: "500 \<le> h \<and> h \<le> 60000"
    and acc: "tlv_hasHeartbeatIntervalMs (cs_acceptedOptions (ControlSession_receive (snd (makeOpen cs i)) ps))"
      "h = tlv_heartbeatIntervalMs (cs_acceptedOptions (ControlSession_receive (snd (makeOpen cs i)) ps))"
    using assms by (auto simp: negotiatedHeartbeatIntervalMs_def kMinHeartbeatIntervalMs_def
        kMaxHeartbeatIntervalMs_def Let_def not_less split: if_splits)
  have "\<exists>before p after. ps = before @ p # after \<and> accepts (Some i) p \<and>
      cs_acceptedOptions (ControlSession_receive (snd (makeOpen cs i)) ps) = cp_tlv p \<and>
      list_all (\<lambda>q. cp_opcode q \<noteq> ControlOpcode_Close \<and> cp_opcode q \<noteq> ControlOpcode_Open) after"
    using acc(1)
  proof (induction ps rule: rev_induct)
    case Nil
    then show ?case by (simp add: makeOpen_session ControlTlvOptions_default_def)
  next
    case (snoc p ps)
    let ?cs = "ControlSession_receive (snd (makeOpen cs i)) ps"
    have no: "cp_opcode p \<noteq> ControlOpcode_Open" "cp_opcode p \<noteq> ControlOpcode_Close"
      using snoc.prems by (auto simp: handle_accepted ControlTlvOptions_default_def)
    show ?case
    proof (cases "accepts (cs_pendingOpenId ?cs) p")
      case True
      then have "accepts (Some i) p" using pending_after [of cs i ps] by (auto simp: accepts_def split: if_splits)
      with True no show ?thesis
        by (intro exI [of _ ps] exI [of _ p] exI [of _ "[]"]) (simp add: handle_accepted)
    next
      case False
      then have same: "cs_acceptedOptions (ControlSession_receive (snd (makeOpen cs i)) (ps @ [p])) = cs_acceptedOptions ?cs"
        using no by (simp add: handle_accepted)
      with snoc.prems snoc.IH obtain before q after where "ps = before @ q # after" "accepts (Some i) q"
        "cs_acceptedOptions ?cs = cp_tlv q"
        "list_all (\<lambda>q. cp_opcode q \<noteq> ControlOpcode_Close \<and> cp_opcode q \<noteq> ControlOpcode_Open) after"
        by auto
      with no same show ?thesis
        by (intro exI [of _ before] exI [of _ q] exI [of _ "after @ [p]"]) simp
    qed
  qed
  then obtain before p after where "ps = before @ p # after" "accepts (Some i) p"
      "cs_acceptedOptions (ControlSession_receive (snd (makeOpen cs i)) ps) = cp_tlv p"
      "list_all (\<lambda>q. cp_opcode q \<noteq> ControlOpcode_Close \<and> cp_opcode q \<noteq> ControlOpcode_Open) after"
    by blast
  with acc range show ?thesis by (intro conjI exI [of _ before] exI [of _ p] exI [of _ after]) simp_all
qed

theorem heartbeat_from_accept_witness:
  "500 \<le> (2000 :: u32) \<and> 2000 \<le> (60000 :: u32) \<and>
     (\<exists>before p after. [example_accept] = before @ p # after \<and> accepts (Some 7) p \<and>
        tlv_hasHeartbeatIntervalMs (cp_tlv p) \<and> 2000 = tlv_heartbeatIntervalMs (cp_tlv p) \<and>
        list_all (\<lambda>q. cp_opcode q \<noteq> ControlOpcode_Close \<and> cp_opcode q \<noteq> ControlOpcode_Open) after)"
proof (rule heartbeat_from_accept [of ControlSession_default])
  have "cs_acceptedOptions (ControlSession_receive (snd (makeOpen ControlSession_default 7)) [example_accept]) =
      cp_tlv example_accept"
    by (simp add: handle_accepted makeOpen_session example_accept_accepts)
  then show "negotiatedHeartbeatIntervalMs
      (ControlSession_receive (snd (makeOpen ControlSession_default 7)) [example_accept]) = Some 2000"
    unfolding negotiatedHeartbeatIntervalMs_def Let_def
    by (simp only:) (simp add: example_accept_def kMinHeartbeatIntervalMs_def kMaxHeartbeatIntervalMs_def)
qed

end
