(* ===== verification/Pending_Calls.thy ===== *)
theory Pending_Calls
  imports Axtp_Model
begin

text \<open>
  The table of calls in flight (\<^verbatim>\<open>session/pending_call_table.hpp\<close>) and the stream session
  (\<^verbatim>\<open>session/stream_session.hpp\<close>). The two \<^verbatim>\<open>std::map\<close>s are maps, the \<^verbatim>\<open>std::set\<close> is a set; the
  payloads stored in \<^verbatim>\<open>_pending\<close> are default-constructed and never read.

  Shown here: the table implements, for every non-zero request id on its own, a life cycle of four
  states in which no state is entered twice between two resets; so no call of a session is answered twice,
  no late response reaches a later call, and what a caller takes is the first response that arrived while the call was waiting.
\<close>

section \<open>PendingCallTable\<close>

record pending_call_table =
  pc_pending :: "u32 \<rightharpoonup> rpc_payload"
  pc_resolved :: "u32 \<rightharpoonup> rpc_payload"
  pc_retired :: "u32 set"

definition PendingCallTable_empty :: pending_call_table where
  "PendingCallTable_empty = \<lparr>pc_pending = Map.empty, pc_resolved = Map.empty, pc_retired = {}\<rparr>"

definition isPending :: "pending_call_table \<Rightarrow> u32 \<Rightarrow> bool" where
  "isPending t requestId \<longleftrightarrow> pc_pending t requestId \<noteq> None"

definition isRetired :: "pending_call_table \<Rightarrow> u32 \<Rightarrow> bool" where
  "isRetired t requestId \<longleftrightarrow> requestId \<noteq> 0 \<and> requestId \<in> pc_retired t"

definition expect_call :: "pending_call_table \<Rightarrow> u32 \<Rightarrow> bool \<times> pending_call_table" where
  "expect_call t requestId =
     (if requestId \<noteq> 0 \<and> requestId \<in> pc_retired t then (False, t)
      else if requestId \<noteq> 0 \<and> pc_pending t requestId \<noteq> None then (False, t)
      else (True, t\<lparr>pc_resolved := (pc_resolved t)(requestId := None),
                    pc_pending := (pc_pending t)(requestId \<mapsto> RpcPayload_default)\<rparr>))"

definition resolve_call :: "pending_call_table \<Rightarrow> u32 \<Rightarrow> rpc_payload \<Rightarrow> pending_call_table" where
  "resolve_call t requestId payload =
     (if requestId \<noteq> 0 \<and> requestId \<in> pc_retired t then t
      else if requestId \<noteq> 0 \<and> \<not> isPending t requestId then t
      else (let t = t\<lparr>pc_resolved := (pc_resolved t)(requestId \<mapsto> payload)\<rparr>;
                t = t\<lparr>pc_pending := (pc_pending t)(requestId := None)\<rparr>
            in if requestId \<noteq> 0 then t\<lparr>pc_retired := insert requestId (pc_retired t)\<rparr> else t))"

definition abandon_call :: "pending_call_table \<Rightarrow> u32 \<Rightarrow> pending_call_table" where
  "abandon_call t requestId =
     (let t = t\<lparr>pc_pending := (pc_pending t)(requestId := None)\<rparr>;
          t = t\<lparr>pc_resolved := (pc_resolved t)(requestId := None)\<rparr>
      in if requestId \<noteq> 0 then t\<lparr>pc_retired := insert requestId (pc_retired t)\<rparr> else t)"

definition tryTakeResolved :: "pending_call_table \<Rightarrow> u32 \<Rightarrow> rpc_payload option \<times> pending_call_table" where
  "tryTakeResolved t requestId =
     (case pc_resolved t requestId of
        None \<Rightarrow> (None, t)
      | Some payload \<Rightarrow> (Some payload, t\<lparr>pc_resolved := (pc_resolved t)(requestId := None)\<rparr>))"

definition tryTakeAnyResolved :: "pending_call_table \<Rightarrow> rpc_payload option \<times> pending_call_table" where
  "tryTakeAnyResolved t =
     (case pc_resolved t 0 of
        None \<Rightarrow> (None, t)
      | Some payload \<Rightarrow> (Some payload, t\<lparr>pc_resolved := (pc_resolved t)(0 := None)\<rparr>))"

definition reset_calls :: "pending_call_table \<Rightarrow> pending_call_table" where
  "reset_calls t = t\<lparr>pc_pending := Map.empty, pc_resolved := Map.empty, pc_retired := {}\<rparr>"

section \<open>StreamSession\<close>

record stream_session =
  ss_lastStream :: "stream_payload option"

definition StreamSession_default :: stream_session where
  "StreamSession_default = \<lparr>ss_lastStream = None\<rparr>"

definition StreamSession_handle :: "stream_session \<Rightarrow> stream_payload \<Rightarrow> stream_session" where
  "StreamSession_handle s payload = s\<lparr>ss_lastStream := Some payload\<rparr>"

section \<open>Operations as data\<close>

datatype call_op =
    Expect u32
  | Resolve u32 rpc_payload
  | Abandon u32
  | Take u32
  | TakeAny
  | Reset

datatype call_result =
    Accepted u32
  | Refused u32
  | Taken u32 rpc_payload
  | Nothing

fun call_step :: "pending_call_table \<Rightarrow> call_op \<Rightarrow> call_result \<times> pending_call_table" where
  "call_step t (Expect i) = (let (ok, t) = expect_call t i in (if ok then Accepted i else Refused i, t))"
| "call_step t (Resolve i p) = (Nothing, resolve_call t i p)"
| "call_step t (Abandon i) = (Nothing, abandon_call t i)"
| "call_step t (Take i) =
     (let (r, t) = tryTakeResolved t i in (case r of None \<Rightarrow> Nothing | Some p \<Rightarrow> Taken i p, t))"
| "call_step t TakeAny =
     (let (r, t) = tryTakeAnyResolved t in (case r of None \<Rightarrow> Nothing | Some p \<Rightarrow> Taken 0 p, t))"
| "call_step t Reset = (Nothing, reset_calls t)"

fun call_run :: "pending_call_table \<Rightarrow> call_op list \<Rightarrow> call_result list \<times> pending_call_table" where
  "call_run t [] = ([], t)"
| "call_run t (x # xs) =
     (let (r, t) = call_step t x; (rs, t) = call_run t xs in (r # rs, t))"

section \<open>The life of a request id\<close>

text \<open>The specification: each request id on its own, from its first use to the end of the session, which a reset is.\<close>

datatype call_life = Unused | Waiting | Answered rpc_payload | Finished

fun life_step :: "u32 \<Rightarrow> call_life \<Rightarrow> call_op \<Rightarrow> call_result option \<times> call_life" where
  "life_step i s (Expect j) =
     (if i \<noteq> j then (None, s) else if s = Unused then (Some (Accepted i), Waiting) else (Some (Refused i), s))"
| "life_step i s (Resolve j p) =
     (if i \<noteq> j then (None, s) else if s = Waiting then (Some Nothing, Answered p) else (Some Nothing, s))"
| "life_step i s (Abandon j) = (if i \<noteq> j then (None, s) else (Some Nothing, Finished))"
| "life_step i s (Take j) =
     (if i \<noteq> j then (None, s)
      else case s of Answered p \<Rightarrow> (Some (Taken i p), Finished) | _ \<Rightarrow> (Some Nothing, s))"
| "life_step i s TakeAny = (None, s)"
| "life_step i s Reset = (Some Nothing, Unused)"

definition life_of :: "pending_call_table \<Rightarrow> u32 \<Rightarrow> call_life" where
  "life_of t i =
     (case pc_resolved t i of
        Some p \<Rightarrow> Answered p
      | None \<Rightarrow> if i \<in> pc_retired t then Finished else if pc_pending t i \<noteq> None then Waiting else Unused)"

text \<open>The representation invariant, for the ids other than zero.\<close>

definition table_inv :: "pending_call_table \<Rightarrow> bool" where
  "table_inv t \<longleftrightarrow>
     (\<forall>i. i \<noteq> 0 \<longrightarrow> (pc_resolved t i \<noteq> None \<longrightarrow> i \<in> pc_retired t) \<and>
                     (i \<in> pc_retired t \<longrightarrow> pc_pending t i = None)) \<and> 0 \<notin> pc_retired t"

lemma table_inv_empty [invar_intros]: "table_inv PendingCallTable_empty"
  by (simp add: table_inv_def PendingCallTable_empty_def)

lemma table_inv_step [invar_intros]: "table_inv t \<Longrightarrow> table_inv (snd (call_step t x))"
  by (cases x)
    (auto simp: table_inv_def expect_call_def resolve_call_def abandon_call_def tryTakeResolved_def
      tryTakeAnyResolved_def reset_calls_def isPending_def Let_def split: option.splits if_splits)

lemma life_of_empty [simp]: "life_of PendingCallTable_empty i = Unused"
  by (simp add: life_of_def PendingCallTable_empty_def)

text \<open>One operation of the table is one step of each id's life.\<close>

lemma life_refinement:
  assumes "table_inv t" and "i \<noteq> 0"
  shows "life_of (snd (call_step t x)) i = snd (life_step i (life_of t i) x)"
  using assms
  by (cases x)
    (auto simp: table_inv_def life_of_def expect_call_def resolve_call_def abandon_call_def tryTakeResolved_def
      tryTakeAnyResolved_def reset_calls_def isPending_def Let_def split: option.splits if_splits)

definition result_id :: "call_result \<Rightarrow> u32 option" where
  "result_id r = (case r of Accepted i \<Rightarrow> Some i | Refused i \<Rightarrow> Some i | Taken i p \<Rightarrow> Some i | Nothing \<Rightarrow> None)"

lemma result_refinement:
  assumes "table_inv t" and "i \<noteq> 0" and "result_id (fst (call_step t x)) = Some i"
  shows "fst (life_step i (life_of t i) x) = Some (fst (call_step t x))"
  using assms
  by (cases x)
    (auto simp: table_inv_def life_of_def expect_call_def resolve_call_def abandon_call_def tryTakeResolved_def
      tryTakeAnyResolved_def reset_calls_def isPending_def Let_def result_id_def split: option.splits if_splits)

section \<open>Runs\<close>

lemma call_run_append:
  "call_run t (xs @ ys) =
     (let (rs, t') = call_run t xs; (rs', t'') = call_run t' ys in (rs @ rs', t''))"
  by (induction xs arbitrary: t) (simp_all add: split_beta Let_def)

lemma call_run_snoc: "snd (call_run t (xs @ [x])) = snd (call_step (snd (call_run t xs)) x)"
  by (simp add: call_run_append split_beta Let_def)

lemma table_inv_run [invar_intros]: "table_inv t \<Longrightarrow> table_inv (snd (call_run t xs))"
  by (induction xs arbitrary: t) (simp_all add: split_beta Let_def table_inv_step)

lemma life_run:
  "table_inv t \<Longrightarrow> i \<noteq> 0 \<Longrightarrow>
     life_of (snd (call_run t xs)) i = foldl (\<lambda>s x. snd (life_step i s x)) (life_of t i) xs"
  by (induction xs arbitrary: t) (simp_all add: split_beta Let_def table_inv_step life_refinement)

definition is_taken :: "u32 \<Rightarrow> call_result \<Rightarrow> bool" where
  "is_taken i r \<longleftrightarrow> (case r of Taken j p \<Rightarrow> j = i | _ \<Rightarrow> False)"

lemma taken_result: "is_taken i r \<Longrightarrow> result_id r = Some i \<and> r \<noteq> Accepted j"
  by (auto simp: is_taken_def result_id_def split: call_result.splits)

lemma life_step_taken:
  "fst (life_step i s x) = Some r \<Longrightarrow> is_taken i r \<Longrightarrow> s \<noteq> Finished \<and> snd (life_step i s x) = Finished"
  by (cases x; cases s) (auto simp: is_taken_def split: if_splits)

lemma life_step_accepted:
  "fst (life_step i s x) = Some (Accepted i) \<Longrightarrow> s = Unused \<and> snd (life_step i s x) \<noteq> Unused"
  by (cases x; cases s) (auto split: if_splits)

lemma life_step_stays:
  "s = Finished \<Longrightarrow> x \<noteq> Reset \<Longrightarrow> snd (life_step i s x) = Finished"
  "s \<noteq> Unused \<Longrightarrow> x \<noteq> Reset \<Longrightarrow> snd (life_step i s x) \<noteq> Unused"
  by (cases x; cases s; simp)+

lemma taken_count:
  assumes "i \<noteq> 0" and "table_inv t" and "Reset \<notin> set xs"
  shows "length (filter (is_taken i) (fst (call_run t xs))) \<le> (if life_of t i = Finished then 0 else 1)"
  using assms(2,3)
proof (induction xs arbitrary: t)
  case (Cons x xs)
  let ?t = "snd (call_step t x)" and ?r = "fst (call_step t x)"
  have IH: "length (filter (is_taken i) (fst (call_run ?t xs))) \<le> (if life_of ?t i = Finished then 0 else 1)"
    using Cons.prems by (intro Cons.IH) (simp_all add: table_inv_step)
  note life = life_refinement [OF Cons.prems(1) assms(1), of x]
  show ?case
  proof (cases "is_taken i ?r")
    case True
    have "fst (life_step i (life_of t i) x) = Some ?r"
      using result_refinement [OF Cons.prems(1) assms(1)] taken_result [OF True] by blast
    with life_step_taken [OF this True] life IH True show ?thesis by (simp add: split_beta Let_def)
  next
    case False
    with IH life life_step_stays(1) [of "life_of t i" x i] Cons.prems(2) show ?thesis
      by (auto simp: split_beta Let_def split: if_splits)
  qed
qed simp

lemma accepted_count:
  assumes "i \<noteq> 0" and "table_inv t" and "Reset \<notin> set xs"
  shows "length (filter (\<lambda>r. r = Accepted i) (fst (call_run t xs))) \<le> (if life_of t i = Unused then 1 else 0)"
  using assms(2,3)
proof (induction xs arbitrary: t)
  case (Cons x xs)
  let ?t = "snd (call_step t x)" and ?r = "fst (call_step t x)"
  have IH: "length (filter (\<lambda>r. r = Accepted i) (fst (call_run ?t xs))) \<le> (if life_of ?t i = Unused then 1 else 0)"
    using Cons.prems by (intro Cons.IH) (simp_all add: table_inv_step)
  note life = life_refinement [OF Cons.prems(1) assms(1), of x]
  show ?case
  proof (cases "?r = Accepted i")
    case True
    have "fst (life_step i (life_of t i) x) = Some (Accepted i)"
      using result_refinement [OF Cons.prems(1) assms(1), of x] True by (simp add: result_id_def)
    from life_step_accepted [OF this] have "life_of t i = Unused" "life_of ?t i \<noteq> Unused"
      unfolding life by blast+
    with IH True show ?thesis by (simp add: split_beta Let_def)
  next
    case False
    with IH life life_step_stays(2) [of "life_of t i" x i] Cons.prems(2) show ?thesis
      by (auto simp: split_beta Let_def split: if_splits)
  qed
qed simp

text \<open>What a run must contain for an id to be waiting or answered.\<close>

definition answers :: "u32 \<Rightarrow> call_op \<Rightarrow> bool" where
  "answers i x \<longleftrightarrow> (case x of Resolve j p \<Rightarrow> j = i | Abandon j \<Rightarrow> j = i | Reset \<Rightarrow> True | _ \<Rightarrow> False)"

definition consumes :: "u32 \<Rightarrow> call_op \<Rightarrow> bool" where
  "consumes i x \<longleftrightarrow> (case x of Take j \<Rightarrow> j = i | Abandon j \<Rightarrow> j = i | Reset \<Rightarrow> True | _ \<Rightarrow> False)"

lemma life_step_waiting:
  "snd (life_step i s x) = Waiting \<Longrightarrow> s = Unused \<and> x = Expect i \<or> s = Waiting \<and> \<not> answers i x"
  by (cases x; cases s) (auto simp: answers_def split: if_splits)

lemma life_step_answered:
  "snd (life_step i s x) = Answered p \<Longrightarrow> s = Waiting \<and> x = Resolve i p \<or> s = Answered p \<and> \<not> consumes i x"
  by (cases x; cases s) (auto simp: consumes_def split: if_splits)

lemma waiting_history:
  "foldl (\<lambda>s x. snd (life_step i s x)) Unused xs = Waiting \<Longrightarrow>
     \<exists>us vs. xs = us @ Expect i # vs \<and> list_all (\<lambda>x. \<not> answers i x) vs"
proof (induction xs rule: rev_induct)
  case (snoc x xs)
  then have "snd (life_step i (foldl (\<lambda>s x. snd (life_step i s x)) Unused xs) x) = Waiting" by simp
  from life_step_waiting [OF this] show ?case
  proof
    assume "foldl (\<lambda>s x. snd (life_step i s x)) Unused xs = Unused \<and> x = Expect i"
    then show ?case by (intro exI [of _ xs] exI [of _ "[]"]) simp
  next
    assume w: "foldl (\<lambda>s x. snd (life_step i s x)) Unused xs = Waiting \<and> \<not> answers i x"
    with snoc.IH obtain us vs where "xs = us @ Expect i # vs" "list_all (\<lambda>x. \<not> answers i x) vs" by blast
    with w show ?case by (intro exI [of _ us] exI [of _ "vs @ [x]"]) simp
  qed
qed simp

lemma answered_history:
  "foldl (\<lambda>s x. snd (life_step i s x)) Unused xs = Answered p \<Longrightarrow>
     \<exists>us vs ws. xs = us @ Expect i # vs @ Resolve i p # ws \<and> list_all (\<lambda>x. \<not> answers i x) vs \<and>
       list_all (\<lambda>x. \<not> consumes i x) ws"
proof (induction xs rule: rev_induct)
  case (snoc x xs)
  then have "snd (life_step i (foldl (\<lambda>s x. snd (life_step i s x)) Unused xs) x) = Answered p" by simp
  from life_step_answered [OF this] show ?case
  proof
    assume a: "foldl (\<lambda>s x. snd (life_step i s x)) Unused xs = Waiting \<and> x = Resolve i p"
    with waiting_history obtain us vs where "xs = us @ Expect i # vs" "list_all (\<lambda>x. \<not> answers i x) vs" by blast
    with a show ?case by (intro exI [of _ us] exI [of _ vs] exI [of _ "[]"]) simp
  next
    assume a: "foldl (\<lambda>s x. snd (life_step i s x)) Unused xs = Answered p \<and> \<not> consumes i x"
    with snoc.IH obtain us vs ws where "xs = us @ Expect i # vs @ Resolve i p # ws"
      "list_all (\<lambda>x. \<not> answers i x) vs" "list_all (\<lambda>x. \<not> consumes i x) ws" by blast
    with a show ?case by (intro exI [of _ us] exI [of _ vs] exI [of _ "ws @ [x]"]) simp
  qed
qed simp

section \<open>Properties\<close>

text \<open>
  C11. The table refines the life cycle: whatever operations are performed on it, in whatever order
  and on whatever ids, resets included, each non-zero id is in the state that its own operations and the
  resets lead to, independent of all other ids.
\<close>

theorem pending_calls_refine:
  assumes "i \<noteq> 0"
  shows "life_of (snd (call_run PendingCallTable_empty xs)) i =
     foldl (\<lambda>s x. snd (life_step i s x)) Unused xs"
  using life_run [OF table_inv_empty assms] by simp

definition example_calls :: "call_op list" where
  "example_calls = [Expect 5, Expect 6, Resolve 5 RpcPayload_default, Abandon 6, Resolve 6 RpcPayload_default, Take 5]"

theorem pending_calls_refine_witness:
  "life_of (snd (call_run PendingCallTable_empty example_calls)) 6 = Finished \<and>
   life_of (snd (call_run PendingCallTable_empty (example_calls @ [Reset, Expect 6]))) 6 = Waiting"
  using pending_calls_refine [of 6 example_calls] pending_calls_refine [of 6 "example_calls @ [Reset, Expect 6]"]
  by (simp add: example_calls_def)

text \<open>
  C16. A request id is used once in a session: from the start or from any reset on, no run of the table
  up to the next reset lets it be claimed twice or answered twice, however often responses, cancellations
  and timeouts occur.
\<close>

theorem call_at_most_once:
  assumes "i \<noteq> 0" and "t = PendingCallTable_empty \<or> t = reset_calls t0" and "Reset \<notin> set xs"
  shows "length (filter (\<lambda>r. r = Accepted i) (fst (call_run t xs))) \<le> 1 \<and>
     length (filter (is_taken i) (fst (call_run t xs))) \<le> 1"
proof -
  have "t = PendingCallTable_empty" using assms(2) by (auto simp: reset_calls_def PendingCallTable_empty_def)
  with taken_count [OF assms(1) table_inv_empty assms(3)] accepted_count [OF assms(1) table_inv_empty assms(3)]
  show ?thesis by simp
qed

theorem call_at_most_once_witness:
  "length (filter (is_taken 5) (fst (call_run PendingCallTable_empty example_calls))) \<le> 1"
  using call_at_most_once [of 5 PendingCallTable_empty undefined example_calls] by (simp add: example_calls_def)

text \<open>
  The response a caller takes is the first one for its call: the call was expected before, the
  response is the first that arrived after that, and in between the call was not abandoned. A late,
  repeated or unsolicited response is never taken.
\<close>

theorem call_takes_first_response:
  assumes "i \<noteq> 0" and "fst (call_step (snd (call_run PendingCallTable_empty xs)) (Take i)) = Taken i p"
  shows "\<exists>us vs ws. xs = us @ Expect i # vs @ Resolve i p # ws \<and>
     list_all (\<lambda>x. \<not> answers i x) vs \<and> list_all (\<lambda>x. \<not> consumes i x) ws"
proof -
  let ?t = "snd (call_run PendingCallTable_empty xs)"
  have "fst (life_step i (life_of ?t i) (Take i)) = Some (Taken i p)"
    using result_refinement [OF table_inv_run [OF table_inv_empty] assms(1), of xs "Take i"] assms(2)
    by (simp add: result_id_def)
  then have "life_of ?t i = Answered p" by (simp split: call_life.splits)
  then show ?thesis
    using life_run [OF table_inv_empty assms(1), of xs] by (intro answered_history) simp
qed

theorem call_takes_first_response_witness:
  "\<exists>us vs ws. [Expect 5, Resolve 5 RpcPayload_default] = us @ Expect 5 # vs @ Resolve 5 RpcPayload_default # ws \<and>
     list_all (\<lambda>x. \<not> answers 5 x) vs \<and> list_all (\<lambda>x. \<not> consumes 5 x) ws"
  by (rule call_takes_first_response)
    (simp_all add: expect_call_def resolve_call_def isPending_def tryTakeResolved_def PendingCallTable_empty_def)

end
