(* ===== verification/Core_Runtime.thy ===== *)
theory Core_Runtime
  imports Wire_Processors Control_Session Pending_Calls
begin

text \<open>
  The protocol core of \<^verbatim>\<open>axtp_core.hpp\<close>, with \<^verbatim>\<open>core_event.hpp\<close>, \<^verbatim>\<open>broker_result.hpp\<close> and
  \<^verbatim>\<open>rpc_dispatcher.hpp\<close>.

  The core owns the two processors, the control and stream sessions, the table of pending calls and
  four queues. Its ports \<^verbatim>\<open>ByteSinkPort\<close>, \<^verbatim>\<open>PayloadSinkPort\<close> and \<^verbatim>\<open>ByteWriterPort\<close> forward to member
  functions; here they are the sink arguments of the processors, acting on the core itself. A queue
  is a list whose head is the front.

  A handler that runs on inbound data sends at most one RPC message, as its last action; should the
  JSON library refuse to print it, nothing is enqueued and the handler's other effects stay
  (\<^verbatim>\<open>JsonRpcPayloadDecoder::decode\<close> catches exceptions of the sink).
\<close>

unbundle bit_operations_syntax

section \<open>CoreEvent and BrokerResult\<close>

datatype core_event_type =
    CE_RpcRequest | CE_RpcEvent | CE_StreamOpen | CE_StreamData | CE_StreamClose | CE_ControlNotice
  | CE_ProtocolError

record core_event =
  ce_type :: core_event_type
  ce_rpc :: rpc_payload
  ce_stream :: stream_payload
  ce_control :: control_payload
  ce_error :: error_code

definition CoreEvent_default :: core_event where
  "CoreEvent_default = \<lparr>ce_type = CE_ProtocolError, ce_rpc = RpcPayload_default,
     ce_stream = StreamPayload_default, ce_control = ControlPayload_default, ce_error = ErrorCode_Success\<rparr>"

definition event_rpcRequest :: "rpc_payload \<Rightarrow> core_event" where
  "event_rpcRequest payload = CoreEvent_default\<lparr>ce_type := CE_RpcRequest, ce_rpc := payload\<rparr>"

definition event_rpcEvent :: "rpc_payload \<Rightarrow> core_event" where
  "event_rpcEvent payload = CoreEvent_default\<lparr>ce_type := CE_RpcEvent, ce_rpc := payload\<rparr>"

definition event_streamData :: "stream_payload \<Rightarrow> core_event" where
  "event_streamData payload = CoreEvent_default\<lparr>ce_type := CE_StreamData, ce_stream := payload\<rparr>"

definition event_controlNotice :: "control_payload \<Rightarrow> core_event" where
  "event_controlNotice payload = CoreEvent_default\<lparr>ce_type := CE_ControlNotice, ce_control := payload\<rparr>"

definition event_protocolError :: "error_code \<Rightarrow> core_event" where
  "event_protocolError v = CoreEvent_default\<lparr>ce_type := CE_ProtocolError, ce_error := v\<rparr>"

datatype broker_result_type =
    BR_RpcResponse | BR_RpcError | BR_Event | BR_StreamData | BR_StreamClose | BR_Noop

record broker_result =
  br_type :: broker_result_type
  br_rpc :: rpc_payload
  br_stream :: stream_payload
  br_control :: control_payload

definition result_noop :: broker_result where
  "result_noop = \<lparr>br_type = BR_Noop, br_rpc = RpcPayload_default, br_stream = StreamPayload_default,
     br_control = ControlPayload_default\<rparr>"

definition result_rpcResponse :: "rpc_payload \<Rightarrow> broker_result" where
  "result_rpcResponse payload = result_noop\<lparr>br_type := BR_RpcResponse, br_rpc := payload\<rparr>"

definition result_rpcError :: "rpc_payload \<Rightarrow> broker_result" where
  "result_rpcError payload = result_noop\<lparr>br_type := BR_RpcError, br_rpc := payload\<rparr>"

definition result_event :: "rpc_payload \<Rightarrow> broker_result" where
  "result_event payload = result_noop\<lparr>br_type := BR_Event, br_rpc := payload\<rparr>"

definition result_streamData :: "stream_payload \<Rightarrow> broker_result" where
  "result_streamData payload = result_noop\<lparr>br_type := BR_StreamData, br_stream := payload\<rparr>"

definition result_streamClose :: "stream_payload \<Rightarrow> broker_result" where
  "result_streamClose payload = result_noop\<lparr>br_type := BR_StreamClose, br_stream := payload\<rparr>"

section \<open>State of the core\<close>

record outbound_packet =
  pk_bytes :: bytes
  pk_replyTarget :: u64

text \<open>
  A provider may answer differently at each call, or throw (\<open>None\<close>). It is called at most once for
  each payload, so it is a function of the payload's number, \<^verbatim>\<open>_inboundActivityGeneration\<close>.
\<close>

type_synonym provider = "u64 \<Rightarrow> u64 option"

record axtp_core =
  co_inbound :: inbound_processor
  co_outbound :: outbound_processor
  co_controlSession :: control_session
  co_streamSession :: stream_session
  co_pendingCalls :: pending_call_table
  co_transportProfile :: transport_profile
  co_events :: "core_event list"
  co_sessionRpcs :: "rpc_payload list"
  co_controlNotices :: "control_payload list"
  co_outboundBytes :: "outbound_packet list"
  co_outboundReplyTarget :: u64
  co_nextSessionId :: u32
  co_inboundActivityGeneration :: u64
  co_ingressTokenProvider :: "provider option"
  co_ingressReplyTargetProvider :: "provider option"

definition AxtpCore :: axtp_core where
  "AxtpCore = \<lparr>co_inbound = InboundProcessor, co_outbound = OutboundProcessor 4096,
     co_controlSession = ControlSession_default, co_streamSession = StreamSession_default,
     co_pendingCalls = PendingCallTable_empty, co_transportProfile = TransportProfile_default,
     co_events = [], co_sessionRpcs = [], co_controlNotices = [], co_outboundBytes = [],
     co_outboundReplyTarget = 0, co_nextSessionId = 1, co_inboundActivityGeneration = 0,
     co_ingressTokenProvider = None, co_ingressReplyTargetProvider = None\<rparr>"

definition configure :: "axtp_core \<Rightarrow> transport_profile \<Rightarrow> axtp_core" where
  "configure c profile =
     (let c = c\<lparr>co_transportProfile := profile\<rparr>;
          c = c\<lparr>co_inbound := setInboundWireMode (co_inbound c) (tp_wireMode profile)\<rparr>;
          c = c\<lparr>co_outbound := setOutboundWireMode (co_outbound c) (tp_wireMode profile)\<rparr>
      in if tp_preferredFrameSize profile > 0
         then c\<lparr>co_outbound := setOutboundMaxFrameSize (co_outbound c) (tp_preferredFrameSize profile)\<rparr>
         else c)"

definition core_setRequestedHeartbeatInterval :: "axtp_core \<Rightarrow> u32 \<Rightarrow> axtp_core" where
  "core_setRequestedHeartbeatInterval c intervalMs =
     c\<lparr>co_controlSession := setRequestedHeartbeatInterval (co_controlSession c) intervalMs\<rparr>"

definition setJsonRpcMethodLookup :: "axtp_core \<Rightarrow> name_lookup \<Rightarrow> axtp_core" where
  "setJsonRpcMethodLookup c lookup = c\<lparr>co_inbound := setMethodLookup (co_inbound c) lookup\<rparr>"

definition setJsonRpcEventLookup :: "axtp_core \<Rightarrow> name_lookup \<Rightarrow> axtp_core" where
  "setJsonRpcEventLookup c lookup = c\<lparr>co_inbound := setEventLookup (co_inbound c) lookup\<rparr>"

definition setIngressTokenProvider :: "axtp_core \<Rightarrow> provider option \<Rightarrow> axtp_core" where
  "setIngressTokenProvider c p = c\<lparr>co_ingressTokenProvider := p\<rparr>"

definition setIngressReplyTargetProvider :: "axtp_core \<Rightarrow> provider option \<Rightarrow> axtp_core" where
  "setIngressReplyTargetProvider c p = c\<lparr>co_ingressReplyTargetProvider := p\<rparr>"

section \<open>Outbound\<close>

definition enqueueOutboundBytes :: "bytes \<Rightarrow> axtp_core \<Rightarrow> axtp_core" where
  "enqueueOutboundBytes data c =
     c\<lparr>co_outboundBytes := co_outboundBytes c @ [\<lparr>pk_bytes = data, pk_replyTarget = co_outboundReplyTarget c\<rparr>]\<rparr>"

definition core_sendControl :: "axtp_core \<Rightarrow> control_payload \<Rightarrow> axtp_core" where
  "core_sendControl c payload =
     (let (op, c) = sendControl enqueueOutboundBytes (co_outbound c) payload c in c\<lparr>co_outbound := op\<rparr>)"

definition core_sendStream :: "axtp_core \<Rightarrow> stream_payload \<Rightarrow> axtp_core" where
  "core_sendStream c payload =
     (let (op, c) = sendStream enqueueOutboundBytes (co_outbound c) payload c in c\<lparr>co_outbound := op\<rparr>)"

definition core_sendRpc :: "json_lib \<Rightarrow> axtp_core \<Rightarrow> rpc_payload \<Rightarrow> axtp_core option" where
  "core_sendRpc lib c payload =
     (case sendRpc lib enqueueOutboundBytes (co_outbound c) payload c of
        None \<Rightarrow> None | Some (op, c) \<Rightarrow> Some (c\<lparr>co_outbound := op\<rparr>))"

text \<open>The last action of an inbound handler.\<close>

definition core_answerRpc :: "json_lib \<Rightarrow> axtp_core \<Rightarrow> rpc_payload \<Rightarrow> axtp_core" where
  "core_answerRpc lib c payload = (case core_sendRpc lib c payload of None \<Rightarrow> c | Some c' \<Rightarrow> c')"

definition sendControlOpen :: "axtp_core \<Rightarrow> u16 \<Rightarrow> axtp_core" where
  "sendControlOpen c controlId =
     (let (open', cs) = makeOpen (co_controlSession c) controlId
      in core_sendControl (c\<lparr>co_controlSession := cs\<rparr>) open')"

definition sendControlHeartbeat :: "axtp_core \<Rightarrow> u16 \<Rightarrow> axtp_core" where
  "sendControlHeartbeat c controlId = core_sendControl c (makeHeartbeat (co_controlSession c) controlId)"

definition core_sendRpcRequest :: "json_lib \<Rightarrow> axtp_core \<Rightarrow> rpc_payload \<Rightarrow> axtp_core option" where
  "core_sendRpcRequest lib c payload = core_sendRpc lib c payload"

definition core_sendRpcSession :: "json_lib \<Rightarrow> axtp_core \<Rightarrow> rpc_payload \<Rightarrow> axtp_core option" where
  "core_sendRpcSession lib c payload = core_sendRpc lib c payload"

section \<open>Inbound\<close>

definition handleControl :: "json_lib \<Rightarrow> control_payload \<Rightarrow> axtp_core \<Rightarrow> axtp_core" where
  "handleControl lib payload c =
     (let c = c\<lparr>co_inboundActivityGeneration := co_inboundActivityGeneration c + 1\<rparr>;
          opcode = cp_opcode payload;
          notice = payload;
          (response, cs) = ControlSession_handle (co_controlSession c) payload;
          c = c\<lparr>co_controlSession := cs\<rparr>;
          c = c\<lparr>co_controlNotices := co_controlNotices c @ [notice]\<rparr>
      in case response of
           None \<Rightarrow> c
         | Some response \<Rightarrow>
             (let c = core_sendControl c response in
              if opcode = ControlOpcode_Open \<and> cs_open (co_controlSession c)
              then core_answerRpc lib c makeHello else c))"

text \<open>\<^verbatim>\<open>std::hex\<close>, \<^verbatim>\<open>uppercase\<close>, \<^verbatim>\<open>setw(8)\<close> and \<^verbatim>\<open>setfill('0')\<close>: the eight hexadecimal digits.\<close>

definition hex_digit :: "nat \<Rightarrow> char" where
  "hex_digit n = ''0123456789ABCDEF'' ! n"

definition hex8 :: "u32 \<Rightarrow> string" where
  "hex8 w = map (\<lambda>k. hex_digit (unat (drop_bit k w AND 0xF))) [28, 24, 20, 16, 12, 8, 4, 0]"

definition makeSessionId :: "axtp_core \<Rightarrow> u32 \<Rightarrow> string \<times> axtp_core" where
  "makeSessionId c randomSeed =
     (let mixed = randomSeed XOR (co_nextSessionId c * 0x9E3779B9);
          c = c\<lparr>co_nextSessionId := co_nextSessionId c + 1\<rparr>;
          mixed = (if mixed = 0 then co_nextSessionId c else mixed)
      in (hex8 mixed, c))"

definition captureReplyTarget :: "axtp_core \<Rightarrow> payload_meta \<Rightarrow> payload_meta" where
  "captureReplyTarget c meta =
     (case co_ingressReplyTargetProvider c of
        None \<Rightarrow> meta
      | Some provider \<Rightarrow>
          (case provider (co_inboundActivityGeneration c) of
             Some target \<Rightarrow> meta\<lparr>pm_replyTarget := target\<rparr>
           | None \<Rightarrow> meta\<lparr>pm_replyTarget := 0\<rparr>))"

text \<open>The two response branches, which are the same.\<close>

definition handleResponse :: "json_lib \<Rightarrow> rpc_payload \<Rightarrow> axtp_core \<Rightarrow> axtp_core" where
  "handleResponse lib payload c =
     (if pm_localGeneratedResponse (rp_meta payload) then core_answerRpc lib c payload
      else if rp_requestId payload \<noteq> 0 \<and> \<not> isPending (co_pendingCalls c) (rp_requestId payload) then c
      else c\<lparr>co_pendingCalls := resolve_call (co_pendingCalls c) (rp_requestId payload) payload\<rparr>)"

definition handleRpc :: "json_lib \<Rightarrow> rpc_payload \<Rightarrow> axtp_core \<Rightarrow> axtp_core" where
  "handleRpc lib payload c =
     (let c = c\<lparr>co_inboundActivityGeneration := co_inboundActivityGeneration c + 1\<rparr> in
      if rp_op payload = RpcOp_Identify \<or> rp_op payload = RpcOp_Reidentify
      then (let randomSeed = (if pm_hasRandomSeed (rp_meta payload) then pm_randomSeed (rp_meta payload) else 0);
                (sid, c) = makeSessionId c randomSeed;
                c = c\<lparr>co_sessionRpcs := co_sessionRpcs c @ [payload]\<rparr>
            in core_answerRpc lib c (makeIdentified sid))
      else if rp_op payload = RpcOp_Hello \<or> rp_op payload = RpcOp_Identified
      then c\<lparr>co_sessionRpcs := co_sessionRpcs c @ [payload]\<rparr>
      else if rp_op payload = RpcOp_Request
      then (let payload = payload\<lparr>rp_meta := captureReplyTarget c (rp_meta payload)\<rparr>
            in c\<lparr>co_events := co_events c @ [event_rpcRequest payload]\<rparr>)
      else if rp_op payload = RpcOp_Event then c\<lparr>co_events := co_events c @ [event_rpcEvent payload]\<rparr>
      else if rp_op payload = RpcOp_RequestResponse then handleResponse lib payload c
      else if rp_op payload = RpcOp_RequestBatchResponse then handleResponse lib payload c
      else c)"

definition handleStream :: "stream_payload \<Rightarrow> axtp_core \<Rightarrow> axtp_core" where
  "handleStream payload c =
     (let c = c\<lparr>co_inboundActivityGeneration := co_inboundActivityGeneration c + 1\<rparr>;
          payload = (case co_ingressTokenProvider c of
                       None \<Rightarrow> payload
                     | Some provider \<Rightarrow>
                         (case provider (co_inboundActivityGeneration c) of
                            Some token \<Rightarrow> payload\<lparr>sp_meta := (sp_meta payload)\<lparr>pm_ingressToken := token\<rparr>\<rparr>
                          | None \<Rightarrow> payload\<lparr>sp_meta := (sp_meta payload)\<lparr>pm_ingressToken := 0\<rparr>\<rparr>));
          c = c\<lparr>co_streamSession := StreamSession_handle (co_streamSession c) payload\<rparr>
      in c\<lparr>co_events := co_events c @ [event_streamData payload]\<rparr>)"

fun handlePayload :: "json_lib \<Rightarrow> payload \<Rightarrow> axtp_core \<Rightarrow> axtp_core" where
  "handlePayload lib (PControl p) c = handleControl lib p c"
| "handlePayload lib (PRpc p) c = handleRpc lib p c"
| "handlePayload lib (PStream p) c = handleStream p c"

text \<open>The handlers leave the inbound processor alone, which is put back when its run is over.\<close>

definition handleBytes :: "json_lib \<Rightarrow> axtp_core \<Rightarrow> bytes \<Rightarrow> axtp_core" where
  "handleBytes lib c data =
     (let (ip, c) = InboundProcessor_onBytes lib (handlePayload lib) (co_inbound c) data c
      in c\<lparr>co_inbound := ip\<rparr>)"

section \<open>Queues and broker results\<close>

definition pollEvent :: "axtp_core \<Rightarrow> core_event option \<times> axtp_core" where
  "pollEvent c =
     (case co_events c of [] \<Rightarrow> (None, c) | event # rest \<Rightarrow> (Some event, c\<lparr>co_events := rest\<rparr>))"

definition tryPopOutboundPacket :: "axtp_core \<Rightarrow> outbound_packet option \<times> axtp_core" where
  "tryPopOutboundPacket c =
     (case co_outboundBytes c of
        [] \<Rightarrow> (None, c) | packet # rest \<Rightarrow> (Some packet, c\<lparr>co_outboundBytes := rest\<rparr>))"

definition tryPopOutboundBytes :: "axtp_core \<Rightarrow> bytes option \<times> axtp_core" where
  "tryPopOutboundBytes c =
     (let (packet, c) = tryPopOutboundPacket c
      in case packet of None \<Rightarrow> (None, c) | Some packet \<Rightarrow> (Some (pk_bytes packet), c))"

text \<open>
  The loop of the \<^verbatim>\<open>tryTake\<close> functions: at most as many rounds as the queue has elements; an element
  that does not match goes to the end of the queue.
\<close>

fun takeLoop :: "('a \<Rightarrow> bool) \<Rightarrow> nat \<Rightarrow> 'a list \<Rightarrow> 'a option \<times> 'a list" where
  "takeLoop matches 0 queue = (None, queue)"
| "takeLoop matches (Suc count) [] = (None, [])"
| "takeLoop matches (Suc count) (payload # queue) =
     (if matches payload then (Some payload, queue) else takeLoop matches count (queue @ [payload]))"

definition tryTakeSessionRpc :: "axtp_core \<Rightarrow> rpc_op \<Rightarrow> rpc_payload option \<times> axtp_core" where
  "tryTakeSessionRpc c op =
     (let count = length (co_sessionRpcs c);
          (payload, queue) = takeLoop (\<lambda>p. rp_op p = op) count (co_sessionRpcs c)
      in (payload, c\<lparr>co_sessionRpcs := queue\<rparr>))"

definition tryTakeControlNotice :: "axtp_core \<Rightarrow> control_opcode \<Rightarrow> control_payload option \<times> axtp_core" where
  "tryTakeControlNotice c opcode =
     (let count = length (co_controlNotices c);
          (payload, queue) = takeLoop (\<lambda>p. cp_opcode p = opcode) count (co_controlNotices c)
      in (payload, c\<lparr>co_controlNotices := queue\<rparr>))"

definition tryTakeControlNoticeFor ::
    "axtp_core \<Rightarrow> control_opcode \<Rightarrow> u16 \<Rightarrow> control_payload option \<times> axtp_core" where
  "tryTakeControlNoticeFor c opcode controlId =
     (let count = length (co_controlNotices c);
          (payload, queue) = takeLoop (\<lambda>p. cp_opcode p = opcode \<and> cp_controlId p = controlId) count
                               (co_controlNotices c)
      in (payload, c\<lparr>co_controlNotices := queue\<rparr>))"

definition core_expectRpcResponse :: "axtp_core \<Rightarrow> u32 \<Rightarrow> bool \<times> axtp_core" where
  "core_expectRpcResponse c requestId =
     (let (ok, t) = expect_call (co_pendingCalls c) requestId in (ok, c\<lparr>co_pendingCalls := t\<rparr>))"

definition core_abandonRpcResponse :: "axtp_core \<Rightarrow> u32 \<Rightarrow> axtp_core" where
  "core_abandonRpcResponse c requestId = c\<lparr>co_pendingCalls := abandon_call (co_pendingCalls c) requestId\<rparr>"

definition core_tryTakeRpcResponse :: "axtp_core \<Rightarrow> u32 \<Rightarrow> rpc_payload option \<times> axtp_core" where
  "core_tryTakeRpcResponse c requestId =
     (let (p, t) = tryTakeResolved (co_pendingCalls c) requestId in (p, c\<lparr>co_pendingCalls := t\<rparr>))"

definition core_tryTakeAnyRpcResponse :: "axtp_core \<Rightarrow> rpc_payload option \<times> axtp_core" where
  "core_tryTakeAnyRpcResponse c =
     (let (p, t) = tryTakeAnyResolved (co_pendingCalls c) in (p, c\<lparr>co_pendingCalls := t\<rparr>))"

definition core_resetResponseTracking :: "axtp_core \<Rightarrow> axtp_core" where
  "core_resetResponseTracking c = c\<lparr>co_pendingCalls := reset_calls (co_pendingCalls c)\<rparr>"

text \<open>
  The reply target of a response is in force while it is sent. The first component is false when the
  encoder threw; the reply target is then left as it was set.
\<close>

definition handleBrokerResult :: "json_lib \<Rightarrow> axtp_core \<Rightarrow> broker_result \<Rightarrow> bool \<times> axtp_core" where
  "handleBrokerResult lib c result =
     (let previousReplyTarget = co_outboundReplyTarget c;
          c = (if br_type result = BR_RpcResponse \<or> br_type result = BR_RpcError
               then c\<lparr>co_outboundReplyTarget := pm_replyTarget (rp_meta (br_rpc result))\<rparr> else c);
          sent = (case br_type result of
                    BR_RpcResponse \<Rightarrow> core_sendRpc lib c (br_rpc result)
                  | BR_RpcError \<Rightarrow> core_sendRpc lib c (br_rpc result)
                  | BR_Event \<Rightarrow> core_sendRpc lib c (br_rpc result)
                  | BR_StreamData \<Rightarrow> Some (core_sendStream c (br_stream result))
                  | BR_StreamClose \<Rightarrow> Some (core_sendStream c (br_stream result))
                  | BR_Noop \<Rightarrow> Some c)
      in case sent of
           None \<Rightarrow> (False, c)
         | Some c \<Rightarrow> (True, c\<lparr>co_outboundReplyTarget := previousReplyTarget\<rparr>))"

section \<open>RpcDispatcher\<close>

text \<open>The table of handlers is keyed by sixteen bits, so the method id of a request is truncated.\<close>

record rpc_dispatcher =
  di_handlers :: "u16 \<rightharpoonup> rpc_payload \<Rightarrow> bytes"

definition registerHandler :: "rpc_dispatcher \<Rightarrow> u16 \<Rightarrow> (rpc_payload \<Rightarrow> bytes) \<Rightarrow> rpc_dispatcher" where
  "registerHandler d methodId handler = d\<lparr>di_handlers := (di_handlers d)(methodId \<mapsto> handler)\<rparr>"

definition RpcDispatcher_handle :: "rpc_dispatcher \<Rightarrow> rpc_payload \<Rightarrow> rpc_payload option" where
  "RpcDispatcher_handle d request =
     (if rp_op request \<noteq> RpcOp_Request then None
      else
        (let response = RpcPayload_default\<lparr>rp_encoding := rp_encoding request,
               rp_op := RpcOp_RequestResponse, rp_requestId := rp_requestId request,
               rp_methodOrEventId := rp_methodOrEventId request,
               rp_bodyEncoding := rp_bodyEncoding request,
               rp_meta := (rp_meta request)\<lparr>pm_endpoint := responseEndpointMetadata (pm_endpoint (rp_meta request)),
                 pm_requestId := rp_requestId request\<rparr>\<rparr>
         in case di_handlers d (ucast (rp_methodOrEventId request)) of
              None \<Rightarrow> Some (response\<lparr>rp_statusCode := ErrorCode_RpcMethodNotFound\<rparr>)
            | Some handler \<Rightarrow> Some (response\<lparr>rp_statusCode := ErrorCode_Success, rp_body := handler request\<rparr>)))"

section \<open>What sending does to the core\<close>

text \<open>A processor run with any writer is the run that lists its writes, followed by the writer.\<close>

abbreviation (input) snoc :: "bytes \<Rightarrow> bytes list \<Rightarrow> bytes list" where
  "snoc b out \<equiv> out @ [b]"

lemma sendMessage_writes:
  "sendMessage wr op m s =
     (fst (sendMessage snoc op m []), fold wr (snd (sendMessage snoc op m [])) s)"
proof -
  have "fold (\<lambda>f out. out @ [FrameEncoder_encode f]) fs out = out @ map FrameEncoder_encode fs" for fs out
    by (induction fs arbitrary: out) simp_all
  moreover have "fold (\<lambda>f. wr (FrameEncoder_encode f)) fs s = fold wr (map FrameEncoder_encode fs) s" for fs
    by (simp add: fold_map o_def)
  ultimately show ?thesis by (simp add: sendMessage_def split_beta)
qed

lemma sendControl_writes:
  "sendControl wr op p s = (fst (sendControl snoc op p []), fold wr (snd (sendControl snoc op p [])) s)"
  using sendMessage_writes [of wr op "encodeControl p" s] by (simp add: sendControl_def)

lemma sendStream_writes:
  "sendStream wr op p s = (fst (sendStream snoc op p []), fold wr (snd (sendStream snoc op p [])) s)"
  using sendMessage_writes [of wr op "encodeStream p" s] by (simp add: sendStream_def)

lemma sendRpc_writes:
  "sendRpc lib wr op p s =
     map_option (\<lambda>(op', ws). (op', fold wr ws s)) (sendRpc lib snoc op p [])"
  using sendMessage_writes [of wr op "the (encodeRpc lib p)" s]
  by (auto simp: sendRpc_def split_beta split: option.split)

definition enqueue_packets :: "u64 \<Rightarrow> bytes list \<Rightarrow> axtp_core \<Rightarrow> axtp_core" where
  "enqueue_packets target ws c =
     c\<lparr>co_outboundBytes := co_outboundBytes c @ map (\<lambda>b. \<lparr>pk_bytes = b, pk_replyTarget = target\<rparr>) ws\<rparr>"

lemma fold_enqueue: "fold enqueueOutboundBytes ws c = enqueue_packets (co_outboundReplyTarget c) ws c"
  by (induction ws arbitrary: c) (simp_all add: enqueueOutboundBytes_def enqueue_packets_def)

named_theorems core_send \<open>the effect of the send operations on the core\<close>

lemma core_sendControl_eq [core_send]:
  "core_sendControl c p =
     (let (op, ws) = sendControl snoc (co_outbound c) p []
      in enqueue_packets (co_outboundReplyTarget c) ws (c\<lparr>co_outbound := op\<rparr>))"
  by (simp add: core_sendControl_def sendControl_writes [of enqueueOutboundBytes] split_beta fold_enqueue)
    (simp add: enqueue_packets_def)

lemma core_sendStream_eq [core_send]:
  "core_sendStream c p =
     (let (op, ws) = sendStream snoc (co_outbound c) p []
      in enqueue_packets (co_outboundReplyTarget c) ws (c\<lparr>co_outbound := op\<rparr>))"
  by (simp add: core_sendStream_def sendStream_writes [of enqueueOutboundBytes] split_beta fold_enqueue)
    (simp add: enqueue_packets_def)

lemma core_sendRpc_eq [core_send]:
  "core_sendRpc lib c p =
     map_option (\<lambda>(op, ws). enqueue_packets (co_outboundReplyTarget c) ws (c\<lparr>co_outbound := op\<rparr>))
       (sendRpc lib snoc (co_outbound c) p [])"
  by (simp add: core_sendRpc_def sendRpc_writes [of lib enqueueOutboundBytes] fold_enqueue split: option.split)
    (auto simp: enqueue_packets_def)

lemma core_answerRpc_eq [core_send]:
  "core_answerRpc lib c p =
     (case sendRpc lib snoc (co_outbound c) p [] of
        None \<Rightarrow> c
      | Some (op, ws) \<Rightarrow> enqueue_packets (co_outboundReplyTarget c) ws (c\<lparr>co_outbound := op\<rparr>))"
  by (simp add: core_answerRpc_def core_sendRpc_eq split: option.split)

text \<open>Sending changes the outbound processor and the outbound queue only.\<close>

definition same_but_sent :: "axtp_core \<Rightarrow> axtp_core \<Rightarrow> bool" where
  "same_but_sent c c' \<longleftrightarrow> (\<exists>op q. c' = c\<lparr>co_outbound := op, co_outboundBytes := co_outboundBytes c @ q\<rparr> \<and>
     (\<forall>p\<in>set q. pk_replyTarget p = co_outboundReplyTarget c))"

lemma same_but_sent_refl: "same_but_sent c c"
  unfolding same_but_sent_def by (intro exI [of _ "co_outbound c"] exI [of _ "[]"]) simp

lemma same_but_sent_enqueue:
  "same_but_sent c (enqueue_packets (co_outboundReplyTarget c) ws (c\<lparr>co_outbound := op\<rparr>))"
  unfolding same_but_sent_def enqueue_packets_def
  by (intro exI [of _ op] exI [of _ "map (\<lambda>b. \<lparr>pk_bytes = b, pk_replyTarget = co_outboundReplyTarget c\<rparr>) ws"]) auto

lemma core_sends:
  "same_but_sent c (core_sendControl c p)" "same_but_sent c (core_sendStream c q)"
  "same_but_sent c (core_answerRpc lib c r)" "core_sendRpc lib c r = Some c' \<Longrightarrow> same_but_sent c c'"
  by (auto simp: core_send split_beta same_but_sent_enqueue same_but_sent_refl split: option.split)

lemma same_but_sent_simps:
  assumes "same_but_sent c c'"
  shows "co_inbound c' = co_inbound c" "co_controlSession c' = co_controlSession c"
    "co_streamSession c' = co_streamSession c" "co_pendingCalls c' = co_pendingCalls c"
    "co_transportProfile c' = co_transportProfile c" "co_events c' = co_events c"
    "co_sessionRpcs c' = co_sessionRpcs c" "co_controlNotices c' = co_controlNotices c"
    "co_outboundReplyTarget c' = co_outboundReplyTarget c" "co_nextSessionId c' = co_nextSessionId c"
    "co_inboundActivityGeneration c' = co_inboundActivityGeneration c"
    "co_ingressTokenProvider c' = co_ingressTokenProvider c"
    "co_ingressReplyTargetProvider c' = co_ingressReplyTargetProvider c"
  using assms by (auto simp: same_but_sent_def)

lemmas core_sent = core_sends(1-3) [THEN same_but_sent_simps(1)] core_sends(1-3) [THEN same_but_sent_simps(2)]
  core_sends(1-3) [THEN same_but_sent_simps(3)] core_sends(1-3) [THEN same_but_sent_simps(4)]
  core_sends(1-3) [THEN same_but_sent_simps(5)] core_sends(1-3) [THEN same_but_sent_simps(6)]
  core_sends(1-3) [THEN same_but_sent_simps(7)] core_sends(1-3) [THEN same_but_sent_simps(8)]
  core_sends(1-3) [THEN same_but_sent_simps(9)] core_sends(1-3) [THEN same_but_sent_simps(10)]
  core_sends(1-3) [THEN same_but_sent_simps(11)] core_sends(1-3) [THEN same_but_sent_simps(12)]
  core_sends(1-3) [THEN same_but_sent_simps(13)]

section \<open>What each payload does to the core\<close>

text \<open>The specification, one queue at a time; \<open>g\<close> is the payload's number.\<close>

definition provided :: "provider option \<Rightarrow> u64 \<Rightarrow> u64 \<Rightarrow> u64" where
  "provided provider g old =
     (case provider of None \<Rightarrow> old | Some f \<Rightarrow> (case f g of Some v \<Rightarrow> v | None \<Rightarrow> 0))"

fun payload_events :: "provider option \<Rightarrow> provider option \<Rightarrow> u64 \<Rightarrow> payload \<Rightarrow> core_event list" where
  "payload_events targets tokens g (PControl p) = []"
| "payload_events targets tokens g (PRpc p) =
     (if rp_op p = RpcOp_Request
      then [event_rpcRequest (p\<lparr>rp_meta := (rp_meta p)
              \<lparr>pm_replyTarget := provided targets g (pm_replyTarget (rp_meta p))\<rparr>\<rparr>)]
      else if rp_op p = RpcOp_Event then [event_rpcEvent p] else [])"
| "payload_events targets tokens g (PStream p) =
     [event_streamData (p\<lparr>sp_meta := (sp_meta p)
        \<lparr>pm_ingressToken := provided tokens g (pm_ingressToken (sp_meta p))\<rparr>\<rparr>)]"

primrec ingress_events :: "provider option \<Rightarrow> provider option \<Rightarrow> u64 \<Rightarrow> payload list \<Rightarrow> core_event list" where
  "ingress_events targets tokens g [] = []"
| "ingress_events targets tokens g (p # ps) =
     payload_events targets tokens (g + 1) p @ ingress_events targets tokens (g + 1) ps"

fun payload_calls :: "payload \<Rightarrow> call_op list" where
  "payload_calls (PRpc p) =
     (if (rp_op p = RpcOp_RequestResponse \<or> rp_op p = RpcOp_RequestBatchResponse) \<and>
         \<not> pm_localGeneratedResponse (rp_meta p) then [Resolve (rp_requestId p) p] else [])"
| "payload_calls _ = []"

fun payload_notices :: "payload \<Rightarrow> control_payload list" where
  "payload_notices (PControl p) = [p]"
| "payload_notices _ = []"

fun payload_session_rpcs :: "payload \<Rightarrow> rpc_payload list" where
  "payload_session_rpcs (PRpc p) =
     (if rp_op p \<in> {RpcOp_Identify, RpcOp_Reidentify, RpcOp_Hello, RpcOp_Identified} then [p] else [])"
| "payload_session_rpcs _ = []"

text \<open>A response that is not expected changes nothing, so the core's own guard is the table's.\<close>

lemma handleResponse_local:
  "pm_localGeneratedResponse (rp_meta p) \<Longrightarrow> handleResponse lib p c = core_answerRpc lib c p"
  by (simp add: handleResponse_def)

lemma handleResponse_call:
  "\<not> pm_localGeneratedResponse (rp_meta p) \<Longrightarrow>
     handleResponse lib p c = c\<lparr>co_pendingCalls := resolve_call (co_pendingCalls c) (rp_requestId p) p\<rparr>"
  by (simp add: handleResponse_def resolve_call_def)

lemma handleControl_effect:
  fixes c :: axtp_core and p :: control_payload and lib :: json_lib
  defines "c' \<equiv> handleControl lib p c"
  shows "co_inboundActivityGeneration c' = co_inboundActivityGeneration c + 1" "co_events c' = co_events c"
    "co_pendingCalls c' = co_pendingCalls c" "co_controlNotices c' = co_controlNotices c @ [p]"
    "co_sessionRpcs c' = co_sessionRpcs c" "co_streamSession c' = co_streamSession c"
    "co_controlSession c' = snd (ControlSession_handle (co_controlSession c) p)"
    "co_ingressTokenProvider c' = co_ingressTokenProvider c"
    "co_ingressReplyTargetProvider c' = co_ingressReplyTargetProvider c" "co_inbound c' = co_inbound c"
    "co_outboundReplyTarget c' = co_outboundReplyTarget c"
  unfolding c'_def handleControl_def Let_def split_beta
  by (simp_all add: core_sent split: option.split)

text \<open>The local effect of the RPC branches, session ids aside.\<close>

lemma handleRpc_effect:
  fixes c :: axtp_core and p :: rpc_payload and lib :: json_lib
  defines "c' \<equiv> handleRpc lib p c"
  shows "co_inboundActivityGeneration c' = co_inboundActivityGeneration c + 1"
    "co_events c' = co_events c @ payload_events (co_ingressReplyTargetProvider c) tokens
       (co_inboundActivityGeneration c + 1) (PRpc p)"
    "co_pendingCalls c' = snd (call_run (co_pendingCalls c) (payload_calls (PRpc p)))"
    "co_controlNotices c' = co_controlNotices c"
    "co_sessionRpcs c' = co_sessionRpcs c @ payload_session_rpcs (PRpc p)"
    "co_streamSession c' = co_streamSession c" "co_controlSession c' = co_controlSession c"
    "co_ingressTokenProvider c' = co_ingressTokenProvider c"
    "co_ingressReplyTargetProvider c' = co_ingressReplyTargetProvider c" "co_inbound c' = co_inbound c"
    "co_outboundReplyTarget c' = co_outboundReplyTarget c"
  unfolding c'_def handleRpc_def Let_def makeSessionId_def
  by (cases "pm_localGeneratedResponse (rp_meta p)";
      simp add: core_sent handleResponse_local handleResponse_call captureReplyTarget_def provided_def split: option.split)+

lemma handleStream_effect:
  fixes c :: axtp_core and p :: stream_payload
  defines "c' \<equiv> handleStream p c"
  shows "co_inboundActivityGeneration c' = co_inboundActivityGeneration c + 1"
    "co_events c' = co_events c @ payload_events targets (co_ingressTokenProvider c)
       (co_inboundActivityGeneration c + 1) (PStream p)"
    "co_pendingCalls c' = co_pendingCalls c" "co_controlNotices c' = co_controlNotices c"
    "co_sessionRpcs c' = co_sessionRpcs c" "co_controlSession c' = co_controlSession c"
    "co_ingressTokenProvider c' = co_ingressTokenProvider c"
    "co_ingressReplyTargetProvider c' = co_ingressReplyTargetProvider c" "co_inbound c' = co_inbound c"
    "co_outboundReplyTarget c' = co_outboundReplyTarget c" "co_outboundBytes c' = co_outboundBytes c"
    "co_outbound c' = co_outbound c"
  unfolding c'_def handleStream_def Let_def
  by (simp_all add: provided_def split: option.split) (cases "sp_meta p"; cases p; simp)?

lemma handlePayload_effect:
  fixes c :: axtp_core and p :: payload and lib :: json_lib
  defines "c' \<equiv> handlePayload lib p c"
  shows "co_inboundActivityGeneration c' = co_inboundActivityGeneration c + 1"
    "co_events c' = co_events c @ payload_events (co_ingressReplyTargetProvider c) (co_ingressTokenProvider c)
       (co_inboundActivityGeneration c + 1) p"
    "co_pendingCalls c' = snd (call_run (co_pendingCalls c) (payload_calls p))"
    "co_controlNotices c' = co_controlNotices c @ payload_notices p"
    "co_sessionRpcs c' = co_sessionRpcs c @ payload_session_rpcs p"
    "co_controlSession c' = ControlSession_receive (co_controlSession c) (payload_notices p)"
    "co_ingressTokenProvider c' = co_ingressTokenProvider c"
    "co_ingressReplyTargetProvider c' = co_ingressReplyTargetProvider c" "co_inbound c' = co_inbound c"
    "co_outboundReplyTarget c' = co_outboundReplyTarget c"
  unfolding c'_def
  by (cases p; simp add: handleControl_effect handleRpc_effect(1,3-)
      handleRpc_effect(2) [where tokens = "co_ingressTokenProvider c"] handleStream_effect(1,3-)
      handleStream_effect(2) [where targets = "co_ingressReplyTargetProvider c"] ControlSession_receive_def)+

lemma core_receives:
  fixes c :: axtp_core and ps :: "payload list" and lib :: json_lib
  defines "c' \<equiv> fold (handlePayload lib) ps c"
  shows "co_inboundActivityGeneration c' = co_inboundActivityGeneration c + word_of_nat (length ps)"
    "co_events c' = co_events c @ ingress_events (co_ingressReplyTargetProvider c) (co_ingressTokenProvider c)
       (co_inboundActivityGeneration c) ps"
    "co_pendingCalls c' = snd (call_run (co_pendingCalls c) (concat (map payload_calls ps)))"
    "co_controlNotices c' = co_controlNotices c @ concat (map payload_notices ps)"
    "co_sessionRpcs c' = co_sessionRpcs c @ concat (map payload_session_rpcs ps)"
    "co_controlSession c' = ControlSession_receive (co_controlSession c) (concat (map payload_notices ps))"
    "co_inbound c' = co_inbound c" "co_outboundReplyTarget c' = co_outboundReplyTarget c"
  unfolding c'_def
  by (induction ps arbitrary: c)
    (simp_all add: handlePayload_effect call_run_append split_beta Let_def ControlSession_receive_def add.assoc)

section \<open>Bytes received by the core\<close>

text \<open>The handlers neither read nor write the inbound processor.\<close>

lemma core_send_inbound:
  "core_sendControl (c\<lparr>co_inbound := ip\<rparr>) p = (core_sendControl c p)\<lparr>co_inbound := ip\<rparr>"
  "core_answerRpc lib (c\<lparr>co_inbound := ip\<rparr>) q = (core_answerRpc lib c q)\<lparr>co_inbound := ip\<rparr>"
  by (cases c; simp add: core_send enqueue_packets_def split_beta split: option.split)+

lemma inbound_last:
  fixes c :: axtp_core
  shows "c\<lparr>co_inbound := ip, co_inboundActivityGeneration := v1\<rparr> = c\<lparr>co_inboundActivityGeneration := v1, co_inbound := ip\<rparr>"
    "c\<lparr>co_inbound := ip, co_controlSession := v2\<rparr> = c\<lparr>co_controlSession := v2, co_inbound := ip\<rparr>"
    "c\<lparr>co_inbound := ip, co_controlNotices := v3\<rparr> = c\<lparr>co_controlNotices := v3, co_inbound := ip\<rparr>"
    "c\<lparr>co_inbound := ip, co_streamSession := v4\<rparr> = c\<lparr>co_streamSession := v4, co_inbound := ip\<rparr>"
    "c\<lparr>co_inbound := ip, co_pendingCalls := v5\<rparr> = c\<lparr>co_pendingCalls := v5, co_inbound := ip\<rparr>"
    "c\<lparr>co_inbound := ip, co_events := v6\<rparr> = c\<lparr>co_events := v6, co_inbound := ip\<rparr>"
    "c\<lparr>co_inbound := ip, co_sessionRpcs := v7\<rparr> = c\<lparr>co_sessionRpcs := v7, co_inbound := ip\<rparr>"
    "c\<lparr>co_inbound := ip, co_nextSessionId := v8\<rparr> = c\<lparr>co_nextSessionId := v8, co_inbound := ip\<rparr>"
  by (cases c; simp)+

text \<open>The first steps of each handler, and the rest of it.\<close>

definition counted :: "axtp_core \<Rightarrow> axtp_core" where
  "counted c = c\<lparr>co_inboundActivityGeneration := co_inboundActivityGeneration c + 1\<rparr>"

lemma counted_inbound: "counted (c\<lparr>co_inbound := ip\<rparr>) = (counted c)\<lparr>co_inbound := ip\<rparr>"
  by (simp add: counted_def inbound_last)

lemma handleControl_inbound:
  "handleControl lib p (c\<lparr>co_inbound := ip\<rparr>) = (handleControl lib p c)\<lparr>co_inbound := ip\<rparr>"
  unfolding handleControl_def counted_def [symmetric] counted_inbound Let_def split_beta
  by (simp only: inbound_last axtp_core.simps core_send_inbound split: option.split) (simp add: inbound_last core_send_inbound)

lemma handleResponse_inbound:
  "handleResponse lib p (c\<lparr>co_inbound := ip\<rparr>) = (handleResponse lib p c)\<lparr>co_inbound := ip\<rparr>"
  by (simp add: handleResponse_def core_send_inbound inbound_last)

lemma handleStream_inbound:
  "handleStream p (c\<lparr>co_inbound := ip\<rparr>) = (handleStream p c)\<lparr>co_inbound := ip\<rparr>"
  unfolding handleStream_def counted_def [symmetric] counted_inbound Let_def
  by (simp add: inbound_last split: option.split)

lemma handleRpc_inbound:
  "handleRpc lib p (c\<lparr>co_inbound := ip\<rparr>) = (handleRpc lib p c)\<lparr>co_inbound := ip\<rparr>"
  unfolding handleRpc_def counted_def [symmetric] counted_inbound Let_def
  by (simp add: inbound_last handleResponse_inbound captureReplyTarget_def makeSessionId_def Let_def core_send_inbound
      cong: if_cong option.case_cong)

lemma handlePayload_inbound:
  "handlePayload lib p (c\<lparr>co_inbound := ip\<rparr>) = (handlePayload lib p c)\<lparr>co_inbound := ip\<rparr>"
  by (cases p) (simp_all add: handleControl_inbound handleRpc_inbound handleStream_inbound)

definition core_feed :: "json_lib \<Rightarrow> axtp_core \<Rightarrow> bytes list \<Rightarrow> axtp_core" where
  "core_feed lib = foldl (handleBytes lib)"

lemma core_feed_eq:
  "core_feed lib c chunks =
     (let (ip, c') = InboundProcessor_feed lib (handlePayload lib) (co_inbound c, c) chunks
      in c'\<lparr>co_inbound := ip\<rparr>)"
proof -
  have "foldl (handleBytes lib) (c\<lparr>co_inbound := ip\<rparr>) chunks =
     (let (ip', c') = foldl (\<lambda>(ip, s) data. InboundProcessor_onBytes lib (handlePayload lib) ip data s) (ip, c) chunks
      in c'\<lparr>co_inbound := ip'\<rparr>)" for ip c
    by (induction chunks arbitrary: ip c)
      (simp_all add: handleBytes_def split_beta
        onBytes_commutes [where sink = "handlePayload lib" and f = "co_inbound_update (\<lambda>_. ip)" for ip,
          OF handlePayload_inbound])
  from this [of "co_inbound c" c] show ?thesis by (simp add: core_feed_def InboundProcessor_feed_def)
qed

end
