(* ===== verification/Core_Handshake.thy ===== *)
theory Core_Handshake
  imports Core_Runtime
begin

text \<open>
  Cores that talk to each other: the bytes one core sends, fed to another, and the properties of the
  core. The lemmas follow messages through the bytes of several frames; with them the opening
  handshake is run from the client's OPEN to the ACCEPT it receives.
\<close>

section \<open>Bytes of several messages\<close>

lemma core_feed_idle:
  assumes "idle (co_inbound c)" and "snd (decode_stream (concat chunks)) = []"
    and "fold (inbound_frame lib (handlePayload lib)) (fst (decode_stream (concat chunks)))
           (MessageReassembler (1024 * 1024), c) = (MessageReassembler (1024 * 1024), c')"
    and "co_inbound c' = co_inbound c"
  shows "core_feed lib c chunks = c'"
  using feed_idle [OF assms(1-3)] assms(4) by (cases c') (simp add: core_feed_eq)

text \<open>The bytes \<open>w\<close> hand the messages \<open>ms\<close> to the receiving core, whatever follows them.\<close>

definition receive_messages :: "json_lib \<Rightarrow> message list \<Rightarrow> axtp_core \<Rightarrow> axtp_core" where
  "receive_messages lib = fold (PayloadDecoder_onMessage lib (handlePayload lib))"

definition delivers :: "json_lib \<Rightarrow> bytes list \<Rightarrow> message list \<Rightarrow> bool" where
  "delivers lib w ms \<longleftrightarrow> (\<forall>ys c.
     fold (inbound_frame lib (handlePayload lib)) (fst (decode_stream (concat w @ ys))) (MessageReassembler (1024 * 1024), c) =
       fold (inbound_frame lib (handlePayload lib)) (fst (decode_stream ys))
         (MessageReassembler (1024 * 1024), receive_messages lib ms c) \<and>
     snd (decode_stream (concat w @ ys)) = snd (decode_stream ys))"

lemma delivers_append:
  "delivers lib w1 ms1 \<Longrightarrow> delivers lib w2 ms2 \<Longrightarrow> delivers lib (w1 @ w2) (ms1 @ ms2)"
  by (simp add: delivers_def receive_messages_def)

lemma receive_messages_inbound: "co_inbound (receive_messages lib ms c) = co_inbound c"
  by (induction ms arbitrary: c)
    (simp_all add: receive_messages_def PayloadDecoder_onMessage_def handlePayload_effect split: option.split)

definition framed_port :: "outbound_processor \<Rightarrow> nat \<Rightarrow> bool" where
  "framed_port op cap \<longleftrightarrow> op_wireMode op = FramedBinary \<and> payloadCapacity (op_fragmenter op) = cap"

lemma decodeMessage_id [simp]: "decodeMessage lib (m\<lparr>msg_messageId := i\<rparr>) = decodeMessage lib m"
  by (simp add: decodeMessage_def decodeControl_def decodeRpc_def decodeStream_def)

lemma sendMessage_delivers:
  assumes "framed_port op cap" and "0 < cap" and "carries cap (1024 * 1024) m"
  shows "\<exists>op' w. sendMessage snoc op m [] = (op', w) \<and> framed_port op' cap \<and> delivers lib w [m]"
proof -
  have "0 < payloadCapacity (op_fragmenter op)" "carries (payloadCapacity (op_fragmenter op)) (1024 * 1024) m"
    using assms by (simp_all add: framed_port_def)
  from sendMessage_received [OF this, of lib "handlePayload lib"]
  obtain op' w where w: "\<And>out. sendMessage snoc op m out = (op', out @ w)"
    "op_wireMode op' = op_wireMode op" "payloadCapacity (op_fragmenter op') = payloadCapacity (op_fragmenter op)"
    "\<And>ys s. fold (inbound_frame lib (handlePayload lib)) (fst (decode_stream (concat w @ ys))) (MessageReassembler (1024 * 1024), s) =
       fold (inbound_frame lib (handlePayload lib)) (fst (decode_stream ys))
         (MessageReassembler (1024 * 1024), PayloadDecoder_onMessage lib (handlePayload lib)
           (m\<lparr>msg_messageId := mf_nextMessageId (op_fragmenter op)\<rparr>) s) \<and>
       snd (decode_stream (concat w @ ys)) = snd (decode_stream ys)" by auto
  have "delivers lib w [m]"
    using w(4) by (simp add: delivers_def receive_messages_def PayloadDecoder_onMessage_def)
  with w(1-3) assms(1) show ?thesis by (intro exI [of _ op'] exI [of _ w]) (simp add: framed_port_def)
qed

lemma delivers_feed:
  assumes "idle (co_inbound c)" and "delivers lib w ms" and "concat chunks = concat w"
  shows "core_feed lib c chunks = receive_messages lib ms c"
proof (rule core_feed_idle [OF assms(1)])
  let ?F = "inbound_frame lib (handlePayload lib)" and ?r = "MessageReassembler (1024 * 1024)"
  have all: "fold ?F (fst (decode_stream (concat w @ []))) (?r, c) =
      fold ?F (fst (decode_stream [])) (?r, receive_messages lib ms c)"
    "snd (decode_stream (concat w @ [])) = snd (decode_stream [])"
    using assms(2) unfolding delivers_def by blast+
  from all(2) assms(3) show "snd (decode_stream (concat chunks)) = []" by simp
  from all(1) assms(3) show "fold ?F (fst (decode_stream (concat chunks))) (?r, c) = (?r, receive_messages lib ms c)"
    by simp
qed (rule receive_messages_inbound)

section \<open>The opening handshake\<close>

lemma core_sendControl_delivers:
  assumes "framed_port (co_outbound c) cap" and "0 < cap" and "carries cap (1024 * 1024) (encodeControl p)"
  shows "\<exists>op' w. core_sendControl c p = enqueue_packets (co_outboundReplyTarget c) w (c\<lparr>co_outbound := op'\<rparr>) \<and>
     framed_port op' cap \<and> delivers lib w [encodeControl p]"
proof -
  obtain op' w where "sendMessage snoc (co_outbound c) (encodeControl p) [] = (op', w)" "framed_port op' cap"
    "delivers lib w [encodeControl p]" using sendMessage_delivers [OF assms, of lib] by blast
  then show ?thesis
    using assms(1) by (intro exI [of _ op'] exI [of _ w]) (simp add: core_sendControl_eq sendControl_def framed_port_def)
qed

lemma core_answerRpc_delivers:
  assumes "framed_port (co_outbound c) cap" and "0 < cap"
    and "\<And>m. encodeRpc lib p = Some m \<Longrightarrow> carries cap (1024 * 1024) m"
  shows "\<exists>op' w. core_answerRpc lib c p = enqueue_packets (co_outboundReplyTarget c) w (c\<lparr>co_outbound := op'\<rparr>) \<and>
     framed_port op' cap \<and> delivers lib w (case encodeRpc lib p of None \<Rightarrow> [] | Some m \<Rightarrow> [m])"
proof (cases "encodeRpc lib p")
  case None
  have "delivers lib [] []" by (simp add: delivers_def receive_messages_def)
  moreover have "core_answerRpc lib c p = enqueue_packets (co_outboundReplyTarget c) [] (c\<lparr>co_outbound := co_outbound c\<rparr>)"
    using None assms(1) by (cases c) (simp add: core_answerRpc_eq sendRpc_def framed_port_def enqueue_packets_def)
  ultimately show ?thesis using None assms(1) by (metis option.case(1))
next
  case (Some m)
  obtain op' w where "sendMessage snoc (co_outbound c) m [] = (op', w)" "framed_port op' cap" "delivers lib w [m]"
    using sendMessage_delivers [OF assms(1,2) assms(3) [OF Some], of lib] by blast
  then show ?thesis
    using assms(1) Some
    by (intro exI [of _ op'] exI [of _ w]) (simp add: core_answerRpc_eq sendRpc_def framed_port_def)
qed

lemma rpc_keeps_session:
  assumes "\<forall>m\<in>set ms. msg_payloadType m = PayloadType_Rpc"
  shows "co_controlSession (receive_messages lib ms c) = co_controlSession c"
proof -
  have "payload_notices q = []" if "decodeRpc lib m = Some q" for m q
    using that by (auto simp: decodeRpc_def Let_def split_beta split: if_splits)
  then have "co_controlSession (PayloadDecoder_onMessage lib (handlePayload lib) m c) = co_controlSession c"
    if "msg_payloadType m = PayloadType_Rpc" for m c
    using that by (simp add: PayloadDecoder_onMessage_def decodeMessage_def handlePayload_effect split: option.split)
  with assms show ?thesis by (induction ms arbitrary: c) (simp_all add: receive_messages_def)
qed

lemma encodeRpc_type: "encodeRpc lib p = Some m \<Longrightarrow> msg_payloadType m = PayloadType_Rpc"
  by (auto simp: encodeRpc_def Let_def split: if_splits option.splits)

lemma length_tlv_bytes: "\<forall>(t, v)\<in>set fs. length v \<le> 4 \<Longrightarrow> length (tlv_bytes fs) \<le> 6 * length fs"
  by (induction fs) (auto simp: tlv_bytes_def tlv_field_def)

lemma length_ControlTlv_encode: "length (ControlTlv_encode opts accept) \<le> 54"
proof -
  have "\<forall>(t, v)\<in>set (tlv_fields opts accept). length v \<le> 4"
    by (auto simp: tlv_fields_def tlv_number_def)
  moreover have "length (tlv_fields opts accept) \<le> 9" by (simp add: tlv_fields_def)
  ultimately show ?thesis using length_tlv_bytes by (fastforce simp: ControlTlv_encode_eq)
qed

lemma carries_short:
  assumes "50 \<le> cap" and "length (msg_body m) \<le> 5000" and "isPayloadType (msg_payloadType m)"
  shows "carries cap (1024 * 1024) m"
proof -
  have "length (msg_body m) + cap - 1 < 256 * cap" using assms(1,2) by linarith
  then have "(length (msg_body m) + cap - 1) div cap < 256"
    using assms(1) by (simp add: div_less_iff_less_mult)
  then show ?thesis using assms by (simp add: carries_def frames_needed_def min_less_iff_disj)
qed

lemma carries_control:
  "50 \<le> cap \<Longrightarrow> length (cp_body p) \<le> 54 \<Longrightarrow> carries cap (1024 * 1024) (encodeControl p)"
  using length_ControlTlv_encode [of "cp_tlv p" True] length_ControlTlv_encode [of "cp_tlv p" False]
  by (intro carries_short) (auto simp: encodeControl_eq control_body_def isPayloadType_def)

text \<open>The OPEN a client sends, and the ACCEPT a server answers it with.\<close>

lemma open_message:
  assumes "makeOpen cs i = (p, cs')"
  shows "decodeMessage lib (encodeControl p) = Some (PControl (ControlPayload_default\<lparr>cp_opcode := ControlOpcode_Open,
       cp_controlId := i, cp_statusCode := ErrorCode_Success,
       cp_tlv := tlv_received (defaultsForOpen\<lparr>tlv_heartbeatIntervalMs := cs_requestedHeartbeatIntervalMs cs\<rparr>) False,
       cp_body := control_body p\<rparr>))"
    and "length (cp_body p) \<le> 54"
proof -
  let ?t = "defaultsForOpen\<lparr>tlv_heartbeatIntervalMs := cs_requestedHeartbeatIntervalMs cs\<rparr>"
  have p: "cp_opcode p = ControlOpcode_Open" "cp_controlId p = i" "cp_statusCode p = ErrorCode_Success"
    "control_body p = ControlTlv_encode ?t False" "cp_body p = ControlTlv_encode ?t False"
    using assms by (auto simp: makeOpen_def Let_def control_body_def ControlPayload_default_def)
  have "tlv_sendable ?t" by (simp add: tlv_sendable_def defaultsForOpen_def ControlTlvOptions_default_def)
  from ControlTlv_roundtrip [OF this, of False]
  show "decodeMessage lib (encodeControl p) = Some (PControl (ControlPayload_default\<lparr>cp_opcode := ControlOpcode_Open,
       cp_controlId := i, cp_statusCode := ErrorCode_Success, cp_tlv := tlv_received ?t False, cp_body := control_body p\<rparr>))"
    by (simp add: decodeMessage_def encodeControl_eq decodeControl_bytes p(1-4))
  show "length (cp_body p) \<le> 54" by (simp add: p(5) length_ControlTlv_encode)
qed

lemma accept_message:
  assumes "cp_opcode q = ControlOpcode_Open" and "opens_as_server q"
    and "ControlSession_handle cs q = (Some r, cs')"
    and "tlv_hasMaxFrameSize (cp_tlv q) \<longrightarrow> tlv_maxFrameSize (cp_tlv q) \<le> 0xFFFF"
    and "tlv_hasMtu (cp_tlv q) \<longrightarrow> tlv_mtu (cp_tlv q) \<le> 0xFFFF"
  shows "decodeMessage lib (encodeControl r) = Some (PControl (ControlPayload_default\<lparr>cp_opcode := ControlOpcode_Accept,
       cp_controlId := cp_controlId q, cp_statusCode := ErrorCode_Success,
       cp_tlv := tlv_received (defaultsForAccept (cp_tlv q)) True, cp_body := control_body r\<rparr>))"
    and "length (cp_body r) \<le> 54"
proof -
  let ?t = "defaultsForAccept (cp_tlv q)"
  have r: "cp_opcode r = ControlOpcode_Accept" "cp_controlId r = cp_controlId q" "cp_statusCode r = ErrorCode_Success"
    "control_body r = ControlTlv_encode ?t True" "cp_body r = ControlTlv_encode ?t True"
    using assms(1-3)
    by (auto simp: ControlSession_handle_def Let_def makeControlResponse_def ControlPayload_default_def
        control_body_def opens_as_server_def tlv_valid_defaultsForAccept split: if_splits)
  have "tlv_sendable ?t"
    using assms(4,5) by (simp add: tlv_sendable_def defaultsForAccept_def ControlTlvOptions_default_def Let_def)
  from ControlTlv_roundtrip [OF this, of True]
  show "decodeMessage lib (encodeControl r) = Some (PControl (ControlPayload_default\<lparr>cp_opcode := ControlOpcode_Accept,
       cp_controlId := cp_controlId q, cp_statusCode := ErrorCode_Success, cp_tlv := tlv_received ?t True,
       cp_body := control_body r\<rparr>))"
    by (simp add: decodeMessage_def encodeControl_eq decodeControl_bytes r(1-4))
  show "length (cp_body r) \<le> 54" by (simp add: r(5) length_ControlTlv_encode)
qed

definition outbound_bytes :: "axtp_core \<Rightarrow> bytes list" where
  "outbound_bytes c = map pk_bytes (co_outboundBytes c)"

lemma outbound_bytes_enqueue [simp]: "outbound_bytes (enqueue_packets t w c) = outbound_bytes c @ w"
  by (simp add: outbound_bytes_def enqueue_packets_def o_def)

lemma outbound_bytes_update [simp]:
  "outbound_bytes (c\<lparr>co_outbound := op\<rparr>) = outbound_bytes c"
  "outbound_bytes (c\<lparr>co_controlSession := cs\<rparr>) = outbound_bytes c"
  "outbound_bytes (c\<lparr>co_controlNotices := n\<rparr>) = outbound_bytes c"
  "outbound_bytes (c\<lparr>co_inboundActivityGeneration := g\<rparr>) = outbound_bytes c"
  by (simp_all add: outbound_bytes_def)

lemma enqueue_packets_simps [simp]:
  "co_outbound (enqueue_packets t w c) = co_outbound c" "co_controlSession (enqueue_packets t w c) = co_controlSession c"
  "co_inbound (enqueue_packets t w c) = co_inbound c"
  by (simp_all add: enqueue_packets_def)

definition hello_messages :: "json_lib \<Rightarrow> message list" where
  "hello_messages lib = (case encodeRpc lib makeHello of None \<Rightarrow> [] | Some m \<Rightarrow> [m])"

lemma hello_messages_rpc: "\<forall>m\<in>set (hello_messages lib). msg_payloadType m = PayloadType_Rpc"
  by (cases "encodeRpc lib makeHello") (simp_all add: hello_messages_def encodeRpc_type)

definition hello_fits :: "json_lib \<Rightarrow> bool" where
  "hello_fits lib \<longleftrightarrow> (\<forall>text. JsonRpcEncoder_encode lib makeHello = Some text \<longrightarrow> length text < 5000)"

lemma hello_carries: "hello_fits lib \<Longrightarrow> 50 \<le> cap \<Longrightarrow> encodeRpc lib makeHello = Some m \<Longrightarrow> carries cap (1024 * 1024) m"
  by (rule carries_short)
    (auto simp: encodeRpc_def Let_def fst_takeBytes hello_fits_def makeHello_def isJsonBinaryRpcEncoding_def
      kRpcEncodingJsonBinaryValue_def RpcPayload_default_def PayloadMeta_default_def isPayloadType_def
      split: if_splits option.splits)

lemma server_opens:
  assumes port: "framed_port (co_outbound s) cap" "50 \<le> cap" and hello: "hello_fits lib"
    and q: "cp_opcode q = ControlOpcode_Open" "opens_as_server q"
    and handled: "ControlSession_handle (co_controlSession s) q = (Some r, cs')" and body: "length (cp_body r) \<le> 54"
  shows "\<exists>w. outbound_bytes (handleControl lib q s) = outbound_bytes s @ w \<and>
     delivers lib w (encodeControl r # hello_messages lib)"
proof -
  obtain s1 where s1: "s1 = s\<lparr>co_inboundActivityGeneration := co_inboundActivityGeneration s + 1,
    co_controlSession := cs', co_controlNotices := co_controlNotices s @ [q]\<rparr>" by blast
  then have "framed_port (co_outbound s1) cap" "0 < cap" using port by simp_all
  from core_sendControl_delivers [OF this, of r lib] carries_control [OF port(2) body]
  obtain op1 w1 where w1: "core_sendControl s1 r = enqueue_packets (co_outboundReplyTarget s1) w1 (s1\<lparr>co_outbound := op1\<rparr>)"
    "framed_port op1 cap" "delivers lib w1 [encodeControl r]" by blast
  obtain s2 where s2: "s2 = core_sendControl s1 r" by blast
  then have "framed_port (co_outbound s2) cap" using w1(1,2) by simp
  from core_answerRpc_delivers [OF this \<open>0 < cap\<close>] hello_carries [OF hello port(2)]
  obtain op2 w2 where w2: "core_answerRpc lib s2 makeHello =
      enqueue_packets (co_outboundReplyTarget s2) w2 (s2\<lparr>co_outbound := op2\<rparr>)"
    "delivers lib w2 (hello_messages lib)" unfolding hello_messages_def by blast
  have "cs_open cs'" using handle_open [of "co_controlSession s" q] handled q by simp
  then have "handleControl lib q s = core_answerRpc lib s2 makeHello"
    using handled q(1) by (simp add: handleControl_def Let_def core_sent s1 s2)
  moreover have "outbound_bytes s2 = outbound_bytes s @ w1" by (simp add: s2 w1(1)) (simp add: s1)
  ultimately have "outbound_bytes (handleControl lib q s) = outbound_bytes s @ w1 @ w2"
    by (simp add: w2(1))
  moreover have "delivers lib (w1 @ w2) (encodeControl r # hello_messages lib)"
    using delivers_append [OF w1(3) w2(2)] by simp
  ultimately show ?thesis by blast
qed

text \<open>A fresh core on a framed transport.\<close>

definition fresh_core :: "transport_profile \<Rightarrow> u32 \<Rightarrow> axtp_core" where
  "fresh_core profile heartbeat =
     configure (core_setRequestedHeartbeatInterval AxtpCore heartbeat) profile"

definition clamp_heartbeat :: "u32 \<Rightarrow> u32" where
  "clamp_heartbeat h = (if h < 500 then 500 else if h > 60000 then 60000 else h)"

lemma fresh_core:
  assumes "tp_wireMode profile = FramedBinary" and "64 \<le> tp_preferredFrameSize profile"
  shows "framed_port (co_outbound (fresh_core profile h)) (tp_preferredFrameSize profile - 14)"
    "idle (co_inbound (fresh_core profile h))" "outbound_bytes (fresh_core profile h) = []"
    "cs_requestedHeartbeatIntervalMs (co_controlSession (fresh_core profile h)) = clamp_heartbeat h"
  using assms
  by (auto simp: fresh_core_def configure_def Let_def core_setRequestedHeartbeatInterval_def AxtpCore_def
      framed_port_def setOutboundWireMode_def setOutboundMaxFrameSize_def setMaxFrameSize_def OutboundProcessor_def
      MessageFragmenter_def payloadCapacity_def kStandardFrameHeaderSize_def kStandardFrameCrcSize_def idle_def
      setInboundWireMode_def InboundProcessor_def outbound_bytes_def setRequestedHeartbeatInterval_def
      kMinHeartbeatIntervalMs_def kMaxHeartbeatIntervalMs_def clamp_heartbeat_def)

lemma clamp_heartbeat_range: "500 \<le> clamp_heartbeat h \<and> clamp_heartbeat h \<le> 60000"
  by (auto simp: clamp_heartbeat_def not_less)

section \<open>Properties\<close>

lemma open_sent:
  assumes "tp_wireMode profile = FramedBinary" and "64 \<le> tp_preferredFrameSize profile"
    and "client = sendControlOpen (fresh_core profile h) i"
  obtains p q where "delivers lib (outbound_bytes client) [encodeControl p]"
    and "cs_pendingOpenId (co_controlSession client) = Some i" and "idle (co_inbound client)"
    and "decodeMessage lib (encodeControl p) = Some (PControl q)" and "cp_opcode q = ControlOpcode_Open" and "cp_controlId q = i"
    and "cp_tlv q = tlv_received (defaultsForOpen\<lparr>tlv_heartbeatIntervalMs := clamp_heartbeat h\<rparr>) False"
proof -
  let ?cap = "tp_preferredFrameSize profile - 14" and ?c0 = "fresh_core profile h"
  note c0 = fresh_core [OF assms(1,2), of h]
  have cap: "50 \<le> ?cap" "0 < ?cap" using assms(2) by simp_all
  obtain p cs where p: "makeOpen (co_controlSession ?c0) i = (p, cs)" by fastforce
  have cs: "cs_pendingOpenId cs = Some i" using p by (auto simp: makeOpen_def Let_def)
  have "framed_port (co_outbound (?c0\<lparr>co_controlSession := cs\<rparr>)) ?cap" using c0(1) by simp
  from core_sendControl_delivers [OF this cap(2) carries_control [OF cap(1) open_message(2) [OF p]], of lib]
  obtain op1 w1 where w1: "core_sendControl (?c0\<lparr>co_controlSession := cs\<rparr>) p = enqueue_packets
      (co_outboundReplyTarget (?c0\<lparr>co_controlSession := cs\<rparr>)) w1 (?c0\<lparr>co_controlSession := cs, co_outbound := op1\<rparr>)"
    "delivers lib w1 [encodeControl p]" by blast
  have client: "client = core_sendControl (?c0\<lparr>co_controlSession := cs\<rparr>) p"
    by (simp add: assms(3) sendControlOpen_def p)
  then have sent: "outbound_bytes client = w1" "co_controlSession client = cs" "idle (co_inbound client)"
    using c0(2,3) by (simp_all add: w1(1))
  obtain q where "decodeMessage lib (encodeControl p) = Some (PControl q)" "cp_opcode q = ControlOpcode_Open"
    "cp_controlId q = i" "cp_tlv q = tlv_received (defaultsForOpen\<lparr>tlv_heartbeatIntervalMs := clamp_heartbeat h\<rparr>) False"
    using open_message(1) [OF p, of lib] by (simp add: c0(4))
  with that w1(2) cs sent show thesis by metis
qed

text \<open>
  C12. Two fresh cores on a framed transport open a session: whatever chunks the client's OPEN
  arrives in, the server is open after it, and whatever chunks the server's answer arrives in, the
  client is open after it, with the heartbeat interval it asked for, moved into the range from 500 to
  60000 milliseconds. Frames have at least 64 bytes; the Hello the server adds has at most 5000.
\<close>

theorem open_handshake:
  assumes "tp_wireMode profile = FramedBinary" and "64 \<le> tp_preferredFrameSize profile"
    and "hello_fits lib"
    and "client = sendControlOpen (fresh_core profile h) i"
    and "concat up = concat (outbound_bytes client)"
    and "server = core_feed lib (fresh_core profile h') up"
    and "concat down = concat (outbound_bytes server)"
  shows "cs_open (co_controlSession server) \<and> cs_open (co_controlSession (core_feed lib client down)) \<and>
     negotiatedHeartbeatIntervalMs (co_controlSession (core_feed lib client down)) = Some (clamp_heartbeat h)"
proof -
  let ?cap = "tp_preferredFrameSize profile - 14" and ?s0 = "fresh_core profile h'"
  note s0 = fresh_core [OF assms(1,2), of h']
  have cap: "50 \<le> ?cap" using assms(2) by simp
  obtain p q where sent: "delivers lib (outbound_bytes client) [encodeControl p]"
    "cs_pendingOpenId (co_controlSession client) = Some i" "idle (co_inbound client)"
    and q: "decodeMessage lib (encodeControl p) = Some (PControl q)" "cp_opcode q = ControlOpcode_Open" "cp_controlId q = i"
    "cp_tlv q = tlv_received (defaultsForOpen\<lparr>tlv_heartbeatIntervalMs := clamp_heartbeat h\<rparr>) False"
    by (rule open_sent [OF assms(1,2,4), of lib]) blast
  have os: "opens_as_server q" "tlv_hasMaxFrameSize (cp_tlv q) \<longrightarrow> tlv_maxFrameSize (cp_tlv q) \<le> 0xFFFF"
    "tlv_hasMtu (cp_tlv q) \<longrightarrow> tlv_mtu (cp_tlv q) \<le> 0xFFFF" "tlv_heartbeatIntervalMs (cp_tlv q) = clamp_heartbeat h"
    "tlv_hasHeartbeatIntervalMs (cp_tlv q)"
    by (simp_all add: opens_as_server_def q tlv_received_def defaultsForOpen_def ControlTlvOptions_default_def Let_def)
  have "server = receive_messages lib [encodeControl p] ?s0"
    using delivers_feed [OF s0(2) sent(1)] assms(5,6) by simp
  then have server: "server = handleControl lib q ?s0"
    by (simp add: receive_messages_def PayloadDecoder_onMessage_def q(1))
  obtain r cs' where r: "ControlSession_handle (co_controlSession ?s0) q = (Some r, cs')"
    using handle_response [of "co_controlSession ?s0" q] q(2)
    by (cases "ControlSession_handle (co_controlSession ?s0) q") (auto simp: answer_opcode_def)
  note acc = accept_message [OF q(2) os(1) r os(2,3)]
  obtain w2 where w2: "outbound_bytes server = w2" "delivers lib w2 (encodeControl r # hello_messages lib)"
    using server_opens [OF s0(1) cap assms(3) q(2) os(1) r acc(2)] by (auto simp: server s0(3))
  obtain a where a: "decodeMessage lib (encodeControl r) = Some (PControl a)" "cp_opcode a = ControlOpcode_Accept"
    "cp_controlId a = i" "cp_statusCode a = ErrorCode_Success" "cp_tlv a = tlv_received (defaultsForAccept (cp_tlv q)) True"
    using acc(1) [of lib] by (simp add: q(3))
  have tlv: "tlv_valid (cp_tlv a)" "tlv_hasHeartbeatIntervalMs (cp_tlv a)" "tlv_heartbeatIntervalMs (cp_tlv a) = clamp_heartbeat h"
    by (simp_all add: a(5) tlv_received_def defaultsForAccept_def os(4,5) Let_def)
  have "core_feed lib client down = receive_messages lib (encodeControl r # hello_messages lib) client"
    using delivers_feed [OF sent(3) w2(2)] assms(7) w2(1) by simp
  then have "co_controlSession (core_feed lib client down) = co_controlSession (handleControl lib a client)"
    using rpc_keeps_session [OF hello_messages_rpc, of lib lib "handleControl lib a client"]
    by (simp add: receive_messages_def PayloadDecoder_onMessage_def a(1))
  then have final: "co_controlSession (core_feed lib client down) = snd (ControlSession_handle (co_controlSession client) a)"
    by (simp add: handleControl_effect)
  have "accepts (cs_pendingOpenId (co_controlSession client)) a" by (simp add: accepts_def sent(2) a(2-4) tlv(1))
  then show ?thesis
    using clamp_heartbeat_range [of h] handle_open [of "co_controlSession client" a] handle_accepted [of "co_controlSession client" a] a(2) tlv(2,3)
      handle_open [of "co_controlSession ?s0" q] q(2) os(1)
    by (simp add: final server handleControl_effect negotiatedHeartbeatIntervalMs_def kMinHeartbeatIntervalMs_def
        kMaxHeartbeatIntervalMs_def not_less Let_def)
qed

text \<open>A library that prints every value as the same two characters, as example parameter.\<close>

definition braces_lib :: json_lib where
  "braces_lib = \<lparr>jl_parse = (\<lambda>s. if s = ''{}'' then Some JNull else None),
     jl_dump = (\<lambda>_. Some ''{}''), jl_float_to_int64 = (\<lambda>_. 0)\<rparr>"

definition example_client :: axtp_core where
  "example_client = sendControlOpen (fresh_core TransportProfile_default 750) 7"

definition example_server :: axtp_core where
  "example_server =
     core_feed braces_lib (fresh_core TransportProfile_default 0) (map (\<lambda>b. [b]) (concat (outbound_bytes example_client)))"

theorem open_handshake_witness:
  "negotiatedHeartbeatIntervalMs (co_controlSession
    (core_feed braces_lib example_client [concat (outbound_bytes example_server)])) = Some 750"
proof -
  have "hello_fits braces_lib"
    by (simp add: hello_fits_def JsonRpcEncoder_encode_def makeHello_def serializeHello_def braces_lib_def
        RpcPayload_default_def bytes_of_string_def)
  then show ?thesis
    using open_handshake [of TransportProfile_default braces_lib example_client 750 7
        "map (\<lambda>b. [b]) (concat (outbound_bytes example_client))" example_server 0
        "[concat (outbound_bytes example_server)]"]
    by (simp add: example_client_def example_server_def TransportProfile_default_def clamp_heartbeat_def)
qed

section \<open>Queues, session ids and late responses\<close>

lemma takeLoop_none: "\<forall>x\<in>set queue. \<not> matches x \<Longrightarrow> takeLoop matches (length queue) (queue @ passed) = (None, passed @ queue)"
proof (induction queue arbitrary: passed)
  case (Cons x queue)
  from Cons.IH [of "passed @ [x]"] Cons.prems show ?case by simp
qed simp

lemma takeLoop_first:
  "\<forall>x\<in>set us. \<not> matches x \<Longrightarrow> matches x \<Longrightarrow>
     takeLoop matches (length us + Suc n) (us @ x # vs) = (Some x, vs @ us)"
proof (induction us arbitrary: vs)
  case (Cons u us)
  from Cons.IH [of "vs @ [u]"] Cons.prems show ?case by simp
qed simp

text \<open>Eight hexadecimal digits determine the word.\<close>

lemma hex_digit_inject: "a < 16 \<Longrightarrow> b < 16 \<Longrightarrow> hex_digit a = hex_digit b \<longleftrightarrow> a = b"
proof -
  have "distinct ''0123456789ABCDEF''" "length ''0123456789ABCDEF'' = 16" by simp_all
  moreover assume "a < 16" "b < 16"
  ultimately show ?thesis unfolding hex_digit_def by (metis nth_eq_iff_index_eq)
qed

lemma nibble_less: "unat (drop_bit k (w :: u32) AND 0xF) < 16"
proof -
  have "drop_bit k w AND 0xF = take_bit 4 (drop_bit k w)" by (simp add: take_bit_eq_mask mask_numeral)
  then show ?thesis using take_bit_nat_less_exp [of 4 "unat (drop_bit k w)"]
    by (simp add: unsigned_take_bit_eq)
qed

lemma hex8_inject: "hex8 a = hex8 b \<longleftrightarrow> a = b"
proof
  assume "hex8 a = hex8 b"
  then have "\<forall>k\<in>set [28, 24, 20, 16, 12, 8, 4, 0].
      hex_digit (unat (drop_bit k a AND 0xF)) = hex_digit (unat (drop_bit k b AND 0xF))"
    unfolding hex8_def map_eq_conv .
  then have nib: "\<forall>k\<in>{28, 24, 20, 16, 12, 8, 4, 0}. drop_bit k a AND 0xF = drop_bit k b AND 0xF"
    unfolding hex_digit_inject [OF nibble_less nibble_less] word_unat_eq_iff by (simp only: set_simps)
  show "a = b"
  proof (rule bit_word_eqI)
    fix n :: nat
    assume "n < LENGTH(32)"
    then have n: "n < 32" by simp
    let ?k = "4 * (n div 4)"
    have "?k \<in> {28, 24, 20, 16, 12, 8, 4, 0}" using n by (simp, presburger)
    with nib have "bit (drop_bit ?k a AND 0xF) (n mod 4) = bit (drop_bit ?k b AND 0xF) (n mod 4)" by metis
    moreover have "bit (0xF :: u32) (n mod 4)"
    proof -
      have "n mod 4 = 0 \<or> n mod 4 = 1 \<or> n mod 4 = 2 \<or> n mod 4 = 3" by presburger
      then show ?thesis by (elim disjE) (simp_all add: bit_simps)
    qed
    ultimately show "bit a n = bit b n" by (simp add: bit_simps)
  qed
qed simp

lemma length_hex8: "length (hex8 w) = 8"
  by (simp add: hex8_def)

lemma hex8_digits: "set (hex8 w) \<subseteq> set ''0123456789ABCDEF''"
proof -
  have "hex_digit (unat (drop_bit k w AND 0xF)) \<in> set ''0123456789ABCDEF''" for k
    using nibble_less [of k w] unfolding hex_digit_def by (intro nth_mem) simp
  then show ?thesis unfolding hex8_def set_map by blast
qed

text \<open>The multiplier is odd, so different session numbers give different products.\<close>

lemma golden_inject: "(n :: u32) * 0x9E3779B9 = m * 0x9E3779B9 \<longleftrightarrow> n = m"
proof
  assume "n * 0x9E3779B9 = m * 0x9E3779B9"
  then have "n * (0x9E3779B9 * 0x144CBC89) = m * (0x9E3779B9 * 0x144CBC89)"
    unfolding mult.assoc [symmetric] by (rule arg_cong)
  moreover have "(0x9E3779B9 * 0x144CBC89 :: u32) = 1" by simp
  ultimately show "n = m" by (simp only: mult_1_right)
qed simp

text \<open>
  C13. What a core makes of the payloads sent to it, at byte level: for any sequence of binary
  payloads and any chunks, it queues exactly one event for each request, event and stream payload,
  in order and with the reply target or ingress token provided for it; its call table makes the step
  of each response, and no other; control notices and session messages are queued in order; the
  control session handles each control payload; every payload counts as activity once.
\<close>

theorem core_ingress:
  assumes "op_wireMode op = FramedBinary" and "0 < payloadCapacity (op_fragmenter op)"
    and "\<forall>p\<in>set ps. binary_payload p \<and>
           carries (payloadCapacity (op_fragmenter op)) (1024 * 1024) (payload_message p)"
    and "idle (co_inbound c)" and "qs = map received_payload ps"
  shows "\<exists>op' written. sendPayloads lib op ps [] = Some (op', written) \<and>
     (\<forall>chunks. concat chunks = concat written \<longrightarrow>
       (let c' = core_feed lib c chunks in
          co_events c' = co_events c @ ingress_events (co_ingressReplyTargetProvider c)
            (co_ingressTokenProvider c) (co_inboundActivityGeneration c) qs \<and>
          co_pendingCalls c' = snd (call_run (co_pendingCalls c) (concat (map payload_calls qs))) \<and>
          co_controlNotices c' = co_controlNotices c @ concat (map payload_notices qs) \<and>
          co_sessionRpcs c' = co_sessionRpcs c @ concat (map payload_session_rpcs qs) \<and>
          co_controlSession c' = ControlSession_receive (co_controlSession c) (concat (map payload_notices qs)) \<and>
          co_inboundActivityGeneration c' = co_inboundActivityGeneration c + word_of_nat (length ps) \<and>
          co_inbound c' = co_inbound c))"
proof -
  obtain op' w where w: "sendPayloads lib op ps [] = Some (op', w)"
    "\<And>ip s chunks. idle ip \<Longrightarrow> concat chunks = concat w \<Longrightarrow>
       InboundProcessor_feed lib (handlePayload lib) (ip, s) chunks = (ip, fold (handlePayload lib) qs s)"
    using payloads_reach_sink [OF assms(1-3), of lib, where 's = axtp_core] assms(5) by auto
  show ?thesis
    by (intro exI [of _ op'] exI [of _ w]) (simp add: w core_feed_eq assms(4) core_receives [of lib qs], simp add: assms(5))
qed

theorem core_ingress_witness:
  "\<exists>op' written. sendPayloads braces_lib (OutboundProcessor 64) example_payloads [] = Some (op', written) \<and>
     map ce_type (co_events (core_feed braces_lib (fresh_core TransportProfile_default 0) written)) =
       [CE_RpcRequest, CE_StreamData]"
proof -
  have "\<forall>p\<in>set example_payloads. binary_payload p \<and>
      carries (payloadCapacity (op_fragmenter (OutboundProcessor 64))) (1024 * 1024) (payload_message p)"
    by (auto simp: OutboundProcessor_def payloadCapacity_def MessageFragmenter_def kStandardFrameHeaderSize_def
        kStandardFrameCrcSize_def example_payloads_def binary_rpc_def jsonBinaryRpcEncoding_def carries_def
        kRpcEncodingJsonBinaryValue_def isJsonBinaryRpcEncoding_def RpcPayload_default_def PayloadMeta_default_def
        encodeControl_eq encodeStream_eq control_body_def ControlPayload_default_def StreamPayload_default_def
        isPayloadType_def frames_needed_def rpc_bytes_def)
  then obtain op' w where "sendPayloads braces_lib (OutboundProcessor 64) example_payloads [] = Some (op', w)"
    "co_events (core_feed braces_lib (fresh_core TransportProfile_default 0) w) =
       ingress_events None None 0 (map received_payload example_payloads)"
    using core_ingress [of "OutboundProcessor 64" example_payloads "fresh_core TransportProfile_default 0" _ braces_lib]
      fresh_core(2) [of TransportProfile_default 0]
    by (auto simp: OutboundProcessor_def payloadCapacity_def MessageFragmenter_def kStandardFrameHeaderSize_def
        kStandardFrameCrcSize_def TransportProfile_default_def fresh_core_def configure_def
        core_setRequestedHeartbeatInterval_def AxtpCore_def Let_def)
  then show ?thesis
    by (intro exI [of _ op'] exI [of _ w])
      (simp add: example_payloads_def RpcPayload_default_def event_rpcRequest_def event_streamData_def CoreEvent_default_def)
qed

text \<open>
  Late, repeated and unsolicited responses are consumed without a trace: a core that receives
  responses to calls it has not pending changes its activity count and nothing else - no packet is
  sent, no event queued and no other call disturbed.
\<close>

theorem late_responses_ignored:
  assumes "\<forall>q\<in>set qs. \<exists>p. q = PRpc p \<and> rp_op p \<in> {RpcOp_RequestResponse, RpcOp_RequestBatchResponse} \<and>
      \<not> pm_localGeneratedResponse (rp_meta p) \<and> rp_requestId p \<noteq> 0 \<and>
      \<not> isPending (co_pendingCalls c) (rp_requestId p)"
  shows "fold (handlePayload lib) qs c =
     c\<lparr>co_inboundActivityGeneration := co_inboundActivityGeneration c + word_of_nat (length qs)\<rparr>"
proof -
  have step: "handlePayload lib q d = d\<lparr>co_inboundActivityGeneration := co_inboundActivityGeneration d + 1\<rparr>"
    if "q \<in> set qs" "co_pendingCalls d = co_pendingCalls c" for q d
    using assms that by (auto simp: handleRpc_def handleResponse_def Let_def)
  have "fold (handlePayload lib) rs d =
      d\<lparr>co_inboundActivityGeneration := co_inboundActivityGeneration d + word_of_nat (length rs)\<rparr>"
    if "set rs \<subseteq> set qs" "co_pendingCalls d = co_pendingCalls c" for rs d
    using that by (induction rs arbitrary: d) (simp_all add: step add.assoc)
  then show ?thesis by simp
qed

theorem late_responses_ignored_witness:
  "fold (handlePayload braces_lib) [PRpc (RpcPayload_default\<lparr>rp_op := RpcOp_RequestResponse, rp_requestId := 9\<rparr>)] AxtpCore =
     AxtpCore\<lparr>co_inboundActivityGeneration := 1\<rparr>"
  using late_responses_ignored [of "[PRpc (RpcPayload_default\<lparr>rp_op := RpcOp_RequestResponse, rp_requestId := 9\<rparr>)]" AxtpCore]
  by (simp add: RpcPayload_default_def PayloadMeta_default_def AxtpCore_def PendingCallTable_empty_def isPending_def)

text \<open>
  Session ids are eight upper-case hexadecimal digits, and two sessions opened with the same
  random seed at different session numbers get different ids, unless the mix of seed and number is
  zero, when the next session number is used in its place.
\<close>

theorem session_ids_distinct:
  assumes "co_nextSessionId c \<noteq> co_nextSessionId d"
    and "seed XOR (co_nextSessionId c * 0x9E3779B9) \<noteq> 0" and "seed XOR (co_nextSessionId d * 0x9E3779B9) \<noteq> 0"
  shows "fst (makeSessionId c seed) \<noteq> fst (makeSessionId d seed) \<and>
     length (fst (makeSessionId c seed)) = 8 \<and> set (fst (makeSessionId c seed)) \<subseteq> set ''0123456789ABCDEF''"
proof -
  have "fst (makeSessionId c seed) = hex8 (seed XOR (co_nextSessionId c * 0x9E3779B9))"
    "fst (makeSessionId d seed) = hex8 (seed XOR (co_nextSessionId d * 0x9E3779B9))"
    using assms(2,3) by (simp_all add: makeSessionId_def Let_def)
  with assms(1) show ?thesis
    by (simp add: hex8_inject length_hex8 hex8_digits word_xor_left_cancel golden_inject del: set_simps)
qed

theorem session_ids_distinct_witness:
  "fst (makeSessionId AxtpCore 5) \<noteq> fst (makeSessionId (snd (makeSessionId AxtpCore 5)) 5)"
  using session_ids_distinct [of AxtpCore "snd (makeSessionId AxtpCore 5)" 5]
  by (simp add: makeSessionId_def AxtpCore_def Let_def)

text \<open>
  The seed comes from the client, so session ids are predictable and can be made to collide: for
  every seed and any two session numbers there is a seed for the second that gives the id of the first.
\<close>

theorem session_id_chosen:
  assumes "seed XOR (co_nextSessionId c * 0x9E3779B9) \<noteq> 0"
  shows "fst (makeSessionId d (seed XOR (co_nextSessionId c * 0x9E3779B9) XOR (co_nextSessionId d * 0x9E3779B9))) =
     fst (makeSessionId c seed)"
  using assms by (simp add: makeSessionId_def Let_def xor.assoc)

theorem session_id_chosen_witness:
  "fst (makeSessionId (snd (makeSessionId AxtpCore 5)) (5 XOR 0x9E3779B9 XOR 0x3C6EF372)) = fst (makeSessionId AxtpCore 5)"
  using session_id_chosen [of 5 AxtpCore "snd (makeSessionId AxtpCore 5)"]
  by (simp add: makeSessionId_def AxtpCore_def Let_def hex8_inject)

text \<open>
  Taking a control notice for an opcode and id removes the first one that matches, and only
  that; the notices behind it are then in front of the notices that were before it, so a successful
  take rotates the queue. Without a match the queue is as it was.
\<close>

theorem control_notice_taken:
  assumes "\<forall>u\<in>set us. \<not> (cp_opcode u = opcode \<and> cp_controlId u = i)"
  shows "(co_controlNotices c = us @ x # vs \<longrightarrow> cp_opcode x = opcode \<and> cp_controlId x = i \<longrightarrow>
       tryTakeControlNoticeFor c opcode i = (Some x, c\<lparr>co_controlNotices := vs @ us\<rparr>)) \<and>
     (co_controlNotices c = us \<longrightarrow> tryTakeControlNoticeFor c opcode i = (None, c))"
  using takeLoop_first [where x = x and vs = vs, OF assms] takeLoop_none [OF assms, of "[]"]
  by (auto simp: tryTakeControlNoticeFor_def Let_def)

theorem control_notice_taken_witness:
  "snd (tryTakeControlNoticeFor (AxtpCore\<lparr>co_controlNotices :=
       [ControlPayload_default\<lparr>cp_controlId := 1\<rparr>, ControlPayload_default\<lparr>cp_controlId := 2\<rparr>,
        ControlPayload_default\<lparr>cp_controlId := 3\<rparr>]\<rparr>) ControlOpcode_Open 2) =
   AxtpCore\<lparr>co_controlNotices := [ControlPayload_default\<lparr>cp_controlId := 3\<rparr>, ControlPayload_default\<lparr>cp_controlId := 1\<rparr>]\<rparr>"
  using control_notice_taken [of "[ControlPayload_default\<lparr>cp_controlId := 1\<rparr>]" ControlOpcode_Open 2
      "AxtpCore\<lparr>co_controlNotices := [ControlPayload_default\<lparr>cp_controlId := 1\<rparr>, ControlPayload_default\<lparr>cp_controlId := 2\<rparr>,
        ControlPayload_default\<lparr>cp_controlId := 3\<rparr>]\<rparr>" "ControlPayload_default\<lparr>cp_controlId := 2\<rparr>"
      "[ControlPayload_default\<lparr>cp_controlId := 3\<rparr>]"]
  by (simp add: ControlPayload_default_def)

end
