(* ===== verification/Broker.thy ===== *)
theory Broker
  imports Core_Runtime "HOL-Library.Multiset"
begin

text \<open>
  The request router and the broker (\<^verbatim>\<open>business_router.hpp\<close>, \<^verbatim>\<open>basic_broker.hpp\<close>,
  \<^verbatim>\<open>broker_task.hpp\<close>, \<^verbatim>\<open>broker_context.hpp\<close>, \<^verbatim>\<open>business_executor.hpp\<close>, \<^verbatim>\<open>middleware_chain.hpp\<close>,
  \<^verbatim>\<open>broker_flow_control.hpp\<close>).

  Handlers, validators and polls are code of the application. They are functions that read and
  update an application state \<open>'u\<close>, and \<open>None\<close> is an exception they throw; they do not call back
  into the broker. An operation that may let an exception escape returns a flag, false when it did.
\<close>

section \<open>Tasks\<close>

datatype broker_task_type =
    BT_RpcRequest | BT_RpcEvent | BT_StreamOpen | BT_StreamData | BT_StreamClose | BT_ControlNotice

datatype broker_priority = BP_High | BP_Normal | BP_Low

record broker_context =
  bc_sessionId :: u32
  bc_requestId :: u32
  bc_methodOrEventId :: u32
  bc_encoding :: rpc_encoding
  bc_sourceProtocol :: source_protocol
  bc_traceId :: string
  bc_receivedAtMs :: u64
  bc_deadlineMs :: u64

definition BrokerContext_default :: broker_context where
  "BrokerContext_default = \<lparr>bc_sessionId = 0, bc_requestId = 0, bc_methodOrEventId = 0,
     bc_encoding = RpcEncoding_Json, bc_sourceProtocol = AxtpV1, bc_traceId = '''', bc_receivedAtMs = 0,
     bc_deadlineMs = 0\<rparr>"

record broker_task =
  bt_type :: broker_task_type
  bt_priority :: broker_priority
  bt_context :: broker_context
  bt_rpc :: rpc_payload
  bt_stream :: stream_payload
  bt_control :: control_payload

definition BrokerTask_default :: broker_task where
  "BrokerTask_default = \<lparr>bt_type = BT_RpcRequest, bt_priority = BP_Normal, bt_context = BrokerContext_default,
     bt_rpc = RpcPayload_default, bt_stream = StreamPayload_default, bt_control = ControlPayload_default\<rparr>"

definition fromCoreEvent :: "core_event \<Rightarrow> broker_task" where
  "fromCoreEvent event =
     (let task = BrokerTask_default in
      case ce_type event of
        CE_RpcRequest \<Rightarrow>
          task\<lparr>bt_type := BT_RpcRequest, bt_rpc := ce_rpc event,
            bt_context := (bt_context task)\<lparr>bc_sessionId := pm_sessionId (rp_meta (ce_rpc event)),
              bc_requestId := rp_requestId (ce_rpc event),
              bc_methodOrEventId := rp_methodOrEventId (ce_rpc event),
              bc_encoding := rp_encoding (ce_rpc event),
              bc_sourceProtocol := pm_sourceProtocol (rp_meta (ce_rpc event))\<rparr>\<rparr>
      | CE_RpcEvent \<Rightarrow>
          task\<lparr>bt_type := BT_RpcEvent, bt_rpc := ce_rpc event,
            bt_context := (bt_context task)\<lparr>bc_sessionId := pm_sessionId (rp_meta (ce_rpc event)),
              bc_methodOrEventId := rp_methodOrEventId (ce_rpc event),
              bc_encoding := rp_encoding (ce_rpc event),
              bc_sourceProtocol := pm_sourceProtocol (rp_meta (ce_rpc event))\<rparr>\<rparr>
      | CE_StreamOpen \<Rightarrow>
          task\<lparr>bt_type := BT_StreamOpen, bt_stream := ce_stream event,
            bt_context := (bt_context task)\<lparr>bc_sessionId := pm_sessionId (sp_meta (ce_stream event))\<rparr>\<rparr>
      | CE_StreamData \<Rightarrow>
          task\<lparr>bt_type := BT_StreamData, bt_stream := ce_stream event,
            bt_context := (bt_context task)\<lparr>bc_sessionId := pm_sessionId (sp_meta (ce_stream event))\<rparr>\<rparr>
      | CE_StreamClose \<Rightarrow>
          task\<lparr>bt_type := BT_StreamClose, bt_stream := ce_stream event,
            bt_context := (bt_context task)\<lparr>bc_sessionId := pm_sessionId (sp_meta (ce_stream event))\<rparr>\<rparr>
      | CE_ControlNotice \<Rightarrow>
          task\<lparr>bt_type := BT_ControlNotice, bt_control := ce_control event,
            bt_context := (bt_context task)\<lparr>bc_sessionId := pm_sessionId (cp_meta (ce_control event))\<rparr>\<rparr>
      | CE_ProtocolError \<Rightarrow> task\<lparr>bt_type := BT_ControlNotice\<rparr>)"

section \<open>BusinessRouter\<close>

record rpc_context =
  rc_sessionId :: u32
  rc_requestId :: u32
  rc_methodId :: u32
  rc_methodName :: string
  rc_encoding :: rpc_encoding
  rc_sourceProtocol :: source_protocol
  rc_endpoint :: endpoint_metadata

record rpc_request_view =
  rv_methodId :: u32
  rv_methodName :: string
  rv_requestId :: u32
  rv_encoding :: rpc_encoding
  rv_body :: bytes

record rpc_response_data =
  rs_encoding :: rpc_encoding
  rs_body :: bytes
  rs_overrideEncoding :: bool
  rs_statusCode :: error_code
  rs_overrideStatus :: bool

definition RpcResponseData_default :: rpc_response_data where
  "RpcResponseData_default = \<lparr>rs_encoding = RpcEncoding_Json, rs_body = [], rs_overrideEncoding = False,
     rs_statusCode = ErrorCode_Success, rs_overrideStatus = False\<rparr>"

text \<open>A poll may say "not yet" (\<open>Some None\<close>); a deferred handler may return an empty function (\<open>Some None\<close>).\<close>

type_synonym 'u raw_handler = "rpc_context \<Rightarrow> rpc_request_view \<Rightarrow> 'u \<Rightarrow> rpc_response_data option \<times> 'u"
type_synonym 'u method_handler = "rpc_payload \<Rightarrow> 'u \<Rightarrow> bytes option \<times> 'u"
type_synonym 'u json_handler = "rpc_context \<Rightarrow> string \<Rightarrow> 'u \<Rightarrow> string option \<times> 'u"
type_synonym 'u tlv_handler = "rpc_context \<Rightarrow> bytes \<Rightarrow> 'u \<Rightarrow> bytes option \<times> 'u"
type_synonym 'u deferred_poll = "'u \<Rightarrow> rpc_response_data option option \<times> 'u"
type_synonym 'u deferred_handler = "rpc_context \<Rightarrow> rpc_request_view \<Rightarrow> 'u \<Rightarrow> 'u deferred_poll option option \<times> 'u"
type_synonym 'u request_validator = "rpc_payload \<Rightarrow> 'u \<Rightarrow> error_code option \<times> 'u"

record 'u rpc_dispatch =
  rd_response :: rpc_payload
  rd_deferredPoll :: "'u deferred_poll option"

record 'u business_router =
  ro_registry :: method_registry
  ro_handlers :: "u32 \<rightharpoonup> 'u raw_handler"
  ro_deferredHandlers :: "u32 \<rightharpoonup> 'u deferred_handler"
  ro_validators :: "'u request_validator list"

definition BusinessRouter :: "'u business_router" where
  "BusinessRouter = \<lparr>ro_registry = fromGeneratedDefaults, ro_handlers = Map.empty,
     ro_deferredHandlers = Map.empty, ro_validators = []\<rparr>"

definition registerRequestValidator :: "'u business_router \<Rightarrow> 'u request_validator \<Rightarrow> 'u business_router" where
  "registerRequestValidator r validator = r\<lparr>ro_validators := ro_validators r @ [validator]\<rparr>"

definition registerRawMethod :: "'u business_router \<Rightarrow> u32 \<Rightarrow> 'u raw_handler \<Rightarrow> 'u business_router" where
  "registerRawMethod r methodId handler =
     (let r = r\<lparr>ro_deferredHandlers := (ro_deferredHandlers r)(methodId := None)\<rparr>
      in r\<lparr>ro_handlers := (ro_handlers r)(methodId \<mapsto> handler)\<rparr>)"

definition registerDeferredRawMethod :: "'u business_router \<Rightarrow> u32 \<Rightarrow> 'u deferred_handler \<Rightarrow> 'u business_router" where
  "registerDeferredRawMethod r methodId handler =
     (let r = r\<lparr>ro_handlers := (ro_handlers r)(methodId := None)\<rparr>
      in r\<lparr>ro_deferredHandlers := (ro_deferredHandlers r)(methodId \<mapsto> handler)\<rparr>)"

definition registerMethod :: "'u business_router \<Rightarrow> u32 \<Rightarrow> 'u method_handler \<Rightarrow> 'u business_router" where
  "registerMethod r methodId handler =
     registerRawMethod r methodId (\<lambda>context request u.
       let payload = RpcPayload_default\<lparr>rp_encoding := rv_encoding request, rp_op := RpcOp_Request,
             rp_requestId := rv_requestId request, rp_methodOrEventId := rv_methodId request,
             rp_meta := PayloadMeta_default\<lparr>pm_sourceProtocol := rc_sourceProtocol context,
               pm_sessionId := rc_sessionId context, pm_requestId := rc_requestId context,
               pm_jsonMethodOrEventName := rc_methodName context, pm_endpoint := rc_endpoint context\<rparr>,
             rp_body := rv_body request\<rparr>;
           (body, u) = handler payload u
       in (map_option (\<lambda>b. RpcResponseData_default\<lparr>rs_body := b\<rparr>) body, u))"

definition registerJsonMethod :: "'u business_router \<Rightarrow> u32 \<Rightarrow> 'u json_handler \<Rightarrow> 'u business_router" where
  "registerJsonMethod r methodId handler =
     registerRawMethod r methodId (\<lambda>context request u.
       let params = string_of_bytes (rv_body request);
           (result, u) = handler context params u
       in (map_option (\<lambda>t. RpcResponseData_default\<lparr>rs_encoding := RpcEncoding_Json,
             rs_body := bytes_of_string t, rs_overrideEncoding := True\<rparr>) result, u))"

definition registerJsonMethodNamed :: "'u business_router \<Rightarrow> string \<Rightarrow> 'u json_handler \<Rightarrow> 'u business_router" where
  "registerJsonMethodNamed r methodName handler =
     (case findMethodId (ro_registry r) methodName of
        None \<Rightarrow> r | Some methodId \<Rightarrow> registerJsonMethod r methodId handler)"

definition registerTlvMethod :: "'u business_router \<Rightarrow> u32 \<Rightarrow> 'u tlv_handler \<Rightarrow> 'u business_router" where
  "registerTlvMethod r methodId handler =
     registerRawMethod r methodId (\<lambda>context request u.
       let (body, u) = handler context (rv_body request) u
       in (map_option (\<lambda>b. RpcResponseData_default\<lparr>rs_encoding := jsonBinaryRpcEncoding,
             rs_body := b, rs_overrideEncoding := True\<rparr>) body, u))"

definition registerTlvMethodNamed :: "'u business_router \<Rightarrow> string \<Rightarrow> 'u tlv_handler \<Rightarrow> 'u business_router" where
  "registerTlvMethodNamed r methodName handler =
     (case findMethodId (ro_registry r) methodName of
        None \<Rightarrow> r | Some methodId \<Rightarrow> registerTlvMethod r methodId handler)"

definition applyResponseData :: "rpc_payload \<Rightarrow> rpc_response_data \<Rightarrow> rpc_payload" where
  "applyResponseData response data =
     (let response = (if rs_overrideEncoding data
            then response\<lparr>rp_encoding := rs_encoding data,
                   rp_bodyEncoding := bodyEncodingForRpcEncoding (rs_encoding data)\<rparr> else response);
          response = (if rs_overrideStatus data then response\<lparr>rp_statusCode := rs_statusCode data\<rparr> else response)
      in response\<lparr>rp_body := rs_body data\<rparr>)"

text \<open>The loop over the validators, which stops at the first code that is not success.\<close>

primrec runValidators :: "'u request_validator list \<Rightarrow> rpc_payload \<Rightarrow> 'u \<Rightarrow> error_code option \<times> 'u" where
  "runValidators [] request u = (Some ErrorCode_Success, u)"
| "runValidators (validator # validators) request u =
     (let (validation, u) = validator request u in
      case validation of
        None \<Rightarrow> (None, u)
      | Some code \<Rightarrow> if code \<noteq> ErrorCode_Success then (Some code, u) else runValidators validators request u)"

definition requestContext :: "'u business_router \<Rightarrow> rpc_payload \<Rightarrow> rpc_context" where
  "requestContext r request =
     \<lparr>rc_sessionId = pm_sessionId (rp_meta request), rc_requestId = rp_requestId request,
      rc_methodId = rp_methodOrEventId request,
      rc_methodName = (case findMethodName (ro_registry r) (rp_methodOrEventId request) of
                         Some name \<Rightarrow> name | None \<Rightarrow> ''''),
      rc_encoding = rp_encoding request, rc_sourceProtocol = pm_sourceProtocol (rp_meta request),
      rc_endpoint = pm_endpoint (rp_meta request)\<rparr>"

definition requestView :: "rpc_context \<Rightarrow> rpc_payload \<Rightarrow> rpc_request_view" where
  "requestView context request =
     \<lparr>rv_methodId = rp_methodOrEventId request, rv_methodName = rc_methodName context,
      rv_requestId = rp_requestId request, rv_encoding = rp_encoding request, rv_body = rp_body request\<rparr>"

definition responseFor :: "rpc_payload \<Rightarrow> rpc_payload" where
  "responseFor request =
     RpcPayload_default\<lparr>rp_encoding := rp_encoding request, rp_op := RpcOp_RequestResponse,
       rp_requestId := rp_requestId request, rp_methodOrEventId := rp_methodOrEventId request,
       rp_statusCode := ErrorCode_Success, rp_bodyEncoding := rp_bodyEncoding request,
       rp_meta := (rp_meta request)\<lparr>pm_endpoint := responseEndpointMetadata (pm_endpoint (rp_meta request))\<rparr>\<rparr>"

definition dispatchRpcRequest :: "'u business_router \<Rightarrow> rpc_payload \<Rightarrow> 'u \<Rightarrow> 'u rpc_dispatch option \<times> 'u" where
  "dispatchRpcRequest r request u =
     (let response = responseFor request;
          handler = ro_handlers r (rp_methodOrEventId request);
          deferredHandler = ro_deferredHandlers r (rp_methodOrEventId request)
      in
      if handler = None \<and> deferredHandler = None
      then (Some \<lparr>rd_response = response\<lparr>rp_statusCode :=
              (if findMethodName (ro_registry r) (rp_methodOrEventId request) \<noteq> None
               then ErrorCode_NotSupported else ErrorCode_RpcMethodNotFound)\<rparr>, rd_deferredPoll = None\<rparr>, u)
      else
        (let (validation, u) = runValidators (ro_validators r) request u in
         case validation of
           None \<Rightarrow> (None, u)
         | Some code \<Rightarrow>
             if code \<noteq> ErrorCode_Success
             then (Some \<lparr>rd_response = response\<lparr>rp_statusCode := code\<rparr>, rd_deferredPoll = None\<rparr>, u)
             else
               (let context = requestContext r request; view = requestView context request in
                case handler of
                  Some h \<Rightarrow>
                    (let (data, u) = h context view u in
                     case data of
                       None \<Rightarrow> (None, u)
                     | Some data \<Rightarrow> (Some \<lparr>rd_response = applyResponseData response data, rd_deferredPoll = None\<rparr>, u))
                | None \<Rightarrow>
                    (let (poll, u) = (the deferredHandler) context view u in
                     case poll of
                       None \<Rightarrow> (Some \<lparr>rd_response = response\<lparr>rp_statusCode := ErrorCode_InternalError\<rparr>,
                                  rd_deferredPoll = None\<rparr>, u)
                     | Some None \<Rightarrow> (Some \<lparr>rd_response = response\<lparr>rp_statusCode := ErrorCode_InternalError\<rparr>,
                                  rd_deferredPoll = None\<rparr>, u)
                     | Some (Some p) \<Rightarrow> (Some \<lparr>rd_response = response, rd_deferredPoll = Some p\<rparr>, u)))))"

definition handleRpcRequest :: "'u business_router \<Rightarrow> rpc_payload \<Rightarrow> 'u \<Rightarrow> rpc_payload option \<times> 'u" where
  "handleRpcRequest r request u =
     (let (dispatch, u) = dispatchRpcRequest r request u in
      case dispatch of
        None \<Rightarrow> (None, u)
      | Some d \<Rightarrow> (Some (if rd_deferredPoll d \<noteq> None
                          then (rd_response d)\<lparr>rp_statusCode := ErrorCode_InternalError\<rparr> else rd_response d), u))"

section \<open>BasicBroker\<close>

text \<open>\<^verbatim>\<open>MiddlewareChain\<close> and \<^verbatim>\<open>BrokerFlowControl\<close> let every task through.\<close>

definition MiddlewareChain_before :: "broker_task \<Rightarrow> bool" where
  "MiddlewareChain_before task = True"

definition BrokerFlowControl_allow :: "broker_task \<Rightarrow> bool" where
  "BrokerFlowControl_allow task = True"

type_synonym 'u event_handler = "broker_context \<Rightarrow> rpc_payload \<Rightarrow> 'u \<Rightarrow> unit option \<times> 'u"
type_synonym 'u stream_handler = "broker_context \<Rightarrow> stream_payload \<Rightarrow> 'u \<Rightarrow> unit option \<times> 'u"

record 'u pending_completion =
  pn_response :: rpc_payload
  pn_poll :: "'u deferred_poll"

record 'u basic_broker =
  bk_tasks :: "broker_task list"
  bk_results :: "broker_result list"
  bk_pendingCompletions :: "'u pending_completion list"
  bk_router :: "'u business_router"
  bk_eventHandler :: "'u event_handler option"
  bk_streamHandler :: "'u stream_handler option"

definition BasicBroker :: "'u basic_broker" where
  "BasicBroker = \<lparr>bk_tasks = [], bk_results = [], bk_pendingCompletions = [], bk_router = BusinessRouter,
     bk_eventHandler = None, bk_streamHandler = None\<rparr>"

definition submit :: "'u basic_broker \<Rightarrow> broker_task \<Rightarrow> 'u basic_broker" where
  "submit b task = b\<lparr>bk_tasks := bk_tasks b @ [task]\<rparr>"

definition pollResult :: "'u basic_broker \<Rightarrow> broker_result option \<times> 'u basic_broker" where
  "pollResult b = (case bk_results b of [] \<Rightarrow> (None, b) | r # rest \<Rightarrow> (Some r, b\<lparr>bk_results := rest\<rparr>))"

text \<open>The registration functions of the broker pass their arguments on to the router.\<close>

definition with_router :: "('u business_router \<Rightarrow> 'u business_router) \<Rightarrow> 'u basic_broker \<Rightarrow> 'u basic_broker" where
  "with_router register b = b\<lparr>bk_router := register (bk_router b)\<rparr>"

text \<open>An empty function is \<open>None\<close>.\<close>

definition registerEventHandler :: "'u basic_broker \<Rightarrow> 'u event_handler option \<Rightarrow> 'u basic_broker" where
  "registerEventHandler b handler = b\<lparr>bk_eventHandler := handler\<rparr>"

definition registerStreamHandler :: "'u basic_broker \<Rightarrow> 'u stream_handler option \<Rightarrow> 'u basic_broker" where
  "registerStreamHandler b handler = b\<lparr>bk_streamHandler := handler\<rparr>"

definition rpcResult :: "rpc_payload \<Rightarrow> broker_result" where
  "rpcResult response =
     (if rp_statusCode response = ErrorCode_Success then result_rpcResponse response else result_rpcError response)"

definition enqueueRpcResult :: "'u basic_broker \<Rightarrow> rpc_payload \<Rightarrow> 'u basic_broker" where
  "enqueueRpcResult b response = b\<lparr>bk_results := bk_results b @ [rpcResult response]\<rparr>"

text \<open>The walk over the vector of pending completions: those that stay, and the responses of the others.\<close>

primrec pollCompletions ::
    "'u pending_completion list \<Rightarrow> 'u \<Rightarrow> 'u pending_completion list \<times> rpc_payload list \<times> 'u" where
  "pollCompletions [] u = ([], [], u)"
| "pollCompletions (p # ps) u =
     (let (data, u) = pn_poll p u in
      case data of
        Some None \<Rightarrow> (let (kept, responses, u) = pollCompletions ps u in (p # kept, responses, u))
      | Some (Some data) \<Rightarrow>
          (let (kept, responses, u) = pollCompletions ps u
           in (kept, applyResponseData (pn_response p) data # responses, u))
      | None \<Rightarrow>
          (let (kept, responses, u) = pollCompletions ps u
           in (kept, (pn_response p)\<lparr>rp_statusCode := ErrorCode_InternalError\<rparr> # responses, u)))"

definition pollPendingCompletions :: "'u basic_broker \<Rightarrow> 'u \<Rightarrow> 'u basic_broker \<times> 'u" where
  "pollPendingCompletions b u =
     (let (kept, responses, u) = pollCompletions (bk_pendingCompletions b) u
      in (foldl enqueueRpcResult (b\<lparr>bk_pendingCompletions := kept\<rparr>) responses, u))"

definition runTask :: "broker_task \<Rightarrow> 'u basic_broker \<Rightarrow> 'u \<Rightarrow> bool \<times> 'u basic_broker \<times> 'u" where
  "runTask task b u =
     (if \<not> MiddlewareChain_before task \<or> \<not> BrokerFlowControl_allow task then (True, b, u)
      else if bt_type task = BT_RpcRequest then
        (let (dispatch, u) = dispatchRpcRequest (bk_router b) (bt_rpc task) u in
         case dispatch of
           None \<Rightarrow> (False, b, u)
         | Some d \<Rightarrow>
             (case rd_deferredPoll d of
                Some poll \<Rightarrow> (True, b\<lparr>bk_pendingCompletions := bk_pendingCompletions b @
                               [\<lparr>pn_response = rd_response d, pn_poll = poll\<rparr>]\<rparr>, u)
              | None \<Rightarrow> (True, enqueueRpcResult b (rd_response d), u)))
      else if bt_type task = BT_RpcEvent then
        (case bk_eventHandler b of
           None \<Rightarrow> (True, b, u)
         | Some handler \<Rightarrow> (let (r, u) = handler (bt_context task) (bt_rpc task) u in (r \<noteq> None, b, u)))
      else if bt_type task = BT_StreamData \<or> bt_type task = BT_StreamClose then
        (case bk_streamHandler b of
           None \<Rightarrow> (True, b, u)
         | Some handler \<Rightarrow> (let (r, u) = handler (bt_context task) (bt_stream task) u in (r \<noteq> None, b, u)))
      else (True, b, u))"

text \<open>The loop over the tasks; the first argument is the number of tasks it may still take.\<close>

fun pollTasks :: "nat \<Rightarrow> 'u basic_broker \<Rightarrow> 'u \<Rightarrow> bool \<times> 'u basic_broker \<times> 'u" where
  "pollTasks 0 b u = (True, b, u)"
| "pollTasks (Suc maxTasks) b u =
     (case bk_tasks b of
        [] \<Rightarrow> (True, b, u)
      | task # tasks \<Rightarrow>
          (let (ok, b, u) = runTask task (b\<lparr>bk_tasks := tasks\<rparr>) u
           in if ok then pollTasks maxTasks b u else (False, b, u)))"

definition broker_poll :: "'u basic_broker \<Rightarrow> nat \<Rightarrow> 'u \<Rightarrow> bool \<times> 'u basic_broker \<times> 'u" where
  "broker_poll b maxTasks u = (let (b, u) = pollPendingCompletions b u in pollTasks maxTasks b u)"

section \<open>The response and its request\<close>

text \<open>What a response keeps of the request it answers: everything that says whose it is.\<close>

definition call_key :: "rpc_payload \<Rightarrow> u32 \<times> u32 \<times> payload_meta" where
  "call_key p = (rp_requestId p, rp_methodOrEventId p, (rp_meta p)\<lparr>pm_endpoint := EndpointMetadata_default\<rparr>)"

lemma call_key_applyResponseData [simp]: "call_key (applyResponseData p data) = call_key p"
  by (simp add: call_key_def applyResponseData_def Let_def)

lemma call_key_status [simp]: "call_key (p\<lparr>rp_statusCode := code\<rparr>) = call_key p"
  by (simp add: call_key_def)

lemma call_key_responseFor [simp]: "call_key (responseFor request) = call_key request"
  by (simp add: call_key_def responseFor_def)

lemma rp_op_applyResponseData [simp]: "rp_op (applyResponseData p data) = rp_op p"
  by (simp add: applyResponseData_def Let_def)

lemma pm_applyResponseData [simp]: "rp_meta (applyResponseData p data) = rp_meta p"
  by (simp add: applyResponseData_def Let_def)

lemma responseFor_simps [simp]:
  "rp_op (responseFor request) = RpcOp_RequestResponse"
  "rp_meta (responseFor request) =
     (rp_meta request)\<lparr>pm_endpoint := responseEndpointMetadata (pm_endpoint (rp_meta request))\<rparr>"
  by (simp_all add: responseFor_def)

text \<open>Whatever the handlers do, the response of a dispatch belongs to its request.\<close>

lemma dispatch_response:
  assumes "dispatchRpcRequest r request u = (Some d, u')"
  shows "call_key (rd_response d) = call_key request" "rp_op (rd_response d) = RpcOp_RequestResponse"
    "rp_meta (rd_response d) = (rp_meta request)\<lparr>pm_endpoint := responseEndpointMetadata (pm_endpoint (rp_meta request))\<rparr>"
  using assms
  by (auto simp: dispatchRpcRequest_def Let_def split_beta split: if_splits option.splits)

section \<open>Where the requests are\<close>

text \<open>
  The calls the broker owes an answer or holds an answer for: requests in the task queue, deferred
  calls, and responses in the result queue.
\<close>

definition task_keys :: "broker_task list \<Rightarrow> (u32 \<times> u32 \<times> payload_meta) list" where
  "task_keys ts = map (call_key \<circ> bt_rpc) (filter (\<lambda>t. bt_type t = BT_RpcRequest) ts)"

definition is_response :: "broker_result \<Rightarrow> bool" where
  "is_response r \<longleftrightarrow> br_type r = BR_RpcResponse \<or> br_type r = BR_RpcError"

definition result_keys :: "broker_result list \<Rightarrow> (u32 \<times> u32 \<times> payload_meta) list" where
  "result_keys rs = map (call_key \<circ> br_rpc) (filter is_response rs)"

definition pending_keys :: "'u pending_completion list \<Rightarrow> (u32 \<times> u32 \<times> payload_meta) list" where
  "pending_keys ps = map (call_key \<circ> pn_response) ps"

definition broker_calls :: "'u basic_broker \<Rightarrow> (u32 \<times> u32 \<times> payload_meta) multiset" where
  "broker_calls b =
     mset (task_keys (bk_tasks b)) + mset (pending_keys (bk_pendingCompletions b)) + mset (result_keys (bk_results b))"

lemma rpcResult_simps [simp]: "is_response (rpcResult p)" "br_rpc (rpcResult p) = p"
  by (simp_all add: rpcResult_def is_response_def result_rpcResponse_def result_rpcError_def)

lemma result_keys_Nil [simp]: "result_keys [] = []"
  by (simp add: result_keys_def)

lemma result_keys_append [simp]: "result_keys (rs @ ss) = result_keys rs @ result_keys ss"
  by (simp add: result_keys_def)

lemma result_keys_rpcResult [simp]: "result_keys [rpcResult p] = [call_key p]"
  by (simp add: result_keys_def)

lemma enqueueRpcResult_simps [simp]:
  "bk_tasks (enqueueRpcResult b p) = bk_tasks b"
  "bk_results (enqueueRpcResult b p) = bk_results b @ [rpcResult p]"
  "bk_pendingCompletions (enqueueRpcResult b p) = bk_pendingCompletions b"
  "bk_router (enqueueRpcResult b p) = bk_router b"
  by (simp_all add: enqueueRpcResult_def)

lemma enqueue_all:
  "bk_tasks (foldl enqueueRpcResult b ps) = bk_tasks b"
  "bk_results (foldl enqueueRpcResult b ps) = bk_results b @ map rpcResult ps"
  "bk_pendingCompletions (foldl enqueueRpcResult b ps) = bk_pendingCompletions b"
  "bk_router (foldl enqueueRpcResult b ps) = bk_router b"
  by (induction ps arbitrary: b) simp_all

lemma result_keys_map [simp]: "result_keys (map rpcResult ps) = map call_key ps"
  by (induction ps) (simp_all add: result_keys_def)

lemma pollCompletions_keys:
  "pollCompletions ps u = (kept, responses, u') \<Longrightarrow>
     mset (pending_keys kept) + mset (map call_key responses) = mset (pending_keys ps)"
  by (induction ps arbitrary: u kept responses u')
    (fastforce simp: pending_keys_def Let_def split: prod.splits option.splits)+

lemma pollPendingCompletions_calls:
  "pollPendingCompletions b u = (b', u') \<Longrightarrow>
     broker_calls b' = broker_calls b \<and> bk_tasks b' = bk_tasks b \<and> bk_router b' = bk_router b"
  using pollCompletions_keys [of "bk_pendingCompletions b" u]
  by (cases "pollCompletions (bk_pendingCompletions b) u")
    (auto simp: pollPendingCompletions_def broker_calls_def enqueue_all ac_simps)

text \<open>One task: the request leaves the task queue for one of the other places, or is lost.\<close>

lemma runTask_calls:
  assumes "runTask task b u = (ok, b', u')"
  shows "bk_tasks b' = bk_tasks b \<and> bk_router b' = bk_router b \<and>
     (if ok then broker_calls b' = mset (task_keys [task]) + broker_calls b else broker_calls b' = broker_calls b)"
proof (cases "bt_type task = BT_RpcRequest")
  case False
  then show ?thesis using assms
    by (auto simp: runTask_def MiddlewareChain_before_def BrokerFlowControl_allow_def task_keys_def split_beta Let_def
        split: if_splits option.splits)
next
  case True
  obtain d u1 where d: "dispatchRpcRequest (bk_router b) (bt_rpc task) u = (d, u1)" by fastforce
  show ?thesis
  proof (cases d)
    case None
    with True assms d show ?thesis
      by (auto simp: runTask_def MiddlewareChain_before_def BrokerFlowControl_allow_def)
  next
    case (Some dd)
    note key = dispatch_response(1) [OF d [unfolded Some]]
    show ?thesis
      using True assms d Some key
      by (auto simp: runTask_def MiddlewareChain_before_def BrokerFlowControl_allow_def broker_calls_def
          task_keys_def pending_keys_def ac_simps split: option.splits)
  qed
qed

lemma broker_calls_tasks:
  "broker_calls (b\<lparr>bk_tasks := ts\<rparr>) = mset (task_keys ts) + (broker_calls b - mset (task_keys (bk_tasks b)))"
  by (simp add: broker_calls_def ac_simps)

lemma pollTasks_calls:
  "pollTasks n b u = (ok, b', u') \<Longrightarrow>
     bk_router b' = bk_router b \<and>
     (\<exists>lost. broker_calls b = broker_calls b' + lost \<and> size lost \<le> 1 \<and> (ok \<longrightarrow> lost = {#}))"
proof (induction n arbitrary: b u)
  case (Suc n)
  show ?case
  proof (cases "bk_tasks b")
    case Nil
    with Suc.prems show ?thesis by auto
  next
    case (Cons t ts)
    obtain ok1 b1 u1 where run: "runTask t (b\<lparr>bk_tasks := ts\<rparr>) u = (ok1, b1, u1)" by (cases "runTask t (b\<lparr>bk_tasks := ts\<rparr>) u")
    note one = runTask_calls [OF run]
    have split: "broker_calls b = mset (task_keys [t]) + broker_calls (b\<lparr>bk_tasks := ts\<rparr>)"
      by (simp add: broker_calls_def Cons task_keys_def)
    show ?thesis
    proof (cases ok1)
      case True
      with Suc.prems Cons run have "pollTasks n b1 u1 = (ok, b', u')" by simp
      from Suc.IH [OF this] True one split show ?thesis by simp
    next
      case False
      have "size (mset (task_keys [t])) \<le> 1" by (simp add: task_keys_def)
      with False Suc.prems Cons run one split show ?thesis by auto
    qed
  qed
qed auto

lemma broker_poll_calls:
  assumes "broker_poll b maxTasks u = (ok, b', u')"
  shows "bk_router b' = bk_router b \<and>
     (\<exists>lost. broker_calls b = broker_calls b' + lost \<and> size lost \<le> 1 \<and> (ok \<longrightarrow> lost = {#}))"
proof -
  obtain b1 u1 where first: "pollPendingCompletions b u = (b1, u1)" by fastforce
  with assms have "pollTasks maxTasks b1 u1 = (ok, b', u')" by (simp add: broker_poll_def)
  from pollTasks_calls [OF this] pollPendingCompletions_calls [OF first] show ?thesis by auto
qed

text \<open>With synchronous handlers only, each request that is taken is answered at once.\<close>

lemma runTask_sync:
  assumes "runTask task b u = (True, b', u')" and "ro_deferredHandlers (bk_router b) = Map.empty"
  shows "bk_pendingCompletions b' = bk_pendingCompletions b \<and>
     result_keys (bk_results b') = result_keys (bk_results b) @ task_keys [task]"
proof (cases "bt_type task = BT_RpcRequest")
  case False
  then show ?thesis using assms(1)
    by (auto simp: runTask_def MiddlewareChain_before_def BrokerFlowControl_allow_def task_keys_def split_beta Let_def
        split: if_splits option.splits)
next
  case True
  obtain d u1 where d: "dispatchRpcRequest (bk_router b) (bt_rpc task) u = (d, u1)" by fastforce
  with True assms(1) obtain dd where dd: "d = Some dd"
    by (cases d) (auto simp: runTask_def MiddlewareChain_before_def BrokerFlowControl_allow_def)
  have "rd_deferredPoll dd = None"
    using d dd assms(2)
    by (auto simp: dispatchRpcRequest_def Let_def split_beta split: if_splits option.splits)
  with True assms(1) d dd dispatch_response(1) [OF d [unfolded dd]] show ?thesis
    by (auto simp: runTask_def MiddlewareChain_before_def BrokerFlowControl_allow_def task_keys_def)
qed

lemma task_keys_Cons: "task_keys (t # ts) = task_keys [t] @ task_keys ts"
  by (simp add: task_keys_def)

lemma pollTasks_sync:
  "pollTasks n b u = (True, b', u') \<Longrightarrow> ro_deferredHandlers (bk_router b) = Map.empty \<Longrightarrow>
     bk_tasks b' = drop n (bk_tasks b) \<and> bk_pendingCompletions b' = bk_pendingCompletions b \<and>
     result_keys (bk_results b') = result_keys (bk_results b) @ task_keys (take n (bk_tasks b))"
proof (induction n arbitrary: b u)
  case 0
  then show ?case by (auto simp: task_keys_def)
next
  case (Suc n)
  show ?case
  proof (cases "bk_tasks b")
    case Nil
    with Suc.prems show ?thesis by (auto simp: task_keys_def)
  next
    case (Cons t ts)
    obtain ok1 b1 u1 where run: "runTask t (b\<lparr>bk_tasks := ts\<rparr>) u = (ok1, b1, u1)" by (cases "runTask t (b\<lparr>bk_tasks := ts\<rparr>) u")
    with Suc.prems(1) Cons have ok: "ok1" by (auto split: if_splits)
    note one = runTask_calls [OF run] runTask_sync [OF run [unfolded eqTrueI [OF ok]]]
    have "pollTasks n b1 u1 = (True, b', u')" using Suc.prems(1) Cons run ok by simp
    from Suc.IH [OF this] one Suc.prems(2) Cons show ?thesis
      by (simp add: task_keys_Cons [of t "take n ts"])
  qed
qed

section \<open>Registration\<close>

text \<open>The two ways a method is registered; the others are made of the first.\<close>

datatype 'u registration = Raw u32 "'u raw_handler" | Deferred u32 "'u deferred_handler"

fun register :: "'u business_router \<Rightarrow> 'u registration \<Rightarrow> 'u business_router" where
  "register r (Raw i h) = registerRawMethod r i h"
| "register r (Deferred i h) = registerDeferredRawMethod r i h"

fun registered_id :: "'u registration \<Rightarrow> u32" where
  "registered_id (Raw i h) = i"
| "registered_id (Deferred i h) = i"

fun registered_handlers :: "'u registration option \<Rightarrow> 'u raw_handler option \<times> 'u deferred_handler option" where
  "registered_handlers None = (None, None)"
| "registered_handlers (Some (Raw i h)) = (Some h, None)"
| "registered_handlers (Some (Deferred i h)) = (None, Some h)"

lemma register_last:
  "(ro_handlers (foldl register r regs) i, ro_deferredHandlers (foldl register r regs) i) =
     (case List.find (\<lambda>x. registered_id x = i) (rev regs) of
        None \<Rightarrow> (ro_handlers r i, ro_deferredHandlers r i) | Some x \<Rightarrow> registered_handlers (Some x))"
proof (induction regs rule: rev_induct)
  case (snoc x regs)
  then show ?case
    by (cases x) (auto simp: registerRawMethod_def registerDeferredRawMethod_def split: option.splits)
qed simp

section \<open>Properties\<close>

text \<open>
  Example handlers without state: one answers with its request's body, one throws, one is never ready.
\<close>

definition echo_handler :: "unit raw_handler" where
  "echo_handler context view u = (Some (RpcResponseData_default\<lparr>rs_body := rv_body view\<rparr>), u)"

definition throwing_handler :: "unit raw_handler" where
  "throwing_handler context view u = (None, u)"

definition waiting_handler :: "unit deferred_handler" where
  "waiting_handler context view u = (Some (Some (\<lambda>u. (Some None, u))), u)"

definition request_task :: "u32 \<Rightarrow> u32 \<Rightarrow> broker_task" where
  "request_task i methodId =
     fromCoreEvent (event_rpcRequest (RpcPayload_default\<lparr>rp_requestId := i, rp_methodOrEventId := methodId\<rparr>))"

definition example_broker :: "unit basic_broker" where
  "example_broker = BasicBroker
     \<lparr>bk_router := foldl register BusinessRouter [Deferred 3 waiting_handler, Raw 1 echo_handler, Raw 2 throwing_handler],
      bk_tasks := [request_task 11 1, request_task 12 3, request_task 13 1]\<rparr>"

lemma request_task_simps [simp]:
  "bt_type (request_task i m) = BT_RpcRequest"
  "bt_rpc (request_task i m) = RpcPayload_default\<lparr>rp_requestId := i, rp_methodOrEventId := m\<rparr>"
  by (simp_all add: request_task_def fromCoreEvent_def event_rpcRequest_def CoreEvent_default_def)

text \<open>
  C10. The broker neither loses nor invents calls: when a poll returns, each request it held is still
  held - queued, deferred, or answered in the result queue under its own request id, method and
  metadata, reply target included - and nothing else is. When a handler's exception escapes the poll,
  at most one request is gone.
\<close>

theorem broker_conserves_calls:
  assumes "broker_poll b maxTasks u = (ok, b', u')"
  shows "\<exists>lost. broker_calls b = broker_calls b' + lost \<and> size lost \<le> 1 \<and> (ok \<longrightarrow> lost = {#})"
  using broker_poll_calls [OF assms] by blast

theorem broker_conserves_calls_witness:
  "\<exists>b'. broker_poll example_broker 2 () = (True, b', ()) \<and> broker_calls b' = broker_calls example_broker"
proof -
  obtain ok b' where run: "broker_poll example_broker 2 () = (ok, b', ())" by (metis prod.exhaust unit.exhaust)
  moreover have "fst (broker_poll example_broker 2 ())"
    by (simp add: broker_poll_def pollPendingCompletions_def example_broker_def BasicBroker_def numeral_2_eq_2 runTask_def
        MiddlewareChain_before_def BrokerFlowControl_allow_def dispatchRpcRequest_def BusinessRouter_def
        registerRawMethod_def registerDeferredRawMethod_def RpcPayload_default_def echo_handler_def waiting_handler_def Let_def
        enqueueRpcResult_def)
  ultimately show ?thesis using broker_conserves_calls [OF run] by auto
qed

text \<open>
  C23. Synchronous requests are answered in the order they arrived: with no deferred handler
  registered, a poll that returns takes up to \<^verbatim>\<open>maxTasks\<close> tasks and appends exactly one answer for
  each request among them to the result queue, in their order.
\<close>

theorem sync_answers_in_order:
  assumes "broker_poll b maxTasks u = (True, b', u')"
    and "ro_deferredHandlers (bk_router b) = Map.empty" and "bk_pendingCompletions b = []"
  shows "bk_tasks b' = drop maxTasks (bk_tasks b) \<and> bk_pendingCompletions b' = [] \<and>
     result_keys (bk_results b') = result_keys (bk_results b) @ task_keys (take maxTasks (bk_tasks b))"
proof -
  have "pollPendingCompletions b u = (b, u)" using assms(3) by (cases b) (simp add: pollPendingCompletions_def)
  with assms(1) have "pollTasks maxTasks b u = (True, b', u')" by (simp add: broker_poll_def)
  from pollTasks_sync [OF this assms(2)] assms(3) show ?thesis by simp
qed

theorem sync_answers_in_order_witness:
  "\<exists>b'. broker_poll (BasicBroker\<lparr>bk_tasks := [request_task 11 1, request_task 13 2]\<rparr>) 8 () = (True, b', ()) \<and>
     map fst (result_keys (bk_results b')) = [11, 13]"
proof -
  let ?b = "BasicBroker\<lparr>bk_tasks := [request_task 11 1, request_task 13 2]\<rparr> :: unit basic_broker"
  obtain ok b' where run: "broker_poll ?b 8 () = (ok, b', ())" by (metis prod.exhaust unit.exhaust)
  have "fst (broker_poll ?b 8 ())"
    by (simp add: broker_poll_def pollPendingCompletions_def BasicBroker_def eval_nat_numeral runTask_def
        MiddlewareChain_before_def BrokerFlowControl_allow_def dispatchRpcRequest_def BusinessRouter_def Let_def enqueueRpcResult_def)
  with run have "ok" by simp
  with run have run: "broker_poll ?b 8 () = (True, b', ())" by simp
  from sync_answers_in_order [OF this] run show ?thesis
    by (simp add: BasicBroker_def BusinessRouter_def task_keys_def call_key_def)
qed

text \<open>
  C36. A synchronous handler that throws costs its caller the answer: the exception leaves the poll,
  the request is in none of the broker's queues, no error response is queued, and the tasks behind
  it are not run.
\<close>

theorem handler_exception_loses_call:
  assumes "bk_tasks b = task # tasks" and "bt_type task = BT_RpcRequest" and "bk_pendingCompletions b = []"
    and "ro_validators (bk_router b) = []" and "ro_handlers (bk_router b) (rp_methodOrEventId (bt_rpc task)) = Some handler"
    and "\<And>context view. fst (handler context view u) = None"
  shows "\<exists>u'. broker_poll b (Suc maxTasks) u = (False, b\<lparr>bk_tasks := tasks\<rparr>, u') \<and>
     broker_calls b = add_mset (call_key (bt_rpc task)) (broker_calls (b\<lparr>bk_tasks := tasks\<rparr>))"
proof -
  have "pollPendingCompletions b u = (b, u)" using assms(3) by (cases b) (simp add: pollPendingCompletions_def)
  moreover have "fst (dispatchRpcRequest (bk_router b) (bt_rpc task) u) = None"
    using assms(4-6) by (simp add: dispatchRpcRequest_def split_beta Let_def)
  moreover have "broker_calls b = add_mset (call_key (bt_rpc task)) (broker_calls (b\<lparr>bk_tasks := tasks\<rparr>))"
    using assms(1,2) by (simp add: broker_calls_def task_keys_def)
  ultimately show ?thesis
    using assms(1,2)
    by (cases "dispatchRpcRequest (bk_router b) (bt_rpc task) u")
      (simp add: broker_poll_def runTask_def MiddlewareChain_before_def BrokerFlowControl_allow_def)
qed

theorem handler_exception_loses_call_witness:
  "\<exists>u'. broker_poll (example_broker\<lparr>bk_tasks := [request_task 9 2, request_task 10 1]\<rparr>) (Suc 7) () =
     (False, example_broker\<lparr>bk_tasks := [request_task 10 1]\<rparr>, u')"
  using handler_exception_loses_call [of "example_broker\<lparr>bk_tasks := [request_task 9 2, request_task 10 1]\<rparr>"
      "request_task 9 2" "[request_task 10 1]" throwing_handler "()" 7]
  by (simp add: example_broker_def BasicBroker_def BusinessRouter_def registerRawMethod_def registerDeferredRawMethod_def
      throwing_handler_def)

text \<open>
  What a dispatch answers without running a handler: a method nobody registered is answered
  with NotSupported when the registry knows its id and with RpcMethodNotFound otherwise, and no
  validator runs; with a handler, the first validator that objects decides the status, and neither
  the validators after it nor the handler run.
\<close>

theorem dispatch_refusals:
  assumes "list_all (\<lambda>v. \<forall>u. v request u = (Some ErrorCode_Success, u)) vs"
    and "served \<longleftrightarrow> ro_handlers r (rp_methodOrEventId request) \<noteq> None \<or>
       ro_deferredHandlers r (rp_methodOrEventId request) \<noteq> None"
  shows "(\<not> served \<longrightarrow>
       dispatchRpcRequest r request u = (Some \<lparr>rd_response = (responseFor request)\<lparr>rp_statusCode :=
         (if findMethodName (ro_registry r) (rp_methodOrEventId request) = None
          then ErrorCode_RpcMethodNotFound else ErrorCode_NotSupported)\<rparr>, rd_deferredPoll = None\<rparr>, u)) \<and>
     (served \<and> ro_validators r = vs @ v # ws \<and> v request u = (Some code, u') \<and> code \<noteq> ErrorCode_Success \<longrightarrow>
       dispatchRpcRequest r request u =
         (Some \<lparr>rd_response = (responseFor request)\<lparr>rp_statusCode := code\<rparr>, rd_deferredPoll = None\<rparr>, u'))"
proof -
  have "runValidators (vs @ v # ws) request u = (Some code, u')"
    if "v request u = (Some code, u')" "code \<noteq> ErrorCode_Success"
    using assms(1) that by (induction vs) simp_all
  then show ?thesis using assms(2) by (auto simp: dispatchRpcRequest_def Let_def)
qed

theorem dispatch_refusals_witness:
  "dispatchRpcRequest (registerRequestValidator (registerRawMethod BusinessRouter 1 echo_handler)
       (\<lambda>_ u. (Some ErrorCode_Unavailable, u))) (RpcPayload_default\<lparr>rp_methodOrEventId := 1\<rparr>) () =
     (Some \<lparr>rd_response = (responseFor (RpcPayload_default\<lparr>rp_methodOrEventId := 1\<rparr>))\<lparr>rp_statusCode := ErrorCode_Unavailable\<rparr>,
       rd_deferredPoll = None\<rparr>, ())"
  using dispatch_refusals [of "RpcPayload_default\<lparr>rp_methodOrEventId := 1\<rparr>" "[]" True
      "registerRequestValidator (registerRawMethod BusinessRouter 1 echo_handler) (\<lambda>_ u. (Some ErrorCode_Unavailable, u))"
      "()" "\<lambda>_ u. (Some ErrorCode_Unavailable, u)" "[]" ErrorCode_Unavailable "()"]
  by (simp add: registerRequestValidator_def registerRawMethod_def BusinessRouter_def)

text \<open>
  A method has one handler, the one registered last: after any sequence of registrations, the
  two tables hold for each method id what the last registration for it says, and never both a
  synchronous and a deferred handler.
\<close>

theorem last_registration_counts:
  "(ro_handlers (foldl register BusinessRouter regs) i, ro_deferredHandlers (foldl register BusinessRouter regs) i) =
     registered_handlers (List.find (\<lambda>x. registered_id x = i) (rev regs))"
  by (simp add: register_last BusinessRouter_def split: option.split)

end
