(* ===== verification/Endpoint.thy ===== *)
theory Endpoint
  imports Broker Core_Handshake
begin

text \<open>
  The endpoint that connects a transport, the core and the broker (\<^verbatim>\<open>axtp_endpoint.hpp\<close>,
  \<^verbatim>\<open>endpoint_ports.hpp\<close>, \<^verbatim>\<open>transport.hpp\<close>).

  The transport is an interface: of it the model has the profile it reports, the reply target it
  reports for each payload, the bytes it delivers when polled (an argument of the poll), and the
  calls made on it, in order. The byte sink of \<^verbatim>\<open>endpoint_ports.hpp\<close> forwards to \<open>onTransportBytes\<close>.
\<close>

datatype transport_call = SendBytes bytes | SendBytesTo u64 bytes

record 'u axtp_endpoint =
  ep_core :: axtp_core
  ep_broker :: "'u basic_broker"
  ep_attached :: bool
  ep_calls :: "transport_call list"

definition AxtpEndpoint :: "'u basic_broker \<Rightarrow> 'u axtp_endpoint" where
  "AxtpEndpoint broker = \<lparr>ep_core = AxtpCore, ep_broker = broker, ep_attached = False, ep_calls = []\<rparr>"

definition attachTransport :: "'u axtp_endpoint \<Rightarrow> transport_profile \<Rightarrow> provider \<Rightarrow> 'u axtp_endpoint" where
  "attachTransport e profile currentReplyTarget =
     (let e = e\<lparr>ep_attached := True\<rparr>;
          e = e\<lparr>ep_core := core_resetResponseTracking (ep_core e)\<rparr>;
          e = e\<lparr>ep_core := configure (ep_core e) profile\<rparr>
      in e\<lparr>ep_core := setIngressReplyTargetProvider (ep_core e) (Some currentReplyTarget)\<rparr>)"

definition detachTransport :: "'u axtp_endpoint \<Rightarrow> 'u axtp_endpoint" where
  "detachTransport e =
     (let e = e\<lparr>ep_attached := False\<rparr>;
          e = e\<lparr>ep_core := core_resetResponseTracking (ep_core e)\<rparr>
      in e\<lparr>ep_core := setIngressReplyTargetProvider (ep_core e) None\<rparr>)"

definition endpoint_setIngressTokenProvider :: "'u axtp_endpoint \<Rightarrow> provider option \<Rightarrow> 'u axtp_endpoint" where
  "endpoint_setIngressTokenProvider e p = e\<lparr>ep_core := setIngressTokenProvider (ep_core e) p\<rparr>"

definition onTransportBytes :: "json_lib \<Rightarrow> 'u axtp_endpoint \<Rightarrow> bytes \<Rightarrow> 'u axtp_endpoint" where
  "onTransportBytes lib e data = e\<lparr>ep_core := handleBytes lib (ep_core e) data\<rparr>"

section \<open>The loops\<close>

text \<open>Each loop takes one element off a queue in every round.\<close>

function drainCoreEvents :: "'u axtp_endpoint \<Rightarrow> 'u axtp_endpoint" where
  "drainCoreEvents e =
     (let (event, core) = pollEvent (ep_core e) in
      case event of
        None \<Rightarrow> e
      | Some event \<Rightarrow>
          drainCoreEvents (e\<lparr>ep_core := core, ep_broker := submit (ep_broker e) (fromCoreEvent event)\<rparr>))"
  by pat_completeness auto
termination
  by (relation "measure (\<lambda>e. length (co_events (ep_core e)))")
    (auto simp: pollEvent_def split: list.splits)

text \<open>False in the first component: the exception of a send has left the loop.\<close>

function drainBrokerResults :: "json_lib \<Rightarrow> 'u axtp_endpoint \<Rightarrow> bool \<times> 'u axtp_endpoint" where
  "drainBrokerResults lib e =
     (let (result, broker) = pollResult (ep_broker e) in
      case result of
        None \<Rightarrow> (True, e)
      | Some result \<Rightarrow>
          (let (ok, core) = handleBrokerResult lib (ep_core e) result;
               e = e\<lparr>ep_broker := broker, ep_core := core\<rparr>
           in if ok then drainBrokerResults lib e else (False, e)))"
  by pat_completeness auto
termination
  by (relation "measure (\<lambda>(_, e). length (bk_results (ep_broker e)))")
    (auto simp: pollResult_def split: list.splits)

definition transport_send :: "outbound_packet \<Rightarrow> transport_call" where
  "transport_send packet =
     (if pk_replyTarget packet \<noteq> 0 then SendBytesTo (pk_replyTarget packet) (pk_bytes packet)
      else SendBytes (pk_bytes packet))"

function flushLoop :: "'u axtp_endpoint \<Rightarrow> 'u axtp_endpoint" where
  "flushLoop e =
     (let (packet, core) = tryPopOutboundPacket (ep_core e) in
      case packet of
        None \<Rightarrow> e
      | Some packet \<Rightarrow> flushLoop (e\<lparr>ep_core := core, ep_calls := ep_calls e @ [transport_send packet]\<rparr>))"
  by pat_completeness auto
termination
  by (relation "measure (\<lambda>e. length (co_outboundBytes (ep_core e)))")
    (auto simp: tryPopOutboundPacket_def split: list.splits)

declare drainCoreEvents.simps [simp del] drainBrokerResults.simps [simp del] flushLoop.simps [simp del]

definition flushOutbound :: "'u axtp_endpoint \<Rightarrow> 'u axtp_endpoint" where
  "flushOutbound e = (if \<not> ep_attached e then e else flushLoop e)"

definition progress :: "json_lib \<Rightarrow> 'u axtp_endpoint \<Rightarrow> nat \<Rightarrow> 'u \<Rightarrow> bool \<times> 'u axtp_endpoint \<times> 'u" where
  "progress lib e maxTasks u =
     (let e = drainCoreEvents e;
          (ok, broker, u) = broker_poll (ep_broker e) maxTasks u;
          e = e\<lparr>ep_broker := broker\<rparr>
      in if \<not> ok then (False, e, u)
         else (let (ok, e) = drainBrokerResults lib e
               in if \<not> ok then (False, e, u) else (True, flushOutbound e, u)))"

text \<open>Polling the transport hands its arrivals to the byte sink, one call each.\<close>

definition endpoint_poll ::
    "json_lib \<Rightarrow> 'u axtp_endpoint \<Rightarrow> bytes list \<Rightarrow> nat \<Rightarrow> 'u \<Rightarrow> bool \<times> 'u axtp_endpoint \<times> 'u" where
  "endpoint_poll lib e arrivals maxTasks u =
     (let e = (if ep_attached e then foldl (onTransportBytes lib) e arrivals else e)
      in progress lib e maxTasks u)"

section \<open>The client side\<close>

text \<open>\<open>None\<close>: the exception of the encoder; the call stays expected.\<close>

definition endpoint_sendRpcRequest ::
    "json_lib \<Rightarrow> 'u axtp_endpoint \<Rightarrow> rpc_payload \<Rightarrow> bool option \<times> 'u axtp_endpoint" where
  "endpoint_sendRpcRequest lib e payload =
     (let (ok, core) = core_expectRpcResponse (ep_core e) (rp_requestId payload);
          e = e\<lparr>ep_core := core\<rparr>
      in if \<not> ok then (Some False, e)
         else (case core_sendRpcRequest lib (ep_core e) payload of
                 None \<Rightarrow> (None, e)
               | Some core \<Rightarrow> (Some True, flushOutbound (e\<lparr>ep_core := core\<rparr>))))"

definition endpoint_sendControlOpen :: "'u axtp_endpoint \<Rightarrow> u16 \<Rightarrow> 'u axtp_endpoint" where
  "endpoint_sendControlOpen e controlId =
     flushOutbound (e\<lparr>ep_core := sendControlOpen (ep_core e) controlId\<rparr>)"

definition endpoint_sendControlHeartbeat :: "'u axtp_endpoint \<Rightarrow> u16 \<Rightarrow> 'u axtp_endpoint" where
  "endpoint_sendControlHeartbeat e controlId =
     flushOutbound (e\<lparr>ep_core := sendControlHeartbeat (ep_core e) controlId\<rparr>)"

definition endpoint_sendRpcSession :: "json_lib \<Rightarrow> 'u axtp_endpoint \<Rightarrow> rpc_payload \<Rightarrow> 'u axtp_endpoint option" where
  "endpoint_sendRpcSession lib e payload =
     (case core_sendRpcSession lib (ep_core e) payload of
        None \<Rightarrow> None | Some core \<Rightarrow> Some (flushOutbound (e\<lparr>ep_core := core\<rparr>)))"

definition endpoint_sendStream :: "json_lib \<Rightarrow> 'u axtp_endpoint \<Rightarrow> stream_payload \<Rightarrow> 'u axtp_endpoint" where
  "endpoint_sendStream lib e payload =
     (let (ok, core) = handleBrokerResult lib (ep_core e) (result_streamData payload)
      in flushOutbound (e\<lparr>ep_core := core\<rparr>))"

definition endpoint_tryTakeRpcResponse :: "'u axtp_endpoint \<Rightarrow> u32 \<Rightarrow> rpc_payload option \<times> 'u axtp_endpoint" where
  "endpoint_tryTakeRpcResponse e requestId =
     (let (p, core) = core_tryTakeRpcResponse (ep_core e) requestId in (p, e\<lparr>ep_core := core\<rparr>))"

definition endpoint_tryTakeAnyRpcResponse :: "'u axtp_endpoint \<Rightarrow> rpc_payload option \<times> 'u axtp_endpoint" where
  "endpoint_tryTakeAnyRpcResponse e =
     (let (p, core) = core_tryTakeAnyRpcResponse (ep_core e) in (p, e\<lparr>ep_core := core\<rparr>))"

definition endpoint_abandonRpcResponse :: "'u axtp_endpoint \<Rightarrow> u32 \<Rightarrow> 'u axtp_endpoint" where
  "endpoint_abandonRpcResponse e requestId = e\<lparr>ep_core := core_abandonRpcResponse (ep_core e) requestId\<rparr>"

definition endpoint_tryTakeSessionRpc :: "'u axtp_endpoint \<Rightarrow> rpc_op \<Rightarrow> rpc_payload option \<times> 'u axtp_endpoint" where
  "endpoint_tryTakeSessionRpc e op =
     (let (p, core) = tryTakeSessionRpc (ep_core e) op in (p, e\<lparr>ep_core := core\<rparr>))"

definition endpoint_tryTakeControlNotice ::
    "'u axtp_endpoint \<Rightarrow> control_opcode \<Rightarrow> control_payload option \<times> 'u axtp_endpoint" where
  "endpoint_tryTakeControlNotice e opcode =
     (let (p, core) = tryTakeControlNotice (ep_core e) opcode in (p, e\<lparr>ep_core := core\<rparr>))"

definition endpoint_tryTakeControlNoticeFor ::
    "'u axtp_endpoint \<Rightarrow> control_opcode \<Rightarrow> u16 \<Rightarrow> control_payload option \<times> 'u axtp_endpoint" where
  "endpoint_tryTakeControlNoticeFor e opcode controlId =
     (let (p, core) = tryTakeControlNoticeFor (ep_core e) opcode controlId in (p, e\<lparr>ep_core := core\<rparr>))"

section \<open>What the loops do\<close>

lemma drainCoreEvents_eq:
  "drainCoreEvents e = e\<lparr>ep_core := (ep_core e)\<lparr>co_events := []\<rparr>,
     ep_broker := (ep_broker e)\<lparr>bk_tasks := bk_tasks (ep_broker e) @ map fromCoreEvent (co_events (ep_core e))\<rparr>\<rparr>"
proof (induction "co_events (ep_core e)" arbitrary: e)
  case Nil
  then show ?case by (simp add: drainCoreEvents.simps [of e] pollEvent_def)
next
  case (Cons x xs)
  from Cons.hyps(2) [symmetric] Cons.hyps(1)
    [of "e\<lparr>ep_core := (ep_core e)\<lparr>co_events := xs\<rparr>, ep_broker := submit (ep_broker e) (fromCoreEvent x)\<rparr>"]
  show ?case by (simp add: drainCoreEvents.simps [of e] pollEvent_def submit_def)
qed

lemma flushLoop_eq:
  "flushLoop e = e\<lparr>ep_core := (ep_core e)\<lparr>co_outboundBytes := []\<rparr>,
     ep_calls := ep_calls e @ map transport_send (co_outboundBytes (ep_core e))\<rparr>"
proof (induction "co_outboundBytes (ep_core e)" arbitrary: e)
  case Nil
  then show ?case by (simp add: flushLoop.simps [of e] tryPopOutboundPacket_def)
next
  case (Cons x xs)
  from Cons.hyps(2) [symmetric] Cons.hyps(1)
    [of "e\<lparr>ep_core := (ep_core e)\<lparr>co_outboundBytes := xs\<rparr>, ep_calls := ep_calls e @ [transport_send x]\<rparr>"]
  show ?case by (simp add: flushLoop.simps [of e] tryPopOutboundPacket_def)
qed

text \<open>The target a result goes to, and the bytes that are written for it.\<close>

definition result_target :: "broker_result \<Rightarrow> u64" where
  "result_target r = (if is_response r then pm_replyTarget (rp_meta (br_rpc r)) else 0)"

definition result_writes :: "json_lib \<Rightarrow> outbound_processor \<Rightarrow> broker_result \<Rightarrow> (outbound_processor \<times> bytes list) option" where
  "result_writes lib op r =
     (case br_type r of
        BR_StreamData \<Rightarrow> Some (sendStream snoc op (br_stream r) [])
      | BR_StreamClose \<Rightarrow> Some (sendStream snoc op (br_stream r) [])
      | BR_Noop \<Rightarrow> Some (op, [])
      | _ \<Rightarrow> sendRpc lib snoc op (br_rpc r) [])"

lemma handleBrokerResult_eq:
  assumes "co_outboundReplyTarget c = 0"
  shows "handleBrokerResult lib c r =
     (case result_writes lib (co_outbound c) r of
        None \<Rightarrow> (False, c\<lparr>co_outboundReplyTarget := result_target r\<rparr>)
      | Some (op, ws) \<Rightarrow> (True, enqueue_packets (result_target r) ws (c\<lparr>co_outbound := op, co_outboundReplyTarget := 0\<rparr>)))"
  using assms
  by (cases c; cases "br_type r")
    (auto simp: handleBrokerResult_def result_writes_def Let_def core_send enqueue_packets_def result_target_def
      is_response_def split_beta split: option.split)

text \<open>The bytes of several payloads, each written by the processor that the one before has left.\<close>

primrec sent_rpcs :: "json_lib \<Rightarrow> outbound_processor \<Rightarrow> rpc_payload list \<Rightarrow> (outbound_processor \<times> bytes list list) option" where
  "sent_rpcs lib op [] = Some (op, [])"
| "sent_rpcs lib op (p # ps) =
     (case sendRpc lib snoc op p [] of
        None \<Rightarrow> None
      | Some (op, ws) \<Rightarrow> (case sent_rpcs lib op ps of None \<Rightarrow> None | Some (op, wss) \<Rightarrow> Some (op, ws # wss)))"

lemma rpcResult_writes:
  "result_writes lib op (rpcResult p) = sendRpc lib snoc op p []" "result_target (rpcResult p) = pm_replyTarget (rp_meta p)"
  by (simp_all add: result_writes_def result_target_def)
    (simp add: rpcResult_def result_rpcResponse_def result_rpcError_def)

lemma drain_responses:
  "drainBrokerResults lib e = (True, e') \<Longrightarrow> co_outboundReplyTarget (ep_core e) = 0 \<Longrightarrow>
     bk_results (ep_broker e) = map rpcResult responses \<Longrightarrow>
     \<exists>wss. sent_rpcs lib (co_outbound (ep_core e)) responses = Some (co_outbound (ep_core e'), wss) \<and>
       co_outboundBytes (ep_core e') = co_outboundBytes (ep_core e) @
         concat (map2 (\<lambda>r. map (\<lambda>b. \<lparr>pk_bytes = b, pk_replyTarget = pm_replyTarget (rp_meta r)\<rparr>)) responses wss) \<and>
       ep_attached e' = ep_attached e \<and> ep_calls e' = ep_calls e"
proof (induction responses arbitrary: e)
  case Nil
  then show ?case by (auto simp: drainBrokerResults.simps [of lib e] pollResult_def)
next
  case (Cons r rs)
  obtain ok core where h: "handleBrokerResult lib (ep_core e) (rpcResult r) = (ok, core)" by fastforce
  let ?e1 = "e\<lparr>ep_broker := (ep_broker e)\<lparr>bk_results := map rpcResult rs\<rparr>, ep_core := core\<rparr>"
  have ok: ok and rest: "drainBrokerResults lib ?e1 = (True, e')"
    using Cons.prems(1,3) h by (auto simp: drainBrokerResults.simps [of lib e] pollResult_def Let_def split: if_splits)
  with h obtain op ws where ws: "sendRpc lib snoc (co_outbound (ep_core e)) r [] = Some (op, ws)"
    "core = enqueue_packets (pm_replyTarget (rp_meta r)) ws ((ep_core e)\<lparr>co_outbound := op, co_outboundReplyTarget := 0\<rparr>)"
    by (auto simp: handleBrokerResult_eq [OF Cons.prems(2)] rpcResult_writes split: option.splits)
  from Cons.IH [OF rest] obtain wss where
    "sent_rpcs lib op rs = Some (co_outbound (ep_core e'), wss)"
    "co_outboundBytes (ep_core e') = co_outboundBytes core @
       concat (map2 (\<lambda>r. map (\<lambda>b. \<lparr>pk_bytes = b, pk_replyTarget = pm_replyTarget (rp_meta r)\<rparr>)) rs wss)"
    "ep_attached e' = ep_attached e" "ep_calls e' = ep_calls e" by (auto simp: ws(2) enqueue_packets_def)
  with ws show ?case by (intro exI [of _ "ws # wss"]) (simp add: enqueue_packets_def)
qed

section \<open>What the handlers answer\<close>

text \<open>
  The responses that the router gives to the requests among the tasks: each is dispatched in the
  application state that the tasks before it, of all kinds, have left.
\<close>

primrec answered :: "'u basic_broker \<Rightarrow> broker_task list \<Rightarrow> 'u \<Rightarrow> rpc_payload list" where
  "answered b [] u = []"
| "answered b (t # ts) u =
     (if bt_type t = BT_RpcRequest
      then (case fst (dispatchRpcRequest (bk_router b) (bt_rpc t) u) of None \<Rightarrow> [] | Some d \<Rightarrow> [rd_response d])
      else []) @ answered b ts (snd (snd (runTask t b u)))"

definition same_handlers :: "'u basic_broker \<Rightarrow> 'u basic_broker \<Rightarrow> bool" where
  "same_handlers b b' \<longleftrightarrow> bk_router b = bk_router b' \<and> bk_eventHandler b = bk_eventHandler b' \<and>
     bk_streamHandler b = bk_streamHandler b'"

lemma runTask_app: "same_handlers b b' \<Longrightarrow> snd (snd (runTask t b u)) = snd (snd (runTask t b' u))"
  by (auto simp: same_handlers_def runTask_def Let_def split: prod.splits option.splits)

lemma answered_same: "same_handlers b b' \<Longrightarrow> answered b ts u = answered b' ts u"
  by (induction ts arbitrary: u) (auto simp: runTask_app [of b b'] same_handlers_def)

lemma runTask_answers:
  assumes "runTask t b u = (True, b', u')" and "ro_deferredHandlers (bk_router b) = Map.empty"
  shows "bk_results b' = bk_results b @ map rpcResult (answered b [t] u) \<and> same_handlers b b' \<and> bk_tasks b' = bk_tasks b"
proof -
  have "rd_deferredPoll d = None" if "dispatchRpcRequest (bk_router b) q u = (Some d, u1)" for q d u1
    using that assms(2) by (auto simp: dispatchRpcRequest_def Let_def split_beta split: if_splits option.splits)
  with assms(1) show ?thesis
    by (auto simp: runTask_def MiddlewareChain_before_def BrokerFlowControl_allow_def same_handlers_def enqueueRpcResult_def
        Let_def split: if_splits prod.splits option.splits)
qed

lemma pollTasks_answers:
  "pollTasks n b u = (True, b', u') \<Longrightarrow> ro_deferredHandlers (bk_router b) = Map.empty \<Longrightarrow>
     bk_results b' = bk_results b @ map rpcResult (answered b (take n (bk_tasks b)) u)"
proof (induction n arbitrary: b u)
  case (Suc n)
  show ?case
  proof (cases "bk_tasks b")
    case Nil
    with Suc.prems show ?thesis by auto
  next
    case (Cons t ts)
    let ?b = "b\<lparr>bk_tasks := ts\<rparr>"
    obtain ok1 b1 u1 where run: "runTask t ?b u = (ok1, b1, u1)" by (cases "runTask t ?b u")
    with Suc.prems(1) Cons have ok: "ok1" and rest: "pollTasks n b1 u1 = (True, b', u')" by (auto split: if_splits)
    from runTask_answers [OF run [unfolded eqTrueI [OF ok]]] Suc.prems(2) have
      b1: "bk_results b1 = bk_results b @ map rpcResult (answered ?b [t] u)" "same_handlers ?b b1" "bk_tasks b1 = ts" by simp_all
    have same: "same_handlers ?b b" "same_handlers b1 b" using b1(2) by (simp_all add: same_handlers_def)
    have u1: "u1 = snd (snd (runTask t b u))" using run runTask_app [OF same(1), of t u] by simp
    have "bk_results b' = bk_results b1 @ map rpcResult (answered b1 (take n ts) u1)"
      using Suc.IH [OF rest] b1(3) same(2) Suc.prems(2) by (simp add: same_handlers_def)
    also have "\<dots> = bk_results b @ map rpcResult (answered b [t] u @ answered b (take n ts) u1)"
      by (simp only: b1(1) answered_same [OF same(1)] answered_same [OF same(2)] map_append append_assoc)
    also have "answered b [t] u @ answered b (take n ts) u1 = answered b (take (Suc n) (bk_tasks b)) u"
      by (simp add: Cons u1)
    finally show ?thesis .
  qed
qed simp

section \<open>Every result of the broker is a response\<close>

lemma runTask_responses:
  "runTask task b u = (ok, b', u') \<Longrightarrow> list_all is_response (bk_results b) \<Longrightarrow> list_all is_response (bk_results b')"
  by (auto simp: runTask_def Let_def split_beta split: if_splits option.splits)

lemma pollTasks_responses:
  "pollTasks n b u = (ok, b', u') \<Longrightarrow> list_all is_response (bk_results b) \<Longrightarrow> list_all is_response (bk_results b')"
proof (induction n arbitrary: b u)
  case (Suc n)
  show ?case
  proof (cases "bk_tasks b")
    case Nil
    with Suc.prems show ?thesis by auto
  next
    case (Cons t ts)
    obtain ok1 b1 u1 where run: "runTask t (b\<lparr>bk_tasks := ts\<rparr>) u = (ok1, b1, u1)" by (cases "runTask t (b\<lparr>bk_tasks := ts\<rparr>) u")
    have "list_all is_response (bk_results b1)" using runTask_responses [OF run] Suc.prems(2) by simp
    with Suc.IH [of b1 u1] Suc.prems(1) Cons run show ?thesis by (auto split: if_splits)
  qed
qed auto

lemma pollPendingCompletions_responses:
  "pollPendingCompletions b u = (b', u') \<Longrightarrow> list_all is_response (bk_results b) \<Longrightarrow> list_all is_response (bk_results b')"
  by (auto simp: pollPendingCompletions_def enqueue_all list_all_iff split: prod.splits)

lemma broker_poll_responses:
  "broker_poll b n u = (ok, b', u') \<Longrightarrow> list_all is_response (bk_results b) \<Longrightarrow> list_all is_response (bk_results b')"
  using pollTasks_responses pollPendingCompletions_responses
  by (fastforce simp: broker_poll_def split: prod.splits)

definition event_requests :: "core_event list \<Rightarrow> rpc_payload list" where
  "event_requests evs = map ce_rpc (filter (\<lambda>ev. ce_type ev = CE_RpcRequest) evs)"

lemma fromCoreEvent_request:
  "bt_type (fromCoreEvent ev) = BT_RpcRequest \<longleftrightarrow> ce_type ev = CE_RpcRequest"
  "ce_type ev = CE_RpcRequest \<Longrightarrow> bt_rpc (fromCoreEvent ev) = ce_rpc ev"
  by (cases "ce_type ev"; simp add: fromCoreEvent_def Let_def)+

lemma task_keys_events: "task_keys (map fromCoreEvent evs) = map call_key (event_requests evs)"
  by (induction evs) (simp_all add: task_keys_def event_requests_def fromCoreEvent_request)

lemma call_key_target: "call_key p = call_key q \<Longrightarrow> pm_replyTarget (rp_meta p) = pm_replyTarget (rp_meta q)"
  by (auto simp: call_key_def dest: arg_cong [where f = pm_replyTarget])

section \<open>One request, one round\<close>

lemma pollTasks_empty: "bk_tasks b = [] \<Longrightarrow> pollTasks n b u = (True, b, u)"
  by (cases n) simp_all

text \<open>An endpoint at rest that has received one request.\<close>

definition has_request :: "'u axtp_endpoint \<Rightarrow> rpc_payload \<Rightarrow> bool" where
  "has_request e request \<longleftrightarrow> co_events (ep_core e) = [event_rpcRequest request] \<and> co_outboundReplyTarget (ep_core e) = 0 \<and>
     bk_tasks (ep_broker e) = [] \<and> bk_results (ep_broker e) = [] \<and> bk_pendingCompletions (ep_broker e) = []"

lemma request_event [simp]: "bt_type (fromCoreEvent (event_rpcRequest p)) = BT_RpcRequest"
  "bt_rpc (fromCoreEvent (event_rpcRequest p)) = p"
  by (simp_all add: fromCoreEvent_def event_rpcRequest_def CoreEvent_default_def)

lemma poll_one:
  assumes "has_request e request" and "dispatchRpcRequest (bk_router (ep_broker e)) request u = (Some d, u')"
    and "rd_deferredPoll d = None"
  shows "broker_poll ((ep_broker e)\<lparr>bk_tasks := map fromCoreEvent (co_events (ep_core e))\<rparr>) (Suc n) u =
     (True, (ep_broker e)\<lparr>bk_results := [rpcResult (rd_response d)]\<rparr>, u')"
  using assms
  by (cases "ep_broker e")
    (simp add: has_request_def broker_poll_def pollPendingCompletions_def runTask_def MiddlewareChain_before_def
      BrokerFlowControl_allow_def enqueueRpcResult_def pollTasks_empty)

lemma drain_one:
  assumes "bk_results (ep_broker e) = [r]" and "co_outboundReplyTarget (ep_core e) = 0"
  shows "drainBrokerResults lib e =
     (let (ok, core) = handleBrokerResult lib (ep_core e) r
      in (ok, e\<lparr>ep_broker := (ep_broker e)\<lparr>bk_results := []\<rparr>, ep_core := core\<rparr>))"
  using assms by (simp add: drainBrokerResults.simps pollResult_def Let_def split: prod.split)

lemma progress_one:
  assumes "has_request e request" and "dispatchRpcRequest (bk_router (ep_broker e)) request u = (Some d, u')"
    and "rd_deferredPoll d = None"
  shows "progress lib e (Suc n) u =
     (case result_writes lib (co_outbound (ep_core e)) (rpcResult (rd_response d)) of
        None \<Rightarrow> (False, e\<lparr>ep_core := (ep_core e)\<lparr>co_events := [],
                   co_outboundReplyTarget := result_target (rpcResult (rd_response d))\<rparr>\<rparr>, u')
      | Some (op, ws) \<Rightarrow> (True, flushOutbound (e\<lparr>ep_core := enqueue_packets (result_target (rpcResult (rd_response d))) ws
                   ((ep_core e)\<lparr>co_events := [], co_outbound := op\<rparr>)\<rparr>), u'))"
  using poll_one [OF assms, of n] assms(1)
  by (cases e; cases "ep_core e"; cases "ep_broker e")
    (auto simp: has_request_def progress_def drainCoreEvents_eq drain_one handleBrokerResult_eq Let_def enqueue_packets_def
      split: option.splits)

section \<open>Properties\<close>

text \<open>An attached endpoint without handlers, which has received the given requests.\<close>

definition example_endpoint :: "rpc_payload list \<Rightarrow> unit axtp_endpoint" where
  "example_endpoint requests = (AxtpEndpoint BasicBroker)
     \<lparr>ep_attached := True, ep_core := AxtpCore\<lparr>co_events := map event_rpcRequest requests\<rparr>\<rparr>"

definition endpoint_request :: rpc_payload where
  "endpoint_request = RpcPayload_default\<lparr>rp_requestId := 11, rp_methodOrEventId := 1,
     rp_meta := PayloadMeta_default\<lparr>pm_replyTarget := 5\<rparr>\<rparr>"


text \<open>How the packets of one response go out.\<close>

definition send_to :: "u64 \<Rightarrow> bytes \<Rightarrow> transport_call" where
  "send_to target data = transport_send \<lparr>pk_bytes = data, pk_replyTarget = target\<rparr>"

lemma packets_addressed:
  "map call_key responses = map call_key requests \<Longrightarrow>
     map transport_send (concat (map2 (\<lambda>r. map (\<lambda>b. \<lparr>pk_bytes = b, pk_replyTarget = pm_replyTarget (rp_meta r)\<rparr>)) responses wss)) =
     concat (map2 (\<lambda>request. map (send_to (pm_replyTarget (rp_meta request)))) requests wss)"
proof (induction wss arbitrary: responses requests)
  case (Cons ws wss)
  then show ?case by (cases responses; cases requests) (auto simp: send_to_def dest: call_key_target)
qed simp

text \<open>
  C9. Responses go to the requester: when an endpoint with synchronous handlers makes progress, the
  calls it makes on its transport are exactly these - for each request it received, in the order of
  arrival, the packets that its outbound processor writes for the response that the router gives in
  the application state at that point, sent to the reply target recorded when the request arrived. Each
  response carries the request's own id, method and metadata.
\<close>

theorem responses_to_requester:
  assumes "progress lib e maxTasks u = (True, e', u')" and "ep_attached e"
    and "co_outboundBytes (ep_core e) = []" and "co_outboundReplyTarget (ep_core e) = 0"
    and "bk_tasks (ep_broker e) = []" and "bk_results (ep_broker e) = []" and "bk_pendingCompletions (ep_broker e) = []"
    and "ro_deferredHandlers (bk_router (ep_broker e)) = Map.empty"
    and "length (co_events (ep_core e)) \<le> maxTasks" and "requests = event_requests (co_events (ep_core e))"
    and "responses = answered (ep_broker e) (map fromCoreEvent (co_events (ep_core e))) u"
  shows "map call_key responses = map call_key requests \<and>
     (\<exists>wss. sent_rpcs lib (co_outbound (ep_core e)) responses = Some (co_outbound (ep_core e'), wss) \<and>
        ep_calls e' = ep_calls e @
          concat (map2 (\<lambda>request. map (send_to (pm_replyTarget (rp_meta request)))) requests wss))"
proof -
  let ?evs = "co_events (ep_core e)"
  let ?b = "(ep_broker e)\<lparr>bk_tasks := map fromCoreEvent ?evs\<rparr>"
  obtain b' e2 where poll: "broker_poll ?b maxTasks u = (True, b', u')"
    and e2: "drainBrokerResults lib (e\<lparr>ep_core := (ep_core e)\<lparr>co_events := []\<rparr>, ep_broker := b'\<rparr>) = (True, e2)"
    "e' = flushOutbound e2"
    using assms(1,5) by (auto simp: progress_def drainCoreEvents_eq Let_def split: prod.splits if_splits)
  have tasks: "pollTasks maxTasks ?b u = (True, b', u')"
    using poll assms(6,7) by (cases "ep_broker e") (simp add: broker_poll_def pollPendingCompletions_def)
  have "same_handlers ?b (ep_broker e)" by (simp add: same_handlers_def)
  then have results: "bk_results b' = map rpcResult responses"
    using pollTasks_answers [OF tasks] assms(6,8,9,11) answered_same [of ?b "ep_broker e"] by simp
  have "result_keys (bk_results b') = map call_key requests"
    using pollTasks_sync [OF tasks] assms(6,8-10) by (simp add: task_keys_events)
  then have keys: "map call_key responses = map call_key requests"
    by (simp add: results result_keys_def comp_def)
  obtain wss where wss: "sent_rpcs lib (co_outbound (ep_core e)) responses = Some (co_outbound (ep_core e2), wss)"
    "co_outboundBytes (ep_core e2) =
       concat (map2 (\<lambda>r. map (\<lambda>b. \<lparr>pk_bytes = b, pk_replyTarget = pm_replyTarget (rp_meta r)\<rparr>)) responses wss)"
    "ep_attached e2" "ep_calls e2 = ep_calls e"
    using drain_responses [OF e2(1), of responses] results assms(2-4) by auto
  have "ep_calls e' = ep_calls e @ map transport_send (co_outboundBytes (ep_core e2))"
    "co_outbound (ep_core e') = co_outbound (ep_core e2)"
    using wss(3,4) by (simp_all add: e2(2) flushOutbound_def flushLoop_eq)
  with wss(1,2) keys packets_addressed [OF keys] show ?thesis by auto
qed

theorem responses_to_requester_witness:
  "\<exists>e' op ws response. progress braces_lib (example_endpoint [endpoint_request]) (Suc 7) () = (True, e', ()) \<and>
     rp_requestId response = 11 \<and> sendRpc braces_lib snoc (co_outbound AxtpCore) response [] = Some (op, ws) \<and>
     ep_calls e' = map (send_to 5) ws"
proof -
  let ?e = "example_endpoint [endpoint_request]"
  note defs = example_endpoint_def AxtpEndpoint_def AxtpCore_def BasicBroker_def BusinessRouter_def
  have "\<exists>code. code \<noteq> ErrorCode_Success \<and> dispatchRpcRequest BusinessRouter endpoint_request () =
      (Some \<lparr>rd_response = (responseFor endpoint_request)\<lparr>rp_statusCode := code\<rparr>, rd_deferredPoll = None\<rparr>, ())"
    by (intro exI [of _ "if findMethodName fromGeneratedDefaults (rp_methodOrEventId endpoint_request) \<noteq> None
        then ErrorCode_NotSupported else ErrorCode_RpcMethodNotFound"]) (simp add: dispatchRpcRequest_def BusinessRouter_def)
  then obtain code where code: "code \<noteq> ErrorCode_Success" "dispatchRpcRequest BusinessRouter endpoint_request () =
      (Some \<lparr>rd_response = (responseFor endpoint_request)\<lparr>rp_statusCode := code\<rparr>, rd_deferredPoll = None\<rparr>, ())" by blast
  let ?r = "(responseFor endpoint_request)\<lparr>rp_statusCode := code\<rparr>"
  have "binary_rpc ?r"
    by (simp add: binary_rpc_def responseFor_def endpoint_request_def RpcPayload_default_def PayloadMeta_default_def)
  then have "result_writes braces_lib (co_outbound (ep_core ?e)) (rpcResult ?r) \<noteq> None"
    using code(1) by (simp add: result_writes_def rpcResult_def result_rpcError_def result_noop_def sendRpc_def encodeRpc_eq
        example_endpoint_def AxtpEndpoint_def AxtpCore_def OutboundProcessor_def)
  with code(2) progress_one [of ?e endpoint_request "()" _ "()" braces_lib 7]
  obtain e' where run: "progress braces_lib ?e (Suc 7) () = (True, e', ())"
    by (auto simp: has_request_def example_endpoint_def AxtpEndpoint_def AxtpCore_def BasicBroker_def split: option.splits)
  have req: "event_requests (co_events (ep_core ?e)) = [endpoint_request]"
    by (simp add: event_requests_def defs event_rpcRequest_def CoreEvent_default_def)
  have router: "bk_router (ep_broker ?e) = BusinessRouter" "co_outbound (ep_core ?e) = co_outbound AxtpCore"
    by (simp_all add: example_endpoint_def AxtpEndpoint_def BasicBroker_def)
  have resp: "answered (ep_broker ?e) (map fromCoreEvent (co_events (ep_core ?e))) () = [?r]"
    using code(2) router(1) by (simp add: example_endpoint_def)
  from responses_to_requester [OF run, of "[endpoint_request]" "[?r]"] req resp router(2)
  obtain wss where "sent_rpcs braces_lib (co_outbound AxtpCore) [?r] = Some (co_outbound (ep_core e'), wss)"
    "ep_calls e' = concat (map2 (\<lambda>request. map (send_to (pm_replyTarget (rp_meta request)))) [endpoint_request] wss)"
    by (auto simp: defs)
  with run show ?thesis
    by (intro exI [of _ e'] exI [of _ "co_outbound (ep_core e')"] exI [of _ "hd wss"] exI [of _ ?r])
      (auto simp: endpoint_request_def responseFor_def split: option.splits)
qed

text \<open>
  C37. A response that cannot be encoded breaks the connection's addressing: when the handler of a TLV
  method answers a request that carries endpoint metadata over the framed wire, the encoder's
  exception leaves \<^verbatim>\<open>progress\<close>, nothing is sent, the call has left every queue of the broker, and the
  reply target stays in force - the heartbeat sent next goes to that request's peer instead of to
  the connection.
\<close>

theorem metadata_request_throws:
  assumes "co_events (ep_core e) = [event_rpcRequest request]" and "ep_attached e"
    and "bk_tasks (ep_broker e) = []" and "bk_results (ep_broker e) = []" and "bk_pendingCompletions (ep_broker e) = []"
    and "co_outboundBytes (ep_core e) = []" and "co_outboundReplyTarget (ep_core e) = 0"
    and "op_wireMode (co_outbound (ep_core e)) = FramedBinary"
    and "bk_router (ep_broker e) = registerTlvMethod router (rp_methodOrEventId request) handler"
    and "ro_validators router = []" and "\<And>context. fst (handler context (rp_body request) u) \<noteq> None"
    and "hasEndpointMetadata (pm_endpoint (rp_meta request))"
  shows "\<exists>e' u'. progress lib e (Suc n) u = (False, e', u') \<and> ep_calls e' = ep_calls e \<and>
     broker_calls (ep_broker e') = {#} \<and>
     ep_calls (endpoint_sendControlHeartbeat e' controlId) = ep_calls e @
       map (send_to (pm_replyTarget (rp_meta request)))
         (snd (sendControl snoc (co_outbound (ep_core e)) (makeHeartbeat (co_controlSession (ep_core e)) controlId) []))"
proof -
  have rest: "has_request e request" using assms(1,3-5,7) by (simp add: has_request_def)
  obtain body u' where h: "handler (requestContext (bk_router (ep_broker e)) request) (rp_body request) u = (Some body, u')"
    using assms(11) by (metis prod.collapse option.exhaust)
  let ?response = "applyResponseData (responseFor request)
     (RpcResponseData_default\<lparr>rs_encoding := jsonBinaryRpcEncoding, rs_body := body, rs_overrideEncoding := True\<rparr>)"
  have d: "dispatchRpcRequest (bk_router (ep_broker e)) request u =
      (Some \<lparr>rd_response = ?response, rd_deferredPoll = None\<rparr>, u')"
    using h assms(10) by (simp add: assms(9) dispatchRpcRequest_def registerTlvMethod_def registerRawMethod_def requestView_def Let_def)
  have "encodeRpc lib ?response = None" and st: "rp_statusCode ?response = ErrorCode_Success"
    and target: "pm_replyTarget (rp_meta ?response) = pm_replyTarget (rp_meta request)"
    using assms(12)
    by (simp_all add: encodeRpc_def applyResponseData_def responseFor_def RpcResponseData_default_def Let_def
        isJsonBinaryRpcEncoding_def jsonBinaryRpcEncoding_def)
  then have w: "result_writes lib (co_outbound (ep_core e)) (rpcResult ?response) = None"
    using assms(8) by (simp add: result_writes_def rpcResult_def result_rpcResponse_def result_noop_def sendRpc_def)
  have "result_target (rpcResult ?response) = pm_replyTarget (rp_meta request)"
    using st target by (simp add: result_target_def rpcResult_def result_rpcResponse_def is_response_def)
  with progress_one [OF rest d] w
  have run: "progress lib e (Suc n) u = (False, e\<lparr>ep_core := (ep_core e)\<lparr>co_events := [],
      co_outboundReplyTarget := pm_replyTarget (rp_meta request)\<rparr>\<rparr>, u')" by simp
  show ?thesis unfolding run using assms(2-6)
    by (simp add: broker_calls_def task_keys_def result_keys_def pending_keys_def endpoint_sendControlHeartbeat_def
        sendControlHeartbeat_def core_send split_beta flushOutbound_def flushLoop_eq enqueue_packets_def send_to_def comp_def)
qed

definition tlv_endpoint :: "unit axtp_endpoint" where
  "tlv_endpoint = (example_endpoint [endpoint_request\<lparr>rp_meta := PayloadMeta_default\<lparr>pm_replyTarget := 5,
         pm_endpoint := \<lparr>em_src = Some ''a'', em_dst = None\<rparr>\<rparr>\<rparr>])
     \<lparr>ep_broker := BasicBroker\<lparr>bk_router := registerTlvMethod BusinessRouter 1 (\<lambda>context body u. (Some body, u))\<rparr>\<rparr>"

theorem metadata_request_throws_witness:
  "\<exists>e'. progress braces_lib tlv_endpoint (Suc 7) () = (False, e', ()) \<and> ep_calls e' = [] \<and>
     broker_calls (ep_broker e') = {#}"
  using metadata_request_throws [of tlv_endpoint "endpoint_request\<lparr>rp_meta := PayloadMeta_default\<lparr>pm_replyTarget := 5,
         pm_endpoint := \<lparr>em_src = Some ''a'', em_dst = None\<rparr>\<rparr>\<rparr>" BusinessRouter "\<lambda>context body u. (Some body, u)" "()" braces_lib 7]
  by (auto simp: tlv_endpoint_def example_endpoint_def AxtpEndpoint_def AxtpCore_def BasicBroker_def BusinessRouter_def
      OutboundProcessor_def endpoint_request_def hasEndpointMetadata_def PayloadMeta_default_def RpcPayload_default_def)

end
