(* ===== verification/Wait_Monad.thy ===== *)
theory Wait_Monad
  imports Main
begin

text \<open>
  Actions that wait: the control structure of the synchronous calls of the client.

  An action runs on a world and returns a value, throws an exception, or is still waiting when the
  world has nothing left to happen. The world is abstract here: a locale fixes how many rounds a
  world has left, and how many of them lie at or after a given deadline. Two judgements carry the
  proofs over the client's code: an action \<open>preserves\<close> a predicate on worlds, and it is \<open>prompt\<close> with
  \<open>k\<close> when it cannot still be waiting once the deadline has passed in \<open>k\<close> rounds.
\<close>

datatype 'a outcome = Done 'a | Thrown | Waiting

type_synonym ('w, 'a) act = "'w \<Rightarrow> 'a outcome \<times> 'w"

definition ret :: "'a \<Rightarrow> ('w, 'a) act" where
  "ret x = (\<lambda>w. (Done x, w))"

definition raise :: "('w, 'a) act" where
  "raise = (\<lambda>w. (Thrown, w))"

definition andThen :: "('w, 'a) act \<Rightarrow> ('a \<Rightarrow> ('w, 'b) act) \<Rightarrow> ('w, 'b) act" where
  "andThen m f = (\<lambda>w. case m w of
     (Done x, w) \<Rightarrow> f x w | (Thrown, w) \<Rightarrow> (Thrown, w) | (Waiting, w) \<Rightarrow> (Waiting, w))"

text \<open>\<^verbatim>\<open>try { ... } catch (...)\<close>: \<open>None\<close> when the action threw.\<close>

definition attempt :: "('w, 'a) act \<Rightarrow> ('w, 'a option) act" where
  "attempt m = (\<lambda>w. case m w of
     (Done x, w) \<Rightarrow> (Done (Some x), w) | (Thrown, w) \<Rightarrow> (Done None, w) | (Waiting, w) \<Rightarrow> (Waiting, w))"

definition inspect :: "('w \<Rightarrow> 'a) \<Rightarrow> ('w, 'a) act" where
  "inspect f = (\<lambda>w. (Done (f w), w))"

definition change :: "('w \<Rightarrow> 'w) \<Rightarrow> ('w, unit) act" where
  "change f = (\<lambda>w. (Done (), f w))"

text \<open>An early return: the rest is skipped when there is a result already.\<close>

definition unlessReturned :: "('w, 'a option) act \<Rightarrow> ('w, 'a option) act \<Rightarrow> ('w, 'a option) act" where
  "unlessReturned m k = andThen m (\<lambda>r. case r of Some x \<Rightarrow> ret (Some x) | None \<Rightarrow> k)"

text \<open>
  A loop that waits: the body returns \<open>None\<close> to go round once more. The first argument bounds the
  number of rounds.
\<close>

primrec waitRounds :: "nat \<Rightarrow> ('w, 'a option) act \<Rightarrow> ('w, 'a) act" where
  "waitRounds 0 body = (\<lambda>w. (Waiting, w))"
| "waitRounds (Suc n) body = andThen body (\<lambda>r. case r of Some x \<Rightarrow> ret x | None \<Rightarrow> waitRounds n body)"

section \<open>Laws\<close>

lemma andThen_ret [simp]: "andThen (ret x) f = f x"
  by (simp add: andThen_def ret_def)

lemma andThen_raise [simp]: "andThen raise f = raise"
  by (simp add: andThen_def raise_def)

lemma andThen_inspect: "andThen (inspect f) g w = g (f w) w"
  by (simp add: andThen_def inspect_def)

lemma andThen_assoc: "andThen (andThen m f) g = andThen m (\<lambda>x. andThen (f x) g)"
  by (auto simp: andThen_def fun_eq_iff split: prod.split outcome.split)

lemma andThen_right_ret [simp]: "andThen m ret = m"
  by (auto simp: andThen_def ret_def fun_eq_iff split: prod.split outcome.split)

lemma attempt_ret [simp]: "attempt (ret x) = ret (Some x)"
  by (simp add: attempt_def ret_def)

lemma attempt_raise [simp]: "attempt raise = ret None"
  by (simp add: attempt_def raise_def ret_def)

lemma andThen_Done:
  "andThen m f w = (Done y, w') \<longleftrightarrow> (\<exists>x w1. m w = (Done x, w1) \<and> f x w1 = (Done y, w'))"
  by (auto simp: andThen_def split: prod.split outcome.split)

section \<open>What an action preserves\<close>

definition preserves :: "('w \<Rightarrow> bool) \<Rightarrow> ('w, 'a) act \<Rightarrow> bool" where
  "preserves I m \<longleftrightarrow> (\<forall>w. I w \<longrightarrow> I (snd (m w)))"

named_theorems preserves_intros \<open>rules for what actions preserve\<close>

lemma preservesI: "(\<And>w. I w \<Longrightarrow> I (snd (m w))) \<Longrightarrow> preserves I m"
  by (simp add: preserves_def)

lemma preservesD: "preserves I m \<Longrightarrow> m w = (r, w') \<Longrightarrow> I w \<Longrightarrow> I w'"
  by (metis preserves_def snd_conv)

lemma preserves_ret [preserves_intros]: "preserves I (ret x)"
  by (simp add: preserves_def ret_def)

lemma preserves_raise [preserves_intros]: "preserves I raise"
  by (simp add: preserves_def raise_def)

lemma preserves_inspect [preserves_intros]: "preserves I (inspect f)"
  by (simp add: preserves_def inspect_def)

lemma preserves_change: "(\<And>w. I w \<Longrightarrow> I (f w)) \<Longrightarrow> preserves I (change f)"
  by (simp add: preserves_def change_def)

lemma preserves_andThen [preserves_intros]:
  "preserves I m \<Longrightarrow> (\<And>x. preserves I (f x)) \<Longrightarrow> preserves I (andThen m f)"
  by (auto simp: preserves_def andThen_def split: prod.split outcome.split)

lemma preserves_attempt [preserves_intros]: "preserves I m \<Longrightarrow> preserves I (attempt m)"
  by (auto simp: preserves_def attempt_def split: prod.split outcome.split)

lemma preserves_if [preserves_intros]:
  "(b \<Longrightarrow> preserves I m) \<Longrightarrow> (\<not> b \<Longrightarrow> preserves I m') \<Longrightarrow> preserves I (if b then m else m')"
  by simp

lemma preserves_option [preserves_intros]:
  "(z = None \<Longrightarrow> preserves I m) \<Longrightarrow> (\<And>x. z = Some x \<Longrightarrow> preserves I (f x)) \<Longrightarrow>
     preserves I (case z of None \<Rightarrow> m | Some x \<Rightarrow> f x)"
  by (cases z) auto

lemma preserves_unlessReturned [preserves_intros]:
  "preserves I m \<Longrightarrow> preserves I k \<Longrightarrow> preserves I (unlessReturned m k)"
  unfolding unlessReturned_def by (intro preserves_intros)

lemma preserves_waitRounds: "preserves I body \<Longrightarrow> preserves I (waitRounds n body)"
proof (induction n)
  case (Suc n)
  then show ?case by (auto intro!: preserves_intros)
qed (simp add: preserves_def)

section \<open>What an action establishes\<close>

text \<open>Started in \<open>P\<close>, an action that returns does so in \<open>Q\<close>.\<close>

definition establishes :: "('w \<Rightarrow> bool) \<Rightarrow> ('w, 'a) act \<Rightarrow> ('a \<Rightarrow> 'w \<Rightarrow> bool) \<Rightarrow> bool" where
  "establishes P m Q \<longleftrightarrow> (\<forall>w x w'. P w \<longrightarrow> m w = (Done x, w') \<longrightarrow> Q x w')"

lemma establishesI: "(\<And>w x w'. P w \<Longrightarrow> m w = (Done x, w') \<Longrightarrow> Q x w') \<Longrightarrow> establishes P m Q"
  by (simp add: establishes_def)

lemma establishesD: "establishes P m Q \<Longrightarrow> P w \<Longrightarrow> m w = (Done x, w') \<Longrightarrow> Q x w'"
  by (simp add: establishes_def)

lemma establishes_andThen:
  "establishes P m R \<Longrightarrow> (\<And>x. establishes (R x) (f x) Q) \<Longrightarrow> establishes P (andThen m f) Q"
  unfolding establishes_def andThen_Done by metis

lemma establishes_ret: "(\<And>w. P w \<Longrightarrow> Q x w) \<Longrightarrow> establishes P (ret x) Q"
  by (simp add: establishes_def ret_def)

lemma establishes_raise: "establishes P raise Q"
  by (simp add: establishes_def raise_def)

lemma establishes_inspect: "(\<And>w. P w \<Longrightarrow> Q (f w) w) \<Longrightarrow> establishes P (inspect f) Q"
  by (auto simp: establishes_def inspect_def)

lemma establishes_change: "(\<And>w. P w \<Longrightarrow> Q () (f w)) \<Longrightarrow> establishes P (change f) Q"
  by (auto simp: establishes_def change_def)

lemma preserves_establishes: "preserves I m \<Longrightarrow> establishes I m (\<lambda>_. I)"
  unfolding establishes_def by (metis preservesD)

lemma establishes_after_preserves:
  "preserves I m \<Longrightarrow> (\<And>x. establishes I (f x) Q) \<Longrightarrow> establishes I (andThen m f) Q"
  by (rule establishes_andThen [OF preserves_establishes])

lemma establishes_if:
  "(b \<Longrightarrow> establishes P m Q) \<Longrightarrow> (\<not> b \<Longrightarrow> establishes P m' Q) \<Longrightarrow> establishes P (if b then m else m') Q"
  by simp

lemma establishes_option:
  "(z = None \<Longrightarrow> establishes P m Q) \<Longrightarrow> (\<And>x. z = Some x \<Longrightarrow> establishes P (f x) Q) \<Longrightarrow>
     establishes P (case z of None \<Rightarrow> m | Some x \<Rightarrow> f x) Q"
  by (cases z) auto

lemma establishes_weaken:
  "establishes P m Q \<Longrightarrow> (\<And>w. P' w \<Longrightarrow> P w) \<Longrightarrow> (\<And>x w. Q x w \<Longrightarrow> Q' x w) \<Longrightarrow> establishes P' m Q'"
  unfolding establishes_def by metis

text \<open>A loop, or an action that may return early, goes on while it has no result.\<close>

abbreviation (input) goes_on :: "('w \<Rightarrow> bool) \<Rightarrow> ('a \<Rightarrow> 'w \<Rightarrow> bool) \<Rightarrow> 'a option \<Rightarrow> 'w \<Rightarrow> bool" where
  "goes_on I Q r w \<equiv> (case r of None \<Rightarrow> I w | Some x \<Rightarrow> Q x w)"

lemma establishes_unlessReturned:
  assumes "establishes P m (goes_on I Q)" and "establishes I k (goes_on J Q)"
  shows "establishes P (unlessReturned m k) (goes_on J Q)"
  using assms unfolding establishes_def unlessReturned_def andThen_Done
  by (fastforce simp: ret_def split: option.splits)

lemma establishes_waitRounds:
  assumes "establishes I body (goes_on I Q)"
  shows "establishes I (waitRounds n body) Q"
proof (induction n)
  case (Suc n)
  show ?case
    unfolding waitRounds.simps
  proof (rule establishes_andThen [OF assms])
    fix r
    show "establishes (goes_on I Q r) (case r of None \<Rightarrow> waitRounds n body | Some x \<Rightarrow> ret x) Q"
      using Suc.IH by (cases r) (auto intro: establishes_ret)
  qed
qed (simp add: establishes_def)

section \<open>Actions that do not throw\<close>

definition nothrow :: "('w, 'a) act \<Rightarrow> bool" where
  "nothrow m \<longleftrightarrow> (\<forall>w. fst (m w) \<noteq> Thrown)"

named_theorems nothrow_intros \<open>rules for actions that do not throw\<close>

lemma nothrow_simple [nothrow_intros]: "nothrow (ret x)" "nothrow (inspect f)" "nothrow (change g)"
  by (simp_all add: nothrow_def ret_def inspect_def change_def)

lemma nothrow_attempt [nothrow_intros]: "nothrow (attempt m)"
  by (simp add: nothrow_def attempt_def split: prod.split outcome.split)

lemma nothrow_andThen [nothrow_intros]: "nothrow m \<Longrightarrow> (\<And>x. nothrow (f x)) \<Longrightarrow> nothrow (andThen m f)"
  unfolding nothrow_def andThen_def by (auto split: prod.split outcome.split) (metis fst_conv)+

lemma nothrow_if [nothrow_intros]:
  "(b \<Longrightarrow> nothrow m) \<Longrightarrow> (\<not> b \<Longrightarrow> nothrow m') \<Longrightarrow> nothrow (if b then m else m')"
  by simp

lemma nothrow_option [nothrow_intros]:
  "(z = None \<Longrightarrow> nothrow m) \<Longrightarrow> (\<And>x. z = Some x \<Longrightarrow> nothrow (f x)) \<Longrightarrow>
     nothrow (case z of None \<Rightarrow> m | Some x \<Rightarrow> f x)"
  by (cases z) auto

lemma nothrow_unlessReturned [nothrow_intros]: "nothrow m \<Longrightarrow> nothrow k \<Longrightarrow> nothrow (unlessReturned m k)"
  unfolding unlessReturned_def by (intro nothrow_intros)

lemma nothrow_waitRounds: "nothrow body \<Longrightarrow> nothrow (waitRounds n body)"
  by (induction n) (auto simp: nothrow_def [of "\<lambda>w. (Waiting, w)"] intro!: nothrow_intros)

section \<open>When an action must return\<close>

text \<open>
  A world counts the rounds it has left (\<open>left\<close>), and those of them at or after the deadline
  (\<open>expired\<close>). An action is prompt with \<open>k\<close> when with \<open>k\<close> expired rounds it does not end waiting and
  uses up no more than \<open>k\<close> of them.
\<close>

locale waiting =
  fixes left :: "'w \<Rightarrow> nat" and expired :: "'w \<Rightarrow> nat"
  assumes expired_left: "expired w \<le> left w"
begin

definition prompt :: "nat \<Rightarrow> ('w, 'a) act \<Rightarrow> bool" where
  "prompt k m \<longleftrightarrow> (\<forall>w. left (snd (m w)) \<le> left w \<and>
     (k \<le> expired w \<longrightarrow> fst (m w) \<noteq> Waiting \<and> expired w \<le> expired (snd (m w)) + k))"

lemma promptI:
  "(\<And>w. left (snd (m w)) \<le> left w) \<Longrightarrow>
     (\<And>w. k \<le> expired w \<Longrightarrow> fst (m w) \<noteq> Waiting \<and> expired w \<le> expired (snd (m w)) + k) \<Longrightarrow> prompt k m"
  by (simp add: prompt_def)

lemma prompt_mono: "prompt k m \<Longrightarrow> k \<le> l \<Longrightarrow> prompt l m"
  unfolding prompt_def by (meson add_left_mono order_trans)

lemma prompt_steady:
  "(\<And>w. fst (m w) \<noteq> Waiting \<and> left (snd (m w)) = left w \<and> expired (snd (m w)) = expired w) \<Longrightarrow> prompt k m"
  by (simp add: prompt_def)

lemma prompt_ret: "prompt k (ret x)"
  by (simp add: prompt_def ret_def)

lemma prompt_raise: "prompt k raise"
  by (simp add: prompt_def raise_def)

lemma prompt_inspect: "prompt k (inspect f)"
  by (simp add: prompt_def inspect_def)

lemma prompt_change:
  "(\<And>w. left (f w) = left w) \<Longrightarrow> (\<And>w. expired (f w) = expired w) \<Longrightarrow> prompt k (change f)"
  by (simp add: prompt_def change_def)

lemma prompt_andThen:
  assumes "prompt j m" and "\<And>x. prompt k (f x)" and "l = j + k"
  shows "prompt l (andThen m f)"
proof (rule promptI)
  fix w
  obtain r w1 where m: "m w = (r, w1)" by fastforce
  have left: "left w1 \<le> left w" using assms(1) m unfolding prompt_def by (metis snd_conv)
  have step: "left (snd (f x w1)) \<le> left w1" for x using assms(2) by (simp add: prompt_def)
  show "left (snd (andThen m f w)) \<le> left w"
    using left step m by (auto simp: andThen_def split: outcome.split intro: order_trans)
  assume e: "l \<le> expired w"
  with assms(1,3) m have first: "r \<noteq> Waiting" "expired w \<le> expired w1 + j"
    unfolding prompt_def by (metis add_leE fst_conv, metis add_leE snd_conv)
  with e assms(3) have "k \<le> expired w1" by simp
  with assms(2) have "fst (f x w1) \<noteq> Waiting \<and> expired w1 \<le> expired (snd (f x w1)) + k" for x by (simp add: prompt_def)
  with first m assms(3) show "fst (andThen m f w) \<noteq> Waiting \<and> expired w \<le> expired (snd (andThen m f w)) + l"
    by (cases r) (auto simp: andThen_def intro: order_trans)
qed

lemma prompt_then: "prompt k m \<Longrightarrow> (\<And>x. prompt 0 (f x)) \<Longrightarrow> prompt k (andThen m f)"
  by (rule prompt_andThen) auto

lemma prompt_before: "prompt 0 m \<Longrightarrow> (\<And>x. prompt k (f x)) \<Longrightarrow> prompt k (andThen m f)"
  by (rule prompt_andThen) auto

lemma prompt_attempt: "prompt k m \<Longrightarrow> prompt k (attempt m)"
  unfolding prompt_def attempt_def
  by (auto split: prod.split outcome.split) (metis fst_conv snd_conv)+

lemma prompt_if: "(b \<Longrightarrow> prompt k m) \<Longrightarrow> (\<not> b \<Longrightarrow> prompt k m') \<Longrightarrow> prompt k (if b then m else m')"
  by simp

lemma prompt_option:
  "(z = None \<Longrightarrow> prompt k m) \<Longrightarrow> (\<And>x. z = Some x \<Longrightarrow> prompt k (f x)) \<Longrightarrow>
     prompt k (case z of None \<Rightarrow> m | Some x \<Rightarrow> f x)"
  by (cases z) auto

text \<open>
  A loop whose body takes a round each time and returns in an expired one is prompt with one
  expired round.
\<close>

lemma waitRounds_left:
  "(\<And>w. left (snd (body w)) \<le> left w) \<Longrightarrow> left (snd (waitRounds n body w)) \<le> left w"
proof (induction n arbitrary: w)
  case (Suc n)
  then have "left (snd (waitRounds n body (snd (body w)))) \<le> left w" by (meson order_trans)
  with Suc.prems [of w] show ?case
    by (auto simp: andThen_def ret_def split: prod.split outcome.split option.split)
qed simp

lemma prompt_loop:
  assumes round: "\<And>w w'. body w = (Done None, w') \<Longrightarrow> left w = Suc (left w') \<and> expired w' = expired w"
    and result: "\<And>w r w'. body w = (r, w') \<Longrightarrow> 0 < expired w \<Longrightarrow> r \<noteq> Waiting \<and> expired w \<le> Suc (expired w')"
    and all: "\<And>w. left (snd (body w)) \<le> left w"
  shows "prompt 1 (\<lambda>w. waitRounds (Suc (left w)) body w)"
proof (rule promptI)
  fix w
  show "left (snd (waitRounds (Suc (left w)) body w)) \<le> left w" by (rule waitRounds_left) (rule all)
  have "0 < expired w \<Longrightarrow> left w < n \<Longrightarrow>
      fst (waitRounds n body w) \<noteq> Waiting \<and> expired w \<le> expired (snd (waitRounds n body w)) + 1" for n
  proof (induction n arbitrary: w)
    case (Suc n)
    obtain r w' where b: "body w = (r, w')" by fastforce
    show ?case
    proof (cases "r = Done None")
      case True
      with round b have "left w = Suc (left w')" "expired w' = expired w" by auto
      with Suc.IH [of w'] Suc.prems b True show ?thesis by (simp add: andThen_def)
    next
      case False
      with result [OF b Suc.prems(1)] b show ?thesis
        by (auto simp: andThen_def ret_def split: outcome.split option.split)
    qed
  qed simp
  from this [of "Suc (left w)"]
  show "1 \<le> expired w \<Longrightarrow> fst (waitRounds (Suc (left w)) body w) \<noteq> Waiting \<and>
      expired w \<le> expired (snd (waitRounds (Suc (left w)) body w)) + 1"
    by (simp del: waitRounds.simps)
qed

end

end
