(* ===== verification/Client.thy ===== *)
theory Client
  imports Endpoint Wait_Monad
begin

text \<open>
  The client and the server of the SDK (\<^verbatim>\<open>sdk/axtp_client.hpp\<close>, \<^verbatim>\<open>sdk/axtp_server.hpp\<close>, and the option
  and result structures beside them).

  A synchronous call polls its endpoint until it has what it waits for, a callback stops it, or its
  deadline has passed. The world of a call is the client, the state \<open>'u\<close> of the application (on which
  the handlers and callbacks act; \<open>None\<close> is an exception they throw), the clock, and the rounds to
  come: what the transport delivers at each poll and what the clock reads afterwards. Time passes in
  polls only. Callbacks do not call back into the client, and the transport does not throw.
\<close>

section \<open>Options, results and errors\<close>

record client_options =
  cop_wireMode :: wire_mode
  cop_defaultEncoding :: rpc_encoding
  cop_connectTimeout :: int
  cop_requestTimeout :: int
  cop_requestedHeartbeatInterval :: int
  cop_autoOpen :: bool
  cop_autoIdentify :: bool
  cop_autoLoadCapabilities :: bool

definition ClientOptions_default :: client_options where
  "ClientOptions_default = \<lparr>cop_wireMode = FramedBinary, cop_defaultEncoding = RpcEncoding_Json,
     cop_connectTimeout = 3000, cop_requestTimeout = 5000, cop_requestedHeartbeatInterval = 1000,
     cop_autoOpen = True, cop_autoIdentify = True, cop_autoLoadCapabilities = False\<rparr>"

type_synonym 'u progress_hook = "'u \<Rightarrow> unit option \<times> 'u"
type_synonym 'u cancelled_hook = "'u \<Rightarrow> bool option \<times> 'u"

record 'u call_options =
  ca_timeout :: int
  ca_encoding :: rpc_encoding
  ca_validateSchema :: bool
  ca_acceptAnyResponse :: bool
  ca_cancelled :: "'u cancelled_hook option"
  ca_progress :: "'u progress_hook option"
  ca_endpoint :: endpoint_metadata

definition CallOptions_default :: "'u call_options" where
  "CallOptions_default = \<lparr>ca_timeout = 5000, ca_encoding = RpcEncoding_Json, ca_validateSchema = False,
     ca_acceptAnyResponse = False, ca_cancelled = None, ca_progress = None, ca_endpoint = EndpointMetadata_default\<rparr>"

record app_ready_trace_event =
  te_stage :: string
  te_action :: string
  te_statusCode :: error_code
  te_controlId :: u16
  te_hasRandomSeed :: bool
  te_randomSeed :: u32
  te_sid :: string
  te_bodyText :: string
  te_detail :: string

record 'u app_ready_options =
  ao_timeout :: int
  ao_eventMasks :: string
  ao_randomSeed :: "u32 option"
  ao_trace :: "(app_ready_trace_event \<Rightarrow> 'u \<Rightarrow> unit option \<times> 'u) option"
  ao_skipControlOpen :: bool
  ao_cancelled :: "'u cancelled_hook option"
  ao_progress :: "'u progress_hook option"

definition AppReadyOptions_default :: "'u app_ready_options" where
  "AppReadyOptions_default = \<lparr>ao_timeout = 5000, ao_eventMasks = '''', ao_randomSeed = None, ao_trace = None,
     ao_skipControlOpen = False, ao_cancelled = None, ao_progress = None\<rparr>"

record app_ready_result =
  ar_ok :: bool
  ar_statusCode :: error_code
  ar_stage :: string
  ar_sid :: string
  ar_hasRandomSeed :: bool
  ar_randomSeed :: u32

definition AppReadyResult_default :: app_ready_result where
  "AppReadyResult_default = \<lparr>ar_ok = False, ar_statusCode = ErrorCode_Success, ar_stage = '''', ar_sid = '''',
     ar_hasRandomSeed = False, ar_randomSeed = 0\<rparr>"

record sdk_error =
  se_code :: error_code
  se_message :: string

definition SdkError_ok :: "sdk_error \<Rightarrow> bool" where
  "SdkError_ok e \<longleftrightarrow> se_code e = ErrorCode_Success"

definition SdkError_success :: sdk_error where
  "SdkError_success = \<lparr>se_code = ErrorCode_Success, se_message = ''''\<rparr>"

definition SdkError_failure :: "error_code \<Rightarrow> string \<Rightarrow> sdk_error" where
  "SdkError_failure code message = \<lparr>se_code = code, se_message = message\<rparr>"

section \<open>The client\<close>

text \<open>What the client uses of a transport; its \<^verbatim>\<open>open\<close> and \<^verbatim>\<open>close\<close> calls are recorded.\<close>

record transport =
  tr_profile :: transport_profile
  tr_currentReplyTarget :: provider

datatype transport_event = TransportOpen | TransportClose

type_synonym 'u local_handler = "rpc_payload \<Rightarrow> 'u \<Rightarrow> bytes option \<times> 'u"
type_synonym 'u raw_event_handler = "rpc_payload \<Rightarrow> 'u \<Rightarrow> unit option \<times> 'u"

text \<open>The endpoint pointer is never null; the broker is the one inside the endpoint.\<close>

record 'u axtp_client =
  cl_options :: client_options
  cl_transport :: "transport option"
  cl_log :: "transport_event list"
  cl_endpoint :: "'u axtp_endpoint"
  cl_ingressTokenProvider :: "provider option"
  cl_registry :: method_registry
  cl_localHandlers :: "u32 \<rightharpoonup> 'u local_handler"
  cl_eventHandlers :: "u32 \<rightharpoonup> 'u raw_event_handler option"
  cl_usedRequestIds :: "u32 set"
  cl_nextRequestId :: u32
  cl_nextControlId :: u16
  cl_appReady :: bool
  cl_connected :: bool
  cl_identifyOutstanding :: bool
  cl_sessionSid :: string
  cl_pendingIdentifyRandomSeed :: "u32 option"
  cl_negotiatedHeartbeatIntervalMs :: "u32 option"
  cl_lastAppReady :: app_ready_result
  cl_lastError :: sdk_error

definition AxtpClient :: "client_options \<Rightarrow> 'u axtp_client" where
  "AxtpClient options = \<lparr>cl_options = options, cl_transport = None, cl_log = [],
     cl_endpoint = AxtpEndpoint BasicBroker, cl_ingressTokenProvider = None, cl_registry = fromGeneratedDefaults,
     cl_localHandlers = Map.empty, cl_eventHandlers = Map.empty, cl_usedRequestIds = {}, cl_nextRequestId = 1,
     cl_nextControlId = 1, cl_appReady = False, cl_connected = False, cl_identifyOutstanding = False,
     cl_sessionSid = '''', cl_pendingIdentifyRandomSeed = None, cl_negotiatedHeartbeatIntervalMs = None,
     cl_lastAppReady = AppReadyResult_default, cl_lastError = SdkError_success\<rparr>"

text \<open>The members that \<^verbatim>\<open>close\<close> and \<^verbatim>\<open>attachTransport\<close> reset.\<close>

definition reset_session :: "'u axtp_client \<Rightarrow> 'u axtp_client" where
  "reset_session c = c\<lparr>cl_appReady := False, cl_sessionSid := '''', cl_identifyOutstanding := False,
     cl_pendingIdentifyRandomSeed := None, cl_negotiatedHeartbeatIntervalMs := None, cl_usedRequestIds := {}\<rparr>"

definition client_close :: "'u axtp_client \<Rightarrow> 'u axtp_client" where
  "client_close c =
     (let c = (if cl_transport c \<noteq> None then c\<lparr>cl_log := cl_log c @ [TransportClose]\<rparr> else c);
          c = c\<lparr>cl_connected := False\<rparr>;
          c = reset_session c
      in c\<lparr>cl_endpoint := (cl_endpoint c)\<lparr>ep_core := core_resetResponseTracking (ep_core (cl_endpoint c))\<rparr>\<rparr>)"

definition client_attachTransport :: "'u axtp_client \<Rightarrow> transport option \<Rightarrow> 'u axtp_client" where
  "client_attachTransport c transport =
     (let c = client_close c;
          c = c\<lparr>cl_transport := transport, cl_log := []\<rparr>;
          c = c\<lparr>cl_endpoint := AxtpEndpoint (ep_broker (cl_endpoint c))\<rparr>;
          c = reset_session c
      in case transport of
           None \<Rightarrow> c
         | Some t \<Rightarrow>
             (let e = attachTransport (cl_endpoint c) (tr_profile t) (tr_currentReplyTarget t);
                  e = endpoint_setIngressTokenProvider e (cl_ingressTokenProvider c);
                  c = c\<lparr>cl_endpoint := e\<rparr>;
                  c = (if cop_autoOpen (cl_options c) then c\<lparr>cl_log := cl_log c @ [TransportOpen]\<rparr> else c)
              in c\<lparr>cl_connected := True\<rparr>))"

text \<open>The \<^verbatim>\<open>connect\<close> functions, all of which fail: connectors are separate packages.\<close>

definition connectTcp :: "'u axtp_client \<Rightarrow> 'u axtp_client" where
  "connectTcp c = c\<lparr>cl_lastError := SdkError_failure ErrorCode_NotSupported
     ''TCP transport construction is provided by optional connectors'', cl_connected := False\<rparr>"

definition connectWebSocket :: "'u axtp_client \<Rightarrow> wire_mode \<Rightarrow> 'u axtp_client" where
  "connectWebSocket c wireMode = c\<lparr>cl_options := (cl_options c)\<lparr>cop_wireMode := wireMode\<rparr>,
     cl_lastError := SdkError_failure ErrorCode_NotSupported
       ''WebSocket transport construction is provided by optional connectors'', cl_connected := False\<rparr>"

definition connectHid :: "'u axtp_client \<Rightarrow> 'u axtp_client" where
  "connectHid c = c\<lparr>cl_lastError := SdkError_failure ErrorCode_NotSupported
     ''HID transport construction is provided by optional connectors'', cl_connected := False\<rparr>"

definition connectBle :: "'u axtp_client \<Rightarrow> 'u axtp_client" where
  "connectBle c = c\<lparr>cl_lastError := SdkError_failure ErrorCode_NotSupported
     ''BLE client transport is not implemented in P0''\<rparr>"

definition connectUart :: "'u axtp_client \<Rightarrow> 'u axtp_client" where
  "connectUart c = c\<lparr>cl_lastError := SdkError_failure ErrorCode_NotSupported
     ''UART client transport is not implemented in P0''\<rparr>"

definition client_setIngressTokenProvider :: "'u axtp_client \<Rightarrow> provider option \<Rightarrow> 'u axtp_client" where
  "client_setIngressTokenProvider c p =
     (let c = c\<lparr>cl_ingressTokenProvider := p\<rparr>
      in c\<lparr>cl_endpoint := endpoint_setIngressTokenProvider (cl_endpoint c) (cl_ingressTokenProvider c)\<rparr>)"

definition setNextRequestIdForTesting :: "'u axtp_client \<Rightarrow> u32 \<Rightarrow> 'u axtp_client" where
  "setNextRequestIdForTesting c requestId = c\<lparr>cl_nextRequestId := requestId\<rparr>"

definition client_registerMethod :: "'u axtp_client \<Rightarrow> u32 \<Rightarrow> 'u local_handler \<Rightarrow> 'u axtp_client" where
  "client_registerMethod c methodId handler =
     c\<lparr>cl_localHandlers := (cl_localHandlers c)(methodId \<mapsto> handler)\<rparr>"

definition client_registerEventHandler ::
    "'u axtp_client \<Rightarrow> u32 \<Rightarrow> 'u raw_event_handler option \<Rightarrow> 'u axtp_client" where
  "client_registerEventHandler c eventId handler =
     c\<lparr>cl_eventHandlers := (cl_eventHandlers c)(eventId \<mapsto> handler)\<rparr>"

definition client_setStreamHandler :: "'u axtp_client \<Rightarrow> 'u stream_handler option \<Rightarrow> 'u axtp_client" where
  "client_setStreamHandler c handler =
     c\<lparr>cl_endpoint := (cl_endpoint c)\<lparr>ep_broker := registerStreamHandler (ep_broker (cl_endpoint c)) handler\<rparr>\<rparr>"

definition client_emitRaw :: "(u32 \<rightharpoonup> 'u raw_event_handler option) \<Rightarrow> rpc_payload \<Rightarrow> 'u \<Rightarrow> unit option \<times> 'u" where
  "client_emitRaw handlers eventPayload u =
     (case handlers (rp_methodOrEventId eventPayload) of
        Some (Some handler) \<Rightarrow> handler eventPayload u
      | _ \<Rightarrow> (Some (), u))"

definition client_sendStream :: "json_lib \<Rightarrow> 'u axtp_client \<Rightarrow> stream_payload \<Rightarrow> 'u axtp_client" where
  "client_sendStream lib c payload =
     (case cl_transport c of
        None \<Rightarrow> c\<lparr>cl_lastError := SdkError_failure ErrorCode_Unavailable ''transport unavailable''\<rparr>
      | Some t \<Rightarrow>
          (let e = cl_endpoint c;
               e = e\<lparr>ep_core := configure (ep_core e) (tr_profile t)\<rparr>;
               e = endpoint_sendStream lib e payload
           in c\<lparr>cl_endpoint := e, cl_lastError := SdkError_success\<rparr>))"


section \<open>Requests\<close>

definition makeDynamicRequest ::
    "'u axtp_client \<Rightarrow> u32 \<Rightarrow> rpc_encoding \<Rightarrow> bytes \<Rightarrow> 'u call_options \<Rightarrow> rpc_payload" where
  "makeDynamicRequest c methodId encoding body options =
     (let payload = RpcPayload_default;
          payload = payload\<lparr>rp_encoding := encoding\<rparr>;
          payload = payload\<lparr>rp_op := RpcOp_Request\<rparr>;
          payload = payload\<lparr>rp_methodOrEventId := methodId\<rparr>;
          payload = payload\<lparr>rp_bodyEncoding := bodyEncodingForRpcEncoding encoding\<rparr>;
          payload = payload\<lparr>rp_body := body\<rparr>;
          meta = rp_meta payload;
          meta = meta\<lparr>pm_sourceProtocol := (if encoding = RpcEncoding_Json then JsonRpc else AxtpV1)\<rparr>;
          meta = (case findMethodName (cl_registry c) methodId of
                    Some name \<Rightarrow> meta\<lparr>pm_jsonMethodOrEventName := name\<rparr> | None \<Rightarrow> meta);
          meta = meta\<lparr>pm_endpoint := ca_endpoint options\<rparr>
      in payload\<lparr>rp_meta := meta\<rparr>)"

definition makeErrorResponse :: "rpc_payload \<Rightarrow> error_code \<Rightarrow> rpc_payload" where
  "makeErrorResponse request code =
     RpcPayload_default\<lparr>rp_encoding := rp_encoding request, rp_op := RpcOp_RequestResponse,
       rp_requestId := rp_requestId request, rp_methodOrEventId := rp_methodOrEventId request,
       rp_statusCode := code, rp_bodyEncoding := rp_bodyEncoding request,
       rp_meta := (rp_meta request)\<lparr>pm_endpoint := responseEndpointMetadata (pm_endpoint (rp_meta request))\<rparr>\<rparr>"

text \<open>
  The \<^verbatim>\<open>do ... while\<close> loop of \<^verbatim>\<open>allocateRequestId\<close>. It ends because the candidates go round the
  non-zero ids: \<open>id_distance\<close> is how far the first candidate is ahead.
\<close>

definition firstCandidate :: "u32 \<Rightarrow> u32" where
  "firstCandidate nextRequestId = (if nextRequestId = 0 then 1 else nextRequestId)"

definition nextCandidate :: "u32 \<Rightarrow> u32" where
  "nextCandidate candidate = (if candidate + 1 = 0 then 1 else candidate + 1)"

definition id_distance :: "u32 \<Rightarrow> u32 \<Rightarrow> nat" where
  "id_distance first candidate =
     (if unat candidate < unat first then unat first - unat candidate else 2 ^ 32 + unat first - unat candidate)"

lemma unat_nextCandidate:
  "unat (nextCandidate c) = (if unat c = 2 ^ 32 - 1 then 1 else Suc (unat c))"
proof (cases "c + 1 = 0")
  case True
  then have "c = - 1" by (simp add: eq_neg_iff_add_eq_0)
  then have "unat c = 2 ^ 32 - 1" by (simp add: unsigned_minus_1_eq_mask mask_eq_exp_minus_1)
  with True show ?thesis by (simp add: nextCandidate_def)
next
  case False
  then have "unat (c + 1) = Suc (unat c)" by (metis add.commute unatSuc)
  with False unsigned_less [of "c + 1", where 'a = nat] show ?thesis by (simp add: nextCandidate_def)
qed

lemma id_distance_next:
  assumes "first \<noteq> 0" and "nextCandidate candidate \<noteq> first"
  shows "id_distance first (nextCandidate candidate) < id_distance first candidate"
proof -
  have "unat (nextCandidate candidate) \<noteq> unat first" using assms(2) by (simp add: word_unat_eq_iff)
  moreover have "0 < unat first" using assms(1) by (simp add: unat_gt_0)
  ultimately show ?thesis
    using unsigned_less [of candidate, where 'a = nat] unsigned_less [of first, where 'a = nat]
    unfolding id_distance_def unat_nextCandidate by (auto split: if_splits)
qed

text \<open>No other id lies between a candidate and the next one.\<close>

lemma cycle_between:
  fixes x c f N :: nat
  assumes "0 < x" "x \<noteq> c" "0 < f" "0 < c" "x < N" "c < N" "f < N"
    and "(if x < f then f - x else N + f - x) \<le> (if c < f then f - c else N + f - c)"
  shows "(if c = N - 1 then 1 else Suc c) \<noteq> f \<and> (if x < f then f - x else N + f - x) \<le>
    (if (if c = N - 1 then 1 else Suc c) < f then f - (if c = N - 1 then 1 else Suc c)
     else N + f - (if c = N - 1 then 1 else Suc c))"
  using assms by (auto split: if_splits)

lemma id_distance_between:
  assumes "x \<noteq> 0" and "x \<noteq> candidate" and "id_distance first x \<le> id_distance first candidate"
    and "first \<noteq> 0" and "candidate \<noteq> 0"
  shows "nextCandidate candidate \<noteq> first \<and> id_distance first x \<le> id_distance first (nextCandidate candidate)"
proof -
  obtain N where N: "(2 :: nat) ^ 32 = N" by simp
  have d: "id_distance first y = (if unat y < unat first then unat first - unat y else N + unat first - unat y)" for y
    by (simp only: id_distance_def N)
  have n: "unat (nextCandidate candidate) = (if unat candidate = N - 1 then 1 else Suc (unat candidate))"
    by (simp only: unat_nextCandidate N)
  have less: "unat (w :: u32) < N" for w using unsigned_less [of w, where 'a = nat] by (simp add: N [symmetric])
  have "0 < unat x" "unat x \<noteq> unat candidate" "0 < unat first" "0 < unat candidate"
    using assms(1,2,4,5) word_unat_eq_iff [of x candidate] by (simp_all add: unat_gt_0)
  from cycle_between [OF this less less less assms(3) [unfolded d], folded n, folded d]
  show ?thesis by (simp add: word_unat_eq_iff)
qed

function allocateLoop :: "u32 set \<Rightarrow> u32 \<Rightarrow> u32 \<Rightarrow> u32 option" where
  "allocateLoop used nextRequestId candidate =
     (if candidate \<notin> used then Some candidate
      else (let candidate = nextCandidate candidate in
            if candidate \<noteq> firstCandidate nextRequestId then allocateLoop used nextRequestId candidate else None))"
  by pat_completeness auto
termination
  by (relation "measure (\<lambda>(_, n, c). id_distance (firstCandidate n) c)")
    (auto simp: firstCandidate_def intro: id_distance_next)

declare allocateLoop.simps [simp del]

definition allocateRequestId :: "'u axtp_client \<Rightarrow> u32 option \<times> 'u axtp_client" where
  "allocateRequestId c =
     (case allocateLoop (cl_usedRequestIds c) (cl_nextRequestId c) (firstCandidate (cl_nextRequestId c)) of
        None \<Rightarrow> (None, c)
      | Some candidate \<Rightarrow>
          (Some candidate, c\<lparr>cl_usedRequestIds := insert candidate (cl_usedRequestIds c), cl_nextRequestId := candidate + 1\<rparr>))"

definition invalidEndpoint :: "endpoint_metadata \<Rightarrow> bool" where
  "invalidEndpoint endpoint \<longleftrightarrow> em_src endpoint = Some '''' \<or> em_dst endpoint = Some ''''"

text \<open>False: the request is refused; the request comes back as far as it was changed.\<close>

definition normalizeRequest :: "'u axtp_client \<Rightarrow> rpc_payload \<Rightarrow> bool \<times> rpc_payload \<times> 'u axtp_client" where
  "normalizeRequest c request =
     (if invalidEndpoint (pm_endpoint (rp_meta request)) \<or>
         (isJsonBinaryRpcEncoding (rp_encoding request) \<and> hasEndpointMetadata (pm_endpoint (rp_meta request)))
      then (False, request, c)
      else
        (let (allocated, c) =
               (if rp_requestId request = 0 then allocateRequestId c
                else if rp_requestId request \<in> cl_usedRequestIds c then (None, c)
                else (Some (rp_requestId request),
                      c\<lparr>cl_usedRequestIds := insert (rp_requestId request) (cl_usedRequestIds c)\<rparr>))
         in case allocated of
              None \<Rightarrow> (False, request, c)
            | Some requestId \<Rightarrow>
                (let request = request\<lparr>rp_requestId := requestId\<rparr>;
                     request = (if rp_bodyEncoding request = RpcBodyEncoding_Tlv8 \<and>
                                   \<not> isJsonBinaryRpcEncoding (rp_encoding request)
                                then request\<lparr>rp_bodyEncoding := bodyEncodingForRpcEncoding (rp_encoding request)\<rparr>
                                else request);
                     request = request\<lparr>rp_op := RpcOp_Request\<rparr>;
                     request = request\<lparr>rp_meta := (rp_meta request)\<lparr>pm_requestId := rp_requestId request\<rparr>\<rparr>;
                     request = (if pm_sourceProtocol (rp_meta request) = JsonRpc \<and> pm_jsonSid (rp_meta request) = '''' \<and>
                                   cl_appReady c \<and> cl_sessionSid c \<noteq> ''''
                                then request\<lparr>rp_meta := (rp_meta request)\<lparr>pm_jsonSid := cl_sessionSid c\<rparr>\<rparr>
                                else request)
                 in (True, request, c))))"

section \<open>The world of a call\<close>

record wait_round =
  rn_arrivals :: "bytes list"
  rn_now :: int

record 'u world =
  wo_client :: "'u axtp_client"
  wo_app :: 'u
  wo_now :: int
  wo_rounds :: "wait_round list"
  wo_randomSeed :: u32

definition client_get :: "('u axtp_client \<Rightarrow> 'a) \<Rightarrow> ('u world, 'a) act" where
  "client_get f = inspect (\<lambda>w. f (wo_client w))"

definition client_do :: "('u axtp_client \<Rightarrow> 'u axtp_client) \<Rightarrow> ('u world, unit) act" where
  "client_do f = change (\<lambda>w. w\<lparr>wo_client := f (wo_client w)\<rparr>)"

definition client_run :: "('u axtp_client \<Rightarrow> 'a \<times> 'u axtp_client) \<Rightarrow> ('u world, 'a) act" where
  "client_run f = (\<lambda>w. let (x, c) = f (wo_client w) in (Done x, w\<lparr>wo_client := c\<rparr>))"

definition endpoint_run :: "('u axtp_endpoint \<Rightarrow> 'a \<times> 'u axtp_endpoint) \<Rightarrow> ('u world, 'a) act" where
  "endpoint_run f = client_run (\<lambda>c. let (x, e) = f (cl_endpoint c) in (x, c\<lparr>cl_endpoint := e\<rparr>))"

definition endpoint_do :: "('u axtp_endpoint \<Rightarrow> 'u axtp_endpoint) \<Rightarrow> ('u world, unit) act" where
  "endpoint_do f = client_do (\<lambda>c. c\<lparr>cl_endpoint := f (cl_endpoint c)\<rparr>)"

definition callback :: "('u \<Rightarrow> 'a option \<times> 'u) \<Rightarrow> ('u world, 'a) act" where
  "callback f = (\<lambda>w. let (r, u) = f (wo_app w) in
     (case r of None \<Rightarrow> Thrown | Some x \<Rightarrow> Done x, w\<lparr>wo_app := u\<rparr>))"

text \<open>
  \<^verbatim>\<open>poll\<close> takes the next round. The event handler that the constructor registers with the broker reads
  the client's handlers when it runs; here it is renewed before each poll.
\<close>

definition client_poll :: "json_lib \<Rightarrow> ('u world, unit) act" where
  "client_poll lib = (\<lambda>w.
     case wo_rounds w of
       [] \<Rightarrow> (Waiting, w)
     | r # rounds \<Rightarrow>
         (let c = wo_client w;
              handler = (\<lambda>_ eventPayload. client_emitRaw (cl_eventHandlers c) eventPayload);
              e = cl_endpoint c;
              e = e\<lparr>ep_broker := registerEventHandler (ep_broker e) (Some handler)\<rparr>;
              (ok, e, u) = endpoint_poll lib e (rn_arrivals r) 8 (wo_app w)
          in (if ok then Done () else Thrown,
              w\<lparr>wo_client := c\<lparr>cl_endpoint := e\<rparr>, wo_app := u, wo_now := rn_now r, wo_rounds := rounds\<rparr>)))"

definition wait_loop :: "('u world, 'a option) act \<Rightarrow> ('u world, 'a) act" where
  "wait_loop body = (\<lambda>w. waitRounds (Suc (length (wo_rounds w))) body w)"

text \<open>The clock counts nanoseconds.\<close>

definition milliseconds :: "int \<Rightarrow> int" where
  "milliseconds n = n * 1000000"

definition deadlineAfter :: "int \<Rightarrow> ('u world, int) act" where
  "deadlineAfter timeout = inspect (\<lambda>w. wo_now w + milliseconds (max timeout 0))"

definition remainingUntil :: "int \<Rightarrow> ('u world, int) act" where
  "remainingUntil deadline = inspect (\<lambda>w. max ((deadline - wo_now w) div 1000000) 0)"

definition deadlinePassed :: "int \<Rightarrow> ('u world, bool) act" where
  "deadlinePassed deadline = inspect (\<lambda>w. deadline \<le> wo_now w)"

definition invokeProgress :: "'u progress_hook option \<Rightarrow> ('u world, error_code option) act" where
  "invokeProgress hook =
     (case hook of
        None \<Rightarrow> ret None
      | Some f \<Rightarrow> andThen (attempt (callback f)) (\<lambda>r. ret (if r = None then Some ErrorCode_InternalError else None)))"

definition invokeCancellation :: "'u cancelled_hook option \<Rightarrow> ('u world, error_code option) act" where
  "invokeCancellation hook =
     (case hook of
        None \<Rightarrow> ret None
      | Some f \<Rightarrow> andThen (attempt (callback f)) (\<lambda>r. ret (case r of
            None \<Rightarrow> Some ErrorCode_InternalError
          | Some stop \<Rightarrow> if stop then Some ErrorCode_Canceled else None)))"

text \<open>The overloads used while an application session is set up for a call.\<close>

definition readyProgress :: "'u app_ready_options \<Rightarrow> 'u call_options option \<Rightarrow> 'u progress_hook option" where
  "readyProgress appOptions callOptions =
     (case callOptions of Some options \<Rightarrow> ca_progress options | None \<Rightarrow> ao_progress appOptions)"

definition readyCancelled :: "'u app_ready_options \<Rightarrow> 'u call_options option \<Rightarrow> 'u cancelled_hook option" where
  "readyCancelled appOptions callOptions =
     (case callOptions of Some options \<Rightarrow> ca_cancelled options | None \<Rightarrow> ao_cancelled appOptions)"


section \<open>ensureAppReady\<close>

definition emitTrace ::
    "'u app_ready_options \<Rightarrow> app_ready_result \<Rightarrow> string \<Rightarrow> string \<Rightarrow> error_code \<Rightarrow> u16 \<Rightarrow> string \<Rightarrow> string \<Rightarrow> string \<Rightarrow>
       bool \<Rightarrow> ('u world, unit) act" where
  "emitTrace options result stage action statusCode controlId sid bodyText detail includeRandomSeed =
     (case ao_trace options of
        None \<Rightarrow> ret ()
      | Some trace \<Rightarrow>
          (let hasRandomSeed = includeRandomSeed \<and> ar_hasRandomSeed result in
           callback (trace \<lparr>te_stage = stage, te_action = action, te_statusCode = statusCode, te_controlId = controlId,
             te_hasRandomSeed = hasRandomSeed, te_randomSeed = (if hasRandomSeed then ar_randomSeed result else 0),
             te_sid = sid, te_bodyText = bodyText, te_detail = detail\<rparr>)))"

text \<open>How the function returns: the result and the error are remembered.\<close>

definition returnReady :: "app_ready_result \<Rightarrow> sdk_error \<Rightarrow> ('u world, app_ready_result) act" where
  "returnReady result e =
     andThen (client_do (\<lambda>c. c\<lparr>cl_lastAppReady := result, cl_lastError := e\<rparr>)) (\<lambda>_. ret result)"

definition failReady :: "app_ready_result \<Rightarrow> string \<Rightarrow> ('u world, app_ready_result) act" where
  "failReady result message = returnReady result (SdkError_failure (ar_statusCode result) message)"

definition stopWaiting ::
    "'u app_ready_options \<Rightarrow> 'u call_options option \<Rightarrow> app_ready_result \<Rightarrow> string \<Rightarrow>
       ('u world, app_ready_result option) act" where
  "stopWaiting options waitOptions result stage =
     andThen (invokeProgress (readyProgress options waitOptions)) (\<lambda>status.
       case status of
         None \<Rightarrow> ret None
       | Some code \<Rightarrow>
           (let result = result\<lparr>ar_statusCode := code, ar_stage := stage\<rparr> in
            andThen (emitTrace options result (ar_stage result) ''error'' code 0 '''' '''' ''progress callback failed'' False)
              (\<lambda>_. andThen (failReady result ''app-ready progress failed'') (\<lambda>r. ret (Some r)))))"

definition cancellationOrTimeout ::
    "'u app_ready_options \<Rightarrow> 'u call_options option \<Rightarrow> int \<Rightarrow> app_ready_result \<Rightarrow> string \<Rightarrow>
       ('u world, app_ready_result option) act" where
  "cancellationOrTimeout options waitOptions deadline result stage =
     andThen (invokeCancellation (readyCancelled options waitOptions)) (\<lambda>status.
       case status of
         Some code \<Rightarrow>
           (let result = result\<lparr>ar_statusCode := code, ar_stage := stage\<rparr> in
            andThen (emitTrace options result (ar_stage result)
                (if code = ErrorCode_Canceled then ''cancelled'' else ''error'') code 0 '''' '''' '''' False)
              (\<lambda>_. andThen (failReady result ''app-ready cancelled'') (\<lambda>r. ret (Some r))))
       | None \<Rightarrow>
           andThen (deadlinePassed deadline) (\<lambda>passed.
             if passed then
               (let result = result\<lparr>ar_statusCode := ErrorCode_RpcResponseTimeout, ar_stage := stage\<rparr> in
                andThen (emitTrace options result (ar_stage result) ''timeout'' (ar_statusCode result) 0 '''' '''' '''' False)
                  (\<lambda>_. andThen (failReady result ''app-ready timeout'') (\<lambda>r. ret (Some r))))
             else ret None))"

definition handleIdentified ::
    "'u app_ready_options \<Rightarrow> app_ready_result \<Rightarrow> rpc_payload \<Rightarrow> ('u world, app_ready_result) act" where
  "handleIdentified options result identified =
     (let bodyText = string_of_bytes (rp_body identified); sid = pm_jsonSid (rp_meta identified) in
      andThen (emitTrace options result ''identified'' ''receive'' ErrorCode_Success 0 sid bodyText '''' True) (\<lambda>_.
      andThen (client_do (\<lambda>c. c\<lparr>cl_identifyOutstanding := False, cl_pendingIdentifyRandomSeed := None\<rparr>)) (\<lambda>_.
      if sid \<noteq> ''''
      then
        andThen (client_do (\<lambda>c. c\<lparr>cl_sessionSid := sid, cl_appReady := True\<rparr>)) (\<lambda>_.
          let result = result\<lparr>ar_ok := True, ar_statusCode := ErrorCode_Success, ar_stage := ''app-ready'', ar_sid := sid\<rparr> in
          andThen (emitTrace options result ''app-ready'' ''ready'' ErrorCode_Success 0 (ar_sid result) '''' '''' True)
            (\<lambda>_. returnReady result SdkError_success))
      else
        (let result = result\<lparr>ar_statusCode := ErrorCode_RpcPayloadInvalid\<rparr> in
         andThen (emitTrace options result ''identified'' ''error'' (ar_statusCode result) 0 '''' bodyText '''' True)
           (\<lambda>_. failReady result ''identified sid missing'')))))"

definition waitForIdentified ::
    "json_lib \<Rightarrow> 'u app_ready_options \<Rightarrow> 'u call_options option \<Rightarrow> int \<Rightarrow> app_ready_result \<Rightarrow>
       ('u world, app_ready_result) act" where
  "waitForIdentified lib options waitOptions deadline result =
     andThen (client_get cl_pendingIdentifyRandomSeed) (\<lambda>pending.
       let result = result\<lparr>ar_stage := ''identified'', ar_hasRandomSeed := pending \<noteq> None,
             ar_randomSeed := (case pending of Some seed \<Rightarrow> seed | None \<Rightarrow> 0)\<rparr> in
       andThen (emitTrace options result ''identified'' ''wait'' ErrorCode_Success 0 '''' '''' '''' True) (\<lambda>_.
       wait_loop
         (andThen (client_poll lib) (\<lambda>_.
          unlessReturned (stopWaiting options waitOptions result ''identified'')
            (andThen (endpoint_run (\<lambda>e. endpoint_tryTakeSessionRpc e RpcOp_Identified)) (\<lambda>identified.
             case identified of
               Some identified \<Rightarrow> andThen (handleIdentified options result identified) (\<lambda>r. ret (Some r))
             | None \<Rightarrow> cancellationOrTimeout options waitOptions deadline result ''identified''))))))"

text \<open>The control session: \<open>Some\<close> is an early return.\<close>

definition handleAccept ::
    "'u app_ready_options \<Rightarrow> app_ready_result \<Rightarrow> control_payload \<Rightarrow> ('u world, app_ready_result option) act" where
  "handleAccept options result accept =
     andThen (emitTrace options result ''control-accept'' ''receive'' (cp_statusCode accept) (cp_controlId accept)
         '''' '''' ''controlId matched'' False) (\<lambda>_.
     andThen (client_get (\<lambda>c. cs_open (co_controlSession (ep_core (cl_endpoint c))))) (\<lambda>opened.
     if cp_statusCode accept = ErrorCode_Success \<and> opened
     then
       andThen (client_do (\<lambda>c. c\<lparr>cl_negotiatedHeartbeatIntervalMs :=
           negotiatedHeartbeatIntervalMs (co_controlSession (ep_core (cl_endpoint c)))\<rparr>)) (\<lambda>_.
       andThen (emitTrace options result ''framing-ready'' ''ready'' ErrorCode_Success (cp_controlId accept)
           '''' '''' '''' False) (\<lambda>_. ret None))
     else
       (let result = result\<lparr>ar_statusCode := (if cp_statusCode accept = ErrorCode_Success
                then ErrorCode_ControlOpenRejected else cp_statusCode accept)\<rparr> in
        andThen (emitTrace options result ''control-open'' ''error'' (ar_statusCode result) (cp_controlId accept)
            '''' '''' '''' False)
          (\<lambda>_. andThen (failReady result ''control open rejected'') (\<lambda>r. ret (Some r))))))"

definition openControl ::
    "json_lib \<Rightarrow> 'u app_ready_options \<Rightarrow> 'u call_options option \<Rightarrow> int \<Rightarrow> app_ready_result \<Rightarrow>
       ('u world, app_ready_result option) act" where
  "openControl lib options waitOptions deadline result =
     andThen (client_run (\<lambda>c. (cl_nextControlId c, c\<lparr>cl_nextControlId := cl_nextControlId c + 1\<rparr>))) (\<lambda>controlId.
     andThen (emitTrace options result ''control-open'' ''send'' ErrorCode_Success controlId '''' '''' '''' False) (\<lambda>_.
     andThen (endpoint_do (\<lambda>e. endpoint_sendControlOpen e controlId)) (\<lambda>_.
     andThen (emitTrace options result ''control-accept'' ''wait'' ErrorCode_Success controlId '''' '''' '''' False) (\<lambda>_.
     unlessReturned
       (wait_loop
         (andThen (client_poll lib) (\<lambda>_.
          andThen (stopWaiting options waitOptions result ''control-accept'') (\<lambda>stopped.
          case stopped of
            Some r \<Rightarrow> ret (Some (Some r))
          | None \<Rightarrow>
              andThen (endpoint_run (\<lambda>e. endpoint_tryTakeControlNoticeFor e ControlOpcode_Accept controlId)) (\<lambda>accept.
              case accept of
                Some accept \<Rightarrow> andThen (handleAccept options result accept) (\<lambda>r. ret (Some r))
              | None \<Rightarrow>
                  andThen (cancellationOrTimeout options waitOptions deadline result ''control-accept'') (\<lambda>stopped.
                  ret (case stopped of Some r \<Rightarrow> Some (Some r) | None \<Rightarrow> None)))))))
       (andThen (client_get (\<lambda>c. cs_open (co_controlSession (ep_core (cl_endpoint c))))) (\<lambda>opened.
        if opened then ret None
        else
          (let result = result\<lparr>ar_statusCode := ErrorCode_RpcResponseTimeout\<rparr> in
           andThen (emitTrace options result ''control-accept'' ''timeout'' (ar_statusCode result) controlId '''' '''' '''' False)
             (\<lambda>_. andThen (failReady result ''control accept timeout'') (\<lambda>r. ret (Some r))))))))))"

text \<open>The loop that waits for HELLO ends with \<^verbatim>\<open>gotHello\<close> set or returns, so the test after it never holds.\<close>

definition waitForHello ::
    "json_lib \<Rightarrow> 'u app_ready_options \<Rightarrow> 'u call_options option \<Rightarrow> int \<Rightarrow> app_ready_result \<Rightarrow>
       ('u world, app_ready_result option) act" where
  "waitForHello lib options waitOptions deadline result =
     andThen (emitTrace options result ''hello'' ''wait'' ErrorCode_Success 0 '''' '''' '''' False) (\<lambda>_.
     wait_loop
       (andThen (client_poll lib) (\<lambda>_.
        andThen (stopWaiting options waitOptions result ''hello'') (\<lambda>stopped.
        case stopped of
          Some r \<Rightarrow> ret (Some (Some r))
        | None \<Rightarrow>
            andThen (endpoint_run (\<lambda>e. endpoint_tryTakeSessionRpc e RpcOp_Hello)) (\<lambda>hello.
            case hello of
              Some hello \<Rightarrow>
                andThen (emitTrace options result ''hello'' ''receive'' ErrorCode_Success 0 (pm_jsonSid (rp_meta hello))
                    (string_of_bytes (rp_body hello)) '''' False) (\<lambda>_. ret (Some None))
            | None \<Rightarrow>
                andThen (cancellationOrTimeout options waitOptions deadline result ''hello'') (\<lambda>stopped.
                ret (case stopped of Some r \<Rightarrow> Some (Some r) | None \<Rightarrow> None)))))))"

definition identify ::
    "json_lib \<Rightarrow> 'u app_ready_options \<Rightarrow> app_ready_result \<Rightarrow> ('u world, app_ready_result) act" where
  "identify lib options result =
     andThen (inspect wo_randomSeed) (\<lambda>generated.
     let seed = (case ao_randomSeed options of Some seed \<Rightarrow> seed | None \<Rightarrow> generated);
         result = result\<lparr>ar_stage := ''identify'', ar_hasRandomSeed := True, ar_randomSeed := seed\<rparr> in
     andThen (emitTrace options result ''identify'' ''send'' ErrorCode_Success 0 '''' ''''
         (''randomSeed='' @ decimal (unat seed) @ '' eventMasks='' @ ao_eventMasks options) True) (\<lambda>_.
     andThen (endpoint_run (\<lambda>e. case endpoint_sendRpcSession lib e (makeIdentify seed (ao_eventMasks options)) of
         None \<Rightarrow> (False, e) | Some e \<Rightarrow> (True, e))) (\<lambda>sent.
     if \<not> sent then raise
     else
       andThen (client_do (\<lambda>c. c\<lparr>cl_identifyOutstanding := True, cl_pendingIdentifyRandomSeed := Some seed\<rparr>))
         (\<lambda>_. ret result))))"

definition ensureAppReadyUntilImpl ::
    "json_lib \<Rightarrow> 'u app_ready_options \<Rightarrow> int \<Rightarrow> 'u call_options option \<Rightarrow> ('u world, app_ready_result) act" where
  "ensureAppReadyUntilImpl lib options deadline waitOptions =
     (let result = AppReadyResult_default in
      andThen (emitTrace options result ''start'' ''begin'' ErrorCode_Success 0 '''' '''' ''ensureAppReady entered'' False) (\<lambda>_.
      andThen (client_get (\<lambda>c. c)) (\<lambda>c.
      if cl_appReady c \<and> cl_sessionSid c \<noteq> ''''
      then
        (let result = result\<lparr>ar_ok := True, ar_stage := ''app-ready'', ar_sid := cl_sessionSid c,
               ar_hasRandomSeed := ar_hasRandomSeed (cl_lastAppReady c),
               ar_randomSeed := ar_randomSeed (cl_lastAppReady c)\<rparr> in
         andThen (emitTrace options result ''app-ready'' ''already-ready'' ErrorCode_Success 0 (ar_sid result) '''' '''' True)
           (\<lambda>_. returnReady result SdkError_success))
      else
        (case cl_transport c of
           None \<Rightarrow>
             (let result = result\<lparr>ar_statusCode := ErrorCode_Unavailable, ar_stage := ''transport''\<rparr> in
              andThen (emitTrace options result ''transport'' ''error'' (ar_statusCode result) 0 '''' ''''
                  ''transport unavailable'' False)
                (\<lambda>_. failReady result ''transport unavailable''))
         | Some t \<Rightarrow>
             andThen (endpoint_do (\<lambda>e. e\<lparr>ep_core := core_setRequestedHeartbeatInterval (configure (ep_core e) (tr_profile t))
                 (word_of_int (max 1 (min 60000 (cop_requestedHeartbeatInterval (cl_options c)))))\<rparr>)) (\<lambda>_.
             if cl_identifyOutstanding c
             then
               andThen (emitTrace options result ''identify'' ''resume'' ErrorCode_Success 0 '''' ''''
                   ''waiting for the outstanding identify response'' True)
                 (\<lambda>_. waitForIdentified lib options waitOptions deadline result)
             else
               andThen
                 (if tp_wireMode (tr_profile t) = FramedBinary \<and> \<not> ao_skipControlOpen options
                  then openControl lib options waitOptions deadline (result\<lparr>ar_stage := ''control-open''\<rparr>)
                  else andThen (emitTrace options result ''control-open'' ''skip'' ErrorCode_Success 0 '''' ''''
                      (if tp_wireMode (tr_profile t) = WebSocketJsonRpc then ''websocket-json-rpc'' else ''skipControlOpen'')
                      False) (\<lambda>_. ret None)) (\<lambda>stopped.
               case stopped of
                 Some r \<Rightarrow> ret r
               | None \<Rightarrow>
                   andThen (waitForHello lib options waitOptions deadline (result\<lparr>ar_stage := ''hello''\<rparr>)) (\<lambda>stopped.
                   case stopped of
                     Some r \<Rightarrow> ret r
                   | None \<Rightarrow>
                       andThen (identify lib options result) (\<lambda>result.
                       waitForIdentified lib options waitOptions deadline result))))))))"

definition ensureAppReadyUntil ::
    "json_lib \<Rightarrow> 'u app_ready_options \<Rightarrow> int \<Rightarrow> 'u call_options option \<Rightarrow> ('u world, app_ready_result) act" where
  "ensureAppReadyUntil lib options deadline waitOptions =
     andThen (attempt (ensureAppReadyUntilImpl lib options deadline waitOptions)) (\<lambda>r.
       case r of
         Some result \<Rightarrow> ret result
       | None \<Rightarrow>
           failReady (AppReadyResult_default\<lparr>ar_statusCode := ErrorCode_InternalError, ar_stage := ''callback''\<rparr>)
             ''app-ready callback failed'')"

definition ensureAppReady :: "json_lib \<Rightarrow> 'u app_ready_options \<Rightarrow> ('u world, app_ready_result) act" where
  "ensureAppReady lib options =
     andThen (deadlineAfter (ao_timeout options)) (\<lambda>deadline. ensureAppReadyUntil lib options deadline None)"


section \<open>Calls\<close>

text \<open>The response of a method that is registered with the client itself.\<close>

definition localResponse :: "rpc_payload \<Rightarrow> bytes \<Rightarrow> rpc_payload" where
  "localResponse request body =
     RpcPayload_default\<lparr>rp_encoding := rp_encoding request, rp_op := RpcOp_RequestResponse,
       rp_requestId := rp_requestId request, rp_methodOrEventId := rp_methodOrEventId request,
       rp_statusCode := ErrorCode_Success, rp_bodyEncoding := rp_bodyEncoding request,
       rp_meta := (rp_meta request)\<lparr>pm_endpoint := responseEndpointMetadata (pm_endpoint (rp_meta request))\<rparr>,
       rp_body := body\<rparr>"

definition releaseUnsentRequestId :: "rpc_payload \<Rightarrow> ('u world, unit) act" where
  "releaseUnsentRequestId request =
     client_do (\<lambda>c. c\<lparr>cl_usedRequestIds := cl_usedRequestIds c - {rp_requestId request}\<rparr>)"

definition abandonRequest :: "rpc_payload \<Rightarrow> ('u world, unit) act" where
  "abandonRequest request = endpoint_do (\<lambda>e. endpoint_abandonRpcResponse e (rp_requestId request))"

definition failCall :: "('u world, unit) act \<Rightarrow> rpc_payload \<Rightarrow> error_code \<Rightarrow> ('u world, rpc_payload) act" where
  "failCall cleanup request code = andThen cleanup (\<lambda>_. ret (makeErrorResponse request code))"

definition callLocal :: "'u local_handler \<Rightarrow> rpc_payload \<Rightarrow> ('u world, rpc_payload) act" where
  "callLocal handler request =
     andThen (attempt (callback (handler request))) (\<lambda>body.
     case body of
       None \<Rightarrow> failCall (releaseUnsentRequestId request) request ErrorCode_InternalError
     | Some body \<Rightarrow> andThen (releaseUnsentRequestId request) (\<lambda>_. ret (localResponse request body)))"

text \<open>One round of the loop that waits for the response.\<close>

definition awaitResponseRound ::
    "json_lib \<Rightarrow> rpc_payload \<Rightarrow> 'u call_options \<Rightarrow> int \<Rightarrow> ('u world, rpc_payload option) act" where
  "awaitResponseRound lib request options deadline =
     andThen (attempt (client_poll lib)) (\<lambda>polled.
     if polled = None
     then andThen (failCall (abandonRequest request) request ErrorCode_InternalError) (\<lambda>r. ret (Some r))
     else
       andThen (invokeProgress (ca_progress options)) (\<lambda>status.
       case status of
         Some code \<Rightarrow> andThen (failCall (abandonRequest request) request code) (\<lambda>r. ret (Some r))
       | None \<Rightarrow>
           unlessReturned (endpoint_run (\<lambda>e. endpoint_tryTakeRpcResponse e (rp_requestId request)))
           (unlessReturned
              (if ca_acceptAnyResponse options
               then andThen (endpoint_run endpoint_tryTakeAnyRpcResponse) (\<lambda>response.
                 case response of
                   None \<Rightarrow> ret None
                 | Some response \<Rightarrow> andThen (abandonRequest request) (\<lambda>_. ret (Some response)))
               else ret None)
              (andThen (invokeCancellation (ca_cancelled options)) (\<lambda>status.
               case status of
                 Some code \<Rightarrow> andThen (failCall (abandonRequest request) request code) (\<lambda>r. ret (Some r))
               | None \<Rightarrow>
                   andThen (deadlinePassed deadline) (\<lambda>passed.
                   if passed
                   then andThen (failCall (abandonRequest request) request ErrorCode_RpcResponseTimeout) (\<lambda>r. ret (Some r))
                   else ret None))))))"

definition sendAndAwait ::
    "json_lib \<Rightarrow> rpc_payload \<Rightarrow> 'u call_options \<Rightarrow> int \<Rightarrow> ('u world, rpc_payload) act" where
  "sendAndAwait lib request options deadline =
     andThen (endpoint_run (\<lambda>e. endpoint_sendRpcRequest lib e request)) (\<lambda>sent.
     case sent of
       None \<Rightarrow> failCall (abandonRequest request) request ErrorCode_InternalError
     | Some sent \<Rightarrow>
         if \<not> sent then failCall (releaseUnsentRequestId request) request ErrorCode_InvalidArgument
         else wait_loop (awaitResponseRound lib request options deadline))"

definition callRemote ::
    "json_lib \<Rightarrow> transport \<Rightarrow> rpc_payload \<Rightarrow> 'u call_options \<Rightarrow> int \<Rightarrow> ('u world, rpc_payload) act" where
  "callRemote lib t request options deadline =
     andThen (endpoint_do (\<lambda>e. e\<lparr>ep_core := configure (ep_core e) (tr_profile t)\<rparr>)) (\<lambda>_.
     andThen (client_get (\<lambda>c. cop_autoIdentify (cl_options c) \<and> \<not> cl_appReady c)) (\<lambda>setup.
     if \<not> setup then sendAndAwait lib request options deadline
     else
       andThen (remainingUntil deadline) (\<lambda>remaining.
       andThen (ensureAppReadyUntil lib (AppReadyOptions_default\<lparr>ao_timeout := remaining\<rparr>) deadline (Some options)) (\<lambda>ready.
       if \<not> ar_ok ready then failCall (releaseUnsentRequestId request) request (ar_statusCode ready)
       else
         andThen (client_get cl_sessionSid) (\<lambda>sid.
         let request = (if pm_sourceProtocol (rp_meta request) = JsonRpc \<and> pm_jsonSid (rp_meta request) = '''' \<and> sid \<noteq> ''''
                        then request\<lparr>rp_meta := (rp_meta request)\<lparr>pm_jsonSid := sid\<rparr>\<rparr> else request)
         in sendAndAwait lib request options deadline)))))"

definition callRaw :: "json_lib \<Rightarrow> rpc_payload \<Rightarrow> 'u call_options \<Rightarrow> ('u world, rpc_payload) act" where
  "callRaw lib request options =
     andThen (deadlineAfter (ca_timeout options)) (\<lambda>deadline.
     andThen (client_run (\<lambda>c. let (ok, request, c) = normalizeRequest c request in ((ok, request), c))) (\<lambda>(ok, request).
     if \<not> ok then ret (makeErrorResponse request ErrorCode_InvalidArgument)
     else
       andThen (client_get (\<lambda>c. c)) (\<lambda>c.
       case cl_localHandlers c (rp_methodOrEventId request) of
         Some handler \<Rightarrow> callLocal handler request
       | None \<Rightarrow>
           (case cl_transport c of
              None \<Rightarrow> failCall (releaseUnsentRequestId request) request ErrorCode_Unavailable
            | Some t \<Rightarrow> callRemote lib t request options deadline))))"

definition callRawBody ::
    "json_lib \<Rightarrow> u32 \<Rightarrow> rpc_encoding \<Rightarrow> bytes \<Rightarrow> 'u call_options \<Rightarrow> ('u world, bytes) act" where
  "callRawBody lib methodId encoding body options =
     andThen (client_get (\<lambda>c. makeDynamicRequest c methodId encoding body options)) (\<lambda>request.
     andThen (callRaw lib request options) (\<lambda>response.
     andThen (client_do (\<lambda>c. c\<lparr>cl_lastError := (if rp_statusCode response = ErrorCode_Success
         then SdkError_success else SdkError_failure (rp_statusCode response) '''')\<rparr>)) (\<lambda>_.
     ret (rp_body response))))"

definition callJson :: "json_lib \<Rightarrow> u32 \<Rightarrow> string \<Rightarrow> 'u call_options \<Rightarrow> ('u world, string) act" where
  "callJson lib methodId paramsJson options =
     andThen (callRawBody lib methodId RpcEncoding_Json (bytes_of_string paramsJson)
         (options\<lparr>ca_encoding := RpcEncoding_Json\<rparr>)) (\<lambda>response.
     ret (string_of_bytes response))"

definition callTlv :: "json_lib \<Rightarrow> u32 \<Rightarrow> bytes \<Rightarrow> 'u call_options \<Rightarrow> ('u world, bytes) act" where
  "callTlv lib methodId tlvBody options =
     callRawBody lib methodId jsonBinaryRpcEncoding tlvBody (options\<lparr>ca_encoding := jsonBinaryRpcEncoding\<rparr>)"

definition callRawBytes :: "json_lib \<Rightarrow> u32 \<Rightarrow> bytes \<Rightarrow> 'u call_options \<Rightarrow> ('u world, bytes) act" where
  "callRawBytes lib methodId body options =
     callRawBody lib methodId jsonBinaryRpcEncoding body (options\<lparr>ca_encoding := jsonBinaryRpcEncoding\<rparr>)"

definition methodNotFound :: "('u world, unit) act" where
  "methodNotFound =
     client_do (\<lambda>c. c\<lparr>cl_lastError := SdkError_failure ErrorCode_RpcMethodNotFound ''method not found''\<rparr>)"

definition callJsonNamed :: "json_lib \<Rightarrow> string \<Rightarrow> string \<Rightarrow> 'u call_options \<Rightarrow> ('u world, string) act" where
  "callJsonNamed lib methodName paramsJson options =
     andThen (client_get (\<lambda>c. findMethodId (cl_registry c) methodName)) (\<lambda>methodId.
     case methodId of
       None \<Rightarrow> andThen methodNotFound (\<lambda>_. ret '''')
     | Some methodId \<Rightarrow> callJson lib methodId paramsJson (options\<lparr>ca_encoding := RpcEncoding_Json\<rparr>))"

definition callTlvNamed :: "json_lib \<Rightarrow> string \<Rightarrow> bytes \<Rightarrow> 'u call_options \<Rightarrow> ('u world, bytes) act" where
  "callTlvNamed lib methodName tlvBody options =
     andThen (client_get (\<lambda>c. findMethodId (cl_registry c) methodName)) (\<lambda>methodId.
     case methodId of
       None \<Rightarrow> andThen methodNotFound (\<lambda>_. ret [])
     | Some methodId \<Rightarrow> callTlv lib methodId tlvBody options)"

section \<open>Heartbeats\<close>

definition returnError :: "sdk_error \<Rightarrow> ('u world, sdk_error) act" where
  "returnError e = andThen (client_do (\<lambda>c. c\<lparr>cl_lastError := e\<rparr>)) (\<lambda>_. ret e)"

text \<open>
  One round of the loop. \<^verbatim>\<open>while (now < deadline) { ... }\<close> tests the clock before the first round and
  after each.
\<close>

definition heartbeatRound ::
    "json_lib \<Rightarrow> u16 \<Rightarrow> 'u progress_hook option \<Rightarrow> int \<Rightarrow> ('u world, sdk_error option) act" where
  "heartbeatRound lib controlId hook deadline =
     andThen (attempt (client_poll lib)) (\<lambda>polled.
     if polled = None
     then andThen (returnError (SdkError_failure ErrorCode_InternalError ''heartbeat endpoint callback failed''))
       (\<lambda>e. ret (Some e))
     else
       andThen (invokeProgress hook) (\<lambda>status.
       if status \<noteq> None
       then andThen (returnError (SdkError_failure ErrorCode_InternalError ''heartbeat progress callback failed''))
         (\<lambda>e. ret (Some e))
       else
         andThen (endpoint_run (\<lambda>e. endpoint_tryTakeControlNoticeFor e ControlOpcode_HeartbeatAck controlId)) (\<lambda>ack.
         case ack of
           Some ack \<Rightarrow>
             andThen (returnError (if cp_statusCode ack = ErrorCode_Success then SdkError_success
                 else SdkError_failure (cp_statusCode ack) ''control heartbeat rejected by peer'')) (\<lambda>e. ret (Some e))
         | None \<Rightarrow>
             andThen (deadlinePassed deadline) (\<lambda>passed.
             if passed
             then andThen (returnError (SdkError_failure ErrorCode_ControlHeartbeatTimeout
                 ''control heartbeat acknowledgement timed out'')) (\<lambda>e. ret (Some e))
             else ret None))))"

definition takeControlId :: "('u world, u16) act" where
  "takeControlId = client_run (\<lambda>c.
     let controlId = cl_nextControlId c;
         c = c\<lparr>cl_nextControlId := cl_nextControlId c + 1\<rparr>
     in if controlId = 0 then (cl_nextControlId c, c\<lparr>cl_nextControlId := cl_nextControlId c + 1\<rparr>) else (controlId, c))"

definition heartbeat :: "json_lib \<Rightarrow> int \<Rightarrow> 'u progress_hook option \<Rightarrow> ('u world, sdk_error) act" where
  "heartbeat lib timeout hook =
     andThen (client_get (\<lambda>c. c)) (\<lambda>c.
     if cl_transport c = None \<or> \<not> cl_connected c
     then returnError (SdkError_failure ErrorCode_Unavailable ''transport unavailable'')
     else if tp_wireMode (tr_profile (the (cl_transport c))) \<noteq> FramedBinary \<or>
             \<not> cs_open (co_controlSession (ep_core (cl_endpoint c)))
     then returnError (SdkError_failure ErrorCode_NotSupported ''control heartbeat requires an open framed-binary session'')
     else if cl_negotiatedHeartbeatIntervalMs c = None
     then returnError (SdkError_failure ErrorCode_NotSupported ''peer did not advertise a valid heartbeat interval'')
     else
       andThen takeControlId (\<lambda>controlId.
       andThen (endpoint_do (\<lambda>e. endpoint_sendControlHeartbeat e controlId)) (\<lambda>_.
       andThen (inspect (\<lambda>w. wo_now w + milliseconds (if timeout \<le> 0 then 1 else timeout))) (\<lambda>deadline.
       andThen (deadlinePassed deadline) (\<lambda>passed.
       if passed
       then returnError (SdkError_failure ErrorCode_ControlHeartbeatTimeout ''control heartbeat acknowledgement timed out'')
       else wait_loop (heartbeatRound lib controlId hook deadline))))))"

section \<open>The server\<close>

record 'u axtp_server =
  sv_transport :: "transport option"
  sv_log :: "transport_event list"
  sv_endpoint :: "'u axtp_endpoint"
  sv_lastEvent :: rpc_payload

definition AxtpServer :: "'u axtp_server" where
  "AxtpServer = \<lparr>sv_transport = None, sv_log = [], sv_endpoint = AxtpEndpoint BasicBroker, sv_lastEvent = RpcPayload_default\<rparr>"

definition server_close :: "'u axtp_server \<Rightarrow> 'u axtp_server" where
  "server_close s = (if sv_transport s \<noteq> None then s\<lparr>sv_log := sv_log s @ [TransportClose]\<rparr> else s)"

definition server_attachTransport :: "'u axtp_server \<Rightarrow> transport option \<Rightarrow> 'u axtp_server" where
  "server_attachTransport s transport =
     (let s = server_close s;
          s = s\<lparr>sv_transport := transport, sv_log := []\<rparr>;
          s = s\<lparr>sv_endpoint := AxtpEndpoint (ep_broker (sv_endpoint s))\<rparr>
      in case transport of
           None \<Rightarrow> s
         | Some t \<Rightarrow>
             s\<lparr>sv_endpoint := attachTransport (sv_endpoint s) (tr_profile t) (tr_currentReplyTarget t),
               sv_log := sv_log s @ [TransportOpen]\<rparr>)"

definition server_poll :: "json_lib \<Rightarrow> 'u axtp_server \<Rightarrow> bytes list \<Rightarrow> 'u \<Rightarrow> bool \<times> 'u axtp_server \<times> 'u" where
  "server_poll lib s arrivals u =
     (let (ok, e, u) = endpoint_poll lib (sv_endpoint s) arrivals 8 u in (ok, s\<lparr>sv_endpoint := e\<rparr>, u))"

definition server_broker :: "('u basic_broker \<Rightarrow> 'u basic_broker) \<Rightarrow> 'u axtp_server \<Rightarrow> 'u axtp_server" where
  "server_broker f s = s\<lparr>sv_endpoint := (sv_endpoint s)\<lparr>ep_broker := f (ep_broker (sv_endpoint s))\<rparr>\<rparr>"

definition onRaw :: "'u axtp_server \<Rightarrow> u32 \<Rightarrow> 'u method_handler \<Rightarrow> 'u axtp_server" where
  "onRaw s methodId handler =
     server_broker (with_router (\<lambda>router. registerRawMethod router methodId (\<lambda>context request u.
       let payload = RpcPayload_default\<lparr>rp_encoding := rv_encoding request, rp_op := RpcOp_Request,
             rp_requestId := rv_requestId request, rp_methodOrEventId := rv_methodId request,
             rp_meta := PayloadMeta_default\<lparr>pm_endpoint := rc_endpoint context\<rparr>, rp_body := rv_body request\<rparr>;
           (body, u) = handler payload u
       in (map_option (\<lambda>b. RpcResponseData_default\<lparr>rs_body := b\<rparr>) body, u)))) s"

definition onJson :: "'u axtp_server \<Rightarrow> string \<Rightarrow> 'u json_handler \<Rightarrow> 'u axtp_server" where
  "onJson s methodName handler =
     server_broker (with_router (\<lambda>router. registerJsonMethodNamed router methodName handler)) s"

definition onTlv :: "'u axtp_server \<Rightarrow> string \<Rightarrow> 'u tlv_handler \<Rightarrow> 'u axtp_server" where
  "onTlv s methodName handler =
     server_broker (with_router (\<lambda>router. registerTlvMethodNamed router methodName handler)) s"

definition server_emitRaw :: "'u axtp_server \<Rightarrow> rpc_payload \<Rightarrow> 'u axtp_server" where
  "server_emitRaw s payload = s\<lparr>sv_lastEvent := payload\<rparr>"

end
