(* ===== verification/Client_Calls.thy ===== *)
theory Client_Calls
  imports Client
begin

text \<open>
  What holds of the client's calls: request ids are fresh, a call returns once its deadline has
  passed, and what it returns is the answer to its own request.
\<close>

section \<open>What received bytes do to the table of calls\<close>

text \<open>Bytes change the core by the payloads they hold, so what each payload preserves they preserve.\<close>

lemma onFrame_preserves:
  assumes "\<And>m s. I s \<Longrightarrow> I (onMessage m s)" and "I s"
  shows "I (snd (MessageReassembler_onFrame onMessage r frame s))"
  using assms by (simp add: onFrame_refines_step Let_def split_beta split: option.split)

lemma inbound_frame_preserves:
  assumes "\<And>p s. I s \<Longrightarrow> I (sink p s)" and "I s"
  shows "I (snd (inbound_frame lib sink frame (r, s)))"
  using assms by (simp add: PayloadDecoder_onMessage_def onFrame_preserves split: option.split)

lemma onBytes_preserves:
  assumes "\<And>p s. I s \<Longrightarrow> I (sink p s)" and "I s"
  shows "I (snd (InboundProcessor_onBytes lib sink ip data s))"
proof -
  have "I s \<Longrightarrow> I (snd (fold (inbound_frame lib sink) fs (r, s)))" for fs r s
  proof (induction fs arbitrary: r s)
    case (Cons a fs)
    obtain r' s' where frame: "inbound_frame lib sink a (r, s) = (r', s')" by fastforce
    have "I (snd (inbound_frame lib sink a (r, s)))" by (rule inbound_frame_preserves) (fact assms(1), fact Cons.prems)
    with Cons.IH [of s' r'] show ?case by (simp only: fold_simps comp_apply frame snd_conv)
  qed simp
  with assms show ?thesis
    by (auto simp: InboundProcessor_onBytes_def JsonRpcDecoder_onBytes_def FrameDecoder_onBytes_eq split_beta split: option.split)
qed

text \<open>
  The invariant of a client: its table of calls is well formed, a stored response lies under its own
  id, and every id the table has seen is marked as used.
\<close>

definition calls_ok :: "u32 set \<Rightarrow> pending_call_table \<Rightarrow> bool" where
  "calls_ok used t \<longleftrightarrow> table_inv t \<and> (\<forall>i p. pc_resolved t i = Some p \<longrightarrow> rp_requestId p = i) \<and>
     (\<forall>i. i \<noteq> 0 \<longrightarrow> i \<in> pc_retired t \<or> pc_pending t i \<noteq> None \<longrightarrow> i \<in> used)"

text \<open>Besides, the id \<open>i\<close> of the current call is used, and not yet known to the table.\<close>

definition id_reserved :: "u32 \<Rightarrow> u32 set \<Rightarrow> pending_call_table \<Rightarrow> bool" where
  "id_reserved i used t \<longleftrightarrow> calls_ok used t \<and> i \<noteq> 0 \<and> i \<in> used \<and> i \<notin> pc_retired t \<and> pc_pending t i = None"

definition id_sent :: "u32 \<Rightarrow> u32 set \<Rightarrow> pending_call_table \<Rightarrow> bool" where
  "id_sent i used t \<longleftrightarrow> calls_ok used t \<and> i \<noteq> 0 \<and> i \<in> used"

lemma resolve_ok:
  "calls_ok used t \<Longrightarrow> calls_ok used (resolve_call t (rp_requestId p) p)"
  "id_reserved i used t \<Longrightarrow> id_reserved i used (resolve_call t (rp_requestId p) p)"
  "id_sent i used t \<Longrightarrow> id_sent i used (resolve_call t (rp_requestId p) p)"
  by (auto simp: calls_ok_def id_reserved_def id_sent_def table_inv_def resolve_call_def isPending_def Let_def)

lemma handlePayload_table:
  "co_pendingCalls (handlePayload lib p c) = co_pendingCalls c \<or>
     (\<exists>q. co_pendingCalls (handlePayload lib p c) = resolve_call (co_pendingCalls c) (rp_requestId q) q)"
proof -
  have "payload_calls p = [] \<or> (\<exists>q. payload_calls p = [Resolve (rp_requestId q) q])" by (cases p) auto
  then show ?thesis by (auto simp: handlePayload_effect(3))
qed

text \<open>A predicate on the table that stored responses keep.\<close>

definition resolve_closed :: "(pending_call_table \<Rightarrow> bool) \<Rightarrow> bool" where
  "resolve_closed P \<longleftrightarrow> (\<forall>t q. P t \<longrightarrow> P (resolve_call t (rp_requestId q) q))"

lemma resolve_closed_ok [simp]:
  "resolve_closed (calls_ok used)" "resolve_closed (id_reserved i used)" "resolve_closed (id_sent i used)"
  by (simp_all add: resolve_closed_def resolve_ok)

lemma onTransportBytes_table:
  assumes "resolve_closed P" and "P (co_pendingCalls (ep_core e))"
  shows "P (co_pendingCalls (ep_core (onTransportBytes lib e data)))"
proof -
  have "P (co_pendingCalls (handlePayload lib p c))" if "P (co_pendingCalls c)" for p c
    using handlePayload_table [of lib p c] assms(1) that by (auto simp: resolve_closed_def)
  from onBytes_preserves [where I = "\<lambda>c. P (co_pendingCalls c)" and sink = "handlePayload lib", OF this assms(2)]
  show ?thesis by (simp add: onTransportBytes_def handleBytes_def split_beta)
qed

text \<open>The rest of a poll leaves the table alone.\<close>

lemma handleBrokerResult_table: "handleBrokerResult lib c r = (ok, c') \<Longrightarrow> co_pendingCalls c' = co_pendingCalls c"
  by (cases "br_type r")
    (auto simp: handleBrokerResult_def Let_def core_send enqueue_packets_def split_beta split: option.splits)

lemma drainBrokerResults_table:
  "drainBrokerResults lib e = (ok, e') \<Longrightarrow> co_pendingCalls (ep_core e') = co_pendingCalls (ep_core e)"
proof (induction "bk_results (ep_broker e)" arbitrary: e)
  case Nil
  then show ?case by (auto simp: drainBrokerResults.simps [of lib e] pollResult_def)
next
  case (Cons r rs)
  note q = Cons.hyps(2) [symmetric]
  obtain ok' core where h: "handleBrokerResult lib (ep_core e) r = (ok', core)" by fastforce
  let ?e1 = "e\<lparr>ep_broker := (ep_broker e)\<lparr>bk_results := rs\<rparr>, ep_core := core\<rparr>"
  from Cons.prems q h have "(if ok' then drainBrokerResults lib ?e1 else (False, ?e1)) = (ok, e')"
    by (simp add: drainBrokerResults.simps [of lib e] pollResult_def Let_def)
  with Cons.hyps(1) [of ?e1] handleBrokerResult_table [OF h] show ?case by (auto split: if_splits)
qed

lemma flushOutbound_table [simp]: "co_pendingCalls (ep_core (flushOutbound e)) = co_pendingCalls (ep_core e)"
  by (simp add: flushOutbound_def flushLoop_eq)

lemma progress_table:
  "progress lib e n u = (ok, e', u') \<Longrightarrow> co_pendingCalls (ep_core e') = co_pendingCalls (ep_core e)"
  by (auto simp: progress_def drainCoreEvents_eq Let_def dest: drainBrokerResults_table split: prod.splits if_splits)

lemma endpoint_poll_table:
  assumes "resolve_closed P" and "P (co_pendingCalls (ep_core e))" and "endpoint_poll lib e arrivals n u = (ok, e', u')"
  shows "P (co_pendingCalls (ep_core e'))"
proof -
  have "P (co_pendingCalls (ep_core (foldl (onTransportBytes lib) e arrivals)))"
    using assms(2) by (induction arrivals arbitrary: e) (simp_all add: onTransportBytes_table [OF assms(1)])
  then show ?thesis using assms(2,3) progress_table by (fastforce simp: endpoint_poll_def Let_def split: if_splits)
qed


section \<open>What the steps of a call keep\<close>

definition calls_in :: "(u32 set \<Rightarrow> pending_call_table \<Rightarrow> bool) \<Rightarrow> 'u world \<Rightarrow> bool" where
  "calls_in P w \<longleftrightarrow> P (cl_usedRequestIds (wo_client w)) (co_pendingCalls (ep_core (cl_endpoint (wo_client w))))"

definition keeps_received :: "(u32 set \<Rightarrow> pending_call_table \<Rightarrow> bool) \<Rightarrow> bool" where
  "keeps_received P \<longleftrightarrow> (\<forall>used. resolve_closed (P used))"

lemma keeps_received_ok [simp]:
  "keeps_received calls_ok" "keeps_received (id_reserved i)" "keeps_received (id_sent i)"
  by (simp_all add: keeps_received_def)

lemma client_poll_keeps [preserves_intros]:
  "keeps_received P \<Longrightarrow> preserves (calls_in P) (client_poll lib)"
proof (rule preservesI)
  fix w :: "'a world"
  assume P: "keeps_received P" "calls_in P w"
  show "calls_in P (snd (client_poll lib w))"
  proof (cases "wo_rounds w")
    case (Cons r rounds)
    let ?e = "(cl_endpoint (wo_client w))\<lparr>ep_broker := registerEventHandler (ep_broker (cl_endpoint (wo_client w)))
      (Some (\<lambda>_ p. client_emitRaw (cl_eventHandlers (wo_client w)) p))\<rparr>"
    obtain ok e u where run: "endpoint_poll lib ?e (rn_arrivals r) 8 (wo_app w) = (ok, e, u)" by (metis prod_cases3)
    from P run endpoint_poll_table [of "P (cl_usedRequestIds (wo_client w))" ?e lib "rn_arrivals r" 8 "wo_app w" ok e u]
    show ?thesis by (simp add: client_poll_def calls_in_def keeps_received_def Cons Let_def)
  qed (use P in \<open>simp add: client_poll_def\<close>)
qed

lemma callback_keeps [preserves_intros]: "preserves (calls_in P) (callback f)"
  by (rule preservesI) (simp add: callback_def calls_in_def split_beta Let_def)

lemma client_do_keeps:
  "(\<And>c. cl_usedRequestIds (f c) = cl_usedRequestIds c \<and>
       co_pendingCalls (ep_core (cl_endpoint (f c))) = co_pendingCalls (ep_core (cl_endpoint c))) \<Longrightarrow>
     preserves (calls_in P) (client_do f)"
  unfolding client_do_def by (rule preserves_change) (simp add: calls_in_def)

lemma client_get_keeps [preserves_intros]: "preserves I (client_get f)"
  unfolding client_get_def by (rule preserves_inspect)

lemma client_run_keeps:
  "(\<And>c. cl_usedRequestIds (snd (f c)) = cl_usedRequestIds c \<and>
       co_pendingCalls (ep_core (cl_endpoint (snd (f c)))) = co_pendingCalls (ep_core (cl_endpoint c))) \<Longrightarrow>
     preserves (calls_in P) (client_run f)"
  by (rule preservesI) (simp add: client_run_def calls_in_def split_beta Let_def)

lemma endpoint_run_keeps:
  "(\<And>e. co_pendingCalls (ep_core (snd (f e))) = co_pendingCalls (ep_core e)) \<Longrightarrow> preserves (calls_in P) (endpoint_run f)"
  unfolding endpoint_run_def by (rule client_run_keeps) (simp add: split_beta Let_def)

lemma endpoint_do_keeps:
  "(\<And>e. co_pendingCalls (ep_core (f e)) = co_pendingCalls (ep_core e)) \<Longrightarrow> preserves (calls_in P) (endpoint_do f)"
  unfolding endpoint_do_def by (rule client_do_keeps) simp

lemma wait_loop_keeps [preserves_intros]: "preserves I body \<Longrightarrow> preserves I (wait_loop body)"
  using preserves_waitRounds [of I body] by (simp add: preserves_def wait_loop_def del: waitRounds.simps)

lemma waits_keep [preserves_intros]:
  "preserves I (deadlineAfter n)" "preserves I (remainingUntil n)" "preserves I (deadlinePassed n)"
  by (simp_all add: deadlineAfter_def remainingUntil_def deadlinePassed_def preserves_inspect)

lemma hooks_keep [preserves_intros]:
  "preserves (calls_in P) (invokeProgress hook)" "preserves (calls_in P) (invokeCancellation hook')"
  unfolding invokeProgress_def invokeCancellation_def by (intro preserves_intros)+

lemma emitTrace_keeps [preserves_intros]:
  "preserves (calls_in P) (emitTrace options result stage action code controlId sid text detail seed)"
  unfolding emitTrace_def Let_def by (intro preserves_intros)

lemma returnReady_keeps [preserves_intros]:
  "preserves (calls_in P) (returnReady result e)" "preserves (calls_in P) (failReady result message)"
  unfolding returnReady_def failReady_def by (intro preserves_intros client_do_keeps; simp)+

lemma stops_keep [preserves_intros]:
  "preserves (calls_in P) (stopWaiting options waitOptions result stage)"
  "preserves (calls_in P) (cancellationOrTimeout options waitOptions deadline result stage)"
  unfolding stopWaiting_def cancellationOrTimeout_def Let_def by (intro preserves_intros)+

lemma endpoint_table [simp]:
  "co_pendingCalls (ep_core (snd (endpoint_tryTakeSessionRpc e op))) = co_pendingCalls (ep_core e)"
  "co_pendingCalls (ep_core (snd (endpoint_tryTakeControlNoticeFor e opcode controlId))) = co_pendingCalls (ep_core e)"
  "co_pendingCalls (ep_core (endpoint_sendControlOpen e controlId)) = co_pendingCalls (ep_core e)"
  "co_pendingCalls (configure c profile) = co_pendingCalls c"
  "co_pendingCalls (core_setRequestedHeartbeatInterval c v) = co_pendingCalls c"
  by (simp_all add: endpoint_tryTakeSessionRpc_def tryTakeSessionRpc_def endpoint_tryTakeControlNoticeFor_def
      tryTakeControlNoticeFor_def endpoint_sendControlOpen_def sendControlOpen_def split_beta Let_def core_sent
      configure_def core_setRequestedHeartbeatInterval_def)

lemma endpoint_sendRpcSession_table [simp]:
  "endpoint_sendRpcSession lib e payload = Some e' \<Longrightarrow> co_pendingCalls (ep_core e') = co_pendingCalls (ep_core e)"
  by (auto simp: endpoint_sendRpcSession_def core_sendRpcSession_def split: option.splits
      dest: core_sends(4) [THEN same_but_sent_simps(4)])

lemma handleIdentified_keeps [preserves_intros]: "preserves (calls_in P) (handleIdentified options result identified)"
  unfolding handleIdentified_def Let_def by (intro preserves_intros client_do_keeps; simp)

lemma waitForIdentified_keeps [preserves_intros]:
  "keeps_received P \<Longrightarrow> preserves (calls_in P) (waitForIdentified lib options waitOptions deadline result)"
  unfolding waitForIdentified_def Let_def by (intro preserves_intros endpoint_run_keeps; simp)

lemma handleAccept_keeps [preserves_intros]: "preserves (calls_in P) (handleAccept options result accept)"
  unfolding handleAccept_def Let_def by (intro preserves_intros client_do_keeps; simp)

lemma openControl_keeps [preserves_intros]:
  "keeps_received P \<Longrightarrow> preserves (calls_in P) (openControl lib options waitOptions deadline result)"
  unfolding openControl_def Let_def
  by (intro preserves_intros endpoint_run_keeps endpoint_do_keeps client_run_keeps; simp)

lemma waitForHello_keeps [preserves_intros]:
  "keeps_received P \<Longrightarrow> preserves (calls_in P) (waitForHello lib options waitOptions deadline result)"
  unfolding waitForHello_def Let_def by (intro preserves_intros endpoint_run_keeps; simp)

lemma identify_keeps [preserves_intros]: "preserves (calls_in P) (identify lib options result)"
  unfolding identify_def Let_def
  by (intro preserves_intros endpoint_run_keeps client_do_keeps; simp split: option.split)

lemma ensureAppReadyUntil_keeps [preserves_intros]:
  "keeps_received P \<Longrightarrow> preserves (calls_in P) (ensureAppReadyUntil lib options deadline waitOptions)"
  unfolding ensureAppReadyUntil_def ensureAppReadyUntilImpl_def Let_def
  by (intro preserves_intros endpoint_do_keeps; simp)


section \<open>Steps that take no time\<close>

definition steady :: "('u world, 'a) act \<Rightarrow> bool" where
  "steady m \<longleftrightarrow> (\<forall>w. fst (m w) \<noteq> Waiting \<and> wo_rounds (snd (m w)) = wo_rounds w \<and> wo_now (snd (m w)) = wo_now w)"

text \<open>Steps that return a result, and those that do so once the deadline has passed.\<close>

definition ends :: "('u world, 'a option) act \<Rightarrow> bool" where
  "ends m \<longleftrightarrow> steady m \<and> (\<forall>w. fst (m w) \<noteq> Done None)"

definition ends_by :: "int \<Rightarrow> ('u world, 'a option) act \<Rightarrow> bool" where
  "ends_by deadline m \<longleftrightarrow> steady m \<and> (\<forall>w. deadline \<le> wo_now w \<longrightarrow> fst (m w) \<noteq> Done None)"

named_theorems steady_intros \<open>rules for steps that take no time\<close>

lemma steady_simple [steady_intros]:
  "steady (ret x)" "steady raise" "steady (inspect f)" "steady (client_get g)" "steady (client_do h)"
  "steady (client_run i)" "steady (endpoint_run j)" "steady (endpoint_do k)" "steady (callback l)"
  "steady (deadlinePassed n)" "steady (deadlineAfter n)" "steady (remainingUntil n)"
  by (simp_all add: steady_def ret_def raise_def inspect_def client_get_def client_do_def change_def client_run_def
      endpoint_run_def endpoint_do_def callback_def deadlinePassed_def deadlineAfter_def remainingUntil_def split_beta Let_def
      split: option.split)

lemma steady_andThen [steady_intros]: "steady m \<Longrightarrow> (\<And>x. steady (f x)) \<Longrightarrow> steady (andThen m f)"
  unfolding steady_def andThen_def by (auto split: prod.split outcome.split) (metis fst_conv snd_conv)+

lemma steady_attempt [steady_intros]: "steady m \<Longrightarrow> steady (attempt m)"
  unfolding steady_def attempt_def by (auto split: prod.split outcome.split) (metis fst_conv snd_conv)+

lemma steady_if [steady_intros]: "(b \<Longrightarrow> steady m) \<Longrightarrow> (\<not> b \<Longrightarrow> steady m') \<Longrightarrow> steady (if b then m else m')"
  by simp

lemma steady_option [steady_intros]:
  "(z = None \<Longrightarrow> steady m) \<Longrightarrow> (\<And>x. z = Some x \<Longrightarrow> steady (f x)) \<Longrightarrow> steady (case z of None \<Rightarrow> m | Some x \<Rightarrow> f x)"
  by (cases z) auto

lemma steady_unlessReturned [steady_intros]: "steady m \<Longrightarrow> steady k \<Longrightarrow> steady (unlessReturned m k)"
  unfolding unlessReturned_def by (intro steady_intros)

lemma steadyD: "steady m \<Longrightarrow> m w = (x, w') \<Longrightarrow> x \<noteq> Waiting \<and> wo_rounds w' = wo_rounds w \<and> wo_now w' = wo_now w"
  unfolding steady_def by (metis fst_conv snd_conv)

lemma andThen_fst_Done:
  "fst (andThen m f w) = Done y \<longleftrightarrow> (\<exists>x w1. m w = (Done x, w1) \<and> fst (f x w1) = Done y)"
  by (auto simp: andThen_def split: prod.split outcome.split)

lemma ends_ret: "ends (ret (Some x))"
  by (simp add: ends_def steady_intros) (simp add: ret_def)

lemma ends_andThen: "steady m \<Longrightarrow> (\<And>x. ends (f x)) \<Longrightarrow> ends (andThen m f)"
  by (simp add: ends_def steady_intros andThen_fst_Done)

lemma ends_by_ends: "ends m \<Longrightarrow> ends_by deadline m"
  by (simp add: ends_def ends_by_def)

lemma ends_by_andThen: "steady m \<Longrightarrow> (\<And>x. ends_by d (f x)) \<Longrightarrow> ends_by d (andThen m f)"
  by (auto simp: ends_by_def steady_intros andThen_fst_Done dest!: steadyD)

lemma ends_by_unlessReturned: "steady m \<Longrightarrow> ends_by d k \<Longrightarrow> ends_by d (unlessReturned m k)"
  unfolding unlessReturned_def
  by (rule ends_by_andThen) (auto split: option.split intro: ends_by_ends ends_ret)

lemma ends_by_if: "(b \<Longrightarrow> ends_by d m) \<Longrightarrow> (\<not> b \<Longrightarrow> ends_by d m') \<Longrightarrow> ends_by d (if b then m else m')"
  by simp

lemma ends_by_option:
  "(z = None \<Longrightarrow> ends_by d m) \<Longrightarrow> (\<And>x. z = Some x \<Longrightarrow> ends_by d (f x)) \<Longrightarrow>
     ends_by d (case z of None \<Rightarrow> m | Some x \<Rightarrow> f x)"
  by (cases z) auto

lemma ends_by_deadline: "ends m \<Longrightarrow> ends_by d (andThen (deadlinePassed d) (\<lambda>passed. if passed then m else ret None))"
  unfolding ends_by_def ends_def
  by (auto intro!: steady_intros) (simp add: andThen_def deadlinePassed_def inspect_def)

lemma ends_by_wrap:
  "ends_by d m \<Longrightarrow> ends_by d (andThen m (\<lambda>r. ret (case r of Some x \<Rightarrow> Some (Some x) | None \<Rightarrow> None)))"
  unfolding ends_by_def
proof safe
  fix w
  assume "\<forall>w. d \<le> wo_now w \<longrightarrow> fst (m w) \<noteq> Done None" and "d \<le> wo_now w"
    and "fst (andThen m (\<lambda>r. ret (case r of Some x \<Rightarrow> Some (Some x) | None \<Rightarrow> None)) w) = Done None"
  then show False by (auto simp: andThen_fst_Done ret_def split: option.splits)
qed (intro steady_intros)

lemmas ends_intros = ends_ret ends_andThen ends_by_deadline ends_by_andThen ends_by_unlessReturned ends_by_if ends_by_option
  ends_by_wrap

lemma steady_hooks [steady_intros]:
  "steady (invokeProgress hook)" "steady (invokeCancellation hook')"
  "steady (emitTrace options result stage action code controlId sid text detail seed)"
  "steady (returnReady result e)" "steady (failReady result message)" "steady (returnError e)"
  unfolding invokeProgress_def invokeCancellation_def emitTrace_def returnReady_def failReady_def returnError_def Let_def
  by (intro steady_intros)+

lemma steady_ready [steady_intros]:
  "steady (stopWaiting options waitOptions result stage)" "steady (handleIdentified options result identified)"
  "steady (handleAccept options result accept)" "steady (identify lib options result)"
  unfolding stopWaiting_def handleIdentified_def handleAccept_def identify_def Let_def by (intro steady_intros)+

lemma cancellationOrTimeout_ends: "ends_by d (cancellationOrTimeout options waitOptions d result stage)"
  unfolding cancellationOrTimeout_def Let_def
  by (intro ends_intros steady_intros) (auto intro!: ends_by_ends ends_intros steady_intros)

section \<open>Calls return\<close>

interpretation call_wait: waiting "\<lambda>w :: 'u world. length (wo_rounds w)"
    "\<lambda>w. length (filter (\<lambda>r. deadline \<le> rn_now r) (wo_rounds w))" for deadline
  by unfold_locales simp

lemma steady_prompt: "steady m \<Longrightarrow> call_wait.prompt d k m"
  by (rule call_wait.prompt_steady) (simp add: steady_def)

text \<open>A poll takes one round, and the clock then reads what the round says.\<close>

lemma client_poll_round:
  "wo_rounds w = r # rounds \<Longrightarrow> fst (client_poll lib w) \<noteq> Waiting \<and> wo_rounds (snd (client_poll lib w)) = rounds \<and>
     wo_now (snd (client_poll lib w)) = rn_now r"
  by (simp add: client_poll_def split_beta Let_def)

lemma client_poll_over: "wo_rounds w = [] \<Longrightarrow> client_poll lib w = (Waiting, w)"
  by (simp add: client_poll_def)

text \<open>The loops poll and then go on with steps that take no time.\<close>

definition polls :: "('u world, 'a) act \<Rightarrow> bool" where
  "polls m \<longleftrightarrow> (\<forall>w. (wo_rounds w = [] \<longrightarrow> m w = (Waiting, w)) \<and>
     (\<forall>r rounds. wo_rounds w = r # rounds \<longrightarrow>
        fst (m w) \<noteq> Waiting \<and> wo_rounds (snd (m w)) = rounds \<and> wo_now (snd (m w)) = rn_now r))"

lemma polls_client_poll: "polls (client_poll lib)" "polls (attempt (client_poll lib))"
  by (auto simp: polls_def client_poll_round client_poll_over attempt_def split: prod.split outcome.split)
    (metis client_poll_round fst_conv snd_conv)+

lemma prompt_wait_loop:
  assumes "polls m" and "\<And>x. ends_by d (f x)"
  shows "call_wait.prompt d 1 (wait_loop (andThen m f))"
  unfolding wait_loop_def
proof (rule call_wait.prompt_loop)
  fix w
  have steady: "steady (f x)" for x using assms(2) by (simp add: ends_by_def)
  have none: "d \<le> wo_now w1 \<Longrightarrow> fst (f x w1) \<noteq> Done None" for x w1 using assms(2) by (simp add: ends_by_def)
  show "length (wo_rounds (snd (andThen m f w))) \<le> length (wo_rounds w)"
  proof (cases "wo_rounds w")
    case (Cons r rounds)
    with assms(1) have "wo_rounds (snd (m w)) = rounds" by (simp add: polls_def)
    with steady Cons show ?thesis by (auto simp: andThen_def steady_def split: prod.split outcome.split)
  qed (use assms(1) in \<open>simp add: polls_def andThen_def\<close>)
  show "length (wo_rounds w) = Suc (length (wo_rounds w')) \<and>
      length (filter (\<lambda>r. d \<le> rn_now r) (wo_rounds w')) = length (filter (\<lambda>r. d \<le> rn_now r) (wo_rounds w))"
    if "andThen m f w = (Done None, w')" for w'
  proof -
    from that obtain x w1 where "m w = (Done x, w1)" and f: "f x w1 = (Done None, w')" by (auto simp: andThen_Done)
    with assms(1) obtain r where r: "wo_rounds w = r # wo_rounds w1" "wo_now w1 = rn_now r"
      by (cases "wo_rounds w") (auto simp: polls_def, metis fst_conv snd_conv)
    moreover have "wo_rounds w' = wo_rounds w1" using steady f unfolding steady_def by (metis snd_conv)
    moreover have "\<not> d \<le> rn_now r" using none f r(2) by (metis fst_conv)
    ultimately show ?thesis by simp
  qed
  show "res \<noteq> Waiting \<and> length (filter (\<lambda>r. d \<le> rn_now r) (wo_rounds w)) \<le> Suc (length (filter (\<lambda>r. d \<le> rn_now r) (wo_rounds w')))"
    if "andThen m f w = (res, w')" "0 < length (filter (\<lambda>r. d \<le> rn_now r) (wo_rounds w))" for res w'
  proof -
    from that(2) obtain r rounds where r: "wo_rounds w = r # rounds" by (cases "wo_rounds w") auto
    obtain o1 w1 where m: "m w = (o1, w1)" by fastforce
    with assms(1) r have m1: "o1 \<noteq> Waiting" "wo_rounds w1 = rounds" by (auto simp: polls_def) (metis fst_conv snd_conv)+
    with that(1) m steady have "res \<noteq> Waiting \<and> wo_rounds w' = rounds"
      by (auto simp: andThen_def steady_def split: outcome.splits) (metis fst_conv snd_conv)+
    with r show ?thesis by simp
  qed
qed


lemma waitForIdentified_prompt: "call_wait.prompt d 1 (waitForIdentified lib options waitOptions d result)"
  unfolding waitForIdentified_def Let_def
  by (intro call_wait.prompt_before steady_prompt prompt_wait_loop polls_client_poll ends_intros steady_intros
      cancellationOrTimeout_ends)
    (auto intro!: ends_by_ends ends_intros steady_intros)

lemma waitForHello_prompt: "call_wait.prompt d 1 (waitForHello lib options waitOptions d result)"
  unfolding waitForHello_def
  by (intro call_wait.prompt_before steady_prompt prompt_wait_loop polls_client_poll ends_by_andThen ends_by_option
      ends_by_wrap steady_intros cancellationOrTimeout_ends)
    (auto intro!: ends_by_ends ends_intros steady_intros)

lemma openControl_prompt: "call_wait.prompt d 1 (openControl lib options waitOptions d result)"
  unfolding openControl_def Let_def unlessReturned_def
  by (intro call_wait.prompt_before call_wait.prompt_then call_wait.prompt_option call_wait.prompt_if call_wait.prompt_ret
      prompt_wait_loop polls_client_poll ends_by_andThen ends_by_option ends_by_wrap steady_prompt steady_intros
      cancellationOrTimeout_ends)
    (auto intro!: ends_by_ends ends_intros steady_intros)

lemma ensureAppReadyUntilImpl_prompt: "call_wait.prompt d 3 (ensureAppReadyUntilImpl lib options d waitOptions)"
proof -
  have stage3: "call_wait.prompt d 1 (andThen (identify lib options result)
      (\<lambda>result. waitForIdentified lib options waitOptions d result))" for result
    by (intro call_wait.prompt_before steady_prompt steady_intros waitForIdentified_prompt)
  have stage2: "call_wait.prompt d 2 (andThen (waitForHello lib options waitOptions d result1) (\<lambda>stopped.
      case stopped of Some r \<Rightarrow> ret r | None \<Rightarrow> andThen (identify lib options result)
        (\<lambda>result. waitForIdentified lib options waitOptions d result)))" for result1 result
    by (rule call_wait.prompt_andThen [OF waitForHello_prompt, where k = 1])
      (intro call_wait.prompt_option stage3 call_wait.prompt_ret, simp)
  have stage1: "call_wait.prompt d 3 (andThen
      (if b then openControl lib options waitOptions d result0 else andThen m (\<lambda>_. ret None)) (\<lambda>stopped.
      case stopped of Some r \<Rightarrow> ret r | None \<Rightarrow> andThen (waitForHello lib options waitOptions d result1) (\<lambda>stopped.
        case stopped of Some r \<Rightarrow> ret r | None \<Rightarrow> andThen (identify lib options result)
          (\<lambda>result. waitForIdentified lib options waitOptions d result))))"
    if "steady m" for b m result0 result1 result
    by (rule call_wait.prompt_andThen [where j = 1 and k = 2])
      ((intro call_wait.prompt_if openControl_prompt steady_prompt steady_intros that) [1],
       (intro call_wait.prompt_option stage2 call_wait.prompt_ret) [1], simp)
  have resume: "call_wait.prompt d 3 (andThen m (\<lambda>_. waitForIdentified lib options waitOptions d result))"
    if "steady m" for m result
    by (rule call_wait.prompt_mono [OF call_wait.prompt_before [OF steady_prompt [OF that] waitForIdentified_prompt]]) simp
  show ?thesis
    unfolding ensureAppReadyUntilImpl_def Let_def
    by (intro call_wait.prompt_before [OF steady_prompt] call_wait.prompt_if call_wait.prompt_option stage1 resume steady_intros)
      (intro steady_prompt steady_intros)+
qed

lemma ensureAppReadyUntil_prompt: "call_wait.prompt d 3 (ensureAppReadyUntil lib options d waitOptions)"
  unfolding ensureAppReadyUntil_def
  by (intro call_wait.prompt_then call_wait.prompt_attempt ensureAppReadyUntilImpl_prompt steady_prompt steady_intros)

lemma awaitResponse_prompt: "call_wait.prompt d 1 (wait_loop (awaitResponseRound lib request options d))"
  unfolding awaitResponseRound_def abandonRequest_def failCall_def
  by (intro prompt_wait_loop polls_client_poll ends_by_andThen ends_by_option ends_by_if ends_by_unlessReturned
      ends_by_deadline steady_intros)
    (auto intro!: ends_by_ends ends_intros steady_intros)


lemma sendAndAwait_prompt: "call_wait.prompt d 1 (sendAndAwait lib request options d)"
  unfolding sendAndAwait_def
  by (intro call_wait.prompt_before call_wait.prompt_option call_wait.prompt_if awaitResponse_prompt)
    (auto simp: failCall_def abandonRequest_def releaseUnsentRequestId_def intro!: steady_prompt steady_intros)

lemma failCall_prompt: "steady cleanup \<Longrightarrow> call_wait.prompt d k (failCall cleanup request code)"
  unfolding failCall_def by (intro steady_prompt steady_intros)

lemma callRemote_prompt: "call_wait.prompt d 4 (callRemote lib t request options d)"
proof -
  have ready: "call_wait.prompt d 1 (if b then failCall (releaseUnsentRequestId request) request code else
      andThen (client_get cl_sessionSid) (\<lambda>sid. sendAndAwait lib (f sid) options d))" for b code f
    by (intro call_wait.prompt_if failCall_prompt call_wait.prompt_before sendAndAwait_prompt steady_prompt)
      (auto simp: releaseUnsentRequestId_def intro!: steady_intros)
  have with_ready: "call_wait.prompt d 4 (andThen (remainingUntil d) (\<lambda>remaining. andThen (ensureAppReadyUntil lib (g remaining) d (Some options))
      (\<lambda>r. if b r then failCall (releaseUnsentRequestId request) request (code r) else
         andThen (client_get cl_sessionSid) (\<lambda>sid. sendAndAwait lib (f sid) options d))))" for b code f g
    by (rule call_wait.prompt_before [OF steady_prompt])
      (intro steady_intros, rule call_wait.prompt_andThen [OF ensureAppReadyUntil_prompt ready], simp)
  show ?thesis
    unfolding callRemote_def Let_def
    by (intro call_wait.prompt_before [OF steady_prompt] steady_intros)
      (auto intro!: with_ready call_wait.prompt_mono [OF sendAndAwait_prompt])
qed

section \<open>Calls do not throw\<close>

lemma nothrow_world [nothrow_intros]:
  "nothrow (client_get f)" "nothrow (client_do g)" "nothrow (client_run h)" "nothrow (endpoint_run i)"
  "nothrow (endpoint_do j)" "nothrow (deadlineAfter n)" "nothrow (remainingUntil n)" "nothrow (deadlinePassed n)"
  by (simp_all add: nothrow_def client_get_def inspect_def client_do_def change_def client_run_def endpoint_run_def
      endpoint_do_def deadlineAfter_def remainingUntil_def deadlinePassed_def split_beta Let_def)

lemma nothrow_wait_loop [nothrow_intros]: "nothrow body \<Longrightarrow> nothrow (wait_loop body)"
  using nothrow_waitRounds [of body] by (simp add: nothrow_def wait_loop_def del: waitRounds.simps)

lemma nothrow_calls [nothrow_intros]:
  "nothrow (invokeProgress hook)" "nothrow (invokeCancellation hook')" "nothrow (failReady result message)"
  "nothrow (abandonRequest request)" "nothrow (releaseUnsentRequestId request)"
  unfolding invokeProgress_def invokeCancellation_def failReady_def returnReady_def abandonRequest_def
    releaseUnsentRequestId_def
  by (intro nothrow_intros)+

lemma nothrow_callRaw: "nothrow (callRaw lib request options)"
  unfolding callRaw_def callRemote_def sendAndAwait_def awaitResponseRound_def callLocal_def failCall_def
    ensureAppReadyUntil_def Let_def split_beta
  by (intro nothrow_intros)

section \<open>What a call leaves behind\<close>

text \<open>The call with id \<open>i\<close> is over: nothing is pending or stored under its id.\<close>

definition settled :: "u32 \<Rightarrow> u32 set \<Rightarrow> pending_call_table \<Rightarrow> bool" where
  "settled i used t \<longleftrightarrow> calls_ok used t \<and> pc_pending t i = None \<and> pc_resolved t i = None"

definition answered :: "bool \<Rightarrow> u32 \<Rightarrow> rpc_payload \<Rightarrow> 'u world \<Rightarrow> bool" where
  "answered any i response w \<longleftrightarrow>
     calls_in (settled i) w \<and> (rp_requestId response = i \<or> any \<and> rp_requestId response = 0)"

lemma abandon_settles: "id_sent i used t \<Longrightarrow> settled i used (abandon_call t i)"
  by (auto simp: id_sent_def settled_def calls_ok_def table_inv_def abandon_call_def Let_def)

lemma release_settles: "id_reserved i used t \<Longrightarrow> settled i (used - {i}) t"
  by (auto simp: id_reserved_def settled_def calls_ok_def table_inv_def)

lemma take_settles:
  assumes "id_sent i used t"
  shows "goes_on (\<lambda>t. id_sent i used t) (\<lambda>p t. settled i used t \<and> rp_requestId p = i)
    (fst (tryTakeResolved t i)) (snd (tryTakeResolved t i))"
  using assms
  by (auto simp: id_sent_def settled_def calls_ok_def table_inv_def tryTakeResolved_def split: option.split)

lemma takeAny_keeps:
  assumes "id_sent i used t"
  shows "id_sent i used (snd (tryTakeAnyResolved t)) \<and>
    (fst (tryTakeAnyResolved t) = Some p \<longrightarrow> rp_requestId p = 0)"
  using assms by (auto simp: id_sent_def calls_ok_def table_inv_def tryTakeAnyResolved_def split: option.split)

lemma expect_sends:
  assumes "id_reserved i used t"
  shows "fst (expect_call t i) \<and> id_sent i used (snd (expect_call t i))"
  using assms by (auto simp: id_reserved_def id_sent_def calls_ok_def table_inv_def expect_call_def)

lemma failCall_settles:
  assumes "establishes (calls_in P) cleanup (\<lambda>_. calls_in (settled (rp_requestId request)))"
  shows "establishes (calls_in P) (failCall cleanup request code) (answered any (rp_requestId request))"
  unfolding failCall_def
  by (rule establishes_andThen [OF assms]) (simp add: establishes_ret answered_def makeErrorResponse_def)

lemma abandonRequest_settles:
  "establishes (calls_in (id_sent (rp_requestId request))) (abandonRequest request)
     (\<lambda>_. calls_in (settled (rp_requestId request)))"
  by (rule establishesI)
    (auto simp: abandonRequest_def endpoint_do_def client_do_def change_def calls_in_def endpoint_abandonRpcResponse_def
      core_abandonRpcResponse_def abandon_settles)

lemma releaseUnsent_settles:
  "establishes (calls_in (id_reserved (rp_requestId request))) (releaseUnsentRequestId request)
     (\<lambda>_. calls_in (settled (rp_requestId request)))"
  by (rule establishesI) (auto simp: releaseUnsentRequestId_def client_do_def change_def calls_in_def release_settles)

lemma abandonFail_settles:
  "establishes (calls_in (id_sent (rp_requestId request)))
     (andThen (failCall (abandonRequest request) request code) (\<lambda>r. ret (Some r)))
     (goes_on I (answered any (rp_requestId request)))"
  by (rule establishes_andThen [OF failCall_settles [OF abandonRequest_settles, where any = any]]) (simp add: establishes_ret)

lemma tryTake_settles:
  "establishes (calls_in (id_sent i)) (endpoint_run (\<lambda>e. endpoint_tryTakeRpcResponse e i))
     (goes_on (calls_in (id_sent i)) (answered any i))"
proof (rule establishesI)
  fix w :: "'a world" and r w'
  assume "calls_in (id_sent i) w" and run: "endpoint_run (\<lambda>e. endpoint_tryTakeRpcResponse e i) w = (Done r, w')"
  then have "id_sent i (cl_usedRequestIds (wo_client w)) (co_pendingCalls (ep_core (cl_endpoint (wo_client w))))"
    by (simp add: calls_in_def)
  from take_settles [OF this] run
  show "goes_on (calls_in (id_sent i)) (answered any i) r w'"
    by (auto simp: endpoint_run_def client_run_def endpoint_tryTakeRpcResponse_def core_tryTakeRpcResponse_def
        split_beta Let_def calls_in_def answered_def split: option.splits)
qed

lemma tryTakeAny_settles:
  "establishes (calls_in (id_sent i)) (endpoint_run endpoint_tryTakeAnyRpcResponse)
     (\<lambda>r w. calls_in (id_sent i) w \<and> (\<forall>p. r = Some p \<longrightarrow> rp_requestId p = 0))"
proof (rule establishesI)
  fix w :: "'a world" and r w'
  assume "calls_in (id_sent i) w" and run: "endpoint_run endpoint_tryTakeAnyRpcResponse w = (Done r, w')"
  then have "id_sent i (cl_usedRequestIds (wo_client w)) (co_pendingCalls (ep_core (cl_endpoint (wo_client w))))"
    by (simp add: calls_in_def)
  from takeAny_keeps [OF this] run
  show "calls_in (id_sent i) w' \<and> (\<forall>p. r = Some p \<longrightarrow> rp_requestId p = 0)"
    by (auto simp: endpoint_run_def client_run_def endpoint_tryTakeAnyRpcResponse_def core_tryTakeAnyRpcResponse_def
        split_beta Let_def calls_in_def)
qed

lemma awaitResponseRound_settles:
  fixes request :: rpc_payload and options :: "'u call_options"
  defines "i \<equiv> rp_requestId request"
  shows "establishes (calls_in (id_sent i)) (awaitResponseRound lib request options deadline)
     (goes_on (calls_in (id_sent i)) (answered (ca_acceptAnyResponse options) i))"
proof -
  let ?I = "calls_in (id_sent i)" and ?G = "goes_on (calls_in (id_sent i)) (answered (ca_acceptAnyResponse options) i)"
  note fail = abandonFail_settles [of request, folded i_def]
  have poll: "preserves ?I (attempt (client_poll lib))" by (intro preserves_intros) simp
  have stop: "establishes ?I (andThen (invokeCancellation (ca_cancelled options)) (\<lambda>status.
      case status of
        Some code \<Rightarrow> andThen (failCall (abandonRequest request) request code) (\<lambda>r. ret (Some r))
      | None \<Rightarrow> andThen (deadlinePassed deadline) (\<lambda>passed.
          if passed then andThen (failCall (abandonRequest request) request ErrorCode_RpcResponseTimeout) (\<lambda>r. ret (Some r))
          else ret None))) ?G"
    by (intro establishes_after_preserves establishes_option establishes_if fail preserves_intros)
      (simp add: establishes_ret)
  have any: "establishes ?I (andThen (endpoint_run endpoint_tryTakeAnyRpcResponse) (\<lambda>response.
      case response of None \<Rightarrow> ret None | Some response \<Rightarrow> andThen (abandonRequest request) (\<lambda>_. ret (Some response)))) ?G"
    if "ca_acceptAnyResponse options"
  proof (rule establishes_andThen [OF tryTakeAny_settles])
    fix r
    show "establishes (\<lambda>w. ?I w \<and> (\<forall>p. r = Some p \<longrightarrow> rp_requestId p = 0))
        (case r of None \<Rightarrow> ret None | Some response \<Rightarrow> andThen (abandonRequest request) (\<lambda>_. ret (Some response))) ?G"
    proof (cases r)
      case (Some p)
      have "establishes (\<lambda>w. ?I w \<and> rp_requestId p = 0) (abandonRequest request)
          (\<lambda>_ w. calls_in (settled i) w \<and> rp_requestId p = 0)"
        using abandonRequest_settles [of request, folded i_def] unfolding establishes_def by blast
      then have "establishes (\<lambda>w. ?I w \<and> rp_requestId p = 0) (andThen (abandonRequest request) (\<lambda>_. ret (Some p))) ?G"
        by (rule establishes_andThen, intro establishes_ret) (simp add: answered_def that)
      with Some show ?thesis by simp
    qed (simp add: establishes_ret)
  qed
  have take: "establishes ?I (endpoint_run (\<lambda>e. endpoint_tryTakeRpcResponse e (rp_requestId request))) ?G"
    unfolding i_def by (rule tryTake_settles)
  show ?thesis
    unfolding awaitResponseRound_def
    by (intro establishes_after_preserves [OF poll] establishes_after_preserves [OF hooks_keep(1)] establishes_if
        establishes_option fail establishes_unlessReturned [OF take] establishes_unlessReturned [OF _ stop] any)
      (auto intro!: establishes_ret)
qed

lemma wait_loop_establishes:
  "establishes I body (goes_on I Q) \<Longrightarrow> establishes I (wait_loop body) Q"
  using establishes_waitRounds [of I body Q] by (simp add: establishes_def wait_loop_def del: waitRounds.simps)

text \<open>A reserved id is never refused by the core.\<close>

lemma sendRequest_settles:
  "establishes (calls_in (id_reserved (rp_requestId request))) (endpoint_run (\<lambda>e. endpoint_sendRpcRequest lib e request))
     (\<lambda>r w. calls_in (id_sent (rp_requestId request)) w \<and> r \<noteq> Some False)"
proof (rule establishesI)
  fix w :: "'a world" and r w'
  let ?i = "rp_requestId request" and ?c = "wo_client w"
  assume "calls_in (id_reserved ?i) w"
    and run: "endpoint_run (\<lambda>e. endpoint_sendRpcRequest lib e request) w = (Done r, w')"
  then have "id_reserved ?i (cl_usedRequestIds ?c) (co_pendingCalls (ep_core (cl_endpoint ?c)))"
    by (simp add: calls_in_def)
  from expect_sends [OF this] run
  show "calls_in (id_sent ?i) w' \<and> r \<noteq> Some False"
    by (auto simp: endpoint_run_def client_run_def endpoint_sendRpcRequest_def core_expectRpcResponse_def
        core_sendRpcRequest_def split_beta Let_def calls_in_def
        dest: core_sends(4) [THEN same_but_sent_simps(4)] split: option.splits)
qed

lemma sendAndAwait_settles:
  "establishes (calls_in (id_reserved (rp_requestId request))) (sendAndAwait lib request options deadline)
     (answered (ca_acceptAnyResponse options) (rp_requestId request))"
  unfolding sendAndAwait_def
proof (rule establishes_andThen [OF sendRequest_settles])
  fix r :: "bool option"
  have "establishes (calls_in (id_sent (rp_requestId request))) (wait_loop (awaitResponseRound lib request options deadline))
      (answered (ca_acceptAnyResponse options) (rp_requestId request))"
    by (rule wait_loop_establishes) (rule awaitResponseRound_settles)
  moreover have "establishes (calls_in (id_sent (rp_requestId request)))
      (failCall (abandonRequest request) request ErrorCode_InternalError)
      (answered (ca_acceptAnyResponse options) (rp_requestId request))"
    by (rule failCall_settles [OF abandonRequest_settles])
  ultimately show "establishes (\<lambda>w. calls_in (id_sent (rp_requestId request)) w \<and> r \<noteq> Some False)
      (case r of None \<Rightarrow> failCall (abandonRequest request) request ErrorCode_InternalError
       | Some sent \<Rightarrow> if \<not> sent then failCall (releaseUnsentRequestId request) request ErrorCode_InvalidArgument
           else wait_loop (awaitResponseRound lib request options deadline))
      (answered (ca_acceptAnyResponse options) (rp_requestId request))"
    by (cases r) (auto simp: establishes_def)
qed

lemma callRemote_settles:
  "establishes (calls_in (id_reserved (rp_requestId request))) (callRemote lib t request options deadline)
     (answered (ca_acceptAnyResponse options) (rp_requestId request))"
proof -
  have sid: "establishes (calls_in (id_reserved (rp_requestId request))) (sendAndAwait lib
      (if b then request\<lparr>rp_meta := m\<rparr> else request) options deadline)
      (answered (ca_acceptAnyResponse options) (rp_requestId request))" for b m
    using sendAndAwait_settles [of "request\<lparr>rp_meta := m\<rparr>" lib options deadline]
      sendAndAwait_settles [of request lib options deadline] by simp
  show ?thesis
    unfolding callRemote_def Let_def
    by (intro establishes_after_preserves establishes_if sendAndAwait_settles sid failCall_settles [OF releaseUnsent_settles]
        preserves_intros endpoint_do_keeps; simp)
qed

lemma callLocal_settles:
  "establishes (calls_in (id_reserved (rp_requestId request))) (callLocal handler request)
     (answered any (rp_requestId request))"
  unfolding callLocal_def
  by (intro establishes_after_preserves establishes_option failCall_settles [OF releaseUnsent_settles] preserves_intros
      establishes_andThen [OF releaseUnsent_settles])
    (auto intro!: establishes_ret simp: answered_def localResponse_def)

text \<open>Normalisation reserves an id.\<close>

lemma allocateLoop_None:
  "allocateLoop used n c = None \<Longrightarrow> c \<noteq> 0 \<Longrightarrow> x \<noteq> 0 \<Longrightarrow>
     id_distance (firstCandidate n) x \<le> id_distance (firstCandidate n) c \<Longrightarrow> x \<in> used"
proof (induction used n c rule: allocateLoop.induct)
  case (1 used n c)
  have c: "c \<in> used" using 1(2) by (simp add: allocateLoop.simps [of used n c] split: if_splits)
  show ?case
  proof (cases "x = c")
    case False
    have "firstCandidate n \<noteq> 0" by (simp add: firstCandidate_def)
    from id_distance_between [OF 1(4) False 1(5) this 1(3)]
    have n: "nextCandidate c \<noteq> firstCandidate n"
      "id_distance (firstCandidate n) x \<le> id_distance (firstCandidate n) (nextCandidate c)" by auto
    moreover have "allocateLoop used n (nextCandidate c) = None"
      using 1(2) c n(1) by (simp add: allocateLoop.simps [of used n c])
    moreover have "nextCandidate c \<noteq> 0" by (simp add: nextCandidate_def)
    ultimately show ?thesis using 1(1) 1(4) c by simp
  qed (simp add: c)
qed

lemma allocateLoop_Some: "allocateLoop used n c = Some i \<Longrightarrow> c \<noteq> 0 \<Longrightarrow> i \<noteq> 0 \<and> i \<notin> used"
proof (induction used n c rule: allocateLoop.induct)
  case (1 used n c)
  have "nextCandidate c \<noteq> 0" by (simp add: nextCandidate_def)
  with 1 show ?case by (auto simp: allocateLoop.simps [of used n c] Let_def split: if_splits)
qed

lemma normalizeRequest_reserves:
  assumes "normalizeRequest c request = (True, request', c')" and "calls_ok (cl_usedRequestIds c) t"
  shows "id_reserved (rp_requestId request') (cl_usedRequestIds c') t \<and> cl_endpoint c' = cl_endpoint c"
proof -
  have fresh: "id_reserved i (insert i used) t" if "i \<noteq> 0" "i \<notin> used" "calls_ok used t" for i used
    using that by (auto simp: id_reserved_def calls_ok_def)
  obtain a c1 where alloc: "(if rp_requestId request = 0 then allocateRequestId c
      else if rp_requestId request \<in> cl_usedRequestIds c then (None, c)
      else (Some (rp_requestId request), c\<lparr>cl_usedRequestIds := insert (rp_requestId request) (cl_usedRequestIds c)\<rparr>)) =
      (a, c1)" by fastforce
  have "\<exists>i. a = Some i \<and> rp_requestId request' = i \<and> c' = c1"
    using assms(1) unfolding normalizeRequest_def alloc Let_def
    by (cases a) (auto simp: if_distrib [of rp_requestId] cong: if_cong split: if_split_asm)
  then obtain i where i: "a = Some i" "rp_requestId request' = i" "c' = c1" by blast
  have "firstCandidate n \<noteq> 0" for n by (simp add: firstCandidate_def)
  with alloc allocateLoop_Some [of "cl_usedRequestIds c" "cl_nextRequestId c" "firstCandidate (cl_nextRequestId c)"] i(1)
  have "i \<noteq> 0 \<and> i \<notin> cl_usedRequestIds c \<and> cl_usedRequestIds c1 = insert i (cl_usedRequestIds c) \<and> cl_endpoint c1 = cl_endpoint c"
    by (auto simp: allocateRequestId_def split: if_split_asm option.splits)
  with fresh assms(2) i show ?thesis by simp
qed

lemma callRaw_returns:
  assumes "4 \<le> length (filter (\<lambda>r. wo_now w + milliseconds (max (ca_timeout options) 0) \<le> rn_now r) (wo_rounds w))"
  shows "\<exists>response w'. callRaw lib request options w = (Done response, w')"
proof -
  let ?d = "wo_now w + milliseconds (max (ca_timeout options) 0)"
  have "call_wait.prompt ?d 4 (andThen (client_run (\<lambda>c. let (ok, request, c) = normalizeRequest c request in ((ok, request), c)))
      (\<lambda>(ok, request). if \<not> ok then ret (makeErrorResponse request ErrorCode_InvalidArgument)
        else andThen (client_get (\<lambda>c. c)) (\<lambda>c. case cl_localHandlers c (rp_methodOrEventId request) of
          Some handler \<Rightarrow> callLocal handler request
        | None \<Rightarrow> (case cl_transport c of
            None \<Rightarrow> failCall (releaseUnsentRequestId request) request ErrorCode_Unavailable
          | Some t \<Rightarrow> callRemote lib t request options ?d))))"
    unfolding split_beta callLocal_def
    by (intro call_wait.prompt_before [OF steady_prompt] call_wait.prompt_if call_wait.prompt_option callRemote_prompt
        failCall_prompt call_wait.prompt_ret steady_intros)
      (auto simp: failCall_def releaseUnsentRequestId_def intro!: steady_prompt steady_intros)
  then have "fst (callRaw lib request options w) \<noteq> Waiting"
    using assms unfolding call_wait.prompt_def callRaw_def deadlineAfter_def andThen_inspect by blast
  moreover have "fst (callRaw lib request options w) \<noteq> Thrown" 
    using nothrow_callRaw [of lib request options] unfolding nothrow_def by blast
  ultimately show ?thesis by (cases "callRaw lib request options w"; cases "fst (callRaw lib request options w)") auto
qed



lemma client_run_then:
  "andThen (client_run f) k w = (let (x, c) = f (wo_client w) in k x (w\<lparr>wo_client := c\<rparr>))"
  by (simp add: andThen_def client_run_def split_beta Let_def)

lemma callRaw_settles:
  assumes "calls_in calls_ok w" and "normalizeRequest (wo_client w) request = (True, request', c')"
    and "callRaw lib request options w = (Done response, w')"
  shows "answered (ca_acceptAnyResponse options) (rp_requestId request') response w'"
proof -
  let ?k = "andThen (client_get (\<lambda>c. c)) (\<lambda>c. case cl_localHandlers c (rp_methodOrEventId request') of
      Some handler \<Rightarrow> callLocal handler request'
    | None \<Rightarrow> (case cl_transport c of
        None \<Rightarrow> failCall (releaseUnsentRequestId request') request' ErrorCode_Unavailable
      | Some t \<Rightarrow> callRemote lib t request' options (wo_now w + milliseconds (max (ca_timeout options) 0))))"
  have "calls_in (id_reserved (rp_requestId request')) (w\<lparr>wo_client := c'\<rparr>)"
    using normalizeRequest_reserves [OF assms(2)] assms(1) by (simp add: calls_in_def)
  moreover have "?k (w\<lparr>wo_client := c'\<rparr>) = (Done response, w')"
    using assms(3) unfolding callRaw_def deadlineAfter_def andThen_inspect client_run_then by (simp add: assms(2))
  moreover have "establishes (calls_in (id_reserved (rp_requestId request'))) ?k
      (answered (ca_acceptAnyResponse options) (rp_requestId request'))"
    by (intro establishes_after_preserves [OF client_get_keeps] establishes_option callLocal_settles callRemote_settles
        failCall_settles [OF releaseUnsent_settles])
  ultimately show ?thesis unfolding establishes_def by blast
qed

section \<open>Setting up the application session\<close>

text \<open>What a result that is returned says of the client, and of its last error.\<close>

definition ready_reported :: "app_ready_result \<Rightarrow> 'u world \<Rightarrow> bool" where
  "ready_reported r w \<longleftrightarrow> cl_lastAppReady (wo_client w) = r \<and>
     (if ar_ok r
      then cl_appReady (wo_client w) \<and> cl_sessionSid (wo_client w) = ar_sid r \<and> ar_sid r \<noteq> '''' \<and>
        cl_lastError (wo_client w) = SdkError_success
      else ar_statusCode r \<noteq> ErrorCode_Success \<and> se_code (cl_lastError (wo_client w)) = ar_statusCode r)"

abbreviation (input) anytime :: "'u world \<Rightarrow> bool" where
  "anytime w \<equiv> True"

lemma establishes_anytime: "establishes anytime m (\<lambda>_. anytime)"
  by (simp add: establishes_def)

lemma failReady_reports:
  "\<not> ar_ok result \<Longrightarrow> ar_statusCode result \<noteq> ErrorCode_Success \<Longrightarrow> establishes P (failReady result message) ready_reported"
  by (auto simp: establishes_def failReady_def returnReady_def andThen_def client_do_def change_def ret_def
      ready_reported_def SdkError_failure_def)

lemma after_trace:
  "establishes anytime k Q \<Longrightarrow> establishes P (andThen (emitTrace options result stage action code i sid text detail seed) (\<lambda>_. k)) Q"
  by (auto simp: establishes_def andThen_Done)

lemma establishes_anytime_then: "(\<And>x. establishes anytime (f x) Q) \<Longrightarrow> establishes P (andThen m f) Q"
  by (auto simp: establishes_def andThen_Done)

lemma report_return: "establishes P m ready_reported \<Longrightarrow> establishes P (andThen m (\<lambda>r. ret (Some r))) (goes_on I ready_reported)"
  by (auto simp: establishes_def andThen_Done ret_def)

lemma hook_codes:
  "establishes P (invokeCancellation hook) (\<lambda>status _. status \<noteq> Some ErrorCode_Success)"
  "establishes P (invokeProgress hook') (\<lambda>status _. status \<noteq> Some ErrorCode_Success)"
  unfolding invokeCancellation_def invokeProgress_def
  by (intro establishes_option establishes_anytime_then establishes_ret; simp split: option.split)+

text \<open>With a code that is not success, the stage fails and says so.\<close>

lemma stopped_reports:
  assumes "\<not> ar_ok result"
  shows "establishes (\<lambda>_. code \<noteq> ErrorCode_Success)
    (andThen (emitTrace options result' stage action code' i sid text detail seed)
      (\<lambda>_. andThen (failReady (result\<lparr>ar_statusCode := code, ar_stage := stage'\<rparr>) message) (\<lambda>r. ret (Some r))))
    (goes_on anytime ready_reported)"
proof (cases "code = ErrorCode_Success")
  case False
  with assms show ?thesis by (intro after_trace report_return failReady_reports) simp_all
qed (simp add: establishes_def)

lemma code_case:
  assumes "establishes anytime m Q" and "\<And>code. establishes (\<lambda>_. code \<noteq> ErrorCode_Success) (f code) Q"
  shows "establishes (\<lambda>_. status \<noteq> Some ErrorCode_Success) (case status of None \<Rightarrow> m | Some code \<Rightarrow> f code) Q"
  using assms by (cases status) simp_all

lemma stopWaiting_reports:
  "\<not> ar_ok result \<Longrightarrow> establishes P (stopWaiting options waitOptions result stage) (goes_on anytime ready_reported)"
  unfolding stopWaiting_def Let_def
  by (rule establishes_andThen [OF hook_codes(2)], rule code_case, rule establishes_ret, simp, rule stopped_reports)

lemma cancellationOrTimeout_reports:
  "\<not> ar_ok result \<Longrightarrow>
     establishes P (cancellationOrTimeout options waitOptions deadline result stage) (goes_on anytime ready_reported)"
  unfolding cancellationOrTimeout_def Let_def
  by (rule establishes_andThen [OF hook_codes(1)], rule code_case, rule establishes_anytime_then, rule establishes_if,
      rule after_trace, rule report_return, rule failReady_reports, simp, simp, rule establishes_ret, simp,
      rule stopped_reports)


text \<open>A trace leaves the client alone.\<close>

lemma emitTrace_client: "preserves (\<lambda>w. P (wo_client w)) (emitTrace options result stage action code i sid text detail seed)"
  unfolding emitTrace_def Let_def
  by (intro preserves_intros) (simp add: preserves_def callback_def split_beta Let_def)

lemma trace_then:
  "establishes (\<lambda>w. P (wo_client w)) k Q \<Longrightarrow>
     establishes (\<lambda>w. P (wo_client w)) (andThen (emitTrace options result stage action code i sid text detail seed) (\<lambda>_. k)) Q"
  by (rule establishes_after_preserves [OF emitTrace_client])

lemma readyReturn_reports:
  "ar_ok result \<Longrightarrow>
     establishes (\<lambda>w. cl_appReady (wo_client w) \<and> cl_sessionSid (wo_client w) = ar_sid result \<and> ar_sid result \<noteq> '''')
       (returnReady result SdkError_success) ready_reported"
  by (auto simp: establishes_def returnReady_def andThen_def client_do_def change_def ret_def ready_reported_def)

lemma set_session:
  "establishes anytime (client_do (\<lambda>c. c\<lparr>cl_sessionSid := sid, cl_appReady := True\<rparr>))
     (\<lambda>_ w. cl_appReady (wo_client w) \<and> cl_sessionSid (wo_client w) = sid)"
  by (simp add: establishes_def client_do_def change_def)

lemma handleIdentified_reports:
  assumes "\<not> ar_ok result"
  shows "establishes P (handleIdentified options result identified) ready_reported"
proof -
  let ?sid = "pm_jsonSid (rp_meta identified)"
  let ?ready = "result\<lparr>ar_ok := True, ar_statusCode := ErrorCode_Success, ar_stage := ''app-ready'', ar_sid := ?sid\<rparr>"
  have "establishes (\<lambda>w. cl_appReady (wo_client w) \<and> cl_sessionSid (wo_client w) = ?sid)
      (andThen (emitTrace options ?ready ''app-ready'' ''ready'' ErrorCode_Success 0 (ar_sid ?ready) '''' '''' True)
        (\<lambda>_. returnReady ?ready SdkError_success)) ready_reported" if "?sid \<noteq> ''''"
    by (rule trace_then, rule establishes_weaken [OF readyReturn_reports]) (use that in auto)
  note ready = establishes_andThen [OF set_session this]
  show ?thesis
    unfolding handleIdentified_def Let_def
    by (intro after_trace establishes_anytime_then establishes_if ready failReady_reports) (use assms in simp_all)
qed

lemma establishes_return_early:
  "establishes P m (goes_on anytime Q) \<Longrightarrow> establishes anytime k (goes_on anytime Q) \<Longrightarrow>
     establishes P (unlessReturned m k) (goes_on anytime Q)"
  by (rule establishes_unlessReturned)

lemma loop_reports: "establishes anytime body (goes_on anytime Q) \<Longrightarrow> establishes P (wait_loop body) Q"
  by (rule establishes_weaken [OF wait_loop_establishes]) auto

lemma waitForIdentified_reports:
  assumes "\<not> ar_ok result"
  shows "establishes P (waitForIdentified lib options waitOptions deadline result) ready_reported"
  unfolding waitForIdentified_def Let_def
  by (intro establishes_anytime_then after_trace loop_reports establishes_return_early stopWaiting_reports establishes_option
      report_return handleIdentified_reports cancellationOrTimeout_reports) (use assms in simp_all)

text \<open>The stages before it return early only with a failure.\<close>

lemma establishes_goes_on_case:
  "establishes P m (goes_on anytime Q) \<Longrightarrow> (\<And>r. establishes (Q r) (f r) R) \<Longrightarrow> establishes anytime k R \<Longrightarrow>
     establishes P (andThen m (\<lambda>r. case r of Some r \<Rightarrow> f r | None \<Rightarrow> k)) R"
  by (rule establishes_andThen) (auto split: option.split)

lemma wrap_reports:
  "establishes P m (goes_on anytime Q) \<Longrightarrow>
     establishes P (andThen m (\<lambda>r. ret (case r of Some r \<Rightarrow> Some (Some r) | None \<Rightarrow> None))) (goes_on anytime (goes_on anytime Q))"
  by (auto simp: establishes_def andThen_Done ret_def split: option.splits)

lemma handleAccept_reports:
  "\<not> ar_ok result \<Longrightarrow> establishes P (handleAccept options result accept) (goes_on anytime ready_reported)"
  unfolding handleAccept_def Let_def
  by (intro after_trace establishes_anytime_then establishes_if establishes_ret report_return failReady_reports) simp_all

lemma some_reports:
  "establishes P m (goes_on anytime Q) \<Longrightarrow> establishes P (andThen m (\<lambda>r. ret (Some r))) (goes_on anytime (goes_on anytime Q))"
  by (auto simp: establishes_def andThen_Done ret_def split: option.splits)

lemma openControl_reports:
  assumes "\<not> ar_ok result"
  shows "establishes P (openControl lib options waitOptions deadline result) (goes_on anytime ready_reported)"
proof -
  note waits = loop_reports establishes_anytime_then establishes_goes_on_case [OF stopWaiting_reports] establishes_option
    some_reports [OF handleAccept_reports] wrap_reports [OF cancellationOrTimeout_reports]
  have body: "establishes anytime (andThen (client_poll lib) (\<lambda>_.
          andThen (stopWaiting options waitOptions result ''control-accept'') (\<lambda>stopped.
          case stopped of
            Some r \<Rightarrow> ret (Some (Some r))
          | None \<Rightarrow>
              andThen (endpoint_run (\<lambda>e. endpoint_tryTakeControlNoticeFor e ControlOpcode_Accept controlId)) (\<lambda>accept.
              case accept of
                Some accept \<Rightarrow> andThen (handleAccept options result accept) (\<lambda>r. ret (Some r))
              | None \<Rightarrow>
                  andThen (cancellationOrTimeout options waitOptions deadline result ''control-accept'') (\<lambda>stopped.
                  ret (case stopped of Some r \<Rightarrow> Some (Some r) | None \<Rightarrow> None))))))
      (goes_on anytime (goes_on anytime ready_reported))" for controlId
    by (rule establishes_anytime_then, rule establishes_goes_on_case [OF stopWaiting_reports [OF assms]],
        rule establishes_ret, simp, rule establishes_anytime_then, rule establishes_option,
        rule wrap_reports [OF cancellationOrTimeout_reports [OF assms]], rule some_reports [OF handleAccept_reports [OF assms]])
  show ?thesis
    unfolding openControl_def Let_def
    by (intro establishes_anytime_then after_trace establishes_return_early loop_reports [OF body] establishes_if
        establishes_ret report_return failReady_reports) (use assms in simp_all)
qed

lemma waitForHello_reports:
  assumes "\<not> ar_ok result"
  shows "establishes P (waitForHello lib options waitOptions deadline result) (goes_on anytime ready_reported)"
  unfolding waitForHello_def
  by (rule after_trace, rule loop_reports, rule establishes_anytime_then,
      rule establishes_goes_on_case [OF stopWaiting_reports [OF assms]], rule establishes_ret, simp,
      rule establishes_anytime_then, rule establishes_option, rule wrap_reports [OF cancellationOrTimeout_reports [OF assms]],
      rule after_trace, rule establishes_ret, simp)


lemma identify_result: "\<not> ar_ok result \<Longrightarrow> establishes P (identify lib options result) (\<lambda>r _. \<not> ar_ok r)"
  unfolding identify_def Let_def
  by (intro establishes_anytime_then after_trace establishes_if establishes_raise establishes_ret) simp_all

lemma identified_reports:
  assumes "\<not> ar_ok result"
  shows "establishes anytime (andThen (identify lib options result)
    (\<lambda>result. waitForIdentified lib options waitOptions deadline result)) ready_reported"
proof (rule establishes_andThen [OF identify_result [OF assms]])
  fix r
  show "establishes (\<lambda>_. \<not> ar_ok r) (waitForIdentified lib options waitOptions deadline r) ready_reported"
    by (cases "ar_ok r") (simp add: establishes_def, rule waitForIdentified_reports)
qed

lemma establishes_same: "establishes (Q r) (ret r) Q"
  by (simp add: establishes_def ret_def)

text \<open>The session that is ready already is reported as it is.\<close>

lemma already_ready_reports:
  assumes "cl_appReady c" and "cl_sessionSid c \<noteq> ''''" and "ar_ok result" and "ar_sid result = cl_sessionSid c"
  shows "establishes (\<lambda>w. wo_client w = c) (andThen (emitTrace options result stage action code i sid text detail seed)
    (\<lambda>_. returnReady result SdkError_success)) ready_reported"
  by (rule trace_then [where P = "\<lambda>x. x = c"], rule establishes_weaken [OF readyReturn_reports [OF assms(3)]]) (use assms in auto)

text \<open>The stages from the control session on.\<close>

lemma stages_report:
  assumes "\<not> ar_ok result0" and "\<not> ar_ok result1" and "\<not> ar_ok result2"
  shows "establishes anytime (andThen
      (if b then openControl lib options waitOptions deadline result0
       else andThen (emitTrace options result stage action code i sid body detail seed) (\<lambda>_. ret None)) (\<lambda>stopped.
      case stopped of Some r \<Rightarrow> ret r | None \<Rightarrow> andThen (waitForHello lib options waitOptions deadline result1) (\<lambda>stopped.
        case stopped of Some r \<Rightarrow> ret r | None \<Rightarrow> andThen (identify lib options result2)
          (\<lambda>result. waitForIdentified lib options waitOptions deadline result)))) ready_reported"
  by (rule establishes_goes_on_case, rule establishes_if, rule openControl_reports [OF assms(1)], rule after_trace,
      rule establishes_ret, simp, rule establishes_same, rule establishes_goes_on_case,
      rule waitForHello_reports [OF assms(2)], rule establishes_same, rule identified_reports [OF assms(3)])

lemma client_get_self: "establishes P (client_get (\<lambda>c. c)) (\<lambda>c w. wo_client w = c)"
  unfolding client_get_def by (rule establishes_inspect) simp

lemma ensureAppReadyUntilImpl_reports: "establishes anytime (ensureAppReadyUntilImpl lib options deadline waitOptions) ready_reported"
  unfolding ensureAppReadyUntilImpl_def Let_def
  by (rule after_trace, rule establishes_andThen [OF client_get_self], rule establishes_if, rule already_ready_reports,
      simp, simp, simp, simp, rule establishes_option, rule after_trace, rule failReady_reports,
      simp add: AppReadyResult_default_def, simp, rule establishes_anytime_then, rule establishes_if, rule after_trace,
      rule waitForIdentified_reports, simp add: AppReadyResult_default_def,
      rule stages_report; simp add: AppReadyResult_default_def)

lemma ensureAppReadyUntil_reports: "establishes anytime (ensureAppReadyUntil lib options deadline waitOptions) ready_reported"
  unfolding ensureAppReadyUntil_def
proof (rule establishes_andThen [where R = "goes_on anytime ready_reported"])
  show "establishes anytime (attempt (ensureAppReadyUntilImpl lib options deadline waitOptions)) (goes_on anytime ready_reported)"
    using ensureAppReadyUntilImpl_reports [of lib options deadline waitOptions]
    by (auto simp: establishes_def attempt_def split: prod.splits outcome.splits)
next
  fix r
  show "establishes (goes_on anytime ready_reported r) (case r of Some result \<Rightarrow> ret result
      | None \<Rightarrow> failReady (AppReadyResult_default\<lparr>ar_statusCode := ErrorCode_InternalError, ar_stage := ''callback''\<rparr>)
          ''app-ready callback failed'') ready_reported"
    by (cases r) (simp_all add: establishes_same failReady_reports AppReadyResult_default_def)
qed


lemma ensureAppReady_returns:
  assumes "3 \<le> length (filter (\<lambda>r. wo_now w + milliseconds (max (ao_timeout options) 0) \<le> rn_now r) (wo_rounds w))"
  shows "\<exists>r w'. ensureAppReady lib options w = (Done r, w')"
proof -
  have "nothrow (ensureAppReady lib options)"
    unfolding ensureAppReady_def ensureAppReadyUntil_def deadlineAfter_def by (intro nothrow_intros)
  moreover have "fst (ensureAppReady lib options w) \<noteq> Waiting"
    using assms ensureAppReadyUntil_prompt
    unfolding call_wait.prompt_def ensureAppReady_def deadlineAfter_def andThen_inspect by blast
  ultimately show ?thesis
    unfolding nothrow_def
    by (cases "ensureAppReady lib options w"; cases "fst (ensureAppReady lib options w)") (auto dest: spec [of _ w])
qed


section \<open>Properties\<close>

text \<open>A client just attached, which then waits for four rounds in which nothing arrives until the deadline is long past.\<close>

definition attached_client :: "unit axtp_client" where
  "attached_client = client_attachTransport (AxtpClient ClientOptions_default)
     (Some \<lparr>tr_profile = TransportProfile_default, tr_currentReplyTarget = (\<lambda>_. Some 0)\<rparr>)"

definition late_round :: wait_round where
  "late_round = \<lparr>rn_arrivals = [], rn_now = 10 ^ 12\<rparr>"

definition silent_world :: "unit world" where
  "silent_world = \<lparr>wo_client = attached_client, wo_app = (), wo_now = 0,
     wo_rounds = [late_round, late_round, late_round, late_round], wo_randomSeed = 7\<rparr>"

lemma silent_rounds: "0 \<le> timeout \<Longrightarrow> timeout \<le> 5000 \<Longrightarrow>
    filter (\<lambda>r. wo_now silent_world + milliseconds (max timeout 0) \<le> rn_now r) (wo_rounds silent_world) = wo_rounds silent_world"
  by (simp add: silent_world_def late_round_def milliseconds_def)

text \<open>
  C8. Every synchronous call returns: once four of the rounds it may wait for lie past its deadline, it
  has returned a response - whatever the peer sends, the callbacks do, and handlers throw. (It has up
  to four waits: for ACCEPT, HELLO, IDENTIFIED and the response itself.)
\<close>

theorem call_returns:
  assumes "4 \<le> length (filter (\<lambda>r. wo_now w + milliseconds (max (ca_timeout options) 0) \<le> rn_now r) (wo_rounds w))"
  shows "\<exists>response w'. callRaw lib request options w = (Done response, w')"
  by (rule callRaw_returns [OF assms])

theorem call_returns_witness:
  "\<exists>response w'. callRaw braces_lib RpcPayload_default CallOptions_default silent_world = (Done response, w')"
  by (rule call_returns, subst silent_rounds) (simp_all add: CallOptions_default_def silent_world_def)

text \<open>Attaching a transport starts from an empty table, whatever the client was before.\<close>

lemma attach_empties [simp]:
  "co_pendingCalls (ep_core (cl_endpoint (client_attachTransport c transport))) = PendingCallTable_empty"
  "cl_usedRequestIds (client_attachTransport c transport) = {}"
  by (simp_all add: client_attachTransport_def reset_session_def AxtpEndpoint_def AxtpCore_def attachTransport_def Let_def
      core_resetResponseTracking_def endpoint_setIngressTokenProvider_def configure_def setIngressTokenProvider_def
      setIngressReplyTargetProvider_def reset_calls_def PendingCallTable_empty_def split: option.split)

lemma attached_calls_ok: "calls_in calls_ok (silent_world)"
  by (simp add: calls_in_def calls_ok_def silent_world_def attached_client_def table_inv_def PendingCallTable_empty_def)

lemma attached_normalizes:
  "\<exists>request' c'. normalizeRequest attached_client RpcPayload_default = (True, request', c') \<and> rp_requestId request' = 1"
proof -
  have c: "cl_usedRequestIds attached_client = {}" "cl_nextRequestId attached_client = 1" "\<not> cl_appReady attached_client"
    by (simp_all add: attached_client_def client_attachTransport_def client_close_def reset_session_def AxtpClient_def Let_def)
  then have "allocateRequestId attached_client =
      (Some 1, attached_client\<lparr>cl_usedRequestIds := {1}, cl_nextRequestId := 2\<rparr>)"
    by (simp add: allocateRequestId_def firstCandidate_def allocateLoop.simps [of "{}"])
  then show ?thesis
    by (simp add: normalizeRequest_def invalidEndpoint_def hasEndpointMetadata_def RpcPayload_default_def
        PayloadMeta_default_def EndpointMetadata_default_def Let_def c(3))
qed

lemma call_returns_example:
  "\<exists>response w'. callRaw braces_lib RpcPayload_default CallOptions_default silent_world = (Done response, w')"
  by (rule callRaw_returns, subst silent_rounds) (simp_all add: CallOptions_default_def silent_world_def)

text \<open>
  C6. A call leaves nothing behind: the response it returns is the one to its own request - it carries the
  id that was reserved for it, or no id where the caller accepts any response -, no call is left
  pending and no response stored under that id, and the client's table of calls stays well formed,
  on every path: local handlers, failed set-up, timeout, cancellation and exceptions included.
\<close>

theorem call_settles:
  assumes "calls_in calls_ok w" and "normalizeRequest (wo_client w) request = (True, request', c')"
    and "callRaw lib request options w = (Done response, w')"
  shows "calls_in calls_ok w' \<and>
     (rp_requestId response = rp_requestId request' \<or> ca_acceptAnyResponse options \<and> rp_requestId response = 0) \<and>
     pc_pending (co_pendingCalls (ep_core (cl_endpoint (wo_client w')))) (rp_requestId request') = None \<and>
     pc_resolved (co_pendingCalls (ep_core (cl_endpoint (wo_client w')))) (rp_requestId request') = None"
  using callRaw_settles [OF assms] by (simp add: answered_def settled_def calls_in_def)

theorem call_settles_witness:
  "\<exists>response w'. callRaw braces_lib RpcPayload_default CallOptions_default silent_world = (Done response, w') \<and>
     rp_requestId response = 1 \<and> calls_in calls_ok w'"
proof -
  obtain request' c' where n: "normalizeRequest (wo_client silent_world) RpcPayload_default = (True, request', c')"
    "rp_requestId request' = 1" using attached_normalizes by (auto simp: silent_world_def)
  obtain response w' where r: "callRaw braces_lib RpcPayload_default CallOptions_default silent_world = (Done response, w')"
    using call_returns_example by blast
  from call_settles [OF attached_calls_ok n(1) r] n(2) r show ?thesis by (auto simp: CallOptions_default_def)
qed

text \<open>
  C32. Request ids are fresh: the id that \<^verbatim>\<open>allocateRequestId\<close> hands out is not zero and belongs to no
  earlier request, and it refuses only when all of the 2^32 - 1 ids are taken, changing nothing then
  - wherever the counter stands, wrap-around included.
\<close>

theorem request_id_fresh:
  "case allocateRequestId c of
     (None, c') \<Rightarrow> UNIV - {0} \<subseteq> cl_usedRequestIds c \<and> c' = c
   | (Some i, c') \<Rightarrow> i \<noteq> 0 \<and> i \<notin> cl_usedRequestIds c \<and> cl_usedRequestIds c' = insert i (cl_usedRequestIds c)"
proof -
  let ?first = "firstCandidate (cl_nextRequestId c)"
  have first: "?first \<noteq> 0" by (simp add: firstCandidate_def)
  have "id_distance ?first x \<le> id_distance ?first ?first" for x
    unfolding id_distance_def using unsigned_less [of ?first, where 'a = nat] by (cases "unat x < unat ?first") simp_all
  then have "x \<in> cl_usedRequestIds c"
    if "allocateLoop (cl_usedRequestIds c) (cl_nextRequestId c) ?first = None" and "x \<noteq> 0" for x
    using allocateLoop_None [OF that(1) first that(2)] by blast
  with allocateLoop_Some [OF _ first] show ?thesis by (auto simp: allocateRequestId_def split: option.splits)
qed

text \<open>
  C33. The report of a session set-up is true: \<^verbatim>\<open>ensureAppReady\<close> returns, once three of the rounds it may wait
  for lie past its deadline, and the result that it returns and records says what the client is - ready with
  the non-empty session id it reports, and no error; or a status that is not success, which is also
  the client's last error.
\<close>

theorem app_ready_reported:
  assumes "3 \<le> length (filter (\<lambda>r. wo_now w + milliseconds (max (ao_timeout options) 0) \<le> rn_now r) (wo_rounds w))"
  shows "\<exists>r w'. ensureAppReady lib options w = (Done r, w') \<and> cl_lastAppReady (wo_client w') = r \<and>
     (if ar_ok r
      then cl_appReady (wo_client w') \<and> cl_sessionSid (wo_client w') = ar_sid r \<and> ar_sid r \<noteq> '''' \<and>
        SdkError_ok (cl_lastError (wo_client w'))
      else ar_statusCode r \<noteq> ErrorCode_Success \<and> se_code (cl_lastError (wo_client w')) = ar_statusCode r)"
proof -
  obtain r w' where run: "ensureAppReady lib options w = (Done r, w')"
    using ensureAppReady_returns [OF assms] by blast
  then have "ready_reported r w'"
    using ensureAppReadyUntil_reports unfolding ensureAppReady_def deadlineAfter_def andThen_inspect establishes_def by blast
  with run show ?thesis by (auto simp: ready_reported_def SdkError_ok_def SdkError_success_def split: if_splits)
qed

theorem app_ready_reported_witness:
  "\<exists>r w'. ensureAppReady braces_lib AppReadyOptions_default silent_world = (Done r, w') \<and>
     cl_lastAppReady (wo_client w') = r"
proof -
  have "3 \<le> length (filter (\<lambda>r. wo_now silent_world + milliseconds (max (ao_timeout (AppReadyOptions_default :: unit app_ready_options)) 0)
      \<le> rn_now r) (wo_rounds silent_world))"
    by (subst silent_rounds) (simp_all add: AppReadyOptions_default_def silent_world_def)
  from app_ready_reported [OF this, of braces_lib] show ?thesis by blast
qed

end
