(* ===== verification/Rpc_Exchange.thy ===== *)
theory Rpc_Exchange
  imports Client_Calls
begin

text \<open>
  A client and a server put together: the bytes one endpoint hands to its transport are what the other
  one polls from its own, cut in any way. Shown here: a request that an endpoint sends over the framed
  wire is dispatched by the other endpoint, its synchronous handler's response travels back, and the
  call that waits for it returns that response.
\<close>

section \<open>One RPC message on the way\<close>

definition rpc_fits :: "nat \<Rightarrow> rpc_payload \<Rightarrow> bool" where
  "rpc_fits cap p \<longleftrightarrow> binary_rpc p \<and> carries cap (1024 * 1024) (payload_message (PRpc p))"

text \<open>What the receiver decodes.\<close>

definition received_rpc :: "rpc_payload \<Rightarrow> rpc_payload" where
  "received_rpc p = RpcPayload_default\<lparr>rp_encoding := rp_encoding p, rp_op := rp_op p,
     rp_requestId := rp_requestId p, rp_methodOrEventId := ucast (ucast (rp_methodOrEventId p) :: u16),
     rp_statusCode := rp_statusCode p, rp_bodyEncoding := rp_bodyEncoding p,
     rp_meta := PayloadMeta_default\<lparr>pm_requestId := rp_requestId p\<rparr>, rp_body := rp_body p\<rparr>"

lemma received_rpc_simps [simp]:
  "rp_op (received_rpc p) = rp_op p" "rp_requestId (received_rpc p) = rp_requestId p"
  "rp_body (received_rpc p) = rp_body p" "rp_statusCode (received_rpc p) = rp_statusCode p"
  "rp_encoding (received_rpc p) = rp_encoding p"
  "rp_meta (received_rpc p) = PayloadMeta_default\<lparr>pm_requestId := rp_requestId p\<rparr>"
  by (simp_all add: received_rpc_def)

lemma rpc_reaches:
  assumes "framed_port op cap" and "0 < cap" and "rpc_fits cap p"
  shows "\<exists>op' ws. sendRpc lib snoc op p [] = Some (op', ws) \<and>
     (\<forall>c chunks. idle (co_inbound c) \<longrightarrow> concat chunks = concat ws \<longrightarrow>
        core_feed lib c chunks = handleRpc lib (received_rpc p) c)"
proof -
  have "op_wireMode op = FramedBinary" "0 < payloadCapacity (op_fragmenter op)"
    "\<forall>x\<in>set [PRpc p]. binary_payload x \<and> carries (payloadCapacity (op_fragmenter op)) (1024 * 1024) (payload_message x)"
    using assms by (simp_all add: framed_port_def rpc_fits_def)
  from payloads_reach_sink [OF this, of lib, where 's = axtp_core] obtain op' ws where
    "sendRpc lib snoc op p [] = Some (op', ws)"
    "\<And>sink ip s chunks. idle ip \<Longrightarrow> concat chunks = concat ws \<Longrightarrow>
       InboundProcessor_feed lib (sink :: payload \<Rightarrow> axtp_core \<Rightarrow> axtp_core) (ip, s) chunks = (ip, sink (PRpc (received_rpc p)) s)"
    by (auto simp: received_rpc_def split: option.splits)
  moreover have "(handleRpc lib q c)\<lparr>co_inbound := co_inbound c\<rparr> = handleRpc lib q c" for q c
    using handleRpc_effect(10) [of lib q c] by (metis axtp_core.surjective axtp_core.update_convs(1) axtp_core.select_convs(1))
  ultimately show ?thesis by (auto simp: core_feed_eq)
qed

lemma fold_onTransportBytes: "foldl (onTransportBytes lib) e chunks = e\<lparr>ep_core := core_feed lib (ep_core e) chunks\<rparr>"
  by (induction chunks arbitrary: e) (simp_all add: core_feed_def onTransportBytes_def)

section \<open>Endpoints at rest\<close>

definition broker_at_rest :: "'u basic_broker \<Rightarrow> bool" where
  "broker_at_rest b \<longleftrightarrow> bk_tasks b = [] \<and> bk_results b = [] \<and> bk_pendingCompletions b = []"

definition core_at_rest :: "axtp_core \<Rightarrow> bool" where
  "core_at_rest c \<longleftrightarrow> idle (co_inbound c) \<and> co_events c = [] \<and> co_outboundBytes c = [] \<and> co_outboundReplyTarget c = 0"

definition at_rest :: "'u axtp_endpoint \<Rightarrow> bool" where
  "at_rest e \<longleftrightarrow> ep_attached e \<and> core_at_rest (ep_core e) \<and> broker_at_rest (ep_broker e)"

lemma flush_enqueued:
  "ep_attached e \<Longrightarrow> flushOutbound (e\<lparr>ep_core := enqueue_packets target ws c\<rparr>) =
     e\<lparr>ep_core := c\<lparr>co_outboundBytes := []\<rparr>,
       ep_calls := ep_calls e @ map transport_send (co_outboundBytes c) @ map (send_to target) ws\<rparr>"
  by (cases e; cases c) (simp add: flushOutbound_def flushLoop_eq enqueue_packets_def send_to_def comp_def)

lemma flush_packets:
  "ep_attached e \<Longrightarrow> co_outboundBytes c = [] \<Longrightarrow>
     flushOutbound (e\<lparr>ep_core := enqueue_packets target ws c\<rparr>) =
       e\<lparr>ep_core := c, ep_calls := ep_calls e @ map (send_to target) ws\<rparr>"
  by (cases c) (simp add: flush_enqueued)

text \<open>The client sends its request.\<close>

lemma sendRequest_flushes:
  assumes "ep_attached e" and "co_outboundReplyTarget (ep_core e) = 0"
    and "sendRpc lib snoc (co_outbound (ep_core e)) request [] = Some (op', ws)"
    and "expect_call (co_pendingCalls (ep_core e)) (rp_requestId request) = (True, t)"
  shows "endpoint_sendRpcRequest lib e request =
     (Some True, e\<lparr>ep_core := (ep_core e)\<lparr>co_pendingCalls := t, co_outbound := op', co_outboundBytes := []\<rparr>,
        ep_calls := ep_calls e @ map transport_send (co_outboundBytes (ep_core e)) @ map (send_to 0) ws\<rparr>)"
  using assms
  by (simp add: endpoint_sendRpcRequest_def core_expectRpcResponse_def core_sendRpcRequest_def core_sendRpc_eq flush_enqueued)

lemma sendRequest_leaves:
  assumes "ep_attached e" and "co_outboundBytes (ep_core e) = []" and "co_outboundReplyTarget (ep_core e) = 0"
    and "sendRpc lib snoc (co_outbound (ep_core e)) request [] = Some (op', ws)"
    and "expect_call (co_pendingCalls (ep_core e)) (rp_requestId request) = (True, t)"
  shows "endpoint_sendRpcRequest lib e request =
     (Some True, e\<lparr>ep_core := (ep_core e)\<lparr>co_pendingCalls := t, co_outbound := op'\<rparr>,
        ep_calls := ep_calls e @ map (send_to 0) ws\<rparr>)"
  unfolding sendRequest_flushes [OF assms(1,3-5)] using assms(2) by (cases "ep_core e") simp

text \<open>The server receives it, dispatches it and answers in the same round.\<close>

definition arrived :: "axtp_core \<Rightarrow> rpc_payload \<Rightarrow> rpc_payload" where
  "arrived c request = (received_rpc request)\<lparr>rp_meta := (PayloadMeta_default\<lparr>pm_requestId := rp_requestId request\<rparr>)
     \<lparr>pm_replyTarget := provided (co_ingressReplyTargetProvider c) (co_inboundActivityGeneration c + 1) 0\<rparr>\<rparr>"

lemma handleRpc_request:
  assumes "rp_op request = RpcOp_Request"
  shows "handleRpc lib (received_rpc request) c =
     c\<lparr>co_inboundActivityGeneration := co_inboundActivityGeneration c + 1,
       co_events := co_events c @ [event_rpcRequest (arrived c request)]\<rparr>"
  using assms
  by (simp add: handleRpc_def Let_def arrived_def captureReplyTarget_def provided_def PayloadMeta_default_def
      split: option.split)

lemma server_answers:
  assumes "at_rest s" and "framed_port (co_outbound (ep_core s)) cap" and "0 < cap" and "rp_op request = RpcOp_Request"
    and "dispatchRpcRequest (bk_router (ep_broker s)) (arrived (ep_core s) request) u =
      (Some \<lparr>rd_response = response, rd_deferredPoll = None\<rparr>, u')"
    and "rpc_fits cap response" and "\<And>c. idle (co_inbound c) \<Longrightarrow> core_feed lib c chunks = handleRpc lib (received_rpc request) c"
  shows "\<exists>s' down. endpoint_poll lib s chunks (Suc n) u = (True, s', u') \<and>
     ep_calls s' = ep_calls s @ map (send_to (pm_replyTarget (rp_meta response))) down \<and>
     (\<forall>c arrivals. idle (co_inbound c) \<longrightarrow> concat arrivals = concat down \<longrightarrow>
        core_feed lib c arrivals = handleRpc lib (received_rpc response) c)"
proof -
  let ?s1 = "s\<lparr>ep_core := handleRpc lib (received_rpc request) (ep_core s)\<rparr>"
  have rest: "has_request ?s1 (arrived (ep_core s) request)"
    using assms(1) by (simp add: has_request_def handleRpc_request [OF assms(4)] at_rest_def core_at_rest_def broker_at_rest_def)
  from rpc_reaches [OF assms(2,3,6), of lib] obtain op' down where
    sent: "sendRpc lib snoc (co_outbound (ep_core s)) response [] = Some (op', down)"
    and feed: "\<And>c arrivals. idle (co_inbound c) \<Longrightarrow> concat arrivals = concat down \<Longrightarrow>
      core_feed lib c arrivals = handleRpc lib (received_rpc response) c" by auto
  have w: "result_writes lib (co_outbound (ep_core ?s1)) (rpcResult response) = Some (op', down)"
    using sent by (simp add: result_writes_def rpcResult_def result_rpcResponse_def result_rpcError_def result_noop_def
        handleRpc_request [OF assms(4)])
  have target: "result_target (rpcResult response) = pm_replyTarget (rp_meta response)"
    by (simp add: result_target_def rpcResult_def result_rpcResponse_def result_rpcError_def result_noop_def is_response_def)
  have idle: "idle (co_inbound (ep_core s))" "ep_attached s" using assms(1) by (simp_all add: at_rest_def core_at_rest_def)
  have poll: "endpoint_poll lib s chunks (Suc n) u = progress lib ?s1 (Suc n) u"
    by (simp add: endpoint_poll_def idle fold_onTransportBytes assms(7))
  have "dispatchRpcRequest (bk_router (ep_broker ?s1)) (arrived (ep_core s) request) u =
      (Some \<lparr>rd_response = response, rd_deferredPoll = None\<rparr>, u')" using assms(5) by simp
  from progress_one [OF rest this, of lib n] w target
  have "progress lib ?s1 (Suc n) u = (True, flushOutbound (?s1\<lparr>ep_core := enqueue_packets (pm_replyTarget (rp_meta response)) down
      ((ep_core ?s1)\<lparr>co_events := [], co_outbound := op'\<rparr>)\<rparr>), u')" by simp
  moreover have "co_outboundBytes (ep_core ?s1) = []"
    using assms(1) by (simp add: handleRpc_request [OF assms(4)] at_rest_def core_at_rest_def)
  ultimately show ?thesis
    unfolding poll using idle(2) feed by (simp add: flush_packets) (blast intro: map_cong)
qed

text \<open>The client polls the response; its broker has nothing to do.\<close>

lemma progress_idle:
  assumes "at_rest e"
  shows "progress lib e n u = (True, e, u)"
  using assms
  by (cases e; cases "ep_core e"; cases "ep_broker e")
    (simp add: at_rest_def core_at_rest_def broker_at_rest_def progress_def drainCoreEvents_eq broker_poll_def pollTasks_empty
      pollPendingCompletions_def drainBrokerResults.simps pollResult_def flushOutbound_def flushLoop_eq)

lemma handleRpc_response:
  assumes "rp_op response = RpcOp_RequestResponse"
  shows "handleRpc lib (received_rpc response) c =
     c\<lparr>co_inboundActivityGeneration := co_inboundActivityGeneration c + 1,
       co_pendingCalls := resolve_call (co_pendingCalls c) (rp_requestId response) (received_rpc response)\<rparr>"
proof -
  have "\<not> pm_localGeneratedResponse (rp_meta (received_rpc response))" by (simp add: PayloadMeta_default_def)
  from handleResponse_call [OF this] assms show ?thesis by (simp add: handleRpc_def Let_def)
qed

lemma client_receives:
  assumes "at_rest e" and "rp_op response = RpcOp_RequestResponse"
    and "\<And>c. idle (co_inbound c) \<Longrightarrow> core_feed lib c chunks = handleRpc lib (received_rpc response) c"
  shows "endpoint_poll lib e chunks n u = (True, e\<lparr>ep_core := (ep_core e)
     \<lparr>co_inboundActivityGeneration := co_inboundActivityGeneration (ep_core e) + 1,
      co_pendingCalls := resolve_call (co_pendingCalls (ep_core e)) (rp_requestId response) (received_rpc response)\<rparr>\<rparr>, u)"
proof -
  have "ep_attached e" "idle (co_inbound (ep_core e))" using assms(1) by (simp_all add: at_rest_def core_at_rest_def)
  with assms(3) [of "ep_core e"] show ?thesis
    unfolding endpoint_poll_def fold_onTransportBytes
    by (simp add: handleRpc_response [OF assms(2)])
      (rule progress_idle, use assms(1) in \<open>simp add: at_rest_def core_at_rest_def\<close>)
qed

section \<open>The call\<close>

lemma resolved_taken:
  assumes "expect_call t i = (True, t1)" and "i \<noteq> 0"
  shows "tryTakeResolved (resolve_call t1 i p) i =
     (Some p, t1\<lparr>pc_resolved := (pc_resolved t1)(i := None), pc_pending := (pc_pending t1)(i := None),
        pc_retired := insert i (pc_retired t1)\<rparr>)"
  using assms by (auto simp: expect_call_def resolve_call_def isPending_def tryTakeResolved_def Let_def split: if_splits)

lemma wait_first_round:
  "body w = (Done (Some x), w') \<Longrightarrow> wait_loop body w = (Done x, w')"
  by (simp add: wait_loop_def andThen_def ret_def)

lemma callRemote_ready:
  assumes "cop_autoIdentify (cl_options (wo_client w)) \<longrightarrow> cl_appReady (wo_client w)"
  shows "callRemote lib t request options deadline w = sendAndAwait lib request options deadline
     (w\<lparr>wo_client := (wo_client w)\<lparr>cl_endpoint := (cl_endpoint (wo_client w))
       \<lparr>ep_core := configure (ep_core (cl_endpoint (wo_client w))) (tr_profile t)\<rparr>\<rparr>\<rparr>)"
  using assms
  by (simp add: callRemote_def endpoint_do_def client_do_def client_get_def andThen_def change_def inspect_def)

lemma sendAndAwait_replied:
  assumes "at_rest (cl_endpoint (wo_client w))"
    and "sendRpc lib snoc (co_outbound (ep_core (cl_endpoint (wo_client w)))) request [] = Some (op', up)"
    and "expect_call (co_pendingCalls (ep_core (cl_endpoint (wo_client w)))) (rp_requestId request) = (True, t)"
    and "rp_requestId request \<noteq> 0" and "wo_rounds w = \<lparr>rn_arrivals = arrivals, rn_now = now\<rparr> # rounds"
    and "ca_progress options = None" and "rp_op response = RpcOp_RequestResponse"
    and "rp_requestId response = rp_requestId request"
    and "\<And>c. idle (co_inbound c) \<Longrightarrow> core_feed lib c arrivals = handleRpc lib (received_rpc response) c"
  shows "\<exists>w'. sendAndAwait lib request options deadline w = (Done (received_rpc response), w') \<and>
     ep_calls (cl_endpoint (wo_client w')) = ep_calls (cl_endpoint (wo_client w)) @ map (send_to 0) up"
proof -
  let ?c = "wo_client w"
  let ?e = "(cl_endpoint ?c)\<lparr>ep_core := (ep_core (cl_endpoint ?c))\<lparr>co_pendingCalls := t, co_outbound := op'\<rparr>,
    ep_calls := ep_calls (cl_endpoint ?c) @ map (send_to 0) up\<rparr>"
  let ?h = "registerEventHandler (ep_broker ?e) (Some (\<lambda>_ eventPayload. client_emitRaw (cl_eventHandlers ?c) eventPayload))"
  have "ep_attached (cl_endpoint ?c)" "co_outboundBytes (ep_core (cl_endpoint ?c)) = []"
    "co_outboundReplyTarget (ep_core (cl_endpoint ?c)) = 0" using assms(1) by (simp_all add: at_rest_def core_at_rest_def)
  note send = sendRequest_leaves [OF this assms(2,3)]
  have "at_rest (?e\<lparr>ep_broker := ?h\<rparr>)"
    using assms(1) by (simp add: at_rest_def core_at_rest_def broker_at_rest_def registerEventHandler_def)
  note poll = client_receives [OF this assms(7,9), where n = 8 and u = "wo_app w"]
  note take = resolved_taken [OF assms(3,4), of "received_rpc response"]
  let ?w1 = "w\<lparr>wo_client := ?c\<lparr>cl_endpoint := ?e\<rparr>\<rparr>"
  have "\<exists>w'. awaitResponseRound lib request options deadline ?w1 = (Done (Some (received_rpc response)), w') \<and>
      ep_calls (cl_endpoint (wo_client w')) = ep_calls (cl_endpoint ?c) @ map (send_to 0) up"
    using poll take
    by (simp add: awaitResponseRound_def client_poll_def assms(5,6,8) andThen_def attempt_def invokeProgress_def ret_def
        unlessReturned_def endpoint_run_def client_run_def endpoint_tryTakeRpcResponse_def core_tryTakeRpcResponse_def Let_def)
  then obtain w' where round: "awaitResponseRound lib request options deadline ?w1 = (Done (Some (received_rpc response)), w')"
    "ep_calls (cl_endpoint (wo_client w')) = ep_calls (cl_endpoint ?c) @ map (send_to 0) up" by blast
  have "sendAndAwait lib request options deadline w = wait_loop (awaitResponseRound lib request options deadline) ?w1"
    by (simp add: sendAndAwait_def endpoint_run_def client_run_then send)
  with wait_first_round [of "awaitResponseRound lib request options deadline" ?w1, OF round(1)] round(2) show ?thesis
    by simp
qed

text \<open>What the server answers when the method has a TLV handler that returns \<open>reply\<close>.\<close>

definition tlv_response :: "rpc_payload \<Rightarrow> bytes \<Rightarrow> rpc_payload" where
  "tlv_response request reply = applyResponseData (responseFor request)
     (RpcResponseData_default\<lparr>rs_encoding := jsonBinaryRpcEncoding, rs_body := reply, rs_overrideEncoding := True\<rparr>)"

lemma tlv_response_simps [simp]:
  "rp_op (tlv_response q r) = RpcOp_RequestResponse" "rp_requestId (tlv_response q r) = rp_requestId q"
  "rp_body (tlv_response q r) = r" "rp_statusCode (tlv_response q r) = ErrorCode_Success"
  "rp_meta (tlv_response q r) = (rp_meta q)\<lparr>pm_endpoint := responseEndpointMetadata (pm_endpoint (rp_meta q))\<rparr>"
  by (simp_all add: tlv_response_def applyResponseData_def responseFor_def RpcResponseData_default_def Let_def)

lemma dispatch_tlv:
  assumes "bk_router b = registerTlvMethod router (rp_methodOrEventId q) handler" and "ro_validators router = []"
    and "handler (requestContext (bk_router b) q) (rp_body q) v = (Some reply, v')"
  shows "dispatchRpcRequest (bk_router b) q v =
     (Some \<lparr>rd_response = tlv_response q reply, rd_deferredPoll = None\<rparr>, v')"
  using assms
  by (simp add: dispatchRpcRequest_def registerTlvMethod_def registerRawMethod_def requestView_def tlv_response_def Let_def)

text \<open>A call whose request is in order and can go out at once.\<close>

definition ready_call :: "'u axtp_client \<Rightarrow> transport \<Rightarrow> rpc_payload \<Rightarrow> 'u axtp_client \<Rightarrow> rpc_payload \<Rightarrow> bool" where
  "ready_call c t request c' request' \<longleftrightarrow> normalizeRequest c request = (True, request', c') \<and>
     calls_ok (cl_usedRequestIds c) (co_pendingCalls (ep_core (cl_endpoint c))) \<and>
     cl_localHandlers c' (rp_methodOrEventId request') = None \<and> cl_transport c' = Some t \<and>
     (cop_autoIdentify (cl_options c') \<longrightarrow> cl_appReady c') \<and>
     at_rest ((cl_endpoint c')\<lparr>ep_core := configure (ep_core (cl_endpoint c')) (tr_profile t)\<rparr>)"

lemma normalized_op: "normalizeRequest c request = (True, request', c') \<Longrightarrow> rp_op request' = RpcOp_Request"
  by (auto simp: normalizeRequest_def Let_def split: if_splits option.splits prod.splits)

lemma reserved_expected:
  "id_reserved i used t \<Longrightarrow> \<exists>t1. expect_call t i = (True, t1) \<and> i \<noteq> 0"
  by (auto simp: id_reserved_def expect_call_def)

lemma ready_call_replied:
  assumes "ready_call (wo_client w) t request c' request'" and "ca_progress options = None"
    and "sendRpc lib snoc (co_outbound (configure (ep_core (cl_endpoint c')) (tr_profile t))) request' [] = Some (op', up)"
    and "wo_rounds w = \<lparr>rn_arrivals = arrivals, rn_now = now\<rparr> # rounds"
    and "rp_op response = RpcOp_RequestResponse" and "rp_requestId response = rp_requestId request'"
    and "\<And>c. idle (co_inbound c) \<Longrightarrow> core_feed lib c arrivals = handleRpc lib (received_rpc response) c"
  shows "\<exists>w'. callRaw lib request options w = (Done (received_rpc response), w') \<and>
     ep_calls (cl_endpoint (wo_client w')) = ep_calls (cl_endpoint c') @ map (send_to 0) up"
proof -
  let ?w = "w\<lparr>wo_client := c'\<lparr>cl_endpoint := (cl_endpoint c')\<lparr>ep_core := configure (ep_core (cl_endpoint c')) (tr_profile t)\<rparr>\<rparr>\<rparr>"
  let ?d = "wo_now w + milliseconds (max (ca_timeout options) 0)"
  have n: "normalizeRequest (wo_client w) request = (True, request', c')"
    and ready: "cl_localHandlers c' (rp_methodOrEventId request') = None" "cl_transport c' = Some t"
      "cop_autoIdentify (cl_options c') \<longrightarrow> cl_appReady c'" "at_rest (cl_endpoint (wo_client ?w))"
    using assms(1) by (simp_all add: ready_call_def)
  have "id_reserved (rp_requestId request') (cl_usedRequestIds c') (co_pendingCalls (ep_core (cl_endpoint (wo_client ?w))))"
    using normalizeRequest_reserves [OF n, of "co_pendingCalls (ep_core (cl_endpoint (wo_client w)))"] assms(1)
    by (auto simp: ready_call_def)
  from reserved_expected [OF this] obtain t1 where t1:
    "expect_call (co_pendingCalls (ep_core (cl_endpoint (wo_client ?w)))) (rp_requestId request') = (True, t1)"
    "rp_requestId request' \<noteq> 0" by blast
  have "callRaw lib request options w = sendAndAwait lib request' options ?d ?w"
    using ready(1,2) callRemote_ready [of "w\<lparr>wo_client := c'\<rparr>" lib t request' options ?d] ready(3)
    by (simp add: callRaw_def deadlineAfter_def andThen_inspect client_run_then n client_get_def)
  with sendAndAwait_replied [OF ready(4) _ t1, of lib op' up arrivals now rounds options response ?d] assms(2-7)
  show ?thesis by simp
qed

section \<open>Properties\<close>

text \<open>
  C2. A call gets its reply: a synchronous call on a client that is ready sends bytes from which a server at
  rest, whatever the cuts, recovers the request, runs the method's TLV handler once on the request's
  body and sends bytes to the reply target of the connection; and when these reach the client in its next
  round, in any cuts again, the call returns success with exactly the handler's reply, under its own
  request id.
\<close>

theorem call_gets_reply:
  assumes "ready_call (wo_client w) t request c' request'" and "ca_progress options = None"
    and "framed_port (co_outbound (configure (ep_core (cl_endpoint c')) (tr_profile t))) cap" and "0 < cap"
    and "rpc_fits cap request'"
    and "at_rest s" and "framed_port (co_outbound (ep_core s)) cap'" and "0 < cap'"
    and "query = arrived (ep_core s) request'"
    and "bk_router (ep_broker s) = registerTlvMethod router (rp_methodOrEventId query) handler" and "ro_validators router = []"
    and "handler (requestContext (bk_router (ep_broker s)) query) (rp_body request') v = (Some reply, v')"
    and "rpc_fits cap' (tlv_response query reply)"
  shows "\<exists>up. \<forall>chunks. concat chunks = concat up \<longrightarrow>
     (\<exists>s' down. endpoint_poll lib s chunks (Suc n) v = (True, s', v') \<and>
        ep_calls s' = ep_calls s @ map (send_to (pm_replyTarget (rp_meta query))) down \<and>
        (\<forall>arrivals now rounds. concat arrivals = concat down \<longrightarrow>
           (\<exists>response w'. callRaw lib request options (w\<lparr>wo_rounds := \<lparr>rn_arrivals = arrivals, rn_now = now\<rparr> # rounds\<rparr>) =
                (Done response, w') \<and>
              ep_calls (cl_endpoint (wo_client w')) = ep_calls (cl_endpoint c') @ map (send_to 0) up \<and>
              rp_statusCode response = ErrorCode_Success \<and> rp_body response = reply \<and>
              rp_requestId response = rp_requestId request')))"
proof -
  have op: "rp_op request' = RpcOp_Request" using assms(1) normalized_op by (auto simp: ready_call_def)
  from rpc_reaches [OF assms(3-5), of lib] obtain op' up where up:
    "sendRpc lib snoc (co_outbound (configure (ep_core (cl_endpoint c')) (tr_profile t))) request' [] = Some (op', up)"
    "\<And>c chunks. idle (co_inbound c) \<Longrightarrow> concat chunks = concat up \<Longrightarrow>
       core_feed lib c chunks = handleRpc lib (received_rpc request') c" by auto
  have body: "rp_body query = rp_body request'" "rp_requestId query = rp_requestId request'"
    by (simp_all add: assms(9) arrived_def)
  note d = dispatch_tlv [OF assms(10,11), unfolded body, OF assms(12)]
  note server = server_answers [OF assms(6-8) op, folded assms(9), OF d assms(13)]
  show ?thesis
  proof (intro exI [of _ up] allI impI)
    fix chunks assume "concat chunks = concat up"
    then have "\<And>c. idle (co_inbound c) \<Longrightarrow> core_feed lib c chunks = handleRpc lib (received_rpc request') c"
      using up(2) by blast
    from server [OF this, where n = n] obtain s' down where s': "endpoint_poll lib s chunks (Suc n) v = (True, s', v')"
      "ep_calls s' = ep_calls s @ map (send_to (pm_replyTarget (rp_meta query))) down"
      "\<And>c arrivals. idle (co_inbound c) \<Longrightarrow> concat arrivals = concat down \<Longrightarrow>
         core_feed lib c arrivals = handleRpc lib (received_rpc (tlv_response query reply)) c" by auto
    have "\<exists>w'. callRaw lib request options (w\<lparr>wo_rounds := \<lparr>rn_arrivals = arrivals, rn_now = now\<rparr> # rounds\<rparr>) =
        (Done (received_rpc (tlv_response query reply)), w') \<and>
        ep_calls (cl_endpoint (wo_client w')) = ep_calls (cl_endpoint c') @ map (send_to 0) up"
      if "concat arrivals = concat down" for arrivals now rounds
      using ready_call_replied [of "w\<lparr>wo_rounds := \<lparr>rn_arrivals = arrivals, rn_now = now\<rparr> # rounds\<rparr>" t request c' request' options
          lib op' up arrivals now rounds "tlv_response query reply"] assms(1,2) up(1) s'(3) that body(2) by simp
    with s'(1,2) show "\<exists>s' down. endpoint_poll lib s chunks (Suc n) v = (True, s', v') \<and>
        ep_calls s' = ep_calls s @ map (send_to (pm_replyTarget (rp_meta query))) down \<and>
        (\<forall>arrivals now rounds. concat arrivals = concat down \<longrightarrow>
           (\<exists>response w'. callRaw lib request options (w\<lparr>wo_rounds := \<lparr>rn_arrivals = arrivals, rn_now = now\<rparr> # rounds\<rparr>) =
                (Done response, w') \<and>
              ep_calls (cl_endpoint (wo_client w')) = ep_calls (cl_endpoint c') @ map (send_to 0) up \<and>
              rp_statusCode response = ErrorCode_Success \<and> rp_body response = reply \<and>
              rp_requestId response = rp_requestId request'))"
      by (fastforce simp: body(2))
  qed
qed

text \<open>A client that does not identify itself, and a server with one method, which reverses its argument.\<close>

definition plain_client :: "unit axtp_client" where
  "plain_client = client_attachTransport (AxtpClient (ClientOptions_default\<lparr>cop_autoIdentify := False\<rparr>))
     (Some \<lparr>tr_profile = TransportProfile_default, tr_currentReplyTarget = (\<lambda>_. Some 0)\<rparr>)"

definition reverse_server :: "unit axtp_endpoint" where
  "reverse_server = attachTransport (AxtpEndpoint (BasicBroker
       \<lparr>bk_router := registerTlvMethod BusinessRouter 0x101 (\<lambda>context body u. (Some (rev body), u))\<rparr>))
     TransportProfile_default (\<lambda>_. Some 9)"

definition reverse_request :: rpc_payload where
  "reverse_request = RpcPayload_default\<lparr>rp_encoding := jsonBinaryRpcEncoding, rp_methodOrEventId := 0x101, rp_body := [1, 2, 3]\<rparr>"

definition reverse_sent :: rpc_payload where
  "reverse_sent = reverse_request\<lparr>rp_requestId := 1, rp_op := RpcOp_Request,
     rp_meta := PayloadMeta_default\<lparr>pm_requestId := 1\<rparr>\<rparr>"

lemma plain_client_simps:
  "cl_usedRequestIds plain_client = {}" "cl_nextRequestId plain_client = 1" "\<not> cl_appReady plain_client"
  "cl_localHandlers plain_client = Map.empty" "cop_autoIdentify (cl_options plain_client) = False"
  "cl_transport plain_client = Some \<lparr>tr_profile = TransportProfile_default, tr_currentReplyTarget = (\<lambda>_. Some 0)\<rparr>"
  "at_rest (cl_endpoint plain_client)"
  "co_outbound (ep_core (cl_endpoint plain_client)) = co_outbound (configure AxtpCore TransportProfile_default)"
  "co_pendingCalls (ep_core (cl_endpoint plain_client)) = PendingCallTable_empty"
  by (simp_all add: plain_client_def client_attachTransport_def client_close_def reset_session_def AxtpClient_def Let_def
      ClientOptions_default_def at_rest_def core_at_rest_def broker_at_rest_def attachTransport_def AxtpEndpoint_def AxtpCore_def
      endpoint_setIngressTokenProvider_def setIngressTokenProvider_def setIngressReplyTargetProvider_def configure_def
      core_resetResponseTracking_def BasicBroker_def idle_def InboundProcessor_def setInboundWireMode_def
      TransportProfile_default_def reset_calls_def PendingCallTable_empty_def)

definition reverse_client :: "unit axtp_client" where
  "reverse_client = plain_client\<lparr>cl_usedRequestIds := {1}, cl_nextRequestId := 2\<rparr>"

lemma reverse_normalized: "normalizeRequest plain_client reverse_request = (True, reverse_sent, reverse_client)"
proof -
  have "allocateRequestId plain_client = (Some 1, reverse_client)"
    by (simp add: allocateRequestId_def firstCandidate_def plain_client_simps allocateLoop.simps [of "{}"] reverse_client_def)
  moreover have "\<not> cl_appReady reverse_client" by (simp add: reverse_client_def plain_client_simps)
  ultimately show ?thesis
    by (simp add: normalizeRequest_def reverse_request_def reverse_sent_def invalidEndpoint_def hasEndpointMetadata_def
        RpcPayload_default_def PayloadMeta_default_def EndpointMetadata_default_def Let_def
        isJsonBinaryRpcEncoding_def jsonBinaryRpcEncoding_def)
qed

text \<open>The default profile leaves 4082 bytes for each frame's payload.\<close>

lemma default_port: "framed_port (co_outbound (configure c TransportProfile_default)) 4082"
  by (simp add: framed_port_def configure_def TransportProfile_default_def setOutboundWireMode_def setOutboundMaxFrameSize_def
      setMaxFrameSize_def payloadCapacity_def kStandardFrameHeaderSize_def kStandardFrameCrcSize_def)

lemma small_rpc_fits: "binary_rpc p \<Longrightarrow> length (rp_body p) \<le> 1000 \<Longrightarrow> rpc_fits 4082 p"
  by (simp add: rpc_fits_def carries_def isPayloadType_def frames_needed_def rpc_bytes_def)

lemma reverse_ready:
  "ready_call plain_client \<lparr>tr_profile = TransportProfile_default, tr_currentReplyTarget = (\<lambda>_. Some 0)\<rparr>
     reverse_request reverse_client reverse_sent"
  using plain_client_simps(7)
  by (simp add: ready_call_def reverse_normalized plain_client_simps(1-6,9) reverse_client_def calls_ok_def
      table_inv_def PendingCallTable_empty_def at_rest_def core_at_rest_def configure_def idle_def setInboundWireMode_def
      TransportProfile_default_def)

lemma reverse_server_simps:
  "at_rest reverse_server" "framed_port (co_outbound (ep_core reverse_server)) 4082"
  "bk_router (ep_broker reverse_server) = registerTlvMethod BusinessRouter 0x101 (\<lambda>context body u. (Some (rev body), u))"
  "ep_calls reverse_server = []"
  "co_ingressReplyTargetProvider (ep_core reverse_server) = Some (\<lambda>_. Some 9)"
  using default_port [of "core_resetResponseTracking AxtpCore"]
  by (simp_all add: reverse_server_def attachTransport_def Let_def setIngressReplyTargetProvider_def AxtpEndpoint_def
      at_rest_def core_at_rest_def broker_at_rest_def BasicBroker_def)
    (simp add: configure_def AxtpCore_def core_resetResponseTracking_def idle_def InboundProcessor_def setInboundWireMode_def
      TransportProfile_default_def Let_def)

definition reverse_query :: rpc_payload where
  "reverse_query = arrived (ep_core reverse_server) reverse_sent"

lemma reverse_fits: "rpc_fits 4082 reverse_sent" "rpc_fits 4082 (tlv_response reverse_query [3, 2, 1])"
  by (rule small_rpc_fits; simp add: reverse_sent_def reverse_request_def binary_rpc_def arrived_def received_rpc_def
      reverse_query_def tlv_response_def applyResponseData_def responseFor_def RpcResponseData_default_def Let_def
      RpcPayload_default_def PayloadMeta_default_def EndpointMetadata_default_def hasEndpointMetadata_def
      responseEndpointMetadata_def jsonBinaryRpcEncoding_def kRpcEncodingJsonBinaryValue_def)+

theorem call_gets_reply_witness:
  "\<exists>up. \<forall>chunks. concat chunks = concat up \<longrightarrow>
     (\<exists>s' down. endpoint_poll braces_lib reverse_server chunks (Suc 7) () = (True, s', ()) \<and>
        ep_calls s' = map (send_to 9) down \<and>
        (\<forall>arrivals. concat arrivals = concat down \<longrightarrow>
           (\<exists>response w'. callRaw braces_lib reverse_request CallOptions_default
                (silent_world\<lparr>wo_client := plain_client, wo_rounds := [\<lparr>rn_arrivals = arrivals, rn_now = 0\<rparr>]\<rparr>) =
                (Done response, w') \<and> rp_body response = [3, 2, 1])))"
proof -
  let ?w = "silent_world\<lparr>wo_client := plain_client\<rparr>"
  have q: "rp_methodOrEventId reverse_query = 0x101" "pm_replyTarget (rp_meta reverse_query) = 9" "rp_body reverse_sent = [1, 2, 3]"
    by (simp_all add: reverse_query_def arrived_def received_rpc_def reverse_sent_def reverse_request_def provided_def reverse_server_simps(5))
  let ?t = "\<lparr>tr_profile = TransportProfile_default, tr_currentReplyTarget = (\<lambda>_. Some 0)\<rparr>"
  let ?handler = "\<lambda>context body u. (Some (rev body), u)"
  have ready: "ready_call (wo_client ?w) ?t reverse_request reverse_client reverse_sent" by (simp add: reverse_ready)
  have port: "framed_port (co_outbound (configure (ep_core (cl_endpoint reverse_client)) (tr_profile ?t))) 4082"
    by (simp add: default_port)
  have cap: "0 < (4082 :: nat)" "ro_validators BusinessRouter = []" by (simp_all add: BusinessRouter_def)
  have handled: "?handler (requestContext (bk_router (ep_broker reverse_server)) reverse_query) (rp_body reverse_sent) () = (Some [3, 2, 1], ())"
    by (simp add: q(3))
  have hook: "ca_progress (CallOptions_default :: unit call_options) = None" by (simp add: CallOptions_default_def)
  note router = reverse_server_simps(3) [folded q(1)]
  from call_gets_reply [OF ready hook port cap(1) reverse_fits(1) reverse_server_simps(1,2) cap(1) reverse_query_def router cap(2) handled reverse_fits(2),
      of braces_lib 7]
  show ?thesis unfolding reverse_server_simps(4) q(2) append_Nil by fastforce
qed

end
