(* ===== verification/Server_Calls.thy ===== *)
theory Server_Calls
  imports Rpc_Exchange
begin

text \<open>
  What the server (\<^verbatim>\<open>sdk/axtp_server.hpp\<close>) does with the calls that are still unanswered when another
  transport is attached: the endpoint is new then, the broker is not. Shown here: such a call is
  answered over the new transport, to the reply target it had on the old one.
\<close>

lemma broker_poll_completion:
  assumes "broker_at_rest (b\<lparr>bk_pendingCompletions := []\<rparr>)" and "bk_pendingCompletions b = [p]"
    and "pn_poll p u = (Some (Some data), u')"
  shows "broker_poll b n u =
     (True, b\<lparr>bk_pendingCompletions := [], bk_results := [rpcResult (applyResponseData (pn_response p) data)]\<rparr>, u')"
  using assms
  by (cases b) (simp add: broker_at_rest_def broker_poll_def pollTasks_empty pollPendingCompletions_def enqueueRpcResult_def)

lemma progress_completion:
  assumes "ep_attached e" and "core_at_rest (ep_core e)" and "broker_at_rest ((ep_broker e)\<lparr>bk_pendingCompletions := []\<rparr>)"
    and "bk_pendingCompletions (ep_broker e) = [p]" and "pn_poll p u = (Some (Some data), u')"
    and "sendRpc lib snoc (co_outbound (ep_core e)) (applyResponseData (pn_response p) data) [] = Some (op', ws)"
  shows "\<exists>e'. progress lib e n u = (True, e', u') \<and>
     ep_calls e' = ep_calls e @ map (send_to (pm_replyTarget (rp_meta (applyResponseData (pn_response p) data)))) ws"
proof -
  let ?r = "applyResponseData (pn_response p) data"
  have "result_writes lib (co_outbound (ep_core e)) (rpcResult ?r) = Some (op', ws)"
    using assms(6) by (simp add: result_writes_def rpcResult_def result_rpcResponse_def result_rpcError_def result_noop_def)
  moreover have "result_target (rpcResult ?r) = pm_replyTarget (rp_meta ?r)" by (simp add: result_target_def)
  moreover have "(ep_broker e)\<lparr>bk_tasks := []\<rparr> = ep_broker e" "co_events (ep_core e) = []" "(ep_core e)\<lparr>co_events := []\<rparr> = ep_core e"
    using assms(2,3) by (cases "ep_broker e"; cases "ep_core e"; simp add: broker_at_rest_def core_at_rest_def)+
  ultimately show ?thesis
    using assms(1,2) broker_poll_completion [OF assms(3-5), of n]
    by (simp add: progress_def drainCoreEvents_eq drain_one core_at_rest_def handleBrokerResult_eq Let_def flush_packets
        broker_at_rest_def)
qed

section \<open>Properties\<close>

text \<open>
  C38. A call outlives its connection: when a new transport is attached while a deferred call is still
  unanswered, the call's response goes out over the new transport as soon as it is ready - to the reply
  target that the request had on the old transport, and in a form that the new peer takes for an
  answer under that request id.
\<close>

theorem stale_call_answered:
  assumes "broker_at_rest ((ep_broker (sv_endpoint s))\<lparr>bk_pendingCompletions := []\<rparr>)"
    and "bk_pendingCompletions (ep_broker (sv_endpoint s)) = [p]" and "pn_poll p u = (Some (Some data), u')"
    and "tp_wireMode (tr_profile t) = FramedBinary" and "14 < tp_preferredFrameSize (tr_profile t)"
    and "rpc_fits (tp_preferredFrameSize (tr_profile t) - 14) (applyResponseData (pn_response p) data)"
  shows "\<exists>s' ws. server_poll lib (server_attachTransport s (Some t)) [] u = (True, s', u') \<and>
     ep_calls (sv_endpoint s') = map (send_to (pm_replyTarget (rp_meta (pn_response p)))) ws \<and>
     (\<forall>c chunks. idle (co_inbound c) \<longrightarrow> concat chunks = concat ws \<longrightarrow>
        core_feed lib c chunks = handleRpc lib (received_rpc (applyResponseData (pn_response p) data)) c)"
proof -
  let ?r = "applyResponseData (pn_response p) data" and ?e = "sv_endpoint (server_attachTransport s (Some t))"
  have e: "ep_attached ?e" "core_at_rest (ep_core ?e)" "ep_broker ?e = ep_broker (sv_endpoint s)" "ep_calls ?e = []"
    using assms(4)
    by (simp_all add: server_attachTransport_def server_close_def Let_def attachTransport_def AxtpEndpoint_def AxtpCore_def
        setIngressReplyTargetProvider_def core_at_rest_def configure_def core_resetResponseTracking_def idle_def
        InboundProcessor_def setInboundWireMode_def)
  have "framed_port (co_outbound (ep_core ?e)) (tp_preferredFrameSize (tr_profile t) - 14)"
    using assms(4,5)
    by (simp add: server_attachTransport_def server_close_def Let_def attachTransport_def AxtpEndpoint_def AxtpCore_def
        setIngressReplyTargetProvider_def configure_def core_resetResponseTracking_def framed_port_def setOutboundWireMode_def
        setOutboundMaxFrameSize_def setMaxFrameSize_def payloadCapacity_def kStandardFrameHeaderSize_def kStandardFrameCrcSize_def)
  from rpc_reaches [OF this _ assms(6), of lib] assms(5) obtain op' ws where
    ws: "sendRpc lib snoc (co_outbound (ep_core ?e)) ?r [] = Some (op', ws)"
    "\<And>c chunks. idle (co_inbound c) \<Longrightarrow> concat chunks = concat ws \<Longrightarrow> core_feed lib c chunks = handleRpc lib (received_rpc ?r) c"
    by auto
  have "pm_replyTarget (rp_meta ?r) = pm_replyTarget (rp_meta (pn_response p))" by (simp add: applyResponseData_def Let_def)
  with progress_completion [OF e(1,2) _ _ assms(3) ws(1), of 8] assms(1,2) e(3,4) obtain e' where
    "progress lib ?e 8 u = (True, e', u')" "ep_calls e' = map (send_to (pm_replyTarget (rp_meta (pn_response p)))) ws" by auto
  with ws(2) e(1) show ?thesis
    by (intro exI [of _ "(server_attachTransport s (Some t))\<lparr>sv_endpoint := e'\<rparr>"] exI [of _ ws])
      (simp add: server_poll_def endpoint_poll_def)
qed

text \<open>A server whose only deferred call, from the peer with reply target 5, is answered after the next attachment.\<close>

definition stale_server :: "unit axtp_server" where
  "stale_server = server_broker (\<lambda>b. b\<lparr>bk_pendingCompletions :=
     [\<lparr>pn_response = (responseFor endpoint_request)\<lparr>rp_encoding := jsonBinaryRpcEncoding\<rparr>,
       pn_poll = (\<lambda>u. (Some (Some (RpcResponseData_default\<lparr>rs_body := [1, 2]\<rparr>)), u))\<rparr>]\<rparr>) AxtpServer"

theorem stale_call_answered_witness:
  "\<exists>s' ws. server_poll braces_lib (server_attachTransport stale_server
       (Some \<lparr>tr_profile = TransportProfile_default, tr_currentReplyTarget = (\<lambda>_. Some 0)\<rparr>)) [] () = (True, s', ()) \<and>
     ep_calls (sv_endpoint s') = map (send_to 5) ws"
proof -
  let ?p = "\<lparr>pn_response = (responseFor endpoint_request)\<lparr>rp_encoding := jsonBinaryRpcEncoding\<rparr>,
    pn_poll = (\<lambda>u. (Some (Some (RpcResponseData_default\<lparr>rs_body := [1, 2]\<rparr>)), u))\<rparr> :: unit pending_completion"
  have fits: "rpc_fits 4082 (applyResponseData (pn_response ?p) (RpcResponseData_default\<lparr>rs_body := [1, 2]\<rparr>))"
    by (rule small_rpc_fits) (simp_all add: applyResponseData_def responseFor_def RpcResponseData_default_def Let_def
        endpoint_request_def RpcPayload_default_def PayloadMeta_default_def EndpointMetadata_default_def binary_rpc_def
        hasEndpointMetadata_def responseEndpointMetadata_def jsonBinaryRpcEncoding_def kRpcEncodingJsonBinaryValue_def)
  show ?thesis
    using stale_call_answered [of stale_server ?p "()" _ "()" "\<lparr>tr_profile = TransportProfile_default,
        tr_currentReplyTarget = (\<lambda>_. Some 0)\<rparr>" braces_lib] fits
    by (fastforce simp: stale_server_def server_broker_def AxtpServer_def AxtpEndpoint_def BasicBroker_def broker_at_rest_def
        TransportProfile_default_def responseFor_def endpoint_request_def)
qed

end
