(* ===== verification/Link.thy ===== *)
theory Link
  imports Rpc_Exchange "HOL-Library.Sublist"
begin

text \<open>
  One direction of a connection, at any moment: what a receiver has decoded so far is a prefix of what
  the sender has handed to its wire, whatever part of the bytes has arrived and however it was cut.
  The sender's side is \<open>wrote\<close> (the payloads sent, their packets, and the outbound processor they leave),
  the receiver's side is \<open>inbound_after\<close> (the inbound processor after some bytes) and \<open>received\<close> (the
  payloads in these bytes).
\<close>

section \<open>Decoders in two stages\<close>

text \<open>
  A decoder of a byte stream whose items feed a second stage with a state of its own: frames out of
  bytes, and payloads out of frames.
\<close>

definition staged ::
    "('b list \<Rightarrow> 'f list \<times> 'b list) \<Rightarrow> ('f \<Rightarrow> 'r \<times> 'm list \<Rightarrow> 'r \<times> 'm list) \<Rightarrow> 'r \<Rightarrow> 'b list \<Rightarrow> 'r \<times> 'm list" where
  "staged run stage start bs = fold stage (fst (run bs)) (start, [])"

locale staged_decoder = incremental_decoder run for run :: "'b list \<Rightarrow> 'f list \<times> 'b list" +
  fixes stage :: "'f \<Rightarrow> 'r \<times> 'm list \<Rightarrow> 'r \<times> 'm list"
    and start :: 'r
  assumes stage_out: "stage f (r, out) = (fst (stage f (r, [])), out @ snd (stage f (r, [])))"
begin

lemma stages_out: "fold stage fs (r, out) = (fst (fold stage fs (r, [])), out @ snd (fold stage fs (r, [])))"
proof (induction fs arbitrary: r out)
  case (Cons f fs)
  show ?case
    by (simp add: stage_out [of f r out] Cons.IH [of _ "out @ _"] Cons.IH [of _ "snd (stage f (r, []))"] prod_eq_iff)
      (metis Cons.IH append_assoc fst_conv snd_conv surjective_pairing)
qed simp

lemma staged_Nil: "staged run stage start [] = (start, [])"
  by (simp add: staged_def run_Nil)

lemma staged_append:
  "staged run stage start (xs @ ys) = fold stage (fst (run (snd (run xs) @ ys))) (staged run stage start xs)"
  by (simp add: staged_def run_append [of xs ys])

lemma staged_more:
  "staged run stage start (xs @ ys) =
     (fst (fold stage (fst (run (snd (run xs) @ ys))) (fst (staged run stage start xs), [])),
      snd (staged run stage start xs) @ snd (fold stage (fst (run (snd (run xs) @ ys))) (fst (staged run stage start xs), [])))"
  unfolding staged_append
  using stages_out [of _ "fst (staged run stage start xs)" "snd (staged run stage start xs)"] by simp

lemma staged_prefix: "prefix xs ys \<Longrightarrow> prefix (snd (staged run stage start xs)) (snd (staged run stage start ys))"
  by (auto simp: prefix_def staged_more)

end

section \<open>The receiver\<close>

text \<open>An inbound processor with any sink is the collecting one followed by the sink.\<close>

lemma frames_collect:
  "fold (inbound_frame lib sink) fs (r, s) =
     (fst (fold (inbound_frame lib collect_payload) fs (r, [])),
      fold sink (snd (fold (inbound_frame lib collect_payload) fs (r, []))) s)"
proof -
  have one: "MessageReassembler_onFrame (PayloadDecoder_onMessage lib sink) r f (fold sink ps s) =
     (fst (MessageReassembler_onFrame (PayloadDecoder_onMessage lib collect_payload) r f ps),
      fold sink (snd (MessageReassembler_onFrame (PayloadDecoder_onMessage lib collect_payload) r f ps)) s)" for r f ps
    by (simp add: onFrame_refines_step Let_def split_beta PayloadDecoder_onMessage_def collect_payload_def split: option.split)
  have "fold (inbound_frame lib sink) fs (r, fold sink ps s) =
     (fst (fold (inbound_frame lib collect_payload) fs (r, ps)),
      fold sink (snd (fold (inbound_frame lib collect_payload) fs (r, ps))) s)" for ps
    by (induction fs arbitrary: r ps) (simp_all add: one split_beta)
  from this [of "[]"] show ?thesis by simp
qed

definition frame_stage :: "json_lib \<Rightarrow> frame \<Rightarrow> message_reassembler \<times> payload list \<Rightarrow> message_reassembler \<times> payload list" where
  "frame_stage lib = inbound_frame lib collect_payload"

definition fresh_reassembler :: message_reassembler where
  "fresh_reassembler = MessageReassembler (1024 * 1024)"

lemma frames_sink:
  "fold (inbound_frame lib sink) fs (r, s) =
     (fst (fold (frame_stage lib) fs (r, [])), fold sink (snd (fold (frame_stage lib) fs (r, []))) s)"
  unfolding frame_stage_def by (rule frames_collect)

interpretation payload_stream: staged_decoder decode_stream "frame_stage lib" fresh_reassembler for lib
proof unfold_locales
  fix f r and out :: "payload list"
  show "frame_stage lib f (r, out) = (fst (frame_stage lib f (r, [])), out @ snd (frame_stage lib f (r, [])))"
    using frames_sink [of lib collect_payload "[f]" r out] by (simp add: frame_stage_def fold_collect_payload)
qed

abbreviation (input) inbound_stages :: "json_lib \<Rightarrow> bytes \<Rightarrow> message_reassembler \<times> payload list" where
  "inbound_stages lib \<equiv> staged decode_stream (frame_stage lib) fresh_reassembler"

definition received :: "json_lib \<Rightarrow> bytes \<Rightarrow> payload list" where
  "received lib bs = snd (inbound_stages lib bs)"

definition inbound_after :: "json_lib \<Rightarrow> bytes \<Rightarrow> inbound_processor \<Rightarrow> bool" where
  "inbound_after lib bs ip \<longleftrightarrow> ip_wireMode ip = FramedBinary \<and> bb_bytes (ip_frameDecoder ip) = snd (decode_stream bs) \<and>
     ip_reassembler ip = fst (inbound_stages lib bs)"

lemma received_Nil [simp]: "received lib [] = []"
  by (simp add: received_def payload_stream.staged_Nil)

lemma inbound_after_Nil: "idle ip \<Longrightarrow> inbound_after lib [] ip"
  by (simp add: inbound_after_def idle_def payload_stream.staged_Nil ByteBuffer_empty_def) (simp add: fresh_reassembler_def)

lemma received_prefix: "prefix xs ys \<Longrightarrow> prefix (received lib xs) (received lib ys)"
  unfolding received_def by (rule payload_stream.staged_prefix)

lemma handlePayloads_inbound:
  "fold (handlePayload lib) ps (c\<lparr>co_inbound := ip\<rparr>) = (fold (handlePayload lib) ps c)\<lparr>co_inbound := ip\<rparr>"
  by (induction ps arbitrary: c) (simp_all add: handlePayload_inbound)

lemma handleBytes_received:
  assumes "inbound_after lib bs (co_inbound c)"
  shows "\<exists>ps ip. received lib (bs @ data) = received lib bs @ ps \<and> inbound_after lib (bs @ data) ip \<and>
     handleBytes lib c data = (fold (handlePayload lib) ps c)\<lparr>co_inbound := ip\<rparr>"
proof -
  let ?fs = "fst (decode_stream (snd (decode_stream bs) @ data))"
  let ?run = "fold (frame_stage lib) ?fs (fst (inbound_stages lib bs), [])"
  have on: "InboundProcessor_onBytes lib (handlePayload lib) (co_inbound c) data c =
      ((co_inbound c)\<lparr>ip_frameDecoder := \<lparr>bb_bytes = snd (decode_stream (snd (decode_stream bs) @ data))\<rparr>,
         ip_reassembler := fst ?run\<rparr>, fold (handlePayload lib) (snd ?run) c)"
    using assms frames_sink [of lib "handlePayload lib" ?fs "fst (inbound_stages lib bs)" c]
    by (simp add: inbound_after_def onBytes_framed split_beta)
  have "snd (decode_stream (bs @ data)) = snd (decode_stream (snd (decode_stream bs) @ data))"
    by (simp add: decode_stream_append [of bs data])
  with assms on show ?thesis
    by (intro exI [of _ "snd ?run"] exI [of _ "fst (InboundProcessor_onBytes lib (handlePayload lib) (co_inbound c) data c)"])
      (simp add: received_def inbound_after_def payload_stream.staged_more [of lib bs data] handleBytes_def)
qed

lemma core_feed_received:
  assumes "inbound_after lib bs (co_inbound c)"
  shows "\<exists>ps ip. received lib (bs @ concat chunks) = received lib bs @ ps \<and> inbound_after lib (bs @ concat chunks) ip \<and>
     core_feed lib c chunks = (fold (handlePayload lib) ps c)\<lparr>co_inbound := ip\<rparr>"
  using assms
proof (induction chunks arbitrary: bs c)
  case Nil
  then show ?case by (intro exI [of _ "[]"] exI [of _ "co_inbound c"]) (simp add: core_feed_def)
next
  case (Cons x xs)
  from handleBytes_received [OF Cons.prems, of x] obtain ps1 ip1 where
    1: "received lib (bs @ x) = received lib bs @ ps1" "inbound_after lib (bs @ x) ip1"
      "handleBytes lib c x = (fold (handlePayload lib) ps1 c)\<lparr>co_inbound := ip1\<rparr>" by blast
  from 1(2,3) have "inbound_after lib (bs @ x) (co_inbound (handleBytes lib c x))" by simp
  from Cons.IH [OF this] obtain ps2 ip2 where
    2: "received lib ((bs @ x) @ concat xs) = received lib (bs @ x) @ ps2" "inbound_after lib ((bs @ x) @ concat xs) ip2"
      "core_feed lib (handleBytes lib c x) xs = (fold (handlePayload lib) ps2 (handleBytes lib c x))\<lparr>co_inbound := ip2\<rparr>" by blast
  have "core_feed lib c (x # xs) = (fold (handlePayload lib) (ps1 @ ps2) c)\<lparr>co_inbound := ip2\<rparr>"
    using 2(3) by (simp add: core_feed_def 1(3) handlePayloads_inbound)
  with 1(1) 2(1,2) show ?case by (intro exI [of _ "ps1 @ ps2"] exI [of _ ip2]) simp
qed

section \<open>The sender\<close>

definition fits_link :: "nat \<Rightarrow> payload \<Rightarrow> bool" where
  "fits_link cap p \<longleftrightarrow> binary_payload p \<and> carries cap (1024 * 1024) (payload_message p)"

lemma fits_link_rpc: "rpc_fits cap p \<Longrightarrow> fits_link cap (PRpc p)"
  by (simp add: rpc_fits_def fits_link_def)

lemma sendPayloads_append:
  "sendPayloads lib op (ps @ qs) out =
     (case sendPayloads lib op ps out of None \<Rightarrow> None | Some (op', out') \<Rightarrow> sendPayloads lib op' qs out')"
  by (induction ps arbitrary: op out) (simp_all split: option.split)

text \<open>One payload that fits, and a list of them.\<close>

lemma fits_sent:
  assumes "framed_port op cap" and "0 < cap" and "fits_link cap p"
  shows "\<exists>op' w. (\<forall>out. sendPayload lib snoc op p out = Some (op', out @ w)) \<and> framed_port op' cap"
proof -
  from assms have "0 < payloadCapacity (op_fragmenter op)" "carries (payloadCapacity (op_fragmenter op)) (1024 * 1024) (payload_message p)"
    by (simp_all add: framed_port_def fits_link_def)
  from sendMessage_received [OF this, of lib collect_payload] assms(1) obtain op' w where
    "\<And>out. sendMessage snoc op (payload_message p) out = (op', out @ w)" "framed_port op' cap"
    by (auto simp: framed_port_def)
  with assms(1,3) show ?thesis
    by (intro exI [of _ op'] exI [of _ w]) (simp add: framed_port_def fits_link_def sendPayload_binary)
qed

lemma fit_payloads_sent:
  assumes "framed_port op cap" and "0 < cap" and "\<forall>p\<in>set ps. fits_link cap p"
  shows "\<exists>op' w. (\<forall>out. sendPayloads lib op ps out = Some (op', out @ w)) \<and> framed_port op' cap"
  using assms
proof (induction ps arbitrary: op)
  case (Cons p ps)
  from fits_sent [of op cap p lib] Cons.prems obtain op1 w1 where
    1: "\<And>out. sendPayload lib snoc op p out = Some (op1, out @ w1)" "framed_port op1 cap" by auto
  from Cons.IH [OF 1(2)] Cons.prems obtain op' w where
    "\<And>out. sendPayloads lib op1 ps out = Some (op', out @ w)" "framed_port op' cap" by auto
  with 1 show ?case by (intro exI [of _ op'] exI [of _ "w1 @ w"]) simp
qed auto

definition wrote :: "json_lib \<Rightarrow> nat \<Rightarrow> payload list \<Rightarrow> bytes list \<Rightarrow> outbound_processor \<Rightarrow> bool" where
  "wrote lib cap ps ws op \<longleftrightarrow>
     (\<exists>op0. framed_port op0 cap \<and> (\<forall>p\<in>set ps. fits_link cap p) \<and> sendPayloads lib op0 ps [] = Some (op, ws))"

lemma wrote_Nil: "framed_port op cap \<Longrightarrow> wrote lib cap [] [] op"
  by (auto simp: wrote_def)

lemma wrote_port:
  assumes "wrote lib cap ps ws op" and "0 < cap"
  shows "framed_port op cap"
proof -
  obtain op0 where op0: "framed_port op0 cap" "\<forall>p\<in>set ps. fits_link cap p" "sendPayloads lib op0 ps [] = Some (op, ws)"
    using assms(1) by (auto simp: wrote_def)
  from fit_payloads_sent [OF op0(1) assms(2) op0(2), of lib] op0(3) show ?thesis by auto
qed

lemma wrote_append:
  "wrote lib cap ps ws op \<Longrightarrow> \<forall>p\<in>set qs. fits_link cap p \<Longrightarrow> \<forall>out. sendPayloads lib op qs out = Some (op', out @ vs) \<Longrightarrow>
     wrote lib cap (ps @ qs) (ws @ vs) op'"
  by (auto simp: wrote_def sendPayloads_append)

text \<open>More payloads that fit can always be sent, and go to the wire behind the others.\<close>

lemma wrote_more:
  assumes "wrote lib cap ps ws op" and "0 < cap" and "\<forall>p\<in>set qs. fits_link cap p"
  shows "\<exists>op' vs. (\<forall>out. sendPayloads lib op qs out = Some (op', out @ vs)) \<and> wrote lib cap (ps @ qs) (ws @ vs) op'"
proof -
  from fit_payloads_sent [OF wrote_port [OF assms(1,2)] assms(2,3), of lib] obtain op' vs where
    "\<forall>out. sendPayloads lib op qs out = Some (op', out @ vs)" by auto
  with wrote_append [OF assms(1,3)] show ?thesis by blast
qed

section \<open>The link\<close>

lemma wrote_received:
  assumes "wrote lib cap ps ws op" and "0 < cap"
  shows "received lib (concat ws) = map received_payload ps"
proof -
  obtain op0 where op0: "framed_port op0 cap" "\<forall>p\<in>set ps. fits_link cap p" "sendPayloads lib op0 ps [] = Some (op, ws)"
    using assms(1) by (auto simp: wrote_def)
  from sendPayloads_received [of op0 ps "1024 * 1024" lib collect_payload] op0 assms(2)
  have "fold (inbound_frame lib collect_payload) (fst (decode_stream (concat ws))) (MessageReassembler (1024 * 1024), []) =
      (MessageReassembler (1024 * 1024), fold collect_payload (map received_payload ps) [])"
    by (auto simp: framed_port_def fits_link_def)
  then show ?thesis by (simp add: received_def staged_def fold_collect_payload frame_stage_def fresh_reassembler_def)
qed

lemma read_prefix:
  assumes "wrote lib cap ps ws op" and "0 < cap" and "prefix bs (concat ws)"
  shows "prefix (received lib bs) (map received_payload ps)"
  using received_prefix [OF assms(3), of lib] by (simp add: wrote_received [OF assms(1,2)])

end
