(* ===== verification/Broker_Answers.thy ===== *)
theory Broker_Answers
  imports Rpc_Exchange
begin

text \<open>
  Where the broker's responses come from: everything it queues as a result was computed by its router
  from a request it was given, at once or by the deferred poll of that request's own handler, whatever
  else the broker does in between.
\<close>

section \<open>The answers to a request\<close>

text \<open>
  Everything the router's code may answer \<open>q\<close> with, in some state of the application: its handler's
  response or refusal, what its deferred poll returns, or the status of a deferred poll that throws.
\<close>

inductive answer_of :: "'u business_router \<Rightarrow> rpc_payload \<Rightarrow> rpc_payload \<Rightarrow> bool" for router q where
  Now: "dispatchRpcRequest router q u = (Some d, u') \<Longrightarrow> rd_deferredPoll d = None \<Longrightarrow> answer_of router q (rd_response d)"
| Later: "dispatchRpcRequest router q u = (Some d, u') \<Longrightarrow> rd_deferredPoll d = Some poll \<Longrightarrow>
     poll v = (Some (Some data), v') \<Longrightarrow> answer_of router q (applyResponseData (rd_response d) data)"
| Failed: "dispatchRpcRequest router q u = (Some d, u') \<Longrightarrow> rd_deferredPoll d = Some poll \<Longrightarrow>
     poll v = (None, v') \<Longrightarrow> answer_of router q ((rd_response d)\<lparr>rp_statusCode := ErrorCode_InternalError\<rparr>)"

lemma answer_of_key: "answer_of router q r \<Longrightarrow> call_key r = call_key q \<and> rp_op r = RpcOp_RequestResponse"
  by (induction rule: answer_of.induct) (simp_all add: dispatch_response)

lemma answer_of_id: "answer_of router q r \<Longrightarrow> rp_requestId r = rp_requestId q"
  using answer_of_key [of router q r] by (simp add: call_key_def)

section \<open>The broker's queues\<close>

definition deferred_for :: "'u business_router \<Rightarrow> rpc_payload \<Rightarrow> 'u pending_completion \<Rightarrow> bool" where
  "deferred_for router q pn \<longleftrightarrow> (\<exists>u d u'. dispatchRpcRequest router q u = (Some d, u') \<and>
     rd_deferredPoll d = Some (pn_poll pn) \<and> pn_response pn = rd_response d)"

definition result_for :: "'u business_router \<Rightarrow> rpc_payload \<Rightarrow> broker_result \<Rightarrow> bool" where
  "result_for router q r \<longleftrightarrow> is_response r \<and> answer_of router q (br_rpc r)"

text \<open>Every task, completion and result belongs to a request in \<open>Q\<close>.\<close>

definition broker_origin :: "rpc_payload set \<Rightarrow> 'u basic_broker \<Rightarrow> bool" where
  "broker_origin Q b \<longleftrightarrow>
     (\<forall>t\<in>set (bk_tasks b). bt_type t = BT_RpcRequest \<longrightarrow> bt_rpc t \<in> Q) \<and>
     (\<forall>pn\<in>set (bk_pendingCompletions b). \<exists>q\<in>Q. deferred_for (bk_router b) q pn) \<and>
     (\<forall>r\<in>set (bk_results b). \<exists>q\<in>Q. result_for (bk_router b) q r)"

lemma broker_origin_mono: "broker_origin Q b \<Longrightarrow> Q \<subseteq> Q' \<Longrightarrow> broker_origin Q' b"
  unfolding broker_origin_def by blast

lemma broker_origin_empty: "broker_at_rest b \<Longrightarrow> broker_origin Q b"
  by (simp add: broker_origin_def broker_at_rest_def)

lemma result_for_rpcResult [simp]: "result_for router q (rpcResult p) \<longleftrightarrow> answer_of router q p"
  by (simp add: result_for_def)

lemma broker_origin_enqueue:
  "broker_origin Q b \<Longrightarrow> q \<in> Q \<Longrightarrow> answer_of (bk_router b) q p \<Longrightarrow> broker_origin Q (enqueueRpcResult b p)"
  by (auto simp: broker_origin_def)

lemma pollCompletions_origin:
  "pollCompletions ps u = (kept, responses, u') \<Longrightarrow> \<forall>pn\<in>set ps. \<exists>q\<in>Q. deferred_for router q pn \<Longrightarrow>
     (\<forall>pn\<in>set kept. \<exists>q\<in>Q. deferred_for router q pn) \<and> (\<forall>p\<in>set responses. \<exists>q\<in>Q. answer_of router q p)"
proof (induction ps arbitrary: u u' kept responses)
  case (Cons p ps)
  obtain data u1 where poll: "pn_poll p u = (data, u1)" by fastforce
  obtain kept1 responses1 u2 where rest: "pollCompletions ps u1 = (kept1, responses1, u2)" by (metis prod.exhaust)
  note IH = Cons.IH [OF rest]
  from Cons.prems(2) obtain q where q: "q \<in> Q" "deferred_for router q p" by auto
  then obtain v d v' where d: "dispatchRpcRequest router q v = (Some d, v')" "rd_deferredPoll d = Some (pn_poll p)"
    "pn_response p = rd_response d" by (auto simp: deferred_for_def)
  show ?case
  proof (cases data)
    case None
    with poll answer_of.Failed [OF d(1,2), of u u1] q(1) d(3) IH Cons.prems rest show ?thesis by auto
  next
    case (Some x)
    with poll answer_of.Later [OF d(1,2), of u _ u1] q d(3) IH Cons.prems rest show ?thesis by (cases x) auto
  qed
qed simp

lemma pollPendingCompletions_origin:
  assumes "broker_origin Q b" and "pollPendingCompletions b u = (b', u')"
  shows "broker_origin Q b'"
proof -
  obtain kept responses where run: "pollCompletions (bk_pendingCompletions b) u = (kept, responses, u')"
    and b': "b' = foldl enqueueRpcResult (b\<lparr>bk_pendingCompletions := kept\<rparr>) responses"
    using assms(2) by (auto simp: pollPendingCompletions_def split: prod.splits)
  from pollCompletions_origin [OF run, of Q "bk_router b"] assms(1) show ?thesis
    by (auto simp: b' broker_origin_def enqueue_all)
qed

lemma runTask_origin:
  assumes "broker_origin Q b" and "runTask t b u = (ok, b', u')" and "bt_type t = BT_RpcRequest \<longrightarrow> bt_rpc t \<in> Q"
  shows "broker_origin Q b'"
proof (cases "bt_type t = BT_RpcRequest")
  case False
  with assms have "b' = b"
    by (auto simp: runTask_def MiddlewareChain_before_def BrokerFlowControl_allow_def split_beta Let_def
        split: if_splits option.splits)
  with assms(1) show ?thesis by simp
next
  case True
  obtain d u1 where d: "dispatchRpcRequest (bk_router b) (bt_rpc t) u = (d, u1)" by fastforce
  show ?thesis
  proof (cases d)
    case None
    with True assms(1,2) d show ?thesis by (auto simp: runTask_def MiddlewareChain_before_def BrokerFlowControl_allow_def)
  next
    case (Some dd)
    note dispatched = d [unfolded Some]
    show ?thesis
    proof (cases "rd_deferredPoll dd")
      case None
      with True assms dispatched have "b' = enqueueRpcResult b (rd_response dd)"
        by (auto simp: runTask_def MiddlewareChain_before_def BrokerFlowControl_allow_def)
      with broker_origin_enqueue [OF assms(1)] answer_of.Now [OF dispatched None] True assms(3) show ?thesis by blast
    next
      case (Some poll)
      with True assms dispatched have "b' = b\<lparr>bk_pendingCompletions := bk_pendingCompletions b @
          [\<lparr>pn_response = rd_response dd, pn_poll = poll\<rparr>]\<rparr>"
        by (auto simp: runTask_def MiddlewareChain_before_def BrokerFlowControl_allow_def)
      moreover have "deferred_for (bk_router b) (bt_rpc t) \<lparr>pn_response = rd_response dd, pn_poll = poll\<rparr>"
        using dispatched Some by (auto simp: deferred_for_def)
      ultimately show ?thesis using assms(1,3) True by (auto simp: broker_origin_def)
    qed
  qed
qed

lemma pollTasks_origin: "pollTasks n b u = (ok, b', u') \<Longrightarrow> broker_origin Q b \<Longrightarrow> broker_origin Q b'"
proof (induction n arbitrary: b u)
  case (Suc n)
  show ?case
  proof (cases "bk_tasks b")
    case Nil
    with Suc.prems show ?thesis by auto
  next
    case (Cons t ts)
    obtain ok1 b1 u1 where run: "runTask t (b\<lparr>bk_tasks := ts\<rparr>) u = (ok1, b1, u1)" by (cases "runTask t (b\<lparr>bk_tasks := ts\<rparr>) u")
    have "broker_origin Q (b\<lparr>bk_tasks := ts\<rparr>)" "bt_type t = BT_RpcRequest \<longrightarrow> bt_rpc t \<in> Q"
      using Suc.prems(2) Cons by (auto simp: broker_origin_def)
    from runTask_origin [OF this(1) run this(2)] Suc.IH [of b1 u1] Suc.prems(1) Cons run show ?thesis
      by (auto split: if_splits)
  qed
qed auto

lemma broker_poll_origin: "broker_poll b n u = (ok, b', u') \<Longrightarrow> broker_origin Q b \<Longrightarrow> broker_origin Q b'"
  using pollTasks_origin pollPendingCompletions_origin by (fastforce simp: broker_poll_def split: prod.splits)

text \<open>Received requests become tasks.\<close>

lemma broker_origin_events:
  "broker_origin Q b \<Longrightarrow> set (event_requests evs) \<subseteq> Q \<Longrightarrow>
     broker_origin Q (b\<lparr>bk_tasks := bk_tasks b @ map fromCoreEvent evs\<rparr>)"
  by (auto simp: broker_origin_def event_requests_def fromCoreEvent_request)

end
