(* ===== verification/Peer.thy ===== *)
theory Peer
  imports Link Broker_Answers "HOL-Library.Multiset"
begin

text \<open>
  One of two endpoints joined by a framed connection, and its steps: it sends requests, streams and
  heartbeats, polls whatever part of the other's bytes has arrived, runs its handlers, synchronous and
  deferred, and takes or abandons responses, in any order and any number of times. Handlers may throw.

  Shown here: the invariant of a peer, kept by every step - what it has written is what it sent, what it
  has taken from the wire is what the bytes hold, its table of calls agrees with the requests it sent
  and the responses it received, and its broker with the requests it received and the responses it sent.
\<close>

section \<open>Peers\<close>

text \<open>
  The histories \<open>pe_before\<close> (the number of transport calls made before the two are looked at),
  \<open>pe_read\<close> (the bytes polled since), \<open>pe_sent\<close> (the payloads handed to the wire), \<open>pe_taken\<close> (the
  responses taken) and \<open>pe_throws\<close> (the polls a handler's exception has left) record what has happened;
  no step of the endpoint depends on them.
\<close>

record 'u peer =
  pe_endpoint :: "'u axtp_endpoint"
  pe_app :: 'u
  pe_before :: nat
  pe_read :: bytes
  pe_sent :: "payload list"
  pe_taken :: "(u32 \<times> rpc_payload) list"
  pe_throws :: nat

fun call_data :: "transport_call \<Rightarrow> bytes" where
  "call_data (SendBytes b) = b"
| "call_data (SendBytesTo target b) = b"

definition written :: "'u peer \<Rightarrow> bytes" where
  "written p = concat (map call_data (drop (pe_before p) (ep_calls (pe_endpoint p))))"

text \<open>The results that the broker holds when its part of a poll is over.\<close>

definition polled_results :: "json_lib \<Rightarrow> 'u axtp_endpoint \<Rightarrow> bytes list \<Rightarrow> nat \<Rightarrow> 'u \<Rightarrow> broker_result list" where
  "polled_results lib e arrivals n u =
     (let e = (if ep_attached e then foldl (onTransportBytes lib) e arrivals else e)
      in bk_results (fst (snd (broker_poll (ep_broker (drainCoreEvents e)) n u))))"

definition queued_payloads :: "broker_result list \<Rightarrow> payload list" where
  "queued_payloads rs = map (\<lambda>r. PRpc (br_rpc r)) rs"

text \<open>The core's own answers to received payloads.\<close>

fun heartbeat_acks :: "payload \<Rightarrow> payload list" where
  "heartbeat_acks (PControl p) =
     (if cp_opcode p = ControlOpcode_Heartbeat then [PControl (makeControlResponse ControlOpcode_HeartbeatAck p)] else [])"
| "heartbeat_acks _ = []"

definition core_replies :: "payload list \<Rightarrow> payload list" where
  "core_replies ps = concat (map heartbeat_acks ps)"

definition newly_received :: "json_lib \<Rightarrow> bytes \<Rightarrow> bytes \<Rightarrow> payload list" where
  "newly_received lib old new = drop (length (received lib old)) (received lib (old @ new))"

text \<open>
  The steps of a peer; \<open>input\<close> is what the other has written so far. Requests, streams and responses
  must fit a message; that is the only condition on what the application and its handlers do.
\<close>

inductive peer_step :: "json_lib \<Rightarrow> nat \<Rightarrow> bytes \<Rightarrow> 'u peer \<Rightarrow> 'u peer \<Rightarrow> bool" for lib cap input p where
  Request: "rp_op q = RpcOp_Request \<Longrightarrow> rpc_fits cap q \<Longrightarrow> endpoint_sendRpcRequest lib (pe_endpoint p) q = (Some ok, e) \<Longrightarrow>
     peer_step lib cap input p (p\<lparr>pe_endpoint := e, pe_sent := pe_sent p @ (if ok then [PRpc q] else [])\<rparr>)"
| Stream: "fits_link cap (PStream x) \<Longrightarrow>
     peer_step lib cap input p
       (p\<lparr>pe_endpoint := endpoint_sendStream lib (pe_endpoint p) x, pe_sent := pe_sent p @ [PStream x]\<rparr>)"
| Heartbeat: "peer_step lib cap input p
     (p\<lparr>pe_endpoint := endpoint_sendControlHeartbeat (pe_endpoint p) i,
        pe_sent := pe_sent p @ [PControl (makeHeartbeat (co_controlSession (ep_core (pe_endpoint p))) i)]\<rparr>)"
| Poll: "prefix (pe_read p @ concat chunks) input \<Longrightarrow>
     results = polled_results lib (pe_endpoint p) chunks n (pe_app p) \<Longrightarrow> \<forall>r\<in>set results. rpc_fits cap (br_rpc r) \<Longrightarrow>
     endpoint_poll lib (pe_endpoint p) chunks n (pe_app p) = (ok, e, u) \<Longrightarrow>
     peer_step lib cap input p (p\<lparr>pe_endpoint := e, pe_app := u, pe_read := pe_read p @ concat chunks,
       pe_sent := pe_sent p @ core_replies (newly_received lib (pe_read p) (concat chunks)) @
         (if ok then queued_payloads results else []),
       pe_throws := pe_throws p + (if ok then 0 else 1)\<rparr>)"
| Take: "endpoint_tryTakeRpcResponse (pe_endpoint p) i = (r, e) \<Longrightarrow>
     peer_step lib cap input p (p\<lparr>pe_endpoint := e,
       pe_taken := pe_taken p @ (case r of None \<Rightarrow> [] | Some x \<Rightarrow> [(i, x)])\<rparr>)"
| Notice: "endpoint_tryTakeControlNoticeFor (pe_endpoint p) opcode i = (r, e) \<Longrightarrow>
     peer_step lib cap input p (p\<lparr>pe_endpoint := e\<rparr>)"
| Abandon: "peer_step lib cap input p (p\<lparr>pe_endpoint := endpoint_abandonRpcResponse (pe_endpoint p) i\<rparr>)"

text \<open>A peer at the start: nothing is under way, as after the handshake.\<close>

definition fresh_peer :: "nat \<Rightarrow> 'u peer \<Rightarrow> bool" where
  "fresh_peer cap p \<longleftrightarrow> at_rest (pe_endpoint p) \<and> framed_port (co_outbound (ep_core (pe_endpoint p))) cap \<and>
     co_pendingCalls (ep_core (pe_endpoint p)) = PendingCallTable_empty \<and> pe_before p = length (ep_calls (pe_endpoint p)) \<and>
     pe_read p = [] \<and> pe_sent p = [] \<and> pe_taken p = [] \<and> pe_throws p = 0"

section \<open>RPC payloads of a list\<close>

fun rpcs_of :: "rpc_op \<Rightarrow> payload \<Rightarrow> rpc_payload list" where
  "rpcs_of op (PRpc p) = (if rp_op p = op then [p] else [])"
| "rpcs_of op _ = []"

definition rpcs :: "rpc_op \<Rightarrow> payload list \<Rightarrow> rpc_payload list" where
  "rpcs op ps = concat (map (rpcs_of op) ps)"

lemma rpcs_simps [simp]:
  "rpcs op [] = []" "rpcs op (p # ps) = rpcs_of op p @ rpcs op ps" "rpcs op (ps @ qs) = rpcs op ps @ rpcs op qs"
  by (simp_all add: rpcs_def)

lemma in_rpcs [simp]: "p \<in> set (rpcs op ps) \<longleftrightarrow> PRpc p \<in> set ps \<and> rp_op p = op"
proof (induction ps)
  case (Cons q ps)
  then show ?case by (cases q) auto
qed simp

text \<open>The payloads on the wire: requests, responses, streams, heartbeats and their acknowledgements.\<close>

fun plain_payload :: "payload \<Rightarrow> bool" where
  "plain_payload (PControl p) = (cp_opcode p = ControlOpcode_Heartbeat \<or> cp_opcode p = ControlOpcode_HeartbeatAck)"
| "plain_payload (PRpc p) = ((rp_op p = RpcOp_Request \<or> rp_op p = RpcOp_RequestResponse) \<and> \<not> pm_localGeneratedResponse (rp_meta p))"
| "plain_payload (PStream p) = True"

lemma rpcs_received: "rpcs op (map received_payload ps) = map received_rpc (rpcs op ps)"
proof (induction ps)
  case (Cons p ps)
  then show ?case by (cases p) (simp_all add: received_rpc_def)
qed simp

section \<open>What a peer does with plain payloads\<close>

lemma core_replies_simps [simp]:
  "core_replies [] = []" "core_replies (p # ps) = heartbeat_acks p @ core_replies ps"
  by (simp_all add: core_replies_def)

lemma plain_sends:
  assumes "plain_payload p" and "co_outboundReplyTarget c = 0"
    and "\<forall>out. sendPayloads lib (co_outbound c) (heartbeat_acks p) out = Some (op', out @ ws)"
  shows "co_outbound (handlePayload lib p c) = op' \<and>
     co_outboundBytes (handlePayload lib p c) = co_outboundBytes c @ map (\<lambda>b. \<lparr>pk_bytes = b, pk_replyTarget = 0\<rparr>) ws"
proof (cases p)
  case (PControl x)
  have "sendPayloads lib (co_outbound c) (heartbeat_acks p) [] = Some (op', ws)" using assms(3) by simp
  with PControl assms(1,2) show ?thesis
    by (auto simp: handleControl_def ControlSession_handle_def core_send split_beta Let_def enqueue_packets_def)
next
  case (PRpc x)
  with assms(1) assms(3) [rule_format, of "[]"] show ?thesis by (auto simp: handleRpc_def handleResponse_call Let_def)
next
  case (PStream x)
  with assms(3) [rule_format, of "[]"] show ?thesis by (simp add: handleStream_effect)
qed

lemma heartbeat_fits:
  assumes "cp_opcode p = ControlOpcode_Heartbeat \<or> cp_opcode p = ControlOpcode_HeartbeatAck" and "cp_body p = []" and "0 < cap"
  shows "fits_link cap (PControl p)" and "plain_payload (received_payload (PControl p))"
proof -
  have "(4 + cap) div cap \<le> 5" using assms(3) by (simp add: div_le_mono2 less_eq_div_iff_mult_less_eq)
  moreover have "control_body p = []" using assms(1,2) by (auto simp: control_body_def)
  ultimately show "fits_link cap (PControl p)"
    by (simp add: fits_link_def carries_def isPayloadType_def frames_needed_def encodeControl_eq)
  show "plain_payload (received_payload (PControl p))" using assms(1) by simp
qed

lemma replies_fit:
  "0 < cap \<Longrightarrow> x \<in> set (core_replies ps) \<Longrightarrow> fits_link cap x \<and> plain_payload (received_payload x)"
proof (induction ps)
  case (Cons p ps)
  have "x \<in> set (heartbeat_acks p) \<Longrightarrow> fits_link cap x \<and> plain_payload (received_payload x)"
    using Cons.prems(1)
    by (cases p) (auto simp: makeControlResponse_def ControlPayload_default_def intro!: heartbeat_fits(1) split: if_splits)
  with Cons show ?case by auto
qed simp

lemma replies_rpcs [simp]: "rpcs op (core_replies ps) = []"
proof (induction ps)
  case (Cons p ps)
  then show ?case by (cases p) simp_all
qed simp

text \<open>A whole batch: the answers stay in the core until it is flushed.\<close>

lemma plain_fold:
  assumes "\<forall>p\<in>set ps. plain_payload p" and "co_outboundReplyTarget c = 0" and "framed_port (co_outbound c) cap" and "0 < cap"
  shows "\<exists>op' pks. (\<forall>out. sendPayloads lib (co_outbound c) (core_replies ps) out = Some (op', out @ map pk_bytes pks)) \<and>
     co_outbound (fold (handlePayload lib) ps c) = op' \<and> framed_port op' cap \<and>
     co_outboundBytes (fold (handlePayload lib) ps c) = co_outboundBytes c @ pks"
  using assms
proof (induction ps arbitrary: c)
  case Nil
  then show ?case by (intro exI [of _ "co_outbound c"] exI [of _ "[]"]) simp
next
  case (Cons p ps)
  have "\<forall>x\<in>set (heartbeat_acks p). fits_link cap x" using replies_fit [OF Cons.prems(4), of _ "[p]"] by simp
  from fit_payloads_sent [OF Cons.prems(3,4) this, of lib] obtain op1 ws where
    s: "\<forall>out. sendPayloads lib (co_outbound c) (heartbeat_acks p) out = Some (op1, out @ ws)" "framed_port op1 cap" by auto
  let ?c = "handlePayload lib p c"
  have one: "co_outbound ?c = op1" "co_outboundBytes ?c = co_outboundBytes c @ map (\<lambda>b. \<lparr>pk_bytes = b, pk_replyTarget = 0\<rparr>) ws"
    using plain_sends [OF _ Cons.prems(2) s(1)] Cons.prems(1) by simp_all
  from Cons.IH [of ?c] Cons.prems s(2) one(1) obtain op' pks where
    "\<forall>out. sendPayloads lib op1 (core_replies ps) out = Some (op', out @ map pk_bytes pks)"
    "co_outbound (fold (handlePayload lib) ps ?c) = op'" "framed_port op' cap"
    "co_outboundBytes (fold (handlePayload lib) ps ?c) = co_outboundBytes ?c @ pks"
    by (auto simp: handlePayload_effect)
  with s(1) one(2) show ?case
    by (intro exI [of _ op'] exI [of _ "map (\<lambda>b. \<lparr>pk_bytes = b, pk_replyTarget = 0\<rparr>) ws @ pks"])
      (simp add: sendPayloads_append comp_def)
qed

text \<open>The requests among received payloads, as they reach a handler.\<close>

definition asked :: "payload list \<Rightarrow> rpc_payload set" where
  "asked ps = {q\<lparr>rp_meta := (rp_meta q)\<lparr>pm_replyTarget := t\<rparr>\<rparr> | q t. q \<in> set (rpcs RpcOp_Request ps)}"

lemma asked_append: "asked ps \<union> asked qs = asked (ps @ qs)"
  by (auto simp: asked_def)

lemma event_requests_simps [simp]:
  "event_requests [] = []" "event_requests (xs @ ys) = event_requests xs @ event_requests ys"
  "event_requests [event_rpcRequest q] = [q]" "event_requests [event_rpcEvent q] = []"
  "event_requests [event_streamData x] = []"
  by (simp_all add: event_requests_def event_rpcRequest_def event_rpcEvent_def event_streamData_def CoreEvent_default_def)

lemma payload_requests:
  "set (event_requests (payload_events targets tokens g p)) \<subseteq> asked [p] \<and>
   map rp_requestId (event_requests (payload_events targets tokens g p)) = map rp_requestId (rpcs RpcOp_Request [p])"
  by (cases p) (auto simp: asked_def)

lemma ingress_requests:
  "set (event_requests (ingress_events targets tokens g ps)) \<subseteq> asked ps \<and>
   map rp_requestId (event_requests (ingress_events targets tokens g ps)) = map rp_requestId (rpcs RpcOp_Request ps)"
proof (induction ps arbitrary: g)
  case (Cons p ps)
  from Cons.IH [of "g + 1"] payload_requests [of targets tokens "g + 1" p] asked_append [of "[p]" ps] show ?case by auto
qed simp

text \<open>The responses among them, as they reach the table of calls.\<close>

lemma plain_calls:
  "\<forall>p\<in>set ps. plain_payload p \<Longrightarrow>
     concat (map payload_calls ps) = map (\<lambda>r. Resolve (rp_requestId r) r) (rpcs RpcOp_RequestResponse ps)"
proof (induction ps)
  case (Cons p ps)
  then show ?case by (cases p) auto
qed simp

section \<open>What a peer sends\<close>

lemma call_data_send [simp]: "call_data (transport_send pk) = pk_bytes pk"
  by (simp add: transport_send_def)

lemma flush_data:
  "ep_attached e \<Longrightarrow> flushOutbound e = e\<lparr>ep_core := (ep_core e)\<lparr>co_outboundBytes := []\<rparr>,
     ep_calls := ep_calls e @ map transport_send (co_outboundBytes (ep_core e))\<rparr>"
  by (simp add: flushOutbound_def flushLoop_eq)

text \<open>The responses in the broker's queue go out in its order when they fit.\<close>

lemma one_result_fits:
  assumes "co_outboundReplyTarget c = 0" and "is_response r"
    and "\<forall>out. sendPayload lib snoc (co_outbound c) (PRpc (br_rpc r)) out = Some (op', out @ ws)"
  shows "handleBrokerResult lib c r = (True, enqueue_packets (result_target r) ws (c\<lparr>co_outbound := op'\<rparr>))"
proof -
  have "result_writes lib (co_outbound c) r = Some (op', ws)"
    using assms(2) assms(3) [rule_format, of "[]"] by (auto simp: result_writes_def is_response_def)
  with assms(1) show ?thesis by (cases c) (simp add: handleBrokerResult_eq)
qed

lemma drain_fits:
  assumes "co_outboundReplyTarget (ep_core e) = 0" and "0 < cap"
    and "\<forall>r\<in>set (bk_results (ep_broker e)). is_response r \<and> rpc_fits cap (br_rpc r)"
    and "framed_port (co_outbound (ep_core e)) cap"
  shows "\<exists>op' pks. (\<forall>out. sendPayloads lib (co_outbound (ep_core e)) (queued_payloads (bk_results (ep_broker e))) out =
       Some (op', out @ map pk_bytes pks)) \<and>
     drainBrokerResults lib e = (True, e\<lparr>ep_core := (ep_core e)\<lparr>co_outbound := op',
       co_outboundBytes := co_outboundBytes (ep_core e) @ pks\<rparr>, ep_broker := (ep_broker e)\<lparr>bk_results := []\<rparr>\<rparr>)"
  using assms
proof (induction "bk_results (ep_broker e)" arbitrary: e)
  case Nil
  then show ?case
    by (intro exI [of _ "co_outbound (ep_core e)"] exI [of _ "[]"])
      (simp add: drainBrokerResults.simps [of lib e] pollResult_def queued_payloads_def)
next
  case (Cons r rs)
  note q = Cons.hyps(2) [symmetric]
  let ?c = "ep_core e"
  have r: "is_response r" "fits_link cap (PRpc (br_rpc r))" using Cons.prems(3) q by (simp_all add: fits_link_rpc)
  from fits_sent [OF Cons.prems(4,2) r(2), of lib] obtain op1 ws where
    s: "\<forall>out. sendPayload lib snoc (co_outbound ?c) (PRpc (br_rpc r)) out = Some (op1, out @ ws)" "framed_port op1 cap" by blast
  note h = one_result_fits [OF Cons.prems(1) r(1) s(1)]
  let ?e1 = "e\<lparr>ep_broker := (ep_broker e)\<lparr>bk_results := rs\<rparr>, ep_core := enqueue_packets (result_target r) ws (?c\<lparr>co_outbound := op1\<rparr>)\<rparr>"
  from Cons.hyps(1) [of ?e1] Cons.prems q s(2) obtain op' pks where
    rest: "\<forall>out. sendPayloads lib op1 (queued_payloads rs) out = Some (op', out @ map pk_bytes pks)"
      "drainBrokerResults lib ?e1 = (True, ?e1\<lparr>ep_core := (ep_core ?e1)\<lparr>co_outbound := op',
         co_outboundBytes := co_outboundBytes (ep_core ?e1) @ pks\<rparr>, ep_broker := (ep_broker ?e1)\<lparr>bk_results := []\<rparr>\<rparr>)"
    by (auto simp: enqueue_packets_def)
  have "drainBrokerResults lib e = drainBrokerResults lib ?e1"
    using q h by (simp add: drainBrokerResults.simps [of lib e] pollResult_def Let_def)
  with rest s(1) q show ?case
    by (intro exI [of _ op'] exI [of _ "map (\<lambda>b. \<lparr>pk_bytes = b, pk_replyTarget = result_target r\<rparr>) ws @ pks"])
      (simp add: queued_payloads_def enqueue_packets_def comp_def)
qed

section \<open>The invariant of a peer\<close>

text \<open>
  The packets of what was sent are at the transport or still in the core; they stay in the core only when
  an exception has left a poll.
\<close>

definition packets :: "'u peer \<Rightarrow> bytes list" where
  "packets p = map call_data (drop (pe_before p) (ep_calls (pe_endpoint p))) @
     map pk_bytes (co_outboundBytes (ep_core (pe_endpoint p)))"

definition port_inv :: "json_lib \<Rightarrow> nat \<Rightarrow> 'u peer \<Rightarrow> bool" where
  "port_inv lib cap p \<longleftrightarrow> (let e = pe_endpoint p; c = ep_core e in
     ep_attached e \<and> co_outboundReplyTarget c = 0 \<and> co_events c = [] \<and> pe_before p \<le> length (ep_calls e) \<and>
     (pe_throws p = 0 \<longrightarrow> co_outboundBytes c = []) \<and> wrote lib cap (pe_sent p) (packets p) (co_outbound c) \<and>
     inbound_after lib (pe_read p) (co_inbound c) \<and> (\<forall>x\<in>set (pe_sent p). plain_payload (received_payload x)))"

abbreviation arrivals_of :: "json_lib \<Rightarrow> 'u peer \<Rightarrow> payload list" where
  "arrivals_of lib p \<equiv> received lib (pe_read p)"

abbreviation calls_of :: "'u peer \<Rightarrow> pending_call_table" where
  "calls_of p \<equiv> co_pendingCalls (ep_core (pe_endpoint p))"

text \<open>
  The calls of a peer: each request id other than zero is sent once, and taken once, and no call waits
  whose response has arrived.
\<close>

definition used_ids :: "u32 list \<Rightarrow> u32 list" where
  "used_ids = filter (\<lambda>i. i \<noteq> 0)"

lemma in_used_ids [simp]: "i \<in> set (used_ids xs) \<longleftrightarrow> i \<in> set xs \<and> i \<noteq> 0"
  by (auto simp: used_ids_def)

definition calls_inv :: "pending_call_table \<Rightarrow> rpc_payload list \<Rightarrow> rpc_payload list \<Rightarrow> (u32 \<times> rpc_payload) list \<Rightarrow> bool" where
  "calls_inv t responses requests taken \<longleftrightarrow> table_inv t \<and>
     distinct (used_ids (map rp_requestId requests)) \<and>
     (\<forall>i\<in>set (used_ids (map rp_requestId requests)). life_of t i \<noteq> Unused) \<and>
     (\<forall>i\<in>set (used_ids (map rp_requestId responses)). life_of t i \<noteq> call_life.Waiting) \<and>
     (\<forall>i r. pc_resolved t i = Some r \<longrightarrow> r \<in> set responses \<and> rp_requestId r = i) \<and>
     (\<forall>(i, r)\<in>set taken. r \<in> set responses \<and> rp_requestId r = i) \<and>
     distinct (used_ids (map fst taken)) \<and> (\<forall>i\<in>set (used_ids (map fst taken)). life_of t i = Finished)"

text \<open>
  The requests it serves: nothing is answered that was not asked, nothing twice, and no request is lost
  but by an exception.
\<close>

definition serve_inv :: "'u basic_broker \<Rightarrow> payload list \<Rightarrow> payload list \<Rightarrow> nat \<Rightarrow> bool" where
  "serve_inv b arrivals sent throws \<longleftrightarrow> broker_origin (asked arrivals) b \<and>
     (\<forall>r\<in>set (rpcs RpcOp_RequestResponse sent). \<exists>q\<in>asked arrivals. answer_of (bk_router b) q r) \<and>
     (\<exists>lost. image_mset fst (broker_calls b) + mset (map rp_requestId (rpcs RpcOp_RequestResponse sent)) + lost =
       mset (map rp_requestId (rpcs RpcOp_Request arrivals)) \<and> size lost \<le> throws)"

lemma serve_invI:
  "broker_origin (asked arrivals) b \<Longrightarrow>
     \<forall>r\<in>set (rpcs RpcOp_RequestResponse sent). \<exists>q\<in>asked arrivals. answer_of (bk_router b) q r \<Longrightarrow>
     image_mset fst (broker_calls b) + mset (map rp_requestId (rpcs RpcOp_RequestResponse sent)) + lost =
       mset (map rp_requestId (rpcs RpcOp_Request arrivals)) \<Longrightarrow> size lost \<le> throws \<Longrightarrow> serve_inv b arrivals sent throws"
  unfolding serve_inv_def by blast

definition peer_inv :: "json_lib \<Rightarrow> nat \<Rightarrow> 'u peer \<Rightarrow> bool" where
  "peer_inv lib cap p \<longleftrightarrow> port_inv lib cap p \<and>
     calls_inv (calls_of p) (rpcs RpcOp_RequestResponse (arrivals_of lib p)) (rpcs RpcOp_Request (pe_sent p)) (pe_taken p) \<and>
     serve_inv (ep_broker (pe_endpoint p)) (arrivals_of lib p) (pe_sent p) (pe_throws p)"

lemma fresh_peer_inv: "fresh_peer cap p \<Longrightarrow> peer_inv lib cap p"
  by (auto simp: peer_inv_def fresh_peer_def port_inv_def calls_inv_def serve_inv_def at_rest_def core_at_rest_def Let_def
      wrote_Nil inbound_after_Nil table_inv_empty used_ids_def broker_origin_empty packets_def)
    (simp_all add: PendingCallTable_empty_def broker_at_rest_def broker_calls_def task_keys_def pending_keys_def)

section \<open>The table of calls\<close>


lemma life_kept:
  assumes "table_inv t" and "i \<noteq> 0" and "t' = snd (call_step t x)" and "x \<noteq> Reset"
  shows "life_of t i \<noteq> Unused \<Longrightarrow> life_of t' i \<noteq> Unused" "life_of t i = Finished \<Longrightarrow> life_of t' i = Finished"
    "life_of t' i = call_life.Waiting \<Longrightarrow> x = Expect i \<or> life_of t i = call_life.Waiting \<and> (\<forall>r. x \<noteq> Resolve i r)"
  using life_refinement [OF assms(1,2), of x] life_step_stays [of "life_of t i" x i] life_step_waiting [of i "life_of t i" x] assms(3,4)
  by (auto simp: Pending_Calls.answers_def)

text \<open>An operation that stores no response keeps the invariant.\<close>

lemma calls_changed:
  assumes "calls_inv t responses requests taken" and "t' = snd (call_step t x)"
    and "\<And>i r. pc_resolved t' i = Some r \<Longrightarrow> pc_resolved t i = Some r"
    and "\<And>i. x = Expect i \<Longrightarrow> i \<notin> set (used_ids (map rp_requestId responses))" and "x \<noteq> Reset"
  shows "calls_inv t' responses requests taken"
proof -
  have inv: "table_inv t" using assms(1) by (simp add: calls_inv_def)
  have "table_inv t'" unfolding assms(2) by (rule table_inv_step [OF inv])
  moreover have "\<forall>i\<in>set (used_ids (map rp_requestId responses)). life_of t' i \<noteq> call_life.Waiting"
    using assms(1,4) life_kept(3) [OF inv _ assms(2,5)] by (fastforce simp: calls_inv_def used_ids_def)
  moreover have "\<forall>i\<in>set (used_ids js). life_of t i \<noteq> Unused \<longrightarrow> life_of t' i \<noteq> Unused"
    "\<forall>i\<in>set (used_ids js). life_of t i = Finished \<longrightarrow> life_of t' i = Finished" for js
    using life_kept(1,2) [OF inv _ assms(2,5)] by (auto simp: used_ids_def)
  ultimately show ?thesis using assms(1,3) unfolding calls_inv_def by blast
qed

lemma calls_request:
  assumes "calls_inv t responses requests taken" and "expect_call t (rp_requestId q) = (True, t')"
    and "rp_requestId ` set responses \<subseteq> rp_requestId ` set requests"
  shows "calls_inv t' responses (requests @ [q]) taken"
proof -
  let ?i = "rp_requestId q"
  have inv: "table_inv t" using assms(1) by (simp add: calls_inv_def)
  have t': "t' = snd (call_step t (Expect ?i))" using assms(2) by simp
  have "\<And>j x. pc_resolved t' j = Some x \<Longrightarrow> pc_resolved t j = Some x"
    using assms(2) by (auto simp: expect_call_def split: if_splits)
  note kept = calls_changed [OF assms(1) t' this]
  have life: "?i \<noteq> 0 \<Longrightarrow> life_of t ?i = Unused \<and> life_of t' ?i \<noteq> Unused"
    using assms(2) inv by (auto simp: expect_call_def life_of_def table_inv_def split: if_splits option.splits)
  with assms(1) have new: "?i \<notin> set (used_ids (map rp_requestId requests))"
    by (auto simp: calls_inv_def used_ids_def)
  with assms(3) have "?i \<notin> set (used_ids (map rp_requestId responses))" by (auto simp: used_ids_def)
  with kept have "calls_inv t' responses requests taken" by auto
  with new life show ?thesis by (auto simp: calls_inv_def used_ids_def)
qed

lemma calls_response:
  assumes "calls_inv t responses requests taken"
  shows "calls_inv (resolve_call t (rp_requestId r) r) (responses @ [r]) requests taken"
proof -
  let ?t = "resolve_call t (rp_requestId r) r"
  have inv: "table_inv t" using assms(1) by (simp add: calls_inv_def)
  have t': "?t = snd (call_step t (Resolve (rp_requestId r) r))" by simp
  have "pc_resolved ?t i = Some p \<Longrightarrow> pc_resolved t i = Some p \<or> i = rp_requestId r \<and> p = r" for i p
    by (auto simp: resolve_call_def Let_def split: if_splits)
  moreover have "table_inv ?t" unfolding t' by (rule table_inv_step [OF inv])
  moreover have "\<forall>i\<in>set (used_ids (map rp_requestId (responses @ [r]))). life_of ?t i \<noteq> call_life.Waiting"
  proof (intro ballI notI)
    fix i assume i: "i \<in> set (used_ids (map rp_requestId (responses @ [r])))" and w: "life_of ?t i = call_life.Waiting"
    from i have "i \<noteq> 0" by simp
    from life_kept(3) [OF inv this t' _ w] have "life_of t i = call_life.Waiting" "i \<noteq> rp_requestId r" by auto
    with i assms(1) show False by (auto simp: calls_inv_def)
  qed
  moreover have "\<forall>i\<in>set (used_ids js). life_of t i \<noteq> Unused \<longrightarrow> life_of ?t i \<noteq> Unused"
    "\<forall>i\<in>set (used_ids js). life_of t i = Finished \<longrightarrow> life_of ?t i = Finished" for js
    using life_kept(1,2) [OF inv _ t', simplified] by (auto simp: used_ids_def)
  ultimately show ?thesis using assms(1) unfolding calls_inv_def set_append by (simp, blast)
qed

lemma calls_responses:
  "calls_inv t responses requests taken \<Longrightarrow>
     calls_inv (snd (call_run t (map (\<lambda>r. Resolve (rp_requestId r) r) rs))) (responses @ rs) requests taken"
proof (induction rs arbitrary: t responses)
  case (Cons r rs)
  from Cons.IH [OF calls_response [OF Cons.prems, of r]] show ?case by (simp add: split_beta Let_def)
qed simp

lemma calls_take:
  assumes "calls_inv t responses requests taken" and "tryTakeResolved t i = (r, t')"
  shows "calls_inv t' responses requests (taken @ (case r of None \<Rightarrow> [] | Some x \<Rightarrow> [(i, x)]))"
proof (cases r)
  case None
  with assms show ?thesis by (simp add: tryTakeResolved_def split: option.splits)
next
  case (Some x)
  have inv: "table_inv t" using assms(1) by (simp add: calls_inv_def)
  have t': "t' = snd (call_step t (Take i))" using assms(2) by simp
  have x: "pc_resolved t i = Some x" "t' = t\<lparr>pc_resolved := (pc_resolved t)(i := None)\<rparr>"
    using assms(2) Some by (auto simp: tryTakeResolved_def split: option.splits)
  have "\<And>j y. pc_resolved t' j = Some y \<Longrightarrow> pc_resolved t j = Some y" by (auto simp: x(2) split: if_splits)
  from calls_changed [OF assms(1) t' this] have kept: "calls_inv t' responses requests taken" by simp
  have "i \<noteq> 0 \<Longrightarrow> life_of t i \<noteq> Finished \<and> life_of t' i = Finished"
    using inv x by (auto simp: life_of_def table_inv_def)
  with kept assms(1) x(1) Some show ?thesis by (auto simp: calls_inv_def used_ids_def)
qed

lemma calls_abandon:
  assumes "calls_inv t responses requests taken"
  shows "calls_inv (abandon_call t i) responses requests taken"
proof -
  have "\<And>j y. pc_resolved (abandon_call t i) j = Some y \<Longrightarrow> pc_resolved t j = Some y"
    by (auto simp: abandon_call_def Let_def split: if_splits)
  then show ?thesis by (intro calls_changed [OF assms, of _ "Abandon i"]) simp_all
qed

section \<open>The steps of a peer but the poll\<close>

text \<open>One payload goes out behind what is still in the core.\<close>

lemma sent_port:
  assumes "port_inv lib cap p" and "0 < cap" and "fits_link cap x" and "plain_payload (received_payload x)"
  shows "\<exists>op' ws. (\<forall>out. sendPayload lib snoc (co_outbound (ep_core (pe_endpoint p))) x out = Some (op', out @ ws)) \<and>
     (\<forall>c. co_outbound c = op' \<and> co_outboundBytes c = [] \<and> co_outboundReplyTarget c = 0 \<and> co_events c = [] \<and>
        co_inbound c = co_inbound (ep_core (pe_endpoint p)) \<longrightarrow>
        port_inv lib cap (p\<lparr>pe_endpoint := (pe_endpoint p)\<lparr>ep_core := c, ep_calls := ep_calls (pe_endpoint p) @
            map transport_send (co_outboundBytes (ep_core (pe_endpoint p))) @ map (send_to 0) ws\<rparr>,
          pe_sent := pe_sent p @ [x]\<rparr>))"
proof -
  note inv = assms(1) [unfolded port_inv_def Let_def]
  then have wrote: "wrote lib cap (pe_sent p) (packets p) (co_outbound (ep_core (pe_endpoint p)))" by blast
  from fits_sent [OF wrote_port [OF this assms(2)] assms(2,3), of lib] obtain op' ws where
    s: "\<forall>out. sendPayload lib snoc (co_outbound (ep_core (pe_endpoint p))) x out = Some (op', out @ ws)" by blast
  have "wrote lib cap (pe_sent p @ [x]) (packets p @ ws) op'"
    using wrote_append [OF wrote, of "[x]" op' ws] s assms(3) by simp
  moreover have "map (call_data \<circ> send_to 0) ws = ws" by (simp add: send_to_def comp_def)
  ultimately show ?thesis using inv s assms(4)
    by (intro exI [of _ op'] exI [of _ ws]) (simp add: port_inv_def packets_def Let_def comp_def)
qed

lemma serve_other:
  "serve_inv b arrivals sent throws \<Longrightarrow> rpcs RpcOp_RequestResponse sent' = [] \<Longrightarrow> serve_inv b arrivals (sent @ sent') throws"
  by (simp add: serve_inv_def)

lemma request_step:
  assumes "peer_inv lib cap p" and "0 < cap" and "rp_op q = RpcOp_Request" and "rpc_fits cap q"
    and "endpoint_sendRpcRequest lib (pe_endpoint p) q = (Some ok, e)"
    and "rp_requestId ` set (rpcs RpcOp_RequestResponse (arrivals_of lib p)) \<subseteq> rp_requestId ` set (rpcs RpcOp_Request (pe_sent p))"
  shows "peer_inv lib cap (p\<lparr>pe_endpoint := e, pe_sent := pe_sent p @ (if ok then [PRpc q] else [])\<rparr>)"
proof -
  let ?e = "pe_endpoint p"
  obtain ok' t where x: "expect_call (calls_of p) (rp_requestId q) = (ok', t)" by fastforce
  note inv = assms(1) [unfolded peer_inv_def]
  show ?thesis
  proof (cases ok')
    case False
    with x have "t = calls_of p" by (auto simp: expect_call_def split: if_splits)
    with False x assms(5) have "e = ?e" "\<not> ok"
      by (auto simp: endpoint_sendRpcRequest_def core_expectRpcResponse_def)
    with assms(1) show ?thesis by simp
  next
    case True
    from inv have port: "port_inv lib cap p" by blast
    have "plain_payload (received_payload (PRpc q))" using assms(3) by (simp add: PayloadMeta_default_def)
    from sent_port [OF port assms(2) fits_link_rpc [OF assms(4)] this] obtain op' ws where
      s: "\<forall>out. sendPayload lib snoc (co_outbound (ep_core ?e)) (PRpc q) out = Some (op', out @ ws)"
      and port': "\<And>c. co_outbound c = op' \<and> co_outboundBytes c = [] \<and> co_outboundReplyTarget c = 0 \<and> co_events c = [] \<and>
        co_inbound c = co_inbound (ep_core ?e) \<Longrightarrow> port_inv lib cap (p\<lparr>pe_endpoint := ?e\<lparr>ep_core := c, ep_calls := ep_calls ?e @
            map transport_send (co_outboundBytes (ep_core ?e)) @ map (send_to 0) ws\<rparr>, pe_sent := pe_sent p @ [PRpc q]\<rparr>)"
      by blast
    have core: "ep_attached ?e" "co_outboundReplyTarget (ep_core ?e) = 0" "co_events (ep_core ?e) = []"
      using port by (simp_all add: port_inv_def Let_def)
    have "sendRpc lib snoc (co_outbound (ep_core ?e)) q [] = Some (op', ws)" using s by simp
    from sendRequest_flushes [OF core(1,2) this, of t] x True assms(5) have
      e: "ok" "e = ?e\<lparr>ep_core := (ep_core ?e)\<lparr>co_pendingCalls := t, co_outbound := op', co_outboundBytes := []\<rparr>,
        ep_calls := ep_calls ?e @ map transport_send (co_outboundBytes (ep_core ?e)) @ map (send_to 0) ws\<rparr>" by auto
    from inv have "calls_inv (calls_of p) (rpcs RpcOp_RequestResponse (arrivals_of lib p)) (rpcs RpcOp_Request (pe_sent p)) (pe_taken p)"
      by blast
    from calls_request [OF this _ assms(6), of q t] e inv serve_other [of "ep_broker ?e" _ _ _ "[PRpc q]"] x True assms(3)
      port' [of "(ep_core ?e)\<lparr>co_pendingCalls := t, co_outbound := op', co_outboundBytes := []\<rparr>"] core
    show ?thesis by (simp add: peer_inv_def)
  qed
qed

text \<open>Streams and heartbeats have nothing to do with calls.\<close>

lemma other_step:
  assumes "peer_inv lib cap p" and "0 < cap" and "fits_link cap x" and "plain_payload (received_payload x)"
    and "\<And>op. rpcs op [x] = []"
    and "\<And>op' ws. \<forall>out. sendPayload lib snoc (co_outbound (ep_core (pe_endpoint p))) x out = Some (op', out @ ws) \<Longrightarrow>
      e = flushOutbound ((pe_endpoint p)\<lparr>ep_core := enqueue_packets 0 ws ((ep_core (pe_endpoint p))\<lparr>co_outbound := op'\<rparr>)\<rparr>)"
  shows "peer_inv lib cap (p\<lparr>pe_endpoint := e, pe_sent := pe_sent p @ [x]\<rparr>)"
proof -
  let ?e = "pe_endpoint p"
  note inv = assms(1) [unfolded peer_inv_def]
  then have port: "port_inv lib cap p" by blast
  from sent_port [OF this assms(2-4)] obtain op' ws where
    s: "\<forall>out. sendPayload lib snoc (co_outbound (ep_core ?e)) x out = Some (op', out @ ws)"
    and port': "\<And>c. co_outbound c = op' \<and> co_outboundBytes c = [] \<and> co_outboundReplyTarget c = 0 \<and> co_events c = [] \<and>
      co_inbound c = co_inbound (ep_core ?e) \<Longrightarrow> port_inv lib cap (p\<lparr>pe_endpoint := ?e\<lparr>ep_core := c, ep_calls := ep_calls ?e @
          map transport_send (co_outboundBytes (ep_core ?e)) @ map (send_to 0) ws\<rparr>, pe_sent := pe_sent p @ [x]\<rparr>)"
    by blast
  have core: "ep_attached ?e" "co_outboundReplyTarget (ep_core ?e) = 0" "co_events (ep_core ?e) = []"
    using port by (simp_all add: port_inv_def Let_def)
  have "e = ?e\<lparr>ep_core := (ep_core ?e)\<lparr>co_outbound := op', co_outboundBytes := []\<rparr>,
      ep_calls := ep_calls ?e @ map transport_send (co_outboundBytes (ep_core ?e)) @ map (send_to 0) ws\<rparr>"
    using assms(6) [OF s] core(1) by (simp add: flush_enqueued)
  with inv serve_other [of "ep_broker ?e" _ _ _ "[x]"] assms(5) core
    port' [of "(ep_core ?e)\<lparr>co_outbound := op', co_outboundBytes := []\<rparr>"] show ?thesis
    by (simp add: peer_inv_def)
qed

lemma stream_step:
  assumes "peer_inv lib cap p" and "0 < cap" and "fits_link cap (PStream x)"
  shows "peer_inv lib cap (p\<lparr>pe_endpoint := endpoint_sendStream lib (pe_endpoint p) x, pe_sent := pe_sent p @ [PStream x]\<rparr>)"
proof (rule other_step [OF assms])
  fix op' ws
  let ?c = "ep_core (pe_endpoint p)"
  assume "\<forall>out. sendPayload lib snoc (co_outbound ?c) (PStream x) out = Some (op', out @ ws)"
  from this [rule_format, of "[]"] have w: "result_writes lib (co_outbound ?c) (result_streamData x) = Some (op', ws)"
    "result_target (result_streamData x) = 0"
    by (simp_all add: result_writes_def result_streamData_def result_target_def is_response_def result_noop_def)
  have "co_outboundReplyTarget ?c = 0" using assms(1) by (simp add: peer_inv_def port_inv_def Let_def)
  with w show "endpoint_sendStream lib (pe_endpoint p) x =
      flushOutbound ((pe_endpoint p)\<lparr>ep_core := enqueue_packets 0 ws (?c\<lparr>co_outbound := op'\<rparr>)\<rparr>)"
    by (cases ?c) (simp add: endpoint_sendStream_def handleBrokerResult_eq)
qed simp_all

lemma heartbeat_step:
  assumes "peer_inv lib cap p" and "0 < cap"
  shows "peer_inv lib cap (p\<lparr>pe_endpoint := endpoint_sendControlHeartbeat (pe_endpoint p) i,
     pe_sent := pe_sent p @ [PControl (makeHeartbeat (co_controlSession (ep_core (pe_endpoint p))) i)]\<rparr>)"
proof -
  let ?c = "ep_core (pe_endpoint p)"
  let ?h = "makeHeartbeat (co_controlSession ?c) i"
  have h: "fits_link cap (PControl ?h)" "plain_payload (received_payload (PControl ?h))"
    using assms(2) by (auto intro!: heartbeat_fits simp: makeHeartbeat_def ControlPayload_default_def simp del: received_payload.simps)
  have "co_outboundReplyTarget ?c = 0" using assms(1) by (simp add: peer_inv_def port_inv_def Let_def)
  then have "endpoint_sendControlHeartbeat (pe_endpoint p) i =
      flushOutbound ((pe_endpoint p)\<lparr>ep_core := enqueue_packets 0 ws (?c\<lparr>co_outbound := op'\<rparr>)\<rparr>)"
    if "\<forall>out. sendPayload lib snoc (co_outbound ?c) (PControl ?h) out = Some (op', out @ ws)" for op' ws
    using that [rule_format, of "[]"] by (simp add: endpoint_sendControlHeartbeat_def sendControlHeartbeat_def core_send)
  from other_step [OF assms h _ this] show ?thesis by simp
qed

lemma take_step:
  assumes "peer_inv lib cap p" and "endpoint_tryTakeRpcResponse (pe_endpoint p) i = (r, e)"
  shows "peer_inv lib cap (p\<lparr>pe_endpoint := e, pe_taken := pe_taken p @ (case r of None \<Rightarrow> [] | Some x \<Rightarrow> [(i, x)])\<rparr>)"
proof -
  obtain t where t: "tryTakeResolved (calls_of p) i = (r, t)"
    "e = (pe_endpoint p)\<lparr>ep_core := (ep_core (pe_endpoint p))\<lparr>co_pendingCalls := t\<rparr>\<rparr>"
    using assms(2) by (auto simp: endpoint_tryTakeRpcResponse_def core_tryTakeRpcResponse_def split: prod.splits)
  with assms(1) calls_take [OF _ t(1)] show ?thesis by (simp add: peer_inv_def port_inv_def packets_def Let_def)
qed

lemma notice_step:
  assumes "peer_inv lib cap p" and "endpoint_tryTakeControlNoticeFor (pe_endpoint p) opcode i = (r, e)"
  shows "peer_inv lib cap (p\<lparr>pe_endpoint := e\<rparr>)"
proof -
  obtain q where "e = (pe_endpoint p)\<lparr>ep_core := (ep_core (pe_endpoint p))\<lparr>co_controlNotices := q\<rparr>\<rparr>"
    using assms(2) by (auto simp: endpoint_tryTakeControlNoticeFor_def tryTakeControlNoticeFor_def Let_def split: prod.splits)
  with assms(1) show ?thesis by (simp add: peer_inv_def port_inv_def packets_def Let_def)
qed

lemma abandon_step:
  "peer_inv lib cap p \<Longrightarrow> peer_inv lib cap (p\<lparr>pe_endpoint := endpoint_abandonRpcResponse (pe_endpoint p) i\<rparr>)"
  by (simp add: peer_inv_def port_inv_def packets_def Let_def endpoint_abandonRpcResponse_def core_abandonRpcResponse_def calls_abandon)

section \<open>The poll\<close>

text \<open>What the poll leaves, whether the broker's part of it returns or throws.\<close>

definition loaded_broker :: "'u axtp_endpoint \<Rightarrow> axtp_core \<Rightarrow> 'u basic_broker" where
  "loaded_broker e c = (ep_broker e)\<lparr>bk_tasks := bk_tasks (ep_broker e) @ map fromCoreEvent (co_events c)\<rparr>"

lemma polled_eq:
  assumes "ep_attached e" and "core_feed lib (ep_core e) chunks = c"
  shows "polled_results lib e chunks n u = bk_results (fst (snd (broker_poll (loaded_broker e c) n u)))"
  using assms by (simp add: polled_results_def fold_onTransportBytes drainCoreEvents_eq loaded_broker_def)

lemma poll_effect:
  assumes "ep_attached e" and "core_feed lib (ep_core e) chunks = c"
    and "co_outboundReplyTarget c = 0" and "framed_port (co_outbound c) cap" and "0 < cap"
    and "list_all is_response (bk_results (ep_broker e))"
    and "\<forall>r\<in>set (polled_results lib e chunks n u). rpc_fits cap (br_rpc r)"
    and "endpoint_poll lib e chunks n u = (ok, e', u')"
  shows "\<exists>b. broker_poll (loaded_broker e c) n u = (ok, b, u') \<and> polled_results lib e chunks n u = bk_results b \<and>
     (\<exists>op' pks. (\<forall>out. sendPayloads lib (co_outbound c) (if ok then queued_payloads (bk_results b) else []) out =
          Some (op', out @ map pk_bytes pks)) \<and> (\<not> ok \<longrightarrow> pks = []) \<and>
        e' = e\<lparr>ep_core := c\<lparr>co_events := [], co_outbound := op', co_outboundBytes := (if ok then [] else co_outboundBytes c)\<rparr>,
          ep_broker := (if ok then b\<lparr>bk_results := []\<rparr> else b),
          ep_calls := ep_calls e @ map transport_send (if ok then co_outboundBytes c @ pks else [])\<rparr>)"
proof -
  have fed: "foldl (onTransportBytes lib) e chunks = e\<lparr>ep_core := c\<rparr>" by (simp add: fold_onTransportBytes assms(2))
  obtain ok1 b u1 where run: "broker_poll (loaded_broker e c) n u = (ok1, b, u1)" by (metis prod.exhaust)
  have res: "polled_results lib e chunks n u = bk_results b"
    using run by (simp add: polled_eq [OF assms(1,2)])
  have resp: "list_all is_response (bk_results b)"
    using broker_poll_responses [OF run] assms(6) by (simp add: loaded_broker_def)
  let ?e2 = "e\<lparr>ep_core := c\<lparr>co_events := []\<rparr>, ep_broker := b\<rparr>"
  have poll: "endpoint_poll lib e chunks n u = (if \<not> ok1 then (False, ?e2, u1)
      else (let (ok, e) = drainBrokerResults lib ?e2 in if \<not> ok then (False, e, u1) else (True, flushOutbound e, u1)))"
    using run by (simp add: endpoint_poll_def assms(1) fed progress_def drainCoreEvents_eq loaded_broker_def Let_def)
  show ?thesis
  proof (cases ok1)
    case False
    moreover have "c\<lparr>co_events := []\<rparr> = c\<lparr>co_events := [], co_outbound := co_outbound c, co_outboundBytes := co_outboundBytes c\<rparr>"
      by (cases c) simp
    ultimately show ?thesis using poll assms(8) run res
      by (intro exI [of _ b] conjI exI [of _ "co_outbound c"] exI [of _ "[]"]) auto
  next
    case True
    from drain_fits [of ?e2 cap lib] resp assms(3,4,5,7) res obtain op' pks where
      d: "\<forall>out. sendPayloads lib (co_outbound c) (queued_payloads (bk_results b)) out = Some (op', out @ map pk_bytes pks)"
        "drainBrokerResults lib ?e2 = (True, ?e2\<lparr>ep_core := (ep_core ?e2)\<lparr>co_outbound := op',
           co_outboundBytes := co_outboundBytes c @ pks\<rparr>, ep_broker := b\<lparr>bk_results := []\<rparr>\<rparr>)"
      by (auto simp: list_all_iff)
    with poll True assms(1,8) have "ok" "u1 = u'"
      "e' = e\<lparr>ep_core := c\<lparr>co_events := [], co_outbound := op', co_outboundBytes := []\<rparr>,
        ep_broker := b\<lparr>bk_results := []\<rparr>, ep_calls := ep_calls e @ map transport_send (co_outboundBytes c @ pks)\<rparr>"
      by (auto simp: flush_data)
    then show ?thesis using run res d(1) True
      by (intro exI [of _ b] conjI exI [of _ op'] exI [of _ pks]) simp_all
  qed
qed


lemma mset_exchange:
  fixes a b c d s l r :: "'a multiset"
  assumes "a + b = c + d" and "a + s + l = r"
  shows "c + s + (l + d) = r + b"
proof -
  have "c + s + (l + d) = (c + d) + (s + l)" by (simp add: ac_simps)
  also have "\<dots> = (a + s + l) + b" unfolding assms(1) [symmetric] by (simp add: ac_simps)
  finally show ?thesis by (simp add: assms(2))
qed

lemma task_keys_append: "task_keys (xs @ ys) = task_keys xs @ task_keys ys"
  by (simp add: task_keys_def)

lemma broker_calls_loaded:
  "broker_calls (loaded_broker e c) = broker_calls (ep_broker e) + mset (map call_key (event_requests (co_events c)))"
  by (simp add: broker_calls_def loaded_broker_def task_keys_append task_keys_events ac_simps)

lemma broker_calls_results:
  "broker_calls b = broker_calls (b\<lparr>bk_results := []\<rparr>) + mset (result_keys (bk_results b))"
  by (simp add: broker_calls_def)

lemma all_responses: "broker_origin Q b \<Longrightarrow> list_all is_response (bk_results b)"
  by (auto simp: broker_origin_def result_for_def list_all_iff)

lemma queued_rpcs:
  assumes "broker_origin Q b"
  shows "rpcs RpcOp_RequestResponse (queued_payloads (bk_results b)) = map br_rpc (bk_results b)"
    and "rpcs RpcOp_Request (queued_payloads (bk_results b)) = []"
    and "image_mset fst (mset (result_keys (bk_results b))) = mset (map rp_requestId (map br_rpc (bk_results b)))"
proof -
  have "\<forall>r\<in>set (bk_results b). rp_op (br_rpc r) = RpcOp_RequestResponse \<and> is_response r"
    using assms answer_of_key unfolding broker_origin_def result_for_def by blast
  then have "rpcs RpcOp_RequestResponse (queued_payloads rs) = map br_rpc rs \<and> rpcs RpcOp_Request (queued_payloads rs) = [] \<and>
      map fst (result_keys rs) = map rp_requestId (map br_rpc rs)" if "set rs \<subseteq> set (bk_results b)" for rs
    using that by (induction rs) (auto simp: queued_payloads_def result_keys_def call_key_def)
  then show "rpcs RpcOp_RequestResponse (queued_payloads (bk_results b)) = map br_rpc (bk_results b)"
    "rpcs RpcOp_Request (queued_payloads (bk_results b)) = []"
    "image_mset fst (mset (result_keys (bk_results b))) = mset (map rp_requestId (map br_rpc (bk_results b)))"
    by (simp_all flip: mset_map)
qed

lemma all_plain:
  "broker_origin Q b \<Longrightarrow> \<forall>r\<in>set (bk_results b). plain_payload (received_payload (PRpc (br_rpc r)))"
  using answer_of_key unfolding broker_origin_def result_for_def by (fastforce simp: PayloadMeta_default_def)

lemma serve_poll:
  assumes "serve_inv (ep_broker e) arrivals sent throws" and "broker_poll (loaded_broker e c) n u = (ok, b, u')"
    and "set (event_requests (co_events c)) \<subseteq> asked ps"
    and "map rp_requestId (event_requests (co_events c)) = map rp_requestId (rpcs RpcOp_Request ps)"
  shows "broker_origin (asked (arrivals @ ps)) b"
    and "serve_inv (if ok then b\<lparr>bk_results := []\<rparr> else b) (arrivals @ ps)
      (sent @ (if ok then queued_payloads (bk_results b) else [])) (throws + (if ok then 0 else 1))"
proof -
  have "broker_origin (asked (arrivals @ ps)) (ep_broker e)"
    using assms(1) broker_origin_mono [of "asked arrivals" "ep_broker e" "asked (arrivals @ ps)"] asked_append [of arrivals ps]
    by (auto simp: serve_inv_def)
  from broker_origin_events [OF this, of "co_events c"] assms(3) asked_append [of arrivals ps]
  have "broker_origin (asked (arrivals @ ps)) (loaded_broker e c)" by (auto simp: loaded_broker_def)
  from broker_poll_origin [OF assms(2) this] show origin: "broker_origin (asked (arrivals @ ps)) b" .
  note calls = broker_poll_calls [OF assms(2)]
  then obtain lost where lost: "broker_calls (loaded_broker e c) = broker_calls b + lost" "size lost \<le> (if ok then 0 else 1)"
    by auto
  have router: "bk_router b = bk_router (ep_broker e)" using calls by (simp add: loaded_broker_def)
  have "image_mset fst (mset (map call_key (event_requests (co_events c)))) = mset (map rp_requestId (rpcs RpcOp_Request ps))"
    unfolding assms(4) [symmetric] by (simp add: call_key_def comp_def flip: mset_map)
  then have now: "image_mset fst (broker_calls (ep_broker e)) + mset (map rp_requestId (rpcs RpcOp_Request ps)) =
      image_mset fst (broker_calls b) + image_mset fst lost"
    using arg_cong [OF lost(1), of "image_mset fst"] by (simp add: broker_calls_loaded)
  obtain lost0 where lost0: "image_mset fst (broker_calls (ep_broker e)) + mset (map rp_requestId (rpcs RpcOp_RequestResponse sent)) + lost0 =
      mset (map rp_requestId (rpcs RpcOp_Request arrivals))" "size lost0 \<le> throws" using assms(1) by (auto simp: serve_inv_def)
  from mset_exchange [OF now lost0(1)] lost(2) lost0(2) have kept: "image_mset fst (broker_calls b) + mset (map rp_requestId (rpcs RpcOp_RequestResponse sent)) +
      (lost0 + image_mset fst lost) = mset (map rp_requestId (rpcs RpcOp_Request (arrivals @ ps)))"
      "size (lost0 + image_mset fst lost) \<le> throws + (if ok then 0 else 1)"
    by (simp_all add: add_mono)
  have old: "\<forall>r\<in>set (rpcs RpcOp_RequestResponse sent). \<exists>q\<in>asked (arrivals @ ps). answer_of (bk_router b) q r"
    using assms(1) unfolding router asked_append [symmetric] by (auto simp: serve_inv_def simp del: in_rpcs)
  show "serve_inv (if ok then b\<lparr>bk_results := []\<rparr> else b) (arrivals @ ps)
      (sent @ (if ok then queued_payloads (bk_results b) else [])) (throws + (if ok then 0 else 1))"
  proof (cases ok)
    case False
    with serve_invI [OF origin old kept] show ?thesis by simp
  next
    case True
    have "\<forall>r\<in>set (map br_rpc (bk_results b)). \<exists>q\<in>asked (arrivals @ ps). answer_of (bk_router b) q r"
      using origin by (auto simp: broker_origin_def result_for_def)
    moreover have "broker_origin (asked (arrivals @ ps)) (b\<lparr>bk_results := []\<rparr>)" using origin by (simp add: broker_origin_def)
    moreover have "image_mset fst (broker_calls (b\<lparr>bk_results := []\<rparr>)) +
        mset (map rp_requestId (rpcs RpcOp_RequestResponse (sent @ queued_payloads (bk_results b)))) + (lost0 + image_mset fst lost) =
        mset (map rp_requestId (rpcs RpcOp_Request (arrivals @ ps)))"
      using kept(1) queued_rpcs(1,3) [OF origin] unfolding broker_calls_results [of b] by (simp add: ac_simps)
    moreover have "\<forall>r\<in>set (rpcs RpcOp_RequestResponse sent @ map br_rpc (bk_results b)).
        \<exists>q\<in>asked (arrivals @ ps). answer_of (bk_router b) q r" using calculation(1) old by (simp only: set_append ball_Un)
    ultimately show ?thesis using True kept(2) queued_rpcs(1) [OF origin]
      by (intro serve_invI [where lost = "lost0 + image_mset fst lost"]) (simp_all del: in_rpcs mset_map)
  qed
qed

lemma poll_step:
  assumes "peer_inv lib cap p" and "0 < cap" and "\<forall>x\<in>set (received lib (pe_read p @ concat chunks)). plain_payload x"
    and "results = polled_results lib (pe_endpoint p) chunks n (pe_app p)" and "\<forall>r\<in>set results. rpc_fits cap (br_rpc r)"
    and "endpoint_poll lib (pe_endpoint p) chunks n (pe_app p) = (ok, e, u)"
  shows "peer_inv lib cap (p\<lparr>pe_endpoint := e, pe_app := u, pe_read := pe_read p @ concat chunks,
     pe_sent := pe_sent p @ core_replies (newly_received lib (pe_read p) (concat chunks)) @
       (if ok then queued_payloads results else []),
     pe_throws := pe_throws p + (if ok then 0 else 1)\<rparr>)"
proof -
  let ?e = "pe_endpoint p"
  note inv = assms(1) [unfolded peer_inv_def port_inv_def Let_def]
  have "inbound_after lib (pe_read p) (co_inbound (ep_core ?e))" using inv by blast
  from core_feed_received [OF this, of chunks] obtain ps ip where
    ps: "received lib (pe_read p @ concat chunks) = arrivals_of lib p @ ps"
      "inbound_after lib (pe_read p @ concat chunks) ip"
      "core_feed lib (ep_core ?e) chunks = (fold (handlePayload lib) ps (ep_core ?e))\<lparr>co_inbound := ip\<rparr>" by blast
  let ?c = "(fold (handlePayload lib) ps (ep_core ?e))\<lparr>co_inbound := ip\<rparr>"
  have new: "newly_received lib (pe_read p) (concat chunks) = ps" by (simp add: newly_received_def ps(1))
  have plain: "\<forall>x\<in>set ps. plain_payload x" using assms(3) ps(1) by simp
  have c: "co_outboundReplyTarget ?c = 0"
    "co_pendingCalls ?c = snd (call_run (calls_of p) (map (\<lambda>r. Resolve (rp_requestId r) r) (rpcs RpcOp_RequestResponse ps)))"
    using inv plain by (simp_all add: core_receives plain_calls)
  have ev: "set (event_requests (co_events ?c)) \<subseteq> asked ps"
    "map rp_requestId (event_requests (co_events ?c)) = map rp_requestId (rpcs RpcOp_Request ps)"
    using inv ingress_requests [of _ _ _ ps] by (simp_all add: core_receives)
  have wrote0: "wrote lib cap (pe_sent p) (packets p) (co_outbound (ep_core ?e))"
    and target: "co_outboundReplyTarget (ep_core ?e) = 0" using inv by blast+
  from plain_fold [OF plain target wrote_port [OF wrote0 assms(2)] assms(2), of lib] obtain opc replies where
    r: "\<forall>out. sendPayloads lib (co_outbound (ep_core ?e)) (core_replies ps) out = Some (opc, out @ map pk_bytes replies)"
      "co_outbound ?c = opc" "framed_port (co_outbound ?c) cap" "co_outboundBytes ?c = co_outboundBytes (ep_core ?e) @ replies"
    by auto
  have wrote: "wrote lib cap (pe_sent p @ core_replies ps) (packets p @ map pk_bytes replies) (co_outbound ?c)"
    unfolding r(2) using wrote_append [OF wrote0 _ r(1)] replies_fit [OF assms(2)] by blast
  have "ep_attached ?e" "list_all is_response (bk_results (ep_broker ?e))"
    using inv all_responses [of "asked (arrivals_of lib p)" "ep_broker ?e"] by (simp_all add: serve_inv_def)
  from poll_effect [OF this(1) ps(3) c(1) r(3) assms(2) this(2) assms(5) [unfolded assms(4)] assms(6), folded assms(4)]
  obtain b op' pks where
    run: "broker_poll (loaded_broker ?e ?c) n (pe_app p) = (ok, b, u)" "results = bk_results b"
    and sends: "\<forall>out. sendPayloads lib (co_outbound ?c) (if ok then queued_payloads results else []) out =
        Some (op', out @ map pk_bytes pks)" "\<not> ok \<longrightarrow> pks = []"
    and e: "e = ?e\<lparr>ep_core := ?c\<lparr>co_events := [], co_outbound := op', co_outboundBytes := (if ok then [] else co_outboundBytes ?c)\<rparr>,
        ep_broker := (if ok then b\<lparr>bk_results := []\<rparr> else b),
        ep_calls := ep_calls ?e @ map transport_send (if ok then co_outboundBytes ?c @ pks else [])\<rparr>"
    by blast
  from inv have "serve_inv (ep_broker ?e) (arrivals_of lib p) (pe_sent p @ core_replies ps) (pe_throws p)"
    by (intro serve_other) simp_all
  note serve = serve_poll [OF this run(1) ev]
  have resp: "rpcs RpcOp_Request (if ok then queued_payloads results else []) = []"
    using queued_rpcs(2) [OF serve(1)] run(2) by simp
  from inv have "calls_inv (calls_of p) (rpcs RpcOp_RequestResponse (arrivals_of lib p)) (rpcs RpcOp_Request (pe_sent p)) (pe_taken p)"
    by blast
  from calls_responses [OF this, of "rpcs RpcOp_RequestResponse ps"]
  have calls: "calls_inv (co_pendingCalls ?c) (rpcs RpcOp_RequestResponse (arrivals_of lib p @ ps))
      (rpcs RpcOp_Request (pe_sent p @ core_replies ps @ (if ok then queued_payloads results else []))) (pe_taken p)"
    unfolding c(2) rpcs_simps(3) resp replies_rpcs append_Nil append_Nil2 .
  have fits: "\<forall>x\<in>set (if ok then queued_payloads results else []). fits_link cap x \<and> plain_payload (received_payload x)"
    using assms(5) all_plain [OF serve(1)] run(2) by (auto simp: queued_payloads_def fits_link_rpc)
  let ?p = "p\<lparr>pe_endpoint := e, pe_app := u, pe_read := pe_read p @ concat chunks,
    pe_sent := pe_sent p @ core_replies ps @ (if ok then queued_payloads results else []),
    pe_throws := pe_throws p + (if ok then 0 else 1)\<rparr>"
  have "packets ?p = packets p @ map pk_bytes replies @ map pk_bytes pks"
    using inv sends(2) r(4) by (simp add: packets_def e comp_def)
  with wrote_append [OF wrote _ sends(1)] fits have "wrote lib cap (pe_sent ?p) (packets ?p) op'" by simp
  moreover have "\<forall>x\<in>set (pe_sent ?p). plain_payload (received_payload x)"
    using inv fits replies_fit [OF assms(2)] by auto
  ultimately have "port_inv lib cap ?p" using inv c(1) ps(2) by (simp add: port_inv_def Let_def e)
  then show ?thesis using serve(2) calls ps(1) run(2) unfolding new by (cases ok) (simp_all add: peer_inv_def e)
qed

section \<open>What is written stays written\<close>

lemma drainBrokerResults_calls: "drainBrokerResults lib e = (ok, e') \<Longrightarrow> ep_calls e' = ep_calls e"
proof (induction "bk_results (ep_broker e)" arbitrary: e)
  case Nil
  then show ?case by (auto simp: drainBrokerResults.simps [of lib e] pollResult_def)
next
  case (Cons r rs)
  note q = Cons.hyps(2) [symmetric]
  obtain ok' core where h: "handleBrokerResult lib (ep_core e) r = (ok', core)" by fastforce
  let ?e1 = "e\<lparr>ep_broker := (ep_broker e)\<lparr>bk_results := rs\<rparr>, ep_core := core\<rparr>"
  from Cons.prems q h have "(if ok' then drainBrokerResults lib ?e1 else (False, ?e1)) = (ok, e')"
    by (simp add: drainBrokerResults.simps [of lib e] pollResult_def Let_def)
  with Cons.hyps(1) [of ?e1] show ?case by (auto split: if_splits)
qed

lemma flushOutbound_calls [simp]: "prefix (ep_calls e) (ep_calls (flushOutbound e))"
  "prefix (ep_calls e) (ep_calls (flushOutbound (e\<lparr>ep_core := c\<rparr>)))"
  by (simp_all add: flushOutbound_def flushLoop_eq)

lemma poll_calls: "endpoint_poll lib e chunks n u = (ok, e', u') \<Longrightarrow> prefix (ep_calls e) (ep_calls e')"
  by (auto simp: endpoint_poll_def fold_onTransportBytes progress_def drainCoreEvents_eq Let_def
      dest!: drainBrokerResults_calls split: prod.splits if_splits)
    (metis flushOutbound_calls)+

text \<open>What is written stays written, and only what is written is read.\<close>

lemma step_calls: "peer_step lib cap input p p' \<Longrightarrow> prefix (ep_calls (pe_endpoint p)) (ep_calls (pe_endpoint p'))"
proof (induction rule: peer_step.induct)
  case (Request q ok e)
  then show ?case
    by (auto simp: endpoint_sendRpcRequest_def core_expectRpcResponse_def Let_def split: prod.splits if_splits option.splits)
next
  case (Stream x)
  show ?case by (simp add: endpoint_sendStream_def split: prod.split)
next
  case (Poll chunks results n ok e u)
  then show ?case by (simp add: poll_calls)
next
  case (Heartbeat i)
  show ?case by (simp add: endpoint_sendControlHeartbeat_def)
next
  case (Take i r e)
  then show ?case by (auto simp: endpoint_tryTakeRpcResponse_def split: prod.splits)
next
  case (Notice opcode i r e)
  then show ?case by (auto simp: endpoint_tryTakeControlNoticeFor_def split: prod.splits)
qed (simp add: endpoint_abandonRpcResponse_def)

lemma step_before: "peer_step lib cap input p p' \<Longrightarrow> pe_before p' = pe_before p"
  by (induction rule: peer_step.induct) simp_all

lemma step_writes: "peer_step lib cap input p p' \<Longrightarrow> prefix (written p) (written p')"
  using step_calls [of lib cap input p p'] step_before [of lib cap input p p'] by (auto simp: written_def prefix_def)

lemma step_reads: "peer_step lib cap input p p' \<Longrightarrow> prefix (pe_read p) input \<Longrightarrow> prefix (pe_read p') input"
  by (induction rule: peer_step.induct) simp_all

end
