(* ===== verification/Connection.thy ===== *)
theory Connection
  imports Peer
begin

text \<open>
  Two peers joined by a framed connection, in every interleaving of their steps.

  Shown here, as invariants over all reachable states: a response that a peer holds or has taken was
  computed by the other peer's router from the request that was sent under its id; no request is
  handled or answered twice; and no call is left waiting when everything written has been read, the
  other broker is empty and no poll has thrown.
\<close>

section \<open>The connection\<close>

text \<open>The two peers are \<open>s True\<close> and \<open>s False\<close>.\<close>

inductive connected :: "json_lib \<Rightarrow> nat \<Rightarrow> (bool \<Rightarrow> 'u peer) \<Rightarrow> bool" for lib cap where
  Start: "fresh_peer cap (s True) \<Longrightarrow> fresh_peer cap (s False) \<Longrightarrow> connected lib cap s"
| Step: "connected lib cap s \<Longrightarrow> peer_step lib cap (written (s (\<not> a))) (s a) p \<Longrightarrow> connected lib cap (s(a := p))"

section \<open>The invariant of the connection\<close>

lemma written_received:
  assumes "peer_inv lib cap p" and "0 < cap"
  shows "prefix (received lib (written p)) (map received_payload (pe_sent p))"
    and "pe_throws p = 0 \<Longrightarrow> received lib (written p) = map received_payload (pe_sent p)"
proof -
  have wrote: "wrote lib cap (pe_sent p) (packets p) (co_outbound (ep_core (pe_endpoint p)))"
    using assms(1) by (simp add: peer_inv_def port_inv_def Let_def)
  have "prefix (written p) (concat (packets p))" by (simp add: written_def packets_def)
  with read_prefix [OF wrote assms(2)] show "prefix (received lib (written p)) (map received_payload (pe_sent p))" .
  show "received lib (written p) = map received_payload (pe_sent p)" if "pe_throws p = 0"
    using that assms(1) wrote_received [OF wrote assms(2)] by (simp add: written_def packets_def peer_inv_def port_inv_def Let_def)
qed

definition joined_inv :: "json_lib \<Rightarrow> nat \<Rightarrow> (bool \<Rightarrow> 'u peer) \<Rightarrow> bool" where
  "joined_inv lib cap s \<longleftrightarrow> (\<forall>a. peer_inv lib cap (s a) \<and> prefix (pe_read (s a)) (written (s (\<not> a))))"

lemma arrivals_sent:
  assumes "joined_inv lib cap s" and "0 < cap"
  shows "prefix (arrivals_of lib (s a)) (map received_payload (pe_sent (s (\<not> a))))"
  using assms received_prefix [of "pe_read (s a)" "written (s (\<not> a))" lib] written_received(1) [of lib cap "s (\<not> a)"]
  by (auto simp: joined_inv_def intro: prefix_order.trans)

lemma arrived_rpc:
  assumes "joined_inv lib cap s" and "0 < cap" and "r \<in> set (rpcs op (arrivals_of lib (s a)))"
  shows "\<exists>r0\<in>set (rpcs op (pe_sent (s (\<not> a)))). r = received_rpc r0"
proof -
  have "r \<in> set (rpcs op (map received_payload (pe_sent (s (\<not> a)))))"
    using set_mono_prefix [OF arrivals_sent [OF assms(1,2), of a]] assms(3) by auto
  then show ?thesis unfolding rpcs_received by auto
qed

lemma arrived_ids:
  assumes "joined_inv lib cap s" and "0 < cap"
  shows "prefix (map rp_requestId (rpcs op (arrivals_of lib (s a)))) (map rp_requestId (rpcs op (pe_sent (s (\<not> a)))))"
proof -
  obtain rest where "map received_payload (pe_sent (s (\<not> a))) = arrivals_of lib (s a) @ rest"
    using arrivals_sent [OF assms, of a] by (auto simp: prefix_def)
  then have "map received_rpc (rpcs op (pe_sent (s (\<not> a)))) = rpcs op (arrivals_of lib (s a)) @ rpcs op rest"
    by (metis rpcs_received rpcs_simps(3))
  then have "map (rp_requestId \<circ> received_rpc) (rpcs op (pe_sent (s (\<not> a)))) =
      map rp_requestId (rpcs op (arrivals_of lib (s a))) @ map rp_requestId (rpcs op rest)"
    by (metis list.map_comp map_append)
  then show ?thesis by (simp add: comp_def prefix_def)
qed

text \<open>What is behind a response that has arrived.\<close>

lemma response_origin:
  assumes "joined_inv lib cap s" and "0 < cap" and "r \<in> set (rpcs RpcOp_RequestResponse (arrivals_of lib (s a)))"
  shows "\<exists>q r0 target. q \<in> set (rpcs RpcOp_Request (pe_sent (s a))) \<and> rp_requestId q = rp_requestId r \<and> r = received_rpc r0 \<and>
     answer_of (bk_router (ep_broker (pe_endpoint (s (\<not> a)))))
       ((received_rpc q)\<lparr>rp_meta := (rp_meta (received_rpc q))\<lparr>pm_replyTarget := target\<rparr>\<rparr>) r0"
proof -
  let ?other = "s (\<not> a)"
  obtain r0 where r0: "r0 \<in> set (rpcs RpcOp_RequestResponse (pe_sent ?other))" "r = received_rpc r0"
    using arrived_rpc [OF assms] by blast
  with assms(1) obtain q1 where
    q1: "q1 \<in> asked (arrivals_of lib ?other)" "answer_of (bk_router (ep_broker (pe_endpoint ?other))) q1 r0"
    unfolding joined_inv_def peer_inv_def serve_inv_def by blast
  then obtain q2 target where q2: "q2 \<in> set (rpcs RpcOp_Request (arrivals_of lib ?other))"
    "q1 = q2\<lparr>rp_meta := (rp_meta q2)\<lparr>pm_replyTarget := target\<rparr>\<rparr>" unfolding asked_def by blast
  obtain q where q: "q \<in> set (rpcs RpcOp_Request (pe_sent (s a)))" "q2 = received_rpc q"
    using arrived_rpc [OF assms(1,2) q2(1)] by auto
  have "rp_requestId q = rp_requestId r"
    using answer_of_id [OF q1(2)] by (simp add: q2(2) q(2) r0(2))
  with q r0(2) q1(2) q2(2) show ?thesis by blast
qed

section \<open>Every step keeps it\<close>

lemma step_inv:
  assumes "peer_step lib cap input p p'" and "peer_inv lib cap p" and "0 < cap"
    and "\<forall>x\<in>set (received lib input). plain_payload x"
    and "rp_requestId ` set (rpcs RpcOp_RequestResponse (arrivals_of lib p)) \<subseteq> rp_requestId ` set (rpcs RpcOp_Request (pe_sent p))"
  shows "peer_inv lib cap p'"
  using assms
proof (induction rule: peer_step.induct)
  case (Request q ok e)
  then show ?case by (intro request_step)
next
  case (Stream x)
  then show ?case by (intro stream_step)
next
  case (Heartbeat i)
  then show ?case by (intro heartbeat_step)
next
  case (Poll chunks results n ok e u)
  have "set (received lib (pe_read p @ concat chunks)) \<subseteq> set (received lib input)"
    using received_prefix [OF Poll.hyps(1)] by (simp add: set_mono_prefix)
  with Poll show ?case by (intro poll_step) blast+
next
  case (Take i r e)
  then show ?case by (intro take_step)
next
  case (Notice opcode i r e)
  then show ?case by (intro notice_step)
qed (intro abandon_step)

lemma joined_step:
  assumes "joined_inv lib cap s" and "0 < cap" and "peer_step lib cap (written (s (\<not> a))) (s a) p"
  shows "joined_inv lib cap (s(a := p))"
proof -
  let ?other = "s (\<not> a)"
  have inv: "peer_inv lib cap (s b)" "prefix (pe_read (s b)) (written (s (\<not> b)))" for b
    using assms(1) by (simp_all add: joined_inv_def)
  have "\<forall>x\<in>set (map received_payload (pe_sent ?other)). plain_payload x"
    using inv(1) [of "\<not> a"] by (simp add: peer_inv_def port_inv_def Let_def)
  then have "\<forall>x\<in>set (received lib (written ?other)). plain_payload x"
    using set_mono_prefix [OF written_received(1) [OF inv(1) [of "\<not> a"] assms(2)]] by blast
  moreover have "rp_requestId ` set (rpcs RpcOp_RequestResponse (arrivals_of lib (s a))) \<subseteq>
      rp_requestId ` set (rpcs RpcOp_Request (pe_sent (s a)))"
  proof
    fix i assume "i \<in> rp_requestId ` set (rpcs RpcOp_RequestResponse (arrivals_of lib (s a)))"
    then obtain r where "r \<in> set (rpcs RpcOp_RequestResponse (arrivals_of lib (s a)))" "i = rp_requestId r" by blast
    with response_origin [OF assms(1,2) this(1)] show "i \<in> rp_requestId ` set (rpcs RpcOp_Request (pe_sent (s a)))"
      by (metis image_eqI)
  qed
  ultimately have p: "peer_inv lib cap p" using step_inv [OF assms(3) inv(1) assms(2)] by simp
  have reads: "prefix (pe_read p) (written ?other)" using step_reads [OF assms(3) inv(2)] .
  have writes: "prefix (pe_read ?other) (written p)"
    using step_writes [OF assms(3)] inv(2) [of "\<not> a"] by (auto intro: prefix_order.trans)
  show ?thesis unfolding joined_inv_def
  proof
    fix b
    show "peer_inv lib cap ((s(a := p)) b) \<and> prefix (pe_read ((s(a := p)) b)) (written ((s(a := p)) (\<not> b)))"
      using p reads writes inv(1) [of "\<not> a"] by (cases "b = a"; cases b; cases a) simp_all
  qed
qed

lemma connected_inv:
  assumes "connected lib cap s" and "0 < cap"
  shows "joined_inv lib cap s"
  using assms(1)
proof (induction rule: connected.induct)
  case (Start s)
  then have "fresh_peer cap (s a)" for a by (cases a) simp_all
  then show ?case by (simp add: joined_inv_def fresh_peer_inv) (simp add: fresh_peer_def)
qed (rule joined_step [OF _ assms(2)])

lemma used_once:
  assumes "distinct (used_ids xs)" and "i \<noteq> 0"
  shows "count (mset xs) i \<le> 1"
proof -
  have "count (mset xs) i = count (mset (used_ids xs)) i" using assms(2) by (simp add: used_ids_def mset_filter)
  also have "\<dots> \<le> 1" using assms(1) by (simp add: distinct_count_atmost_1)
  finally show ?thesis .
qed

lemma calls_inv_distinct:
  assumes "calls_inv t responses requests taken"
  shows "distinct (used_ids (map rp_requestId requests))" "distinct (used_ids (map fst taken))"
  using assms by (simp_all add: calls_inv_def)

section \<open>Properties\<close>

text \<open>
  C1. A response answers its own request: in every reachable state of two connected peers, a response
  that a peer holds or has taken under a request id is, as it travels over the wire, what the other
  peer's router answered - its handler at once or deferred, a validator, or an error status - to the
  request that this peer itself sent under that id, as it arrived there.
\<close>

theorem answers_agree:
  assumes "connected lib cap s" and "0 < cap"
    and "pc_resolved (co_pendingCalls (ep_core (pe_endpoint (s a)))) i = Some r \<or> (i, r) \<in> set (pe_taken (s a))"
  shows "\<exists>q r0 target. PRpc q \<in> set (pe_sent (s a)) \<and> rp_op q = RpcOp_Request \<and> rp_requestId q = i \<and> r = received_rpc r0 \<and>
     answer_of (bk_router (ep_broker (pe_endpoint (s (\<not> a)))))
       ((received_rpc q)\<lparr>rp_meta := (rp_meta (received_rpc q))\<lparr>pm_replyTarget := target\<rparr>\<rparr>) r0"
proof -
  have "r \<in> set (rpcs RpcOp_RequestResponse (arrivals_of lib (s a))) \<and> rp_requestId r = i"
    using connected_inv [OF assms(1,2)] assms(3) unfolding joined_inv_def peer_inv_def calls_inv_def by blast
  with response_origin [OF connected_inv [OF assms(1,2)] assms(2), of r a] show ?thesis by auto
qed

text \<open>The plain client and the server that reverses its argument, joined, for one call.\<close>

definition reverse_peers :: "bool \<Rightarrow> unit peer" where
  "reverse_peers a = \<lparr>pe_endpoint = (if a then cl_endpoint plain_client else reverse_server),
     pe_app = (), pe_before = 0, pe_read = [], pe_sent = [], pe_taken = [], pe_throws = 0\<rparr>"

lemma reverse_peers_simps:
  "pe_endpoint (reverse_peers True) = cl_endpoint plain_client" "pe_endpoint (reverse_peers False) = reverse_server"
  "pe_app (reverse_peers a) = ()" "pe_read (reverse_peers a) = []" "pe_sent (reverse_peers a) = []"
  "pe_taken (reverse_peers a) = []" "pe_throws (reverse_peers a) = 0" "pe_before (reverse_peers a) = 0"
  by (simp_all add: reverse_peers_def)

lemma reverse_calls: "ep_calls (cl_endpoint plain_client) = []"
  by (simp add: plain_client_def client_attachTransport_def client_close_def reset_session_def AxtpClient_def Let_def
      attachTransport_def AxtpEndpoint_def endpoint_setIngressTokenProvider_def)

lemma reverse_start: "connected braces_lib 4082 reverse_peers"
proof (rule connected.Start)
  show "fresh_peer 4082 (reverse_peers True)"
    using default_port [of AxtpCore] plain_client_simps(7)
    by (simp add: fresh_peer_def reverse_peers_def plain_client_simps reverse_calls)
  have "co_pendingCalls (ep_core reverse_server) = PendingCallTable_empty"
    by (simp add: reverse_server_def attachTransport_def AxtpEndpoint_def AxtpCore_def configure_def Let_def
        setIngressReplyTargetProvider_def core_resetResponseTracking_def reset_calls_def PendingCallTable_empty_def)
  then show "fresh_peer 4082 (reverse_peers False)"
    using reverse_server_simps by (simp add: fresh_peer_def reverse_peers_def)
qed

lemma reverse_dispatched:
  "dispatchRpcRequest (bk_router (ep_broker reverse_server)) reverse_query () =
     (Some \<lparr>rd_response = tlv_response reverse_query [3, 2, 1], rd_deferredPoll = None\<rparr>, ())"
proof -
  have "rp_methodOrEventId reverse_query = 0x101" "rp_body reverse_query = [1, 2, 3]"
    by (simp_all add: reverse_query_def arrived_def received_rpc_def reverse_sent_def reverse_request_def)
  then show ?thesis
    using reverse_server_simps(3)
    by (intro dispatch_tlv [where router = BusinessRouter and handler = "\<lambda>context body u. (Some (rev body), u)"])
      (simp_all add: BusinessRouter_def)
qed

lemma rpcs_only: "\<forall>x\<in>set ps. \<exists>q. x = PRpc q \<Longrightarrow> core_replies ps = []"
  by (induction ps) auto

lemma Poll_all:
  assumes "connected lib cap s" and "pe_read (s a) @ concat chunks = written (s (\<not> a))"
    and "0 < cap" and "\<forall>x\<in>set (pe_sent (s (\<not> a))). \<exists>q. x = PRpc q"
    and "polled_results lib (pe_endpoint (s a)) chunks n (pe_app (s a)) = rs" and "\<forall>r\<in>set rs. rpc_fits cap (br_rpc r)"
    and "endpoint_poll lib (pe_endpoint (s a)) chunks n (pe_app (s a)) = (True, e, u)"
  shows "connected lib cap (s(a := (s a)\<lparr>pe_endpoint := e, pe_app := u, pe_read := written (s (\<not> a)),
     pe_sent := pe_sent (s a) @ queued_payloads rs\<rparr>))"
proof -
  have "peer_inv lib cap (s (\<not> a))" using connected_inv [OF assms(1,3)] by (simp add: joined_inv_def)
  from set_mono_prefix [OF written_received(1) [OF this assms(3)]] assms(4)
  have "\<forall>x\<in>set (received lib (written (s (\<not> a)))). \<exists>q. x = PRpc q" by fastforce
  then have "core_replies (newly_received lib (pe_read (s a)) (concat chunks)) = []"
    by (intro rpcs_only) (auto simp: newly_received_def assms(2) dest: in_set_dropD)
  with connected.Step [OF assms(1) peer_step.Poll [OF _ assms(5) [symmetric] assms(6,7)]] assms(2) show ?thesis by simp
qed

lemma reverse_polled:
  assumes "\<And>c. idle (co_inbound c) \<Longrightarrow> core_feed braces_lib c chunks = handleRpc braces_lib (received_rpc reverse_sent) c"
  shows "polled_results braces_lib reverse_server chunks 8 () = [rpcResult (tlv_response reverse_query [3, 2, 1])]"
proof -
  have rest: "ep_attached reverse_server" "idle (co_inbound (ep_core reverse_server))" "co_events (ep_core reverse_server) = []"
    "co_outboundReplyTarget (ep_core reverse_server) = 0" "broker_at_rest (ep_broker reverse_server)"
    using reverse_server_simps(1) by (simp_all add: at_rest_def core_at_rest_def)
  have op: "rp_op reverse_sent = RpcOp_Request" by (simp add: reverse_sent_def)
  let ?s = "reverse_server\<lparr>ep_core := handleRpc braces_lib (received_rpc reverse_sent) (ep_core reverse_server)\<rparr>"
  have "has_request ?s reverse_query"
    using rest by (simp add: has_request_def handleRpc_request [OF op] broker_at_rest_def reverse_query_def)
  from poll_one [OF this, of "()" _ "()" 7] reverse_dispatched polled_eq [OF rest(1) assms [OF rest(2)], of 8 "()"] rest(5)
  show ?thesis by (simp add: loaded_broker_def broker_at_rest_def)
qed

lemma reverse_requested:
  "\<exists>s up t. connected braces_lib 4082 s \<and> pe_before (s True) = 0 \<and> pe_throws (s True) = 0 \<and> pe_endpoint (s True) = (cl_endpoint plain_client)\<lparr>ep_core :=
       (ep_core (cl_endpoint plain_client))\<lparr>co_pendingCalls := t, co_outbound := fst up\<rparr>,
       ep_calls := map (send_to 0) (snd up)\<rparr> \<and> pe_read (s True) = [] \<and> s False = reverse_peers False \<and>
     pe_sent (s True) = [PRpc reverse_sent] \<and> expect_call PendingCallTable_empty 1 = (True, t) \<and>
     (\<forall>c. idle (co_inbound c) \<longrightarrow> core_feed braces_lib c [concat (snd up)] = handleRpc braces_lib (received_rpc reverse_sent) c)"
proof -
  let ?e = "cl_endpoint plain_client"
  have port: "framed_port (co_outbound (ep_core ?e)) 4082" "rp_op reverse_sent = RpcOp_Request" "rp_requestId reverse_sent = 1"
    using default_port [of AxtpCore] by (simp_all add: plain_client_simps reverse_sent_def)
  obtain t where t: "expect_call PendingCallTable_empty 1 = (True, t)" by (simp add: expect_call_def PendingCallTable_empty_def)
  from rpc_reaches [OF port(1) _ reverse_fits(1), of braces_lib] obtain op' up where
    up: "sendRpc braces_lib snoc (co_outbound (ep_core ?e)) reverse_sent [] = Some (op', up)"
    "\<And>c. idle (co_inbound c) \<Longrightarrow> core_feed braces_lib c [concat up] = handleRpc braces_lib (received_rpc reverse_sent) c" by auto
  have "ep_attached ?e" "co_outboundBytes (ep_core ?e) = []" "co_outboundReplyTarget (ep_core ?e) = 0"
    using plain_client_simps(7) by (simp_all add: at_rest_def core_at_rest_def)
  from sendRequest_leaves [OF this up(1)] t have
    "endpoint_sendRpcRequest braces_lib (pe_endpoint (reverse_peers True)) reverse_sent = (Some True, ?e\<lparr>ep_core := (ep_core ?e)\<lparr>
       co_pendingCalls := t, co_outbound := op'\<rparr>, ep_calls := ep_calls ?e @ map (send_to 0) up\<rparr>)"
    by (simp add: plain_client_simps port(3) reverse_peers_def)
  from connected.Step [OF reverse_start peer_step.Request [OF port(2) reverse_fits(1) this]] t up(2) show ?thesis
    by (intro exI [of _ "reverse_peers(True := (reverse_peers True)\<lparr>pe_endpoint := ?e\<lparr>ep_core := (ep_core ?e)\<lparr>
          co_pendingCalls := t, co_outbound := op'\<rparr>, ep_calls := map (send_to 0) up\<rparr>, pe_sent := [PRpc reverse_sent]\<rparr>)"]
        exI [of _ "(op', up)"] exI [of _ t])
      (simp add: reverse_calls reverse_peers_simps)
qed

lemma written_targets: "ep_calls (pe_endpoint p) = map (send_to target) ws \<Longrightarrow> pe_before p = 0 \<Longrightarrow> written p = concat ws"
  by (simp add: written_def send_to_def comp_def)

text \<open>Request and response have been sent, and the server has read the request.\<close>

definition reverse_exchanged :: "(bool \<Rightarrow> unit peer) \<Rightarrow> bool" where
  "reverse_exchanged s \<longleftrightarrow> pe_sent (s True) = [PRpc reverse_sent] \<and>
     pe_sent (s False) = [PRpc (tlv_response reverse_query [3, 2, 1])] \<and> pe_read (s False) = written (s True) \<and>
     pe_throws (s False) = 0 \<and> pe_throws (s True) = 0"

lemma reverse_answered:
  "\<exists>s t op' down. connected braces_lib 4082 s \<and> reverse_exchanged s \<and> pe_endpoint (s True) = (cl_endpoint plain_client)\<lparr>ep_core :=
       (ep_core (cl_endpoint plain_client))\<lparr>co_pendingCalls := t, co_outbound := op'\<rparr>, ep_calls := ep_calls (pe_endpoint (s True))\<rparr> \<and>
     pe_read (s True) = [] \<and> expect_call PendingCallTable_empty 1 = (True, t) \<and> written (s False) = concat down \<and>
     (\<forall>c. idle (co_inbound c) \<longrightarrow> core_feed braces_lib c [concat down] =
        handleRpc braces_lib (received_rpc (tlv_response reverse_query [3, 2, 1])) c)"
proof -
  let ?r = "tlv_response reverse_query [3, 2, 1]"
  have op: "rp_op reverse_sent = RpcOp_Request" by (simp add: reverse_sent_def)
  obtain s t op' up where s: "connected braces_lib 4082 s" "pe_endpoint (s True) = (cl_endpoint plain_client)\<lparr>ep_core :=
       (ep_core (cl_endpoint plain_client))\<lparr>co_pendingCalls := t, co_outbound := op'\<rparr>, ep_calls := map (send_to 0) up\<rparr>"
     "pe_read (s True) = []" "s False = reverse_peers False" "pe_sent (s True) = [PRpc reverse_sent]"
     "expect_call PendingCallTable_empty 1 = (True, t)"
     "\<And>c. idle (co_inbound c) \<Longrightarrow> core_feed braces_lib c [concat up] = handleRpc braces_lib (received_rpc reverse_sent) c"
     "pe_before (s True) = 0" "pe_throws (s True) = 0"
    using reverse_requested by auto
  note d = reverse_dispatched [unfolded reverse_query_def]
  from server_answers [OF reverse_server_simps(1,2) _ op d reverse_fits(2) [unfolded reverse_query_def], of braces_lib "[concat up]" 7]
    s(7) obtain s' down where
    poll: "endpoint_poll braces_lib reverse_server [concat up] 8 () = (True, s', ())"
      "ep_calls s' = map (send_to (pm_replyTarget (rp_meta ?r))) down"
    and down: "\<And>c arrivals. idle (co_inbound c) \<Longrightarrow> concat arrivals = concat down \<Longrightarrow>
      core_feed braces_lib c arrivals = handleRpc braces_lib (received_rpc ?r) c"
    by (auto simp: reverse_query_def reverse_server_simps(4))
  have "polled_results braces_lib reverse_server [concat up] 8 () = [rpcResult ?r]" by (rule reverse_polled) (fact s(7))
  note poll_server = this poll(1)
  have up: "written (s True) = concat up" by (rule written_targets [where target = 0]) (simp_all add: s(2,8))
  with Poll_all [OF s(1), where a = False and chunks = "[concat up]" and n = 8] poll_server s(4,5) reverse_fits(2) have
    "connected braces_lib 4082 (s(False := (s False)\<lparr>pe_endpoint := s', pe_app := (), pe_read := concat up,
       pe_sent := queued_payloads [rpcResult ?r]\<rparr>))" by (simp add: reverse_peers_simps)
  with s poll(2) down up show ?thesis
    by (intro exI [of _ "s(False := (s False)\<lparr>pe_endpoint := s', pe_app := (), pe_read := concat up,
          pe_sent := queued_payloads [rpcResult ?r]\<rparr>)"] exI [of _ t] exI [of _ op'] exI [of _ down])
      (simp add: written_targets reverse_exchanged_def queued_payloads_def reverse_peers_simps)
qed

lemma reverse_returned:
  "\<exists>s. connected braces_lib 4082 (s :: bool \<Rightarrow> unit peer) \<and> reverse_exchanged s \<and> pe_read (s True) = written (s False) \<and>
     pc_resolved (calls_of (s True)) 1 = Some (received_rpc (tlv_response reverse_query [3, 2, 1]))"
proof -
  let ?r = "tlv_response reverse_query [3, 2, 1]"
  obtain s t op' down where s: "connected braces_lib 4082 s" "pe_endpoint (s True) = (cl_endpoint plain_client)\<lparr>ep_core :=
       (ep_core (cl_endpoint plain_client))\<lparr>co_pendingCalls := t, co_outbound := op'\<rparr>, ep_calls := ep_calls (pe_endpoint (s True))\<rparr>"
     "pe_read (s True) = []" "expect_call PendingCallTable_empty 1 = (True, t)" "written (s False) = concat down"
     "\<And>c. idle (co_inbound c) \<Longrightarrow> core_feed braces_lib c [concat down] = handleRpc braces_lib (received_rpc ?r) c"
     "reverse_exchanged s"
    using reverse_answered by auto
  let ?e = "pe_endpoint (s True)"
  have rest: "at_rest ?e" "co_pendingCalls (ep_core ?e) = t"
    using plain_client_simps(7) by (subst s(2), simp add: at_rest_def core_at_rest_def)+
  have poll: "endpoint_poll braces_lib ?e [concat down] 8 (pe_app (s True)) = (True, ?e\<lparr>ep_core := (ep_core ?e)
      \<lparr>co_inboundActivityGeneration := co_inboundActivityGeneration (ep_core ?e) + 1,
       co_pendingCalls := resolve_call t 1 (received_rpc ?r)\<rparr>\<rparr>, pe_app (s True))"
    using client_receives [OF rest(1) _ s(6), of 8 "pe_app (s True)"]
    by (simp add: rest(2) reverse_query_def arrived_def reverse_sent_def)
  have "ep_attached ?e" "idle (co_inbound (ep_core ?e))" "co_events (ep_core ?e) = []" "broker_at_rest (ep_broker ?e)"
    using rest(1) by (simp_all add: at_rest_def core_at_rest_def)
  then have "polled_results braces_lib ?e [concat down] 8 (pe_app (s True)) = []"
    by (simp add: polled_eq [OF _ s(6)] handleRpc_response loaded_broker_def broker_poll_def pollPendingCompletions_def
        broker_at_rest_def pollTasks_empty)
  moreover define s2 where "s2 = s(True := (s True)\<lparr>pe_endpoint := ?e\<lparr>ep_core := (ep_core ?e)
       \<lparr>co_inboundActivityGeneration := co_inboundActivityGeneration (ep_core ?e) + 1,
        co_pendingCalls := resolve_call t 1 (received_rpc ?r)\<rparr>\<rparr>, pe_app := pe_app (s True), pe_read := concat down,
        pe_sent := pe_sent (s True)\<rparr>)"
  moreover have "\<forall>x\<in>set (pe_sent (s (\<not> True))). \<exists>q. x = PRpc q" using s(7) by (simp add: reverse_exchanged_def)
  ultimately have "connected braces_lib 4082 s2"
    using Poll_all [OF s(1), where a = True and chunks = "[concat down]" and n = 8] poll s(3,5) by (simp add: queued_payloads_def)
  moreover have "pc_resolved (calls_of (s2 True)) 1 = Some (received_rpc ?r)"
    using s(4) by (auto simp: s2_def expect_call_def PendingCallTable_empty_def resolve_call_def isPending_def Let_def)
  moreover have "reverse_exchanged s2" "pe_read (s2 True) = written (s2 False)"
    using s(5,7) by (simp_all add: s2_def reverse_exchanged_def written_def)
  ultimately show ?thesis by blast
qed

theorem answers_agree_witness:
  "\<exists>s q r0 target. connected braces_lib 4082 (s :: bool \<Rightarrow> unit peer) \<and> PRpc q \<in> set (pe_sent (s True)) \<and> rp_requestId q = 1 \<and>
     rp_body r0 = [3, 2, 1] \<and> answer_of (bk_router (ep_broker (pe_endpoint (s False))))
       ((received_rpc q)\<lparr>rp_meta := (rp_meta (received_rpc q))\<lparr>pm_replyTarget := target\<rparr>\<rparr>) r0"
proof -
  obtain s :: "bool \<Rightarrow> unit peer" where s: "connected braces_lib 4082 s"
    "pc_resolved (co_pendingCalls (ep_core (pe_endpoint (s True)))) 1 = Some (received_rpc (tlv_response reverse_query [3, 2, 1]))"
    using reverse_returned by blast
  have "rp_body (received_rpc r0) = rp_body r0" for r0 by simp
  moreover have "(0 :: nat) < 4082" by simp
  ultimately show ?thesis
    using s(1) answers_agree [OF s(1) _ disjI1 [OF s(2)], unfolded not_True_eq_False] by (metis tlv_response_simps(3))
qed

text \<open>
  C4. A request is handled at most once: in every reachable state of two connected peers, a request id
  other than zero has been sent at most once, the other peer holds or has answered it at most as often
  as it was sent, whether queued, deferred or in its result queue, and at most one response has been
  taken under it.
\<close>

theorem handled_at_most_once:
  assumes "connected lib cap s" and "0 < cap" and "i \<noteq> 0"
  shows "count (mset (map rp_requestId (rpcs RpcOp_Request (pe_sent (s a))))) i \<le> 1 \<and>
     count (image_mset fst (broker_calls (ep_broker (pe_endpoint (s (\<not> a)))))) i +
       count (mset (map rp_requestId (rpcs RpcOp_RequestResponse (pe_sent (s (\<not> a)))))) i \<le>
       count (mset (map rp_requestId (rpcs RpcOp_Request (pe_sent (s a))))) i \<and>
     count (mset (map fst (pe_taken (s a)))) i \<le> 1"
proof -
  let ?other = "s (\<not> a)"
  note inv = connected_inv [OF assms(1,2)]
  have mine: "calls_inv (calls_of (s a)) (rpcs RpcOp_RequestResponse (arrivals_of lib (s a))) (rpcs RpcOp_Request (pe_sent (s a)))
      (pe_taken (s a))" using inv by (simp add: joined_inv_def peer_inv_def)
  obtain lost where other: "image_mset fst (broker_calls (ep_broker (pe_endpoint ?other))) +
      mset (map rp_requestId (rpcs RpcOp_RequestResponse (pe_sent ?other))) + lost =
      mset (map rp_requestId (rpcs RpcOp_Request (arrivals_of lib ?other)))"
    using inv by (auto simp: joined_inv_def peer_inv_def serve_inv_def)
  obtain rest where "map rp_requestId (rpcs RpcOp_Request (pe_sent (s a))) =
      map rp_requestId (rpcs RpcOp_Request (arrivals_of lib ?other)) @ rest"
    using arrived_ids [OF inv assms(2), of RpcOp_Request "\<not> a"] by (auto simp: prefix_def)
  then have "count (mset (map rp_requestId (rpcs RpcOp_Request (arrivals_of lib ?other)))) i \<le>
      count (mset (map rp_requestId (rpcs RpcOp_Request (pe_sent (s a))))) i" by simp
  moreover note arg_cong [OF other, of "\<lambda>m. count m i", unfolded count_union]
  moreover have "count (mset (map rp_requestId (rpcs RpcOp_Request (pe_sent (s a))))) i \<le> 1"
    "count (mset (map fst (pe_taken (s a)))) i \<le> 1"
    using used_once [OF calls_inv_distinct(1) [OF mine] assms(3)] used_once [OF calls_inv_distinct(2) [OF mine] assms(3)] by blast+
  ultimately show ?thesis by linarith
qed

theorem handled_at_most_once_witness:
  "\<exists>s. connected braces_lib 4082 (s :: bool \<Rightarrow> unit peer) \<and> pc_resolved (co_pendingCalls (ep_core (pe_endpoint (s True)))) 1 \<noteq> None \<and>
     count (mset (map rp_requestId (rpcs RpcOp_RequestResponse (pe_sent (s False))))) 1 \<le> 1"
proof -
  obtain s :: "bool \<Rightarrow> unit peer" where s: "connected braces_lib 4082 s"
    "pc_resolved (co_pendingCalls (ep_core (pe_endpoint (s True)))) 1 = Some (received_rpc (tlv_response reverse_query [3, 2, 1]))"
    using reverse_returned by blast
  have "(0 :: nat) < 4082" "(1 :: u32) \<noteq> 0" by simp_all
  from handled_at_most_once [OF s(1) this, of True, unfolded not_True_eq_False]
  have "count (mset (map rp_requestId (rpcs RpcOp_RequestResponse (pe_sent (s False))))) 1 \<le> 1" by linarith
  with s show ?thesis by blast
qed

lemma pending_waits: "table_inv t \<Longrightarrow> i \<noteq> 0 \<Longrightarrow> isPending t i \<longleftrightarrow> life_of t i = call_life.Waiting"
  by (auto simp: isPending_def life_of_def table_inv_def split: option.splits)

text \<open>
  C3. No call hangs: in every reachable state of two connected peers in which each has read all that the
  other has written, the other peer holds no request any more, and no handler's exception has left a
  poll, every request that a peer has sent under an id other than zero has been answered, its
  response has arrived, and the call is not pending.
\<close>

theorem no_call_hangs:
  assumes "connected lib cap s" and "0 < cap"
    and "\<forall>b. pe_read (s b) = written (s (\<not> b)) \<and> pe_throws (s b) = 0"
    and "broker_calls (ep_broker (pe_endpoint (s (\<not> a)))) = {#}"
    and "PRpc q \<in> set (pe_sent (s a))" and "rp_op q = RpcOp_Request" and "rp_requestId q \<noteq> 0"
  shows "(\<exists>r. PRpc r \<in> set (pe_sent (s (\<not> a))) \<and> rp_op r = RpcOp_RequestResponse \<and> rp_requestId r = rp_requestId q) \<and>
     \<not> isPending (co_pendingCalls (ep_core (pe_endpoint (s a)))) (rp_requestId q)"
proof -
  let ?other = "s (\<not> a)"
  note inv = connected_inv [OF assms(1,2)]
  then have peers: "peer_inv lib cap (s b)" for b by (simp add: joined_inv_def)
  have ids: "map rp_requestId (rpcs op (arrivals_of lib (s b))) = map rp_requestId (rpcs op (pe_sent (s (\<not> b))))" for op b
    using assms(3) written_received(2) [OF peers [of "\<not> b"] assms(2)] by (simp add: rpcs_received comp_def)
  have "mset (map rp_requestId (rpcs RpcOp_RequestResponse (pe_sent ?other))) =
      mset (map rp_requestId (rpcs RpcOp_Request (arrivals_of lib ?other)))"
    using peers [of "\<not> a"] assms(3,4) by (simp add: peer_inv_def serve_inv_def)
  then have same: "set (map rp_requestId (rpcs RpcOp_RequestResponse (pe_sent ?other))) =
      set (map rp_requestId (rpcs RpcOp_Request (pe_sent (s a))))"
    using ids [of RpcOp_Request "\<not> a"] by (metis mset_eq_setD not_not)
  have "q \<in> set (rpcs RpcOp_Request (pe_sent (s a)))" using assms(5,6) by simp
  with same have answered: "rp_requestId q \<in> set (map rp_requestId (rpcs RpcOp_RequestResponse (pe_sent ?other)))"
    by (metis image_eqI list.set_map)
  then have "rp_requestId q \<in> set (map rp_requestId (rpcs RpcOp_RequestResponse (arrivals_of lib (s a))))"
    unfolding ids .
  with peers [of a] assms(7) pending_waits have "\<not> isPending (calls_of (s a)) (rp_requestId q)"
    by (auto simp: peer_inv_def calls_inv_def)
  with answered show ?thesis by auto
qed

theorem no_call_hangs_witness:
  "\<exists>s. connected braces_lib 4082 (s :: bool \<Rightarrow> unit peer) \<and> PRpc reverse_sent \<in> set (pe_sent (s True)) \<and>
     \<not> isPending (co_pendingCalls (ep_core (pe_endpoint (s True)))) 1"
proof -
  obtain s :: "bool \<Rightarrow> unit peer" where s: "connected braces_lib 4082 s" "reverse_exchanged s" "pe_read (s True) = written (s False)"
    using reverse_returned by blast
  have cap: "(0 :: nat) < 4082" by simp
  note inv = connected_inv [OF s(1) cap]
  have sent: "pe_sent (s True) = [PRpc reverse_sent]" "pe_sent (s False) = [PRpc (tlv_response reverse_query [3, 2, 1])]"
    "pe_read (s False) = written (s True)" "pe_throws (s False) = 0" "pe_throws (s True) = 0" "rp_op reverse_sent = RpcOp_Request" "rp_requestId reverse_sent = 1"
    "rp_requestId reverse_query = 1"
    using s(2) by (simp_all add: reverse_exchanged_def reverse_sent_def reverse_query_def arrived_def)
  have peers: "peer_inv braces_lib 4082 (s a)" for a using inv by (simp add: joined_inv_def)
  have "rpcs RpcOp_Request (arrivals_of braces_lib (s False)) = [received_rpc reverse_sent]"
    using written_received(2) [OF peers [of True] cap] rpcs_received [of RpcOp_Request "[PRpc reverse_sent]"] by (simp add: sent)
  with peers [of False] have "broker_calls (ep_broker (pe_endpoint (s False))) = {#}"
    by (auto simp: peer_inv_def serve_inv_def sent union_is_single)
  moreover have "pe_read (s b) = written (s (\<not> b)) \<and> pe_throws (s b) = 0" for b using s(3) sent(3-5) by (cases b) simp_all
  ultimately show ?thesis using no_call_hangs [OF s(1) cap, of True reverse_sent] s(1) sent by auto
qed

end
