(* ===== verification/Ws_Adapter.thy ===== *)
theory Ws_Adapter
  imports Endpoint
begin

text \<open>
  The WebSocket JSON-RPC adapter (\<^verbatim>\<open>json_rpc/websocket_json_rpc_adapter.hpp\<close>), which stands between a
  text transport and the endpoint: it greets each new connection, answers IDENTIFY itself and lets a
  message through to the core only when the session permits it.

  The transport it writes to is the one its endpoint is attached to, so what both send is one
  sequence, \<open>ep_calls\<close>. The messages the transport holds are \<open>wa_incoming\<close>; polling it hands them
  to the adapter one by one, and the adapter's own poll of the endpoint polls the transport again from
  inside such a call. An exception is taken to be a \<^verbatim>\<open>std::exception\<close>.

  Shown here: a request reaches neither core nor handler without an identified session and its session
  id; a session is identified only by an IDENTIFY received since the connection was made; events are
  not held back in the same way.
\<close>

section \<open>State\<close>

record 'u ws_adapter =
  wa_endpoint :: "'u axtp_endpoint"
  wa_incoming :: "bytes list"
  wa_helloSent :: bool
  wa_identified :: bool
  wa_activeConnectionGeneration :: u64
  wa_nextSessionId :: u32
  wa_sid :: string

definition wa_makeSessionId :: "u32 \<Rightarrow> u32 \<Rightarrow> string \<times> u32" where
  "wa_makeSessionId randomSeed nextSessionId =
     (let mixed = randomSeed XOR (nextSessionId * 0x9E3779B9);
          nextSessionId = nextSessionId + 1;
          mixed = (if mixed = 0 then nextSessionId else mixed)
      in (hex8 mixed, nextSessionId))"

definition jsonRpcProfile :: "transport_profile \<Rightarrow> transport_profile" where
  "jsonRpcProfile profile =
     profile\<lparr>tp_wireMode := WebSocketJsonRpc, tp_defaultRpcEncoding := RpcEncoding_Json, tp_messageOriented := True,
       tp_supportsTextMessage := True, tp_supportsBinaryMessage := False\<rparr>"

text \<open>The lookup asks the broker's registry at each call; here it is renewed before each message.\<close>

definition renewLookup :: "'u axtp_endpoint \<Rightarrow> 'u axtp_endpoint" where
  "renewLookup e = e\<lparr>ep_core := setJsonRpcMethodLookup (ep_core e) (Some (findMethodId (ro_registry (bk_router (ep_broker e)))))\<rparr>"

definition WebSocketJsonRpcAdapter :: "'u axtp_endpoint \<Rightarrow> transport_profile \<Rightarrow> 'u ws_adapter" where
  "WebSocketJsonRpcAdapter e profile =
     (let e = renewLookup e;
          e = e\<lparr>ep_core := configure (ep_core e) (jsonRpcProfile profile)\<rparr>;
          (sid, nextSessionId) = wa_makeSessionId 0 1
      in \<lparr>wa_endpoint = e, wa_incoming = [], wa_helloSent = False, wa_identified = False,
          wa_activeConnectionGeneration = 0, wa_nextSessionId = nextSessionId, wa_sid = sid\<rparr>)"

section \<open>Sending\<close>

text \<open>False in the first component: an exception was thrown.\<close>

definition wa_sendRpc :: "json_lib \<Rightarrow> 'u ws_adapter \<Rightarrow> rpc_payload \<Rightarrow> bool \<times> 'u ws_adapter" where
  "wa_sendRpc lib a payload =
     (case JsonRpcEncoder_encode lib payload of
        None \<Rightarrow> (False, a)
      | Some data \<Rightarrow>
          (True, a\<lparr>wa_endpoint := (wa_endpoint a)\<lparr>ep_calls := ep_calls (wa_endpoint a) @ [SendBytes data]\<rparr>\<rparr>))"

definition wa_sendEvent :: "json_lib \<Rightarrow> 'u ws_adapter \<Rightarrow> rpc_payload \<Rightarrow> bool \<times> 'u ws_adapter" where
  "wa_sendEvent lib a payload =
     (let payload = payload\<lparr>rp_encoding := RpcEncoding_Json, rp_op := RpcOp_Event,
            rp_meta := (rp_meta payload)\<lparr>pm_sourceProtocol := JsonRpc\<rparr>\<rparr>;
          payload = (if wa_identified a \<and> pm_jsonSid (rp_meta payload) = ''''
                     then payload\<lparr>rp_meta := (rp_meta payload)\<lparr>pm_jsonSid := wa_sid a\<rparr>\<rparr> else payload)
      in wa_sendRpc lib a payload)"

definition sendHelloOnce :: "json_lib \<Rightarrow> 'u ws_adapter \<Rightarrow> bool \<times> 'u ws_adapter" where
  "sendHelloOnce lib a =
     (if wa_helloSent a then (True, a)
      else (let (ok, a) = wa_sendRpc lib a makeHello in (ok, if ok then a\<lparr>wa_helloSent := True\<rparr> else a)))"

definition wa_errorResponse :: "'u ws_adapter \<Rightarrow> string \<Rightarrow> u32 \<Rightarrow> error_code \<Rightarrow> rpc_op \<Rightarrow> endpoint_metadata \<Rightarrow> rpc_payload" where
  "wa_errorResponse a sid requestId code requestOp endpoint =
     RpcPayload_default\<lparr>rp_encoding := RpcEncoding_Json,
       rp_op := (if requestOp = RpcOp_RequestBatch then RpcOp_RequestBatchResponse else RpcOp_RequestResponse),
       rp_requestId := requestId, rp_statusCode := code, rp_bodyEncoding := RpcBodyEncoding_None,
       rp_meta := PayloadMeta_default\<lparr>pm_sourceProtocol := JsonRpc, pm_jsonSid := (if sid = '''' then wa_sid a else sid),
         pm_endpoint := endpoint\<rparr>\<rparr>"

definition wa_sendError ::
    "json_lib \<Rightarrow> 'u ws_adapter \<Rightarrow> string \<Rightarrow> u32 \<Rightarrow> error_code \<Rightarrow> rpc_op \<Rightarrow> endpoint_metadata \<Rightarrow> bool \<times> 'u ws_adapter" where
  "wa_sendError lib a sid requestId code requestOp endpoint =
     wa_sendRpc lib a (wa_errorResponse a sid requestId code requestOp endpoint)"

section \<open>Messages from the peer\<close>

text \<open>The request id of a refused message, zero where it has none; unlike the decoder's it never throws.\<close>

fun wa_natural_id :: "json \<Rightarrow> u32" where
  "wa_natural_id (JUnsigned raw) = (if raw \<le> 0xFFFFFFFF then ucast raw else 0)"
| "wa_natural_id (JInt raw) = (if sint raw > 0 \<and> sint raw \<le> 0xFFFFFFFF then ucast raw else 0)"
| "wa_natural_id _ = 0"

definition wa_requestId :: "json \<Rightarrow> u32" where
  "wa_requestId object =
     (case json_find object ''d'' of
        None \<Rightarrow> 0
      | Some d \<Rightarrow>
          if \<not> is_object d then 0
          else (case json_find d ''id'' of None \<Rightarrow> 0 | Some i \<Rightarrow> wa_natural_id i))"

definition isAcceptedSid :: "'u ws_adapter \<Rightarrow> string \<Rightarrow> bool" where
  "isAcceptedSid a sid \<longleftrightarrow> sid \<noteq> '''' \<and> sid = wa_sid a"

text \<open>The session id that a first IDENTIFY settles on.\<close>

definition chooseSid :: "'u ws_adapter \<Rightarrow> json \<Rightarrow> u32 option \<Rightarrow> 'u ws_adapter" where
  "chooseSid a d randomSeed =
     (case Option.bind (json_find d ''resumeSid'') get_string of
        Some resumeSid \<Rightarrow>
          if resumeSid \<noteq> '''' then a\<lparr>wa_sid := resumeSid\<rparr>
          else (let (sid, n) = wa_makeSessionId (case randomSeed of Some s \<Rightarrow> s | None \<Rightarrow> 0) (wa_nextSessionId a)
                in a\<lparr>wa_sid := sid, wa_nextSessionId := n\<rparr>)
      | None \<Rightarrow>
          (let (sid, n) = wa_makeSessionId (case randomSeed of Some s \<Rightarrow> s | None \<Rightarrow> 0) (wa_nextSessionId a)
           in a\<lparr>wa_sid := sid, wa_nextSessionId := n\<rparr>))"

definition handleIdentify :: "json_lib \<Rightarrow> 'u ws_adapter \<Rightarrow> json \<Rightarrow> bool \<times> 'u ws_adapter" where
  "handleIdentify lib a object =
     (case json_find object ''d'' of
        None \<Rightarrow> (False, a)
      | Some d \<Rightarrow>
          if \<not> is_object d then (False, a)
          else (case parseRandomSeed d of
                  None \<Rightarrow> (False, a)
                | Some randomSeed \<Rightarrow>
                    (let a = (if \<not> wa_identified a then chooseSid a d randomSeed else a);
                         a = a\<lparr>wa_identified := True\<rparr>
                     in wa_sendRpc lib a (makeIdentified (wa_sid a)))))"

type_synonym 'u ws_step = "'u ws_adapter \<Rightarrow> 'u \<Rightarrow> bool \<times> 'u ws_adapter \<times> 'u"

definition refuse :: "bool \<times> 'u ws_adapter \<Rightarrow> 'u \<Rightarrow> bool \<times> 'u ws_adapter \<times> 'u" where
  "refuse r u = (fst r, snd r, u)"

text \<open>The message goes on to the core, and the endpoint is polled.\<close>

definition wa_forward :: "json_lib \<Rightarrow> 'u ws_step \<Rightarrow> 'u ws_adapter \<Rightarrow> bytes \<Rightarrow> 'u \<Rightarrow> bool \<times> 'u ws_adapter \<times> 'u" where
  "wa_forward lib pollEndpoint a data u =
     pollEndpoint (a\<lparr>wa_endpoint := onTransportBytes lib (renewLookup (wa_endpoint a)) data\<rparr>) u"

text \<open>The body of the \<^verbatim>\<open>try\<close> block of \<^verbatim>\<open>onBytes\<close>.\<close>

definition wa_handle :: "json_lib \<Rightarrow> 'u ws_step \<Rightarrow> 'u ws_adapter \<Rightarrow> bytes \<Rightarrow> 'u \<Rightarrow> bool \<times> 'u ws_adapter \<times> 'u" where
  "wa_handle lib pollEndpoint a data u =
     (case jl_parse lib (string_of_bytes data) of
        None \<Rightarrow> (False, a, u)
      | Some object \<Rightarrow>
     (case parseOp lib object of
        None \<Rightarrow> (False, a, u)
      | Some op \<Rightarrow>
     (case decodeEndpointMetadata object of
        None \<Rightarrow> (False, a, u)
      | Some m \<Rightarrow>
          (let responseEndpoint = responseEndpointMetadata m in
           if op = RpcOp_Identify \<or> op = RpcOp_Reidentify then refuse (handleIdentify lib a object) u
           else if \<not> wa_identified a \<and> (op = RpcOp_Request \<or> op = RpcOp_RequestBatch)
           then refuse (wa_sendError lib a (parseSid object) (wa_requestId object) ErrorCode_ControlOpenRequired op
                  responseEndpoint) u
           else if wa_identified a \<and>
               (op = RpcOp_Request \<or> op = RpcOp_RequestBatch \<or> op = RpcOp_Event \<or> op = RpcOp_RequestResponse) \<and>
               \<not> isAcceptedSid a (parseSid object)
           then refuse (wa_sendError lib a (wa_sid a) (wa_requestId object) ErrorCode_RpcPayloadInvalid op responseEndpoint) u
           else if op = RpcOp_RequestBatch
           then refuse (wa_sendError lib a (parseSid object) (wa_requestId object) ErrorCode_RpcBatchUnsupported op
                  responseEndpoint) u
           else wa_forward lib pollEndpoint a data u))))"

definition wa_onBytes :: "json_lib \<Rightarrow> 'u ws_step \<Rightarrow> 'u ws_adapter \<Rightarrow> bytes \<Rightarrow> 'u \<Rightarrow> bool \<times> 'u ws_adapter \<times> 'u" where
  "wa_onBytes lib pollEndpoint a data u =
     (let (ok, a, u) = wa_handle lib pollEndpoint a data u in
      if ok then (True, a, u)
      else refuse (wa_sendError lib a '''' 0 ErrorCode_RpcPayloadInvalid RpcOp_Request EndpointMetadata_default) u)"

section \<open>Polling\<close>

definition wa_pollEndpoint :: "json_lib \<Rightarrow> 'u ws_step \<Rightarrow> 'u ws_step" where
  "wa_pollEndpoint lib pollTransport a u =
     (let (ok, a, u) = (if ep_attached (wa_endpoint a) then pollTransport a u else (True, a, u)) in
      if \<not> ok then (False, a, u)
      else (let (ok, e, u) = progress lib (wa_endpoint a) 8 u in (ok, a\<lparr>wa_endpoint := e\<rparr>, u)))"

text \<open>
  The transport hands over its messages one by one. Each call takes a message off the queue, so as
  many rounds as there are messages are enough, for the loop and for the polls inside it.
\<close>

primrec wa_pollTransport :: "json_lib \<Rightarrow> nat \<Rightarrow> 'u ws_step" where
  "wa_pollTransport lib 0 = (\<lambda>a u. (True, a, u))"
| "wa_pollTransport lib (Suc n) = (\<lambda>a u.
     case wa_incoming a of
       [] \<Rightarrow> (True, a, u)
     | data # rest \<Rightarrow>
         (let (ok, a, u) = wa_onBytes lib (wa_pollEndpoint lib (wa_pollTransport lib n)) (a\<lparr>wa_incoming := rest\<rparr>) data u
          in if ok then wa_pollTransport lib n a u else (False, a, u)))"

text \<open>The connection after the transport was polled: its generation, or None.\<close>

definition newConnection :: "'u ws_adapter \<Rightarrow> u64 option \<Rightarrow> 'u ws_adapter" where
  "newConnection a connection =
     (case connection of
        None \<Rightarrow> a\<lparr>wa_activeConnectionGeneration := 0\<rparr>
      | Some generation \<Rightarrow>
          if wa_activeConnectionGeneration a \<noteq> generation
          then (let (sid, n) = wa_makeSessionId 0 (wa_nextSessionId a)
                in a\<lparr>wa_activeConnectionGeneration := generation, wa_helloSent := False, wa_identified := False,
                     wa_sid := sid, wa_nextSessionId := n\<rparr>)
          else a)"

definition wa_poll :: "json_lib \<Rightarrow> u64 option \<Rightarrow> 'u ws_step" where
  "wa_poll lib connection a u =
     (let (ok, a, u) = wa_pollTransport lib (length (wa_incoming a)) a u in
      if \<not> ok then (False, a, u)
      else (let a = newConnection a connection in
            if connection \<noteq> None then refuse (sendHelloOnce lib a) u else (True, a, u)))"

section \<open>What a message can do\<close>

lemma refuse_simps [simp]: "fst (refuse r u) = fst r" "fst (snd (refuse r u)) = snd r" "snd (snd (refuse r u)) = u"
  by (simp_all add: refuse_def)

definition wa_sent :: "'u ws_adapter \<Rightarrow> transport_call list \<Rightarrow> 'u ws_adapter" where
  "wa_sent a calls = a\<lparr>wa_endpoint := (wa_endpoint a)\<lparr>ep_calls := ep_calls (wa_endpoint a) @ calls\<rparr>\<rparr>"

lemma wa_sent_simps [simp]:
  "wa_incoming (wa_sent a calls) = wa_incoming a" "wa_identified (wa_sent a calls) = wa_identified a"
  "wa_sid (wa_sent a calls) = wa_sid a" "wa_activeConnectionGeneration (wa_sent a calls) = wa_activeConnectionGeneration a"
  "wa_nextSessionId (wa_sent a calls) = wa_nextSessionId a" "wa_helloSent (wa_sent a calls) = wa_helloSent a"
  "wa_sent (wa_sent a calls) calls' = wa_sent a (calls @ calls')" "wa_sent a [] = a"
  by (simp_all add: wa_sent_def)

lemma wa_sendRpc_eq:
  "wa_sendRpc lib a payload =
     (case JsonRpcEncoder_encode lib payload of None \<Rightarrow> (False, a) | Some data \<Rightarrow> (True, wa_sent a [SendBytes data]))"
  by (simp add: wa_sendRpc_def wa_sent_def split: option.split)

text \<open>An error response, as the transport sends it.\<close>

definition error_call :: "json_lib \<Rightarrow> transport_call \<Rightarrow> bool" where
  "error_call lib call \<longleftrightarrow> (\<exists>response data. call = SendBytes data \<and> JsonRpcEncoder_encode lib response = Some data \<and>
     rp_op response \<in> {RpcOp_RequestResponse, RpcOp_RequestBatchResponse} \<and> rp_statusCode response \<noteq> ErrorCode_Success)"

lemma wa_sendError_eq:
  assumes "code \<noteq> ErrorCode_Success"
  shows "\<exists>calls. wa_sendError lib a sid i code op m = (calls \<noteq> [], wa_sent a calls) \<and> length calls \<le> 1 \<and>
     list_all (error_call lib) calls"
proof (cases "JsonRpcEncoder_encode lib (wa_errorResponse a sid i code op m)")
  case None
  then show ?thesis by (intro exI [of _ "[]"]) (simp add: wa_sendError_def wa_sendRpc_eq)
next
  case (Some data)
  have "rp_op (wa_errorResponse a sid i code op m) \<in> {RpcOp_RequestResponse, RpcOp_RequestBatchResponse}"
    "rp_statusCode (wa_errorResponse a sid i code op m) \<noteq> ErrorCode_Success"
    using assms by (simp_all add: wa_errorResponse_def)
  with Some have "error_call lib (SendBytes data)" unfolding error_call_def by blast
  with Some show ?thesis by (intro exI [of _ "[SendBytes data]"]) (simp add: wa_sendError_def wa_sendRpc_eq)
qed

lemma refuse_error:
  assumes "code \<noteq> ErrorCode_Success"
  shows "\<exists>calls. refuse (wa_sendError lib a sid i code op m) u = (calls \<noteq> [], wa_sent a calls, u) \<and> length calls \<le> 1 \<and>
     list_all (error_call lib) calls"
proof -
  obtain calls where "wa_sendError lib a sid i code op m = (calls \<noteq> [], wa_sent a calls)" "length calls \<le> 1"
    "list_all (error_call lib) calls" using wa_sendError_eq [OF assms, of lib a sid i op m] by blast
  then show ?thesis by (intro exI [of _ calls]) (simp add: refuse_def)
qed

text \<open>Whether a message may go on.\<close>

definition permitted :: "'u ws_adapter \<Rightarrow> rpc_op \<Rightarrow> string \<Rightarrow> bool" where
  "permitted a op sid \<longleftrightarrow> op = RpcOp_Request \<and> wa_identified a \<and> isAcceptedSid a sid"

lemma request_refused:
  assumes "jl_parse lib (string_of_bytes data) = Some object" and "parseOp lib object = Some op"
    and "op = RpcOp_Request \<or> op = RpcOp_RequestBatch" and "\<not> permitted a op (parseSid object)"
  shows "\<exists>calls. wa_onBytes lib pollEndpoint a data u = (calls \<noteq> [], wa_sent a calls, u) \<and> length calls \<le> 1 \<and>
     list_all (error_call lib) calls"
proof -
  have handled: "\<exists>calls. wa_handle lib pollEndpoint a data u = (calls \<noteq> [], wa_sent a calls, u) \<and> length calls \<le> 1 \<and>
      list_all (error_call lib) calls"
  proof (cases "decodeEndpointMetadata object")
    case None
    with assms(1,2) show ?thesis by (intro exI [of _ "[]"]) (simp add: wa_handle_def)
  next
    case (Some m)
    note eq = wa_handle_def assms(1,2) Some Let_def option.case
    consider (closed) "\<not> wa_identified a" | (unknown) "wa_identified a" "\<not> isAcceptedSid a (parseSid object)"
      | (batch) "wa_identified a" "isAcceptedSid a (parseSid object)" "op = RpcOp_RequestBatch"
      using assms(3,4) by (auto simp: permitted_def)
    then show ?thesis
    proof cases
      case closed
      with assms(3) have "wa_handle lib pollEndpoint a data u = refuse (wa_sendError lib a (parseSid object) (wa_requestId object)
          ErrorCode_ControlOpenRequired op (responseEndpointMetadata m)) u" by (auto simp: eq)
      with refuse_error [of ErrorCode_ControlOpenRequired] show ?thesis by simp
    next
      case unknown
      with assms(3) have "wa_handle lib pollEndpoint a data u = refuse (wa_sendError lib a (wa_sid a) (wa_requestId object)
          ErrorCode_RpcPayloadInvalid op (responseEndpointMetadata m)) u" by (auto simp: eq)
      with refuse_error [of ErrorCode_RpcPayloadInvalid] show ?thesis by simp
    next
      case batch
      then have "wa_handle lib pollEndpoint a data u = refuse (wa_sendError lib a (parseSid object) (wa_requestId object)
          ErrorCode_RpcBatchUnsupported op (responseEndpointMetadata m)) u" by (simp add: eq)
      with refuse_error [of ErrorCode_RpcBatchUnsupported] show ?thesis by simp
    qed
  qed
  then obtain calls where calls: "wa_handle lib pollEndpoint a data u = (calls \<noteq> [], wa_sent a calls, u)"
    "length calls \<le> 1" "list_all (error_call lib) calls" by blast
  show ?thesis
  proof (cases "calls = []")
    case True
    with calls(1) refuse_error [of ErrorCode_RpcPayloadInvalid lib a "''''" 0 RpcOp_Request EndpointMetadata_default u]
    show ?thesis by (simp add: wa_onBytes_def)
  next
    case False
    with calls show ?thesis by (intro exI [of _ calls]) (simp add: wa_onBytes_def)
  qed
qed

section \<open>The session\<close>

definition is_identify :: "json_lib \<Rightarrow> bytes \<Rightarrow> bool" where
  "is_identify lib data \<longleftrightarrow>
     (case jl_parse lib (string_of_bytes data) of
        None \<Rightarrow> False
      | Some object \<Rightarrow>
          (parseOp lib object = Some RpcOp_Identify \<or> parseOp lib object = Some RpcOp_Reidentify) \<and>
          (case json_find object ''d'' of None \<Rightarrow> False | Some d \<Rightarrow> is_object d \<and> parseRandomSeed d \<noteq> None))"

text \<open>All messages in the queue are in \<open>heard\<close>, and so is the IDENTIFY behind an identified session.\<close>

definition accounted :: "json_lib \<Rightarrow> bytes set \<Rightarrow> 'u ws_adapter \<Rightarrow> bool" where
  "accounted lib heard a \<longleftrightarrow> set (wa_incoming a) \<subseteq> heard \<and> (wa_identified a \<longrightarrow> (\<exists>d\<in>heard. is_identify lib d))"

definition step_accounts :: "json_lib \<Rightarrow> bytes set \<Rightarrow> 'u ws_step \<Rightarrow> bool" where
  "step_accounts lib heard step \<longleftrightarrow> (\<forall>a u. accounted lib heard a \<longrightarrow> accounted lib heard (fst (snd (step a u))))"

lemma accounted_same:
  "wa_incoming a' = wa_incoming a \<Longrightarrow> wa_identified a' = wa_identified a \<Longrightarrow> accounted lib heard a' = accounted lib heard a"
  by (simp add: accounted_def)

lemma accounted_sends:
  "accounted lib heard (snd (wa_sendRpc lib a payload)) = accounted lib heard a"
  "accounted lib heard (snd (wa_sendError lib a sid i code op m)) = accounted lib heard a"
  "accounted lib heard (a\<lparr>wa_endpoint := e\<rparr>) = accounted lib heard a"
  by (auto intro!: accounted_same simp: wa_sendError_def wa_sendRpc_eq refuse_def split: option.splits)

lemma handleIdentify_accounts:
  assumes "accounted lib heard a" and "data \<in> heard" and "jl_parse lib (string_of_bytes data) = Some object"
    and "parseOp lib object = Some op" and "op = RpcOp_Identify \<or> op = RpcOp_Reidentify"
  shows "accounted lib heard (snd (handleIdentify lib a object))"
proof (cases "\<exists>d. json_find object ''d'' = Some d \<and> is_object d \<and> parseRandomSeed d \<noteq> None")
  case True
  then have "is_identify lib data" using assms(3-5) by (auto simp: is_identify_def)
  moreover have "wa_incoming (snd (handleIdentify lib a object)) = wa_incoming a"
    by (auto simp: handleIdentify_def chooseSid_def wa_sendRpc_eq Let_def split: option.splits prod.splits)
  ultimately show ?thesis using assms(1,2) by (auto simp: accounted_def)
next
  case False
  then have "snd (handleIdentify lib a object) = a" by (auto simp: handleIdentify_def split: option.splits)
  with assms(1) show ?thesis by simp
qed

lemma wa_onBytes_accounts:
  assumes "step_accounts lib heard pollEndpoint" and "accounted lib heard a" and "data \<in> heard"
  shows "accounted lib heard (fst (snd (wa_onBytes lib pollEndpoint a data u)))"
proof -
  have forwarded: "accounted lib heard (fst (snd (wa_forward lib pollEndpoint a data u)))"
    using assms(1,2) by (simp add: wa_forward_def step_accounts_def accounted_sends)
  have "accounted lib heard (fst (snd (wa_handle lib pollEndpoint a data u)))"
    using assms(2) forwarded handleIdentify_accounts [OF assms(2,3)]
    by (simp add: wa_handle_def accounted_sends Let_def split: option.split)
  then show ?thesis
    by (auto simp: wa_onBytes_def accounted_sends split: prod.split)
qed

lemma wa_pollEndpoint_accounts:
  "step_accounts lib heard pollTransport \<Longrightarrow> step_accounts lib heard (wa_pollEndpoint lib pollTransport)"
  unfolding step_accounts_def wa_pollEndpoint_def
  by (simp add: split_beta Let_def accounted_sends)

lemma wa_pollTransport_accounts: "step_accounts lib heard (wa_pollTransport lib n :: 'u ws_step)"
proof (induction n)
  case (Suc n)
  have "accounted lib heard (fst (snd (wa_pollTransport lib (Suc n) a u)))" if a: "accounted lib heard a"
    for a :: "'u ws_adapter" and u
  proof (cases "wa_incoming a")
    case (Cons data rest)
    let ?r = "wa_onBytes lib (wa_pollEndpoint lib (wa_pollTransport lib n)) (a\<lparr>wa_incoming := rest\<rparr>) data u"
    have "accounted lib heard (a\<lparr>wa_incoming := rest\<rparr>)" "data \<in> heard" using a Cons by (simp_all add: accounted_def)
    from wa_onBytes_accounts [OF wa_pollEndpoint_accounts [OF Suc] this]
    have "accounted lib heard (fst (snd ?r))" .
    with Suc Cons show ?thesis by (simp add: step_accounts_def split_beta)
  qed (use a in simp)
  then show ?case by (simp add: step_accounts_def)
qed (simp add: step_accounts_def)

text \<open>
  The life of an adapter. \<open>heard\<close> collects the messages that arrived since the adapter took up its
  connection; those still waiting when it does so belong to the new connection as well.
\<close>

inductive wa_session :: "json_lib \<Rightarrow> bytes list \<Rightarrow> 'u ws_adapter \<Rightarrow> bool" for lib where
  wa_start: "wa_session lib [] (WebSocketJsonRpcAdapter e profile)"
| wa_arrival: "wa_session lib heard a \<Longrightarrow> wa_session lib (heard @ [data]) (a\<lparr>wa_incoming := wa_incoming a @ [data]\<rparr>)"
| wa_polled: "wa_session lib heard a \<Longrightarrow> wa_poll lib connection a u = (ok, a', u') \<Longrightarrow>
    wa_activeConnectionGeneration a' = 0 \<or> wa_activeConnectionGeneration a' = wa_activeConnectionGeneration a \<Longrightarrow>
    wa_session lib heard a'"
| wa_reconnected: "wa_session lib heard a \<Longrightarrow> wa_poll lib connection a u = (ok, a', u') \<Longrightarrow>
    wa_activeConnectionGeneration a' \<noteq> 0 \<Longrightarrow> wa_activeConnectionGeneration a' \<noteq> wa_activeConnectionGeneration a \<Longrightarrow>
    wa_session lib (wa_incoming a') a'"
| wa_event: "wa_session lib heard a \<Longrightarrow> wa_sendEvent lib a payload = (ok, a') \<Longrightarrow> wa_session lib heard a'"
| wa_application: "wa_session lib heard a \<Longrightarrow> wa_session lib heard (a\<lparr>wa_endpoint := e\<rparr>)"

lemma generation_sends [simp]:
  fixes a :: "'u ws_adapter"
  shows "wa_activeConnectionGeneration (snd (wa_sendRpc lib a payload)) = wa_activeConnectionGeneration a"
  "wa_activeConnectionGeneration (snd (wa_sendError lib a sid i code op m)) = wa_activeConnectionGeneration a"
  "wa_activeConnectionGeneration (snd (handleIdentify lib a object)) = wa_activeConnectionGeneration a"
proof -
  show *: "wa_activeConnectionGeneration (snd (wa_sendRpc lib a payload)) = wa_activeConnectionGeneration a" for a :: "'u ws_adapter" and payload
    by (simp add: wa_sendRpc_eq split: option.split)
  then show "wa_activeConnectionGeneration (snd (wa_sendError lib a sid i code op m)) = wa_activeConnectionGeneration a"
    by (simp add: wa_sendError_def)
  have "wa_activeConnectionGeneration (chooseSid a d seed) = wa_activeConnectionGeneration a" for d seed
    by (auto simp: chooseSid_def split: option.split prod.split)
  with * show "wa_activeConnectionGeneration (snd (handleIdentify lib a object)) = wa_activeConnectionGeneration a"
    by (simp add: handleIdentify_def Let_def split: option.split)
qed

lemma generation_kept:
  "\<forall>(a :: 'u ws_adapter) u. wa_activeConnectionGeneration (fst (snd (wa_pollTransport lib n a u))) = wa_activeConnectionGeneration a"
proof (induction n)
  case (Suc n)
  have ep: "wa_activeConnectionGeneration (fst (snd (wa_pollEndpoint lib (wa_pollTransport lib n) a u))) =
      wa_activeConnectionGeneration a" for a :: "'u ws_adapter" and u
    using Suc by (simp add: wa_pollEndpoint_def split_beta Let_def)
  have "wa_activeConnectionGeneration (fst (snd (wa_onBytes lib (wa_pollEndpoint lib (wa_pollTransport lib n)) a data u))) =
      wa_activeConnectionGeneration a" for a :: "'u ws_adapter" and data u
    by (simp add: wa_onBytes_def split_beta Let_def) (simp add: wa_handle_def wa_forward_def ep Let_def split: option.split)
  with Suc show ?case by (simp add: split_beta Let_def split: list.split)
qed simp

lemma wa_poll_accounts:
  fixes a :: "'u ws_adapter"
  assumes "accounted lib heard a" and "wa_poll lib connection a u = (ok, a', u')"
  shows "accounted lib heard a' \<and>
    (wa_activeConnectionGeneration a' \<noteq> 0 \<and> wa_activeConnectionGeneration a' \<noteq> wa_activeConnectionGeneration a \<longrightarrow>
      \<not> wa_identified a')"
proof -
  obtain ok1 a1 u1 where t: "wa_pollTransport lib (length (wa_incoming a)) a u = (ok1, a1, u1)" by (metis prod_cases3)
  have a1: "accounted lib heard a1" "wa_activeConnectionGeneration a1 = wa_activeConnectionGeneration a"
    using wa_pollTransport_accounts [of lib heard "length (wa_incoming a)"] assms(1) t
      generation_kept [of lib "length (wa_incoming a)"] unfolding step_accounts_def by (metis fst_conv snd_conv)+
  have hello: "accounted lib heard (snd (sendHelloOnce lib b)) = accounted lib heard b"
    "wa_identified (snd (sendHelloOnce lib b)) = wa_identified b"
    "wa_activeConnectionGeneration (snd (sendHelloOnce lib b)) = wa_activeConnectionGeneration b" for b :: "'u ws_adapter"
    by (auto simp: sendHelloOnce_def wa_sendRpc_eq accounted_def split: option.split)
  have "accounted lib heard (newConnection a1 connection)"
    using a1(1) by (auto simp: newConnection_def accounted_def split: option.split prod.split)
  moreover have "wa_activeConnectionGeneration (newConnection a1 connection) \<noteq> 0 \<Longrightarrow>
      wa_activeConnectionGeneration (newConnection a1 connection) \<noteq> wa_activeConnectionGeneration a1 \<Longrightarrow>
      \<not> wa_identified (newConnection a1 connection)"
    by (auto simp: newConnection_def split: option.splits prod.splits if_splits)
  ultimately show ?thesis
    using assms(2) a1 hello by (cases ok1) (auto simp: wa_poll_def t refuse_def Let_def hello split: if_splits)
qed

lemma session_accounted: "wa_session lib heard a \<Longrightarrow> accounted lib (set heard) a"
proof (induction rule: wa_session.induct)
  case (wa_start e profile)
  then show ?case by (simp add: accounted_def WebSocketJsonRpcAdapter_def Let_def split: prod.split)
next
  case (wa_arrival heard a data)
  then show ?case by (auto simp: accounted_def)
next
  case (wa_polled heard a connection u ok a' u')
  from wa_poll_accounts [OF wa_polled.IH wa_polled.hyps(2)] show ?case by blast
next
  case (wa_reconnected heard a connection u ok a' u')
  from wa_poll_accounts [OF wa_reconnected.IH wa_reconnected.hyps(2)] wa_reconnected.hyps(3,4)
  show ?case by (simp add: accounted_def)
next
  case (wa_event heard a payload ok a')
  then show ?case by (auto simp: wa_sendEvent_def wa_sendRpc_eq Let_def accounted_def split: option.splits)
next
  case (wa_application heard a e)
  then show ?case by (simp add: accounted_sends)
qed

section \<open>Properties\<close>

text \<open>
  C7. No request without a session: a request that arrives before the connection is identified, or without
  the session's id, and every batch request, reaches neither the core nor the broker nor any handler;
  the peer gets at most one message for it, an error response, and the session stays as it was.
\<close>

theorem request_gated:
  assumes "jl_parse lib (string_of_bytes data) = Some object" and "parseOp lib object = Some op"
    and "op = RpcOp_Request \<or> op = RpcOp_RequestBatch"
    and "wa_identified a \<and> parseSid object = wa_sid a \<longrightarrow> wa_sid a = '''' \<or> op = RpcOp_RequestBatch"
  shows "\<exists>calls. wa_onBytes lib pollEndpoint a data u =
       (calls \<noteq> [], a\<lparr>wa_endpoint := (wa_endpoint a)\<lparr>ep_calls := ep_calls (wa_endpoint a) @ calls\<rparr>\<rparr>, u) \<and>
     length calls \<le> 1 \<and> list_all (error_call lib) calls"
proof -
  have "\<not> permitted a op (parseSid object)" using assms(3,4) by (auto simp: permitted_def isAcceptedSid_def)
  from request_refused [OF assms(1-3) this] show ?thesis by (simp add: wa_sent_def)
qed

definition example_message :: "rpc_op \<Rightarrow> (string, json) fmap \<Rightarrow> json" where
  "example_message op d = JObject (envelope ''S'' op d)"

text \<open>A library that parses every text as one value and prints every value as one text.\<close>

definition constant_lib :: "json \<Rightarrow> json_lib" where
  "constant_lib j = \<lparr>jl_parse = (\<lambda>_. Some j), jl_dump = (\<lambda>_. Some ''J''), jl_float_to_int64 = (\<lambda>_. 0)\<rparr>"

definition example_adapter :: "unit ws_adapter" where
  "example_adapter = WebSocketJsonRpcAdapter ((AxtpEndpoint BasicBroker)\<lparr>ep_attached := True\<rparr>) TransportProfile_default"

lemma example_message_parses [simp]:
  "parseOp lib (example_message op d) = Some op" "parseSid (example_message op d) = ''S''"
  "json_find (example_message op d) ''d'' = Some (JObject d)"
  "decodeEndpointMetadata (example_message op d) = Some EndpointMetadata_default"
  "jl_parse (constant_lib j) text = Some j" "jl_dump (constant_lib j) v = Some ''J''"
proof -
  note natural_bounds(1)
  then show "parseOp lib (example_message op d) = Some op"
    using unsigned_less [of op, where 'a = int]
    by (simp add: parseOp_def example_message_def envelope_def)
qed (simp_all add: example_message_def envelope_def parseSid_def decodeEndpointMetadata_def constant_lib_def)

lemma example_adapter_simps [simp]:
  "\<not> wa_identified example_adapter" "wa_incoming example_adapter = []" "wa_activeConnectionGeneration example_adapter = 0"
  by (simp_all add: example_adapter_def WebSocketJsonRpcAdapter_def Let_def split: prod.split)

theorem request_gated_witness:
  "\<exists>calls. wa_onBytes (constant_lib (example_message RpcOp_Request fmempty)) (\<lambda>a u. (True, a, u)) example_adapter [65] () =
       (calls \<noteq> [], wa_sent example_adapter calls, ()) \<and> length calls \<le> 1"
  using request_gated [of "constant_lib (example_message RpcOp_Request fmempty)" "[65]" "example_message RpcOp_Request fmempty"
      RpcOp_Request example_adapter "\<lambda>a u. (True, a, u)" "()"]
  by (auto simp: wa_sent_def)

text \<open>
  C22. An identified session has been asked for: at every moment of an adapter's life - messages, polls,
  reconnections and sends in any order - a session counts as identified only if a well-formed IDENTIFY or
  REIDENTIFY is among the messages that arrived since the adapter took up its connection.
\<close>

theorem identified_by_identify:
  assumes "wa_session lib heard a" and "wa_identified a"
  shows "\<exists>data\<in>set heard. is_identify lib data"
  using session_accounted [OF assms(1)] assms(2) by (simp add: accounted_def)

lemma example_identify: "is_identify (constant_lib (example_message RpcOp_Identify fmempty)) data"
  by (simp add: is_identify_def parseRandomSeed_def)

theorem identified_by_identify_witness:
  "\<exists>heard (a :: unit ws_adapter). wa_session (constant_lib (example_message RpcOp_Identify fmempty)) heard a \<and> wa_identified a \<and>
     (\<exists>data\<in>set heard. is_identify (constant_lib (example_message RpcOp_Identify fmempty)) data)"
proof -
  let ?lib = "constant_lib (example_message RpcOp_Identify fmempty)"
  let ?a = "example_adapter\<lparr>wa_incoming := [] @ [[65]]\<rparr>"
  obtain ok a' u' where p: "wa_poll ?lib None ?a () = (ok, a', u')" by (metis prod_cases3)
  then have identified: "wa_identified a'" "wa_activeConnectionGeneration a' = 0"
    by (auto simp: wa_poll_def wa_onBytes_def wa_handle_def refuse_def handleIdentify_def parseRandomSeed_def wa_sendRpc_eq
        newConnection_def JsonRpcEncoder_encode_def makeIdentified_def serializeIdentified_def)
  have "wa_session ?lib [] example_adapter" unfolding example_adapter_def by (rule wa_start)
  from wa_arrival [OF this, of "[65]"] have "wa_session ?lib [[65]] ?a" by simp
  from wa_polled [OF this p] identified have "wa_session ?lib [[65]] a'" by simp
  with identified_by_identify [OF this identified(1)] identified(1) show ?thesis by blast
qed

text \<open>
  A new peer is served under the old peer's session: the adapter polls its transport before it looks at
  the connection, so when the peer is replaced between two polls, an IDENTIFY of the new peer is answered
  with the old peer's session id, and the session is dropped right after it, with a new id and another
  HELLO.
\<close>

theorem new_peer_old_session:
  assumes "wa_incoming a = [data]" and "wa_identified a" and "wa_activeConnectionGeneration a \<noteq> generation"
    and "jl_parse lib (string_of_bytes data) = Some object" and "is_identify lib data" and "decodeEndpointMetadata object \<noteq> None"
    and "JsonRpcEncoder_encode lib (makeIdentified (wa_sid a)) = Some welcome" and "JsonRpcEncoder_encode lib makeHello = Some hello"
  shows "\<exists>a'. wa_poll lib (Some generation) a u = (True, a', u) \<and>
     ep_calls (wa_endpoint a') = ep_calls (wa_endpoint a) @ [SendBytes welcome, SendBytes hello] \<and>
     \<not> wa_identified a' \<and> wa_sid a' = fst (wa_makeSessionId 0 (wa_nextSessionId a))"
proof -
  obtain op d randomSeed where op: "parseOp lib object = Some op" "op = RpcOp_Identify \<or> op = RpcOp_Reidentify"
    and d: "json_find object ''d'' = Some d" "is_object d" "parseRandomSeed d = Some randomSeed"
    using assms(4,5) by (auto simp: is_identify_def split: option.splits)
  let ?a = "a\<lparr>wa_incoming := []\<rparr>"
  have "handleIdentify lib ?a object = (True, wa_sent ?a [SendBytes welcome])"
    using assms(2,7) d by (cases a) (simp add: handleIdentify_def wa_sendRpc_eq)
  then have "wa_onBytes lib pe ?a data u = (True, wa_sent ?a [SendBytes welcome], u)" for pe
    using assms(4,6) op by (auto simp: wa_onBytes_def wa_handle_def refuse_def)
  then have t: "wa_pollTransport lib (length (wa_incoming a)) a u = (True, wa_sent ?a [SendBytes welcome], u)"
    by (simp add: assms(1))
  obtain sid n where s: "wa_makeSessionId 0 (wa_nextSessionId a) = (sid, n)" by fastforce
  with assms(3) t show ?thesis
    by (simp add: wa_poll_def newConnection_def sendHelloOnce_def wa_sendRpc_eq assms(8) refuse_def wa_sent_def)
qed

text \<open>An adapter whose peer, identified on connection 1, has been replaced by another with an IDENTIFY on its way.\<close>

definition replaced_adapter :: "unit ws_adapter" where
  "replaced_adapter = example_adapter\<lparr>wa_identified := True, wa_activeConnectionGeneration := 1, wa_incoming := [[65]]\<rparr>"

theorem new_peer_old_session_witness:
  "\<exists>a'. wa_poll (constant_lib (example_message RpcOp_Identify fmempty)) (Some 2) replaced_adapter () = (True, a', ()) \<and>
     length (ep_calls (wa_endpoint a')) = length (ep_calls (wa_endpoint replaced_adapter)) + 2 \<and> \<not> wa_identified a'"
proof -
  let ?lib = "constant_lib (example_message RpcOp_Identify fmempty)"
  obtain greeting hello where "JsonRpcEncoder_encode ?lib (makeIdentified (wa_sid replaced_adapter)) = Some greeting"
    "JsonRpcEncoder_encode ?lib makeHello = Some hello"
    by (simp add: JsonRpcEncoder_encode_def makeIdentified_def makeHello_def serializeIdentified_def serializeHello_def)
  from new_peer_old_session [of replaced_adapter "[65]" 2 ?lib, OF _ _ _ _ example_identify _ this] show ?thesis
    by (auto simp: replaced_adapter_def)
qed

text \<open>
  Events need no session: an EVENT that arrives before the connection is identified, whatever session
  id it names, is decoded and handed to the application's event handler - while after identification
  the same message is refused unless it names the session's id.
\<close>

theorem unidentified_event_handled:
  assumes "\<not> wa_identified a" and "wa_incoming a = []"
    and "jl_parse lib (string_of_bytes data) = Some object" and "parseOp lib object = Some RpcOp_Event"
    and "decodeEndpointMetadata object = Some m"
    and "c = ep_core (renewLookup (wa_endpoint a))" and "ip_wireMode (co_inbound c) = WebSocketJsonRpc"
    and "JsonRpcPayloadDecoder_decode lib data JsonRpc (jd_methodLookup (ip_jsonRpcDecoder (co_inbound c)))
      (jd_eventLookup (ip_jsonRpcDecoder (co_inbound c))) = Some p"
    and "co_events c = []" and "bk_tasks (ep_broker (wa_endpoint a)) = []" and "bk_results (ep_broker (wa_endpoint a)) = []"
    and "bk_pendingCompletions (ep_broker (wa_endpoint a)) = []"
    and "bk_eventHandler (ep_broker (wa_endpoint a)) = Some handler"
    and "handler (bt_context (fromCoreEvent (event_rpcEvent p))) p u = (Some (), u')"
  shows "\<exists>a'. wa_onBytes lib (wa_pollEndpoint lib (wa_pollTransport lib n)) a data u = (True, a', u')"
proof -
  let ?e = "renewLookup (wa_endpoint a)"
  have "rp_op p = RpcOp_Event"
    using assms(3,4,8) by (auto simp: JsonRpcPayloadDecoder_decode_def decodeObject_def decodeEvent_def fillJsonMeta_def Let_def
        split: bind_splits option.splits if_splits)
  then have "co_events (handleRpc lib p c) = [event_rpcEvent p]" using handleRpc_effect(2) [of lib p c] assms(9) by simp
  then have ev: "co_events (ep_core (onTransportBytes lib ?e data)) = [event_rpcEvent p]"
    using assms(7,8) by (simp add: onTransportBytes_def handleBytes_def InboundProcessor_onBytes_def JsonRpcDecoder_onBytes_def
        assms(6) [symmetric])
  let ?e1 = "onTransportBytes lib ?e data"
  have br: "ep_broker ?e1 = ep_broker (wa_endpoint a)" by (simp add: onTransportBytes_def renewLookup_def)
  have task: "bt_type (fromCoreEvent (event_rpcEvent p)) = BT_RpcEvent" "bt_rpc (fromCoreEvent (event_rpcEvent p)) = p"
    by (simp_all add: fromCoreEvent_def event_rpcEvent_def CoreEvent_default_def)
  have "\<exists>e2. progress lib ?e1 8 u = (True, e2, u')"
    using assms(10-14) ev task
    by (simp add: progress_def drainCoreEvents_eq br broker_poll_def pollPendingCompletions_def runTask_def
        MiddlewareChain_before_def BrokerFlowControl_allow_def drainBrokerResults.simps pollResult_def eval_nat_numeral)
  moreover have "wa_pollTransport lib n (a\<lparr>wa_endpoint := ?e1\<rparr>) u = (True, a\<lparr>wa_endpoint := ?e1\<rparr>, u)"
    using assms(2) by (cases n) simp_all
  ultimately show ?thesis
    using assms(1,3-5) by (auto simp: wa_onBytes_def wa_handle_def wa_forward_def wa_pollEndpoint_def)
qed

text \<open>An adapter, fresh and without a session, whose application collects the ids of the events it gets.\<close>

definition event_adapter :: "u32 list ws_adapter" where
  "event_adapter = WebSocketJsonRpcAdapter ((AxtpEndpoint (registerEventHandler BasicBroker
       (Some (\<lambda>context p ids. (Some (), ids @ [rp_methodOrEventId p])))))
     \<lparr>ep_core := setJsonRpcEventLookup AxtpCore (Some (\<lambda>_. Some 7))\<rparr>) TransportProfile_default"

definition event_message :: json where
  "event_message = example_message RpcOp_Event (fmupd ''event'' (JString ''lamp.changed'') fmempty)"

theorem unidentified_event_handled_witness:
  "\<exists>a'. wa_onBytes (constant_lib event_message)
     (wa_pollEndpoint (constant_lib event_message) (wa_pollTransport (constant_lib event_message) 0))
     event_adapter [65] [] = (True, a', [7])"
proof -
  let ?lib = "constant_lib event_message"
  let ?c = "ep_core (renewLookup (wa_endpoint event_adapter))"
  note defs = event_adapter_def WebSocketJsonRpcAdapter_def renewLookup_def setJsonRpcMethodLookup_def setMethodLookup_def
    configure_def setInboundWireMode_def jsonRpcProfile_def TransportProfile_default_def setJsonRpcEventLookup_def
    setEventLookup_def AxtpEndpoint_def AxtpCore_def registerEventHandler_def BasicBroker_def InboundProcessor_def Let_def
  obtain p where p: "JsonRpcPayloadDecoder_decode ?lib [65] JsonRpc (jd_methodLookup (ip_jsonRpcDecoder (co_inbound ?c)))
      (jd_eventLookup (ip_jsonRpcDecoder (co_inbound ?c))) = Some p" "rp_methodOrEventId p = 7"
    by (simp add: JsonRpcPayloadDecoder_decode_def event_message_def decodeObject_def decodeEvent_def resolveName_def
        fillJsonMeta_def defs split: prod.split)
  have "\<not> wa_identified event_adapter" "wa_incoming event_adapter = []" "co_events ?c = []"
    "ip_wireMode (co_inbound ?c) = WebSocketJsonRpc"
    "bk_tasks (ep_broker (wa_endpoint event_adapter)) = []" "bk_results (ep_broker (wa_endpoint event_adapter)) = []"
    "bk_pendingCompletions (ep_broker (wa_endpoint event_adapter)) = []"
    "bk_eventHandler (ep_broker (wa_endpoint event_adapter)) = Some (\<lambda>context p ids. (Some (), ids @ [rp_methodOrEventId p]))"
    by (simp_all add: defs split: prod.split)
  from unidentified_event_handled [OF this(1,2) _ _ _ refl this(4) p(1) this(3,5-8), of "event_message" "EndpointMetadata_default" "[]" "[7]" 0]
  show ?thesis by (simp add: event_message_def p(2))
qed

end
