(* ===== verification/Client_Session.thy ===== *)
theory Client_Session
  imports Json_Rpc
begin

text \<open>
  The client's side of the JSON session (\<^verbatim>\<open>json_rpc/rpc_client_session.hpp\<close>): a small state machine over
  JSON values that accepts HELLO, builds IDENTIFY, accepts IDENTIFIED and builds REIDENTIFY. An
  exception is the result None; the state is returned as far as it was changed.

  Shown here: the session id is set only after a HELLO and by an IDENTIFIED message, and the handshake
  of this class and the runtime's own encoder and decoder understand each other.
\<close>

section \<open>RpcClientSession\<close>

record rpc_client_session =
  se_helloAccepted :: bool
  se_observedAxtpVersion :: "string option"
  se_sid :: string

definition RpcClientSession :: rpc_client_session where
  "RpcClientSession = \<lparr>se_helloAccepted = False, se_observedAxtpVersion = None, se_sid = ''''\<rparr>"

text \<open>
  \<^verbatim>\<open>get<int>\<close> truncates wider integers and takes booleans for numbers. \<^verbatim>\<open>value("op", -1)\<close> is the
  default where there is no such member.
\<close>

fun get_int :: "json_lib \<Rightarrow> json \<Rightarrow> 32 word option" where
  "get_int lib (JInt w) = Some (ucast w)"
| "get_int lib (JUnsigned w) = Some (ucast w)"
| "get_int lib (JFloat f) = Some (ucast (jl_float_to_int64 lib f))"
| "get_int lib (JBool b) = Some (if b then 1 else 0)"
| "get_int lib _ = None"

definition op_value :: "json_lib \<Rightarrow> json \<Rightarrow> 32 word option" where
  "op_value lib object = (case json_find object ''op'' of None \<Rightarrow> Some (- 1) | Some v \<Rightarrow> get_int lib v)"

definition acceptHello ::
    "json_lib \<Rightarrow> rpc_client_session \<Rightarrow> json \<Rightarrow> u32 \<Rightarrow> string \<Rightarrow> json option \<times> rpc_client_session" where
  "acceptHello lib s hello randomSeed eventMasks =
     (if \<not> is_object hello \<or> op_value lib hello \<noteq> Some (ucast RpcOp_Hello) then (None, s)
      else (case json_find hello ''d'' of
              None \<Rightarrow> (None, s)
            | Some d \<Rightarrow>
                if \<not> is_object d then (None, s)
                else
                  (let s = s\<lparr>se_observedAxtpVersion := None\<rparr>;
                       version = (case json_find d ''axtpVersion'' of
                           None \<Rightarrow> Some None
                         | Some v \<Rightarrow> map_option Some (case get_string v of Some text \<Rightarrow> Some text | None \<Rightarrow> jl_dump lib v))
                   in case version of
                        None \<Rightarrow> (None, s)
                      | Some version \<Rightarrow>
                          (let s = s\<lparr>se_observedAxtpVersion := version\<rparr>;
                               s = s\<lparr>se_helloAccepted := True\<rparr>;
                               d = fmupd ''eventMasks'' (JString eventMasks)
                                     (fmupd ''randomSeed'' (JUnsigned (ucast randomSeed)) fmempty)
                           in (Some (JObject (fmupd ''d'' (JObject d)
                                 (fmupd ''op'' (JInt (ucast RpcOp_Identify)) (fmupd ''sid'' (JString '''') fmempty)))), s)))))"

definition acceptIdentified :: "json_lib \<Rightarrow> rpc_client_session \<Rightarrow> json \<Rightarrow> unit option \<times> rpc_client_session" where
  "acceptIdentified lib s identified =
     (if \<not> se_helloAccepted s \<or> \<not> is_object identified \<or> op_value lib identified \<noteq> Some (ucast RpcOp_Identified)
      then (None, s)
      else (case Option.bind (json_find identified ''sid'') get_string of
              None \<Rightarrow> (None, s)
            | Some sid \<Rightarrow> if sid = '''' then (None, s) else (Some (), s\<lparr>se_sid := sid\<rparr>)))"

definition makeReidentify :: "rpc_client_session \<Rightarrow> string \<Rightarrow> json option" where
  "makeReidentify s eventMasks =
     (if se_sid s = '''' then None
      else
        (let d = (if eventMasks \<noteq> '''' then fmupd ''eventMasks'' (JString eventMasks) fmempty else fmempty)
         in Some (JObject (fmupd ''d'' (JObject d)
              (fmupd ''op'' (JInt (ucast RpcOp_Reidentify)) (fmupd ''sid'' (JString (se_sid s)) fmempty))))))"

section \<open>Sequences of messages\<close>

text \<open>The session as a state machine; the label is the message received, if any.\<close>

datatype session_input = Hello_in json u32 string | Identified_in json

fun session_step :: "json_lib \<Rightarrow> session_input \<Rightarrow> rpc_client_session \<Rightarrow> rpc_client_session" where
  "session_step lib (Hello_in hello randomSeed eventMasks) s = snd (acceptHello lib s hello randomSeed eventMasks)"
| "session_step lib (Identified_in identified) s = snd (acceptIdentified lib s identified)"

lemma acceptHello_keeps:
  "se_sid (snd (acceptHello lib s hello seed masks)) = se_sid s"
  "se_helloAccepted s \<Longrightarrow> se_helloAccepted (snd (acceptHello lib s hello seed masks))"
  by (auto simp: acceptHello_def Let_def split: option.split)

lemma acceptIdentified_cases:
  "snd (acceptIdentified lib s identified) = s \<or>
   se_helloAccepted s \<and> (\<exists>sid. sid \<noteq> '''' \<and> json_find identified ''sid'' = Some (JString sid) \<and>
     snd (acceptIdentified lib s identified) = s\<lparr>se_sid := sid\<rparr>)"
proof -
  have "get_string v = Some sid \<longleftrightarrow> v = JString sid" for v sid by (cases v) auto
  then show ?thesis by (auto simp: acceptIdentified_def split: option.split bind_split)
qed

definition names_session :: "session_input \<Rightarrow> string \<Rightarrow> bool" where
  "names_session input sid \<longleftrightarrow> (\<exists>identified. input = Identified_in identified \<and> json_find identified ''sid'' = Some (JString sid))"

lemma session_invariant:
  "(se_sid s \<noteq> '''' \<longrightarrow> se_helloAccepted s \<and> (\<exists>input\<in>old. names_session input (se_sid s))) \<Longrightarrow>
   (let s' = fold (session_step lib) inputs s in
    se_sid s' \<noteq> '''' \<longrightarrow> se_helloAccepted s' \<and> (\<exists>input\<in>old \<union> set inputs. names_session input (se_sid s')))"
proof (induction inputs arbitrary: s old)
  case (Cons input inputs)
  let ?s = "session_step lib input s"
  have "se_sid ?s \<noteq> '''' \<longrightarrow> se_helloAccepted ?s \<and> (\<exists>i\<in>insert input old. names_session i (se_sid ?s))"
  proof (cases input)
    case (Hello_in hello seed masks)
    with Cons.prems acceptHello_keeps [where hello = hello] show ?thesis by auto
  next
    case (Identified_in identified)
    with Cons.prems acceptIdentified_cases [where identified = identified and lib = lib and s = s] show ?thesis
      by (auto simp: names_session_def)
  qed
  from Cons.IH [OF this] show ?case by simp
qed simp

section \<open>The handshake\<close>

lemma decodeSession_identify:
  assumes "jl_dump lib (JObject d) = Some text" and "fmlookup d ''rpcVersion'' = None" and "fmlookup d ''negotiatedRpcVersion'' = None"
    and "parseRandomSeed (JObject d) = Some seed" and "op = RpcOp_Identify \<or> op = RpcOp_Reidentify"
    and "object = JObject (fmupd ''d'' (JObject d) (fmupd ''op'' (JInt (ucast op)) (fmupd ''sid'' (JString sid) fmempty)))"
  shows "\<exists>p. decodeObject lib JsonRpc ml el object = Some p \<and> rp_op p = op \<and> rp_body p = bytes_of_string text \<and>
     pm_jsonSid (rp_meta p) = sid \<and> (case seed of Some w \<Rightarrow> pm_hasRandomSeed (rp_meta p) \<and> pm_randomSeed (rp_meta p) = w | None \<Rightarrow> True)"
proof -
  have op: "parseOp lib object = Some op"
    using assms(5) unfolding assms(6) by (auto simp: parseOp_def)
  have "decodeEndpointMetadata object = Some EndpointMetadata_default" "parseSid object = sid"
    by (simp_all add: assms(6) decodeEndpointMetadata_def parseSid_def)
  with op assms(1-5) show ?thesis
    by (auto simp: decodeObject_def assms(6) decodeSessionRpc_def fillJsonMeta_def hasUnsupportedTransitionRpcVersion_def
        jsonToBytes_def split: option.split)
qed

section \<open>Properties\<close>

text \<open>
  A session id comes from the peer: whatever messages a client session is fed, if it has a session id at
  the end then a HELLO was accepted, and the id is the one named in one of the messages offered as
  IDENTIFIED.
\<close>

theorem session_id_named:
  assumes "s = fold (session_step lib) inputs RpcClientSession" and "se_sid s \<noteq> ''''"
  shows "se_helloAccepted s \<and>
     (\<exists>identified. Identified_in identified \<in> set inputs \<and> json_find identified ''sid'' = Some (JString (se_sid s)))"
proof -
  have "se_sid RpcClientSession = ''''" by (simp add: RpcClientSession_def)
  then have "se_sid s \<noteq> '''' \<longrightarrow> se_helloAccepted s \<and> (\<exists>input\<in>{} \<union> set inputs. names_session input (se_sid s))"
    using session_invariant [of RpcClientSession "{}" lib inputs] by (simp add: assms(1) Let_def)
  with assms(2) show ?thesis by (auto simp: names_session_def)
qed

definition plain_lib :: json_lib where
  "plain_lib = \<lparr>jl_parse = (\<lambda>_. None), jl_dump = (\<lambda>_. Some ''{}''), jl_float_to_int64 = (\<lambda>_. 0)\<rparr>"

definition hello_object :: json where
  "hello_object = JObject (envelope '''' RpcOp_Hello (fmupd ''axtpVersion'' (JString kSpecVersion) fmempty))"

definition identified_object :: "string \<Rightarrow> json" where
  "identified_object sid = JObject (envelope sid RpcOp_Identified fmempty)"

theorem session_id_named_witness:
  "se_sid (fold (session_step plain_lib) [Hello_in hello_object 7 '''', Identified_in (identified_object ''AB'')] RpcClientSession) = ''AB'' \<and>
   se_helloAccepted (fold (session_step plain_lib) [Hello_in hello_object 7 '''', Identified_in (identified_object ''AB'')] RpcClientSession)"
proof -
  let ?s = "fold (session_step plain_lib) [Hello_in hello_object 7 '''', Identified_in (identified_object ''AB'')] RpcClientSession"
  have "se_sid ?s = ''AB''"
    by (simp add: acceptHello_def acceptIdentified_def hello_object_def identified_object_def envelope_def op_value_def
        RpcClientSession_def Let_def)
  moreover from this have "se_sid ?s \<noteq> ''''" by simp
  from session_id_named [OF refl this] have "se_helloAccepted ?s" by (rule conjunct1)
  ultimately show ?thesis by (rule conjI)
qed

text \<open>
  The client session and the runtime understand each other: the IDENTIFY that is built from a HELLO is
  decoded by the server's decoder as an IDENTIFY with the same seed; the IDENTIFIED of the server's
  encoder, for any session id but the empty one, is accepted and sets that id; and the REIDENTIFY
  built then is decoded as one of that session.
\<close>

theorem session_handshake:
  assumes "acceptHello lib s hello seed masks = (Some identify, s1)" and "sid \<noteq> ''''"
    and "\<And>d. jl_dump lib (JObject d) \<noteq> None"
  shows "(\<exists>p. decodeObject lib JsonRpc ml el identify = Some p \<and> rp_op p = RpcOp_Identify \<and>
       pm_hasRandomSeed (rp_meta p) \<and> pm_randomSeed (rp_meta p) = seed) \<and>
     (\<exists>s2 reidentify p. acceptIdentified lib s1 (JObject (envelope sid RpcOp_Identified fmempty)) = (Some (), s2) \<and> se_sid s2 = sid \<and>
       makeReidentify s2 masks' = Some reidentify \<and> decodeObject lib JsonRpc ml el reidentify = Some p \<and>
       rp_op p = RpcOp_Reidentify \<and> pm_jsonSid (rp_meta p) = sid)"
proof
  let ?d = "fmupd ''eventMasks'' (JString masks) (fmupd ''randomSeed'' (JUnsigned (ucast seed)) fmempty)"
  have accepted: "se_helloAccepted s1"
    and identify: "identify = JObject (fmupd ''d'' (JObject ?d) (fmupd ''op'' (JInt (ucast RpcOp_Identify)) (fmupd ''sid'' (JString '''') fmempty)))"
    using assms(1) by (auto simp: acceptHello_def Let_def split: if_splits option.splits)
  obtain t where "jl_dump lib (JObject ?d) = Some t" using assms(3) by blast
  from decodeSession_identify [OF this _ _ _ _ identify, of "Some seed"]
  show "\<exists>p. decodeObject lib JsonRpc ml el identify = Some p \<and> rp_op p = RpcOp_Identify \<and>
      pm_hasRandomSeed (rp_meta p) \<and> pm_randomSeed (rp_meta p) = seed"
    by (auto simp: parseRandomSeed_def natural_bounds(2))
  let ?i = "JObject (envelope sid RpcOp_Identified fmempty)"
  have s2: "acceptIdentified lib s1 ?i = (Some (), s1\<lparr>se_sid := sid\<rparr>)"
    using accepted assms(2) by (simp add: acceptIdentified_def envelope_def op_value_def)
  let ?r = "if masks' \<noteq> '''' then fmupd ''eventMasks'' (JString masks') fmempty else fmempty"
  obtain t where "jl_dump lib (JObject ?r) = Some t" using assms(3) by blast
  from decodeSession_identify [OF this _ _ _ _ refl, of None RpcOp_Reidentify ml el sid] assms(2)
  show "\<exists>s2 reidentify p. acceptIdentified lib s1 ?i = (Some (), s2) \<and> se_sid s2 = sid \<and>
      makeReidentify s2 masks' = Some reidentify \<and> decodeObject lib JsonRpc ml el reidentify = Some p \<and>
      rp_op p = RpcOp_Reidentify \<and> pm_jsonSid (rp_meta p) = sid"
    by (auto simp: s2 makeReidentify_def parseRandomSeed_def)
qed

theorem session_handshake_witness:
  "\<exists>identify s1 p. acceptHello plain_lib RpcClientSession hello_object 7 '''' = (Some identify, s1) \<and>
     decodeObject plain_lib JsonRpc None None identify = Some p \<and> pm_randomSeed (rp_meta p) = 7"
proof -
  obtain identify s1 where h: "acceptHello plain_lib RpcClientSession hello_object 7 '''' = (Some identify, s1)"
    by (simp add: acceptHello_def hello_object_def envelope_def op_value_def)
  have "\<And>d. jl_dump plain_lib (JObject d) \<noteq> None" by (simp add: plain_lib_def)
  from session_handshake [OF h _ this, of "''AB''" None None] h show ?thesis by auto
qed

end
