(* ===== verification/Number_Text.thy ===== *)
theory Number_Text
  imports Json_Rpc
begin

text \<open>
  Numbers in text: the conversion \<^verbatim>\<open>std::stoull\<close> of the standard library (\<^verbatim>\<open>std::stoul\<close> is the same
  function where \<^verbatim>\<open>unsigned long\<close> has 64 bits), and what it makes of the decimal form of a number.
\<close>

section \<open>std::stoull\<close>

text \<open>
  \<^verbatim>\<open>strtoull\<close>: white space, a sign, for base 16 a prefix that is followed by a digit, and then as many
  digits as there are. No digit at all is \<^verbatim>\<open>std::invalid_argument\<close>, 2^64 or more \<^verbatim>\<open>std::out_of_range\<close>;
  a minus sign negates modulo 2^64. What follows the digits is ignored.
\<close>

definition is_space :: "char \<Rightarrow> bool" where
  "is_space c \<longleftrightarrow> of_char c \<in> {9 :: nat, 10, 11, 12, 13, 32}"

definition digit_value :: "nat \<Rightarrow> char \<Rightarrow> nat option" where
  "digit_value base c =
     (let k = of_char c;
          v = (if 48 \<le> k \<and> k \<le> 57 then Some (k - 48)
               else if 97 \<le> k \<and> k \<le> 122 then Some (k - 87)
               else if 65 \<le> k \<and> k \<le> 90 then Some (k - 55) else None)
      in case v of Some d \<Rightarrow> if d < base then Some d else None | None \<Rightarrow> None)"

definition leading_digits :: "nat \<Rightarrow> string \<Rightarrow> nat list" where
  "leading_digits base s = map (\<lambda>c. the (digit_value base c)) (takeWhile (\<lambda>c. digit_value base c \<noteq> None) s)"

definition digits_number :: "nat \<Rightarrow> nat list \<Rightarrow> nat" where
  "digits_number base = foldl (\<lambda>n d. n * base + d) 0"

fun take_sign :: "string \<Rightarrow> bool \<times> string" where
  "take_sign (c # s) = (if c = CHR ''-'' then (True, s) else if c = CHR ''+'' then (False, s) else (False, c # s))"
| "take_sign [] = (False, [])"

definition skip_prefix :: "nat \<Rightarrow> string \<Rightarrow> string" where
  "skip_prefix base s =
     (if base = 16 \<and> length s > 2 \<and> s ! 0 = CHR ''0'' \<and> (s ! 1 = CHR ''x'' \<or> s ! 1 = CHR ''X'') \<and> digit_value 16 (s ! 2) \<noteq> None
      then drop 2 s else s)"

definition stoull :: "string \<Rightarrow> nat \<Rightarrow> u64 option" where
  "stoull s base =
     (let (negative, s) = take_sign (dropWhile is_space s);
          ds = leading_digits base (skip_prefix base s);
          n = digits_number base ds
      in if ds = [] \<or> n \<ge> 2 ^ 64 then None
         else Some (if negative then - word_of_nat n else word_of_nat n))"

section \<open>Decimal numbers\<close>

lemma digit_char: "d < 10 \<Longrightarrow> digit_value 10 (char_of (48 + d)) = Some d"
proof -
  assume "d < 10"
  then have "of_char (char_of (48 + d) :: char) = (48 + d :: nat)" by simp
  with \<open>d < 10\<close> show ?thesis by (simp add: digit_value_def Let_def)
qed

lemma digits_number_snoc: "digits_number b (ds @ [d]) = digits_number b ds * b + d"
  by (simp add: digits_number_def)

lemma decimal_digits:
  "list_all (\<lambda>c. digit_value 10 c \<noteq> None) (decimal n) \<and> digits_number 10 (map (\<lambda>c. the (digit_value 10 c)) (decimal n)) = n \<and>
     decimal n \<noteq> ''''"
proof (induction n rule: decimal.induct)
  case (1 n)
  show ?case
  proof (cases "n < 10")
    case True
    then have "decimal n = [char_of (48 + n)]" by simp
    with digit_char [OF True] show ?thesis by (simp add: digits_number_def)
  next
    case False
    then have "decimal n = decimal (n div 10) @ [char_of (48 + n mod 10)]" by simp
    with 1 [OF False] digit_char [of "n mod 10"] show ?thesis by (simp add: digits_number_snoc)
  qed
qed

declare decimal.simps [simp del]

lemma digit_not_space: "digit_value 10 c \<noteq> None \<Longrightarrow> \<not> is_space c \<and> c \<noteq> CHR ''-'' \<and> c \<noteq> CHR ''+'' \<and> c \<noteq> CHR ''x'' \<and> c \<noteq> CHR ''X''"
  by (auto simp: digit_value_def is_space_def Let_def split: if_splits)

lemma stoull_decimal:
  assumes "n < 2 ^ 64" and "rest = [] \<or> digit_value 10 (hd rest) = None"
  shows "stoull (decimal n @ rest) 10 = Some (word_of_nat n)"
proof -
  note d = decimal_digits [of n]
  obtain c s where c: "decimal n = c # s" using d by (cases "decimal n") auto
  then have first: "digit_value 10 c \<noteq> None" using d by simp
  have "takeWhile (\<lambda>c. digit_value 10 c \<noteq> None) (decimal n @ rest) = decimal n"
    using d assms(2) by (cases rest) (simp_all add: takeWhile_append list_all_iff)
  then have "leading_digits 10 (decimal n @ rest) = map (\<lambda>c. the (digit_value 10 c)) (decimal n)"
    by (simp add: leading_digits_def)
  moreover have "take_sign (dropWhile is_space (decimal n @ rest)) = (False, decimal n @ rest)"
    using digit_not_space [OF first] by (simp add: c)
  ultimately show ?thesis using d assms(1) by (simp add: stoull_def skip_prefix_def)
qed

text \<open>Decimal forms are a codec, so two numbers never have the same one.\<close>

interpretation decimal_text: codec decimal "\<lambda>s. map_option unat (stoull s 10)" "\<lambda>n. n < 2 ^ 64"
  using stoull_decimal [of _ "[]"] by unfold_locales (simp add: unat_of_nat take_bit_nat_eq_self)

end
