(* ===== verification/Registry_Json.thy ===== *)
theory Registry_Json
  imports Number_Text
begin

text \<open>
  Method registries read from JSON (\<^verbatim>\<open>json_rpc/method_registry_json.hpp\<close>): \<^verbatim>\<open>fromJson\<close>, \<^verbatim>\<open>parseId\<close>,
  and \<^verbatim>\<open>fromFile\<close> over a file system given as a map.

  Shown here: what a registry resolves comes from its entries, the last of which counts; and what texts
  pass for an id.
\<close>

section \<open>MethodRegistryJson\<close>

fun parseId :: "json \<Rightarrow> u32 option" where
  "parseId (JUnsigned raw) = (if raw \<le> 0xFFFFFFFF then Some (ucast raw) else None)"
| "parseId (JInt raw) = (if sint raw \<ge> 0 \<and> sint raw \<le> 0xFFFFFFFF then Some (ucast raw) else None)"
| "parseId (JString text) =
     (let hex = length text > 2 \<and> text ! 0 = CHR ''0'' \<and> (text ! 1 = CHR ''x'' \<or> text ! 1 = CHR ''X'');
          offset = (if hex then 2 else 0);
          base = (if hex then 16 else 10)
      in case stoull (drop offset text) base of
           None \<Rightarrow> None
         | Some parsed \<Rightarrow> if parsed \<le> 0xFFFFFFFF then Some (ucast parsed) else None)"
| "parseId _ = None"

text \<open>What one element of the array adds.\<close>

definition registryEntry :: "json \<Rightarrow> (u32 \<times> string) option" where
  "registryEntry value =
     (if \<not> is_object value then None
      else (case (json_find value ''id'', Option.bind (json_find value ''name'') get_string) of
              (Some i, Some name) \<Rightarrow> map_option (\<lambda>parsed. (parsed, name)) (parseId i)
            | _ \<Rightarrow> None))"

definition addEntry :: "method_registry \<Rightarrow> json \<Rightarrow> method_registry" where
  "addEntry registry value = (case registryEntry value of None \<Rightarrow> registry | Some (i, name) \<Rightarrow> addMethod registry i name)"

fun json_elements :: "json \<Rightarrow> json list option" where
  "json_elements (JArray vs) = Some vs"
| "json_elements _ = None"

definition registryMethods :: "json \<Rightarrow> json" where
  "registryMethods parsed =
     (if is_object parsed then (case json_find parsed ''methods'' of Some v \<Rightarrow> v | None \<Rightarrow> parsed) else parsed)"

definition fromJson :: "json_lib \<Rightarrow> string \<Rightarrow> method_registry option" where
  "fromJson lib json =
     (case jl_parse lib json of
        None \<Rightarrow> None
      | Some parsed \<Rightarrow>
          (case json_elements (registryMethods parsed) of
             None \<Rightarrow> Some MethodRegistry_empty
           | Some vals \<Rightarrow> Some (foldl addEntry MethodRegistry_empty vals)))"

definition fromFile :: "json_lib \<Rightarrow> (string \<rightharpoonup> string) \<Rightarrow> string \<Rightarrow> method_registry option" where
  "fromFile lib files path = (case files path of None \<Rightarrow> Some MethodRegistry_empty | Some content \<Rightarrow> fromJson lib content)"

section \<open>Entries and registries\<close>



section \<open>Properties\<close>




text \<open>
  An id is read from the front of its text: an id written in decimal is read back exactly, but so is any
  text that begins with one - whatever follows the digits is ignored, instead of the entry being refused.
\<close>

theorem id_text_prefix:
  assumes "n < 2 ^ 32" and "rest = [] \<or> digit_value 10 (hd rest) = None \<and> hd rest \<noteq> CHR ''x'' \<and> hd rest \<noteq> CHR ''X''"
  shows "parseId (JString (decimal n @ rest)) = Some (word_of_nat n)"
proof -
  note d = decimal_digits [of n]
  have nohex: "(length (decimal n @ rest) > 2 \<and> (decimal n @ rest) ! 0 = CHR ''0'' \<and>
      ((decimal n @ rest) ! 1 = CHR ''x'' \<or> (decimal n @ rest) ! 1 = CHR ''X'')) = False"
  proof -
    have "(decimal n @ rest) ! 1 \<noteq> CHR ''x'' \<and> (decimal n @ rest) ! 1 \<noteq> CHR ''X''" if "length (decimal n @ rest) > 2"
    proof (cases "length (decimal n) > 1")
      case True
      then have "decimal n ! 1 \<in> set (decimal n)" by simp
      with d have "digit_value 10 (decimal n ! 1) \<noteq> None" by (simp add: list_all_iff)
      with digit_not_space True show ?thesis by (simp add: nth_append)
    next
      case False
      with d have l: "length (decimal n) = 1" by (cases "decimal n") auto
      with that have "rest \<noteq> []" by auto
      with assms(2) l show ?thesis by (simp add: nth_append hd_conv_nth)
    qed
    then show ?thesis by blast
  qed
  moreover have "stoull (decimal n @ rest) 10 = Some (word_of_nat n)"
    using assms by (intro stoull_decimal) auto
  moreover have "(word_of_nat n :: u64) \<le> 0xFFFFFFFF" "ucast (word_of_nat n :: u64) = (word_of_nat n :: u32)"
    using assms(1) by (simp_all add: word_le_nat_alt unat_of_nat unsigned_of_nat take_bit_nat_eq_self)
  ultimately show ?thesis by (simp only: parseId.simps nohex Let_def if_False drop_0 option.case if_True)
qed

theorem id_text_prefix_witness: "parseId (JString (decimal 12 @ '' monkeys'')) = Some 12"
  using id_text_prefix [of 12 "'' monkeys''"] by (simp add: digit_value_def)

end
