(* ===== verification/Endpoint_Id.thy ===== *)
theory Endpoint_Id
  imports Byte_IO
begin

text \<open>
  Endpoint identities (\<^verbatim>\<open>core/protocol/endpoint/endpoint_identity.hpp\<close>): the SHA-256 of the class, loop
  by loop, and \<^verbatim>\<open>endpointIdFromKey\<close>. The arrays of words are lists; each word of the tables of constants
  is written as its two halves.

  Shown here: the padding loop ends, fills whole blocks and loses nothing of the message; the schedule
  loop computes the recurrence of the standard; an endpoint id has the documented form and stands for
  the first sixteen bytes of the digest.
\<close>

section \<open>SHA-256\<close>

definition word_of_halves :: "nat \<Rightarrow> nat \<Rightarrow> u32" where
  "word_of_halves hi lo = word_of_nat (hi * 65536 + lo)"

fun words_of_halves :: "nat list \<Rightarrow> u32 list" where
  "words_of_halves (hi # lo # rest) = word_of_halves hi lo # words_of_halves rest"
| "words_of_halves _ = []"

definition kSha256RoundConstants :: "u32 list" where
  "kSha256RoundConstants = words_of_halves [
     0x428a, 0x2f98, 0x7137, 0x4491, 0xb5c0, 0xfbcf, 0xe9b5, 0xdba5, 0x3956, 0xc25b, 0x59f1, 0x11f1, 0x923f, 0x82a4, 0xab1c, 0x5ed5,
     0xd807, 0xaa98, 0x1283, 0x5b01, 0x2431, 0x85be, 0x550c, 0x7dc3, 0x72be, 0x5d74, 0x80de, 0xb1fe, 0x9bdc, 0x06a7, 0xc19b, 0xf174,
     0xe49b, 0x69c1, 0xefbe, 0x4786, 0x0fc1, 0x9dc6, 0x240c, 0xa1cc, 0x2de9, 0x2c6f, 0x4a74, 0x84aa, 0x5cb0, 0xa9dc, 0x76f9, 0x88da,
     0x983e, 0x5152, 0xa831, 0xc66d, 0xb003, 0x27c8, 0xbf59, 0x7fc7, 0xc6e0, 0x0bf3, 0xd5a7, 0x9147, 0x06ca, 0x6351, 0x1429, 0x2967,
     0x27b7, 0x0a85, 0x2e1b, 0x2138, 0x4d2c, 0x6dfc, 0x5338, 0x0d13, 0x650a, 0x7354, 0x766a, 0x0abb, 0x81c2, 0xc92e, 0x9272, 0x2c85,
     0xa2bf, 0xe8a1, 0xa81a, 0x664b, 0xc24b, 0x8b70, 0xc76c, 0x51a3, 0xd192, 0xe819, 0xd699, 0x0624, 0xf40e, 0x3585, 0x106a, 0xa070,
     0x19a4, 0xc116, 0x1e37, 0x6c08, 0x2748, 0x774c, 0x34b0, 0xbcb5, 0x391c, 0x0cb3, 0x4ed8, 0xaa4a, 0x5b9c, 0xca4f, 0x682e, 0x6ff3,
     0x748f, 0x82ee, 0x78a5, 0x636f, 0x84c8, 0x7814, 0x8cc7, 0x0208, 0x90be, 0xfffa, 0xa450, 0x6ceb, 0xbef9, 0xa3f7, 0xc671, 0x78f2]"

definition rotateRight :: "u32 \<Rightarrow> nat \<Rightarrow> u32" where
  "rotateRight v count = drop_bit count v OR push_bit (32 - count) v"

text \<open>The first half of \<^verbatim>\<open>sha256\<close>: the padding.\<close>

function padZeros :: "bytes \<Rightarrow> bytes" where
  "padZeros bs = (if length bs mod 64 \<noteq> 56 then padZeros (bs @ [0]) else bs)"
  by pat_completeness auto
termination
proof (relation "measure (\<lambda>bs. (120 - length bs mod 64) mod 64)")
  fix bs :: bytes
  have left: "(120 - r) mod 64 = (if r \<le> 56 then 56 - r else 120 - r)" if "r < 64" for r :: nat
  proof (cases "r \<le> 56")
    case True
    then have "120 - r = 64 + (56 - r)" by simp
    with True show ?thesis by (simp only: mod_add_self1) simp
  qed (use that in simp)
  have "(120 - Suc n mod 64) mod 64 < (120 - n mod 64) mod 64" if "n mod 64 \<noteq> 56" for n :: nat
  proof -
    define r where "r = n mod 64"
    then have "r < 64" "r \<noteq> 56" and next_r: "Suc n mod 64 = (if r = 63 then 0 else Suc r)"
      using that by (simp_all add: mod_Suc)
    then show ?thesis unfolding next_r r_def [symmetric] by (auto simp: left)
  qed
  then show "length bs mod 64 \<noteq> 56 \<Longrightarrow> (bs @ [0], bs) \<in> measure (\<lambda>bs. (120 - length bs mod 64) mod 64)" by simp
qed simp

declare padZeros.simps [simp del]

definition sha256_padded :: "bytes \<Rightarrow> bytes" where
  "sha256_padded input =
     (let bitLength = word_of_nat (length input) * 8 :: u64;
          bs = input @ [0x80];
          bs = padZeros bs
      in foldl (\<lambda>bs shift. bs @ [ucast (drop_bit shift bitLength)]) bs [56, 48, 40, 32, 24, 16, 8, 0])"

definition sha256_initial :: "u32 list" where
  "sha256_initial = words_of_halves
     [0x6a09, 0xe667, 0xbb67, 0xae85, 0x3c6e, 0xf372, 0xa54f, 0xf53a, 0x510e, 0x527f, 0x9b05, 0x688c, 0x1f83, 0xd9ab, 0x5be0, 0xcd19]"

definition loadWord :: "bytes \<Rightarrow> nat \<Rightarrow> u32" where
  "loadWord bs wordOffset =
     push_bit 24 (ucast (bs ! wordOffset)) OR push_bit 16 (ucast (bs ! (wordOffset + 1))) OR
     push_bit 8 (ucast (bs ! (wordOffset + 2))) OR ucast (bs ! (wordOffset + 3))"

definition scheduleStep :: "u32 list \<Rightarrow> nat \<Rightarrow> u32 list" where
  "scheduleStep ws index =
     (let s0 = rotateRight (ws ! (index - 15)) 7 XOR rotateRight (ws ! (index - 15)) 18 XOR drop_bit 3 (ws ! (index - 15));
          s1 = rotateRight (ws ! (index - 2)) 17 XOR rotateRight (ws ! (index - 2)) 19 XOR drop_bit 10 (ws ! (index - 2))
      in ws[index := ws ! (index - 16) + s0 + ws ! (index - 7) + s1])"

definition messageSchedule :: "bytes \<Rightarrow> nat \<Rightarrow> u32 list" where
  "messageSchedule bs offset =
     (let ws = foldl (\<lambda>ws index. ws[index := loadWord bs (offset + index * 4)]) (replicate 64 0) [0..<16]
      in foldl scheduleStep ws [16..<64])"

text \<open>One round on the working variables \<^verbatim>\<open>a\<close> to \<^verbatim>\<open>h\<close>.\<close>

record working =
  wv_a :: u32  wv_b :: u32  wv_c :: u32  wv_d :: u32
  wv_e :: u32  wv_f :: u32  wv_g :: u32  wv_h :: u32

definition sha256_round :: "u32 list \<Rightarrow> working \<Rightarrow> nat \<Rightarrow> working" where
  "sha256_round ws v index =
     (let sum1 = rotateRight (wv_e v) 6 XOR rotateRight (wv_e v) 11 XOR rotateRight (wv_e v) 25;
          chosen = (wv_e v AND wv_f v) XOR (NOT (wv_e v) AND wv_g v);
          temporary1 = wv_h v + sum1 + chosen + kSha256RoundConstants ! index + ws ! index;
          sum0 = rotateRight (wv_a v) 2 XOR rotateRight (wv_a v) 13 XOR rotateRight (wv_a v) 22;
          majority = (wv_a v AND wv_b v) XOR (wv_a v AND wv_c v) XOR (wv_b v AND wv_c v);
          temporary2 = sum0 + majority
      in \<lparr>wv_a = temporary1 + temporary2, wv_b = wv_a v, wv_c = wv_b v, wv_d = wv_c v,
          wv_e = wv_d v + temporary1, wv_f = wv_e v, wv_g = wv_f v, wv_h = wv_g v\<rparr>)"

definition sha256_block :: "bytes \<Rightarrow> u32 list \<Rightarrow> nat \<Rightarrow> u32 list" where
  "sha256_block bs state offset =
     (let ws = messageSchedule bs offset;
          v = \<lparr>wv_a = state ! 0, wv_b = state ! 1, wv_c = state ! 2, wv_d = state ! 3,
               wv_e = state ! 4, wv_f = state ! 5, wv_g = state ! 6, wv_h = state ! 7\<rparr>;
          v = foldl (sha256_round ws) v [0..<64]
      in [state ! 0 + wv_a v, state ! 1 + wv_b v, state ! 2 + wv_c v, state ! 3 + wv_d v,
          state ! 4 + wv_e v, state ! 5 + wv_f v, state ! 6 + wv_g v, state ! 7 + wv_h v])"

definition sha256 :: "bytes \<Rightarrow> bytes" where
  "sha256 input =
     (let bs = sha256_padded input;
          state = foldl (sha256_block bs) sha256_initial (map (\<lambda>k. k * 64) [0..<length bs div 64])
      in concat (map (\<lambda>w. [ucast (drop_bit 24 w), ucast (drop_bit 16 w), ucast (drop_bit 8 w), ucast w]) state))"

section \<open>endpointIdFromKey\<close>

definition kHex :: string where
  "kHex = ''0123456789abcdef''"

text \<open>None is the exception for an empty key.\<close>

definition endpointIdFromKey :: "string \<Rightarrow> string option" where
  "endpointIdFromKey endpointKey =
     (if endpointKey = [] then None
      else
        (let canonical = ''AXTP-ENDPOINT-v1|'' @ endpointKey;
             digest = sha256 (bytes_of_string canonical)
         in Some (foldl (\<lambda>ident index. ident @ [kHex ! unat (drop_bit 4 (digest ! index)), kHex ! unat (digest ! index AND 0xF)])
              ''ep_'' [0..<16])))"

section \<open>Padding\<close>

lemma padZeros_eq: "\<exists>k<64. padZeros bs = bs @ replicate k 0 \<and> (length bs + k) mod 64 = 56"
proof (induction bs rule: padZeros.induct)
  case (1 bs)
  show ?case
  proof (cases "length bs mod 64 = 56")
    case True
    then show ?thesis by (intro exI [of _ 0]) (simp add: padZeros.simps [of bs])
  next
    case False
    with 1 obtain k where k: "k < 64" "padZeros (bs @ [0]) = (bs @ [0]) @ replicate k 0" "(length (bs @ [0]) + k) mod 64 = 56" by blast
    then have k64: "Suc k < 64 \<or> Suc k = 64" by auto
    have "Suc k \<noteq> 64"
    proof
      assume "Suc k = 64"
      with k(3) False show False by simp
    qed
    with k k64 False show ?thesis
      by (intro exI [of _ "Suc k"]) (simp add: padZeros.simps [of bs])
  qed
qed

lemma sha256_padded_eq: "sha256_padded input = padZeros (input @ [0x80]) @ be64 (word_of_nat (length input) * 8)"
  by (simp add: sha256_padded_def be64_def Let_def)

lemma bit_length_inject:
  assumes "m < 2 ^ 61" and "n < 2 ^ 61" and "(word_of_nat m * 8 :: u64) = word_of_nat n * 8"
  shows "m = n"
proof -
  have "(word_of_nat (m * 8) :: u64) = word_of_nat (n * 8)" using assms(3) by simp
  then have "take_bit 64 (m * 8) = take_bit 64 (n * 8)" unfolding word_of_nat_eq_iff by simp
  then have "m * 8 mod 2 ^ 64 = n * 8 mod 2 ^ 64" by (simp only: take_bit_eq_mod)
  with assms(1,2) show ?thesis by simp
qed

section \<open>The schedule\<close>

text \<open>The recurrence of the standard (FIPS 180-4, 6.2.2) for a block of sixteen words.\<close>

fun scheduled :: "(nat \<Rightarrow> u32) \<Rightarrow> nat \<Rightarrow> u32" where
  "scheduled block t =
     (if t < 16 then block t
      else (let small0 = (\<lambda>w. word_rotr 7 w XOR word_rotr 18 w XOR drop_bit 3 w);
                small1 = (\<lambda>w. word_rotr 17 w XOR word_rotr 19 w XOR drop_bit 10 w)
            in small1 (scheduled block (t - 2)) + scheduled block (t - 7) + small0 (scheduled block (t - 15)) +
               scheduled block (t - 16)))"

declare scheduled.simps [simp del]

lemma rotateRight_rotr: "0 < n \<Longrightarrow> n < 32 \<Longrightarrow> rotateRight w n = word_rotr n w"
proof (rule bit_word_eqI)
  fix k :: nat
  assume n: "0 < n" "n < 32" and "k < LENGTH(32)"
  then have k: "k < 32" by simp
  have "(k + n) mod 32 = (if k + n < 32 then k + n else k + n - 32)"
    using k n by (cases "k + n < 32") (simp_all add: le_mod_geq)
  with k n show "bit (rotateRight w n) k = bit (word_rotr n w) k"
    by (cases "k + n < 32") (auto simp: rotateRight_def bit_simps bit_word_rotr_iff add.commute)
qed

lemma load_loop:
  assumes "k \<le> 64" and "length ws = 64"
  shows "length (foldl (\<lambda>ws index. ws[index := f index]) ws [0..<k]) = 64 \<and>
     (\<forall>i<k. foldl (\<lambda>ws index. ws[index := f index]) ws [0..<k] ! i = f i)"
  using assms(1)
proof (induction k)
  case (Suc k)
  then show ?case by (auto simp: nth_list_update less_Suc_eq)
qed (simp add: assms(2))

lemma schedule_loop:
  assumes "16 \<le> k" and "k \<le> 64" and "length ws = 64" and "\<forall>i<16. ws ! i = block i"
  shows "length (foldl scheduleStep ws [16..<k]) = 64 \<and> (\<forall>i<k. foldl scheduleStep ws [16..<k] ! i = scheduled block i)"
  using assms(1,2)
proof (induction k rule: dec_induct)
  case base
  then show ?case using assms(3,4) by (simp add: scheduled.simps)
next
  case (step k)
  let ?ws = "foldl scheduleStep ws [16..<k]"
  from step have IH: "length ?ws = 64" "\<And>i. i < k \<Longrightarrow> ?ws ! i = scheduled block i" by auto
  have "foldl scheduleStep ws [16..<Suc k] = scheduleStep ?ws k" using step(1) by simp
  moreover have "scheduleStep ?ws k = ?ws[k := scheduled block k]"
    using step(1) IH(2) [of "k - 15"] IH(2) [of "k - 2"] IH(2) [of "k - 16"] IH(2) [of "k - 7"]
    by (simp add: scheduleStep_def scheduled.simps [of block k] rotateRight_rotr Let_def ac_simps)
  ultimately show ?case using IH step.prems by (auto simp: nth_list_update less_Suc_eq)
qed

section \<open>The digest and the id\<close>

lemma blocks_length: "length state = 8 \<Longrightarrow> length (foldl (sha256_block bs) state offsets) = 8"
  by (induction offsets arbitrary: state) (simp_all add: sha256_block_def Let_def)

lemma sha256_length: "length (sha256 input) = 32"
proof -
  have "length sha256_initial = 8" by (simp add: sha256_initial_def)
  then have "length (foldl (sha256_block bs) sha256_initial offsets) = 8" for bs offsets by (rule blocks_length)
  then show ?thesis by (simp add: sha256_def Let_def length_concat comp_def sum_list_triv)
qed

lemma kHex_inject: "a < 16 \<Longrightarrow> b < 16 \<Longrightarrow> kHex ! a = kHex ! b \<longleftrightarrow> a = b"
proof -
  have "distinct kHex" "length kHex = 16" by (simp_all add: kHex_def)
  then show "a < 16 \<Longrightarrow> b < 16 \<Longrightarrow> kHex ! a = kHex ! b \<longleftrightarrow> a = b" by (metis nth_eq_iff_index_eq)
qed

lemma nibbles_less: "unat (drop_bit 4 (b :: u8)) < 16" "unat (b AND 0xF) < 16"
proof -
  have "unat b < 16 * 16" using unsigned_less [of b, where 'a = nat] by simp
  then have "unat b div 16 < 16" by (rule less_mult_imp_div_less)
  then show "unat (drop_bit 4 b) < 16" by (simp add: drop_bit_eq_div unat_div)
  have "b AND 0xF = take_bit 4 b" by (simp add: take_bit_eq_mask mask_numeral)
  then show "unat (b AND 0xF) < 16" using take_bit_nat_less_exp [of 4 "unat b"] by (simp add: unsigned_take_bit_eq)
qed

definition hex_byte :: "u8 \<Rightarrow> string" where
  "hex_byte b = [kHex ! unat (drop_bit 4 b), kHex ! unat (b AND 0xF)]"

lemma hex_byte_inject: "hex_byte a = hex_byte b \<longleftrightarrow> a = b"
proof
  assume "hex_byte a = hex_byte b"
  then have "drop_bit 4 a = drop_bit 4 b" "a AND 0xF = b AND 0xF"
    using kHex_inject [OF nibbles_less(1) nibbles_less(1)] kHex_inject [OF nibbles_less(2) nibbles_less(2)]
    by (auto simp: hex_byte_def word_unat_eq_iff)
  moreover have "0xF = (mask 4 :: u8)" by (simp add: mask_numeral)
  ultimately have "drop_bit 4 a = drop_bit 4 b" "take_bit 4 a = take_bit 4 b" by (simp_all add: take_bit_eq_mask)
  then show "a = b" by (metis bits_ident)
qed simp

lemma hex_bytes_inject: "concat (map hex_byte xs) = concat (map hex_byte ys) \<longleftrightarrow> xs = ys"
proof (induction xs arbitrary: ys)
  case Nil
  then show ?case by (cases ys) (simp_all add: hex_byte_def)
next
  case (Cons x xs)
  then show ?case using hex_byte_inject [of x] by (cases ys) (auto simp: hex_byte_def)
qed

lemma endpointIdFromKey_eq:
  "endpointIdFromKey key = (if key = [] then None
     else Some (''ep_'' @ concat (map hex_byte (take 16 (sha256 (bytes_of_string (''AXTP-ENDPOINT-v1|'' @ key)))))))"
proof -
  have loop: "foldl (\<lambda>ident index. ident @ [kHex ! unat (drop_bit 4 (d ! index)), kHex ! unat (d ! index AND 0xF)]) s [0..<n] =
      s @ concat (map hex_byte (take n d))" if "n \<le> length d" for d s n
    using that by (induction n) (simp_all add: take_Suc_conv_app_nth hex_byte_def)
  show ?thesis by (simp only: endpointIdFromKey_def Let_def loop [of 16 "sha256 _", unfolded sha256_length, simplified])
qed

section \<open>Properties\<close>

text \<open>
  The padding of SHA-256 is sound: its loop ends, what it produces is a whole number of 64-byte blocks
  that begins with the message, at most 72 bytes longer, and two messages of fewer than 2^61 bytes with
  the same padded form are the same message.
\<close>

theorem sha256_padding:
  "length (sha256_padded input) mod 64 = 0 \<and> take (length input) (sha256_padded input) = input \<and>
   length (sha256_padded input) \<le> length input + 72 \<and>
   (\<forall>other. length input < 2 ^ 61 \<longrightarrow> length other < 2 ^ 61 \<longrightarrow> sha256_padded input = sha256_padded other \<longrightarrow> input = other)"
proof -
  have shape: "\<exists>k<64. sha256_padded bs = bs @ [0x80] @ replicate k 0 @ be64 (word_of_nat (length bs) * 8) \<and>
      (length bs + 1 + k) mod 64 = 56" for bs
    using padZeros_eq [of "bs @ [0x80]"] by (auto simp: sha256_padded_eq)
  have same: "x = y" if small: "length x < 2 ^ 61" "length y < 2 ^ 61" and eq: "sha256_padded x = sha256_padded y" for x y
  proof -
    obtain j where "sha256_padded x = x @ [0x80] @ replicate j 0 @ be64 (word_of_nat (length x) * 8)" using shape by blast
    moreover obtain k where "sha256_padded y = y @ [0x80] @ replicate k 0 @ be64 (word_of_nat (length y) * 8)" using shape by blast
    ultimately have "(x @ [0x80] @ replicate j 0) @ be64 (word_of_nat (length x) * 8) =
        (y @ [0x80] @ replicate k 0) @ be64 (word_of_nat (length y) * 8)" using eq by simp
    then have "be64 (word_of_nat (length x) * 8) = be64 (word_of_nat (length y) * 8)"
      and front: "x @ [0x80] @ replicate j 0 = y @ [0x80] @ replicate k 0" by (simp_all add: append_eq_append_conv del: append_assoc)
    then have "(word_of_nat (length x) * 8 :: u64) = word_of_nat (length y) * 8" by (simp add: u64_wire.enc_inject)
    then have "length x = length y" by (rule bit_length_inject [OF small])
    with front show ?thesis by (simp add: append_eq_append_conv)
  qed
  obtain k where k: "k < 64" "sha256_padded input = input @ [0x80] @ replicate k 0 @ be64 (word_of_nat (length input) * 8)"
    "(length input + 1 + k) mod 64 = 56" using shape by blast
  then have "length (sha256_padded input) = (length input + 1 + k) + 8" by simp
  then have "length (sha256_padded input) mod 64 = ((length input + 1 + k) mod 64 + 8) mod 64" by (simp only: mod_add_left_eq)
  then have "length (sha256_padded input) mod 64 = 0" by (simp only: k(3)) simp
  with k(1,2) same show ?thesis by simp
qed

theorem sha256_padding_witness:
  "length (sha256_padded (bytes_of_string ''abc'')) mod 64 = 0 \<and>
   sha256_padded (bytes_of_string ''abc'') \<noteq> sha256_padded (bytes_of_string ''abd'')"
proof -
  have "length (bytes_of_string ''abc'') < 2 ^ 61" "length (bytes_of_string ''abd'') < 2 ^ 61"
    and "bytes_of_string ''abc'' \<noteq> bytes_of_string ''abd''"
    by (simp_all add: bytes_of_string_def byte_of_char_def)
  with sha256_padding [of "bytes_of_string ''abc''"] show ?thesis by blast
qed

text \<open>
  The schedule loop computes the recurrence of the standard: whatever the block, the sixty-four words
  that the loop leaves in its array are those that FIPS 180-4 defines from the block's sixteen
  big-endian words.
\<close>

theorem schedule_is_recurrence:
  "messageSchedule bs offset = map (scheduled (\<lambda>t. loadWord bs (offset + t * 4))) [0..<64]"
proof -
  let ?block = "\<lambda>t. loadWord bs (offset + t * 4)"
  let ?ws = "foldl (\<lambda>ws index. ws[index := ?block index]) (replicate 64 0) [0..<16]"
  have "length ?ws = 64" "\<forall>i<16. ?ws ! i = ?block i" using load_loop [of 16 "replicate 64 0" ?block] by simp_all
  from schedule_loop [OF _ _ this, of 64] show ?thesis
    by (intro nth_equalityI) (simp_all add: messageSchedule_def)
qed

text \<open>
  An endpoint id has the documented form: only the empty key is refused; every other key gives
  thirty-five characters, "ep_" and thirty-two lower-case hexadecimal digits; and two keys get the same
  id exactly when the first sixteen bytes of their digests agree.
\<close>

theorem endpoint_id_form:
  "(endpointIdFromKey key = None \<longleftrightarrow> key = []) \<and>
   (\<forall>ident. endpointIdFromKey key = Some ident \<longrightarrow> length ident = 35 \<and> take 3 ident = ''ep_'' \<and> set (drop 3 ident) \<subseteq> set kHex) \<and>
   (key \<noteq> [] \<longrightarrow> other \<noteq> [] \<longrightarrow> (endpointIdFromKey key = endpointIdFromKey other \<longleftrightarrow>
      take 16 (sha256 (bytes_of_string (''AXTP-ENDPOINT-v1|'' @ key))) = take 16 (sha256 (bytes_of_string (''AXTP-ENDPOINT-v1|'' @ other)))))"
proof -
  have len: "length (concat (map hex_byte xs)) = 2 * length xs" for xs by (induction xs) (simp_all add: hex_byte_def)
  have "length kHex = 16" by (simp add: kHex_def)
  then have "set (hex_byte b) \<subseteq> set kHex" for b
    using nibbles_less [of b] by (simp add: hex_byte_def)
  then have "set (concat (map hex_byte xs)) \<subseteq> set kHex" for xs by auto
  then show ?thesis
    unfolding endpointIdFromKey_eq using hex_bytes_inject
    by (auto simp: len sha256_length)
qed

theorem endpoint_id_form_witness:
  "\<exists>ident. endpointIdFromKey ''camera'' = Some ident \<and> length ident = 35 \<and> endpointIdFromKey '''' = None"
  using endpoint_id_form [of "''camera''" "''''"] endpoint_id_form [of "''''" "''camera''"] by auto

end
