(* ===== verification/Schema_Codec.thy ===== *)
theory Schema_Codec
  imports Number_Text "HOL-Library.Sublist" "HOL-Library.Multiset"
begin

text \<open>
  Objects that follow a schema (\<^verbatim>\<open>core/protocol/wire/schema_object_codec.hpp\<close>): validation of JSON
  objects against the generated table of schema facts, and their TLV8 form. The table
  (\<^verbatim>\<open>schemaJsonFacts()\<close>, a JSON text written by the generator) is a parameter, with the members that
  the codec reads as record fields; every theorem holds for all tables, cyclic ones included
  (the generated one is in \<open>Schema_Facts\<close>). JSON
  values of the kind \<^verbatim>\<open>binary\<close>, which no JSON text gives, are not among the values.

  Shown here: what counts as a canonical decimal; that the TLV8 form of an object is read back as that
  object whatever the order of its records and with unknown records between them; that what is read
  is valid; and that fields of the types \<^verbatim>\<open>number\<close> and \<^verbatim>\<open>array\<close> with a \<^verbatim>\<open>schema\<close> are never valid.
\<close>

section \<open>Canonical decimals\<close>

fun canonicalLoop :: "u64 \<Rightarrow> string \<Rightarrow> bool" where
  "canonicalLoop result (ch # s) =
     (let k = of_char ch :: nat in
      if k < 48 \<or> k > 57 then False
      else (let digit = word_of_nat (k - 48) :: u64 in
            if result > (- 1 - digit) div 10 then False else canonicalLoop (result * 10 + digit) s))"
| "canonicalLoop result [] = True"

definition isCanonicalUint64Decimal :: "string \<Rightarrow> bool" where
  "isCanonicalUint64Decimal s =
     (if s = [] \<or> length s > 20 \<or> (length s > 1 \<and> hd s = CHR ''0'') then False else canonicalLoop 0 s)"

section \<open>The schema facts\<close>

text \<open>
  \<open>sf_min\<close> and \<open>sf_max\<close> are the bits of an integer, which \<^verbatim>\<open>get<std::uint64_t>\<close> and
  \<^verbatim>\<open>get<std::int64_t>\<close> read unsigned and signed. \<open>sf_array\<close> holds \<^verbatim>\<open>itemSchema\<close> and \<^verbatim>\<open>itemType\<close>.
\<close>

record schema_field =
  sf_id :: u32
  sf_name :: string
  sf_type :: string
  sf_required :: bool
  sf_maxLength :: "u64 option"
  sf_canonical :: bool
  sf_enum :: "string list option"
  sf_min :: "u64 option"
  sf_max :: "u64 option"
  sf_array :: "(string option \<times> string option) option"
  sf_schema :: "string option"
  sf_variants :: "(string \<times> (string \<times> string) list) option"

type_synonym schema_facts = "string \<Rightarrow> schema_field list option"

definition typed_field :: "string \<Rightarrow> schema_field" where
  "typed_field type = \<lparr>sf_id = 0, sf_name = '''', sf_type = type, sf_required = False, sf_maxLength = None, sf_canonical = False,
     sf_enum = None, sf_min = None, sf_max = None, sf_array = None, sf_schema = None, sf_variants = None\<rparr>"

section \<open>Validation\<close>

fun is_boolean :: "json \<Rightarrow> bool" where
  "is_boolean (JBool b) = True"
| "is_boolean _ = False"

fun is_array :: "json \<Rightarrow> bool" where
  "is_array (JArray vs) = True"
| "is_array _ = False"

fun is_number_unsigned :: "json \<Rightarrow> bool" where
  "is_number_unsigned (JUnsigned n) = True"
| "is_number_unsigned _ = False"

fun integer_bits :: "json \<Rightarrow> u64" where
  "integer_bits (JInt n) = n"
| "integer_bits (JUnsigned n) = n"
| "integer_bits _ = 0"

definition stringValid :: "json_lib \<Rightarrow> schema_field \<Rightarrow> json \<Rightarrow> bool" where
  "stringValid lib f v =
     (case get_string v of
        None \<Rightarrow> False
      | Some text \<Rightarrow>
          if (case sf_maxLength f of Some n \<Rightarrow> length text > unat n | None \<Rightarrow> False) then False
          else if sf_canonical f \<and> \<not> isCanonicalUint64Decimal text then False
          else jl_dump lib v \<noteq> None)"

definition unsignedValid :: "nat \<Rightarrow> schema_field \<Rightarrow> json \<Rightarrow> bool" where
  "unsignedValid bits f v =
     (if \<not> is_number_unsigned v \<and> sint (integer_bits v) < 0 then False
      else
        (let n = integer_bits v in
         if bits < 64 \<and> unat n \<ge> 2 ^ bits then False
         else if (case sf_min f of Some m \<Rightarrow> n < m | None \<Rightarrow> False) then False
         else if (case sf_max f of Some m \<Rightarrow> n > m | None \<Rightarrow> False) then False
         else True))"

definition signedValid :: "nat \<Rightarrow> schema_field \<Rightarrow> json \<Rightarrow> bool" where
  "signedValid bits f v =
     (if is_number_unsigned v \<and> unat (integer_bits v) > 2 ^ 63 - 1 then False
      else
        (let n = sint (integer_bits v) in
         if bits < 64 \<and> (n < - (2 ^ (bits - 1)) \<or> n \<ge> 2 ^ (bits - 1)) then False
         else if (case sf_min f of Some m \<Rightarrow> n < sint m | None \<Rightarrow> False) then False
         else if (case sf_max f of Some m \<Rightarrow> n > sint m | None \<Rightarrow> False) then False
         else True))"

text \<open>An exception of \<^verbatim>\<open>std::stoul\<close> is caught by the enclosing \<^verbatim>\<open>validate\<close>, which then returns false.\<close>

definition integerValid :: "schema_field \<Rightarrow> json \<Rightarrow> bool" where
  "integerValid f v =
     (if \<not> is_number_integer v then False
      else
        (let unsign = hd (sf_type f) = CHR ''u'' in
         case stoull (drop (if unsign then 4 else 3) (sf_type f)) 10 of
           None \<Rightarrow> False
         | Some n \<Rightarrow>
             (let bits = unat (ucast n :: u32) in if unsign then unsignedValid bits f v else signedValid bits f v)))"

definition itemField :: "string option \<times> string option \<Rightarrow> schema_field" where
  "itemField a =
     (let (itemSchema, itemType) = a
      in typed_field (case itemSchema of Some s \<Rightarrow> s | None \<Rightarrow> (case itemType of Some t \<Rightarrow> t | None \<Rightarrow> '''')))"

text \<open>A field with variants takes its schema from the discriminator; None is a field that is not valid.\<close>

definition selectedField :: "(string, json) fmap \<Rightarrow> schema_field \<Rightarrow> schema_field option" where
  "selectedField object f =
     (case sf_variants f of
        None \<Rightarrow> Some f
      | Some (discriminator, mapping) \<Rightarrow>
          (case Option.bind (fmlookup object discriminator) get_string of
             None \<Rightarrow> None
           | Some choice \<Rightarrow>
               (case map_of mapping choice of None \<Rightarrow> None | Some s \<Rightarrow> Some (f\<lparr>sf_schema := Some s\<rparr>))))"

function validate :: "json_lib \<Rightarrow> schema_facts \<Rightarrow> string \<Rightarrow> json \<Rightarrow> nat \<Rightarrow> bool"
  and fieldValid :: "json_lib \<Rightarrow> schema_facts \<Rightarrow> schema_field \<Rightarrow> json \<Rightarrow> nat \<Rightarrow> bool" where
  "validate lib facts schema v depth =
     (if depth > 32 \<or> \<not> is_object v then False
      else (case (v, facts schema) of
              (JObject object, Some fs) \<Rightarrow>
                list_all (\<lambda>f.
                  case fmlookup object (sf_name f) of
                    None \<Rightarrow> \<not> sf_required f
                  | Some w \<Rightarrow>
                      (case selectedField object f of
                         None \<Rightarrow> False
                       | Some selected \<Rightarrow> fieldValid lib facts selected w depth)) fs \<and>
                jl_dump lib v \<noteq> None
            | _ \<Rightarrow> False))"
| "fieldValid lib facts f v depth =
     (let type = sf_type f in
      if v = JNull then False
      else if type = ''string'' then stringValid lib f v
      else if type = ''bool'' then is_boolean v
      else if type = ''enum''
      then (case sf_enum f of
              None \<Rightarrow> is_string v \<or> is_number_integer v
            | Some names \<Rightarrow> list_ex (\<lambda>name. v = JString name) names)
      else if prefix ''uint'' type \<or> prefix ''int'' type then integerValid f v
      else if type = ''array''
      then (case (v, sf_array f) of
              (JArray vs, Some a) \<Rightarrow> list_all (\<lambda>v. fieldValid lib facts (itemField a) v (depth + 1)) vs
            | _ \<Rightarrow> False)
      else if type = ''object''
      then (case sf_schema f of Some s \<Rightarrow> validate lib facts s v (depth + 1) | None \<Rightarrow> is_object v)
      else if type = ''bytes'' then is_string v
      else if type = ''bitmap'' then is_string v \<or> is_array v \<or> is_number_unsigned v
      else validate lib facts type v (depth + 1))"
  by pat_completeness auto
termination
  by (relation "measure (\<lambda>x. case x of
        Inl (lib, facts, schema, v, depth) \<Rightarrow> 3 * (33 - depth)
      | Inr (lib, facts, f, v, depth) \<Rightarrow> 3 * (32 - depth) + (if sf_array f = None then 1 else 2))")
    (auto simp: itemField_def typed_field_def split: prod.splits)

declare fieldValid.simps [simp del] validate.simps [simp del]


section \<open>decodeJson, encodeJson\<close>

definition decodeJson :: "json_lib \<Rightarrow> schema_facts \<Rightarrow> string \<Rightarrow> string \<Rightarrow> json option" where
  "decodeJson lib facts schema text =
     (case jl_parse lib text of None \<Rightarrow> None | Some v \<Rightarrow> if validate lib facts schema v 0 then Some v else None)"

definition encodeJson :: "json_lib \<Rightarrow> schema_facts \<Rightarrow> string \<Rightarrow> json \<Rightarrow> string option" where
  "encodeJson lib facts schema object =
     (if \<not> validate lib facts schema object 0 then None else jl_dump lib object)"

section \<open>TLV8\<close>

text \<open>What a caller of \<^verbatim>\<open>encodeTlv8\<close> or \<^verbatim>\<open>decodeTlv8\<close> gets instead of a result: \<^verbatim>\<open>nullopt\<close> or an exception.\<close>

datatype no_result = NoValue | Thrown

primrec uintBytes :: "nat \<Rightarrow> u64 \<Rightarrow> bytes" where
  "uintBytes 0 n = []"
| "uintBytes (Suc i) n = ucast (drop_bit (i * 8) n) # uintBytes i n"

text \<open>The width in bytes, as the encoder (through \<^verbatim>\<open>unsigned\<close>) and as the decoder computes it.\<close>

definition encodedWidth :: "string \<Rightarrow> nat option" where
  "encodedWidth type = map_option (\<lambda>n. unat (ucast n :: u32) div 8) (stoull (drop 4 type) 10)"

definition uintWidth :: "string \<Rightarrow> nat option" where
  "uintWidth type = map_option (\<lambda>n. unat n div 8) (stoull (drop 4 type) 10)"

text \<open>The bytes of one field; \<open>nested\<close> is the encoder at the next depth.\<close>

definition encodeValue ::
    "(string \<Rightarrow> json \<Rightarrow> no_result + bytes) \<Rightarrow> schema_facts \<Rightarrow> string \<Rightarrow> json \<Rightarrow> no_result + bytes" where
  "encodeValue nested facts type v =
     (if type = ''string'' then (case get_string v of Some s \<Rightarrow> Inr (bytes_of_string s) | None \<Rightarrow> Inl Thrown)
      else if type = ''bool'' then (case get_bool v of Some b \<Rightarrow> Inr [if b then 1 else 0] | None \<Rightarrow> Inl Thrown)
      else if prefix ''uint'' type
      then (case encodedWidth type of
              None \<Rightarrow> Inl Thrown
            | Some width \<Rightarrow> if is_number_integer v then Inr (uintBytes width (integer_bits v)) else Inl Thrown)
      else if facts type \<noteq> None then nested type v
      else Inl NoValue)"

fun encodeFields ::
    "(string \<Rightarrow> json \<Rightarrow> no_result + bytes) \<Rightarrow> schema_facts \<Rightarrow> (string, json) fmap \<Rightarrow> schema_field list \<Rightarrow> bytes \<Rightarrow>
     no_result + bytes" where
  "encodeFields nested facts object (f # fs) result =
     (case fmlookup object (sf_name f) of
        None \<Rightarrow> encodeFields nested facts object fs result
      | Some v \<Rightarrow>
          (case encodeValue nested facts (sf_type f) v of
             Inl e \<Rightarrow> Inl e
           | Inr data \<Rightarrow>
               if sf_id f = 0 \<or> sf_id f \<ge> 255 \<or> length data > 255 then Inl NoValue
               else encodeFields nested facts object fs (result @ [ucast (sf_id f), word_of_nat (length data)] @ data)))"
| "encodeFields nested facts object [] result = Inr result"

function encodeTlv8 :: "json_lib \<Rightarrow> schema_facts \<Rightarrow> string \<Rightarrow> json \<Rightarrow> nat \<Rightarrow> no_result + bytes" where
  "encodeTlv8 lib facts schema v depth =
     (if depth > 32 \<or> \<not> validate lib facts schema v 0 then Inl NoValue
      else (case (v, facts schema) of
              (JObject object, Some fs) \<Rightarrow>
                encodeFields (\<lambda>type w. encodeTlv8 lib facts type w (depth + 1)) facts object (sort_key sf_id fs) []
            | _ \<Rightarrow> Inl NoValue))"
  by pat_completeness auto
termination by (relation "measure (\<lambda>(lib, facts, schema, v, depth). 33 - depth)") auto

definition decodeValue ::
    "(string \<Rightarrow> bytes \<Rightarrow> no_result + json) \<Rightarrow> schema_facts \<Rightarrow> string \<Rightarrow> bytes \<Rightarrow> no_result + json" where
  "decodeValue nested facts type data =
     (if type = ''string'' then Inr (JString (string_of_bytes data))
      else if type = ''bool''
      then (case data of [b] \<Rightarrow> if b > 1 then Inl NoValue else Inr (JBool (b = 1)) | _ \<Rightarrow> Inl NoValue)
      else if prefix ''uint'' type
      then (case uintWidth type of
              None \<Rightarrow> Inl Thrown
            | Some width \<Rightarrow>
                if length data \<noteq> width then Inl NoValue
                else Inr (JUnsigned (foldl (\<lambda>n b. push_bit 8 n OR ucast b) 0 data)))
      else if facts type \<noteq> None then nested type data
      else Inl NoValue)"

definition decodeRecord ::
    "(string \<Rightarrow> bytes \<Rightarrow> no_result + json) \<Rightarrow> schema_facts \<Rightarrow> schema_field list \<Rightarrow> (string, json) fmap \<Rightarrow> byte \<Rightarrow> bytes \<Rightarrow>
     no_result + (string, json) fmap" where
  "decodeRecord nested facts fs object ident data =
     (case find (\<lambda>f. sf_id f = ucast ident) fs of
        None \<Rightarrow> Inr object
      | Some f \<Rightarrow>
          if fmlookup object (sf_name f) \<noteq> None then Inl NoValue
          else (case decodeValue nested facts (sf_type f) data of
                  Inl e \<Rightarrow> Inl e
                | Inr v \<Rightarrow> Inr (fmupd (sf_name f) v object)))"

fun decodeRecords ::
    "(string \<Rightarrow> bytes \<Rightarrow> no_result + json) \<Rightarrow> schema_facts \<Rightarrow> schema_field list \<Rightarrow> (string, json) fmap \<Rightarrow> bytes \<Rightarrow>
     no_result + (string, json) fmap" where
  "decodeRecords nested facts fs object (ident # len # rest) =
     (if unat len > length rest then Inl NoValue
      else (case decodeRecord nested facts fs object ident (take (unat len) rest) of
              Inl e \<Rightarrow> Inl e
            | Inr object \<Rightarrow> decodeRecords nested facts fs object (drop (unat len) rest)))"
| "decodeRecords nested facts fs object [ident] = Inl NoValue"
| "decodeRecords nested facts fs object [] = Inr object"

function decodeTlv8 :: "json_lib \<Rightarrow> schema_facts \<Rightarrow> string \<Rightarrow> bytes \<Rightarrow> nat \<Rightarrow> no_result + json" where
  "decodeTlv8 lib facts schema data depth =
     (if depth > 32 then Inl NoValue
      else (case facts schema of
              None \<Rightarrow> Inl NoValue
            | Some fs \<Rightarrow>
                (case decodeRecords (\<lambda>type slice. decodeTlv8 lib facts type slice (depth + 1)) facts fs fmempty data of
                   Inl e \<Rightarrow> Inl e
                 | Inr object \<Rightarrow>
                     if validate lib facts schema (JObject object) 0 then Inr (JObject object) else Inl NoValue)))"
  by pat_completeness auto
termination by (relation "measure (\<lambda>(lib, facts, schema, data, depth). 33 - depth)") auto

declare encodeTlv8.simps [simp del] decodeTlv8.simps [simp del]


section \<open>Decimals\<close>

definition is_digit :: "char \<Rightarrow> bool" where
  "is_digit c \<longleftrightarrow> digit_value 10 c \<noteq> None"

definition text_number :: "string \<Rightarrow> nat" where
  "text_number s = digits_number 10 (map (\<lambda>c. the (digit_value 10 c)) s)"

lemma digit_value_10: "digit_value 10 c = (let k = of_char c :: nat in if 48 \<le> k \<and> k \<le> 57 then Some (k - 48) else None)"
  by (auto simp: digit_value_def Let_def)

lemma digits_foldl: "foldl (\<lambda>n d. n * 10 + d) r (map (\<lambda>c. the (digit_value 10 c)) s) = r * 10 ^ length s + text_number s"
proof (induction s rule: rev_induct)
  case (snoc c s)
  then show ?case by (simp add: text_number_def digits_number_def algebra_simps)
qed (simp add: text_number_def digits_number_def)

lemma text_number_Cons: "text_number (c # s) = the (digit_value 10 c) * 10 ^ length s + text_number s"
  using digits_foldl [of "the (digit_value 10 c)" s] by (simp add: text_number_def digits_number_def)

lemma room_for_digit:
  fixes r d :: u64
  assumes "unat d < 10"
  shows "r > (- 1 - d) div 10 \<longleftrightarrow> unat r * 10 + unat d \<ge> 2 ^ 64"
proof -
  have "d \<le> - 1" by simp
  then have "unat (- 1 - d) = (2 ^ 64 - 1) - unat d" by (simp only: unat_sub) (simp add: unsigned_minus_1_eq_mask mask_eq_exp_minus_1)
  then have "unat ((- 1 - d) div 10) = (2 ^ 64 - 1 - unat d) div 10" by (simp add: unat_div)
  then show ?thesis using assms by (simp add: word_less_nat_alt) linarith
qed

lemma canonicalLoop_iff: "canonicalLoop r s \<longleftrightarrow> list_all is_digit s \<and> unat r * 10 ^ length s + text_number s < 2 ^ 64"
proof (induction s arbitrary: r)
  case Nil
  show ?case using unsigned_less [of r, where 'a = nat] by (simp add: text_number_def digits_number_def)
next
  case (Cons c s)
  define k where "k = (of_char c :: nat)"
  show ?case
  proof (cases "48 \<le> k \<and> k \<le> 57")
    case False
    then show ?thesis by (auto simp: k_def is_digit_def digit_value_10 Let_def)
  next
    case True
    define d where "d = (word_of_nat (k - 48) :: u64)"
    have "unat d = (k - 48) mod 2 ^ 64" by (simp only: d_def unat_of_nat) simp
    moreover have small: "k - 48 < 10" using True by arith
    then have "(k - 48) mod 2 ^ 64 = k - 48" by (intro mod_less) (rule less_trans, assumption, simp)
    ultimately have d: "unat d = k - 48" by simp
    with True have "unat d < 10" by auto
    note room = room_for_digit [OF this, of r]
    have digit: "is_digit c" "the (digit_value 10 c) = unat d" using True d by (simp_all add: is_digit_def digit_value_10 k_def)
    have big: "2 ^ 64 \<le> unat r * 10 ^ length (c # s) + text_number (c # s)" if "2 ^ 64 \<le> unat r * 10 + unat d"
    proof -
      have "2 ^ 64 * 1 \<le> (unat r * 10 + unat d) * 10 ^ length s" using that by (intro mult_le_mono) simp_all
      then show ?thesis by (simp add: text_number_Cons digit(2) algebra_simps)
    qed
    then have small: "unat r * 10 + unat d < 2 ^ 64" if "unat r * 10 ^ length (c # s) + text_number (c # s) < 2 ^ 64"
      using that by (meson not_le)
    have fit: "unat (r * 10 + d) = unat r * 10 + unat d" if "unat r * 10 + unat d < 2 ^ 64"
      using that by (simp add: unat_word_ariths)
    have "canonicalLoop r (c # s) \<longleftrightarrow> unat r * 10 + unat d < 2 ^ 64 \<and> canonicalLoop (r * 10 + d) s"
      using True room by (auto simp: k_def [symmetric] d_def [symmetric] Let_def)
    also have "\<dots> \<longleftrightarrow> unat r * 10 + unat d < 2 ^ 64 \<and> list_all is_digit s \<and>
        (unat r * 10 + unat d) * 10 ^ length s + text_number s < 2 ^ 64"
      using fit by (auto simp: Cons)
    also have "\<dots> \<longleftrightarrow> list_all is_digit (c # s) \<and> unat r * 10 ^ length (c # s) + text_number (c # s) < 2 ^ 64"
      using small digit by (auto simp: text_number_Cons algebra_simps)
    finally show ?thesis .
  qed
qed


lemma text_number_snoc: "text_number (s @ [c]) = text_number s * 10 + the (digit_value 10 c)"
  by (simp add: text_number_def digits_number_snoc)

lemma digit_back: "is_digit c \<Longrightarrow> the (digit_value 10 c) < 10 \<and> char_of (48 + the (digit_value 10 c)) = c"
  by (auto simp: is_digit_def digit_value_10 Let_def split: if_splits)

lemma leading_digit: "is_digit c \<Longrightarrow> c \<noteq> CHR ''0'' \<Longrightarrow> 10 ^ length s \<le> text_number (c # s)"
proof -
  assume c: "is_digit c" "c \<noteq> CHR ''0''"
  have "the (digit_value 10 c) \<noteq> 0"
  proof
    assume "the (digit_value 10 c) = 0"
    with digit_back [OF c(1)] have "c = char_of (48 :: nat)" by simp
    also have "\<dots> = CHR ''0''" by (simp add: char_of_def bit_simps numeral_2_eq_2)
    finally show False using c(2) by simp
  qed
  then have "1 * 10 ^ length s \<le> the (digit_value 10 c) * 10 ^ length s" by (intro mult_le_mono1) simp
  then show ?thesis unfolding text_number_Cons by linarith
qed

lemma decimal_text_number:
  "list_all is_digit s \<Longrightarrow> s \<noteq> [] \<Longrightarrow> length s > 1 \<longrightarrow> hd s \<noteq> CHR ''0'' \<Longrightarrow> decimal (text_number s) = s"
proof (induction s rule: rev_induct)
  case (snoc c s)
  then have c: "the (digit_value 10 c) < 10" "char_of (48 + the (digit_value 10 c)) = c" using digit_back [of c] by simp_all
  show ?case
  proof (cases s)
    case Nil
    with c show ?thesis by (simp add: text_number_def digits_number_def decimal.simps [of "the _"])
  next
    case (Cons a t)
    with snoc.prems have "10 ^ length t \<le> text_number s" using leading_digit [of a t] by simp
    moreover have "(1 :: nat) \<le> 10 ^ length t" by simp
    ultimately have "1 \<le> text_number s" by linarith
    moreover from Cons snoc have "decimal (text_number s) = s" by simp
    ultimately show ?thesis using c by (simp add: text_number_snoc decimal.simps [of "_ * 10 + _"])
  qed
qed simp

lemma hd_decimal: "0 < n \<Longrightarrow> hd (decimal n) \<noteq> CHR ''0''"
proof (induction n rule: decimal.induct)
  case (1 n)
  show ?case
  proof (cases "n < 10")
    case True
    then have "digit_value 10 (char_of (48 + n)) = Some n" by (rule digit_char)
    moreover have "digit_value 10 (CHR ''0'') = Some 0" by (simp add: digit_value_10)
    ultimately show ?thesis using 1(2) True by (auto simp: decimal.simps [of n])
  next
    case False
    with 1 decimal_digits [of "n div 10"] show ?thesis by (simp add: decimal.simps [of n] hd_append)
  qed
qed

lemma canonical_decimal: "isCanonicalUint64Decimal s \<longleftrightarrow> (\<exists>n < 2 ^ 64. s = decimal n)"
proof
  assume "isCanonicalUint64Decimal s"
  then have "s \<noteq> []" "length s > 1 \<longrightarrow> hd s \<noteq> CHR ''0''" "list_all is_digit s" "text_number s < 2 ^ 64"
    by (auto simp: isCanonicalUint64Decimal_def canonicalLoop_iff split: if_splits)
  then show "\<exists>n < 2 ^ 64. s = decimal n" using decimal_text_number [of s] by metis
next
  assume "\<exists>n < 2 ^ 64. s = decimal n"
  then obtain n where n: "n < 2 ^ 64" "s = decimal n" by blast
  with decimal_digits [of n] have s: "list_all is_digit s" "text_number s = n" "s \<noteq> []"
    by (simp_all add: is_digit_def [abs_def] text_number_def)
  then obtain c t where ct: "s = c # t" by (cases s) auto
  have first: "c \<noteq> CHR ''0''" if "length s > 1"
  proof -
    have "0 < n" using that n(2) by (cases n) (auto simp: decimal.simps [of 0])
    with hd_decimal [OF this] n(2) ct show ?thesis by (metis list.sel(1))
  qed
  have "length s \<le> 20"
  proof (cases "length s > 1")
    case True
    with leading_digit [of c t] first ct s have "10 ^ length t \<le> n" by simp
    with n(1) have "(10 :: nat) ^ length t < 10 ^ 20" by simp
    then have "length t < 20" by (rule power_less_imp_less_exp [rotated]) simp
    with ct show ?thesis by simp
  qed simp
  with s n(1) first ct show "isCanonicalUint64Decimal s" by (auto simp: isCanonicalUint64Decimal_def canonicalLoop_iff)
qed


section \<open>Values and their bytes\<close>

text \<open>
  What the theorems ask of the table: in each schema ids and names are distinct, and unsigned integers
  have one of the four widths that the generator writes.
\<close>

definition regular_table :: "schema_facts \<Rightarrow> bool" where
  "regular_table facts \<longleftrightarrow>
     (\<forall>schema fs. facts schema = Some fs \<longrightarrow>
        distinct (map sf_id fs) \<and> distinct (map sf_name fs) \<and>
        (\<forall>f\<in>set fs. prefix ''uint'' (sf_type f) \<longrightarrow> sf_type f \<in> {''uint8'', ''uint16'', ''uint32'', ''uint64''}))"

text \<open>
  An object with nothing but fields of the schema, its unsigned integers kept as such, and its nested
  objects of the same kind: what the TLV8 form can carry without loss.
\<close>

inductive tlv_object :: "schema_facts \<Rightarrow> string \<Rightarrow> json \<Rightarrow> bool" for facts where
  tlv_objectI: "facts schema = Some fs \<Longrightarrow>
     (\<And>key w. fmlookup object key = Some w \<Longrightarrow>
        \<exists>f\<in>set fs. sf_name f = key \<and>
          (sf_type f = ''string'' \<or> sf_type f = ''bool'' \<or> (prefix ''uint'' (sf_type f) \<and> is_number_unsigned w) \<or>
           tlv_object facts (sf_type f) w)) \<Longrightarrow>
     tlv_object facts schema (JObject object)"

inductive_cases tlv_objectE: "tlv_object facts schema v"

inductive_simps tlv_object_JObject: "tlv_object facts schema (JObject object)"

lemma uint_stoull:
  "stoull ''8'' 10 = Some 8" "stoull ''16'' 10 = Some 16" "stoull ''32'' 10 = Some 32" "stoull ''64'' 10 = Some 64"
  using stoull_decimal [of 8 "[]"] stoull_decimal [of 16 "[]"] stoull_decimal [of 32 "[]"] stoull_decimal [of 64 "[]"]
  by (simp_all add: decimal.simps char_of_def bit_simps)

lemma length_uintBytes [simp]: "length (uintBytes k n) = k"
  by (induction k) simp_all

lemma uintBytes_read: "foldl (\<lambda>n b. push_bit 8 n OR ucast b) r (uintBytes k n) = push_bit (8 * k) r OR take_bit (8 * k) (n :: u64)"
proof (induction k arbitrary: r)
  case (Suc k)
  have "foldl (\<lambda>n b. push_bit 8 n OR ucast b) r (uintBytes (Suc k) n) =
      push_bit (8 * k) (push_bit 8 r OR ucast (ucast (drop_bit (k * 8) n) :: byte)) OR take_bit (8 * k) n"
    by (simp add: Suc)
  also have "\<dots> = push_bit (8 * Suc k) r OR take_bit (8 * Suc k) n"
    by (rule bit_word_eqI) (auto simp: bit_simps algebra_simps not_less)
  finally show ?case .
qed simp

text \<open>A valid unsigned integer fits the width of its type.\<close>

lemma uint_width:
  assumes "t = ''uint'' @ s" and "stoull s 10 = Some (word_of_nat (8 * k))" and "k \<le> 8"
  shows "encodedWidth t = Some k \<and> uintWidth t = Some k \<and>
     (\<forall>f n. sf_type f = t \<longrightarrow> integerValid f (JUnsigned n) \<longrightarrow> take_bit (8 * k) n = n)"
proof -
  have small: "8 * k < 2 ^ LENGTH(32)" "8 * k < 2 ^ LENGTH(64)" using assms(3) by simp_all
  then have "unat (word_of_nat (8 * k) :: u64) = 8 * k" by (simp only: unat_of_nat mod_less)
  moreover from this have "unat (ucast (word_of_nat (8 * k) :: u64) :: u32) = 8 * k"
    using small by (simp only: unsigned_ucast_eq take_bit_nat_eq_self)
  moreover have "take_bit (8 * k) n = n" if "8 * k < 64 \<longrightarrow> unat n < 2 ^ (8 * k)" for n :: u64
  proof (cases "8 * k < 64")
    case True
    with that show ?thesis by (simp add: word_unat_eq_iff unsigned_take_bit_eq take_bit_nat_eq_self)
  next
    case False
    with assms(3) have "8 * k = LENGTH(64)" by simp
    then show ?thesis by (simp only: take_bit_length_eq)
  qed
  ultimately show ?thesis
    using assms(1,2)
    by (auto simp: encodedWidth_def uintWidth_def integerValid_def unsignedValid_def Let_def not_le split: if_splits)
qed

lemma uint_widths:
  assumes "t \<in> {''uint8'', ''uint16'', ''uint32'', ''uint64''}"
  shows "\<exists>k \<le> 8. encodedWidth t = Some k \<and> uintWidth t = Some k \<and>
     (\<forall>f n. sf_type f = t \<longrightarrow> integerValid f (JUnsigned n) \<longrightarrow> take_bit (8 * k) n = n)"
proof -
  consider "t = ''uint'' @ ''8''" | "t = ''uint'' @ ''16''" | "t = ''uint'' @ ''32''" | "t = ''uint'' @ ''64''"
    using assms by auto
  then show ?thesis
  proof cases
    case 1
    with uint_width [OF 1, of 1] show ?thesis by (intro exI [of _ 1]) (simp add: uint_stoull)
  next
    case 2
    with uint_width [OF 2, of 2] show ?thesis by (intro exI [of _ 2]) (simp add: uint_stoull)
  next
    case 3
    with uint_width [OF 3, of 4] show ?thesis by (intro exI [of _ 4]) (simp add: uint_stoull)
  next
    case 4
    with uint_width [OF 4, of 8] show ?thesis by (intro exI [of _ 8]) (simp add: uint_stoull)
  qed
qed


lemma value_roundtrip:
  assumes "encodeValue nestedE facts type v = Inr data"
    and "fieldValid lib facts f v depth" and "sf_type f = type"
    and "prefix ''uint'' type \<Longrightarrow> type \<in> {''uint8'', ''uint16'', ''uint32'', ''uint64''} \<and> is_number_unsigned v"
    and "type \<noteq> ''string'' \<Longrightarrow> type \<noteq> ''bool'' \<Longrightarrow> \<not> prefix ''uint'' type \<Longrightarrow> nestedE type v = Inr data \<Longrightarrow> nestedD type data = Inr v"
  shows "decodeValue nestedD facts type data = Inr v"
proof (cases "prefix ''uint'' type")
  case True
  with assms(4) obtain n where n: "type \<in> {''uint8'', ''uint16'', ''uint32'', ''uint64''}" "v = JUnsigned n"
    by (cases v) auto
  then have "type \<noteq> ''string''" "type \<noteq> ''bool''" "type \<noteq> ''enum''" by auto
  with True n assms(2,3) have "integerValid f (JUnsigned n)" by (simp add: fieldValid.simps Let_def)
  with uint_widths [OF n(1)] assms(3) obtain k where
    "k \<le> 8" "encodedWidth type = Some k" "uintWidth type = Some k" "take_bit (8 * k) n = n" by blast
  with True \<open>type \<noteq> ''string''\<close> \<open>type \<noteq> ''bool''\<close> assms(1) n(2) show ?thesis
    by (auto simp: encodeValue_def decodeValue_def uintBytes_read)
next
  case False
  with assms(1,5) show ?thesis
    by (auto simp: encodeValue_def decodeValue_def split: if_splits option.splits elim!: get_string.elims get_bool.elims)
qed

section \<open>Records\<close>

definition tlv_records :: "(byte \<times> bytes) list \<Rightarrow> bytes" where
  "tlv_records rs = concat (map (\<lambda>(ident, data). ident # word_of_nat (length data) # data) rs)"

definition known_record :: "schema_field list \<Rightarrow> byte \<times> bytes \<Rightarrow> bool" where
  "known_record fs r \<longleftrightarrow> list_ex (\<lambda>f. sf_id f = ucast (fst r)) fs"

lemma tlv_records_simps [simp]:
  "tlv_records [] = []" "tlv_records ((ident, data) # rs) = ident # word_of_nat (length data) # data @ tlv_records rs"
  by (simp_all add: tlv_records_def)

lemma tlv_records_append: "tlv_records (rs @ ss) = tlv_records rs @ tlv_records ss"
  by (simp add: tlv_records_def)

lemma ucast_byte_inject: "(ucast (a :: byte) :: u32) = ucast b \<longleftrightarrow> a = b"
proof
  assume "(ucast a :: u32) = ucast b"
  then have "(ucast (ucast a :: u32) :: byte) = ucast (ucast b :: u32)" by simp
  moreover have "(ucast (ucast c :: u32) :: byte) = c" for c :: byte by (rule bit_word_eqI) (auto simp: bit_simps)
  ultimately show "a = b" by simp
qed simp

lemma unat_byte_length: "n \<le> 255 \<Longrightarrow> unat (word_of_nat n :: byte) = n"
  by (simp add: unat_of_nat)

text \<open>The bytes of a field that is present, and the records of an encoded object.\<close>

definition field_data ::
    "(string \<Rightarrow> json \<Rightarrow> no_result + bytes) \<Rightarrow> schema_facts \<Rightarrow> (string, json) fmap \<Rightarrow> schema_field \<Rightarrow> bytes" where
  "field_data nested facts object f = projr (encodeValue nested facts (sf_type f) (the (fmlookup object (sf_name f))))"

definition object_records ::
    "(string \<Rightarrow> json \<Rightarrow> no_result + bytes) \<Rightarrow> schema_facts \<Rightarrow> (string, json) fmap \<Rightarrow> schema_field list \<Rightarrow> (byte \<times> bytes) list" where
  "object_records nested facts object fs =
     map (\<lambda>f. (ucast (sf_id f), field_data nested facts object f)) (filter (\<lambda>f. fmlookup object (sf_name f) \<noteq> None) fs)"

lemma encodeFields_records:
  assumes "encodeFields nested facts object fs acc = Inr bs"
  shows "bs = acc @ tlv_records (object_records nested facts object fs) \<and>
     (\<forall>f\<in>set fs. \<forall>v. fmlookup object (sf_name f) = Some v \<longrightarrow>
        encodeValue nested facts (sf_type f) v = Inr (field_data nested facts object f) \<and>
        sf_id f < 255 \<and> length (field_data nested facts object f) \<le> 255)"
  using assms
proof (induction fs arbitrary: acc)
  case (Cons f fs)
  show ?case
  proof (cases "fmlookup object (sf_name f)")
    case None
    with Cons show ?thesis by (simp add: object_records_def)
  next
    case (Some v)
    with Cons.prems obtain data where data: "encodeValue nested facts (sf_type f) v = Inr data" "sf_id f < 255" "length data \<le> 255"
      and rest: "encodeFields nested facts object fs (acc @ [ucast (sf_id f), word_of_nat (length data)] @ data) = Inr bs"
      by (auto split: sum.splits if_splits simp: not_le)
    moreover have "field_data nested facts object f = data" using data(1) Some by (simp add: field_data_def)
    ultimately show ?thesis using Cons.IH [OF rest] Some by (simp add: object_records_def)
  qed
qed (simp add: object_records_def)

lemma decodeRecords_Cons:
  assumes "length data \<le> 255"
  shows "decodeRecords nested facts fs object (tlv_records ((ident, data) # rs)) =
     (case decodeRecord nested facts fs object ident data of
        Inl e \<Rightarrow> Inl e
      | Inr object \<Rightarrow> decodeRecords nested facts fs object (tlv_records rs))"
  using unat_byte_length [OF assms] by (simp split: sum.split)

lemma find_field: "distinct (map sf_id fs) \<Longrightarrow> f \<in> set fs \<Longrightarrow> find (\<lambda>f'. sf_id f' = sf_id f) fs = Some f"
  by (induction fs) (auto simp: image_iff)

text \<open>
  Reading records one after another: every known one gives its field the value that its bytes stand
  for, the others give nothing, so their order does not matter.
\<close>

lemma decodeRecords_values:
  assumes "distinct (map sf_id fs)" and "distinct (map sf_name fs)"
    and "\<forall>(ident, data)\<in>set rs. length data \<le> 255"
    and "\<forall>(ident, data)\<in>set rs. \<forall>f\<in>set fs. sf_id f = ucast ident \<longrightarrow>
        fmlookup object (sf_name f) = None \<and> decodeValue nested facts (sf_type f) data = Inr (val f)"
    and "distinct (map fst (filter (known_record fs) rs))"
  shows "\<exists>object'. decodeRecords nested facts fs object (tlv_records rs) = Inr object' \<and>
     (\<forall>f\<in>set fs. fmlookup object' (sf_name f) =
        (if sf_id f \<in> (\<lambda>r. ucast (fst r)) ` set rs then Some (val f) else fmlookup object (sf_name f))) \<and>
     (\<forall>key. key \<notin> sf_name ` set fs \<longrightarrow> fmlookup object' key = fmlookup object key)"
  using assms(3-5)
proof (induction rs arbitrary: object)
  case (Cons r rs)
  obtain ident data where r: "r = (ident, data)" by (cases r)
  note step = decodeRecords_Cons [of data nested facts fs object ident rs]
  show ?case
  proof (cases "known_record fs r")
    case False
    then have "find (\<lambda>f. sf_id f = ucast ident) fs = None"
      by (simp add: find_None_iff known_record_def list_ex_iff r)
    then have "decodeRecord nested facts fs object ident data = Inr object" by (simp add: decodeRecord_def)
    moreover have "sf_id f \<noteq> ucast ident" if "f \<in> set fs" for f
      using False that by (auto simp: known_record_def list_ex_iff r)
    moreover obtain object' where "decodeRecords nested facts fs object (tlv_records rs) = Inr object'"
      "\<forall>f\<in>set fs. fmlookup object' (sf_name f) =
        (if sf_id f \<in> (\<lambda>r. ucast (fst r)) ` set rs then Some (val f) else fmlookup object (sf_name f))"
      "\<forall>key. key \<notin> sf_name ` set fs \<longrightarrow> fmlookup object' key = fmlookup object key"
      using Cons.IH [of object] Cons.prems False by auto
    ultimately show ?thesis using step Cons.prems(1) r by auto
  next
    case True
    then obtain f where f: "f \<in> set fs" "sf_id f = ucast ident" by (auto simp: known_record_def list_ex_iff r)
    from find_field [OF assms(1) f(1)] f(2) have found: "find (\<lambda>f. sf_id f = ucast ident) fs = Some f" by simp
    let ?object = "fmupd (sf_name f) (val f) object"
    have "decodeRecord nested facts fs object ident data = Inr ?object"
      using Cons.prems(2) f r found by (simp add: decodeRecord_def)
    moreover have other: "sf_id g \<noteq> ucast (fst s)" if "s \<in> set rs" "g = f" for s g
    proof
      assume "sf_id g = ucast (fst s)"
      with that f have same: "ucast ident = (ucast (fst s) :: u32)" by simp
      then have "ident = fst s" by (simp add: ucast_byte_inject)
      moreover have "known_record fs s" using True same by (simp add: known_record_def r)
      ultimately show False using Cons.prems(3) True that(1) r by force
    qed
    moreover have names: "sf_name g \<noteq> sf_name f" if "g \<in> set fs" "g \<noteq> f" for g
      using assms(2) that f(1) by (auto simp: distinct_map inj_on_def)
    have "\<forall>(ident, data)\<in>set rs. \<forall>g\<in>set fs. sf_id g = ucast ident \<longrightarrow>
        fmlookup ?object (sf_name g) = None \<and> decodeValue nested facts (sf_type g) data = Inr (val g)"
      using Cons.prems(2) other names by fastforce
    with Cons.IH [of ?object] Cons.prems(1,3) True have "\<exists>object'.
      decodeRecords nested facts fs ?object (tlv_records rs) = Inr object' \<and>
      (\<forall>g\<in>set fs. fmlookup object' (sf_name g) =
        (if sf_id g \<in> (\<lambda>r. ucast (fst r)) ` set rs then Some (val g) else fmlookup ?object (sf_name g))) \<and>
      (\<forall>key. key \<notin> sf_name ` set fs \<longrightarrow> fmlookup object' key = fmlookup ?object key)"
      by simp
    then obtain object' where
      "decodeRecords nested facts fs ?object (tlv_records rs) = Inr object'"
      and fields: "\<And>g. g \<in> set fs \<Longrightarrow> fmlookup object' (sf_name g) =
        (if sf_id g \<in> (\<lambda>r. ucast (fst r)) ` set rs then Some (val g) else fmlookup ?object (sf_name g))"
      and rest: "\<And>key. key \<notin> sf_name ` set fs \<Longrightarrow> fmlookup object' key = fmlookup ?object key"
      by blast
    moreover have "fmlookup object' (sf_name g) =
        (if sf_id g \<in> (\<lambda>r. ucast (fst r)) ` set (r # rs) then Some (val g) else fmlookup object (sf_name g))" if g: "g \<in> set fs" for g
    proof (cases "g = f")
      case True
      then have "sf_id g \<notin> (\<lambda>r. ucast (fst r)) ` set rs" using other by blast
      with fields [OF g] have "fmlookup object' (sf_name g) = Some (val g)" unfolding True by simp
      moreover have "sf_id g \<in> (\<lambda>r. ucast (fst r)) ` set (r # rs)" using f(2) unfolding True r by simp
      ultimately show ?thesis by (simp only: if_True)
    next
      case False
      have "inj_on sf_id (set fs)" using assms(1) by (simp add: distinct_map)
      with False f g have "sf_id g \<noteq> ucast ident" by (metis inj_onD)
      with fields [OF g] names [OF g False] r show ?thesis by simp
    qed
    moreover have "fmlookup object' key = fmlookup object key" if "key \<notin> sf_name ` set fs" for key
      using rest [OF that] that f(1) by auto
    ultimately show ?thesis using step Cons.prems(1) r by auto
  qed
qed simp


section \<open>Objects\<close>

lemma ucast_small: "n < 255 \<Longrightarrow> (ucast (ucast (n :: u32) :: byte) :: u32) = n"
proof -
  assume "n < 255"
  then have "unat n < 2 ^ 8" by (simp add: word_less_nat_alt)
  then have "take_bit 8 n = n" by (simp add: word_unat_eq_iff unsigned_take_bit_eq take_bit_nat_eq_self)
  moreover have "(ucast (ucast n :: byte) :: u32) = take_bit 8 n" by (rule bit_word_eqI) (auto simp: bit_simps)
  ultimately show ?thesis by simp
qed

lemma selectedField_type: "selectedField object f = Some g \<Longrightarrow> sf_type g = sf_type f"
  by (auto simp: selectedField_def split: option.splits prod.splits)

lemma validate_JObject:
  assumes "validate lib facts schema (JObject object) depth" and "facts schema = Some fs" and "f \<in> set fs"
    and "fmlookup object (sf_name f) = Some w"
  shows "\<exists>g. sf_type g = sf_type f \<and> fieldValid lib facts g w depth"
proof -
  from assms have "case selectedField object f of None \<Rightarrow> False | Some selected \<Rightarrow> fieldValid lib facts selected w depth"
    by (auto simp: validate.simps list_all_iff split: if_splits)
  with selectedField_type [of object f] show ?thesis by (auto split: option.splits)
qed

text \<open>The fields of an encodable object, and the records it consists of.\<close>

lemma encoded_object:
  assumes table: "regular_table facts" and schema: "facts schema = Some fs"
    and "validate lib facts schema (JObject object) 0" and "tlv_object facts schema (JObject object)"
    and enc: "encodeFields nestedE facts object (sort_key sf_id fs) [] = Inr bs"
    and nested: "\<forall>type w data. nestedE type w = Inr data \<longrightarrow> tlv_object facts type w \<longrightarrow> nestedD type data = Inr w"
  defines "rs \<equiv> object_records nestedE facts object (sort_key sf_id fs)"
  shows "bs = tlv_records rs"
    and "distinct (map fst rs)" and "\<And>r. r \<in> set rs \<Longrightarrow> known_record fs r \<and> length (snd r) \<le> 255"
    and "\<And>f. f \<in> set fs \<Longrightarrow> fmlookup object (sf_name f) \<noteq> None \<longleftrightarrow> sf_id f \<in> (\<lambda>r. ucast (fst r)) ` set rs"
    and "\<And>r f. r \<in> set rs \<Longrightarrow> f \<in> set fs \<Longrightarrow> sf_id f = ucast (fst r) \<Longrightarrow>
        decodeValue nestedD facts (sf_type f) (snd r) = Inr (the (fmlookup object (sf_name f)))"
proof -
  let ?data = "field_data nestedE facts object"
  have regular: "distinct (map sf_id fs)" "distinct (map sf_name fs)"
    "\<And>f. f \<in> set fs \<Longrightarrow> prefix ''uint'' (sf_type f) \<Longrightarrow> sf_type f \<in> {''uint8'', ''uint16'', ''uint32'', ''uint64''}"
    using table schema by (auto simp: regular_table_def)
  have fields: "encodeValue nestedE facts (sf_type f) w = Inr (?data f)" "sf_id f < 255" "length (?data f) \<le> 255"
    if "f \<in> set fs" "fmlookup object (sf_name f) = Some w" for f w
    using encodeFields_records [OF enc] that by auto
  show "bs = tlv_records rs" using encodeFields_records [OF enc] by (simp add: rs_def)
  have rs: "set rs = {(ucast (sf_id f), ?data f) | f. f \<in> set fs \<and> fmlookup object (sf_name f) \<noteq> None}"
    by (auto simp: rs_def object_records_def)
  have same: "f = g" if "f \<in> set fs" "g \<in> set fs" "sf_id f = sf_id g" for f g
    using regular(1) that by (metis distinct_map inj_onD)
  have sorted: "distinct (map sf_id (filter P (sort_key sf_id fs)))" for P
  proof -
    have "distinct (map sf_id (sort_key sf_id fs))" using regular(1) by (simp add: distinct_map)
    then show ?thesis by (simp add: distinct_map_filter)
  qed
  show "distinct (map fst rs)"
    unfolding rs_def object_records_def map_map comp_def fst_conv distinct_map
  proof (intro conjI inj_onI)
    show "distinct (filter (\<lambda>f. fmlookup object (sf_name f) \<noteq> None) (sort_key sf_id fs))"
      using sorted by (simp add: distinct_map)
  next
    fix f g
    assume fg: "f \<in> set (filter (\<lambda>f. fmlookup object (sf_name f) \<noteq> None) (sort_key sf_id fs))"
      "g \<in> set (filter (\<lambda>f. fmlookup object (sf_name f) \<noteq> None) (sort_key sf_id fs))" "(ucast (sf_id f) :: byte) = ucast (sf_id g)"
    then have "sf_id f < 255" "sf_id g < 255" using fields(2) by auto
    with fg(3) have "sf_id f = sf_id g" by (metis ucast_small)
    with fg same show "f = g" by simp
  qed
  show "known_record fs r \<and> length (snd r) \<le> 255" if "r \<in> set rs" for r
  proof -
    from that obtain f w where f: "r = (ucast (sf_id f), ?data f)" "f \<in> set fs" "fmlookup object (sf_name f) = Some w"
      by (auto simp: rs)
    with fields(2,3) [OF f(2,3)] ucast_small [of "sf_id f"] show ?thesis by (auto simp: known_record_def list_ex_iff)
  qed
  show "fmlookup object (sf_name f) \<noteq> None \<longleftrightarrow> sf_id f \<in> (\<lambda>r. ucast (fst r)) ` set rs" if f: "f \<in> set fs" for f
  proof
    assume "fmlookup object (sf_name f) \<noteq> None"
    then obtain w where w: "fmlookup object (sf_name f) = Some w" by blast
    with f have "(ucast (sf_id f), ?data f) \<in> set rs" by (auto simp: rs)
    then show "sf_id f \<in> (\<lambda>r. ucast (fst r)) ` set rs" using ucast_small [OF fields(2) [OF f w]] by force
  next
    assume "sf_id f \<in> (\<lambda>r. ucast (fst r)) ` set rs"
    then obtain g w where g: "g \<in> set fs" "fmlookup object (sf_name g) = Some w" "sf_id f = ucast (ucast (sf_id g) :: byte)"
      by (auto simp: rs)
    with same [OF f g(1)] ucast_small [OF fields(2) [OF g(1,2)]] show "fmlookup object (sf_name f) \<noteq> None" by simp
  qed
  show "decodeValue nestedD facts (sf_type f) (snd r) = Inr (the (fmlookup object (sf_name f)))"
    if r: "r \<in> set rs" and f: "f \<in> set fs" and ident: "sf_id f = ucast (fst r)" for r f
  proof -
    from r obtain g w where g: "r = (ucast (sf_id g), ?data g)" "g \<in> set fs" "fmlookup object (sf_name g) = Some w"
      by (auto simp: rs)
    with same [OF f g(2)] ucast_small [OF fields(2) [OF g(2,3)]] ident have fg: "f = g" by simp
    from validate_JObject [OF assms(3) schema g(2,3)] obtain h where h: "sf_type h = sf_type g" "fieldValid lib facts h w 0" by blast
    from assms(4) schema g obtain g' where "g' \<in> set fs" "sf_name g' = sf_name g"
      "sf_type g' = ''string'' \<or> sf_type g' = ''bool'' \<or> (prefix ''uint'' (sf_type g') \<and> is_number_unsigned w) \<or>
         tlv_object facts (sf_type g') w" by (auto simp: tlv_object_JObject)
    moreover from this regular(2) g(2) have "g' = g" by (metis distinct_map inj_onD)
    ultimately have plain: "sf_type g = ''string'' \<or> sf_type g = ''bool'' \<or> (prefix ''uint'' (sf_type g) \<and> is_number_unsigned w) \<or>
         tlv_object facts (sf_type g) w" by simp
    have "is_number_unsigned w" if u: "prefix ''uint'' (sf_type g)"
    proof (rule ccontr)
      assume "\<not> is_number_unsigned w"
      with plain u have "tlv_object facts (sf_type g) w" by auto
      then obtain m where "w = JObject m" by (auto elim: tlv_objectE)
      moreover have "sf_type g \<noteq> ''string''" "sf_type g \<noteq> ''bool''" "sf_type g \<noteq> ''enum''" using u by auto
      ultimately show False using h u by (simp add: fieldValid.simps integerValid_def Let_def)
    qed
    with value_roundtrip [OF fields(1) [OF g(2,3)] h(2,1), of nestedD] regular(3) [OF g(2)] plain nested
    have "decodeValue nestedD facts (sf_type g) (?data g) = Inr w" by blast
    with fg g show ?thesis by simp
  qed
qed


lemma tlv8_decodes:
  assumes "regular_table facts"
  shows "encodeTlv8 lib facts schema v depth = Inr bs \<Longrightarrow> tlv_object facts schema v \<Longrightarrow>
     \<exists>fs rs. facts schema = Some fs \<and> bs = tlv_records rs \<and> (\<forall>r\<in>set rs. known_record fs r \<and> length (snd r) \<le> 255) \<and>
       (\<forall>rs'. (\<forall>r\<in>set rs'. length (snd r) \<le> 255) \<longrightarrow> mset (filter (known_record fs) rs') = mset rs \<longrightarrow>
          decodeTlv8 lib facts schema (tlv_records rs') depth = Inr v)"
  using assms
proof (induction lib facts schema v depth arbitrary: bs rule: encodeTlv8.induct)
  case (1 lib facts schema v depth)
  let ?E = "\<lambda>type w. encodeTlv8 lib facts type w (depth + 1)"
  let ?D = "\<lambda>type data. decodeTlv8 lib facts type data (depth + 1)"
  from 1(2) obtain object fs where enc: "depth \<le> 32" "validate lib facts schema v 0" "v = JObject object" "facts schema = Some fs"
      "encodeFields ?E facts object (sort_key sf_id fs) [] = Inr bs"
    by (auto simp: encodeTlv8.simps [of lib facts schema v depth] not_less split: if_splits json.splits option.splits)
  have nested: "?D type data = Inr w" if "?E type w = Inr data" "tlv_object facts type w" for type w data
  proof -
    have "\<not> (depth > 32 \<or> \<not> validate lib facts schema v 0)" using enc by simp
    from 1(1) [OF this refl enc(3,4) that 1(4)] obtain gs rs where
      "data = tlv_records rs" "\<forall>r\<in>set rs. known_record gs r \<and> length (snd r) \<le> 255"
      "\<forall>rs'. (\<forall>r\<in>set rs'. length (snd r) \<le> 255) \<longrightarrow> mset (filter (known_record gs) rs') = mset rs \<longrightarrow>
          ?D type (tlv_records rs') = Inr w" by blast
    moreover from this(2) have "mset (filter (known_record gs) rs) = mset rs" by (metis filter_True)
    ultimately show ?thesis by blast
  qed
  then have nested: "\<forall>type w data. ?E type w = Inr data \<longrightarrow> tlv_object facts type w \<longrightarrow> ?D type data = Inr w" by blast
  define rs where "rs = object_records ?E facts object (sort_key sf_id fs)"
  have valid: "validate lib facts schema (JObject object) 0" "tlv_object facts schema (JObject object)" using enc 1(3) by simp_all
  note parts = encoded_object [where nestedD = ?D, OF 1(4) enc(4) valid enc(5) nested, folded rs_def]
  from 1(4) enc(4) have regular: "distinct (map sf_id fs)" "distinct (map sf_name fs)" by (auto simp: regular_table_def)
  have "decodeTlv8 lib facts schema (tlv_records rs') depth = Inr v"
    if short: "\<forall>r\<in>set rs'. length (snd r) \<le> 255" and perm: "mset (filter (known_record fs) rs') = mset rs" for rs'
  proof -
    have known: "set (filter (known_record fs) rs') = set rs" using perm by (rule mset_eq_setD)
    have "mset (map fst (filter (known_record fs) rs')) = mset (map fst rs)" using perm by (simp add: mset_map)
    with parts(2) have dist: "distinct (map fst (filter (known_record fs) rs'))" by (metis mset_eq_imp_distinct_iff)
    have mem: "r \<in> set rs" if "r \<in> set rs'" "f \<in> set fs" "sf_id f = ucast (fst r)" for r f
      using that known by (auto simp: known_record_def list_ex_iff)
    have vals: "\<forall>(ident, data)\<in>set rs'. \<forall>f\<in>set fs. sf_id f = ucast ident \<longrightarrow> fmlookup fmempty (sf_name f) = None \<and>
        decodeValue ?D facts (sf_type f) data = Inr (the (fmlookup object (sf_name f)))"
      using mem parts(5) by fastforce
    have lengths: "\<forall>(ident, data)\<in>set rs'. length data \<le> 255" using short by auto
    obtain object' where
      object': "decodeRecords ?D facts fs fmempty (tlv_records rs') = Inr object'"
      "\<forall>f\<in>set fs. fmlookup object' (sf_name f) =
        (if sf_id f \<in> (\<lambda>r. ucast (fst r)) ` set rs' then Some (the (fmlookup object (sf_name f))) else None)"
      "\<forall>key. key \<notin> sf_name ` set fs \<longrightarrow> fmlookup object' key = None"
      using decodeRecords_values [OF regular lengths vals dist] unfolding fmempty_lookup by blast
    have "object' = object"
    proof (rule fmap_ext)
      fix key
      show "fmlookup object' key = fmlookup object key"
      proof (cases "key \<in> sf_name ` set fs")
        case True
        then obtain f where f: "f \<in> set fs" "key = sf_name f" by blast
        have "sf_id f \<in> (\<lambda>r. ucast (fst r)) ` set rs' \<longleftrightarrow> sf_id f \<in> (\<lambda>r. ucast (fst r)) ` set rs"
          using mem [OF _ f(1)] known by auto
        with parts(4) [OF f(1)] object'(2) f show ?thesis by (cases "fmlookup object key") auto
      next
        case False
        have "\<exists>f\<in>set fs. sf_name f = key" if "fmlookup object key = Some w" for w
          using valid(2) enc(4) that by (auto simp: tlv_object_JObject)
        with False have "fmlookup object key = None" by (cases "fmlookup object key") auto
        with False object'(3) show ?thesis by simp
      qed
    qed
    with object'(1) enc show ?thesis by (simp add: decodeTlv8.simps [of lib facts schema _ depth])
  qed
  with parts(1,3) enc(4) show ?case by blast
qed

lemma find_in: "find P xs = Some x \<Longrightarrow> x \<in> set xs"
  by (induction xs) (auto split: if_splits)

lemma decodeRecords_origin:
  "decodeRecords nested facts fs object data = Inr object' \<Longrightarrow> fmlookup object' key = Some w \<Longrightarrow>
     fmlookup object key = Some w \<or> (\<exists>f\<in>set fs. sf_name f = key \<and> (\<exists>slice. decodeValue nested facts (sf_type f) slice = Inr w))"
proof (induction nested facts fs object data rule: decodeRecords.induct)
  case (1 nested facts fs object ident len rest)
  from 1(2) obtain object1 where r: "\<not> unat len > length rest"
      "decodeRecord nested facts fs object ident (take (unat len) rest) = Inr object1"
      "decodeRecords nested facts fs object1 (drop (unat len) rest) = Inr object'"
    by (auto split: if_splits sum.splits)
  from 1(1) [OF r(1,2,3) 1(3)] show ?case
  proof
    assume "fmlookup object1 key = Some w"
    moreover have "object1 = object \<or> (\<exists>f v. f \<in> set fs \<and> decodeValue nested facts (sf_type f) (take (unat len) rest) = Inr v \<and>
        object1 = fmupd (sf_name f) v object)"
      using r(2) find_in [of "\<lambda>f. sf_id f = ucast ident" fs]
      by (auto simp: decodeRecord_def split: option.splits if_splits sum.splits)
    ultimately show ?thesis by (auto split: if_splits)
  qed simp
qed simp_all

lemma decodeTlv8_sound:
  "decodeTlv8 lib facts schema data depth = Inr v \<Longrightarrow> validate lib facts schema v 0 \<and> tlv_object facts schema v"
proof (induction lib facts schema data depth arbitrary: v rule: decodeTlv8.induct)
  case (1 lib facts schema data depth)
  let ?D = "\<lambda>type slice. decodeTlv8 lib facts type slice (depth + 1)"
  from 1(2) obtain fs object where d: "\<not> depth > 32" "facts schema = Some fs" "decodeRecords ?D facts fs fmempty data = Inr object"
      "validate lib facts schema (JObject object) 0" "v = JObject object"
    by (auto simp: decodeTlv8.simps [of lib facts schema data depth] split: if_splits option.splits sum.splits)
  have "tlv_object facts schema (JObject object)"
  proof (rule tlv_objectI [where fs = fs])
    show "facts schema = Some fs" by (rule d(2))
  next
    fix key w
    assume "fmlookup object key = Some w"
    with decodeRecords_origin [OF d(3)] obtain f slice where f: "f \<in> set fs" "sf_name f = key"
      "decodeValue ?D facts (sf_type f) slice = Inr w" by fastforce
    from f(3) 1(1) [OF d(1,2)] have "sf_type f = ''string'' \<or> sf_type f = ''bool'' \<or>
        (prefix ''uint'' (sf_type f) \<and> is_number_unsigned w) \<or> tlv_object facts (sf_type f) w"
      by (auto simp: decodeValue_def split: if_splits option.splits)
    with f show "\<exists>f\<in>set fs. sf_name f = key \<and> (sf_type f = ''string'' \<or> sf_type f = ''bool'' \<or>
        (prefix ''uint'' (sf_type f) \<and> is_number_unsigned w) \<or> tlv_object facts (sf_type f) w)" by blast
  qed
  with d show ?case by simp
qed


section \<open>Properties\<close>

text \<open>
  C29. The TLV8 form loses nothing: for a regular table, what \<^verbatim>\<open>encodeTlv8\<close> makes of an object of the schema
  is read back by \<^verbatim>\<open>decodeTlv8\<close> as that object; and so is any sequence of records that holds the same
  records in another order, with records of ids unknown to the schema anywhere between them.
\<close>

theorem tlv8_roundtrip:
  assumes "regular_table facts" and "tlv_object facts schema v" and "encodeTlv8 lib facts schema v 0 = Inr bs"
  shows "decodeTlv8 lib facts schema bs 0 = Inr v \<and>
     (\<exists>fs rs. facts schema = Some fs \<and> bs = tlv_records rs \<and>
        (\<forall>rs'. (\<forall>r\<in>set rs'. length (snd r) \<le> 255) \<and> mset (filter (known_record fs) rs') = mset rs \<longrightarrow>
           decodeTlv8 lib facts schema (tlv_records rs') 0 = Inr v))"
proof -
  from tlv8_decodes [OF assms(1,3,2)] obtain fs rs where rs: "facts schema = Some fs" "bs = tlv_records rs"
    "\<forall>r\<in>set rs. known_record fs r \<and> length (snd r) \<le> 255"
    "\<forall>rs'. (\<forall>r\<in>set rs'. length (snd r) \<le> 255) \<longrightarrow> mset (filter (known_record fs) rs') = mset rs \<longrightarrow>
        decodeTlv8 lib facts schema (tlv_records rs') 0 = Inr v" by blast
  from rs(3) have "mset (filter (known_record fs) rs) = mset rs" by (metis filter_True)
  with rs have "decodeTlv8 lib facts schema bs 0 = Inr v" by blast
  with rs show ?thesis by blast
qed

text \<open>A schema with a nested object, as the table of the generator has them, and an object of it.\<close>

definition example_facts :: schema_facts where
  "example_facts = [''Target'' \<mapsto>
       [(typed_field ''Session'')\<lparr>sf_id := 9, sf_name := ''session'', sf_required := True\<rparr>,
        (typed_field ''uint16'')\<lparr>sf_id := 3, sf_name := ''slotId''\<rparr>],
     ''Session'' \<mapsto>
       [(typed_field ''string'')\<lparr>sf_id := 1, sf_name := ''generation'', sf_maxLength := Some 20\<rparr>,
        (typed_field ''bool'')\<lparr>sf_id := 2, sf_name := ''muted''\<rparr>]]"

definition example_schema_lib :: json_lib where
  "example_schema_lib = \<lparr>jl_parse = (\<lambda>_. None), jl_dump = (\<lambda>_. Some ''J''), jl_float_to_int64 = (\<lambda>_. 0)\<rparr>"

definition example_session :: json where
  "example_session = JObject (fmupd ''generation'' (JString ''7'') (fmupd ''muted'' (JBool True) fmempty))"

definition example_target :: json where
  "example_target = JObject (fmupd ''session'' example_session (fmupd ''slotId'' (JUnsigned 258) fmempty))"


lemma example_valid:
  "validate example_schema_lib example_facts ''Session'' example_session depth \<longleftrightarrow> depth \<le> 32"
  "validate example_schema_lib example_facts ''Target'' example_target depth \<longleftrightarrow> depth \<le> 31"
  by (simp_all add: validate.simps fieldValid.simps example_facts_def example_session_def example_target_def example_schema_lib_def
      typed_field_def selectedField_def stringValid_def integerValid_def unsignedValid_def uint_stoull Let_def)

lemma example_table: "regular_table example_facts"
  by (auto simp: regular_table_def example_facts_def typed_field_def split: if_splits)

lemma example_object:
  "tlv_object example_facts ''Session'' example_session" "tlv_object example_facts ''Target'' example_target"
proof -
  show session: "tlv_object example_facts ''Session'' example_session"
    by (simp add: example_session_def tlv_object_JObject) (simp add: example_facts_def typed_field_def)
  show "tlv_object example_facts ''Target'' example_target"
    unfolding example_target_def tlv_object_JObject using session by (auto simp: example_facts_def typed_field_def)
qed

lemma example_encoded: "encodeTlv8 example_schema_lib example_facts ''Target'' example_target 0 = Inr [3, 2, 1, 2, 9, 6, 1, 1, 55, 2, 1, 1]"
proof -
  have "encodeTlv8 example_schema_lib example_facts ''Session'' example_session 1 = Inr [1, 1, 55, 2, 1, 1]"
    by (simp add: encodeTlv8.simps [of _ _ "''Session''"] example_valid)
      (simp add: example_session_def example_facts_def typed_field_def encodeValue_def bytes_of_string_def byte_of_char_def word_le_nat_alt)
  moreover have "encodedWidth ''uint16'' = Some 2" using uint_width [of "''uint16''" "''16''" 2] by (simp add: uint_stoull)
  moreover have "uintBytes (Suc (Suc 0)) 258 = [1, 2]" by simp
  then have "uintBytes 2 258 = [1, 2]" by (simp only: numeral_2_eq_2)
  ultimately show ?thesis
    by (simp add: encodeTlv8.simps [of _ _ "''Target''"] example_valid)
      (simp add: example_target_def example_facts_def typed_field_def encodeValue_def word_le_nat_alt)
qed

theorem tlv8_roundtrip_witness:
  "decodeTlv8 example_schema_lib example_facts ''Target'' [3, 2, 1, 2, 9, 6, 1, 1, 55, 2, 1, 1] 0 = Inr example_target"
  using tlv8_roundtrip [OF example_table example_object(2) example_encoded] by blast

text \<open>
  C34. Whatever the bytes, what \<^verbatim>\<open>decodeTlv8\<close> returns is a valid object of the schema, with no field that
  the schema does not have and every unsigned integer kept as one; and encoding it, where that is possible,
  gives bytes that are read as the same object.
\<close>

theorem tlv8_decoder_sound:
  assumes "decodeTlv8 lib facts schema data depth = Inr v"
  shows "validate lib facts schema v 0 \<and> tlv_object facts schema v \<and>
     (regular_table facts \<longrightarrow> (\<forall>bs. encodeTlv8 lib facts schema v depth = Inr bs \<longrightarrow> decodeTlv8 lib facts schema bs depth = Inr v))"
proof -
  have "decodeTlv8 lib facts schema bs depth = Inr v"
    if "regular_table facts" "encodeTlv8 lib facts schema v depth = Inr bs" for bs
  proof -
    from tlv8_decodes [OF that(1,2)] decodeTlv8_sound [OF assms] obtain fs rs where rs: "bs = tlv_records rs"
      "\<forall>r\<in>set rs. known_record fs r \<and> length (snd r) \<le> 255"
      "\<forall>rs'. (\<forall>r\<in>set rs'. length (snd r) \<le> 255) \<longrightarrow> mset (filter (known_record fs) rs') = mset rs \<longrightarrow>
        decodeTlv8 lib facts schema (tlv_records rs') depth = Inr v" by blast
    moreover from rs(2) have "mset (filter (known_record fs) rs) = mset rs" by (metis filter_True)
    ultimately show ?thesis by blast
  qed
  with decodeTlv8_sound [OF assms] show ?thesis by blast
qed

theorem tlv8_decoder_sound_witness:
  "validate example_schema_lib example_facts ''Target'' example_target 0 \<and>
   decodeTlv8 example_schema_lib example_facts ''Target'' [3, 2, 1, 2, 9, 6, 1, 1, 55, 2, 1, 1] 0 = Inr example_target"
proof -
  from tlv8_decodes [OF example_table example_encoded example_object(2)] obtain fs rs where
    rs: "[3, 2, 1, 2, 9, 6, 1, 1, 55, 2, 1, 1] = tlv_records rs" "\<forall>r\<in>set rs. known_record fs r \<and> length (snd r) \<le> 255"
    "\<forall>rs'. (\<forall>r\<in>set rs'. length (snd r) \<le> 255) \<longrightarrow> mset (filter (known_record fs) rs') = mset rs \<longrightarrow>
        decodeTlv8 example_schema_lib example_facts ''Target'' (tlv_records rs') 0 = Inr example_target" by blast
  moreover from rs(2) have "mset (filter (known_record fs) rs) = mset rs" by (metis filter_True)
  ultimately have d: "decodeTlv8 example_schema_lib example_facts ''Target'' [3, 2, 1, 2, 9, 6, 1, 1, 55, 2, 1, 1] 0 = Inr example_target"
    by metis
  from tlv8_decoder_sound [OF d] d show ?thesis by blast
qed

text \<open>
  The texts that pass for a \<^verbatim>\<open>uint64\<close> in decimal are exactly the decimal forms of the numbers below 2^64:
  no sign, no leading zero, no overflow, and each number in one way only.
\<close>

theorem canonical_uint64:
  "isCanonicalUint64Decimal s \<longleftrightarrow> (\<exists>!n. n < 2 ^ 64 \<and> s = decimal n)"
  using canonical_decimal decimal_text.enc_inject by metis

text \<open>A schema has no valid object if no value is valid for one of its required fields.\<close>

lemma required_field_invalid:
  assumes "facts schema = Some fs" and "f \<in> set fs" and "sf_required f"
    and "\<And>g w. sf_type g = sf_type f \<Longrightarrow> sf_array g = sf_array f \<Longrightarrow> \<not> fieldValid lib facts g w depth"
  shows "\<not> validate lib facts schema v depth"
proof
  assume "validate lib facts schema v depth"
  moreover from this obtain object where "v = JObject object" by (cases v) (simp_all add: validate.simps [of lib facts schema])
  ultimately have "case fmlookup object (sf_name f) of None \<Rightarrow> \<not> sf_required f
      | Some x \<Rightarrow> (case selectedField object f of None \<Rightarrow> False | Some g \<Rightarrow> fieldValid lib facts g x depth)"
    using assms(1,2) by (simp add: validate.simps [of lib facts schema] list_all_iff split: if_splits)
  moreover have "sf_type g = sf_type f \<and> sf_array g = sf_array f" if "selectedField object f = Some g" for g
    using that by (auto simp: selectedField_def split: option.splits prod.splits)
  ultimately show False using assms(3,4) by (auto split: option.splits)
qed

lemma unsupported_field_invalid:
  assumes "facts ''number'' = None" and "sf_type f = ''number'' \<or> (sf_type f = ''array'' \<and> sf_array f = None)"
  shows "\<not> fieldValid lib facts f v depth"
proof -
  have "\<not> validate lib facts ''number'' w d" for w d using assms(1) by (simp add: validate.simps split: json.splits)
  with assms(2) show ?thesis by (auto simp: fieldValid.simps [of lib facts f] Let_def split: json.splits)
qed

lemma never_valid_refused:
  assumes "\<And>v depth. \<not> validate lib facts schema v depth"
  shows "\<not> validate lib facts schema v depth \<and> decodeJson lib facts schema text = None \<and> encodeJson lib facts schema v = None \<and>
     encodeTlv8 lib facts schema v depth = Inl NoValue \<and> (\<forall>w. decodeTlv8 lib facts schema data depth \<noteq> Inr w)"
proof -
  have "\<not> decodeTlv8 lib facts schema data depth = Inr w" for w using assms decodeTlv8_sound by blast
  with assms show ?thesis
    by (auto simp: decodeJson_def encodeJson_def encodeTlv8.simps [of lib facts schema] split: option.splits)
qed

text \<open>
  Some schemas have no valid object: where a field that is required has the type \<^verbatim>\<open>number\<close>, for which the
  codec has no case, or is an array described by \<^verbatim>\<open>schema\<close> instead of \<^verbatim>\<open>array\<close>, every object is rejected, in
  JSON and in TLV8, encoding and decoding.
\<close>

theorem unsupported_field_rejects:
  assumes "facts schema = Some fs" and "f \<in> set fs" and "sf_required f" and "facts ''number'' = None"
    and "sf_type f = ''number'' \<or> (sf_type f = ''array'' \<and> sf_array f = None)"
  shows "\<not> validate lib facts schema v depth \<and> decodeJson lib facts schema text = None \<and> encodeJson lib facts schema v = None \<and>
     encodeTlv8 lib facts schema v depth = Inl NoValue \<and> (\<forall>w. decodeTlv8 lib facts schema data depth \<noteq> Inr w)"
proof (rule never_valid_refused)
  fix v depth
  show "\<not> validate lib facts schema v depth"
  proof (rule required_field_invalid)
    show "facts schema = Some fs" "f \<in> set fs" "sf_required f" by (fact assms)+
  next
    fix g :: schema_field and w
    assume "sf_type g = sf_type f" "sf_array g = sf_array f"
    with assms(5) show "\<not> fieldValid lib facts g w depth" using assms(4) by (intro unsupported_field_invalid) simp_all
  qed
qed


text \<open>\<^verbatim>\<open>AudioStreamCapabilities\<close> of the generated table has such an array.\<close>

theorem unsupported_field_rejects_witness:
  "\<forall>lib v. \<not> validate lib [''AudioStreamCapabilities'' \<mapsto>
       [(typed_field ''array'')\<lparr>sf_id := 2, sf_name := ''sources'', sf_required := True, sf_schema := Some ''AudioStreamSource''\<rparr>]]
     ''AudioStreamCapabilities'' v 0"
proof -
  define f where "f = (typed_field ''array'')\<lparr>sf_id := 2, sf_name := ''sources'', sf_required := True, sf_schema := Some ''AudioStreamSource''\<rparr>"
  have "\<not> validate lib [''AudioStreamCapabilities'' \<mapsto> [f]] ''AudioStreamCapabilities'' v 0" for lib v
    using unsupported_field_rejects [of "[''AudioStreamCapabilities'' \<mapsto> [f]]" "''AudioStreamCapabilities''" "[f]" f lib v 0]
    by (simp add: f_def typed_field_def)
  then show ?thesis by (simp add: f_def)
qed

end
