(* ===== verification/Schema_Facts.thy ===== *)
theory Schema_Facts
  imports Schema_Codec Registry
begin

text \<open>
  The table of schema facts that the schema codec reads: the value of the JSON text of
  \<^verbatim>\<open>core/protocol/generated/schema_json_facts.hpp\<close>, schema by schema in the order of the text, with the
  members that the codec reads.

  Shown here: the table is regular, so that every TLV8 theorem holds for it; and every schema that a
  registered method or event names is in it.
\<close>

definition fact :: "u32 \<Rightarrow> string \<Rightarrow> string \<Rightarrow> bool \<Rightarrow> schema_field" where
  "fact i name type required = (typed_field type)\<lparr>sf_id := i, sf_name := name, sf_required := required\<rparr>"

section \<open>The facts\<close>

definition facts_1 :: "(string \<times> schema_field list) list" where
  "facts_1 = [
     (''Empty'', []),
     (''CommonEmptyRequest'', []),
     (''CommonEmptyResponse'', []),
     (''ControlOpenBody'', [(fact 2 ''protocolVersion'' ''uint8'' False)\<lparr>sf_min := Some 1, sf_max := Some 15\<rparr>,
        (fact 3 ''reservedHeaderProfile'' ''uint8'' False)\<lparr>sf_min := Some 1, sf_max := Some 2\<rparr>,
        (fact 4 ''maxFrameSize'' ''uint16'' True)\<lparr>sf_min := Some 19, sf_max := Some 65535\<rparr>,
        (fact 6 ''mtu'' ''uint16'' False)\<lparr>sf_min := Some 1, sf_max := Some 65535\<rparr>,
        fact 7 ''supportedPayloadTypes'' ''bitmap'' True, fact 8 ''supportedRpcEncodings'' ''bitmap'' True,
        (fact 10 ''heartbeatIntervalMs'' ''uint32'' True)\<lparr>sf_min := Some 500, sf_max := Some 60000\<rparr>,
        (fact 11 ''ackMode'' ''uint8'' True)\<lparr>sf_min := Some 0, sf_max := Some 4\<rparr>]),
     (''ControlAcceptBody'', [fact 1 ''sessionId'' ''uint32'' True,
        (fact 2 ''protocolVersion'' ''uint8'' False)\<lparr>sf_min := Some 1, sf_max := Some 15\<rparr>,
        (fact 3 ''reservedHeaderProfile'' ''uint8'' False)\<lparr>sf_min := Some 1, sf_max := Some 2\<rparr>,
        (fact 4 ''maxFrameSize'' ''uint16'' True)\<lparr>sf_min := Some 19, sf_max := Some 65535\<rparr>,
        (fact 6 ''mtu'' ''uint16'' False)\<lparr>sf_min := Some 1, sf_max := Some 65535\<rparr>,
        fact 7 ''supportedPayloadTypes'' ''bitmap'' True,
        (fact 10 ''heartbeatIntervalMs'' ''uint32'' True)\<lparr>sf_min := Some 500, sf_max := Some 60000\<rparr>,
        (fact 11 ''ackMode'' ''uint8'' True)\<lparr>sf_min := Some 0, sf_max := Some 4\<rparr>,
        (fact 30 ''selectedRpcEncoding'' ''uint8'' True)\<lparr>sf_min := Some 1, sf_max := Some 4\<rparr>]),
     (''AudioAlgorithmCapability'', [(fact 1 ''configSchemaVersion'' ''string'' False)\<lparr>sf_maxLength := Some 16\<rparr>,
        fact 2 ''updatePolicy'' ''AudioAlgorithmUpdatePolicy'' True,
        (fact 3 ''supportedAlgorithms'' ''array'' False)\<lparr>sf_array := Some (None, Some ''string'')\<rparr>]),
     (''AudioGetAlgorithmCapabilitiesRequest'', [(fact 1 ''items'' ''array'' False)\<lparr>sf_array := Some (None, Some ''string'')\<rparr>]),
     (''AudioGetAlgorithmConfigRequest'', [(fact 1 ''items'' ''array'' False)\<lparr>sf_array := Some (None, Some ''string'')\<rparr>]),
     (''AudioSetAlgorithmConfigRequest'', [fact 1 ''config'' ''AudioAlgorithmConfig'' True]),
     (''AudioResetAlgorithmConfigRequest'', [(fact 1 ''items'' ''bytes'' True)\<lparr>sf_maxLength := Some 256\<rparr>]),
     (''AudioSetAlgorithmConfigResponse'', [fact 1 ''applyState'' ''enum'' True, fact 2 ''requiresAudioRestart'' ''bool'' True,
        fact 3 ''config'' ''AudioAlgorithmConfig'' True]),
     (''AudioAlgorithmConfigChangedEvent'', [fact 1 ''reason'' ''enum'' True, fact 2 ''applyState'' ''enum'' True,
        fact 3 ''requiresAudioRestart'' ''bool'' True, fact 4 ''config'' ''AudioAlgorithmConfig'' True,
        (fact 5 ''changedFields'' ''array'' False)\<lparr>sf_array := Some (None, Some ''string'')\<rparr>]),
     (''AudioGetAlgorithmCapabilitiesResponse'', [(fact 1 ''capability'' ''string'' True)\<lparr>sf_maxLength := Some 32\<rparr>,
        fact 2 ''updatePolicy'' ''AudioAlgorithmUpdatePolicy'' True,
        fact 3 ''algorithms'' ''AudioAlgorithmCapabilities'' True]),
     (''AudioAlgorithmUpdatePolicy'', [fact 1 ''partialUpdateSupported'' ''bool'' True, fact 2 ''multiAlgorithmUpdateSupported'' ''bool'' True,
        fact 3 ''atomicUpdateSupported'' ''bool'' True]),
     (''AudioAlgorithmCapabilities'', [fact 1 ''noiseSuppression'' ''AudioNoiseSuppressionCapabilities'' False,
        fact 2 ''echoCancellation'' ''AudioEchoCancellationCapabilities'' False,
        fact 3 ''autoGainControl'' ''AudioAutoGainControlCapabilities'' False,
        fact 4 ''beamforming'' ''AudioBeamformingCapabilities'' False,
        fact 5 ''dereverberation'' ''AudioDereverberationCapabilities'' False,
        fact 6 ''voiceActivityDetection'' ''AudioVoiceActivityDetectionCapabilities'' False,
        fact 7 ''directionOfArrival'' ''AudioDirectionOfArrivalCapabilities'' False,
        fact 8 ''howlingSuppression'' ''AudioHowlingSuppressionCapabilities'' False]),
     (''AudioAlgorithmPropertyCapability'', [fact 1 ''type'' ''enum'' True, fact 2 ''defaultBool'' ''bool'' False,
        (fact 3 ''defaultEnum'' ''string'' False)\<lparr>sf_maxLength := Some 32\<rparr>,
        fact 4 ''defaultInt32'' ''int32'' False, fact 5 ''min'' ''int32'' False, fact 6 ''max'' ''int32'' False,
        fact 7 ''step'' ''int32'' False,
        (fact 8 ''values'' ''array'' False)\<lparr>sf_array := Some (None, Some ''string'')\<rparr>,
        (fact 9 ''unit'' ''string'' False)\<lparr>sf_maxLength := Some 16\<rparr>,
        fact 10 ''requiresAudioRestart'' ''bool'' False]),
     (''AudioNoiseSuppressionCapabilities'', [fact 1 ''supported'' ''bool'' True,
        (fact 2 ''displayName'' ''string'' False)\<lparr>sf_maxLength := Some 64\<rparr>,
        fact 3 ''enabled'' ''AudioAlgorithmPropertyCapability'' False,
        fact 5 ''level'' ''AudioAlgorithmPropertyCapability'' False])]"

definition facts_2 :: "(string \<times> schema_field list) list" where
  "facts_2 = [
     (''AudioEchoCancellationCapabilities'', [fact 1 ''supported'' ''bool'' True,
        (fact 2 ''displayName'' ''string'' False)\<lparr>sf_maxLength := Some 64\<rparr>,
        fact 3 ''enabled'' ''AudioAlgorithmPropertyCapability'' False,
        fact 5 ''tailLengthMs'' ''AudioAlgorithmPropertyCapability'' False,
        fact 6 ''nlpLevel'' ''AudioAlgorithmPropertyCapability'' False]),
     (''AudioAutoGainControlCapabilities'', [fact 1 ''supported'' ''bool'' True,
        (fact 2 ''displayName'' ''string'' False)\<lparr>sf_maxLength := Some 64\<rparr>,
        fact 3 ''enabled'' ''AudioAlgorithmPropertyCapability'' False,
        fact 4 ''targetLevelDb'' ''AudioAlgorithmPropertyCapability'' False,
        fact 5 ''maxGainDb'' ''AudioAlgorithmPropertyCapability'' False,
        fact 6 ''attackTimeMs'' ''AudioAlgorithmPropertyCapability'' False,
        fact 7 ''releaseTimeMs'' ''AudioAlgorithmPropertyCapability'' False]),
     (''AudioBeamformingCapabilities'', [fact 1 ''supported'' ''bool'' True,
        (fact 2 ''displayName'' ''string'' False)\<lparr>sf_maxLength := Some 64\<rparr>,
        fact 3 ''enabled'' ''AudioAlgorithmPropertyCapability'' False,
        fact 5 ''lookDirectionDeg'' ''AudioAlgorithmPropertyCapability'' False,
        fact 6 ''beamWidthDeg'' ''AudioAlgorithmPropertyCapability'' False]),
     (''AudioDereverberationCapabilities'', [fact 1 ''supported'' ''bool'' True,
        (fact 2 ''displayName'' ''string'' False)\<lparr>sf_maxLength := Some 64\<rparr>,
        fact 3 ''enabled'' ''AudioAlgorithmPropertyCapability'' False,
        fact 5 ''level'' ''AudioAlgorithmPropertyCapability'' False]),
     (''AudioVoiceActivityDetectionCapabilities'', [fact 1 ''supported'' ''bool'' True,
        (fact 2 ''displayName'' ''string'' False)\<lparr>sf_maxLength := Some 64\<rparr>,
        fact 3 ''enabled'' ''AudioAlgorithmPropertyCapability'' False,
        fact 4 ''sensitivity'' ''AudioAlgorithmPropertyCapability'' False,
        fact 5 ''hangoverMs'' ''AudioAlgorithmPropertyCapability'' False]),
     (''AudioDirectionOfArrivalCapabilities'', [fact 1 ''supported'' ''bool'' True,
        (fact 2 ''displayName'' ''string'' False)\<lparr>sf_maxLength := Some 64\<rparr>,
        fact 3 ''enabled'' ''AudioAlgorithmPropertyCapability'' False,
        fact 4 ''reportingEnabled'' ''AudioAlgorithmPropertyCapability'' False,
        fact 5 ''reportIntervalMs'' ''AudioAlgorithmPropertyCapability'' False,
        fact 6 ''smoothingMs'' ''AudioAlgorithmPropertyCapability'' False]),
     (''AudioHowlingSuppressionCapabilities'', [fact 1 ''supported'' ''bool'' True,
        (fact 2 ''displayName'' ''string'' False)\<lparr>sf_maxLength := Some 64\<rparr>,
        fact 3 ''enabled'' ''AudioAlgorithmPropertyCapability'' False,
        fact 5 ''level'' ''AudioAlgorithmPropertyCapability'' False]),
     (''AudioAlgorithmConfig'', [fact 1 ''noiseSuppression'' ''AudioNoiseSuppressionConfig'' False,
        fact 2 ''echoCancellation'' ''AudioEchoCancellationConfig'' False,
        fact 3 ''autoGainControl'' ''AudioAutoGainControlConfig'' False,
        fact 4 ''beamforming'' ''AudioBeamformingConfig'' False,
        fact 5 ''dereverberation'' ''AudioDereverberationConfig'' False,
        fact 6 ''voiceActivityDetection'' ''AudioVoiceActivityDetectionConfig'' False,
        fact 7 ''directionOfArrival'' ''AudioDirectionOfArrivalConfig'' False,
        fact 8 ''howlingSuppression'' ''AudioHowlingSuppressionConfig'' False]),
     (''AudioNoiseSuppressionConfig'', [fact 1 ''enabled'' ''bool'' False,
        (fact 3 ''level'' ''uint8'' False)\<lparr>sf_min := Some 0, sf_max := Some 3\<rparr>]),
     (''AudioEchoCancellationConfig'', [fact 1 ''enabled'' ''bool'' False,
        (fact 3 ''tailLengthMs'' ''uint32'' False)\<lparr>sf_min := Some 64, sf_max := Some 512\<rparr>,
        (fact 4 ''nlpLevel'' ''uint8'' False)\<lparr>sf_min := Some 0, sf_max := Some 3\<rparr>]),
     (''AudioAutoGainControlConfig'', [fact 1 ''enabled'' ''bool'' False,
        (fact 2 ''targetLevelDb'' ''int32'' False)\<lparr>sf_min := Some (- 36), sf_max := Some (- 6)\<rparr>,
        (fact 3 ''maxGainDb'' ''uint8'' False)\<lparr>sf_min := Some 0, sf_max := Some 36\<rparr>,
        (fact 4 ''attackTimeMs'' ''uint32'' False)\<lparr>sf_min := Some 1, sf_max := Some 1000\<rparr>,
        (fact 5 ''releaseTimeMs'' ''uint32'' False)\<lparr>sf_min := Some 10, sf_max := Some 5000\<rparr>]),
     (''AudioBeamformingConfig'', [fact 1 ''enabled'' ''bool'' False,
        (fact 3 ''lookDirectionDeg'' ''int32'' False)\<lparr>sf_min := Some (- 180), sf_max := Some 180\<rparr>,
        (fact 4 ''beamWidthDeg'' ''uint32'' False)\<lparr>sf_min := Some 10, sf_max := Some 180\<rparr>]),
     (''AudioDereverberationConfig'', [fact 1 ''enabled'' ''bool'' False,
        (fact 3 ''level'' ''uint8'' False)\<lparr>sf_min := Some 0, sf_max := Some 3\<rparr>])]"

definition facts_3 :: "(string \<times> schema_field list) list" where
  "facts_3 = [
     (''AudioVoiceActivityDetectionConfig'', [fact 1 ''enabled'' ''bool'' False,
        (fact 2 ''sensitivity'' ''uint8'' False)\<lparr>sf_min := Some 0, sf_max := Some 3\<rparr>,
        (fact 3 ''hangoverMs'' ''uint32'' False)\<lparr>sf_min := Some 0, sf_max := Some 2000\<rparr>]),
     (''AudioDirectionOfArrivalConfig'', [fact 1 ''enabled'' ''bool'' False, fact 2 ''reportingEnabled'' ''bool'' False,
        (fact 3 ''reportIntervalMs'' ''uint32'' False)\<lparr>sf_min := Some 20, sf_max := Some 5000\<rparr>,
        (fact 4 ''smoothingMs'' ''uint32'' False)\<lparr>sf_min := Some 0, sf_max := Some 5000\<rparr>]),
     (''AudioHowlingSuppressionConfig'', [fact 1 ''enabled'' ''bool'' False,
        (fact 3 ''level'' ''uint8'' False)\<lparr>sf_min := Some 0, sf_max := Some 3\<rparr>]),
     (''AudioGetStreamCapabilitiesParams'', [(fact 1 ''source'' ''string'' False)\<lparr>sf_maxLength := Some 128\<rparr>,
        fact 2 ''includeRuntimeState'' ''bool'' False]),
     (''AudioStreamCapabilities'', [(fact 1 ''capability'' ''string'' True)\<lparr>sf_maxLength := Some 32\<rparr>,
        (fact 2 ''sources'' ''array'' True)\<lparr>sf_schema := Some ''AudioStreamSource''\<rparr>,
        (fact 3 ''streamProfiles'' ''array'' True)\<lparr>sf_array := Some (None, Some ''string'')\<rparr>,
        (fact 4 ''openModes'' ''array'' True)\<lparr>sf_array := Some (None, Some ''string'')\<rparr>,
        (fact 5 ''peerRoles'' ''array'' True)\<lparr>sf_array := Some (None, Some ''string'')\<rparr>,
        fact 6 ''supportsSourceStateEvent'' ''bool'' True, fact 7 ''supportsSyncGroup'' ''bool'' True,
        fact 8 ''flowControlManagedByRuntime'' ''bool'' True,
        (fact 9 ''aacTransportFormats'' ''array'' False)\<lparr>sf_array := Some (None, Some ''string'')\<rparr>,
        (fact 10 ''supportedAudioPtsModes'' ''array'' False)\<lparr>sf_array := Some (None, Some ''string'')\<rparr>,
        (fact 11 ''supportedPacketizationModes'' ''array'' False)\<lparr>sf_array := Some (None, Some ''string'')\<rparr>,
        fact 12 ''supportsSourceCaptureTimestampCursor'' ''bool'' False]),
     (''AudioStreamSource'', [(fact 1 ''source'' ''string'' True)\<lparr>sf_maxLength := Some 128\<rparr>,
        (fact 2 ''displayName'' ''string'' False)\<lparr>sf_maxLength := Some 128\<rparr>,
        (fact 3 ''codecs'' ''array'' True)\<lparr>sf_array := Some (None, Some ''string'')\<rparr>,
        (fact 4 ''sampleRates'' ''array'' False)\<lparr>sf_array := Some (None, Some ''uint32'')\<rparr>,
        (fact 5 ''channels'' ''array'' False)\<lparr>sf_array := Some (None, Some ''uint8'')\<rparr>,
        fact 6 ''state'' ''enum'' False]),
     (''AudioOpenStreamParams'', [(fact 1 ''source'' ''string'' True)\<lparr>sf_maxLength := Some 128\<rparr>, fact 2 ''peerRole'' ''enum'' True,
        fact 3 ''codec'' ''enum'' True, fact 4 ''transportFormat'' ''enum'' False,
        fact 5 ''sampleRate'' ''uint32'' False, fact 6 ''channels'' ''uint8'' False,
        fact 7 ''sampleFormat'' ''enum'' False, fact 8 ''chunkDurationMs'' ''uint32'' False,
        (fact 9 ''streamProfile'' ''string'' False)\<lparr>sf_maxLength := Some 64\<rparr>,
        fact 10 ''cursorUnit'' ''enum'' False,
        (fact 11 ''syncGroupId'' ''string'' False)\<lparr>sf_maxLength := Some 128\<rparr>,
        (fact 12 ''castSessionId'' ''string'' False)\<lparr>sf_maxLength := Some 128\<rparr>,
        (fact 13 ''clockDomain'' ''string'' False)\<lparr>sf_maxLength := Some 128\<rparr>,
        (fact 14 ''receiverClockDomain'' ''string'' False)\<lparr>sf_maxLength := Some 128\<rparr>,
        fact 15 ''maxDataSize'' ''uint32'' False, fact 16 ''audioPtsMode'' ''enum'' False,
        fact 17 ''timebase'' ''uint32'' False, fact 18 ''samplesPerPacket'' ''uint32'' False,
        fact 19 ''firstMediaSeqId'' ''uint32'' False, fact 20 ''audioPtsBase'' ''uint64'' False,
        fact 21 ''packetizationMode'' ''enum'' False]),
     (''AudioOpenStreamResult'', [fact 1 ''streamId'' ''uint32'' True, fact 2 ''state'' ''enum'' True,
        (fact 3 ''source'' ''string'' True)\<lparr>sf_maxLength := Some 128\<rparr>, fact 4 ''peerRole'' ''enum'' True,
        fact 5 ''codec'' ''enum'' True, fact 6 ''transportFormat'' ''enum'' False,
        fact 7 ''sampleRate'' ''uint32'' True, fact 8 ''channels'' ''uint8'' True,
        fact 9 ''sampleFormat'' ''enum'' False,
        (fact 10 ''streamProfile'' ''string'' True)\<lparr>sf_maxLength := Some 64\<rparr>,
        fact 11 ''cursorUnit'' ''enum'' True,
        (fact 12 ''syncGroupId'' ''string'' False)\<lparr>sf_maxLength := Some 128\<rparr>,
        (fact 13 ''castSessionId'' ''string'' False)\<lparr>sf_maxLength := Some 128\<rparr>,
        (fact 14 ''clockDomain'' ''string'' False)\<lparr>sf_maxLength := Some 128\<rparr>,
        (fact 15 ''receiverClockDomain'' ''string'' False)\<lparr>sf_maxLength := Some 128\<rparr>,
        fact 16 ''maxDataSize'' ''uint32'' False, fact 17 ''audioPtsMode'' ''enum'' False,
        fact 18 ''timebase'' ''uint32'' False, fact 19 ''samplesPerPacket'' ''uint32'' False,
        fact 20 ''firstMediaSeqId'' ''uint32'' False, fact 21 ''audioPtsBase'' ''uint64'' False,
        fact 22 ''packetizationMode'' ''enum'' False])]"

definition facts_4 :: "(string \<times> schema_field list) list" where
  "facts_4 = [
     (''AudioCloseStreamParams'', [fact 1 ''streamId'' ''uint32'' True, fact 2 ''peerRole'' ''enum'' False, fact 3 ''reason'' ''enum'' False,
        fact 4 ''finalCursor'' ''uint64'' False]),
     (''AudioCloseStreamResult'', [fact 1 ''streamId'' ''uint32'' True, fact 2 ''state'' ''enum'' True, fact 3 ''reason'' ''enum'' False,
        fact 4 ''alreadyClosed'' ''bool'' False]),
     (''AudioGetStreamStateParams'', [fact 1 ''streamId'' ''uint32'' True]),
     (''AudioStreamState'', [fact 1 ''streamId'' ''uint32'' True, fact 2 ''state'' ''enum'' True,
        (fact 3 ''source'' ''string'' True)\<lparr>sf_maxLength := Some 128\<rparr>, fact 4 ''peerRole'' ''enum'' False,
        fact 5 ''codec'' ''enum'' False,
        (fact 6 ''streamProfile'' ''string'' False)\<lparr>sf_maxLength := Some 64\<rparr>,
        (fact 7 ''syncGroupId'' ''string'' False)\<lparr>sf_maxLength := Some 128\<rparr>,
        fact 8 ''cursorUnit'' ''enum'' False, fact 9 ''lastCursor'' ''uint64'' False,
        fact 10 ''failureReason'' ''enum'' False]),
     (''AudioGetStreamSourceStateParams'', [(fact 1 ''source'' ''string'' True)\<lparr>sf_maxLength := Some 128\<rparr>]),
     (''AudioStreamSourceState'', [(fact 1 ''source'' ''string'' True)\<lparr>sf_maxLength := Some 128\<rparr>,
        fact 2 ''mediaKind'' ''enum'' False, fact 3 ''state'' ''enum'' True, fact 4 ''available'' ''bool'' False,
        fact 5 ''activeStreamId'' ''uint32'' False, fact 6 ''lastOpenRejectedReason'' ''enum'' False]),
     (''AudioStreamStateChangedEvent'', [fact 1 ''streamId'' ''uint32'' True, fact 2 ''state'' ''enum'' True,
        (fact 3 ''source'' ''string'' True)\<lparr>sf_maxLength := Some 128\<rparr>, fact 4 ''reason'' ''enum'' False,
        fact 5 ''stats'' ''AudioStreamStats'' False]),
     (''AudioStreamSourceStateChangedEvent'', [(fact 1 ''source'' ''string'' True)\<lparr>sf_maxLength := Some 128\<rparr>,
        fact 2 ''mediaKind'' ''enum'' False, fact 3 ''state'' ''enum'' True, fact 4 ''reason'' ''enum'' False,
        fact 5 ''activeStreamId'' ''uint32'' False]),
     (''AudioStreamStatsReportedEvent'', [fact 1 ''streamId'' ''uint32'' True, fact 2 ''stats'' ''AudioStreamStats'' True]),
     (''AudioStreamStats'', [fact 1 ''packets'' ''uint64'' False, fact 2 ''bytes'' ''uint64'' False,
        fact 3 ''droppedPackets'' ''uint64'' False, fact 4 ''jitterMs'' ''uint32'' False]),
     (''CastSourceSummary'', [(fact 1 ''name'' ''string'' False)\<lparr>sf_maxLength := Some 128\<rparr>,
        (fact 2 ''model'' ''string'' False)\<lparr>sf_maxLength := Some 128\<rparr>,
        (fact 3 ''address'' ''string'' False)\<lparr>sf_maxLength := Some 128\<rparr>,
        (fact 4 ''sourceId'' ''string'' False)\<lparr>sf_maxLength := Some 128\<rparr>,
        (fact 5 ''protocol'' ''enum'' False)\<lparr>sf_enum := Some [''airplay'', ''hid'', ''unknown'']\<rparr>]),
     (''CastMediaSummary'', [fact 1 ''firstFrame'' ''bool'' False, fact 2 ''width'' ''uint32'' False, fact 3 ''height'' ''uint32'' False,
        (fact 4 ''orientation'' ''enum'' False)\<lparr>sf_enum := Some [''landscape'', ''portrait'', ''unknown'']\<rparr>,
        (fact 5 ''inputFps'' ''number'' False)\<lparr>sf_min := Some 0\<rparr>,
        (fact 6 ''renderFps'' ''number'' False)\<lparr>sf_min := Some 0\<rparr>, fact 7 ''audioActive'' ''bool'' False]),
     (''CastLastError'', [(fact 1 ''code'' ''string'' False)\<lparr>sf_maxLength := Some 64\<rparr>,
        (fact 2 ''message'' ''string'' False)\<lparr>sf_maxLength := Some 512\<rparr>,
        (fact 3 ''occurredAt'' ''string'' False)\<lparr>sf_maxLength := Some 64\<rparr>,
        fact 4 ''redacted'' ''bool'' False]),
     (''CastGetSessionParams'', [(fact 1 ''include'' ''array'' False)\<lparr>sf_array := Some (None, Some ''string'')\<rparr>,
        (fact 2 ''sessionId'' ''string'' False)\<lparr>sf_maxLength := Some 128\<rparr>])]"

definition facts_5 :: "(string \<times> schema_field list) list" where
  "facts_5 = [
     (''CastSessionState'', [(fact 1 ''receiverState'' ''enum'' True)\<lparr>sf_enum := Some [''disabled'', ''starting'', ''ready'', ''busy'', ''failed'']\<rparr>,
        (fact 2 ''sessionId'' ''string'' False)\<lparr>sf_maxLength := Some 128\<rparr>,
        (fact 3 ''receiverPhase'' ''enum'' True)\<lparr>sf_enum := Some [''idle'', ''incoming'', ''authenticating'', ''streamStarting'', ''streaming'', ''rendering'', ''interrupted'', ''stopping'', ''ended'', ''failed'']\<rparr>,
        (fact 4 ''sessionState'' ''enum'' False)\<lparr>sf_enum := Some [''idle'', ''incoming'', ''waitingForPassword'', ''authenticated'', ''preparing'', ''casting'', ''interrupted'', ''stopping'', ''ended'', ''failed'']\<rparr>,
        (fact 5 ''protocol'' ''enum'' False)\<lparr>sf_enum := Some [''airplay'', ''hid'', ''unknown'']\<rparr>,
        (fact 6 ''airPlayName'' ''string'' False)\<lparr>sf_maxLength := Some 128\<rparr>,
        fact 7 ''source'' ''CastSourceSummary'' False, fact 8 ''media'' ''CastMediaSummary'' False,
        (fact 9 ''backendState'' ''enum'' False)\<lparr>sf_enum := Some [''starting'', ''ready'', ''restarting'', ''exited'', ''failed'', ''disabled'']\<rparr>,
        (fact 10 ''reason'' ''enum'' False)\<lparr>sf_enum := Some [''sessionStarted'', ''mediaFlowStarted'', ''externalRequest'', ''sourceClosed'', ''backendRestart'', ''backendExited'', ''authFailed'', ''error'', ''unknown'']\<rparr>,
        fact 11 ''authRequired'' ''bool'' False,
        (fact 12 ''updatedAt'' ''string'' False)\<lparr>sf_maxLength := Some 64\<rparr>]),
     (''CastStopSessionParams'', [(fact 1 ''sessionId'' ''string'' False)\<lparr>sf_maxLength := Some 128\<rparr>,
        (fact 2 ''reason'' ''enum'' False)\<lparr>sf_enum := Some [''externalRequest'', ''localUi'', ''backendRestart'', ''shutdown'', ''unknown'']\<rparr>,
        fact 3 ''force'' ''bool'' False]),
     (''CastStopSessionResult'', [fact 1 ''accepted'' ''bool'' True,
        (fact 2 ''sessionId'' ''string'' False)\<lparr>sf_maxLength := Some 128\<rparr>,
        (fact 3 ''previousReceiverPhase'' ''enum'' False)\<lparr>sf_enum := Some [''idle'', ''incoming'', ''authenticating'', ''streamStarting'', ''streaming'', ''rendering'', ''interrupted'', ''stopping'', ''ended'', ''failed'']\<rparr>,
        (fact 4 ''receiverPhase'' ''enum'' True)\<lparr>sf_enum := Some [''idle'', ''incoming'', ''authenticating'', ''streamStarting'', ''streaming'', ''rendering'', ''interrupted'', ''stopping'', ''ended'', ''failed'']\<rparr>,
        (fact 5 ''previousState'' ''enum'' False)\<lparr>sf_enum := Some [''idle'', ''incoming'', ''waitingForPassword'', ''authenticated'', ''preparing'', ''casting'', ''interrupted'', ''stopping'', ''ended'', ''failed'']\<rparr>,
        (fact 6 ''sessionState'' ''enum'' False)\<lparr>sf_enum := Some [''idle'', ''incoming'', ''waitingForPassword'', ''authenticated'', ''preparing'', ''casting'', ''interrupted'', ''stopping'', ''ended'', ''failed'']\<rparr>,
        (fact 7 ''reason'' ''enum'' False)\<lparr>sf_enum := Some [''externalRequest'', ''sourceClosed'', ''backendRestart'', ''backendExited'', ''shutdown'', ''unknown'']\<rparr>,
        fact 8 ''noActiveSession'' ''bool'' False,
        (fact 9 ''updatedAt'' ''string'' False)\<lparr>sf_maxLength := Some 64\<rparr>]),
     (''CastSetAirPlayNameParams'', [(fact 1 ''displayName'' ''string'' True)\<lparr>sf_maxLength := Some 128\<rparr>,
        (fact 2 ''apply'' ''enum'' False)\<lparr>sf_enum := Some [''immediate'', ''onNextBackendStart'']\<rparr>]),
     (''CastAirPlayNameState'', [(fact 1 ''displayName'' ''string'' True)\<lparr>sf_maxLength := Some 128\<rparr>,
        (fact 2 ''previousDisplayName'' ''string'' False)\<lparr>sf_maxLength := Some 128\<rparr>,
        (fact 3 ''source'' ''enum'' False)\<lparr>sf_enum := Some [''configured'', ''default'', ''backend'', ''unknown'']\<rparr>,
        (fact 4 ''apply'' ''enum'' False)\<lparr>sf_enum := Some [''immediate'', ''onNextBackendStart'']\<rparr>,
        (fact 5 ''publishState'' ''enum'' True)\<lparr>sf_enum := Some [''published'', ''republishing'', ''pending'', ''failed'', ''unpublished'']\<rparr>,
        (fact 6 ''backendType'' ''enum'' False)\<lparr>sf_enum := Some [''uxplay'', ''unknown'']\<rparr>,
        (fact 7 ''updatedAt'' ''string'' False)\<lparr>sf_maxLength := Some 64\<rparr>]),
     (''CastSessionIncomingEvent'', [(fact 1 ''sessionId'' ''string'' False)\<lparr>sf_maxLength := Some 128\<rparr>,
        (fact 2 ''receiverPhase'' ''enum'' True)\<lparr>sf_enum := Some [''incoming'', ''authenticating'']\<rparr>,
        (fact 3 ''protocol'' ''enum'' False)\<lparr>sf_enum := Some [''airplay'', ''hid'', ''unknown'']\<rparr>,
        fact 4 ''source'' ''CastSourceSummary'' False, fact 5 ''authRequired'' ''bool'' False,
        (fact 6 ''incomingAt'' ''string'' False)\<lparr>sf_maxLength := Some 64\<rparr>]),
     (''CastSessionStateChangedEvent'', [(fact 1 ''sessionId'' ''string'' False)\<lparr>sf_maxLength := Some 128\<rparr>,
        (fact 2 ''previousReceiverPhase'' ''enum'' False)\<lparr>sf_enum := Some [''idle'', ''incoming'', ''authenticating'', ''streamStarting'', ''streaming'', ''rendering'', ''interrupted'', ''stopping'', ''ended'', ''failed'']\<rparr>,
        (fact 3 ''receiverPhase'' ''enum'' True)\<lparr>sf_enum := Some [''idle'', ''incoming'', ''authenticating'', ''streamStarting'', ''streaming'', ''rendering'', ''interrupted'', ''stopping'', ''ended'', ''failed'']\<rparr>,
        (fact 4 ''previousState'' ''enum'' False)\<lparr>sf_enum := Some [''idle'', ''incoming'', ''waitingForPassword'', ''authenticated'', ''preparing'', ''casting'', ''interrupted'', ''stopping'', ''ended'', ''failed'']\<rparr>,
        (fact 5 ''sessionState'' ''enum'' False)\<lparr>sf_enum := Some [''idle'', ''incoming'', ''waitingForPassword'', ''authenticated'', ''preparing'', ''casting'', ''interrupted'', ''stopping'', ''ended'', ''failed'']\<rparr>,
        (fact 6 ''protocol'' ''enum'' False)\<lparr>sf_enum := Some [''airplay'', ''hid'', ''unknown'']\<rparr>,
        fact 7 ''authRequired'' ''bool'' False, fact 8 ''media'' ''CastMediaSummary'' False,
        (fact 9 ''reason'' ''enum'' False)\<lparr>sf_enum := Some [''sessionStarted'', ''mediaFlowStarted'', ''externalRequest'', ''sourceClosed'', ''backendRestart'', ''backendExited'', ''authFailed'', ''error'', ''unknown'']\<rparr>,
        (fact 10 ''updatedAt'' ''string'' False)\<lparr>sf_maxLength := Some 64\<rparr>]),
     (''CastSessionStartedEvent'', [(fact 1 ''sessionId'' ''string'' True)\<lparr>sf_maxLength := Some 128\<rparr>,
        (fact 2 ''receiverPhase'' ''enum'' True)\<lparr>sf_enum := Some [''rendering'']\<rparr>,
        (fact 3 ''sessionState'' ''enum'' False)\<lparr>sf_enum := Some [''casting'']\<rparr>,
        (fact 4 ''protocol'' ''enum'' False)\<lparr>sf_enum := Some [''airplay'', ''hid'', ''unknown'']\<rparr>,
        fact 5 ''source'' ''CastSourceSummary'' False, fact 6 ''media'' ''CastMediaSummary'' False,
        (fact 7 ''startedAt'' ''string'' False)\<lparr>sf_maxLength := Some 64\<rparr>]),
     (''CastSessionStoppedEvent'', [(fact 1 ''sessionId'' ''string'' False)\<lparr>sf_maxLength := Some 128\<rparr>,
        (fact 2 ''previousReceiverPhase'' ''enum'' False)\<lparr>sf_enum := Some [''idle'', ''incoming'', ''authenticating'', ''streamStarting'', ''streaming'', ''rendering'', ''interrupted'', ''stopping'', ''ended'', ''failed'']\<rparr>,
        (fact 3 ''receiverPhase'' ''enum'' True)\<lparr>sf_enum := Some [''ended'', ''failed'', ''idle'']\<rparr>,
        (fact 4 ''previousState'' ''enum'' False)\<lparr>sf_enum := Some [''idle'', ''incoming'', ''waitingForPassword'', ''authenticated'', ''preparing'', ''casting'', ''interrupted'', ''stopping'', ''ended'', ''failed'']\<rparr>,
        (fact 5 ''sessionState'' ''enum'' False)\<lparr>sf_enum := Some [''ended'', ''failed'', ''idle'']\<rparr>,
        (fact 6 ''reason'' ''enum'' False)\<lparr>sf_enum := Some [''externalRequest'', ''sourceClosed'', ''backendRestart'', ''backendExited'', ''shutdown'', ''error'', ''unknown'']\<rparr>,
        (fact 7 ''backendType'' ''enum'' False)\<lparr>sf_enum := Some [''uxplay'', ''unknown'']\<rparr>,
        (fact 8 ''stoppedAt'' ''string'' False)\<lparr>sf_maxLength := Some 64\<rparr>])]"

definition facts_6 :: "(string \<times> schema_field list) list" where
  "facts_6 = [
     (''CastSessionFailedEvent'', [(fact 1 ''sessionId'' ''string'' False)\<lparr>sf_maxLength := Some 128\<rparr>,
        (fact 2 ''receiverPhase'' ''enum'' True)\<lparr>sf_enum := Some [''failed'']\<rparr>,
        (fact 3 ''sessionState'' ''enum'' False)\<lparr>sf_enum := Some [''failed'']\<rparr>,
        (fact 4 ''protocol'' ''enum'' False)\<lparr>sf_enum := Some [''airplay'', ''hid'', ''unknown'']\<rparr>,
        fact 5 ''source'' ''CastSourceSummary'' False,
        (fact 6 ''reason'' ''enum'' False)\<lparr>sf_enum := Some [''connectionFailed'', ''authFailed'', ''negotiationFailed'', ''backendFailed'', ''mediaFailed'', ''unknown'']\<rparr>,
        fact 7 ''error'' ''CastLastError'' False,
        (fact 8 ''failedAt'' ''string'' False)\<lparr>sf_maxLength := Some 64\<rparr>]),
     (''CastGetAudioParams'', [fact 1 ''includeEffective'' ''bool'' False,
        (fact 2 ''sessionId'' ''string'' False)\<lparr>sf_maxLength := Some 128\<rparr>]),
     (''CastSetAudioParams'', [fact 1 ''enabled'' ''bool'' True,
        (fact 2 ''sessionId'' ''string'' False)\<lparr>sf_maxLength := Some 128\<rparr>,
        (fact 3 ''scope'' ''enum'' False)\<lparr>sf_enum := Some [''currentSession'', ''default'']\<rparr>]),
     (''CastSetMutedParams'', [fact 1 ''muted'' ''bool'' True, (fact 2 ''sessionId'' ''string'' False)\<lparr>sf_maxLength := Some 128\<rparr>,
        (fact 3 ''scope'' ''enum'' False)\<lparr>sf_enum := Some [''currentSession'', ''default'']\<rparr>]),
     (''CastSetAudioDelayParams'', [(fact 1 ''audioDelayMs'' ''uint32'' True)\<lparr>sf_min := Some 0, sf_max := Some 1000\<rparr>,
        (fact 2 ''sessionId'' ''string'' False)\<lparr>sf_maxLength := Some 128\<rparr>,
        (fact 3 ''scope'' ''enum'' False)\<lparr>sf_enum := Some [''currentSession'', ''default'']\<rparr>]),
     (''CastAudioState'', [fact 1 ''enabled'' ''bool'' True, fact 2 ''muted'' ''bool'' True, fact 3 ''effectivePlayback'' ''bool'' True,
        (fact 4 ''scope'' ''enum'' False)\<lparr>sf_enum := Some [''currentSession'', ''default'']\<rparr>,
        (fact 5 ''sessionId'' ''string'' False)\<lparr>sf_maxLength := Some 128\<rparr>,
        (fact 6 ''source'' ''enum'' False)\<lparr>sf_enum := Some [''defaultConfig'', ''externalSet'', ''localUi'', ''sessionStarted'', ''sessionStopped'', ''unknown'']\<rparr>,
        (fact 7 ''reason'' ''enum'' False)\<lparr>sf_enum := Some [''receiverDefault'', ''externalSet'', ''localUi'', ''sessionStarted'', ''sessionStopped'', ''unknown'']\<rparr>,
        (fact 8 ''changedFields'' ''array'' False)\<lparr>sf_array := Some (None, Some ''string'')\<rparr>,
        (fact 9 ''updatedAt'' ''string'' False)\<lparr>sf_maxLength := Some 64\<rparr>,
        (fact 10 ''audioDelayMs'' ''uint32'' False)\<lparr>sf_min := Some 0, sf_max := Some 1000\<rparr>]),
     (''CastAudioChangedEvent'', [(fact 1 ''changedFields'' ''array'' True)\<lparr>sf_array := Some (None, Some ''string'')\<rparr>,
        fact 2 ''state'' ''CastAudioState'' True,
        (fact 3 ''reason'' ''enum'' False)\<lparr>sf_enum := Some [''externalSet'', ''localUi'', ''sessionStarted'', ''sessionStopped'', ''unknown'']\<rparr>,
        (fact 4 ''updatedAt'' ''string'' False)\<lparr>sf_maxLength := Some 64\<rparr>]),
     (''CastGetPinCodeConfigParams'', [fact 1 ''includeSecret'' ''bool'' False,
        (fact 2 ''protocol'' ''enum'' False)\<lparr>sf_enum := Some [''airplay'', ''webcast'']\<rparr>,
        fact 3 ''includeSensitive'' ''bool'' False,
        (fact 4 ''attemptId'' ''string'' False)\<lparr>sf_maxLength := Some 20, sf_canonical := True\<rparr>]),
     (''CastSetPinCodeConfigParams'', [fact 1 ''enabled'' ''bool'' False,
        (fact 2 ''pinDisplay'' ''enum'' False)\<lparr>sf_enum := Some [''hidden'', ''authorizedClients'', ''localUi'', ''both'']\<rparr>,
        fact 3 ''rotatePin'' ''bool'' False,
        (fact 4 ''visibility'' ''enum'' False)\<lparr>sf_enum := Some [''hidden'', ''authorizedOnly'', ''localUi'', ''both'']\<rparr>]),
     (''CastSetPinCodeParams'', [fact 1 ''pinCode'' ''string'' True, fact 2 ''expirePrevious'' ''bool'' False,
        (fact 3 ''visibility'' ''enum'' False)\<lparr>sf_enum := Some [''hidden'', ''authorizedOnly'', ''localUi'', ''both'']\<rparr>]),
     (''CastPinCodeChallenge'', [(fact 1 ''attemptId'' ''string'' True)\<lparr>sf_maxLength := Some 20, sf_canonical := True\<rparr>,
        (fact 2 ''challengeId'' ''string'' True)\<lparr>sf_maxLength := Some 20, sf_canonical := True\<rparr>,
        (fact 3 ''displayRequestId'' ''string'' True)\<lparr>sf_maxLength := Some 20, sf_canonical := True\<rparr>,
        fact 4 ''pinCode'' ''string'' False,
        (fact 5 ''codeGeneration'' ''string'' False)\<lparr>sf_maxLength := Some 20, sf_canonical := True\<rparr>]),
     (''CastPinCodeConfig'', [fact 1 ''enabled'' ''bool'' True, fact 2 ''hasPinCode'' ''bool'' True, fact 3 ''pinCode'' ''string'' False,
        (fact 4 ''pinDisplay'' ''enum'' False)\<lparr>sf_enum := Some [''hidden'', ''authorizedClients'', ''localUi'', ''both'']\<rparr>,
        (fact 5 ''generatedBy'' ''enum'' False)\<lparr>sf_enum := Some [''nearcast'', ''uxplay'', ''external'', ''unknown'']\<rparr>,
        (fact 6 ''visibility'' ''enum'' False)\<lparr>sf_enum := Some [''hidden'', ''authorizedOnly'', ''localUi'', ''both'']\<rparr>,
        (fact 7 ''expiresAt'' ''string'' False)\<lparr>sf_maxLength := Some 64\<rparr>,
        fact 8 ''redactionRequired'' ''bool'' False,
        (fact 9 ''changedFields'' ''array'' False)\<lparr>sf_array := Some (None, Some ''string'')\<rparr>,
        (fact 10 ''updatedAt'' ''string'' False)\<lparr>sf_maxLength := Some 64\<rparr>,
        fact 11 ''redacted'' ''bool'' False,
        (fact 12 ''protocol'' ''enum'' False)\<lparr>sf_enum := Some [''airplay'', ''webcast'']\<rparr>,
        (fact 13 ''backend'' ''enum'' False)\<lparr>sf_enum := Some [''cloud'', ''local'', ''none'']\<rparr>,
        (fact 14 ''challenges'' ''array'' False)\<lparr>sf_array := Some (None, Some ''CastPinCodeChallenge'')\<rparr>,
        (fact 15 ''scope'' ''enum'' False)\<lparr>sf_enum := Some [''access'', ''challenge'']\<rparr>,
        (fact 16 ''codeGeneration'' ''string'' False)\<lparr>sf_maxLength := Some 20, sf_canonical := True\<rparr>])]"

definition facts_7 :: "(string \<times> schema_field list) list" where
  "facts_7 = [
     (''CastPinCodeChangedEvent'', [(fact 1 ''changedFields'' ''array'' True)\<lparr>sf_array := Some (None, Some ''string'')\<rparr>,
        fact 2 ''config'' ''CastPinCodeConfig'' True,
        (fact 3 ''reason'' ''enum'' False)\<lparr>sf_enum := Some [''externalSet'', ''localUi'', ''generated'', ''backendChanged'', ''unknown'']\<rparr>,
        (fact 4 ''updatedAt'' ''string'' False)\<lparr>sf_maxLength := Some 64\<rparr>,
        fact 5 ''challenge'' ''CastPinCodeChallenge'' False]),
     (''CastPinCodeRequiredEvent'', [(fact 1 ''sessionId'' ''string'' False)\<lparr>sf_maxLength := Some 128\<rparr>,
        fact 2 ''source'' ''CastSourceSummary'' False, fact 3 ''pinCode'' ''string'' False,
        (fact 4 ''visibility'' ''enum'' False)\<lparr>sf_enum := Some [''hidden'', ''authorizedOnly'', ''localUi'', ''both'']\<rparr>,
        fact 5 ''redactionRequired'' ''bool'' False,
        (fact 6 ''requestedAt'' ''string'' False)\<lparr>sf_maxLength := Some 64\<rparr>,
        fact 7 ''config'' ''CastPinCodeConfig'' False]),
     (''CastPinCodeAuthFailedEvent'', [(fact 1 ''sessionId'' ''string'' False)\<lparr>sf_maxLength := Some 128\<rparr>,
        fact 2 ''source'' ''CastSourceSummary'' False,
        (fact 3 ''authFailureReason'' ''enum'' False)\<lparr>sf_enum := Some [''wrongPin'', ''timeout'', ''cancelled'', ''tooManyAttempts'', ''unknown'']\<rparr>,
        fact 4 ''attemptCount'' ''uint16'' False,
        (fact 5 ''failedAt'' ''string'' False)\<lparr>sf_maxLength := Some 64\<rparr>]),
     (''CastRect'', [fact 1 ''x'' ''int32'' True, fact 2 ''y'' ''int32'' True, fact 3 ''width'' ''uint32'' True,
        fact 4 ''height'' ''uint32'' True]),
     (''CastSetWindowStateParams'', [(fact 1 ''mode'' ''enum'' False)\<lparr>sf_enum := Some [''normal'', ''fullscreen'']\<rparr>,
        fact 2 ''fullscreen'' ''bool'' False, fact 3 ''alwaysOnTop'' ''bool'' False,
        fact 4 ''bounds'' ''CastRect'' False]),
     (''CastWindowState'', [fact 1 ''hasWindow'' ''bool'' True, fact 2 ''visible'' ''bool'' True,
        (fact 3 ''mode'' ''enum'' True)\<lparr>sf_enum := Some [''normal'', ''fullscreen'']\<rparr>,
        fact 4 ''fullscreen'' ''bool'' True, fact 5 ''alwaysOnTop'' ''bool'' True,
        (fact 6 ''sessionId'' ''string'' False)\<lparr>sf_maxLength := Some 128\<rparr>,
        fact 7 ''bounds'' ''CastRect'' False,
        (fact 10 ''changedFields'' ''array'' False)\<lparr>sf_array := Some (None, Some ''string'')\<rparr>,
        (fact 11 ''updatedAt'' ''string'' False)\<lparr>sf_maxLength := Some 64\<rparr>]),
     (''CastWindowChangedEvent'', [(fact 1 ''changedFields'' ''array'' True)\<lparr>sf_array := Some (None, Some ''string'')\<rparr>,
        fact 2 ''state'' ''CastWindowState'' True,
        (fact 3 ''reason'' ''enum'' False)\<lparr>sf_enum := Some [''externalSet'', ''localUi'', ''sessionStarted'', ''sessionStopped'', ''unknown'']\<rparr>,
        (fact 4 ''updatedAt'' ''string'' False)\<lparr>sf_maxLength := Some 64\<rparr>,
        fact 5 ''controlContext'' ''CastControlEventContext'' False]),
     (''CastGetBackendStatusParams'', [fact 1 ''includeLastError'' ''bool'' False]),
     (''CastRestartBackendParams'', [(fact 1 ''reason'' ''enum'' False)\<lparr>sf_enum := Some [''manualRecovery'', ''configChanged'', ''backendUnhealthy'', ''unknown'']\<rparr>,
        fact 2 ''force'' ''bool'' False]),
     (''CastBackendStatus'', [(fact 1 ''backendType'' ''enum'' True)\<lparr>sf_enum := Some [''uxplay'', ''unknown'']\<rparr>,
        (fact 2 ''state'' ''enum'' True)\<lparr>sf_enum := Some [''starting'', ''ready'', ''restarting'', ''exited'', ''failed'', ''disabled'']\<rparr>,
        fact 3 ''discoverable'' ''bool'' True, fact 4 ''pid'' ''uint32'' False,
        (fact 5 ''version'' ''string'' False)\<lparr>sf_maxLength := Some 128\<rparr>,
        (fact 6 ''activeSessionId'' ''string'' False)\<lparr>sf_maxLength := Some 128\<rparr>,
        fact 7 ''restartInProgress'' ''bool'' True, fact 8 ''lastError'' ''CastLastError'' False,
        (fact 9 ''updatedAt'' ''string'' False)\<lparr>sf_maxLength := Some 64\<rparr>]),
     (''CastRestartBackendResult'', [fact 1 ''accepted'' ''bool'' True,
        (fact 2 ''backendType'' ''enum'' True)\<lparr>sf_enum := Some [''uxplay'', ''unknown'']\<rparr>,
        (fact 3 ''state'' ''enum'' True)\<lparr>sf_enum := Some [''starting'', ''ready'', ''restarting'', ''exited'', ''failed'', ''disabled'']\<rparr>,
        (fact 4 ''restartId'' ''string'' False)\<lparr>sf_maxLength := Some 128\<rparr>,
        fact 5 ''activeSessionEnded'' ''bool'' True,
        (fact 6 ''endedSessionId'' ''string'' False)\<lparr>sf_maxLength := Some 128\<rparr>,
        (fact 7 ''sessionStopReason'' ''enum'' False)\<lparr>sf_enum := Some [''backendRestart'', ''backendExited'', ''error'', ''unknown'']\<rparr>,
        fact 8 ''estimatedReadyInMs'' ''uint32'' False,
        (fact 9 ''updatedAt'' ''string'' False)\<lparr>sf_maxLength := Some 64\<rparr>]),
     (''CastBackendChangedEvent'', [(fact 1 ''changedFields'' ''array'' True)\<lparr>sf_array := Some (None, Some ''string'')\<rparr>,
        fact 2 ''state'' ''CastBackendStatus'' True,
        (fact 3 ''reason'' ''enum'' False)\<lparr>sf_enum := Some [''manualRecovery'', ''configChanged'', ''backendUnhealthy'', ''backendExited'', ''unknown'']\<rparr>,
        (fact 4 ''restartId'' ''string'' False)\<lparr>sf_maxLength := Some 128\<rparr>,
        fact 5 ''activeSessionEnded'' ''bool'' False,
        (fact 6 ''endedSessionId'' ''string'' False)\<lparr>sf_maxLength := Some 128\<rparr>,
        (fact 7 ''updatedAt'' ''string'' False)\<lparr>sf_maxLength := Some 64\<rparr>])]"

definition facts_8 :: "(string \<times> schema_field list) list" where
  "facts_8 = [
     (''CastGetFlowControlStateParams'', [fact 1 ''includeStats'' ''bool'' False, fact 2 ''includePolicy'' ''bool'' False,
        (fact 3 ''sessionId'' ''string'' False)\<lparr>sf_maxLength := Some 128\<rparr>]),
     (''CastSetRenderFpsParams'', [(fact 1 ''fps'' ''number'' True)\<lparr>sf_min := Some 0\<rparr>,
        (fact 2 ''sessionId'' ''string'' False)\<lparr>sf_maxLength := Some 128\<rparr>,
        (fact 3 ''scope'' ''enum'' False)\<lparr>sf_enum := Some [''currentSession'', ''default'']\<rparr>]),
     (''CastSetFlowPolicyParams'', [(fact 1 ''videoQueueFrames'' ''uint32'' False)\<lparr>sf_min := Some 1\<rparr>,
        fact 2 ''lateFrameThresholdMs'' ''uint32'' False,
        (fact 3 ''dropMode'' ''enum'' False)\<lparr>sf_enum := Some [''drop-late'', ''drop-oldest'', ''render-latest'']\<rparr>,
        fact 4 ''overlayEnabled'' ''bool'' False,
        (fact 5 ''sessionId'' ''string'' False)\<lparr>sf_maxLength := Some 128\<rparr>,
        (fact 6 ''scope'' ''enum'' False)\<lparr>sf_enum := Some [''currentSession'', ''default'']\<rparr>]),
     (''CastSetVideoStreamParamsParams'', [(fact 1 ''sessionId'' ''string'' False)\<lparr>sf_maxLength := Some 128\<rparr>,
        (fact 2 ''frameRate'' ''uint32'' False)\<lparr>sf_min := Some 1\<rparr>,
        (fact 3 ''bitrateKbps'' ''uint32'' False)\<lparr>sf_min := Some 1\<rparr>,
        (fact 4 ''resetFields'' ''array'' False)\<lparr>sf_array := Some (None, Some ''string'')\<rparr>]),
     (''CastSetVideoStreamParamsResult'', [fact 1 ''accepted'' ''bool'' True,
        (fact 2 ''state'' ''enum'' True)\<lparr>sf_enum := Some [''pending'', ''applied'', ''failed'', ''rolledBack'', ''unchanged'']\<rparr>,
        (fact 3 ''sessionId'' ''string'' False)\<lparr>sf_maxLength := Some 128\<rparr>,
        (fact 4 ''reconfigureId'' ''string'' False)\<lparr>sf_maxLength := Some 128\<rparr>,
        fact 5 ''previousStreamId'' ''uint32'' False, fact 6 ''activeStreamId'' ''uint32'' False,
        fact 7 ''sourceVideo'' ''CastVideoStreamParamsState'' True]),
     (''CastVideoStreamParamsState'', [(fact 1 ''sessionId'' ''string'' False)\<lparr>sf_maxLength := Some 128\<rparr>,
        (fact 2 ''source'' ''string'' False)\<lparr>sf_maxLength := Some 128\<rparr>,
        (fact 3 ''desiredFrameRate'' ''uint32'' False)\<lparr>sf_min := Some 1\<rparr>,
        (fact 4 ''desiredBitrateKbps'' ''uint32'' False)\<lparr>sf_min := Some 1\<rparr>,
        (fact 5 ''effectiveFrameRate'' ''uint32'' False)\<lparr>sf_min := Some 1\<rparr>,
        (fact 6 ''effectiveBitrateKbps'' ''uint32'' False)\<lparr>sf_min := Some 1\<rparr>,
        (fact 7 ''streamProfile'' ''string'' False)\<lparr>sf_maxLength := Some 64\<rparr>,
        (fact 8 ''encoder'' ''string'' False)\<lparr>sf_maxLength := Some 128\<rparr>,
        (fact 9 ''reconfigureId'' ''string'' False)\<lparr>sf_maxLength := Some 128\<rparr>,
        (fact 10 ''state'' ''enum'' False)\<lparr>sf_enum := Some [''idle'', ''pending'', ''closing'', ''opening'', ''streaming'', ''failed'', ''rolledBack'']\<rparr>,
        (fact 11 ''phase'' ''enum'' False)\<lparr>sf_enum := Some [''idle'', ''pending'', ''closing'', ''opening'', ''streaming'', ''failed'', ''rolledBack'']\<rparr>,
        fact 12 ''previousStreamId'' ''uint32'' False, fact 13 ''activeStreamId'' ''uint32'' False,
        fact 14 ''rollbackApplied'' ''bool'' False, fact 15 ''lastError'' ''CastLastError'' False,
        (fact 16 ''changedFields'' ''array'' False)\<lparr>sf_array := Some (None, Some ''string'')\<rparr>]),
     (''CastFlowControlState'', [(fact 1 ''targetRenderFps'' ''number'' True)\<lparr>sf_min := Some 0\<rparr>,
        (fact 2 ''inputFps'' ''number'' False)\<lparr>sf_min := Some 0\<rparr>,
        (fact 3 ''renderFps'' ''number'' False)\<lparr>sf_min := Some 0\<rparr>,
        (fact 4 ''dropMode'' ''enum'' True)\<lparr>sf_enum := Some [''drop-late'', ''drop-oldest'', ''render-latest'']\<rparr>,
        (fact 5 ''videoQueueFrames'' ''uint32'' True)\<lparr>sf_min := Some 1\<rparr>,
        fact 6 ''videoQueueDepth'' ''uint32'' False, fact 7 ''audioQueueDepth'' ''uint32'' False,
        fact 8 ''lateFrameThresholdMs'' ''uint32'' True, fact 9 ''overlayEnabled'' ''bool'' True,
        fact 10 ''droppedFrames'' ''uint64'' False, fact 11 ''lateFrames'' ''uint64'' False,
        fact 12 ''keyframeRequestCount'' ''uint32'' False, fact 13 ''keyFrameOnDropBurst'' ''bool'' False,
        (fact 14 ''changedFields'' ''array'' False)\<lparr>sf_array := Some (None, Some ''string'')\<rparr>,
        (fact 15 ''sampledAt'' ''string'' False)\<lparr>sf_maxLength := Some 64\<rparr>,
        fact 16 ''sourceVideo'' ''CastVideoStreamParamsState'' False]),
     (''CastFlowControlChangedEvent'', [(fact 1 ''changedFields'' ''array'' True)\<lparr>sf_array := Some (None, Some ''string'')\<rparr>,
        fact 2 ''state'' ''CastFlowControlState'' True,
        (fact 3 ''reason'' ''enum'' False)\<lparr>sf_enum := Some [''manualFlowControl'', ''videoStreamParams'', ''videoStreamReconfigure'', ''diagnosticsSample'', ''sessionStarted'', ''sessionStopped'', ''unknown'']\<rparr>,
        (fact 4 ''sampledAt'' ''string'' False)\<lparr>sf_maxLength := Some 64\<rparr>,
        fact 5 ''sourceVideo'' ''CastVideoStreamParamsState'' False,
        (fact 6 ''reconfigureId'' ''string'' False)\<lparr>sf_maxLength := Some 128\<rparr>]),
     (''CastGetStatusParams'', [(fact 1 ''include'' ''array'' False)\<lparr>sf_array := Some (None, Some ''string'')\<rparr>,
        fact 2 ''includeSensitive'' ''bool'' False, fact 3 ''controlVersion'' ''uint32'' False]),
     (''CastReceiverSummary'', [(fact 1 ''role'' ''enum'' True)\<lparr>sf_enum := Some [''receiver'']\<rparr>,
        (fact 2 ''protocols'' ''array'' True)\<lparr>sf_array := Some (None, Some ''string'')\<rparr>,
        (fact 3 ''state'' ''enum'' True)\<lparr>sf_enum := Some [''disabled'', ''starting'', ''ready'', ''busy'', ''failed'']\<rparr>,
        (fact 4 ''receiverPhase'' ''enum'' True)\<lparr>sf_enum := Some [''idle'', ''incoming'', ''authenticating'', ''streamStarting'', ''streaming'', ''rendering'', ''interrupted'', ''stopping'', ''ended'', ''failed'']\<rparr>])]"

definition facts_9 :: "(string \<times> schema_field list) list" where
  "facts_9 = [
     (''CastSessionStatusSummary'', [(fact 1 ''sessionId'' ''string'' False)\<lparr>sf_maxLength := Some 128\<rparr>,
        (fact 2 ''receiverPhase'' ''enum'' False)\<lparr>sf_enum := Some [''idle'', ''incoming'', ''authenticating'', ''streamStarting'', ''streaming'', ''rendering'', ''interrupted'', ''stopping'', ''ended'', ''failed'']\<rparr>,
        (fact 3 ''sessionState'' ''enum'' False)\<lparr>sf_enum := Some [''idle'', ''incoming'', ''waitingForPassword'', ''authenticated'', ''preparing'', ''casting'', ''interrupted'', ''stopping'', ''ended'', ''failed'']\<rparr>,
        (fact 4 ''protocol'' ''enum'' False)\<lparr>sf_enum := Some [''airplay'', ''hid'', ''unknown'']\<rparr>,
        (fact 5 ''sourceName'' ''string'' False)\<lparr>sf_maxLength := Some 128\<rparr>]),
     (''CastPinCodeStatusSummary'', [fact 1 ''enabled'' ''bool'' True, fact 2 ''hasPinCode'' ''bool'' True,
        (fact 3 ''pinDisplay'' ''enum'' False)\<lparr>sf_enum := Some [''hidden'', ''authorizedClients'', ''localUi'', ''both'']\<rparr>,
        fact 4 ''pinCode'' ''string'' False, fact 5 ''redacted'' ''bool'' False,
        (fact 6 ''visibility'' ''enum'' False)\<lparr>sf_enum := Some [''hidden'', ''authorizedOnly'', ''localUi'', ''both'']\<rparr>]),
     (''CastStatus'', [fact 1 ''receiver'' ''CastReceiverSummary'' True, fact 2 ''session'' ''CastSessionStatusSummary'' False,
        fact 3 ''pinCode'' ''CastPinCodeStatusSummary'' False, fact 4 ''audio'' ''CastAudioState'' False,
        fact 5 ''window'' ''CastWindowState'' False, fact 6 ''backend'' ''CastBackendStatus'' False,
        fact 7 ''flowControl'' ''CastFlowControlState'' False,
        (fact 8 ''sampledAt'' ''string'' True)\<lparr>sf_maxLength := Some 64\<rparr>,
        fact 9 ''redacted'' ''bool'' False, fact 10 ''controlSync'' ''CastControlSnapshotCursor'' False,
        (fact 11 ''receivers'' ''array'' False)\<lparr>sf_array := Some (None, Some ''CastReceiverState'')\<rparr>,
        (fact 12 ''sessions'' ''array'' False)\<lparr>sf_array := Some (None, Some ''CastMultiSessionState'')\<rparr>,
        fact 13 ''presentation'' ''CastPresentationState'' False,
        fact 14 ''audioPolicy'' ''CastAudioPolicyState'' False,
        fact 15 ''presentationSettings'' ''CastPresentationSettingsState'' False,
        fact 16 ''webcastBackend'' ''CastWebCastBackendSnapshot'' False,
        fact 17 ''airplay'' ''CastAirPlayControlState'' False]),
     (''CastSessionCapability'', [(fact 1 ''protocols'' ''array'' True)\<lparr>sf_array := Some (None, Some ''string'')\<rparr>,
        (fact 2 ''receiverPhases'' ''array'' True)\<lparr>sf_array := Some (None, Some ''string'')\<rparr>,
        fact 3 ''supportsAirPlayName'' ''bool'' False, fact 4 ''supportsStopSession'' ''bool'' False,
        (fact 5 ''backendTypes'' ''array'' False)\<lparr>sf_array := Some (None, Some ''string'')\<rparr>]),
     (''CastAudioCapability'', [fact 1 ''defaultEnabled'' ''bool'' False, fact 2 ''supportsMute'' ''bool'' False,
        fact 3 ''reportsEffectivePlayback'' ''bool'' False, fact 4 ''supportsAudioDelay'' ''bool'' False,
        (fact 5 ''defaultAudioDelayMs'' ''uint32'' False)\<lparr>sf_min := Some 0, sf_max := Some 1000\<rparr>,
        (fact 6 ''maxAudioDelayMs'' ''uint32'' False)\<lparr>sf_min := Some 0\<rparr>]),
     (''CastPinCodeCapability'', [fact 1 ''defaultEnabled'' ''bool'' False, fact 2 ''supportsPlaintextResponse'' ''bool'' False,
        (fact 3 ''supportedPinDisplays'' ''array'' False)\<lparr>sf_array := Some (None, Some ''string'')\<rparr>,
        fact 4 ''supportsGeneratedPin'' ''bool'' False, fact 5 ''redactionRequired'' ''bool'' False]),
     (''CastWindowCapability'', [fact 1 ''supportsFullscreen'' ''bool'' False, fact 2 ''supportsAlwaysOnTop'' ''bool'' False,
        fact 3 ''supportsNormalRestore'' ''bool'' False,
        (fact 4 ''noWindowPolicy'' ''enum'' False)\<lparr>sf_enum := Some [''reject'', ''remember'', ''runtimeDefault'']\<rparr>]),
     (''CastBackendCapability'', [(fact 1 ''backendTypes'' ''array'' True)\<lparr>sf_array := Some (None, Some ''string'')\<rparr>,
        fact 2 ''supportsRestart'' ''bool'' False, fact 3 ''reportsProcess'' ''bool'' False,
        fact 4 ''supportsLastError'' ''bool'' False]),
     (''CastFlowControlCapability'', [fact 1 ''supportsRenderFps'' ''bool'' False, fact 2 ''supportsQueuePolicy'' ''bool'' False,
        fact 3 ''supportsOverlay'' ''bool'' False, fact 4 ''supportsStats'' ''bool'' False,
        fact 5 ''exposesExternalKeyframeRequest'' ''bool'' False, fact 6 ''supportsVideoStreamParams'' ''bool'' False,
        fact 7 ''supportsActiveVideoReconfigure'' ''bool'' False,
        (fact 8 ''supportedVideoStreamProfiles'' ''array'' False)\<lparr>sf_array := Some (None, Some ''string'')\<rparr>,
        (fact 9 ''supportedVideoEncoders'' ''array'' False)\<lparr>sf_array := Some (None, Some ''string'')\<rparr>,
        fact 10 ''supportsSourceSpecificVideoParams'' ''bool'' False])]"

definition facts_10 :: "(string \<times> schema_field list) list" where
  "facts_10 = [
     (''CastStatusCapability'', [(fact 1 ''sections'' ''array'' True)\<lparr>sf_array := Some (None, Some ''string'')\<rparr>,
        fact 2 ''supportsSensitiveRedaction'' ''bool'' False,
        (fact 3 ''supportedControlVersions'' ''array'' False)\<lparr>sf_array := Some (None, Some ''uint32'')\<rparr>,
        fact 4 ''supportsAtomicUnifiedSnapshot'' ''bool'' False]),
     (''CastSessionRef'', [(fact 1 ''id'' ''string'' True)\<lparr>sf_maxLength := Some 128\<rparr>,
        (fact 2 ''generation'' ''string'' True)\<lparr>sf_maxLength := Some 20, sf_canonical := True\<rparr>]),
     (''CastControlTarget'', [fact 1 ''session'' ''CastSessionRef'' True, fact 2 ''slotId'' ''uint32'' True,
        (fact 3 ''bindingGeneration'' ''string'' True)\<lparr>sf_maxLength := Some 20, sf_canonical := True\<rparr>,
        (fact 4 ''lifecycleGeneration'' ''string'' True)\<lparr>sf_maxLength := Some 20, sf_canonical := True\<rparr>]),
     (''CastControlSnapshotCursor'', [fact 1 ''controlVersion'' ''uint32'' True,
        (fact 2 ''runtimeInstanceId'' ''string'' True)\<lparr>sf_maxLength := Some 36\<rparr>,
        (fact 3 ''revision'' ''string'' True)\<lparr>sf_maxLength := Some 20, sf_canonical := True\<rparr>,
        (fact 4 ''eventSequence'' ''string'' True)\<lparr>sf_maxLength := Some 20, sf_canonical := True\<rparr>]),
     (''CastControlEventContext'', [fact 1 ''controlVersion'' ''uint32'' True,
        (fact 2 ''runtimeInstanceId'' ''string'' True)\<lparr>sf_maxLength := Some 36\<rparr>,
        (fact 3 ''revision'' ''string'' True)\<lparr>sf_maxLength := Some 20, sf_canonical := True\<rparr>,
        (fact 4 ''eventSequence'' ''string'' True)\<lparr>sf_maxLength := Some 20, sf_canonical := True\<rparr>,
        (fact 5 ''batchId'' ''string'' True)\<lparr>sf_maxLength := Some 20, sf_canonical := True\<rparr>,
        fact 6 ''partIndex'' ''uint32'' True, (fact 7 ''partCount'' ''uint32'' True)\<lparr>sf_min := Some 1\<rparr>]),
     (''CastControlCapabilities'', [(fact 1 ''supportedControlVersions'' ''array'' True)\<lparr>sf_array := Some (None, Some ''uint32'')\<rparr>,
        (fact 2 ''runtimeInstanceId'' ''string'' True)\<lparr>sf_maxLength := Some 36\<rparr>,
        (fact 3 ''methods'' ''array'' True)\<lparr>sf_array := Some (None, Some ''string'')\<rparr>,
        (fact 4 ''events'' ''array'' True)\<lparr>sf_array := Some (None, Some ''string'')\<rparr>,
        (fact 5 ''statusSections'' ''array'' True)\<lparr>sf_array := Some (None, Some ''string'')\<rparr>,
        fact 6 ''presentation'' ''CastPresentationCapability'' False,
        fact 7 ''audioPolicy'' ''CastAudioPolicyCapability'' False,
        fact 8 ''operations'' ''CastControlOperationsCapability'' False,
        (fact 9 ''profileHints'' ''array'' False)\<lparr>sf_array := Some (None, Some ''string'')\<rparr>,
        fact 10 ''presentationSettings'' ''CastPresentationSettingsCapability'' False,
        fact 11 ''webcastBackend'' ''CastWebCastBackendCapability'' False,
        fact 12 ''meetingPresentation'' ''CastMeetingPresentationCapability'' False,
        fact 13 ''airplayControl'' ''CastAirPlayControlCapability'' False]),
     (''CastPresentationCapability'', [(fact 1 ''protocols'' ''array'' True)\<lparr>sf_array := Some (None, Some ''string'')\<rparr>,
        fact 2 ''supportsAtomicSnapshot'' ''bool'' True, fact 3 ''supportsStrictTargets'' ''bool'' True,
        (fact 4 ''maxPresentationCapacity'' ''uint32'' True)\<lparr>sf_min := Some 1\<rparr>,
        (fact 5 ''capacityChoices'' ''array'' False)\<lparr>sf_array := Some (None, Some ''uint32'')\<rparr>,
        (fact 6 ''layoutModes'' ''array'' True)\<lparr>sf_array := Some (None, Some ''string'')\<rparr>,
        (fact 7 ''contentAdaptations'' ''array'' True)\<lparr>sf_array := Some (None, Some ''string'')\<rparr>]),
     (''CastAudioPolicyCapability'', [(fact 1 ''controlModes'' ''array'' True)\<lparr>sf_array := Some (None, Some ''string'')\<rparr>,
        (fact 2 ''mixModes'' ''array'' True)\<lparr>sf_array := Some (None, Some ''string'')\<rparr>,
        fact 3 ''supportsPerSessionEnable'' ''bool'' True, fact 4 ''reportsEffectiveSet'' ''bool'' True,
        fact 5 ''supportsMasterMute'' ''bool'' False]),
     (''CastControlOperationsCapability'', [fact 1 ''supportsQuery'' ''bool'' True, fact 2 ''supportsDedup'' ''bool'' True,
        fact 3 ''limits'' ''CastControlLimits'' True]),
     (''CastControlLimits'', [(fact 1 ''maxPendingOperations'' ''uint32'' True)\<lparr>sf_min := Some 1\<rparr>,
        (fact 2 ''maxPendingPerClient'' ''uint32'' True)\<lparr>sf_min := Some 1\<rparr>,
        (fact 3 ''maxRetainedResults'' ''uint32'' True)\<lparr>sf_min := Some 1\<rparr>,
        (fact 4 ''replayWindowMs'' ''uint32'' True)\<lparr>sf_min := Some 1\<rparr>,
        (fact 5 ''maxEventBufferEvents'' ''uint32'' True)\<lparr>sf_min := Some 1\<rparr>,
        (fact 6 ''maxEventBufferBytes'' ''uint32'' True)\<lparr>sf_min := Some 1\<rparr>,
        (fact 7 ''maxRequestBytes'' ''uint32'' True)\<lparr>sf_min := Some 1\<rparr>,
        (fact 8 ''maxSnapshotBytes'' ''uint32'' True)\<lparr>sf_min := Some 1\<rparr>]),
     (''CastReceiverState'', [(fact 1 ''receiverId'' ''string'' True)\<lparr>sf_maxLength := Some 128\<rparr>,
        (fact 2 ''protocol'' ''enum'' True)\<lparr>sf_enum := Some [''hid'', ''airplay'', ''webcast'', ''unknown'']\<rparr>,
        (fact 3 ''state'' ''enum'' True)\<lparr>sf_enum := Some [''disabled'', ''starting'', ''ready'', ''degraded'', ''stopping'', ''failed'']\<rparr>,
        (fact 4 ''observedAt'' ''string'' True)\<lparr>sf_maxLength := Some 64\<rparr>,
        (fact 5 ''displayName'' ''string'' False)\<lparr>sf_maxLength := Some 128\<rparr>,
        fact 6 ''lastError'' ''CastLastError'' False]),
     (''CastMultiSessionState'', [fact 1 ''session'' ''CastSessionRef'' True,
        (fact 2 ''receiverId'' ''string'' True)\<lparr>sf_maxLength := Some 128\<rparr>,
        (fact 3 ''protocol'' ''enum'' True)\<lparr>sf_enum := Some [''hid'', ''airplay'', ''webcast'', ''unknown'']\<rparr>,
        (fact 4 ''receiverState'' ''enum'' True)\<lparr>sf_enum := Some [''opening'', ''open'', ''mediaStarting'', ''mediaActive'', ''stopping'', ''closed'', ''failed'']\<rparr>,
        (fact 5 ''presentationEligibility'' ''enum'' True)\<lparr>sf_enum := Some [''notEligible'', ''priming'', ''mediaReady'', ''presented'', ''withdrawing'', ''notPresented'']\<rparr>,
        fact 6 ''videoTrackOpen'' ''bool'' True, fact 7 ''audioTrackOpen'' ''bool'' True,
        (fact 8 ''audioReadiness'' ''enum'' False)\<lparr>sf_enum := Some [''unknown'', ''absent'', ''priming'', ''ready'', ''recovering'']\<rparr>,
        (fact 9 ''displayName'' ''string'' False)\<lparr>sf_maxLength := Some 128\<rparr>]),
     (''CastPresentationSlotState'', [fact 1 ''slotId'' ''uint32'' True,
        (fact 2 ''bindingGeneration'' ''string'' True)\<lparr>sf_maxLength := Some 20, sf_canonical := True\<rparr>,
        fact 3 ''occupied'' ''bool'' True, fact 4 ''target'' ''CastControlTarget'' False]),
     (''CastPresentationState'', [fact 1 ''started'' ''bool'' True,
        (fact 2 ''lifecycleGeneration'' ''string'' True)\<lparr>sf_maxLength := Some 20, sf_canonical := True\<rparr>,
        (fact 3 ''configuredCapacity'' ''uint32'' True)\<lparr>sf_min := Some 1\<rparr>,
        fact 4 ''validationAvailable'' ''bool'' True,
        (fact 5 ''validatedCapacity'' ''uint32'' False)\<lparr>sf_min := Some 1\<rparr>,
        fact 6 ''effectiveCapacity'' ''uint32'' True, fact 7 ''appliedCapacity'' ''uint32'' True,
        (fact 8 ''layoutMode'' ''enum'' True)\<lparr>sf_enum := Some [''grid'', ''presentation'']\<rparr>,
        fact 9 ''layoutSettling'' ''bool'' True,
        (fact 10 ''slots'' ''array'' True)\<lparr>sf_array := Some (None, Some ''CastPresentationSlotState'')\<rparr>,
        fact 11 ''meeting'' ''CastMeetingPresentationState'' False,
        (fact 12 ''contentAdaptation'' ''enum'' True)\<lparr>sf_enum := Some [''fixed'', ''auto-fit'']\<rparr>])]"

definition facts_11 :: "(string \<times> schema_field list) list" where
  "facts_11 = [
     (''CastAudioPolicyState'', [(fact 1 ''controlMode'' ''enum'' True)\<lparr>sf_enum := Some [''automatic'', ''manual'']\<rparr>,
        (fact 2 ''mixMode'' ''enum'' True)\<lparr>sf_enum := Some [''exclusive'', ''mix'']\<rparr>,
        (fact 3 ''enabledSessions'' ''array'' True)\<lparr>sf_array := Some (None, Some ''CastSessionRef'')\<rparr>,
        (fact 4 ''effectiveAudioSessions'' ''array'' True)\<lparr>sf_array := Some (None, Some ''CastSessionRef'')\<rparr>,
        (fact 5 ''appliedGains'' ''array'' False)\<lparr>sf_array := Some (None, Some ''CastMeetingAudioGain'')\<rparr>,
        fact 6 ''masterMuted'' ''bool'' True]),
     (''CastStopPresentationParams'', [fact 1 ''controlVersion'' ''uint32'' True,
        (fact 2 ''runtimeInstanceId'' ''string'' True)\<lparr>sf_maxLength := Some 36\<rparr>,
        (fact 3 ''clientInstanceId'' ''string'' True)\<lparr>sf_maxLength := Some 36\<rparr>,
        (fact 4 ''commandId'' ''string'' True)\<lparr>sf_maxLength := Some 36\<rparr>,
        fact 5 ''target'' ''CastControlTarget'' True,
        (fact 6 ''reason'' ''string'' False)\<lparr>sf_maxLength := Some 64\<rparr>]),
     (''CastSetSessionAudioEnabledParams'', [fact 1 ''controlVersion'' ''uint32'' True,
        (fact 2 ''runtimeInstanceId'' ''string'' True)\<lparr>sf_maxLength := Some 36\<rparr>,
        (fact 3 ''clientInstanceId'' ''string'' True)\<lparr>sf_maxLength := Some 36\<rparr>,
        (fact 4 ''commandId'' ''string'' True)\<lparr>sf_maxLength := Some 36\<rparr>,
        fact 5 ''target'' ''CastControlTarget'' True, fact 6 ''enabled'' ''bool'' True]),
     (''CastGetControlOperationParams'', [fact 1 ''controlVersion'' ''uint32'' True,
        (fact 2 ''runtimeInstanceId'' ''string'' True)\<lparr>sf_maxLength := Some 36\<rparr>,
        (fact 3 ''clientInstanceId'' ''string'' True)\<lparr>sf_maxLength := Some 36\<rparr>,
        (fact 4 ''commandId'' ''string'' True)\<lparr>sf_maxLength := Some 36\<rparr>]),
     (''CastControlOperation'', [(fact 1 ''operationId'' ''string'' True)\<lparr>sf_maxLength := Some 128\<rparr>,
        (fact 2 ''runtimeInstanceId'' ''string'' True)\<lparr>sf_maxLength := Some 36\<rparr>,
        (fact 3 ''clientInstanceId'' ''string'' True)\<lparr>sf_maxLength := Some 36\<rparr>,
        (fact 4 ''commandId'' ''string'' True)\<lparr>sf_maxLength := Some 36\<rparr>,
        (fact 5 ''kind'' ''enum'' True)\<lparr>sf_enum := Some [''stopPresentation'', ''setSessionAudioEnabled'', ''setPresentationSettings'', ''setPresentationFocus'']\<rparr>,
        (fact 6 ''state'' ''enum'' True)\<lparr>sf_enum := Some [''queued'', ''applied'', ''rejected'', ''failed'']\<rparr>,
        (fact 7 ''submittedAt'' ''string'' True)\<lparr>sf_maxLength := Some 64\<rparr>,
        fact 8 ''target'' ''CastControlTarget'' False,
        (fact 9 ''completedAt'' ''string'' False)\<lparr>sf_maxLength := Some 64\<rparr>,
        (fact 10 ''appliedRevision'' ''string'' False)\<lparr>sf_maxLength := Some 20, sf_canonical := True\<rparr>,
        fact 11 ''statusCode'' ''uint32'' False,
        (fact 12 ''outcomeReason'' ''string'' False)\<lparr>sf_maxLength := Some 64\<rparr>,
        (fact 13 ''ownerCleanup'' ''enum'' False)\<lparr>sf_enum := Some [''notApplicable'', ''pending'', ''complete'', ''failed'']\<rparr>,
        fact 14 ''settingsResult'' ''CastPresentationSettingsOperationResult'' False]),
     (''CastSetPresentationSettingsParams'', [fact 1 ''controlVersion'' ''uint32'' True,
        (fact 2 ''runtimeInstanceId'' ''string'' True)\<lparr>sf_maxLength := Some 36\<rparr>,
        (fact 3 ''clientInstanceId'' ''string'' True)\<lparr>sf_maxLength := Some 36\<rparr>,
        (fact 4 ''commandId'' ''string'' True)\<lparr>sf_maxLength := Some 36\<rparr>,
        (fact 5 ''expectedSettingsRevision'' ''string'' True)\<lparr>sf_maxLength := Some 20, sf_canonical := True\<rparr>,
        fact 6 ''patch'' ''CastPresentationSettingsPatch'' True, fact 7 ''persist'' ''bool'' True]),
     (''CastPresentationSettingsPatch'', [(fact 1 ''layoutMode'' ''enum'' False)\<lparr>sf_enum := Some [''grid'', ''presentation'']\<rparr>,
        (fact 2 ''audioControlMode'' ''enum'' False)\<lparr>sf_enum := Some [''automatic'', ''manual'']\<rparr>,
        (fact 3 ''audioMixMode'' ''enum'' False)\<lparr>sf_enum := Some [''exclusive'', ''mix'']\<rparr>,
        (fact 4 ''capacity'' ''uint32'' False)\<lparr>sf_min := Some 1\<rparr>,
        (fact 5 ''enabledProtocols'' ''array'' False)\<lparr>sf_array := Some (None, Some ''string'')\<rparr>,
        (fact 6 ''profileHint'' ''string'' False)\<lparr>sf_maxLength := Some 64\<rparr>,
        (fact 7 ''contentAdaptation'' ''enum'' False)\<lparr>sf_enum := Some [''fixed'', ''auto-fit'']\<rparr>,
        (fact 8 ''presentationMode'' ''enum'' False)\<lparr>sf_enum := Some [''manual'', ''automatic'']\<rparr>,
        (fact 9 ''presentationSidebar'' ''enum'' False)\<lparr>sf_enum := Some [''left'', ''right'']\<rparr>,
        fact 10 ''presentationAudioFollow'' ''bool'' False, fact 11 ''presentationFocusOnDoubleClick'' ''bool'' False,
        fact 12 ''presentationGridOnDoubleClick'' ''bool'' False, fact 13 ''presentationAutoEnter'' ''bool'' False]),
     (''CastPresentationSettingsValues'', [(fact 1 ''layoutMode'' ''enum'' False)\<lparr>sf_enum := Some [''grid'', ''presentation'']\<rparr>,
        (fact 2 ''audioControlMode'' ''enum'' False)\<lparr>sf_enum := Some [''automatic'', ''manual'']\<rparr>,
        (fact 3 ''audioMixMode'' ''enum'' False)\<lparr>sf_enum := Some [''exclusive'', ''mix'']\<rparr>,
        (fact 4 ''capacity'' ''uint32'' False)\<lparr>sf_min := Some 1\<rparr>,
        (fact 5 ''enabledProtocols'' ''array'' False)\<lparr>sf_array := Some (None, Some ''string'')\<rparr>,
        (fact 6 ''profileHint'' ''string'' False)\<lparr>sf_maxLength := Some 64\<rparr>,
        (fact 7 ''contentAdaptation'' ''enum'' False)\<lparr>sf_enum := Some [''fixed'', ''auto-fit'']\<rparr>,
        (fact 8 ''presentationMode'' ''enum'' False)\<lparr>sf_enum := Some [''manual'', ''automatic'']\<rparr>,
        (fact 9 ''presentationSidebar'' ''enum'' False)\<lparr>sf_enum := Some [''left'', ''right'']\<rparr>,
        fact 10 ''presentationAudioFollow'' ''bool'' False, fact 11 ''presentationFocusOnDoubleClick'' ''bool'' False,
        fact 12 ''presentationGridOnDoubleClick'' ''bool'' False, fact 13 ''presentationAutoEnter'' ''bool'' False])]"

definition facts_12 :: "(string \<times> schema_field list) list" where
  "facts_12 = [
     (''CastPresentationStartupSettings'', [(fact 1 ''layoutMode'' ''enum'' False)\<lparr>sf_enum := Some [''grid'', ''presentation'']\<rparr>,
        (fact 2 ''audioControlMode'' ''enum'' False)\<lparr>sf_enum := Some [''automatic'', ''manual'']\<rparr>,
        (fact 3 ''audioMixMode'' ''enum'' False)\<lparr>sf_enum := Some [''exclusive'', ''mix'']\<rparr>,
        (fact 4 ''capacity'' ''uint32'' False)\<lparr>sf_min := Some 1\<rparr>,
        (fact 5 ''enabledProtocols'' ''array'' False)\<lparr>sf_array := Some (None, Some ''string'')\<rparr>,
        (fact 6 ''profileHint'' ''string'' False)\<lparr>sf_maxLength := Some 64\<rparr>,
        (fact 7 ''contentAdaptation'' ''enum'' False)\<lparr>sf_enum := Some [''fixed'', ''auto-fit'']\<rparr>,
        (fact 8 ''presentationMode'' ''enum'' False)\<lparr>sf_enum := Some [''manual'', ''automatic'']\<rparr>,
        (fact 9 ''presentationSidebar'' ''enum'' False)\<lparr>sf_enum := Some [''left'', ''right'']\<rparr>,
        fact 10 ''presentationAudioFollow'' ''bool'' False, fact 11 ''presentationFocusOnDoubleClick'' ''bool'' False,
        fact 12 ''presentationGridOnDoubleClick'' ''bool'' False, fact 13 ''presentationAutoEnter'' ''bool'' False]),
     (''CastPresentationSettingsState'', [(fact 1 ''settingsRevision'' ''string'' True)\<lparr>sf_maxLength := Some 20, sf_canonical := True\<rparr>,
        (fact 2 ''settingsEventSequence'' ''string'' True)\<lparr>sf_maxLength := Some 20, sf_canonical := True\<rparr>,
        fact 3 ''configured'' ''CastPresentationSettingsValues'' True,
        fact 4 ''applied'' ''CastPresentationSettingsValues'' True,
        fact 5 ''activeStartup'' ''CastPresentationStartupSettings'' True,
        (fact 6 ''pendingRestart'' ''array'' True)\<lparr>sf_array := Some (None, Some ''string'')\<rparr>,
        fact 7 ''persisted'' ''bool'' True,
        (fact 8 ''unsavedFields'' ''array'' True)\<lparr>sf_array := Some (None, Some ''string'')\<rparr>,
        (fact 9 ''unappliedFields'' ''array'' True)\<lparr>sf_array := Some (None, Some ''string'')\<rparr>,
        (fact 10 ''storageState'' ''enum'' True)\<lparr>sf_enum := Some [''absent'', ''loaded'', ''saved'', ''invalid'', ''unavailable'']\<rparr>,
        (fact 11 ''lockedFields'' ''array'' True)\<lparr>sf_array := Some (None, Some ''string'')\<rparr>,
        (fact 12 ''applicationIssues'' ''array'' True)\<lparr>sf_array := Some (None, Some ''CastPresentationSettingIssue'')\<rparr>,
        fact 13 ''persistedValues'' ''CastPresentationSettingsValues'' False,
        (fact 14 ''storeRevision'' ''string'' False)\<lparr>sf_maxLength := Some 20, sf_canonical := True\<rparr>,
        (fact 15 ''appliedControlRevision'' ''string'' False)\<lparr>sf_maxLength := Some 20\<rparr>,
        (fact 16 ''persistError'' ''string'' False)\<lparr>sf_maxLength := Some 512\<rparr>]),
     (''CastPresentationSettingIssue'', [(fact 1 ''field'' ''string'' True)\<lparr>sf_maxLength := Some 64\<rparr>,
        (fact 2 ''kind'' ''enum'' True)\<lparr>sf_enum := Some [''limitedByValidation'', ''limitedByHardLimit'', ''liveApplyFailed'', ''startupFailed'', ''locked'', ''unknown'']\<rparr>,
        (fact 3 ''reason'' ''string'' False)\<lparr>sf_maxLength := Some 128\<rparr>,
        fact 4 ''statusCode'' ''uint32'' False]),
     (''CastPresentationSettingsCapability'', [(fact 1 ''fields'' ''array'' True)\<lparr>sf_array := Some (None, Some ''string'')\<rparr>,
        (fact 2 ''liveFields'' ''array'' True)\<lparr>sf_array := Some (None, Some ''string'')\<rparr>,
        (fact 3 ''restartOnlyFields'' ''array'' True)\<lparr>sf_array := Some (None, Some ''string'')\<rparr>,
        fact 4 ''supportsPersistence'' ''bool'' True,
        (fact 5 ''capacityChoices'' ''array'' False)\<lparr>sf_array := Some (None, Some ''uint32'')\<rparr>,
        (fact 6 ''layoutModes'' ''array'' False)\<lparr>sf_array := Some (None, Some ''string'')\<rparr>,
        (fact 10 ''contentAdaptations'' ''array'' False)\<lparr>sf_array := Some (None, Some ''string'')\<rparr>,
        (fact 7 ''profileHints'' ''array'' False)\<lparr>sf_array := Some (None, Some ''string'')\<rparr>,
        fact 8 ''minEnabledProtocols'' ''uint32'' False]),
     (''CastPresentationSettingsOperationResult'', [(fact 1 ''field'' ''string'' True)\<lparr>sf_maxLength := Some 64\<rparr>,
        (fact 2 ''settingsRevision'' ''string'' True)\<lparr>sf_maxLength := Some 20, sf_canonical := True\<rparr>,
        (fact 3 ''configurationStatus'' ''enum'' True)\<lparr>sf_enum := Some [''notCommitted'', ''unchanged'', ''committed'']\<rparr>,
        (fact 4 ''applicationStatus'' ''enum'' True)\<lparr>sf_enum := Some [''notAttempted'', ''unchanged'', ''applied'', ''pendingRestart'', ''failed'']\<rparr>,
        (fact 5 ''persistenceStatus'' ''enum'' True)\<lparr>sf_enum := Some [''notRequested'', ''pending'', ''unchanged'', ''stored'', ''failed'']\<rparr>,
        (fact 6 ''appliedControlRevision'' ''string'' False)\<lparr>sf_maxLength := Some 20, sf_canonical := True\<rparr>]),
     (''CastSettingsEventContext'', [fact 1 ''controlVersion'' ''uint32'' True,
        (fact 2 ''runtimeInstanceId'' ''string'' True)\<lparr>sf_maxLength := Some 36\<rparr>,
        (fact 3 ''settingsRevision'' ''string'' True)\<lparr>sf_maxLength := Some 20, sf_canonical := True\<rparr>,
        (fact 4 ''settingsEventSequence'' ''string'' True)\<lparr>sf_maxLength := Some 20, sf_canonical := True\<rparr>]),
     (''CastPresentationSettingsChangedEvent'', [fact 1 ''settingsContext'' ''CastSettingsEventContext'' True,
        fact 2 ''settings'' ''CastPresentationSettingsState'' True]),
     (''CastReceiversChangedEvent'', [fact 1 ''context'' ''CastControlEventContext'' True,
        (fact 2 ''receivers'' ''array'' True)\<lparr>sf_array := Some (None, Some ''CastReceiverState'')\<rparr>]),
     (''CastSessionsChangedEvent'', [fact 1 ''context'' ''CastControlEventContext'' True,
        (fact 2 ''sessions'' ''array'' True)\<lparr>sf_array := Some (None, Some ''CastMultiSessionState'')\<rparr>]),
     (''CastPresentationChangedEvent'', [fact 1 ''context'' ''CastControlEventContext'' True, fact 2 ''presentation'' ''CastPresentationState'' True]),
     (''CastAudioPolicyChangedEvent'', [fact 1 ''context'' ''CastControlEventContext'' True, fact 2 ''audioPolicy'' ''CastAudioPolicyState'' True]),
     (''CastControlOperationChangedEvent'', [fact 1 ''context'' ''CastControlEventContext'' True, fact 2 ''operation'' ''CastControlOperation'' True]),
     (''CastGetWebCastBackendStateParams'', [fact 1 ''controlVersion'' ''uint32'' True]),
     (''CastWebCastBackendContext'', [fact 1 ''controlVersion'' ''uint32'' True,
        (fact 2 ''runtimeInstanceId'' ''string'' True)\<lparr>sf_maxLength := Some 36\<rparr>,
        (fact 3 ''backendRevision'' ''string'' True)\<lparr>sf_maxLength := Some 20, sf_canonical := True\<rparr>,
        (fact 4 ''backendEventSequence'' ''string'' True)\<lparr>sf_maxLength := Some 20, sf_canonical := True\<rparr>]),
     (''CastWebCastSignalingState'', [(fact 1 ''state'' ''enum'' True)\<lparr>sf_enum := Some [''disabled'', ''offline'', ''creatingRoom'', ''awaitingRestore'', ''ready'', ''failed'', ''stopped'']\<rparr>,
        fact 2 ''transportConnected'' ''bool'' True, fact 3 ''retainedPeerCount'' ''uint32'' True,
        fact 4 ''connectedPeerCount'' ''uint32'' True, fact 5 ''lastNetworkError'' ''uint32'' False])]"

definition facts_13 :: "(string \<times> schema_field list) list" where
  "facts_13 = [
     (''CastWebCastLocalBackendState'', [fact 1 ''fallbackEnabled'' ''bool'' True,
        (fact 2 ''serviceState'' ''enum'' True)\<lparr>sf_enum := Some [''disabled'', ''dormant'', ''running'', ''failed'', ''stopped'']\<rparr>,
        (fact 3 ''servicePort'' ''uint32'' False)\<lparr>sf_min := Some 1, sf_max := Some 65535\<rparr>,
        (fact 4 ''startAttempts'' ''string'' True)\<lparr>sf_maxLength := Some 20, sf_canonical := True\<rparr>,
        fact 5 ''lastStartError'' ''uint32'' False, fact 6 ''signaling'' ''CastWebCastSignalingState'' True]),
     (''CastWebCastBackendState'', [fact 1 ''enabled'' ''bool'' True,
        (fact 2 ''state'' ''enum'' True)\<lparr>sf_enum := Some [''disabled'', ''starting'', ''ready'', ''failed'', ''stopped'']\<rparr>,
        (fact 3 ''selectedBackend'' ''enum'' True)\<lparr>sf_enum := Some [''none'', ''cloud'', ''local'']\<rparr>,
        fact 4 ''cloud'' ''CastWebCastSignalingState'' True, fact 5 ''local'' ''CastWebCastLocalBackendState'' True]),
     (''CastWebCastBackendSnapshot'', [fact 1 ''backendContext'' ''CastWebCastBackendContext'' True, fact 2 ''state'' ''CastWebCastBackendState'' True]),
     (''CastWebCastBackendCapability'', [fact 1 ''supportsSnapshot'' ''bool'' True, fact 2 ''supportsEvents'' ''bool'' True,
        (fact 3 ''backendTypes'' ''array'' True)\<lparr>sf_array := Some (None, Some ''string'')\<rparr>,
        (fact 4 ''sequenceModel'' ''enum'' True)\<lparr>sf_enum := Some [''independent-full-state'']\<rparr>]),
     (''CastMeetingPresentationState'', [(fact 2 ''mode'' ''enum'' True)\<lparr>sf_enum := Some [''manual'', ''automatic'']\<rparr>,
        (fact 3 ''sidebar'' ''enum'' True)\<lparr>sf_enum := Some [''left'', ''right'']\<rparr>,
        fact 4 ''audioFollow'' ''bool'' True,
        (fact 5 ''revision'' ''string'' True)\<lparr>sf_maxLength := Some 20, sf_canonical := True\<rparr>,
        fact 7 ''primary'' ''CastSessionRef'' False, fact 8 ''sidebarPage'' ''uint32'' True,
        (fact 9 ''sidebarPageCount'' ''uint32'' True)\<lparr>sf_min := Some 1\<rparr>,
        fact 10 ''mainSharePermille'' ''uint32'' True, fact 11 ''audioFollowActive'' ''bool'' True,
        (fact 12 ''view'' ''enum'' False)\<lparr>sf_enum := Some [''sidebar'', ''focus'']\<rparr>,
        fact 13 ''focusOnDoubleClick'' ''bool'' False, fact 14 ''gridOnDoubleClick'' ''bool'' False,
        fact 15 ''autoEnter'' ''bool'' False, fact 16 ''autoEnterSuppressed'' ''bool'' False]),
     (''CastSetPresentationFocusParams'', [fact 1 ''controlVersion'' ''uint32'' True,
        (fact 2 ''runtimeInstanceId'' ''string'' True)\<lparr>sf_maxLength := Some 36\<rparr>,
        (fact 3 ''clientInstanceId'' ''string'' True)\<lparr>sf_maxLength := Some 36\<rparr>,
        (fact 4 ''commandId'' ''string'' True)\<lparr>sf_maxLength := Some 36\<rparr>,
        fact 5 ''target'' ''CastControlTarget'' True,
        (fact 6 ''expectedMeetingRevision'' ''string'' True)\<lparr>sf_maxLength := Some 20, sf_canonical := True\<rparr>,
        (fact 7 ''display'' ''enum'' True)\<lparr>sf_enum := Some [''sidebar'', ''grid'', ''focus'']\<rparr>,
        fact 8 ''sidebarPage'' ''uint32'' False]),
     (''CastMeetingAudioGain'', [fact 1 ''session'' ''CastSessionRef'' True, fact 2 ''gainPpm'' ''uint32'' True]),
     (''CastMeetingPresentationCapability'', [(fact 1 ''modes'' ''array'' True)\<lparr>sf_array := Some (None, Some ''string'')\<rparr>,
        (fact 2 ''sidebars'' ''array'' True)\<lparr>sf_array := Some (None, Some ''string'')\<rparr>,
        fact 3 ''mainSharePermille'' ''uint32'' True, fact 4 ''supportsAudioFollow'' ''bool'' True,
        fact 5 ''supportsPaging'' ''bool'' True, fact 6 ''supportsFocusView'' ''bool'' False]),
     (''CastAirPlayControlCapability'', [fact 1 ''supportsEvents'' ''bool'' True, fact 2 ''supportsLiveRename'' ''bool'' True,
        (fact 3 ''passwordPolicy'' ''enum'' True)\<lparr>sf_enum := Some [''startup-only'']\<rparr>]),
     (''CastAirPlayAuthenticationAttempt'', [(fact 1 ''attemptId'' ''string'' True)\<lparr>sf_maxLength := Some 20, sf_canonical := True\<rparr>,
        (fact 2 ''challengeId'' ''string'' True)\<lparr>sf_maxLength := Some 20, sf_canonical := True\<rparr>,
        (fact 3 ''displayRequestId'' ''string'' True)\<lparr>sf_maxLength := Some 20, sf_canonical := True\<rparr>,
        (fact 4 ''state'' ''enum'' True)\<lparr>sf_enum := Some [''incoming'', ''waitingForPassword'', ''authenticated'', ''ended'', ''failed'', ''timedOut'']\<rparr>,
        (fact 5 ''reason'' ''string'' False)\<lparr>sf_maxLength := Some 64\<rparr>]),
     (''CastAirPlayControlState'', [fact 1 ''enabled'' ''bool'' True,
        (fact 2 ''displayName'' ''string'' True)\<lparr>sf_maxLength := Some 128\<rparr>,
        (fact 3 ''publishState'' ''enum'' True)\<lparr>sf_enum := Some [''published'', ''republishing'', ''pending'', ''failed'', ''unpublished'']\<rparr>,
        fact 4 ''randomPasswordEnabled'' ''bool'' True,
        (fact 5 ''attempts'' ''array'' True)\<lparr>sf_array := Some (None, Some ''CastAirPlayAuthenticationAttempt'')\<rparr>,
        (fact 6 ''observationDrops'' ''string'' False)\<lparr>sf_maxLength := Some 20, sf_canonical := True\<rparr>]),
     (''CastAirPlayChangedEvent'', [fact 1 ''context'' ''CastControlEventContext'' True, fact 2 ''airplay'' ''CastAirPlayControlState'' True]),
     (''GetDeviceInfoParams'', [fact 1 ''includeCapabilitySummary'' ''bool'' False]),
     (''DeviceInfo'', [fact 1 ''identity'' ''DeviceIdentity'' True, fact 2 ''product'' ''DeviceProduct'' True,
        fact 3 ''hardware'' ''DeviceHardware'' False, fact 4 ''os'' ''DeviceOs'' False,
        fact 5 ''software'' ''DeviceSoftware'' False, fact 6 ''runtime'' ''DeviceAxtpRuntime'' False,
        fact 7 ''capability'' ''DeviceCapabilitySummary'' False]),
     (''DeviceIdentity'', [(fact 1 ''deviceId'' ''string'' True)\<lparr>sf_maxLength := Some 128\<rparr>,
        (fact 2 ''serialNumber'' ''string'' False)\<lparr>sf_maxLength := Some 128\<rparr>,
        (fact 3 ''vendorId'' ''string'' False)\<lparr>sf_maxLength := Some 64\<rparr>,
        (fact 4 ''productId'' ''string'' False)\<lparr>sf_maxLength := Some 64\<rparr>]),
     (''DeviceProduct'', [(fact 1 ''brand'' ''string'' False)\<lparr>sf_maxLength := Some 64\<rparr>,
        fact 2 ''productType'' ''enum'' True,
        (fact 3 ''model'' ''string'' True)\<lparr>sf_maxLength := Some 128\<rparr>,
        (fact 4 ''displayName'' ''string'' False)\<lparr>sf_maxLength := Some 128\<rparr>])]"

definition facts_14 :: "(string \<times> schema_field list) list" where
  "facts_14 = [
     (''DeviceHardware'', [(fact 1 ''revision'' ''string'' False)\<lparr>sf_maxLength := Some 32\<rparr>,
        fact 2 ''cpuArch'' ''enum'' False, fact 3 ''memoryBytes'' ''uint64'' False]),
     (''DeviceOs'', [fact 1 ''type'' ''enum'' True, (fact 2 ''name'' ''string'' False)\<lparr>sf_maxLength := Some 128\<rparr>,
        (fact 3 ''version'' ''string'' False)\<lparr>sf_maxLength := Some 64\<rparr>, fact 4 ''arch'' ''enum'' False]),
     (''DeviceSoftware'', [(fact 1 ''components'' ''array'' False)\<lparr>sf_schema := Some ''SoftwareComponent''\<rparr>]),
     (''SoftwareComponent'', [(fact 1 ''id'' ''string'' True)\<lparr>sf_maxLength := Some 64\<rparr>,
        (fact 2 ''name'' ''string'' False)\<lparr>sf_maxLength := Some 128\<rparr>,
        (fact 3 ''version'' ''string'' False)\<lparr>sf_maxLength := Some 64\<rparr>, fact 4 ''role'' ''enum'' False]),
     (''DeviceAxtpRuntime'', [(fact 1 ''axtpRuntime'' ''string'' False)\<lparr>sf_maxLength := Some 128\<rparr>,
        (fact 2 ''axtpRuntimeVersion'' ''string'' False)\<lparr>sf_maxLength := Some 64\<rparr>,
        (fact 3 ''hostAppId'' ''string'' False)\<lparr>sf_maxLength := Some 64\<rparr>]),
     (''DeviceCapabilitySummary'', [(fact 1 ''domains'' ''array'' False)\<lparr>sf_array := Some (None, Some ''string'')\<rparr>,
        (fact 2 ''features'' ''array'' False)\<lparr>sf_array := Some (None, Some ''string'')\<rparr>,
        (fact 3 ''profiles'' ''array'' False)\<lparr>sf_array := Some (None, Some ''string'')\<rparr>]),
     (''DeviceInfoCapability'', [fact 1 ''readOnly'' ''bool'' True, fact 2 ''supportsCapabilitySummary'' ''bool'' False,
        fact 3 ''identityMerged'' ''bool'' False]),
     (''DeviceGetPairingCodeParams'', [fact 1 ''refresh'' ''bool'' False, fact 2 ''purpose'' ''enum'' False]),
     (''DevicePairingCodeInfo'', [(fact 1 ''code'' ''string'' True)\<lparr>sf_maxLength := Some 8\<rparr>, fact 2 ''expiresAt'' ''string'' False,
        (fact 3 ''expiresInSeconds'' ''uint32'' False)\<lparr>sf_min := Some 1\<rparr>, fact 4 ''state'' ''enum'' False]),
     (''DeviceGetEnrollmentStateParams'', [fact 1 ''includeEndpoint'' ''bool'' False]),
     (''DeviceEnrollmentInfo'', [fact 1 ''state'' ''enum'' True, (fact 2 ''deviceId'' ''string'' False)\<lparr>sf_maxLength := Some 128\<rparr>,
        (fact 3 ''workspaceId'' ''string'' False)\<lparr>sf_maxLength := Some 128\<rparr>,
        fact 4 ''endpoint'' ''DeviceEnrollmentEndpointSummary'' False, fact 5 ''enrolledAt'' ''string'' False,
        fact 6 ''updatedAt'' ''string'' False,
        (fact 7 ''message'' ''string'' False)\<lparr>sf_maxLength := Some 512\<rparr>]),
     (''DeviceEnrollmentEndpointSummary'', [(fact 1 ''endpointId'' ''string'' True)\<lparr>sf_maxLength := Some 128\<rparr>, fact 2 ''type'' ''enum'' True,
        (fact 3 ''displayName'' ''string'' False)\<lparr>sf_maxLength := Some 128\<rparr>,
        (fact 4 ''profileId'' ''string'' False)\<lparr>sf_maxLength := Some 128\<rparr>,
        (fact 5 ''workspaceId'' ''string'' False)\<lparr>sf_maxLength := Some 128\<rparr>]),
     (''DeviceSetEnrollmentStateParams'', [fact 1 ''desiredState'' ''enum'' True, fact 2 ''reason'' ''enum'' False,
        fact 3 ''endpoint'' ''DeviceEnrollmentEndpointSummary'' False,
        (fact 4 ''message'' ''string'' False)\<lparr>sf_maxLength := Some 512\<rparr>]),
     (''DeviceSetEnrollmentStateResult'', [fact 1 ''state'' ''DeviceEnrollmentInfo'' True, fact 2 ''disconnectExpected'' ''bool'' False]),
     (''DeviceEnrollmentStateChangedEvent'', [fact 1 ''state'' ''DeviceEnrollmentInfo'' True, fact 2 ''previousState'' ''enum'' False,
        fact 3 ''reason'' ''enum'' False, fact 4 ''triggerMethod'' ''enum'' False,
        (fact 5 ''triggerId'' ''string'' False)\<lparr>sf_maxLength := Some 64\<rparr>])]"

definition facts_15 :: "(string \<times> schema_field list) list" where
  "facts_15 = [
     (''DeviceEnrollmentCapability'', [fact 1 ''supportsPairingCode'' ''bool'' False, fact 2 ''pairingCodeTtlSeconds'' ''uint32'' False,
        fact 3 ''supportsUnenroll'' ''bool'' False,
        (fact 4 ''endpointTypes'' ''array'' False)\<lparr>sf_array := Some (None, Some ''string'')\<rparr>,
        (fact 5 ''supportedPurposes'' ''array'' False)\<lparr>sf_array := Some (None, Some ''string'')\<rparr>,
        fact 6 ''maxActivePairingCodes'' ''uint32'' False,
        (fact 7 ''pairingCodeLength'' ''uint32'' False)\<lparr>sf_min := Some 6, sf_max := Some 8\<rparr>]),
     (''FirmwareUpdateCapabilities'', [fact 1 ''supported'' ''bool'' True, fact 2 ''supportsMultiFile'' ''bool'' True,
        fact 3 ''streamLayout'' ''enum'' True, fact 4 ''hashAlgorithm'' ''enum'' True,
        fact 5 ''autoReboot'' ''bool'' True, fact 6 ''maxChunkSize'' ''uint32'' False,
        (fact 7 ''devicePolicyVersion'' ''string'' False)\<lparr>sf_maxLength := Some 64\<rparr>]),
     (''BeginUpdateParams'', [fact 1 ''manifest'' ''FirmwareUpdateManifest'' True]),
     (''BeginUpdateResult'', [(fact 1 ''updateSessionId'' ''string'' True)\<lparr>sf_maxLength := Some 128\<rparr>,
        fact 2 ''state'' ''enum'' True,
        (fact 3 ''streams'' ''array'' True)\<lparr>sf_schema := Some ''FirmwareUpdateStreamBinding''\<rparr>,
        fact 4 ''chunkSize'' ''uint32'' False]),
     (''FinishUpdateParams'', [(fact 1 ''updateSessionId'' ''string'' True)\<lparr>sf_maxLength := Some 128\<rparr>]),
     (''FinishUpdateResult'', [(fact 1 ''updateSessionId'' ''string'' True)\<lparr>sf_maxLength := Some 128\<rparr>,
        fact 2 ''accepted'' ''bool'' True, fact 3 ''state'' ''enum'' True]),
     (''GetUpdateStateParams'', [(fact 1 ''updateSessionId'' ''string'' True)\<lparr>sf_maxLength := Some 128\<rparr>]),
     (''FirmwareUpdateManifest'', [(fact 1 ''packageId'' ''string'' False)\<lparr>sf_maxLength := Some 128\<rparr>,
        (fact 2 ''version'' ''string'' False)\<lparr>sf_maxLength := Some 64\<rparr>,
        (fact 3 ''files'' ''array'' True)\<lparr>sf_schema := Some ''FirmwareUpdateFile''\<rparr>,
        (fact 4 ''devicePolicyVersion'' ''string'' False)\<lparr>sf_maxLength := Some 64\<rparr>]),
     (''FirmwareUpdateFile'', [(fact 1 ''fileId'' ''string'' True)\<lparr>sf_maxLength := Some 128\<rparr>,
        (fact 2 ''target'' ''string'' False)\<lparr>sf_maxLength := Some 128\<rparr>, fact 3 ''size'' ''uint64'' True,
        (fact 4 ''md5'' ''string'' True)\<lparr>sf_maxLength := Some 32\<rparr>]),
     (''FirmwareUpdateStreamBinding'', [(fact 1 ''fileId'' ''string'' True)\<lparr>sf_maxLength := Some 128\<rparr>, fact 2 ''streamId'' ''uint32'' True]),
     (''FirmwareUpdateState'', [(fact 1 ''updateSessionId'' ''string'' True)\<lparr>sf_maxLength := Some 128\<rparr>,
        fact 2 ''state'' ''enum'' True,
        (fact 3 ''progress'' ''uint8'' False)\<lparr>sf_min := Some 0, sf_max := Some 100\<rparr>,
        (fact 4 ''currentFileId'' ''string'' False)\<lparr>sf_maxLength := Some 128\<rparr>,
        fact 5 ''error'' ''FirmwareUpdateErrorInfo'' False]),
     (''FirmwareUpdateErrorInfo'', [fact 1 ''error'' ''enum'' True, (fact 2 ''message'' ''string'' False)\<lparr>sf_maxLength := Some 256\<rparr>,
        (fact 3 ''fileId'' ''string'' False)\<lparr>sf_maxLength := Some 128\<rparr>]),
     (''FirmwareUpdateProgressEvent'', [(fact 1 ''updateSessionId'' ''string'' True)\<lparr>sf_maxLength := Some 128\<rparr>,
        fact 2 ''state'' ''enum'' True,
        (fact 3 ''progress'' ''uint8'' False)\<lparr>sf_min := Some 0, sf_max := Some 100\<rparr>,
        (fact 4 ''fileId'' ''string'' False)\<lparr>sf_maxLength := Some 128\<rparr>]),
     (''FirmwareUpdateStateChangedEvent'', [(fact 1 ''updateSessionId'' ''string'' True)\<lparr>sf_maxLength := Some 128\<rparr>,
        fact 2 ''state'' ''enum'' True, fact 3 ''error'' ''FirmwareUpdateErrorInfo'' False]),
     (''NetworkGetInterfacesParams'', [fact 1 ''includeDisabled'' ''bool'' False]),
     (''NetworkGetInterfaceInfoParams'', [(fact 1 ''interfaceId'' ''string'' True)\<lparr>sf_maxLength := Some 64\<rparr>]),
     (''NetworkInterfaces'', [(fact 1 ''interfaces'' ''array'' True)\<lparr>sf_schema := Some ''NetworkInterfaceSummary''\<rparr>,
        fact 2 ''defaults'' ''NetworkDefaultInterfaceIds'' False]),
     (''NetworkDefaultInterfaceIds'', [(fact 1 ''primary'' ''string'' False)\<lparr>sf_maxLength := Some 64\<rparr>,
        (fact 2 ''wifiSta'' ''string'' False)\<lparr>sf_maxLength := Some 64\<rparr>,
        (fact 3 ''wifiAp'' ''string'' False)\<lparr>sf_maxLength := Some 64\<rparr>]),
     (''NetworkInterfaceSummary'', [(fact 1 ''interfaceId'' ''string'' True)\<lparr>sf_maxLength := Some 64\<rparr>, fact 2 ''type'' ''enum'' True,
        (fact 3 ''displayName'' ''string'' False)\<lparr>sf_maxLength := Some 128\<rparr>,
        fact 4 ''state'' ''NetworkInterfaceState'' False])]"

definition facts_16 :: "(string \<times> schema_field list) list" where
  "facts_16 = [
     (''NetworkInterfaceInfo'', [(fact 1 ''interfaceId'' ''string'' True)\<lparr>sf_maxLength := Some 64\<rparr>, fact 2 ''type'' ''enum'' True,
        (fact 3 ''macAddress'' ''string'' False)\<lparr>sf_maxLength := Some 32\<rparr>,
        fact 4 ''state'' ''NetworkInterfaceState'' False, fact 5 ''supportsIpConfig'' ''bool'' False]),
     (''NetworkInterfaceState'', [fact 1 ''admin'' ''enum'' False, fact 2 ''link'' ''enum'' False, fact 3 ''speedMbps'' ''uint32'' False]),
     (''NetworkGetIpConfigParams'', [(fact 1 ''interfaceId'' ''string'' False)\<lparr>sf_maxLength := Some 64\<rparr>,
        fact 2 ''family'' ''enum'' False]),
     (''NetworkSetIpConfigParams'', [(fact 1 ''interfaceId'' ''string'' False)\<lparr>sf_maxLength := Some 64\<rparr>,
        fact 2 ''family'' ''enum'' False, fact 3 ''config'' ''NetworkIpConfig'' True,
        fact 4 ''applyPolicy'' ''enum'' False]),
     (''NetworkSetIpConfigResult'', [fact 1 ''config'' ''NetworkIpConfig'' True, fact 2 ''applyState'' ''enum'' True]),
     (''NetworkIpConfig'', [(fact 1 ''interfaceId'' ''string'' True)\<lparr>sf_maxLength := Some 64\<rparr>,
        fact 2 ''family'' ''enum'' False, fact 3 ''mode'' ''enum'' True,
        (fact 4 ''address'' ''string'' False)\<lparr>sf_maxLength := Some 64\<rparr>,
        (fact 5 ''prefixLength'' ''uint8'' False)\<lparr>sf_min := Some 0, sf_max := Some 128\<rparr>,
        (fact 6 ''gateway'' ''string'' False)\<lparr>sf_maxLength := Some 64\<rparr>,
        (fact 7 ''dns'' ''array'' False)\<lparr>sf_array := Some (None, Some ''string'')\<rparr>]),
     (''NetworkGetWifiCapabilitiesParams'', [(fact 1 ''interfaceId'' ''string'' False)\<lparr>sf_maxLength := Some 64\<rparr>]),
     (''NetworkGetWifiConfigParams'', [(fact 1 ''interfaceId'' ''string'' False)\<lparr>sf_maxLength := Some 64\<rparr>,
        fact 2 ''includeProfiles'' ''bool'' False]),
     (''NetworkGetWifiStateParams'', [(fact 1 ''interfaceId'' ''string'' False)\<lparr>sf_maxLength := Some 64\<rparr>]),
     (''NetworkWifiCapabilities'', [(fact 1 ''capability'' ''string'' True)\<lparr>sf_maxLength := Some 32\<rparr>,
        (fact 2 ''securityTypes'' ''array'' True)\<lparr>sf_array := Some (None, Some ''string'')\<rparr>,
        (fact 3 ''bands'' ''array'' False)\<lparr>sf_array := Some (None, Some ''string'')\<rparr>,
        (fact 4 ''credentialImportModes'' ''array'' True)\<lparr>sf_array := Some (None, Some ''string'')\<rparr>,
        fact 5 ''savedProfilesSupported'' ''bool'' True, fact 6 ''scanSupported'' ''bool'' True,
        fact 7 ''autoConnectSupported'' ''bool'' False]),
     (''NetworkWifiConfig'', [(fact 1 ''interfaceId'' ''string'' False)\<lparr>sf_maxLength := Some 64\<rparr>,
        (fact 2 ''profiles'' ''array'' False)\<lparr>sf_schema := Some ''NetworkWifiProfile''\<rparr>,
        (fact 3 ''defaultProfileId'' ''string'' False)\<lparr>sf_maxLength := Some 128\<rparr>]),
     (''NetworkWifiProfile'', [(fact 1 ''profileId'' ''string'' False)\<lparr>sf_maxLength := Some 128\<rparr>,
        (fact 2 ''ssid'' ''string'' True)\<lparr>sf_maxLength := Some 64\<rparr>,
        (fact 3 ''bssid'' ''string'' False)\<lparr>sf_maxLength := Some 32\<rparr>,
        fact 4 ''securityType'' ''enum'' True, fact 5 ''credential'' ''NetworkCredential'' False,
        fact 6 ''source'' ''enum'' False, fact 7 ''persist'' ''bool'' False]),
     (''NetworkCredential'', [fact 1 ''type'' ''enum'' True, (fact 2 ''secretRef'' ''string'' False)\<lparr>sf_maxLength := Some 256\<rparr>,
        fact 3 ''expiresInSeconds'' ''uint32'' False]),
     (''NetworkSetWifiConfigParams'', [(fact 1 ''interfaceId'' ''string'' False)\<lparr>sf_maxLength := Some 64\<rparr>,
        fact 2 ''profile'' ''NetworkWifiProfile'' True, fact 3 ''replaceExisting'' ''bool'' False,
        fact 4 ''makeDefault'' ''bool'' False, fact 5 ''connectAfterSave'' ''bool'' False]),
     (''NetworkSetWifiConfigResult'', [(fact 1 ''profileId'' ''string'' True)\<lparr>sf_maxLength := Some 128\<rparr>,
        fact 2 ''config'' ''NetworkWifiConfig'' False, fact 3 ''connectStarted'' ''bool'' False]),
     (''NetworkScanWifiParams'', [(fact 1 ''interfaceId'' ''string'' False)\<lparr>sf_maxLength := Some 64\<rparr>,
        (fact 2 ''ssidFilter'' ''string'' False)\<lparr>sf_maxLength := Some 64\<rparr>,
        fact 3 ''timeoutMs'' ''uint32'' False])]"

definition facts_17 :: "(string \<times> schema_field list) list" where
  "facts_17 = [
     (''NetworkScanWifiResult'', [(fact 1 ''scanId'' ''string'' False)\<lparr>sf_maxLength := Some 128\<rparr>,
        (fact 2 ''results'' ''array'' False)\<lparr>sf_schema := Some ''NetworkWifiScanResult''\<rparr>,
        fact 3 ''complete'' ''bool'' False]),
     (''NetworkConnectWifiParams'', [(fact 1 ''interfaceId'' ''string'' False)\<lparr>sf_maxLength := Some 64\<rparr>,
        (fact 2 ''profileId'' ''string'' False)\<lparr>sf_maxLength := Some 128\<rparr>,
        fact 3 ''profile'' ''NetworkWifiProfile'' False, fact 4 ''timeoutMs'' ''uint32'' False]),
     (''NetworkDisconnectWifiParams'', [(fact 1 ''interfaceId'' ''string'' False)\<lparr>sf_maxLength := Some 64\<rparr>,
        fact 2 ''reason'' ''enum'' False]),
     (''NetworkWifiActionResult'', [fact 1 ''accepted'' ''bool'' True, fact 2 ''state'' ''NetworkWifiState'' True]),
     (''NetworkWifiState'', [(fact 1 ''interfaceId'' ''string'' False)\<lparr>sf_maxLength := Some 64\<rparr>,
        fact 2 ''state'' ''enum'' True, (fact 3 ''profileId'' ''string'' False)\<lparr>sf_maxLength := Some 128\<rparr>,
        (fact 4 ''ssid'' ''string'' False)\<lparr>sf_maxLength := Some 64\<rparr>, fact 5 ''rssi'' ''int32'' False,
        fact 6 ''ipReady'' ''bool'' False, fact 7 ''failureReason'' ''enum'' False]),
     (''NetworkWifiScanResult'', [(fact 1 ''ssid'' ''string'' True)\<lparr>sf_maxLength := Some 64\<rparr>,
        (fact 2 ''bssid'' ''string'' False)\<lparr>sf_maxLength := Some 32\<rparr>, fact 3 ''band'' ''enum'' False,
        fact 4 ''channel'' ''uint16'' False, fact 5 ''rssi'' ''int32'' False, fact 6 ''securityType'' ''enum'' False]),
     (''NetworkGetApCapabilitiesParams'', [(fact 1 ''interfaceId'' ''string'' False)\<lparr>sf_maxLength := Some 64\<rparr>]),
     (''NetworkGetApConfigParams'', [(fact 1 ''interfaceId'' ''string'' False)\<lparr>sf_maxLength := Some 64\<rparr>]),
     (''NetworkApCapabilities'', [(fact 1 ''capability'' ''string'' True)\<lparr>sf_maxLength := Some 32\<rparr>,
        (fact 2 ''securityTypes'' ''array'' True)\<lparr>sf_array := Some (None, Some ''string'')\<rparr>,
        (fact 3 ''bands'' ''array'' False)\<lparr>sf_array := Some (None, Some ''string'')\<rparr>,
        (fact 4 ''credentialExportModes'' ''array'' False)\<lparr>sf_array := Some (None, Some ''string'')\<rparr>,
        fact 5 ''clientsSupported'' ''bool'' False]),
     (''NetworkApConfig'', [(fact 1 ''interfaceId'' ''string'' False)\<lparr>sf_maxLength := Some 64\<rparr>,
        fact 2 ''enabled'' ''bool'' False, (fact 3 ''ssid'' ''string'' True)\<lparr>sf_maxLength := Some 64\<rparr>,
        fact 4 ''hidden'' ''bool'' False, fact 5 ''band'' ''enum'' False, fact 6 ''channel'' ''uint16'' False,
        fact 7 ''securityType'' ''enum'' True, fact 8 ''credential'' ''NetworkCredential'' False,
        fact 9 ''maxClients'' ''uint16'' False]),
     (''NetworkSetApConfigParams'', [(fact 1 ''interfaceId'' ''string'' False)\<lparr>sf_maxLength := Some 64\<rparr>,
        fact 2 ''config'' ''NetworkApConfig'' True]),
     (''NetworkSetApConfigResult'', [fact 1 ''config'' ''NetworkApConfig'' True, fact 2 ''applyState'' ''enum'' True]),
     (''NetworkApState'', [(fact 1 ''interfaceId'' ''string'' False)\<lparr>sf_maxLength := Some 64\<rparr>,
        fact 2 ''enabled'' ''bool'' True, fact 3 ''state'' ''enum'' True,
        (fact 4 ''ssid'' ''string'' False)\<lparr>sf_maxLength := Some 64\<rparr>,
        fact 5 ''clientCount'' ''uint16'' False, fact 6 ''failureReason'' ''enum'' False]),
     (''NetworkApActionParams'', [(fact 1 ''interfaceId'' ''string'' False)\<lparr>sf_maxLength := Some 64\<rparr>,
        fact 2 ''reason'' ''enum'' False]),
     (''NetworkApActionResult'', [fact 1 ''accepted'' ''bool'' True, fact 2 ''state'' ''NetworkApState'' True]),
     (''NetworkApClients'', [(fact 1 ''clients'' ''array'' True)\<lparr>sf_schema := Some ''NetworkApClientInfo''\<rparr>])]"

definition facts_18 :: "(string \<times> schema_field list) list" where
  "facts_18 = [
     (''NetworkApClientInfo'', [(fact 1 ''clientId'' ''string'' True)\<lparr>sf_maxLength := Some 128\<rparr>,
        (fact 2 ''macAddress'' ''string'' False)\<lparr>sf_maxLength := Some 32\<rparr>,
        (fact 3 ''displayName'' ''string'' False)\<lparr>sf_maxLength := Some 128\<rparr>,
        fact 4 ''rssi'' ''int32'' False, fact 5 ''connectedSeconds'' ''uint32'' False]),
     (''NetworkInterfaceStateChangedEvent'', [(fact 1 ''interfaceId'' ''string'' True)\<lparr>sf_maxLength := Some 64\<rparr>,
        fact 2 ''state'' ''NetworkInterfaceState'' True, fact 3 ''previousState'' ''NetworkInterfaceState'' False,
        fact 4 ''reason'' ''enum'' False]),
     (''NetworkIpConfigChangedEvent'', [(fact 1 ''interfaceId'' ''string'' True)\<lparr>sf_maxLength := Some 64\<rparr>,
        fact 2 ''family'' ''enum'' False, fact 3 ''config'' ''NetworkIpConfig'' True,
        fact 4 ''previousConfig'' ''NetworkIpConfig'' False, fact 5 ''reason'' ''enum'' False]),
     (''NetworkWifiConfigChangedEvent'', [(fact 1 ''interfaceId'' ''string'' False)\<lparr>sf_maxLength := Some 64\<rparr>,
        fact 2 ''config'' ''NetworkWifiConfig'' True,
        (fact 3 ''changedFields'' ''array'' False)\<lparr>sf_array := Some (None, Some ''string'')\<rparr>,
        fact 4 ''reason'' ''enum'' False]),
     (''NetworkWifiStateChangedEvent'', [fact 1 ''state'' ''NetworkWifiState'' True, fact 2 ''previousState'' ''NetworkWifiState'' False,
        fact 3 ''reason'' ''enum'' False]),
     (''NetworkWifiScanResultReportedEvent'', [(fact 1 ''scanId'' ''string'' False)\<lparr>sf_maxLength := Some 128\<rparr>,
        (fact 2 ''results'' ''array'' False)\<lparr>sf_schema := Some ''NetworkWifiScanResult''\<rparr>,
        fact 3 ''complete'' ''bool'' True]),
     (''NetworkApConfigChangedEvent'', [(fact 1 ''interfaceId'' ''string'' False)\<lparr>sf_maxLength := Some 64\<rparr>,
        fact 2 ''config'' ''NetworkApConfig'' True,
        (fact 3 ''changedFields'' ''array'' False)\<lparr>sf_array := Some (None, Some ''string'')\<rparr>,
        fact 4 ''reason'' ''enum'' False]),
     (''NetworkApStateChangedEvent'', [fact 1 ''state'' ''NetworkApState'' True, fact 2 ''previousState'' ''NetworkApState'' False,
        fact 3 ''reason'' ''enum'' False]),
     (''NetworkApClientChangedEvent'', [fact 1 ''change'' ''enum'' True, fact 2 ''client'' ''NetworkApClientInfo'' True,
        fact 3 ''reason'' ''enum'' False]),
     (''NetworkInterfaceCapability'', [(fact 1 ''interfaceTypes'' ''array'' False)\<lparr>sf_array := Some (None, Some ''string'')\<rparr>,
        fact 2 ''supportsStateEvent'' ''bool'' False]),
     (''NetworkIpCapability'', [(fact 1 ''families'' ''array'' False)\<lparr>sf_array := Some (None, Some ''string'')\<rparr>,
        (fact 2 ''modes'' ''array'' False)\<lparr>sf_array := Some (None, Some ''string'')\<rparr>,
        (fact 3 ''applyPolicies'' ''array'' False)\<lparr>sf_array := Some (None, Some ''string'')\<rparr>]),
     (''SignageGetPlaylistCapabilitiesParams'', []),
     (''SignageGetPlaylistConfigParams'', []),
     (''SignageResetPlaylistConfigParams'', []),
     (''SignageSetPlaylistConfigResult'', []),
     (''SignagePlaylistCapabilitiesResult'', [(fact 1 ''supportedItemTypes'' ''array'' True)\<lparr>sf_array := Some (None, Some ''string'')\<rparr>,
        fact 2 ''maxPlaylists'' ''uint32'' False, fact 3 ''maxItemsPerPlaylist'' ''uint32'' False,
        fact 4 ''supportsScheduledPlaylist'' ''bool'' True, fact 5 ''supportsUrlRefresh'' ''bool'' True,
        fact 6 ''supportsReset'' ''bool'' True]),
     (''SignagePlaylistConfigResult'', [(fact 1 ''playlists'' ''array'' True)\<lparr>sf_schema := Some ''SignagePlaylist''\<rparr>]),
     (''SignageSetPlaylistConfigParams'', [(fact 1 ''playlists'' ''array'' True)\<lparr>sf_schema := Some ''SignagePlaylist''\<rparr>]),
     (''SignageGetPlaylistItemUrlParams'', [(fact 1 ''itemId'' ''string'' True)\<lparr>sf_maxLength := Some 64\<rparr>]),
     (''SignageGetPlaylistItemUrlResult'', [(fact 1 ''type'' ''enum'' True)\<lparr>sf_enum := Some [''image'', ''video'', ''website'', ''unsplash'']\<rparr>,
        (fact 2 ''settings'' ''object'' True)\<lparr>sf_variants := Some (''type'', [(''image'', ''SignageImageItemSettings''), (''video'', ''SignageVideoItemSettings''), (''website'', ''SignageWebsiteItemSettings''), (''unsplash'', ''SignageUnsplashItemSettings'')])\<rparr>]),
     (''SignageGetPlaylistItemParams'', [(fact 1 ''itemId'' ''string'' True)\<lparr>sf_maxLength := Some 64\<rparr>]),
     (''SignageGetPlaylistItemResult'', [fact 1 ''item'' ''SignagePlaylistItem'' True])]"

definition facts_19 :: "(string \<times> schema_field list) list" where
  "facts_19 = [
     (''SignagePlaylistConfigChangedEvent'', [(fact 1 ''reason'' ''enum'' True)\<lparr>sf_enum := Some [''set_config'', ''reset_config'']\<rparr>,
        (fact 2 ''playlists'' ''array'' False)\<lparr>sf_schema := Some ''SignagePlaylist''\<rparr>]),
     (''SignagePlaylist'', [(fact 1 ''id'' ''string'' True)\<lparr>sf_maxLength := Some 64\<rparr>,
        (fact 2 ''type'' ''enum'' True)\<lparr>sf_enum := Some [''default'', ''scheduled'']\<rparr>,
        (fact 3 ''startDate'' ''string'' False)\<lparr>sf_maxLength := Some 16\<rparr>,
        (fact 4 ''endDate'' ''string'' False)\<lparr>sf_maxLength := Some 16\<rparr>,
        (fact 5 ''startTime'' ''string'' False)\<lparr>sf_maxLength := Some 16\<rparr>,
        (fact 6 ''endTime'' ''string'' False)\<lparr>sf_maxLength := Some 16\<rparr>,
        (fact 7 ''days'' ''array'' False)\<lparr>sf_array := Some (None, Some ''uint8'')\<rparr>,
        (fact 8 ''items'' ''array'' True)\<lparr>sf_schema := Some ''SignagePlaylistItem''\<rparr>]),
     (''SignagePlaylistItem'', [(fact 1 ''id'' ''string'' True)\<lparr>sf_maxLength := Some 64\<rparr>,
        (fact 2 ''type'' ''enum'' True)\<lparr>sf_enum := Some [''image'', ''website'', ''video'', ''clock'', ''unsplash'', ''powerbi'']\<rparr>,
        (fact 3 ''duration'' ''uint32'' True)\<lparr>sf_min := Some 1, sf_max := Some 86400\<rparr>,
        fact 4 ''sort'' ''uint32'' True,
        (fact 5 ''settings'' ''object'' True)\<lparr>sf_variants := Some (''type'', [(''image'', ''SignageImageItemSettings''), (''website'', ''SignageWebsiteItemSettings''), (''video'', ''SignageVideoItemSettings''), (''clock'', ''SignageClockItemSettings''), (''unsplash'', ''SignageUnsplashItemSettings''), (''powerbi'', ''SignagePowerBiItemSettings'')])\<rparr>]),
     (''SignageImageItemSettings'', [(fact 1 ''urls'' ''array'' True)\<lparr>sf_array := Some (None, Some ''string'')\<rparr>,
        (fact 2 ''delaySeconds'' ''uint32'' True)\<lparr>sf_min := Some 1\<rparr>, fact 3 ''expiresAt'' ''uint64'' False]),
     (''SignageVideoItemSettings'', [(fact 1 ''url'' ''string'' True)\<lparr>sf_maxLength := Some 2048\<rparr>,
        fact 2 ''expiresAt'' ''uint64'' False, fact 3 ''muted'' ''bool'' False]),
     (''SignageWebsiteItemSettings'', [(fact 1 ''url'' ''string'' True)\<lparr>sf_maxLength := Some 2048\<rparr>,
        fact 2 ''ignoreCertificateError'' ''bool'' False,
        (fact 3 ''refreshIntervalSecs'' ''uint32'' False)\<lparr>sf_min := Some 1\<rparr>]),
     (''SignageClockItemSettings'', [(fact 1 ''clocks'' ''array'' True)\<lparr>sf_schema := Some ''SignagePlaylistClockEntry''\<rparr>]),
     (''SignageUnsplashItemSettings'', [(fact 1 ''photos'' ''array'' True)\<lparr>sf_schema := Some ''SignagePlaylistUnsplashPhoto''\<rparr>,
        (fact 2 ''delaySeconds'' ''uint32'' True)\<lparr>sf_min := Some 1\<rparr>, fact 3 ''expiresAt'' ''uint64'' False]),
     (''SignagePowerBiItemSettings'', [(fact 1 ''groupId'' ''string'' True)\<lparr>sf_maxLength := Some 64\<rparr>,
        (fact 2 ''dashboardId'' ''string'' True)\<lparr>sf_maxLength := Some 64\<rparr>,
        (fact 3 ''embedUrl'' ''string'' True)\<lparr>sf_maxLength := Some 2048\<rparr>,
        (fact 4 ''token'' ''string'' True)\<lparr>sf_maxLength := Some 8192\<rparr>,
        (fact 5 ''expiresAt'' ''uint64'' True)\<lparr>sf_min := Some 1\<rparr>]),
     (''SignagePlaylistClockEntry'', [(fact 1 ''timezone'' ''string'' True)\<lparr>sf_maxLength := Some 64\<rparr>,
        (fact 2 ''label'' ''string'' True)\<lparr>sf_maxLength := Some 64\<rparr>]),
     (''SignagePlaylistUnsplashPhoto'', [(fact 1 ''url'' ''string'' True)\<lparr>sf_maxLength := Some 2048\<rparr>,
        fact 2 ''user'' ''SignagePlaylistUnsplashUser'' True]),
     (''SignagePlaylistUnsplashUser'', [(fact 1 ''name'' ''string'' True)\<lparr>sf_maxLength := Some 128\<rparr>,
        (fact 2 ''link'' ''string'' True)\<lparr>sf_maxLength := Some 2048\<rparr>]),
     (''SignagePlaylistCapability'', [(fact 1 ''supportedItemTypes'' ''array'' True)\<lparr>sf_array := Some (None, Some ''string'')\<rparr>,
        fact 2 ''maxPlaylists'' ''uint32'' False, fact 3 ''maxItemsPerPlaylist'' ''uint32'' False,
        fact 4 ''supportsScheduledPlaylist'' ''bool'' True, fact 5 ''supportsUrlRefresh'' ''bool'' True,
        fact 6 ''supportsReset'' ''bool'' True]),
     (''SoftwareGetConfigParams'', [(fact 1 ''target'' ''string'' True)\<lparr>sf_maxLength := Some 64\<rparr>]),
     (''SoftwareConfig'', [(fact 1 ''target'' ''string'' True)\<lparr>sf_maxLength := Some 64\<rparr>,
        fact 2 ''config'' ''LauncherConfig'' True]),
     (''SoftwareSetConfigParams'', [(fact 1 ''target'' ''string'' True)\<lparr>sf_maxLength := Some 64\<rparr>,
        fact 2 ''config'' ''LauncherConfig'' True]),
     (''SoftwareResetConfigParams'', [(fact 1 ''target'' ''string'' True)\<lparr>sf_maxLength := Some 64\<rparr>]),
     (''SoftwareSetConfigResult'', []),
     (''SoftwareConfigChangedEvent'', [(fact 1 ''target'' ''string'' True)\<lparr>sf_maxLength := Some 64\<rparr>,
        fact 2 ''config'' ''LauncherConfig'' True,
        (fact 3 ''changedFields'' ''array'' False)\<lparr>sf_array := Some (None, Some ''string'')\<rparr>,
        fact 4 ''reason'' ''enum'' False]),
     (''LauncherConfig'', [(fact 1 ''displayName'' ''string'' False)\<lparr>sf_maxLength := Some 64\<rparr>,
        fact 2 ''appearance'' ''LauncherAppearance'' False]),
     (''LauncherAppearance'', [fact 1 ''panelLayout'' ''enum'' False, fact 2 ''autoHidePanel'' ''bool'' False,
        (fact 3 ''autoHideDelay'' ''uint32'' False)\<lparr>sf_min := Some 1\<rparr>])]"

definition facts_20 :: "(string \<times> schema_field list) list" where
  "facts_20 = [
     (''SoftwareConfigCapability'', [(fact 1 ''supportedTargets'' ''array'' True)\<lparr>sf_array := Some (None, Some ''string'')\<rparr>,
        fact 2 ''supportsReset'' ''bool'' False, fact 3 ''resetMayRestartSoftware'' ''bool'' False]),
     (''SoftwareGetUpdatePolicyParams'', [(fact 1 ''target'' ''string'' True)\<lparr>sf_maxLength := Some 64\<rparr>]),
     (''SoftwareUpdatePolicy'', [(fact 1 ''target'' ''string'' True)\<lparr>sf_maxLength := Some 64\<rparr>,
        fact 2 ''policy'' ''LauncherUpdatePolicy'' True]),
     (''SoftwareSetUpdatePolicyParams'', [(fact 1 ''target'' ''string'' True)\<lparr>sf_maxLength := Some 64\<rparr>,
        fact 2 ''policy'' ''LauncherUpdatePolicy'' True]),
     (''SoftwareResetUpdatePolicyParams'', [(fact 1 ''target'' ''string'' True)\<lparr>sf_maxLength := Some 64\<rparr>]),
     (''SoftwareSetUpdatePolicyResult'', []),
     (''SoftwareUpdatePolicyChangedEvent'', [(fact 1 ''target'' ''string'' True)\<lparr>sf_maxLength := Some 64\<rparr>,
        fact 2 ''policy'' ''LauncherUpdatePolicy'' True,
        (fact 3 ''changedFields'' ''array'' False)\<lparr>sf_array := Some (None, Some ''string'')\<rparr>,
        fact 4 ''reason'' ''enum'' False]),
     (''LauncherUpdatePolicy'', [fact 1 ''updateMode'' ''enum'' True, fact 2 ''schedule'' ''UpdateSchedule'' False,
        fact 3 ''channel'' ''enum'' True, fact 4 ''conditions'' ''UpdateConditions'' False]),
     (''UpdateSchedule'', [fact 1 ''start'' ''string'' True, fact 2 ''end'' ''string'' True, fact 3 ''timezone'' ''string'' False]),
     (''UpdateConditions'', [fact 1 ''requireIdle'' ''bool'' False, fact 2 ''requireWifi'' ''bool'' False]),
     (''SoftwareUpdatePolicyCapability'', [(fact 1 ''supportedTargets'' ''array'' True)\<lparr>sf_array := Some (None, Some ''string'')\<rparr>,
        (fact 2 ''supportedChannels'' ''array'' False)\<lparr>sf_array := Some (None, Some ''string'')\<rparr>,
        fact 3 ''supportsSchedule'' ''bool'' False, fact 4 ''supportsReset'' ''bool'' False]),
     (''SportConfigTargetParams'', [(fact 1 ''macAddress'' ''string'' True)\<lparr>sf_maxLength := Some 17\<rparr>,
        (fact 2 ''sportType'' ''string'' True)\<lparr>sf_maxLength := Some 32\<rparr>]),
     (''SportGoalShotWatermarkConfig'', [(fact 1 ''macAddress'' ''string'' True)\<lparr>sf_maxLength := Some 17\<rparr>,
        (fact 2 ''sportType'' ''string'' True)\<lparr>sf_maxLength := Some 32\<rparr>,
        fact 3 ''goalVisible'' ''bool'' True, fact 4 ''shotVisible'' ''bool'' True]),
     (''SportSetGoalShotWatermarkConfigParams'', [(fact 1 ''macAddress'' ''string'' True)\<lparr>sf_maxLength := Some 17\<rparr>,
        (fact 2 ''sportType'' ''string'' True)\<lparr>sf_maxLength := Some 32\<rparr>,
        fact 3 ''goalVisible'' ''bool'' True, fact 4 ''shotVisible'' ''bool'' True]),
     (''SportEventClipConfig'', [(fact 1 ''macAddress'' ''string'' True)\<lparr>sf_maxLength := Some 17\<rparr>,
        (fact 2 ''sportType'' ''string'' True)\<lparr>sf_maxLength := Some 32\<rparr>,
        fact 3 ''beforeOffsetSeconds'' ''uint32'' True, fact 4 ''afterOffsetSeconds'' ''uint32'' True]),
     (''SportSetEventClipConfigParams'', [(fact 1 ''macAddress'' ''string'' True)\<lparr>sf_maxLength := Some 17\<rparr>,
        (fact 2 ''sportType'' ''string'' True)\<lparr>sf_maxLength := Some 32\<rparr>,
        fact 3 ''beforeOffsetSeconds'' ''uint32'' True, fact 4 ''afterOffsetSeconds'' ''uint32'' True]),
     (''GetEventDetectionCapabilitiesParams'', [(fact 1 ''sportTypes'' ''array'' False)\<lparr>sf_array := Some (None, Some ''string'')\<rparr>,
        fact 2 ''includeRuntimeState'' ''bool'' False]),
     (''GetEventDetectionCapabilitiesResult'', [fact 1 ''capability'' ''SportEventDetectionCapabilities'' True]),
     (''SportEventDetectionSportDescriptor'', [(fact 1 ''sportType'' ''string'' True)\<lparr>sf_maxLength := Some 32\<rparr>,
        (fact 2 ''supportedEvents'' ''array'' True)\<lparr>sf_array := Some (None, Some ''string'')\<rparr>,
        fact 3 ''supportsToggle'' ''bool'' True,
        (fact 4 ''detailsSchemas'' ''array'' False)\<lparr>sf_array := Some (None, Some ''string'')\<rparr>,
        (fact 5 ''supportedConfigMethods'' ''array'' False)\<lparr>sf_array := Some (None, Some ''string'')\<rparr>]),
     (''SportEventDetectionCapabilities'', [(fact 1 ''capability'' ''string'' True)\<lparr>sf_maxLength := Some 64\<rparr>,
        (fact 2 ''supportedSports'' ''array'' True)\<lparr>sf_array := Some (Some ''SportEventDetectionSportDescriptor'', None)\<rparr>,
        fact 3 ''concurrentSportTypes'' ''bool'' True, fact 4 ''supportsStateEvent'' ''bool'' True,
        fact 5 ''supportsUnifiedEvent'' ''bool'' True,
        (fact 6 ''persistencePolicy'' ''enum'' True)\<lparr>sf_enum := Some [''volatile'', ''persistent'', ''profileControlled'']\<rparr>]),
     (''GetEventDetectionConfigParams'', [(fact 1 ''sportType'' ''string'' True)\<lparr>sf_maxLength := Some 32\<rparr>])]"

definition facts_21 :: "(string \<times> schema_field list) list" where
  "facts_21 = [
     (''SportEventDetectionState'', [(fact 1 ''sportType'' ''string'' True)\<lparr>sf_maxLength := Some 32\<rparr>,
        fact 2 ''effectiveEnabled'' ''bool'' True,
        (fact 3 ''runtimeState'' ''enum'' True)\<lparr>sf_enum := Some [''disabled'', ''enabling'', ''ready'', ''degraded'', ''unavailable'', ''disabling'']\<rparr>,
        (fact 4 ''applyState'' ''enum'' False)\<lparr>sf_enum := Some [''applied'', ''pending'']\<rparr>,
        (fact 5 ''reason'' ''string'' False)\<lparr>sf_maxLength := Some 128\<rparr>,
        fact 6 ''stateRevision'' ''uint32'' False,
        (fact 7 ''updatedAt'' ''string'' False)\<lparr>sf_maxLength := Some 64\<rparr>]),
     (''SetEventDetectionConfigParams'', [(fact 1 ''sportType'' ''string'' True)\<lparr>sf_maxLength := Some 32\<rparr>, fact 2 ''enabled'' ''bool'' True,
        fact 3 ''expectedStateRevision'' ''uint32'' False]),
     (''SetEventDetectionConfigResult'', [fact 1 ''accepted'' ''bool'' True, fact 2 ''state'' ''SportEventDetectionState'' True]),
     (''SportEventDetectionStateChangedEvent'', [fact 1 ''state'' ''SportEventDetectionState'' True,
        (fact 2 ''source'' ''enum'' True)\<lparr>sf_enum := Some [''remoteApp'', ''localPolicy'', ''restart'', ''restore'', ''unknown'']\<rparr>,
        (fact 3 ''reason'' ''string'' False)\<lparr>sf_maxLength := Some 128\<rparr>]),
     (''SportEventDetails'', [(fact 1 ''shotId'' ''string'' False)\<lparr>sf_maxLength := Some 128\<rparr>,
        (fact 2 ''goalId'' ''string'' False)\<lparr>sf_maxLength := Some 128\<rparr>,
        (fact 3 ''releaseType'' ''enum'' False)\<lparr>sf_enum := Some [''unknown'', ''setShot'', ''jumpShot'', ''layup'', ''other'']\<rparr>,
        (fact 4 ''goalType'' ''enum'' False)\<lparr>sf_enum := Some [''fieldGoal'', ''freeThrow'', ''unknown'']\<rparr>]),
     (''SportEventDetectedEvent'', [(fact 1 ''eventId'' ''string'' True)\<lparr>sf_maxLength := Some 128\<rparr>,
        fact 2 ''sequence'' ''uint64'' True,
        (fact 3 ''sportType'' ''string'' True)\<lparr>sf_maxLength := Some 32\<rparr>,
        (fact 4 ''eventType'' ''string'' True)\<lparr>sf_maxLength := Some 64\<rparr>,
        (fact 5 ''occurredAt'' ''string'' True)\<lparr>sf_maxLength := Some 64\<rparr>,
        (fact 6 ''confidence'' ''number'' False)\<lparr>sf_min := Some 0, sf_max := Some 1\<rparr>,
        (fact 7 ''trainingSessionId'' ''string'' False)\<lparr>sf_maxLength := Some 128\<rparr>,
        fact 8 ''details'' ''SportEventDetails'' True]),
     (''SportBasketballCapability'', [(fact 1 ''capability'' ''string'' True)\<lparr>sf_maxLength := Some 64\<rparr>,
        (fact 2 ''sportType'' ''string'' True)\<lparr>sf_maxLength := Some 32\<rparr>,
        (fact 3 ''supportedEvents'' ''array'' True)\<lparr>sf_array := Some (None, Some ''string'')\<rparr>,
        (fact 4 ''detailsSchemas'' ''array'' True)\<lparr>sf_array := Some (None, Some ''string'')\<rparr>,
        fact 5 ''requiresEventDetectionToggle'' ''bool'' True, fact 6 ''goalRequiresShotReference'' ''bool'' True]),
     (''SportBasketballShotDetails'', [(fact 1 ''shotId'' ''string'' True)\<lparr>sf_maxLength := Some 128\<rparr>,
        (fact 2 ''releaseType'' ''enum'' False)\<lparr>sf_enum := Some [''unknown'', ''setShot'', ''jumpShot'', ''layup'', ''other'']\<rparr>]),
     (''SportBasketballGoalDetails'', [(fact 1 ''goalId'' ''string'' True)\<lparr>sf_maxLength := Some 128\<rparr>,
        (fact 2 ''shotId'' ''string'' True)\<lparr>sf_maxLength := Some 128\<rparr>,
        (fact 3 ''goalType'' ''enum'' False)\<lparr>sf_enum := Some [''fieldGoal'', ''freeThrow'', ''unknown'']\<rparr>]),
     (''StreamFlowControlCapabilities'', [(fact 1 ''capability'' ''string'' True)\<lparr>sf_maxLength := Some 32\<rparr>,
        fact 2 ''supportsAck'' ''bool'' True, fact 3 ''supportsWindowUpdate'' ''bool'' True,
        fact 4 ''supportsPauseResume'' ''bool'' True, fact 5 ''supportsAbort'' ''bool'' True,
        fact 6 ''supportsStats'' ''bool'' True, fact 7 ''supportsClockReport'' ''bool'' True,
        fact 8 ''defaultWindowBytes'' ''uint32'' False, fact 9 ''clockReportIntervalMs'' ''uint32'' False]),
     (''StreamSelector'', [fact 1 ''streamId'' ''uint32'' False]),
     (''StreamState'', [fact 1 ''streamId'' ''uint32'' False,
        (fact 2 ''state'' ''enum'' True)\<lparr>sf_enum := Some [''opening'', ''streaming'', ''paused'', ''draining'', ''closing'', ''closed'', ''aborted'', ''failed'', ''aggregate'']\<rparr>,
        fact 3 ''paused'' ''bool'' False, fact 4 ''windowBytes'' ''uint32'' False,
        fact 5 ''ackedSeqId'' ''uint32'' False, fact 6 ''lastSeqId'' ''uint32'' False,
        fact 7 ''lastCursor'' ''uint64'' False,
        (fact 8 ''reason'' ''enum'' False)\<lparr>sf_enum := Some [''ack'', ''windowUpdate'', ''pause'', ''resume'', ''abort'', ''timeout'', ''peerClosed'', ''transportLost'', ''diagnosticSample'', ''unknown'']\<rparr>]),
     (''StreamStats'', [fact 1 ''streamId'' ''uint32'' False, fact 2 ''packets'' ''uint64'' False, fact 3 ''bytes'' ''uint64'' False,
        fact 4 ''droppedPackets'' ''uint64'' False, fact 5 ''seqGaps'' ''uint64'' False,
        fact 6 ''jitterMs'' ''uint32'' False, fact 7 ''lastSeqId'' ''uint32'' False,
        fact 8 ''lastCursor'' ''uint64'' False, fact 9 ''latestClockReportAgeMs'' ''uint32'' False]),
     (''StreamAckParams'', [fact 1 ''streamId'' ''uint32'' True, fact 2 ''ackedSeqId'' ''uint32'' True,
        fact 3 ''ackedCursor'' ''uint64'' False,
        (fact 4 ''missingSeqIds'' ''array'' False)\<lparr>sf_array := Some (None, Some ''uint32'')\<rparr>])]"

definition facts_22 :: "(string \<times> schema_field list) list" where
  "facts_22 = [
     (''StreamAckResult'', [fact 1 ''accepted'' ''bool'' True, fact 2 ''state'' ''StreamState'' False]),
     (''StreamWindowUpdateParams'', [fact 1 ''streamId'' ''uint32'' True, fact 2 ''windowBytes'' ''uint32'' True,
        (fact 3 ''reason'' ''enum'' False)\<lparr>sf_enum := Some [''bufferAvailable'', ''bufferPressure'', ''manualFlowControl'', ''diagnosticSample'', ''unknown'']\<rparr>]),
     (''StreamWindowUpdateResult'', [fact 1 ''accepted'' ''bool'' True, fact 2 ''state'' ''StreamState'' False]),
     (''StreamPauseParams'', [fact 1 ''streamId'' ''uint32'' True,
        (fact 2 ''reason'' ''enum'' False)\<lparr>sf_enum := Some [''bufferPressure'', ''userRequest'', ''diagnostic'', ''unknown'']\<rparr>]),
     (''StreamResumeParams'', [fact 1 ''streamId'' ''uint32'' True,
        (fact 2 ''reason'' ''enum'' False)\<lparr>sf_enum := Some [''bufferAvailable'', ''userRequest'', ''diagnostic'', ''unknown'']\<rparr>]),
     (''StreamAbortParams'', [fact 1 ''streamId'' ''uint32'' True,
        (fact 2 ''reason'' ''enum'' False)\<lparr>sf_enum := Some [''timeout'', ''peerClosed'', ''transportLost'', ''userRequest'', ''profileFailure'', ''unknown'']\<rparr>,
        (fact 3 ''message'' ''string'' False)\<lparr>sf_maxLength := Some 256\<rparr>]),
     (''StreamActionResult'', [fact 1 ''accepted'' ''bool'' True, fact 2 ''state'' ''StreamState'' False]),
     (''StreamStateChangedEvent'', [fact 1 ''streamId'' ''uint32'' False, fact 2 ''state'' ''StreamState'' True]),
     (''StreamStatsReportedEvent'', [fact 1 ''streamId'' ''uint32'' False, fact 2 ''stats'' ''StreamStats'' True]),
     (''StreamFlowControlChangedEvent'', [fact 1 ''streamId'' ''uint32'' True,
        (fact 2 ''reason'' ''enum'' False)\<lparr>sf_enum := Some [''ack'', ''windowUpdate'', ''pause'', ''resume'', ''bufferPressure'', ''bufferAvailable'', ''diagnosticSample'', ''unknown'']\<rparr>,
        fact 3 ''state'' ''StreamState'' False]),
     (''StreamClockMediaAnchor'', [fact 1 ''streamId'' ''uint32'' False, fact 2 ''mediaPts'' ''uint64'' True, fact 3 ''timebase'' ''uint32'' True,
        fact 4 ''anchorNt10MonotonicUs'' ''uint64'' True, fact 5 ''seqId'' ''uint32'' False,
        fact 6 ''cursor'' ''uint64'' False]),
     (''StreamClockReportEvent'', [fact 1 ''reportSeq'' ''uint32'' True,
        (fact 2 ''syncGroupId'' ''string'' False)\<lparr>sf_maxLength := Some 128\<rparr>,
        (fact 3 ''sourceDeviceId'' ''string'' False)\<lparr>sf_maxLength := Some 128\<rparr>,
        (fact 4 ''sourceClockDomain'' ''string'' False)\<lparr>sf_maxLength := Some 128\<rparr>,
        fact 5 ''nt10ReportMonotonicUs'' ''uint64'' True, fact 6 ''sentAtNt10MonotonicUs'' ''uint64'' False,
        fact 7 ''na20ReceivedAtUs'' ''uint64'' False, fact 8 ''na20SentAtUs'' ''uint64'' False,
        fact 9 ''audio'' ''StreamClockMediaAnchor'' False, fact 10 ''video'' ''StreamClockMediaAnchor'' False,
        fact 11 ''discontinuity'' ''bool'' False,
        (fact 12 ''reason'' ''enum'' False)\<lparr>sf_enum := Some [''periodic'', ''streamOpened'', ''streamResumed'', ''discontinuity'', ''sourceReset'', ''diagnosticSample'', ''unknown'']\<rparr>]),
     (''VideoGetStreamCapabilitiesParams'', [(fact 1 ''source'' ''string'' False)\<lparr>sf_maxLength := Some 128\<rparr>,
        fact 2 ''includeRuntimeState'' ''bool'' False]),
     (''VideoStreamCapabilities'', [(fact 1 ''capability'' ''string'' True)\<lparr>sf_maxLength := Some 32\<rparr>,
        (fact 2 ''sources'' ''array'' True)\<lparr>sf_schema := Some ''VideoStreamSource''\<rparr>,
        (fact 3 ''streamProfiles'' ''array'' True)\<lparr>sf_array := Some (None, Some ''string'')\<rparr>,
        (fact 4 ''openModes'' ''array'' True)\<lparr>sf_array := Some (None, Some ''string'')\<rparr>,
        (fact 5 ''peerRoles'' ''array'' True)\<lparr>sf_array := Some (None, Some ''string'')\<rparr>,
        fact 6 ''supportsSourceStateEvent'' ''bool'' True, fact 7 ''supportsSyncGroup'' ''bool'' True,
        fact 8 ''flowControlManagedByRuntime'' ''bool'' True,
        (fact 9 ''supportedVideoPtsModes'' ''array'' False)\<lparr>sf_array := Some (None, Some ''string'')\<rparr>,
        (fact 10 ''supportedPacketizationModes'' ''array'' False)\<lparr>sf_array := Some (None, Some ''string'')\<rparr>,
        fact 11 ''supportsSourceCaptureTimestampCursor'' ''bool'' False]),
     (''VideoStreamSource'', [(fact 1 ''source'' ''string'' True)\<lparr>sf_maxLength := Some 128\<rparr>,
        (fact 2 ''displayName'' ''string'' False)\<lparr>sf_maxLength := Some 128\<rparr>,
        (fact 3 ''codecs'' ''array'' True)\<lparr>sf_array := Some (None, Some ''string'')\<rparr>,
        (fact 4 ''resolutions'' ''array'' False)\<lparr>sf_array := Some (None, Some ''string'')\<rparr>,
        (fact 5 ''frameRates'' ''array'' False)\<lparr>sf_array := Some (None, Some ''number'')\<rparr>,
        fact 6 ''state'' ''enum'' False,
        (fact 7 ''bitratesKbps'' ''array'' False)\<lparr>sf_array := Some (None, Some ''uint32'')\<rparr>,
        (fact 8 ''encoder'' ''string'' False)\<lparr>sf_maxLength := Some 128\<rparr>,
        fact 9 ''supportsReconfigure'' ''bool'' False,
        (fact 10 ''reconfigureFields'' ''array'' False)\<lparr>sf_array := Some (None, Some ''string'')\<rparr>])]"

definition facts_23 :: "(string \<times> schema_field list) list" where
  "facts_23 = [
     (''VideoOpenStreamParams'', [(fact 1 ''source'' ''string'' True)\<lparr>sf_maxLength := Some 128\<rparr>, fact 2 ''peerRole'' ''enum'' True,
        fact 3 ''codec'' ''enum'' True, fact 4 ''width'' ''uint32'' False, fact 5 ''height'' ''uint32'' False,
        (fact 6 ''frameRate'' ''uint32'' False)\<lparr>sf_min := Some 1\<rparr>,
        (fact 7 ''bitrateKbps'' ''uint32'' False)\<lparr>sf_min := Some 1\<rparr>,
        (fact 8 ''streamProfile'' ''string'' False)\<lparr>sf_maxLength := Some 64\<rparr>,
        fact 9 ''cursorUnit'' ''enum'' False,
        (fact 10 ''syncGroupId'' ''string'' False)\<lparr>sf_maxLength := Some 128\<rparr>,
        (fact 11 ''castSessionId'' ''string'' False)\<lparr>sf_maxLength := Some 128\<rparr>,
        (fact 12 ''clockDomain'' ''string'' False)\<lparr>sf_maxLength := Some 128\<rparr>,
        fact 13 ''maxDataSize'' ''uint32'' False, fact 14 ''videoPtsMode'' ''enum'' False,
        fact 15 ''timebase'' ''uint32'' False, fact 16 ''packetizationMode'' ''enum'' False]),
     (''VideoOpenStreamResult'', [fact 1 ''streamId'' ''uint32'' True, fact 2 ''state'' ''enum'' True,
        (fact 3 ''source'' ''string'' True)\<lparr>sf_maxLength := Some 128\<rparr>, fact 4 ''peerRole'' ''enum'' True,
        fact 5 ''codec'' ''enum'' True, fact 6 ''width'' ''uint32'' False, fact 7 ''height'' ''uint32'' False,
        (fact 8 ''frameRate'' ''uint32'' False)\<lparr>sf_min := Some 1\<rparr>,
        (fact 9 ''bitrateKbps'' ''uint32'' False)\<lparr>sf_min := Some 1\<rparr>,
        (fact 10 ''streamProfile'' ''string'' True)\<lparr>sf_maxLength := Some 64\<rparr>,
        fact 11 ''cursorUnit'' ''enum'' True,
        (fact 12 ''syncGroupId'' ''string'' False)\<lparr>sf_maxLength := Some 128\<rparr>,
        fact 13 ''maxDataSize'' ''uint32'' False, fact 14 ''videoPtsMode'' ''enum'' False,
        fact 15 ''timebase'' ''uint32'' False, fact 16 ''packetizationMode'' ''enum'' False]),
     (''VideoCloseStreamParams'', [fact 1 ''streamId'' ''uint32'' True, fact 2 ''peerRole'' ''enum'' False,
        (fact 3 ''reason'' ''enum'' False)\<lparr>sf_enum := Some [''receiver_closed'', ''user_stop'', ''not_needed'', ''source_disconnected'', ''producer_stopped'', ''session_lost'', ''receiver_timeout'', ''encodingReconfigure'', ''error'']\<rparr>,
        fact 4 ''finalCursor'' ''uint64'' False]),
     (''VideoCloseStreamResult'', [fact 1 ''streamId'' ''uint32'' True, fact 2 ''state'' ''enum'' True,
        (fact 3 ''reason'' ''enum'' False)\<lparr>sf_enum := Some [''receiver_closed'', ''user_stop'', ''not_needed'', ''source_disconnected'', ''producer_stopped'', ''session_lost'', ''receiver_timeout'', ''encodingReconfigure'', ''error'']\<rparr>,
        fact 4 ''alreadyClosed'' ''bool'' False]),
     (''VideoGetStreamStateParams'', [fact 1 ''streamId'' ''uint32'' True]),
     (''VideoStreamState'', [fact 1 ''streamId'' ''uint32'' True, fact 2 ''state'' ''enum'' True,
        (fact 3 ''source'' ''string'' True)\<lparr>sf_maxLength := Some 128\<rparr>, fact 4 ''peerRole'' ''enum'' False,
        fact 5 ''codec'' ''enum'' False,
        (fact 6 ''streamProfile'' ''string'' False)\<lparr>sf_maxLength := Some 64\<rparr>,
        (fact 7 ''syncGroupId'' ''string'' False)\<lparr>sf_maxLength := Some 128\<rparr>,
        fact 8 ''cursorUnit'' ''enum'' False, fact 9 ''lastCursor'' ''uint64'' False,
        fact 10 ''keyFrameRequested'' ''bool'' False, fact 11 ''failureReason'' ''enum'' False,
        (fact 12 ''frameRate'' ''uint32'' False)\<lparr>sf_min := Some 1\<rparr>,
        (fact 13 ''bitrateKbps'' ''uint32'' False)\<lparr>sf_min := Some 1\<rparr>]),
     (''VideoGetStreamSourceStateParams'', [(fact 1 ''source'' ''string'' True)\<lparr>sf_maxLength := Some 128\<rparr>]),
     (''VideoStreamSourceState'', [(fact 1 ''source'' ''string'' True)\<lparr>sf_maxLength := Some 128\<rparr>,
        fact 2 ''mediaKind'' ''enum'' False, fact 3 ''state'' ''enum'' True, fact 4 ''available'' ''bool'' False,
        fact 5 ''activeStreamId'' ''uint32'' False]),
     (''VideoRequestKeyFrameParams'', [fact 1 ''streamId'' ''uint32'' True, fact 2 ''reason'' ''enum'' False]),
     (''VideoRequestKeyFrameResult'', [fact 1 ''accepted'' ''bool'' True, fact 2 ''state'' ''VideoStreamState'' False]),
     (''VideoStreamStateChangedEvent'', [fact 1 ''streamId'' ''uint32'' True, fact 2 ''state'' ''enum'' True,
        (fact 3 ''source'' ''string'' True)\<lparr>sf_maxLength := Some 128\<rparr>, fact 4 ''reason'' ''enum'' False,
        fact 5 ''stats'' ''VideoStreamStats'' False,
        (fact 6 ''frameRate'' ''uint32'' False)\<lparr>sf_min := Some 1\<rparr>,
        (fact 7 ''bitrateKbps'' ''uint32'' False)\<lparr>sf_min := Some 1\<rparr>])]"

definition facts_24 :: "(string \<times> schema_field list) list" where
  "facts_24 = [
     (''VideoStreamSourceStateChangedEvent'', [(fact 1 ''source'' ''string'' True)\<lparr>sf_maxLength := Some 128\<rparr>,
        fact 2 ''mediaKind'' ''enum'' False, fact 3 ''state'' ''enum'' True, fact 4 ''reason'' ''enum'' False,
        fact 5 ''activeStreamId'' ''uint32'' False]),
     (''VideoStreamStatsReportedEvent'', [fact 1 ''streamId'' ''uint32'' True, fact 2 ''stats'' ''VideoStreamStats'' True]),
     (''VideoStreamStats'', [fact 1 ''frames'' ''uint64'' False, fact 2 ''bytes'' ''uint64'' False,
        fact 3 ''droppedFrames'' ''uint64'' False, fact 4 ''bitrateKbps'' ''uint32'' False])]"

definition generated_facts :: "(string \<times> schema_field list) list" where
  "generated_facts = concat [facts_1, facts_2, facts_3, facts_4, facts_5, facts_6, facts_7, facts_8, facts_9, facts_10, facts_11, facts_12,
     facts_13, facts_14, facts_15, facts_16, facts_17, facts_18, facts_19, facts_20, facts_21, facts_22, facts_23,
     facts_24]"

definition schemaJsonFacts :: schema_facts where
  "schemaJsonFacts = map_of generated_facts"

lemmas fact_tables = facts_1_def facts_2_def facts_3_def facts_4_def facts_5_def facts_6_def facts_7_def facts_8_def facts_9_def facts_10_def facts_11_def facts_12_def facts_13_def facts_14_def facts_15_def facts_16_def facts_17_def facts_18_def facts_19_def facts_20_def facts_21_def facts_22_def facts_23_def facts_24_def

lemma fact_simps [simp]:
  "sf_id (fact i name type required) = i" "sf_name (fact i name type required) = name"
  "sf_type (fact i name type required) = type" "sf_required (fact i name type required) = required"
  "sf_array (fact i name type required) = None" "sf_min (fact i name type required) = None"
  "sf_max (fact i name type required) = None"
  by (simp_all add: fact_def typed_field_def)

section \<open>The table is regular\<close>

definition regular_schema :: "schema_field list \<Rightarrow> bool" where
  "regular_schema fs \<longleftrightarrow> distinct (map sf_id fs) \<and> distinct (map sf_name fs) \<and>
     list_all (\<lambda>f. prefix ''uint'' (sf_type f) \<longrightarrow> sf_type f \<in> {''uint8'', ''uint16'', ''uint32'', ''uint64''}) fs"

definition regular_rows :: "(string \<times> schema_field list) list \<Rightarrow> bool" where
  "regular_rows rows \<longleftrightarrow> list_all (\<lambda>(schema, fs). regular_schema fs) rows"

lemma facts_regular:
  "regular_rows facts_1"
  "regular_rows facts_2"
  "regular_rows facts_3"
  "regular_rows facts_4"
  "regular_rows facts_5"
  "regular_rows facts_6"
  "regular_rows facts_7"
  "regular_rows facts_8"
  "regular_rows facts_9"
  "regular_rows facts_10"
  "regular_rows facts_11"
  "regular_rows facts_12"
  "regular_rows facts_13"
  "regular_rows facts_14"
  "regular_rows facts_15"
  "regular_rows facts_16"
  "regular_rows facts_17"
  "regular_rows facts_18"
  "regular_rows facts_19"
  "regular_rows facts_20"
  "regular_rows facts_21"
  "regular_rows facts_22"
  "regular_rows facts_23"
  "regular_rows facts_24"
  by code_simp+

lemma generated_facts_regular: "regular_table schemaJsonFacts"
proof -
  have "regular_rows generated_facts" using facts_regular by (simp add: generated_facts_def regular_rows_def)
  then show ?thesis
    by (auto simp: regular_table_def schemaJsonFacts_def regular_rows_def regular_schema_def list_all_iff dest!: map_of_SomeD)
qed

section \<open>Its schemas\<close>

lemma known_part: "rows \<in> set parts \<Longrightarrow> list_all (\<lambda>(schema, fs). map_of (concat parts) schema \<noteq> None) rows"
  by (force simp: list_all_iff map_of_eq_None_iff)

lemma known_rows:
  "list_all (\<lambda>(schema, fs). schemaJsonFacts schema \<noteq> None) facts_1"
  "list_all (\<lambda>(schema, fs). schemaJsonFacts schema \<noteq> None) facts_2"
  "list_all (\<lambda>(schema, fs). schemaJsonFacts schema \<noteq> None) facts_3"
  "list_all (\<lambda>(schema, fs). schemaJsonFacts schema \<noteq> None) facts_4"
  "list_all (\<lambda>(schema, fs). schemaJsonFacts schema \<noteq> None) facts_5"
  "list_all (\<lambda>(schema, fs). schemaJsonFacts schema \<noteq> None) facts_6"
  "list_all (\<lambda>(schema, fs). schemaJsonFacts schema \<noteq> None) facts_7"
  "list_all (\<lambda>(schema, fs). schemaJsonFacts schema \<noteq> None) facts_8"
  "list_all (\<lambda>(schema, fs). schemaJsonFacts schema \<noteq> None) facts_9"
  "list_all (\<lambda>(schema, fs). schemaJsonFacts schema \<noteq> None) facts_10"
  "list_all (\<lambda>(schema, fs). schemaJsonFacts schema \<noteq> None) facts_11"
  "list_all (\<lambda>(schema, fs). schemaJsonFacts schema \<noteq> None) facts_12"
  "list_all (\<lambda>(schema, fs). schemaJsonFacts schema \<noteq> None) facts_13"
  "list_all (\<lambda>(schema, fs). schemaJsonFacts schema \<noteq> None) facts_14"
  "list_all (\<lambda>(schema, fs). schemaJsonFacts schema \<noteq> None) facts_15"
  "list_all (\<lambda>(schema, fs). schemaJsonFacts schema \<noteq> None) facts_16"
  "list_all (\<lambda>(schema, fs). schemaJsonFacts schema \<noteq> None) facts_17"
  "list_all (\<lambda>(schema, fs). schemaJsonFacts schema \<noteq> None) facts_18"
  "list_all (\<lambda>(schema, fs). schemaJsonFacts schema \<noteq> None) facts_19"
  "list_all (\<lambda>(schema, fs). schemaJsonFacts schema \<noteq> None) facts_20"
  "list_all (\<lambda>(schema, fs). schemaJsonFacts schema \<noteq> None) facts_21"
  "list_all (\<lambda>(schema, fs). schemaJsonFacts schema \<noteq> None) facts_22"
  "list_all (\<lambda>(schema, fs). schemaJsonFacts schema \<noteq> None) facts_23"
  "list_all (\<lambda>(schema, fs). schemaJsonFacts schema \<noteq> None) facts_24"
  unfolding schemaJsonFacts_def generated_facts_def by (rule known_part, simp)+

lemmas known_schemas = known_rows [unfolded fact_tables, simplified]

theorem registry_schemas_known:
  "list_all (\<lambda>d. schemaJsonFacts (md_request_schema d) \<noteq> None \<and> schemaJsonFacts (md_response_schema d) \<noteq> None) kMethodRegistry \<and>
   list_all (\<lambda>d. schemaJsonFacts (ed_event_schema d) \<noteq> None) kEventRegistry"
  by (simp add: kMethodRegistry_def kEventRegistry_def known_schemas)

section \<open>Schemas without a valid object\<close>

text \<open>
  A required field that no value satisfies: of a type that the codec does not know, an array that is
  described by \<^verbatim>\<open>schema\<close> only, or an object of a schema that has no valid object itself.
\<close>

definition refusing :: "string list \<Rightarrow> schema_field \<Rightarrow> bool" where
  "refusing hopeless f \<longleftrightarrow> sf_type f = ''number'' \<or> (sf_type f = ''array'' \<and> sf_array f = None) \<or> sf_type f \<in> set hopeless"

definition unusable_schemas :: "string list" where
  "unusable_schemas = [''AudioStreamCapabilities'', ''CastSetRenderFpsParams'', ''CastFlowControlState'', ''CastFlowControlChangedEvent'',
     ''BeginUpdateParams'', ''BeginUpdateResult'', ''FirmwareUpdateManifest'', ''NetworkInterfaces'',
     ''NetworkApClients'', ''SignagePlaylistConfigResult'', ''SignageSetPlaylistConfigParams'', ''SignagePlaylist'',
     ''SignageClockItemSettings'', ''SignageUnsplashItemSettings'', ''VideoStreamCapabilities'']"

definition unusable_rows :: "(string \<times> schema_field list) list \<Rightarrow> bool" where
  "unusable_rows rows \<longleftrightarrow> list_all (\<lambda>(schema, fs). schema \<noteq> ''number'' \<and>
     (List.member unusable_schemas schema \<longrightarrow> list_ex (\<lambda>f. sf_required f \<and> refusing unusable_schemas f) fs)) rows"

lemma facts_unusable:
  "unusable_rows facts_1"
  "unusable_rows facts_2"
  "unusable_rows facts_3"
  "unusable_rows facts_4"
  "unusable_rows facts_5"
  "unusable_rows facts_6"
  "unusable_rows facts_7"
  "unusable_rows facts_8"
  "unusable_rows facts_9"
  "unusable_rows facts_10"
  "unusable_rows facts_11"
  "unusable_rows facts_12"
  "unusable_rows facts_13"
  "unusable_rows facts_14"
  "unusable_rows facts_15"
  "unusable_rows facts_16"
  "unusable_rows facts_17"
  "unusable_rows facts_18"
  "unusable_rows facts_19"
  "unusable_rows facts_20"
  "unusable_rows facts_21"
  "unusable_rows facts_22"
  "unusable_rows facts_23"
  "unusable_rows facts_24"
  by code_simp+

lemma generated_unusable: "unusable_rows generated_facts"
  using facts_unusable by (simp add: generated_facts_def unusable_rows_def)

lemma unusable_schemas_types: "list_all (\<lambda>s. hd s \<in> set ''ABCFNSV'') unusable_schemas"
  by (simp add: unusable_schemas_def)

lemma hopeless_field:
  assumes "refusing unusable_schemas f" and "schemaJsonFacts ''number'' = None"
    and "\<And>s w. s \<in> set unusable_schemas \<Longrightarrow> \<not> validate lib schemaJsonFacts s w (depth + 1)"
  shows "\<not> fieldValid lib schemaJsonFacts f v depth"
proof (cases "sf_type f \<in> set unusable_schemas")
  case True
  with unusable_schemas_types have "hd (sf_type f) \<in> set ''ABCFNSV''" by (simp only: list_all_iff)
  then have "sf_type f \<notin> {''string'', ''bool'', ''enum'', ''array'', ''object'', ''bytes'', ''bitmap''}"
    "\<not> prefix ''uint'' (sf_type f)" "\<not> prefix ''int'' (sf_type f)"
    by (auto simp: prefix_def)
  with assms(3) [OF True] show ?thesis by (simp add: fieldValid.simps [of lib schemaJsonFacts f] Let_def)
next
  case False
  with assms(1,2) show ?thesis by (intro unsupported_field_invalid) (auto simp: refusing_def)
qed

lemma unusable_invalid: "s \<in> set unusable_schemas \<Longrightarrow> \<not> validate lib schemaJsonFacts s v depth"
proof (induction "33 - depth" arbitrary: depth s v)
  case 0
  then show ?case by (simp add: validate.simps [of lib schemaJsonFacts])
next
  case (Suc n)
  have number: "schemaJsonFacts ''number'' = None"
    using generated_unusable by (force simp: schemaJsonFacts_def unusable_rows_def list_all_iff map_of_eq_None_iff)
  show ?case
  proof (cases "schemaJsonFacts s")
    case None
    then show ?thesis by (simp add: validate.simps [of lib schemaJsonFacts] split: json.splits)
  next
    case (Some fs)
    then have "(s, fs) \<in> set generated_facts" by (auto simp: schemaJsonFacts_def dest: map_of_SomeD)
    with generated_unusable Suc.prems obtain f where f: "f \<in> set fs" "sf_required f" "refusing unusable_schemas f"
      by (fastforce simp: unusable_rows_def list_all_iff list_ex_iff)
    from Some f(1) show ?thesis
    proof (rule required_field_invalid)
      show "sf_required f" by (fact f(2))
    next
      fix g :: schema_field and w
      assume "sf_type g = sf_type f" "sf_array g = sf_array f"
      with f(3) have "refusing unusable_schemas g" by (simp add: refusing_def)
      with Suc.hyps show "\<not> fieldValid lib schemaJsonFacts g w depth" by (intro hopeless_field [OF _ number]) simp_all
    qed
  qed
qed

definition no_valid_object :: "string \<Rightarrow> bool" where
  "no_valid_object schema \<longleftrightarrow> (\<forall>lib v depth text data w.
     \<not> validate lib schemaJsonFacts schema v depth \<and> decodeJson lib schemaJsonFacts schema text = None \<and>
     encodeJson lib schemaJsonFacts schema v = None \<and> encodeTlv8 lib schemaJsonFacts schema v depth = Inl NoValue \<and>
     decodeTlv8 lib schemaJsonFacts schema data depth \<noteq> Inr w)"

section \<open>Properties\<close>

text \<open>
  C39. Methods that the schema codec cannot serve: of the registered methods three have a request schema and
  ten a response schema, and of the events one has a schema, of which no object is valid, so that every
  object is rejected, in JSON and in TLV8, encoding and decoding. The reasons are required fields of the
  type \<^verbatim>\<open>number\<close>, for which the codec has no case, and required arrays described by \<^verbatim>\<open>schema\<close> instead of
  \<^verbatim>\<open>array\<close>, in the schema itself or in one that it requires.
\<close>

theorem unusable_methods:
  "map md_name (filter (\<lambda>d. List.member unusable_schemas (md_request_schema d)) kMethodRegistry) =
     [''firmware.beginUpdate'', ''signage.setPlaylistConfig'', ''cast.setRenderFps''] \<and>
   map md_name (filter (\<lambda>d. List.member unusable_schemas (md_response_schema d)) kMethodRegistry) =
     [''firmware.beginUpdate'', ''video.getStreamCapabilities'', ''audio.getStreamCapabilities'',
      ''signage.getPlaylistConfig'', ''signage.resetPlaylistConfig'', ''network.getInterfaces'',
      ''network.getApClients'', ''cast.getFlowControlState'', ''cast.setRenderFps'', ''cast.setFlowPolicy''] \<and>
   map ed_name (filter (\<lambda>d. List.member unusable_schemas (ed_event_schema d)) kEventRegistry) = [''cast.flowControlChanged''] \<and>
   list_all no_valid_object unusable_schemas"
proof -
  have "no_valid_object schema" if "schema \<in> set unusable_schemas" for schema
    using never_valid_refused [OF unusable_invalid [OF that]] by (simp add: no_valid_object_def)
  then have "list_all no_valid_object unusable_schemas" unfolding list_all_iff by blast
  moreover have "map md_name (filter (\<lambda>d. List.member unusable_schemas (md_request_schema d)) kMethodRegistry) =
      [''firmware.beginUpdate'', ''signage.setPlaylistConfig'', ''cast.setRenderFps'']" by code_simp
  moreover have "map md_name (filter (\<lambda>d. List.member unusable_schemas (md_response_schema d)) kMethodRegistry) =
      [''firmware.beginUpdate'', ''video.getStreamCapabilities'', ''audio.getStreamCapabilities'',
      ''signage.getPlaylistConfig'', ''signage.resetPlaylistConfig'', ''network.getInterfaces'',
      ''network.getApClients'', ''cast.getFlowControlState'', ''cast.setRenderFps'', ''cast.setFlowPolicy'']" by code_simp
  moreover have "map ed_name (filter (\<lambda>d. List.member unusable_schemas (ed_event_schema d)) kEventRegistry) = [''cast.flowControlChanged'']"
    by code_simp
  ultimately show ?thesis by blast
qed

text \<open>Over the generated table TLV8 loses nothing.\<close>

lemma generated_tlv8_roundtrip:
  assumes "tlv_object schemaJsonFacts schema v" and "encodeTlv8 lib schemaJsonFacts schema v depth = Inr bs"
  shows "decodeTlv8 lib schemaJsonFacts schema bs depth = Inr v"
  using tlv8_decodes [OF generated_facts_regular assms(2,1)] by (metis filter_True)

end
