(* ===== verification/Schema_Tables.thy ===== *)
theory Schema_Tables
  imports Axtp_Model
begin

text \<open>
  The tables of schema descriptors of \<^verbatim>\<open>core/protocol/generated/axtp_schema_generated.h\<close>, in the order of the
  source: the arrays of field descriptors, and for each schema its name, the array it points to and the
  number of its fields. The bounds of a field are the literals as they are written.
\<close>

section \<open>Descriptors\<close>

datatype field_type = FT_Uint8 | FT_Uint16 | FT_Uint32 | FT_Uint64 | FT_Int8 | FT_Int16 | FT_Int32 | FT_Int64 |
  FT_Bool | FT_Enum | FT_Bitmap | FT_String | FT_Bytes | FT_Object | FT_Array

datatype field_descriptor = FieldDescriptor
  (fd_field_id: byte) (fd_name: string) (fd_type: field_type) (fd_required: bool) (fd_min: int) (fd_max: int)

datatype schema_descriptor = SchemaDescriptor (sd_name: string) (sd_fields: string) (sd_field_count: nat)

section \<open>Tables\<close>

definition fields_1 :: "(string \<times> field_descriptor list) list" where
  "fields_1 = [
     (''kEmptyFields'', []),
     (''kCommonEmptyRequestFields'', []),
     (''kCommonEmptyResponseFields'', []),
     (''kControlOpenBodyFields'', [FieldDescriptor 0x02 ''protocolVersion'' FT_Uint8 False 1 15,
        FieldDescriptor 0x03 ''reservedHeaderProfile'' FT_Uint8 False 1 2,
        FieldDescriptor 0x04 ''maxFrameSize'' FT_Uint16 True 19 65535,
        FieldDescriptor 0x06 ''mtu'' FT_Uint16 False 1 65535,
        FieldDescriptor 0x07 ''supportedPayloadTypes'' FT_Bitmap True 0 0,
        FieldDescriptor 0x08 ''supportedRpcEncodings'' FT_Bitmap True 0 0,
        FieldDescriptor 0x0A ''heartbeatIntervalMs'' FT_Uint32 True 500 60000,
        FieldDescriptor 0x0B ''ackMode'' FT_Uint8 True 0 4]),
     (''kControlAcceptBodyFields'', [FieldDescriptor 0x01 ''sessionId'' FT_Uint32 True 0 0,
        FieldDescriptor 0x02 ''protocolVersion'' FT_Uint8 False 1 15,
        FieldDescriptor 0x03 ''reservedHeaderProfile'' FT_Uint8 False 1 2,
        FieldDescriptor 0x04 ''maxFrameSize'' FT_Uint16 True 19 65535,
        FieldDescriptor 0x06 ''mtu'' FT_Uint16 False 1 65535,
        FieldDescriptor 0x07 ''supportedPayloadTypes'' FT_Bitmap True 0 0,
        FieldDescriptor 0x0A ''heartbeatIntervalMs'' FT_Uint32 True 500 60000,
        FieldDescriptor 0x0B ''ackMode'' FT_Uint8 True 0 4,
        FieldDescriptor 0x1E ''selectedRpcEncoding'' FT_Uint8 True 1 4]),
     (''kAudioAlgorithmCapabilityFields'', [FieldDescriptor 0x01 ''configSchemaVersion'' FT_String False 0 0,
        FieldDescriptor 0x02 ''updatePolicy'' FT_Object True 0 0,
        FieldDescriptor 0x03 ''supportedAlgorithms'' FT_Array False 0 0]),
     (''kAudioGetAlgorithmCapabilitiesRequestFields'', [FieldDescriptor 0x01 ''items'' FT_Array False 0 0]),
     (''kAudioGetAlgorithmConfigRequestFields'', [FieldDescriptor 0x01 ''items'' FT_Array False 0 0]),
     (''kAudioSetAlgorithmConfigRequestFields'', [FieldDescriptor 0x01 ''config'' FT_Object True 0 0]),
     (''kAudioResetAlgorithmConfigRequestFields'', [FieldDescriptor 0x01 ''items'' FT_Bytes True 0 0]),
     (''kAudioSetAlgorithmConfigResponseFields'', [FieldDescriptor 0x01 ''applyState'' FT_Enum True 0 0,
        FieldDescriptor 0x02 ''requiresAudioRestart'' FT_Bool True 0 0,
        FieldDescriptor 0x03 ''config'' FT_Object True 0 0]),
     (''kAudioAlgorithmConfigChangedEventFields'', [FieldDescriptor 0x01 ''reason'' FT_Enum True 0 0, FieldDescriptor 0x02 ''applyState'' FT_Enum True 0 0,
        FieldDescriptor 0x03 ''requiresAudioRestart'' FT_Bool True 0 0,
        FieldDescriptor 0x04 ''config'' FT_Object True 0 0, FieldDescriptor 0x05 ''changedFields'' FT_Array False 0 0]),
     (''kAudioGetAlgorithmCapabilitiesResponseFields'', [FieldDescriptor 0x01 ''capability'' FT_String True 0 0,
        FieldDescriptor 0x02 ''updatePolicy'' FT_Object True 0 0, FieldDescriptor 0x03 ''algorithms'' FT_Object True 0 0]),
     (''kAudioAlgorithmUpdatePolicyFields'', [FieldDescriptor 0x01 ''partialUpdateSupported'' FT_Bool True 0 0,
        FieldDescriptor 0x02 ''multiAlgorithmUpdateSupported'' FT_Bool True 0 0,
        FieldDescriptor 0x03 ''atomicUpdateSupported'' FT_Bool True 0 0]),
     (''kAudioAlgorithmCapabilitiesFields'', [FieldDescriptor 0x01 ''noiseSuppression'' FT_Object False 0 0,
        FieldDescriptor 0x02 ''echoCancellation'' FT_Object False 0 0,
        FieldDescriptor 0x03 ''autoGainControl'' FT_Object False 0 0,
        FieldDescriptor 0x04 ''beamforming'' FT_Object False 0 0,
        FieldDescriptor 0x05 ''dereverberation'' FT_Object False 0 0,
        FieldDescriptor 0x06 ''voiceActivityDetection'' FT_Object False 0 0,
        FieldDescriptor 0x07 ''directionOfArrival'' FT_Object False 0 0,
        FieldDescriptor 0x08 ''howlingSuppression'' FT_Object False 0 0]),
     (''kAudioAlgorithmPropertyCapabilityFields'', [FieldDescriptor 0x01 ''type'' FT_Enum True 0 0, FieldDescriptor 0x02 ''defaultBool'' FT_Bool False 0 0,
        FieldDescriptor 0x03 ''defaultEnum'' FT_String False 0 0,
        FieldDescriptor 0x04 ''defaultInt32'' FT_Int32 False 0 0, FieldDescriptor 0x05 ''min'' FT_Int32 False 0 0,
        FieldDescriptor 0x06 ''max'' FT_Int32 False 0 0, FieldDescriptor 0x07 ''step'' FT_Int32 False 0 0,
        FieldDescriptor 0x08 ''values'' FT_Array False 0 0, FieldDescriptor 0x09 ''unit'' FT_String False 0 0,
        FieldDescriptor 0x0A ''requiresAudioRestart'' FT_Bool False 0 0]),
     (''kAudioNoiseSuppressionCapabilitiesFields'', [FieldDescriptor 0x01 ''supported'' FT_Bool True 0 0, FieldDescriptor 0x02 ''displayName'' FT_String False 0 0,
        FieldDescriptor 0x03 ''enabled'' FT_Object False 0 0, FieldDescriptor 0x05 ''level'' FT_Object False 0 0])]"

definition fields_2 :: "(string \<times> field_descriptor list) list" where
  "fields_2 = [
     (''kAudioEchoCancellationCapabilitiesFields'', [FieldDescriptor 0x01 ''supported'' FT_Bool True 0 0, FieldDescriptor 0x02 ''displayName'' FT_String False 0 0,
        FieldDescriptor 0x03 ''enabled'' FT_Object False 0 0, FieldDescriptor 0x05 ''tailLengthMs'' FT_Object False 0 0,
        FieldDescriptor 0x06 ''nlpLevel'' FT_Object False 0 0]),
     (''kAudioAutoGainControlCapabilitiesFields'', [FieldDescriptor 0x01 ''supported'' FT_Bool True 0 0, FieldDescriptor 0x02 ''displayName'' FT_String False 0 0,
        FieldDescriptor 0x03 ''enabled'' FT_Object False 0 0,
        FieldDescriptor 0x04 ''targetLevelDb'' FT_Object False 0 0,
        FieldDescriptor 0x05 ''maxGainDb'' FT_Object False 0 0,
        FieldDescriptor 0x06 ''attackTimeMs'' FT_Object False 0 0,
        FieldDescriptor 0x07 ''releaseTimeMs'' FT_Object False 0 0]),
     (''kAudioBeamformingCapabilitiesFields'', [FieldDescriptor 0x01 ''supported'' FT_Bool True 0 0, FieldDescriptor 0x02 ''displayName'' FT_String False 0 0,
        FieldDescriptor 0x03 ''enabled'' FT_Object False 0 0,
        FieldDescriptor 0x05 ''lookDirectionDeg'' FT_Object False 0 0,
        FieldDescriptor 0x06 ''beamWidthDeg'' FT_Object False 0 0]),
     (''kAudioDereverberationCapabilitiesFields'', [FieldDescriptor 0x01 ''supported'' FT_Bool True 0 0, FieldDescriptor 0x02 ''displayName'' FT_String False 0 0,
        FieldDescriptor 0x03 ''enabled'' FT_Object False 0 0, FieldDescriptor 0x05 ''level'' FT_Object False 0 0]),
     (''kAudioVoiceActivityDetectionCapabilitiesFields'', [FieldDescriptor 0x01 ''supported'' FT_Bool True 0 0, FieldDescriptor 0x02 ''displayName'' FT_String False 0 0,
        FieldDescriptor 0x03 ''enabled'' FT_Object False 0 0, FieldDescriptor 0x04 ''sensitivity'' FT_Object False 0 0,
        FieldDescriptor 0x05 ''hangoverMs'' FT_Object False 0 0]),
     (''kAudioDirectionOfArrivalCapabilitiesFields'', [FieldDescriptor 0x01 ''supported'' FT_Bool True 0 0, FieldDescriptor 0x02 ''displayName'' FT_String False 0 0,
        FieldDescriptor 0x03 ''enabled'' FT_Object False 0 0,
        FieldDescriptor 0x04 ''reportingEnabled'' FT_Object False 0 0,
        FieldDescriptor 0x05 ''reportIntervalMs'' FT_Object False 0 0,
        FieldDescriptor 0x06 ''smoothingMs'' FT_Object False 0 0]),
     (''kAudioHowlingSuppressionCapabilitiesFields'', [FieldDescriptor 0x01 ''supported'' FT_Bool True 0 0, FieldDescriptor 0x02 ''displayName'' FT_String False 0 0,
        FieldDescriptor 0x03 ''enabled'' FT_Object False 0 0, FieldDescriptor 0x05 ''level'' FT_Object False 0 0]),
     (''kAudioAlgorithmConfigFields'', [FieldDescriptor 0x01 ''noiseSuppression'' FT_Object False 0 0,
        FieldDescriptor 0x02 ''echoCancellation'' FT_Object False 0 0,
        FieldDescriptor 0x03 ''autoGainControl'' FT_Object False 0 0,
        FieldDescriptor 0x04 ''beamforming'' FT_Object False 0 0,
        FieldDescriptor 0x05 ''dereverberation'' FT_Object False 0 0,
        FieldDescriptor 0x06 ''voiceActivityDetection'' FT_Object False 0 0,
        FieldDescriptor 0x07 ''directionOfArrival'' FT_Object False 0 0,
        FieldDescriptor 0x08 ''howlingSuppression'' FT_Object False 0 0]),
     (''kAudioNoiseSuppressionConfigFields'', [FieldDescriptor 0x01 ''enabled'' FT_Bool False 0 0, FieldDescriptor 0x03 ''level'' FT_Uint8 False 0 3]),
     (''kAudioEchoCancellationConfigFields'', [FieldDescriptor 0x01 ''enabled'' FT_Bool False 0 0,
        FieldDescriptor 0x03 ''tailLengthMs'' FT_Uint32 False 64 512,
        FieldDescriptor 0x04 ''nlpLevel'' FT_Uint8 False 0 3]),
     (''kAudioAutoGainControlConfigFields'', [FieldDescriptor 0x01 ''enabled'' FT_Bool False 0 0,
        FieldDescriptor 0x02 ''targetLevelDb'' FT_Int32 False (- 36) (- 6),
        FieldDescriptor 0x03 ''maxGainDb'' FT_Uint8 False 0 36,
        FieldDescriptor 0x04 ''attackTimeMs'' FT_Uint32 False 1 1000,
        FieldDescriptor 0x05 ''releaseTimeMs'' FT_Uint32 False 10 5000]),
     (''kAudioBeamformingConfigFields'', [FieldDescriptor 0x01 ''enabled'' FT_Bool False 0 0,
        FieldDescriptor 0x03 ''lookDirectionDeg'' FT_Int32 False (- 180) 180,
        FieldDescriptor 0x04 ''beamWidthDeg'' FT_Uint32 False 10 180]),
     (''kAudioDereverberationConfigFields'', [FieldDescriptor 0x01 ''enabled'' FT_Bool False 0 0, FieldDescriptor 0x03 ''level'' FT_Uint8 False 0 3])]"

definition fields_3 :: "(string \<times> field_descriptor list) list" where
  "fields_3 = [
     (''kAudioVoiceActivityDetectionConfigFields'', [FieldDescriptor 0x01 ''enabled'' FT_Bool False 0 0, FieldDescriptor 0x02 ''sensitivity'' FT_Uint8 False 0 3,
        FieldDescriptor 0x03 ''hangoverMs'' FT_Uint32 False 0 2000]),
     (''kAudioDirectionOfArrivalConfigFields'', [FieldDescriptor 0x01 ''enabled'' FT_Bool False 0 0, FieldDescriptor 0x02 ''reportingEnabled'' FT_Bool False 0 0,
        FieldDescriptor 0x03 ''reportIntervalMs'' FT_Uint32 False 20 5000,
        FieldDescriptor 0x04 ''smoothingMs'' FT_Uint32 False 0 5000]),
     (''kAudioHowlingSuppressionConfigFields'', [FieldDescriptor 0x01 ''enabled'' FT_Bool False 0 0, FieldDescriptor 0x03 ''level'' FT_Uint8 False 0 3]),
     (''kAudioGetStreamCapabilitiesParamsFields'', [FieldDescriptor 0x01 ''source'' FT_String False 0 0,
        FieldDescriptor 0x02 ''includeRuntimeState'' FT_Bool False 0 0]),
     (''kAudioStreamCapabilitiesFields'', [FieldDescriptor 0x01 ''capability'' FT_String True 0 0, FieldDescriptor 0x02 ''sources'' FT_Array True 0 0,
        FieldDescriptor 0x03 ''streamProfiles'' FT_Array True 0 0, FieldDescriptor 0x04 ''openModes'' FT_Array True 0 0,
        FieldDescriptor 0x05 ''peerRoles'' FT_Array True 0 0,
        FieldDescriptor 0x06 ''supportsSourceStateEvent'' FT_Bool True 0 0,
        FieldDescriptor 0x07 ''supportsSyncGroup'' FT_Bool True 0 0,
        FieldDescriptor 0x08 ''flowControlManagedByRuntime'' FT_Bool True 0 0,
        FieldDescriptor 0x09 ''aacTransportFormats'' FT_Array False 0 0,
        FieldDescriptor 0x0A ''supportedAudioPtsModes'' FT_Array False 0 0,
        FieldDescriptor 0x0B ''supportedPacketizationModes'' FT_Array False 0 0,
        FieldDescriptor 0x0C ''supportsSourceCaptureTimestampCursor'' FT_Bool False 0 0]),
     (''kAudioStreamSourceFields'', [FieldDescriptor 0x01 ''source'' FT_String True 0 0, FieldDescriptor 0x02 ''displayName'' FT_String False 0 0,
        FieldDescriptor 0x03 ''codecs'' FT_Array True 0 0, FieldDescriptor 0x04 ''sampleRates'' FT_Array False 0 0,
        FieldDescriptor 0x05 ''channels'' FT_Array False 0 0, FieldDescriptor 0x06 ''state'' FT_Enum False 0 0]),
     (''kAudioOpenStreamParamsFields'', [FieldDescriptor 0x01 ''source'' FT_String True 0 0, FieldDescriptor 0x02 ''peerRole'' FT_Enum True 0 0,
        FieldDescriptor 0x03 ''codec'' FT_Enum True 0 0, FieldDescriptor 0x04 ''transportFormat'' FT_Enum False 0 0,
        FieldDescriptor 0x05 ''sampleRate'' FT_Uint32 False 0 0, FieldDescriptor 0x06 ''channels'' FT_Uint8 False 0 0,
        FieldDescriptor 0x07 ''sampleFormat'' FT_Enum False 0 0,
        FieldDescriptor 0x08 ''chunkDurationMs'' FT_Uint32 False 0 0,
        FieldDescriptor 0x09 ''streamProfile'' FT_String False 0 0,
        FieldDescriptor 0x0A ''cursorUnit'' FT_Enum False 0 0, FieldDescriptor 0x0B ''syncGroupId'' FT_String False 0 0,
        FieldDescriptor 0x0C ''castSessionId'' FT_String False 0 0,
        FieldDescriptor 0x0D ''clockDomain'' FT_String False 0 0,
        FieldDescriptor 0x0E ''receiverClockDomain'' FT_String False 0 0,
        FieldDescriptor 0x0F ''maxDataSize'' FT_Uint32 False 0 0,
        FieldDescriptor 0x10 ''audioPtsMode'' FT_Enum False 0 0, FieldDescriptor 0x11 ''timebase'' FT_Uint32 False 0 0,
        FieldDescriptor 0x12 ''samplesPerPacket'' FT_Uint32 False 0 0,
        FieldDescriptor 0x13 ''firstMediaSeqId'' FT_Uint32 False 0 0,
        FieldDescriptor 0x14 ''audioPtsBase'' FT_Uint64 False 0 0,
        FieldDescriptor 0x15 ''packetizationMode'' FT_Enum False 0 0]),
     (''kAudioOpenStreamResultFields'', [FieldDescriptor 0x01 ''streamId'' FT_Uint32 True 0 0, FieldDescriptor 0x02 ''state'' FT_Enum True 0 0,
        FieldDescriptor 0x03 ''source'' FT_String True 0 0, FieldDescriptor 0x04 ''peerRole'' FT_Enum True 0 0,
        FieldDescriptor 0x05 ''codec'' FT_Enum True 0 0, FieldDescriptor 0x06 ''transportFormat'' FT_Enum False 0 0,
        FieldDescriptor 0x07 ''sampleRate'' FT_Uint32 True 0 0, FieldDescriptor 0x08 ''channels'' FT_Uint8 True 0 0,
        FieldDescriptor 0x09 ''sampleFormat'' FT_Enum False 0 0,
        FieldDescriptor 0x0A ''streamProfile'' FT_String True 0 0, FieldDescriptor 0x0B ''cursorUnit'' FT_Enum True 0 0,
        FieldDescriptor 0x0C ''syncGroupId'' FT_String False 0 0,
        FieldDescriptor 0x0D ''castSessionId'' FT_String False 0 0,
        FieldDescriptor 0x0E ''clockDomain'' FT_String False 0 0,
        FieldDescriptor 0x0F ''receiverClockDomain'' FT_String False 0 0,
        FieldDescriptor 0x10 ''maxDataSize'' FT_Uint32 False 0 0,
        FieldDescriptor 0x11 ''audioPtsMode'' FT_Enum False 0 0, FieldDescriptor 0x12 ''timebase'' FT_Uint32 False 0 0,
        FieldDescriptor 0x13 ''samplesPerPacket'' FT_Uint32 False 0 0,
        FieldDescriptor 0x14 ''firstMediaSeqId'' FT_Uint32 False 0 0,
        FieldDescriptor 0x15 ''audioPtsBase'' FT_Uint64 False 0 0,
        FieldDescriptor 0x16 ''packetizationMode'' FT_Enum False 0 0])]"

definition fields_4 :: "(string \<times> field_descriptor list) list" where
  "fields_4 = [
     (''kAudioCloseStreamParamsFields'', [FieldDescriptor 0x01 ''streamId'' FT_Uint32 True 0 0, FieldDescriptor 0x02 ''peerRole'' FT_Enum False 0 0,
        FieldDescriptor 0x03 ''reason'' FT_Enum False 0 0, FieldDescriptor 0x04 ''finalCursor'' FT_Uint64 False 0 0]),
     (''kAudioCloseStreamResultFields'', [FieldDescriptor 0x01 ''streamId'' FT_Uint32 True 0 0, FieldDescriptor 0x02 ''state'' FT_Enum True 0 0,
        FieldDescriptor 0x03 ''reason'' FT_Enum False 0 0, FieldDescriptor 0x04 ''alreadyClosed'' FT_Bool False 0 0]),
     (''kAudioGetStreamStateParamsFields'', [FieldDescriptor 0x01 ''streamId'' FT_Uint32 True 0 0]),
     (''kAudioStreamStateFields'', [FieldDescriptor 0x01 ''streamId'' FT_Uint32 True 0 0, FieldDescriptor 0x02 ''state'' FT_Enum True 0 0,
        FieldDescriptor 0x03 ''source'' FT_String True 0 0, FieldDescriptor 0x04 ''peerRole'' FT_Enum False 0 0,
        FieldDescriptor 0x05 ''codec'' FT_Enum False 0 0, FieldDescriptor 0x06 ''streamProfile'' FT_String False 0 0,
        FieldDescriptor 0x07 ''syncGroupId'' FT_String False 0 0, FieldDescriptor 0x08 ''cursorUnit'' FT_Enum False 0 0,
        FieldDescriptor 0x09 ''lastCursor'' FT_Uint64 False 0 0,
        FieldDescriptor 0x0A ''failureReason'' FT_Enum False 0 0]),
     (''kAudioGetStreamSourceStateParamsFields'', [FieldDescriptor 0x01 ''source'' FT_String True 0 0]),
     (''kAudioStreamSourceStateFields'', [FieldDescriptor 0x01 ''source'' FT_String True 0 0, FieldDescriptor 0x02 ''mediaKind'' FT_Enum False 0 0,
        FieldDescriptor 0x03 ''state'' FT_Enum True 0 0, FieldDescriptor 0x04 ''available'' FT_Bool False 0 0,
        FieldDescriptor 0x05 ''activeStreamId'' FT_Uint32 False 0 0,
        FieldDescriptor 0x06 ''lastOpenRejectedReason'' FT_Enum False 0 0]),
     (''kAudioStreamStateChangedEventFields'', [FieldDescriptor 0x01 ''streamId'' FT_Uint32 True 0 0, FieldDescriptor 0x02 ''state'' FT_Enum True 0 0,
        FieldDescriptor 0x03 ''source'' FT_String True 0 0, FieldDescriptor 0x04 ''reason'' FT_Enum False 0 0,
        FieldDescriptor 0x05 ''stats'' FT_Object False 0 0]),
     (''kAudioStreamSourceStateChangedEventFields'', [FieldDescriptor 0x01 ''source'' FT_String True 0 0, FieldDescriptor 0x02 ''mediaKind'' FT_Enum False 0 0,
        FieldDescriptor 0x03 ''state'' FT_Enum True 0 0, FieldDescriptor 0x04 ''reason'' FT_Enum False 0 0,
        FieldDescriptor 0x05 ''activeStreamId'' FT_Uint32 False 0 0]),
     (''kAudioStreamStatsReportedEventFields'', [FieldDescriptor 0x01 ''streamId'' FT_Uint32 True 0 0, FieldDescriptor 0x02 ''stats'' FT_Object True 0 0]),
     (''kAudioStreamStatsFields'', [FieldDescriptor 0x01 ''packets'' FT_Uint64 False 0 0, FieldDescriptor 0x02 ''bytes'' FT_Uint64 False 0 0,
        FieldDescriptor 0x03 ''droppedPackets'' FT_Uint64 False 0 0,
        FieldDescriptor 0x04 ''jitterMs'' FT_Uint32 False 0 0]),
     (''kCastSourceSummaryFields'', [FieldDescriptor 0x01 ''name'' FT_String False 0 0, FieldDescriptor 0x02 ''model'' FT_String False 0 0,
        FieldDescriptor 0x03 ''address'' FT_String False 0 0, FieldDescriptor 0x04 ''sourceId'' FT_String False 0 0,
        FieldDescriptor 0x05 ''protocol'' FT_Enum False 0 0]),
     (''kCastMediaSummaryFields'', [FieldDescriptor 0x01 ''firstFrame'' FT_Bool False 0 0, FieldDescriptor 0x02 ''width'' FT_Uint32 False 0 0,
        FieldDescriptor 0x03 ''height'' FT_Uint32 False 0 0, FieldDescriptor 0x04 ''orientation'' FT_Enum False 0 0,
        FieldDescriptor 0x05 ''inputFps'' FT_Object False 0 0, FieldDescriptor 0x06 ''renderFps'' FT_Object False 0 0,
        FieldDescriptor 0x07 ''audioActive'' FT_Bool False 0 0]),
     (''kCastLastErrorFields'', [FieldDescriptor 0x01 ''code'' FT_String False 0 0, FieldDescriptor 0x02 ''message'' FT_String False 0 0,
        FieldDescriptor 0x03 ''occurredAt'' FT_String False 0 0, FieldDescriptor 0x04 ''redacted'' FT_Bool False 0 0]),
     (''kCastGetSessionParamsFields'', [FieldDescriptor 0x01 ''include'' FT_Array False 0 0, FieldDescriptor 0x02 ''sessionId'' FT_String False 0 0])]"

definition fields_5 :: "(string \<times> field_descriptor list) list" where
  "fields_5 = [
     (''kCastSessionStateFields'', [FieldDescriptor 0x01 ''receiverState'' FT_Enum True 0 0, FieldDescriptor 0x02 ''sessionId'' FT_String False 0 0,
        FieldDescriptor 0x03 ''receiverPhase'' FT_Enum True 0 0,
        FieldDescriptor 0x04 ''sessionState'' FT_Enum False 0 0, FieldDescriptor 0x05 ''protocol'' FT_Enum False 0 0,
        FieldDescriptor 0x06 ''airPlayName'' FT_String False 0 0, FieldDescriptor 0x07 ''source'' FT_Object False 0 0,
        FieldDescriptor 0x08 ''media'' FT_Object False 0 0, FieldDescriptor 0x09 ''backendState'' FT_Enum False 0 0,
        FieldDescriptor 0x0A ''reason'' FT_Enum False 0 0, FieldDescriptor 0x0B ''authRequired'' FT_Bool False 0 0,
        FieldDescriptor 0x0C ''updatedAt'' FT_String False 0 0]),
     (''kCastStopSessionParamsFields'', [FieldDescriptor 0x01 ''sessionId'' FT_String False 0 0, FieldDescriptor 0x02 ''reason'' FT_Enum False 0 0,
        FieldDescriptor 0x03 ''force'' FT_Bool False 0 0]),
     (''kCastStopSessionResultFields'', [FieldDescriptor 0x01 ''accepted'' FT_Bool True 0 0, FieldDescriptor 0x02 ''sessionId'' FT_String False 0 0,
        FieldDescriptor 0x03 ''previousReceiverPhase'' FT_Enum False 0 0,
        FieldDescriptor 0x04 ''receiverPhase'' FT_Enum True 0 0,
        FieldDescriptor 0x05 ''previousState'' FT_Enum False 0 0,
        FieldDescriptor 0x06 ''sessionState'' FT_Enum False 0 0, FieldDescriptor 0x07 ''reason'' FT_Enum False 0 0,
        FieldDescriptor 0x08 ''noActiveSession'' FT_Bool False 0 0,
        FieldDescriptor 0x09 ''updatedAt'' FT_String False 0 0]),
     (''kCastSetAirPlayNameParamsFields'', [FieldDescriptor 0x01 ''displayName'' FT_String True 0 0, FieldDescriptor 0x02 ''apply'' FT_Enum False 0 0]),
     (''kCastAirPlayNameStateFields'', [FieldDescriptor 0x01 ''displayName'' FT_String True 0 0,
        FieldDescriptor 0x02 ''previousDisplayName'' FT_String False 0 0,
        FieldDescriptor 0x03 ''source'' FT_Enum False 0 0, FieldDescriptor 0x04 ''apply'' FT_Enum False 0 0,
        FieldDescriptor 0x05 ''publishState'' FT_Enum True 0 0, FieldDescriptor 0x06 ''backendType'' FT_Enum False 0 0,
        FieldDescriptor 0x07 ''updatedAt'' FT_String False 0 0]),
     (''kCastSessionIncomingEventFields'', [FieldDescriptor 0x01 ''sessionId'' FT_String False 0 0, FieldDescriptor 0x02 ''receiverPhase'' FT_Enum True 0 0,
        FieldDescriptor 0x03 ''protocol'' FT_Enum False 0 0, FieldDescriptor 0x04 ''source'' FT_Object False 0 0,
        FieldDescriptor 0x05 ''authRequired'' FT_Bool False 0 0, FieldDescriptor 0x06 ''incomingAt'' FT_String False 0 0]),
     (''kCastSessionStateChangedEventFields'', [FieldDescriptor 0x01 ''sessionId'' FT_String False 0 0,
        FieldDescriptor 0x02 ''previousReceiverPhase'' FT_Enum False 0 0,
        FieldDescriptor 0x03 ''receiverPhase'' FT_Enum True 0 0,
        FieldDescriptor 0x04 ''previousState'' FT_Enum False 0 0,
        FieldDescriptor 0x05 ''sessionState'' FT_Enum False 0 0, FieldDescriptor 0x06 ''protocol'' FT_Enum False 0 0,
        FieldDescriptor 0x07 ''authRequired'' FT_Bool False 0 0, FieldDescriptor 0x08 ''media'' FT_Object False 0 0,
        FieldDescriptor 0x09 ''reason'' FT_Enum False 0 0, FieldDescriptor 0x0A ''updatedAt'' FT_String False 0 0]),
     (''kCastSessionStartedEventFields'', [FieldDescriptor 0x01 ''sessionId'' FT_String True 0 0, FieldDescriptor 0x02 ''receiverPhase'' FT_Enum True 0 0,
        FieldDescriptor 0x03 ''sessionState'' FT_Enum False 0 0, FieldDescriptor 0x04 ''protocol'' FT_Enum False 0 0,
        FieldDescriptor 0x05 ''source'' FT_Object False 0 0, FieldDescriptor 0x06 ''media'' FT_Object False 0 0,
        FieldDescriptor 0x07 ''startedAt'' FT_String False 0 0]),
     (''kCastSessionStoppedEventFields'', [FieldDescriptor 0x01 ''sessionId'' FT_String False 0 0,
        FieldDescriptor 0x02 ''previousReceiverPhase'' FT_Enum False 0 0,
        FieldDescriptor 0x03 ''receiverPhase'' FT_Enum True 0 0,
        FieldDescriptor 0x04 ''previousState'' FT_Enum False 0 0,
        FieldDescriptor 0x05 ''sessionState'' FT_Enum False 0 0, FieldDescriptor 0x06 ''reason'' FT_Enum False 0 0,
        FieldDescriptor 0x07 ''backendType'' FT_Enum False 0 0, FieldDescriptor 0x08 ''stoppedAt'' FT_String False 0 0])]"

definition fields_6 :: "(string \<times> field_descriptor list) list" where
  "fields_6 = [
     (''kCastSessionFailedEventFields'', [FieldDescriptor 0x01 ''sessionId'' FT_String False 0 0, FieldDescriptor 0x02 ''receiverPhase'' FT_Enum True 0 0,
        FieldDescriptor 0x03 ''sessionState'' FT_Enum False 0 0, FieldDescriptor 0x04 ''protocol'' FT_Enum False 0 0,
        FieldDescriptor 0x05 ''source'' FT_Object False 0 0, FieldDescriptor 0x06 ''reason'' FT_Enum False 0 0,
        FieldDescriptor 0x07 ''error'' FT_Object False 0 0, FieldDescriptor 0x08 ''failedAt'' FT_String False 0 0]),
     (''kCastGetAudioParamsFields'', [FieldDescriptor 0x01 ''includeEffective'' FT_Bool False 0 0,
        FieldDescriptor 0x02 ''sessionId'' FT_String False 0 0]),
     (''kCastSetAudioParamsFields'', [FieldDescriptor 0x01 ''enabled'' FT_Bool True 0 0, FieldDescriptor 0x02 ''sessionId'' FT_String False 0 0,
        FieldDescriptor 0x03 ''scope'' FT_Enum False 0 0]),
     (''kCastSetMutedParamsFields'', [FieldDescriptor 0x01 ''muted'' FT_Bool True 0 0, FieldDescriptor 0x02 ''sessionId'' FT_String False 0 0,
        FieldDescriptor 0x03 ''scope'' FT_Enum False 0 0]),
     (''kCastSetAudioDelayParamsFields'', [FieldDescriptor 0x01 ''audioDelayMs'' FT_Uint32 True 0 1000,
        FieldDescriptor 0x02 ''sessionId'' FT_String False 0 0, FieldDescriptor 0x03 ''scope'' FT_Enum False 0 0]),
     (''kCastAudioStateFields'', [FieldDescriptor 0x01 ''enabled'' FT_Bool True 0 0, FieldDescriptor 0x02 ''muted'' FT_Bool True 0 0,
        FieldDescriptor 0x03 ''effectivePlayback'' FT_Bool True 0 0, FieldDescriptor 0x04 ''scope'' FT_Enum False 0 0,
        FieldDescriptor 0x05 ''sessionId'' FT_String False 0 0, FieldDescriptor 0x06 ''source'' FT_Enum False 0 0,
        FieldDescriptor 0x07 ''reason'' FT_Enum False 0 0, FieldDescriptor 0x08 ''changedFields'' FT_Array False 0 0,
        FieldDescriptor 0x09 ''updatedAt'' FT_String False 0 0,
        FieldDescriptor 0x0A ''audioDelayMs'' FT_Uint32 False 0 1000]),
     (''kCastAudioChangedEventFields'', [FieldDescriptor 0x01 ''changedFields'' FT_Array True 0 0, FieldDescriptor 0x02 ''state'' FT_Object True 0 0,
        FieldDescriptor 0x03 ''reason'' FT_Enum False 0 0, FieldDescriptor 0x04 ''updatedAt'' FT_String False 0 0]),
     (''kCastGetPinCodeConfigParamsFields'', [FieldDescriptor 0x01 ''includeSecret'' FT_Bool False 0 0, FieldDescriptor 0x02 ''protocol'' FT_Enum False 0 0,
        FieldDescriptor 0x03 ''includeSensitive'' FT_Bool False 0 0,
        FieldDescriptor 0x04 ''attemptId'' FT_String False 0 0]),
     (''kCastSetPinCodeConfigParamsFields'', [FieldDescriptor 0x01 ''enabled'' FT_Bool False 0 0, FieldDescriptor 0x02 ''pinDisplay'' FT_Enum False 0 0,
        FieldDescriptor 0x03 ''rotatePin'' FT_Bool False 0 0, FieldDescriptor 0x04 ''visibility'' FT_Enum False 0 0]),
     (''kCastSetPinCodeParamsFields'', [FieldDescriptor 0x01 ''pinCode'' FT_String True 0 0, FieldDescriptor 0x02 ''expirePrevious'' FT_Bool False 0 0,
        FieldDescriptor 0x03 ''visibility'' FT_Enum False 0 0]),
     (''kCastPinCodeChallengeFields'', [FieldDescriptor 0x01 ''attemptId'' FT_String True 0 0, FieldDescriptor 0x02 ''challengeId'' FT_String True 0 0,
        FieldDescriptor 0x03 ''displayRequestId'' FT_String True 0 0,
        FieldDescriptor 0x04 ''pinCode'' FT_String False 0 0,
        FieldDescriptor 0x05 ''codeGeneration'' FT_String False 0 0]),
     (''kCastPinCodeConfigFields'', [FieldDescriptor 0x01 ''enabled'' FT_Bool True 0 0, FieldDescriptor 0x02 ''hasPinCode'' FT_Bool True 0 0,
        FieldDescriptor 0x03 ''pinCode'' FT_String False 0 0, FieldDescriptor 0x04 ''pinDisplay'' FT_Enum False 0 0,
        FieldDescriptor 0x05 ''generatedBy'' FT_Enum False 0 0, FieldDescriptor 0x06 ''visibility'' FT_Enum False 0 0,
        FieldDescriptor 0x07 ''expiresAt'' FT_String False 0 0,
        FieldDescriptor 0x08 ''redactionRequired'' FT_Bool False 0 0,
        FieldDescriptor 0x09 ''changedFields'' FT_Array False 0 0,
        FieldDescriptor 0x0A ''updatedAt'' FT_String False 0 0, FieldDescriptor 0x0B ''redacted'' FT_Bool False 0 0,
        FieldDescriptor 0x0C ''protocol'' FT_Enum False 0 0, FieldDescriptor 0x0D ''backend'' FT_Enum False 0 0,
        FieldDescriptor 0x0E ''challenges'' FT_Array False 0 0, FieldDescriptor 0x0F ''scope'' FT_Enum False 0 0,
        FieldDescriptor 0x10 ''codeGeneration'' FT_String False 0 0])]"

definition fields_7 :: "(string \<times> field_descriptor list) list" where
  "fields_7 = [
     (''kCastPinCodeChangedEventFields'', [FieldDescriptor 0x01 ''changedFields'' FT_Array True 0 0, FieldDescriptor 0x02 ''config'' FT_Object True 0 0,
        FieldDescriptor 0x03 ''reason'' FT_Enum False 0 0, FieldDescriptor 0x04 ''updatedAt'' FT_String False 0 0,
        FieldDescriptor 0x05 ''challenge'' FT_Object False 0 0]),
     (''kCastPinCodeRequiredEventFields'', [FieldDescriptor 0x01 ''sessionId'' FT_String False 0 0, FieldDescriptor 0x02 ''source'' FT_Object False 0 0,
        FieldDescriptor 0x03 ''pinCode'' FT_String False 0 0, FieldDescriptor 0x04 ''visibility'' FT_Enum False 0 0,
        FieldDescriptor 0x05 ''redactionRequired'' FT_Bool False 0 0,
        FieldDescriptor 0x06 ''requestedAt'' FT_String False 0 0, FieldDescriptor 0x07 ''config'' FT_Object False 0 0]),
     (''kCastPinCodeAuthFailedEventFields'', [FieldDescriptor 0x01 ''sessionId'' FT_String False 0 0, FieldDescriptor 0x02 ''source'' FT_Object False 0 0,
        FieldDescriptor 0x03 ''authFailureReason'' FT_Enum False 0 0,
        FieldDescriptor 0x04 ''attemptCount'' FT_Uint16 False 0 0, FieldDescriptor 0x05 ''failedAt'' FT_String False 0 0]),
     (''kCastRectFields'', [FieldDescriptor 0x01 ''x'' FT_Int32 True 0 0, FieldDescriptor 0x02 ''y'' FT_Int32 True 0 0,
        FieldDescriptor 0x03 ''width'' FT_Uint32 True 0 0, FieldDescriptor 0x04 ''height'' FT_Uint32 True 0 0]),
     (''kCastSetWindowStateParamsFields'', [FieldDescriptor 0x01 ''mode'' FT_Enum False 0 0, FieldDescriptor 0x02 ''fullscreen'' FT_Bool False 0 0,
        FieldDescriptor 0x03 ''alwaysOnTop'' FT_Bool False 0 0, FieldDescriptor 0x04 ''bounds'' FT_Object False 0 0]),
     (''kCastWindowStateFields'', [FieldDescriptor 0x01 ''hasWindow'' FT_Bool True 0 0, FieldDescriptor 0x02 ''visible'' FT_Bool True 0 0,
        FieldDescriptor 0x03 ''mode'' FT_Enum True 0 0, FieldDescriptor 0x04 ''fullscreen'' FT_Bool True 0 0,
        FieldDescriptor 0x05 ''alwaysOnTop'' FT_Bool True 0 0, FieldDescriptor 0x06 ''sessionId'' FT_String False 0 0,
        FieldDescriptor 0x07 ''bounds'' FT_Object False 0 0, FieldDescriptor 0x0A ''changedFields'' FT_Array False 0 0,
        FieldDescriptor 0x0B ''updatedAt'' FT_String False 0 0]),
     (''kCastWindowChangedEventFields'', [FieldDescriptor 0x01 ''changedFields'' FT_Array True 0 0, FieldDescriptor 0x02 ''state'' FT_Object True 0 0,
        FieldDescriptor 0x03 ''reason'' FT_Enum False 0 0, FieldDescriptor 0x04 ''updatedAt'' FT_String False 0 0,
        FieldDescriptor 0x05 ''controlContext'' FT_Object False 0 0]),
     (''kCastGetBackendStatusParamsFields'', [FieldDescriptor 0x01 ''includeLastError'' FT_Bool False 0 0]),
     (''kCastRestartBackendParamsFields'', [FieldDescriptor 0x01 ''reason'' FT_Enum False 0 0, FieldDescriptor 0x02 ''force'' FT_Bool False 0 0]),
     (''kCastBackendStatusFields'', [FieldDescriptor 0x01 ''backendType'' FT_Enum True 0 0, FieldDescriptor 0x02 ''state'' FT_Enum True 0 0,
        FieldDescriptor 0x03 ''discoverable'' FT_Bool True 0 0, FieldDescriptor 0x04 ''pid'' FT_Uint32 False 0 0,
        FieldDescriptor 0x05 ''version'' FT_String False 0 0,
        FieldDescriptor 0x06 ''activeSessionId'' FT_String False 0 0,
        FieldDescriptor 0x07 ''restartInProgress'' FT_Bool True 0 0,
        FieldDescriptor 0x08 ''lastError'' FT_Object False 0 0, FieldDescriptor 0x09 ''updatedAt'' FT_String False 0 0]),
     (''kCastRestartBackendResultFields'', [FieldDescriptor 0x01 ''accepted'' FT_Bool True 0 0, FieldDescriptor 0x02 ''backendType'' FT_Enum True 0 0,
        FieldDescriptor 0x03 ''state'' FT_Enum True 0 0, FieldDescriptor 0x04 ''restartId'' FT_String False 0 0,
        FieldDescriptor 0x05 ''activeSessionEnded'' FT_Bool True 0 0,
        FieldDescriptor 0x06 ''endedSessionId'' FT_String False 0 0,
        FieldDescriptor 0x07 ''sessionStopReason'' FT_Enum False 0 0,
        FieldDescriptor 0x08 ''estimatedReadyInMs'' FT_Uint32 False 0 0,
        FieldDescriptor 0x09 ''updatedAt'' FT_String False 0 0]),
     (''kCastBackendChangedEventFields'', [FieldDescriptor 0x01 ''changedFields'' FT_Array True 0 0, FieldDescriptor 0x02 ''state'' FT_Object True 0 0,
        FieldDescriptor 0x03 ''reason'' FT_Enum False 0 0, FieldDescriptor 0x04 ''restartId'' FT_String False 0 0,
        FieldDescriptor 0x05 ''activeSessionEnded'' FT_Bool False 0 0,
        FieldDescriptor 0x06 ''endedSessionId'' FT_String False 0 0,
        FieldDescriptor 0x07 ''updatedAt'' FT_String False 0 0])]"

definition fields_8 :: "(string \<times> field_descriptor list) list" where
  "fields_8 = [
     (''kCastGetFlowControlStateParamsFields'', [FieldDescriptor 0x01 ''includeStats'' FT_Bool False 0 0,
        FieldDescriptor 0x02 ''includePolicy'' FT_Bool False 0 0, FieldDescriptor 0x03 ''sessionId'' FT_String False 0 0]),
     (''kCastSetRenderFpsParamsFields'', [FieldDescriptor 0x01 ''fps'' FT_Object True 0 0, FieldDescriptor 0x02 ''sessionId'' FT_String False 0 0,
        FieldDescriptor 0x03 ''scope'' FT_Enum False 0 0]),
     (''kCastSetFlowPolicyParamsFields'', [FieldDescriptor 0x01 ''videoQueueFrames'' FT_Uint32 False 1 0,
        FieldDescriptor 0x02 ''lateFrameThresholdMs'' FT_Uint32 False 0 0,
        FieldDescriptor 0x03 ''dropMode'' FT_Enum False 0 0, FieldDescriptor 0x04 ''overlayEnabled'' FT_Bool False 0 0,
        FieldDescriptor 0x05 ''sessionId'' FT_String False 0 0, FieldDescriptor 0x06 ''scope'' FT_Enum False 0 0]),
     (''kCastSetVideoStreamParamsParamsFields'', [FieldDescriptor 0x01 ''sessionId'' FT_String False 0 0, FieldDescriptor 0x02 ''frameRate'' FT_Uint32 False 1 0,
        FieldDescriptor 0x03 ''bitrateKbps'' FT_Uint32 False 1 0,
        FieldDescriptor 0x04 ''resetFields'' FT_Array False 0 0]),
     (''kCastSetVideoStreamParamsResultFields'', [FieldDescriptor 0x01 ''accepted'' FT_Bool True 0 0, FieldDescriptor 0x02 ''state'' FT_Enum True 0 0,
        FieldDescriptor 0x03 ''sessionId'' FT_String False 0 0,
        FieldDescriptor 0x04 ''reconfigureId'' FT_String False 0 0,
        FieldDescriptor 0x05 ''previousStreamId'' FT_Uint32 False 0 0,
        FieldDescriptor 0x06 ''activeStreamId'' FT_Uint32 False 0 0,
        FieldDescriptor 0x07 ''sourceVideo'' FT_Object True 0 0]),
     (''kCastVideoStreamParamsStateFields'', [FieldDescriptor 0x01 ''sessionId'' FT_String False 0 0, FieldDescriptor 0x02 ''source'' FT_String False 0 0,
        FieldDescriptor 0x03 ''desiredFrameRate'' FT_Uint32 False 1 0,
        FieldDescriptor 0x04 ''desiredBitrateKbps'' FT_Uint32 False 1 0,
        FieldDescriptor 0x05 ''effectiveFrameRate'' FT_Uint32 False 1 0,
        FieldDescriptor 0x06 ''effectiveBitrateKbps'' FT_Uint32 False 1 0,
        FieldDescriptor 0x07 ''streamProfile'' FT_String False 0 0,
        FieldDescriptor 0x08 ''encoder'' FT_String False 0 0,
        FieldDescriptor 0x09 ''reconfigureId'' FT_String False 0 0, FieldDescriptor 0x0A ''state'' FT_Enum False 0 0,
        FieldDescriptor 0x0B ''phase'' FT_Enum False 0 0, FieldDescriptor 0x0C ''previousStreamId'' FT_Uint32 False 0 0,
        FieldDescriptor 0x0D ''activeStreamId'' FT_Uint32 False 0 0,
        FieldDescriptor 0x0E ''rollbackApplied'' FT_Bool False 0 0,
        FieldDescriptor 0x0F ''lastError'' FT_Object False 0 0,
        FieldDescriptor 0x10 ''changedFields'' FT_Array False 0 0]),
     (''kCastFlowControlStateFields'', [FieldDescriptor 0x01 ''targetRenderFps'' FT_Object True 0 0,
        FieldDescriptor 0x02 ''inputFps'' FT_Object False 0 0, FieldDescriptor 0x03 ''renderFps'' FT_Object False 0 0,
        FieldDescriptor 0x04 ''dropMode'' FT_Enum True 0 0,
        FieldDescriptor 0x05 ''videoQueueFrames'' FT_Uint32 True 1 0,
        FieldDescriptor 0x06 ''videoQueueDepth'' FT_Uint32 False 0 0,
        FieldDescriptor 0x07 ''audioQueueDepth'' FT_Uint32 False 0 0,
        FieldDescriptor 0x08 ''lateFrameThresholdMs'' FT_Uint32 True 0 0,
        FieldDescriptor 0x09 ''overlayEnabled'' FT_Bool True 0 0,
        FieldDescriptor 0x0A ''droppedFrames'' FT_Uint64 False 0 0,
        FieldDescriptor 0x0B ''lateFrames'' FT_Uint64 False 0 0,
        FieldDescriptor 0x0C ''keyframeRequestCount'' FT_Uint32 False 0 0,
        FieldDescriptor 0x0D ''keyFrameOnDropBurst'' FT_Bool False 0 0,
        FieldDescriptor 0x0E ''changedFields'' FT_Array False 0 0,
        FieldDescriptor 0x0F ''sampledAt'' FT_String False 0 0, FieldDescriptor 0x10 ''sourceVideo'' FT_Object False 0 0]),
     (''kCastFlowControlChangedEventFields'', [FieldDescriptor 0x01 ''changedFields'' FT_Array True 0 0, FieldDescriptor 0x02 ''state'' FT_Object True 0 0,
        FieldDescriptor 0x03 ''reason'' FT_Enum False 0 0, FieldDescriptor 0x04 ''sampledAt'' FT_String False 0 0,
        FieldDescriptor 0x05 ''sourceVideo'' FT_Object False 0 0,
        FieldDescriptor 0x06 ''reconfigureId'' FT_String False 0 0]),
     (''kCastGetStatusParamsFields'', [FieldDescriptor 0x01 ''include'' FT_Array False 0 0,
        FieldDescriptor 0x02 ''includeSensitive'' FT_Bool False 0 0,
        FieldDescriptor 0x03 ''controlVersion'' FT_Uint32 False 0 0]),
     (''kCastReceiverSummaryFields'', [FieldDescriptor 0x01 ''role'' FT_Enum True 0 0, FieldDescriptor 0x02 ''protocols'' FT_Array True 0 0,
        FieldDescriptor 0x03 ''state'' FT_Enum True 0 0, FieldDescriptor 0x04 ''receiverPhase'' FT_Enum True 0 0])]"

definition fields_9 :: "(string \<times> field_descriptor list) list" where
  "fields_9 = [
     (''kCastSessionStatusSummaryFields'', [FieldDescriptor 0x01 ''sessionId'' FT_String False 0 0,
        FieldDescriptor 0x02 ''receiverPhase'' FT_Enum False 0 0,
        FieldDescriptor 0x03 ''sessionState'' FT_Enum False 0 0, FieldDescriptor 0x04 ''protocol'' FT_Enum False 0 0,
        FieldDescriptor 0x05 ''sourceName'' FT_String False 0 0]),
     (''kCastPinCodeStatusSummaryFields'', [FieldDescriptor 0x01 ''enabled'' FT_Bool True 0 0, FieldDescriptor 0x02 ''hasPinCode'' FT_Bool True 0 0,
        FieldDescriptor 0x03 ''pinDisplay'' FT_Enum False 0 0, FieldDescriptor 0x04 ''pinCode'' FT_String False 0 0,
        FieldDescriptor 0x05 ''redacted'' FT_Bool False 0 0, FieldDescriptor 0x06 ''visibility'' FT_Enum False 0 0]),
     (''kCastStatusFields'', [FieldDescriptor 0x01 ''receiver'' FT_Object True 0 0, FieldDescriptor 0x02 ''session'' FT_Object False 0 0,
        FieldDescriptor 0x03 ''pinCode'' FT_Object False 0 0, FieldDescriptor 0x04 ''audio'' FT_Object False 0 0,
        FieldDescriptor 0x05 ''window'' FT_Object False 0 0, FieldDescriptor 0x06 ''backend'' FT_Object False 0 0,
        FieldDescriptor 0x07 ''flowControl'' FT_Object False 0 0, FieldDescriptor 0x08 ''sampledAt'' FT_String True 0 0,
        FieldDescriptor 0x09 ''redacted'' FT_Bool False 0 0, FieldDescriptor 0x0A ''controlSync'' FT_Object False 0 0,
        FieldDescriptor 0x0B ''receivers'' FT_Array False 0 0, FieldDescriptor 0x0C ''sessions'' FT_Array False 0 0,
        FieldDescriptor 0x0D ''presentation'' FT_Object False 0 0,
        FieldDescriptor 0x0E ''audioPolicy'' FT_Object False 0 0,
        FieldDescriptor 0x0F ''presentationSettings'' FT_Object False 0 0,
        FieldDescriptor 0x10 ''webcastBackend'' FT_Object False 0 0,
        FieldDescriptor 0x11 ''airplay'' FT_Object False 0 0]),
     (''kCastSessionCapabilityFields'', [FieldDescriptor 0x01 ''protocols'' FT_Array True 0 0, FieldDescriptor 0x02 ''receiverPhases'' FT_Array True 0 0,
        FieldDescriptor 0x03 ''supportsAirPlayName'' FT_Bool False 0 0,
        FieldDescriptor 0x04 ''supportsStopSession'' FT_Bool False 0 0,
        FieldDescriptor 0x05 ''backendTypes'' FT_Array False 0 0]),
     (''kCastAudioCapabilityFields'', [FieldDescriptor 0x01 ''defaultEnabled'' FT_Bool False 0 0,
        FieldDescriptor 0x02 ''supportsMute'' FT_Bool False 0 0,
        FieldDescriptor 0x03 ''reportsEffectivePlayback'' FT_Bool False 0 0,
        FieldDescriptor 0x04 ''supportsAudioDelay'' FT_Bool False 0 0,
        FieldDescriptor 0x05 ''defaultAudioDelayMs'' FT_Uint32 False 0 1000,
        FieldDescriptor 0x06 ''maxAudioDelayMs'' FT_Uint32 False 0 0]),
     (''kCastPinCodeCapabilityFields'', [FieldDescriptor 0x01 ''defaultEnabled'' FT_Bool False 0 0,
        FieldDescriptor 0x02 ''supportsPlaintextResponse'' FT_Bool False 0 0,
        FieldDescriptor 0x03 ''supportedPinDisplays'' FT_Array False 0 0,
        FieldDescriptor 0x04 ''supportsGeneratedPin'' FT_Bool False 0 0,
        FieldDescriptor 0x05 ''redactionRequired'' FT_Bool False 0 0]),
     (''kCastWindowCapabilityFields'', [FieldDescriptor 0x01 ''supportsFullscreen'' FT_Bool False 0 0,
        FieldDescriptor 0x02 ''supportsAlwaysOnTop'' FT_Bool False 0 0,
        FieldDescriptor 0x03 ''supportsNormalRestore'' FT_Bool False 0 0,
        FieldDescriptor 0x04 ''noWindowPolicy'' FT_Enum False 0 0]),
     (''kCastBackendCapabilityFields'', [FieldDescriptor 0x01 ''backendTypes'' FT_Array True 0 0,
        FieldDescriptor 0x02 ''supportsRestart'' FT_Bool False 0 0,
        FieldDescriptor 0x03 ''reportsProcess'' FT_Bool False 0 0,
        FieldDescriptor 0x04 ''supportsLastError'' FT_Bool False 0 0]),
     (''kCastFlowControlCapabilityFields'', [FieldDescriptor 0x01 ''supportsRenderFps'' FT_Bool False 0 0,
        FieldDescriptor 0x02 ''supportsQueuePolicy'' FT_Bool False 0 0,
        FieldDescriptor 0x03 ''supportsOverlay'' FT_Bool False 0 0,
        FieldDescriptor 0x04 ''supportsStats'' FT_Bool False 0 0,
        FieldDescriptor 0x05 ''exposesExternalKeyframeRequest'' FT_Bool False 0 0,
        FieldDescriptor 0x06 ''supportsVideoStreamParams'' FT_Bool False 0 0,
        FieldDescriptor 0x07 ''supportsActiveVideoReconfigure'' FT_Bool False 0 0,
        FieldDescriptor 0x08 ''supportedVideoStreamProfiles'' FT_Array False 0 0,
        FieldDescriptor 0x09 ''supportedVideoEncoders'' FT_Array False 0 0,
        FieldDescriptor 0x0A ''supportsSourceSpecificVideoParams'' FT_Bool False 0 0])]"

definition fields_10 :: "(string \<times> field_descriptor list) list" where
  "fields_10 = [
     (''kCastStatusCapabilityFields'', [FieldDescriptor 0x01 ''sections'' FT_Array True 0 0,
        FieldDescriptor 0x02 ''supportsSensitiveRedaction'' FT_Bool False 0 0,
        FieldDescriptor 0x03 ''supportedControlVersions'' FT_Array False 0 0,
        FieldDescriptor 0x04 ''supportsAtomicUnifiedSnapshot'' FT_Bool False 0 0]),
     (''kCastSessionRefFields'', [FieldDescriptor 0x01 ''id'' FT_String True 0 0, FieldDescriptor 0x02 ''generation'' FT_String True 0 0]),
     (''kCastControlTargetFields'', [FieldDescriptor 0x01 ''session'' FT_Object True 0 0, FieldDescriptor 0x02 ''slotId'' FT_Uint32 True 0 0,
        FieldDescriptor 0x03 ''bindingGeneration'' FT_String True 0 0,
        FieldDescriptor 0x04 ''lifecycleGeneration'' FT_String True 0 0]),
     (''kCastControlSnapshotCursorFields'', [FieldDescriptor 0x01 ''controlVersion'' FT_Uint32 True 0 0,
        FieldDescriptor 0x02 ''runtimeInstanceId'' FT_String True 0 0,
        FieldDescriptor 0x03 ''revision'' FT_String True 0 0, FieldDescriptor 0x04 ''eventSequence'' FT_String True 0 0]),
     (''kCastControlEventContextFields'', [FieldDescriptor 0x01 ''controlVersion'' FT_Uint32 True 0 0,
        FieldDescriptor 0x02 ''runtimeInstanceId'' FT_String True 0 0,
        FieldDescriptor 0x03 ''revision'' FT_String True 0 0, FieldDescriptor 0x04 ''eventSequence'' FT_String True 0 0,
        FieldDescriptor 0x05 ''batchId'' FT_String True 0 0, FieldDescriptor 0x06 ''partIndex'' FT_Uint32 True 0 0,
        FieldDescriptor 0x07 ''partCount'' FT_Uint32 True 1 0]),
     (''kCastControlCapabilitiesFields'', [FieldDescriptor 0x01 ''supportedControlVersions'' FT_Array True 0 0,
        FieldDescriptor 0x02 ''runtimeInstanceId'' FT_String True 0 0,
        FieldDescriptor 0x03 ''methods'' FT_Array True 0 0, FieldDescriptor 0x04 ''events'' FT_Array True 0 0,
        FieldDescriptor 0x05 ''statusSections'' FT_Array True 0 0,
        FieldDescriptor 0x06 ''presentation'' FT_Object False 0 0,
        FieldDescriptor 0x07 ''audioPolicy'' FT_Object False 0 0,
        FieldDescriptor 0x08 ''operations'' FT_Object False 0 0,
        FieldDescriptor 0x09 ''profileHints'' FT_Array False 0 0,
        FieldDescriptor 0x0A ''presentationSettings'' FT_Object False 0 0,
        FieldDescriptor 0x0B ''webcastBackend'' FT_Object False 0 0,
        FieldDescriptor 0x0C ''meetingPresentation'' FT_Object False 0 0,
        FieldDescriptor 0x0D ''airplayControl'' FT_Object False 0 0]),
     (''kCastPresentationCapabilityFields'', [FieldDescriptor 0x01 ''protocols'' FT_Array True 0 0,
        FieldDescriptor 0x02 ''supportsAtomicSnapshot'' FT_Bool True 0 0,
        FieldDescriptor 0x03 ''supportsStrictTargets'' FT_Bool True 0 0,
        FieldDescriptor 0x04 ''maxPresentationCapacity'' FT_Uint32 True 1 0,
        FieldDescriptor 0x05 ''capacityChoices'' FT_Array False 0 0,
        FieldDescriptor 0x06 ''layoutModes'' FT_Array True 0 0,
        FieldDescriptor 0x07 ''contentAdaptations'' FT_Array True 0 0]),
     (''kCastAudioPolicyCapabilityFields'', [FieldDescriptor 0x01 ''controlModes'' FT_Array True 0 0, FieldDescriptor 0x02 ''mixModes'' FT_Array True 0 0,
        FieldDescriptor 0x03 ''supportsPerSessionEnable'' FT_Bool True 0 0,
        FieldDescriptor 0x04 ''reportsEffectiveSet'' FT_Bool True 0 0,
        FieldDescriptor 0x05 ''supportsMasterMute'' FT_Bool False 0 0]),
     (''kCastControlOperationsCapabilityFields'', [FieldDescriptor 0x01 ''supportsQuery'' FT_Bool True 0 0,
        FieldDescriptor 0x02 ''supportsDedup'' FT_Bool True 0 0, FieldDescriptor 0x03 ''limits'' FT_Object True 0 0]),
     (''kCastControlLimitsFields'', [FieldDescriptor 0x01 ''maxPendingOperations'' FT_Uint32 True 1 0,
        FieldDescriptor 0x02 ''maxPendingPerClient'' FT_Uint32 True 1 0,
        FieldDescriptor 0x03 ''maxRetainedResults'' FT_Uint32 True 1 0,
        FieldDescriptor 0x04 ''replayWindowMs'' FT_Uint32 True 1 0,
        FieldDescriptor 0x05 ''maxEventBufferEvents'' FT_Uint32 True 1 0,
        FieldDescriptor 0x06 ''maxEventBufferBytes'' FT_Uint32 True 1 0,
        FieldDescriptor 0x07 ''maxRequestBytes'' FT_Uint32 True 1 0,
        FieldDescriptor 0x08 ''maxSnapshotBytes'' FT_Uint32 True 1 0]),
     (''kCastReceiverStateFields'', [FieldDescriptor 0x01 ''receiverId'' FT_String True 0 0, FieldDescriptor 0x02 ''protocol'' FT_Enum True 0 0,
        FieldDescriptor 0x03 ''state'' FT_Enum True 0 0, FieldDescriptor 0x04 ''observedAt'' FT_String True 0 0,
        FieldDescriptor 0x05 ''displayName'' FT_String False 0 0, FieldDescriptor 0x06 ''lastError'' FT_Object False 0 0]),
     (''kCastMultiSessionStateFields'', [FieldDescriptor 0x01 ''session'' FT_Object True 0 0, FieldDescriptor 0x02 ''receiverId'' FT_String True 0 0,
        FieldDescriptor 0x03 ''protocol'' FT_Enum True 0 0, FieldDescriptor 0x04 ''receiverState'' FT_Enum True 0 0,
        FieldDescriptor 0x05 ''presentationEligibility'' FT_Enum True 0 0,
        FieldDescriptor 0x06 ''videoTrackOpen'' FT_Bool True 0 0,
        FieldDescriptor 0x07 ''audioTrackOpen'' FT_Bool True 0 0,
        FieldDescriptor 0x08 ''audioReadiness'' FT_Enum False 0 0,
        FieldDescriptor 0x09 ''displayName'' FT_String False 0 0]),
     (''kCastPresentationSlotStateFields'', [FieldDescriptor 0x01 ''slotId'' FT_Uint32 True 0 0,
        FieldDescriptor 0x02 ''bindingGeneration'' FT_String True 0 0,
        FieldDescriptor 0x03 ''occupied'' FT_Bool True 0 0, FieldDescriptor 0x04 ''target'' FT_Object False 0 0]),
     (''kCastPresentationStateFields'', [FieldDescriptor 0x01 ''started'' FT_Bool True 0 0,
        FieldDescriptor 0x02 ''lifecycleGeneration'' FT_String True 0 0,
        FieldDescriptor 0x03 ''configuredCapacity'' FT_Uint32 True 1 0,
        FieldDescriptor 0x04 ''validationAvailable'' FT_Bool True 0 0,
        FieldDescriptor 0x05 ''validatedCapacity'' FT_Uint32 False 1 0,
        FieldDescriptor 0x06 ''effectiveCapacity'' FT_Uint32 True 0 0,
        FieldDescriptor 0x07 ''appliedCapacity'' FT_Uint32 True 0 0,
        FieldDescriptor 0x08 ''layoutMode'' FT_Enum True 0 0, FieldDescriptor 0x09 ''layoutSettling'' FT_Bool True 0 0,
        FieldDescriptor 0x0A ''slots'' FT_Array True 0 0, FieldDescriptor 0x0B ''meeting'' FT_Object False 0 0,
        FieldDescriptor 0x0C ''contentAdaptation'' FT_Enum True 0 0])]"

definition fields_11 :: "(string \<times> field_descriptor list) list" where
  "fields_11 = [
     (''kCastAudioPolicyStateFields'', [FieldDescriptor 0x01 ''controlMode'' FT_Enum True 0 0, FieldDescriptor 0x02 ''mixMode'' FT_Enum True 0 0,
        FieldDescriptor 0x03 ''enabledSessions'' FT_Array True 0 0,
        FieldDescriptor 0x04 ''effectiveAudioSessions'' FT_Array True 0 0,
        FieldDescriptor 0x05 ''appliedGains'' FT_Array False 0 0, FieldDescriptor 0x06 ''masterMuted'' FT_Bool True 0 0]),
     (''kCastStopPresentationParamsFields'', [FieldDescriptor 0x01 ''controlVersion'' FT_Uint32 True 0 0,
        FieldDescriptor 0x02 ''runtimeInstanceId'' FT_String True 0 0,
        FieldDescriptor 0x03 ''clientInstanceId'' FT_String True 0 0,
        FieldDescriptor 0x04 ''commandId'' FT_String True 0 0, FieldDescriptor 0x05 ''target'' FT_Object True 0 0,
        FieldDescriptor 0x06 ''reason'' FT_String False 0 0]),
     (''kCastSetSessionAudioEnabledParamsFields'', [FieldDescriptor 0x01 ''controlVersion'' FT_Uint32 True 0 0,
        FieldDescriptor 0x02 ''runtimeInstanceId'' FT_String True 0 0,
        FieldDescriptor 0x03 ''clientInstanceId'' FT_String True 0 0,
        FieldDescriptor 0x04 ''commandId'' FT_String True 0 0, FieldDescriptor 0x05 ''target'' FT_Object True 0 0,
        FieldDescriptor 0x06 ''enabled'' FT_Bool True 0 0]),
     (''kCastGetControlOperationParamsFields'', [FieldDescriptor 0x01 ''controlVersion'' FT_Uint32 True 0 0,
        FieldDescriptor 0x02 ''runtimeInstanceId'' FT_String True 0 0,
        FieldDescriptor 0x03 ''clientInstanceId'' FT_String True 0 0,
        FieldDescriptor 0x04 ''commandId'' FT_String True 0 0]),
     (''kCastControlOperationFields'', [FieldDescriptor 0x01 ''operationId'' FT_String True 0 0,
        FieldDescriptor 0x02 ''runtimeInstanceId'' FT_String True 0 0,
        FieldDescriptor 0x03 ''clientInstanceId'' FT_String True 0 0,
        FieldDescriptor 0x04 ''commandId'' FT_String True 0 0, FieldDescriptor 0x05 ''kind'' FT_Enum True 0 0,
        FieldDescriptor 0x06 ''state'' FT_Enum True 0 0, FieldDescriptor 0x07 ''submittedAt'' FT_String True 0 0,
        FieldDescriptor 0x08 ''target'' FT_Object False 0 0, FieldDescriptor 0x09 ''completedAt'' FT_String False 0 0,
        FieldDescriptor 0x0A ''appliedRevision'' FT_String False 0 0,
        FieldDescriptor 0x0B ''statusCode'' FT_Uint32 False 0 0,
        FieldDescriptor 0x0C ''outcomeReason'' FT_String False 0 0,
        FieldDescriptor 0x0D ''ownerCleanup'' FT_Enum False 0 0,
        FieldDescriptor 0x0E ''settingsResult'' FT_Object False 0 0]),
     (''kCastSetPresentationSettingsParamsFields'', [FieldDescriptor 0x01 ''controlVersion'' FT_Uint32 True 0 0,
        FieldDescriptor 0x02 ''runtimeInstanceId'' FT_String True 0 0,
        FieldDescriptor 0x03 ''clientInstanceId'' FT_String True 0 0,
        FieldDescriptor 0x04 ''commandId'' FT_String True 0 0,
        FieldDescriptor 0x05 ''expectedSettingsRevision'' FT_String True 0 0,
        FieldDescriptor 0x06 ''patch'' FT_Object True 0 0, FieldDescriptor 0x07 ''persist'' FT_Bool True 0 0]),
     (''kCastPresentationSettingsPatchFields'', [FieldDescriptor 0x01 ''layoutMode'' FT_Enum False 0 0,
        FieldDescriptor 0x02 ''audioControlMode'' FT_Enum False 0 0,
        FieldDescriptor 0x03 ''audioMixMode'' FT_Enum False 0 0, FieldDescriptor 0x04 ''capacity'' FT_Uint32 False 1 0,
        FieldDescriptor 0x05 ''enabledProtocols'' FT_Array False 0 0,
        FieldDescriptor 0x06 ''profileHint'' FT_String False 0 0,
        FieldDescriptor 0x07 ''contentAdaptation'' FT_Enum False 0 0,
        FieldDescriptor 0x08 ''presentationMode'' FT_Enum False 0 0,
        FieldDescriptor 0x09 ''presentationSidebar'' FT_Enum False 0 0,
        FieldDescriptor 0x0A ''presentationAudioFollow'' FT_Bool False 0 0,
        FieldDescriptor 0x0B ''presentationFocusOnDoubleClick'' FT_Bool False 0 0,
        FieldDescriptor 0x0C ''presentationGridOnDoubleClick'' FT_Bool False 0 0,
        FieldDescriptor 0x0D ''presentationAutoEnter'' FT_Bool False 0 0]),
     (''kCastPresentationSettingsValuesFields'', [FieldDescriptor 0x01 ''layoutMode'' FT_Enum False 0 0,
        FieldDescriptor 0x02 ''audioControlMode'' FT_Enum False 0 0,
        FieldDescriptor 0x03 ''audioMixMode'' FT_Enum False 0 0, FieldDescriptor 0x04 ''capacity'' FT_Uint32 False 1 0,
        FieldDescriptor 0x05 ''enabledProtocols'' FT_Array False 0 0,
        FieldDescriptor 0x06 ''profileHint'' FT_String False 0 0,
        FieldDescriptor 0x07 ''contentAdaptation'' FT_Enum False 0 0,
        FieldDescriptor 0x08 ''presentationMode'' FT_Enum False 0 0,
        FieldDescriptor 0x09 ''presentationSidebar'' FT_Enum False 0 0,
        FieldDescriptor 0x0A ''presentationAudioFollow'' FT_Bool False 0 0,
        FieldDescriptor 0x0B ''presentationFocusOnDoubleClick'' FT_Bool False 0 0,
        FieldDescriptor 0x0C ''presentationGridOnDoubleClick'' FT_Bool False 0 0,
        FieldDescriptor 0x0D ''presentationAutoEnter'' FT_Bool False 0 0])]"

definition fields_12 :: "(string \<times> field_descriptor list) list" where
  "fields_12 = [
     (''kCastPresentationStartupSettingsFields'', [FieldDescriptor 0x01 ''layoutMode'' FT_Enum False 0 0,
        FieldDescriptor 0x02 ''audioControlMode'' FT_Enum False 0 0,
        FieldDescriptor 0x03 ''audioMixMode'' FT_Enum False 0 0, FieldDescriptor 0x04 ''capacity'' FT_Uint32 False 1 0,
        FieldDescriptor 0x05 ''enabledProtocols'' FT_Array False 0 0,
        FieldDescriptor 0x06 ''profileHint'' FT_String False 0 0,
        FieldDescriptor 0x07 ''contentAdaptation'' FT_Enum False 0 0,
        FieldDescriptor 0x08 ''presentationMode'' FT_Enum False 0 0,
        FieldDescriptor 0x09 ''presentationSidebar'' FT_Enum False 0 0,
        FieldDescriptor 0x0A ''presentationAudioFollow'' FT_Bool False 0 0,
        FieldDescriptor 0x0B ''presentationFocusOnDoubleClick'' FT_Bool False 0 0,
        FieldDescriptor 0x0C ''presentationGridOnDoubleClick'' FT_Bool False 0 0,
        FieldDescriptor 0x0D ''presentationAutoEnter'' FT_Bool False 0 0]),
     (''kCastPresentationSettingsStateFields'', [FieldDescriptor 0x01 ''settingsRevision'' FT_String True 0 0,
        FieldDescriptor 0x02 ''settingsEventSequence'' FT_String True 0 0,
        FieldDescriptor 0x03 ''configured'' FT_Object True 0 0, FieldDescriptor 0x04 ''applied'' FT_Object True 0 0,
        FieldDescriptor 0x05 ''activeStartup'' FT_Object True 0 0,
        FieldDescriptor 0x06 ''pendingRestart'' FT_Array True 0 0, FieldDescriptor 0x07 ''persisted'' FT_Bool True 0 0,
        FieldDescriptor 0x08 ''unsavedFields'' FT_Array True 0 0,
        FieldDescriptor 0x09 ''unappliedFields'' FT_Array True 0 0,
        FieldDescriptor 0x0A ''storageState'' FT_Enum True 0 0, FieldDescriptor 0x0B ''lockedFields'' FT_Array True 0 0,
        FieldDescriptor 0x0C ''applicationIssues'' FT_Array True 0 0,
        FieldDescriptor 0x0D ''persistedValues'' FT_Object False 0 0,
        FieldDescriptor 0x0E ''storeRevision'' FT_String False 0 0,
        FieldDescriptor 0x0F ''appliedControlRevision'' FT_String False 0 0,
        FieldDescriptor 0x10 ''persistError'' FT_String False 0 0]),
     (''kCastPresentationSettingIssueFields'', [FieldDescriptor 0x01 ''field'' FT_String True 0 0, FieldDescriptor 0x02 ''kind'' FT_Enum True 0 0,
        FieldDescriptor 0x03 ''reason'' FT_String False 0 0, FieldDescriptor 0x04 ''statusCode'' FT_Uint32 False 0 0]),
     (''kCastPresentationSettingsCapabilityFields'', [FieldDescriptor 0x01 ''fields'' FT_Array True 0 0, FieldDescriptor 0x02 ''liveFields'' FT_Array True 0 0,
        FieldDescriptor 0x03 ''restartOnlyFields'' FT_Array True 0 0,
        FieldDescriptor 0x04 ''supportsPersistence'' FT_Bool True 0 0,
        FieldDescriptor 0x05 ''capacityChoices'' FT_Array False 0 0,
        FieldDescriptor 0x06 ''layoutModes'' FT_Array False 0 0,
        FieldDescriptor 0x0A ''contentAdaptations'' FT_Array False 0 0,
        FieldDescriptor 0x07 ''profileHints'' FT_Array False 0 0,
        FieldDescriptor 0x08 ''minEnabledProtocols'' FT_Uint32 False 0 0]),
     (''kCastPresentationSettingsOperationResultFields'', [FieldDescriptor 0x01 ''field'' FT_String True 0 0, FieldDescriptor 0x02 ''settingsRevision'' FT_String True 0 0,
        FieldDescriptor 0x03 ''configurationStatus'' FT_Enum True 0 0,
        FieldDescriptor 0x04 ''applicationStatus'' FT_Enum True 0 0,
        FieldDescriptor 0x05 ''persistenceStatus'' FT_Enum True 0 0,
        FieldDescriptor 0x06 ''appliedControlRevision'' FT_String False 0 0]),
     (''kCastSettingsEventContextFields'', [FieldDescriptor 0x01 ''controlVersion'' FT_Uint32 True 0 0,
        FieldDescriptor 0x02 ''runtimeInstanceId'' FT_String True 0 0,
        FieldDescriptor 0x03 ''settingsRevision'' FT_String True 0 0,
        FieldDescriptor 0x04 ''settingsEventSequence'' FT_String True 0 0]),
     (''kCastPresentationSettingsChangedEventFields'', [FieldDescriptor 0x01 ''settingsContext'' FT_Object True 0 0,
        FieldDescriptor 0x02 ''settings'' FT_Object True 0 0]),
     (''kCastReceiversChangedEventFields'', [FieldDescriptor 0x01 ''context'' FT_Object True 0 0, FieldDescriptor 0x02 ''receivers'' FT_Array True 0 0]),
     (''kCastSessionsChangedEventFields'', [FieldDescriptor 0x01 ''context'' FT_Object True 0 0, FieldDescriptor 0x02 ''sessions'' FT_Array True 0 0]),
     (''kCastPresentationChangedEventFields'', [FieldDescriptor 0x01 ''context'' FT_Object True 0 0, FieldDescriptor 0x02 ''presentation'' FT_Object True 0 0]),
     (''kCastAudioPolicyChangedEventFields'', [FieldDescriptor 0x01 ''context'' FT_Object True 0 0, FieldDescriptor 0x02 ''audioPolicy'' FT_Object True 0 0]),
     (''kCastControlOperationChangedEventFields'', [FieldDescriptor 0x01 ''context'' FT_Object True 0 0, FieldDescriptor 0x02 ''operation'' FT_Object True 0 0]),
     (''kCastGetWebCastBackendStateParamsFields'', [FieldDescriptor 0x01 ''controlVersion'' FT_Uint32 True 0 0]),
     (''kCastWebCastBackendContextFields'', [FieldDescriptor 0x01 ''controlVersion'' FT_Uint32 True 0 0,
        FieldDescriptor 0x02 ''runtimeInstanceId'' FT_String True 0 0,
        FieldDescriptor 0x03 ''backendRevision'' FT_String True 0 0,
        FieldDescriptor 0x04 ''backendEventSequence'' FT_String True 0 0]),
     (''kCastWebCastSignalingStateFields'', [FieldDescriptor 0x01 ''state'' FT_Enum True 0 0, FieldDescriptor 0x02 ''transportConnected'' FT_Bool True 0 0,
        FieldDescriptor 0x03 ''retainedPeerCount'' FT_Uint32 True 0 0,
        FieldDescriptor 0x04 ''connectedPeerCount'' FT_Uint32 True 0 0,
        FieldDescriptor 0x05 ''lastNetworkError'' FT_Uint32 False 0 0])]"

definition fields_13 :: "(string \<times> field_descriptor list) list" where
  "fields_13 = [
     (''kCastWebCastLocalBackendStateFields'', [FieldDescriptor 0x01 ''fallbackEnabled'' FT_Bool True 0 0,
        FieldDescriptor 0x02 ''serviceState'' FT_Enum True 0 0,
        FieldDescriptor 0x03 ''servicePort'' FT_Uint32 False 1 65535,
        FieldDescriptor 0x04 ''startAttempts'' FT_String True 0 0,
        FieldDescriptor 0x05 ''lastStartError'' FT_Uint32 False 0 0,
        FieldDescriptor 0x06 ''signaling'' FT_Object True 0 0]),
     (''kCastWebCastBackendStateFields'', [FieldDescriptor 0x01 ''enabled'' FT_Bool True 0 0, FieldDescriptor 0x02 ''state'' FT_Enum True 0 0,
        FieldDescriptor 0x03 ''selectedBackend'' FT_Enum True 0 0, FieldDescriptor 0x04 ''cloud'' FT_Object True 0 0,
        FieldDescriptor 0x05 ''local'' FT_Object True 0 0]),
     (''kCastWebCastBackendSnapshotFields'', [FieldDescriptor 0x01 ''backendContext'' FT_Object True 0 0, FieldDescriptor 0x02 ''state'' FT_Object True 0 0]),
     (''kCastWebCastBackendCapabilityFields'', [FieldDescriptor 0x01 ''supportsSnapshot'' FT_Bool True 0 0,
        FieldDescriptor 0x02 ''supportsEvents'' FT_Bool True 0 0,
        FieldDescriptor 0x03 ''backendTypes'' FT_Array True 0 0, FieldDescriptor 0x04 ''sequenceModel'' FT_Enum True 0 0]),
     (''kCastMeetingPresentationStateFields'', [FieldDescriptor 0x02 ''mode'' FT_Enum True 0 0, FieldDescriptor 0x03 ''sidebar'' FT_Enum True 0 0,
        FieldDescriptor 0x04 ''audioFollow'' FT_Bool True 0 0, FieldDescriptor 0x05 ''revision'' FT_String True 0 0,
        FieldDescriptor 0x07 ''primary'' FT_Object False 0 0, FieldDescriptor 0x08 ''sidebarPage'' FT_Uint32 True 0 0,
        FieldDescriptor 0x09 ''sidebarPageCount'' FT_Uint32 True 1 0,
        FieldDescriptor 0x0A ''mainSharePermille'' FT_Uint32 True 0 0,
        FieldDescriptor 0x0B ''audioFollowActive'' FT_Bool True 0 0, FieldDescriptor 0x0C ''view'' FT_Enum False 0 0,
        FieldDescriptor 0x0D ''focusOnDoubleClick'' FT_Bool False 0 0,
        FieldDescriptor 0x0E ''gridOnDoubleClick'' FT_Bool False 0 0,
        FieldDescriptor 0x0F ''autoEnter'' FT_Bool False 0 0,
        FieldDescriptor 0x10 ''autoEnterSuppressed'' FT_Bool False 0 0]),
     (''kCastSetPresentationFocusParamsFields'', [FieldDescriptor 0x01 ''controlVersion'' FT_Uint32 True 0 0,
        FieldDescriptor 0x02 ''runtimeInstanceId'' FT_String True 0 0,
        FieldDescriptor 0x03 ''clientInstanceId'' FT_String True 0 0,
        FieldDescriptor 0x04 ''commandId'' FT_String True 0 0, FieldDescriptor 0x05 ''target'' FT_Object True 0 0,
        FieldDescriptor 0x06 ''expectedMeetingRevision'' FT_String True 0 0,
        FieldDescriptor 0x07 ''display'' FT_Enum True 0 0, FieldDescriptor 0x08 ''sidebarPage'' FT_Uint32 False 0 0]),
     (''kCastMeetingAudioGainFields'', [FieldDescriptor 0x01 ''session'' FT_Object True 0 0, FieldDescriptor 0x02 ''gainPpm'' FT_Uint32 True 0 0]),
     (''kCastMeetingPresentationCapabilityFields'', [FieldDescriptor 0x01 ''modes'' FT_Array True 0 0, FieldDescriptor 0x02 ''sidebars'' FT_Array True 0 0,
        FieldDescriptor 0x03 ''mainSharePermille'' FT_Uint32 True 0 0,
        FieldDescriptor 0x04 ''supportsAudioFollow'' FT_Bool True 0 0,
        FieldDescriptor 0x05 ''supportsPaging'' FT_Bool True 0 0,
        FieldDescriptor 0x06 ''supportsFocusView'' FT_Bool False 0 0]),
     (''kCastAirPlayControlCapabilityFields'', [FieldDescriptor 0x01 ''supportsEvents'' FT_Bool True 0 0,
        FieldDescriptor 0x02 ''supportsLiveRename'' FT_Bool True 0 0,
        FieldDescriptor 0x03 ''passwordPolicy'' FT_Enum True 0 0]),
     (''kCastAirPlayAuthenticationAttemptFields'', [FieldDescriptor 0x01 ''attemptId'' FT_String True 0 0, FieldDescriptor 0x02 ''challengeId'' FT_String True 0 0,
        FieldDescriptor 0x03 ''displayRequestId'' FT_String True 0 0, FieldDescriptor 0x04 ''state'' FT_Enum True 0 0,
        FieldDescriptor 0x05 ''reason'' FT_String False 0 0]),
     (''kCastAirPlayControlStateFields'', [FieldDescriptor 0x01 ''enabled'' FT_Bool True 0 0, FieldDescriptor 0x02 ''displayName'' FT_String True 0 0,
        FieldDescriptor 0x03 ''publishState'' FT_Enum True 0 0,
        FieldDescriptor 0x04 ''randomPasswordEnabled'' FT_Bool True 0 0,
        FieldDescriptor 0x05 ''attempts'' FT_Array True 0 0,
        FieldDescriptor 0x06 ''observationDrops'' FT_String False 0 0]),
     (''kCastAirPlayChangedEventFields'', [FieldDescriptor 0x01 ''context'' FT_Object True 0 0, FieldDescriptor 0x02 ''airplay'' FT_Object True 0 0]),
     (''kGetDeviceInfoParamsFields'', [FieldDescriptor 0x01 ''includeCapabilitySummary'' FT_Bool False 0 0]),
     (''kDeviceInfoFields'', [FieldDescriptor 0x01 ''identity'' FT_Object True 0 0, FieldDescriptor 0x02 ''product'' FT_Object True 0 0,
        FieldDescriptor 0x03 ''hardware'' FT_Object False 0 0, FieldDescriptor 0x04 ''os'' FT_Object False 0 0,
        FieldDescriptor 0x05 ''software'' FT_Object False 0 0, FieldDescriptor 0x06 ''runtime'' FT_Object False 0 0,
        FieldDescriptor 0x07 ''capability'' FT_Object False 0 0]),
     (''kDeviceIdentityFields'', [FieldDescriptor 0x01 ''deviceId'' FT_String True 0 0, FieldDescriptor 0x02 ''serialNumber'' FT_String False 0 0,
        FieldDescriptor 0x03 ''vendorId'' FT_String False 0 0, FieldDescriptor 0x04 ''productId'' FT_String False 0 0]),
     (''kDeviceProductFields'', [FieldDescriptor 0x01 ''brand'' FT_String False 0 0, FieldDescriptor 0x02 ''productType'' FT_Enum True 0 0,
        FieldDescriptor 0x03 ''model'' FT_String True 0 0, FieldDescriptor 0x04 ''displayName'' FT_String False 0 0])]"

definition fields_14 :: "(string \<times> field_descriptor list) list" where
  "fields_14 = [
     (''kDeviceHardwareFields'', [FieldDescriptor 0x01 ''revision'' FT_String False 0 0, FieldDescriptor 0x02 ''cpuArch'' FT_Enum False 0 0,
        FieldDescriptor 0x03 ''memoryBytes'' FT_Uint64 False 0 0]),
     (''kDeviceOsFields'', [FieldDescriptor 0x01 ''type'' FT_Enum True 0 0, FieldDescriptor 0x02 ''name'' FT_String False 0 0,
        FieldDescriptor 0x03 ''version'' FT_String False 0 0, FieldDescriptor 0x04 ''arch'' FT_Enum False 0 0]),
     (''kDeviceSoftwareFields'', [FieldDescriptor 0x01 ''components'' FT_Array False 0 0]),
     (''kSoftwareComponentFields'', [FieldDescriptor 0x01 ''id'' FT_String True 0 0, FieldDescriptor 0x02 ''name'' FT_String False 0 0,
        FieldDescriptor 0x03 ''version'' FT_String False 0 0, FieldDescriptor 0x04 ''role'' FT_Enum False 0 0]),
     (''kDeviceAxtpRuntimeFields'', [FieldDescriptor 0x01 ''axtpRuntime'' FT_String False 0 0,
        FieldDescriptor 0x02 ''axtpRuntimeVersion'' FT_String False 0 0,
        FieldDescriptor 0x03 ''hostAppId'' FT_String False 0 0]),
     (''kDeviceCapabilitySummaryFields'', [FieldDescriptor 0x01 ''domains'' FT_Array False 0 0, FieldDescriptor 0x02 ''features'' FT_Array False 0 0,
        FieldDescriptor 0x03 ''profiles'' FT_Array False 0 0]),
     (''kDeviceInfoCapabilityFields'', [FieldDescriptor 0x01 ''readOnly'' FT_Bool True 0 0,
        FieldDescriptor 0x02 ''supportsCapabilitySummary'' FT_Bool False 0 0,
        FieldDescriptor 0x03 ''identityMerged'' FT_Bool False 0 0]),
     (''kDeviceGetPairingCodeParamsFields'', [FieldDescriptor 0x01 ''refresh'' FT_Bool False 0 0, FieldDescriptor 0x02 ''purpose'' FT_Enum False 0 0]),
     (''kDevicePairingCodeInfoFields'', [FieldDescriptor 0x01 ''code'' FT_String True 0 0, FieldDescriptor 0x02 ''expiresAt'' FT_String False 0 0,
        FieldDescriptor 0x03 ''expiresInSeconds'' FT_Uint32 False 1 0, FieldDescriptor 0x04 ''state'' FT_Enum False 0 0]),
     (''kDeviceGetEnrollmentStateParamsFields'', [FieldDescriptor 0x01 ''includeEndpoint'' FT_Bool False 0 0]),
     (''kDeviceEnrollmentInfoFields'', [FieldDescriptor 0x01 ''state'' FT_Enum True 0 0, FieldDescriptor 0x02 ''deviceId'' FT_String False 0 0,
        FieldDescriptor 0x03 ''workspaceId'' FT_String False 0 0, FieldDescriptor 0x04 ''endpoint'' FT_Object False 0 0,
        FieldDescriptor 0x05 ''enrolledAt'' FT_String False 0 0, FieldDescriptor 0x06 ''updatedAt'' FT_String False 0 0,
        FieldDescriptor 0x07 ''message'' FT_String False 0 0]),
     (''kDeviceEnrollmentEndpointSummaryFields'', [FieldDescriptor 0x01 ''endpointId'' FT_String True 0 0, FieldDescriptor 0x02 ''type'' FT_Enum True 0 0,
        FieldDescriptor 0x03 ''displayName'' FT_String False 0 0,
        FieldDescriptor 0x04 ''profileId'' FT_String False 0 0, FieldDescriptor 0x05 ''workspaceId'' FT_String False 0 0]),
     (''kDeviceSetEnrollmentStateParamsFields'', [FieldDescriptor 0x01 ''desiredState'' FT_Enum True 0 0, FieldDescriptor 0x02 ''reason'' FT_Enum False 0 0,
        FieldDescriptor 0x03 ''endpoint'' FT_Object False 0 0, FieldDescriptor 0x04 ''message'' FT_String False 0 0]),
     (''kDeviceSetEnrollmentStateResultFields'', [FieldDescriptor 0x01 ''state'' FT_Object True 0 0, FieldDescriptor 0x02 ''disconnectExpected'' FT_Bool False 0 0]),
     (''kDeviceEnrollmentStateChangedEventFields'', [FieldDescriptor 0x01 ''state'' FT_Object True 0 0, FieldDescriptor 0x02 ''previousState'' FT_Enum False 0 0,
        FieldDescriptor 0x03 ''reason'' FT_Enum False 0 0, FieldDescriptor 0x04 ''triggerMethod'' FT_Enum False 0 0,
        FieldDescriptor 0x05 ''triggerId'' FT_String False 0 0])]"

definition fields_15 :: "(string \<times> field_descriptor list) list" where
  "fields_15 = [
     (''kDeviceEnrollmentCapabilityFields'', [FieldDescriptor 0x01 ''supportsPairingCode'' FT_Bool False 0 0,
        FieldDescriptor 0x02 ''pairingCodeTtlSeconds'' FT_Uint32 False 0 0,
        FieldDescriptor 0x03 ''supportsUnenroll'' FT_Bool False 0 0,
        FieldDescriptor 0x04 ''endpointTypes'' FT_Array False 0 0,
        FieldDescriptor 0x05 ''supportedPurposes'' FT_Array False 0 0,
        FieldDescriptor 0x06 ''maxActivePairingCodes'' FT_Uint32 False 0 0,
        FieldDescriptor 0x07 ''pairingCodeLength'' FT_Uint32 False 6 8]),
     (''kFirmwareUpdateCapabilitiesFields'', [FieldDescriptor 0x01 ''supported'' FT_Bool True 0 0,
        FieldDescriptor 0x02 ''supportsMultiFile'' FT_Bool True 0 0,
        FieldDescriptor 0x03 ''streamLayout'' FT_Enum True 0 0, FieldDescriptor 0x04 ''hashAlgorithm'' FT_Enum True 0 0,
        FieldDescriptor 0x05 ''autoReboot'' FT_Bool True 0 0, FieldDescriptor 0x06 ''maxChunkSize'' FT_Uint32 False 0 0,
        FieldDescriptor 0x07 ''devicePolicyVersion'' FT_String False 0 0]),
     (''kBeginUpdateParamsFields'', [FieldDescriptor 0x01 ''manifest'' FT_Object True 0 0]),
     (''kBeginUpdateResultFields'', [FieldDescriptor 0x01 ''updateSessionId'' FT_String True 0 0, FieldDescriptor 0x02 ''state'' FT_Enum True 0 0,
        FieldDescriptor 0x03 ''streams'' FT_Array True 0 0, FieldDescriptor 0x04 ''chunkSize'' FT_Uint32 False 0 0]),
     (''kFinishUpdateParamsFields'', [FieldDescriptor 0x01 ''updateSessionId'' FT_String True 0 0]),
     (''kFinishUpdateResultFields'', [FieldDescriptor 0x01 ''updateSessionId'' FT_String True 0 0, FieldDescriptor 0x02 ''accepted'' FT_Bool True 0 0,
        FieldDescriptor 0x03 ''state'' FT_Enum True 0 0]),
     (''kGetUpdateStateParamsFields'', [FieldDescriptor 0x01 ''updateSessionId'' FT_String True 0 0]),
     (''kFirmwareUpdateManifestFields'', [FieldDescriptor 0x01 ''packageId'' FT_String False 0 0, FieldDescriptor 0x02 ''version'' FT_String False 0 0,
        FieldDescriptor 0x03 ''files'' FT_Array True 0 0,
        FieldDescriptor 0x04 ''devicePolicyVersion'' FT_String False 0 0]),
     (''kFirmwareUpdateFileFields'', [FieldDescriptor 0x01 ''fileId'' FT_String True 0 0, FieldDescriptor 0x02 ''target'' FT_String False 0 0,
        FieldDescriptor 0x03 ''size'' FT_Uint64 True 0 0, FieldDescriptor 0x04 ''md5'' FT_String True 0 0]),
     (''kFirmwareUpdateStreamBindingFields'', [FieldDescriptor 0x01 ''fileId'' FT_String True 0 0, FieldDescriptor 0x02 ''streamId'' FT_Uint32 True 0 0]),
     (''kFirmwareUpdateStateFields'', [FieldDescriptor 0x01 ''updateSessionId'' FT_String True 0 0, FieldDescriptor 0x02 ''state'' FT_Enum True 0 0,
        FieldDescriptor 0x03 ''progress'' FT_Uint8 False 0 100,
        FieldDescriptor 0x04 ''currentFileId'' FT_String False 0 0, FieldDescriptor 0x05 ''error'' FT_Object False 0 0]),
     (''kFirmwareUpdateErrorInfoFields'', [FieldDescriptor 0x01 ''error'' FT_Enum True 0 0, FieldDescriptor 0x02 ''message'' FT_String False 0 0,
        FieldDescriptor 0x03 ''fileId'' FT_String False 0 0]),
     (''kFirmwareUpdateProgressEventFields'', [FieldDescriptor 0x01 ''updateSessionId'' FT_String True 0 0, FieldDescriptor 0x02 ''state'' FT_Enum True 0 0,
        FieldDescriptor 0x03 ''progress'' FT_Uint8 False 0 100, FieldDescriptor 0x04 ''fileId'' FT_String False 0 0]),
     (''kFirmwareUpdateStateChangedEventFields'', [FieldDescriptor 0x01 ''updateSessionId'' FT_String True 0 0, FieldDescriptor 0x02 ''state'' FT_Enum True 0 0,
        FieldDescriptor 0x03 ''error'' FT_Object False 0 0]),
     (''kNetworkGetInterfacesParamsFields'', [FieldDescriptor 0x01 ''includeDisabled'' FT_Bool False 0 0]),
     (''kNetworkGetInterfaceInfoParamsFields'', [FieldDescriptor 0x01 ''interfaceId'' FT_String True 0 0]),
     (''kNetworkInterfacesFields'', [FieldDescriptor 0x01 ''interfaces'' FT_Array True 0 0, FieldDescriptor 0x02 ''defaults'' FT_Object False 0 0]),
     (''kNetworkDefaultInterfaceIdsFields'', [FieldDescriptor 0x01 ''primary'' FT_String False 0 0, FieldDescriptor 0x02 ''wifiSta'' FT_String False 0 0,
        FieldDescriptor 0x03 ''wifiAp'' FT_String False 0 0]),
     (''kNetworkInterfaceSummaryFields'', [FieldDescriptor 0x01 ''interfaceId'' FT_String True 0 0, FieldDescriptor 0x02 ''type'' FT_Enum True 0 0,
        FieldDescriptor 0x03 ''displayName'' FT_String False 0 0, FieldDescriptor 0x04 ''state'' FT_Object False 0 0])]"

definition fields_16 :: "(string \<times> field_descriptor list) list" where
  "fields_16 = [
     (''kNetworkInterfaceInfoFields'', [FieldDescriptor 0x01 ''interfaceId'' FT_String True 0 0, FieldDescriptor 0x02 ''type'' FT_Enum True 0 0,
        FieldDescriptor 0x03 ''macAddress'' FT_String False 0 0, FieldDescriptor 0x04 ''state'' FT_Object False 0 0,
        FieldDescriptor 0x05 ''supportsIpConfig'' FT_Bool False 0 0]),
     (''kNetworkInterfaceStateFields'', [FieldDescriptor 0x01 ''admin'' FT_Enum False 0 0, FieldDescriptor 0x02 ''link'' FT_Enum False 0 0,
        FieldDescriptor 0x03 ''speedMbps'' FT_Uint32 False 0 0]),
     (''kNetworkGetIpConfigParamsFields'', [FieldDescriptor 0x01 ''interfaceId'' FT_String False 0 0, FieldDescriptor 0x02 ''family'' FT_Enum False 0 0]),
     (''kNetworkSetIpConfigParamsFields'', [FieldDescriptor 0x01 ''interfaceId'' FT_String False 0 0, FieldDescriptor 0x02 ''family'' FT_Enum False 0 0,
        FieldDescriptor 0x03 ''config'' FT_Object True 0 0, FieldDescriptor 0x04 ''applyPolicy'' FT_Enum False 0 0]),
     (''kNetworkSetIpConfigResultFields'', [FieldDescriptor 0x01 ''config'' FT_Object True 0 0, FieldDescriptor 0x02 ''applyState'' FT_Enum True 0 0]),
     (''kNetworkIpConfigFields'', [FieldDescriptor 0x01 ''interfaceId'' FT_String True 0 0, FieldDescriptor 0x02 ''family'' FT_Enum False 0 0,
        FieldDescriptor 0x03 ''mode'' FT_Enum True 0 0, FieldDescriptor 0x04 ''address'' FT_String False 0 0,
        FieldDescriptor 0x05 ''prefixLength'' FT_Uint8 False 0 128,
        FieldDescriptor 0x06 ''gateway'' FT_String False 0 0, FieldDescriptor 0x07 ''dns'' FT_Array False 0 0]),
     (''kNetworkGetWifiCapabilitiesParamsFields'', [FieldDescriptor 0x01 ''interfaceId'' FT_String False 0 0]),
     (''kNetworkGetWifiConfigParamsFields'', [FieldDescriptor 0x01 ''interfaceId'' FT_String False 0 0,
        FieldDescriptor 0x02 ''includeProfiles'' FT_Bool False 0 0]),
     (''kNetworkGetWifiStateParamsFields'', [FieldDescriptor 0x01 ''interfaceId'' FT_String False 0 0]),
     (''kNetworkWifiCapabilitiesFields'', [FieldDescriptor 0x01 ''capability'' FT_String True 0 0,
        FieldDescriptor 0x02 ''securityTypes'' FT_Array True 0 0, FieldDescriptor 0x03 ''bands'' FT_Array False 0 0,
        FieldDescriptor 0x04 ''credentialImportModes'' FT_Array True 0 0,
        FieldDescriptor 0x05 ''savedProfilesSupported'' FT_Bool True 0 0,
        FieldDescriptor 0x06 ''scanSupported'' FT_Bool True 0 0,
        FieldDescriptor 0x07 ''autoConnectSupported'' FT_Bool False 0 0]),
     (''kNetworkWifiConfigFields'', [FieldDescriptor 0x01 ''interfaceId'' FT_String False 0 0, FieldDescriptor 0x02 ''profiles'' FT_Array False 0 0,
        FieldDescriptor 0x03 ''defaultProfileId'' FT_String False 0 0]),
     (''kNetworkWifiProfileFields'', [FieldDescriptor 0x01 ''profileId'' FT_String False 0 0, FieldDescriptor 0x02 ''ssid'' FT_String True 0 0,
        FieldDescriptor 0x03 ''bssid'' FT_String False 0 0, FieldDescriptor 0x04 ''securityType'' FT_Enum True 0 0,
        FieldDescriptor 0x05 ''credential'' FT_Object False 0 0, FieldDescriptor 0x06 ''source'' FT_Enum False 0 0,
        FieldDescriptor 0x07 ''persist'' FT_Bool False 0 0]),
     (''kNetworkCredentialFields'', [FieldDescriptor 0x01 ''type'' FT_Enum True 0 0, FieldDescriptor 0x02 ''secretRef'' FT_String False 0 0,
        FieldDescriptor 0x03 ''expiresInSeconds'' FT_Uint32 False 0 0]),
     (''kNetworkSetWifiConfigParamsFields'', [FieldDescriptor 0x01 ''interfaceId'' FT_String False 0 0, FieldDescriptor 0x02 ''profile'' FT_Object True 0 0,
        FieldDescriptor 0x03 ''replaceExisting'' FT_Bool False 0 0,
        FieldDescriptor 0x04 ''makeDefault'' FT_Bool False 0 0,
        FieldDescriptor 0x05 ''connectAfterSave'' FT_Bool False 0 0]),
     (''kNetworkSetWifiConfigResultFields'', [FieldDescriptor 0x01 ''profileId'' FT_String True 0 0, FieldDescriptor 0x02 ''config'' FT_Object False 0 0,
        FieldDescriptor 0x03 ''connectStarted'' FT_Bool False 0 0]),
     (''kNetworkScanWifiParamsFields'', [FieldDescriptor 0x01 ''interfaceId'' FT_String False 0 0,
        FieldDescriptor 0x02 ''ssidFilter'' FT_String False 0 0, FieldDescriptor 0x03 ''timeoutMs'' FT_Uint32 False 0 0])]"

definition fields_17 :: "(string \<times> field_descriptor list) list" where
  "fields_17 = [
     (''kNetworkScanWifiResultFields'', [FieldDescriptor 0x01 ''scanId'' FT_String False 0 0, FieldDescriptor 0x02 ''results'' FT_Array False 0 0,
        FieldDescriptor 0x03 ''complete'' FT_Bool False 0 0]),
     (''kNetworkConnectWifiParamsFields'', [FieldDescriptor 0x01 ''interfaceId'' FT_String False 0 0,
        FieldDescriptor 0x02 ''profileId'' FT_String False 0 0, FieldDescriptor 0x03 ''profile'' FT_Object False 0 0,
        FieldDescriptor 0x04 ''timeoutMs'' FT_Uint32 False 0 0]),
     (''kNetworkDisconnectWifiParamsFields'', [FieldDescriptor 0x01 ''interfaceId'' FT_String False 0 0, FieldDescriptor 0x02 ''reason'' FT_Enum False 0 0]),
     (''kNetworkWifiActionResultFields'', [FieldDescriptor 0x01 ''accepted'' FT_Bool True 0 0, FieldDescriptor 0x02 ''state'' FT_Object True 0 0]),
     (''kNetworkWifiStateFields'', [FieldDescriptor 0x01 ''interfaceId'' FT_String False 0 0, FieldDescriptor 0x02 ''state'' FT_Enum True 0 0,
        FieldDescriptor 0x03 ''profileId'' FT_String False 0 0, FieldDescriptor 0x04 ''ssid'' FT_String False 0 0,
        FieldDescriptor 0x05 ''rssi'' FT_Int32 False 0 0, FieldDescriptor 0x06 ''ipReady'' FT_Bool False 0 0,
        FieldDescriptor 0x07 ''failureReason'' FT_Enum False 0 0]),
     (''kNetworkWifiScanResultFields'', [FieldDescriptor 0x01 ''ssid'' FT_String True 0 0, FieldDescriptor 0x02 ''bssid'' FT_String False 0 0,
        FieldDescriptor 0x03 ''band'' FT_Enum False 0 0, FieldDescriptor 0x04 ''channel'' FT_Uint16 False 0 0,
        FieldDescriptor 0x05 ''rssi'' FT_Int32 False 0 0, FieldDescriptor 0x06 ''securityType'' FT_Enum False 0 0]),
     (''kNetworkGetApCapabilitiesParamsFields'', [FieldDescriptor 0x01 ''interfaceId'' FT_String False 0 0]),
     (''kNetworkGetApConfigParamsFields'', [FieldDescriptor 0x01 ''interfaceId'' FT_String False 0 0]),
     (''kNetworkApCapabilitiesFields'', [FieldDescriptor 0x01 ''capability'' FT_String True 0 0,
        FieldDescriptor 0x02 ''securityTypes'' FT_Array True 0 0, FieldDescriptor 0x03 ''bands'' FT_Array False 0 0,
        FieldDescriptor 0x04 ''credentialExportModes'' FT_Array False 0 0,
        FieldDescriptor 0x05 ''clientsSupported'' FT_Bool False 0 0]),
     (''kNetworkApConfigFields'', [FieldDescriptor 0x01 ''interfaceId'' FT_String False 0 0, FieldDescriptor 0x02 ''enabled'' FT_Bool False 0 0,
        FieldDescriptor 0x03 ''ssid'' FT_String True 0 0, FieldDescriptor 0x04 ''hidden'' FT_Bool False 0 0,
        FieldDescriptor 0x05 ''band'' FT_Enum False 0 0, FieldDescriptor 0x06 ''channel'' FT_Uint16 False 0 0,
        FieldDescriptor 0x07 ''securityType'' FT_Enum True 0 0, FieldDescriptor 0x08 ''credential'' FT_Object False 0 0,
        FieldDescriptor 0x09 ''maxClients'' FT_Uint16 False 0 0]),
     (''kNetworkSetApConfigParamsFields'', [FieldDescriptor 0x01 ''interfaceId'' FT_String False 0 0, FieldDescriptor 0x02 ''config'' FT_Object True 0 0]),
     (''kNetworkSetApConfigResultFields'', [FieldDescriptor 0x01 ''config'' FT_Object True 0 0, FieldDescriptor 0x02 ''applyState'' FT_Enum True 0 0]),
     (''kNetworkApStateFields'', [FieldDescriptor 0x01 ''interfaceId'' FT_String False 0 0, FieldDescriptor 0x02 ''enabled'' FT_Bool True 0 0,
        FieldDescriptor 0x03 ''state'' FT_Enum True 0 0, FieldDescriptor 0x04 ''ssid'' FT_String False 0 0,
        FieldDescriptor 0x05 ''clientCount'' FT_Uint16 False 0 0,
        FieldDescriptor 0x06 ''failureReason'' FT_Enum False 0 0]),
     (''kNetworkApActionParamsFields'', [FieldDescriptor 0x01 ''interfaceId'' FT_String False 0 0, FieldDescriptor 0x02 ''reason'' FT_Enum False 0 0]),
     (''kNetworkApActionResultFields'', [FieldDescriptor 0x01 ''accepted'' FT_Bool True 0 0, FieldDescriptor 0x02 ''state'' FT_Object True 0 0]),
     (''kNetworkApClientsFields'', [FieldDescriptor 0x01 ''clients'' FT_Array True 0 0])]"

definition fields_18 :: "(string \<times> field_descriptor list) list" where
  "fields_18 = [
     (''kNetworkApClientInfoFields'', [FieldDescriptor 0x01 ''clientId'' FT_String True 0 0, FieldDescriptor 0x02 ''macAddress'' FT_String False 0 0,
        FieldDescriptor 0x03 ''displayName'' FT_String False 0 0, FieldDescriptor 0x04 ''rssi'' FT_Int32 False 0 0,
        FieldDescriptor 0x05 ''connectedSeconds'' FT_Uint32 False 0 0]),
     (''kNetworkInterfaceStateChangedEventFields'', [FieldDescriptor 0x01 ''interfaceId'' FT_String True 0 0, FieldDescriptor 0x02 ''state'' FT_Object True 0 0,
        FieldDescriptor 0x03 ''previousState'' FT_Object False 0 0, FieldDescriptor 0x04 ''reason'' FT_Enum False 0 0]),
     (''kNetworkIpConfigChangedEventFields'', [FieldDescriptor 0x01 ''interfaceId'' FT_String True 0 0, FieldDescriptor 0x02 ''family'' FT_Enum False 0 0,
        FieldDescriptor 0x03 ''config'' FT_Object True 0 0, FieldDescriptor 0x04 ''previousConfig'' FT_Object False 0 0,
        FieldDescriptor 0x05 ''reason'' FT_Enum False 0 0]),
     (''kNetworkWifiConfigChangedEventFields'', [FieldDescriptor 0x01 ''interfaceId'' FT_String False 0 0, FieldDescriptor 0x02 ''config'' FT_Object True 0 0,
        FieldDescriptor 0x03 ''changedFields'' FT_Array False 0 0, FieldDescriptor 0x04 ''reason'' FT_Enum False 0 0]),
     (''kNetworkWifiStateChangedEventFields'', [FieldDescriptor 0x01 ''state'' FT_Object True 0 0, FieldDescriptor 0x02 ''previousState'' FT_Object False 0 0,
        FieldDescriptor 0x03 ''reason'' FT_Enum False 0 0]),
     (''kNetworkWifiScanResultReportedEventFields'', [FieldDescriptor 0x01 ''scanId'' FT_String False 0 0, FieldDescriptor 0x02 ''results'' FT_Array False 0 0,
        FieldDescriptor 0x03 ''complete'' FT_Bool True 0 0]),
     (''kNetworkApConfigChangedEventFields'', [FieldDescriptor 0x01 ''interfaceId'' FT_String False 0 0, FieldDescriptor 0x02 ''config'' FT_Object True 0 0,
        FieldDescriptor 0x03 ''changedFields'' FT_Array False 0 0, FieldDescriptor 0x04 ''reason'' FT_Enum False 0 0]),
     (''kNetworkApStateChangedEventFields'', [FieldDescriptor 0x01 ''state'' FT_Object True 0 0, FieldDescriptor 0x02 ''previousState'' FT_Object False 0 0,
        FieldDescriptor 0x03 ''reason'' FT_Enum False 0 0]),
     (''kNetworkApClientChangedEventFields'', [FieldDescriptor 0x01 ''change'' FT_Enum True 0 0, FieldDescriptor 0x02 ''client'' FT_Object True 0 0,
        FieldDescriptor 0x03 ''reason'' FT_Enum False 0 0]),
     (''kNetworkInterfaceCapabilityFields'', [FieldDescriptor 0x01 ''interfaceTypes'' FT_Array False 0 0,
        FieldDescriptor 0x02 ''supportsStateEvent'' FT_Bool False 0 0]),
     (''kNetworkIpCapabilityFields'', [FieldDescriptor 0x01 ''families'' FT_Array False 0 0, FieldDescriptor 0x02 ''modes'' FT_Array False 0 0,
        FieldDescriptor 0x03 ''applyPolicies'' FT_Array False 0 0]),
     (''kSignageGetPlaylistCapabilitiesParamsFields'', []),
     (''kSignageGetPlaylistConfigParamsFields'', []),
     (''kSignageResetPlaylistConfigParamsFields'', []),
     (''kSignageSetPlaylistConfigResultFields'', []),
     (''kSignagePlaylistCapabilitiesResultFields'', [FieldDescriptor 0x01 ''supportedItemTypes'' FT_Array True 0 0,
        FieldDescriptor 0x02 ''maxPlaylists'' FT_Uint32 False 0 0,
        FieldDescriptor 0x03 ''maxItemsPerPlaylist'' FT_Uint32 False 0 0,
        FieldDescriptor 0x04 ''supportsScheduledPlaylist'' FT_Bool True 0 0,
        FieldDescriptor 0x05 ''supportsUrlRefresh'' FT_Bool True 0 0,
        FieldDescriptor 0x06 ''supportsReset'' FT_Bool True 0 0]),
     (''kSignagePlaylistConfigResultFields'', [FieldDescriptor 0x01 ''playlists'' FT_Array True 0 0]),
     (''kSignageSetPlaylistConfigParamsFields'', [FieldDescriptor 0x01 ''playlists'' FT_Array True 0 0]),
     (''kSignageGetPlaylistItemUrlParamsFields'', [FieldDescriptor 0x01 ''itemId'' FT_String True 0 0]),
     (''kSignageGetPlaylistItemUrlResultFields'', [FieldDescriptor 0x01 ''type'' FT_Enum True 0 0, FieldDescriptor 0x02 ''settings'' FT_Object True 0 0]),
     (''kSignageGetPlaylistItemParamsFields'', [FieldDescriptor 0x01 ''itemId'' FT_String True 0 0]),
     (''kSignageGetPlaylistItemResultFields'', [FieldDescriptor 0x01 ''item'' FT_Object True 0 0])]"

definition fields_19 :: "(string \<times> field_descriptor list) list" where
  "fields_19 = [
     (''kSignagePlaylistConfigChangedEventFields'', [FieldDescriptor 0x01 ''reason'' FT_Enum True 0 0, FieldDescriptor 0x02 ''playlists'' FT_Array False 0 0]),
     (''kSignagePlaylistFields'', [FieldDescriptor 0x01 ''id'' FT_String True 0 0, FieldDescriptor 0x02 ''type'' FT_Enum True 0 0,
        FieldDescriptor 0x03 ''startDate'' FT_String False 0 0, FieldDescriptor 0x04 ''endDate'' FT_String False 0 0,
        FieldDescriptor 0x05 ''startTime'' FT_String False 0 0, FieldDescriptor 0x06 ''endTime'' FT_String False 0 0,
        FieldDescriptor 0x07 ''days'' FT_Array False 0 0, FieldDescriptor 0x08 ''items'' FT_Array True 0 0]),
     (''kSignagePlaylistItemFields'', [FieldDescriptor 0x01 ''id'' FT_String True 0 0, FieldDescriptor 0x02 ''type'' FT_Enum True 0 0,
        FieldDescriptor 0x03 ''duration'' FT_Uint32 True 1 86400, FieldDescriptor 0x04 ''sort'' FT_Uint32 True 0 0,
        FieldDescriptor 0x05 ''settings'' FT_Object True 0 0]),
     (''kSignageImageItemSettingsFields'', [FieldDescriptor 0x01 ''urls'' FT_Array True 0 0, FieldDescriptor 0x02 ''delaySeconds'' FT_Uint32 True 1 0,
        FieldDescriptor 0x03 ''expiresAt'' FT_Uint64 False 0 0]),
     (''kSignageVideoItemSettingsFields'', [FieldDescriptor 0x01 ''url'' FT_String True 0 0, FieldDescriptor 0x02 ''expiresAt'' FT_Uint64 False 0 0,
        FieldDescriptor 0x03 ''muted'' FT_Bool False 0 0]),
     (''kSignageWebsiteItemSettingsFields'', [FieldDescriptor 0x01 ''url'' FT_String True 0 0,
        FieldDescriptor 0x02 ''ignoreCertificateError'' FT_Bool False 0 0,
        FieldDescriptor 0x03 ''refreshIntervalSecs'' FT_Uint32 False 1 0]),
     (''kSignageClockItemSettingsFields'', [FieldDescriptor 0x01 ''clocks'' FT_Array True 0 0]),
     (''kSignageUnsplashItemSettingsFields'', [FieldDescriptor 0x01 ''photos'' FT_Array True 0 0, FieldDescriptor 0x02 ''delaySeconds'' FT_Uint32 True 1 0,
        FieldDescriptor 0x03 ''expiresAt'' FT_Uint64 False 0 0]),
     (''kSignagePowerBiItemSettingsFields'', [FieldDescriptor 0x01 ''groupId'' FT_String True 0 0, FieldDescriptor 0x02 ''dashboardId'' FT_String True 0 0,
        FieldDescriptor 0x03 ''embedUrl'' FT_String True 0 0, FieldDescriptor 0x04 ''token'' FT_String True 0 0,
        FieldDescriptor 0x05 ''expiresAt'' FT_Uint64 True 1 0]),
     (''kSignagePlaylistClockEntryFields'', [FieldDescriptor 0x01 ''timezone'' FT_String True 0 0, FieldDescriptor 0x02 ''label'' FT_String True 0 0]),
     (''kSignagePlaylistUnsplashPhotoFields'', [FieldDescriptor 0x01 ''url'' FT_String True 0 0, FieldDescriptor 0x02 ''user'' FT_Object True 0 0]),
     (''kSignagePlaylistUnsplashUserFields'', [FieldDescriptor 0x01 ''name'' FT_String True 0 0, FieldDescriptor 0x02 ''link'' FT_String True 0 0]),
     (''kSignagePlaylistCapabilityFields'', [FieldDescriptor 0x01 ''supportedItemTypes'' FT_Array True 0 0,
        FieldDescriptor 0x02 ''maxPlaylists'' FT_Uint32 False 0 0,
        FieldDescriptor 0x03 ''maxItemsPerPlaylist'' FT_Uint32 False 0 0,
        FieldDescriptor 0x04 ''supportsScheduledPlaylist'' FT_Bool True 0 0,
        FieldDescriptor 0x05 ''supportsUrlRefresh'' FT_Bool True 0 0,
        FieldDescriptor 0x06 ''supportsReset'' FT_Bool True 0 0]),
     (''kSoftwareGetConfigParamsFields'', [FieldDescriptor 0x01 ''target'' FT_String True 0 0]),
     (''kSoftwareConfigFields'', [FieldDescriptor 0x01 ''target'' FT_String True 0 0, FieldDescriptor 0x02 ''config'' FT_Object True 0 0]),
     (''kSoftwareSetConfigParamsFields'', [FieldDescriptor 0x01 ''target'' FT_String True 0 0, FieldDescriptor 0x02 ''config'' FT_Object True 0 0]),
     (''kSoftwareResetConfigParamsFields'', [FieldDescriptor 0x01 ''target'' FT_String True 0 0]),
     (''kSoftwareSetConfigResultFields'', []),
     (''kSoftwareConfigChangedEventFields'', [FieldDescriptor 0x01 ''target'' FT_String True 0 0, FieldDescriptor 0x02 ''config'' FT_Object True 0 0,
        FieldDescriptor 0x03 ''changedFields'' FT_Array False 0 0, FieldDescriptor 0x04 ''reason'' FT_Enum False 0 0]),
     (''kLauncherConfigFields'', [FieldDescriptor 0x01 ''displayName'' FT_String False 0 0,
        FieldDescriptor 0x02 ''appearance'' FT_Object False 0 0]),
     (''kLauncherAppearanceFields'', [FieldDescriptor 0x01 ''panelLayout'' FT_Enum False 0 0,
        FieldDescriptor 0x02 ''autoHidePanel'' FT_Bool False 0 0,
        FieldDescriptor 0x03 ''autoHideDelay'' FT_Uint32 False 1 0])]"

definition fields_20 :: "(string \<times> field_descriptor list) list" where
  "fields_20 = [
     (''kSoftwareConfigCapabilityFields'', [FieldDescriptor 0x01 ''supportedTargets'' FT_Array True 0 0,
        FieldDescriptor 0x02 ''supportsReset'' FT_Bool False 0 0,
        FieldDescriptor 0x03 ''resetMayRestartSoftware'' FT_Bool False 0 0]),
     (''kSoftwareGetUpdatePolicyParamsFields'', [FieldDescriptor 0x01 ''target'' FT_String True 0 0]),
     (''kSoftwareUpdatePolicyFields'', [FieldDescriptor 0x01 ''target'' FT_String True 0 0, FieldDescriptor 0x02 ''policy'' FT_Object True 0 0]),
     (''kSoftwareSetUpdatePolicyParamsFields'', [FieldDescriptor 0x01 ''target'' FT_String True 0 0, FieldDescriptor 0x02 ''policy'' FT_Object True 0 0]),
     (''kSoftwareResetUpdatePolicyParamsFields'', [FieldDescriptor 0x01 ''target'' FT_String True 0 0]),
     (''kSoftwareSetUpdatePolicyResultFields'', []),
     (''kSoftwareUpdatePolicyChangedEventFields'', [FieldDescriptor 0x01 ''target'' FT_String True 0 0, FieldDescriptor 0x02 ''policy'' FT_Object True 0 0,
        FieldDescriptor 0x03 ''changedFields'' FT_Array False 0 0, FieldDescriptor 0x04 ''reason'' FT_Enum False 0 0]),
     (''kLauncherUpdatePolicyFields'', [FieldDescriptor 0x01 ''updateMode'' FT_Enum True 0 0, FieldDescriptor 0x02 ''schedule'' FT_Object False 0 0,
        FieldDescriptor 0x03 ''channel'' FT_Enum True 0 0, FieldDescriptor 0x04 ''conditions'' FT_Object False 0 0]),
     (''kUpdateScheduleFields'', [FieldDescriptor 0x01 ''start'' FT_String True 0 0, FieldDescriptor 0x02 ''end'' FT_String True 0 0,
        FieldDescriptor 0x03 ''timezone'' FT_String False 0 0]),
     (''kUpdateConditionsFields'', [FieldDescriptor 0x01 ''requireIdle'' FT_Bool False 0 0, FieldDescriptor 0x02 ''requireWifi'' FT_Bool False 0 0]),
     (''kSoftwareUpdatePolicyCapabilityFields'', [FieldDescriptor 0x01 ''supportedTargets'' FT_Array True 0 0,
        FieldDescriptor 0x02 ''supportedChannels'' FT_Array False 0 0,
        FieldDescriptor 0x03 ''supportsSchedule'' FT_Bool False 0 0,
        FieldDescriptor 0x04 ''supportsReset'' FT_Bool False 0 0]),
     (''kSportConfigTargetParamsFields'', [FieldDescriptor 0x01 ''macAddress'' FT_String True 0 0, FieldDescriptor 0x02 ''sportType'' FT_String True 0 0]),
     (''kSportGoalShotWatermarkConfigFields'', [FieldDescriptor 0x01 ''macAddress'' FT_String True 0 0, FieldDescriptor 0x02 ''sportType'' FT_String True 0 0,
        FieldDescriptor 0x03 ''goalVisible'' FT_Bool True 0 0, FieldDescriptor 0x04 ''shotVisible'' FT_Bool True 0 0]),
     (''kSportSetGoalShotWatermarkConfigParamsFields'', [FieldDescriptor 0x01 ''macAddress'' FT_String True 0 0, FieldDescriptor 0x02 ''sportType'' FT_String True 0 0,
        FieldDescriptor 0x03 ''goalVisible'' FT_Bool True 0 0, FieldDescriptor 0x04 ''shotVisible'' FT_Bool True 0 0]),
     (''kSportEventClipConfigFields'', [FieldDescriptor 0x01 ''macAddress'' FT_String True 0 0, FieldDescriptor 0x02 ''sportType'' FT_String True 0 0,
        FieldDescriptor 0x03 ''beforeOffsetSeconds'' FT_Uint32 True 0 0,
        FieldDescriptor 0x04 ''afterOffsetSeconds'' FT_Uint32 True 0 0]),
     (''kSportSetEventClipConfigParamsFields'', [FieldDescriptor 0x01 ''macAddress'' FT_String True 0 0, FieldDescriptor 0x02 ''sportType'' FT_String True 0 0,
        FieldDescriptor 0x03 ''beforeOffsetSeconds'' FT_Uint32 True 0 0,
        FieldDescriptor 0x04 ''afterOffsetSeconds'' FT_Uint32 True 0 0]),
     (''kGetEventDetectionCapabilitiesParamsFields'', [FieldDescriptor 0x01 ''sportTypes'' FT_Array False 0 0,
        FieldDescriptor 0x02 ''includeRuntimeState'' FT_Bool False 0 0]),
     (''kGetEventDetectionCapabilitiesResultFields'', [FieldDescriptor 0x01 ''capability'' FT_Object True 0 0]),
     (''kSportEventDetectionSportDescriptorFields'', [FieldDescriptor 0x01 ''sportType'' FT_String True 0 0,
        FieldDescriptor 0x02 ''supportedEvents'' FT_Array True 0 0,
        FieldDescriptor 0x03 ''supportsToggle'' FT_Bool True 0 0,
        FieldDescriptor 0x04 ''detailsSchemas'' FT_Array False 0 0,
        FieldDescriptor 0x05 ''supportedConfigMethods'' FT_Array False 0 0]),
     (''kSportEventDetectionCapabilitiesFields'', [FieldDescriptor 0x01 ''capability'' FT_String True 0 0,
        FieldDescriptor 0x02 ''supportedSports'' FT_Array True 0 0,
        FieldDescriptor 0x03 ''concurrentSportTypes'' FT_Bool True 0 0,
        FieldDescriptor 0x04 ''supportsStateEvent'' FT_Bool True 0 0,
        FieldDescriptor 0x05 ''supportsUnifiedEvent'' FT_Bool True 0 0,
        FieldDescriptor 0x06 ''persistencePolicy'' FT_Enum True 0 0]),
     (''kGetEventDetectionConfigParamsFields'', [FieldDescriptor 0x01 ''sportType'' FT_String True 0 0])]"

definition fields_21 :: "(string \<times> field_descriptor list) list" where
  "fields_21 = [
     (''kSportEventDetectionStateFields'', [FieldDescriptor 0x01 ''sportType'' FT_String True 0 0,
        FieldDescriptor 0x02 ''effectiveEnabled'' FT_Bool True 0 0,
        FieldDescriptor 0x03 ''runtimeState'' FT_Enum True 0 0, FieldDescriptor 0x04 ''applyState'' FT_Enum False 0 0,
        FieldDescriptor 0x05 ''reason'' FT_String False 0 0, FieldDescriptor 0x06 ''stateRevision'' FT_Uint32 False 0 0,
        FieldDescriptor 0x07 ''updatedAt'' FT_String False 0 0]),
     (''kSetEventDetectionConfigParamsFields'', [FieldDescriptor 0x01 ''sportType'' FT_String True 0 0, FieldDescriptor 0x02 ''enabled'' FT_Bool True 0 0,
        FieldDescriptor 0x03 ''expectedStateRevision'' FT_Uint32 False 0 0]),
     (''kSetEventDetectionConfigResultFields'', [FieldDescriptor 0x01 ''accepted'' FT_Bool True 0 0, FieldDescriptor 0x02 ''state'' FT_Object True 0 0]),
     (''kSportEventDetectionStateChangedEventFields'', [FieldDescriptor 0x01 ''state'' FT_Object True 0 0, FieldDescriptor 0x02 ''source'' FT_Enum True 0 0,
        FieldDescriptor 0x03 ''reason'' FT_String False 0 0]),
     (''kSportEventDetailsFields'', [FieldDescriptor 0x01 ''shotId'' FT_String False 0 0, FieldDescriptor 0x02 ''goalId'' FT_String False 0 0,
        FieldDescriptor 0x03 ''releaseType'' FT_Enum False 0 0, FieldDescriptor 0x04 ''goalType'' FT_Enum False 0 0]),
     (''kSportEventDetectedEventFields'', [FieldDescriptor 0x01 ''eventId'' FT_String True 0 0, FieldDescriptor 0x02 ''sequence'' FT_Uint64 True 0 0,
        FieldDescriptor 0x03 ''sportType'' FT_String True 0 0, FieldDescriptor 0x04 ''eventType'' FT_String True 0 0,
        FieldDescriptor 0x05 ''occurredAt'' FT_String True 0 0, FieldDescriptor 0x06 ''confidence'' FT_Object False 0 1,
        FieldDescriptor 0x07 ''trainingSessionId'' FT_String False 0 0,
        FieldDescriptor 0x08 ''details'' FT_Object True 0 0]),
     (''kSportBasketballCapabilityFields'', [FieldDescriptor 0x01 ''capability'' FT_String True 0 0, FieldDescriptor 0x02 ''sportType'' FT_String True 0 0,
        FieldDescriptor 0x03 ''supportedEvents'' FT_Array True 0 0,
        FieldDescriptor 0x04 ''detailsSchemas'' FT_Array True 0 0,
        FieldDescriptor 0x05 ''requiresEventDetectionToggle'' FT_Bool True 0 0,
        FieldDescriptor 0x06 ''goalRequiresShotReference'' FT_Bool True 0 0]),
     (''kSportBasketballShotDetailsFields'', [FieldDescriptor 0x01 ''shotId'' FT_String True 0 0, FieldDescriptor 0x02 ''releaseType'' FT_Enum False 0 0]),
     (''kSportBasketballGoalDetailsFields'', [FieldDescriptor 0x01 ''goalId'' FT_String True 0 0, FieldDescriptor 0x02 ''shotId'' FT_String True 0 0,
        FieldDescriptor 0x03 ''goalType'' FT_Enum False 0 0]),
     (''kStreamFlowControlCapabilitiesFields'', [FieldDescriptor 0x01 ''capability'' FT_String True 0 0, FieldDescriptor 0x02 ''supportsAck'' FT_Bool True 0 0,
        FieldDescriptor 0x03 ''supportsWindowUpdate'' FT_Bool True 0 0,
        FieldDescriptor 0x04 ''supportsPauseResume'' FT_Bool True 0 0,
        FieldDescriptor 0x05 ''supportsAbort'' FT_Bool True 0 0,
        FieldDescriptor 0x06 ''supportsStats'' FT_Bool True 0 0,
        FieldDescriptor 0x07 ''supportsClockReport'' FT_Bool True 0 0,
        FieldDescriptor 0x08 ''defaultWindowBytes'' FT_Uint32 False 0 0,
        FieldDescriptor 0x09 ''clockReportIntervalMs'' FT_Uint32 False 0 0]),
     (''kStreamSelectorFields'', [FieldDescriptor 0x01 ''streamId'' FT_Uint32 False 0 0]),
     (''kStreamStateFields'', [FieldDescriptor 0x01 ''streamId'' FT_Uint32 False 0 0, FieldDescriptor 0x02 ''state'' FT_Enum True 0 0,
        FieldDescriptor 0x03 ''paused'' FT_Bool False 0 0, FieldDescriptor 0x04 ''windowBytes'' FT_Uint32 False 0 0,
        FieldDescriptor 0x05 ''ackedSeqId'' FT_Uint32 False 0 0, FieldDescriptor 0x06 ''lastSeqId'' FT_Uint32 False 0 0,
        FieldDescriptor 0x07 ''lastCursor'' FT_Uint64 False 0 0, FieldDescriptor 0x08 ''reason'' FT_Enum False 0 0]),
     (''kStreamStatsFields'', [FieldDescriptor 0x01 ''streamId'' FT_Uint32 False 0 0, FieldDescriptor 0x02 ''packets'' FT_Uint64 False 0 0,
        FieldDescriptor 0x03 ''bytes'' FT_Uint64 False 0 0, FieldDescriptor 0x04 ''droppedPackets'' FT_Uint64 False 0 0,
        FieldDescriptor 0x05 ''seqGaps'' FT_Uint64 False 0 0, FieldDescriptor 0x06 ''jitterMs'' FT_Uint32 False 0 0,
        FieldDescriptor 0x07 ''lastSeqId'' FT_Uint32 False 0 0, FieldDescriptor 0x08 ''lastCursor'' FT_Uint64 False 0 0,
        FieldDescriptor 0x09 ''latestClockReportAgeMs'' FT_Uint32 False 0 0]),
     (''kStreamAckParamsFields'', [FieldDescriptor 0x01 ''streamId'' FT_Uint32 True 0 0, FieldDescriptor 0x02 ''ackedSeqId'' FT_Uint32 True 0 0,
        FieldDescriptor 0x03 ''ackedCursor'' FT_Uint64 False 0 0,
        FieldDescriptor 0x04 ''missingSeqIds'' FT_Array False 0 0])]"

definition fields_22 :: "(string \<times> field_descriptor list) list" where
  "fields_22 = [
     (''kStreamAckResultFields'', [FieldDescriptor 0x01 ''accepted'' FT_Bool True 0 0, FieldDescriptor 0x02 ''state'' FT_Object False 0 0]),
     (''kStreamWindowUpdateParamsFields'', [FieldDescriptor 0x01 ''streamId'' FT_Uint32 True 0 0, FieldDescriptor 0x02 ''windowBytes'' FT_Uint32 True 0 0,
        FieldDescriptor 0x03 ''reason'' FT_Enum False 0 0]),
     (''kStreamWindowUpdateResultFields'', [FieldDescriptor 0x01 ''accepted'' FT_Bool True 0 0, FieldDescriptor 0x02 ''state'' FT_Object False 0 0]),
     (''kStreamPauseParamsFields'', [FieldDescriptor 0x01 ''streamId'' FT_Uint32 True 0 0, FieldDescriptor 0x02 ''reason'' FT_Enum False 0 0]),
     (''kStreamResumeParamsFields'', [FieldDescriptor 0x01 ''streamId'' FT_Uint32 True 0 0, FieldDescriptor 0x02 ''reason'' FT_Enum False 0 0]),
     (''kStreamAbortParamsFields'', [FieldDescriptor 0x01 ''streamId'' FT_Uint32 True 0 0, FieldDescriptor 0x02 ''reason'' FT_Enum False 0 0,
        FieldDescriptor 0x03 ''message'' FT_String False 0 0]),
     (''kStreamActionResultFields'', [FieldDescriptor 0x01 ''accepted'' FT_Bool True 0 0, FieldDescriptor 0x02 ''state'' FT_Object False 0 0]),
     (''kStreamStateChangedEventFields'', [FieldDescriptor 0x01 ''streamId'' FT_Uint32 False 0 0, FieldDescriptor 0x02 ''state'' FT_Object True 0 0]),
     (''kStreamStatsReportedEventFields'', [FieldDescriptor 0x01 ''streamId'' FT_Uint32 False 0 0, FieldDescriptor 0x02 ''stats'' FT_Object True 0 0]),
     (''kStreamFlowControlChangedEventFields'', [FieldDescriptor 0x01 ''streamId'' FT_Uint32 True 0 0, FieldDescriptor 0x02 ''reason'' FT_Enum False 0 0,
        FieldDescriptor 0x03 ''state'' FT_Object False 0 0]),
     (''kStreamClockMediaAnchorFields'', [FieldDescriptor 0x01 ''streamId'' FT_Uint32 False 0 0, FieldDescriptor 0x02 ''mediaPts'' FT_Uint64 True 0 0,
        FieldDescriptor 0x03 ''timebase'' FT_Uint32 True 0 0,
        FieldDescriptor 0x04 ''anchorNt10MonotonicUs'' FT_Uint64 True 0 0,
        FieldDescriptor 0x05 ''seqId'' FT_Uint32 False 0 0, FieldDescriptor 0x06 ''cursor'' FT_Uint64 False 0 0]),
     (''kStreamClockReportEventFields'', [FieldDescriptor 0x01 ''reportSeq'' FT_Uint32 True 0 0, FieldDescriptor 0x02 ''syncGroupId'' FT_String False 0 0,
        FieldDescriptor 0x03 ''sourceDeviceId'' FT_String False 0 0,
        FieldDescriptor 0x04 ''sourceClockDomain'' FT_String False 0 0,
        FieldDescriptor 0x05 ''nt10ReportMonotonicUs'' FT_Uint64 True 0 0,
        FieldDescriptor 0x06 ''sentAtNt10MonotonicUs'' FT_Uint64 False 0 0,
        FieldDescriptor 0x07 ''na20ReceivedAtUs'' FT_Uint64 False 0 0,
        FieldDescriptor 0x08 ''na20SentAtUs'' FT_Uint64 False 0 0, FieldDescriptor 0x09 ''audio'' FT_Object False 0 0,
        FieldDescriptor 0x0A ''video'' FT_Object False 0 0, FieldDescriptor 0x0B ''discontinuity'' FT_Bool False 0 0,
        FieldDescriptor 0x0C ''reason'' FT_Enum False 0 0]),
     (''kVideoGetStreamCapabilitiesParamsFields'', [FieldDescriptor 0x01 ''source'' FT_String False 0 0,
        FieldDescriptor 0x02 ''includeRuntimeState'' FT_Bool False 0 0]),
     (''kVideoStreamCapabilitiesFields'', [FieldDescriptor 0x01 ''capability'' FT_String True 0 0, FieldDescriptor 0x02 ''sources'' FT_Array True 0 0,
        FieldDescriptor 0x03 ''streamProfiles'' FT_Array True 0 0, FieldDescriptor 0x04 ''openModes'' FT_Array True 0 0,
        FieldDescriptor 0x05 ''peerRoles'' FT_Array True 0 0,
        FieldDescriptor 0x06 ''supportsSourceStateEvent'' FT_Bool True 0 0,
        FieldDescriptor 0x07 ''supportsSyncGroup'' FT_Bool True 0 0,
        FieldDescriptor 0x08 ''flowControlManagedByRuntime'' FT_Bool True 0 0,
        FieldDescriptor 0x09 ''supportedVideoPtsModes'' FT_Array False 0 0,
        FieldDescriptor 0x0A ''supportedPacketizationModes'' FT_Array False 0 0,
        FieldDescriptor 0x0B ''supportsSourceCaptureTimestampCursor'' FT_Bool False 0 0]),
     (''kVideoStreamSourceFields'', [FieldDescriptor 0x01 ''source'' FT_String True 0 0, FieldDescriptor 0x02 ''displayName'' FT_String False 0 0,
        FieldDescriptor 0x03 ''codecs'' FT_Array True 0 0, FieldDescriptor 0x04 ''resolutions'' FT_Array False 0 0,
        FieldDescriptor 0x05 ''frameRates'' FT_Array False 0 0, FieldDescriptor 0x06 ''state'' FT_Enum False 0 0,
        FieldDescriptor 0x07 ''bitratesKbps'' FT_Array False 0 0, FieldDescriptor 0x08 ''encoder'' FT_String False 0 0,
        FieldDescriptor 0x09 ''supportsReconfigure'' FT_Bool False 0 0,
        FieldDescriptor 0x0A ''reconfigureFields'' FT_Array False 0 0])]"

definition fields_23 :: "(string \<times> field_descriptor list) list" where
  "fields_23 = [
     (''kVideoOpenStreamParamsFields'', [FieldDescriptor 0x01 ''source'' FT_String True 0 0, FieldDescriptor 0x02 ''peerRole'' FT_Enum True 0 0,
        FieldDescriptor 0x03 ''codec'' FT_Enum True 0 0, FieldDescriptor 0x04 ''width'' FT_Uint32 False 0 0,
        FieldDescriptor 0x05 ''height'' FT_Uint32 False 0 0, FieldDescriptor 0x06 ''frameRate'' FT_Uint32 False 1 0,
        FieldDescriptor 0x07 ''bitrateKbps'' FT_Uint32 False 1 0,
        FieldDescriptor 0x08 ''streamProfile'' FT_String False 0 0,
        FieldDescriptor 0x09 ''cursorUnit'' FT_Enum False 0 0, FieldDescriptor 0x0A ''syncGroupId'' FT_String False 0 0,
        FieldDescriptor 0x0B ''castSessionId'' FT_String False 0 0,
        FieldDescriptor 0x0C ''clockDomain'' FT_String False 0 0,
        FieldDescriptor 0x0D ''maxDataSize'' FT_Uint32 False 0 0,
        FieldDescriptor 0x0E ''videoPtsMode'' FT_Enum False 0 0, FieldDescriptor 0x0F ''timebase'' FT_Uint32 False 0 0,
        FieldDescriptor 0x10 ''packetizationMode'' FT_Enum False 0 0]),
     (''kVideoOpenStreamResultFields'', [FieldDescriptor 0x01 ''streamId'' FT_Uint32 True 0 0, FieldDescriptor 0x02 ''state'' FT_Enum True 0 0,
        FieldDescriptor 0x03 ''source'' FT_String True 0 0, FieldDescriptor 0x04 ''peerRole'' FT_Enum True 0 0,
        FieldDescriptor 0x05 ''codec'' FT_Enum True 0 0, FieldDescriptor 0x06 ''width'' FT_Uint32 False 0 0,
        FieldDescriptor 0x07 ''height'' FT_Uint32 False 0 0, FieldDescriptor 0x08 ''frameRate'' FT_Uint32 False 1 0,
        FieldDescriptor 0x09 ''bitrateKbps'' FT_Uint32 False 1 0,
        FieldDescriptor 0x0A ''streamProfile'' FT_String True 0 0, FieldDescriptor 0x0B ''cursorUnit'' FT_Enum True 0 0,
        FieldDescriptor 0x0C ''syncGroupId'' FT_String False 0 0,
        FieldDescriptor 0x0D ''maxDataSize'' FT_Uint32 False 0 0,
        FieldDescriptor 0x0E ''videoPtsMode'' FT_Enum False 0 0, FieldDescriptor 0x0F ''timebase'' FT_Uint32 False 0 0,
        FieldDescriptor 0x10 ''packetizationMode'' FT_Enum False 0 0]),
     (''kVideoCloseStreamParamsFields'', [FieldDescriptor 0x01 ''streamId'' FT_Uint32 True 0 0, FieldDescriptor 0x02 ''peerRole'' FT_Enum False 0 0,
        FieldDescriptor 0x03 ''reason'' FT_Enum False 0 0, FieldDescriptor 0x04 ''finalCursor'' FT_Uint64 False 0 0]),
     (''kVideoCloseStreamResultFields'', [FieldDescriptor 0x01 ''streamId'' FT_Uint32 True 0 0, FieldDescriptor 0x02 ''state'' FT_Enum True 0 0,
        FieldDescriptor 0x03 ''reason'' FT_Enum False 0 0, FieldDescriptor 0x04 ''alreadyClosed'' FT_Bool False 0 0]),
     (''kVideoGetStreamStateParamsFields'', [FieldDescriptor 0x01 ''streamId'' FT_Uint32 True 0 0]),
     (''kVideoStreamStateFields'', [FieldDescriptor 0x01 ''streamId'' FT_Uint32 True 0 0, FieldDescriptor 0x02 ''state'' FT_Enum True 0 0,
        FieldDescriptor 0x03 ''source'' FT_String True 0 0, FieldDescriptor 0x04 ''peerRole'' FT_Enum False 0 0,
        FieldDescriptor 0x05 ''codec'' FT_Enum False 0 0, FieldDescriptor 0x06 ''streamProfile'' FT_String False 0 0,
        FieldDescriptor 0x07 ''syncGroupId'' FT_String False 0 0, FieldDescriptor 0x08 ''cursorUnit'' FT_Enum False 0 0,
        FieldDescriptor 0x09 ''lastCursor'' FT_Uint64 False 0 0,
        FieldDescriptor 0x0A ''keyFrameRequested'' FT_Bool False 0 0,
        FieldDescriptor 0x0B ''failureReason'' FT_Enum False 0 0,
        FieldDescriptor 0x0C ''frameRate'' FT_Uint32 False 1 0, FieldDescriptor 0x0D ''bitrateKbps'' FT_Uint32 False 1 0]),
     (''kVideoGetStreamSourceStateParamsFields'', [FieldDescriptor 0x01 ''source'' FT_String True 0 0]),
     (''kVideoStreamSourceStateFields'', [FieldDescriptor 0x01 ''source'' FT_String True 0 0, FieldDescriptor 0x02 ''mediaKind'' FT_Enum False 0 0,
        FieldDescriptor 0x03 ''state'' FT_Enum True 0 0, FieldDescriptor 0x04 ''available'' FT_Bool False 0 0,
        FieldDescriptor 0x05 ''activeStreamId'' FT_Uint32 False 0 0]),
     (''kVideoRequestKeyFrameParamsFields'', [FieldDescriptor 0x01 ''streamId'' FT_Uint32 True 0 0, FieldDescriptor 0x02 ''reason'' FT_Enum False 0 0]),
     (''kVideoRequestKeyFrameResultFields'', [FieldDescriptor 0x01 ''accepted'' FT_Bool True 0 0, FieldDescriptor 0x02 ''state'' FT_Object False 0 0]),
     (''kVideoStreamStateChangedEventFields'', [FieldDescriptor 0x01 ''streamId'' FT_Uint32 True 0 0, FieldDescriptor 0x02 ''state'' FT_Enum True 0 0,
        FieldDescriptor 0x03 ''source'' FT_String True 0 0, FieldDescriptor 0x04 ''reason'' FT_Enum False 0 0,
        FieldDescriptor 0x05 ''stats'' FT_Object False 0 0, FieldDescriptor 0x06 ''frameRate'' FT_Uint32 False 1 0,
        FieldDescriptor 0x07 ''bitrateKbps'' FT_Uint32 False 1 0])]"

definition fields_24 :: "(string \<times> field_descriptor list) list" where
  "fields_24 = [
     (''kVideoStreamSourceStateChangedEventFields'', [FieldDescriptor 0x01 ''source'' FT_String True 0 0, FieldDescriptor 0x02 ''mediaKind'' FT_Enum False 0 0,
        FieldDescriptor 0x03 ''state'' FT_Enum True 0 0, FieldDescriptor 0x04 ''reason'' FT_Enum False 0 0,
        FieldDescriptor 0x05 ''activeStreamId'' FT_Uint32 False 0 0]),
     (''kVideoStreamStatsReportedEventFields'', [FieldDescriptor 0x01 ''streamId'' FT_Uint32 True 0 0, FieldDescriptor 0x02 ''stats'' FT_Object True 0 0]),
     (''kVideoStreamStatsFields'', [FieldDescriptor 0x01 ''frames'' FT_Uint64 False 0 0, FieldDescriptor 0x02 ''bytes'' FT_Uint64 False 0 0,
        FieldDescriptor 0x03 ''droppedFrames'' FT_Uint64 False 0 0,
        FieldDescriptor 0x04 ''bitrateKbps'' FT_Uint32 False 0 0])]"

definition field_arrays :: "(string \<times> field_descriptor list) list" where
  "field_arrays = concat [fields_1, fields_2, fields_3, fields_4, fields_5, fields_6, fields_7, fields_8, fields_9, fields_10, fields_11,
     fields_12, fields_13, fields_14, fields_15, fields_16, fields_17, fields_18, fields_19, fields_20, fields_21,
     fields_22, fields_23, fields_24]"

definition descriptors_1 :: "schema_descriptor list" where
  "descriptors_1 = [
     SchemaDescriptor ''Empty'' ''kEmptyFields'' 0,
     SchemaDescriptor ''CommonEmptyRequest'' ''kCommonEmptyRequestFields'' 0,
     SchemaDescriptor ''CommonEmptyResponse'' ''kCommonEmptyResponseFields'' 0,
     SchemaDescriptor ''ControlOpenBody'' ''kControlOpenBodyFields'' 8,
     SchemaDescriptor ''ControlAcceptBody'' ''kControlAcceptBodyFields'' 9,
     SchemaDescriptor ''AudioAlgorithmCapability'' ''kAudioAlgorithmCapabilityFields'' 3,
     SchemaDescriptor ''AudioGetAlgorithmCapabilitiesRequest'' ''kAudioGetAlgorithmCapabilitiesRequestFields'' 1,
     SchemaDescriptor ''AudioGetAlgorithmConfigRequest'' ''kAudioGetAlgorithmConfigRequestFields'' 1,
     SchemaDescriptor ''AudioSetAlgorithmConfigRequest'' ''kAudioSetAlgorithmConfigRequestFields'' 1,
     SchemaDescriptor ''AudioResetAlgorithmConfigRequest'' ''kAudioResetAlgorithmConfigRequestFields'' 1,
     SchemaDescriptor ''AudioSetAlgorithmConfigResponse'' ''kAudioSetAlgorithmConfigResponseFields'' 3,
     SchemaDescriptor ''AudioAlgorithmConfigChangedEvent'' ''kAudioAlgorithmConfigChangedEventFields'' 5,
     SchemaDescriptor ''AudioGetAlgorithmCapabilitiesResponse'' ''kAudioGetAlgorithmCapabilitiesResponseFields'' 3,
     SchemaDescriptor ''AudioAlgorithmUpdatePolicy'' ''kAudioAlgorithmUpdatePolicyFields'' 3,
     SchemaDescriptor ''AudioAlgorithmCapabilities'' ''kAudioAlgorithmCapabilitiesFields'' 8,
     SchemaDescriptor ''AudioAlgorithmPropertyCapability'' ''kAudioAlgorithmPropertyCapabilityFields'' 10,
     SchemaDescriptor ''AudioNoiseSuppressionCapabilities'' ''kAudioNoiseSuppressionCapabilitiesFields'' 4]"

definition descriptors_2 :: "schema_descriptor list" where
  "descriptors_2 = [
     SchemaDescriptor ''AudioEchoCancellationCapabilities'' ''kAudioEchoCancellationCapabilitiesFields'' 5,
     SchemaDescriptor ''AudioAutoGainControlCapabilities'' ''kAudioAutoGainControlCapabilitiesFields'' 7,
     SchemaDescriptor ''AudioBeamformingCapabilities'' ''kAudioBeamformingCapabilitiesFields'' 5,
     SchemaDescriptor ''AudioDereverberationCapabilities'' ''kAudioDereverberationCapabilitiesFields'' 4,
     SchemaDescriptor ''AudioVoiceActivityDetectionCapabilities'' ''kAudioVoiceActivityDetectionCapabilitiesFields'' 5,
     SchemaDescriptor ''AudioDirectionOfArrivalCapabilities'' ''kAudioDirectionOfArrivalCapabilitiesFields'' 6,
     SchemaDescriptor ''AudioHowlingSuppressionCapabilities'' ''kAudioHowlingSuppressionCapabilitiesFields'' 4,
     SchemaDescriptor ''AudioAlgorithmConfig'' ''kAudioAlgorithmConfigFields'' 8,
     SchemaDescriptor ''AudioNoiseSuppressionConfig'' ''kAudioNoiseSuppressionConfigFields'' 2,
     SchemaDescriptor ''AudioEchoCancellationConfig'' ''kAudioEchoCancellationConfigFields'' 3,
     SchemaDescriptor ''AudioAutoGainControlConfig'' ''kAudioAutoGainControlConfigFields'' 5,
     SchemaDescriptor ''AudioBeamformingConfig'' ''kAudioBeamformingConfigFields'' 3,
     SchemaDescriptor ''AudioDereverberationConfig'' ''kAudioDereverberationConfigFields'' 2]"

definition descriptors_3 :: "schema_descriptor list" where
  "descriptors_3 = [
     SchemaDescriptor ''AudioVoiceActivityDetectionConfig'' ''kAudioVoiceActivityDetectionConfigFields'' 3,
     SchemaDescriptor ''AudioDirectionOfArrivalConfig'' ''kAudioDirectionOfArrivalConfigFields'' 4,
     SchemaDescriptor ''AudioHowlingSuppressionConfig'' ''kAudioHowlingSuppressionConfigFields'' 2,
     SchemaDescriptor ''AudioGetStreamCapabilitiesParams'' ''kAudioGetStreamCapabilitiesParamsFields'' 2,
     SchemaDescriptor ''AudioStreamCapabilities'' ''kAudioStreamCapabilitiesFields'' 12,
     SchemaDescriptor ''AudioStreamSource'' ''kAudioStreamSourceFields'' 6,
     SchemaDescriptor ''AudioOpenStreamParams'' ''kAudioOpenStreamParamsFields'' 21,
     SchemaDescriptor ''AudioOpenStreamResult'' ''kAudioOpenStreamResultFields'' 22]"

definition descriptors_4 :: "schema_descriptor list" where
  "descriptors_4 = [
     SchemaDescriptor ''AudioCloseStreamParams'' ''kAudioCloseStreamParamsFields'' 4,
     SchemaDescriptor ''AudioCloseStreamResult'' ''kAudioCloseStreamResultFields'' 4,
     SchemaDescriptor ''AudioGetStreamStateParams'' ''kAudioGetStreamStateParamsFields'' 1,
     SchemaDescriptor ''AudioStreamState'' ''kAudioStreamStateFields'' 10,
     SchemaDescriptor ''AudioGetStreamSourceStateParams'' ''kAudioGetStreamSourceStateParamsFields'' 1,
     SchemaDescriptor ''AudioStreamSourceState'' ''kAudioStreamSourceStateFields'' 6,
     SchemaDescriptor ''AudioStreamStateChangedEvent'' ''kAudioStreamStateChangedEventFields'' 5,
     SchemaDescriptor ''AudioStreamSourceStateChangedEvent'' ''kAudioStreamSourceStateChangedEventFields'' 5,
     SchemaDescriptor ''AudioStreamStatsReportedEvent'' ''kAudioStreamStatsReportedEventFields'' 2,
     SchemaDescriptor ''AudioStreamStats'' ''kAudioStreamStatsFields'' 4,
     SchemaDescriptor ''CastSourceSummary'' ''kCastSourceSummaryFields'' 5,
     SchemaDescriptor ''CastMediaSummary'' ''kCastMediaSummaryFields'' 7,
     SchemaDescriptor ''CastLastError'' ''kCastLastErrorFields'' 4,
     SchemaDescriptor ''CastGetSessionParams'' ''kCastGetSessionParamsFields'' 2]"

definition descriptors_5 :: "schema_descriptor list" where
  "descriptors_5 = [
     SchemaDescriptor ''CastSessionState'' ''kCastSessionStateFields'' 12,
     SchemaDescriptor ''CastStopSessionParams'' ''kCastStopSessionParamsFields'' 3,
     SchemaDescriptor ''CastStopSessionResult'' ''kCastStopSessionResultFields'' 9,
     SchemaDescriptor ''CastSetAirPlayNameParams'' ''kCastSetAirPlayNameParamsFields'' 2,
     SchemaDescriptor ''CastAirPlayNameState'' ''kCastAirPlayNameStateFields'' 7,
     SchemaDescriptor ''CastSessionIncomingEvent'' ''kCastSessionIncomingEventFields'' 6,
     SchemaDescriptor ''CastSessionStateChangedEvent'' ''kCastSessionStateChangedEventFields'' 10,
     SchemaDescriptor ''CastSessionStartedEvent'' ''kCastSessionStartedEventFields'' 7,
     SchemaDescriptor ''CastSessionStoppedEvent'' ''kCastSessionStoppedEventFields'' 8]"

definition descriptors_6 :: "schema_descriptor list" where
  "descriptors_6 = [
     SchemaDescriptor ''CastSessionFailedEvent'' ''kCastSessionFailedEventFields'' 8,
     SchemaDescriptor ''CastGetAudioParams'' ''kCastGetAudioParamsFields'' 2,
     SchemaDescriptor ''CastSetAudioParams'' ''kCastSetAudioParamsFields'' 3,
     SchemaDescriptor ''CastSetMutedParams'' ''kCastSetMutedParamsFields'' 3,
     SchemaDescriptor ''CastSetAudioDelayParams'' ''kCastSetAudioDelayParamsFields'' 3,
     SchemaDescriptor ''CastAudioState'' ''kCastAudioStateFields'' 10,
     SchemaDescriptor ''CastAudioChangedEvent'' ''kCastAudioChangedEventFields'' 4,
     SchemaDescriptor ''CastGetPinCodeConfigParams'' ''kCastGetPinCodeConfigParamsFields'' 4,
     SchemaDescriptor ''CastSetPinCodeConfigParams'' ''kCastSetPinCodeConfigParamsFields'' 4,
     SchemaDescriptor ''CastSetPinCodeParams'' ''kCastSetPinCodeParamsFields'' 3,
     SchemaDescriptor ''CastPinCodeChallenge'' ''kCastPinCodeChallengeFields'' 5,
     SchemaDescriptor ''CastPinCodeConfig'' ''kCastPinCodeConfigFields'' 16]"

definition descriptors_7 :: "schema_descriptor list" where
  "descriptors_7 = [
     SchemaDescriptor ''CastPinCodeChangedEvent'' ''kCastPinCodeChangedEventFields'' 5,
     SchemaDescriptor ''CastPinCodeRequiredEvent'' ''kCastPinCodeRequiredEventFields'' 7,
     SchemaDescriptor ''CastPinCodeAuthFailedEvent'' ''kCastPinCodeAuthFailedEventFields'' 5,
     SchemaDescriptor ''CastRect'' ''kCastRectFields'' 4,
     SchemaDescriptor ''CastSetWindowStateParams'' ''kCastSetWindowStateParamsFields'' 4,
     SchemaDescriptor ''CastWindowState'' ''kCastWindowStateFields'' 9,
     SchemaDescriptor ''CastWindowChangedEvent'' ''kCastWindowChangedEventFields'' 5,
     SchemaDescriptor ''CastGetBackendStatusParams'' ''kCastGetBackendStatusParamsFields'' 1,
     SchemaDescriptor ''CastRestartBackendParams'' ''kCastRestartBackendParamsFields'' 2,
     SchemaDescriptor ''CastBackendStatus'' ''kCastBackendStatusFields'' 9,
     SchemaDescriptor ''CastRestartBackendResult'' ''kCastRestartBackendResultFields'' 9,
     SchemaDescriptor ''CastBackendChangedEvent'' ''kCastBackendChangedEventFields'' 7]"

definition descriptors_8 :: "schema_descriptor list" where
  "descriptors_8 = [
     SchemaDescriptor ''CastGetFlowControlStateParams'' ''kCastGetFlowControlStateParamsFields'' 3,
     SchemaDescriptor ''CastSetRenderFpsParams'' ''kCastSetRenderFpsParamsFields'' 3,
     SchemaDescriptor ''CastSetFlowPolicyParams'' ''kCastSetFlowPolicyParamsFields'' 6,
     SchemaDescriptor ''CastSetVideoStreamParamsParams'' ''kCastSetVideoStreamParamsParamsFields'' 4,
     SchemaDescriptor ''CastSetVideoStreamParamsResult'' ''kCastSetVideoStreamParamsResultFields'' 7,
     SchemaDescriptor ''CastVideoStreamParamsState'' ''kCastVideoStreamParamsStateFields'' 16,
     SchemaDescriptor ''CastFlowControlState'' ''kCastFlowControlStateFields'' 16,
     SchemaDescriptor ''CastFlowControlChangedEvent'' ''kCastFlowControlChangedEventFields'' 6,
     SchemaDescriptor ''CastGetStatusParams'' ''kCastGetStatusParamsFields'' 3,
     SchemaDescriptor ''CastReceiverSummary'' ''kCastReceiverSummaryFields'' 4]"

definition descriptors_9 :: "schema_descriptor list" where
  "descriptors_9 = [
     SchemaDescriptor ''CastSessionStatusSummary'' ''kCastSessionStatusSummaryFields'' 5,
     SchemaDescriptor ''CastPinCodeStatusSummary'' ''kCastPinCodeStatusSummaryFields'' 6,
     SchemaDescriptor ''CastStatus'' ''kCastStatusFields'' 17,
     SchemaDescriptor ''CastSessionCapability'' ''kCastSessionCapabilityFields'' 5,
     SchemaDescriptor ''CastAudioCapability'' ''kCastAudioCapabilityFields'' 6,
     SchemaDescriptor ''CastPinCodeCapability'' ''kCastPinCodeCapabilityFields'' 5,
     SchemaDescriptor ''CastWindowCapability'' ''kCastWindowCapabilityFields'' 4,
     SchemaDescriptor ''CastBackendCapability'' ''kCastBackendCapabilityFields'' 4,
     SchemaDescriptor ''CastFlowControlCapability'' ''kCastFlowControlCapabilityFields'' 10]"

definition descriptors_10 :: "schema_descriptor list" where
  "descriptors_10 = [
     SchemaDescriptor ''CastStatusCapability'' ''kCastStatusCapabilityFields'' 4,
     SchemaDescriptor ''CastSessionRef'' ''kCastSessionRefFields'' 2,
     SchemaDescriptor ''CastControlTarget'' ''kCastControlTargetFields'' 4,
     SchemaDescriptor ''CastControlSnapshotCursor'' ''kCastControlSnapshotCursorFields'' 4,
     SchemaDescriptor ''CastControlEventContext'' ''kCastControlEventContextFields'' 7,
     SchemaDescriptor ''CastControlCapabilities'' ''kCastControlCapabilitiesFields'' 13,
     SchemaDescriptor ''CastPresentationCapability'' ''kCastPresentationCapabilityFields'' 7,
     SchemaDescriptor ''CastAudioPolicyCapability'' ''kCastAudioPolicyCapabilityFields'' 5,
     SchemaDescriptor ''CastControlOperationsCapability'' ''kCastControlOperationsCapabilityFields'' 3,
     SchemaDescriptor ''CastControlLimits'' ''kCastControlLimitsFields'' 8,
     SchemaDescriptor ''CastReceiverState'' ''kCastReceiverStateFields'' 6,
     SchemaDescriptor ''CastMultiSessionState'' ''kCastMultiSessionStateFields'' 9,
     SchemaDescriptor ''CastPresentationSlotState'' ''kCastPresentationSlotStateFields'' 4,
     SchemaDescriptor ''CastPresentationState'' ''kCastPresentationStateFields'' 12]"

definition descriptors_11 :: "schema_descriptor list" where
  "descriptors_11 = [
     SchemaDescriptor ''CastAudioPolicyState'' ''kCastAudioPolicyStateFields'' 6,
     SchemaDescriptor ''CastStopPresentationParams'' ''kCastStopPresentationParamsFields'' 6,
     SchemaDescriptor ''CastSetSessionAudioEnabledParams'' ''kCastSetSessionAudioEnabledParamsFields'' 6,
     SchemaDescriptor ''CastGetControlOperationParams'' ''kCastGetControlOperationParamsFields'' 4,
     SchemaDescriptor ''CastControlOperation'' ''kCastControlOperationFields'' 14,
     SchemaDescriptor ''CastSetPresentationSettingsParams'' ''kCastSetPresentationSettingsParamsFields'' 7,
     SchemaDescriptor ''CastPresentationSettingsPatch'' ''kCastPresentationSettingsPatchFields'' 13,
     SchemaDescriptor ''CastPresentationSettingsValues'' ''kCastPresentationSettingsValuesFields'' 13]"

definition descriptors_12 :: "schema_descriptor list" where
  "descriptors_12 = [
     SchemaDescriptor ''CastPresentationStartupSettings'' ''kCastPresentationStartupSettingsFields'' 13,
     SchemaDescriptor ''CastPresentationSettingsState'' ''kCastPresentationSettingsStateFields'' 16,
     SchemaDescriptor ''CastPresentationSettingIssue'' ''kCastPresentationSettingIssueFields'' 4,
     SchemaDescriptor ''CastPresentationSettingsCapability'' ''kCastPresentationSettingsCapabilityFields'' 9,
     SchemaDescriptor ''CastPresentationSettingsOperationResult'' ''kCastPresentationSettingsOperationResultFields'' 6,
     SchemaDescriptor ''CastSettingsEventContext'' ''kCastSettingsEventContextFields'' 4,
     SchemaDescriptor ''CastPresentationSettingsChangedEvent'' ''kCastPresentationSettingsChangedEventFields'' 2,
     SchemaDescriptor ''CastReceiversChangedEvent'' ''kCastReceiversChangedEventFields'' 2,
     SchemaDescriptor ''CastSessionsChangedEvent'' ''kCastSessionsChangedEventFields'' 2,
     SchemaDescriptor ''CastPresentationChangedEvent'' ''kCastPresentationChangedEventFields'' 2,
     SchemaDescriptor ''CastAudioPolicyChangedEvent'' ''kCastAudioPolicyChangedEventFields'' 2,
     SchemaDescriptor ''CastControlOperationChangedEvent'' ''kCastControlOperationChangedEventFields'' 2,
     SchemaDescriptor ''CastGetWebCastBackendStateParams'' ''kCastGetWebCastBackendStateParamsFields'' 1,
     SchemaDescriptor ''CastWebCastBackendContext'' ''kCastWebCastBackendContextFields'' 4,
     SchemaDescriptor ''CastWebCastSignalingState'' ''kCastWebCastSignalingStateFields'' 5]"

definition descriptors_13 :: "schema_descriptor list" where
  "descriptors_13 = [
     SchemaDescriptor ''CastWebCastLocalBackendState'' ''kCastWebCastLocalBackendStateFields'' 6,
     SchemaDescriptor ''CastWebCastBackendState'' ''kCastWebCastBackendStateFields'' 5,
     SchemaDescriptor ''CastWebCastBackendSnapshot'' ''kCastWebCastBackendSnapshotFields'' 2,
     SchemaDescriptor ''CastWebCastBackendCapability'' ''kCastWebCastBackendCapabilityFields'' 4,
     SchemaDescriptor ''CastMeetingPresentationState'' ''kCastMeetingPresentationStateFields'' 14,
     SchemaDescriptor ''CastSetPresentationFocusParams'' ''kCastSetPresentationFocusParamsFields'' 8,
     SchemaDescriptor ''CastMeetingAudioGain'' ''kCastMeetingAudioGainFields'' 2,
     SchemaDescriptor ''CastMeetingPresentationCapability'' ''kCastMeetingPresentationCapabilityFields'' 6,
     SchemaDescriptor ''CastAirPlayControlCapability'' ''kCastAirPlayControlCapabilityFields'' 3,
     SchemaDescriptor ''CastAirPlayAuthenticationAttempt'' ''kCastAirPlayAuthenticationAttemptFields'' 5,
     SchemaDescriptor ''CastAirPlayControlState'' ''kCastAirPlayControlStateFields'' 6,
     SchemaDescriptor ''CastAirPlayChangedEvent'' ''kCastAirPlayChangedEventFields'' 2,
     SchemaDescriptor ''GetDeviceInfoParams'' ''kGetDeviceInfoParamsFields'' 1,
     SchemaDescriptor ''DeviceInfo'' ''kDeviceInfoFields'' 7,
     SchemaDescriptor ''DeviceIdentity'' ''kDeviceIdentityFields'' 4,
     SchemaDescriptor ''DeviceProduct'' ''kDeviceProductFields'' 4]"

definition descriptors_14 :: "schema_descriptor list" where
  "descriptors_14 = [
     SchemaDescriptor ''DeviceHardware'' ''kDeviceHardwareFields'' 3,
     SchemaDescriptor ''DeviceOs'' ''kDeviceOsFields'' 4,
     SchemaDescriptor ''DeviceSoftware'' ''kDeviceSoftwareFields'' 1,
     SchemaDescriptor ''SoftwareComponent'' ''kSoftwareComponentFields'' 4,
     SchemaDescriptor ''DeviceAxtpRuntime'' ''kDeviceAxtpRuntimeFields'' 3,
     SchemaDescriptor ''DeviceCapabilitySummary'' ''kDeviceCapabilitySummaryFields'' 3,
     SchemaDescriptor ''DeviceInfoCapability'' ''kDeviceInfoCapabilityFields'' 3,
     SchemaDescriptor ''DeviceGetPairingCodeParams'' ''kDeviceGetPairingCodeParamsFields'' 2,
     SchemaDescriptor ''DevicePairingCodeInfo'' ''kDevicePairingCodeInfoFields'' 4,
     SchemaDescriptor ''DeviceGetEnrollmentStateParams'' ''kDeviceGetEnrollmentStateParamsFields'' 1,
     SchemaDescriptor ''DeviceEnrollmentInfo'' ''kDeviceEnrollmentInfoFields'' 7,
     SchemaDescriptor ''DeviceEnrollmentEndpointSummary'' ''kDeviceEnrollmentEndpointSummaryFields'' 5,
     SchemaDescriptor ''DeviceSetEnrollmentStateParams'' ''kDeviceSetEnrollmentStateParamsFields'' 4,
     SchemaDescriptor ''DeviceSetEnrollmentStateResult'' ''kDeviceSetEnrollmentStateResultFields'' 2,
     SchemaDescriptor ''DeviceEnrollmentStateChangedEvent'' ''kDeviceEnrollmentStateChangedEventFields'' 5]"

definition descriptors_15 :: "schema_descriptor list" where
  "descriptors_15 = [
     SchemaDescriptor ''DeviceEnrollmentCapability'' ''kDeviceEnrollmentCapabilityFields'' 7,
     SchemaDescriptor ''FirmwareUpdateCapabilities'' ''kFirmwareUpdateCapabilitiesFields'' 7,
     SchemaDescriptor ''BeginUpdateParams'' ''kBeginUpdateParamsFields'' 1,
     SchemaDescriptor ''BeginUpdateResult'' ''kBeginUpdateResultFields'' 4,
     SchemaDescriptor ''FinishUpdateParams'' ''kFinishUpdateParamsFields'' 1,
     SchemaDescriptor ''FinishUpdateResult'' ''kFinishUpdateResultFields'' 3,
     SchemaDescriptor ''GetUpdateStateParams'' ''kGetUpdateStateParamsFields'' 1,
     SchemaDescriptor ''FirmwareUpdateManifest'' ''kFirmwareUpdateManifestFields'' 4,
     SchemaDescriptor ''FirmwareUpdateFile'' ''kFirmwareUpdateFileFields'' 4,
     SchemaDescriptor ''FirmwareUpdateStreamBinding'' ''kFirmwareUpdateStreamBindingFields'' 2,
     SchemaDescriptor ''FirmwareUpdateState'' ''kFirmwareUpdateStateFields'' 5,
     SchemaDescriptor ''FirmwareUpdateErrorInfo'' ''kFirmwareUpdateErrorInfoFields'' 3,
     SchemaDescriptor ''FirmwareUpdateProgressEvent'' ''kFirmwareUpdateProgressEventFields'' 4,
     SchemaDescriptor ''FirmwareUpdateStateChangedEvent'' ''kFirmwareUpdateStateChangedEventFields'' 3,
     SchemaDescriptor ''NetworkGetInterfacesParams'' ''kNetworkGetInterfacesParamsFields'' 1,
     SchemaDescriptor ''NetworkGetInterfaceInfoParams'' ''kNetworkGetInterfaceInfoParamsFields'' 1,
     SchemaDescriptor ''NetworkInterfaces'' ''kNetworkInterfacesFields'' 2,
     SchemaDescriptor ''NetworkDefaultInterfaceIds'' ''kNetworkDefaultInterfaceIdsFields'' 3,
     SchemaDescriptor ''NetworkInterfaceSummary'' ''kNetworkInterfaceSummaryFields'' 4]"

definition descriptors_16 :: "schema_descriptor list" where
  "descriptors_16 = [
     SchemaDescriptor ''NetworkInterfaceInfo'' ''kNetworkInterfaceInfoFields'' 5,
     SchemaDescriptor ''NetworkInterfaceState'' ''kNetworkInterfaceStateFields'' 3,
     SchemaDescriptor ''NetworkGetIpConfigParams'' ''kNetworkGetIpConfigParamsFields'' 2,
     SchemaDescriptor ''NetworkSetIpConfigParams'' ''kNetworkSetIpConfigParamsFields'' 4,
     SchemaDescriptor ''NetworkSetIpConfigResult'' ''kNetworkSetIpConfigResultFields'' 2,
     SchemaDescriptor ''NetworkIpConfig'' ''kNetworkIpConfigFields'' 7,
     SchemaDescriptor ''NetworkGetWifiCapabilitiesParams'' ''kNetworkGetWifiCapabilitiesParamsFields'' 1,
     SchemaDescriptor ''NetworkGetWifiConfigParams'' ''kNetworkGetWifiConfigParamsFields'' 2,
     SchemaDescriptor ''NetworkGetWifiStateParams'' ''kNetworkGetWifiStateParamsFields'' 1,
     SchemaDescriptor ''NetworkWifiCapabilities'' ''kNetworkWifiCapabilitiesFields'' 7,
     SchemaDescriptor ''NetworkWifiConfig'' ''kNetworkWifiConfigFields'' 3,
     SchemaDescriptor ''NetworkWifiProfile'' ''kNetworkWifiProfileFields'' 7,
     SchemaDescriptor ''NetworkCredential'' ''kNetworkCredentialFields'' 3,
     SchemaDescriptor ''NetworkSetWifiConfigParams'' ''kNetworkSetWifiConfigParamsFields'' 5,
     SchemaDescriptor ''NetworkSetWifiConfigResult'' ''kNetworkSetWifiConfigResultFields'' 3,
     SchemaDescriptor ''NetworkScanWifiParams'' ''kNetworkScanWifiParamsFields'' 3]"

definition descriptors_17 :: "schema_descriptor list" where
  "descriptors_17 = [
     SchemaDescriptor ''NetworkScanWifiResult'' ''kNetworkScanWifiResultFields'' 3,
     SchemaDescriptor ''NetworkConnectWifiParams'' ''kNetworkConnectWifiParamsFields'' 4,
     SchemaDescriptor ''NetworkDisconnectWifiParams'' ''kNetworkDisconnectWifiParamsFields'' 2,
     SchemaDescriptor ''NetworkWifiActionResult'' ''kNetworkWifiActionResultFields'' 2,
     SchemaDescriptor ''NetworkWifiState'' ''kNetworkWifiStateFields'' 7,
     SchemaDescriptor ''NetworkWifiScanResult'' ''kNetworkWifiScanResultFields'' 6,
     SchemaDescriptor ''NetworkGetApCapabilitiesParams'' ''kNetworkGetApCapabilitiesParamsFields'' 1,
     SchemaDescriptor ''NetworkGetApConfigParams'' ''kNetworkGetApConfigParamsFields'' 1,
     SchemaDescriptor ''NetworkApCapabilities'' ''kNetworkApCapabilitiesFields'' 5,
     SchemaDescriptor ''NetworkApConfig'' ''kNetworkApConfigFields'' 9,
     SchemaDescriptor ''NetworkSetApConfigParams'' ''kNetworkSetApConfigParamsFields'' 2,
     SchemaDescriptor ''NetworkSetApConfigResult'' ''kNetworkSetApConfigResultFields'' 2,
     SchemaDescriptor ''NetworkApState'' ''kNetworkApStateFields'' 6,
     SchemaDescriptor ''NetworkApActionParams'' ''kNetworkApActionParamsFields'' 2,
     SchemaDescriptor ''NetworkApActionResult'' ''kNetworkApActionResultFields'' 2,
     SchemaDescriptor ''NetworkApClients'' ''kNetworkApClientsFields'' 1]"

definition descriptors_18 :: "schema_descriptor list" where
  "descriptors_18 = [
     SchemaDescriptor ''NetworkApClientInfo'' ''kNetworkApClientInfoFields'' 5,
     SchemaDescriptor ''NetworkInterfaceStateChangedEvent'' ''kNetworkInterfaceStateChangedEventFields'' 4,
     SchemaDescriptor ''NetworkIpConfigChangedEvent'' ''kNetworkIpConfigChangedEventFields'' 5,
     SchemaDescriptor ''NetworkWifiConfigChangedEvent'' ''kNetworkWifiConfigChangedEventFields'' 4,
     SchemaDescriptor ''NetworkWifiStateChangedEvent'' ''kNetworkWifiStateChangedEventFields'' 3,
     SchemaDescriptor ''NetworkWifiScanResultReportedEvent'' ''kNetworkWifiScanResultReportedEventFields'' 3,
     SchemaDescriptor ''NetworkApConfigChangedEvent'' ''kNetworkApConfigChangedEventFields'' 4,
     SchemaDescriptor ''NetworkApStateChangedEvent'' ''kNetworkApStateChangedEventFields'' 3,
     SchemaDescriptor ''NetworkApClientChangedEvent'' ''kNetworkApClientChangedEventFields'' 3,
     SchemaDescriptor ''NetworkInterfaceCapability'' ''kNetworkInterfaceCapabilityFields'' 2,
     SchemaDescriptor ''NetworkIpCapability'' ''kNetworkIpCapabilityFields'' 3,
     SchemaDescriptor ''SignageGetPlaylistCapabilitiesParams'' ''kSignageGetPlaylistCapabilitiesParamsFields'' 0,
     SchemaDescriptor ''SignageGetPlaylistConfigParams'' ''kSignageGetPlaylistConfigParamsFields'' 0,
     SchemaDescriptor ''SignageResetPlaylistConfigParams'' ''kSignageResetPlaylistConfigParamsFields'' 0,
     SchemaDescriptor ''SignageSetPlaylistConfigResult'' ''kSignageSetPlaylistConfigResultFields'' 0,
     SchemaDescriptor ''SignagePlaylistCapabilitiesResult'' ''kSignagePlaylistCapabilitiesResultFields'' 6,
     SchemaDescriptor ''SignagePlaylistConfigResult'' ''kSignagePlaylistConfigResultFields'' 1,
     SchemaDescriptor ''SignageSetPlaylistConfigParams'' ''kSignageSetPlaylistConfigParamsFields'' 1,
     SchemaDescriptor ''SignageGetPlaylistItemUrlParams'' ''kSignageGetPlaylistItemUrlParamsFields'' 1,
     SchemaDescriptor ''SignageGetPlaylistItemUrlResult'' ''kSignageGetPlaylistItemUrlResultFields'' 2,
     SchemaDescriptor ''SignageGetPlaylistItemParams'' ''kSignageGetPlaylistItemParamsFields'' 1,
     SchemaDescriptor ''SignageGetPlaylistItemResult'' ''kSignageGetPlaylistItemResultFields'' 1]"

definition descriptors_19 :: "schema_descriptor list" where
  "descriptors_19 = [
     SchemaDescriptor ''SignagePlaylistConfigChangedEvent'' ''kSignagePlaylistConfigChangedEventFields'' 2,
     SchemaDescriptor ''SignagePlaylist'' ''kSignagePlaylistFields'' 8,
     SchemaDescriptor ''SignagePlaylistItem'' ''kSignagePlaylistItemFields'' 5,
     SchemaDescriptor ''SignageImageItemSettings'' ''kSignageImageItemSettingsFields'' 3,
     SchemaDescriptor ''SignageVideoItemSettings'' ''kSignageVideoItemSettingsFields'' 3,
     SchemaDescriptor ''SignageWebsiteItemSettings'' ''kSignageWebsiteItemSettingsFields'' 3,
     SchemaDescriptor ''SignageClockItemSettings'' ''kSignageClockItemSettingsFields'' 1,
     SchemaDescriptor ''SignageUnsplashItemSettings'' ''kSignageUnsplashItemSettingsFields'' 3,
     SchemaDescriptor ''SignagePowerBiItemSettings'' ''kSignagePowerBiItemSettingsFields'' 5,
     SchemaDescriptor ''SignagePlaylistClockEntry'' ''kSignagePlaylistClockEntryFields'' 2,
     SchemaDescriptor ''SignagePlaylistUnsplashPhoto'' ''kSignagePlaylistUnsplashPhotoFields'' 2,
     SchemaDescriptor ''SignagePlaylistUnsplashUser'' ''kSignagePlaylistUnsplashUserFields'' 2,
     SchemaDescriptor ''SignagePlaylistCapability'' ''kSignagePlaylistCapabilityFields'' 6,
     SchemaDescriptor ''SoftwareGetConfigParams'' ''kSoftwareGetConfigParamsFields'' 1,
     SchemaDescriptor ''SoftwareConfig'' ''kSoftwareConfigFields'' 2,
     SchemaDescriptor ''SoftwareSetConfigParams'' ''kSoftwareSetConfigParamsFields'' 2,
     SchemaDescriptor ''SoftwareResetConfigParams'' ''kSoftwareResetConfigParamsFields'' 1,
     SchemaDescriptor ''SoftwareSetConfigResult'' ''kSoftwareSetConfigResultFields'' 0,
     SchemaDescriptor ''SoftwareConfigChangedEvent'' ''kSoftwareConfigChangedEventFields'' 4,
     SchemaDescriptor ''LauncherConfig'' ''kLauncherConfigFields'' 2,
     SchemaDescriptor ''LauncherAppearance'' ''kLauncherAppearanceFields'' 3]"

definition descriptors_20 :: "schema_descriptor list" where
  "descriptors_20 = [
     SchemaDescriptor ''SoftwareConfigCapability'' ''kSoftwareConfigCapabilityFields'' 3,
     SchemaDescriptor ''SoftwareGetUpdatePolicyParams'' ''kSoftwareGetUpdatePolicyParamsFields'' 1,
     SchemaDescriptor ''SoftwareUpdatePolicy'' ''kSoftwareUpdatePolicyFields'' 2,
     SchemaDescriptor ''SoftwareSetUpdatePolicyParams'' ''kSoftwareSetUpdatePolicyParamsFields'' 2,
     SchemaDescriptor ''SoftwareResetUpdatePolicyParams'' ''kSoftwareResetUpdatePolicyParamsFields'' 1,
     SchemaDescriptor ''SoftwareSetUpdatePolicyResult'' ''kSoftwareSetUpdatePolicyResultFields'' 0,
     SchemaDescriptor ''SoftwareUpdatePolicyChangedEvent'' ''kSoftwareUpdatePolicyChangedEventFields'' 4,
     SchemaDescriptor ''LauncherUpdatePolicy'' ''kLauncherUpdatePolicyFields'' 4,
     SchemaDescriptor ''UpdateSchedule'' ''kUpdateScheduleFields'' 3,
     SchemaDescriptor ''UpdateConditions'' ''kUpdateConditionsFields'' 2,
     SchemaDescriptor ''SoftwareUpdatePolicyCapability'' ''kSoftwareUpdatePolicyCapabilityFields'' 4,
     SchemaDescriptor ''SportConfigTargetParams'' ''kSportConfigTargetParamsFields'' 2,
     SchemaDescriptor ''SportGoalShotWatermarkConfig'' ''kSportGoalShotWatermarkConfigFields'' 4,
     SchemaDescriptor ''SportSetGoalShotWatermarkConfigParams'' ''kSportSetGoalShotWatermarkConfigParamsFields'' 4,
     SchemaDescriptor ''SportEventClipConfig'' ''kSportEventClipConfigFields'' 4,
     SchemaDescriptor ''SportSetEventClipConfigParams'' ''kSportSetEventClipConfigParamsFields'' 4,
     SchemaDescriptor ''GetEventDetectionCapabilitiesParams'' ''kGetEventDetectionCapabilitiesParamsFields'' 2,
     SchemaDescriptor ''GetEventDetectionCapabilitiesResult'' ''kGetEventDetectionCapabilitiesResultFields'' 1,
     SchemaDescriptor ''SportEventDetectionSportDescriptor'' ''kSportEventDetectionSportDescriptorFields'' 5,
     SchemaDescriptor ''SportEventDetectionCapabilities'' ''kSportEventDetectionCapabilitiesFields'' 6,
     SchemaDescriptor ''GetEventDetectionConfigParams'' ''kGetEventDetectionConfigParamsFields'' 1]"

definition descriptors_21 :: "schema_descriptor list" where
  "descriptors_21 = [
     SchemaDescriptor ''SportEventDetectionState'' ''kSportEventDetectionStateFields'' 7,
     SchemaDescriptor ''SetEventDetectionConfigParams'' ''kSetEventDetectionConfigParamsFields'' 3,
     SchemaDescriptor ''SetEventDetectionConfigResult'' ''kSetEventDetectionConfigResultFields'' 2,
     SchemaDescriptor ''SportEventDetectionStateChangedEvent'' ''kSportEventDetectionStateChangedEventFields'' 3,
     SchemaDescriptor ''SportEventDetails'' ''kSportEventDetailsFields'' 4,
     SchemaDescriptor ''SportEventDetectedEvent'' ''kSportEventDetectedEventFields'' 8,
     SchemaDescriptor ''SportBasketballCapability'' ''kSportBasketballCapabilityFields'' 6,
     SchemaDescriptor ''SportBasketballShotDetails'' ''kSportBasketballShotDetailsFields'' 2,
     SchemaDescriptor ''SportBasketballGoalDetails'' ''kSportBasketballGoalDetailsFields'' 3,
     SchemaDescriptor ''StreamFlowControlCapabilities'' ''kStreamFlowControlCapabilitiesFields'' 9,
     SchemaDescriptor ''StreamSelector'' ''kStreamSelectorFields'' 1,
     SchemaDescriptor ''StreamState'' ''kStreamStateFields'' 8,
     SchemaDescriptor ''StreamStats'' ''kStreamStatsFields'' 9,
     SchemaDescriptor ''StreamAckParams'' ''kStreamAckParamsFields'' 4]"

definition descriptors_22 :: "schema_descriptor list" where
  "descriptors_22 = [
     SchemaDescriptor ''StreamAckResult'' ''kStreamAckResultFields'' 2,
     SchemaDescriptor ''StreamWindowUpdateParams'' ''kStreamWindowUpdateParamsFields'' 3,
     SchemaDescriptor ''StreamWindowUpdateResult'' ''kStreamWindowUpdateResultFields'' 2,
     SchemaDescriptor ''StreamPauseParams'' ''kStreamPauseParamsFields'' 2,
     SchemaDescriptor ''StreamResumeParams'' ''kStreamResumeParamsFields'' 2,
     SchemaDescriptor ''StreamAbortParams'' ''kStreamAbortParamsFields'' 3,
     SchemaDescriptor ''StreamActionResult'' ''kStreamActionResultFields'' 2,
     SchemaDescriptor ''StreamStateChangedEvent'' ''kStreamStateChangedEventFields'' 2,
     SchemaDescriptor ''StreamStatsReportedEvent'' ''kStreamStatsReportedEventFields'' 2,
     SchemaDescriptor ''StreamFlowControlChangedEvent'' ''kStreamFlowControlChangedEventFields'' 3,
     SchemaDescriptor ''StreamClockMediaAnchor'' ''kStreamClockMediaAnchorFields'' 6,
     SchemaDescriptor ''StreamClockReportEvent'' ''kStreamClockReportEventFields'' 12,
     SchemaDescriptor ''VideoGetStreamCapabilitiesParams'' ''kVideoGetStreamCapabilitiesParamsFields'' 2,
     SchemaDescriptor ''VideoStreamCapabilities'' ''kVideoStreamCapabilitiesFields'' 11,
     SchemaDescriptor ''VideoStreamSource'' ''kVideoStreamSourceFields'' 10]"

definition descriptors_23 :: "schema_descriptor list" where
  "descriptors_23 = [
     SchemaDescriptor ''VideoOpenStreamParams'' ''kVideoOpenStreamParamsFields'' 16,
     SchemaDescriptor ''VideoOpenStreamResult'' ''kVideoOpenStreamResultFields'' 16,
     SchemaDescriptor ''VideoCloseStreamParams'' ''kVideoCloseStreamParamsFields'' 4,
     SchemaDescriptor ''VideoCloseStreamResult'' ''kVideoCloseStreamResultFields'' 4,
     SchemaDescriptor ''VideoGetStreamStateParams'' ''kVideoGetStreamStateParamsFields'' 1,
     SchemaDescriptor ''VideoStreamState'' ''kVideoStreamStateFields'' 13,
     SchemaDescriptor ''VideoGetStreamSourceStateParams'' ''kVideoGetStreamSourceStateParamsFields'' 1,
     SchemaDescriptor ''VideoStreamSourceState'' ''kVideoStreamSourceStateFields'' 5,
     SchemaDescriptor ''VideoRequestKeyFrameParams'' ''kVideoRequestKeyFrameParamsFields'' 2,
     SchemaDescriptor ''VideoRequestKeyFrameResult'' ''kVideoRequestKeyFrameResultFields'' 2,
     SchemaDescriptor ''VideoStreamStateChangedEvent'' ''kVideoStreamStateChangedEventFields'' 7]"

definition descriptors_24 :: "schema_descriptor list" where
  "descriptors_24 = [
     SchemaDescriptor ''VideoStreamSourceStateChangedEvent'' ''kVideoStreamSourceStateChangedEventFields'' 5,
     SchemaDescriptor ''VideoStreamStatsReportedEvent'' ''kVideoStreamStatsReportedEventFields'' 2,
     SchemaDescriptor ''VideoStreamStats'' ''kVideoStreamStatsFields'' 4]"

definition schema_descriptors :: "schema_descriptor list" where
  "schema_descriptors = concat [descriptors_1, descriptors_2, descriptors_3, descriptors_4, descriptors_5, descriptors_6, descriptors_7,
     descriptors_8, descriptors_9, descriptors_10, descriptors_11, descriptors_12, descriptors_13, descriptors_14,
     descriptors_15, descriptors_16, descriptors_17, descriptors_18, descriptors_19, descriptors_20, descriptors_21,
     descriptors_22, descriptors_23, descriptors_24]"

end
