(* ===== verification/Schema_Types.thy ===== *)
theory Schema_Types
  imports Axtp_Model
begin

text \<open>
  The plain structures of the schemas and the constants of their TLV field ids
  (\<^verbatim>\<open>core/protocol/generated/axtp_tlv_codec_generated.h\<close>), in the order of the source. A structure is its
  members with their types; each has the initializer of its type (0, \<^verbatim>\<open>false\<close> or \<^verbatim>\<open>nullptr\<close>).
\<close>

datatype member_type = C_uint8 | C_uint16 | C_uint32 | C_uint64 | C_int8 | C_int16 | C_int32 | C_int64 |
  C_bool | C_text | C_bytes

section \<open>Field ids\<close>

definition ids_1 :: "(string \<times> (string \<times> byte) list) list" where
  "ids_1 = [
     (''empty'', []),
     (''common_empty_request'', []),
     (''common_empty_response'', []),
     (''control_open_body'', [(''PROTOCOL_VERSION'', 0x02), (''RESERVED_HEADER_PROFILE'', 0x03), (''MAX_FRAME_SIZE'', 0x04), (''MTU'', 0x06),
        (''SUPPORTED_PAYLOAD_TYPES'', 0x07), (''SUPPORTED_RPC_ENCODINGS'', 0x08), (''HEARTBEAT_INTERVAL_MS'', 0x0A),
        (''ACK_MODE'', 0x0B)]),
     (''control_accept_body'', [(''SESSION_ID'', 0x01), (''PROTOCOL_VERSION'', 0x02), (''RESERVED_HEADER_PROFILE'', 0x03),
        (''MAX_FRAME_SIZE'', 0x04), (''MTU'', 0x06), (''SUPPORTED_PAYLOAD_TYPES'', 0x07),
        (''HEARTBEAT_INTERVAL_MS'', 0x0A), (''ACK_MODE'', 0x0B), (''SELECTED_RPC_ENCODING'', 0x1E)]),
     (''audio_algorithm_capability'', [(''CONFIG_SCHEMA_VERSION'', 0x01), (''UPDATE_POLICY'', 0x02), (''SUPPORTED_ALGORITHMS'', 0x03)]),
     (''audio_get_algorithm_capabilities_request'', [(''ITEMS'', 0x01)]),
     (''audio_get_algorithm_config_request'', [(''ITEMS'', 0x01)]),
     (''audio_set_algorithm_config_request'', [(''CONFIG'', 0x01)]),
     (''audio_reset_algorithm_config_request'', [(''ITEMS'', 0x01)]),
     (''audio_set_algorithm_config_response'', [(''APPLY_STATE'', 0x01), (''REQUIRES_AUDIO_RESTART'', 0x02), (''CONFIG'', 0x03)]),
     (''audio_algorithm_config_changed_event'', [(''REASON'', 0x01), (''APPLY_STATE'', 0x02), (''REQUIRES_AUDIO_RESTART'', 0x03), (''CONFIG'', 0x04),
        (''CHANGED_FIELDS'', 0x05)]),
     (''audio_get_algorithm_capabilities_response'', [(''CAPABILITY'', 0x01), (''UPDATE_POLICY'', 0x02), (''ALGORITHMS'', 0x03)]),
     (''audio_algorithm_update_policy'', [(''PARTIAL_UPDATE_SUPPORTED'', 0x01), (''MULTI_ALGORITHM_UPDATE_SUPPORTED'', 0x02),
        (''ATOMIC_UPDATE_SUPPORTED'', 0x03)]),
     (''audio_algorithm_capabilities'', [(''NOISE_SUPPRESSION'', 0x01), (''ECHO_CANCELLATION'', 0x02), (''AUTO_GAIN_CONTROL'', 0x03),
        (''BEAMFORMING'', 0x04), (''DEREVERBERATION'', 0x05), (''VOICE_ACTIVITY_DETECTION'', 0x06),
        (''DIRECTION_OF_ARRIVAL'', 0x07), (''HOWLING_SUPPRESSION'', 0x08)]),
     (''audio_algorithm_property_capability'', [(''TYPE'', 0x01), (''DEFAULT_BOOL'', 0x02), (''DEFAULT_ENUM'', 0x03), (''DEFAULT_INT32'', 0x04),
        (''MIN'', 0x05), (''MAX'', 0x06), (''STEP'', 0x07), (''VALUES'', 0x08), (''UNIT'', 0x09),
        (''REQUIRES_AUDIO_RESTART'', 0x0A)]),
     (''audio_noise_suppression_capabilities'', [(''SUPPORTED'', 0x01), (''DISPLAY_NAME'', 0x02), (''ENABLED'', 0x03), (''LEVEL'', 0x05)])]"

definition ids_2 :: "(string \<times> (string \<times> byte) list) list" where
  "ids_2 = [
     (''audio_echo_cancellation_capabilities'', [(''SUPPORTED'', 0x01), (''DISPLAY_NAME'', 0x02), (''ENABLED'', 0x03), (''TAIL_LENGTH_MS'', 0x05),
        (''NLP_LEVEL'', 0x06)]),
     (''audio_auto_gain_control_capabilities'', [(''SUPPORTED'', 0x01), (''DISPLAY_NAME'', 0x02), (''ENABLED'', 0x03), (''TARGET_LEVEL_DB'', 0x04),
        (''MAX_GAIN_DB'', 0x05), (''ATTACK_TIME_MS'', 0x06), (''RELEASE_TIME_MS'', 0x07)]),
     (''audio_beamforming_capabilities'', [(''SUPPORTED'', 0x01), (''DISPLAY_NAME'', 0x02), (''ENABLED'', 0x03), (''LOOK_DIRECTION_DEG'', 0x05),
        (''BEAM_WIDTH_DEG'', 0x06)]),
     (''audio_dereverberation_capabilities'', [(''SUPPORTED'', 0x01), (''DISPLAY_NAME'', 0x02), (''ENABLED'', 0x03), (''LEVEL'', 0x05)]),
     (''audio_voice_activity_detection_capabilities'', [(''SUPPORTED'', 0x01), (''DISPLAY_NAME'', 0x02), (''ENABLED'', 0x03), (''SENSITIVITY'', 0x04),
        (''HANGOVER_MS'', 0x05)]),
     (''audio_direction_of_arrival_capabilities'', [(''SUPPORTED'', 0x01), (''DISPLAY_NAME'', 0x02), (''ENABLED'', 0x03), (''REPORTING_ENABLED'', 0x04),
        (''REPORT_INTERVAL_MS'', 0x05), (''SMOOTHING_MS'', 0x06)]),
     (''audio_howling_suppression_capabilities'', [(''SUPPORTED'', 0x01), (''DISPLAY_NAME'', 0x02), (''ENABLED'', 0x03), (''LEVEL'', 0x05)]),
     (''audio_algorithm_config'', [(''NOISE_SUPPRESSION'', 0x01), (''ECHO_CANCELLATION'', 0x02), (''AUTO_GAIN_CONTROL'', 0x03),
        (''BEAMFORMING'', 0x04), (''DEREVERBERATION'', 0x05), (''VOICE_ACTIVITY_DETECTION'', 0x06),
        (''DIRECTION_OF_ARRIVAL'', 0x07), (''HOWLING_SUPPRESSION'', 0x08)]),
     (''audio_noise_suppression_config'', [(''ENABLED'', 0x01), (''LEVEL'', 0x03)]),
     (''audio_echo_cancellation_config'', [(''ENABLED'', 0x01), (''TAIL_LENGTH_MS'', 0x03), (''NLP_LEVEL'', 0x04)]),
     (''audio_auto_gain_control_config'', [(''ENABLED'', 0x01), (''TARGET_LEVEL_DB'', 0x02), (''MAX_GAIN_DB'', 0x03), (''ATTACK_TIME_MS'', 0x04),
        (''RELEASE_TIME_MS'', 0x05)]),
     (''audio_beamforming_config'', [(''ENABLED'', 0x01), (''LOOK_DIRECTION_DEG'', 0x03), (''BEAM_WIDTH_DEG'', 0x04)]),
     (''audio_dereverberation_config'', [(''ENABLED'', 0x01), (''LEVEL'', 0x03)])]"

definition ids_3 :: "(string \<times> (string \<times> byte) list) list" where
  "ids_3 = [
     (''audio_voice_activity_detection_config'', [(''ENABLED'', 0x01), (''SENSITIVITY'', 0x02), (''HANGOVER_MS'', 0x03)]),
     (''audio_direction_of_arrival_config'', [(''ENABLED'', 0x01), (''REPORTING_ENABLED'', 0x02), (''REPORT_INTERVAL_MS'', 0x03), (''SMOOTHING_MS'', 0x04)]),
     (''audio_howling_suppression_config'', [(''ENABLED'', 0x01), (''LEVEL'', 0x03)]),
     (''audio_get_stream_capabilities_params'', [(''SOURCE'', 0x01), (''INCLUDE_RUNTIME_STATE'', 0x02)]),
     (''audio_stream_capabilities'', [(''CAPABILITY'', 0x01), (''SOURCES'', 0x02), (''STREAM_PROFILES'', 0x03), (''OPEN_MODES'', 0x04),
        (''PEER_ROLES'', 0x05), (''SUPPORTS_SOURCE_STATE_EVENT'', 0x06), (''SUPPORTS_SYNC_GROUP'', 0x07),
        (''FLOW_CONTROL_MANAGED_BY_RUNTIME'', 0x08), (''AAC_TRANSPORT_FORMATS'', 0x09),
        (''SUPPORTED_AUDIO_PTS_MODES'', 0x0A), (''SUPPORTED_PACKETIZATION_MODES'', 0x0B),
        (''SUPPORTS_SOURCE_CAPTURE_TIMESTAMP_CURSOR'', 0x0C)]),
     (''audio_stream_source'', [(''SOURCE'', 0x01), (''DISPLAY_NAME'', 0x02), (''CODECS'', 0x03), (''SAMPLE_RATES'', 0x04),
        (''CHANNELS'', 0x05), (''STATE'', 0x06)]),
     (''audio_open_stream_params'', [(''SOURCE'', 0x01), (''PEER_ROLE'', 0x02), (''CODEC'', 0x03), (''TRANSPORT_FORMAT'', 0x04),
        (''SAMPLE_RATE'', 0x05), (''CHANNELS'', 0x06), (''SAMPLE_FORMAT'', 0x07), (''CHUNK_DURATION_MS'', 0x08),
        (''STREAM_PROFILE'', 0x09), (''CURSOR_UNIT'', 0x0A), (''SYNC_GROUP_ID'', 0x0B), (''CAST_SESSION_ID'', 0x0C),
        (''CLOCK_DOMAIN'', 0x0D), (''RECEIVER_CLOCK_DOMAIN'', 0x0E), (''MAX_DATA_SIZE'', 0x0F),
        (''AUDIO_PTS_MODE'', 0x10), (''TIMEBASE'', 0x11), (''SAMPLES_PER_PACKET'', 0x12),
        (''FIRST_MEDIA_SEQ_ID'', 0x13), (''AUDIO_PTS_BASE'', 0x14), (''PACKETIZATION_MODE'', 0x15)]),
     (''audio_open_stream_result'', [(''STREAM_ID'', 0x01), (''STATE'', 0x02), (''SOURCE'', 0x03), (''PEER_ROLE'', 0x04), (''CODEC'', 0x05),
        (''TRANSPORT_FORMAT'', 0x06), (''SAMPLE_RATE'', 0x07), (''CHANNELS'', 0x08), (''SAMPLE_FORMAT'', 0x09),
        (''STREAM_PROFILE'', 0x0A), (''CURSOR_UNIT'', 0x0B), (''SYNC_GROUP_ID'', 0x0C), (''CAST_SESSION_ID'', 0x0D),
        (''CLOCK_DOMAIN'', 0x0E), (''RECEIVER_CLOCK_DOMAIN'', 0x0F), (''MAX_DATA_SIZE'', 0x10),
        (''AUDIO_PTS_MODE'', 0x11), (''TIMEBASE'', 0x12), (''SAMPLES_PER_PACKET'', 0x13),
        (''FIRST_MEDIA_SEQ_ID'', 0x14), (''AUDIO_PTS_BASE'', 0x15), (''PACKETIZATION_MODE'', 0x16)])]"

definition ids_4 :: "(string \<times> (string \<times> byte) list) list" where
  "ids_4 = [
     (''audio_close_stream_params'', [(''STREAM_ID'', 0x01), (''PEER_ROLE'', 0x02), (''REASON'', 0x03), (''FINAL_CURSOR'', 0x04)]),
     (''audio_close_stream_result'', [(''STREAM_ID'', 0x01), (''STATE'', 0x02), (''REASON'', 0x03), (''ALREADY_CLOSED'', 0x04)]),
     (''audio_get_stream_state_params'', [(''STREAM_ID'', 0x01)]),
     (''audio_stream_state'', [(''STREAM_ID'', 0x01), (''STATE'', 0x02), (''SOURCE'', 0x03), (''PEER_ROLE'', 0x04), (''CODEC'', 0x05),
        (''STREAM_PROFILE'', 0x06), (''SYNC_GROUP_ID'', 0x07), (''CURSOR_UNIT'', 0x08), (''LAST_CURSOR'', 0x09),
        (''FAILURE_REASON'', 0x0A)]),
     (''audio_get_stream_source_state_params'', [(''SOURCE'', 0x01)]),
     (''audio_stream_source_state'', [(''SOURCE'', 0x01), (''MEDIA_KIND'', 0x02), (''STATE'', 0x03), (''AVAILABLE'', 0x04),
        (''ACTIVE_STREAM_ID'', 0x05), (''LAST_OPEN_REJECTED_REASON'', 0x06)]),
     (''audio_stream_state_changed_event'', [(''STREAM_ID'', 0x01), (''STATE'', 0x02), (''SOURCE'', 0x03), (''REASON'', 0x04), (''STATS'', 0x05)]),
     (''audio_stream_source_state_changed_event'', [(''SOURCE'', 0x01), (''MEDIA_KIND'', 0x02), (''STATE'', 0x03), (''REASON'', 0x04), (''ACTIVE_STREAM_ID'', 0x05)]),
     (''audio_stream_stats_reported_event'', [(''STREAM_ID'', 0x01), (''STATS'', 0x02)]),
     (''audio_stream_stats'', [(''PACKETS'', 0x01), (''BYTES'', 0x02), (''DROPPED_PACKETS'', 0x03), (''JITTER_MS'', 0x04)]),
     (''cast_source_summary'', [(''NAME'', 0x01), (''MODEL'', 0x02), (''ADDRESS'', 0x03), (''SOURCE_ID'', 0x04), (''PROTOCOL'', 0x05)]),
     (''cast_media_summary'', [(''FIRST_FRAME'', 0x01), (''WIDTH'', 0x02), (''HEIGHT'', 0x03), (''ORIENTATION'', 0x04), (''INPUT_FPS'', 0x05),
        (''RENDER_FPS'', 0x06), (''AUDIO_ACTIVE'', 0x07)]),
     (''cast_last_error'', [(''CODE'', 0x01), (''MESSAGE'', 0x02), (''OCCURRED_AT'', 0x03), (''REDACTED'', 0x04)]),
     (''cast_get_session_params'', [(''INCLUDE'', 0x01), (''SESSION_ID'', 0x02)])]"

definition ids_5 :: "(string \<times> (string \<times> byte) list) list" where
  "ids_5 = [
     (''cast_session_state'', [(''RECEIVER_STATE'', 0x01), (''SESSION_ID'', 0x02), (''RECEIVER_PHASE'', 0x03), (''SESSION_STATE'', 0x04),
        (''PROTOCOL'', 0x05), (''AIR_PLAY_NAME'', 0x06), (''SOURCE'', 0x07), (''MEDIA'', 0x08),
        (''BACKEND_STATE'', 0x09), (''REASON'', 0x0A), (''AUTH_REQUIRED'', 0x0B), (''UPDATED_AT'', 0x0C)]),
     (''cast_stop_session_params'', [(''SESSION_ID'', 0x01), (''REASON'', 0x02), (''FORCE'', 0x03)]),
     (''cast_stop_session_result'', [(''ACCEPTED'', 0x01), (''SESSION_ID'', 0x02), (''PREVIOUS_RECEIVER_PHASE'', 0x03), (''RECEIVER_PHASE'', 0x04),
        (''PREVIOUS_STATE'', 0x05), (''SESSION_STATE'', 0x06), (''REASON'', 0x07), (''NO_ACTIVE_SESSION'', 0x08),
        (''UPDATED_AT'', 0x09)]),
     (''cast_set_air_play_name_params'', [(''DISPLAY_NAME'', 0x01), (''APPLY'', 0x02)]),
     (''cast_air_play_name_state'', [(''DISPLAY_NAME'', 0x01), (''PREVIOUS_DISPLAY_NAME'', 0x02), (''SOURCE'', 0x03), (''APPLY'', 0x04),
        (''PUBLISH_STATE'', 0x05), (''BACKEND_TYPE'', 0x06), (''UPDATED_AT'', 0x07)]),
     (''cast_session_incoming_event'', [(''SESSION_ID'', 0x01), (''RECEIVER_PHASE'', 0x02), (''PROTOCOL'', 0x03), (''SOURCE'', 0x04),
        (''AUTH_REQUIRED'', 0x05), (''INCOMING_AT'', 0x06)]),
     (''cast_session_state_changed_event'', [(''SESSION_ID'', 0x01), (''PREVIOUS_RECEIVER_PHASE'', 0x02), (''RECEIVER_PHASE'', 0x03),
        (''PREVIOUS_STATE'', 0x04), (''SESSION_STATE'', 0x05), (''PROTOCOL'', 0x06), (''AUTH_REQUIRED'', 0x07),
        (''MEDIA'', 0x08), (''REASON'', 0x09), (''UPDATED_AT'', 0x0A)]),
     (''cast_session_started_event'', [(''SESSION_ID'', 0x01), (''RECEIVER_PHASE'', 0x02), (''SESSION_STATE'', 0x03), (''PROTOCOL'', 0x04),
        (''SOURCE'', 0x05), (''MEDIA'', 0x06), (''STARTED_AT'', 0x07)]),
     (''cast_session_stopped_event'', [(''SESSION_ID'', 0x01), (''PREVIOUS_RECEIVER_PHASE'', 0x02), (''RECEIVER_PHASE'', 0x03),
        (''PREVIOUS_STATE'', 0x04), (''SESSION_STATE'', 0x05), (''REASON'', 0x06), (''BACKEND_TYPE'', 0x07),
        (''STOPPED_AT'', 0x08)])]"

definition ids_6 :: "(string \<times> (string \<times> byte) list) list" where
  "ids_6 = [
     (''cast_session_failed_event'', [(''SESSION_ID'', 0x01), (''RECEIVER_PHASE'', 0x02), (''SESSION_STATE'', 0x03), (''PROTOCOL'', 0x04),
        (''SOURCE'', 0x05), (''REASON'', 0x06), (''ERROR'', 0x07), (''FAILED_AT'', 0x08)]),
     (''cast_get_audio_params'', [(''INCLUDE_EFFECTIVE'', 0x01), (''SESSION_ID'', 0x02)]),
     (''cast_set_audio_params'', [(''ENABLED'', 0x01), (''SESSION_ID'', 0x02), (''SCOPE'', 0x03)]),
     (''cast_set_muted_params'', [(''MUTED'', 0x01), (''SESSION_ID'', 0x02), (''SCOPE'', 0x03)]),
     (''cast_set_audio_delay_params'', [(''AUDIO_DELAY_MS'', 0x01), (''SESSION_ID'', 0x02), (''SCOPE'', 0x03)]),
     (''cast_audio_state'', [(''ENABLED'', 0x01), (''MUTED'', 0x02), (''EFFECTIVE_PLAYBACK'', 0x03), (''SCOPE'', 0x04),
        (''SESSION_ID'', 0x05), (''SOURCE'', 0x06), (''REASON'', 0x07), (''CHANGED_FIELDS'', 0x08),
        (''UPDATED_AT'', 0x09), (''AUDIO_DELAY_MS'', 0x0A)]),
     (''cast_audio_changed_event'', [(''CHANGED_FIELDS'', 0x01), (''STATE'', 0x02), (''REASON'', 0x03), (''UPDATED_AT'', 0x04)]),
     (''cast_get_pin_code_config_params'', [(''INCLUDE_SECRET'', 0x01), (''PROTOCOL'', 0x02), (''INCLUDE_SENSITIVE'', 0x03), (''ATTEMPT_ID'', 0x04)]),
     (''cast_set_pin_code_config_params'', [(''ENABLED'', 0x01), (''PIN_DISPLAY'', 0x02), (''ROTATE_PIN'', 0x03), (''VISIBILITY'', 0x04)]),
     (''cast_set_pin_code_params'', [(''PIN_CODE'', 0x01), (''EXPIRE_PREVIOUS'', 0x02), (''VISIBILITY'', 0x03)]),
     (''cast_pin_code_challenge'', [(''ATTEMPT_ID'', 0x01), (''CHALLENGE_ID'', 0x02), (''DISPLAY_REQUEST_ID'', 0x03), (''PIN_CODE'', 0x04),
        (''CODE_GENERATION'', 0x05)]),
     (''cast_pin_code_config'', [(''ENABLED'', 0x01), (''HAS_PIN_CODE'', 0x02), (''PIN_CODE'', 0x03), (''PIN_DISPLAY'', 0x04),
        (''GENERATED_BY'', 0x05), (''VISIBILITY'', 0x06), (''EXPIRES_AT'', 0x07), (''REDACTION_REQUIRED'', 0x08),
        (''CHANGED_FIELDS'', 0x09), (''UPDATED_AT'', 0x0A), (''REDACTED'', 0x0B), (''PROTOCOL'', 0x0C),
        (''BACKEND'', 0x0D), (''CHALLENGES'', 0x0E), (''SCOPE'', 0x0F), (''CODE_GENERATION'', 0x10)])]"

definition ids_7 :: "(string \<times> (string \<times> byte) list) list" where
  "ids_7 = [
     (''cast_pin_code_changed_event'', [(''CHANGED_FIELDS'', 0x01), (''CONFIG'', 0x02), (''REASON'', 0x03), (''UPDATED_AT'', 0x04),
        (''CHALLENGE'', 0x05)]),
     (''cast_pin_code_required_event'', [(''SESSION_ID'', 0x01), (''SOURCE'', 0x02), (''PIN_CODE'', 0x03), (''VISIBILITY'', 0x04),
        (''REDACTION_REQUIRED'', 0x05), (''REQUESTED_AT'', 0x06), (''CONFIG'', 0x07)]),
     (''cast_pin_code_auth_failed_event'', [(''SESSION_ID'', 0x01), (''SOURCE'', 0x02), (''AUTH_FAILURE_REASON'', 0x03), (''ATTEMPT_COUNT'', 0x04),
        (''FAILED_AT'', 0x05)]),
     (''cast_rect'', [(''X'', 0x01), (''Y'', 0x02), (''WIDTH'', 0x03), (''HEIGHT'', 0x04)]),
     (''cast_set_window_state_params'', [(''MODE'', 0x01), (''FULLSCREEN'', 0x02), (''ALWAYS_ON_TOP'', 0x03), (''BOUNDS'', 0x04)]),
     (''cast_window_state'', [(''HAS_WINDOW'', 0x01), (''VISIBLE'', 0x02), (''MODE'', 0x03), (''FULLSCREEN'', 0x04),
        (''ALWAYS_ON_TOP'', 0x05), (''SESSION_ID'', 0x06), (''BOUNDS'', 0x07), (''CHANGED_FIELDS'', 0x0A),
        (''UPDATED_AT'', 0x0B)]),
     (''cast_window_changed_event'', [(''CHANGED_FIELDS'', 0x01), (''STATE'', 0x02), (''REASON'', 0x03), (''UPDATED_AT'', 0x04),
        (''CONTROL_CONTEXT'', 0x05)]),
     (''cast_get_backend_status_params'', [(''INCLUDE_LAST_ERROR'', 0x01)]),
     (''cast_restart_backend_params'', [(''REASON'', 0x01), (''FORCE'', 0x02)]),
     (''cast_backend_status'', [(''BACKEND_TYPE'', 0x01), (''STATE'', 0x02), (''DISCOVERABLE'', 0x03), (''PID'', 0x04), (''VERSION'', 0x05),
        (''ACTIVE_SESSION_ID'', 0x06), (''RESTART_IN_PROGRESS'', 0x07), (''LAST_ERROR'', 0x08), (''UPDATED_AT'', 0x09)]),
     (''cast_restart_backend_result'', [(''ACCEPTED'', 0x01), (''BACKEND_TYPE'', 0x02), (''STATE'', 0x03), (''RESTART_ID'', 0x04),
        (''ACTIVE_SESSION_ENDED'', 0x05), (''ENDED_SESSION_ID'', 0x06), (''SESSION_STOP_REASON'', 0x07),
        (''ESTIMATED_READY_IN_MS'', 0x08), (''UPDATED_AT'', 0x09)]),
     (''cast_backend_changed_event'', [(''CHANGED_FIELDS'', 0x01), (''STATE'', 0x02), (''REASON'', 0x03), (''RESTART_ID'', 0x04),
        (''ACTIVE_SESSION_ENDED'', 0x05), (''ENDED_SESSION_ID'', 0x06), (''UPDATED_AT'', 0x07)])]"

definition ids_8 :: "(string \<times> (string \<times> byte) list) list" where
  "ids_8 = [
     (''cast_get_flow_control_state_params'', [(''INCLUDE_STATS'', 0x01), (''INCLUDE_POLICY'', 0x02), (''SESSION_ID'', 0x03)]),
     (''cast_set_render_fps_params'', [(''FPS'', 0x01), (''SESSION_ID'', 0x02), (''SCOPE'', 0x03)]),
     (''cast_set_flow_policy_params'', [(''VIDEO_QUEUE_FRAMES'', 0x01), (''LATE_FRAME_THRESHOLD_MS'', 0x02), (''DROP_MODE'', 0x03),
        (''OVERLAY_ENABLED'', 0x04), (''SESSION_ID'', 0x05), (''SCOPE'', 0x06)]),
     (''cast_set_video_stream_params_params'', [(''SESSION_ID'', 0x01), (''FRAME_RATE'', 0x02), (''BITRATE_KBPS'', 0x03), (''RESET_FIELDS'', 0x04)]),
     (''cast_set_video_stream_params_result'', [(''ACCEPTED'', 0x01), (''STATE'', 0x02), (''SESSION_ID'', 0x03), (''RECONFIGURE_ID'', 0x04),
        (''PREVIOUS_STREAM_ID'', 0x05), (''ACTIVE_STREAM_ID'', 0x06), (''SOURCE_VIDEO'', 0x07)]),
     (''cast_video_stream_params_state'', [(''SESSION_ID'', 0x01), (''SOURCE'', 0x02), (''DESIRED_FRAME_RATE'', 0x03), (''DESIRED_BITRATE_KBPS'', 0x04),
        (''EFFECTIVE_FRAME_RATE'', 0x05), (''EFFECTIVE_BITRATE_KBPS'', 0x06), (''STREAM_PROFILE'', 0x07),
        (''ENCODER'', 0x08), (''RECONFIGURE_ID'', 0x09), (''STATE'', 0x0A), (''PHASE'', 0x0B),
        (''PREVIOUS_STREAM_ID'', 0x0C), (''ACTIVE_STREAM_ID'', 0x0D), (''ROLLBACK_APPLIED'', 0x0E),
        (''LAST_ERROR'', 0x0F), (''CHANGED_FIELDS'', 0x10)]),
     (''cast_flow_control_state'', [(''TARGET_RENDER_FPS'', 0x01), (''INPUT_FPS'', 0x02), (''RENDER_FPS'', 0x03), (''DROP_MODE'', 0x04),
        (''VIDEO_QUEUE_FRAMES'', 0x05), (''VIDEO_QUEUE_DEPTH'', 0x06), (''AUDIO_QUEUE_DEPTH'', 0x07),
        (''LATE_FRAME_THRESHOLD_MS'', 0x08), (''OVERLAY_ENABLED'', 0x09), (''DROPPED_FRAMES'', 0x0A),
        (''LATE_FRAMES'', 0x0B), (''KEYFRAME_REQUEST_COUNT'', 0x0C), (''KEY_FRAME_ON_DROP_BURST'', 0x0D),
        (''CHANGED_FIELDS'', 0x0E), (''SAMPLED_AT'', 0x0F), (''SOURCE_VIDEO'', 0x10)]),
     (''cast_flow_control_changed_event'', [(''CHANGED_FIELDS'', 0x01), (''STATE'', 0x02), (''REASON'', 0x03), (''SAMPLED_AT'', 0x04),
        (''SOURCE_VIDEO'', 0x05), (''RECONFIGURE_ID'', 0x06)]),
     (''cast_get_status_params'', [(''INCLUDE'', 0x01), (''INCLUDE_SENSITIVE'', 0x02), (''CONTROL_VERSION'', 0x03)]),
     (''cast_receiver_summary'', [(''ROLE'', 0x01), (''PROTOCOLS'', 0x02), (''STATE'', 0x03), (''RECEIVER_PHASE'', 0x04)])]"

definition ids_9 :: "(string \<times> (string \<times> byte) list) list" where
  "ids_9 = [
     (''cast_session_status_summary'', [(''SESSION_ID'', 0x01), (''RECEIVER_PHASE'', 0x02), (''SESSION_STATE'', 0x03), (''PROTOCOL'', 0x04),
        (''SOURCE_NAME'', 0x05)]),
     (''cast_pin_code_status_summary'', [(''ENABLED'', 0x01), (''HAS_PIN_CODE'', 0x02), (''PIN_DISPLAY'', 0x03), (''PIN_CODE'', 0x04),
        (''REDACTED'', 0x05), (''VISIBILITY'', 0x06)]),
     (''cast_status'', [(''RECEIVER'', 0x01), (''SESSION'', 0x02), (''PIN_CODE'', 0x03), (''AUDIO'', 0x04), (''WINDOW'', 0x05),
        (''BACKEND'', 0x06), (''FLOW_CONTROL'', 0x07), (''SAMPLED_AT'', 0x08), (''REDACTED'', 0x09),
        (''CONTROL_SYNC'', 0x0A), (''RECEIVERS'', 0x0B), (''SESSIONS'', 0x0C), (''PRESENTATION'', 0x0D),
        (''AUDIO_POLICY'', 0x0E), (''PRESENTATION_SETTINGS'', 0x0F), (''WEBCAST_BACKEND'', 0x10), (''AIRPLAY'', 0x11)]),
     (''cast_session_capability'', [(''PROTOCOLS'', 0x01), (''RECEIVER_PHASES'', 0x02), (''SUPPORTS_AIR_PLAY_NAME'', 0x03),
        (''SUPPORTS_STOP_SESSION'', 0x04), (''BACKEND_TYPES'', 0x05)]),
     (''cast_audio_capability'', [(''DEFAULT_ENABLED'', 0x01), (''SUPPORTS_MUTE'', 0x02), (''REPORTS_EFFECTIVE_PLAYBACK'', 0x03),
        (''SUPPORTS_AUDIO_DELAY'', 0x04), (''DEFAULT_AUDIO_DELAY_MS'', 0x05), (''MAX_AUDIO_DELAY_MS'', 0x06)]),
     (''cast_pin_code_capability'', [(''DEFAULT_ENABLED'', 0x01), (''SUPPORTS_PLAINTEXT_RESPONSE'', 0x02), (''SUPPORTED_PIN_DISPLAYS'', 0x03),
        (''SUPPORTS_GENERATED_PIN'', 0x04), (''REDACTION_REQUIRED'', 0x05)]),
     (''cast_window_capability'', [(''SUPPORTS_FULLSCREEN'', 0x01), (''SUPPORTS_ALWAYS_ON_TOP'', 0x02), (''SUPPORTS_NORMAL_RESTORE'', 0x03),
        (''NO_WINDOW_POLICY'', 0x04)]),
     (''cast_backend_capability'', [(''BACKEND_TYPES'', 0x01), (''SUPPORTS_RESTART'', 0x02), (''REPORTS_PROCESS'', 0x03),
        (''SUPPORTS_LAST_ERROR'', 0x04)]),
     (''cast_flow_control_capability'', [(''SUPPORTS_RENDER_FPS'', 0x01), (''SUPPORTS_QUEUE_POLICY'', 0x02), (''SUPPORTS_OVERLAY'', 0x03),
        (''SUPPORTS_STATS'', 0x04), (''EXPOSES_EXTERNAL_KEYFRAME_REQUEST'', 0x05),
        (''SUPPORTS_VIDEO_STREAM_PARAMS'', 0x06), (''SUPPORTS_ACTIVE_VIDEO_RECONFIGURE'', 0x07),
        (''SUPPORTED_VIDEO_STREAM_PROFILES'', 0x08), (''SUPPORTED_VIDEO_ENCODERS'', 0x09),
        (''SUPPORTS_SOURCE_SPECIFIC_VIDEO_PARAMS'', 0x0A)])]"

definition ids_10 :: "(string \<times> (string \<times> byte) list) list" where
  "ids_10 = [
     (''cast_status_capability'', [(''SECTIONS'', 0x01), (''SUPPORTS_SENSITIVE_REDACTION'', 0x02), (''SUPPORTED_CONTROL_VERSIONS'', 0x03),
        (''SUPPORTS_ATOMIC_UNIFIED_SNAPSHOT'', 0x04)]),
     (''cast_session_ref'', [(''ID'', 0x01), (''GENERATION'', 0x02)]),
     (''cast_control_target'', [(''SESSION'', 0x01), (''SLOT_ID'', 0x02), (''BINDING_GENERATION'', 0x03), (''LIFECYCLE_GENERATION'', 0x04)]),
     (''cast_control_snapshot_cursor'', [(''CONTROL_VERSION'', 0x01), (''RUNTIME_INSTANCE_ID'', 0x02), (''REVISION'', 0x03), (''EVENT_SEQUENCE'', 0x04)]),
     (''cast_control_event_context'', [(''CONTROL_VERSION'', 0x01), (''RUNTIME_INSTANCE_ID'', 0x02), (''REVISION'', 0x03), (''EVENT_SEQUENCE'', 0x04),
        (''BATCH_ID'', 0x05), (''PART_INDEX'', 0x06), (''PART_COUNT'', 0x07)]),
     (''cast_control_capabilities'', [(''SUPPORTED_CONTROL_VERSIONS'', 0x01), (''RUNTIME_INSTANCE_ID'', 0x02), (''METHODS'', 0x03),
        (''EVENTS'', 0x04), (''STATUS_SECTIONS'', 0x05), (''PRESENTATION'', 0x06), (''AUDIO_POLICY'', 0x07),
        (''OPERATIONS'', 0x08), (''PROFILE_HINTS'', 0x09), (''PRESENTATION_SETTINGS'', 0x0A),
        (''WEBCAST_BACKEND'', 0x0B), (''MEETING_PRESENTATION'', 0x0C), (''AIRPLAY_CONTROL'', 0x0D)]),
     (''cast_presentation_capability'', [(''PROTOCOLS'', 0x01), (''SUPPORTS_ATOMIC_SNAPSHOT'', 0x02), (''SUPPORTS_STRICT_TARGETS'', 0x03),
        (''MAX_PRESENTATION_CAPACITY'', 0x04), (''CAPACITY_CHOICES'', 0x05), (''LAYOUT_MODES'', 0x06),
        (''CONTENT_ADAPTATIONS'', 0x07)]),
     (''cast_audio_policy_capability'', [(''CONTROL_MODES'', 0x01), (''MIX_MODES'', 0x02), (''SUPPORTS_PER_SESSION_ENABLE'', 0x03),
        (''REPORTS_EFFECTIVE_SET'', 0x04), (''SUPPORTS_MASTER_MUTE'', 0x05)]),
     (''cast_control_operations_capability'', [(''SUPPORTS_QUERY'', 0x01), (''SUPPORTS_DEDUP'', 0x02), (''LIMITS'', 0x03)]),
     (''cast_control_limits'', [(''MAX_PENDING_OPERATIONS'', 0x01), (''MAX_PENDING_PER_CLIENT'', 0x02), (''MAX_RETAINED_RESULTS'', 0x03),
        (''REPLAY_WINDOW_MS'', 0x04), (''MAX_EVENT_BUFFER_EVENTS'', 0x05), (''MAX_EVENT_BUFFER_BYTES'', 0x06),
        (''MAX_REQUEST_BYTES'', 0x07), (''MAX_SNAPSHOT_BYTES'', 0x08)]),
     (''cast_receiver_state'', [(''RECEIVER_ID'', 0x01), (''PROTOCOL'', 0x02), (''STATE'', 0x03), (''OBSERVED_AT'', 0x04),
        (''DISPLAY_NAME'', 0x05), (''LAST_ERROR'', 0x06)]),
     (''cast_multi_session_state'', [(''SESSION'', 0x01), (''RECEIVER_ID'', 0x02), (''PROTOCOL'', 0x03), (''RECEIVER_STATE'', 0x04),
        (''PRESENTATION_ELIGIBILITY'', 0x05), (''VIDEO_TRACK_OPEN'', 0x06), (''AUDIO_TRACK_OPEN'', 0x07),
        (''AUDIO_READINESS'', 0x08), (''DISPLAY_NAME'', 0x09)]),
     (''cast_presentation_slot_state'', [(''SLOT_ID'', 0x01), (''BINDING_GENERATION'', 0x02), (''OCCUPIED'', 0x03), (''TARGET'', 0x04)]),
     (''cast_presentation_state'', [(''STARTED'', 0x01), (''LIFECYCLE_GENERATION'', 0x02), (''CONFIGURED_CAPACITY'', 0x03),
        (''VALIDATION_AVAILABLE'', 0x04), (''VALIDATED_CAPACITY'', 0x05), (''EFFECTIVE_CAPACITY'', 0x06),
        (''APPLIED_CAPACITY'', 0x07), (''LAYOUT_MODE'', 0x08), (''LAYOUT_SETTLING'', 0x09), (''SLOTS'', 0x0A),
        (''MEETING'', 0x0B), (''CONTENT_ADAPTATION'', 0x0C)])]"

definition ids_11 :: "(string \<times> (string \<times> byte) list) list" where
  "ids_11 = [
     (''cast_audio_policy_state'', [(''CONTROL_MODE'', 0x01), (''MIX_MODE'', 0x02), (''ENABLED_SESSIONS'', 0x03),
        (''EFFECTIVE_AUDIO_SESSIONS'', 0x04), (''APPLIED_GAINS'', 0x05), (''MASTER_MUTED'', 0x06)]),
     (''cast_stop_presentation_params'', [(''CONTROL_VERSION'', 0x01), (''RUNTIME_INSTANCE_ID'', 0x02), (''CLIENT_INSTANCE_ID'', 0x03),
        (''COMMAND_ID'', 0x04), (''TARGET'', 0x05), (''REASON'', 0x06)]),
     (''cast_set_session_audio_enabled_params'', [(''CONTROL_VERSION'', 0x01), (''RUNTIME_INSTANCE_ID'', 0x02), (''CLIENT_INSTANCE_ID'', 0x03),
        (''COMMAND_ID'', 0x04), (''TARGET'', 0x05), (''ENABLED'', 0x06)]),
     (''cast_get_control_operation_params'', [(''CONTROL_VERSION'', 0x01), (''RUNTIME_INSTANCE_ID'', 0x02), (''CLIENT_INSTANCE_ID'', 0x03),
        (''COMMAND_ID'', 0x04)]),
     (''cast_control_operation'', [(''OPERATION_ID'', 0x01), (''RUNTIME_INSTANCE_ID'', 0x02), (''CLIENT_INSTANCE_ID'', 0x03),
        (''COMMAND_ID'', 0x04), (''KIND'', 0x05), (''STATE'', 0x06), (''SUBMITTED_AT'', 0x07), (''TARGET'', 0x08),
        (''COMPLETED_AT'', 0x09), (''APPLIED_REVISION'', 0x0A), (''STATUS_CODE'', 0x0B), (''OUTCOME_REASON'', 0x0C),
        (''OWNER_CLEANUP'', 0x0D), (''SETTINGS_RESULT'', 0x0E)]),
     (''cast_set_presentation_settings_params'', [(''CONTROL_VERSION'', 0x01), (''RUNTIME_INSTANCE_ID'', 0x02), (''CLIENT_INSTANCE_ID'', 0x03),
        (''COMMAND_ID'', 0x04), (''EXPECTED_SETTINGS_REVISION'', 0x05), (''PATCH'', 0x06), (''PERSIST'', 0x07)]),
     (''cast_presentation_settings_patch'', [(''LAYOUT_MODE'', 0x01), (''AUDIO_CONTROL_MODE'', 0x02), (''AUDIO_MIX_MODE'', 0x03), (''CAPACITY'', 0x04),
        (''ENABLED_PROTOCOLS'', 0x05), (''PROFILE_HINT'', 0x06), (''CONTENT_ADAPTATION'', 0x07),
        (''PRESENTATION_MODE'', 0x08), (''PRESENTATION_SIDEBAR'', 0x09), (''PRESENTATION_AUDIO_FOLLOW'', 0x0A),
        (''PRESENTATION_FOCUS_ON_DOUBLE_CLICK'', 0x0B), (''PRESENTATION_GRID_ON_DOUBLE_CLICK'', 0x0C),
        (''PRESENTATION_AUTO_ENTER'', 0x0D)]),
     (''cast_presentation_settings_values'', [(''LAYOUT_MODE'', 0x01), (''AUDIO_CONTROL_MODE'', 0x02), (''AUDIO_MIX_MODE'', 0x03), (''CAPACITY'', 0x04),
        (''ENABLED_PROTOCOLS'', 0x05), (''PROFILE_HINT'', 0x06), (''CONTENT_ADAPTATION'', 0x07),
        (''PRESENTATION_MODE'', 0x08), (''PRESENTATION_SIDEBAR'', 0x09), (''PRESENTATION_AUDIO_FOLLOW'', 0x0A),
        (''PRESENTATION_FOCUS_ON_DOUBLE_CLICK'', 0x0B), (''PRESENTATION_GRID_ON_DOUBLE_CLICK'', 0x0C),
        (''PRESENTATION_AUTO_ENTER'', 0x0D)])]"

definition ids_12 :: "(string \<times> (string \<times> byte) list) list" where
  "ids_12 = [
     (''cast_presentation_startup_settings'', [(''LAYOUT_MODE'', 0x01), (''AUDIO_CONTROL_MODE'', 0x02), (''AUDIO_MIX_MODE'', 0x03), (''CAPACITY'', 0x04),
        (''ENABLED_PROTOCOLS'', 0x05), (''PROFILE_HINT'', 0x06), (''CONTENT_ADAPTATION'', 0x07),
        (''PRESENTATION_MODE'', 0x08), (''PRESENTATION_SIDEBAR'', 0x09), (''PRESENTATION_AUDIO_FOLLOW'', 0x0A),
        (''PRESENTATION_FOCUS_ON_DOUBLE_CLICK'', 0x0B), (''PRESENTATION_GRID_ON_DOUBLE_CLICK'', 0x0C),
        (''PRESENTATION_AUTO_ENTER'', 0x0D)]),
     (''cast_presentation_settings_state'', [(''SETTINGS_REVISION'', 0x01), (''SETTINGS_EVENT_SEQUENCE'', 0x02), (''CONFIGURED'', 0x03), (''APPLIED'', 0x04),
        (''ACTIVE_STARTUP'', 0x05), (''PENDING_RESTART'', 0x06), (''PERSISTED'', 0x07), (''UNSAVED_FIELDS'', 0x08),
        (''UNAPPLIED_FIELDS'', 0x09), (''STORAGE_STATE'', 0x0A), (''LOCKED_FIELDS'', 0x0B),
        (''APPLICATION_ISSUES'', 0x0C), (''PERSISTED_VALUES'', 0x0D), (''STORE_REVISION'', 0x0E),
        (''APPLIED_CONTROL_REVISION'', 0x0F), (''PERSIST_ERROR'', 0x10)]),
     (''cast_presentation_setting_issue'', [(''FIELD'', 0x01), (''KIND'', 0x02), (''REASON'', 0x03), (''STATUS_CODE'', 0x04)]),
     (''cast_presentation_settings_capability'', [(''FIELDS'', 0x01), (''LIVE_FIELDS'', 0x02), (''RESTART_ONLY_FIELDS'', 0x03), (''SUPPORTS_PERSISTENCE'', 0x04),
        (''CAPACITY_CHOICES'', 0x05), (''LAYOUT_MODES'', 0x06), (''CONTENT_ADAPTATIONS'', 0x0A),
        (''PROFILE_HINTS'', 0x07), (''MIN_ENABLED_PROTOCOLS'', 0x08)]),
     (''cast_presentation_settings_operation_result'', [(''FIELD'', 0x01), (''SETTINGS_REVISION'', 0x02), (''CONFIGURATION_STATUS'', 0x03),
        (''APPLICATION_STATUS'', 0x04), (''PERSISTENCE_STATUS'', 0x05), (''APPLIED_CONTROL_REVISION'', 0x06)]),
     (''cast_settings_event_context'', [(''CONTROL_VERSION'', 0x01), (''RUNTIME_INSTANCE_ID'', 0x02), (''SETTINGS_REVISION'', 0x03),
        (''SETTINGS_EVENT_SEQUENCE'', 0x04)]),
     (''cast_presentation_settings_changed_event'', [(''SETTINGS_CONTEXT'', 0x01), (''SETTINGS'', 0x02)]),
     (''cast_receivers_changed_event'', [(''CONTEXT'', 0x01), (''RECEIVERS'', 0x02)]),
     (''cast_sessions_changed_event'', [(''CONTEXT'', 0x01), (''SESSIONS'', 0x02)]),
     (''cast_presentation_changed_event'', [(''CONTEXT'', 0x01), (''PRESENTATION'', 0x02)]),
     (''cast_audio_policy_changed_event'', [(''CONTEXT'', 0x01), (''AUDIO_POLICY'', 0x02)]),
     (''cast_control_operation_changed_event'', [(''CONTEXT'', 0x01), (''OPERATION'', 0x02)]),
     (''cast_get_web_cast_backend_state_params'', [(''CONTROL_VERSION'', 0x01)]),
     (''cast_web_cast_backend_context'', [(''CONTROL_VERSION'', 0x01), (''RUNTIME_INSTANCE_ID'', 0x02), (''BACKEND_REVISION'', 0x03),
        (''BACKEND_EVENT_SEQUENCE'', 0x04)]),
     (''cast_web_cast_signaling_state'', [(''STATE'', 0x01), (''TRANSPORT_CONNECTED'', 0x02), (''RETAINED_PEER_COUNT'', 0x03),
        (''CONNECTED_PEER_COUNT'', 0x04), (''LAST_NETWORK_ERROR'', 0x05)])]"

definition ids_13 :: "(string \<times> (string \<times> byte) list) list" where
  "ids_13 = [
     (''cast_web_cast_local_backend_state'', [(''FALLBACK_ENABLED'', 0x01), (''SERVICE_STATE'', 0x02), (''SERVICE_PORT'', 0x03), (''START_ATTEMPTS'', 0x04),
        (''LAST_START_ERROR'', 0x05), (''SIGNALING'', 0x06)]),
     (''cast_web_cast_backend_state'', [(''ENABLED'', 0x01), (''STATE'', 0x02), (''SELECTED_BACKEND'', 0x03), (''CLOUD'', 0x04), (''LOCAL'', 0x05)]),
     (''cast_web_cast_backend_snapshot'', [(''BACKEND_CONTEXT'', 0x01), (''STATE'', 0x02)]),
     (''cast_web_cast_backend_capability'', [(''SUPPORTS_SNAPSHOT'', 0x01), (''SUPPORTS_EVENTS'', 0x02), (''BACKEND_TYPES'', 0x03),
        (''SEQUENCE_MODEL'', 0x04)]),
     (''cast_meeting_presentation_state'', [(''MODE'', 0x02), (''SIDEBAR'', 0x03), (''AUDIO_FOLLOW'', 0x04), (''REVISION'', 0x05), (''PRIMARY'', 0x07),
        (''SIDEBAR_PAGE'', 0x08), (''SIDEBAR_PAGE_COUNT'', 0x09), (''MAIN_SHARE_PERMILLE'', 0x0A),
        (''AUDIO_FOLLOW_ACTIVE'', 0x0B), (''VIEW'', 0x0C), (''FOCUS_ON_DOUBLE_CLICK'', 0x0D),
        (''GRID_ON_DOUBLE_CLICK'', 0x0E), (''AUTO_ENTER'', 0x0F), (''AUTO_ENTER_SUPPRESSED'', 0x10)]),
     (''cast_set_presentation_focus_params'', [(''CONTROL_VERSION'', 0x01), (''RUNTIME_INSTANCE_ID'', 0x02), (''CLIENT_INSTANCE_ID'', 0x03),
        (''COMMAND_ID'', 0x04), (''TARGET'', 0x05), (''EXPECTED_MEETING_REVISION'', 0x06), (''DISPLAY'', 0x07),
        (''SIDEBAR_PAGE'', 0x08)]),
     (''cast_meeting_audio_gain'', [(''SESSION'', 0x01), (''GAIN_PPM'', 0x02)]),
     (''cast_meeting_presentation_capability'', [(''MODES'', 0x01), (''SIDEBARS'', 0x02), (''MAIN_SHARE_PERMILLE'', 0x03), (''SUPPORTS_AUDIO_FOLLOW'', 0x04),
        (''SUPPORTS_PAGING'', 0x05), (''SUPPORTS_FOCUS_VIEW'', 0x06)]),
     (''cast_air_play_control_capability'', [(''SUPPORTS_EVENTS'', 0x01), (''SUPPORTS_LIVE_RENAME'', 0x02), (''PASSWORD_POLICY'', 0x03)]),
     (''cast_air_play_authentication_attempt'', [(''ATTEMPT_ID'', 0x01), (''CHALLENGE_ID'', 0x02), (''DISPLAY_REQUEST_ID'', 0x03), (''STATE'', 0x04),
        (''REASON'', 0x05)]),
     (''cast_air_play_control_state'', [(''ENABLED'', 0x01), (''DISPLAY_NAME'', 0x02), (''PUBLISH_STATE'', 0x03), (''RANDOM_PASSWORD_ENABLED'', 0x04),
        (''ATTEMPTS'', 0x05), (''OBSERVATION_DROPS'', 0x06)]),
     (''cast_air_play_changed_event'', [(''CONTEXT'', 0x01), (''AIRPLAY'', 0x02)]),
     (''get_device_info_params'', [(''INCLUDE_CAPABILITY_SUMMARY'', 0x01)]),
     (''device_info'', [(''IDENTITY'', 0x01), (''PRODUCT'', 0x02), (''HARDWARE'', 0x03), (''OS'', 0x04), (''SOFTWARE'', 0x05),
        (''RUNTIME'', 0x06), (''CAPABILITY'', 0x07)]),
     (''device_identity'', [(''DEVICE_ID'', 0x01), (''SERIAL_NUMBER'', 0x02), (''VENDOR_ID'', 0x03), (''PRODUCT_ID'', 0x04)]),
     (''device_product'', [(''BRAND'', 0x01), (''PRODUCT_TYPE'', 0x02), (''MODEL'', 0x03), (''DISPLAY_NAME'', 0x04)])]"

definition ids_14 :: "(string \<times> (string \<times> byte) list) list" where
  "ids_14 = [
     (''device_hardware'', [(''REVISION'', 0x01), (''CPU_ARCH'', 0x02), (''MEMORY_BYTES'', 0x03)]),
     (''device_os'', [(''TYPE'', 0x01), (''NAME'', 0x02), (''VERSION'', 0x03), (''ARCH'', 0x04)]),
     (''device_software'', [(''COMPONENTS'', 0x01)]),
     (''software_component'', [(''ID'', 0x01), (''NAME'', 0x02), (''VERSION'', 0x03), (''ROLE'', 0x04)]),
     (''device_axtp_runtime'', [(''AXTP_RUNTIME'', 0x01), (''AXTP_RUNTIME_VERSION'', 0x02), (''HOST_APP_ID'', 0x03)]),
     (''device_capability_summary'', [(''DOMAINS'', 0x01), (''FEATURES'', 0x02), (''PROFILES'', 0x03)]),
     (''device_info_capability'', [(''READ_ONLY'', 0x01), (''SUPPORTS_CAPABILITY_SUMMARY'', 0x02), (''IDENTITY_MERGED'', 0x03)]),
     (''device_get_pairing_code_params'', [(''REFRESH'', 0x01), (''PURPOSE'', 0x02)]),
     (''device_pairing_code_info'', [(''CODE'', 0x01), (''EXPIRES_AT'', 0x02), (''EXPIRES_IN_SECONDS'', 0x03), (''STATE'', 0x04)]),
     (''device_get_enrollment_state_params'', [(''INCLUDE_ENDPOINT'', 0x01)]),
     (''device_enrollment_info'', [(''STATE'', 0x01), (''DEVICE_ID'', 0x02), (''WORKSPACE_ID'', 0x03), (''ENDPOINT'', 0x04),
        (''ENROLLED_AT'', 0x05), (''UPDATED_AT'', 0x06), (''MESSAGE'', 0x07)]),
     (''device_enrollment_endpoint_summary'', [(''ENDPOINT_ID'', 0x01), (''TYPE'', 0x02), (''DISPLAY_NAME'', 0x03), (''PROFILE_ID'', 0x04),
        (''WORKSPACE_ID'', 0x05)]),
     (''device_set_enrollment_state_params'', [(''DESIRED_STATE'', 0x01), (''REASON'', 0x02), (''ENDPOINT'', 0x03), (''MESSAGE'', 0x04)]),
     (''device_set_enrollment_state_result'', [(''STATE'', 0x01), (''DISCONNECT_EXPECTED'', 0x02)]),
     (''device_enrollment_state_changed_event'', [(''STATE'', 0x01), (''PREVIOUS_STATE'', 0x02), (''REASON'', 0x03), (''TRIGGER_METHOD'', 0x04),
        (''TRIGGER_ID'', 0x05)])]"

definition ids_15 :: "(string \<times> (string \<times> byte) list) list" where
  "ids_15 = [
     (''device_enrollment_capability'', [(''SUPPORTS_PAIRING_CODE'', 0x01), (''PAIRING_CODE_TTL_SECONDS'', 0x02), (''SUPPORTS_UNENROLL'', 0x03),
        (''ENDPOINT_TYPES'', 0x04), (''SUPPORTED_PURPOSES'', 0x05), (''MAX_ACTIVE_PAIRING_CODES'', 0x06),
        (''PAIRING_CODE_LENGTH'', 0x07)]),
     (''firmware_update_capabilities'', [(''SUPPORTED'', 0x01), (''SUPPORTS_MULTI_FILE'', 0x02), (''STREAM_LAYOUT'', 0x03), (''HASH_ALGORITHM'', 0x04),
        (''AUTO_REBOOT'', 0x05), (''MAX_CHUNK_SIZE'', 0x06), (''DEVICE_POLICY_VERSION'', 0x07)]),
     (''begin_update_params'', [(''MANIFEST'', 0x01)]),
     (''begin_update_result'', [(''UPDATE_SESSION_ID'', 0x01), (''STATE'', 0x02), (''STREAMS'', 0x03), (''CHUNK_SIZE'', 0x04)]),
     (''finish_update_params'', [(''UPDATE_SESSION_ID'', 0x01)]),
     (''finish_update_result'', [(''UPDATE_SESSION_ID'', 0x01), (''ACCEPTED'', 0x02), (''STATE'', 0x03)]),
     (''get_update_state_params'', [(''UPDATE_SESSION_ID'', 0x01)]),
     (''firmware_update_manifest'', [(''PACKAGE_ID'', 0x01), (''VERSION'', 0x02), (''FILES'', 0x03), (''DEVICE_POLICY_VERSION'', 0x04)]),
     (''firmware_update_file'', [(''FILE_ID'', 0x01), (''TARGET'', 0x02), (''SIZE'', 0x03), (''MD5'', 0x04)]),
     (''firmware_update_stream_binding'', [(''FILE_ID'', 0x01), (''STREAM_ID'', 0x02)]),
     (''firmware_update_state'', [(''UPDATE_SESSION_ID'', 0x01), (''STATE'', 0x02), (''PROGRESS'', 0x03), (''CURRENT_FILE_ID'', 0x04),
        (''ERROR'', 0x05)]),
     (''firmware_update_error_info'', [(''ERROR'', 0x01), (''MESSAGE'', 0x02), (''FILE_ID'', 0x03)]),
     (''firmware_update_progress_event'', [(''UPDATE_SESSION_ID'', 0x01), (''STATE'', 0x02), (''PROGRESS'', 0x03), (''FILE_ID'', 0x04)]),
     (''firmware_update_state_changed_event'', [(''UPDATE_SESSION_ID'', 0x01), (''STATE'', 0x02), (''ERROR'', 0x03)]),
     (''network_get_interfaces_params'', [(''INCLUDE_DISABLED'', 0x01)]),
     (''network_get_interface_info_params'', [(''INTERFACE_ID'', 0x01)]),
     (''network_interfaces'', [(''INTERFACES'', 0x01), (''DEFAULTS'', 0x02)]),
     (''network_default_interface_ids'', [(''PRIMARY'', 0x01), (''WIFI_STA'', 0x02), (''WIFI_AP'', 0x03)]),
     (''network_interface_summary'', [(''INTERFACE_ID'', 0x01), (''TYPE'', 0x02), (''DISPLAY_NAME'', 0x03), (''STATE'', 0x04)])]"

definition ids_16 :: "(string \<times> (string \<times> byte) list) list" where
  "ids_16 = [
     (''network_interface_info'', [(''INTERFACE_ID'', 0x01), (''TYPE'', 0x02), (''MAC_ADDRESS'', 0x03), (''STATE'', 0x04),
        (''SUPPORTS_IP_CONFIG'', 0x05)]),
     (''network_interface_state'', [(''ADMIN'', 0x01), (''LINK'', 0x02), (''SPEED_MBPS'', 0x03)]),
     (''network_get_ip_config_params'', [(''INTERFACE_ID'', 0x01), (''FAMILY'', 0x02)]),
     (''network_set_ip_config_params'', [(''INTERFACE_ID'', 0x01), (''FAMILY'', 0x02), (''CONFIG'', 0x03), (''APPLY_POLICY'', 0x04)]),
     (''network_set_ip_config_result'', [(''CONFIG'', 0x01), (''APPLY_STATE'', 0x02)]),
     (''network_ip_config'', [(''INTERFACE_ID'', 0x01), (''FAMILY'', 0x02), (''MODE'', 0x03), (''ADDRESS'', 0x04), (''PREFIX_LENGTH'', 0x05),
        (''GATEWAY'', 0x06), (''DNS'', 0x07)]),
     (''network_get_wifi_capabilities_params'', [(''INTERFACE_ID'', 0x01)]),
     (''network_get_wifi_config_params'', [(''INTERFACE_ID'', 0x01), (''INCLUDE_PROFILES'', 0x02)]),
     (''network_get_wifi_state_params'', [(''INTERFACE_ID'', 0x01)]),
     (''network_wifi_capabilities'', [(''CAPABILITY'', 0x01), (''SECURITY_TYPES'', 0x02), (''BANDS'', 0x03), (''CREDENTIAL_IMPORT_MODES'', 0x04),
        (''SAVED_PROFILES_SUPPORTED'', 0x05), (''SCAN_SUPPORTED'', 0x06), (''AUTO_CONNECT_SUPPORTED'', 0x07)]),
     (''network_wifi_config'', [(''INTERFACE_ID'', 0x01), (''PROFILES'', 0x02), (''DEFAULT_PROFILE_ID'', 0x03)]),
     (''network_wifi_profile'', [(''PROFILE_ID'', 0x01), (''SSID'', 0x02), (''BSSID'', 0x03), (''SECURITY_TYPE'', 0x04), (''CREDENTIAL'', 0x05),
        (''SOURCE'', 0x06), (''PERSIST'', 0x07)]),
     (''network_credential'', [(''TYPE'', 0x01), (''SECRET_REF'', 0x02), (''EXPIRES_IN_SECONDS'', 0x03)]),
     (''network_set_wifi_config_params'', [(''INTERFACE_ID'', 0x01), (''PROFILE'', 0x02), (''REPLACE_EXISTING'', 0x03), (''MAKE_DEFAULT'', 0x04),
        (''CONNECT_AFTER_SAVE'', 0x05)]),
     (''network_set_wifi_config_result'', [(''PROFILE_ID'', 0x01), (''CONFIG'', 0x02), (''CONNECT_STARTED'', 0x03)]),
     (''network_scan_wifi_params'', [(''INTERFACE_ID'', 0x01), (''SSID_FILTER'', 0x02), (''TIMEOUT_MS'', 0x03)])]"

definition ids_17 :: "(string \<times> (string \<times> byte) list) list" where
  "ids_17 = [
     (''network_scan_wifi_result'', [(''SCAN_ID'', 0x01), (''RESULTS'', 0x02), (''COMPLETE'', 0x03)]),
     (''network_connect_wifi_params'', [(''INTERFACE_ID'', 0x01), (''PROFILE_ID'', 0x02), (''PROFILE'', 0x03), (''TIMEOUT_MS'', 0x04)]),
     (''network_disconnect_wifi_params'', [(''INTERFACE_ID'', 0x01), (''REASON'', 0x02)]),
     (''network_wifi_action_result'', [(''ACCEPTED'', 0x01), (''STATE'', 0x02)]),
     (''network_wifi_state'', [(''INTERFACE_ID'', 0x01), (''STATE'', 0x02), (''PROFILE_ID'', 0x03), (''SSID'', 0x04), (''RSSI'', 0x05),
        (''IP_READY'', 0x06), (''FAILURE_REASON'', 0x07)]),
     (''network_wifi_scan_result'', [(''SSID'', 0x01), (''BSSID'', 0x02), (''BAND'', 0x03), (''CHANNEL'', 0x04), (''RSSI'', 0x05),
        (''SECURITY_TYPE'', 0x06)]),
     (''network_get_ap_capabilities_params'', [(''INTERFACE_ID'', 0x01)]),
     (''network_get_ap_config_params'', [(''INTERFACE_ID'', 0x01)]),
     (''network_ap_capabilities'', [(''CAPABILITY'', 0x01), (''SECURITY_TYPES'', 0x02), (''BANDS'', 0x03), (''CREDENTIAL_EXPORT_MODES'', 0x04),
        (''CLIENTS_SUPPORTED'', 0x05)]),
     (''network_ap_config'', [(''INTERFACE_ID'', 0x01), (''ENABLED'', 0x02), (''SSID'', 0x03), (''HIDDEN'', 0x04), (''BAND'', 0x05),
        (''CHANNEL'', 0x06), (''SECURITY_TYPE'', 0x07), (''CREDENTIAL'', 0x08), (''MAX_CLIENTS'', 0x09)]),
     (''network_set_ap_config_params'', [(''INTERFACE_ID'', 0x01), (''CONFIG'', 0x02)]),
     (''network_set_ap_config_result'', [(''CONFIG'', 0x01), (''APPLY_STATE'', 0x02)]),
     (''network_ap_state'', [(''INTERFACE_ID'', 0x01), (''ENABLED'', 0x02), (''STATE'', 0x03), (''SSID'', 0x04), (''CLIENT_COUNT'', 0x05),
        (''FAILURE_REASON'', 0x06)]),
     (''network_ap_action_params'', [(''INTERFACE_ID'', 0x01), (''REASON'', 0x02)]),
     (''network_ap_action_result'', [(''ACCEPTED'', 0x01), (''STATE'', 0x02)]),
     (''network_ap_clients'', [(''CLIENTS'', 0x01)])]"

definition ids_18 :: "(string \<times> (string \<times> byte) list) list" where
  "ids_18 = [
     (''network_ap_client_info'', [(''CLIENT_ID'', 0x01), (''MAC_ADDRESS'', 0x02), (''DISPLAY_NAME'', 0x03), (''RSSI'', 0x04),
        (''CONNECTED_SECONDS'', 0x05)]),
     (''network_interface_state_changed_event'', [(''INTERFACE_ID'', 0x01), (''STATE'', 0x02), (''PREVIOUS_STATE'', 0x03), (''REASON'', 0x04)]),
     (''network_ip_config_changed_event'', [(''INTERFACE_ID'', 0x01), (''FAMILY'', 0x02), (''CONFIG'', 0x03), (''PREVIOUS_CONFIG'', 0x04),
        (''REASON'', 0x05)]),
     (''network_wifi_config_changed_event'', [(''INTERFACE_ID'', 0x01), (''CONFIG'', 0x02), (''CHANGED_FIELDS'', 0x03), (''REASON'', 0x04)]),
     (''network_wifi_state_changed_event'', [(''STATE'', 0x01), (''PREVIOUS_STATE'', 0x02), (''REASON'', 0x03)]),
     (''network_wifi_scan_result_reported_event'', [(''SCAN_ID'', 0x01), (''RESULTS'', 0x02), (''COMPLETE'', 0x03)]),
     (''network_ap_config_changed_event'', [(''INTERFACE_ID'', 0x01), (''CONFIG'', 0x02), (''CHANGED_FIELDS'', 0x03), (''REASON'', 0x04)]),
     (''network_ap_state_changed_event'', [(''STATE'', 0x01), (''PREVIOUS_STATE'', 0x02), (''REASON'', 0x03)]),
     (''network_ap_client_changed_event'', [(''CHANGE'', 0x01), (''CLIENT'', 0x02), (''REASON'', 0x03)]),
     (''network_interface_capability'', [(''INTERFACE_TYPES'', 0x01), (''SUPPORTS_STATE_EVENT'', 0x02)]),
     (''network_ip_capability'', [(''FAMILIES'', 0x01), (''MODES'', 0x02), (''APPLY_POLICIES'', 0x03)]),
     (''signage_get_playlist_capabilities_params'', []),
     (''signage_get_playlist_config_params'', []),
     (''signage_reset_playlist_config_params'', []),
     (''signage_set_playlist_config_result'', []),
     (''signage_playlist_capabilities_result'', [(''SUPPORTED_ITEM_TYPES'', 0x01), (''MAX_PLAYLISTS'', 0x02), (''MAX_ITEMS_PER_PLAYLIST'', 0x03),
        (''SUPPORTS_SCHEDULED_PLAYLIST'', 0x04), (''SUPPORTS_URL_REFRESH'', 0x05), (''SUPPORTS_RESET'', 0x06)]),
     (''signage_playlist_config_result'', [(''PLAYLISTS'', 0x01)]),
     (''signage_set_playlist_config_params'', [(''PLAYLISTS'', 0x01)]),
     (''signage_get_playlist_item_url_params'', [(''ITEM_ID'', 0x01)]),
     (''signage_get_playlist_item_url_result'', [(''TYPE'', 0x01), (''SETTINGS'', 0x02)]),
     (''signage_get_playlist_item_params'', [(''ITEM_ID'', 0x01)]),
     (''signage_get_playlist_item_result'', [(''ITEM'', 0x01)])]"

definition ids_19 :: "(string \<times> (string \<times> byte) list) list" where
  "ids_19 = [
     (''signage_playlist_config_changed_event'', [(''REASON'', 0x01), (''PLAYLISTS'', 0x02)]),
     (''signage_playlist'', [(''ID'', 0x01), (''TYPE'', 0x02), (''START_DATE'', 0x03), (''END_DATE'', 0x04), (''START_TIME'', 0x05),
        (''END_TIME'', 0x06), (''DAYS'', 0x07), (''ITEMS'', 0x08)]),
     (''signage_playlist_item'', [(''ID'', 0x01), (''TYPE'', 0x02), (''DURATION'', 0x03), (''SORT'', 0x04), (''SETTINGS'', 0x05)]),
     (''signage_image_item_settings'', [(''URLS'', 0x01), (''DELAY_SECONDS'', 0x02), (''EXPIRES_AT'', 0x03)]),
     (''signage_video_item_settings'', [(''URL'', 0x01), (''EXPIRES_AT'', 0x02), (''MUTED'', 0x03)]),
     (''signage_website_item_settings'', [(''URL'', 0x01), (''IGNORE_CERTIFICATE_ERROR'', 0x02), (''REFRESH_INTERVAL_SECS'', 0x03)]),
     (''signage_clock_item_settings'', [(''CLOCKS'', 0x01)]),
     (''signage_unsplash_item_settings'', [(''PHOTOS'', 0x01), (''DELAY_SECONDS'', 0x02), (''EXPIRES_AT'', 0x03)]),
     (''signage_power_bi_item_settings'', [(''GROUP_ID'', 0x01), (''DASHBOARD_ID'', 0x02), (''EMBED_URL'', 0x03), (''TOKEN'', 0x04), (''EXPIRES_AT'', 0x05)]),
     (''signage_playlist_clock_entry'', [(''TIMEZONE'', 0x01), (''LABEL'', 0x02)]),
     (''signage_playlist_unsplash_photo'', [(''URL'', 0x01), (''USER'', 0x02)]),
     (''signage_playlist_unsplash_user'', [(''NAME'', 0x01), (''LINK'', 0x02)]),
     (''signage_playlist_capability'', [(''SUPPORTED_ITEM_TYPES'', 0x01), (''MAX_PLAYLISTS'', 0x02), (''MAX_ITEMS_PER_PLAYLIST'', 0x03),
        (''SUPPORTS_SCHEDULED_PLAYLIST'', 0x04), (''SUPPORTS_URL_REFRESH'', 0x05), (''SUPPORTS_RESET'', 0x06)]),
     (''software_get_config_params'', [(''TARGET'', 0x01)]),
     (''software_config'', [(''TARGET'', 0x01), (''CONFIG'', 0x02)]),
     (''software_set_config_params'', [(''TARGET'', 0x01), (''CONFIG'', 0x02)]),
     (''software_reset_config_params'', [(''TARGET'', 0x01)]),
     (''software_set_config_result'', []),
     (''software_config_changed_event'', [(''TARGET'', 0x01), (''CONFIG'', 0x02), (''CHANGED_FIELDS'', 0x03), (''REASON'', 0x04)]),
     (''launcher_config'', [(''DISPLAY_NAME'', 0x01), (''APPEARANCE'', 0x02)]),
     (''launcher_appearance'', [(''PANEL_LAYOUT'', 0x01), (''AUTO_HIDE_PANEL'', 0x02), (''AUTO_HIDE_DELAY'', 0x03)])]"

definition ids_20 :: "(string \<times> (string \<times> byte) list) list" where
  "ids_20 = [
     (''software_config_capability'', [(''SUPPORTED_TARGETS'', 0x01), (''SUPPORTS_RESET'', 0x02), (''RESET_MAY_RESTART_SOFTWARE'', 0x03)]),
     (''software_get_update_policy_params'', [(''TARGET'', 0x01)]),
     (''software_update_policy'', [(''TARGET'', 0x01), (''POLICY'', 0x02)]),
     (''software_set_update_policy_params'', [(''TARGET'', 0x01), (''POLICY'', 0x02)]),
     (''software_reset_update_policy_params'', [(''TARGET'', 0x01)]),
     (''software_set_update_policy_result'', []),
     (''software_update_policy_changed_event'', [(''TARGET'', 0x01), (''POLICY'', 0x02), (''CHANGED_FIELDS'', 0x03), (''REASON'', 0x04)]),
     (''launcher_update_policy'', [(''UPDATE_MODE'', 0x01), (''SCHEDULE'', 0x02), (''CHANNEL'', 0x03), (''CONDITIONS'', 0x04)]),
     (''update_schedule'', [(''START'', 0x01), (''END'', 0x02), (''TIMEZONE'', 0x03)]),
     (''update_conditions'', [(''REQUIRE_IDLE'', 0x01), (''REQUIRE_WIFI'', 0x02)]),
     (''software_update_policy_capability'', [(''SUPPORTED_TARGETS'', 0x01), (''SUPPORTED_CHANNELS'', 0x02), (''SUPPORTS_SCHEDULE'', 0x03),
        (''SUPPORTS_RESET'', 0x04)]),
     (''sport_config_target_params'', [(''MAC_ADDRESS'', 0x01), (''SPORT_TYPE'', 0x02)]),
     (''sport_goal_shot_watermark_config'', [(''MAC_ADDRESS'', 0x01), (''SPORT_TYPE'', 0x02), (''GOAL_VISIBLE'', 0x03), (''SHOT_VISIBLE'', 0x04)]),
     (''sport_set_goal_shot_watermark_config_params'', [(''MAC_ADDRESS'', 0x01), (''SPORT_TYPE'', 0x02), (''GOAL_VISIBLE'', 0x03), (''SHOT_VISIBLE'', 0x04)]),
     (''sport_event_clip_config'', [(''MAC_ADDRESS'', 0x01), (''SPORT_TYPE'', 0x02), (''BEFORE_OFFSET_SECONDS'', 0x03),
        (''AFTER_OFFSET_SECONDS'', 0x04)]),
     (''sport_set_event_clip_config_params'', [(''MAC_ADDRESS'', 0x01), (''SPORT_TYPE'', 0x02), (''BEFORE_OFFSET_SECONDS'', 0x03),
        (''AFTER_OFFSET_SECONDS'', 0x04)]),
     (''get_event_detection_capabilities_params'', [(''SPORT_TYPES'', 0x01), (''INCLUDE_RUNTIME_STATE'', 0x02)]),
     (''get_event_detection_capabilities_result'', [(''CAPABILITY'', 0x01)]),
     (''sport_event_detection_sport_descriptor'', [(''SPORT_TYPE'', 0x01), (''SUPPORTED_EVENTS'', 0x02), (''SUPPORTS_TOGGLE'', 0x03), (''DETAILS_SCHEMAS'', 0x04),
        (''SUPPORTED_CONFIG_METHODS'', 0x05)]),
     (''sport_event_detection_capabilities'', [(''CAPABILITY'', 0x01), (''SUPPORTED_SPORTS'', 0x02), (''CONCURRENT_SPORT_TYPES'', 0x03),
        (''SUPPORTS_STATE_EVENT'', 0x04), (''SUPPORTS_UNIFIED_EVENT'', 0x05), (''PERSISTENCE_POLICY'', 0x06)]),
     (''get_event_detection_config_params'', [(''SPORT_TYPE'', 0x01)])]"

definition ids_21 :: "(string \<times> (string \<times> byte) list) list" where
  "ids_21 = [
     (''sport_event_detection_state'', [(''SPORT_TYPE'', 0x01), (''EFFECTIVE_ENABLED'', 0x02), (''RUNTIME_STATE'', 0x03), (''APPLY_STATE'', 0x04),
        (''REASON'', 0x05), (''STATE_REVISION'', 0x06), (''UPDATED_AT'', 0x07)]),
     (''set_event_detection_config_params'', [(''SPORT_TYPE'', 0x01), (''ENABLED'', 0x02), (''EXPECTED_STATE_REVISION'', 0x03)]),
     (''set_event_detection_config_result'', [(''ACCEPTED'', 0x01), (''STATE'', 0x02)]),
     (''sport_event_detection_state_changed_event'', [(''STATE'', 0x01), (''SOURCE'', 0x02), (''REASON'', 0x03)]),
     (''sport_event_details'', [(''SHOT_ID'', 0x01), (''GOAL_ID'', 0x02), (''RELEASE_TYPE'', 0x03), (''GOAL_TYPE'', 0x04)]),
     (''sport_event_detected_event'', [(''EVENT_ID'', 0x01), (''SEQUENCE'', 0x02), (''SPORT_TYPE'', 0x03), (''EVENT_TYPE'', 0x04),
        (''OCCURRED_AT'', 0x05), (''CONFIDENCE'', 0x06), (''TRAINING_SESSION_ID'', 0x07), (''DETAILS'', 0x08)]),
     (''sport_basketball_capability'', [(''CAPABILITY'', 0x01), (''SPORT_TYPE'', 0x02), (''SUPPORTED_EVENTS'', 0x03), (''DETAILS_SCHEMAS'', 0x04),
        (''REQUIRES_EVENT_DETECTION_TOGGLE'', 0x05), (''GOAL_REQUIRES_SHOT_REFERENCE'', 0x06)]),
     (''sport_basketball_shot_details'', [(''SHOT_ID'', 0x01), (''RELEASE_TYPE'', 0x02)]),
     (''sport_basketball_goal_details'', [(''GOAL_ID'', 0x01), (''SHOT_ID'', 0x02), (''GOAL_TYPE'', 0x03)]),
     (''stream_flow_control_capabilities'', [(''CAPABILITY'', 0x01), (''SUPPORTS_ACK'', 0x02), (''SUPPORTS_WINDOW_UPDATE'', 0x03),
        (''SUPPORTS_PAUSE_RESUME'', 0x04), (''SUPPORTS_ABORT'', 0x05), (''SUPPORTS_STATS'', 0x06),
        (''SUPPORTS_CLOCK_REPORT'', 0x07), (''DEFAULT_WINDOW_BYTES'', 0x08), (''CLOCK_REPORT_INTERVAL_MS'', 0x09)]),
     (''stream_selector'', [(''STREAM_ID'', 0x01)]),
     (''stream_state'', [(''STREAM_ID'', 0x01), (''STATE'', 0x02), (''PAUSED'', 0x03), (''WINDOW_BYTES'', 0x04),
        (''ACKED_SEQ_ID'', 0x05), (''LAST_SEQ_ID'', 0x06), (''LAST_CURSOR'', 0x07), (''REASON'', 0x08)]),
     (''stream_stats'', [(''STREAM_ID'', 0x01), (''PACKETS'', 0x02), (''BYTES'', 0x03), (''DROPPED_PACKETS'', 0x04),
        (''SEQ_GAPS'', 0x05), (''JITTER_MS'', 0x06), (''LAST_SEQ_ID'', 0x07), (''LAST_CURSOR'', 0x08),
        (''LATEST_CLOCK_REPORT_AGE_MS'', 0x09)]),
     (''stream_ack_params'', [(''STREAM_ID'', 0x01), (''ACKED_SEQ_ID'', 0x02), (''ACKED_CURSOR'', 0x03), (''MISSING_SEQ_IDS'', 0x04)])]"

definition ids_22 :: "(string \<times> (string \<times> byte) list) list" where
  "ids_22 = [
     (''stream_ack_result'', [(''ACCEPTED'', 0x01), (''STATE'', 0x02)]),
     (''stream_window_update_params'', [(''STREAM_ID'', 0x01), (''WINDOW_BYTES'', 0x02), (''REASON'', 0x03)]),
     (''stream_window_update_result'', [(''ACCEPTED'', 0x01), (''STATE'', 0x02)]),
     (''stream_pause_params'', [(''STREAM_ID'', 0x01), (''REASON'', 0x02)]),
     (''stream_resume_params'', [(''STREAM_ID'', 0x01), (''REASON'', 0x02)]),
     (''stream_abort_params'', [(''STREAM_ID'', 0x01), (''REASON'', 0x02), (''MESSAGE'', 0x03)]),
     (''stream_action_result'', [(''ACCEPTED'', 0x01), (''STATE'', 0x02)]),
     (''stream_state_changed_event'', [(''STREAM_ID'', 0x01), (''STATE'', 0x02)]),
     (''stream_stats_reported_event'', [(''STREAM_ID'', 0x01), (''STATS'', 0x02)]),
     (''stream_flow_control_changed_event'', [(''STREAM_ID'', 0x01), (''REASON'', 0x02), (''STATE'', 0x03)]),
     (''stream_clock_media_anchor'', [(''STREAM_ID'', 0x01), (''MEDIA_PTS'', 0x02), (''TIMEBASE'', 0x03), (''ANCHOR_NT10_MONOTONIC_US'', 0x04),
        (''SEQ_ID'', 0x05), (''CURSOR'', 0x06)]),
     (''stream_clock_report_event'', [(''REPORT_SEQ'', 0x01), (''SYNC_GROUP_ID'', 0x02), (''SOURCE_DEVICE_ID'', 0x03),
        (''SOURCE_CLOCK_DOMAIN'', 0x04), (''NT10_REPORT_MONOTONIC_US'', 0x05), (''SENT_AT_NT10_MONOTONIC_US'', 0x06),
        (''NA20_RECEIVED_AT_US'', 0x07), (''NA20_SENT_AT_US'', 0x08), (''AUDIO'', 0x09), (''VIDEO'', 0x0A),
        (''DISCONTINUITY'', 0x0B), (''REASON'', 0x0C)]),
     (''video_get_stream_capabilities_params'', [(''SOURCE'', 0x01), (''INCLUDE_RUNTIME_STATE'', 0x02)]),
     (''video_stream_capabilities'', [(''CAPABILITY'', 0x01), (''SOURCES'', 0x02), (''STREAM_PROFILES'', 0x03), (''OPEN_MODES'', 0x04),
        (''PEER_ROLES'', 0x05), (''SUPPORTS_SOURCE_STATE_EVENT'', 0x06), (''SUPPORTS_SYNC_GROUP'', 0x07),
        (''FLOW_CONTROL_MANAGED_BY_RUNTIME'', 0x08), (''SUPPORTED_VIDEO_PTS_MODES'', 0x09),
        (''SUPPORTED_PACKETIZATION_MODES'', 0x0A), (''SUPPORTS_SOURCE_CAPTURE_TIMESTAMP_CURSOR'', 0x0B)]),
     (''video_stream_source'', [(''SOURCE'', 0x01), (''DISPLAY_NAME'', 0x02), (''CODECS'', 0x03), (''RESOLUTIONS'', 0x04),
        (''FRAME_RATES'', 0x05), (''STATE'', 0x06), (''BITRATES_KBPS'', 0x07), (''ENCODER'', 0x08),
        (''SUPPORTS_RECONFIGURE'', 0x09), (''RECONFIGURE_FIELDS'', 0x0A)])]"

definition ids_23 :: "(string \<times> (string \<times> byte) list) list" where
  "ids_23 = [
     (''video_open_stream_params'', [(''SOURCE'', 0x01), (''PEER_ROLE'', 0x02), (''CODEC'', 0x03), (''WIDTH'', 0x04), (''HEIGHT'', 0x05),
        (''FRAME_RATE'', 0x06), (''BITRATE_KBPS'', 0x07), (''STREAM_PROFILE'', 0x08), (''CURSOR_UNIT'', 0x09),
        (''SYNC_GROUP_ID'', 0x0A), (''CAST_SESSION_ID'', 0x0B), (''CLOCK_DOMAIN'', 0x0C), (''MAX_DATA_SIZE'', 0x0D),
        (''VIDEO_PTS_MODE'', 0x0E), (''TIMEBASE'', 0x0F), (''PACKETIZATION_MODE'', 0x10)]),
     (''video_open_stream_result'', [(''STREAM_ID'', 0x01), (''STATE'', 0x02), (''SOURCE'', 0x03), (''PEER_ROLE'', 0x04), (''CODEC'', 0x05),
        (''WIDTH'', 0x06), (''HEIGHT'', 0x07), (''FRAME_RATE'', 0x08), (''BITRATE_KBPS'', 0x09),
        (''STREAM_PROFILE'', 0x0A), (''CURSOR_UNIT'', 0x0B), (''SYNC_GROUP_ID'', 0x0C), (''MAX_DATA_SIZE'', 0x0D),
        (''VIDEO_PTS_MODE'', 0x0E), (''TIMEBASE'', 0x0F), (''PACKETIZATION_MODE'', 0x10)]),
     (''video_close_stream_params'', [(''STREAM_ID'', 0x01), (''PEER_ROLE'', 0x02), (''REASON'', 0x03), (''FINAL_CURSOR'', 0x04)]),
     (''video_close_stream_result'', [(''STREAM_ID'', 0x01), (''STATE'', 0x02), (''REASON'', 0x03), (''ALREADY_CLOSED'', 0x04)]),
     (''video_get_stream_state_params'', [(''STREAM_ID'', 0x01)]),
     (''video_stream_state'', [(''STREAM_ID'', 0x01), (''STATE'', 0x02), (''SOURCE'', 0x03), (''PEER_ROLE'', 0x04), (''CODEC'', 0x05),
        (''STREAM_PROFILE'', 0x06), (''SYNC_GROUP_ID'', 0x07), (''CURSOR_UNIT'', 0x08), (''LAST_CURSOR'', 0x09),
        (''KEY_FRAME_REQUESTED'', 0x0A), (''FAILURE_REASON'', 0x0B), (''FRAME_RATE'', 0x0C), (''BITRATE_KBPS'', 0x0D)]),
     (''video_get_stream_source_state_params'', [(''SOURCE'', 0x01)]),
     (''video_stream_source_state'', [(''SOURCE'', 0x01), (''MEDIA_KIND'', 0x02), (''STATE'', 0x03), (''AVAILABLE'', 0x04),
        (''ACTIVE_STREAM_ID'', 0x05)]),
     (''video_request_key_frame_params'', [(''STREAM_ID'', 0x01), (''REASON'', 0x02)]),
     (''video_request_key_frame_result'', [(''ACCEPTED'', 0x01), (''STATE'', 0x02)]),
     (''video_stream_state_changed_event'', [(''STREAM_ID'', 0x01), (''STATE'', 0x02), (''SOURCE'', 0x03), (''REASON'', 0x04), (''STATS'', 0x05),
        (''FRAME_RATE'', 0x06), (''BITRATE_KBPS'', 0x07)])]"

definition ids_24 :: "(string \<times> (string \<times> byte) list) list" where
  "ids_24 = [
     (''video_stream_source_state_changed_event'', [(''SOURCE'', 0x01), (''MEDIA_KIND'', 0x02), (''STATE'', 0x03), (''REASON'', 0x04), (''ACTIVE_STREAM_ID'', 0x05)]),
     (''video_stream_stats_reported_event'', [(''STREAM_ID'', 0x01), (''STATS'', 0x02)]),
     (''video_stream_stats'', [(''FRAMES'', 0x01), (''BYTES'', 0x02), (''DROPPED_FRAMES'', 0x03), (''BITRATE_KBPS'', 0x04)])]"

definition field_constants :: "(string \<times> (string \<times> byte) list) list" where
  "field_constants = concat [ids_1, ids_2, ids_3, ids_4, ids_5, ids_6, ids_7, ids_8, ids_9, ids_10, ids_11, ids_12, ids_13, ids_14, ids_15,
     ids_16, ids_17, ids_18, ids_19, ids_20, ids_21, ids_22, ids_23, ids_24]"

definition structs_1 :: "(string \<times> (member_type \<times> string) list) list" where
  "structs_1 = [
     (''Empty'', []),
     (''CommonEmptyRequest'', []),
     (''CommonEmptyResponse'', []),
     (''ControlOpenBody'', [(C_uint8, ''protocolVersion''), (C_bool, ''has_protocolVersion''), (C_uint8, ''reservedHeaderProfile''),
        (C_bool, ''has_reservedHeaderProfile''), (C_uint16, ''maxFrameSize''), (C_uint16, ''mtu''),
        (C_bool, ''has_mtu''), (C_uint32, ''supportedPayloadTypes''), (C_uint32, ''supportedRpcEncodings''),
        (C_uint32, ''heartbeatIntervalMs''), (C_uint8, ''ackMode'')]),
     (''ControlAcceptBody'', [(C_uint32, ''sessionId''), (C_uint8, ''protocolVersion''), (C_bool, ''has_protocolVersion''),
        (C_uint8, ''reservedHeaderProfile''), (C_bool, ''has_reservedHeaderProfile''), (C_uint16, ''maxFrameSize''),
        (C_uint16, ''mtu''), (C_bool, ''has_mtu''), (C_uint32, ''supportedPayloadTypes''),
        (C_uint32, ''heartbeatIntervalMs''), (C_uint8, ''ackMode''), (C_uint8, ''selectedRpcEncoding'')]),
     (''AudioAlgorithmCapability'', [(C_text, ''configSchemaVersion''), (C_bool, ''has_configSchemaVersion''), (C_uint32, ''updatePolicy''),
        (C_uint32, ''supportedAlgorithms''), (C_bool, ''has_supportedAlgorithms'')]),
     (''AudioGetAlgorithmCapabilitiesRequest'', [(C_uint32, ''items''), (C_bool, ''has_items'')]),
     (''AudioGetAlgorithmConfigRequest'', [(C_uint32, ''items''), (C_bool, ''has_items'')]),
     (''AudioSetAlgorithmConfigRequest'', [(C_uint32, ''config'')]),
     (''AudioResetAlgorithmConfigRequest'', [(C_bytes, ''items'')]),
     (''AudioSetAlgorithmConfigResponse'', [(C_uint32, ''applyState''), (C_bool, ''requiresAudioRestart''), (C_uint32, ''config'')]),
     (''AudioAlgorithmConfigChangedEvent'', [(C_uint32, ''reason''), (C_uint32, ''applyState''), (C_bool, ''requiresAudioRestart''), (C_uint32, ''config''),
        (C_uint32, ''changedFields''), (C_bool, ''has_changedFields'')]),
     (''AudioGetAlgorithmCapabilitiesResponse'', [(C_text, ''capability''), (C_uint32, ''updatePolicy''), (C_uint32, ''algorithms'')]),
     (''AudioAlgorithmUpdatePolicy'', [(C_bool, ''partialUpdateSupported''), (C_bool, ''multiAlgorithmUpdateSupported''),
        (C_bool, ''atomicUpdateSupported'')]),
     (''AudioAlgorithmCapabilities'', [(C_uint32, ''noiseSuppression''), (C_bool, ''has_noiseSuppression''), (C_uint32, ''echoCancellation''),
        (C_bool, ''has_echoCancellation''), (C_uint32, ''autoGainControl''), (C_bool, ''has_autoGainControl''),
        (C_uint32, ''beamforming''), (C_bool, ''has_beamforming''), (C_uint32, ''dereverberation''),
        (C_bool, ''has_dereverberation''), (C_uint32, ''voiceActivityDetection''),
        (C_bool, ''has_voiceActivityDetection''), (C_uint32, ''directionOfArrival''),
        (C_bool, ''has_directionOfArrival''), (C_uint32, ''howlingSuppression''), (C_bool, ''has_howlingSuppression'')]),
     (''AudioAlgorithmPropertyCapability'', [(C_uint32, ''type''), (C_bool, ''defaultBool''), (C_bool, ''has_defaultBool''), (C_text, ''defaultEnum''),
        (C_bool, ''has_defaultEnum''), (C_int32, ''defaultInt32''), (C_bool, ''has_defaultInt32''), (C_int32, ''min''),
        (C_bool, ''has_min''), (C_int32, ''max''), (C_bool, ''has_max''), (C_int32, ''step''), (C_bool, ''has_step''),
        (C_uint32, ''values''), (C_bool, ''has_values''), (C_text, ''unit''), (C_bool, ''has_unit''),
        (C_bool, ''requiresAudioRestart''), (C_bool, ''has_requiresAudioRestart'')]),
     (''AudioNoiseSuppressionCapabilities'', [(C_bool, ''supported''), (C_text, ''displayName''), (C_bool, ''has_displayName''), (C_uint32, ''enabled''),
        (C_bool, ''has_enabled''), (C_uint32, ''level''), (C_bool, ''has_level'')])]"

definition structs_2 :: "(string \<times> (member_type \<times> string) list) list" where
  "structs_2 = [
     (''AudioEchoCancellationCapabilities'', [(C_bool, ''supported''), (C_text, ''displayName''), (C_bool, ''has_displayName''), (C_uint32, ''enabled''),
        (C_bool, ''has_enabled''), (C_uint32, ''tailLengthMs''), (C_bool, ''has_tailLengthMs''),
        (C_uint32, ''nlpLevel''), (C_bool, ''has_nlpLevel'')]),
     (''AudioAutoGainControlCapabilities'', [(C_bool, ''supported''), (C_text, ''displayName''), (C_bool, ''has_displayName''), (C_uint32, ''enabled''),
        (C_bool, ''has_enabled''), (C_uint32, ''targetLevelDb''), (C_bool, ''has_targetLevelDb''),
        (C_uint32, ''maxGainDb''), (C_bool, ''has_maxGainDb''), (C_uint32, ''attackTimeMs''),
        (C_bool, ''has_attackTimeMs''), (C_uint32, ''releaseTimeMs''), (C_bool, ''has_releaseTimeMs'')]),
     (''AudioBeamformingCapabilities'', [(C_bool, ''supported''), (C_text, ''displayName''), (C_bool, ''has_displayName''), (C_uint32, ''enabled''),
        (C_bool, ''has_enabled''), (C_uint32, ''lookDirectionDeg''), (C_bool, ''has_lookDirectionDeg''),
        (C_uint32, ''beamWidthDeg''), (C_bool, ''has_beamWidthDeg'')]),
     (''AudioDereverberationCapabilities'', [(C_bool, ''supported''), (C_text, ''displayName''), (C_bool, ''has_displayName''), (C_uint32, ''enabled''),
        (C_bool, ''has_enabled''), (C_uint32, ''level''), (C_bool, ''has_level'')]),
     (''AudioVoiceActivityDetectionCapabilities'', [(C_bool, ''supported''), (C_text, ''displayName''), (C_bool, ''has_displayName''), (C_uint32, ''enabled''),
        (C_bool, ''has_enabled''), (C_uint32, ''sensitivity''), (C_bool, ''has_sensitivity''),
        (C_uint32, ''hangoverMs''), (C_bool, ''has_hangoverMs'')]),
     (''AudioDirectionOfArrivalCapabilities'', [(C_bool, ''supported''), (C_text, ''displayName''), (C_bool, ''has_displayName''), (C_uint32, ''enabled''),
        (C_bool, ''has_enabled''), (C_uint32, ''reportingEnabled''), (C_bool, ''has_reportingEnabled''),
        (C_uint32, ''reportIntervalMs''), (C_bool, ''has_reportIntervalMs''), (C_uint32, ''smoothingMs''),
        (C_bool, ''has_smoothingMs'')]),
     (''AudioHowlingSuppressionCapabilities'', [(C_bool, ''supported''), (C_text, ''displayName''), (C_bool, ''has_displayName''), (C_uint32, ''enabled''),
        (C_bool, ''has_enabled''), (C_uint32, ''level''), (C_bool, ''has_level'')]),
     (''AudioAlgorithmConfig'', [(C_uint32, ''noiseSuppression''), (C_bool, ''has_noiseSuppression''), (C_uint32, ''echoCancellation''),
        (C_bool, ''has_echoCancellation''), (C_uint32, ''autoGainControl''), (C_bool, ''has_autoGainControl''),
        (C_uint32, ''beamforming''), (C_bool, ''has_beamforming''), (C_uint32, ''dereverberation''),
        (C_bool, ''has_dereverberation''), (C_uint32, ''voiceActivityDetection''),
        (C_bool, ''has_voiceActivityDetection''), (C_uint32, ''directionOfArrival''),
        (C_bool, ''has_directionOfArrival''), (C_uint32, ''howlingSuppression''), (C_bool, ''has_howlingSuppression'')]),
     (''AudioNoiseSuppressionConfig'', [(C_bool, ''enabled''), (C_bool, ''has_enabled''), (C_uint8, ''level''), (C_bool, ''has_level'')]),
     (''AudioEchoCancellationConfig'', [(C_bool, ''enabled''), (C_bool, ''has_enabled''), (C_uint32, ''tailLengthMs''), (C_bool, ''has_tailLengthMs''),
        (C_uint8, ''nlpLevel''), (C_bool, ''has_nlpLevel'')]),
     (''AudioAutoGainControlConfig'', [(C_bool, ''enabled''), (C_bool, ''has_enabled''), (C_int32, ''targetLevelDb''), (C_bool, ''has_targetLevelDb''),
        (C_uint8, ''maxGainDb''), (C_bool, ''has_maxGainDb''), (C_uint32, ''attackTimeMs''),
        (C_bool, ''has_attackTimeMs''), (C_uint32, ''releaseTimeMs''), (C_bool, ''has_releaseTimeMs'')]),
     (''AudioBeamformingConfig'', [(C_bool, ''enabled''), (C_bool, ''has_enabled''), (C_int32, ''lookDirectionDeg''),
        (C_bool, ''has_lookDirectionDeg''), (C_uint32, ''beamWidthDeg''), (C_bool, ''has_beamWidthDeg'')]),
     (''AudioDereverberationConfig'', [(C_bool, ''enabled''), (C_bool, ''has_enabled''), (C_uint8, ''level''), (C_bool, ''has_level'')])]"

definition structs_3 :: "(string \<times> (member_type \<times> string) list) list" where
  "structs_3 = [
     (''AudioVoiceActivityDetectionConfig'', [(C_bool, ''enabled''), (C_bool, ''has_enabled''), (C_uint8, ''sensitivity''), (C_bool, ''has_sensitivity''),
        (C_uint32, ''hangoverMs''), (C_bool, ''has_hangoverMs'')]),
     (''AudioDirectionOfArrivalConfig'', [(C_bool, ''enabled''), (C_bool, ''has_enabled''), (C_bool, ''reportingEnabled''),
        (C_bool, ''has_reportingEnabled''), (C_uint32, ''reportIntervalMs''), (C_bool, ''has_reportIntervalMs''),
        (C_uint32, ''smoothingMs''), (C_bool, ''has_smoothingMs'')]),
     (''AudioHowlingSuppressionConfig'', [(C_bool, ''enabled''), (C_bool, ''has_enabled''), (C_uint8, ''level''), (C_bool, ''has_level'')]),
     (''AudioGetStreamCapabilitiesParams'', [(C_text, ''source''), (C_bool, ''has_source''), (C_bool, ''includeRuntimeState''),
        (C_bool, ''has_includeRuntimeState'')]),
     (''AudioStreamCapabilities'', [(C_text, ''capability''), (C_uint32, ''sources''), (C_uint32, ''streamProfiles''), (C_uint32, ''openModes''),
        (C_uint32, ''peerRoles''), (C_bool, ''supportsSourceStateEvent''), (C_bool, ''supportsSyncGroup''),
        (C_bool, ''flowControlManagedByRuntime''), (C_uint32, ''aacTransportFormats''),
        (C_bool, ''has_aacTransportFormats''), (C_uint32, ''supportedAudioPtsModes''),
        (C_bool, ''has_supportedAudioPtsModes''), (C_uint32, ''supportedPacketizationModes''),
        (C_bool, ''has_supportedPacketizationModes''), (C_bool, ''supportsSourceCaptureTimestampCursor''),
        (C_bool, ''has_supportsSourceCaptureTimestampCursor'')]),
     (''AudioStreamSource'', [(C_text, ''source''), (C_text, ''displayName''), (C_bool, ''has_displayName''), (C_uint32, ''codecs''),
        (C_uint32, ''sampleRates''), (C_bool, ''has_sampleRates''), (C_uint32, ''channels''),
        (C_bool, ''has_channels''), (C_uint32, ''state''), (C_bool, ''has_state'')]),
     (''AudioOpenStreamParams'', [(C_text, ''source''), (C_uint32, ''peerRole''), (C_uint32, ''codec''), (C_uint32, ''transportFormat''),
        (C_bool, ''has_transportFormat''), (C_uint32, ''sampleRate''), (C_bool, ''has_sampleRate''),
        (C_uint8, ''channels''), (C_bool, ''has_channels''), (C_uint32, ''sampleFormat''),
        (C_bool, ''has_sampleFormat''), (C_uint32, ''chunkDurationMs''), (C_bool, ''has_chunkDurationMs''),
        (C_text, ''streamProfile''), (C_bool, ''has_streamProfile''), (C_uint32, ''cursorUnit''),
        (C_bool, ''has_cursorUnit''), (C_text, ''syncGroupId''), (C_bool, ''has_syncGroupId''),
        (C_text, ''castSessionId''), (C_bool, ''has_castSessionId''), (C_text, ''clockDomain''),
        (C_bool, ''has_clockDomain''), (C_text, ''receiverClockDomain''), (C_bool, ''has_receiverClockDomain''),
        (C_uint32, ''maxDataSize''), (C_bool, ''has_maxDataSize''), (C_uint32, ''audioPtsMode''),
        (C_bool, ''has_audioPtsMode''), (C_uint32, ''timebase''), (C_bool, ''has_timebase''),
        (C_uint32, ''samplesPerPacket''), (C_bool, ''has_samplesPerPacket''), (C_uint32, ''firstMediaSeqId''),
        (C_bool, ''has_firstMediaSeqId''), (C_uint64, ''audioPtsBase''), (C_bool, ''has_audioPtsBase''),
        (C_uint32, ''packetizationMode''), (C_bool, ''has_packetizationMode'')]),
     (''AudioOpenStreamResult'', [(C_uint32, ''streamId''), (C_uint32, ''state''), (C_text, ''source''), (C_uint32, ''peerRole''),
        (C_uint32, ''codec''), (C_uint32, ''transportFormat''), (C_bool, ''has_transportFormat''),
        (C_uint32, ''sampleRate''), (C_uint8, ''channels''), (C_uint32, ''sampleFormat''),
        (C_bool, ''has_sampleFormat''), (C_text, ''streamProfile''), (C_uint32, ''cursorUnit''),
        (C_text, ''syncGroupId''), (C_bool, ''has_syncGroupId''), (C_text, ''castSessionId''),
        (C_bool, ''has_castSessionId''), (C_text, ''clockDomain''), (C_bool, ''has_clockDomain''),
        (C_text, ''receiverClockDomain''), (C_bool, ''has_receiverClockDomain''), (C_uint32, ''maxDataSize''),
        (C_bool, ''has_maxDataSize''), (C_uint32, ''audioPtsMode''), (C_bool, ''has_audioPtsMode''),
        (C_uint32, ''timebase''), (C_bool, ''has_timebase''), (C_uint32, ''samplesPerPacket''),
        (C_bool, ''has_samplesPerPacket''), (C_uint32, ''firstMediaSeqId''), (C_bool, ''has_firstMediaSeqId''),
        (C_uint64, ''audioPtsBase''), (C_bool, ''has_audioPtsBase''), (C_uint32, ''packetizationMode''),
        (C_bool, ''has_packetizationMode'')])]"

definition structs_4 :: "(string \<times> (member_type \<times> string) list) list" where
  "structs_4 = [
     (''AudioCloseStreamParams'', [(C_uint32, ''streamId''), (C_uint32, ''peerRole''), (C_bool, ''has_peerRole''), (C_uint32, ''reason''),
        (C_bool, ''has_reason''), (C_uint64, ''finalCursor''), (C_bool, ''has_finalCursor'')]),
     (''AudioCloseStreamResult'', [(C_uint32, ''streamId''), (C_uint32, ''state''), (C_uint32, ''reason''), (C_bool, ''has_reason''),
        (C_bool, ''alreadyClosed''), (C_bool, ''has_alreadyClosed'')]),
     (''AudioGetStreamStateParams'', [(C_uint32, ''streamId'')]),
     (''AudioStreamState'', [(C_uint32, ''streamId''), (C_uint32, ''state''), (C_text, ''source''), (C_uint32, ''peerRole''),
        (C_bool, ''has_peerRole''), (C_uint32, ''codec''), (C_bool, ''has_codec''), (C_text, ''streamProfile''),
        (C_bool, ''has_streamProfile''), (C_text, ''syncGroupId''), (C_bool, ''has_syncGroupId''),
        (C_uint32, ''cursorUnit''), (C_bool, ''has_cursorUnit''), (C_uint64, ''lastCursor''),
        (C_bool, ''has_lastCursor''), (C_uint32, ''failureReason''), (C_bool, ''has_failureReason'')]),
     (''AudioGetStreamSourceStateParams'', [(C_text, ''source'')]),
     (''AudioStreamSourceState'', [(C_text, ''source''), (C_uint32, ''mediaKind''), (C_bool, ''has_mediaKind''), (C_uint32, ''state''),
        (C_bool, ''available''), (C_bool, ''has_available''), (C_uint32, ''activeStreamId''),
        (C_bool, ''has_activeStreamId''), (C_uint32, ''lastOpenRejectedReason''),
        (C_bool, ''has_lastOpenRejectedReason'')]),
     (''AudioStreamStateChangedEvent'', [(C_uint32, ''streamId''), (C_uint32, ''state''), (C_text, ''source''), (C_uint32, ''reason''),
        (C_bool, ''has_reason''), (C_uint32, ''stats''), (C_bool, ''has_stats'')]),
     (''AudioStreamSourceStateChangedEvent'', [(C_text, ''source''), (C_uint32, ''mediaKind''), (C_bool, ''has_mediaKind''), (C_uint32, ''state''),
        (C_uint32, ''reason''), (C_bool, ''has_reason''), (C_uint32, ''activeStreamId''),
        (C_bool, ''has_activeStreamId'')]),
     (''AudioStreamStatsReportedEvent'', [(C_uint32, ''streamId''), (C_uint32, ''stats'')]),
     (''AudioStreamStats'', [(C_uint64, ''packets''), (C_bool, ''has_packets''), (C_uint64, ''bytes''), (C_bool, ''has_bytes''),
        (C_uint64, ''droppedPackets''), (C_bool, ''has_droppedPackets''), (C_uint32, ''jitterMs''),
        (C_bool, ''has_jitterMs'')]),
     (''CastSourceSummary'', [(C_text, ''name''), (C_bool, ''has_name''), (C_text, ''model''), (C_bool, ''has_model''), (C_text, ''address''),
        (C_bool, ''has_address''), (C_text, ''sourceId''), (C_bool, ''has_sourceId''), (C_uint32, ''protocol''),
        (C_bool, ''has_protocol'')]),
     (''CastMediaSummary'', [(C_bool, ''firstFrame''), (C_bool, ''has_firstFrame''), (C_uint32, ''width''), (C_bool, ''has_width''),
        (C_uint32, ''height''), (C_bool, ''has_height''), (C_uint32, ''orientation''), (C_bool, ''has_orientation''),
        (C_uint32, ''inputFps''), (C_bool, ''has_inputFps''), (C_uint32, ''renderFps''), (C_bool, ''has_renderFps''),
        (C_bool, ''audioActive''), (C_bool, ''has_audioActive'')]),
     (''CastLastError'', [(C_text, ''code''), (C_bool, ''has_code''), (C_text, ''message''), (C_bool, ''has_message''),
        (C_text, ''occurredAt''), (C_bool, ''has_occurredAt''), (C_bool, ''redacted''), (C_bool, ''has_redacted'')]),
     (''CastGetSessionParams'', [(C_uint32, ''include''), (C_bool, ''has_include''), (C_text, ''sessionId''), (C_bool, ''has_sessionId'')])]"

definition structs_5 :: "(string \<times> (member_type \<times> string) list) list" where
  "structs_5 = [
     (''CastSessionState'', [(C_uint32, ''receiverState''), (C_text, ''sessionId''), (C_bool, ''has_sessionId''),
        (C_uint32, ''receiverPhase''), (C_uint32, ''sessionState''), (C_bool, ''has_sessionState''),
        (C_uint32, ''protocol''), (C_bool, ''has_protocol''), (C_text, ''airPlayName''), (C_bool, ''has_airPlayName''),
        (C_uint32, ''source''), (C_bool, ''has_source''), (C_uint32, ''media''), (C_bool, ''has_media''),
        (C_uint32, ''backendState''), (C_bool, ''has_backendState''), (C_uint32, ''reason''), (C_bool, ''has_reason''),
        (C_bool, ''authRequired''), (C_bool, ''has_authRequired''), (C_text, ''updatedAt''), (C_bool, ''has_updatedAt'')]),
     (''CastStopSessionParams'', [(C_text, ''sessionId''), (C_bool, ''has_sessionId''), (C_uint32, ''reason''), (C_bool, ''has_reason''),
        (C_bool, ''force''), (C_bool, ''has_force'')]),
     (''CastStopSessionResult'', [(C_bool, ''accepted''), (C_text, ''sessionId''), (C_bool, ''has_sessionId''),
        (C_uint32, ''previousReceiverPhase''), (C_bool, ''has_previousReceiverPhase''), (C_uint32, ''receiverPhase''),
        (C_uint32, ''previousState''), (C_bool, ''has_previousState''), (C_uint32, ''sessionState''),
        (C_bool, ''has_sessionState''), (C_uint32, ''reason''), (C_bool, ''has_reason''), (C_bool, ''noActiveSession''),
        (C_bool, ''has_noActiveSession''), (C_text, ''updatedAt''), (C_bool, ''has_updatedAt'')]),
     (''CastSetAirPlayNameParams'', [(C_text, ''displayName''), (C_uint32, ''apply''), (C_bool, ''has_apply'')]),
     (''CastAirPlayNameState'', [(C_text, ''displayName''), (C_text, ''previousDisplayName''), (C_bool, ''has_previousDisplayName''),
        (C_uint32, ''source''), (C_bool, ''has_source''), (C_uint32, ''apply''), (C_bool, ''has_apply''),
        (C_uint32, ''publishState''), (C_uint32, ''backendType''), (C_bool, ''has_backendType''),
        (C_text, ''updatedAt''), (C_bool, ''has_updatedAt'')]),
     (''CastSessionIncomingEvent'', [(C_text, ''sessionId''), (C_bool, ''has_sessionId''), (C_uint32, ''receiverPhase''), (C_uint32, ''protocol''),
        (C_bool, ''has_protocol''), (C_uint32, ''source''), (C_bool, ''has_source''), (C_bool, ''authRequired''),
        (C_bool, ''has_authRequired''), (C_text, ''incomingAt''), (C_bool, ''has_incomingAt'')]),
     (''CastSessionStateChangedEvent'', [(C_text, ''sessionId''), (C_bool, ''has_sessionId''), (C_uint32, ''previousReceiverPhase''),
        (C_bool, ''has_previousReceiverPhase''), (C_uint32, ''receiverPhase''), (C_uint32, ''previousState''),
        (C_bool, ''has_previousState''), (C_uint32, ''sessionState''), (C_bool, ''has_sessionState''),
        (C_uint32, ''protocol''), (C_bool, ''has_protocol''), (C_bool, ''authRequired''),
        (C_bool, ''has_authRequired''), (C_uint32, ''media''), (C_bool, ''has_media''), (C_uint32, ''reason''),
        (C_bool, ''has_reason''), (C_text, ''updatedAt''), (C_bool, ''has_updatedAt'')]),
     (''CastSessionStartedEvent'', [(C_text, ''sessionId''), (C_uint32, ''receiverPhase''), (C_uint32, ''sessionState''),
        (C_bool, ''has_sessionState''), (C_uint32, ''protocol''), (C_bool, ''has_protocol''), (C_uint32, ''source''),
        (C_bool, ''has_source''), (C_uint32, ''media''), (C_bool, ''has_media''), (C_text, ''startedAt''),
        (C_bool, ''has_startedAt'')]),
     (''CastSessionStoppedEvent'', [(C_text, ''sessionId''), (C_bool, ''has_sessionId''), (C_uint32, ''previousReceiverPhase''),
        (C_bool, ''has_previousReceiverPhase''), (C_uint32, ''receiverPhase''), (C_uint32, ''previousState''),
        (C_bool, ''has_previousState''), (C_uint32, ''sessionState''), (C_bool, ''has_sessionState''),
        (C_uint32, ''reason''), (C_bool, ''has_reason''), (C_uint32, ''backendType''), (C_bool, ''has_backendType''),
        (C_text, ''stoppedAt''), (C_bool, ''has_stoppedAt'')])]"

definition structs_6 :: "(string \<times> (member_type \<times> string) list) list" where
  "structs_6 = [
     (''CastSessionFailedEvent'', [(C_text, ''sessionId''), (C_bool, ''has_sessionId''), (C_uint32, ''receiverPhase''),
        (C_uint32, ''sessionState''), (C_bool, ''has_sessionState''), (C_uint32, ''protocol''),
        (C_bool, ''has_protocol''), (C_uint32, ''source''), (C_bool, ''has_source''), (C_uint32, ''reason''),
        (C_bool, ''has_reason''), (C_uint32, ''error''), (C_bool, ''has_error''), (C_text, ''failedAt''),
        (C_bool, ''has_failedAt'')]),
     (''CastGetAudioParams'', [(C_bool, ''includeEffective''), (C_bool, ''has_includeEffective''), (C_text, ''sessionId''),
        (C_bool, ''has_sessionId'')]),
     (''CastSetAudioParams'', [(C_bool, ''enabled''), (C_text, ''sessionId''), (C_bool, ''has_sessionId''), (C_uint32, ''scope''),
        (C_bool, ''has_scope'')]),
     (''CastSetMutedParams'', [(C_bool, ''muted''), (C_text, ''sessionId''), (C_bool, ''has_sessionId''), (C_uint32, ''scope''),
        (C_bool, ''has_scope'')]),
     (''CastSetAudioDelayParams'', [(C_uint32, ''audioDelayMs''), (C_text, ''sessionId''), (C_bool, ''has_sessionId''), (C_uint32, ''scope''),
        (C_bool, ''has_scope'')]),
     (''CastAudioState'', [(C_bool, ''enabled''), (C_bool, ''muted''), (C_bool, ''effectivePlayback''), (C_uint32, ''scope''),
        (C_bool, ''has_scope''), (C_text, ''sessionId''), (C_bool, ''has_sessionId''), (C_uint32, ''source''),
        (C_bool, ''has_source''), (C_uint32, ''reason''), (C_bool, ''has_reason''), (C_uint32, ''changedFields''),
        (C_bool, ''has_changedFields''), (C_text, ''updatedAt''), (C_bool, ''has_updatedAt''),
        (C_uint32, ''audioDelayMs''), (C_bool, ''has_audioDelayMs'')]),
     (''CastAudioChangedEvent'', [(C_uint32, ''changedFields''), (C_uint32, ''state''), (C_uint32, ''reason''), (C_bool, ''has_reason''),
        (C_text, ''updatedAt''), (C_bool, ''has_updatedAt'')]),
     (''CastGetPinCodeConfigParams'', [(C_bool, ''includeSecret''), (C_bool, ''has_includeSecret''), (C_uint32, ''protocol''),
        (C_bool, ''has_protocol''), (C_bool, ''includeSensitive''), (C_bool, ''has_includeSensitive''),
        (C_text, ''attemptId''), (C_bool, ''has_attemptId'')]),
     (''CastSetPinCodeConfigParams'', [(C_bool, ''enabled''), (C_bool, ''has_enabled''), (C_uint32, ''pinDisplay''), (C_bool, ''has_pinDisplay''),
        (C_bool, ''rotatePin''), (C_bool, ''has_rotatePin''), (C_uint32, ''visibility''), (C_bool, ''has_visibility'')]),
     (''CastSetPinCodeParams'', [(C_text, ''pinCode''), (C_bool, ''expirePrevious''), (C_bool, ''has_expirePrevious''),
        (C_uint32, ''visibility''), (C_bool, ''has_visibility'')]),
     (''CastPinCodeChallenge'', [(C_text, ''attemptId''), (C_text, ''challengeId''), (C_text, ''displayRequestId''), (C_text, ''pinCode''),
        (C_bool, ''has_pinCode''), (C_text, ''codeGeneration''), (C_bool, ''has_codeGeneration'')]),
     (''CastPinCodeConfig'', [(C_bool, ''enabled''), (C_bool, ''hasPinCode''), (C_text, ''pinCode''), (C_bool, ''has_pinCode''),
        (C_uint32, ''pinDisplay''), (C_bool, ''has_pinDisplay''), (C_uint32, ''generatedBy''),
        (C_bool, ''has_generatedBy''), (C_uint32, ''visibility''), (C_bool, ''has_visibility''),
        (C_text, ''expiresAt''), (C_bool, ''has_expiresAt''), (C_bool, ''redactionRequired''),
        (C_bool, ''has_redactionRequired''), (C_uint32, ''changedFields''), (C_bool, ''has_changedFields''),
        (C_text, ''updatedAt''), (C_bool, ''has_updatedAt''), (C_bool, ''redacted''), (C_bool, ''has_redacted''),
        (C_uint32, ''protocol''), (C_bool, ''has_protocol''), (C_uint32, ''backend''), (C_bool, ''has_backend''),
        (C_uint32, ''challenges''), (C_bool, ''has_challenges''), (C_uint32, ''scope''), (C_bool, ''has_scope''),
        (C_text, ''codeGeneration''), (C_bool, ''has_codeGeneration'')])]"

definition structs_7 :: "(string \<times> (member_type \<times> string) list) list" where
  "structs_7 = [
     (''CastPinCodeChangedEvent'', [(C_uint32, ''changedFields''), (C_uint32, ''config''), (C_uint32, ''reason''), (C_bool, ''has_reason''),
        (C_text, ''updatedAt''), (C_bool, ''has_updatedAt''), (C_uint32, ''challenge''), (C_bool, ''has_challenge'')]),
     (''CastPinCodeRequiredEvent'', [(C_text, ''sessionId''), (C_bool, ''has_sessionId''), (C_uint32, ''source''), (C_bool, ''has_source''),
        (C_text, ''pinCode''), (C_bool, ''has_pinCode''), (C_uint32, ''visibility''), (C_bool, ''has_visibility''),
        (C_bool, ''redactionRequired''), (C_bool, ''has_redactionRequired''), (C_text, ''requestedAt''),
        (C_bool, ''has_requestedAt''), (C_uint32, ''config''), (C_bool, ''has_config'')]),
     (''CastPinCodeAuthFailedEvent'', [(C_text, ''sessionId''), (C_bool, ''has_sessionId''), (C_uint32, ''source''), (C_bool, ''has_source''),
        (C_uint32, ''authFailureReason''), (C_bool, ''has_authFailureReason''), (C_uint16, ''attemptCount''),
        (C_bool, ''has_attemptCount''), (C_text, ''failedAt''), (C_bool, ''has_failedAt'')]),
     (''CastRect'', [(C_int32, ''x''), (C_int32, ''y''), (C_uint32, ''width''), (C_uint32, ''height'')]),
     (''CastSetWindowStateParams'', [(C_uint32, ''mode''), (C_bool, ''has_mode''), (C_bool, ''fullscreen''), (C_bool, ''has_fullscreen''),
        (C_bool, ''alwaysOnTop''), (C_bool, ''has_alwaysOnTop''), (C_uint32, ''bounds''), (C_bool, ''has_bounds'')]),
     (''CastWindowState'', [(C_bool, ''hasWindow''), (C_bool, ''visible''), (C_uint32, ''mode''), (C_bool, ''fullscreen''),
        (C_bool, ''alwaysOnTop''), (C_text, ''sessionId''), (C_bool, ''has_sessionId''), (C_uint32, ''bounds''),
        (C_bool, ''has_bounds''), (C_uint32, ''changedFields''), (C_bool, ''has_changedFields''),
        (C_text, ''updatedAt''), (C_bool, ''has_updatedAt'')]),
     (''CastWindowChangedEvent'', [(C_uint32, ''changedFields''), (C_uint32, ''state''), (C_uint32, ''reason''), (C_bool, ''has_reason''),
        (C_text, ''updatedAt''), (C_bool, ''has_updatedAt''), (C_uint32, ''controlContext''),
        (C_bool, ''has_controlContext'')]),
     (''CastGetBackendStatusParams'', [(C_bool, ''includeLastError''), (C_bool, ''has_includeLastError'')]),
     (''CastRestartBackendParams'', [(C_uint32, ''reason''), (C_bool, ''has_reason''), (C_bool, ''force''), (C_bool, ''has_force'')]),
     (''CastBackendStatus'', [(C_uint32, ''backendType''), (C_uint32, ''state''), (C_bool, ''discoverable''), (C_uint32, ''pid''),
        (C_bool, ''has_pid''), (C_text, ''version''), (C_bool, ''has_version''), (C_text, ''activeSessionId''),
        (C_bool, ''has_activeSessionId''), (C_bool, ''restartInProgress''), (C_uint32, ''lastError''),
        (C_bool, ''has_lastError''), (C_text, ''updatedAt''), (C_bool, ''has_updatedAt'')]),
     (''CastRestartBackendResult'', [(C_bool, ''accepted''), (C_uint32, ''backendType''), (C_uint32, ''state''), (C_text, ''restartId''),
        (C_bool, ''has_restartId''), (C_bool, ''activeSessionEnded''), (C_text, ''endedSessionId''),
        (C_bool, ''has_endedSessionId''), (C_uint32, ''sessionStopReason''), (C_bool, ''has_sessionStopReason''),
        (C_uint32, ''estimatedReadyInMs''), (C_bool, ''has_estimatedReadyInMs''), (C_text, ''updatedAt''),
        (C_bool, ''has_updatedAt'')]),
     (''CastBackendChangedEvent'', [(C_uint32, ''changedFields''), (C_uint32, ''state''), (C_uint32, ''reason''), (C_bool, ''has_reason''),
        (C_text, ''restartId''), (C_bool, ''has_restartId''), (C_bool, ''activeSessionEnded''),
        (C_bool, ''has_activeSessionEnded''), (C_text, ''endedSessionId''), (C_bool, ''has_endedSessionId''),
        (C_text, ''updatedAt''), (C_bool, ''has_updatedAt'')])]"

definition structs_8 :: "(string \<times> (member_type \<times> string) list) list" where
  "structs_8 = [
     (''CastGetFlowControlStateParams'', [(C_bool, ''includeStats''), (C_bool, ''has_includeStats''), (C_bool, ''includePolicy''),
        (C_bool, ''has_includePolicy''), (C_text, ''sessionId''), (C_bool, ''has_sessionId'')]),
     (''CastSetRenderFpsParams'', [(C_uint32, ''fps''), (C_text, ''sessionId''), (C_bool, ''has_sessionId''), (C_uint32, ''scope''),
        (C_bool, ''has_scope'')]),
     (''CastSetFlowPolicyParams'', [(C_uint32, ''videoQueueFrames''), (C_bool, ''has_videoQueueFrames''), (C_uint32, ''lateFrameThresholdMs''),
        (C_bool, ''has_lateFrameThresholdMs''), (C_uint32, ''dropMode''), (C_bool, ''has_dropMode''),
        (C_bool, ''overlayEnabled''), (C_bool, ''has_overlayEnabled''), (C_text, ''sessionId''),
        (C_bool, ''has_sessionId''), (C_uint32, ''scope''), (C_bool, ''has_scope'')]),
     (''CastSetVideoStreamParamsParams'', [(C_text, ''sessionId''), (C_bool, ''has_sessionId''), (C_uint32, ''frameRate''), (C_bool, ''has_frameRate''),
        (C_uint32, ''bitrateKbps''), (C_bool, ''has_bitrateKbps''), (C_uint32, ''resetFields''),
        (C_bool, ''has_resetFields'')]),
     (''CastSetVideoStreamParamsResult'', [(C_bool, ''accepted''), (C_uint32, ''state''), (C_text, ''sessionId''), (C_bool, ''has_sessionId''),
        (C_text, ''reconfigureId''), (C_bool, ''has_reconfigureId''), (C_uint32, ''previousStreamId''),
        (C_bool, ''has_previousStreamId''), (C_uint32, ''activeStreamId''), (C_bool, ''has_activeStreamId''),
        (C_uint32, ''sourceVideo'')]),
     (''CastVideoStreamParamsState'', [(C_text, ''sessionId''), (C_bool, ''has_sessionId''), (C_text, ''source''), (C_bool, ''has_source''),
        (C_uint32, ''desiredFrameRate''), (C_bool, ''has_desiredFrameRate''), (C_uint32, ''desiredBitrateKbps''),
        (C_bool, ''has_desiredBitrateKbps''), (C_uint32, ''effectiveFrameRate''), (C_bool, ''has_effectiveFrameRate''),
        (C_uint32, ''effectiveBitrateKbps''), (C_bool, ''has_effectiveBitrateKbps''), (C_text, ''streamProfile''),
        (C_bool, ''has_streamProfile''), (C_text, ''encoder''), (C_bool, ''has_encoder''), (C_text, ''reconfigureId''),
        (C_bool, ''has_reconfigureId''), (C_uint32, ''state''), (C_bool, ''has_state''), (C_uint32, ''phase''),
        (C_bool, ''has_phase''), (C_uint32, ''previousStreamId''), (C_bool, ''has_previousStreamId''),
        (C_uint32, ''activeStreamId''), (C_bool, ''has_activeStreamId''), (C_bool, ''rollbackApplied''),
        (C_bool, ''has_rollbackApplied''), (C_uint32, ''lastError''), (C_bool, ''has_lastError''),
        (C_uint32, ''changedFields''), (C_bool, ''has_changedFields'')]),
     (''CastFlowControlState'', [(C_uint32, ''targetRenderFps''), (C_uint32, ''inputFps''), (C_bool, ''has_inputFps''),
        (C_uint32, ''renderFps''), (C_bool, ''has_renderFps''), (C_uint32, ''dropMode''),
        (C_uint32, ''videoQueueFrames''), (C_uint32, ''videoQueueDepth''), (C_bool, ''has_videoQueueDepth''),
        (C_uint32, ''audioQueueDepth''), (C_bool, ''has_audioQueueDepth''), (C_uint32, ''lateFrameThresholdMs''),
        (C_bool, ''overlayEnabled''), (C_uint64, ''droppedFrames''), (C_bool, ''has_droppedFrames''),
        (C_uint64, ''lateFrames''), (C_bool, ''has_lateFrames''), (C_uint32, ''keyframeRequestCount''),
        (C_bool, ''has_keyframeRequestCount''), (C_bool, ''keyFrameOnDropBurst''),
        (C_bool, ''has_keyFrameOnDropBurst''), (C_uint32, ''changedFields''), (C_bool, ''has_changedFields''),
        (C_text, ''sampledAt''), (C_bool, ''has_sampledAt''), (C_uint32, ''sourceVideo''), (C_bool, ''has_sourceVideo'')]),
     (''CastFlowControlChangedEvent'', [(C_uint32, ''changedFields''), (C_uint32, ''state''), (C_uint32, ''reason''), (C_bool, ''has_reason''),
        (C_text, ''sampledAt''), (C_bool, ''has_sampledAt''), (C_uint32, ''sourceVideo''),
        (C_bool, ''has_sourceVideo''), (C_text, ''reconfigureId''), (C_bool, ''has_reconfigureId'')]),
     (''CastGetStatusParams'', [(C_uint32, ''include''), (C_bool, ''has_include''), (C_bool, ''includeSensitive''),
        (C_bool, ''has_includeSensitive''), (C_uint32, ''controlVersion''), (C_bool, ''has_controlVersion'')]),
     (''CastReceiverSummary'', [(C_uint32, ''role''), (C_uint32, ''protocols''), (C_uint32, ''state''), (C_uint32, ''receiverPhase'')])]"

definition structs_9 :: "(string \<times> (member_type \<times> string) list) list" where
  "structs_9 = [
     (''CastSessionStatusSummary'', [(C_text, ''sessionId''), (C_bool, ''has_sessionId''), (C_uint32, ''receiverPhase''),
        (C_bool, ''has_receiverPhase''), (C_uint32, ''sessionState''), (C_bool, ''has_sessionState''),
        (C_uint32, ''protocol''), (C_bool, ''has_protocol''), (C_text, ''sourceName''), (C_bool, ''has_sourceName'')]),
     (''CastPinCodeStatusSummary'', [(C_bool, ''enabled''), (C_bool, ''hasPinCode''), (C_uint32, ''pinDisplay''), (C_bool, ''has_pinDisplay''),
        (C_text, ''pinCode''), (C_bool, ''has_pinCode''), (C_bool, ''redacted''), (C_bool, ''has_redacted''),
        (C_uint32, ''visibility''), (C_bool, ''has_visibility'')]),
     (''CastStatus'', [(C_uint32, ''receiver''), (C_uint32, ''session''), (C_bool, ''has_session''), (C_uint32, ''pinCode''),
        (C_bool, ''has_pinCode''), (C_uint32, ''audio''), (C_bool, ''has_audio''), (C_uint32, ''window''),
        (C_bool, ''has_window''), (C_uint32, ''backend''), (C_bool, ''has_backend''), (C_uint32, ''flowControl''),
        (C_bool, ''has_flowControl''), (C_text, ''sampledAt''), (C_bool, ''redacted''), (C_bool, ''has_redacted''),
        (C_uint32, ''controlSync''), (C_bool, ''has_controlSync''), (C_uint32, ''receivers''),
        (C_bool, ''has_receivers''), (C_uint32, ''sessions''), (C_bool, ''has_sessions''), (C_uint32, ''presentation''),
        (C_bool, ''has_presentation''), (C_uint32, ''audioPolicy''), (C_bool, ''has_audioPolicy''),
        (C_uint32, ''presentationSettings''), (C_bool, ''has_presentationSettings''), (C_uint32, ''webcastBackend''),
        (C_bool, ''has_webcastBackend''), (C_uint32, ''airplay''), (C_bool, ''has_airplay'')]),
     (''CastSessionCapability'', [(C_uint32, ''protocols''), (C_uint32, ''receiverPhases''), (C_bool, ''supportsAirPlayName''),
        (C_bool, ''has_supportsAirPlayName''), (C_bool, ''supportsStopSession''), (C_bool, ''has_supportsStopSession''),
        (C_uint32, ''backendTypes''), (C_bool, ''has_backendTypes'')]),
     (''CastAudioCapability'', [(C_bool, ''defaultEnabled''), (C_bool, ''has_defaultEnabled''), (C_bool, ''supportsMute''),
        (C_bool, ''has_supportsMute''), (C_bool, ''reportsEffectivePlayback''),
        (C_bool, ''has_reportsEffectivePlayback''), (C_bool, ''supportsAudioDelay''),
        (C_bool, ''has_supportsAudioDelay''), (C_uint32, ''defaultAudioDelayMs''),
        (C_bool, ''has_defaultAudioDelayMs''), (C_uint32, ''maxAudioDelayMs''), (C_bool, ''has_maxAudioDelayMs'')]),
     (''CastPinCodeCapability'', [(C_bool, ''defaultEnabled''), (C_bool, ''has_defaultEnabled''), (C_bool, ''supportsPlaintextResponse''),
        (C_bool, ''has_supportsPlaintextResponse''), (C_uint32, ''supportedPinDisplays''),
        (C_bool, ''has_supportedPinDisplays''), (C_bool, ''supportsGeneratedPin''),
        (C_bool, ''has_supportsGeneratedPin''), (C_bool, ''redactionRequired''), (C_bool, ''has_redactionRequired'')]),
     (''CastWindowCapability'', [(C_bool, ''supportsFullscreen''), (C_bool, ''has_supportsFullscreen''), (C_bool, ''supportsAlwaysOnTop''),
        (C_bool, ''has_supportsAlwaysOnTop''), (C_bool, ''supportsNormalRestore''),
        (C_bool, ''has_supportsNormalRestore''), (C_uint32, ''noWindowPolicy''), (C_bool, ''has_noWindowPolicy'')]),
     (''CastBackendCapability'', [(C_uint32, ''backendTypes''), (C_bool, ''supportsRestart''), (C_bool, ''has_supportsRestart''),
        (C_bool, ''reportsProcess''), (C_bool, ''has_reportsProcess''), (C_bool, ''supportsLastError''),
        (C_bool, ''has_supportsLastError'')]),
     (''CastFlowControlCapability'', [(C_bool, ''supportsRenderFps''), (C_bool, ''has_supportsRenderFps''), (C_bool, ''supportsQueuePolicy''),
        (C_bool, ''has_supportsQueuePolicy''), (C_bool, ''supportsOverlay''), (C_bool, ''has_supportsOverlay''),
        (C_bool, ''supportsStats''), (C_bool, ''has_supportsStats''), (C_bool, ''exposesExternalKeyframeRequest''),
        (C_bool, ''has_exposesExternalKeyframeRequest''), (C_bool, ''supportsVideoStreamParams''),
        (C_bool, ''has_supportsVideoStreamParams''), (C_bool, ''supportsActiveVideoReconfigure''),
        (C_bool, ''has_supportsActiveVideoReconfigure''), (C_uint32, ''supportedVideoStreamProfiles''),
        (C_bool, ''has_supportedVideoStreamProfiles''), (C_uint32, ''supportedVideoEncoders''),
        (C_bool, ''has_supportedVideoEncoders''), (C_bool, ''supportsSourceSpecificVideoParams''),
        (C_bool, ''has_supportsSourceSpecificVideoParams'')])]"

definition structs_10 :: "(string \<times> (member_type \<times> string) list) list" where
  "structs_10 = [
     (''CastStatusCapability'', [(C_uint32, ''sections''), (C_bool, ''supportsSensitiveRedaction''),
        (C_bool, ''has_supportsSensitiveRedaction''), (C_uint32, ''supportedControlVersions''),
        (C_bool, ''has_supportedControlVersions''), (C_bool, ''supportsAtomicUnifiedSnapshot''),
        (C_bool, ''has_supportsAtomicUnifiedSnapshot'')]),
     (''CastSessionRef'', [(C_text, ''id''), (C_text, ''generation'')]),
     (''CastControlTarget'', [(C_uint32, ''session''), (C_uint32, ''slotId''), (C_text, ''bindingGeneration''),
        (C_text, ''lifecycleGeneration'')]),
     (''CastControlSnapshotCursor'', [(C_uint32, ''controlVersion''), (C_text, ''runtimeInstanceId''), (C_text, ''revision''),
        (C_text, ''eventSequence'')]),
     (''CastControlEventContext'', [(C_uint32, ''controlVersion''), (C_text, ''runtimeInstanceId''), (C_text, ''revision''),
        (C_text, ''eventSequence''), (C_text, ''batchId''), (C_uint32, ''partIndex''), (C_uint32, ''partCount'')]),
     (''CastControlCapabilities'', [(C_uint32, ''supportedControlVersions''), (C_text, ''runtimeInstanceId''), (C_uint32, ''methods''),
        (C_uint32, ''events''), (C_uint32, ''statusSections''), (C_uint32, ''presentation''),
        (C_bool, ''has_presentation''), (C_uint32, ''audioPolicy''), (C_bool, ''has_audioPolicy''),
        (C_uint32, ''operations''), (C_bool, ''has_operations''), (C_uint32, ''profileHints''),
        (C_bool, ''has_profileHints''), (C_uint32, ''presentationSettings''), (C_bool, ''has_presentationSettings''),
        (C_uint32, ''webcastBackend''), (C_bool, ''has_webcastBackend''), (C_uint32, ''meetingPresentation''),
        (C_bool, ''has_meetingPresentation''), (C_uint32, ''airplayControl''), (C_bool, ''has_airplayControl'')]),
     (''CastPresentationCapability'', [(C_uint32, ''protocols''), (C_bool, ''supportsAtomicSnapshot''), (C_bool, ''supportsStrictTargets''),
        (C_uint32, ''maxPresentationCapacity''), (C_uint32, ''capacityChoices''), (C_bool, ''has_capacityChoices''),
        (C_uint32, ''layoutModes''), (C_uint32, ''contentAdaptations'')]),
     (''CastAudioPolicyCapability'', [(C_uint32, ''controlModes''), (C_uint32, ''mixModes''), (C_bool, ''supportsPerSessionEnable''),
        (C_bool, ''reportsEffectiveSet''), (C_bool, ''supportsMasterMute''), (C_bool, ''has_supportsMasterMute'')]),
     (''CastControlOperationsCapability'', [(C_bool, ''supportsQuery''), (C_bool, ''supportsDedup''), (C_uint32, ''limits'')]),
     (''CastControlLimits'', [(C_uint32, ''maxPendingOperations''), (C_uint32, ''maxPendingPerClient''), (C_uint32, ''maxRetainedResults''),
        (C_uint32, ''replayWindowMs''), (C_uint32, ''maxEventBufferEvents''), (C_uint32, ''maxEventBufferBytes''),
        (C_uint32, ''maxRequestBytes''), (C_uint32, ''maxSnapshotBytes'')]),
     (''CastReceiverState'', [(C_text, ''receiverId''), (C_uint32, ''protocol''), (C_uint32, ''state''), (C_text, ''observedAt''),
        (C_text, ''displayName''), (C_bool, ''has_displayName''), (C_uint32, ''lastError''), (C_bool, ''has_lastError'')]),
     (''CastMultiSessionState'', [(C_uint32, ''session''), (C_text, ''receiverId''), (C_uint32, ''protocol''), (C_uint32, ''receiverState''),
        (C_uint32, ''presentationEligibility''), (C_bool, ''videoTrackOpen''), (C_bool, ''audioTrackOpen''),
        (C_uint32, ''audioReadiness''), (C_bool, ''has_audioReadiness''), (C_text, ''displayName''),
        (C_bool, ''has_displayName'')]),
     (''CastPresentationSlotState'', [(C_uint32, ''slotId''), (C_text, ''bindingGeneration''), (C_bool, ''occupied''), (C_uint32, ''target''),
        (C_bool, ''has_target'')]),
     (''CastPresentationState'', [(C_bool, ''started''), (C_text, ''lifecycleGeneration''), (C_uint32, ''configuredCapacity''),
        (C_bool, ''validationAvailable''), (C_uint32, ''validatedCapacity''), (C_bool, ''has_validatedCapacity''),
        (C_uint32, ''effectiveCapacity''), (C_uint32, ''appliedCapacity''), (C_uint32, ''layoutMode''),
        (C_bool, ''layoutSettling''), (C_uint32, ''slots''), (C_uint32, ''meeting''), (C_bool, ''has_meeting''),
        (C_uint32, ''contentAdaptation'')])]"

definition structs_11 :: "(string \<times> (member_type \<times> string) list) list" where
  "structs_11 = [
     (''CastAudioPolicyState'', [(C_uint32, ''controlMode''), (C_uint32, ''mixMode''), (C_uint32, ''enabledSessions''),
        (C_uint32, ''effectiveAudioSessions''), (C_uint32, ''appliedGains''), (C_bool, ''has_appliedGains''),
        (C_bool, ''masterMuted'')]),
     (''CastStopPresentationParams'', [(C_uint32, ''controlVersion''), (C_text, ''runtimeInstanceId''), (C_text, ''clientInstanceId''),
        (C_text, ''commandId''), (C_uint32, ''target''), (C_text, ''reason''), (C_bool, ''has_reason'')]),
     (''CastSetSessionAudioEnabledParams'', [(C_uint32, ''controlVersion''), (C_text, ''runtimeInstanceId''), (C_text, ''clientInstanceId''),
        (C_text, ''commandId''), (C_uint32, ''target''), (C_bool, ''enabled'')]),
     (''CastGetControlOperationParams'', [(C_uint32, ''controlVersion''), (C_text, ''runtimeInstanceId''), (C_text, ''clientInstanceId''),
        (C_text, ''commandId'')]),
     (''CastControlOperation'', [(C_text, ''operationId''), (C_text, ''runtimeInstanceId''), (C_text, ''clientInstanceId''),
        (C_text, ''commandId''), (C_uint32, ''kind''), (C_uint32, ''state''), (C_text, ''submittedAt''),
        (C_uint32, ''target''), (C_bool, ''has_target''), (C_text, ''completedAt''), (C_bool, ''has_completedAt''),
        (C_text, ''appliedRevision''), (C_bool, ''has_appliedRevision''), (C_uint32, ''statusCode''),
        (C_bool, ''has_statusCode''), (C_text, ''outcomeReason''), (C_bool, ''has_outcomeReason''),
        (C_uint32, ''ownerCleanup''), (C_bool, ''has_ownerCleanup''), (C_uint32, ''settingsResult''),
        (C_bool, ''has_settingsResult'')]),
     (''CastSetPresentationSettingsParams'', [(C_uint32, ''controlVersion''), (C_text, ''runtimeInstanceId''), (C_text, ''clientInstanceId''),
        (C_text, ''commandId''), (C_text, ''expectedSettingsRevision''), (C_uint32, ''patch''), (C_bool, ''persist'')]),
     (''CastPresentationSettingsPatch'', [(C_uint32, ''layoutMode''), (C_bool, ''has_layoutMode''), (C_uint32, ''audioControlMode''),
        (C_bool, ''has_audioControlMode''), (C_uint32, ''audioMixMode''), (C_bool, ''has_audioMixMode''),
        (C_uint32, ''capacity''), (C_bool, ''has_capacity''), (C_uint32, ''enabledProtocols''),
        (C_bool, ''has_enabledProtocols''), (C_text, ''profileHint''), (C_bool, ''has_profileHint''),
        (C_uint32, ''contentAdaptation''), (C_bool, ''has_contentAdaptation''), (C_uint32, ''presentationMode''),
        (C_bool, ''has_presentationMode''), (C_uint32, ''presentationSidebar''), (C_bool, ''has_presentationSidebar''),
        (C_bool, ''presentationAudioFollow''), (C_bool, ''has_presentationAudioFollow''),
        (C_bool, ''presentationFocusOnDoubleClick''), (C_bool, ''has_presentationFocusOnDoubleClick''),
        (C_bool, ''presentationGridOnDoubleClick''), (C_bool, ''has_presentationGridOnDoubleClick''),
        (C_bool, ''presentationAutoEnter''), (C_bool, ''has_presentationAutoEnter'')]),
     (''CastPresentationSettingsValues'', [(C_uint32, ''layoutMode''), (C_bool, ''has_layoutMode''), (C_uint32, ''audioControlMode''),
        (C_bool, ''has_audioControlMode''), (C_uint32, ''audioMixMode''), (C_bool, ''has_audioMixMode''),
        (C_uint32, ''capacity''), (C_bool, ''has_capacity''), (C_uint32, ''enabledProtocols''),
        (C_bool, ''has_enabledProtocols''), (C_text, ''profileHint''), (C_bool, ''has_profileHint''),
        (C_uint32, ''contentAdaptation''), (C_bool, ''has_contentAdaptation''), (C_uint32, ''presentationMode''),
        (C_bool, ''has_presentationMode''), (C_uint32, ''presentationSidebar''), (C_bool, ''has_presentationSidebar''),
        (C_bool, ''presentationAudioFollow''), (C_bool, ''has_presentationAudioFollow''),
        (C_bool, ''presentationFocusOnDoubleClick''), (C_bool, ''has_presentationFocusOnDoubleClick''),
        (C_bool, ''presentationGridOnDoubleClick''), (C_bool, ''has_presentationGridOnDoubleClick''),
        (C_bool, ''presentationAutoEnter''), (C_bool, ''has_presentationAutoEnter'')])]"

definition structs_12 :: "(string \<times> (member_type \<times> string) list) list" where
  "structs_12 = [
     (''CastPresentationStartupSettings'', [(C_uint32, ''layoutMode''), (C_bool, ''has_layoutMode''), (C_uint32, ''audioControlMode''),
        (C_bool, ''has_audioControlMode''), (C_uint32, ''audioMixMode''), (C_bool, ''has_audioMixMode''),
        (C_uint32, ''capacity''), (C_bool, ''has_capacity''), (C_uint32, ''enabledProtocols''),
        (C_bool, ''has_enabledProtocols''), (C_text, ''profileHint''), (C_bool, ''has_profileHint''),
        (C_uint32, ''contentAdaptation''), (C_bool, ''has_contentAdaptation''), (C_uint32, ''presentationMode''),
        (C_bool, ''has_presentationMode''), (C_uint32, ''presentationSidebar''), (C_bool, ''has_presentationSidebar''),
        (C_bool, ''presentationAudioFollow''), (C_bool, ''has_presentationAudioFollow''),
        (C_bool, ''presentationFocusOnDoubleClick''), (C_bool, ''has_presentationFocusOnDoubleClick''),
        (C_bool, ''presentationGridOnDoubleClick''), (C_bool, ''has_presentationGridOnDoubleClick''),
        (C_bool, ''presentationAutoEnter''), (C_bool, ''has_presentationAutoEnter'')]),
     (''CastPresentationSettingsState'', [(C_text, ''settingsRevision''), (C_text, ''settingsEventSequence''), (C_uint32, ''configured''),
        (C_uint32, ''applied''), (C_uint32, ''activeStartup''), (C_uint32, ''pendingRestart''), (C_bool, ''persisted''),
        (C_uint32, ''unsavedFields''), (C_uint32, ''unappliedFields''), (C_uint32, ''storageState''),
        (C_uint32, ''lockedFields''), (C_uint32, ''applicationIssues''), (C_uint32, ''persistedValues''),
        (C_bool, ''has_persistedValues''), (C_text, ''storeRevision''), (C_bool, ''has_storeRevision''),
        (C_text, ''appliedControlRevision''), (C_bool, ''has_appliedControlRevision''), (C_text, ''persistError''),
        (C_bool, ''has_persistError'')]),
     (''CastPresentationSettingIssue'', [(C_text, ''field''), (C_uint32, ''kind''), (C_text, ''reason''), (C_bool, ''has_reason''),
        (C_uint32, ''statusCode''), (C_bool, ''has_statusCode'')]),
     (''CastPresentationSettingsCapability'', [(C_uint32, ''fields''), (C_uint32, ''liveFields''), (C_uint32, ''restartOnlyFields''),
        (C_bool, ''supportsPersistence''), (C_uint32, ''capacityChoices''), (C_bool, ''has_capacityChoices''),
        (C_uint32, ''layoutModes''), (C_bool, ''has_layoutModes''), (C_uint32, ''contentAdaptations''),
        (C_bool, ''has_contentAdaptations''), (C_uint32, ''profileHints''), (C_bool, ''has_profileHints''),
        (C_uint32, ''minEnabledProtocols''), (C_bool, ''has_minEnabledProtocols'')]),
     (''CastPresentationSettingsOperationResult'', [(C_text, ''field''), (C_text, ''settingsRevision''), (C_uint32, ''configurationStatus''),
        (C_uint32, ''applicationStatus''), (C_uint32, ''persistenceStatus''), (C_text, ''appliedControlRevision''),
        (C_bool, ''has_appliedControlRevision'')]),
     (''CastSettingsEventContext'', [(C_uint32, ''controlVersion''), (C_text, ''runtimeInstanceId''), (C_text, ''settingsRevision''),
        (C_text, ''settingsEventSequence'')]),
     (''CastPresentationSettingsChangedEvent'', [(C_uint32, ''settingsContext''), (C_uint32, ''settings'')]),
     (''CastReceiversChangedEvent'', [(C_uint32, ''context''), (C_uint32, ''receivers'')]),
     (''CastSessionsChangedEvent'', [(C_uint32, ''context''), (C_uint32, ''sessions'')]),
     (''CastPresentationChangedEvent'', [(C_uint32, ''context''), (C_uint32, ''presentation'')]),
     (''CastAudioPolicyChangedEvent'', [(C_uint32, ''context''), (C_uint32, ''audioPolicy'')]),
     (''CastControlOperationChangedEvent'', [(C_uint32, ''context''), (C_uint32, ''operation'')]),
     (''CastGetWebCastBackendStateParams'', [(C_uint32, ''controlVersion'')]),
     (''CastWebCastBackendContext'', [(C_uint32, ''controlVersion''), (C_text, ''runtimeInstanceId''), (C_text, ''backendRevision''),
        (C_text, ''backendEventSequence'')]),
     (''CastWebCastSignalingState'', [(C_uint32, ''state''), (C_bool, ''transportConnected''), (C_uint32, ''retainedPeerCount''),
        (C_uint32, ''connectedPeerCount''), (C_uint32, ''lastNetworkError''), (C_bool, ''has_lastNetworkError'')])]"

definition structs_13 :: "(string \<times> (member_type \<times> string) list) list" where
  "structs_13 = [
     (''CastWebCastLocalBackendState'', [(C_bool, ''fallbackEnabled''), (C_uint32, ''serviceState''), (C_uint32, ''servicePort''),
        (C_bool, ''has_servicePort''), (C_text, ''startAttempts''), (C_uint32, ''lastStartError''),
        (C_bool, ''has_lastStartError''), (C_uint32, ''signaling'')]),
     (''CastWebCastBackendState'', [(C_bool, ''enabled''), (C_uint32, ''state''), (C_uint32, ''selectedBackend''), (C_uint32, ''cloud''),
        (C_uint32, ''local'')]),
     (''CastWebCastBackendSnapshot'', [(C_uint32, ''backendContext''), (C_uint32, ''state'')]),
     (''CastWebCastBackendCapability'', [(C_bool, ''supportsSnapshot''), (C_bool, ''supportsEvents''), (C_uint32, ''backendTypes''),
        (C_uint32, ''sequenceModel'')]),
     (''CastMeetingPresentationState'', [(C_uint32, ''mode''), (C_uint32, ''sidebar''), (C_bool, ''audioFollow''), (C_text, ''revision''),
        (C_uint32, ''primary''), (C_bool, ''has_primary''), (C_uint32, ''sidebarPage''),
        (C_uint32, ''sidebarPageCount''), (C_uint32, ''mainSharePermille''), (C_bool, ''audioFollowActive''),
        (C_uint32, ''view''), (C_bool, ''has_view''), (C_bool, ''focusOnDoubleClick''),
        (C_bool, ''has_focusOnDoubleClick''), (C_bool, ''gridOnDoubleClick''), (C_bool, ''has_gridOnDoubleClick''),
        (C_bool, ''autoEnter''), (C_bool, ''has_autoEnter''), (C_bool, ''autoEnterSuppressed''),
        (C_bool, ''has_autoEnterSuppressed'')]),
     (''CastSetPresentationFocusParams'', [(C_uint32, ''controlVersion''), (C_text, ''runtimeInstanceId''), (C_text, ''clientInstanceId''),
        (C_text, ''commandId''), (C_uint32, ''target''), (C_text, ''expectedMeetingRevision''), (C_uint32, ''display''),
        (C_uint32, ''sidebarPage''), (C_bool, ''has_sidebarPage'')]),
     (''CastMeetingAudioGain'', [(C_uint32, ''session''), (C_uint32, ''gainPpm'')]),
     (''CastMeetingPresentationCapability'', [(C_uint32, ''modes''), (C_uint32, ''sidebars''), (C_uint32, ''mainSharePermille''),
        (C_bool, ''supportsAudioFollow''), (C_bool, ''supportsPaging''), (C_bool, ''supportsFocusView''),
        (C_bool, ''has_supportsFocusView'')]),
     (''CastAirPlayControlCapability'', [(C_bool, ''supportsEvents''), (C_bool, ''supportsLiveRename''), (C_uint32, ''passwordPolicy'')]),
     (''CastAirPlayAuthenticationAttempt'', [(C_text, ''attemptId''), (C_text, ''challengeId''), (C_text, ''displayRequestId''), (C_uint32, ''state''),
        (C_text, ''reason''), (C_bool, ''has_reason'')]),
     (''CastAirPlayControlState'', [(C_bool, ''enabled''), (C_text, ''displayName''), (C_uint32, ''publishState''),
        (C_bool, ''randomPasswordEnabled''), (C_uint32, ''attempts''), (C_text, ''observationDrops''),
        (C_bool, ''has_observationDrops'')]),
     (''CastAirPlayChangedEvent'', [(C_uint32, ''context''), (C_uint32, ''airplay'')]),
     (''GetDeviceInfoParams'', [(C_bool, ''includeCapabilitySummary''), (C_bool, ''has_includeCapabilitySummary'')]),
     (''DeviceInfo'', [(C_uint32, ''identity''), (C_uint32, ''product''), (C_uint32, ''hardware''), (C_bool, ''has_hardware''),
        (C_uint32, ''os''), (C_bool, ''has_os''), (C_uint32, ''software''), (C_bool, ''has_software''),
        (C_uint32, ''runtime''), (C_bool, ''has_runtime''), (C_uint32, ''capability''), (C_bool, ''has_capability'')]),
     (''DeviceIdentity'', [(C_text, ''deviceId''), (C_text, ''serialNumber''), (C_bool, ''has_serialNumber''), (C_text, ''vendorId''),
        (C_bool, ''has_vendorId''), (C_text, ''productId''), (C_bool, ''has_productId'')]),
     (''DeviceProduct'', [(C_text, ''brand''), (C_bool, ''has_brand''), (C_uint32, ''productType''), (C_text, ''model''),
        (C_text, ''displayName''), (C_bool, ''has_displayName'')])]"

definition structs_14 :: "(string \<times> (member_type \<times> string) list) list" where
  "structs_14 = [
     (''DeviceHardware'', [(C_text, ''revision''), (C_bool, ''has_revision''), (C_uint32, ''cpuArch''), (C_bool, ''has_cpuArch''),
        (C_uint64, ''memoryBytes''), (C_bool, ''has_memoryBytes'')]),
     (''DeviceOs'', [(C_uint32, ''type''), (C_text, ''name''), (C_bool, ''has_name''), (C_text, ''version''),
        (C_bool, ''has_version''), (C_uint32, ''arch''), (C_bool, ''has_arch'')]),
     (''DeviceSoftware'', [(C_uint32, ''components''), (C_bool, ''has_components'')]),
     (''SoftwareComponent'', [(C_text, ''id''), (C_text, ''name''), (C_bool, ''has_name''), (C_text, ''version''), (C_bool, ''has_version''),
        (C_uint32, ''role''), (C_bool, ''has_role'')]),
     (''DeviceAxtpRuntime'', [(C_text, ''axtpRuntime''), (C_bool, ''has_axtpRuntime''), (C_text, ''axtpRuntimeVersion''),
        (C_bool, ''has_axtpRuntimeVersion''), (C_text, ''hostAppId''), (C_bool, ''has_hostAppId'')]),
     (''DeviceCapabilitySummary'', [(C_uint32, ''domains''), (C_bool, ''has_domains''), (C_uint32, ''features''), (C_bool, ''has_features''),
        (C_uint32, ''profiles''), (C_bool, ''has_profiles'')]),
     (''DeviceInfoCapability'', [(C_bool, ''readOnly''), (C_bool, ''supportsCapabilitySummary''), (C_bool, ''has_supportsCapabilitySummary''),
        (C_bool, ''identityMerged''), (C_bool, ''has_identityMerged'')]),
     (''DeviceGetPairingCodeParams'', [(C_bool, ''refresh''), (C_bool, ''has_refresh''), (C_uint32, ''purpose''), (C_bool, ''has_purpose'')]),
     (''DevicePairingCodeInfo'', [(C_text, ''code''), (C_text, ''expiresAt''), (C_bool, ''has_expiresAt''), (C_uint32, ''expiresInSeconds''),
        (C_bool, ''has_expiresInSeconds''), (C_uint32, ''state''), (C_bool, ''has_state'')]),
     (''DeviceGetEnrollmentStateParams'', [(C_bool, ''includeEndpoint''), (C_bool, ''has_includeEndpoint'')]),
     (''DeviceEnrollmentInfo'', [(C_uint32, ''state''), (C_text, ''deviceId''), (C_bool, ''has_deviceId''), (C_text, ''workspaceId''),
        (C_bool, ''has_workspaceId''), (C_uint32, ''endpoint''), (C_bool, ''has_endpoint''), (C_text, ''enrolledAt''),
        (C_bool, ''has_enrolledAt''), (C_text, ''updatedAt''), (C_bool, ''has_updatedAt''), (C_text, ''message''),
        (C_bool, ''has_message'')]),
     (''DeviceEnrollmentEndpointSummary'', [(C_text, ''endpointId''), (C_uint32, ''type''), (C_text, ''displayName''), (C_bool, ''has_displayName''),
        (C_text, ''profileId''), (C_bool, ''has_profileId''), (C_text, ''workspaceId''), (C_bool, ''has_workspaceId'')]),
     (''DeviceSetEnrollmentStateParams'', [(C_uint32, ''desiredState''), (C_uint32, ''reason''), (C_bool, ''has_reason''), (C_uint32, ''endpoint''),
        (C_bool, ''has_endpoint''), (C_text, ''message''), (C_bool, ''has_message'')]),
     (''DeviceSetEnrollmentStateResult'', [(C_uint32, ''state''), (C_bool, ''disconnectExpected''), (C_bool, ''has_disconnectExpected'')]),
     (''DeviceEnrollmentStateChangedEvent'', [(C_uint32, ''state''), (C_uint32, ''previousState''), (C_bool, ''has_previousState''), (C_uint32, ''reason''),
        (C_bool, ''has_reason''), (C_uint32, ''triggerMethod''), (C_bool, ''has_triggerMethod''),
        (C_text, ''triggerId''), (C_bool, ''has_triggerId'')])]"

definition structs_15 :: "(string \<times> (member_type \<times> string) list) list" where
  "structs_15 = [
     (''DeviceEnrollmentCapability'', [(C_bool, ''supportsPairingCode''), (C_bool, ''has_supportsPairingCode''), (C_uint32, ''pairingCodeTtlSeconds''),
        (C_bool, ''has_pairingCodeTtlSeconds''), (C_bool, ''supportsUnenroll''), (C_bool, ''has_supportsUnenroll''),
        (C_uint32, ''endpointTypes''), (C_bool, ''has_endpointTypes''), (C_uint32, ''supportedPurposes''),
        (C_bool, ''has_supportedPurposes''), (C_uint32, ''maxActivePairingCodes''),
        (C_bool, ''has_maxActivePairingCodes''), (C_uint32, ''pairingCodeLength''), (C_bool, ''has_pairingCodeLength'')]),
     (''FirmwareUpdateCapabilities'', [(C_bool, ''supported''), (C_bool, ''supportsMultiFile''), (C_uint32, ''streamLayout''),
        (C_uint32, ''hashAlgorithm''), (C_bool, ''autoReboot''), (C_uint32, ''maxChunkSize''),
        (C_bool, ''has_maxChunkSize''), (C_text, ''devicePolicyVersion''), (C_bool, ''has_devicePolicyVersion'')]),
     (''BeginUpdateParams'', [(C_uint32, ''manifest'')]),
     (''BeginUpdateResult'', [(C_text, ''updateSessionId''), (C_uint32, ''state''), (C_uint32, ''streams''), (C_uint32, ''chunkSize''),
        (C_bool, ''has_chunkSize'')]),
     (''FinishUpdateParams'', [(C_text, ''updateSessionId'')]),
     (''FinishUpdateResult'', [(C_text, ''updateSessionId''), (C_bool, ''accepted''), (C_uint32, ''state'')]),
     (''GetUpdateStateParams'', [(C_text, ''updateSessionId'')]),
     (''FirmwareUpdateManifest'', [(C_text, ''packageId''), (C_bool, ''has_packageId''), (C_text, ''version''), (C_bool, ''has_version''),
        (C_uint32, ''files''), (C_text, ''devicePolicyVersion''), (C_bool, ''has_devicePolicyVersion'')]),
     (''FirmwareUpdateFile'', [(C_text, ''fileId''), (C_text, ''target''), (C_bool, ''has_target''), (C_uint64, ''size''), (C_text, ''md5'')]),
     (''FirmwareUpdateStreamBinding'', [(C_text, ''fileId''), (C_uint32, ''streamId'')]),
     (''FirmwareUpdateState'', [(C_text, ''updateSessionId''), (C_uint32, ''state''), (C_uint8, ''progress''), (C_bool, ''has_progress''),
        (C_text, ''currentFileId''), (C_bool, ''has_currentFileId''), (C_uint32, ''error''), (C_bool, ''has_error'')]),
     (''FirmwareUpdateErrorInfo'', [(C_uint32, ''error''), (C_text, ''message''), (C_bool, ''has_message''), (C_text, ''fileId''),
        (C_bool, ''has_fileId'')]),
     (''FirmwareUpdateProgressEvent'', [(C_text, ''updateSessionId''), (C_uint32, ''state''), (C_uint8, ''progress''), (C_bool, ''has_progress''),
        (C_text, ''fileId''), (C_bool, ''has_fileId'')]),
     (''FirmwareUpdateStateChangedEvent'', [(C_text, ''updateSessionId''), (C_uint32, ''state''), (C_uint32, ''error''), (C_bool, ''has_error'')]),
     (''NetworkGetInterfacesParams'', [(C_bool, ''includeDisabled''), (C_bool, ''has_includeDisabled'')]),
     (''NetworkGetInterfaceInfoParams'', [(C_text, ''interfaceId'')]),
     (''NetworkInterfaces'', [(C_uint32, ''interfaces''), (C_uint32, ''defaults''), (C_bool, ''has_defaults'')]),
     (''NetworkDefaultInterfaceIds'', [(C_text, ''primary''), (C_bool, ''has_primary''), (C_text, ''wifiSta''), (C_bool, ''has_wifiSta''),
        (C_text, ''wifiAp''), (C_bool, ''has_wifiAp'')]),
     (''NetworkInterfaceSummary'', [(C_text, ''interfaceId''), (C_uint32, ''type''), (C_text, ''displayName''), (C_bool, ''has_displayName''),
        (C_uint32, ''state''), (C_bool, ''has_state'')])]"

definition structs_16 :: "(string \<times> (member_type \<times> string) list) list" where
  "structs_16 = [
     (''NetworkInterfaceInfo'', [(C_text, ''interfaceId''), (C_uint32, ''type''), (C_text, ''macAddress''), (C_bool, ''has_macAddress''),
        (C_uint32, ''state''), (C_bool, ''has_state''), (C_bool, ''supportsIpConfig''),
        (C_bool, ''has_supportsIpConfig'')]),
     (''NetworkInterfaceState'', [(C_uint32, ''admin''), (C_bool, ''has_admin''), (C_uint32, ''link''), (C_bool, ''has_link''),
        (C_uint32, ''speedMbps''), (C_bool, ''has_speedMbps'')]),
     (''NetworkGetIpConfigParams'', [(C_text, ''interfaceId''), (C_bool, ''has_interfaceId''), (C_uint32, ''family''), (C_bool, ''has_family'')]),
     (''NetworkSetIpConfigParams'', [(C_text, ''interfaceId''), (C_bool, ''has_interfaceId''), (C_uint32, ''family''), (C_bool, ''has_family''),
        (C_uint32, ''config''), (C_uint32, ''applyPolicy''), (C_bool, ''has_applyPolicy'')]),
     (''NetworkSetIpConfigResult'', [(C_uint32, ''config''), (C_uint32, ''applyState'')]),
     (''NetworkIpConfig'', [(C_text, ''interfaceId''), (C_uint32, ''family''), (C_bool, ''has_family''), (C_uint32, ''mode''),
        (C_text, ''address''), (C_bool, ''has_address''), (C_uint8, ''prefixLength''), (C_bool, ''has_prefixLength''),
        (C_text, ''gateway''), (C_bool, ''has_gateway''), (C_uint32, ''dns''), (C_bool, ''has_dns'')]),
     (''NetworkGetWifiCapabilitiesParams'', [(C_text, ''interfaceId''), (C_bool, ''has_interfaceId'')]),
     (''NetworkGetWifiConfigParams'', [(C_text, ''interfaceId''), (C_bool, ''has_interfaceId''), (C_bool, ''includeProfiles''),
        (C_bool, ''has_includeProfiles'')]),
     (''NetworkGetWifiStateParams'', [(C_text, ''interfaceId''), (C_bool, ''has_interfaceId'')]),
     (''NetworkWifiCapabilities'', [(C_text, ''capability''), (C_uint32, ''securityTypes''), (C_uint32, ''bands''), (C_bool, ''has_bands''),
        (C_uint32, ''credentialImportModes''), (C_bool, ''savedProfilesSupported''), (C_bool, ''scanSupported''),
        (C_bool, ''autoConnectSupported''), (C_bool, ''has_autoConnectSupported'')]),
     (''NetworkWifiConfig'', [(C_text, ''interfaceId''), (C_bool, ''has_interfaceId''), (C_uint32, ''profiles''), (C_bool, ''has_profiles''),
        (C_text, ''defaultProfileId''), (C_bool, ''has_defaultProfileId'')]),
     (''NetworkWifiProfile'', [(C_text, ''profileId''), (C_bool, ''has_profileId''), (C_text, ''ssid''), (C_text, ''bssid''),
        (C_bool, ''has_bssid''), (C_uint32, ''securityType''), (C_uint32, ''credential''), (C_bool, ''has_credential''),
        (C_uint32, ''source''), (C_bool, ''has_source''), (C_bool, ''persist''), (C_bool, ''has_persist'')]),
     (''NetworkCredential'', [(C_uint32, ''type''), (C_text, ''secretRef''), (C_bool, ''has_secretRef''), (C_uint32, ''expiresInSeconds''),
        (C_bool, ''has_expiresInSeconds'')]),
     (''NetworkSetWifiConfigParams'', [(C_text, ''interfaceId''), (C_bool, ''has_interfaceId''), (C_uint32, ''profile''),
        (C_bool, ''replaceExisting''), (C_bool, ''has_replaceExisting''), (C_bool, ''makeDefault''),
        (C_bool, ''has_makeDefault''), (C_bool, ''connectAfterSave''), (C_bool, ''has_connectAfterSave'')]),
     (''NetworkSetWifiConfigResult'', [(C_text, ''profileId''), (C_uint32, ''config''), (C_bool, ''has_config''), (C_bool, ''connectStarted''),
        (C_bool, ''has_connectStarted'')]),
     (''NetworkScanWifiParams'', [(C_text, ''interfaceId''), (C_bool, ''has_interfaceId''), (C_text, ''ssidFilter''),
        (C_bool, ''has_ssidFilter''), (C_uint32, ''timeoutMs''), (C_bool, ''has_timeoutMs'')])]"

definition structs_17 :: "(string \<times> (member_type \<times> string) list) list" where
  "structs_17 = [
     (''NetworkScanWifiResult'', [(C_text, ''scanId''), (C_bool, ''has_scanId''), (C_uint32, ''results''), (C_bool, ''has_results''),
        (C_bool, ''complete''), (C_bool, ''has_complete'')]),
     (''NetworkConnectWifiParams'', [(C_text, ''interfaceId''), (C_bool, ''has_interfaceId''), (C_text, ''profileId''), (C_bool, ''has_profileId''),
        (C_uint32, ''profile''), (C_bool, ''has_profile''), (C_uint32, ''timeoutMs''), (C_bool, ''has_timeoutMs'')]),
     (''NetworkDisconnectWifiParams'', [(C_text, ''interfaceId''), (C_bool, ''has_interfaceId''), (C_uint32, ''reason''), (C_bool, ''has_reason'')]),
     (''NetworkWifiActionResult'', [(C_bool, ''accepted''), (C_uint32, ''state'')]),
     (''NetworkWifiState'', [(C_text, ''interfaceId''), (C_bool, ''has_interfaceId''), (C_uint32, ''state''), (C_text, ''profileId''),
        (C_bool, ''has_profileId''), (C_text, ''ssid''), (C_bool, ''has_ssid''), (C_int32, ''rssi''),
        (C_bool, ''has_rssi''), (C_bool, ''ipReady''), (C_bool, ''has_ipReady''), (C_uint32, ''failureReason''),
        (C_bool, ''has_failureReason'')]),
     (''NetworkWifiScanResult'', [(C_text, ''ssid''), (C_text, ''bssid''), (C_bool, ''has_bssid''), (C_uint32, ''band''), (C_bool, ''has_band''),
        (C_uint16, ''channel''), (C_bool, ''has_channel''), (C_int32, ''rssi''), (C_bool, ''has_rssi''),
        (C_uint32, ''securityType''), (C_bool, ''has_securityType'')]),
     (''NetworkGetApCapabilitiesParams'', [(C_text, ''interfaceId''), (C_bool, ''has_interfaceId'')]),
     (''NetworkGetApConfigParams'', [(C_text, ''interfaceId''), (C_bool, ''has_interfaceId'')]),
     (''NetworkApCapabilities'', [(C_text, ''capability''), (C_uint32, ''securityTypes''), (C_uint32, ''bands''), (C_bool, ''has_bands''),
        (C_uint32, ''credentialExportModes''), (C_bool, ''has_credentialExportModes''), (C_bool, ''clientsSupported''),
        (C_bool, ''has_clientsSupported'')]),
     (''NetworkApConfig'', [(C_text, ''interfaceId''), (C_bool, ''has_interfaceId''), (C_bool, ''enabled''), (C_bool, ''has_enabled''),
        (C_text, ''ssid''), (C_bool, ''hidden''), (C_bool, ''has_hidden''), (C_uint32, ''band''),
        (C_bool, ''has_band''), (C_uint16, ''channel''), (C_bool, ''has_channel''), (C_uint32, ''securityType''),
        (C_uint32, ''credential''), (C_bool, ''has_credential''), (C_uint16, ''maxClients''),
        (C_bool, ''has_maxClients'')]),
     (''NetworkSetApConfigParams'', [(C_text, ''interfaceId''), (C_bool, ''has_interfaceId''), (C_uint32, ''config'')]),
     (''NetworkSetApConfigResult'', [(C_uint32, ''config''), (C_uint32, ''applyState'')]),
     (''NetworkApState'', [(C_text, ''interfaceId''), (C_bool, ''has_interfaceId''), (C_bool, ''enabled''), (C_uint32, ''state''),
        (C_text, ''ssid''), (C_bool, ''has_ssid''), (C_uint16, ''clientCount''), (C_bool, ''has_clientCount''),
        (C_uint32, ''failureReason''), (C_bool, ''has_failureReason'')]),
     (''NetworkApActionParams'', [(C_text, ''interfaceId''), (C_bool, ''has_interfaceId''), (C_uint32, ''reason''), (C_bool, ''has_reason'')]),
     (''NetworkApActionResult'', [(C_bool, ''accepted''), (C_uint32, ''state'')]),
     (''NetworkApClients'', [(C_uint32, ''clients'')])]"

definition structs_18 :: "(string \<times> (member_type \<times> string) list) list" where
  "structs_18 = [
     (''NetworkApClientInfo'', [(C_text, ''clientId''), (C_text, ''macAddress''), (C_bool, ''has_macAddress''), (C_text, ''displayName''),
        (C_bool, ''has_displayName''), (C_int32, ''rssi''), (C_bool, ''has_rssi''), (C_uint32, ''connectedSeconds''),
        (C_bool, ''has_connectedSeconds'')]),
     (''NetworkInterfaceStateChangedEvent'', [(C_text, ''interfaceId''), (C_uint32, ''state''), (C_uint32, ''previousState''),
        (C_bool, ''has_previousState''), (C_uint32, ''reason''), (C_bool, ''has_reason'')]),
     (''NetworkIpConfigChangedEvent'', [(C_text, ''interfaceId''), (C_uint32, ''family''), (C_bool, ''has_family''), (C_uint32, ''config''),
        (C_uint32, ''previousConfig''), (C_bool, ''has_previousConfig''), (C_uint32, ''reason''),
        (C_bool, ''has_reason'')]),
     (''NetworkWifiConfigChangedEvent'', [(C_text, ''interfaceId''), (C_bool, ''has_interfaceId''), (C_uint32, ''config''), (C_uint32, ''changedFields''),
        (C_bool, ''has_changedFields''), (C_uint32, ''reason''), (C_bool, ''has_reason'')]),
     (''NetworkWifiStateChangedEvent'', [(C_uint32, ''state''), (C_uint32, ''previousState''), (C_bool, ''has_previousState''), (C_uint32, ''reason''),
        (C_bool, ''has_reason'')]),
     (''NetworkWifiScanResultReportedEvent'', [(C_text, ''scanId''), (C_bool, ''has_scanId''), (C_uint32, ''results''), (C_bool, ''has_results''),
        (C_bool, ''complete'')]),
     (''NetworkApConfigChangedEvent'', [(C_text, ''interfaceId''), (C_bool, ''has_interfaceId''), (C_uint32, ''config''), (C_uint32, ''changedFields''),
        (C_bool, ''has_changedFields''), (C_uint32, ''reason''), (C_bool, ''has_reason'')]),
     (''NetworkApStateChangedEvent'', [(C_uint32, ''state''), (C_uint32, ''previousState''), (C_bool, ''has_previousState''), (C_uint32, ''reason''),
        (C_bool, ''has_reason'')]),
     (''NetworkApClientChangedEvent'', [(C_uint32, ''change''), (C_uint32, ''client''), (C_uint32, ''reason''), (C_bool, ''has_reason'')]),
     (''NetworkInterfaceCapability'', [(C_uint32, ''interfaceTypes''), (C_bool, ''has_interfaceTypes''), (C_bool, ''supportsStateEvent''),
        (C_bool, ''has_supportsStateEvent'')]),
     (''NetworkIpCapability'', [(C_uint32, ''families''), (C_bool, ''has_families''), (C_uint32, ''modes''), (C_bool, ''has_modes''),
        (C_uint32, ''applyPolicies''), (C_bool, ''has_applyPolicies'')]),
     (''SignageGetPlaylistCapabilitiesParams'', []),
     (''SignageGetPlaylistConfigParams'', []),
     (''SignageResetPlaylistConfigParams'', []),
     (''SignageSetPlaylistConfigResult'', []),
     (''SignagePlaylistCapabilitiesResult'', [(C_uint32, ''supportedItemTypes''), (C_uint32, ''maxPlaylists''), (C_bool, ''has_maxPlaylists''),
        (C_uint32, ''maxItemsPerPlaylist''), (C_bool, ''has_maxItemsPerPlaylist''),
        (C_bool, ''supportsScheduledPlaylist''), (C_bool, ''supportsUrlRefresh''), (C_bool, ''supportsReset'')]),
     (''SignagePlaylistConfigResult'', [(C_uint32, ''playlists'')]),
     (''SignageSetPlaylistConfigParams'', [(C_uint32, ''playlists'')]),
     (''SignageGetPlaylistItemUrlParams'', [(C_text, ''itemId'')]),
     (''SignageGetPlaylistItemUrlResult'', [(C_uint32, ''type''), (C_uint32, ''settings'')]),
     (''SignageGetPlaylistItemParams'', [(C_text, ''itemId'')]),
     (''SignageGetPlaylistItemResult'', [(C_uint32, ''item'')])]"

definition structs_19 :: "(string \<times> (member_type \<times> string) list) list" where
  "structs_19 = [
     (''SignagePlaylistConfigChangedEvent'', [(C_uint32, ''reason''), (C_uint32, ''playlists''), (C_bool, ''has_playlists'')]),
     (''SignagePlaylist'', [(C_text, ''id''), (C_uint32, ''type''), (C_text, ''startDate''), (C_bool, ''has_startDate''),
        (C_text, ''endDate''), (C_bool, ''has_endDate''), (C_text, ''startTime''), (C_bool, ''has_startTime''),
        (C_text, ''endTime''), (C_bool, ''has_endTime''), (C_uint32, ''days''), (C_bool, ''has_days''),
        (C_uint32, ''items'')]),
     (''SignagePlaylistItem'', [(C_text, ''id''), (C_uint32, ''type''), (C_uint32, ''duration''), (C_uint32, ''sort''), (C_uint32, ''settings'')]),
     (''SignageImageItemSettings'', [(C_uint32, ''urls''), (C_uint32, ''delaySeconds''), (C_uint64, ''expiresAt''), (C_bool, ''has_expiresAt'')]),
     (''SignageVideoItemSettings'', [(C_text, ''url''), (C_uint64, ''expiresAt''), (C_bool, ''has_expiresAt''), (C_bool, ''muted''),
        (C_bool, ''has_muted'')]),
     (''SignageWebsiteItemSettings'', [(C_text, ''url''), (C_bool, ''ignoreCertificateError''), (C_bool, ''has_ignoreCertificateError''),
        (C_uint32, ''refreshIntervalSecs''), (C_bool, ''has_refreshIntervalSecs'')]),
     (''SignageClockItemSettings'', [(C_uint32, ''clocks'')]),
     (''SignageUnsplashItemSettings'', [(C_uint32, ''photos''), (C_uint32, ''delaySeconds''), (C_uint64, ''expiresAt''), (C_bool, ''has_expiresAt'')]),
     (''SignagePowerBiItemSettings'', [(C_text, ''groupId''), (C_text, ''dashboardId''), (C_text, ''embedUrl''), (C_text, ''token''),
        (C_uint64, ''expiresAt'')]),
     (''SignagePlaylistClockEntry'', [(C_text, ''timezone''), (C_text, ''label'')]),
     (''SignagePlaylistUnsplashPhoto'', [(C_text, ''url''), (C_uint32, ''user'')]),
     (''SignagePlaylistUnsplashUser'', [(C_text, ''name''), (C_text, ''link'')]),
     (''SignagePlaylistCapability'', [(C_uint32, ''supportedItemTypes''), (C_uint32, ''maxPlaylists''), (C_bool, ''has_maxPlaylists''),
        (C_uint32, ''maxItemsPerPlaylist''), (C_bool, ''has_maxItemsPerPlaylist''),
        (C_bool, ''supportsScheduledPlaylist''), (C_bool, ''supportsUrlRefresh''), (C_bool, ''supportsReset'')]),
     (''SoftwareGetConfigParams'', [(C_text, ''target'')]),
     (''SoftwareConfig'', [(C_text, ''target''), (C_uint32, ''config'')]),
     (''SoftwareSetConfigParams'', [(C_text, ''target''), (C_uint32, ''config'')]),
     (''SoftwareResetConfigParams'', [(C_text, ''target'')]),
     (''SoftwareSetConfigResult'', []),
     (''SoftwareConfigChangedEvent'', [(C_text, ''target''), (C_uint32, ''config''), (C_uint32, ''changedFields''), (C_bool, ''has_changedFields''),
        (C_uint32, ''reason''), (C_bool, ''has_reason'')]),
     (''LauncherConfig'', [(C_text, ''displayName''), (C_bool, ''has_displayName''), (C_uint32, ''appearance''),
        (C_bool, ''has_appearance'')]),
     (''LauncherAppearance'', [(C_uint32, ''panelLayout''), (C_bool, ''has_panelLayout''), (C_bool, ''autoHidePanel''),
        (C_bool, ''has_autoHidePanel''), (C_uint32, ''autoHideDelay''), (C_bool, ''has_autoHideDelay'')])]"

definition structs_20 :: "(string \<times> (member_type \<times> string) list) list" where
  "structs_20 = [
     (''SoftwareConfigCapability'', [(C_uint32, ''supportedTargets''), (C_bool, ''supportsReset''), (C_bool, ''has_supportsReset''),
        (C_bool, ''resetMayRestartSoftware''), (C_bool, ''has_resetMayRestartSoftware'')]),
     (''SoftwareGetUpdatePolicyParams'', [(C_text, ''target'')]),
     (''SoftwareUpdatePolicy'', [(C_text, ''target''), (C_uint32, ''policy'')]),
     (''SoftwareSetUpdatePolicyParams'', [(C_text, ''target''), (C_uint32, ''policy'')]),
     (''SoftwareResetUpdatePolicyParams'', [(C_text, ''target'')]),
     (''SoftwareSetUpdatePolicyResult'', []),
     (''SoftwareUpdatePolicyChangedEvent'', [(C_text, ''target''), (C_uint32, ''policy''), (C_uint32, ''changedFields''), (C_bool, ''has_changedFields''),
        (C_uint32, ''reason''), (C_bool, ''has_reason'')]),
     (''LauncherUpdatePolicy'', [(C_uint32, ''updateMode''), (C_uint32, ''schedule''), (C_bool, ''has_schedule''), (C_uint32, ''channel''),
        (C_uint32, ''conditions''), (C_bool, ''has_conditions'')]),
     (''UpdateSchedule'', [(C_text, ''start''), (C_text, ''end''), (C_text, ''timezone''), (C_bool, ''has_timezone'')]),
     (''UpdateConditions'', [(C_bool, ''requireIdle''), (C_bool, ''has_requireIdle''), (C_bool, ''requireWifi''),
        (C_bool, ''has_requireWifi'')]),
     (''SoftwareUpdatePolicyCapability'', [(C_uint32, ''supportedTargets''), (C_uint32, ''supportedChannels''), (C_bool, ''has_supportedChannels''),
        (C_bool, ''supportsSchedule''), (C_bool, ''has_supportsSchedule''), (C_bool, ''supportsReset''),
        (C_bool, ''has_supportsReset'')]),
     (''SportConfigTargetParams'', [(C_text, ''macAddress''), (C_text, ''sportType'')]),
     (''SportGoalShotWatermarkConfig'', [(C_text, ''macAddress''), (C_text, ''sportType''), (C_bool, ''goalVisible''), (C_bool, ''shotVisible'')]),
     (''SportSetGoalShotWatermarkConfigParams'', [(C_text, ''macAddress''), (C_text, ''sportType''), (C_bool, ''goalVisible''), (C_bool, ''shotVisible'')]),
     (''SportEventClipConfig'', [(C_text, ''macAddress''), (C_text, ''sportType''), (C_uint32, ''beforeOffsetSeconds''),
        (C_uint32, ''afterOffsetSeconds'')]),
     (''SportSetEventClipConfigParams'', [(C_text, ''macAddress''), (C_text, ''sportType''), (C_uint32, ''beforeOffsetSeconds''),
        (C_uint32, ''afterOffsetSeconds'')]),
     (''GetEventDetectionCapabilitiesParams'', [(C_uint32, ''sportTypes''), (C_bool, ''has_sportTypes''), (C_bool, ''includeRuntimeState''),
        (C_bool, ''has_includeRuntimeState'')]),
     (''GetEventDetectionCapabilitiesResult'', [(C_uint32, ''capability'')]),
     (''SportEventDetectionSportDescriptor'', [(C_text, ''sportType''), (C_uint32, ''supportedEvents''), (C_bool, ''supportsToggle''),
        (C_uint32, ''detailsSchemas''), (C_bool, ''has_detailsSchemas''), (C_uint32, ''supportedConfigMethods''),
        (C_bool, ''has_supportedConfigMethods'')]),
     (''SportEventDetectionCapabilities'', [(C_text, ''capability''), (C_uint32, ''supportedSports''), (C_bool, ''concurrentSportTypes''),
        (C_bool, ''supportsStateEvent''), (C_bool, ''supportsUnifiedEvent''), (C_uint32, ''persistencePolicy'')]),
     (''GetEventDetectionConfigParams'', [(C_text, ''sportType'')])]"

definition structs_21 :: "(string \<times> (member_type \<times> string) list) list" where
  "structs_21 = [
     (''SportEventDetectionState'', [(C_text, ''sportType''), (C_bool, ''effectiveEnabled''), (C_uint32, ''runtimeState''),
        (C_uint32, ''applyState''), (C_bool, ''has_applyState''), (C_text, ''reason''), (C_bool, ''has_reason''),
        (C_uint32, ''stateRevision''), (C_bool, ''has_stateRevision''), (C_text, ''updatedAt''),
        (C_bool, ''has_updatedAt'')]),
     (''SetEventDetectionConfigParams'', [(C_text, ''sportType''), (C_bool, ''enabled''), (C_uint32, ''expectedStateRevision''),
        (C_bool, ''has_expectedStateRevision'')]),
     (''SetEventDetectionConfigResult'', [(C_bool, ''accepted''), (C_uint32, ''state'')]),
     (''SportEventDetectionStateChangedEvent'', [(C_uint32, ''state''), (C_uint32, ''source''), (C_text, ''reason''), (C_bool, ''has_reason'')]),
     (''SportEventDetails'', [(C_text, ''shotId''), (C_bool, ''has_shotId''), (C_text, ''goalId''), (C_bool, ''has_goalId''),
        (C_uint32, ''releaseType''), (C_bool, ''has_releaseType''), (C_uint32, ''goalType''), (C_bool, ''has_goalType'')]),
     (''SportEventDetectedEvent'', [(C_text, ''eventId''), (C_uint64, ''sequence''), (C_text, ''sportType''), (C_text, ''eventType''),
        (C_text, ''occurredAt''), (C_uint32, ''confidence''), (C_bool, ''has_confidence''),
        (C_text, ''trainingSessionId''), (C_bool, ''has_trainingSessionId''), (C_uint32, ''details'')]),
     (''SportBasketballCapability'', [(C_text, ''capability''), (C_text, ''sportType''), (C_uint32, ''supportedEvents''),
        (C_uint32, ''detailsSchemas''), (C_bool, ''requiresEventDetectionToggle''),
        (C_bool, ''goalRequiresShotReference'')]),
     (''SportBasketballShotDetails'', [(C_text, ''shotId''), (C_uint32, ''releaseType''), (C_bool, ''has_releaseType'')]),
     (''SportBasketballGoalDetails'', [(C_text, ''goalId''), (C_text, ''shotId''), (C_uint32, ''goalType''), (C_bool, ''has_goalType'')]),
     (''StreamFlowControlCapabilities'', [(C_text, ''capability''), (C_bool, ''supportsAck''), (C_bool, ''supportsWindowUpdate''),
        (C_bool, ''supportsPauseResume''), (C_bool, ''supportsAbort''), (C_bool, ''supportsStats''),
        (C_bool, ''supportsClockReport''), (C_uint32, ''defaultWindowBytes''), (C_bool, ''has_defaultWindowBytes''),
        (C_uint32, ''clockReportIntervalMs''), (C_bool, ''has_clockReportIntervalMs'')]),
     (''StreamSelector'', [(C_uint32, ''streamId''), (C_bool, ''has_streamId'')]),
     (''StreamState'', [(C_uint32, ''streamId''), (C_bool, ''has_streamId''), (C_uint32, ''state''), (C_bool, ''paused''),
        (C_bool, ''has_paused''), (C_uint32, ''windowBytes''), (C_bool, ''has_windowBytes''),
        (C_uint32, ''ackedSeqId''), (C_bool, ''has_ackedSeqId''), (C_uint32, ''lastSeqId''),
        (C_bool, ''has_lastSeqId''), (C_uint64, ''lastCursor''), (C_bool, ''has_lastCursor''), (C_uint32, ''reason''),
        (C_bool, ''has_reason'')]),
     (''StreamStats'', [(C_uint32, ''streamId''), (C_bool, ''has_streamId''), (C_uint64, ''packets''), (C_bool, ''has_packets''),
        (C_uint64, ''bytes''), (C_bool, ''has_bytes''), (C_uint64, ''droppedPackets''),
        (C_bool, ''has_droppedPackets''), (C_uint64, ''seqGaps''), (C_bool, ''has_seqGaps''), (C_uint32, ''jitterMs''),
        (C_bool, ''has_jitterMs''), (C_uint32, ''lastSeqId''), (C_bool, ''has_lastSeqId''), (C_uint64, ''lastCursor''),
        (C_bool, ''has_lastCursor''), (C_uint32, ''latestClockReportAgeMs''), (C_bool, ''has_latestClockReportAgeMs'')]),
     (''StreamAckParams'', [(C_uint32, ''streamId''), (C_uint32, ''ackedSeqId''), (C_uint64, ''ackedCursor''),
        (C_bool, ''has_ackedCursor''), (C_uint32, ''missingSeqIds''), (C_bool, ''has_missingSeqIds'')])]"

definition structs_22 :: "(string \<times> (member_type \<times> string) list) list" where
  "structs_22 = [
     (''StreamAckResult'', [(C_bool, ''accepted''), (C_uint32, ''state''), (C_bool, ''has_state'')]),
     (''StreamWindowUpdateParams'', [(C_uint32, ''streamId''), (C_uint32, ''windowBytes''), (C_uint32, ''reason''), (C_bool, ''has_reason'')]),
     (''StreamWindowUpdateResult'', [(C_bool, ''accepted''), (C_uint32, ''state''), (C_bool, ''has_state'')]),
     (''StreamPauseParams'', [(C_uint32, ''streamId''), (C_uint32, ''reason''), (C_bool, ''has_reason'')]),
     (''StreamResumeParams'', [(C_uint32, ''streamId''), (C_uint32, ''reason''), (C_bool, ''has_reason'')]),
     (''StreamAbortParams'', [(C_uint32, ''streamId''), (C_uint32, ''reason''), (C_bool, ''has_reason''), (C_text, ''message''),
        (C_bool, ''has_message'')]),
     (''StreamActionResult'', [(C_bool, ''accepted''), (C_uint32, ''state''), (C_bool, ''has_state'')]),
     (''StreamStateChangedEvent'', [(C_uint32, ''streamId''), (C_bool, ''has_streamId''), (C_uint32, ''state'')]),
     (''StreamStatsReportedEvent'', [(C_uint32, ''streamId''), (C_bool, ''has_streamId''), (C_uint32, ''stats'')]),
     (''StreamFlowControlChangedEvent'', [(C_uint32, ''streamId''), (C_uint32, ''reason''), (C_bool, ''has_reason''), (C_uint32, ''state''),
        (C_bool, ''has_state'')]),
     (''StreamClockMediaAnchor'', [(C_uint32, ''streamId''), (C_bool, ''has_streamId''), (C_uint64, ''mediaPts''), (C_uint32, ''timebase''),
        (C_uint64, ''anchorNt10MonotonicUs''), (C_uint32, ''seqId''), (C_bool, ''has_seqId''), (C_uint64, ''cursor''),
        (C_bool, ''has_cursor'')]),
     (''StreamClockReportEvent'', [(C_uint32, ''reportSeq''), (C_text, ''syncGroupId''), (C_bool, ''has_syncGroupId''),
        (C_text, ''sourceDeviceId''), (C_bool, ''has_sourceDeviceId''), (C_text, ''sourceClockDomain''),
        (C_bool, ''has_sourceClockDomain''), (C_uint64, ''nt10ReportMonotonicUs''),
        (C_uint64, ''sentAtNt10MonotonicUs''), (C_bool, ''has_sentAtNt10MonotonicUs''),
        (C_uint64, ''na20ReceivedAtUs''), (C_bool, ''has_na20ReceivedAtUs''), (C_uint64, ''na20SentAtUs''),
        (C_bool, ''has_na20SentAtUs''), (C_uint32, ''audio''), (C_bool, ''has_audio''), (C_uint32, ''video''),
        (C_bool, ''has_video''), (C_bool, ''discontinuity''), (C_bool, ''has_discontinuity''), (C_uint32, ''reason''),
        (C_bool, ''has_reason'')]),
     (''VideoGetStreamCapabilitiesParams'', [(C_text, ''source''), (C_bool, ''has_source''), (C_bool, ''includeRuntimeState''),
        (C_bool, ''has_includeRuntimeState'')]),
     (''VideoStreamCapabilities'', [(C_text, ''capability''), (C_uint32, ''sources''), (C_uint32, ''streamProfiles''), (C_uint32, ''openModes''),
        (C_uint32, ''peerRoles''), (C_bool, ''supportsSourceStateEvent''), (C_bool, ''supportsSyncGroup''),
        (C_bool, ''flowControlManagedByRuntime''), (C_uint32, ''supportedVideoPtsModes''),
        (C_bool, ''has_supportedVideoPtsModes''), (C_uint32, ''supportedPacketizationModes''),
        (C_bool, ''has_supportedPacketizationModes''), (C_bool, ''supportsSourceCaptureTimestampCursor''),
        (C_bool, ''has_supportsSourceCaptureTimestampCursor'')]),
     (''VideoStreamSource'', [(C_text, ''source''), (C_text, ''displayName''), (C_bool, ''has_displayName''), (C_uint32, ''codecs''),
        (C_uint32, ''resolutions''), (C_bool, ''has_resolutions''), (C_uint32, ''frameRates''),
        (C_bool, ''has_frameRates''), (C_uint32, ''state''), (C_bool, ''has_state''), (C_uint32, ''bitratesKbps''),
        (C_bool, ''has_bitratesKbps''), (C_text, ''encoder''), (C_bool, ''has_encoder''),
        (C_bool, ''supportsReconfigure''), (C_bool, ''has_supportsReconfigure''), (C_uint32, ''reconfigureFields''),
        (C_bool, ''has_reconfigureFields'')])]"

definition structs_23 :: "(string \<times> (member_type \<times> string) list) list" where
  "structs_23 = [
     (''VideoOpenStreamParams'', [(C_text, ''source''), (C_uint32, ''peerRole''), (C_uint32, ''codec''), (C_uint32, ''width''),
        (C_bool, ''has_width''), (C_uint32, ''height''), (C_bool, ''has_height''), (C_uint32, ''frameRate''),
        (C_bool, ''has_frameRate''), (C_uint32, ''bitrateKbps''), (C_bool, ''has_bitrateKbps''),
        (C_text, ''streamProfile''), (C_bool, ''has_streamProfile''), (C_uint32, ''cursorUnit''),
        (C_bool, ''has_cursorUnit''), (C_text, ''syncGroupId''), (C_bool, ''has_syncGroupId''),
        (C_text, ''castSessionId''), (C_bool, ''has_castSessionId''), (C_text, ''clockDomain''),
        (C_bool, ''has_clockDomain''), (C_uint32, ''maxDataSize''), (C_bool, ''has_maxDataSize''),
        (C_uint32, ''videoPtsMode''), (C_bool, ''has_videoPtsMode''), (C_uint32, ''timebase''),
        (C_bool, ''has_timebase''), (C_uint32, ''packetizationMode''), (C_bool, ''has_packetizationMode'')]),
     (''VideoOpenStreamResult'', [(C_uint32, ''streamId''), (C_uint32, ''state''), (C_text, ''source''), (C_uint32, ''peerRole''),
        (C_uint32, ''codec''), (C_uint32, ''width''), (C_bool, ''has_width''), (C_uint32, ''height''),
        (C_bool, ''has_height''), (C_uint32, ''frameRate''), (C_bool, ''has_frameRate''), (C_uint32, ''bitrateKbps''),
        (C_bool, ''has_bitrateKbps''), (C_text, ''streamProfile''), (C_uint32, ''cursorUnit''),
        (C_text, ''syncGroupId''), (C_bool, ''has_syncGroupId''), (C_uint32, ''maxDataSize''),
        (C_bool, ''has_maxDataSize''), (C_uint32, ''videoPtsMode''), (C_bool, ''has_videoPtsMode''),
        (C_uint32, ''timebase''), (C_bool, ''has_timebase''), (C_uint32, ''packetizationMode''),
        (C_bool, ''has_packetizationMode'')]),
     (''VideoCloseStreamParams'', [(C_uint32, ''streamId''), (C_uint32, ''peerRole''), (C_bool, ''has_peerRole''), (C_uint32, ''reason''),
        (C_bool, ''has_reason''), (C_uint64, ''finalCursor''), (C_bool, ''has_finalCursor'')]),
     (''VideoCloseStreamResult'', [(C_uint32, ''streamId''), (C_uint32, ''state''), (C_uint32, ''reason''), (C_bool, ''has_reason''),
        (C_bool, ''alreadyClosed''), (C_bool, ''has_alreadyClosed'')]),
     (''VideoGetStreamStateParams'', [(C_uint32, ''streamId'')]),
     (''VideoStreamState'', [(C_uint32, ''streamId''), (C_uint32, ''state''), (C_text, ''source''), (C_uint32, ''peerRole''),
        (C_bool, ''has_peerRole''), (C_uint32, ''codec''), (C_bool, ''has_codec''), (C_text, ''streamProfile''),
        (C_bool, ''has_streamProfile''), (C_text, ''syncGroupId''), (C_bool, ''has_syncGroupId''),
        (C_uint32, ''cursorUnit''), (C_bool, ''has_cursorUnit''), (C_uint64, ''lastCursor''),
        (C_bool, ''has_lastCursor''), (C_bool, ''keyFrameRequested''), (C_bool, ''has_keyFrameRequested''),
        (C_uint32, ''failureReason''), (C_bool, ''has_failureReason''), (C_uint32, ''frameRate''),
        (C_bool, ''has_frameRate''), (C_uint32, ''bitrateKbps''), (C_bool, ''has_bitrateKbps'')]),
     (''VideoGetStreamSourceStateParams'', [(C_text, ''source'')]),
     (''VideoStreamSourceState'', [(C_text, ''source''), (C_uint32, ''mediaKind''), (C_bool, ''has_mediaKind''), (C_uint32, ''state''),
        (C_bool, ''available''), (C_bool, ''has_available''), (C_uint32, ''activeStreamId''),
        (C_bool, ''has_activeStreamId'')]),
     (''VideoRequestKeyFrameParams'', [(C_uint32, ''streamId''), (C_uint32, ''reason''), (C_bool, ''has_reason'')]),
     (''VideoRequestKeyFrameResult'', [(C_bool, ''accepted''), (C_uint32, ''state''), (C_bool, ''has_state'')]),
     (''VideoStreamStateChangedEvent'', [(C_uint32, ''streamId''), (C_uint32, ''state''), (C_text, ''source''), (C_uint32, ''reason''),
        (C_bool, ''has_reason''), (C_uint32, ''stats''), (C_bool, ''has_stats''), (C_uint32, ''frameRate''),
        (C_bool, ''has_frameRate''), (C_uint32, ''bitrateKbps''), (C_bool, ''has_bitrateKbps'')])]"

definition structs_24 :: "(string \<times> (member_type \<times> string) list) list" where
  "structs_24 = [
     (''VideoStreamSourceStateChangedEvent'', [(C_text, ''source''), (C_uint32, ''mediaKind''), (C_bool, ''has_mediaKind''), (C_uint32, ''state''),
        (C_uint32, ''reason''), (C_bool, ''has_reason''), (C_uint32, ''activeStreamId''),
        (C_bool, ''has_activeStreamId'')]),
     (''VideoStreamStatsReportedEvent'', [(C_uint32, ''streamId''), (C_uint32, ''stats'')]),
     (''VideoStreamStats'', [(C_uint64, ''frames''), (C_bool, ''has_frames''), (C_uint64, ''bytes''), (C_bool, ''has_bytes''),
        (C_uint64, ''droppedFrames''), (C_bool, ''has_droppedFrames''), (C_uint32, ''bitrateKbps''),
        (C_bool, ''has_bitrateKbps'')])]"

definition schema_structs :: "(string \<times> (member_type \<times> string) list) list" where
  "schema_structs = concat [structs_1, structs_2, structs_3, structs_4, structs_5, structs_6, structs_7, structs_8, structs_9, structs_10,
     structs_11, structs_12, structs_13, structs_14, structs_15, structs_16, structs_17, structs_18, structs_19,
     structs_20, structs_21, structs_22, structs_23, structs_24]"

end
