(* ===== verification/Schema_Agreement.thy ===== *)
theory Schema_Agreement
  imports Schema_Facts Schema_Tables Schema_Types
begin

text \<open>
  The four generated descriptions of the schemas side by side.

  Shown here, as a check of the tables by computation: the facts of the codec, the descriptors, the
  constants of the field ids and the structures list the same fields in the same order, with the same ids,
  names, required flags and bounds, and with the types that the generator writes; each descriptor counts the
  fields of the array it points to. And where they do not agree: the fields of the type \<^verbatim>\<open>number\<close>, which
  the generator does not know, and the bounds that do not fit their type.
\<close>

section \<open>What a field looks like in each\<close>

text \<open>The field type of the name; no entry for the names of schemas, nor for \<^verbatim>\<open>number\<close>.\<close>

definition named_type :: "string \<Rightarrow> field_type option" where
  "named_type t =
     (if t = ''uint8'' then Some FT_Uint8 else if t = ''uint16'' then Some FT_Uint16 else if t = ''uint32'' then Some FT_Uint32
      else if t = ''uint64'' then Some FT_Uint64 else if t = ''int8'' then Some FT_Int8 else if t = ''int16'' then Some FT_Int16
      else if t = ''int32'' then Some FT_Int32 else if t = ''int64'' then Some FT_Int64 else if t = ''bool'' then Some FT_Bool
      else if t = ''enum'' then Some FT_Enum else if t = ''bitmap'' then Some FT_Bitmap else if t = ''string'' then Some FT_String
      else if t = ''bytes'' then Some FT_Bytes else if t = ''object'' then Some FT_Object else if t = ''array'' then Some FT_Array
      else None)"

text \<open>What the generator writes: \<^verbatim>\<open>Object\<close> for every name without an entry.\<close>

definition written_type :: "string \<Rightarrow> field_type" where
  "written_type t = (case named_type t of Some ft \<Rightarrow> ft | None \<Rightarrow> FT_Object)"

definition bound :: "u64 option \<Rightarrow> int" where
  "bound b = (case b of None \<Rightarrow> 0 | Some m \<Rightarrow> sint m)"

definition descriptor :: "schema_field \<Rightarrow> field_descriptor" where
  "descriptor f = FieldDescriptor (ucast (sf_id f)) (sf_name f) (written_type (sf_type f)) (sf_required f)
     (bound (sf_min f)) (bound (sf_max f))"

text \<open>
  A member for the value - a number of 32 bits for everything that is no scalar or text - and for an
  optional field one for its presence.
\<close>

definition written_member :: "string \<Rightarrow> member_type" where
  "written_member t =
     (case named_type t of
        Some FT_Uint8 \<Rightarrow> C_uint8 | Some FT_Uint16 \<Rightarrow> C_uint16 | Some FT_Uint64 \<Rightarrow> C_uint64 | Some FT_Int8 \<Rightarrow> C_int8
      | Some FT_Int16 \<Rightarrow> C_int16 | Some FT_Int32 \<Rightarrow> C_int32 | Some FT_Int64 \<Rightarrow> C_int64 | Some FT_Bool \<Rightarrow> C_bool
      | Some FT_String \<Rightarrow> C_text | Some FT_Bytes \<Rightarrow> C_bytes | _ \<Rightarrow> C_uint32)"

definition members :: "schema_field \<Rightarrow> (member_type \<times> string) list" where
  "members f = (written_member (sf_type f), sf_name f) # (if sf_required f then [] else [(C_bool, ''has_'' @ sf_name f)])"

section \<open>Part by part\<close>

lemma arrays_describe:
  "map snd fields_1 = map (\<lambda>(schema, fs). map descriptor fs) facts_1"
  "map snd fields_2 = map (\<lambda>(schema, fs). map descriptor fs) facts_2"
  "map snd fields_3 = map (\<lambda>(schema, fs). map descriptor fs) facts_3"
  "map snd fields_4 = map (\<lambda>(schema, fs). map descriptor fs) facts_4"
  "map snd fields_5 = map (\<lambda>(schema, fs). map descriptor fs) facts_5"
  "map snd fields_6 = map (\<lambda>(schema, fs). map descriptor fs) facts_6"
  "map snd fields_7 = map (\<lambda>(schema, fs). map descriptor fs) facts_7"
  "map snd fields_8 = map (\<lambda>(schema, fs). map descriptor fs) facts_8"
  "map snd fields_9 = map (\<lambda>(schema, fs). map descriptor fs) facts_9"
  "map snd fields_10 = map (\<lambda>(schema, fs). map descriptor fs) facts_10"
  "map snd fields_11 = map (\<lambda>(schema, fs). map descriptor fs) facts_11"
  "map snd fields_12 = map (\<lambda>(schema, fs). map descriptor fs) facts_12"
  "map snd fields_13 = map (\<lambda>(schema, fs). map descriptor fs) facts_13"
  "map snd fields_14 = map (\<lambda>(schema, fs). map descriptor fs) facts_14"
  "map snd fields_15 = map (\<lambda>(schema, fs). map descriptor fs) facts_15"
  "map snd fields_16 = map (\<lambda>(schema, fs). map descriptor fs) facts_16"
  "map snd fields_17 = map (\<lambda>(schema, fs). map descriptor fs) facts_17"
  "map snd fields_18 = map (\<lambda>(schema, fs). map descriptor fs) facts_18"
  "map snd fields_19 = map (\<lambda>(schema, fs). map descriptor fs) facts_19"
  "map snd fields_20 = map (\<lambda>(schema, fs). map descriptor fs) facts_20"
  "map snd fields_21 = map (\<lambda>(schema, fs). map descriptor fs) facts_21"
  "map snd fields_22 = map (\<lambda>(schema, fs). map descriptor fs) facts_22"
  "map snd fields_23 = map (\<lambda>(schema, fs). map descriptor fs) facts_23"
  "map snd fields_24 = map (\<lambda>(schema, fs). map descriptor fs) facts_24"
  by code_simp+

lemma constants_describe:
  "map (\<lambda>(schema, cs). map snd cs) ids_1 = map (\<lambda>(schema, fs). map (\<lambda>f. ucast (sf_id f)) fs) facts_1"
  "map (\<lambda>(schema, cs). map snd cs) ids_2 = map (\<lambda>(schema, fs). map (\<lambda>f. ucast (sf_id f)) fs) facts_2"
  "map (\<lambda>(schema, cs). map snd cs) ids_3 = map (\<lambda>(schema, fs). map (\<lambda>f. ucast (sf_id f)) fs) facts_3"
  "map (\<lambda>(schema, cs). map snd cs) ids_4 = map (\<lambda>(schema, fs). map (\<lambda>f. ucast (sf_id f)) fs) facts_4"
  "map (\<lambda>(schema, cs). map snd cs) ids_5 = map (\<lambda>(schema, fs). map (\<lambda>f. ucast (sf_id f)) fs) facts_5"
  "map (\<lambda>(schema, cs). map snd cs) ids_6 = map (\<lambda>(schema, fs). map (\<lambda>f. ucast (sf_id f)) fs) facts_6"
  "map (\<lambda>(schema, cs). map snd cs) ids_7 = map (\<lambda>(schema, fs). map (\<lambda>f. ucast (sf_id f)) fs) facts_7"
  "map (\<lambda>(schema, cs). map snd cs) ids_8 = map (\<lambda>(schema, fs). map (\<lambda>f. ucast (sf_id f)) fs) facts_8"
  "map (\<lambda>(schema, cs). map snd cs) ids_9 = map (\<lambda>(schema, fs). map (\<lambda>f. ucast (sf_id f)) fs) facts_9"
  "map (\<lambda>(schema, cs). map snd cs) ids_10 = map (\<lambda>(schema, fs). map (\<lambda>f. ucast (sf_id f)) fs) facts_10"
  "map (\<lambda>(schema, cs). map snd cs) ids_11 = map (\<lambda>(schema, fs). map (\<lambda>f. ucast (sf_id f)) fs) facts_11"
  "map (\<lambda>(schema, cs). map snd cs) ids_12 = map (\<lambda>(schema, fs). map (\<lambda>f. ucast (sf_id f)) fs) facts_12"
  "map (\<lambda>(schema, cs). map snd cs) ids_13 = map (\<lambda>(schema, fs). map (\<lambda>f. ucast (sf_id f)) fs) facts_13"
  "map (\<lambda>(schema, cs). map snd cs) ids_14 = map (\<lambda>(schema, fs). map (\<lambda>f. ucast (sf_id f)) fs) facts_14"
  "map (\<lambda>(schema, cs). map snd cs) ids_15 = map (\<lambda>(schema, fs). map (\<lambda>f. ucast (sf_id f)) fs) facts_15"
  "map (\<lambda>(schema, cs). map snd cs) ids_16 = map (\<lambda>(schema, fs). map (\<lambda>f. ucast (sf_id f)) fs) facts_16"
  "map (\<lambda>(schema, cs). map snd cs) ids_17 = map (\<lambda>(schema, fs). map (\<lambda>f. ucast (sf_id f)) fs) facts_17"
  "map (\<lambda>(schema, cs). map snd cs) ids_18 = map (\<lambda>(schema, fs). map (\<lambda>f. ucast (sf_id f)) fs) facts_18"
  "map (\<lambda>(schema, cs). map snd cs) ids_19 = map (\<lambda>(schema, fs). map (\<lambda>f. ucast (sf_id f)) fs) facts_19"
  "map (\<lambda>(schema, cs). map snd cs) ids_20 = map (\<lambda>(schema, fs). map (\<lambda>f. ucast (sf_id f)) fs) facts_20"
  "map (\<lambda>(schema, cs). map snd cs) ids_21 = map (\<lambda>(schema, fs). map (\<lambda>f. ucast (sf_id f)) fs) facts_21"
  "map (\<lambda>(schema, cs). map snd cs) ids_22 = map (\<lambda>(schema, fs). map (\<lambda>f. ucast (sf_id f)) fs) facts_22"
  "map (\<lambda>(schema, cs). map snd cs) ids_23 = map (\<lambda>(schema, fs). map (\<lambda>f. ucast (sf_id f)) fs) facts_23"
  "map (\<lambda>(schema, cs). map snd cs) ids_24 = map (\<lambda>(schema, fs). map (\<lambda>f. ucast (sf_id f)) fs) facts_24"
  by code_simp+

lemma structs_describe:
  "structs_1 = map (\<lambda>(schema, fs). (schema, concat (map members fs))) facts_1"
  "structs_2 = map (\<lambda>(schema, fs). (schema, concat (map members fs))) facts_2"
  "structs_3 = map (\<lambda>(schema, fs). (schema, concat (map members fs))) facts_3"
  "structs_4 = map (\<lambda>(schema, fs). (schema, concat (map members fs))) facts_4"
  "structs_5 = map (\<lambda>(schema, fs). (schema, concat (map members fs))) facts_5"
  "structs_6 = map (\<lambda>(schema, fs). (schema, concat (map members fs))) facts_6"
  "structs_7 = map (\<lambda>(schema, fs). (schema, concat (map members fs))) facts_7"
  "structs_8 = map (\<lambda>(schema, fs). (schema, concat (map members fs))) facts_8"
  "structs_9 = map (\<lambda>(schema, fs). (schema, concat (map members fs))) facts_9"
  "structs_10 = map (\<lambda>(schema, fs). (schema, concat (map members fs))) facts_10"
  "structs_11 = map (\<lambda>(schema, fs). (schema, concat (map members fs))) facts_11"
  "structs_12 = map (\<lambda>(schema, fs). (schema, concat (map members fs))) facts_12"
  "structs_13 = map (\<lambda>(schema, fs). (schema, concat (map members fs))) facts_13"
  "structs_14 = map (\<lambda>(schema, fs). (schema, concat (map members fs))) facts_14"
  "structs_15 = map (\<lambda>(schema, fs). (schema, concat (map members fs))) facts_15"
  "structs_16 = map (\<lambda>(schema, fs). (schema, concat (map members fs))) facts_16"
  "structs_17 = map (\<lambda>(schema, fs). (schema, concat (map members fs))) facts_17"
  "structs_18 = map (\<lambda>(schema, fs). (schema, concat (map members fs))) facts_18"
  "structs_19 = map (\<lambda>(schema, fs). (schema, concat (map members fs))) facts_19"
  "structs_20 = map (\<lambda>(schema, fs). (schema, concat (map members fs))) facts_20"
  "structs_21 = map (\<lambda>(schema, fs). (schema, concat (map members fs))) facts_21"
  "structs_22 = map (\<lambda>(schema, fs). (schema, concat (map members fs))) facts_22"
  "structs_23 = map (\<lambda>(schema, fs). (schema, concat (map members fs))) facts_23"
  "structs_24 = map (\<lambda>(schema, fs). (schema, concat (map members fs))) facts_24"
  by code_simp+

lemma descriptors_count:
  "map (\<lambda>d. (sd_name d, sd_field_count d)) descriptors_1 = map (\<lambda>(schema, fs). (schema, length fs)) facts_1"
  "map (\<lambda>d. (sd_name d, sd_field_count d)) descriptors_2 = map (\<lambda>(schema, fs). (schema, length fs)) facts_2"
  "map (\<lambda>d. (sd_name d, sd_field_count d)) descriptors_3 = map (\<lambda>(schema, fs). (schema, length fs)) facts_3"
  "map (\<lambda>d. (sd_name d, sd_field_count d)) descriptors_4 = map (\<lambda>(schema, fs). (schema, length fs)) facts_4"
  "map (\<lambda>d. (sd_name d, sd_field_count d)) descriptors_5 = map (\<lambda>(schema, fs). (schema, length fs)) facts_5"
  "map (\<lambda>d. (sd_name d, sd_field_count d)) descriptors_6 = map (\<lambda>(schema, fs). (schema, length fs)) facts_6"
  "map (\<lambda>d. (sd_name d, sd_field_count d)) descriptors_7 = map (\<lambda>(schema, fs). (schema, length fs)) facts_7"
  "map (\<lambda>d. (sd_name d, sd_field_count d)) descriptors_8 = map (\<lambda>(schema, fs). (schema, length fs)) facts_8"
  "map (\<lambda>d. (sd_name d, sd_field_count d)) descriptors_9 = map (\<lambda>(schema, fs). (schema, length fs)) facts_9"
  "map (\<lambda>d. (sd_name d, sd_field_count d)) descriptors_10 = map (\<lambda>(schema, fs). (schema, length fs)) facts_10"
  "map (\<lambda>d. (sd_name d, sd_field_count d)) descriptors_11 = map (\<lambda>(schema, fs). (schema, length fs)) facts_11"
  "map (\<lambda>d. (sd_name d, sd_field_count d)) descriptors_12 = map (\<lambda>(schema, fs). (schema, length fs)) facts_12"
  "map (\<lambda>d. (sd_name d, sd_field_count d)) descriptors_13 = map (\<lambda>(schema, fs). (schema, length fs)) facts_13"
  "map (\<lambda>d. (sd_name d, sd_field_count d)) descriptors_14 = map (\<lambda>(schema, fs). (schema, length fs)) facts_14"
  "map (\<lambda>d. (sd_name d, sd_field_count d)) descriptors_15 = map (\<lambda>(schema, fs). (schema, length fs)) facts_15"
  "map (\<lambda>d. (sd_name d, sd_field_count d)) descriptors_16 = map (\<lambda>(schema, fs). (schema, length fs)) facts_16"
  "map (\<lambda>d. (sd_name d, sd_field_count d)) descriptors_17 = map (\<lambda>(schema, fs). (schema, length fs)) facts_17"
  "map (\<lambda>d. (sd_name d, sd_field_count d)) descriptors_18 = map (\<lambda>(schema, fs). (schema, length fs)) facts_18"
  "map (\<lambda>d. (sd_name d, sd_field_count d)) descriptors_19 = map (\<lambda>(schema, fs). (schema, length fs)) facts_19"
  "map (\<lambda>d. (sd_name d, sd_field_count d)) descriptors_20 = map (\<lambda>(schema, fs). (schema, length fs)) facts_20"
  "map (\<lambda>d. (sd_name d, sd_field_count d)) descriptors_21 = map (\<lambda>(schema, fs). (schema, length fs)) facts_21"
  "map (\<lambda>d. (sd_name d, sd_field_count d)) descriptors_22 = map (\<lambda>(schema, fs). (schema, length fs)) facts_22"
  "map (\<lambda>d. (sd_name d, sd_field_count d)) descriptors_23 = map (\<lambda>(schema, fs). (schema, length fs)) facts_23"
  "map (\<lambda>d. (sd_name d, sd_field_count d)) descriptors_24 = map (\<lambda>(schema, fs). (schema, length fs)) facts_24"
  by code_simp+

lemma descriptors_point:
  "map sd_fields descriptors_1 = map fst fields_1"
  "map sd_fields descriptors_2 = map fst fields_2"
  "map sd_fields descriptors_3 = map fst fields_3"
  "map sd_fields descriptors_4 = map fst fields_4"
  "map sd_fields descriptors_5 = map fst fields_5"
  "map sd_fields descriptors_6 = map fst fields_6"
  "map sd_fields descriptors_7 = map fst fields_7"
  "map sd_fields descriptors_8 = map fst fields_8"
  "map sd_fields descriptors_9 = map fst fields_9"
  "map sd_fields descriptors_10 = map fst fields_10"
  "map sd_fields descriptors_11 = map fst fields_11"
  "map sd_fields descriptors_12 = map fst fields_12"
  "map sd_fields descriptors_13 = map fst fields_13"
  "map sd_fields descriptors_14 = map fst fields_14"
  "map sd_fields descriptors_15 = map fst fields_15"
  "map sd_fields descriptors_16 = map fst fields_16"
  "map sd_fields descriptors_17 = map fst fields_17"
  "map sd_fields descriptors_18 = map fst fields_18"
  "map sd_fields descriptors_19 = map fst fields_19"
  "map sd_fields descriptors_20 = map fst fields_20"
  "map sd_fields descriptors_21 = map fst fields_21"
  "map sd_fields descriptors_22 = map fst fields_22"
  "map sd_fields descriptors_23 = map fst fields_23"
  "map sd_fields descriptors_24 = map fst fields_24"
  by code_simp+

text \<open>The bounds are members of the type \<^verbatim>\<open>std::uint32_t\<close>, initialized in braces.\<close>

definition fits_uint32 :: "int \<Rightarrow> bool" where
  "fits_uint32 n \<longleftrightarrow> 0 \<le> n \<and> n < 4294967296"

definition narrowed :: "(string \<times> field_descriptor list) list \<Rightarrow> (string \<times> string) list" where
  "narrowed rows = concat (map (\<lambda>(array, ds).
     map (\<lambda>d. (array, fd_name d)) (filter (\<lambda>d. \<not> fits_uint32 (fd_min d) \<or> \<not> fits_uint32 (fd_max d)) ds)) rows)"

lemma narrowed_append: "narrowed [] = []" "narrowed (rows @ rows') = narrowed rows @ narrowed rows'"
  by (simp_all add: narrowed_def)

lemma narrowed_parts:
  "narrowed fields_1 = []"
  "narrowed fields_2 = [(''kAudioAutoGainControlConfigFields'', ''targetLevelDb''), (''kAudioBeamformingConfigFields'', ''lookDirectionDeg'')]"
  "narrowed fields_3 = []"
  "narrowed fields_4 = []"
  "narrowed fields_5 = []"
  "narrowed fields_6 = []"
  "narrowed fields_7 = []"
  "narrowed fields_8 = []"
  "narrowed fields_9 = []"
  "narrowed fields_10 = []"
  "narrowed fields_11 = []"
  "narrowed fields_12 = []"
  "narrowed fields_13 = []"
  "narrowed fields_14 = []"
  "narrowed fields_15 = []"
  "narrowed fields_16 = []"
  "narrowed fields_17 = []"
  "narrowed fields_18 = []"
  "narrowed fields_19 = []"
  "narrowed fields_20 = []"
  "narrowed fields_21 = []"
  "narrowed fields_22 = []"
  "narrowed fields_23 = []"
  "narrowed fields_24 = []"
  by code_simp+

text \<open>The fields of the type \<^verbatim>\<open>number\<close>: an object in the descriptors, a 32-bit number in the structures.\<close>

definition number_fields :: "(string \<times> schema_field list) list \<Rightarrow> (string \<times> string) list" where
  "number_fields rows = concat (map (\<lambda>(schema, fs).
     map (\<lambda>f. (schema, sf_name f)) (filter (\<lambda>f. sf_type f = ''number'') fs)) rows)"

lemma number_fields_append: "number_fields [] = []" "number_fields (rows @ rows') = number_fields rows @ number_fields rows'"
  by (simp_all add: number_fields_def)

lemma number_parts:
  "number_fields facts_1 = []"
  "number_fields facts_2 = []"
  "number_fields facts_3 = []"
  "number_fields facts_4 = [(''CastMediaSummary'', ''inputFps''), (''CastMediaSummary'', ''renderFps'')]"
  "number_fields facts_5 = []"
  "number_fields facts_6 = []"
  "number_fields facts_7 = []"
  "number_fields facts_8 = [(''CastSetRenderFpsParams'', ''fps''), (''CastFlowControlState'', ''targetRenderFps''), (''CastFlowControlState'', ''inputFps''), (''CastFlowControlState'', ''renderFps'')]"
  "number_fields facts_9 = []"
  "number_fields facts_10 = []"
  "number_fields facts_11 = []"
  "number_fields facts_12 = []"
  "number_fields facts_13 = []"
  "number_fields facts_14 = []"
  "number_fields facts_15 = []"
  "number_fields facts_16 = []"
  "number_fields facts_17 = []"
  "number_fields facts_18 = []"
  "number_fields facts_19 = []"
  "number_fields facts_20 = []"
  "number_fields facts_21 = [(''SportEventDetectedEvent'', ''confidence'')]"
  "number_fields facts_22 = []"
  "number_fields facts_23 = []"
  "number_fields facts_24 = []"
  by code_simp+

section \<open>The tables as a whole\<close>

text \<open>
  The arrays of descriptors, the constants, the structures and the descriptors against the facts; the
  written bounds that their type cannot hold; the fields whose type the generator does not know.
\<close>

lemma schema_tables_agree:
  "map snd field_arrays = map (\<lambda>(schema, fs). map descriptor fs) generated_facts \<and>
   map (\<lambda>(namespace, cs). map snd cs) field_constants = map (\<lambda>(schema, fs). map (\<lambda>f. ucast (sf_id f)) fs) generated_facts \<and>
   schema_structs = map (\<lambda>(schema, fs). (schema, concat (map members fs))) generated_facts \<and>
   map (\<lambda>d. (sd_name d, sd_field_count d)) schema_descriptors = map (\<lambda>(schema, fs). (schema, length fs)) generated_facts \<and>
   map sd_fields schema_descriptors = map fst field_arrays \<and>
   narrowed field_arrays = [(''kAudioAutoGainControlConfigFields'', ''targetLevelDb''),
     (''kAudioBeamformingConfigFields'', ''lookDirectionDeg'')] \<and>
   number_fields generated_facts = [(''CastMediaSummary'', ''inputFps''), (''CastMediaSummary'', ''renderFps''),
      (''CastSetRenderFpsParams'', ''fps''), (''CastFlowControlState'', ''targetRenderFps''),
      (''CastFlowControlState'', ''inputFps''), (''CastFlowControlState'', ''renderFps''),
      (''SportEventDetectedEvent'', ''confidence'')] \<and>
   written_type ''number'' = FT_Object \<and> written_member ''number'' = C_uint32"
  by (intro conjI; (simp add: written_type_def written_member_def named_type_def; fail)?)
    (simp_all only: field_arrays_def field_constants_def schema_structs_def schema_descriptors_def generated_facts_def
      concat.simps append_Nil2 map_append arrays_describe constants_describe structs_describe descriptors_count descriptors_point
      narrowed_append narrowed_parts number_fields_append number_parts append_Nil append_Cons)

end
