(* ===== verification/Heartbeat.thy ===== *)
theory Heartbeat
  imports Rpc_Exchange
begin

text \<open>
  Heartbeats from end to end (\<^verbatim>\<open>AxtpClient::heartbeat\<close>, sdk/axtp_client.hpp): the HEARTBEAT a client sends is
  answered by the core of its peer without the broker, and the ACK that comes back is the result of the
  call. Shown here: that a heartbeat over a session at rest succeeds, whatever the cuts; that every
  heartbeat returns and reports what it returns; and that an ACK left over from an earlier heartbeat
  with the same control id passes for an answer.
\<close>

section \<open>HEARTBEAT and HEARTBEAT\_ACK on the wire\<close>

definition heartbeat_notice :: "control_opcode \<Rightarrow> u16 \<Rightarrow> control_payload" where
  "heartbeat_notice opcode controlId = ControlPayload_default\<lparr>cp_opcode := opcode, cp_controlId := controlId,
     cp_statusCode := ErrorCode_Success, cp_tlv := ControlTlv_decode [], cp_body := []\<rparr>"

definition plain_control :: "control_opcode \<Rightarrow> u16 \<Rightarrow> control_payload \<Rightarrow> bool" where
  "plain_control opcode controlId p \<longleftrightarrow> cp_opcode p = opcode \<and> cp_controlId p = controlId \<and> cp_statusCode p = ErrorCode_Success \<and>
     cp_body p = [] \<and> opcode \<noteq> ControlOpcode_Open \<and> opcode \<noteq> ControlOpcode_Accept"

lemma plain_control_message:
  "plain_control opcode i p \<Longrightarrow> decodeMessage lib (encodeControl p) = Some (PControl (heartbeat_notice opcode i))"
  by (simp add: plain_control_def decodeMessage_def encodeControl_eq decodeControl_bytes control_body_def heartbeat_notice_def)

lemma makeHeartbeat_plain: "plain_control ControlOpcode_Heartbeat i (makeHeartbeat cs i)"
  by (simp add: plain_control_def makeHeartbeat_def ControlPayload_default_def)

lemma handle_heartbeat:
  "\<exists>r cs'. ControlSession_handle cs (heartbeat_notice ControlOpcode_Heartbeat i) = (Some r, cs') \<and>
     plain_control ControlOpcode_HeartbeatAck i r"
  by (simp add: ControlSession_handle_def Let_def makeControlResponse_def plain_control_def heartbeat_notice_def ControlPayload_default_def)

lemma handle_heartbeat_ack: "fst (ControlSession_handle cs (heartbeat_notice ControlOpcode_HeartbeatAck i)) = None"
  by (simp add: ControlSession_handle_def Let_def heartbeat_notice_def ControlPayload_default_def)

text \<open>The core that receives a HEARTBEAT sends the ACK, and nothing else.\<close>

lemma heartbeat_acknowledged:
  assumes "framed_port (co_outbound s) cap" and "50 \<le> cap"
  shows "\<exists>w. outbound_bytes (handleControl lib (heartbeat_notice ControlOpcode_Heartbeat i) s) = outbound_bytes s @ w \<and>
     (\<exists>r. plain_control ControlOpcode_HeartbeatAck i r \<and> delivers lib w [encodeControl r])"
proof -
  let ?q = "heartbeat_notice ControlOpcode_Heartbeat i"
  obtain r cs' where r: "ControlSession_handle (co_controlSession s) ?q = (Some r, cs')" "plain_control ControlOpcode_HeartbeatAck i r"
    using handle_heartbeat by blast
  let ?s = "s\<lparr>co_inboundActivityGeneration := co_inboundActivityGeneration s + 1, co_controlSession := cs',
    co_controlNotices := co_controlNotices s @ [?q]\<rparr>"
  have "framed_port (co_outbound ?s) cap" "0 < cap" using assms by simp_all
  from core_sendControl_delivers [OF this, of r lib] carries_control [OF assms(2)] r(2) obtain op' w where
    w: "core_sendControl ?s r = enqueue_packets (co_outboundReplyTarget ?s) w (?s\<lparr>co_outbound := op'\<rparr>)"
      "delivers lib w [encodeControl r]" by (auto simp: plain_control_def)
  have "handleControl lib ?q s = core_sendControl ?s r"
    by (simp add: handleControl_def Let_def r(1)) (simp add: heartbeat_notice_def ControlPayload_default_def)
  moreover have "outbound_bytes (core_sendControl ?s r) = outbound_bytes s @ w" by (simp add: w(1))
  ultimately show ?thesis using w(2) r(2) by auto
qed

section \<open>The client\<close>

text \<open>Where a heartbeat is sent at all, and where nothing else is under way.\<close>

definition heartbeat_possible :: "'u axtp_client \<Rightarrow> bool" where
  "heartbeat_possible c \<longleftrightarrow>
     (\<exists>t. cl_transport c = Some t \<and> tp_wireMode (tr_profile t) = FramedBinary) \<and> cl_connected c \<and>
     cs_open (co_controlSession (ep_core (cl_endpoint c))) \<and> cl_negotiatedHeartbeatIntervalMs c \<noteq> None"

definition heartbeat_ready :: "nat \<Rightarrow> 'u axtp_client \<Rightarrow> bool" where
  "heartbeat_ready cap c \<longleftrightarrow> heartbeat_possible c \<and> at_rest (cl_endpoint c) \<and> framed_port (co_outbound (ep_core (cl_endpoint c))) cap"

definition next_control_id :: "'u axtp_client \<Rightarrow> u16" where
  "next_control_id c = (if cl_nextControlId c = 0 then 1 else cl_nextControlId c)"

text \<open>The endpoint after the HEARTBEAT went out in the chunks \<open>up\<close>.\<close>

lemma sendControlHeartbeat_leaves:
  assumes "at_rest e" and "framed_port (co_outbound (ep_core e)) cap" and "50 \<le> cap"
  shows "\<exists>op' up p. endpoint_sendControlHeartbeat e i =
       e\<lparr>ep_core := (ep_core e)\<lparr>co_outbound := op'\<rparr>, ep_calls := ep_calls e @ map (send_to 0) up\<rparr> \<and>
     plain_control ControlOpcode_Heartbeat i p \<and> delivers lib up [encodeControl p]"
proof -
  let ?p = "makeHeartbeat (co_controlSession (ep_core e)) i"
  have "0 < cap" "length (cp_body ?p) \<le> 54" using assms(3) by (simp_all add: makeHeartbeat_def ControlPayload_default_def)
  from core_sendControl_delivers [OF assms(2) this(1) carries_control [OF assms(3) this(2)], of lib] obtain op' up where
    up: "core_sendControl (ep_core e) ?p = enqueue_packets (co_outboundReplyTarget (ep_core e)) up ((ep_core e)\<lparr>co_outbound := op'\<rparr>)"
      "delivers lib up [encodeControl ?p]" by blast
  have "ep_attached e" "co_outboundBytes ((ep_core e)\<lparr>co_outbound := op'\<rparr>) = []" "co_outboundReplyTarget (ep_core e) = 0"
    using assms(1) by (simp_all add: at_rest_def core_at_rest_def)
  with flush_packets [OF this(1,2), of 0 up] up(1)
  have "endpoint_sendControlHeartbeat e i =
      e\<lparr>ep_core := (ep_core e)\<lparr>co_outbound := op'\<rparr>, ep_calls := ep_calls e @ map (send_to 0) up\<rparr>"
    by (simp add: endpoint_sendControlHeartbeat_def sendControlHeartbeat_def)
  with makeHeartbeat_plain up(2) show ?thesis by blast
qed

text \<open>A round in which the core only gains the notice \<open>q\<close>, or nothing.\<close>

lemma ack_received:
  assumes "at_rest e" and "plain_control ControlOpcode_HeartbeatAck i r" and "delivers lib down [encodeControl r]"
    and "concat arrivals = concat down"
  shows "endpoint_poll lib e arrivals n u = (True, e\<lparr>ep_core := (ep_core e)
     \<lparr>co_inboundActivityGeneration := co_inboundActivityGeneration (ep_core e) + 1,
      co_controlSession := snd (ControlSession_handle (co_controlSession (ep_core e)) (heartbeat_notice ControlOpcode_HeartbeatAck i)),
      co_controlNotices := co_controlNotices (ep_core e) @ [heartbeat_notice ControlOpcode_HeartbeatAck i]\<rparr>\<rparr>, u)"
proof -
  let ?q = "heartbeat_notice ControlOpcode_HeartbeatAck i"
  have e: "ep_attached e" "idle (co_inbound (ep_core e))" using assms(1) by (simp_all add: at_rest_def core_at_rest_def)
  have "core_feed lib (ep_core e) arrivals = handleControl lib ?q (ep_core e)"
    using delivers_feed [OF e(2) assms(3,4)] plain_control_message [OF assms(2), of lib]
    by (simp add: receive_messages_def PayloadDecoder_onMessage_def)
  also have "\<dots> = (ep_core e)\<lparr>co_inboundActivityGeneration := co_inboundActivityGeneration (ep_core e) + 1,
      co_controlSession := snd (ControlSession_handle (co_controlSession (ep_core e)) ?q),
      co_controlNotices := co_controlNotices (ep_core e) @ [?q]\<rparr>"
    using handle_heartbeat_ack [of "co_controlSession (ep_core e)" i]
    by (cases "ControlSession_handle (co_controlSession (ep_core e)) ?q") (simp add: handleControl_def Let_def)
  finally have feed: "core_feed lib (ep_core e) arrivals = (ep_core e)
     \<lparr>co_inboundActivityGeneration := co_inboundActivityGeneration (ep_core e) + 1,
      co_controlSession := snd (ControlSession_handle (co_controlSession (ep_core e)) ?q),
      co_controlNotices := co_controlNotices (ep_core e) @ [?q]\<rparr>" .
  show ?thesis
    unfolding endpoint_poll_def fold_onTransportBytes
    by (simp add: e(1) feed) (rule progress_idle, use assms(1) in \<open>simp add: at_rest_def core_at_rest_def\<close>)
qed


lemma takeControlId_eq:
  "takeControlId w = (Done (next_control_id (wo_client w)),
     w\<lparr>wo_client := (wo_client w)\<lparr>cl_nextControlId := next_control_id (wo_client w) + 1\<rparr>\<rparr>)"
  by (simp add: takeControlId_def client_run_def next_control_id_def Let_def)

lemma andThen_run: "m w = (Done x, w') \<Longrightarrow> andThen m f w = f x w'"
  by (simp add: andThen_def)

lemma heartbeat_runs:
  assumes "heartbeat_possible (wo_client w)"
  shows "heartbeat lib timeout hook w = wait_loop (heartbeatRound lib (next_control_id (wo_client w)) hook
       (wo_now w + milliseconds (if timeout \<le> 0 then 1 else timeout)))
     (w\<lparr>wo_client := (wo_client w)\<lparr>cl_nextControlId := next_control_id (wo_client w) + 1,
          cl_endpoint := endpoint_sendControlHeartbeat (cl_endpoint (wo_client w)) (next_control_id (wo_client w))\<rparr>\<rparr>)"
proof -
  have "\<not> (wo_now w + milliseconds (if timeout \<le> 0 then 1 else timeout) \<le> wo_now w)" by (simp add: milliseconds_def)
  with assms show ?thesis
    by (auto simp: heartbeat_def client_get_def andThen_inspect andThen_run [OF takeControlId_eq] endpoint_do_def client_do_def
        andThen_run [of "change _", OF change_def [THEN fun_cong]] deadlinePassed_def heartbeat_possible_def simp del: waitRounds.simps)
qed

lemma heartbeat_refused:
  assumes "\<not> heartbeat_possible (wo_client w)"
  shows "\<exists>e. heartbeat lib timeout hook w = returnError e w"
proof -
  obtain e1 e2 e3 f where h: "heartbeat lib timeout hook w =
     (if cl_transport (wo_client w) = None \<or> \<not> cl_connected (wo_client w) then returnError e1 w
      else if tp_wireMode (tr_profile (the (cl_transport (wo_client w)))) \<noteq> FramedBinary \<or>
          \<not> cs_open (co_controlSession (ep_core (cl_endpoint (wo_client w)))) then returnError e2 w
      else if cl_negotiatedHeartbeatIntervalMs (wo_client w) = None then returnError e3 w else f w)"
    unfolding heartbeat_def client_get_def andThen_inspect if_distribR by blast
  with assms show ?thesis by (auto simp: heartbeat_possible_def)
qed

text \<open>A round after which a successful ACK for the control id is in the queue ends the loop with success.\<close>

lemma round_with_ack:
  assumes "wo_rounds w = \<lparr>rn_arrivals = arrivals, rn_now = now\<rparr> # rounds"
    and "endpoint_poll lib ((cl_endpoint (wo_client w))\<lparr>ep_broker := registerEventHandler (ep_broker (cl_endpoint (wo_client w)))
        (Some (\<lambda>_ eventPayload. client_emitRaw (cl_eventHandlers (wo_client w)) eventPayload))\<rparr>) arrivals 8 (wo_app w) = (True, e, u)"
    and "co_controlNotices (ep_core e) = before @ ack # after"
    and "\<forall>p\<in>set before. \<not> (cp_opcode p = ControlOpcode_HeartbeatAck \<and> cp_controlId p = i)"
    and "cp_opcode ack = ControlOpcode_HeartbeatAck" "cp_controlId ack = i" "cp_statusCode ack = ErrorCode_Success"
  shows "\<exists>w'. wait_loop (heartbeatRound lib i None deadline) w = (Done SdkError_success, w') \<and>
     ep_calls (cl_endpoint (wo_client w')) = ep_calls e \<and> cl_nextControlId (wo_client w') = cl_nextControlId (wo_client w)"
proof -
  have "takeLoop (\<lambda>p. cp_opcode p = ControlOpcode_HeartbeatAck \<and> cp_controlId p = i) (length (before @ ack # after)) (before @ ack # after) =
      (Some ack, after @ before)"
    using takeLoop_first [of before "\<lambda>p. cp_opcode p = ControlOpcode_HeartbeatAck \<and> cp_controlId p = i" ack "length after" after]
      assms(4-6) by simp
  then have "\<exists>w'. heartbeatRound lib i None deadline w = (Done (Some SdkError_success), w') \<and>
      ep_calls (cl_endpoint (wo_client w')) = ep_calls e \<and> cl_nextControlId (wo_client w') = cl_nextControlId (wo_client w)"
    using assms
    by (simp add: heartbeatRound_def client_poll_def andThen_def attempt_def invokeProgress_def ret_def endpoint_run_def client_run_def
        endpoint_tryTakeControlNoticeFor_def tryTakeControlNoticeFor_def returnError_def client_do_def change_def Let_def)
  then obtain w' where "heartbeatRound lib i None deadline w = (Done (Some SdkError_success), w')"
    "ep_calls (cl_endpoint (wo_client w')) = ep_calls e" "cl_nextControlId (wo_client w') = cl_nextControlId (wo_client w)" by blast
  with wait_first_round [of "heartbeatRound lib i None deadline" w] show ?thesis by blast
qed

text \<open>The heartbeat of a client that sends the chunks \<open>up\<close> and receives the ACK in its next round.\<close>

lemma heartbeat_acked:
  assumes "heartbeat_ready cap (wo_client w)" and "next_control_id (wo_client w) = i"
    and "\<forall>p\<in>set (co_controlNotices (ep_core (cl_endpoint (wo_client w)))).
        \<not> (cp_opcode p = ControlOpcode_HeartbeatAck \<and> cp_controlId p = i)"
    and sent: "endpoint_sendControlHeartbeat (cl_endpoint (wo_client w)) i =
        (cl_endpoint (wo_client w))\<lparr>ep_core := (ep_core (cl_endpoint (wo_client w)))\<lparr>co_outbound := op'\<rparr>,
           ep_calls := ep_calls (cl_endpoint (wo_client w)) @ map (send_to 0) up\<rparr>"
    and ack: "plain_control ControlOpcode_HeartbeatAck i r" "delivers lib down [encodeControl r]" "concat arrivals = concat down"
    and rounds: "wo_rounds w = \<lparr>rn_arrivals = arrivals, rn_now = now\<rparr> # rounds"
  shows "\<exists>w'. heartbeat lib timeout None w = (Done SdkError_success, w') \<and>
     ep_calls (cl_endpoint (wo_client w')) = ep_calls (cl_endpoint (wo_client w)) @ map (send_to 0) up \<and>
     cl_nextControlId (wo_client w') = i + 1"
proof -
  let ?c = "wo_client w"
  let ?q = "heartbeat_notice ControlOpcode_HeartbeatAck i"
  let ?e = "endpoint_sendControlHeartbeat (cl_endpoint ?c) i"
  let ?w = "w\<lparr>wo_client := ?c\<lparr>cl_nextControlId := i + 1, cl_endpoint := ?e\<rparr>\<rparr>"
  let ?e1 = "?e\<lparr>ep_broker := registerEventHandler (ep_broker ?e) (Some (\<lambda>_ eventPayload. client_emitRaw (cl_eventHandlers ?c) eventPayload))\<rparr>"
  have ready: "heartbeat_possible ?c" "at_rest (cl_endpoint ?c)" using assms(1) by (simp_all add: heartbeat_ready_def)
  have notice: "cp_opcode ?q = ControlOpcode_HeartbeatAck" "cp_controlId ?q = i" "cp_statusCode ?q = ErrorCode_Success"
    by (simp_all add: heartbeat_notice_def)
  have "at_rest ?e1"
    using ready(2) unfolding sent by (simp add: at_rest_def core_at_rest_def broker_at_rest_def registerEventHandler_def)
  from ack_received [OF this ack, of 8 "wo_app w"] obtain e2 where poll: "endpoint_poll lib ?e1 arrivals 8 (wo_app w) = (True, e2, wo_app w)"
    and e2: "co_controlNotices (ep_core e2) = co_controlNotices (ep_core (cl_endpoint ?c)) @ ?q # []" "ep_calls e2 = ep_calls ?e"
    by (simp add: sent)
  let ?d = "wo_now w + milliseconds (if timeout \<le> 0 then 1 else timeout)"
  have "wo_rounds ?w = \<lparr>rn_arrivals = arrivals, rn_now = now\<rparr> # rounds" using rounds by simp
  from round_with_ack [OF this _ e2(1) assms(3) notice, of lib "wo_app w" ?d] poll e2(2)
  have "\<exists>w'. wait_loop (heartbeatRound lib i None ?d) ?w = (Done SdkError_success, w') \<and>
      ep_calls (cl_endpoint (wo_client w')) = ep_calls ?e \<and> cl_nextControlId (wo_client w') = i + 1" by (simp del: if_split)
  with heartbeat_runs [OF ready(1), of lib timeout None] assms(2) show ?thesis by (simp add: sent)
qed

lemma at_rest_handler: "at_rest e \<Longrightarrow> at_rest (e\<lparr>ep_broker := registerEventHandler (ep_broker e) h\<rparr>)"
  by (simp add: at_rest_def broker_at_rest_def registerEventHandler_def)

section \<open>Every heartbeat returns\<close>

lemma nothrow_returnError [nothrow_intros]: "nothrow (returnError e)"
  unfolding returnError_def by (intro nothrow_intros)

lemma heartbeat_nothrow: "nothrow (heartbeat lib timeout hook)"
  unfolding heartbeat_def heartbeatRound_def takeControlId_def by (intro nothrow_intros)

lemma heartbeatRound_prompt: "call_wait.prompt d 1 (wait_loop (heartbeatRound lib controlId hook d))"
  unfolding heartbeatRound_def
  by (intro prompt_wait_loop polls_client_poll ends_by_andThen ends_by_option ends_by_if ends_by_deadline steady_intros)
    (auto intro!: ends_by_ends ends_intros steady_intros)

abbreviation (input) error_reported :: "sdk_error \<Rightarrow> 'u world \<Rightarrow> bool" where
  "error_reported e w \<equiv> cl_lastError (wo_client w) = e"

lemma returnError_reports:
  "establishes P (returnError e) error_reported"
  "establishes P (andThen (returnError e) (\<lambda>e. ret (Some e))) (goes_on I error_reported)"
  by (auto simp: establishes_def returnError_def andThen_Done client_do_def change_def ret_def)

lemma heartbeat_reports: "establishes P (heartbeat lib timeout hook) error_reported"
proof -
  have "establishes anytime (heartbeatRound lib i hook d) (goes_on anytime error_reported)" for i d
    unfolding heartbeatRound_def
    by (intro establishes_anytime_then establishes_if establishes_option returnError_reports establishes_ret) simp
  then have loop: "establishes Q (wait_loop (heartbeatRound lib i hook d)) error_reported" for Q i d by (rule loop_reports)
  show ?thesis
    unfolding heartbeat_def
    by (intro establishes_anytime_then establishes_if returnError_reports loop)
qed

lemma heartbeat_always_returns:
  fixes w :: "'u world"
  assumes "\<exists>r\<in>set (wo_rounds w). wo_now w + milliseconds (if timeout \<le> 0 then 1 else timeout) \<le> rn_now r"
  shows "\<exists>e w'. heartbeat lib timeout hook w = (Done e, w') \<and> error_reported e w'"
proof -
  have "fst (heartbeat lib timeout hook w) \<noteq> Waiting"
  proof (cases "heartbeat_possible (wo_client w)")
    case True
    let ?d = "wo_now w + milliseconds (if timeout \<le> 0 then 1 else timeout)"
    have "1 \<le> length (filter (\<lambda>r. ?d \<le> rn_now r) (wo_rounds w))"
      using assms by (cases "filter (\<lambda>r. ?d \<le> rn_now r) (wo_rounds w)") (auto simp: filter_empty_conv)
    then show ?thesis
      unfolding heartbeat_runs [OF True] using heartbeatRound_prompt [of ?d lib _ hook] unfolding call_wait.prompt_def by simp
  next
    case False
    then obtain e where "heartbeat lib timeout hook w = returnError e w" using heartbeat_refused by blast
    moreover have "steady (returnError e :: ('u world, sdk_error) act)" by (rule steady_hooks)
    ultimately show ?thesis by (simp add: steady_def)
  qed
  moreover have "fst (heartbeat lib timeout hook w) \<noteq> Thrown" using heartbeat_nothrow [of lib timeout hook] by (simp add: nothrow_def)
  ultimately obtain e w' where run: "heartbeat lib timeout hook w = (Done e, w')"
    by (cases "heartbeat lib timeout hook w"; cases "fst (heartbeat lib timeout hook w)") auto
  with establishesD [OF heartbeat_reports [of anytime] _ run] show ?thesis by simp
qed


section \<open>Properties\<close>

text \<open>
  C30. A heartbeat is answered: what a client with an open session and nothing else under way sends for a
  heartbeat, received by the core of its peer in any chunks, makes that core send one ACK; and when the
  bytes of the ACK arrive in the client's next round, in any chunks, the heartbeat returns success, having
  sent nothing else.
\<close>

theorem heartbeat_answered:
  assumes "heartbeat_ready cap (wo_client w)" and "50 \<le> cap"
    and "\<forall>p\<in>set (co_controlNotices (ep_core (cl_endpoint (wo_client w)))).
        \<not> (cp_opcode p = ControlOpcode_HeartbeatAck \<and> cp_controlId p = next_control_id (wo_client w))"
    and "idle (co_inbound peer)" and "framed_port (co_outbound peer) cap'" and "50 \<le> cap'" and "outbound_bytes peer = []"
  shows "\<exists>up. \<forall>chunks arrivals now rounds.
     concat chunks = concat up \<longrightarrow> concat arrivals = concat (outbound_bytes (core_feed lib peer chunks)) \<longrightarrow>
     (\<exists>w'. heartbeat lib timeout None (w\<lparr>wo_rounds := \<lparr>rn_arrivals = arrivals, rn_now = now\<rparr> # rounds\<rparr>) =
          (Done SdkError_success, w') \<and>
        ep_calls (cl_endpoint (wo_client w')) = ep_calls (cl_endpoint (wo_client w)) @ map (send_to 0) up \<and>
        cl_nextControlId (wo_client w') = next_control_id (wo_client w) + 1)"
proof -
  let ?c = "wo_client w"
  let ?i = "next_control_id ?c"
  have rest: "at_rest (cl_endpoint ?c)" "framed_port (co_outbound (ep_core (cl_endpoint ?c))) cap"
    using assms(1) by (simp_all add: heartbeat_ready_def)
  from sendControlHeartbeat_leaves [OF rest assms(2), of ?i lib] obtain op' up p where
    sent: "endpoint_sendControlHeartbeat (cl_endpoint ?c) ?i = (cl_endpoint ?c)\<lparr>ep_core := (ep_core (cl_endpoint ?c))\<lparr>co_outbound := op'\<rparr>,
        ep_calls := ep_calls (cl_endpoint ?c) @ map (send_to 0) up\<rparr>"
    and up: "plain_control ControlOpcode_Heartbeat ?i p" "delivers lib up [encodeControl p]" by blast
  show ?thesis
  proof (intro exI [of _ up] allI impI)
    fix chunks arrivals now rounds
    assume chunks: "concat chunks = concat up" and arrivals: "concat arrivals = concat (outbound_bytes (core_feed lib peer chunks))"
    have "core_feed lib peer chunks = handleControl lib (heartbeat_notice ControlOpcode_Heartbeat ?i) peer"
      using delivers_feed [OF assms(4) up(2) chunks] plain_control_message [OF up(1), of lib]
      by (simp add: receive_messages_def PayloadDecoder_onMessage_def)
    with heartbeat_acknowledged [OF assms(5,6), of lib ?i] assms(7) obtain r where
      "plain_control ControlOpcode_HeartbeatAck ?i r" "delivers lib (outbound_bytes (core_feed lib peer chunks)) [encodeControl r]"
      by auto
    from heartbeat_acked [of cap "w\<lparr>wo_rounds := \<lparr>rn_arrivals = arrivals, rn_now = now\<rparr> # rounds\<rparr>", OF _ _ _ _ this arrivals]
      assms(1,3) sent
    show "\<exists>w'. heartbeat lib timeout None (w\<lparr>wo_rounds := \<lparr>rn_arrivals = arrivals, rn_now = now\<rparr> # rounds\<rparr>) = (Done SdkError_success, w') \<and>
        ep_calls (cl_endpoint (wo_client w')) = ep_calls (cl_endpoint ?c) @ map (send_to 0) up \<and>
        cl_nextControlId (wo_client w') = ?i + 1" by simp
  qed
qed

text \<open>A client with an open session, and the control id 5 for its next heartbeat; a fresh core as its peer.\<close>

definition beating_client :: "control_payload list \<Rightarrow> unit axtp_client" where
  "beating_client notices = plain_client\<lparr>cl_connected := True, cl_negotiatedHeartbeatIntervalMs := Some 1000, cl_nextControlId := 5,
     cl_endpoint := (cl_endpoint plain_client)\<lparr>ep_core := (ep_core (cl_endpoint plain_client))
       \<lparr>co_controlSession := ControlSession_default\<lparr>cs_open := True\<rparr>, co_controlNotices := notices\<rparr>\<rparr>\<rparr>"

definition beating_world :: "control_payload list \<Rightarrow> unit world" where
  "beating_world notices = silent_world\<lparr>wo_client := beating_client notices, wo_rounds := [\<lparr>rn_arrivals = [], rn_now = 1\<rparr>]\<rparr>"

lemma beating_client_ready: "heartbeat_ready 4082 (beating_client notices)" "next_control_id (beating_client notices) = 5"
  "co_controlNotices (ep_core (cl_endpoint (beating_client notices))) = notices"
  using plain_client_simps(7) default_port [of AxtpCore]
  by (simp_all add: heartbeat_ready_def heartbeat_possible_def beating_client_def plain_client_simps(6,8) at_rest_def core_at_rest_def
      TransportProfile_default_def next_control_id_def)

theorem heartbeat_answered_witness:
  "\<exists>up. \<forall>chunks arrivals. concat chunks = concat up \<longrightarrow>
     concat arrivals = concat (outbound_bytes (core_feed braces_lib (fresh_core TransportProfile_default 750) chunks)) \<longrightarrow>
     (\<exists>w'. heartbeat braces_lib 500 None ((beating_world [])\<lparr>wo_rounds := [\<lparr>rn_arrivals = arrivals, rn_now = 1\<rparr>]\<rparr>) =
        (Done SdkError_success, w'))"
proof -
  have "tp_wireMode TransportProfile_default = FramedBinary" "64 \<le> tp_preferredFrameSize TransportProfile_default"
    "50 \<le> tp_preferredFrameSize TransportProfile_default - 14" by (simp_all add: TransportProfile_default_def)
  note peer = fresh_core [OF this(1,2), of 750] this(3)
  have "heartbeat_ready 4082 (wo_client (beating_world []))"
    "\<forall>p\<in>set (co_controlNotices (ep_core (cl_endpoint (wo_client (beating_world []))))).
        \<not> (cp_opcode p = ControlOpcode_HeartbeatAck \<and> cp_controlId p = next_control_id (wo_client (beating_world [])))"
    by (simp_all add: beating_world_def beating_client_ready)
  from heartbeat_answered [OF this(1) _ this(2) peer(2,1,5,3), of braces_lib 500] show ?thesis by fastforce
qed

text \<open>
  C31. Every heartbeat returns: once one round that it may wait for lies past its deadline, it has returned,
  whatever the peer sends and the callbacks do, and what it returns is what the client reports as its last
  error.
\<close>

theorem heartbeat_returns:
  assumes "\<exists>r\<in>set (wo_rounds w). wo_now w + milliseconds (if timeout \<le> 0 then 1 else timeout) \<le> rn_now r"
  shows "\<exists>e w'. heartbeat lib timeout hook w = (Done e, w') \<and> cl_lastError (wo_client w') = e"
  by (rule heartbeat_always_returns [OF assms])

theorem heartbeat_returns_witness:
  "\<exists>e w'. heartbeat braces_lib 500 None silent_world = (Done e, w') \<and> cl_lastError (wo_client w') = e"
  by (rule heartbeat_returns) (simp add: silent_world_def late_round_def milliseconds_def)

text \<open>
  An old ACK passes for an answer: an ACK that arrives after its heartbeat has timed out stays in the
  queue of notices, control ids are used again after 65535 heartbeats, and a heartbeat with the id of such
  an ACK succeeds in its first round although the peer has sent nothing.
\<close>

theorem heartbeat_stale_ack:
  assumes "heartbeat_ready cap (wo_client w)" and "50 \<le> cap"
    and "co_controlNotices (ep_core (cl_endpoint (wo_client w))) = before @ ack # after"
    and "\<forall>p\<in>set before. \<not> (cp_opcode p = ControlOpcode_HeartbeatAck \<and> cp_controlId p = next_control_id (wo_client w))"
    and "cp_opcode ack = ControlOpcode_HeartbeatAck" and "cp_controlId ack = next_control_id (wo_client w)"
    and "cp_statusCode ack = ErrorCode_Success"
    and "wo_rounds w = \<lparr>rn_arrivals = [], rn_now = now\<rparr> # rounds"
  shows "\<exists>w'. heartbeat lib timeout None w = (Done SdkError_success, w')"
proof -
  let ?c = "wo_client w"
  let ?i = "next_control_id ?c"
  have ready: "heartbeat_possible ?c" "at_rest (cl_endpoint ?c)" "framed_port (co_outbound (ep_core (cl_endpoint ?c))) cap"
    using assms(1) by (simp_all add: heartbeat_ready_def)
  from sendControlHeartbeat_leaves [OF ready(2,3) assms(2), of ?i lib] obtain op' up where
    sent: "endpoint_sendControlHeartbeat (cl_endpoint ?c) ?i = (cl_endpoint ?c)\<lparr>ep_core := (ep_core (cl_endpoint ?c))\<lparr>co_outbound := op'\<rparr>,
        ep_calls := ep_calls (cl_endpoint ?c) @ map (send_to 0) up\<rparr>" by blast
  let ?e = "(cl_endpoint ?c)\<lparr>ep_core := (ep_core (cl_endpoint ?c))\<lparr>co_outbound := op'\<rparr>,
        ep_calls := ep_calls (cl_endpoint ?c) @ map (send_to 0) up\<rparr>"
  let ?h = "Some (\<lambda>_ eventPayload. client_emitRaw (cl_eventHandlers ?c) eventPayload)"
  let ?e1 = "?e\<lparr>ep_broker := registerEventHandler (ep_broker ?e) ?h\<rparr>"
  have rest: "at_rest ?e1"
    using ready(2) by (simp add: at_rest_def core_at_rest_def broker_at_rest_def registerEventHandler_def)
  have poll: "endpoint_poll lib ?e1 [] 8 (wo_app w) = (True, ?e1, wo_app w)"
    using progress_idle [OF rest, of lib 8 "wo_app w"] ready(2) by (simp add: endpoint_poll_def at_rest_def)
  let ?w1 = "w\<lparr>wo_client := ?c\<lparr>cl_nextControlId := ?i + 1, cl_endpoint := ?e\<rparr>\<rparr>"
  from round_with_ack [of ?w1 "[]" now rounds lib ?e1 "wo_app w" before ack after ?i, OF _ _ _ assms(4-7)] poll assms(3,8)
  have "\<exists>w'. wait_loop (heartbeatRound lib ?i None (wo_now w + milliseconds (if timeout \<le> 0 then 1 else timeout))) ?w1 =
      (Done SdkError_success, w')" by fastforce
  with heartbeat_runs [OF ready(1), of lib timeout None] sent show ?thesis by simp
qed


theorem heartbeat_stale_ack_witness:
  "\<exists>w'. heartbeat braces_lib 500 None (beating_world [heartbeat_notice ControlOpcode_HeartbeatAck 5]) = (Done SdkError_success, w')"
  by (rule heartbeat_stale_ack [of 4082 _ "[]" "heartbeat_notice ControlOpcode_HeartbeatAck 5" "[]" 1 "[]"])
    (simp_all add: beating_world_def beating_client_ready heartbeat_notice_def)

end
