(* ===== verification/Typed_Calls.thy ===== *)
theory Typed_Calls
  imports Client_Calls
begin

text \<open>
  Typed calls (\<^verbatim>\<open>AxtpClient::callTyped\<close>, \<^verbatim>\<open>call\<close> and \<^verbatim>\<open>makeTypedRequest\<close> of sdk/axtp_client.hpp, with the
  class \<^verbatim>\<open>SchemaCodec\<close> of core/protocol/generated/schema_codec.h). A method's traits are a record with
  what the templates read of \<^verbatim>\<open>MethodTraits<Id>\<close> and the value \<^verbatim>\<open>Response{}\<close>; the type of the requests is
  any type, since the codec does not look at them.

  Shown here: a typed call is a call with a fixed request, whose response is thrown away.
\<close>

section \<open>SchemaCodec\<close>

record 'res method_traits =
  mt_id :: u16
  mt_name :: string
  mt_response :: 'res

definition requestToJson :: "'req \<Rightarrow> json" where
  "requestToJson request = JObject fmempty"

definition fillResponse :: "(string, json) fmap \<Rightarrow> 'res \<Rightarrow> 'res" where
  "fillResponse object response = response"

definition eventToJson :: "'event \<Rightarrow> json" where
  "eventToJson event = JObject fmempty"

text \<open>None where \<^verbatim>\<open>dump\<close> throws.\<close>

definition SchemaCodec_encodeRequest :: "json_lib \<Rightarrow> 'req \<Rightarrow> rpc_encoding \<Rightarrow> bytes option" where
  "SchemaCodec_encodeRequest lib request encoding =
     (if encoding \<noteq> RpcEncoding_Json then Some []
      else map_option bytes_of_string (jl_dump lib (requestToJson request)))"

definition SchemaCodec_decodeResponse ::
    "json_lib \<Rightarrow> 'res method_traits \<Rightarrow> bytes \<Rightarrow> rpc_encoding \<Rightarrow> 'res" where
  "SchemaCodec_decodeResponse lib traits body encoding =
     (let response = mt_response traits in
      if encoding \<noteq> RpcEncoding_Json \<or> body = [] then response
      else (case jl_parse lib (string_of_bytes body) of
              Some (JObject object) \<Rightarrow> fillResponse object response
            | _ \<Rightarrow> response))"

definition SchemaCodec_encodeEvent :: "json_lib \<Rightarrow> 'event \<Rightarrow> rpc_encoding \<Rightarrow> bytes option" where
  "SchemaCodec_encodeEvent lib event encoding =
     (if encoding \<noteq> RpcEncoding_Json then Some []
      else map_option bytes_of_string (jl_dump lib (eventToJson event)))"

section \<open>The calls of the client\<close>

definition makeTypedRequest ::
    "json_lib \<Rightarrow> 'res method_traits \<Rightarrow> 'req \<Rightarrow> 'u call_options \<Rightarrow> rpc_payload option" where
  "makeTypedRequest lib traits request options =
     (let payload = RpcPayload_default;
          payload = payload\<lparr>rp_encoding := ca_encoding options\<rparr>;
          payload = payload\<lparr>rp_op := RpcOp_Request\<rparr>;
          payload = payload\<lparr>rp_methodOrEventId := ucast (mt_id traits)\<rparr>;
          payload = payload\<lparr>rp_bodyEncoding := bodyEncodingForRpcEncoding (ca_encoding options)\<rparr>
      in case SchemaCodec_encodeRequest lib request (ca_encoding options) of
           None \<Rightarrow> None
         | Some body \<Rightarrow>
             (let payload = payload\<lparr>rp_body := body\<rparr>;
                  meta = rp_meta payload;
                  meta = meta\<lparr>pm_sourceProtocol := (if ca_encoding options = RpcEncoding_Json then JsonRpc else AxtpV1)\<rparr>;
                  meta = meta\<lparr>pm_jsonMethodOrEventName := mt_name traits\<rparr>;
                  meta = meta\<lparr>pm_endpoint := ca_endpoint options\<rparr>
              in Some (payload\<lparr>rp_meta := meta\<rparr>)))"

definition callTyped ::
    "json_lib \<Rightarrow> 'res method_traits \<Rightarrow> 'req \<Rightarrow> 'u call_options \<Rightarrow> ('u world, 'res) act" where
  "callTyped lib traits request options =
     (case makeTypedRequest lib traits request options of
        None \<Rightarrow> raise
      | Some payload \<Rightarrow>
          andThen (callRaw lib payload options) (\<lambda>response.
          ret (SchemaCodec_decodeResponse lib traits (rp_body response) (rp_encoding response))))"

definition call_method ::
    "json_lib \<Rightarrow> 'res method_traits \<Rightarrow> 'req \<Rightarrow> 'u call_options \<Rightarrow> ('u world, 'res) act" where
  "call_method lib traits request options = callTyped lib traits request options"

section \<open>Properties\<close>

lemma decodeResponse_default [simp]: "SchemaCodec_decodeResponse lib traits body encoding = mt_response traits"
  by (simp add: SchemaCodec_decodeResponse_def fillResponse_def Let_def split: option.split json.split)

lemma encodeRequest_fixed: "SchemaCodec_encodeRequest lib request encoding = SchemaCodec_encodeRequest lib request' encoding"
  by (simp add: SchemaCodec_encodeRequest_def requestToJson_def)

lemma makeTypedRequest_fixed: "makeTypedRequest lib traits request options = makeTypedRequest lib traits request' options"
  unfolding makeTypedRequest_def encodeRequest_fixed [of lib request _ request'] ..

lemma makeTypedRequest_some:
  "jl_dump lib (JObject fmempty) \<noteq> None \<Longrightarrow> \<exists>payload. makeTypedRequest lib traits request options = Some payload"
  by (auto simp: makeTypedRequest_def SchemaCodec_encodeRequest_def requestToJson_def Let_def)

text \<open>
  A typed call returns - under the same condition as every call - and carries no data in either
  direction: whatever its argument, it puts the same request to \<^verbatim>\<open>callRaw\<close>, with the method's id and name
  and an empty object (or no bytes) as its body, and whatever the response, even an error, it returns the
  default object of the response type.
\<close>

theorem typed_call_blind:
  fixes request :: 'req
  assumes "jl_dump lib (JObject fmempty) = Some text"
    and "4 \<le> length (filter (\<lambda>r. wo_now w + milliseconds (max (ca_timeout options) 0) \<le> rn_now r) (wo_rounds w))"
  shows "\<exists>payload response w'. makeTypedRequest lib traits request options = Some payload \<and>
     rp_methodOrEventId payload = ucast (mt_id traits) \<and> pm_jsonMethodOrEventName (rp_meta payload) = mt_name traits \<and>
     rp_body payload = (if ca_encoding options = RpcEncoding_Json then bytes_of_string text else []) \<and>
     callRaw lib payload options w = (Done response, w') \<and>
     (\<forall>request' :: 'req. call_method lib traits request' options w = (Done (mt_response traits), w'))"
proof -
  obtain payload where p: "makeTypedRequest lib traits request options = Some payload"
    using makeTypedRequest_some [of lib traits request options] assms(1) by auto
  then have "rp_methodOrEventId payload = ucast (mt_id traits) \<and> pm_jsonMethodOrEventName (rp_meta payload) = mt_name traits \<and>
      rp_body payload = (if ca_encoding options = RpcEncoding_Json then bytes_of_string text else [])"
    using assms(1) by (auto simp: makeTypedRequest_def SchemaCodec_encodeRequest_def requestToJson_def Let_def split: if_splits)
  moreover obtain response w' where r: "callRaw lib payload options w = (Done response, w')" using callRaw_returns [OF assms(2)] by blast
  moreover have "call_method lib traits request' options w = (Done (mt_response traits), w')" for request' :: 'req
    using p r makeTypedRequest_fixed [of lib traits request' options request]
    by (simp add: call_method_def callTyped_def andThen_def ret_def)
  ultimately show ?thesis
    by (rule_tac x = payload in exI, rule_tac x = response in exI, rule_tac x = w' in exI) (simp add: p)
qed

theorem typed_call_blind_witness:
  "\<exists>w'. \<forall>request. call_method braces_lib \<lparr>mt_id = 257, mt_name = ''device.getInfo'', mt_response = (0 :: nat)\<rparr>
     (request :: nat) CallOptions_default silent_world = (Done 0, w')"
proof -
  have "4 \<le> length (filter (\<lambda>r. wo_now silent_world + milliseconds (max (ca_timeout CallOptions_default) 0) \<le> rn_now r)
      (wo_rounds silent_world))"
    by (subst silent_rounds) (simp_all add: CallOptions_default_def silent_world_def)
  moreover have "jl_dump braces_lib (JObject fmempty) = Some ''{}''" by (simp add: braces_lib_def)
  ultimately show ?thesis
    using typed_call_blind [of braces_lib "''{}''" silent_world CallOptions_default
        "\<lparr>mt_id = 257, mt_name = ''device.getInfo'', mt_response = (0 :: nat)\<rparr>" "0 :: nat"]
    by fastforce
qed

end
