(* ===== verification/Method_Traits.thy ===== *)
theory Method_Traits
  imports Registry
begin

text \<open>
  The compile-time traits of methods and events (\<^verbatim>\<open>core/protocol/generated/method_traits.h\<close>), which the
  typed calls use: for each specialization the enumerator it is for, the names of its types, and the
  name on the wire. Its id is the enumerator's value.

  Shown here: the traits describe the same methods and events, in the same order and with the same ids,
  names and schemas, as the run-time registries that servers and the JSON wire use.
\<close>

datatype method_trait = MethodTrait (mr_enumerator: string) (mr_request: string) (mr_response: string) (mr_name: string)

datatype event_trait = EventTrait (ev_enumerator: string) (ev_event: string) (ev_name: string)

definition MethodTraits_1 :: "method_trait list" where
  "MethodTraits_1 = [
     MethodTrait ''DeviceGetInfo'' ''GetDeviceInfoParams'' ''DeviceInfo'' ''device.getInfo'',
     MethodTrait ''DeviceGetPairingCode'' ''DeviceGetPairingCodeParams'' ''DevicePairingCodeInfo'' ''device.getPairingCode'',
     MethodTrait ''DeviceGetEnrollmentState'' ''DeviceGetEnrollmentStateParams'' ''DeviceEnrollmentInfo'' ''device.getEnrollmentState'',
     MethodTrait ''DeviceSetEnrollmentState'' ''DeviceSetEnrollmentStateParams'' ''DeviceSetEnrollmentStateResult'' ''device.setEnrollmentState'',
     MethodTrait ''FirmwareGetUpdateCapabilities'' ''Empty'' ''FirmwareUpdateCapabilities'' ''firmware.getUpdateCapabilities'',
     MethodTrait ''FirmwareBeginUpdate'' ''BeginUpdateParams'' ''BeginUpdateResult'' ''firmware.beginUpdate'',
     MethodTrait ''FirmwareGetUpdateState'' ''GetUpdateStateParams'' ''FirmwareUpdateState'' ''firmware.getUpdateState'',
     MethodTrait ''FirmwareFinishUpdate'' ''FinishUpdateParams'' ''FinishUpdateResult'' ''firmware.finishUpdate'',
     MethodTrait ''StreamGetCapabilities'' ''Empty'' ''StreamFlowControlCapabilities'' ''stream.getCapabilities'',
     MethodTrait ''StreamGetState'' ''StreamSelector'' ''StreamState'' ''stream.getState'',
     MethodTrait ''StreamGetStats'' ''StreamSelector'' ''StreamStats'' ''stream.getStats'',
     MethodTrait ''StreamAck'' ''StreamAckParams'' ''StreamAckResult'' ''stream.ack'',
     MethodTrait ''StreamWindowUpdate'' ''StreamWindowUpdateParams'' ''StreamWindowUpdateResult'' ''stream.windowUpdate'',
     MethodTrait ''StreamPause'' ''StreamPauseParams'' ''StreamActionResult'' ''stream.pause'',
     MethodTrait ''StreamResume'' ''StreamResumeParams'' ''StreamActionResult'' ''stream.resume'',
     MethodTrait ''StreamAbort'' ''StreamAbortParams'' ''StreamActionResult'' ''stream.abort'',
     MethodTrait ''VideoOpenStream'' ''VideoOpenStreamParams'' ''VideoOpenStreamResult'' ''video.openStream'',
     MethodTrait ''VideoCloseStream'' ''VideoCloseStreamParams'' ''VideoCloseStreamResult'' ''video.closeStream'']"

definition MethodTraits_2 :: "method_trait list" where
  "MethodTraits_2 = [
     MethodTrait ''VideoGetStreamState'' ''VideoGetStreamStateParams'' ''VideoStreamState'' ''video.getStreamState'',
     MethodTrait ''VideoGetStreamCapabilities'' ''VideoGetStreamCapabilitiesParams'' ''VideoStreamCapabilities'' ''video.getStreamCapabilities'',
     MethodTrait ''VideoGetStreamSourceState'' ''VideoGetStreamSourceStateParams'' ''VideoStreamSourceState'' ''video.getStreamSourceState'',
     MethodTrait ''VideoRequestKeyFrame'' ''VideoRequestKeyFrameParams'' ''VideoRequestKeyFrameResult'' ''video.requestKeyFrame'',
     MethodTrait ''AudioGetAlgorithmConfig'' ''AudioGetAlgorithmConfigRequest'' ''AudioAlgorithmConfig'' ''audio.getAlgorithmConfig'',
     MethodTrait ''AudioSetAlgorithmConfig'' ''AudioSetAlgorithmConfigRequest'' ''AudioSetAlgorithmConfigResponse'' ''audio.setAlgorithmConfig'',
     MethodTrait ''AudioGetAlgorithmCapabilities'' ''AudioGetAlgorithmCapabilitiesRequest'' ''AudioGetAlgorithmCapabilitiesResponse'' ''audio.getAlgorithmCapabilities'',
     MethodTrait ''AudioResetAlgorithmConfig'' ''AudioResetAlgorithmConfigRequest'' ''AudioSetAlgorithmConfigResponse'' ''audio.resetAlgorithmConfig'',
     MethodTrait ''AudioGetStreamCapabilities'' ''AudioGetStreamCapabilitiesParams'' ''AudioStreamCapabilities'' ''audio.getStreamCapabilities'',
     MethodTrait ''AudioOpenStream'' ''AudioOpenStreamParams'' ''AudioOpenStreamResult'' ''audio.openStream'',
     MethodTrait ''AudioCloseStream'' ''AudioCloseStreamParams'' ''AudioCloseStreamResult'' ''audio.closeStream'',
     MethodTrait ''AudioGetStreamState'' ''AudioGetStreamStateParams'' ''AudioStreamState'' ''audio.getStreamState'',
     MethodTrait ''AudioGetStreamSourceState'' ''AudioGetStreamSourceStateParams'' ''AudioStreamSourceState'' ''audio.getStreamSourceState'',
     MethodTrait ''SignageGetPlaylistCapabilities'' ''SignageGetPlaylistCapabilitiesParams'' ''SignagePlaylistCapabilitiesResult'' ''signage.getPlaylistCapabilities'',
     MethodTrait ''SignageGetPlaylistConfig'' ''SignageGetPlaylistConfigParams'' ''SignagePlaylistConfigResult'' ''signage.getPlaylistConfig'',
     MethodTrait ''SignageSetPlaylistConfig'' ''SignageSetPlaylistConfigParams'' ''SignageSetPlaylistConfigResult'' ''signage.setPlaylistConfig'',
     MethodTrait ''SignageResetPlaylistConfig'' ''SignageResetPlaylistConfigParams'' ''SignagePlaylistConfigResult'' ''signage.resetPlaylistConfig'',
     MethodTrait ''SignageGetPlaylistItemUrl'' ''SignageGetPlaylistItemUrlParams'' ''SignageGetPlaylistItemUrlResult'' ''signage.getPlaylistItemUrl'']"

definition MethodTraits_3 :: "method_trait list" where
  "MethodTraits_3 = [
     MethodTrait ''SignageGetPlaylistItem'' ''SignageGetPlaylistItemParams'' ''SignageGetPlaylistItemResult'' ''signage.getPlaylistItem'',
     MethodTrait ''NetworkGetIpConfig'' ''NetworkGetIpConfigParams'' ''NetworkIpConfig'' ''network.getIpConfig'',
     MethodTrait ''NetworkSetIpConfig'' ''NetworkSetIpConfigParams'' ''NetworkSetIpConfigResult'' ''network.setIpConfig'',
     MethodTrait ''NetworkGetWifiConfig'' ''NetworkGetWifiConfigParams'' ''NetworkWifiConfig'' ''network.getWifiConfig'',
     MethodTrait ''NetworkSetWifiConfig'' ''NetworkSetWifiConfigParams'' ''NetworkSetWifiConfigResult'' ''network.setWifiConfig'',
     MethodTrait ''NetworkScanWifi'' ''NetworkScanWifiParams'' ''NetworkScanWifiResult'' ''network.scanWifi'',
     MethodTrait ''NetworkConnectWifi'' ''NetworkConnectWifiParams'' ''NetworkWifiActionResult'' ''network.connectWifi'',
     MethodTrait ''NetworkDisconnectWifi'' ''NetworkDisconnectWifiParams'' ''NetworkWifiActionResult'' ''network.disconnectWifi'',
     MethodTrait ''NetworkGetWifiState'' ''NetworkGetWifiStateParams'' ''NetworkWifiState'' ''network.getWifiState'',
     MethodTrait ''NetworkGetApConfig'' ''NetworkGetApConfigParams'' ''NetworkApConfig'' ''network.getApConfig'',
     MethodTrait ''NetworkSetApConfig'' ''NetworkSetApConfigParams'' ''NetworkSetApConfigResult'' ''network.setApConfig'',
     MethodTrait ''NetworkStartAp'' ''NetworkApActionParams'' ''NetworkApActionResult'' ''network.startAp'',
     MethodTrait ''NetworkStopAp'' ''NetworkApActionParams'' ''NetworkApActionResult'' ''network.stopAp'',
     MethodTrait ''NetworkGetApState'' ''NetworkGetApConfigParams'' ''NetworkApState'' ''network.getApState'',
     MethodTrait ''NetworkGetInterfaces'' ''NetworkGetInterfacesParams'' ''NetworkInterfaces'' ''network.getInterfaces'',
     MethodTrait ''NetworkGetInterfaceInfo'' ''NetworkGetInterfaceInfoParams'' ''NetworkInterfaceInfo'' ''network.getInterfaceInfo'',
     MethodTrait ''NetworkGetWifiCapabilities'' ''NetworkGetWifiCapabilitiesParams'' ''NetworkWifiCapabilities'' ''network.getWifiCapabilities'',
     MethodTrait ''NetworkGetApCapabilities'' ''NetworkGetApCapabilitiesParams'' ''NetworkApCapabilities'' ''network.getApCapabilities'']"

definition MethodTraits_4 :: "method_trait list" where
  "MethodTraits_4 = [
     MethodTrait ''NetworkGetApClients'' ''NetworkGetApConfigParams'' ''NetworkApClients'' ''network.getApClients'',
     MethodTrait ''CastGetSession'' ''CastGetSessionParams'' ''CastSessionState'' ''cast.getSession'',
     MethodTrait ''CastStopSession'' ''CastStopSessionParams'' ''CastStopSessionResult'' ''cast.stopSession'',
     MethodTrait ''CastGetAirPlayName'' ''Empty'' ''CastAirPlayNameState'' ''cast.getAirPlayName'',
     MethodTrait ''CastSetAirPlayName'' ''CastSetAirPlayNameParams'' ''CastAirPlayNameState'' ''cast.setAirPlayName'',
     MethodTrait ''CastGetAudio'' ''CastGetAudioParams'' ''CastAudioState'' ''cast.getAudio'',
     MethodTrait ''CastSetAudio'' ''CastSetAudioParams'' ''CastAudioState'' ''cast.setAudio'',
     MethodTrait ''CastSetMuted'' ''CastSetMutedParams'' ''CastAudioState'' ''cast.setMuted'',
     MethodTrait ''CastGetPinCodeConfig'' ''CastGetPinCodeConfigParams'' ''CastPinCodeConfig'' ''cast.getPinCodeConfig'',
     MethodTrait ''CastSetPinCodeConfig'' ''CastSetPinCodeConfigParams'' ''CastPinCodeConfig'' ''cast.setPinCodeConfig'',
     MethodTrait ''CastSetPinCode'' ''CastSetPinCodeParams'' ''CastPinCodeConfig'' ''cast.setPinCode'',
     MethodTrait ''CastGetWindowState'' ''Empty'' ''CastWindowState'' ''cast.getWindowState'',
     MethodTrait ''CastSetWindowState'' ''CastSetWindowStateParams'' ''CastWindowState'' ''cast.setWindowState'',
     MethodTrait ''CastGetBackendStatus'' ''CastGetBackendStatusParams'' ''CastBackendStatus'' ''cast.getBackendStatus'',
     MethodTrait ''CastRestartBackend'' ''CastRestartBackendParams'' ''CastRestartBackendResult'' ''cast.restartBackend'',
     MethodTrait ''CastGetFlowControlState'' ''CastGetFlowControlStateParams'' ''CastFlowControlState'' ''cast.getFlowControlState'',
     MethodTrait ''CastSetRenderFps'' ''CastSetRenderFpsParams'' ''CastFlowControlState'' ''cast.setRenderFps'',
     MethodTrait ''CastSetFlowPolicy'' ''CastSetFlowPolicyParams'' ''CastFlowControlState'' ''cast.setFlowPolicy'']"

definition MethodTraits_5 :: "method_trait list" where
  "MethodTraits_5 = [
     MethodTrait ''CastGetStatus'' ''CastGetStatusParams'' ''CastStatus'' ''cast.getStatus'',
     MethodTrait ''CastSetAudioDelay'' ''CastSetAudioDelayParams'' ''CastAudioState'' ''cast.setAudioDelay'',
     MethodTrait ''CastSetVideoStreamParams'' ''CastSetVideoStreamParamsParams'' ''CastSetVideoStreamParamsResult'' ''cast.setVideoStreamParams'',
     MethodTrait ''CastGetControlCapabilities'' ''Empty'' ''CastControlCapabilities'' ''cast.getControlCapabilities'',
     MethodTrait ''CastStopPresentation'' ''CastStopPresentationParams'' ''CastControlOperation'' ''cast.stopPresentation'',
     MethodTrait ''CastSetSessionAudioEnabled'' ''CastSetSessionAudioEnabledParams'' ''CastControlOperation'' ''cast.setSessionAudioEnabled'',
     MethodTrait ''CastGetControlOperation'' ''CastGetControlOperationParams'' ''CastControlOperation'' ''cast.getControlOperation'',
     MethodTrait ''CastSetPresentationSettings'' ''CastSetPresentationSettingsParams'' ''CastControlOperation'' ''cast.setPresentationSettings'',
     MethodTrait ''CastGetWebCastBackendState'' ''CastGetWebCastBackendStateParams'' ''CastWebCastBackendSnapshot'' ''cast.getWebCastBackendState'',
     MethodTrait ''CastSetPresentationFocus'' ''CastSetPresentationFocusParams'' ''CastControlOperation'' ''cast.setPresentationFocus'',
     MethodTrait ''SoftwareGetConfig'' ''SoftwareGetConfigParams'' ''SoftwareConfig'' ''software.getConfig'',
     MethodTrait ''SoftwareSetConfig'' ''SoftwareSetConfigParams'' ''SoftwareSetConfigResult'' ''software.setConfig'',
     MethodTrait ''SoftwareResetConfig'' ''SoftwareResetConfigParams'' ''SoftwareConfig'' ''software.resetConfig'',
     MethodTrait ''SoftwareGetUpdatePolicy'' ''SoftwareGetUpdatePolicyParams'' ''SoftwareUpdatePolicy'' ''software.getUpdatePolicy'',
     MethodTrait ''SoftwareSetUpdatePolicy'' ''SoftwareSetUpdatePolicyParams'' ''SoftwareSetUpdatePolicyResult'' ''software.setUpdatePolicy'',
     MethodTrait ''SoftwareResetUpdatePolicy'' ''SoftwareResetUpdatePolicyParams'' ''SoftwareUpdatePolicy'' ''software.resetUpdatePolicy'',
     MethodTrait ''SportGetEventDetectionCapabilities'' ''GetEventDetectionCapabilitiesParams'' ''GetEventDetectionCapabilitiesResult'' ''sport.getEventDetectionCapabilities'',
     MethodTrait ''SportGetEventDetectionConfig'' ''GetEventDetectionConfigParams'' ''SportEventDetectionState'' ''sport.getEventDetectionConfig'']"

definition MethodTraits_6 :: "method_trait list" where
  "MethodTraits_6 = [
     MethodTrait ''SportSetEventDetectionConfig'' ''SetEventDetectionConfigParams'' ''SetEventDetectionConfigResult'' ''sport.setEventDetectionConfig'',
     MethodTrait ''SportGetGoalShotWatermarkConfig'' ''SportConfigTargetParams'' ''SportGoalShotWatermarkConfig'' ''sport.getGoalShotWatermarkConfig'',
     MethodTrait ''SportSetGoalShotWatermarkConfig'' ''SportSetGoalShotWatermarkConfigParams'' ''Empty'' ''sport.setGoalShotWatermarkConfig'',
     MethodTrait ''SportGetEventClipConfig'' ''SportConfigTargetParams'' ''SportEventClipConfig'' ''sport.getEventClipConfig'',
     MethodTrait ''SportSetEventClipConfig'' ''SportSetEventClipConfigParams'' ''Empty'' ''sport.setEventClipConfig'']"

definition MethodTraits_table :: "method_trait list" where
  "MethodTraits_table = MethodTraits_1 @ MethodTraits_2 @ MethodTraits_3 @ MethodTraits_4 @ MethodTraits_5 @ MethodTraits_6"

lemmas MethodTraits_tables = MethodTraits_table_def MethodTraits_1_def MethodTraits_2_def MethodTraits_3_def MethodTraits_4_def MethodTraits_5_def MethodTraits_6_def

definition EventTraits_1 :: "event_trait list" where
  "EventTraits_1 = [
     EventTrait ''DeviceEnrollmentStateChanged'' ''DeviceEnrollmentStateChangedEvent'' ''device.enrollmentStateChanged'',
     EventTrait ''FirmwareUpdateProgressReported'' ''FirmwareUpdateProgressEvent'' ''firmware.updateProgressReported'',
     EventTrait ''FirmwareUpdateStateChanged'' ''FirmwareUpdateStateChangedEvent'' ''firmware.updateStateChanged'',
     EventTrait ''StreamStateChanged'' ''StreamStateChangedEvent'' ''stream.stateChanged'',
     EventTrait ''StreamStatsReported'' ''StreamStatsReportedEvent'' ''stream.statsReported'',
     EventTrait ''StreamFlowControlChanged'' ''StreamFlowControlChangedEvent'' ''stream.flowControlChanged'',
     EventTrait ''StreamClockReport'' ''StreamClockReportEvent'' ''stream.clockReport'',
     EventTrait ''VideoStreamStateChanged'' ''VideoStreamStateChangedEvent'' ''video.streamStateChanged'',
     EventTrait ''VideoStreamSourceStateChanged'' ''VideoStreamSourceStateChangedEvent'' ''video.streamSourceStateChanged'',
     EventTrait ''VideoStreamStatsReported'' ''VideoStreamStatsReportedEvent'' ''video.streamStatsReported'',
     EventTrait ''AudioAlgorithmConfigChanged'' ''AudioAlgorithmConfigChangedEvent'' ''audio.algorithmConfigChanged'',
     EventTrait ''AudioStreamStateChanged'' ''AudioStreamStateChangedEvent'' ''audio.streamStateChanged'',
     EventTrait ''AudioStreamSourceStateChanged'' ''AudioStreamSourceStateChangedEvent'' ''audio.streamSourceStateChanged'',
     EventTrait ''AudioStreamStatsReported'' ''AudioStreamStatsReportedEvent'' ''audio.streamStatsReported'',
     EventTrait ''SignagePlaylistConfigChanged'' ''SignagePlaylistConfigChangedEvent'' ''signage.playlistConfigChanged'',
     EventTrait ''NetworkInterfaceStateChanged'' ''NetworkInterfaceStateChangedEvent'' ''network.interfaceStateChanged'',
     EventTrait ''NetworkIpConfigChanged'' ''NetworkIpConfigChangedEvent'' ''network.ipConfigChanged'',
     EventTrait ''NetworkWifiConfigChanged'' ''NetworkWifiConfigChangedEvent'' ''network.wifiConfigChanged'',
     EventTrait ''NetworkWifiStateChanged'' ''NetworkWifiStateChangedEvent'' ''network.wifiStateChanged'',
     EventTrait ''NetworkWifiScanResultReported'' ''NetworkWifiScanResultReportedEvent'' ''network.wifiScanResultReported'',
     EventTrait ''NetworkApConfigChanged'' ''NetworkApConfigChangedEvent'' ''network.apConfigChanged'']"

definition EventTraits_2 :: "event_trait list" where
  "EventTraits_2 = [
     EventTrait ''NetworkApStateChanged'' ''NetworkApStateChangedEvent'' ''network.apStateChanged'',
     EventTrait ''NetworkApClientChanged'' ''NetworkApClientChangedEvent'' ''network.apClientChanged'',
     EventTrait ''CastSessionIncoming'' ''CastSessionIncomingEvent'' ''cast.sessionIncoming'',
     EventTrait ''CastSessionStateChanged'' ''CastSessionStateChangedEvent'' ''cast.sessionStateChanged'',
     EventTrait ''CastSessionStarted'' ''CastSessionStartedEvent'' ''cast.sessionStarted'',
     EventTrait ''CastSessionStopped'' ''CastSessionStoppedEvent'' ''cast.sessionStopped'',
     EventTrait ''CastSessionFailed'' ''CastSessionFailedEvent'' ''cast.sessionFailed'',
     EventTrait ''CastAudioChanged'' ''CastAudioChangedEvent'' ''cast.audioChanged'',
     EventTrait ''CastPinCodeChanged'' ''CastPinCodeChangedEvent'' ''cast.pinCodeChanged'',
     EventTrait ''CastPinCodeRequired'' ''CastPinCodeRequiredEvent'' ''cast.pinCodeRequired'',
     EventTrait ''CastPinCodeAuthFailed'' ''CastPinCodeAuthFailedEvent'' ''cast.pinCodeAuthFailed'',
     EventTrait ''CastWindowChanged'' ''CastWindowChangedEvent'' ''cast.windowChanged'',
     EventTrait ''CastBackendChanged'' ''CastBackendChangedEvent'' ''cast.backendChanged'',
     EventTrait ''CastFlowControlChanged'' ''CastFlowControlChangedEvent'' ''cast.flowControlChanged'',
     EventTrait ''CastReceiversChanged'' ''CastReceiversChangedEvent'' ''cast.receiversChanged'',
     EventTrait ''CastSessionsChanged'' ''CastSessionsChangedEvent'' ''cast.sessionsChanged'',
     EventTrait ''CastPresentationChanged'' ''CastPresentationChangedEvent'' ''cast.presentationChanged'',
     EventTrait ''CastAudioPolicyChanged'' ''CastAudioPolicyChangedEvent'' ''cast.audioPolicyChanged'',
     EventTrait ''CastControlOperationChanged'' ''CastControlOperationChangedEvent'' ''cast.controlOperationChanged'',
     EventTrait ''CastPresentationSettingsChanged'' ''CastPresentationSettingsChangedEvent'' ''cast.presentationSettingsChanged'',
     EventTrait ''CastWebcastBackendChanged'' ''CastWebCastBackendSnapshot'' ''cast.webcastBackendChanged'']"

definition EventTraits_3 :: "event_trait list" where
  "EventTraits_3 = [
     EventTrait ''CastAirplayChanged'' ''CastAirPlayChangedEvent'' ''cast.airplayChanged'',
     EventTrait ''SoftwareConfigChanged'' ''SoftwareConfigChangedEvent'' ''software.configChanged'',
     EventTrait ''SoftwareUpdatePolicyChanged'' ''SoftwareUpdatePolicyChangedEvent'' ''software.updatePolicyChanged'',
     EventTrait ''SportEventDetectionStateChanged'' ''SportEventDetectionStateChangedEvent'' ''sport.eventDetectionStateChanged'',
     EventTrait ''SportEventDetected'' ''SportEventDetectedEvent'' ''sport.eventDetected'']"

definition EventTraits_table :: "event_trait list" where
  "EventTraits_table = EventTraits_1 @ EventTraits_2 @ EventTraits_3"

lemmas EventTraits_tables = EventTraits_table_def EventTraits_1_def EventTraits_2_def EventTraits_3_def

text \<open>\<^verbatim>\<open>static constexpr std::uint16_t id\<close>, through the enumeration.\<close>

definition method_trait_id :: "method_trait \<Rightarrow> u16 option" where
  "method_trait_id t = map_of MethodId_enum (mr_enumerator t)"

definition event_trait_id :: "event_trait \<Rightarrow> u16 option" where
  "event_trait_id t = map_of EventId_enum (ev_enumerator t)"

section \<open>Traits and registries\<close>

lemma map_pairs: "map f xs = map g ys \<Longrightarrow> map h xs = map k ys \<Longrightarrow> map (\<lambda>x. (f x, h x)) xs = map (\<lambda>y. (g y, k y)) ys"
  by (auto simp: list_eq_iff_nth_eq)

lemma map_of_own: "distinct (map fst xs) \<Longrightarrow> map (map_of xs) (map fst xs) = map (Some \<circ> snd) xs"
  by (auto simp: map_of_eq_Some_iff)

lemma method_enumerators_distinct: "distinct (map fst MethodId_enum)"
  by (rule distinct_names) (simp add: MethodId_enum_def name_key_def)

lemma event_enumerators_distinct: "distinct (map fst EventId_enum)"
  by (rule distinct_names) (simp add: EventId_enum_def name_key_def)

lemma traits_enumerators:
  "map mr_enumerator MethodTraits_table = map fst MethodId_enum" "map ev_enumerator EventTraits_table = map fst EventId_enum"
  by (simp_all add: MethodTraits_tables MethodId_enum_def EventTraits_tables EventId_enum_def)

lemma enum_ids: "map snd MethodId_enum = map md_id kMethodRegistry" "map snd EventId_enum = map ed_id kEventRegistry"
  by (simp_all add: kMethodRegistry_def MethodId_enum_def kEventRegistry_def EventId_enum_def)

lemma trait_ids:
  "map method_trait_id MethodTraits_table = map (Some \<circ> md_id) kMethodRegistry"
  "map event_trait_id EventTraits_table = map (Some \<circ> ed_id) kEventRegistry"
  using map_of_own [OF method_enumerators_distinct] map_of_own [OF event_enumerators_distinct]
  unfolding traits_enumerators [symmetric] map_map [symmetric] enum_ids
  by (simp_all add: method_trait_id_def [abs_def] event_trait_id_def [abs_def] comp_def)

text \<open>
  A typed call and a call by name mean the same method: the compile-time traits list the methods and
  events of the registries, in their order, with the same ids, names and schemas.
\<close>

theorem traits_match_registries:
  "map (\<lambda>t. (method_trait_id t, mr_name t, mr_request t, mr_response t)) MethodTraits_table =
     map (\<lambda>d. (Some (md_id d), md_name d, md_request_schema d, md_response_schema d)) kMethodRegistry \<and>
   map (\<lambda>t. (event_trait_id t, ev_name t, ev_event t)) EventTraits_table =
     map (\<lambda>d. (Some (ed_id d), ed_name d, ed_event_schema d)) kEventRegistry"
proof -
  have "map (\<lambda>t. (mr_name t, mr_request t, mr_response t)) MethodTraits_table =
      map (\<lambda>d. (md_name d, md_request_schema d, md_response_schema d)) kMethodRegistry"
    "map (\<lambda>t. (ev_name t, ev_event t)) EventTraits_table = map (\<lambda>d. (ed_name d, ed_event_schema d)) kEventRegistry"
    by (simp_all add: MethodTraits_tables kMethodRegistry_def EventTraits_tables kEventRegistry_def)
  from map_pairs [OF trait_ids(1) [unfolded comp_def] this(1)] map_pairs [OF trait_ids(2) [unfolded comp_def] this(2)]
  show ?thesis by simp
qed

end
