(* ===== verification/Sdk_Facades.thy ===== *)
theory Sdk_Facades
  imports Typed_Calls Method_Traits Peer
begin

text \<open>
  The small classes around the client (\<^verbatim>\<open>sdk/generated/audio_client.h\<close>, \<^verbatim>\<open>sdk/capability_client.hpp\<close>,
  \<^verbatim>\<open>sdk/stream_client.hpp\<close>, \<^verbatim>\<open>sdk/sdk_result.hpp\<close>, \<^verbatim>\<open>sdk/event_subscription.hpp\<close>, \<^verbatim>\<open>sdk/endpoints.hpp\<close>),
  the session context (\<^verbatim>\<open>core/protocol/session/session_context.hpp\<close>) and the transport of the tests
  (\<^verbatim>\<open>core/runtime/testing/mock_transport.hpp\<close>). \<^verbatim>\<open>AxtpDevice\<close> is an \<^verbatim>\<open>AudioClient\<close> and a
  \<^verbatim>\<open>CapabilityClient\<close> of one client; both have no state of their own.

  Shown here: the methods of the audio client are those of the registry, and a mock transport hands out
  what an endpoint sent, in order, and delivers what is injected.
\<close>

section \<open>AudioClient\<close>

text \<open>\<^verbatim>\<open>MethodTraits<Id>\<close>, with its \<^verbatim>\<open>Response{}\<close>.\<close>

definition MethodTraits_of :: "string \<Rightarrow> 'res \<Rightarrow> 'res method_traits option" where
  "MethodTraits_of enumerator response =
     (case List.find (\<lambda>t. mr_enumerator t = enumerator) MethodTraits_table of
        None \<Rightarrow> None
      | Some t \<Rightarrow> map_option (\<lambda>i. \<lparr>mt_id = i, mt_name = mr_name t, mt_response = response\<rparr>) (method_trait_id t))"

definition getAlgorithmConfig :: "json_lib \<Rightarrow> 'res \<Rightarrow> 'req \<Rightarrow> 'u call_options \<Rightarrow> ('u world, 'res) act" where
  "getAlgorithmConfig lib response request options =
     call_method lib (the (MethodTraits_of ''AudioGetAlgorithmConfig'' response)) request options"

definition getAlgorithmCapabilities :: "json_lib \<Rightarrow> 'res \<Rightarrow> 'req \<Rightarrow> 'u call_options \<Rightarrow> ('u world, 'res) act" where
  "getAlgorithmCapabilities lib response request options =
     call_method lib (the (MethodTraits_of ''AudioGetAlgorithmCapabilities'' response)) request options"

definition setAlgorithmConfig :: "json_lib \<Rightarrow> 'res \<Rightarrow> 'req \<Rightarrow> 'u call_options \<Rightarrow> ('u world, 'res) act" where
  "setAlgorithmConfig lib response request options =
     call_method lib (the (MethodTraits_of ''AudioSetAlgorithmConfig'' response)) request options"

definition resetAlgorithmConfig :: "json_lib \<Rightarrow> 'res \<Rightarrow> 'req \<Rightarrow> 'u call_options \<Rightarrow> ('u world, 'res) act" where
  "resetAlgorithmConfig lib response request options =
     call_method lib (the (MethodTraits_of ''AudioResetAlgorithmConfig'' response)) request options"

section \<open>CapabilityClient, StreamClient\<close>

definition capability_methods :: "method_descriptor list" where
  "capability_methods = kMethodRegistry"

record stream_client =
  sc_lastPayload :: stream_payload

definition StreamClient :: stream_client where
  "StreamClient = \<lparr>sc_lastPayload = StreamPayload_default\<rparr>"

definition onStreamData :: "stream_client \<Rightarrow> stream_payload \<Rightarrow> stream_client" where
  "onStreamData c payload = c\<lparr>sc_lastPayload := payload\<rparr>"

definition lastPayload :: "stream_client \<Rightarrow> stream_payload" where
  "lastPayload c = sc_lastPayload c"

section \<open>SdkResult, EventSubscription\<close>

record 'a sdk_result =
  sr_error :: sdk_error
  sr_value :: 'a

definition SdkResult_ok :: "'a sdk_result \<Rightarrow> bool" where
  "SdkResult_ok r = SdkError_ok (sr_error r)"

definition SdkResult_success :: "'a \<Rightarrow> 'a sdk_result" where
  "SdkResult_success v = \<lparr>sr_error = SdkError_success, sr_value = v\<rparr>"

text \<open>\<open>initial\<close> is the value \<^verbatim>\<open>T{}\<close>.\<close>

definition SdkResult_failure :: "'a \<Rightarrow> error_code \<Rightarrow> string \<Rightarrow> 'a sdk_result" where
  "SdkResult_failure initial code message = \<lparr>sr_error = SdkError_failure code message, sr_value = initial\<rparr>"

record 'u event_subscription =
  es_eventId :: u16
  es_handler :: "(rpc_payload \<Rightarrow> 'u \<Rightarrow> unit option \<times> 'u) option"

definition EventSubscription_default :: "'u event_subscription" where
  "EventSubscription_default = \<lparr>es_eventId = 0, es_handler = None\<rparr>"

section \<open>Endpoints\<close>

record tcp_endpoint =
  tcp_host :: string
  tcp_port :: u16

definition TcpEndpoint_default :: tcp_endpoint where
  "TcpEndpoint_default = \<lparr>tcp_host = ''127.0.0.1'', tcp_port = 0\<rparr>"

record websocket_endpoint =
  ws_url :: string
  ws_wireMode :: wire_mode

definition WebSocketEndpoint_default :: websocket_endpoint where
  "WebSocketEndpoint_default = \<lparr>ws_url = '''', ws_wireMode = WebSocketJsonRpc\<rparr>"

record hid_endpoint =
  hid_vendorId :: u16
  hid_productId :: u16
  hid_serialNumber :: string
  hid_reportId :: byte
  hid_inputReportSize :: nat
  hid_outputReportSize :: nat
  hid_maxReportsPerPoll :: nat

definition HidEndpoint_default :: hid_endpoint where
  "HidEndpoint_default = \<lparr>hid_vendorId = 0, hid_productId = 0, hid_serialNumber = '''', hid_reportId = 0,
     hid_inputReportSize = 64, hid_outputReportSize = 64, hid_maxReportsPerPoll = 16\<rparr>"

record ble_endpoint =
  ble_deviceId :: string
  ble_serviceUuid :: string
  ble_characteristicUuid :: string

definition BleEndpoint_default :: ble_endpoint where
  "BleEndpoint_default = \<lparr>ble_deviceId = '''', ble_serviceUuid = '''', ble_characteristicUuid = ''''\<rparr>"

record uart_endpoint =
  uart_path :: string
  uart_baudRate :: u32

definition UartEndpoint_default :: uart_endpoint where
  "UartEndpoint_default = \<lparr>uart_path = '''', uart_baudRate = 115200\<rparr>"

section \<open>SessionContext\<close>

record session_context =
  sx_sessionId :: u32
  sx_transportProfile :: transport_profile
  sx_selectedEncoding :: rpc_encoding

definition SessionContext_default :: session_context where
  "SessionContext_default = \<lparr>sx_sessionId = 0, sx_transportProfile = TransportProfile_default,
     sx_selectedEncoding = jsonBinaryRpcEncoding\<rparr>"

section \<open>MockTransport\<close>

text \<open>The sink is the endpoint's: the pointer is a flag, and the endpoint an argument.\<close>

record mock_transport =
  mk_bound :: bool
  mk_outgoing :: "bytes list"
  mk_open :: bool
  mk_profile :: transport_profile

definition MockTransport :: mock_transport where
  "MockTransport = \<lparr>mk_bound = False, mk_outgoing = [], mk_open = False,
     mk_profile = \<lparr>tp_kind = TK_Mock, tp_wireMode = FramedBinary, tp_defaultRpcEncoding = jsonBinaryRpcEncoding,
       tp_messageOriented = False, tp_supportsTextMessage = False, tp_supportsBinaryMessage = True,
       tp_preferredFrameSize = 4096\<rparr>\<rparr>"

definition mock_profile :: "mock_transport \<Rightarrow> transport_profile" where
  "mock_profile t = mk_profile t"

definition mock_bind :: "mock_transport \<Rightarrow> mock_transport" where
  "mock_bind t = t\<lparr>mk_bound := True\<rparr>"

definition mock_open :: "mock_transport \<Rightarrow> mock_transport" where
  "mock_open t = t\<lparr>mk_open := True\<rparr>"

definition mock_close :: "mock_transport \<Rightarrow> mock_transport" where
  "mock_close t = t\<lparr>mk_open := False\<rparr>"

definition isOpen :: "mock_transport \<Rightarrow> bool" where
  "isOpen t = mk_open t"

definition injectIncoming :: "json_lib \<Rightarrow> mock_transport \<Rightarrow> 'u axtp_endpoint \<Rightarrow> bytes \<Rightarrow> 'u axtp_endpoint" where
  "injectIncoming lib t e data = (if mk_bound t then onTransportBytes lib e data else e)"

definition mock_sendBytes :: "mock_transport \<Rightarrow> bytes \<Rightarrow> mock_transport" where
  "mock_sendBytes t data = t\<lparr>mk_outgoing := mk_outgoing t @ [data]\<rparr>"

text \<open>The default of \<^verbatim>\<open>ITransport\<close>, which ignores the target.\<close>

definition mock_sendBytesTo :: "mock_transport \<Rightarrow> u64 \<Rightarrow> bytes \<Rightarrow> mock_transport" where
  "mock_sendBytesTo t replyTarget data = mock_sendBytes t data"

definition tryPopOutgoing :: "mock_transport \<Rightarrow> bytes option \<times> mock_transport" where
  "tryPopOutgoing t =
     (case mk_outgoing t of [] \<Rightarrow> (None, t) | data # rest \<Rightarrow> (Some data, t\<lparr>mk_outgoing := rest\<rparr>))"

fun mock_call :: "transport_call \<Rightarrow> mock_transport \<Rightarrow> mock_transport" where
  "mock_call (SendBytes data) t = mock_sendBytes t data"
| "mock_call (SendBytesTo target data) t = mock_sendBytesTo t target data"

section \<open>What they do\<close>

lemma traits_found:
  assumes "MethodTraits_of e response = Some traits"
  shows "\<exists>d\<in>set kMethodRegistry. mt_id traits = md_id d \<and> mt_name traits = md_name d"
proof -
  obtain t where t: "t \<in> set MethodTraits_table" "method_trait_id t = Some (mt_id traits)" "mt_name traits = mr_name t"
    using assms by (auto simp: MethodTraits_of_def dest!: find_mem split: option.splits)
  from t(1) have "(method_trait_id t, mr_name t, mr_request t, mr_response t) \<in>
      set (map (\<lambda>t. (method_trait_id t, mr_name t, mr_request t, mr_response t)) MethodTraits_table)" by simp
  then show ?thesis unfolding traits_match_registries [THEN conjunct1] using t(2,3) by auto
qed

lemma default_names: "d \<in> set kMethodRegistry \<Longrightarrow> findMethodName fromGeneratedDefaults (ucast (md_id d)) = Some (md_name d)"
proof -
  assume d: "d \<in> set kMethodRegistry"
  have adds: "fromGeneratedDefaults =
      foldl (\<lambda>r (i, n). addMethod r i n) MethodRegistry_empty (map (\<lambda>m. (ucast (md_id m), md_name m)) kMethodRegistry)"
    by (simp add: fromGeneratedDefaults_def foldl_map)
  have inv: "registry_inv fromGeneratedDefaults" unfolding adds by (intro registry_inv_adds registry_inv_empty)
  have "methodIdByName (md_name d) = Some (md_id d)"
    using d find_unique [OF method_names_distinct, of "md_name d" d] by (simp add: methodIdByName_def)
  with generated_defaults_lookup [of "md_name d"] registry_inv_lookup [OF inv] show ?thesis
    by (simp add: findMethodName_def findMethodId_def)
qed

text \<open>A request made by a typed call carries an id and a name that belong together in a server's registry.\<close>

lemma typed_request_registered:
  assumes "MethodTraits_of e response = Some traits" and "makeTypedRequest lib traits request options = Some p"
  shows "findMethodName fromGeneratedDefaults (rp_methodOrEventId p) = Some (pm_jsonMethodOrEventName (rp_meta p))"
proof -
  obtain d where d: "d \<in> set kMethodRegistry" "mt_id traits = md_id d" "mt_name traits = md_name d"
    using traits_found [OF assms(1)] by blast
  have "rp_methodOrEventId p = ucast (md_id d)" "pm_jsonMethodOrEventName (rp_meta p) = md_name d"
    using assms(2) d(2,3) by (auto simp: makeTypedRequest_def Let_def split: option.splits)
  with default_names [OF d(1)] show ?thesis by simp
qed

lemma mock_call_eq: "mock_call call t = t\<lparr>mk_outgoing := mk_outgoing t @ [call_data call]\<rparr>"
  by (cases call) (simp_all add: mock_sendBytes_def mock_sendBytesTo_def)

text \<open>An endpoint's calls on a mock transport: what is popped is what was sent, in order.\<close>

lemma mock_calls: "fold mock_call calls t = t\<lparr>mk_outgoing := mk_outgoing t @ map call_data calls\<rparr>"
  by (induction calls arbitrary: t) (simp_all add: mock_call_eq)

end
