(* ===== verification/Spec2Isabelle.thy ===== *)
theory Spec2Isabelle
  imports Core_Handshake Endpoint Server_Calls Connection Ws_Adapter Client_Session Registry_Json Endpoint_Id Schema_Agreement Heartbeat Sdk_Facades
begin

text \<open>
  The AXTP runtime: a model of the C++ library under \<^verbatim>\<open>src/include/\<close> and what is proved of it. Paths
  below are relative to that directory.

  \<^bold>\<open>The program.\<close> AXTP carries remote calls, streams and session control between two endpoints, over
  byte transports (a framed binary wire) or message transports (JSON-RPC text). From the bottom up:

  \<^item> byte buffers, readers, writers and checksums (\<^verbatim>\<open>core/support/io/\<close>): theories \<open>Byte_IO\<close>, \<open>Crc16\<close>;
  \<^item> the structures of the protocol (\<^verbatim>\<open>core/protocol/model/\<close>): \<open>Axtp_Model\<close>, with the machine types and the
    generic lemmas in \<open>Axtp_Prelude\<close>;
  \<^item> the framed wire (\<^verbatim>\<open>core/protocol/wire/framed_binary/\<close>): frames in \<open>Framing\<close>, their composition to
    messages in \<open>Fragmentation\<close>, the options of control messages in \<open>Control_Tlv\<close>, payloads and the chains
    of all layers in \<open>Wire_Processors\<close>;
  \<^item> the JSON wire (\<^verbatim>\<open>core/protocol/wire/websocket_json_rpc/\<close>): \<open>Json_Rpc\<close>; objects that follow a schema
    (\<^verbatim>\<open>core/protocol/wire/schema_object_codec.hpp\<close>): \<open>Schema_Codec\<close>;
  \<^item> the generated tables of schemas (\<^verbatim>\<open>core/protocol/generated/\<close>): the facts that the schema codec reads in
    \<open>Schema_Facts\<close>, the descriptors in \<open>Schema_Tables\<close>, the structures and field ids in \<open>Schema_Types\<close>, all of
    them side by side in \<open>Schema_Agreement\<close>;
  \<^item> sessions (\<^verbatim>\<open>core/protocol/session/\<close>): \<open>Control_Session\<close>, \<open>Pending_Calls\<close>; identities
    (\<^verbatim>\<open>core/protocol/endpoint/\<close>): \<open>Endpoint_Id\<close>; the generated tables of methods, events and errors
    (\<^verbatim>\<open>core/protocol/generated/\<close>): \<open>Registry\<close>;
  \<^item> the runtime (\<^verbatim>\<open>core/runtime/\<close>): the core, which owns the wire and the sessions, in \<open>Core_Runtime\<close>; the
    broker, which runs the application's handlers, in \<open>Broker\<close>; the endpoint that drives both and a
    transport, in \<open>Endpoint\<close>;
  \<^item> the SDK (\<^verbatim>\<open>sdk/\<close>): client and server in \<open>Client\<close>, typed calls in \<open>Typed_Calls\<close>, the traits they
    read in \<open>Method_Traits\<close>, the small classes around them in \<open>Sdk_Facades\<close>;
  \<^item> JSON-RPC over WebSockets (\<^verbatim>\<open>json_rpc/\<close>): the adapter in \<open>Ws_Adapter\<close>, the client's session in
    \<open>Client_Session\<close>, registries read from files in \<open>Registry_Json\<close> and the number texts in them in
    \<open>Number_Text\<close>.

  \<^bold>\<open>How the parts interact.\<close> Bytes that arrive go from \<open>onTransportBytes\<close> through \<open>FrameDecoder_onBytes\<close>,
  \<open>MessageReassembler_onFrame\<close> and \<open>PayloadDecoder_onMessage\<close> to \<open>handlePayload\<close>, which answers control
  messages itself, keeps responses in the table of pending calls and queues requests, events and streams.
  \<open>progress\<close> moves the queued events to the broker as tasks, lets it run, hands its results back to the
  core for encoding, and gives the packets of the core to the transport. A synchronous call of the client
  (\<open>callRaw\<close>) brings the session up, reserves a request id, sends and then polls its endpoint until the
  response is in the table, a callback stops it or the deadline has passed. The C++ callbacks between
  these classes (\<^verbatim>\<open>IPayloadSink\<close>, \<^verbatim>\<open>IByteWriter\<close>, \<^verbatim>\<open>std::function\<close>) are function arguments that act on a
  state of their own.

  \<^bold>\<open>How the model is written.\<close> A class is a record, a member function a function that returns the new
  record; integers keep their width as words; an exception is \<open>None\<close>, \<open>Thrown\<close> or a flag, and what the code
  has changed by then stays changed. An enumeration that comes from the wire is a word, since the
  decoders accept any number. Waiting code is written with the actions of \<open>Wait_Monad\<close>: an action returns,
  throws, or is still waiting when the rounds of its world are used up.

  \<^bold>\<open>Parameters.\<close> The JSON library (\<open>json_lib\<close>: parsing, printing, the conversion of floating point numbers)
  is one, with any behaviour; where a theorem needs it to read what it has printed, or to print an object,
  it says so. So are the transport (its profile, its reply targets and what arrives), the clock (the rounds of a
  world), the handlers, validators and callbacks of the application (functions on its state \<open>'u\<close>, which
  may throw), and the random seeds. The theorems on the schema codec hold for any table of schema facts;
  \<open>Schema_Facts\<close> has the generated one, and shows that it is as they ask.

  \<^bold>\<open>What is shown.\<close>

  \<^item> The wire. Frames come back from their bytes in any chunks and with noise between them, and nothing is
    delivered that does not have a correct header and checksum; a burst of errors up to sixteen bits is
    noticed (\<open>Framing\<close>, over the linearity of the checksum in \<open>Crc16\<close>). Messages come back from their
    frames in any order and with repetitions, and the memory held for them is bounded (\<open>Fragmentation\<close>).
    Payloads come back from the bytes of the whole chain (\<open>Wire_Processors\<close>), control options and JSON
    messages likewise, and malformed ones are refused (\<open>Control_Tlv\<close>, \<open>Json_Rpc\<close>). TLV8 objects come back in any
    order of their records, and what is read is valid (\<open>Schema_Codec\<close>). Some registered methods have
    schemas that the codec rejects altogether (\<open>Schema_Facts\<close>). Where the generated tables of schemas agree
    with each other, and where they do not, has been computed (\<open>Schema_Agreement\<close>).
  \<^item> Sessions. The table of pending calls refines a life cycle of each request id: claimed, answered, taken,
    each at most once between two resets (\<open>Pending_Calls\<close>). A control session is open only through an
    ACCEPT that answers its own OPEN (\<open>Control_Session\<close>), and the handshake of two cores reaches that state (\<open>Core_Handshake\<close>).
  \<^item> The runtime. What a core does with each payload it receives (\<open>Core_Handshake\<close>); the broker neither loses
    nor invents calls and answers synchronous ones in order (\<open>Broker\<close>); an endpoint sends the router's
    response to each request to the peer it came from, and nothing else (\<open>Endpoint\<close>).
  \<^item> Calls. Request ids are fresh, every call returns, and it leaves nothing behind (\<open>Client_Calls\<close>); a call
    gets the reply of the server's handler, through both stacks (\<open>Rpc_Exchange\<close>); a heartbeat is answered
    (\<open>Heartbeat\<close>); what becomes of calls when the server changes its transport (\<open>Server_Calls\<close>); what typed
    calls carry (\<open>Typed_Calls\<close>), and that their ids and names are those of a server's registry
    (\<open>Method_Traits\<close>, \<open>Sdk_Facades\<close>).
  \<^item> Connections. Two endpoints joined by the framed wire, from a handshake on, in every interleaving of
    requests, streams, heartbeats, polls of part of the bytes, deferred answers, exceptions of handlers,
    taken and abandoned responses and control notices: a response is the other router's answer to the
    request sent under its id, no request is handled or answered twice, and no call is left waiting when
    everything has been read and served (\<open>Connection\<close>, an invariant over the reachable states of the step
    relation in \<open>Peer\<close>). They rest on what one direction of the wire keeps at any moment (\<open>Link\<close>) and on
    where the broker's responses come from (\<open>Broker_Answers\<close>). Control messages other than heartbeats, session messages and events are not among
    these steps.
  \<^item> JSON-RPC over WebSockets. Requests reach the core only in an identified session (\<open>Ws_Adapter\<close>), the
    client's session and the server's messages fit together (\<open>Client_Session\<close>), and a registry read from
    JSON resolves what the file says (\<open>Registry_Json\<close>).
  \<^item> Identities. The padding and the message schedule of SHA-256 are those of the standard (\<open>Endpoint_Id\<close>).

  Interfaces are locales: \<open>codec\<close> (an encoder and its decoder; interpreted for texts, for integers of 16, 32
  and 64 bits, for decimal numbers and for the payloads of the framed wire), \<open>incremental_decoder\<close> (a decoder
  whose results do not depend on the chunks; interpreted for the frame decoder), its extension
  \<open>staged_decoder\<close> (with a second stage that has a state of its own; interpreted for frames, messages and
  payloads) and \<open>waiting\<close> (a world whose rounds pass; interpreted for the client's world).

  \<^bold>\<open>Bounds.\<close> Loops of the code are recursive functions with a termination proof; none has fuel. A wait loop
  goes round once for each round of its world and is still waiting when they are used up, so a theorem that
  a call returns says how many rounds past the deadline are enough: one for each of the up to four waits of
  a call, one for a heartbeat. The numbers 8 (broker tasks for each poll), 32 (depth of a schema object),
  64 (smallest frame size of the handshake), 255 (length of a TLV8 value) and 2^32 - 1 (request ids) are
  the code's own.

  \<^bold>\<open>Not modelled.\<close> Threads: the library has none, and callbacks are taken not to call back into the object
  that runs them. Floating point values other than through the JSON library. JSON values of the kind
  \<^verbatim>\<open>binary\<close>. The TLV codecs of the generated structures, which are declared and defined nowhere, and the
  descriptions, defaults and deprecation marks of the schema facts, which no code reads. Umbrella headers,
  the conformance runner, examples and tests.
\<close>

end
